(* ===== verification/Prelude.thy ===== *)
theory Prelude
  imports Main "HOL-Library.Word" "HOL-Library.Char_ord" "HOL-Library.List_Lexorder"
    "HOL-Library.Product_Lexorder" "HOL-Library.AList"
begin

text \<open>
  Shared vocabulary of the development: Python's exceptions as values, ordered check lists,
  lexical classes (fingerprints, commit identities, digests, tokens), string and dictionary
  helpers, UUIDs and time stamps, and the two generic interfaces that several components
  implement: a fail-closed gate and a transition system with an inductive invariant.

  A Python \<open>str\<close> is a HOL \<open>string\<close>, i.e. a list of characters with code points below 256;
  every lexical class below only admits ASCII. A value of the wrong Python type is either
  ruled out by the HOL type or, where the code tests for it, represented by \<open>None\<close>.
\<close>

named_theorems lexical \<open>facts about the lexical classes of identities\<close>
named_theorems encoded \<open>injectivity of the fixed textual encodings\<close>

section \<open>Exceptions and ordered checks\<close>

datatype py_error =
    DeploymentAuthorityError string
  | DeploymentHandoffError string
  | PolicyError string
  | RepositoryPolicyError string
  | CanaryPolicyError string
  | CanaryExecutionError string
  | RuntimeBindingError string
  | DependencyGraphError string
  | DependencyReviewError string
  | DependencyPolicyError string
  | FailureRecoveryError string
  | ScopeAdmissionDenied string
  | ReviewLifecycleError string
  | ProviderHealthError string
  | ProviderRecoveryError string
  | ProviderAttemptAbsentError string
  | RoleCapabilityError string
  | PyStateError string
  | PyIntegrityError
  | PyKeyError string
  | PyException string
  | PyValueError
  | PyTypeError

type_synonym 'a result = "py_error + 'a"

text \<open>
  Validators and evaluators of the program run a sequence of guards and report the first one
  that fails. A guard is a pair of the condition that must hold and what is reported otherwise.
\<close>

fun first_failure :: "(bool \<times> 'e) list \<Rightarrow> 'e option" where
  "first_failure [] = None"
| "first_failure ((passed, e) # cs) = (if passed then first_failure cs else Some e)"

lemma first_failure_None_iff [simp]:
  "first_failure cs = None \<longleftrightarrow> list_all fst cs"
  by (induction cs rule: first_failure.induct) auto

lemma first_failure_SomeD:
  "first_failure cs = Some e \<Longrightarrow>
     \<exists>as bs. cs = as @ (False, e) # bs \<and> list_all fst as"
proof (induction cs rule: first_failure.induct)
  case 1
  then show ?case by simp
next
  case (2 passed e' cs)
  show ?case
  proof (cases passed)
    case True
    with "2" obtain as bs where "cs = as @ (False, e) # bs" "list_all fst as" by auto
    with True show ?thesis by (intro exI [of _ "(passed, e') # as"] exI [of _ bs]) simp
  next
    case False
    with "2.prems" show ?thesis by (intro exI [of _ "[]"] exI [of _ cs]) simp
  qed
qed

lemma first_failure_append:
  "first_failure (as @ bs) = (case first_failure as of None \<Rightarrow> first_failure bs | Some e \<Rightarrow> Some e)"
  by (induction as rule: first_failure.induct) auto

text \<open>A constructor with a \<open>__post_init__\<close>: the value, or the first failed guard.\<close>

definition construct :: "(bool \<times> py_error) list \<Rightarrow> 'a \<Rightarrow> 'a result" where
  "construct guards v = (case first_failure guards of None \<Rightarrow> Inr v | Some e \<Rightarrow> Inl e)"

lemma construct_Inr_iff [simp]: "construct gs v = Inr w \<longleftrightarrow> list_all fst gs \<and> w = v"
  by (auto simp: construct_def split: option.splits) (metis first_failure_None_iff option.distinct(1))+

lemma construct_ok: "list_all fst gs \<Longrightarrow> construct gs v = Inr v"
  by simp

fun bind_result :: "'a result \<Rightarrow> ('a \<Rightarrow> 'b result) \<Rightarrow> 'b result" where
  "bind_result (Inl e) f = Inl e"
| "bind_result (Inr x) f = f x"

lemma bind_result_Inr_iff: "bind_result m f = Inr y \<longleftrightarrow> (\<exists>x. m = Inr x \<and> f x = Inr y)"
  by (cases m) auto

fun traverse :: "('a \<Rightarrow> 'b result) \<Rightarrow> 'a list \<Rightarrow> 'b list result" where
  "traverse f [] = Inr []"
| "traverse f (x # xs) = bind_result (f x) (\<lambda>y. bind_result (traverse f xs) (\<lambda>ys. Inr (y # ys)))"

lemma traverse_Inr_iff: "traverse f xs = Inr ys \<longleftrightarrow> list_all2 (\<lambda>x y. f x = Inr y) xs ys"
  by (induction xs arbitrary: ys)
    (auto simp: bind_result_Inr_iff list_all2_Cons1)

text \<open>Optional evidence that must be there and satisfy a predicate.\<close>

fun present :: "('a \<Rightarrow> bool) \<Rightarrow> 'a option \<Rightarrow> bool" where
  "present P None = False"
| "present P (Some x) = P x"

lemma present_iff: "present P x \<longleftrightarrow> (\<exists>y. x = Some y \<and> P y)"
  by (cases x) simp_all

lemma find_SomeD: "List.find P xs = Some x \<Longrightarrow> x \<in> set xs \<and> P x"
  by (induction xs) (auto split: if_split_asm)

section \<open>Lexical classes\<close>

definition is_hex :: "char \<Rightarrow> bool" where
  "is_hex c \<longleftrightarrow> c \<in> set ''0123456789abcdef''"

definition is_lower :: "char \<Rightarrow> bool" where
  "is_lower c \<longleftrightarrow> CHR ''a'' \<le> c \<and> c \<le> CHR ''z''"

definition is_upper :: "char \<Rightarrow> bool" where
  "is_upper c \<longleftrightarrow> CHR ''A'' \<le> c \<and> c \<le> CHR ''Z''"

definition is_digit :: "char \<Rightarrow> bool" where
  "is_digit c \<longleftrightarrow> CHR ''0'' \<le> c \<and> c \<le> CHR ''9''"

text \<open>64 lower-case hexadecimal digits.\<close>

definition is_fingerprint :: "string \<Rightarrow> bool" where
  "is_fingerprint s \<longleftrightarrow> length s = 64 \<and> list_all is_hex s"

text \<open>A Git object identity: 40 (SHA-1) or 64 (SHA-256) lower-case hexadecimal digits.\<close>

definition is_commit_sha :: "string \<Rightarrow> bool" where
  "is_commit_sha s \<longleftrightarrow> length s \<in> {40, 64} \<and> list_all is_hex s"

text \<open>The regular expression \<open>[0-9a-f]{40}\<close>, matched in full.\<close>

definition is_sha :: "string \<Rightarrow> bool" where
  "is_sha s \<longleftrightarrow> length s = 40 \<and> list_all is_hex s"

text \<open>The regular expression \<open>sha256:[0-9a-f]{64}\<close>, matched in full.\<close>

definition is_digest :: "string \<Rightarrow> bool" where
  "is_digest s \<longleftrightarrow> take 7 s = ''sha256:'' \<and> is_fingerprint (drop 7 s)"

text \<open>The regular expression \<open>[a-z][a-z0-9._/-]{0,127}\<close>, matched in full.\<close>

definition is_token_char :: "char \<Rightarrow> bool" where
  "is_token_char c \<longleftrightarrow> is_lower c \<or> is_digit c \<or> c \<in> set ''._/-''"

definition is_token :: "string \<Rightarrow> bool" where
  "is_token s \<longleftrightarrow> (case s of [] \<Rightarrow> False
     | c # cs \<Rightarrow> is_lower c \<and> length cs \<le> 127 \<and> list_all is_token_char cs)"

text \<open>The regular expression \<open>[a-z][a-z0-9-]{0,63}\<close>, matched in full.\<close>

definition is_reason :: "string \<Rightarrow> bool" where
  "is_reason s \<longleftrightarrow> (case s of [] \<Rightarrow> False
     | c # cs \<Rightarrow> is_lower c \<and> length cs \<le> 63 \<and>
         list_all (\<lambda>c. is_lower c \<or> is_digit c \<or> c = CHR ''-'') cs)"

lemma is_digest_prefixed [simp, lexical]: "is_digest (''sha256:'' @ s) = is_fingerprint s"
  by (simp add: is_digest_def)

lemma is_digest_length [lexical]: "is_digest s \<Longrightarrow> length s = 71"
  by (auto simp: is_digest_def is_fingerprint_def)

lemma is_fingerprint_replicate [simp]: "is_fingerprint (replicate 64 c) = is_hex c"
  by (simp add: is_fingerprint_def list_all_iff)

lemma is_commit_sha_replicate40 [simp]: "is_commit_sha (replicate 40 c) = is_hex c"
  by (simp add: is_commit_sha_def list_all_iff)

lemma is_sha_replicate [simp]: "is_sha (replicate 40 c) = is_hex c"
  by (simp add: is_sha_def list_all_iff)

lemma is_fingerprint_commit_sha [lexical]: "is_fingerprint s \<Longrightarrow> is_commit_sha s"
  by (simp add: is_fingerprint_def is_commit_sha_def)

section \<open>Strings and dictionaries\<close>

fun py_split :: "char \<Rightarrow> string \<Rightarrow> string list" where
  "py_split d [] = [[]]"
| "py_split d (c # cs) =
     (if c = d then [] # py_split d cs
      else (case py_split d cs of [] \<Rightarrow> [[c]] | p # ps \<Rightarrow> (c # p) # ps))"

definition py_startswith :: "string \<Rightarrow> string \<Rightarrow> bool" where
  "py_startswith s p \<longleftrightarrow> take (length p) s = p"

definition py_endswith :: "string \<Rightarrow> string \<Rightarrow> bool" where
  "py_endswith s p \<longleftrightarrow> length p \<le> length s \<and> drop (length s - length p) s = p"

text \<open>The white space that \<open>str.strip\<close> removes, below 256.\<close>

definition is_py_space :: "char \<Rightarrow> bool" where
  "is_py_space c \<longleftrightarrow> (let n = of_char c :: nat in 9 \<le> n \<and> n \<le> 13 \<or> 28 \<le> n \<and> n \<le> 32 \<or> n = 133 \<or> n = 160)"

definition py_strip :: "string \<Rightarrow> string" where
  "py_strip s = rev (dropWhile is_py_space (rev (dropWhile is_py_space s)))"

fun py_contains :: "string \<Rightarrow> string \<Rightarrow> bool" where
  "py_contains [] p = (p = [])"
| "py_contains (c # cs) p = (py_startswith (c # cs) p \<or> py_contains cs p)"

lemma py_split_nonempty [simp]: "py_split d s \<noteq> []"
  by (induction s) (auto split: list.splits)

text \<open>
  A Python dictionary keeps insertion order and a later assignment to a present key replaces
  its value in place: this is \<open>AList.update\<close> on association lists with distinct keys.
\<close>

definition py_dict :: "('k \<times> 'v) list \<Rightarrow> ('k \<times> 'v) list" where
  "py_dict kvs = fold (\<lambda>(k, v) d. AList.update k v d) kvs []"

lemma update_new_key: "k \<notin> fst ` set d \<Longrightarrow> AList.update k v d = d @ [(k, v)]"
  by (induction d) auto

lemma py_dict_append:
  "distinct (map fst (d @ kvs)) \<Longrightarrow> fold (\<lambda>(k, v) d. AList.update k v d) kvs d = d @ kvs"
proof (induction kvs arbitrary: d)
  case (Cons kv kvs)
  then have "fold (\<lambda>(k, v) d. AList.update k v d) kvs (d @ [kv]) = (d @ [kv]) @ kvs"
    by (intro Cons.IH) simp
  with Cons.prems show ?case by (cases kv) (auto simp: update_new_key)
qed simp

lemma py_dict_distinct: "distinct (map fst kvs) \<Longrightarrow> py_dict kvs = kvs"
  unfolding py_dict_def using py_dict_append [of "[]" kvs] by simp

lemma map_of_py_dict: "map_of (py_dict kvs) = map_of (rev kvs)"
proof (induction kvs rule: rev_induct)
  case (snoc kv kvs)
  then show ?case by (cases kv) (simp add: py_dict_def update_conv')
qed (simp add: py_dict_def)

lemma py_dict_keys: "distinct (map fst (py_dict kvs)) \<and> fst ` set (py_dict kvs) = fst ` set kvs"
proof (induction kvs rule: rev_induct)
  case (snoc kv kvs)
  then show ?case by (cases kv) (simp add: py_dict_def distinct_update dom_update)
qed (simp add: py_dict_def)

text \<open>A dictionary comprehension has as many entries as the list exactly when no key repeats.\<close>

lemma length_py_dict: "length (py_dict kvs) = length kvs \<longleftrightarrow> distinct (map fst kvs)"
proof -
  have "length (py_dict kvs) = card (fst ` set kvs)"
    using py_dict_keys [of kvs] by (metis distinct_card length_map set_map)
  then show ?thesis by (metis card_distinct distinct_card length_map set_map)
qed

lemma update_entries:
  "distinct (map fst al) \<Longrightarrow> (x, y) \<in> set (AList.update k v al) \<Longrightarrow> (x, y) = (k, v) \<or> (x, y) \<in> set al"
  by (induction al) (auto split: if_split_asm)

text \<open>The values of a dictionary, summed over any enumeration of its keys.\<close>

lemma sum_values_by_keys:
  fixes kvs :: "('k \<times> 'v :: comm_monoid_add) list"
  assumes "distinct (map fst kvs)" "distinct keys" "set keys = fst ` set kvs"
  shows "sum_list (map snd kvs) = sum_list (map (\<lambda>k. the (map_of kvs k)) keys)"
proof -
  have "sum_list (map snd kvs) = (\<Sum>x\<in>set kvs. snd x)"
    using assms(1) by (simp add: sum_list_distinct_conv_sum_set distinct_map)
  also have "\<dots> = (\<Sum>x\<in>set kvs. the (map_of kvs (fst x)))"
    using assms(1) by (intro sum.cong) (auto simp: map_of_is_SomeI)
  also have "\<dots> = (\<Sum>k\<in>fst ` set kvs. the (map_of kvs k))"
    using assms(1) by (simp add: sum.reindex distinct_map)
  also have "\<dots> = sum_list (map (\<lambda>k. the (map_of kvs k)) keys)"
    using assms(2,3) by (simp add: sum_list_distinct_conv_sum_set)
  finally show ?thesis .
qed

definition has_duplicates :: "'a list \<Rightarrow> bool" where
  "has_duplicates xs \<longleftrightarrow> length (remdups xs) \<noteq> length xs"

lemma has_duplicates_iff [simp]: "has_duplicates xs \<longleftrightarrow> \<not> distinct xs"
  by (simp add: has_duplicates_def length_remdups_card_conv card_distinct distinct_card)
     (metis card_distinct distinct_card)

section \<open>Numerals as text\<close>

definition digit_char :: "nat \<Rightarrow> char" where
  "digit_char d = ''0123456789abcdef'' ! d"

text \<open>The \<open>w\<close> least significant digits of \<open>n\<close> in base \<open>b\<close>, most significant first.\<close>

fun digits_w :: "nat \<Rightarrow> nat \<Rightarrow> nat \<Rightarrow> string" where
  "digits_w b 0 n = []"
| "digits_w b (Suc w) n = digits_w b w (n div b) @ [digit_char (n mod b)]"

fun nat_str :: "nat \<Rightarrow> string" where
  "nat_str n = (if n < 10 then [digit_char n] else nat_str (n div 10) @ [digit_char (n mod 10)])"

declare nat_str.simps [simp del]

definition int_str :: "int \<Rightarrow> string" where
  "int_str i = (if i < 0 then CHR ''-'' # nat_str (nat (- i)) else nat_str (nat i))"

lemma length_digits_w [simp]: "length (digits_w b w n) = w"
  by (induction w arbitrary: n) auto

lemma lt16_cases:
  assumes "d < (16::nat)"
  shows "d \<in> {0, 1, 2, 3, 4, 5, 6, 7, 8, 9, 10, 11, 12, 13, 14, 15}"
  using assms by (simp add: numeral_eq_Suc) arith

lemma digit_char_hex: "d < 16 \<Longrightarrow> is_hex (digit_char d)"
  by (drule lt16_cases) (auto simp: digit_char_def is_hex_def)

lemma digit_char_inj: "d < 16 \<Longrightarrow> e < 16 \<Longrightarrow> digit_char d = digit_char e \<Longrightarrow> d = e"
  by (drule lt16_cases, drule lt16_cases) (auto simp: digit_char_def)

lemma digit_char_digit: "d < 10 \<Longrightarrow> is_digit (digit_char d)"
proof -
  assume "d < 10"
  then have "d \<in> {0, 1, 2, 3, 4, 5, 6, 7, 8, 9}" by (simp add: numeral_eq_Suc) arith
  then show ?thesis by (auto simp: digit_char_def is_digit_def less_eq_char_def)
qed

lemma digits_w_hex: "1 < b \<Longrightarrow> b \<le> 16 \<Longrightarrow> list_all is_hex (digits_w b w n)"
proof (induction w arbitrary: n)
  case (Suc w)
  from Suc.prems have "0 < b" by simp
  with Suc.prems(2) have "n mod b < 16" by (meson less_le_trans mod_less_divisor)
  with Suc show ?case by (simp add: digit_char_hex)
qed simp

lemma digits_w_inj [encoded]:
  assumes "1 < b" "b \<le> 16" "n < b ^ w" "m < b ^ w" "digits_w b w n = digits_w b w m"
  shows "n = m"
  using assms(3-5)
proof (induction w arbitrary: n m)
  case (Suc w)
  from assms(1) have b: "0 < b" by simp
  have "n mod b < 16" "m mod b < 16"
    using b assms(2) by (meson less_le_trans mod_less_divisor)+
  moreover have "n div b < b ^ w" "m div b < b ^ w"
    using Suc.prems b by (simp_all add: less_mult_imp_div_less mult.commute)
  ultimately have "n div b = m div b" "n mod b = m mod b"
    using Suc.prems(3) Suc.IH [of "n div b" "m div b"] by (auto intro: digit_char_inj)
  then show ?case by (metis div_mult_mod_eq)
qed simp

section \<open>UUIDs and time stamps\<close>

text \<open>A \<open>uuid.UUID\<close> is a 128-bit number; \<open>str\<close> prints it in groups of 8, 4, 4, 4 and 12 digits.\<close>

type_synonym uuid = "128 word"

definition uuid_str :: "uuid \<Rightarrow> string" where
  "uuid_str u = (let h = digits_w 16 32 (unat u) in
     take 8 h @ ''-'' @ take 4 (drop 8 h) @ ''-'' @ take 4 (drop 12 h) @ ''-''
       @ take 4 (drop 16 h) @ ''-'' @ drop 20 h)"

lemma take_drop_glue: "take n (drop m xs) @ drop (m + n) xs = drop m xs"
  by (metis add.commute append_take_drop_id drop_drop)

lemma uuid_str_inj [encoded]:
  assumes "uuid_str u = uuid_str v"
  shows "u = v"
proof -
  let ?a = "digits_w 16 32 (unat u)" and ?b = "digits_w 16 32 (unat v)"
  have "take 8 ?a = take 8 ?b \<and> take 4 (drop 8 ?a) = take 4 (drop 8 ?b)
      \<and> take 4 (drop 12 ?a) = take 4 (drop 12 ?b) \<and> take 4 (drop 16 ?a) = take 4 (drop 16 ?b)
      \<and> drop 20 ?a = drop 20 ?b"
    using assms by (simp add: uuid_str_def Let_def)
  moreover have "x = take 8 x @ take 4 (drop 8 x) @ take 4 (drop 12 x) @ take 4 (drop 16 x) @ drop 20 x"
    for x :: string
    using take_drop_glue [of 4 8 x] take_drop_glue [of 4 12 x] take_drop_glue [of 4 16 x] by simp
  ultimately have "?a = ?b" by metis
  moreover have "unat u < 16 ^ 32" "unat v < 16 ^ 32"
    using unsigned_less [of u, where ?'a = nat] unsigned_less [of v, where ?'a = nat] by simp_all
  ultimately have "unat u = unat v"
    using digits_w_inj [of 16 "unat u" 32 "unat v"] by simp
  then show ?thesis by (simp add: word_unat_eq_iff)
qed

datatype timestamp = Timestamp (ts_year: nat) (ts_month: nat) (ts_day: nat)
  (ts_hour: nat) (ts_minute: nat) (ts_second: nat) (ts_micro: nat)

definition ts_key :: "timestamp \<Rightarrow> nat \<times> nat \<times> nat \<times> nat \<times> nat \<times> nat \<times> nat" where
  "ts_key t = (ts_year t, ts_month t, ts_day t, ts_hour t, ts_minute t, ts_second t, ts_micro t)"

lemma ts_key_inj: "ts_key s = ts_key t \<Longrightarrow> s = t"
  by (cases s; cases t) (simp add: ts_key_def)

text \<open>Time stamps of one zone are ordered field by field, as \<open>datetime\<close> values are.\<close>

instantiation timestamp :: linorder
begin

definition less_eq_timestamp :: "timestamp \<Rightarrow> timestamp \<Rightarrow> bool" where
  "s \<le> t \<longleftrightarrow> ts_key s \<le> ts_key t"

definition less_timestamp :: "timestamp \<Rightarrow> timestamp \<Rightarrow> bool" where
  "s < t \<longleftrightarrow> ts_key s < ts_key t"

instance
proof
  fix s t u :: timestamp
  show "(s < t) = (s \<le> t \<and> \<not> t \<le> s)"
    by (simp add: less_eq_timestamp_def less_timestamp_def less_le_not_le)
  show "s \<le> s" by (simp add: less_eq_timestamp_def)
  show "s \<le> t \<Longrightarrow> t \<le> u \<Longrightarrow> s \<le> u" by (simp add: less_eq_timestamp_def)
  show "s \<le> t \<Longrightarrow> t \<le> s \<Longrightarrow> s = t" by (simp add: less_eq_timestamp_def ts_key_inj)
  show "s \<le> t \<or> t \<le> s" by (simp add: less_eq_timestamp_def linear)
qed

end

text \<open>
  A \<open>datetime\<close> carries a zone. The code accepts only the singleton \<open>timezone.utc\<close>; a naive
  value or one of another zone (also one with offset zero) is refused before any comparison.
\<close>

datatype tzinfo = NaiveTime | UtcZone | FixedOffset int

record datetime =
  stamp :: timestamp
  tzinfo :: tzinfo

definition is_utc :: "datetime \<Rightarrow> bool" where
  "is_utc d \<longleftrightarrow> tzinfo d = UtcZone"

text \<open>The ranges that the \<open>datetime\<close> constructor enforces.\<close>

definition valid_stamp :: "timestamp \<Rightarrow> bool" where
  "valid_stamp t \<longleftrightarrow> 1 \<le> ts_year t \<and> ts_year t \<le> 9999 \<and> 1 \<le> ts_month t \<and> ts_month t \<le> 12
     \<and> 1 \<le> ts_day t \<and> ts_day t \<le> 31 \<and> ts_hour t < 24 \<and> ts_minute t < 60 \<and> ts_second t < 60
     \<and> ts_micro t < 1000000"

fun iso_zone :: "tzinfo \<Rightarrow> string" where
  "iso_zone NaiveTime = []"
| "iso_zone UtcZone = ''+00:00''"
| "iso_zone (FixedOffset m) = (if m < 0 then ''-'' else ''+'')
     @ digits_w 10 2 (nat \<bar>m\<bar> div 60) @ '':'' @ digits_w 10 2 (nat \<bar>m\<bar> mod 60)"

definition iso_stamp :: "timestamp \<Rightarrow> string" where
  "iso_stamp t = digits_w 10 4 (ts_year t) @ ''-'' @ digits_w 10 2 (ts_month t) @ ''-''
     @ digits_w 10 2 (ts_day t) @ ''T'' @ digits_w 10 2 (ts_hour t) @ '':''
     @ digits_w 10 2 (ts_minute t) @ '':'' @ digits_w 10 2 (ts_second t)
     @ (if ts_micro t = 0 then [] else ''.'' @ digits_w 10 6 (ts_micro t))"

definition isoformat :: "datetime \<Rightarrow> string" where
  "isoformat d = iso_stamp (stamp d) @ iso_zone (tzinfo d)"

lemma iso_stamp_inj:
  assumes v: "valid_stamp s" "valid_stamp t"
    and eq: "iso_stamp s @ ''+00:00'' = iso_stamp t @ ''+00:00''"
  shows "s = t"
proof -
  have fixed: "a = b" if "digits_w 10 w a = digits_w 10 w b" "a < 10 ^ w" "b < 10 ^ w" for a b w
    using digits_w_inj [of 10 a w b] that by simp
  have micro: "ts_micro s = ts_micro t"
  proof (cases "ts_micro s = 0 \<longleftrightarrow> ts_micro t = 0")
    case True
    with eq v show ?thesis
      by (cases "ts_micro s = 0") (auto simp: iso_stamp_def valid_stamp_def intro: fixed [of 6])
  next
    case False
    then have "length (iso_stamp s) \<noteq> length (iso_stamp t)" by (auto simp: iso_stamp_def)
    with eq show ?thesis by (metis append_same_eq)
  qed
  have e: "digits_w 10 4 (ts_year s) = digits_w 10 4 (ts_year t)"
    "digits_w 10 2 (ts_month s) = digits_w 10 2 (ts_month t)"
    "digits_w 10 2 (ts_day s) = digits_w 10 2 (ts_day t)"
    "digits_w 10 2 (ts_hour s) = digits_w 10 2 (ts_hour t)"
    "digits_w 10 2 (ts_minute s) = digits_w 10 2 (ts_minute t)"
    "digits_w 10 2 (ts_second s) = digits_w 10 2 (ts_second t)"
    using eq micro by (auto simp: iso_stamp_def)
  have "ts_key s = ts_key t"
    using v micro fixed [OF e(1)] fixed [OF e(2)] fixed [OF e(3)] fixed [OF e(4)] fixed [OF e(5)]
      fixed [OF e(6)]
    by (simp add: ts_key_def valid_stamp_def)
  then show ?thesis by (rule ts_key_inj)
qed

lemma isoformat_inj [encoded]:
  assumes "isoformat d = isoformat e" "is_utc d" "is_utc e"
    "valid_stamp (stamp d)" "valid_stamp (stamp e)"
  shows "d = e"
  using assms iso_stamp_inj [of "stamp d" "stamp e"]
  by (cases d; cases e) (simp add: isoformat_def is_utc_def)

text \<open>Dates of one month, for the examples.\<close>

definition utc :: "nat \<Rightarrow> nat \<Rightarrow> datetime" where
  "utc day hour = \<lparr>stamp = Timestamp 2026 1 day hour 0 0 0, tzinfo = UtcZone\<rparr>"

lemma utc_simps [simp]: "is_utc (utc d h)" "stamp (utc d h) = Timestamp 2026 1 d h 0 0 0"
  by (simp_all add: utc_def is_utc_def)

lemma timestamp_order [simp]:
  "Timestamp y m d h mi s u \<le> Timestamp y' m' d' h' mi' s' u' \<longleftrightarrow> (y, m, d, h, mi, s, u) \<le> (y', m', d', h', mi', s', u')"
  "Timestamp y m d h mi s u < Timestamp y' m' d' h' mi' s' u' \<longleftrightarrow> (y, m, d, h, mi, s, u) < (y', m', d', h', mi', s', u')"
  by (simp_all add: less_eq_timestamp_def less_timestamp_def ts_key_def)

section \<open>Two generic interfaces\<close>

text \<open>
  A fail-closed gate decides on evidence by an ordered list of checks: it authorizes exactly
  when every check passes, and a refusal reports a check that failed after all earlier ones
  passed.
\<close>

locale fail_closed_gate =
  fixes checks :: "'ev \<Rightarrow> (bool \<times> string) list"
    and authorized :: "'d \<Rightarrow> bool"
    and reason :: "'d \<Rightarrow> string"
    and decide :: "'ev \<Rightarrow> 'd"
  assumes open_iff: "authorized (decide ev) \<longleftrightarrow> first_failure (checks ev) = None"
    and refusal_reason: "first_failure (checks ev) = Some r \<Longrightarrow> reason (decide ev) = r"
begin

lemma authorized_iff_all: "authorized (decide ev) \<longleftrightarrow> list_all fst (checks ev)"
  by (simp add: open_iff)

lemma failed_check_denies: "(False, r) \<in> set (checks ev) \<Longrightarrow> \<not> authorized (decide ev)"
  by (force simp: authorized_iff_all list_all_iff)

lemma refusal_is_first_failure:
  assumes "\<not> authorized (decide ev)"
  shows "\<exists>as bs. checks ev = as @ (False, reason (decide ev)) # bs \<and> list_all fst as"
proof -
  from assms obtain r where "first_failure (checks ev) = Some r"
    by (auto simp: open_iff simp del: first_failure_None_iff)
  with first_failure_SomeD [OF this] refusal_reason [OF this] show ?thesis by metis
qed

lemma refusal_reason_known:
  "\<not> authorized (decide ev) \<Longrightarrow> reason (decide ev) \<in> snd ` set (checks ev)"
  using refusal_is_first_failure by force

end

text \<open>A transition system whose invariant holds initially and survives every labelled step.\<close>

locale invariant_system =
  fixes init :: "'s \<Rightarrow> bool"
    and step :: "'s \<Rightarrow> 'l \<Rightarrow> 's \<Rightarrow> bool"
    and inv :: "'s \<Rightarrow> bool"
  assumes inv_init: "init s \<Longrightarrow> inv s"
    and inv_step: "inv s \<Longrightarrow> step s l t \<Longrightarrow> inv t"
begin

inductive reaches :: "'s \<Rightarrow> 'l list \<Rightarrow> 's \<Rightarrow> bool" where
  reaches_nil: "reaches s [] s"
| reaches_snoc: "reaches s ls t \<Longrightarrow> step t l u \<Longrightarrow> reaches s (ls @ [l]) u"

lemma reaches_inv: "reaches s ls t \<Longrightarrow> inv s \<Longrightarrow> inv t"
  by (induction rule: reaches.induct) (auto intro: inv_step)

lemma reachable_inv: "reaches s ls t \<Longrightarrow> init s \<Longrightarrow> inv t"
  by (auto intro: reaches_inv inv_init)

text \<open>A relation between consecutive states that is reflexive and transitive spans a run.\<close>

lemma reaches_monotone:
  assumes run: "reaches s ls t" and "inv s"
    and refl: "\<And>x. r x x" and trans: "\<And>x y z. r x y \<Longrightarrow> r y z \<Longrightarrow> r x z"
    and mono: "\<And>x l y. inv x \<Longrightarrow> step x l y \<Longrightarrow> r x y"
  shows "r s t"
  using run \<open>inv s\<close>
proof (induction rule: reaches.induct)
  case (reaches_nil s)
  show ?case by (rule refl)
next
  case (reaches_snoc s ls t l u)
  have "r t u" using reaches_snoc by (blast intro: mono reaches_inv)
  with reaches_snoc show ?case by (blast intro: trans)
qed

end

end
