(* ===== verification/Sha256.thy ===== *)
theory Sha256
  imports Prelude
begin

unbundle bit_operations_syntax

text \<open>
  SHA-256 (FIPS 180-4), the hash behind every digest of the program
  (\<open>hashlib.sha256(...).hexdigest()\<close>), on byte strings. The components only rely on the shape
  of the result, 64 lower-case hexadecimal digits, and on equal inputs giving equal results;
  where a claim needs distinct inputs to have distinct digests, it says so for those inputs.
\<close>

type_synonym u32 = "32 word"

definition rotr32 :: "nat \<Rightarrow> u32 \<Rightarrow> u32" where
  "rotr32 n x = (drop_bit n x) OR (push_bit (32 - n) x)"

text \<open>
  The round constants are the first 32 fractional bits of the cube roots of the first 64 primes.
  The table lists every prime with its cube root scaled by \<open>2 ^ 32\<close> and rounded down, which
  the lemma below checks; conversion to a word drops the integral part.
\<close>

definition sha_roots :: "(int \<times> int) list" where
  "sha_roots =
    [(2, 0x1428a2f98), (3, 0x171374491), (5, 0x1b5c0fbcf), (7, 0x1e9b5dba5),
     (11, 0x23956c25b), (13, 0x259f111f1), (17, 0x2923f82a4), (19, 0x2ab1c5ed5),
     (23, 0x2d807aa98), (29, 0x312835b01), (31, 0x3243185be), (37, 0x3550c7dc3),
     (41, 0x372be5d74), (43, 0x380deb1fe), (47, 0x39bdc06a7), (53, 0x3c19bf174),
     (59, 0x3e49b69c1), (61, 0x3efbe4786), (67, 0x40fc19dc6), (71, 0x4240ca1cc),
     (73, 0x42de92c6f), (79, 0x44a7484aa), (83, 0x45cb0a9dc), (89, 0x476f988da),
     (97, 0x4983e5152), (101, 0x4a831c66d), (103, 0x4b00327c8), (107, 0x4bf597fc7),
     (109, 0x4c6e00bf3), (113, 0x4d5a79147), (127, 0x506ca6351), (131, 0x514292967),
     (137, 0x527b70a85), (139, 0x52e1b2138), (149, 0x54d2c6dfc), (151, 0x553380d13),
     (157, 0x5650a7354), (163, 0x5766a0abb), (167, 0x581c2c92e), (173, 0x592722c85),
     (179, 0x5a2bfe8a1), (181, 0x5a81a664b), (191, 0x5c24b8b70), (193, 0x5c76c51a3),
     (197, 0x5d192e819), (199, 0x5d6990624), (211, 0x5f40e3585), (223, 0x6106aa070),
     (227, 0x619a4c116), (229, 0x61e376c08), (233, 0x62748774c), (239, 0x634b0bcb5),
     (241, 0x6391c0cb3), (251, 0x64ed8aa4a), (257, 0x65b9cca4f), (263, 0x6682e6ff3),
     (269, 0x6748f82ee), (271, 0x678a5636f), (277, 0x684c87814), (281, 0x68cc70208),
     (283, 0x690befffa), (293, 0x6a4506ceb), (307, 0x6bef9a3f7), (311, 0x6c67178f2)]"

definition sha_k :: "u32 list" where
  "sha_k = map (\<lambda>(p, k). word_of_int k) sha_roots"

lemma sha_roots_correct: "list_all (\<lambda>(p, k). k ^ 3 \<le> p * 2 ^ 96 \<and> p * 2 ^ 96 < (k + 1) ^ 3) sha_roots"
  by code_simp

type_synonym sha_state = "u32 \<times> u32 \<times> u32 \<times> u32 \<times> u32 \<times> u32 \<times> u32 \<times> u32"

definition sha_h0 :: sha_state where
  "sha_h0 = (0x6a09e667, 0xbb67ae85, 0x3c6ef372, 0xa54ff53a, 0x510e527f, 0x9b05688c, 0x1f83d9ab, 0x5be0cd19)"

definition sigma0 :: "u32 \<Rightarrow> u32" where
  "sigma0 x = rotr32 7 x XOR rotr32 18 x XOR drop_bit 3 x"

definition sigma1 :: "u32 \<Rightarrow> u32" where
  "sigma1 x = rotr32 17 x XOR rotr32 19 x XOR drop_bit 10 x"

text \<open>
  The message schedule, kept newest word first: with \<open>ws = w[i-1], \<dots>, w[0]\<close> the next word is
  \<open>w[i-16] + \<sigma>0 w[i-15] + w[i-7] + \<sigma>1 w[i-2]\<close>.
\<close>

fun schedule :: "nat \<Rightarrow> u32 list \<Rightarrow> u32 list" where
  "schedule 0 ws = ws"
| "schedule (Suc n) ws =
     schedule n ((ws ! 15 + sigma0 (ws ! 14) + ws ! 6 + sigma1 (ws ! 1)) # ws)"

fun sha_round :: "sha_state \<Rightarrow> u32 \<times> u32 \<Rightarrow> sha_state" where
  "sha_round (a, b, c, d, e, f, g, h) (k, w) =
     (let s1 = rotr32 6 e XOR rotr32 11 e XOR rotr32 25 e;
          ch = (e AND f) XOR (NOT e AND g);
          t1 = h + s1 + ch + k + w;
          s0 = rotr32 2 a XOR rotr32 13 a XOR rotr32 22 a;
          mj = (a AND b) XOR (a AND c) XOR (b AND c);
          t2 = s0 + mj
      in (t1 + t2, a, b, c, d + t1, e, f, g))"

fun add_state :: "sha_state \<Rightarrow> sha_state \<Rightarrow> sha_state" where
  "add_state (a, b, c, d, e, f, g, h) (a', b', c', d', e', f', g', h') =
     (a + a', b + b', c + c', d + d', e + e', f + f', g + g', h + h')"

definition sha_block :: "u32 list \<Rightarrow> sha_state \<Rightarrow> sha_state" where
  "sha_block ws st =
     add_state st (foldl sha_round st (zip sha_k (rev (schedule 48 (rev ws)))))"

definition byte_of :: "char \<Rightarrow> int" where
  "byte_of c = of_char c"

text \<open>Padding: the byte 128, zero bytes, and the bit length as a 64-bit big-endian number.\<close>

definition length_bytes :: "int \<Rightarrow> int list" where
  "length_bytes bits = [bits div 2 ^ 56 mod 256, bits div 2 ^ 48 mod 256, bits div 2 ^ 40 mod 256,
     bits div 2 ^ 32 mod 256, bits div 2 ^ 24 mod 256, bits div 2 ^ 16 mod 256,
     bits div 2 ^ 8 mod 256, bits mod 256]"

definition sha_pad :: "int list \<Rightarrow> int list" where
  "sha_pad bs = (let l = length bs; z = (119 - l mod 64) mod 64
     in bs @ [128] @ replicate z 0 @ length_bytes (8 * int l))"

fun words_of :: "int list \<Rightarrow> u32 list" where
  "words_of (a # b # c # d # bs) =
     word_of_int (((a * 256 + b) * 256 + c) * 256 + d) # words_of bs"
| "words_of _ = []"

fun blocks_of :: "u32 list \<Rightarrow> u32 list list" where
  "blocks_of ws = (if length ws < 16 then [] else take 16 ws # blocks_of (drop 16 ws))"

declare blocks_of.simps [simp del]

fun state_words :: "sha_state \<Rightarrow> u32 list" where
  "state_words (a, b, c, d, e, f, g, h) = [a, b, c, d, e, f, g, h]"

definition sha256_hex :: "string \<Rightarrow> string" where
  "sha256_hex s = concat (map (\<lambda>w. digits_w 16 8 (unat w))
     (state_words (fold sha_block (blocks_of (words_of (sha_pad (map byte_of s)))) sha_h0)))"

lemma length_state_words: "length (state_words st) = 8"
  by (induction st rule: state_words.induct) simp

lemma is_hex_concat: "(\<And>x. x \<in> set xs \<Longrightarrow> list_all is_hex (f x)) \<Longrightarrow> list_all is_hex (concat (map f xs))"
  by (induction xs) auto

lemma length_concat_uniform: "(\<And>x. x \<in> set xs \<Longrightarrow> length (f x) = n) \<Longrightarrow> length (concat (map f xs)) = n * length xs"
  by (induction xs) auto

lemma sha256_hex_fingerprint [simp, lexical]: "is_fingerprint (sha256_hex s)"
  unfolding is_fingerprint_def sha256_hex_def
  by (simp add: length_concat_uniform [where n = 8] length_state_words is_hex_concat digits_w_hex)

text \<open>Padding fills whole blocks of 64 bytes.\<close>

lemma length_sha_pad: "64 dvd length (sha_pad bs)"
proof -
  obtain q r where l: "length bs = 64 * q + r" and r: "r < 64"
    by (metis mod_less_divisor mult_div_mod_eq zero_less_numeral)
  have "(119 - r) mod 64 = (if r \<le> 55 then 55 - r else 119 - r)"
    using r by (auto simp: mod_if)
  with l r have "length (sha_pad bs) = 64 * (if r \<le> 55 then q + 1 else q + 2)"
    by (simp add: sha_pad_def length_bytes_def Let_def)
  then show ?thesis by simp
qed

section \<open>Joined identities\<close>

text \<open>
  \<open>hashlib.sha256("\x1f".join(parts).encode("ascii")).hexdigest()\<close>, which raises a
  \<open>ValueError\<close> on a character that is not ASCII.
\<close>

definition unit_separator :: string where
  "unit_separator = [CHR 0x1F]"

fun join_units :: "string list \<Rightarrow> string" where
  "join_units [] = []"
| "join_units [x] = x"
| "join_units (x # y # ys) = x @ unit_separator @ join_units (y # ys)"

definition ascii_digest :: "string \<Rightarrow> string result" where
  "ascii_digest text = (if list_ex (\<lambda>x. 128 \<le> (of_char x :: nat)) text then Inl PyValueError else Inr (sha256_hex text))"

text \<open>
  \<open>hashlib.sha256(text.encode("utf-8")).hexdigest()\<close>: characters from 128 take two bytes.
\<close>

definition utf8_char :: "char \<Rightarrow> string" where
  "utf8_char c = (let n = (of_char c :: nat) in if n < 128 then [c] else [char_of (192 + n div 64), char_of (128 + n mod 64)])"

definition utf8 :: "string \<Rightarrow> string" where
  "utf8 text = concat (map utf8_char text)"

definition utf8_digest :: "string \<Rightarrow> string" where
  "utf8_digest text = sha256_hex (utf8 text)"

lemma utf8_digest_fingerprint [simp, lexical]: "is_fingerprint (utf8_digest text)"
  by (simp add: utf8_digest_def)

end
