(* ===== verification/Sha256_Vector.thy ===== *)
theory Sha256_Vector
  imports Sha256
begin

text \<open>
  Validation of the hash model: the definition of \<open>Sha256\<close>, evaluated in the kernel on the
  one-block message of the standard's example, gives the published digest.
\<close>

text \<open>A test vector of the standard, evaluated on the definition: the digest of \<open>abc\<close>.\<close>

lemma words_abc: "words_of (sha_pad (map byte_of ''abc'')) = [1633837952, 0, 0, 0, 0, 0, 0, 0, 0, 0, 0, 0, 0, 0, 0, 24]"
  by (simp add: byte_of_def of_char_def length_bytes_def sha_pad_def Let_def) code_simp

lemma digits_w_numeral:
  "digits_w b (numeral k) n = digits_w b (pred_numeral k) (n div b) @ [digit_char (n mod b)]"
  by (simp add: numeral_eq_Suc)

lemma block_abc:
  "sha_block [1633837952, 0, 0, 0, 0, 0, 0, 0, 0, 0, 0, 0, 0, 0, 0, 24] sha_h0
     = (0xba7816bf, 0x8f01cfea, 0x414140de, 0x5dae2223, 0xb00361a3, 0x96177a9c, 0xb410ff61, 0xf20015ad)"
  by code_simp

lemma sha256_hex_abc:
  "sha256_hex ''abc'' = ''ba7816bf8f01cfea414140de5dae2223b00361a396177a9cb410ff61f20015ad''"
  unfolding sha256_hex_def words_abc
  by (simp add: blocks_of.simps block_abc digits_w_numeral digit_char_def)

end
