(* ===== verification/Json.thy ===== *)
theory Json
  imports Sha256
begin

text \<open>
  Canonical JSON text, \<open>json.dumps(v, sort_keys=True, separators=(",", ":"), ensure_ascii=True)\<close>,
  and the digests the program takes of it. The text determines the value up to the order of
  object keys, so a digest commits to every field of the record it was computed from unless
  two concrete canonical texts collide under SHA-256.
\<close>

datatype json = JNull | JBool bool | JInt int | JStr string | JList "json list"
  | JObj "(string \<times> json) list"

section \<open>Rendering\<close>

definition escape_char :: "char \<Rightarrow> string" where
  "escape_char c =
     (if c = CHR 0x22 then [CHR 0x5C, CHR 0x22]
      else if c = CHR 0x5C then [CHR 0x5C, CHR 0x5C]
      else if c = CHR 0x0A then [CHR 0x5C, CHR ''n'']
      else if c = CHR 0x0D then [CHR 0x5C, CHR ''r'']
      else if c = CHR 0x09 then [CHR 0x5C, CHR ''t'']
      else if c = CHR 0x0C then [CHR 0x5C, CHR ''f'']
      else if c = CHR 0x08 then [CHR 0x5C, CHR ''b'']
      else if 32 \<le> (of_char c :: nat) \<and> (of_char c :: nat) \<le> 126 then [c]
      else [CHR 0x5C, CHR ''u''] @ digits_w 16 4 (of_char c))"

definition json_string :: "string \<Rightarrow> string" where
  "json_string s = CHR 0x22 # concat (map escape_char s) @ [CHR 0x22]"

fun commas :: "string list \<Rightarrow> string" where
  "commas [] = []"
| "commas [x] = x"
| "commas (x # y # ys) = x @ '','' @ commas (y # ys)"

fun render :: "json \<Rightarrow> string" where
  "render JNull = ''null''"
| "render (JBool b) = (if b then ''true'' else ''false'')"
| "render (JInt i) = int_str i"
| "render (JStr s) = json_string s"
| "render (JList xs) = ''['' @ commas (map render xs) @ '']''"
| "render (JObj kvs) =
     ''{'' @ commas (map (\<lambda>(k, v). json_string k @ '':'' @ render v) kvs) @ ''}''"

text \<open>\<open>sort_keys=True\<close>, at every level of nesting.\<close>

fun canon :: "json \<Rightarrow> json" where
  "canon (JList xs) = JList (map canon xs)"
| "canon (JObj kvs) = JObj (sort_key fst (map (\<lambda>(k, v). (k, canon v)) kvs))"
| "canon v = v"

definition json_dumps :: "json \<Rightarrow> string" where
  "json_dumps v = render (canon v)"

text \<open>The two digest forms of the program: bare, and with the algorithm's prefix.\<close>

definition hex_digest :: "json \<Rightarrow> string" where
  "hex_digest v = sha256_hex (json_dumps v)"

definition digest_value :: "json \<Rightarrow> string" where
  "digest_value v = ''sha256:'' @ hex_digest v"

lemma hex_digest_fingerprint [simp, lexical]: "is_fingerprint (hex_digest v)"
  by (simp add: hex_digest_def)

lemma digest_value_digest [simp, lexical]: "is_digest (digest_value v)"
  unfolding digest_value_def is_digest_prefixed by simp

section \<open>The text determines the value\<close>

text \<open>What may follow a rendered value: nothing, or a character that cannot extend a number.\<close>

definition ends_number :: "string \<Rightarrow> bool" where
  "ends_number r \<longleftrightarrow> r = [] \<or> \<not> is_digit (hd r)"

definition prefix_free_at :: "('a \<Rightarrow> string) \<Rightarrow> 'a \<Rightarrow> bool" where
  "prefix_free_at f x \<longleftrightarrow> (\<forall>y r s. ends_number r \<longrightarrow> ends_number s \<longrightarrow> f x @ r = f y @ s \<longrightarrow> x = y \<and> r = s)"

lemma prefix_freeD:
  "prefix_free_at f x \<Longrightarrow> ends_number r \<Longrightarrow> ends_number s \<Longrightarrow> f x @ r = f y @ s \<Longrightarrow> x = y \<and> r = s"
  by (simp add: prefix_free_at_def)

lemma escape_char_prefix_free:
  assumes "escape_char c @ x = escape_char d @ y"
  shows "c = d \<and> x = y"
proof -
  have inj: "c = d" if "digits_w 16 4 (of_char c) = digits_w 16 4 (of_char d)" for c d :: char
  proof -
    have "(of_char a :: nat) < 16 ^ 4" for a :: char
      by (rule less_trans [OF nat_of_char_less_256]) simp
    with digits_w_inj [of 16 "of_char c" 4 "of_char d"] that show ?thesis by simp
  qed
  have bs: "(of_char CHR 0x5C :: nat) = 92" by (simp add: of_char_def)
  show ?thesis
    using assms unfolding escape_char_def
    by (auto split: if_splits dest: inj)
qed

lemma escape_char_shape: "\<exists>h t. escape_char c = h # t \<and> h \<noteq> CHR 0x22"
  by (auto simp: escape_char_def)

lemma string_body_prefix_free:
  "concat (map escape_char s) @ CHR 0x22 # x = concat (map escape_char t) @ CHR 0x22 # y
     \<Longrightarrow> s = t \<and> x = y"
proof (induction s arbitrary: t)
  case Nil
  show ?case
  proof (cases t)
    case Nil
    with Nil.prems show ?thesis by simp
  next
    case (Cons d t')
    with Nil.prems escape_char_shape [of d] show ?thesis by auto
  qed
next
  case (Cons c s)
  show ?case
  proof (cases t)
    case Nil
    with Cons.prems escape_char_shape [of c] show ?thesis by auto
  next
    case (Cons d t')
    with Cons.prems have "escape_char c @ (concat (map escape_char s) @ CHR 0x22 # x)
        = escape_char d @ (concat (map escape_char t') @ CHR 0x22 # y)" by simp
    from escape_char_prefix_free [OF this] Cons.IH [of t'] Cons show ?thesis by auto
  qed
qed

lemma json_string_prefix_free: "json_string s @ x = json_string t @ y \<Longrightarrow> s = t \<and> x = y"
  using string_body_prefix_free [of s x t y] by (simp add: json_string_def)

lemma nat_str_digits: "list_all is_digit (nat_str n)"
proof (induction n rule: nat_str.induct)
  case (1 n)
  then show ?case
    by (cases "n < 10") (auto simp: nat_str.simps [of n] digit_char_digit)
qed

lemma nat_str_not_Nil [simp]: "nat_str n \<noteq> []"
  by (subst nat_str.simps) simp

lemma nat_str_inj: "nat_str n = nat_str m \<Longrightarrow> n = m"
proof (induction n arbitrary: m rule: nat_str.induct)
  case (1 n)
  have small: "(a::nat) < 16" if "a < 10" for a using that by simp
  consider "n < 10" "m < 10" | "n < 10" "\<not> m < 10" | "\<not> n < 10" "m < 10" | "\<not> n < 10" "\<not> m < 10"
    by blast
  then show ?case
  proof cases
    case 4
    with "1.prems" have "nat_str (n div 10) = nat_str (m div 10)"
      and "digit_char (n mod 10) = digit_char (m mod 10)"
      by (auto simp: nat_str.simps [of n] nat_str.simps [of m])
    moreover have "n mod 10 < 16" "m mod 10 < 16" by (simp_all add: small)
    ultimately have "n div 10 = m div 10" "n mod 10 = m mod 10"
      using "1.IH" [OF 4(1)] digit_char_inj by blast+
    then show ?thesis by (metis div_mult_mod_eq)
  qed (use "1.prems" digit_char_inj [of n m] nat_str_not_Nil [of "n div 10"] nat_str_not_Nil [of "m div 10"] in
        \<open>auto simp: nat_str.simps [of n] nat_str.simps [of m] simp del: nat_str_not_Nil\<close>)
qed

lemma digits_prefix_free:
  assumes "list_all is_digit a" "list_all is_digit b" "ends_number r" "ends_number s"
    and "a @ r = b @ s"
  shows "a = b \<and> r = s"
proof -
  have "takeWhile is_digit (x @ t) = x" if "list_all is_digit x" "ends_number t" for x t
    using that by (cases t) (auto simp: ends_number_def list_all_iff takeWhile_append)
  with assms have "a = b" by metis
  with assms(5) show ?thesis by simp
qed

lemma minus_not_digit [simp]: "\<not> is_digit CHR ''-''"
  by (simp add: is_digit_def less_eq_char_def)

lemma nat_str_start: "\<exists>h t. nat_str n = h # t \<and> is_digit h"
  using nat_str_digits [of n] by (cases "nat_str n") auto

lemma int_str_prefix_free: "prefix_free_at int_str i"
  unfolding prefix_free_at_def
proof (intro allI impI)
  fix j r s
  assume e: "ends_number r" "ends_number s" and eq: "int_str i @ r = int_str j @ s"
  have first: "hd (int_str k @ t) = CHR ''-'' \<longleftrightarrow> k < 0" for k t
    using nat_str_start [of "nat k"] by (auto simp: int_str_def)
  have sign: "i < 0 \<longleftrightarrow> j < 0"
    using first [of i r] first [of j s] unfolding eq by simp
  show "i = j \<and> r = s"
  proof (cases "i < 0")
    case True
    with eq sign have "nat_str (nat (- i)) @ r = nat_str (nat (- j)) @ s" by (simp add: int_str_def)
    with True sign digits_prefix_free [OF nat_str_digits nat_str_digits e] nat_str_inj show ?thesis
      by (smt (verit) nat_eq_iff2)
  next
    case False
    with eq sign have "nat_str (nat i) @ r = nat_str (nat j) @ s" by (simp add: int_str_def)
    with False sign digits_prefix_free [OF nat_str_digits nat_str_digits e] nat_str_inj show ?thesis
      by (smt (verit) nat_eq_iff2)
  qed
qed

text \<open>Comma-separated sequences up to a closing bracket.\<close>

lemma commas_prefix_free:
  assumes pf: "\<And>x. x \<in> set xs \<Longrightarrow> prefix_free_at f x"
    and start: "\<And>y. \<exists>h t. f y = h # t \<and> h \<noteq> c"
    and c: "c \<noteq> CHR '',''" "\<not> is_digit c"
    and eq: "commas (map f xs) @ c # r = commas (map f ys) @ c # s"
  shows "xs = ys \<and> r = s"
  using pf eq
proof (induction xs arbitrary: ys)
  case Nil
  show ?case
  proof (cases ys)
    case (Cons y ys')
    with Nil.prems(2) start [of y] show ?thesis by (cases ys') auto
  qed (use Nil in simp)
next
  case (Cons x xs)
  let ?tail = "\<lambda>zs t. if zs = [] then c # t else '','' @ commas (map f zs) @ c # t"
  have split: "commas (map f (z # zs)) @ c # t = f z @ ?tail zs t" for z zs t
    by (cases zs) auto
  have ends: "ends_number (?tail zs t)" for zs t
    using c by (auto simp: ends_number_def is_digit_def less_eq_char_def)
  show ?case
  proof (cases ys)
    case Nil
    with Cons.prems(2) start [of x] show ?thesis by (cases xs) auto
  next
    case ys: (Cons y ys')
    from Cons.prems(2) have "f x @ ?tail xs r = f y @ ?tail ys' s"
      unfolding ys split .
    with Cons.prems(1) prefix_freeD [of f x "?tail xs r" "?tail ys' s" y] ends
    have "x = y" and tails: "?tail xs r = ?tail ys' s" by (auto simp del: append.simps)
    from tails c(1) have "xs = [] \<longleftrightarrow> ys' = []" by (auto split: if_splits)
    with tails Cons.IH [of ys'] Cons.prems(1) \<open>x = y\<close> ys show ?thesis by (auto split: if_splits)
  qed
qed

lemma render_start:
  "\<exists>h t. render v = h # t \<and> h \<noteq> CHR '']'' \<and> h \<noteq> CHR ''}''"
proof (cases v)
  case (JInt i)
  obtain h t where "nat_str (nat i) = h # t" "is_digit h" using nat_str_start by blast
  then show ?thesis
    unfolding JInt by (auto simp: int_str_def is_digit_def less_eq_char_def)
qed (auto simp: json_string_def)

lemma field_prefix_free:
  assumes "prefix_free_at render v"
  shows "prefix_free_at (\<lambda>(k, v). json_string k @ '':'' @ render v) (k, v)"
  unfolding prefix_free_at_def
proof (intro allI impI, clarsimp)
  fix k' v' r s
  assume e: "ends_number r" "ends_number s"
    and eq: "json_string k @ CHR '':'' # render v @ r = json_string k' @ CHR '':'' # render v' @ s"
  from json_string_prefix_free [OF eq] have "k = k'" "render v @ r = render v' @ s" by auto
  with prefix_freeD [OF assms e] show "k = k' \<and> v = v' \<and> r = s" by blast
qed

definition json_kind :: "json \<Rightarrow> nat" where
  "json_kind v = (case v of JNull \<Rightarrow> 0 | JBool b \<Rightarrow> (if b then 1 else 2) | JInt _ \<Rightarrow> 3 | JStr _ \<Rightarrow> 4
     | JList _ \<Rightarrow> 5 | JObj _ \<Rightarrow> 6)"

definition char_kind :: "char \<Rightarrow> nat" where
  "char_kind h = (if h = CHR ''n'' then 0 else if h = CHR ''t'' then 1 else if h = CHR ''f'' then 2
     else if h = CHR 0x22 then 4 else if h = CHR ''['' then 5 else if h = CHR ''{'' then 6 else 3)"

lemma char_kind_digit: "is_digit h \<Longrightarrow> char_kind h = 3"
  by (auto simp: char_kind_def is_digit_def less_eq_char_def)

lemma render_first: "\<exists>h t. render v = h # t \<and> char_kind h = json_kind v"
proof (cases v)
  case (JInt i)
  have "char_kind CHR ''-'' = 3" by (simp add: char_kind_def)
  with JInt nat_str_start [of "nat i"] char_kind_digit show ?thesis
    by (auto simp: int_str_def json_kind_def)
qed (auto simp: json_kind_def char_kind_def json_string_def)

lemma render_kind:
  assumes "render v @ r = render w @ s"
  shows "json_kind v = json_kind w"
  using assms render_first [of v] render_first [of w] by auto

lemma render_prefix_free: "prefix_free_at render v"
proof (induction v)
  case (JInt i)
  show ?case
    unfolding prefix_free_at_def
  proof (intro allI impI)
    fix w r s
    assume e: "ends_number r" "ends_number s" and eq: "render (JInt i) @ r = render w @ s"
    from render_kind [OF eq] obtain j where "w = JInt j"
      by (cases w) (auto simp: json_kind_def split: if_splits)
    with eq e int_str_prefix_free [of i] show "JInt i = w \<and> r = s"
      by (auto simp: prefix_free_at_def)
  qed
next
  case (JList xs)
  show ?case
    unfolding prefix_free_at_def
  proof (intro allI impI)
    fix w r s
    assume eq: "render (JList xs) @ r = render w @ s"
    from render_kind [OF eq] obtain ys where w: "w = JList ys"
      by (cases w) (auto simp: json_kind_def split: if_splits)
    have "xs = ys \<and> r = s"
    proof (rule commas_prefix_free [where f = render and c = "CHR '']''"])
      show "\<exists>h t. render y = h # t \<and> h \<noteq> CHR '']''" for y using render_start by blast
    qed (use eq w JList in \<open>auto simp: is_digit_def less_eq_char_def\<close>)
    with w show "JList xs = w \<and> r = s" by simp
  qed
next
  case (JObj kvs)
  show ?case
    unfolding prefix_free_at_def
  proof (intro allI impI)
    fix w r s
    assume eq: "render (JObj kvs) @ r = render w @ s"
    from render_kind [OF eq] obtain ys where w: "w = JObj ys"
      by (cases w) (auto simp: json_kind_def split: if_splits)
    have "kvs = ys \<and> r = s"
    proof (rule commas_prefix_free [where f = "\<lambda>(k, v). json_string k @ '':'' @ render v" and c = "CHR ''}''"])
      show "\<exists>h t. (\<lambda>(k, v). json_string k @ '':'' @ render v) y = h # t \<and> h \<noteq> CHR ''}''" for y
        by (cases y) (simp add: json_string_def)
      show "prefix_free_at (\<lambda>(k, v). json_string k @ '':'' @ render v) x" if "x \<in> set kvs" for x
        using that JObj [of x "snd x"] field_prefix_free [of "snd x" "fst x"]
        by (simp add: snds.intros prod.exhaust_sel)
    qed (use eq w in \<open>auto simp: is_digit_def less_eq_char_def\<close>)
    with w show "JObj kvs = w \<and> r = s" by simp
  qed
next
  case JNull
  show ?case
    unfolding prefix_free_at_def
  proof (intro allI impI)
    fix w r s
    assume eq: "render JNull @ r = render w @ s"
    from render_kind [OF eq] have "w = JNull"
      by (cases w) (auto simp: json_kind_def split: if_splits)
    with eq show "JNull = w \<and> r = s" by simp
  qed
next
  case (JBool b)
  show ?case
    unfolding prefix_free_at_def
  proof (intro allI impI)
    fix w r s
    assume eq: "render (JBool b) @ r = render w @ s"
    from render_kind [OF eq] have "w = JBool b"
      by (cases w) (auto simp: json_kind_def split: if_splits)
    with eq show "JBool b = w \<and> r = s" by simp
  qed
next
  case (JStr x)
  show ?case
    unfolding prefix_free_at_def
  proof (intro allI impI)
    fix w r s
    assume eq: "render (JStr x) @ r = render w @ s"
    from render_kind [OF eq] obtain y where "w = JStr y"
      by (cases w) (auto simp: json_kind_def split: if_splits)
    with eq json_string_prefix_free [of x r y s] show "JStr x = w \<and> r = s" by simp
  qed
qed

lemma render_inj: "render v = render w \<Longrightarrow> v = w"
  using prefix_freeD [OF render_prefix_free, of "[]" "[]" v w] by (simp add: ends_number_def)

section \<open>Records with fixed keys\<close>

lemma sorted_fields_eq:
  assumes "distinct (map fst kvs)" "map fst kvs = map fst kvs'"
    and "sort_key fst kvs = sort_key fst kvs'"
  shows "kvs = kvs'"
proof -
  have s: "set kvs = set kvs'" using assms(3) by (metis set_sort)
  have d: "distinct (map fst kvs')" using assms(1,2) by simp
  have "kvs ! i = kvs' ! i" if i: "i < length kvs" for i
  proof -
    from assms(2) have len: "length kvs = length kvs'" by (metis length_map)
    from i assms(2) len have k: "fst (kvs ! i) = fst (kvs' ! i)" by (metis nth_map)
    from i s have "kvs ! i \<in> set kvs'" by (metis nth_mem)
    then have "map_of kvs' (fst (kvs ! i)) = Some (snd (kvs ! i))"
      using d by (simp add: map_of_eq_Some_iff)
    moreover from i len d have "map_of kvs' (fst (kvs' ! i)) = Some (snd (kvs' ! i))"
      by (simp add: map_of_eq_Some_iff)
    ultimately show ?thesis using k by (simp add: prod_eq_iff)
  qed
  moreover have "length kvs = length kvs'" using assms(2) by (metis length_map)
  ultimately show ?thesis by (simp add: list_eq_iff_nth_eq)
qed

lemma canon_fields_inj:
  assumes "distinct (map fst kvs)" "map fst kvs = map fst kvs'"
    and "canon (JObj kvs) = canon (JObj kvs')"
  shows "map (canon \<circ> snd) kvs = map (canon \<circ> snd) kvs'"
proof -
  let ?c = "map (\<lambda>(k, v). (k, canon v))"
  have fst: "map fst (?c l) = map fst l" for l by (auto simp: comp_def split_beta)
  have "sort_key fst (?c kvs) = sort_key fst (?c kvs')" using assms(3) by simp
  then have "?c kvs = ?c kvs'"
    by (rule sorted_fields_eq [rotated 2]) (simp only: fst assms(1), simp only: fst assms(2))
  then have "map snd (?c kvs) = map snd (?c kvs')" by simp
  then show ?thesis by (simp add: comp_def split_beta)
qed

lemma dumps_fields_inj:
  assumes "distinct (map fst kvs)" "map fst kvs = map fst kvs'"
    and "json_dumps (JObj kvs) = json_dumps (JObj kvs')"
  shows "map (canon \<circ> snd) kvs = map (canon \<circ> snd) kvs'"
  by (rule canon_fields_inj [OF assms(1,2)], rule render_inj) (use assms(3) in \<open>simp only: json_dumps_def\<close>)

text \<open>An object with free keys determines the set of its entries.\<close>

lemma canon_entries_inj:
  assumes "canon (JObj kvs) = canon (JObj kvs')"
  shows "(\<lambda>(k, v). (k, canon v)) ` set kvs = (\<lambda>(k, v). (k, canon v)) ` set kvs'"
proof -
  let ?c = "map (\<lambda>(k, v). (k, canon v))"
  have "sort_key fst (?c kvs) = sort_key fst (?c kvs')" using assms by simp
  then have "set (sort_key fst (?c kvs)) = set (sort_key fst (?c kvs'))" by simp
  then show ?thesis by simp
qed

text \<open>Two distinct texts with one digest.\<close>

definition sha_collision :: "string \<Rightarrow> string \<Rightarrow> bool" where
  "sha_collision a b \<longleftrightarrow> a \<noteq> b \<and> sha256_hex a = sha256_hex b"

text \<open>
  A sealed record type: its digest is taken of an object with a fixed list of distinct keys,
  whose rendered values determine what the record commits to.
\<close>

locale sealed_record =
  fixes keys :: "string list"
    and fields :: "'a \<Rightarrow> (string \<times> json) list"
    and commits :: "'a \<Rightarrow> 'b"
    and valid :: "'a \<Rightarrow> bool"
  assumes keys_fixed: "map fst (fields x) = keys"
    and keys_distinct: "distinct keys"
    and values_commit: "valid x \<Longrightarrow> valid y \<Longrightarrow>
      map (canon \<circ> snd) (fields x) = map (canon \<circ> snd) (fields y) \<Longrightarrow> commits x = commits y"
begin

lemma text_commits:
  assumes "valid x" "valid y" "json_dumps (JObj (fields x)) = json_dumps (JObj (fields y))"
  shows "commits x = commits y"
  by (rule values_commit [OF assms(1,2)], rule dumps_fields_inj [OF _ _ assms(3)])
    (simp_all only: keys_fixed keys_distinct)

lemma digest_commits:
  assumes "valid x" "valid y" "hex_digest (JObj (fields x)) = hex_digest (JObj (fields y))"
  shows "commits x = commits y \<or>
    sha_collision (json_dumps (JObj (fields x))) (json_dumps (JObj (fields y)))"
proof (cases "json_dumps (JObj (fields x)) = json_dumps (JObj (fields y))")
  case True
  with assms text_commits show ?thesis by blast
next
  case False
  with assms(3) show ?thesis by (simp only: sha_collision_def hex_digest_def simp_thms)
qed

end

section \<open>Decoding\<close>

text \<open>
  Readers for decoded values. The parsers of the program turn every failure of a shape test, of
  an enumeration lookup or of a nested constructor into one error, so their steps compose in the
  option monad.
\<close>

fun as_str :: "json option \<Rightarrow> string option" where
  "as_str (Some (JStr s)) = Some s"
| "as_str _ = None"

fun as_int :: "json option \<Rightarrow> int option" where
  "as_int (Some (JInt n)) = Some n"
| "as_int _ = None"

fun as_obj :: "json option \<Rightarrow> (string \<times> json) list option" where
  "as_obj (Some (JObj kvs)) = Some kvs"
| "as_obj _ = None"

fun as_list :: "json option \<Rightarrow> json list option" where
  "as_list (Some (JList xs)) = Some xs"
| "as_list _ = None"

fun collect :: "('a \<Rightarrow> 'b option) \<Rightarrow> 'a list \<Rightarrow> 'b list option" where
  "collect f [] = Some []"
| "collect f (x # xs) = Option.bind (f x) (\<lambda>y. Option.bind (collect f xs) (\<lambda>ys. Some (y # ys)))"

definition has_keys :: "string list \<Rightarrow> (string \<times> json) list \<Rightarrow> (string \<times> json) list option" where
  "has_keys keys kvs = (if set (map fst kvs) = set keys then Some kvs else None)"

definition guarded :: "(bool \<times> py_error) list \<Rightarrow> 'a \<Rightarrow> 'a option" where
  "guarded guards v = (case construct guards v of Inr x \<Rightarrow> Some x | Inl _ \<Rightarrow> None)"

fun as_str_or_null :: "json option \<Rightarrow> string option option" where
  "as_str_or_null (Some JNull) = Some None"
| "as_str_or_null (Some (JStr s)) = Some (Some s)"
| "as_str_or_null _ = None"

fun as_bool :: "json option \<Rightarrow> bool option" where
  "as_bool (Some (JBool b)) = Some b"
| "as_bool _ = None"

fun json_opt :: "string option \<Rightarrow> json" where
  "json_opt None = JNull"
| "json_opt (Some s) = JStr s"

text \<open>Looking a member of an enumeration up by its value, as in \<open>EdgeKind(text)\<close>.\<close>

definition enum_of :: "'e list \<Rightarrow> ('e \<Rightarrow> string) \<Rightarrow> string \<Rightarrow> 'e option" where
  "enum_of members val text = List.find (\<lambda>e. val e = text) members"

text \<open>A result whose exceptions are all caught by the caller.\<close>

fun caught_result :: "'a result \<Rightarrow> 'a option" where
  "caught_result (Inr x) = Some x"
| "caught_result (Inl e) = None"

lemma caught_result_Some [simp]: "caught_result m = Some x \<longleftrightarrow> m = Inr x"
  by (cases m) auto

lemma as_str_or_null_opt [simp]: "as_str_or_null (Some (json_opt s)) = Some s"
  by (cases s) simp_all

lemma guarded_SomeD: "guarded gs v = Some w \<Longrightarrow> list_all fst gs \<and> w = v"
  by (auto simp: guarded_def split: sum.splits)

lemma collect_all: "collect f xs = Some ys \<Longrightarrow> (\<And>x y. f x = Some y \<Longrightarrow> P y) \<Longrightarrow> list_all P ys"
  by (induction xs arbitrary: ys) (auto simp: bind_eq_Some_conv)

lemma collect_map: "(\<And>x. x \<in> set xs \<Longrightarrow> f (g x) = Some (h x)) \<Longrightarrow> collect f (map g xs) = Some (map h xs)"
  by (induction xs) auto

lemma guarded_ok [simp]: "list_all fst gs \<Longrightarrow> guarded gs v = Some v"
  by (simp add: guarded_def construct_ok)

end
