(* ===== verification/Runtime_Binding.thy ===== *)
theory Runtime_Binding
  imports Json
begin

text \<open>
  \<open>runtime_binding.py\<close>: the public-safe identity of one resolved runtime configuration that
  every receipt and deployment identity carries. Two notions of agreement coexist in the code:
  the generated \<open>__eq__\<close>, which skips the five review-policy fields (\<open>compare=False\<close>), and
  \<open>require_matches\<close>, which compares all nine.
\<close>

record runtime_binding =
  schema_version :: string
  resolved_digest :: string
  worker_profile_identity :: string
  supervisor_profile_identities :: "string list"
  review_complete_rounds :: int
  review_max_rounds :: int
  review_max_supervisor_attempts_per_round :: int
  review_on_final_findings :: string
  review_policy_digest :: string

definition RUNTIME_SCHEMA :: string where
  "RUNTIME_SCHEMA = ''roundwright-runtime/v1''"

text \<open>\<open>RuntimeBinding.__post_init__\<close>: the guards in order.\<close>

definition review_policy_defaulted :: "runtime_binding \<Rightarrow> bool" where
  "review_policy_defaulted b \<longleftrightarrow> review_complete_rounds b = 0 \<and> review_max_rounds b = 0
     \<and> review_max_supervisor_attempts_per_round b = 0 \<and> review_on_final_findings b = []
     \<and> review_policy_digest b = []"

definition runtime_binding_guards :: "runtime_binding \<Rightarrow> (bool \<times> py_error) list" where
  "runtime_binding_guards b =
    [(schema_version b = RUNTIME_SCHEMA \<and> is_digest (resolved_digest b),
        RuntimeBindingError ''resolved configuration binding is invalid''),
     (is_digest (worker_profile_identity b) \<and> supervisor_profile_identities b \<noteq> []
        \<and> distinct (supervisor_profile_identities b)
        \<and> list_all is_digest (supervisor_profile_identities b),
        RuntimeBindingError ''resolved configuration profile identity is invalid''),
     (review_policy_defaulted b \<or>
        (1 \<le> review_complete_rounds b \<and> review_complete_rounds b \<le> review_max_rounds b
         \<and> review_max_supervisor_attempts_per_round b = int (length (supervisor_profile_identities b))
         \<and> review_on_final_findings b = ''worker-final-repair-then-merge''
         \<and> is_digest (''sha256:'' @ review_policy_digest b)),
        RuntimeBindingError ''resolved review policy binding is invalid'')]"

definition make_runtime_binding :: "runtime_binding \<Rightarrow> runtime_binding result" where
  "make_runtime_binding b = construct (runtime_binding_guards b) b"

definition valid_runtime_binding :: "runtime_binding \<Rightarrow> bool" where
  "valid_runtime_binding b \<longleftrightarrow> list_all fst (runtime_binding_guards b)"

text \<open>The generated equality, on the four compared fields.\<close>

definition runtime_binding_eq :: "runtime_binding \<Rightarrow> runtime_binding \<Rightarrow> bool" where
  "runtime_binding_eq a b \<longleftrightarrow>
     (schema_version a, resolved_digest a, worker_profile_identity a, supervisor_profile_identities a)
       = (schema_version b, resolved_digest b, worker_profile_identity b, supervisor_profile_identities b)"

definition require_matches :: "runtime_binding \<Rightarrow> runtime_binding option \<Rightarrow> unit result" where
  "require_matches self other = (case other of
       None \<Rightarrow> Inl (RuntimeBindingError ''resolved configuration binding has drifted'')
     | Some oth \<Rightarrow>
       if (schema_version oth, resolved_digest oth, worker_profile_identity oth, supervisor_profile_identities oth,
           review_complete_rounds oth, review_max_rounds oth, review_max_supervisor_attempts_per_round oth,
           review_on_final_findings oth, review_policy_digest oth)
          = (schema_version self, resolved_digest self, worker_profile_identity self,
             supervisor_profile_identities self, review_complete_rounds self, review_max_rounds self,
             review_max_supervisor_attempts_per_round self, review_on_final_findings self,
             review_policy_digest self)
       then Inr () else Inl (RuntimeBindingError ''resolved configuration binding has drifted''))"

definition canonical_payload :: "runtime_binding \<Rightarrow> (string \<times> json) list" where
  "canonical_payload b =
    [(''schema_version'', JStr (schema_version b)),
     (''resolved_digest'', JStr (resolved_digest b)),
     (''worker_profile_identity'', JStr (worker_profile_identity b)),
     (''supervisor_profile_identities'', JList (map JStr (supervisor_profile_identities b))),
     (''review_complete_rounds'', JInt (review_complete_rounds b)),
     (''review_max_rounds'', JInt (review_max_rounds b)),
     (''review_max_supervisor_attempts_per_round'', JInt (review_max_supervisor_attempts_per_round b)),
     (''review_on_final_findings'', JStr (review_on_final_findings b)),
     (''review_policy_digest'', JStr (review_policy_digest b))]"

definition canonical_material :: "runtime_binding \<Rightarrow> string" where
  "canonical_material b = json_dumps (JObj (canonical_payload b))"

text \<open>
  \<open>fingerprint\<close> spells out the same object as \<open>canonical_payload\<close>; the tuple of supervisor
  identities renders like the list.
\<close>

definition runtime_fingerprint :: "runtime_binding \<Rightarrow> string" where
  "runtime_fingerprint b = hex_digest (JObj (canonical_payload b))"

definition has_review_policy :: "runtime_binding \<Rightarrow> bool" where
  "has_review_policy b \<longleftrightarrow> review_complete_rounds b \<noteq> 0"

definition columns :: "runtime_binding \<Rightarrow> string \<times> string \<times> string \<times> string" where
  "columns b = (schema_version b, resolved_digest b, worker_profile_identity b,
     json_dumps (JList (map JStr (supervisor_profile_identities b))))"

definition complete_columns ::
  "runtime_binding \<Rightarrow> (string \<times> string \<times> string \<times> string) \<times> int \<times> int \<times> int \<times> string \<times> string" where
  "complete_columns b = (columns b, review_complete_rounds b, review_max_rounds b,
     review_max_supervisor_attempts_per_round b, review_on_final_findings b, review_policy_digest b)"

definition review_policy_columns ::
  "runtime_binding \<Rightarrow> (string \<times> int \<times> int \<times> int \<times> string \<times> string) result" where
  "review_policy_columns b =
     (if \<not> has_review_policy b
      then Inl (RuntimeBindingError ''resolved review policy binding is unavailable'')
      else Inr (resolved_digest b, review_complete_rounds b, review_max_rounds b,
        review_max_supervisor_attempts_per_round b, review_on_final_findings b, review_policy_digest b))"

section \<open>Agreement\<close>

lemma require_matches_iff [simp]: "require_matches a (Some b) = Inr () \<longleftrightarrow> a = b"
  by (auto simp: require_matches_def split: if_splits)

lemma require_matches_None [simp]: "require_matches a None \<noteq> Inr ()"
  by (simp add: require_matches_def)

lemma runtime_binding_eq_refl [simp]: "runtime_binding_eq b b"
  by (simp add: runtime_binding_eq_def)

lemma runtime_binding_eq_sym: "runtime_binding_eq a b \<Longrightarrow> runtime_binding_eq b a"
  by (simp add: runtime_binding_eq_def)

lemma runtime_binding_eq_trans:
  "runtime_binding_eq a b \<Longrightarrow> runtime_binding_eq b c \<Longrightarrow> runtime_binding_eq a c"
  by (simp add: runtime_binding_eq_def)

lemma runtime_binding_eq_review_policy [simp]:
  "runtime_binding_eq b (b\<lparr>review_complete_rounds := i\<rparr>)"
  "runtime_binding_eq b (b\<lparr>review_max_rounds := i\<rparr>)"
  "runtime_binding_eq b (b\<lparr>review_on_final_findings := s\<rparr>)"
  "runtime_binding_eq b (b\<lparr>review_policy_digest := s\<rparr>)"
  by (simp_all add: runtime_binding_eq_def)

lemma runtime_fingerprint_fingerprint [simp]: "is_fingerprint (runtime_fingerprint b)"
  by (simp add: runtime_fingerprint_def)

section \<open>The canonical material commits to every field\<close>

definition runtime_keys :: "string list" where
  "runtime_keys = [''schema_version'', ''resolved_digest'', ''worker_profile_identity'',
     ''supervisor_profile_identities'', ''review_complete_rounds'', ''review_max_rounds'',
     ''review_max_supervisor_attempts_per_round'', ''review_on_final_findings'', ''review_policy_digest'']"

lemma map_JStr_inj [simp]: "map JStr xs = map JStr ys \<longleftrightarrow> xs = ys"
  by (simp add: inj_map_eq_map inj_def)

interpretation rb: sealed_record runtime_keys canonical_payload "\<lambda>b. b" "\<lambda>b. True"
proof unfold_locales
  show "map fst (canonical_payload b) = runtime_keys" for b
    by (simp add: canonical_payload_def runtime_keys_def)
  show "distinct runtime_keys" by (simp add: runtime_keys_def)
  show "x = y" if "map (canon \<circ> snd) (canonical_payload x) = map (canon \<circ> snd) (canonical_payload y)" for x y
    using that by (cases x; cases y) (simp add: canonical_payload_def comp_def)
qed

lemma canonical_material_inj: "canonical_material a = canonical_material b \<Longrightarrow> a = b"
  unfolding canonical_material_def by (rule rb.text_commits) simp_all

lemma runtime_fingerprint_commits:
  "runtime_fingerprint a = runtime_fingerprint b \<Longrightarrow>
     a = b \<or> sha_collision (canonical_material a) (canonical_material b)"
  unfolding runtime_fingerprint_def canonical_material_def by (rule rb.digest_commits) simp_all

text \<open>A concrete binding, used by the examples of the components.\<close>

definition sample_runtime :: runtime_binding where
  "sample_runtime = \<lparr>schema_version = RUNTIME_SCHEMA,
     resolved_digest = ''sha256:'' @ replicate 64 CHR ''a'',
     worker_profile_identity = ''sha256:'' @ replicate 64 CHR ''b'',
     supervisor_profile_identities = [''sha256:'' @ replicate 64 CHR ''c''],
     review_complete_rounds = 0, review_max_rounds = 0,
     review_max_supervisor_attempts_per_round = 0, review_on_final_findings = [],
     review_policy_digest = []\<rparr>"

lemma hex_letters [simp]:
  "is_hex CHR ''a''" "is_hex CHR ''b''" "is_hex CHR ''c''" "is_hex CHR ''d''" "is_hex CHR ''e''"
  "is_hex CHR ''f''" "is_hex CHR ''0''" "is_hex CHR ''1''" "is_hex CHR ''2''" "is_hex CHR ''3''"
  by (simp_all add: is_hex_def)

lemma is_digest_replicate [simp]:
  "is_digest (CHR ''s'' # CHR ''h'' # CHR ''a'' # CHR ''2'' # CHR ''5'' # CHR ''6'' # CHR '':'' # s)
     = is_fingerprint s"
  using is_digest_prefixed [of s] by simp

lemma sample_runtime_valid: "valid_runtime_binding sample_runtime"
  by (simp add: valid_runtime_binding_def runtime_binding_guards_def sample_runtime_def
      review_policy_defaulted_def)

end
