(* ===== verification/Deployment.thy ===== *)
theory Deployment
  imports Runtime_Binding
begin

text \<open>
  \<open>deployment.py\<close>: the pure preflight that decides whether one exact, externally verified
  authority receipt is current for a deployment identity. Evidence of the wrong type or absent
  evidence is \<open>None\<close>; the guards of \<open>__post_init__\<close> are re-run on present evidence.
\<close>

section \<open>Data\<close>

datatype deployment_mode = READ_ONLY | TEST_ONLY | AUTHORITATIVE | BLOCKED

datatype authority_receipt_status =
  Status_FRESH | Status_MISSING | Status_EXPIRED | Status_COPIED | Status_CONFLICTING | Status_REVOKED

primrec mode_value :: "deployment_mode \<Rightarrow> string" where
  "mode_value READ_ONLY = ''read-only''"
| "mode_value TEST_ONLY = ''test-only''"
| "mode_value AUTHORITATIVE = ''authoritative''"
| "mode_value BLOCKED = ''blocked''"

record deployment_identity =
  repository_fingerprint :: string
  canonical_checkout_fingerprint :: string
  state_fingerprint :: string
  state_id :: uuid
  deployment_fingerprint :: string
  runtime_binding :: runtime_binding

record deployment_authority_receipt =
  receipt_fingerprint :: string
  receipt_identity :: deployment_identity
  receipt_mode :: deployment_mode
  issued_at :: datetime
  expires_at :: datetime

record authority_receipt_verification =
  verified_receipt_fingerprint :: string
  receipt_binding_fingerprint :: string
  verified_repository_fingerprint :: string
  verified_state_id :: uuid
  authoritative_deployment_fingerprint :: string
  verified_status :: authority_receipt_status
  verified_runtime_binding :: runtime_binding

record deployment_authority_decision =
  decision_mode :: deployment_mode
  authorized :: bool
  reason :: string
  decision_receipt_fingerprint :: "string option"

section \<open>Validation\<close>

definition deployment_require_fingerprint :: "string \<Rightarrow> string \<Rightarrow> bool \<times> py_error" where
  "deployment_require_fingerprint value description =
     (is_fingerprint value, DeploymentAuthorityError (''the '' @ description @ '' fingerprint is invalid''))"

definition deployment_require_utc :: "datetime \<Rightarrow> string \<Rightarrow> bool \<times> py_error" where
  "deployment_require_utc value description =
     (is_utc value, DeploymentAuthorityError (''the '' @ description @ '' is invalid''))"

definition validate_identity :: "deployment_identity \<Rightarrow> (bool \<times> py_error) list" where
  "validate_identity i =
     [deployment_require_fingerprint (repository_fingerprint i) ''repository identity'',
      deployment_require_fingerprint (canonical_checkout_fingerprint i) ''canonical checkout identity'',
      deployment_require_fingerprint (state_fingerprint i) ''state identity'',
      deployment_require_fingerprint (deployment_fingerprint i) ''deployment identity'']"

definition identity_is_valid :: "deployment_identity \<Rightarrow> bool" where
  "identity_is_valid i \<longleftrightarrow> first_failure (validate_identity i) = None"

definition validate_receipt :: "deployment_authority_receipt \<Rightarrow> (bool \<times> py_error) list" where
  "validate_receipt r =
     [deployment_require_fingerprint (receipt_fingerprint r) ''authority receipt'',
      (identity_is_valid (receipt_identity r),
         DeploymentAuthorityError ''the authority receipt identity is invalid''),
      (receipt_mode r = AUTHORITATIVE,
         DeploymentAuthorityError ''the authority receipt mode is invalid''),
      deployment_require_utc (issued_at r) ''authority receipt issue time'',
      deployment_require_utc (expires_at r) ''authority receipt expiry'',
      (stamp (issued_at r) < stamp (expires_at r),
         DeploymentAuthorityError ''the authority receipt validity window is invalid'')]"

definition receipt_is_valid :: "deployment_authority_receipt \<Rightarrow> bool" where
  "receipt_is_valid r \<longleftrightarrow> first_failure (validate_receipt r) = None"

definition validate_verification :: "authority_receipt_verification \<Rightarrow> (bool \<times> py_error) list" where
  "validate_verification v =
     [deployment_require_fingerprint (verified_receipt_fingerprint v) ''verified receipt'',
      deployment_require_fingerprint (receipt_binding_fingerprint v) ''verified receipt binding'',
      deployment_require_fingerprint (verified_repository_fingerprint v) ''verified repository'',
      deployment_require_fingerprint (authoritative_deployment_fingerprint v) ''verified deployment'']"

definition verification_is_valid :: "authority_receipt_verification \<Rightarrow> bool" where
  "verification_is_valid v \<longleftrightarrow> first_failure (validate_verification v) = None"

definition runtime_bindings_match :: "runtime_binding \<Rightarrow> runtime_binding \<Rightarrow> bool" where
  "runtime_bindings_match expected actual \<longleftrightarrow> require_matches expected (Some actual) = Inr ()"

definition identities_match :: "deployment_identity \<Rightarrow> deployment_identity \<Rightarrow> bool" where
  "identities_match l r \<longleftrightarrow>
     repository_fingerprint l = repository_fingerprint r
     \<and> canonical_checkout_fingerprint l = canonical_checkout_fingerprint r
     \<and> state_fingerprint l = state_fingerprint r
     \<and> state_id l = state_id r
     \<and> deployment_fingerprint l = deployment_fingerprint r
     \<and> runtime_bindings_match (runtime_binding l) (runtime_binding r)"

definition identity_fields :: "deployment_identity \<Rightarrow> (string \<times> json) list" where
  "identity_fields i =
     [(''canonical_checkout_fingerprint'', JStr (canonical_checkout_fingerprint i)),
      (''deployment_fingerprint'', JStr (deployment_fingerprint i)),
      (''repository_fingerprint'', JStr (repository_fingerprint i)),
      (''state_fingerprint'', JStr (state_fingerprint i)),
      (''state_id'', JStr (uuid_str (state_id i))),
      (''runtime_binding'', JStr (runtime_fingerprint (runtime_binding i)))]"

definition receipt_fields :: "deployment_authority_receipt \<Rightarrow> (string \<times> json) list" where
  "receipt_fields r =
     [(''expires_at'', JStr (isoformat (expires_at r))),
      (''identity'', JObj (identity_fields (receipt_identity r))),
      (''issued_at'', JStr (isoformat (issued_at r))),
      (''mode'', JStr (mode_value (receipt_mode r))),
      (''receipt_fingerprint'', JStr (receipt_fingerprint r))]"

definition receipt_binding :: "deployment_authority_receipt \<Rightarrow> string" where
  "receipt_binding r = hex_digest (JObj (receipt_fields r))"

section \<open>The evaluation\<close>

definition blocked :: "string \<Rightarrow> deployment_authority_receipt option \<Rightarrow> deployment_authority_decision" where
  "blocked why receipt =
     \<lparr>decision_mode = BLOCKED, authorized = False, reason = why,
      decision_receipt_fingerprint = (case receipt of None \<Rightarrow> None
        | Some r \<Rightarrow> if receipt_is_valid r then Some (receipt_fingerprint r) else None)\<rparr>"

definition evaluate_deployment_authority ::
  "deployment_identity option \<Rightarrow> deployment_authority_receipt option
     \<Rightarrow> authority_receipt_verification option \<Rightarrow> deployment_mode option \<Rightarrow> datetime option
     \<Rightarrow> deployment_authority_decision" where
  "evaluate_deployment_authority identity receipt verification mode now =
    (case mode of
       None \<Rightarrow> blocked ''the deployment mode is invalid'' None
     | Some READ_ONLY \<Rightarrow> \<lparr>decision_mode = READ_ONLY, authorized = False,
         reason = ''read-only inspection does not require dispatch authority'',
         decision_receipt_fingerprint = None\<rparr>
     | Some TEST_ONLY \<Rightarrow> \<lparr>decision_mode = TEST_ONLY, authorized = False,
         reason = ''test-only mode cannot dispatch work'', decision_receipt_fingerprint = None\<rparr>
     | Some BLOCKED \<Rightarrow> blocked ''the deployment is explicitly blocked'' None
     | Some AUTHORITATIVE \<Rightarrow>
    (case identity of None \<Rightarrow> blocked ''deployment identity evidence is unavailable or invalid'' None
     | Some i \<Rightarrow> if \<not> identity_is_valid i
         then blocked ''deployment identity evidence is unavailable or invalid'' None else
    (case receipt of None \<Rightarrow> blocked ''deployment authority receipt evidence is unavailable or invalid'' None
     | Some r \<Rightarrow> if \<not> receipt_is_valid r
         then blocked ''deployment authority receipt evidence is unavailable or invalid'' None else
    (case verification of
       None \<Rightarrow> blocked ''repository-external authority verification is unavailable or invalid'' None
     | Some v \<Rightarrow> if \<not> verification_is_valid v
         then blocked ''repository-external authority verification is unavailable or invalid'' None else
    (case now of None \<Rightarrow> blocked ''the authority evaluation time is unavailable or invalid'' None
     | Some t \<Rightarrow> if \<not> is_utc t
         then blocked ''the authority evaluation time is unavailable or invalid'' None else
      if receipt_mode r \<noteq> AUTHORITATIVE
        then blocked ''the deployment authority receipt is not authoritative'' receipt else
      if \<not> identities_match i (receipt_identity r)
        then blocked ''the deployment authority receipt does not match this deployment identity'' receipt else
      if verified_status v \<noteq> Status_FRESH
        then blocked ''the repository-external authority receipt is not fresh'' receipt else
      if verified_receipt_fingerprint v \<noteq> receipt_fingerprint r
        then blocked ''the repository-external receipt identity does not match'' receipt else
      if receipt_binding_fingerprint v \<noteq> receipt_binding r
        then blocked ''the repository-external receipt binding does not match'' receipt else
      if verified_repository_fingerprint v \<noteq> repository_fingerprint i
        then blocked ''the repository-external repository identity does not match'' receipt else
      if verified_state_id v \<noteq> state_id i
        then blocked ''the repository-external state identity does not match'' receipt else
      if authoritative_deployment_fingerprint v \<noteq> deployment_fingerprint i
        then blocked ''a different deployment is authoritative for this repository state'' receipt else
      if \<not> runtime_bindings_match (runtime_binding i) (verified_runtime_binding v)
        then blocked ''the repository-external runtime configuration binding does not match'' receipt else
      if \<not> (stamp (issued_at r) \<le> stamp t \<and> stamp t < stamp (expires_at r))
        then blocked ''the deployment authority receipt is expired or not yet active'' receipt else
      \<lparr>decision_mode = AUTHORITATIVE, authorized = True,
       reason = ''one exact repository-external authority receipt is current'',
       decision_receipt_fingerprint = Some (receipt_fingerprint r)\<rparr>)))))"

text \<open>The Phase 1 shells: no identity, receipt or verification is ever supplied.\<close>

definition blocked_command_shell_preflight :: "datetime \<Rightarrow> deployment_authority_decision" where
  "blocked_command_shell_preflight utcnow =
     evaluate_deployment_authority None None None (Some AUTHORITATIVE) (Some utcnow)"

section \<open>The gate as an ordered list of checks\<close>

type_synonym deployment_evidence = "deployment_identity option \<times> deployment_authority_receipt option
  \<times> authority_receipt_verification option \<times> deployment_mode option \<times> datetime option"

definition deployment_binding_checks ::
  "deployment_identity \<Rightarrow> deployment_authority_receipt \<Rightarrow> authority_receipt_verification \<Rightarrow> datetime
     \<Rightarrow> (bool \<times> string) list" where
  "deployment_binding_checks i r v t =
    [(receipt_mode r = AUTHORITATIVE, ''the deployment authority receipt is not authoritative''),
     (identities_match i (receipt_identity r), ''the deployment authority receipt does not match this deployment identity''),
     (verified_status v = Status_FRESH, ''the repository-external authority receipt is not fresh''),
     (verified_receipt_fingerprint v = receipt_fingerprint r, ''the repository-external receipt identity does not match''),
     (receipt_binding_fingerprint v = receipt_binding r, ''the repository-external receipt binding does not match''),
     (verified_repository_fingerprint v = repository_fingerprint i, ''the repository-external repository identity does not match''),
     (verified_state_id v = state_id i, ''the repository-external state identity does not match''),
     (authoritative_deployment_fingerprint v = deployment_fingerprint i, ''a different deployment is authoritative for this repository state''),
     (runtime_bindings_match (runtime_binding i) (verified_runtime_binding v), ''the repository-external runtime configuration binding does not match''),
     (stamp (issued_at r) \<le> stamp t \<and> stamp t < stamp (expires_at r), ''the deployment authority receipt is expired or not yet active'')]"

fun deployment_checks :: "deployment_evidence \<Rightarrow> (bool \<times> string) list" where
  "deployment_checks (identity, receipt, verification, mode, now) =
    [(mode \<noteq> None, ''the deployment mode is invalid''),
     (mode \<noteq> Some READ_ONLY, ''read-only inspection does not require dispatch authority''),
     (mode \<noteq> Some TEST_ONLY, ''test-only mode cannot dispatch work''),
     (mode \<noteq> Some BLOCKED, ''the deployment is explicitly blocked''),
     (present identity_is_valid identity, ''deployment identity evidence is unavailable or invalid''),
     (present receipt_is_valid receipt, ''deployment authority receipt evidence is unavailable or invalid''),
     (present verification_is_valid verification, ''repository-external authority verification is unavailable or invalid''),
     (present is_utc now, ''the authority evaluation time is unavailable or invalid'')]
    @ (case (identity, receipt, verification, now) of
         (Some i, Some r, Some v, Some t) \<Rightarrow> deployment_binding_checks i r v t | _ \<Rightarrow> [])"

fun deployment_decide :: "deployment_evidence \<Rightarrow> deployment_authority_decision" where
  "deployment_decide (identity, receipt, verification, mode, now) =
     evaluate_deployment_authority identity receipt verification mode now"

lemma blocked_simps [simp]:
  "authorized (blocked w r) = False" "reason (blocked w r) = w" "decision_mode (blocked w r) = BLOCKED"
  by (simp_all add: blocked_def)

lemma deployment_gate_first_failure:
  "case first_failure (deployment_checks ev) of
     None \<Rightarrow> authorized (deployment_decide ev)
   | Some w \<Rightarrow> \<not> authorized (deployment_decide ev) \<and> reason (deployment_decide ev) = w"
proof -
  obtain i r v m t where ev: "ev = (i, r, v, m, t)" by (cases ev)
  show ?thesis
  proof (cases "m = Some AUTHORITATIVE")
    case False
    then show ?thesis unfolding ev
      by (cases m) (auto simp: evaluate_deployment_authority_def split: deployment_mode.splits)
  next
    case True
    then show ?thesis unfolding ev
      by (cases i; cases r; cases v; cases t)
        (simp_all add: evaluate_deployment_authority_def deployment_binding_checks_def first_failure_append
          del: first_failure_None_iff)
  qed
qed

interpretation deployment_gate: fail_closed_gate deployment_checks authorized reason deployment_decide
proof unfold_locales
  show "authorized (deployment_decide ev) = (first_failure (deployment_checks ev) = None)" for ev
    using deployment_gate_first_failure [of ev] by (auto split: option.splits simp del: first_failure_None_iff)
  show "reason (deployment_decide ev) = w" if "first_failure (deployment_checks ev) = Some w" for ev w
    using deployment_gate_first_failure [of ev] that by simp
qed

section \<open>What an authorization means\<close>

lemma is_valid_iffs:
  "identity_is_valid i \<longleftrightarrow> list_all fst (validate_identity i)"
  "receipt_is_valid r \<longleftrightarrow> list_all fst (validate_receipt r)"
  "verification_is_valid v \<longleftrightarrow> list_all fst (validate_verification v)"
  by (simp_all add: identity_is_valid_def receipt_is_valid_def verification_is_valid_def)

lemma identities_match_iff: "identities_match i j \<longleftrightarrow> i = j"
  by (cases i; cases j) (auto simp: identities_match_def runtime_bindings_match_def)

lemmas deployment_rules = is_valid_iffs validate_identity_def validate_receipt_def
  validate_verification_def deployment_require_fingerprint_def deployment_require_utc_def

lemma receipt_is_validD:
  assumes "receipt_is_valid r"
  shows "receipt_mode r = AUTHORITATIVE" "is_utc (issued_at r)" "is_utc (expires_at r)"
    "stamp (issued_at r) < stamp (expires_at r)" "identity_is_valid (receipt_identity r)"
  using assms by (simp_all add: deployment_rules)

lemma decision_mode_authoritative_iff:
  "decision_mode (evaluate_deployment_authority i r v m t) = AUTHORITATIVE
     \<longleftrightarrow> authorized (evaluate_deployment_authority i r v m t)"
proof (cases "m = Some AUTHORITATIVE")
  case True
  then show ?thesis
    by (cases i; cases r; cases v; cases t) (simp_all add: evaluate_deployment_authority_def)
next
  case False
  then show ?thesis
    by (cases m) (auto simp: evaluate_deployment_authority_def split: deployment_mode.splits)
qed

lemma deployment_authorized_facts:
  assumes "authorized (evaluate_deployment_authority i (Some r) (Some v) m t)"
  shows "receipt_is_valid r \<and> receipt_binding_fingerprint v = receipt_binding r
    \<and> verified_runtime_binding v = runtime_binding (receipt_identity r)"
proof -
  have "list_all fst (deployment_checks (i, Some r, Some v, m, t))"
    using assms deployment_gate.authorized_iff_all [of "(i, Some r, Some v, m, t)"] by simp
  then show ?thesis
    by (cases i; cases t) (auto simp: deployment_binding_checks_def identities_match_iff runtime_bindings_match_def)
qed

text \<open>Concrete evidence used by the witnesses: an authorized deployment at noon of one day.\<close>

definition sample_identity :: deployment_identity where
  "sample_identity = \<lparr>repository_fingerprint = replicate 64 CHR ''a'',
     canonical_checkout_fingerprint = replicate 64 CHR ''b'', state_fingerprint = replicate 64 CHR ''c'',
     state_id = 7, deployment_fingerprint = replicate 64 CHR ''d'', runtime_binding = sample_runtime\<rparr>"

definition sample_receipt :: deployment_authority_receipt where
  "sample_receipt = \<lparr>receipt_fingerprint = replicate 64 CHR ''e'', receipt_identity = sample_identity,
     receipt_mode = AUTHORITATIVE, issued_at = utc 1 0, expires_at = utc 2 0\<rparr>"

definition sample_verification :: authority_receipt_verification where
  "sample_verification = \<lparr>verified_receipt_fingerprint = replicate 64 CHR ''e'',
     receipt_binding_fingerprint = receipt_binding sample_receipt,
     verified_repository_fingerprint = replicate 64 CHR ''a'', verified_state_id = 7,
     authoritative_deployment_fingerprint = replicate 64 CHR ''d'', verified_status = Status_FRESH,
     verified_runtime_binding = sample_runtime\<rparr>"

lemma sample_valid [simp]:
  "identity_is_valid sample_identity" "receipt_is_valid sample_receipt"
  "verification_is_valid (sample_verification\<lparr>verified_status := st\<rparr>)" "verification_is_valid sample_verification"
  by (simp_all add: deployment_rules sample_identity_def sample_receipt_def sample_verification_def receipt_binding_def)

lemma sample_sel [simp]:
  "receipt_mode sample_receipt = AUTHORITATIVE" "receipt_identity sample_receipt = sample_identity"
  by (simp_all add: sample_receipt_def)

lemma sample_authorized:
  "authorized (evaluate_deployment_authority (Some sample_identity) (Some sample_receipt)
     (Some sample_verification) (Some AUTHORITATIVE) (Some (utc 1 12)))"
  by (simp add: evaluate_deployment_authority_def identities_match_iff runtime_bindings_match_def)
    (simp add: sample_receipt_def sample_verification_def sample_identity_def)

text \<open>
  The preflight authorizes exactly when the mode is
  authoritative and all four pieces of evidence are present, valid and agree: the receipt and
  the external observation name this very identity (all nine runtime-configuration fields
  included), the observation is fresh and carries the receipt's own fingerprint and binding
  digest, and the UTC evaluation time lies in the half-open validity window.
\<close>

lemma deployment_authorized_iff:
  "authorized (evaluate_deployment_authority identity receipt verification mode now) \<longleftrightarrow>
     mode = Some AUTHORITATIVE \<and>
     (\<exists>i r v t. identity = Some i \<and> receipt = Some r \<and> verification = Some v \<and> now = Some t
        \<and> identity_is_valid i \<and> receipt_is_valid r \<and> verification_is_valid v \<and> is_utc t
        \<and> receipt_identity r = i \<and> verified_status v = Status_FRESH
        \<and> verified_receipt_fingerprint v = receipt_fingerprint r
        \<and> receipt_binding_fingerprint v = receipt_binding r
        \<and> verified_repository_fingerprint v = repository_fingerprint i
        \<and> verified_state_id v = state_id i
        \<and> authoritative_deployment_fingerprint v = deployment_fingerprint i
        \<and> verified_runtime_binding v = runtime_binding i
        \<and> stamp (issued_at r) \<le> stamp t \<and> stamp t < stamp (expires_at r))"
proof -
  have gate: "authorized (evaluate_deployment_authority identity receipt verification mode now) \<longleftrightarrow>
      list_all fst (deployment_checks (identity, receipt, verification, mode, now))"
    using deployment_gate.authorized_iff_all [of "(identity, receipt, verification, mode, now)"] by simp
  have mode: "mode \<noteq> None \<and> mode \<noteq> Some READ_ONLY \<and> mode \<noteq> Some TEST_ONLY \<and> mode \<noteq> Some BLOCKED
      \<longleftrightarrow> mode = Some AUTHORITATIVE"
    by (cases mode) (auto intro: deployment_mode.exhaust)
  show ?thesis
    unfolding gate
    by (cases identity; cases receipt; cases verification; cases now)
      (use mode receipt_is_validD(1) in
        \<open>auto simp: deployment_binding_checks_def identities_match_iff runtime_bindings_match_def\<close>)
qed

text \<open>
  Every refusal is explained: the reported reason is the
  first check, in the order of the code, that the evidence fails, and the decision never claims
  the authoritative mode.
\<close>

lemma deployment_refusal_first_failure:
  assumes "\<not> authorized (evaluate_deployment_authority identity receipt verification mode now)"
  shows "(\<exists>passed rest. deployment_checks (identity, receipt, verification, mode, now)
            = passed @ (False, reason (evaluate_deployment_authority identity receipt verification mode now)) # rest
          \<and> list_all fst passed)
       \<and> decision_mode (evaluate_deployment_authority identity receipt verification mode now) \<noteq> AUTHORITATIVE"
proof
  show "\<exists>passed rest. deployment_checks (identity, receipt, verification, mode, now)
            = passed @ (False, reason (evaluate_deployment_authority identity receipt verification mode now)) # rest
          \<and> list_all fst passed"
    using deployment_gate.refusal_is_first_failure [of "(identity, receipt, verification, mode, now)"] assms
    by (simp del: deployment_checks.simps)
  show "decision_mode (evaluate_deployment_authority identity receipt verification mode now) \<noteq> AUTHORITATIVE"
    using assms by (simp add: decision_mode_authoritative_iff)
qed

section \<open>The binding digest pins the whole receipt\<close>

definition receipt_commitment :: "deployment_authority_receipt \<Rightarrow>
    (datetime \<times> datetime \<times> deployment_mode \<times> string)
    \<times> (string \<times> string \<times> string \<times> uuid \<times> string \<times> string)" where
  "receipt_commitment r = (let i = receipt_identity r in
     ((expires_at r, issued_at r, receipt_mode r, receipt_fingerprint r),
      (repository_fingerprint i, canonical_checkout_fingerprint i, state_fingerprint i, state_id i,
       deployment_fingerprint i, runtime_fingerprint (runtime_binding i))))"

definition well_timed :: "deployment_authority_receipt \<Rightarrow> bool" where
  "well_timed r \<longleftrightarrow> receipt_is_valid r \<and> valid_stamp (stamp (issued_at r)) \<and> valid_stamp (stamp (expires_at r))"

lemma mode_value_inj [simp]: "mode_value a = mode_value b \<longleftrightarrow> a = b"
  by (cases a; cases b) simp_all

lemma identity_fields_commit:
  assumes "canon (JObj (identity_fields i)) = canon (JObj (identity_fields j))"
  shows "repository_fingerprint i = repository_fingerprint j
    \<and> canonical_checkout_fingerprint i = canonical_checkout_fingerprint j
    \<and> state_fingerprint i = state_fingerprint j \<and> state_id i = state_id j
    \<and> deployment_fingerprint i = deployment_fingerprint j
    \<and> runtime_fingerprint (runtime_binding i) = runtime_fingerprint (runtime_binding j)"
proof -
  have "map (canon \<circ> snd) (identity_fields i) = map (canon \<circ> snd) (identity_fields j)"
    by (rule canon_fields_inj [OF _ _ assms]) (simp_all add: identity_fields_def)
  then show ?thesis by (auto simp: identity_fields_def dest: uuid_str_inj)
qed

definition receipt_keys :: "string list" where
  "receipt_keys = [''expires_at'', ''identity'', ''issued_at'', ''mode'', ''receipt_fingerprint'']"

interpretation dr: sealed_record receipt_keys receipt_fields receipt_commitment well_timed
proof unfold_locales
  show "map fst (receipt_fields r) = receipt_keys" for r
    by (simp add: receipt_fields_def receipt_keys_def)
  show "distinct receipt_keys" by (simp add: receipt_keys_def)
  show "receipt_commitment x = receipt_commitment y"
    if v: "well_timed x" "well_timed y"
      and eq: "map (canon \<circ> snd) (receipt_fields x) = map (canon \<circ> snd) (receipt_fields y)" for x y
  proof -
    have "canon (JObj (identity_fields (receipt_identity x))) = canon (JObj (identity_fields (receipt_identity y)))"
      and rest: "isoformat (expires_at x) = isoformat (expires_at y)" "isoformat (issued_at x) = isoformat (issued_at y)"
        "receipt_mode x = receipt_mode y" "receipt_fingerprint x = receipt_fingerprint y"
      using eq by (simp_all add: receipt_fields_def del: canon.simps(2)) 
    from identity_fields_commit [OF this(1)] rest v isoformat_inj receipt_is_validD show ?thesis
      by (auto simp: receipt_commitment_def well_timed_def Let_def)
  qed
qed

text \<open>
  One external observation authorizes at most one
  receipt: two receipts (with representable dates) that are both authorized under the same
  observation, for whatever identities and times, are the same receipt, unless their two
  canonical texts collide under SHA-256.
\<close>

lemma deployment_verification_exclusive:
  assumes "authorized (evaluate_deployment_authority i1 (Some r1) (Some v) m1 t1)"
    and "authorized (evaluate_deployment_authority i2 (Some r2) (Some v) m2 t2)"
    and "valid_stamp (stamp (issued_at r1))" "valid_stamp (stamp (expires_at r1))"
    and "valid_stamp (stamp (issued_at r2))" "valid_stamp (stamp (expires_at r2))"
  shows "r1 = r2 \<or>
    sha_collision (json_dumps (JObj (receipt_fields r1))) (json_dumps (JObj (receipt_fields r2)))"
proof -
  have v: "well_timed r1" "well_timed r2"
    using assms by (auto simp: well_timed_def deployment_authorized_facts)
  have eq: "hex_digest (JObj (receipt_fields r1)) = hex_digest (JObj (receipt_fields r2))"
    and rt: "runtime_binding (receipt_identity r1) = runtime_binding (receipt_identity r2)"
    using deployment_authorized_facts [OF assms(1)] deployment_authorized_facts [OF assms(2)]
    by (auto simp: receipt_binding_def)
  have "r1 = r2" if "receipt_commitment r1 = receipt_commitment r2"
    using that rt
    by (cases r1; cases r2; cases "receipt_identity r1"; cases "receipt_identity r2")
      (simp add: receipt_commitment_def Let_def)
  with dr.digest_commits [OF v eq] show ?thesis by blast
qed

end
