(* ===== verification/Deployment_Handoff.thy ===== *)
theory Deployment_Handoff
  imports Runtime_Binding
begin

text \<open>
  \<open>deployment_handoff.py\<close>: the authority store and the coordinator that moves it. Several
  coordinators share one store; each holds a private token (\<open>object()\<close> in the code, a number
  here). An operation takes the acting coordinator's token and the store, and returns the store
  it leaves behind with either a decision or a raised \<open>DeploymentHandoffError\<close>. The lock makes
  every operation one atomic step. A value of the wrong Python type is \<open>None\<close> where the code
  tests for it.
\<close>

section \<open>Data\<close>

datatype handoff_phase = STOPPING | RECONCILED | REVOKED

datatype receipt_verification_status =
  Verified_FRESH | Verified_MISSING | Verified_STALE | Verified_COPIED | Verified_CONFLICTING | Verified_REVOKED

datatype handoff_recovery_status = STALE_OWNER | Recovery_MISSING | Recovery_CONFLICTING

record authority_identity =
  ai_repository_fingerprint :: string
  ai_canonical_checkout_fingerprint :: string
  ai_state_store_fingerprint :: string
  ai_state_id :: uuid
  ai_deployment_fingerprint :: string
  ai_candidate_sha :: string
  ai_environment_fingerprint :: string
  ai_runtime_binding :: runtime_binding

record handoff_receipt =
  hr_receipt_fingerprint :: string
  hr_identity :: authority_identity
  hr_issued_at :: datetime
  hr_expires_at :: datetime

record receipt_verification =
  rv_evidence_fingerprint :: string
  rv_receipt_fingerprint :: string
  rv_receipt_binding_digest :: string
  rv_repository_fingerprint :: string
  rv_state_store_fingerprint :: string
  rv_state_id :: uuid
  rv_candidate_sha :: string
  rv_environment_fingerprint :: string
  rv_status :: receipt_verification_status

record handoff_reconciliation =
  rec_handoff_fingerprint :: string
  rec_old_receipt_fingerprint :: string
  rec_state_store_fingerprint :: string
  rec_state_id :: uuid
  dispatcher_stopped :: bool
  children_reconciled :: bool
  lease_reconciled :: bool
  rec_evidence_fingerprint :: string

definition complete :: "handoff_reconciliation \<Rightarrow> bool" where
  "complete e \<longleftrightarrow> dispatcher_stopped e \<and> children_reconciled e \<and> lease_reconciled e"

record handoff_teardown =
  td_handoff_fingerprint :: string
  td_old_receipt_fingerprint :: string
  td_state_store_fingerprint :: string
  td_state_id :: uuid
  resources_torn_down :: bool
  td_evidence_fingerprint :: string

record recovery_claim =
  cl_evidence_fingerprint :: string
  cl_handoff_fingerprint :: string
  cl_old_receipt_fingerprint :: string
  cl_receipt_binding_digest :: string
  cl_prior_owner_claim_fingerprint :: string
  cl_prior_owner_claim_generation :: int
  cl_replacement_owner_claim_fingerprint :: string
  cl_state_store_fingerprint :: string
  cl_state_id :: uuid
  cl_status :: handoff_recovery_status
  cl_observed_at :: datetime
  cl_expires_at :: datetime

record handoff_progress =
  pg_handoff_fingerprint :: string
  pg_old_receipt_fingerprint :: string
  pg_new_identity :: authority_identity
  pg_phase :: handoff_phase
  pg_reconciliation :: "handoff_reconciliation option"
  pg_owner_claim_fingerprint :: string
  pg_owner_claim_generation :: int
  pg_consumed_recovery_evidence :: "string list"

record handoff_decision =
  hd_authorized :: bool
  hd_reason :: string
  hd_receipt_fingerprint :: "string option"

record wakeup_decision =
  requested :: bool
  wk_reason :: string
  wk_receipt_fingerprint :: "string option"

record authority_store =
  state_store_fingerprint :: string
  store_state_id :: uuid
  active :: "handoff_receipt option"
  verification :: "receipt_verification option"
  progress :: "handoff_progress option"
  revoked :: "string set"
  claim_owner_token :: "nat option"
  claim_receipt_fingerprint :: "string option"
  claim_binding_digest :: "string option"
  claim_fingerprint :: "string option"
  claim_generation :: int
  handoff_owner_token :: "nat option"
  handoff_fingerprint :: "string option"
  handoff_binding_digest :: "string option"
  handoff_owner_claim_fingerprint :: "string option"
  handoff_owner_claim_generation :: "int option"
  consumed_recovery_evidence :: "string set"

section \<open>Construction guards\<close>

definition handoff_require_fingerprint :: "string \<Rightarrow> string \<Rightarrow> bool \<times> py_error" where
  "handoff_require_fingerprint value description =
     (is_fingerprint value, DeploymentHandoffError (description @ '' fingerprint is invalid''))"

definition handoff_require_candidate :: "string \<Rightarrow> string \<Rightarrow> bool \<times> py_error" where
  "handoff_require_candidate value description =
     (is_commit_sha value, DeploymentHandoffError (description @ '' candidate identity is invalid''))"

definition handoff_require_utc :: "datetime \<Rightarrow> string \<Rightarrow> bool \<times> py_error" where
  "handoff_require_utc value description = (is_utc value, DeploymentHandoffError (description @ '' is invalid''))"

definition authority_identity_guards :: "authority_identity \<Rightarrow> (bool \<times> py_error) list" where
  "authority_identity_guards i =
     [handoff_require_fingerprint (ai_repository_fingerprint i) ''repository'',
      handoff_require_fingerprint (ai_canonical_checkout_fingerprint i) ''canonical checkout'',
      handoff_require_fingerprint (ai_state_store_fingerprint i) ''state store'',
      handoff_require_fingerprint (ai_deployment_fingerprint i) ''deployment'',
      handoff_require_fingerprint (ai_environment_fingerprint i) ''environment'',
      handoff_require_candidate (ai_candidate_sha i) ''deployment'']"

definition handoff_receipt_guards :: "handoff_receipt \<Rightarrow> (bool \<times> py_error) list" where
  "handoff_receipt_guards r =
     [handoff_require_fingerprint (hr_receipt_fingerprint r) ''authority receipt'',
      handoff_require_utc (hr_issued_at r) ''authority receipt issue time'',
      handoff_require_utc (hr_expires_at r) ''authority receipt expiry'',
      (stamp (hr_issued_at r) < stamp (hr_expires_at r),
         DeploymentHandoffError ''authority receipt validity window is invalid'')]"

definition receipt_verification_guards :: "receipt_verification \<Rightarrow> (bool \<times> py_error) list" where
  "receipt_verification_guards v =
     [handoff_require_fingerprint (rv_evidence_fingerprint v) ''receipt verification evidence'',
      handoff_require_fingerprint (rv_receipt_fingerprint v) ''verified receipt'',
      handoff_require_fingerprint (rv_receipt_binding_digest v) ''verified receipt binding'',
      handoff_require_fingerprint (rv_repository_fingerprint v) ''verified repository'',
      handoff_require_fingerprint (rv_state_store_fingerprint v) ''verified state store'',
      handoff_require_fingerprint (rv_environment_fingerprint v) ''verified environment'',
      handoff_require_candidate (rv_candidate_sha v) ''verified'']"

definition reconciliation_guards :: "handoff_reconciliation \<Rightarrow> (bool \<times> py_error) list" where
  "reconciliation_guards e =
     [handoff_require_fingerprint (rec_handoff_fingerprint e) ''handoff'',
      handoff_require_fingerprint (rec_old_receipt_fingerprint e) ''old receipt'',
      handoff_require_fingerprint (rec_state_store_fingerprint e) ''state store'',
      handoff_require_fingerprint (rec_evidence_fingerprint e) ''reconciliation evidence'']"

definition teardown_guards :: "handoff_teardown \<Rightarrow> (bool \<times> py_error) list" where
  "teardown_guards e =
     [handoff_require_fingerprint (td_handoff_fingerprint e) ''handoff'',
      handoff_require_fingerprint (td_old_receipt_fingerprint e) ''old receipt'',
      handoff_require_fingerprint (td_state_store_fingerprint e) ''state store'',
      handoff_require_fingerprint (td_evidence_fingerprint e) ''teardown evidence'']"

definition recovery_claim_guards :: "recovery_claim \<Rightarrow> (bool \<times> py_error) list" where
  "recovery_claim_guards c =
     [handoff_require_fingerprint (cl_evidence_fingerprint c) ''handoff recovery evidence'',
      handoff_require_fingerprint (cl_handoff_fingerprint c) ''handoff recovery'',
      handoff_require_fingerprint (cl_old_receipt_fingerprint c) ''recovery old receipt'',
      handoff_require_fingerprint (cl_receipt_binding_digest c) ''recovery receipt binding'',
      handoff_require_fingerprint (cl_prior_owner_claim_fingerprint c) ''recovery prior owner claim'',
      handoff_require_fingerprint (cl_replacement_owner_claim_fingerprint c) ''recovery replacement owner claim'',
      handoff_require_fingerprint (cl_state_store_fingerprint c) ''recovery state store'',
      (1 \<le> cl_prior_owner_claim_generation c, DeploymentHandoffError ''handoff recovery claim is invalid''),
      handoff_require_utc (cl_observed_at c) ''handoff recovery observation time'',
      handoff_require_utc (cl_expires_at c) ''handoff recovery expiry'',
      (stamp (cl_observed_at c) < stamp (cl_expires_at c),
         DeploymentHandoffError ''handoff recovery validity window is invalid'')]"

text \<open>
  \<open>HandoffProgress(...)\<close>. The owner claim comes from the store, where it may be \<open>None\<close>; the
  constructor then raises, so the placeholder below is never stored.
\<close>

definition make_progress ::
  "string \<Rightarrow> string \<Rightarrow> authority_identity \<Rightarrow> handoff_phase \<Rightarrow> handoff_reconciliation option
     \<Rightarrow> string option \<Rightarrow> int \<Rightarrow> string list \<Rightarrow> handoff_progress result" where
  "make_progress handoff old new phase reconciliation owner generation consumed =
     construct
      ([handoff_require_fingerprint handoff ''handoff'',
        handoff_require_fingerprint old ''old receipt'',
        (present is_fingerprint owner, DeploymentHandoffError ''handoff owner claim fingerprint is invalid''),
        (1 \<le> generation, DeploymentHandoffError ''handoff owner claim generation is invalid''),
        (distinct consumed, DeploymentHandoffError ''handoff recovery evidence history is invalid'')]
       @ map (\<lambda>value. handoff_require_fingerprint value ''handoff recovery evidence'') consumed
       @ [(phase = STOPPING \<longrightarrow> reconciliation = None,
             DeploymentHandoffError ''stopping handoff cannot have reconciliation evidence''),
          (phase = RECONCILED \<longrightarrow> present complete reconciliation,
             DeploymentHandoffError ''reconciled handoff lacks complete evidence''),
          (phase = REVOKED \<longrightarrow> present complete reconciliation,
             DeploymentHandoffError ''revoked handoff lacks complete evidence'')])
      \<lparr>pg_handoff_fingerprint = handoff, pg_old_receipt_fingerprint = old, pg_new_identity = new,
       pg_phase = phase, pg_reconciliation = reconciliation,
       pg_owner_claim_fingerprint = (case owner of None \<Rightarrow> [] | Some f \<Rightarrow> f),
       pg_owner_claim_generation = generation, pg_consumed_recovery_evidence = consumed\<rparr>"

definition make_store :: "string \<Rightarrow> uuid \<Rightarrow> authority_store result" where
  "make_store fingerprint uuid = construct [handoff_require_fingerprint fingerprint ''state store'']
     \<lparr>state_store_fingerprint = fingerprint, store_state_id = uuid, active = None, verification = None,
      progress = None, revoked = {}, claim_owner_token = None, claim_receipt_fingerprint = None,
      claim_binding_digest = None, claim_fingerprint = None, claim_generation = 0,
      handoff_owner_token = None, handoff_fingerprint = None, handoff_binding_digest = None,
      handoff_owner_claim_fingerprint = None, handoff_owner_claim_generation = None,
      consumed_recovery_evidence = {}\<rparr>"

section \<open>Equality and matching\<close>

text \<open>Generated dataclass equality: the runtime binding contributes its four compared fields.\<close>

definition authority_identity_eq :: "authority_identity \<Rightarrow> authority_identity \<Rightarrow> bool" where
  "authority_identity_eq a b \<longleftrightarrow>
     ai_repository_fingerprint a = ai_repository_fingerprint b
     \<and> ai_canonical_checkout_fingerprint a = ai_canonical_checkout_fingerprint b
     \<and> ai_state_store_fingerprint a = ai_state_store_fingerprint b
     \<and> ai_state_id a = ai_state_id b
     \<and> ai_deployment_fingerprint a = ai_deployment_fingerprint b
     \<and> ai_candidate_sha a = ai_candidate_sha b
     \<and> ai_environment_fingerprint a = ai_environment_fingerprint b
     \<and> runtime_binding_eq (ai_runtime_binding a) (ai_runtime_binding b)"

definition handoff_receipt_eq :: "handoff_receipt \<Rightarrow> handoff_receipt \<Rightarrow> bool" where
  "handoff_receipt_eq a b \<longleftrightarrow>
     hr_receipt_fingerprint a = hr_receipt_fingerprint b
     \<and> authority_identity_eq (hr_identity a) (hr_identity b)
     \<and> hr_issued_at a = hr_issued_at b \<and> hr_expires_at a = hr_expires_at b"

fun active_is :: "handoff_receipt option \<Rightarrow> handoff_receipt option \<Rightarrow> bool" where
  "active_is (Some a) (Some r) = handoff_receipt_eq a r"
| "active_is None None = True"
| "active_is _ _ = False"

definition handoff_receipt_fields :: "handoff_receipt \<Rightarrow> (string \<times> json) list" where
  "handoff_receipt_fields r =
     [(''receipt_fingerprint'', JStr (hr_receipt_fingerprint r)),
      (''repository_fingerprint'', JStr (ai_repository_fingerprint (hr_identity r))),
      (''canonical_checkout_fingerprint'', JStr (ai_canonical_checkout_fingerprint (hr_identity r))),
      (''state_store_fingerprint'', JStr (ai_state_store_fingerprint (hr_identity r))),
      (''state_id'', JStr (uuid_str (ai_state_id (hr_identity r)))),
      (''deployment_fingerprint'', JStr (ai_deployment_fingerprint (hr_identity r))),
      (''candidate_sha'', JStr (ai_candidate_sha (hr_identity r))),
      (''environment_fingerprint'', JStr (ai_environment_fingerprint (hr_identity r))),
      (''runtime_binding'', JStr (runtime_fingerprint (ai_runtime_binding (hr_identity r)))),
      (''issued_at'', JStr (isoformat (hr_issued_at r))),
      (''expires_at'', JStr (isoformat (hr_expires_at r)))]"

definition binding_digest :: "handoff_receipt \<Rightarrow> string" where
  "binding_digest r = hex_digest (JObj (handoff_receipt_fields r))"

definition receipt_current :: "handoff_receipt \<Rightarrow> datetime \<Rightarrow> bool" where
  "receipt_current r now \<longleftrightarrow> is_utc now \<and> stamp (hr_issued_at r) \<le> stamp now \<and> stamp now < stamp (hr_expires_at r)"

fun verification_matches :: "handoff_receipt \<Rightarrow> receipt_verification option \<Rightarrow> bool" where
  "verification_matches r None = False"
| "verification_matches r (Some v) =
     (rv_status v = Verified_FRESH
      \<and> rv_receipt_fingerprint v = hr_receipt_fingerprint r
      \<and> rv_receipt_binding_digest v = binding_digest r
      \<and> rv_repository_fingerprint v = ai_repository_fingerprint (hr_identity r)
      \<and> rv_state_store_fingerprint v = ai_state_store_fingerprint (hr_identity r)
      \<and> rv_state_id v = ai_state_id (hr_identity r)
      \<and> rv_candidate_sha v = ai_candidate_sha (hr_identity r)
      \<and> rv_environment_fingerprint v = ai_environment_fingerprint (hr_identity r))"

datatype old_authority = OldReceipt handoff_receipt | OldDigest string | OldUnknown

definition recovery_matches ::
  "recovery_claim option \<Rightarrow> string \<Rightarrow> old_authority \<Rightarrow> authority_store \<Rightarrow> string option
     \<Rightarrow> string option \<Rightarrow> int \<Rightarrow> datetime \<Rightarrow> bool" where
  "recovery_matches claim handoff old store old_fingerprint prior_owner prior_generation now =
    (case claim of None \<Rightarrow> False
     | Some c \<Rightarrow>
       if cl_status c \<noteq> STALE_OWNER then False else
       (case (case old of OldReceipt r \<Rightarrow> Some (binding_digest r, Some (hr_receipt_fingerprint r))
              | OldDigest d \<Rightarrow> Some (d, old_fingerprint) | OldUnknown \<Rightarrow> None) of
          None \<Rightarrow> False
        | Some (digest, fingerprint) \<Rightarrow>
            cl_handoff_fingerprint c = handoff
            \<and> Some (cl_old_receipt_fingerprint c) = fingerprint
            \<and> cl_receipt_binding_digest c = digest
            \<and> cl_state_store_fingerprint c = state_store_fingerprint store
            \<and> cl_state_id c = store_state_id store
            \<and> Some (cl_prior_owner_claim_fingerprint c) = prior_owner
            \<and> cl_prior_owner_claim_generation c = prior_generation
            \<and> is_utc now
            \<and> stamp (cl_observed_at c) \<le> stamp now \<and> stamp now < stamp (cl_expires_at c)))"

definition same_authority_domain :: "authority_identity \<Rightarrow> authority_identity \<Rightarrow> bool" where
  "same_authority_domain l r \<longleftrightarrow>
     ai_repository_fingerprint l = ai_repository_fingerprint r
     \<and> ai_canonical_checkout_fingerprint l = ai_canonical_checkout_fingerprint r
     \<and> ai_state_store_fingerprint l = ai_state_store_fingerprint r
     \<and> ai_state_id l = ai_state_id r
     \<and> runtime_binding_eq (ai_runtime_binding l) (ai_runtime_binding r)"

fun identity_names_this_store :: "authority_store \<Rightarrow> authority_identity option \<Rightarrow> bool" where
  "identity_names_this_store s None = False"
| "identity_names_this_store s (Some i) =
     (ai_state_store_fingerprint i = state_store_fingerprint s \<and> ai_state_id i = store_state_id s)"

definition receipt_names_this_store :: "authority_store \<Rightarrow> handoff_receipt option \<Rightarrow> bool" where
  "receipt_names_this_store s receipt = identity_names_this_store s (map_option hr_identity receipt)"

definition holds_claim :: "nat \<Rightarrow> authority_store \<Rightarrow> handoff_receipt \<Rightarrow> string option \<Rightarrow> bool" where
  "holds_claim token s r fingerprint \<longleftrightarrow>
     claim_owner_token s = Some token
     \<and> claim_receipt_fingerprint s = Some (hr_receipt_fingerprint r)
     \<and> claim_binding_digest s = Some (binding_digest r)
     \<and> claim_fingerprint s = fingerprint"

definition holds_handoff_claim :: "nat \<Rightarrow> authority_store \<Rightarrow> handoff_progress \<Rightarrow> bool" where
  "holds_handoff_claim token s p \<longleftrightarrow>
     handoff_owner_token s = Some token
     \<and> handoff_fingerprint s = Some (pg_handoff_fingerprint p)
     \<and> handoff_binding_digest s \<noteq> None
     \<and> handoff_owner_claim_fingerprint s = Some (pg_owner_claim_fingerprint p)
     \<and> handoff_owner_claim_generation s = Some (pg_owner_claim_generation p)"

definition clear_authority_claim :: "authority_store \<Rightarrow> authority_store" where
  "clear_authority_claim s = s\<lparr>claim_owner_token := None, claim_receipt_fingerprint := None,
     claim_binding_digest := None, claim_fingerprint := None\<rparr>"

definition clear_handoff_claim :: "authority_store \<Rightarrow> authority_store" where
  "clear_handoff_claim s = s\<lparr>handoff_owner_token := None, handoff_fingerprint := None,
     handoff_binding_digest := None, handoff_owner_claim_fingerprint := None,
     handoff_owner_claim_generation := None\<rparr>"

section \<open>Operations of the coordinator\<close>

type_synonym 'a outcome = "authority_store \<times> 'a result"

definition refuse :: "string \<Rightarrow> handoff_decision" where
  "refuse why = \<lparr>hd_authorized = False, hd_reason = why, hd_receipt_fingerprint = None\<rparr>"

definition permit :: "string \<Rightarrow> string \<Rightarrow> handoff_decision" where
  "permit why fingerprint = \<lparr>hd_authorized = True, hd_reason = why, hd_receipt_fingerprint = Some fingerprint\<rparr>"

definition activate_initial ::
  "handoff_receipt option \<Rightarrow> receipt_verification option \<Rightarrow> datetime \<Rightarrow> authority_store
     \<Rightarrow> handoff_decision outcome" where
  "activate_initial receipt verified now s =
    (case receipt of
       None \<Rightarrow> (s, Inr (refuse ''receipt does not name the canonical authority state''))
     | Some r \<Rightarrow>
       if \<not> receipt_names_this_store s receipt
         then (s, Inr (refuse ''receipt does not name the canonical authority state'')) else
       if \<not> receipt_current r now then (s, Inr (refuse ''receipt is not current'')) else
       if \<not> verification_matches r verified
         then (s, Inr (refuse ''receipt lacks fresh canonical verification'')) else
       if active s \<noteq> None \<or> progress s \<noteq> None
         then (s, Inr (refuse ''an authority is already active or handing off'')) else
       if hr_receipt_fingerprint r \<in> revoked s then (s, Inr (refuse ''receipt was revoked'')) else
       (clear_handoff_claim (clear_authority_claim (s\<lparr>active := Some r, verification := verified\<rparr>)),
        Inr (permit ''initial receipt is the sole active authority'' (hr_receipt_fingerprint r))))"

definition claim_orchestrator ::
  "nat \<Rightarrow> handoff_receipt option \<Rightarrow> string \<Rightarrow> datetime \<Rightarrow> authority_store \<Rightarrow> handoff_decision outcome" where
  "claim_orchestrator token receipt fingerprint now s =
    (if \<not> is_fingerprint fingerprint
       then (s, Inl (DeploymentHandoffError ''orchestrator claim fingerprint is invalid'')) else
     if progress s \<noteq> None
       then (s, Inr (refuse ''authority handoff is incomplete; no orchestrator may claim it'')) else
     if \<not> active_is (active s) receipt \<or> \<not> receipt_names_this_store s receipt
       then (s, Inr (refuse ''receipt is absent, copied, revoked, or not the active authority'')) else
     (case receipt of
        None \<Rightarrow> (s, Inr (refuse ''receipt is absent, copied, revoked, or not the active authority''))
      | Some r \<Rightarrow>
        if \<not> receipt_current r now \<or> \<not> verification_matches r (verification s)
          then (s, Inr (refuse ''receipt lacks fresh canonical verification'')) else
        if claim_owner_token s = None
          then (s\<lparr>claim_owner_token := Some token,
                  claim_receipt_fingerprint := Some (hr_receipt_fingerprint r),
                  claim_binding_digest := Some (binding_digest r),
                  claim_fingerprint := Some fingerprint,
                  claim_generation := claim_generation s + 1\<rparr>,
                Inr (permit ''exclusive canonical orchestrator claim acquired'' (hr_receipt_fingerprint r))) else
        if holds_claim token s r (Some fingerprint)
          then (s, Inr (permit ''exclusive canonical orchestrator claim remains current'' (hr_receipt_fingerprint r))) else
        (s, Inr (refuse ''receipt is copied or conflicting; another orchestrator holds the canonical claim''))))"

definition authorize_locked ::
  "nat \<Rightarrow> authority_identity option \<Rightarrow> handoff_receipt option \<Rightarrow> datetime \<Rightarrow> authority_store
     \<Rightarrow> handoff_decision" where
  "authorize_locked token identity receipt now s =
    (case (identity, receipt) of
       (Some i, Some r) \<Rightarrow>
         if \<not> receipt_names_this_store s receipt
           then refuse ''authority identity is unavailable or names another state store'' else
         if progress s \<noteq> None
           then refuse ''authority handoff is incomplete; dispatch remains blocked'' else
         if \<not> active_is (active s) receipt
           then refuse ''receipt is absent, copied, revoked, or not the active authority'' else
         if hr_receipt_fingerprint r \<in> revoked s then refuse ''receipt was revoked'' else
         if \<not> verification_matches r (verification s)
           then refuse ''receipt lacks fresh canonical verification'' else
         if \<not> holds_claim token s r (claim_fingerprint s)
           then refuse ''receipt has no exclusive canonical orchestrator claim'' else
         if \<not> authority_identity_eq (hr_identity r) i
           then refuse ''receipt does not match deployment candidate or environment'' else
         if \<not> receipt_current r now then refuse ''receipt is stale or not yet active'' else
         permit ''one exact authority receipt is current'' (hr_receipt_fingerprint r)
     | _ \<Rightarrow> refuse ''authority identity is unavailable or names another state store'')"

definition authorize ::
  "nat \<Rightarrow> authority_identity option \<Rightarrow> handoff_receipt option \<Rightarrow> datetime \<Rightarrow> authority_store
     \<Rightarrow> handoff_decision outcome" where
  "authorize token identity receipt now s = (s, Inr (authorize_locked token identity receipt now s))"

text \<open>The transition runs under the store's lock; it may itself move the store.\<close>

definition transition_if_authorized ::
  "nat \<Rightarrow> authority_identity option \<Rightarrow> handoff_receipt option \<Rightarrow> datetime
     \<Rightarrow> (authority_store \<Rightarrow> authority_store \<times> 'r) \<Rightarrow> authority_store
     \<Rightarrow> authority_store \<times> handoff_decision \<times> 'r option" where
  "transition_if_authorized token identity receipt now transition s =
    (let authority = authorize_locked token identity receipt now s in
     if \<not> hd_authorized authority then (s, authority, None)
     else (let (s', r) = transition s in (s', authority, Some r)))"

definition request_scheduler_wakeup ::
  "nat \<Rightarrow> authority_identity option \<Rightarrow> handoff_receipt option \<Rightarrow> datetime \<Rightarrow> authority_store
     \<Rightarrow> wakeup_decision" where
  "request_scheduler_wakeup token identity receipt now s =
    (let decision = authorize_locked token identity receipt now s in
     if \<not> hd_authorized decision
     then \<lparr>requested = False, wk_reason = hd_reason decision, wk_receipt_fingerprint = hd_receipt_fingerprint decision\<rparr>
     else \<lparr>requested = True, wk_reason = ''work may be requested from the receipt-bound orchestrator'',
           wk_receipt_fingerprint = hd_receipt_fingerprint decision\<rparr>)"

definition begin_handoff ::
  "nat \<Rightarrow> handoff_receipt option \<Rightarrow> authority_identity option \<Rightarrow> string \<Rightarrow> datetime
     \<Rightarrow> recovery_claim option \<Rightarrow> authority_store \<Rightarrow> handoff_decision outcome" where
  "begin_handoff token old new handoff now recovery s =
    (if \<not> is_fingerprint handoff
       then (s, Inl (DeploymentHandoffError ''handoff fingerprint is invalid'')) else
     if progress s \<noteq> None then (s, Inr (refuse ''another handoff is already incomplete'')) else
     (case old of
        None \<Rightarrow> (s, Inr (refuse ''old receipt is not the active canonical authority''))
      | Some r \<Rightarrow>
        if \<not> active_is (active s) old \<or> \<not> receipt_names_this_store s old
          then (s, Inr (refuse ''old receipt is not the active canonical authority'')) else
        let fresh_owner_claim = holds_claim token s r (claim_fingerprint s) \<and> receipt_current r now in
        if fresh_owner_claim \<and> recovery \<noteq> None
          then (s, Inr (refuse ''fresh authority cannot begin a handoff with recovery evidence'')) else
        let recovery_is_valid = (case recovery of None \<Rightarrow> False
              | Some c \<Rightarrow> recovery_matches recovery handoff (OldReceipt r) s None
                    (claim_fingerprint s) (claim_generation s) now
                  \<and> cl_evidence_fingerprint c \<notin> consumed_recovery_evidence s) in
        if \<not> fresh_owner_claim \<and> \<not> recovery_is_valid
          then (s, Inr (refuse ''old authority claim is unavailable and lacks fresh unreplayed recovery verification'')) else
        if \<not> identity_names_this_store s new
          then (s, Inr (refuse ''new authority names another state store'')) else
        (case new of None \<Rightarrow> (s, Inr (refuse ''new authority names another state store''))
         | Some n \<Rightarrow>
           if \<not> same_authority_domain (hr_identity r) n
             then (s, Inr (refuse ''new authority does not match the canonical repository state'')) else
           if authority_identity_eq (hr_identity r) n
             then (s, Inr (refuse ''handoff must select a distinct candidate or environment'')) else
           (case make_progress handoff (hr_receipt_fingerprint r) n STOPPING None
                  (case recovery of Some c \<Rightarrow>
                       if recovery_is_valid then Some (cl_replacement_owner_claim_fingerprint c) else claim_fingerprint s
                     | None \<Rightarrow> claim_fingerprint s)
                  (case recovery of Some c \<Rightarrow>
                       if recovery_is_valid then cl_prior_owner_claim_generation c + 1 else claim_generation s
                     | None \<Rightarrow> claim_generation s)
                  (case recovery of Some c \<Rightarrow>
                       if recovery_is_valid then [cl_evidence_fingerprint c] else []
                     | None \<Rightarrow> []) of
              Inl e \<Rightarrow> (s, Inl e)
            | Inr p \<Rightarrow>
              (s\<lparr>progress := Some p, handoff_owner_token := Some token,
                 handoff_fingerprint := Some handoff,
                 handoff_binding_digest := Some (binding_digest r),
                 handoff_owner_claim_fingerprint := Some (pg_owner_claim_fingerprint p),
                 handoff_owner_claim_generation := Some (pg_owner_claim_generation p),
                 consumed_recovery_evidence := (case recovery of Some c \<Rightarrow>
                     if recovery_is_valid then insert (cl_evidence_fingerprint c) (consumed_recovery_evidence s)
                     else consumed_recovery_evidence s
                   | None \<Rightarrow> consumed_recovery_evidence s)\<rparr>,
               Inr (permit ''old authority is now non-dispatching pending reconciliation''
                      (hr_receipt_fingerprint r)))))))"

text \<open>
  The store is moved before the new progress record is built: should that constructor raise,
  the earlier assignments remain.
\<close>

definition recover_handoff ::
  "nat \<Rightarrow> recovery_claim option \<Rightarrow> datetime \<Rightarrow> authority_store \<Rightarrow> handoff_decision outcome" where
  "recover_handoff token claim now s =
    (case progress s of
       None \<Rightarrow> (s, Inr (refuse ''no interrupted handoff can be recovered''))
     | Some p \<Rightarrow>
       (case claim of
          None \<Rightarrow> (s, Inr (refuse ''handoff recovery lacks exact stale-owner verification''))
        | Some c \<Rightarrow>
          if \<not> recovery_matches claim (pg_handoff_fingerprint p)
                (case active s of Some r \<Rightarrow> OldReceipt r
                 | None \<Rightarrow> (case handoff_binding_digest s of Some d \<Rightarrow> OldDigest d | None \<Rightarrow> OldUnknown))
                s (Some (pg_old_receipt_fingerprint p)) (Some (pg_owner_claim_fingerprint p))
                (pg_owner_claim_generation p) now
             \<or> cl_evidence_fingerprint c \<in> consumed_recovery_evidence s
          then (s, Inr (refuse ''handoff recovery lacks exact stale-owner verification'')) else
          let s1 = s\<lparr>handoff_owner_token := Some token,
                     handoff_fingerprint := Some (pg_handoff_fingerprint p),
                     handoff_binding_digest := Some (cl_receipt_binding_digest c),
                     handoff_owner_claim_fingerprint := Some (cl_replacement_owner_claim_fingerprint c),
                     handoff_owner_claim_generation := Some (cl_prior_owner_claim_generation c + 1),
                     consumed_recovery_evidence :=
                       insert (cl_evidence_fingerprint c) (consumed_recovery_evidence s)\<rparr> in
          (case make_progress (pg_handoff_fingerprint p) (pg_old_receipt_fingerprint p) (pg_new_identity p)
                  (pg_phase p) (pg_reconciliation p) (Some (cl_replacement_owner_claim_fingerprint c))
                  (cl_prior_owner_claim_generation c + 1)
                  (pg_consumed_recovery_evidence p @ [cl_evidence_fingerprint c]) of
             Inl e \<Rightarrow> (s1, Inl e)
           | Inr p' \<Rightarrow> (s1\<lparr>progress := Some p'\<rparr>,
               Inr (permit ''independently verified stale-owner recovery claim acquired''
                      (pg_old_receipt_fingerprint p))))))"

definition reconcile :: "nat \<Rightarrow> handoff_reconciliation \<Rightarrow> authority_store \<Rightarrow> handoff_decision outcome" where
  "reconcile token evidence s =
    (case progress s of
       None \<Rightarrow> (s, Inr (refuse ''no stopping handoff can accept reconciliation evidence''))
     | Some p \<Rightarrow>
       if pg_phase p \<noteq> STOPPING
         then (s, Inr (refuse ''no stopping handoff can accept reconciliation evidence'')) else
       if \<not> holds_handoff_claim token s p
         then (s, Inr (refuse ''handoff is owned by another coordinator or requires recovery verification'')) else
       if rec_handoff_fingerprint evidence \<noteq> pg_handoff_fingerprint p
          \<or> rec_old_receipt_fingerprint evidence \<noteq> pg_old_receipt_fingerprint p
          \<or> rec_state_store_fingerprint evidence \<noteq> state_store_fingerprint s
          \<or> rec_state_id evidence \<noteq> store_state_id s
          \<or> \<not> complete evidence
         then (s, Inr (refuse ''reconciliation evidence is incomplete or does not match machine truth'')) else
       (case make_progress (pg_handoff_fingerprint p) (pg_old_receipt_fingerprint p) (pg_new_identity p)
               RECONCILED (Some evidence) (Some (pg_owner_claim_fingerprint p))
               (pg_owner_claim_generation p) (pg_consumed_recovery_evidence p) of
          Inl e \<Rightarrow> (s, Inl e)
        | Inr p' \<Rightarrow> (s\<lparr>progress := Some p'\<rparr>,
            Inr (permit ''old authority is reconciled and may be revoked'' (pg_old_receipt_fingerprint p)))))"

definition revoke_old_receipt :: "nat \<Rightarrow> string \<Rightarrow> authority_store \<Rightarrow> handoff_decision outcome" where
  "revoke_old_receipt token handoff s =
    (if \<not> is_fingerprint handoff
       then (s, Inl (DeploymentHandoffError ''handoff fingerprint is invalid'')) else
     (case progress s of
        None \<Rightarrow> (s, Inr (refuse ''old receipt cannot be revoked before matching reconciliation''))
      | Some p \<Rightarrow>
        if pg_phase p \<noteq> RECONCILED \<or> pg_handoff_fingerprint p \<noteq> handoff
          then (s, Inr (refuse ''old receipt cannot be revoked before matching reconciliation'')) else
        if \<not> holds_handoff_claim token s p
          then (s, Inr (refuse ''handoff is owned by another coordinator or requires recovery verification'')) else
        (case active s of
           None \<Rightarrow> (s, Inr (refuse ''machine truth no longer contains the old active receipt''))
         | Some a \<Rightarrow>
           if hr_receipt_fingerprint a \<noteq> pg_old_receipt_fingerprint p
             then (s, Inr (refuse ''machine truth no longer contains the old active receipt'')) else
           let s1 = clear_authority_claim
                 (s\<lparr>revoked := insert (hr_receipt_fingerprint a) (revoked s), active := None, verification := None\<rparr>) in
           (case make_progress (pg_handoff_fingerprint p) (pg_old_receipt_fingerprint p) (pg_new_identity p)
                   REVOKED (pg_reconciliation p) (Some (pg_owner_claim_fingerprint p))
                   (pg_owner_claim_generation p) (pg_consumed_recovery_evidence p) of
              Inl e \<Rightarrow> (s1, Inl e)
            | Inr p' \<Rightarrow> (s1\<lparr>progress := Some p'\<rparr>,
                Inr (permit ''old receipt is revoked; no authority is dispatching'' (hr_receipt_fingerprint a)))))))"

definition issue_new_receipt ::
  "nat \<Rightarrow> handoff_receipt \<Rightarrow> receipt_verification option \<Rightarrow> string \<Rightarrow> datetime \<Rightarrow> authority_store
     \<Rightarrow> handoff_decision outcome" where
  "issue_new_receipt token r verified handoff now s =
    (if \<not> is_fingerprint handoff
       then (s, Inl (DeploymentHandoffError ''handoff fingerprint is invalid'')) else
     (case progress s of
        None \<Rightarrow> (s, Inr (refuse ''new receipt cannot issue before old receipt revocation''))
      | Some p \<Rightarrow>
        if pg_phase p \<noteq> REVOKED \<or> pg_handoff_fingerprint p \<noteq> handoff
          then (s, Inr (refuse ''new receipt cannot issue before old receipt revocation'')) else
        if \<not> holds_handoff_claim token s p
          then (s, Inr (refuse ''handoff is owned by another coordinator or requires recovery verification'')) else
        if \<not> authority_identity_eq (hr_identity r) (pg_new_identity p) \<or> \<not> receipt_names_this_store s (Some r)
          then (s, Inr (refuse ''new receipt does not match the reconciled handoff target'')) else
        if \<not> receipt_current r now \<or> hr_receipt_fingerprint r \<in> revoked s \<or> \<not> verification_matches r verified
          then (s, Inr (refuse ''new receipt is stale, revoked, or not yet active'')) else
        ((clear_handoff_claim
           (s\<lparr>active := Some r, verification := verified, claim_owner_token := Some token,
              claim_receipt_fingerprint := Some (hr_receipt_fingerprint r),
              claim_binding_digest := Some (binding_digest r),
              claim_fingerprint := Some (pg_owner_claim_fingerprint p),
              claim_generation := pg_owner_claim_generation p\<rparr>))\<lparr>progress := None\<rparr>,
         Inr (permit ''new receipt is the sole active authority'' (hr_receipt_fingerprint r)))))"

definition complete_teardown :: "nat \<Rightarrow> handoff_teardown option \<Rightarrow> authority_store \<Rightarrow> handoff_decision outcome" where
  "complete_teardown token evidence s =
    (case progress s of
       None \<Rightarrow> (s, Inr (refuse ''no revoked handoff can complete teardown''))
     | Some p \<Rightarrow>
       if pg_phase p \<noteq> REVOKED then (s, Inr (refuse ''no revoked handoff can complete teardown'')) else
       if \<not> holds_handoff_claim token s p
         then (s, Inr (refuse ''handoff is owned by another coordinator or requires recovery verification'')) else
       (case evidence of
          None \<Rightarrow> (s, Inr (refuse ''teardown evidence is incomplete or does not match revoked machine truth''))
        | Some e \<Rightarrow>
          if td_handoff_fingerprint e \<noteq> pg_handoff_fingerprint p
             \<or> td_old_receipt_fingerprint e \<noteq> pg_old_receipt_fingerprint p
             \<or> td_state_store_fingerprint e \<noteq> state_store_fingerprint s
             \<or> td_state_id e \<noteq> store_state_id s
             \<or> \<not> resources_torn_down e
             \<or> active s \<noteq> None
          then (s, Inr (refuse ''teardown evidence is incomplete or does not match revoked machine truth'')) else
          (clear_handoff_claim (s\<lparr>progress := None\<rparr>),
           Inr (permit ''revoked handoff resources are torn down and no authority is active''
                  (td_old_receipt_fingerprint e)))))"

section \<open>Runs of the store\<close>

text \<open>
  One call on one coordinator. Every operation of the class appears; the two read-only ones
  (\<open>authorize\<close> and \<open>request_scheduler_wakeup\<close>, which rests on it) share a constructor.
\<close>

datatype handoff_op =
    ActivateInitial "handoff_receipt option" "receipt_verification option" datetime
  | ClaimOrchestrator "handoff_receipt option" string datetime
  | Authorize "authority_identity option" "handoff_receipt option" datetime
  | BeginHandoff "handoff_receipt option" "authority_identity option" string datetime "recovery_claim option"
  | RecoverHandoff "recovery_claim option" datetime
  | Reconcile handoff_reconciliation
  | RevokeOldReceipt string
  | IssueNewReceipt handoff_receipt "receipt_verification option" string datetime
  | CompleteTeardown "handoff_teardown option"

fun run_op :: "nat \<Rightarrow> handoff_op \<Rightarrow> authority_store \<Rightarrow> handoff_decision outcome" where
  "run_op token (ActivateInitial r v now) s = activate_initial r v now s"
| "run_op token (ClaimOrchestrator r f now) s = claim_orchestrator token r f now s"
| "run_op token (Authorize i r now) s = authorize token i r now s"
| "run_op token (BeginHandoff r n f now c) s = begin_handoff token r n f now c s"
| "run_op token (RecoverHandoff c now) s = recover_handoff token c now s"
| "run_op token (Reconcile e) s = reconcile token e s"
| "run_op token (RevokeOldReceipt f) s = revoke_old_receipt token f s"
| "run_op token (IssueNewReceipt r v f now) s = issue_new_receipt token r v f now s"
| "run_op token (CompleteTeardown e) s = complete_teardown token e s"

text \<open>
  Values of the frozen dataclasses exist only if their constructor guards passed, and the
  fingerprint arguments of the calls are checked on entry.
\<close>

definition valid_handoff_receipt :: "handoff_receipt \<Rightarrow> bool" where
  "valid_handoff_receipt r \<longleftrightarrow>
     list_all fst (handoff_receipt_guards r) \<and> list_all fst (authority_identity_guards (hr_identity r))"

definition valid_recovery_claim :: "recovery_claim \<Rightarrow> bool" where
  "valid_recovery_claim c \<longleftrightarrow> list_all fst (recovery_claim_guards c)"

definition valid_authority_identity :: "authority_identity \<Rightarrow> bool" where
  "valid_authority_identity i \<longleftrightarrow> list_all fst (authority_identity_guards i)"

fun op_values_constructed :: "handoff_op \<Rightarrow> bool" where
  "op_values_constructed (ActivateInitial r v now) =
     (pred_option valid_handoff_receipt r \<and> pred_option (\<lambda>v. list_all fst (receipt_verification_guards v)) v)"
| "op_values_constructed (ClaimOrchestrator r f now) = pred_option valid_handoff_receipt r"
| "op_values_constructed (Authorize i r now) =
     (pred_option valid_authority_identity i \<and> pred_option valid_handoff_receipt r)"
| "op_values_constructed (BeginHandoff r n f now c) =
     (pred_option valid_handoff_receipt r \<and> pred_option valid_authority_identity n
      \<and> pred_option valid_recovery_claim c)"
| "op_values_constructed (RecoverHandoff c now) = pred_option valid_recovery_claim c"
| "op_values_constructed (Reconcile e) = list_all fst (reconciliation_guards e)"
| "op_values_constructed (RevokeOldReceipt f) = True"
| "op_values_constructed (IssueNewReceipt r v f now) =
     (valid_handoff_receipt r \<and> pred_option (\<lambda>v. list_all fst (receipt_verification_guards v)) v)"
| "op_values_constructed (CompleteTeardown e) = pred_option (\<lambda>e. list_all fst (teardown_guards e)) e"

fun op_fingerprint :: "handoff_op \<Rightarrow> string option" where
  "op_fingerprint (ClaimOrchestrator r f now) = Some f"
| "op_fingerprint (BeginHandoff r n f now c) = Some f"
| "op_fingerprint (RevokeOldReceipt f) = Some f"
| "op_fingerprint (IssueNewReceipt r v f now) = Some f"
| "op_fingerprint _ = None"

type_synonym handoff_label = "nat \<times> handoff_op \<times> handoff_decision result"

inductive store_step :: "authority_store \<Rightarrow> handoff_label \<Rightarrow> authority_store \<Rightarrow> bool" where
  "op_values_constructed op \<Longrightarrow> run_op token op s = (t, res) \<Longrightarrow> store_step s (token, op, res) t"

inductive_cases store_stepE: "store_step s (token, op, res) t"

definition fresh_store :: "authority_store \<Rightarrow> bool" where
  "fresh_store s \<longleftrightarrow> make_store (state_store_fingerprint s) (store_state_id s) = Inr s"

section \<open>Effects of the operations\<close>

text \<open>
  Each operation either leaves the store as it was or performs its one transition; these
  rules expose the transition with the guards under which it happens.
\<close>

lemma activate_initial_effect:
  assumes "activate_initial receipt verified now s = (t, res)"
  shows "(t = s \<and> (\<exists>why. res = Inr (refuse why))) \<or>
    (\<exists>r. receipt = Some r \<and> receipt_names_this_store s receipt \<and> receipt_current r now
       \<and> verification_matches r verified \<and> active s = None \<and> progress s = None
       \<and> hr_receipt_fingerprint r \<notin> revoked s
       \<and> t = clear_handoff_claim (clear_authority_claim (s\<lparr>active := Some r, verification := verified\<rparr>))
       \<and> res = Inr (permit ''initial receipt is the sole active authority'' (hr_receipt_fingerprint r)))"
  using assms unfolding activate_initial_def by (auto split: option.splits if_splits)

lemma claim_orchestrator_effect:
  assumes "claim_orchestrator token receipt f now s = (t, res)"
  shows "(t = s \<and> (\<exists>why. res = Inr (refuse why))) \<or> (t = s \<and> \<not> is_fingerprint f \<and> (\<exists>e. res = Inl e)) \<or>
    (\<exists>a r. receipt = Some r \<and> active s = Some a \<and> handoff_receipt_eq a r \<and> progress s = None
       \<and> receipt_names_this_store s receipt \<and> receipt_current r now \<and> verification_matches r (verification s)
       \<and> is_fingerprint f \<and>
       (claim_owner_token s = None
         \<and> t = s\<lparr>claim_owner_token := Some token, claim_receipt_fingerprint := Some (hr_receipt_fingerprint r),
                claim_binding_digest := Some (binding_digest r), claim_fingerprint := Some f,
                claim_generation := claim_generation s + 1\<rparr>
         \<and> res = Inr (permit ''exclusive canonical orchestrator claim acquired'' (hr_receipt_fingerprint r))
        \<or> t = s \<and> holds_claim token s r (Some f)
         \<and> res = Inr (permit ''exclusive canonical orchestrator claim remains current'' (hr_receipt_fingerprint r))))"
  using assms unfolding claim_orchestrator_def
  by (cases receipt; cases "active s") (auto split: if_splits)

definition recovery_accepted ::
  "recovery_claim option \<Rightarrow> string \<Rightarrow> old_authority \<Rightarrow> authority_store \<Rightarrow> string option
     \<Rightarrow> string option \<Rightarrow> int \<Rightarrow> datetime \<Rightarrow> bool" where
  "recovery_accepted claim handoff old s fp owner generation now \<longleftrightarrow>
     recovery_matches claim handoff old s fp owner generation now
     \<and> present (\<lambda>c. cl_evidence_fingerprint c \<notin> consumed_recovery_evidence s) claim"

lemma begin_handoff_cases:
  assumes "begin_handoff token old new h now recovery s = (t, res)"
  obtains (refused) why where "t = s" "res = Inr (refuse why)"
  | (invalid) e where "t = s" "\<not> is_fingerprint h" "res = Inl e"
  | (begun) a r n f g consumed where
      "is_fingerprint h" "progress s = None" "old = Some r" "active s = Some a" "handoff_receipt_eq a r"
      "receipt_names_this_store s old" "new = Some n" "same_authority_domain (hr_identity r) n"
      "\<not> authority_identity_eq (hr_identity r) n"
      "recovery = None \<and> holds_claim token s r (claim_fingerprint s) \<and> receipt_current r now
         \<and> f = claim_fingerprint s \<and> g = claim_generation s \<and> consumed = []
       \<or> (\<exists>c. recovery = Some c
            \<and> recovery_accepted recovery h (OldReceipt r) s None (claim_fingerprint s) (claim_generation s) now
            \<and> f = Some (cl_replacement_owner_claim_fingerprint c)
            \<and> g = cl_prior_owner_claim_generation c + 1 \<and> consumed = [cl_evidence_fingerprint c])"
      "case make_progress h (hr_receipt_fingerprint r) n STOPPING None f g consumed of
         Inl e \<Rightarrow> t = s \<and> res = Inl e
       | Inr p \<Rightarrow> t = s\<lparr>progress := Some p, handoff_owner_token := Some token,
              handoff_fingerprint := Some h, handoff_binding_digest := Some (binding_digest r),
              handoff_owner_claim_fingerprint := Some (pg_owner_claim_fingerprint p),
              handoff_owner_claim_generation := Some (pg_owner_claim_generation p),
              consumed_recovery_evidence := set consumed \<union> consumed_recovery_evidence s\<rparr>
            \<and> res = Inr (permit ''old authority is now non-dispatching pending reconciliation''
                           (hr_receipt_fingerprint r))"
proof (cases "is_fingerprint h \<and> progress s = None \<and> active_is (active s) old
     \<and> receipt_names_this_store s old \<and> old \<noteq> None")
  case False
  then show ?thesis using assms refused invalid unfolding begin_handoff_def
    by (cases old) (auto split: if_splits)
next
  case True
  then obtain r a where ra: "old = Some r" "active s = Some a" "handoff_receipt_eq a r"
    by (cases old; cases "active s") auto
  show ?thesis
  proof (cases recovery)
    case None
    then show ?thesis
      using assms True ra refused begun [of r a] unfolding begin_handoff_def
      by (cases new) (auto simp: Let_def split: if_splits sum.splits)
  next
    case (Some c)
    then show ?thesis
      using assms True ra refused begun [of r a] unfolding begin_handoff_def
      by (cases new) (auto simp: Let_def recovery_accepted_def split: if_splits sum.splits)
  qed
qed

lemma recover_handoff_effect:
  assumes "recover_handoff token claim now s = (t, res)"
  shows "(t = s \<and> (\<exists>why. res = Inr (refuse why))) \<or>
    (\<exists>p c s1. progress s = Some p \<and> claim = Some c
       \<and> recovery_accepted claim (pg_handoff_fingerprint p)
           (case active s of Some r \<Rightarrow> OldReceipt r
             | None \<Rightarrow> (case handoff_binding_digest s of Some d \<Rightarrow> OldDigest d | None \<Rightarrow> OldUnknown))
           s (Some (pg_old_receipt_fingerprint p)) (Some (pg_owner_claim_fingerprint p))
           (pg_owner_claim_generation p) now
       \<and> s1 = s\<lparr>handoff_owner_token := Some token,
               handoff_fingerprint := Some (pg_handoff_fingerprint p),
               handoff_binding_digest := Some (cl_receipt_binding_digest c),
               handoff_owner_claim_fingerprint := Some (cl_replacement_owner_claim_fingerprint c),
               handoff_owner_claim_generation := Some (cl_prior_owner_claim_generation c + 1),
               consumed_recovery_evidence := insert (cl_evidence_fingerprint c) (consumed_recovery_evidence s)\<rparr>
       \<and> (case make_progress (pg_handoff_fingerprint p) (pg_old_receipt_fingerprint p) (pg_new_identity p)
               (pg_phase p) (pg_reconciliation p) (Some (cl_replacement_owner_claim_fingerprint c))
               (cl_prior_owner_claim_generation c + 1)
               (pg_consumed_recovery_evidence p @ [cl_evidence_fingerprint c]) of
            Inl e \<Rightarrow> t = s1 \<and> res = Inl e
          | Inr p' \<Rightarrow> t = s1\<lparr>progress := Some p'\<rparr>
               \<and> res = Inr (permit ''independently verified stale-owner recovery claim acquired''
                              (pg_old_receipt_fingerprint p))))"
proof (cases "progress s")
  case None
  then show ?thesis using assms by (auto simp: recover_handoff_def)
next
  case p: (Some p)
  show ?thesis
  proof (cases claim)
    case None
    then show ?thesis using assms p by (auto simp: recover_handoff_def)
  next
    case (Some c)
    then show ?thesis using assms p unfolding recover_handoff_def recovery_accepted_def
      by (auto simp: Let_def split: if_splits sum.splits)
  qed
qed

lemma reconcile_effect:
  assumes "reconcile token e s = (t, res)"
  shows "(t = s \<and> (\<exists>why. res = Inr (refuse why))) \<or>
    (\<exists>p. progress s = Some p \<and> pg_phase p = STOPPING \<and> holds_handoff_claim token s p \<and> complete e
       \<and> rec_handoff_fingerprint e = pg_handoff_fingerprint p
       \<and> rec_old_receipt_fingerprint e = pg_old_receipt_fingerprint p
       \<and> rec_state_store_fingerprint e = state_store_fingerprint s \<and> rec_state_id e = store_state_id s
       \<and> (case make_progress (pg_handoff_fingerprint p) (pg_old_receipt_fingerprint p) (pg_new_identity p)
               RECONCILED (Some e) (Some (pg_owner_claim_fingerprint p))
               (pg_owner_claim_generation p) (pg_consumed_recovery_evidence p) of
            Inl err \<Rightarrow> t = s \<and> res = Inl err
          | Inr p' \<Rightarrow> t = s\<lparr>progress := Some p'\<rparr>
              \<and> res = Inr (permit ''old authority is reconciled and may be revoked'' (pg_old_receipt_fingerprint p))))"
  using assms unfolding reconcile_def by (auto split: option.splits if_splits sum.splits)

lemma revoke_old_receipt_effect:
  assumes "revoke_old_receipt token h s = (t, res)"
  shows "(t = s \<and> (\<exists>why. res = Inr (refuse why))) \<or> (t = s \<and> \<not> is_fingerprint h \<and> (\<exists>e. res = Inl e)) \<or>
    (\<exists>p a s1. is_fingerprint h \<and> progress s = Some p \<and> pg_phase p = RECONCILED
       \<and> pg_handoff_fingerprint p = h \<and> holds_handoff_claim token s p \<and> active s = Some a
       \<and> hr_receipt_fingerprint a = pg_old_receipt_fingerprint p
       \<and> s1 = clear_authority_claim (s\<lparr>revoked := insert (hr_receipt_fingerprint a) (revoked s),
                  active := None, verification := None\<rparr>)
       \<and> (case make_progress (pg_handoff_fingerprint p) (pg_old_receipt_fingerprint p) (pg_new_identity p)
               REVOKED (pg_reconciliation p) (Some (pg_owner_claim_fingerprint p))
               (pg_owner_claim_generation p) (pg_consumed_recovery_evidence p) of
            Inl err \<Rightarrow> t = s1 \<and> res = Inl err
          | Inr p' \<Rightarrow> t = s1\<lparr>progress := Some p'\<rparr>
              \<and> res = Inr (permit ''old receipt is revoked; no authority is dispatching'' (hr_receipt_fingerprint a))))"
proof (cases "progress s")
  case None
  then show ?thesis using assms by (auto simp: revoke_old_receipt_def split: if_splits)
next
  case (Some p)
  then show ?thesis using assms unfolding revoke_old_receipt_def
    by (cases "active s") (auto simp: Let_def split: if_splits sum.splits)
qed

lemma issue_new_receipt_effect:
  assumes "issue_new_receipt token r verified h now s = (t, res)"
  shows "(t = s \<and> (\<exists>why. res = Inr (refuse why))) \<or> (t = s \<and> \<not> is_fingerprint h \<and> (\<exists>e. res = Inl e)) \<or>
    (\<exists>p. is_fingerprint h \<and> progress s = Some p \<and> pg_phase p = REVOKED \<and> pg_handoff_fingerprint p = h
       \<and> holds_handoff_claim token s p \<and> authority_identity_eq (hr_identity r) (pg_new_identity p)
       \<and> receipt_names_this_store s (Some r) \<and> receipt_current r now
       \<and> hr_receipt_fingerprint r \<notin> revoked s \<and> verification_matches r verified
       \<and> t = (clear_handoff_claim (s\<lparr>active := Some r, verification := verified, claim_owner_token := Some token,
              claim_receipt_fingerprint := Some (hr_receipt_fingerprint r),
              claim_binding_digest := Some (binding_digest r),
              claim_fingerprint := Some (pg_owner_claim_fingerprint p),
              claim_generation := pg_owner_claim_generation p\<rparr>))\<lparr>progress := None\<rparr>
       \<and> res = Inr (permit ''new receipt is the sole active authority'' (hr_receipt_fingerprint r)))"
proof (cases "progress s")
  case None
  then show ?thesis using assms by (auto simp: issue_new_receipt_def split: if_splits)
next
  case (Some p)
  then show ?thesis using assms unfolding issue_new_receipt_def by (auto split: if_splits)
qed

lemma complete_teardown_effect:
  assumes "complete_teardown token evidence s = (t, res)"
  shows "(t = s \<and> (\<exists>why. res = Inr (refuse why))) \<or>
    (\<exists>p e. progress s = Some p \<and> pg_phase p = REVOKED \<and> holds_handoff_claim token s p \<and> evidence = Some e
       \<and> td_handoff_fingerprint e = pg_handoff_fingerprint p
       \<and> td_old_receipt_fingerprint e = pg_old_receipt_fingerprint p
       \<and> resources_torn_down e \<and> active s = None
       \<and> t = clear_handoff_claim (s\<lparr>progress := None\<rparr>)
       \<and> res = Inr (permit ''revoked handoff resources are torn down and no authority is active''
                      (td_old_receipt_fingerprint e)))"
  using assms unfolding complete_teardown_def by (auto split: option.splits if_splits)

lemma authorize_locked_iff:
  "hd_authorized (authorize_locked token identity receipt now s) \<longleftrightarrow>
     (\<exists>a i r. identity = Some i \<and> receipt = Some r \<and> active s = Some a \<and> progress s = None
        \<and> receipt_names_this_store s receipt \<and> handoff_receipt_eq a r
        \<and> hr_receipt_fingerprint r \<notin> revoked s \<and> verification_matches r (verification s)
        \<and> holds_claim token s r (claim_fingerprint s) \<and> authority_identity_eq (hr_identity r) i
        \<and> receipt_current r now)"
  unfolding authorize_locked_def
  by (cases identity; cases receipt; cases "active s") (simp_all add: refuse_def permit_def)

end
