(* ===== verification/Handoff_Safety.thy ===== *)
theory Handoff_Safety
  imports Deployment_Handoff
begin

text \<open>
  Safety of the deployment handoff for any number of coordinators calling the operations of
  \<open>Deployment_Handoff\<close> in any order: the store invariant, the absence of exceptions on
  reachable stores, exclusive authority, the irreversibility of a revocation, the single use
  of recovery evidence, the completion of an undisturbed handoff, and a refinement of the
  store to a six-state life cycle.
\<close>

section \<open>The invariant\<close>

definition progress_ok :: "handoff_progress \<Rightarrow> bool" where
  "progress_ok p \<longleftrightarrow>
     is_fingerprint (pg_handoff_fingerprint p) \<and> is_fingerprint (pg_old_receipt_fingerprint p)
     \<and> is_fingerprint (pg_owner_claim_fingerprint p) \<and> 1 \<le> pg_owner_claim_generation p
     \<and> distinct (pg_consumed_recovery_evidence p)
     \<and> list_all is_fingerprint (pg_consumed_recovery_evidence p)
     \<and> (pg_phase p = STOPPING \<longrightarrow> pg_reconciliation p = None)
     \<and> (pg_phase p \<noteq> STOPPING \<longrightarrow> present complete (pg_reconciliation p))"

definition authority_ok :: "authority_store \<Rightarrow> bool" where
  "authority_ok s \<longleftrightarrow>
     (case active s of
        None \<Rightarrow> verification s = None \<and> claim_owner_token s = None
      | Some r \<Rightarrow> valid_handoff_receipt r \<and> receipt_names_this_store s (Some r)
          \<and> hr_receipt_fingerprint r \<notin> revoked s \<and> verification_matches r (verification s))"

definition claim_ok :: "authority_store \<Rightarrow> bool" where
  "claim_ok s \<longleftrightarrow> 0 \<le> claim_generation s \<and>
     (if claim_owner_token s = None
      then claim_receipt_fingerprint s = None \<and> claim_binding_digest s = None \<and> claim_fingerprint s = None
      else (\<exists>r. active s = Some r \<and> claim_receipt_fingerprint s = Some (hr_receipt_fingerprint r)
              \<and> claim_binding_digest s = Some (binding_digest r))
           \<and> present is_fingerprint (claim_fingerprint s) \<and> 1 \<le> claim_generation s)"

definition handoff_ok :: "authority_store \<Rightarrow> bool" where
  "handoff_ok s \<longleftrightarrow>
     (case progress s of
        None \<Rightarrow> handoff_owner_token s = None \<and> handoff_fingerprint s = None \<and> handoff_binding_digest s = None
          \<and> handoff_owner_claim_fingerprint s = None \<and> handoff_owner_claim_generation s = None
      | Some p \<Rightarrow> progress_ok p \<and> handoff_owner_token s \<noteq> None
          \<and> handoff_fingerprint s = Some (pg_handoff_fingerprint p)
          \<and> handoff_binding_digest s \<noteq> None
          \<and> handoff_owner_claim_fingerprint s = Some (pg_owner_claim_fingerprint p)
          \<and> handoff_owner_claim_generation s = Some (pg_owner_claim_generation p)
          \<and> set (pg_consumed_recovery_evidence p) \<subseteq> consumed_recovery_evidence s
          \<and> (if pg_phase p = REVOKED then active s = None \<and> pg_old_receipt_fingerprint p \<in> revoked s
             else map_option hr_receipt_fingerprint (active s) = Some (pg_old_receipt_fingerprint p)))"

definition store_inv :: "authority_store \<Rightarrow> bool" where
  "store_inv s \<longleftrightarrow> is_fingerprint (state_store_fingerprint s) \<and> authority_ok s \<and> claim_ok s \<and> handoff_ok s"

lemmas store_inv_defs = store_inv_def authority_ok_def claim_ok_def handoff_ok_def
lemmas store_views = receipt_names_this_store_def holds_handoff_claim_def holds_claim_def
  clear_handoff_claim_def clear_authority_claim_def

lemma make_progress_Inr_iff:
  "make_progress h old n ph rc f g c = Inr p \<longleftrightarrow>
     (\<exists>o'. f = Some o' \<and> progress_ok p \<and> p = \<lparr>pg_handoff_fingerprint = h, pg_old_receipt_fingerprint = old,
        pg_new_identity = n, pg_phase = ph, pg_reconciliation = rc, pg_owner_claim_fingerprint = o',
        pg_owner_claim_generation = g, pg_consumed_recovery_evidence = c\<rparr>)"
  by (cases f; cases ph)
    (auto simp: make_progress_def progress_ok_def handoff_require_fingerprint_def list_all_iff)

lemma recovery_claim_facts:
  assumes "valid_recovery_claim c"
  shows "is_fingerprint (cl_evidence_fingerprint c)" "is_fingerprint (cl_replacement_owner_claim_fingerprint c)"
    "1 \<le> cl_prior_owner_claim_generation c" "is_fingerprint (cl_receipt_binding_digest c)"
  using assms by (simp_all add: valid_recovery_claim_def recovery_claim_guards_def handoff_require_fingerprint_def)

lemma handoff_receipt_fingerprint_ok: "valid_handoff_receipt r \<Longrightarrow> is_fingerprint (hr_receipt_fingerprint r)"
  by (simp add: valid_handoff_receipt_def handoff_receipt_guards_def handoff_require_fingerprint_def)

lemma verification_binds: "verification_matches r v \<Longrightarrow> verification_matches a v \<Longrightarrow> binding_digest r = binding_digest a"
  by (cases v) auto

section \<open>Preservation\<close>

lemma inv_activate_initial:
  assumes "store_inv s" "activate_initial r v now s = (t, res)" "pred_option valid_handoff_receipt r"
  shows "store_inv t"
proof (cases "t = s")
  case False
  with activate_initial_effect [OF assms(2)] assms(1,3) show ?thesis
    by (auto simp: store_inv_defs store_views)
qed (use assms in simp)

lemma inv_claim_orchestrator:
  assumes "store_inv s" "claim_orchestrator token r f now s = (t, res)"
  shows "store_inv t"
proof (cases "t = s")
  case False
  with claim_orchestrator_effect [OF assms(2)] assms(1) show ?thesis
    by (auto simp: store_inv_defs store_views handoff_receipt_eq_def dest: verification_binds)
qed (use assms in simp)

text \<open>The progress record of a beginning handoff can always be built: no exception, no half-done step.\<close>

lemma begin_handoff_progress_ok:
  assumes "store_inv s" "is_fingerprint h" "active s = Some a" "handoff_receipt_eq a r"
    and "recovery = None \<and> holds_claim token s r (claim_fingerprint s)
             \<and> f = claim_fingerprint s \<and> g = claim_generation s \<and> consumed = []
          \<or> (\<exists>c. recovery = Some c \<and> valid_recovery_claim c
             \<and> f = Some (cl_replacement_owner_claim_fingerprint c)
             \<and> g = cl_prior_owner_claim_generation c + 1 \<and> consumed = [cl_evidence_fingerprint c])"
  shows "\<exists>p. make_progress h (hr_receipt_fingerprint r) n STOPPING None f g consumed = Inr p"
proof -
  have "is_fingerprint (hr_receipt_fingerprint r)"
    using assms(1,3,4) by (auto simp: store_inv_defs handoff_receipt_eq_def dest: handoff_receipt_fingerprint_ok)
  moreover have "present is_fingerprint f \<and> 1 \<le> g"
    using assms(5)
  proof
    assume "recovery = None \<and> holds_claim token s r (claim_fingerprint s)
             \<and> f = claim_fingerprint s \<and> g = claim_generation s \<and> consumed = []"
    with assms(1) show ?thesis by (simp add: store_inv_defs holds_claim_def)
  qed (use recovery_claim_facts in force)
  moreover have "distinct consumed \<and> list_all is_fingerprint consumed"
    using assms(5) recovery_claim_facts by auto
  ultimately show ?thesis using assms(2)
    by (cases f) (simp_all add: make_progress_Inr_iff progress_ok_def)
qed

lemma begin_handoff_inv_result:
  assumes inv: "store_inv s" and run: "begin_handoff token old new h now recovery s = (t, res)"
    and ok: "pred_option valid_recovery_claim recovery"
  shows "store_inv t \<and> (is_fingerprint h \<longrightarrow> (\<exists>d. res = Inr d))"
  using run
proof (cases rule: begin_handoff_cases)
  case (begun a r n f g consumed)
  have "recovery = None \<and> holds_claim token s r (claim_fingerprint s)
             \<and> f = claim_fingerprint s \<and> g = claim_generation s \<and> consumed = []
          \<or> (\<exists>c. recovery = Some c \<and> valid_recovery_claim c
             \<and> f = Some (cl_replacement_owner_claim_fingerprint c)
             \<and> g = cl_prior_owner_claim_generation c + 1 \<and> consumed = [cl_evidence_fingerprint c])"
    using begun(10) ok by auto
  from begin_handoff_progress_ok [OF inv begun(1,4,5) this] obtain p where
    p: "make_progress h (hr_receipt_fingerprint r) n STOPPING None f g consumed = Inr p" by blast
  with begun inv show ?thesis
    by (auto simp: store_inv_defs store_views make_progress_Inr_iff handoff_receipt_eq_def)
qed (use inv in auto)

lemma recover_handoff_inv_result:
  assumes inv: "store_inv s" and run: "recover_handoff token claim now s = (t, res)"
    and ok: "pred_option valid_recovery_claim claim"
  shows "store_inv t \<and> (\<exists>d. res = Inr d)"
  using recover_handoff_effect [OF run]
proof (elim disjE exE conjE)
  fix p c s1
  assume c: "progress s = Some p" "claim = Some c"
    "recovery_accepted claim (pg_handoff_fingerprint p)
           (case active s of Some r \<Rightarrow> OldReceipt r
             | None \<Rightarrow> (case handoff_binding_digest s of Some d \<Rightarrow> OldDigest d | None \<Rightarrow> OldUnknown))
           s (Some (pg_old_receipt_fingerprint p)) (Some (pg_owner_claim_fingerprint p))
           (pg_owner_claim_generation p) now"
    and s1: "s1 = s\<lparr>handoff_owner_token := Some token,
               handoff_fingerprint := Some (pg_handoff_fingerprint p),
               handoff_binding_digest := Some (cl_receipt_binding_digest c),
               handoff_owner_claim_fingerprint := Some (cl_replacement_owner_claim_fingerprint c),
               handoff_owner_claim_generation := Some (cl_prior_owner_claim_generation c + 1),
               consumed_recovery_evidence := insert (cl_evidence_fingerprint c) (consumed_recovery_evidence s)\<rparr>"
    and res: "case make_progress (pg_handoff_fingerprint p) (pg_old_receipt_fingerprint p) (pg_new_identity p)
               (pg_phase p) (pg_reconciliation p) (Some (cl_replacement_owner_claim_fingerprint c))
               (cl_prior_owner_claim_generation c + 1)
               (pg_consumed_recovery_evidence p @ [cl_evidence_fingerprint c]) of
            Inl e \<Rightarrow> t = s1 \<and> res = Inl e
          | Inr p' \<Rightarrow> t = s1\<lparr>progress := Some p'\<rparr>
               \<and> res = Inr (permit ''independently verified stale-owner recovery claim acquired''
                              (pg_old_receipt_fingerprint p))"
  let ?p = "p\<lparr>pg_owner_claim_fingerprint := cl_replacement_owner_claim_fingerprint c,
     pg_owner_claim_generation := cl_prior_owner_claim_generation c + 1,
     pg_consumed_recovery_evidence := pg_consumed_recovery_evidence p @ [cl_evidence_fingerprint c]\<rparr>"
  have "progress_ok p" and sub: "set (pg_consumed_recovery_evidence p) \<subseteq> consumed_recovery_evidence s"
    using inv c(1) by (auto simp: store_inv_defs)
  moreover have "cl_evidence_fingerprint c \<notin> consumed_recovery_evidence s"
    using c(2,3) by (simp add: recovery_accepted_def)
  ultimately have ok': "progress_ok ?p"
    using ok c(2) recovery_claim_facts [of c] by (auto simp: progress_ok_def)
  then have "make_progress (pg_handoff_fingerprint p) (pg_old_receipt_fingerprint p) (pg_new_identity p)
               (pg_phase p) (pg_reconciliation p) (Some (cl_replacement_owner_claim_fingerprint c))
               (cl_prior_owner_claim_generation c + 1)
               (pg_consumed_recovery_evidence p @ [cl_evidence_fingerprint c]) = Inr ?p"
    by (simp add: make_progress_Inr_iff)
  with res s1 inv c(1) ok' sub show ?thesis
    by (auto simp: store_inv_defs store_views)
qed (use inv in auto)

lemma reconcile_inv_result:
  assumes inv: "store_inv s" and run: "reconcile token e s = (t, res)"
  shows "store_inv t \<and> (\<exists>d. res = Inr d)"
  using reconcile_effect [OF run]
proof (elim disjE exE conjE)
  fix p
  assume c: "progress s = Some p" "complete e" "pg_phase p = STOPPING"
    and res: "case make_progress (pg_handoff_fingerprint p) (pg_old_receipt_fingerprint p) (pg_new_identity p)
               RECONCILED (Some e) (Some (pg_owner_claim_fingerprint p))
               (pg_owner_claim_generation p) (pg_consumed_recovery_evidence p) of
            Inl err \<Rightarrow> t = s \<and> res = Inl err
          | Inr p' \<Rightarrow> t = s\<lparr>progress := Some p'\<rparr>
              \<and> res = Inr (permit ''old authority is reconciled and may be revoked'' (pg_old_receipt_fingerprint p))"
  let ?p = "p\<lparr>pg_phase := RECONCILED, pg_reconciliation := Some e\<rparr>"
  have "progress_ok ?p" using inv c by (simp add: store_inv_defs progress_ok_def)
  moreover from this have "make_progress (pg_handoff_fingerprint p) (pg_old_receipt_fingerprint p) (pg_new_identity p)
               RECONCILED (Some e) (Some (pg_owner_claim_fingerprint p))
               (pg_owner_claim_generation p) (pg_consumed_recovery_evidence p) = Inr ?p"
    by (simp add: make_progress_Inr_iff)
  ultimately show ?thesis using res inv c(1,3) by (auto simp: store_inv_defs store_views)
qed (use inv in auto)

lemma revoke_inv_result:
  assumes inv: "store_inv s" and run: "revoke_old_receipt token h s = (t, res)"
  shows "store_inv t \<and> (is_fingerprint h \<longrightarrow> (\<exists>d. res = Inr d))"
  using revoke_old_receipt_effect [OF run]
proof (elim disjE exE conjE)
  fix p a s1
  assume c: "progress s = Some p" "pg_phase p = RECONCILED" "active s = Some a"
      "hr_receipt_fingerprint a = pg_old_receipt_fingerprint p"
    and s1: "s1 = clear_authority_claim (s\<lparr>revoked := insert (hr_receipt_fingerprint a) (revoked s),
                  active := None, verification := None\<rparr>)"
    and res: "case make_progress (pg_handoff_fingerprint p) (pg_old_receipt_fingerprint p) (pg_new_identity p)
               REVOKED (pg_reconciliation p) (Some (pg_owner_claim_fingerprint p))
               (pg_owner_claim_generation p) (pg_consumed_recovery_evidence p) of
            Inl err \<Rightarrow> t = s1 \<and> res = Inl err
          | Inr p' \<Rightarrow> t = s1\<lparr>progress := Some p'\<rparr>
              \<and> res = Inr (permit ''old receipt is revoked; no authority is dispatching'' (hr_receipt_fingerprint a))"
  let ?p = "p\<lparr>pg_phase := REVOKED\<rparr>"
  have "progress_ok ?p" using inv c by (simp add: store_inv_defs progress_ok_def)
  moreover from this have "make_progress (pg_handoff_fingerprint p) (pg_old_receipt_fingerprint p) (pg_new_identity p)
               REVOKED (pg_reconciliation p) (Some (pg_owner_claim_fingerprint p))
               (pg_owner_claim_generation p) (pg_consumed_recovery_evidence p) = Inr ?p"
    by (simp add: make_progress_Inr_iff)
  ultimately show ?thesis using res s1 inv c by (auto simp: store_inv_defs store_views)
qed (use inv in auto)

lemma issue_inv_result:
  assumes inv: "store_inv s" and run: "issue_new_receipt token r v h now s = (t, res)"
    and ok: "valid_handoff_receipt r"
  shows "store_inv t \<and> (is_fingerprint h \<longrightarrow> (\<exists>d. res = Inr d))"
  using issue_new_receipt_effect [OF run] inv ok
  by (elim disjE exE conjE) (auto simp: store_inv_defs store_views progress_ok_def)

lemma teardown_inv_result:
  assumes inv: "store_inv s" and run: "complete_teardown token e s = (t, res)"
  shows "store_inv t \<and> (\<exists>d. res = Inr d)"
  using complete_teardown_effect [OF run] inv
  by (elim disjE exE conjE) (auto simp: store_inv_defs store_views)

lemma authorize_store [simp]: "fst (authorize token i r now s) = s" "snd (authorize token i r now s) = Inr (authorize_locked token i r now s)"
  by (simp_all add: authorize_def)

lemma run_op_inv_result:
  assumes "store_inv s" "run_op token op s = (t, res)" "op_values_constructed op"
  shows "store_inv t \<and> (pred_option is_fingerprint (op_fingerprint op) \<longrightarrow> (\<exists>d. res = Inr d))"
proof (cases op)
  case (ActivateInitial r v now)
  with assms show ?thesis
    using inv_activate_initial [of s r v now t res] activate_initial_effect [of r v now s t res] by auto
next
  case (ClaimOrchestrator r f now)
  with assms show ?thesis
    using inv_claim_orchestrator [of s token r f now t res] claim_orchestrator_effect [of token r f now s t res]
    by auto
next
  case (Authorize i r now)
  with assms show ?thesis by (auto simp: authorize_def)
next
  case (BeginHandoff r n f now c)
  with assms begin_handoff_inv_result show ?thesis by auto
next
  case (RecoverHandoff c now)
  with assms recover_handoff_inv_result [of s token c now t res] show ?thesis by simp
next
  case (Reconcile e)
  with assms reconcile_inv_result [of s token e t res] show ?thesis by simp
next
  case (RevokeOldReceipt f)
  with assms revoke_inv_result show ?thesis by auto
next
  case (IssueNewReceipt r v f now)
  with assms issue_inv_result show ?thesis by auto
next
  case (CompleteTeardown e)
  with assms teardown_inv_result [of s token e t res] show ?thesis by simp
qed

interpretation hs: invariant_system fresh_store store_step store_inv
proof unfold_locales
  show "store_inv s" if "fresh_store s" for s
    using that by (cases s) (simp add: fresh_store_def make_store_def handoff_require_fingerprint_def store_inv_defs)
  show "store_inv t" if "store_inv s" "store_step s l t" for s l t
    using that by (cases l) (auto elim!: store_stepE dest: run_op_inv_result)
qed

abbreviation handoff_run :: "authority_store \<Rightarrow> handoff_label list \<Rightarrow> authority_store \<Rightarrow> bool" where
  "handoff_run \<equiv> hs.reaches"

section \<open>What only grows\<close>

text \<open>
  Along a run revocations and consumed recovery evidence only accumulate, and an active
  receipt keeps its claim holder until it is revoked.
\<close>

definition succession :: "authority_store \<Rightarrow> authority_store \<Rightarrow> bool" where
  "succession s t \<longleftrightarrow> revoked s \<subseteq> revoked t \<and> consumed_recovery_evidence s \<subseteq> consumed_recovery_evidence t
     \<and> state_store_fingerprint t = state_store_fingerprint s \<and> store_state_id t = store_state_id s
     \<and> (\<forall>a. active s = Some a \<longrightarrow> hr_receipt_fingerprint a \<in> revoked t
          \<or> active t = Some a \<and> (claim_owner_token s \<noteq> None \<longrightarrow> claim_owner_token t = claim_owner_token s))"

lemma succession_refl: "succession s s"
  by (simp add: succession_def)

lemma succession_trans: "succession s t \<Longrightarrow> succession t u \<Longrightarrow> succession s u"
  unfolding succession_def by (intro conjI allI impI) (blast, blast, simp, simp, metis subsetD)

lemmas succession_simps = succession_def clear_handoff_claim_def clear_authority_claim_def

lemma succession_begin:
  assumes "begin_handoff token old new h now recovery s = (t, res)"
  shows "succession s t"
  using assms
proof (cases rule: begin_handoff_cases)
  case (begun a r n f g consumed)
  then show ?thesis by (auto simp: succession_simps split: sum.splits)
qed (simp_all add: succession_refl)

lemma succession_recover: "recover_handoff token c now s = (t, res) \<Longrightarrow> succession s t"
  by (drule recover_handoff_effect, elim disjE exE conjE) (auto simp: succession_simps split: sum.split_asm)

lemma succession_reconcile: "reconcile token e s = (t, res) \<Longrightarrow> succession s t"
  by (drule reconcile_effect, elim disjE exE conjE) (auto simp: succession_simps split: sum.split_asm)

lemma succession_revoke: "revoke_old_receipt token f s = (t, res) \<Longrightarrow> succession s t"
  by (drule revoke_old_receipt_effect, elim disjE exE conjE) (auto simp: succession_simps split: sum.split_asm)

lemma succession_issue: "issue_new_receipt token r v f now s = (t, res) \<Longrightarrow> store_inv s \<Longrightarrow> succession s t"
  by (drule issue_new_receipt_effect, elim disjE exE conjE) (auto simp: succession_simps store_inv_defs)

lemma succession_teardown: "complete_teardown token e s = (t, res) \<Longrightarrow> succession s t"
  by (drule complete_teardown_effect, elim disjE exE conjE) (auto simp: succession_simps)

lemma succession_activate: "activate_initial r v now s = (t, res) \<Longrightarrow> succession s t"
  by (drule activate_initial_effect, elim disjE exE conjE) (auto simp: succession_simps)

lemma succession_claim: "claim_orchestrator token r f now s = (t, res) \<Longrightarrow> succession s t"
  by (drule claim_orchestrator_effect, elim disjE exE conjE) (auto simp: succession_simps)

lemma succession_run_op:
  assumes "store_inv s" "run_op token op s = (t, res)"
  shows "succession s t"
  using assms
  by (cases op) (auto simp: authorize_def succession_refl intro: succession_begin succession_recover
      succession_reconcile succession_revoke succession_issue succession_teardown succession_activate
      succession_claim)

lemma succession_step: "store_inv s \<Longrightarrow> store_step s l t \<Longrightarrow> succession s t"
  by (cases l) (auto elim!: store_stepE dest: succession_run_op)

lemma succession_run: "handoff_run s ls t \<Longrightarrow> store_inv s \<Longrightarrow> succession s t"
  by (rule hs.reaches_monotone [where r = succession]) (auto intro: succession_refl succession_trans succession_step)

section \<open>Recovery evidence in a run\<close>

fun evidence_spent :: "handoff_label \<Rightarrow> string list" where
  "evidence_spent (token, BeginHandoff r n f now (Some c), Inr d) =
     (if hd_authorized d then [cl_evidence_fingerprint c] else [])"
| "evidence_spent (token, RecoverHandoff (Some c) now, Inr d) =
     (if hd_authorized d then [cl_evidence_fingerprint c] else [])"
| "evidence_spent _ = []"

lemma decision_sel [simp]:
  "\<not> hd_authorized (refuse why)" "hd_authorized (permit why f)"
  "hd_receipt_fingerprint (permit why f) = Some f" "hd_receipt_fingerprint (refuse why) = None"
  by (simp_all add: refuse_def permit_def)

lemma begin_spends:
  assumes "begin_handoff token old new h now (Some c) s = (t, Inr d)" "hd_authorized d"
  shows "cl_evidence_fingerprint c \<notin> consumed_recovery_evidence s
    \<and> cl_evidence_fingerprint c \<in> consumed_recovery_evidence t"
  using assms(1)
proof (cases rule: begin_handoff_cases)
  case (begun a r n f g consumed)
  then show ?thesis by (auto simp: recovery_accepted_def split: sum.split_asm)
qed (use assms(2) in auto)

lemma recover_spends:
  assumes "recover_handoff token (Some c) now s = (t, Inr d)" "hd_authorized d"
  shows "cl_evidence_fingerprint c \<notin> consumed_recovery_evidence s
    \<and> cl_evidence_fingerprint c \<in> consumed_recovery_evidence t"
  using recover_handoff_effect [OF assms(1)] assms(2)
  by (elim disjE exE conjE) (auto simp: recovery_accepted_def split: sum.split_asm)

lemma step_spends:
  assumes "store_step s l t" "e \<in> set (evidence_spent l)"
  shows "e \<notin> consumed_recovery_evidence s \<and> e \<in> consumed_recovery_evidence t"
  using assms
  by (cases l rule: evidence_spent.cases)
    (auto elim!: store_stepE dest: begin_spends recover_spends split: if_splits)

lemma evidence_spent_distinct: "distinct (evidence_spent l)"
  by (cases l rule: evidence_spent.cases) auto

lemma run_spends:
  assumes "handoff_run s ls t" "store_inv s"
  shows "distinct (concat (map evidence_spent ls))
    \<and> set (concat (map evidence_spent ls)) \<subseteq> consumed_recovery_evidence t"
  using assms
proof (induction rule: hs.reaches.induct)
  case (reaches_snoc s ls t l u)
  then have "succession t u" by (blast intro: succession_step hs.reaches_inv)
  with reaches_snoc step_spends [OF reaches_snoc(2)] show ?case
    by (auto simp: evidence_spent_distinct succession_def)
qed simp

section \<open>The life cycle of an authority\<close>

text \<open>
  What an operator is promised: one authority at a time, named by its receipt fingerprint,
  held by one session, and replaced only through stop, reconcile, revoke and issue.
\<close>

datatype authority_lifecycle =
    NoAuthority
  | Issued string
  | Held string nat
  | Stopping string nat
  | Reconciled string nat
  | Revoked string nat

inductive lifecycle_step :: "nat \<Rightarrow> authority_lifecycle \<Rightarrow> authority_lifecycle \<Rightarrow> bool" for token where
  "lifecycle_step token NoAuthority (Issued f)"
| "lifecycle_step token (Issued f) (Held f token)"
| "lifecycle_step token (Held f x) (Stopping f token)"
| "lifecycle_step token (Stopping f x) (Stopping f token)"
| "lifecycle_step token (Reconciled f x) (Reconciled f token)"
| "lifecycle_step token (Revoked f x) (Revoked f token)"
| "lifecycle_step token (Stopping f token) (Reconciled f token)"
| "lifecycle_step token (Reconciled f token) (Revoked f token)"
| "lifecycle_step token (Revoked f token) NoAuthority"
| "f \<noteq> g \<Longrightarrow> lifecycle_step token (Revoked f token) (Held g token)"

inductive_simps lifecycle_step_simps [simp]:
  "lifecycle_step token NoAuthority l" "lifecycle_step token (Issued f) l" "lifecycle_step token (Held f x) l"
  "lifecycle_step token (Stopping f x) l" "lifecycle_step token (Reconciled f x) l"
  "lifecycle_step token (Revoked f x) l"

fun phase_state :: "handoff_phase \<Rightarrow> string \<Rightarrow> nat \<Rightarrow> authority_lifecycle" where
  "phase_state STOPPING = Stopping"
| "phase_state RECONCILED = Reconciled"
| "phase_state REVOKED = Revoked"

definition lifecycle :: "authority_store \<Rightarrow> authority_lifecycle" where
  "lifecycle s =
    (case progress s of
       Some p \<Rightarrow> (case handoff_owner_token s of None \<Rightarrow> NoAuthority
                   | Some x \<Rightarrow> phase_state (pg_phase p) (pg_old_receipt_fingerprint p) x)
     | None \<Rightarrow> (case active s of None \<Rightarrow> NoAuthority
                | Some r \<Rightarrow> (case claim_owner_token s of None \<Rightarrow> Issued (hr_receipt_fingerprint r)
                             | Some x \<Rightarrow> Held (hr_receipt_fingerprint r) x)))"

lemmas lifecycle_rules = lifecycle_def store_views store_inv_defs

lemma lifecycle_begin:
  assumes "begin_handoff token old new h now recovery s = (t, res)" "store_inv s"
  shows "lifecycle s = lifecycle t \<or> lifecycle_step token (lifecycle s) (lifecycle t)"
  using assms(1)
proof (cases rule: begin_handoff_cases)
  case (begun a r n f g consumed)
  have "claim_owner_token s \<noteq> None"
    using begun(4,10) assms(2)
    by (auto simp: store_inv_def claim_ok_def holds_claim_def recovery_accepted_def recovery_matches_def split: if_splits)
  with begun assms(2) show ?thesis
    by (auto simp: lifecycle_rules make_progress_Inr_iff handoff_receipt_eq_def split: sum.split_asm)
qed simp_all

lemma lifecycle_recover:
  assumes "recover_handoff token c now s = (t, res)" "store_inv s"
  shows "lifecycle s = lifecycle t \<or> lifecycle_step token (lifecycle s) (lifecycle t)"
  using recover_handoff_effect [OF assms(1)]
proof (elim disjE exE conjE)
  fix p c s1
  assume "progress s = Some p" and "s1 = s\<lparr>handoff_owner_token := Some token,
               handoff_fingerprint := Some (pg_handoff_fingerprint p),
               handoff_binding_digest := Some (cl_receipt_binding_digest c),
               handoff_owner_claim_fingerprint := Some (cl_replacement_owner_claim_fingerprint c),
               handoff_owner_claim_generation := Some (cl_prior_owner_claim_generation c + 1),
               consumed_recovery_evidence := insert (cl_evidence_fingerprint c) (consumed_recovery_evidence s)\<rparr>"
    and "case make_progress (pg_handoff_fingerprint p) (pg_old_receipt_fingerprint p) (pg_new_identity p)
               (pg_phase p) (pg_reconciliation p) (Some (cl_replacement_owner_claim_fingerprint c))
               (cl_prior_owner_claim_generation c + 1)
               (pg_consumed_recovery_evidence p @ [cl_evidence_fingerprint c]) of
            Inl e \<Rightarrow> t = s1 \<and> res = Inl e
          | Inr p' \<Rightarrow> t = s1\<lparr>progress := Some p'\<rparr>
               \<and> res = Inr (permit ''independently verified stale-owner recovery claim acquired''
                              (pg_old_receipt_fingerprint p))"
  moreover have "handoff_owner_token s \<noteq> None" using \<open>progress s = Some p\<close> assms(2) by (simp add: store_inv_defs)
  ultimately show ?thesis
    by (cases "pg_phase p") (auto simp: lifecycle_def make_progress_Inr_iff split: sum.split_asm)
qed auto

lemma lifecycle_reconcile:
  assumes "reconcile token e s = (t, res)" "store_inv s"
  shows "lifecycle s = lifecycle t \<or> lifecycle_step token (lifecycle s) (lifecycle t)"
  using reconcile_effect [OF assms(1)] assms(2)
  by (elim disjE exE conjE) (auto simp: lifecycle_rules make_progress_Inr_iff split: sum.split_asm)

lemma lifecycle_revoke:
  assumes "revoke_old_receipt token h s = (t, res)" "store_inv s"
  shows "lifecycle s = lifecycle t \<or> lifecycle_step token (lifecycle s) (lifecycle t)"
proof -
  have "progress_ok (p\<lparr>pg_phase := REVOKED\<rparr>)" if "progress s = Some p" "pg_phase p = RECONCILED" for p
    using that assms(2) by (simp add: store_inv_defs progress_ok_def)
  then have "make_progress (pg_handoff_fingerprint p) (pg_old_receipt_fingerprint p) (pg_new_identity p)
      REVOKED (pg_reconciliation p) (Some (pg_owner_claim_fingerprint p)) (pg_owner_claim_generation p)
      (pg_consumed_recovery_evidence p) = Inr (p\<lparr>pg_phase := REVOKED\<rparr>)"
    if "progress s = Some p" "pg_phase p = RECONCILED" for p
    using that by (simp add: make_progress_Inr_iff)
  then show ?thesis using revoke_old_receipt_effect [OF assms(1)] assms(2)
    by (elim disjE exE conjE) (auto simp: lifecycle_rules)
qed

lemma lifecycle_issue:
  assumes "issue_new_receipt token r v h now s = (t, res)" "store_inv s"
  shows "lifecycle s = lifecycle t \<or> lifecycle_step token (lifecycle s) (lifecycle t)"
  using issue_new_receipt_effect [OF assms(1)] assms(2)
  by (elim disjE exE conjE) (auto simp: lifecycle_rules)

lemma lifecycle_simple:
  assumes "store_inv s"
  shows "complete_teardown token e s = (t, res) \<Longrightarrow>
      lifecycle s = lifecycle t \<or> lifecycle_step token (lifecycle s) (lifecycle t)"
    and "activate_initial r v now s = (t, res) \<Longrightarrow>
      lifecycle s = lifecycle t \<or> lifecycle_step token (lifecycle s) (lifecycle t)"
    and "claim_orchestrator token r f now s = (t, res) \<Longrightarrow>
      lifecycle s = lifecycle t \<or> lifecycle_step token (lifecycle s) (lifecycle t)"
    and "authorize token i r now s = (t, res) \<Longrightarrow>
      lifecycle s = lifecycle t \<or> lifecycle_step token (lifecycle s) (lifecycle t)"
  subgoal
    using assms by (drule_tac complete_teardown_effect, elim disjE exE conjE) (auto simp: lifecycle_rules)
  subgoal
    using assms by (drule_tac activate_initial_effect, elim disjE exE conjE) (auto simp: lifecycle_rules)
  subgoal
    using assms by (drule_tac claim_orchestrator_effect, elim disjE exE conjE) (auto simp: lifecycle_rules)
  subgoal
    by (auto simp: authorize_def)
  done

lemma lifecycle_run_op:
  assumes "run_op token op s = (t, res)" "store_inv s"
  shows "lifecycle s = lifecycle t \<or> lifecycle_step token (lifecycle s) (lifecycle t)"
proof (cases op)
  case (BeginHandoff r n f now c)
  with assms lifecycle_begin show ?thesis by simp
next
  case (RecoverHandoff c now)
  with assms lifecycle_recover show ?thesis by simp
next
  case (Reconcile e)
  with assms lifecycle_reconcile show ?thesis by simp
next
  case (RevokeOldReceipt f)
  with assms lifecycle_revoke show ?thesis by simp
next
  case (IssueNewReceipt r v f now)
  with assms lifecycle_issue show ?thesis by simp
qed (use assms lifecycle_simple in simp_all)

lemma refused_unchanged:
  assumes "run_op token op s = (t, Inr d)" "\<not> hd_authorized d"
  shows "t = s"
proof (cases op)
  case (BeginHandoff r n f now c)
  with assms have "begin_handoff token r n f now c s = (t, Inr d)" by simp
  then show ?thesis
  proof (cases rule: begin_handoff_cases)
    case (begun a r n f g consumed)
    with assms(2) show ?thesis by (auto split: sum.split_asm)
  qed auto
next
  case (RecoverHandoff c now)
  with assms have "recover_handoff token c now s = (t, Inr d)" by simp
  from recover_handoff_effect [OF this] assms(2) show ?thesis
    by (elim disjE exE conjE) (auto split: sum.split_asm)
next
  case (Reconcile e)
  with assms have "reconcile token e s = (t, Inr d)" by simp
  from reconcile_effect [OF this] assms(2) show ?thesis
    by (elim disjE exE conjE) (auto split: sum.split_asm)
next
  case (RevokeOldReceipt f)
  with assms have "revoke_old_receipt token f s = (t, Inr d)" by simp
  from revoke_old_receipt_effect [OF this] assms(2) show ?thesis
    by (elim disjE exE conjE) (auto split: sum.split_asm)
next
  case (ActivateInitial r v now)
  with assms activate_initial_effect [of r v now s t "Inr d"] show ?thesis by auto
next
  case (ClaimOrchestrator r f now)
  with assms claim_orchestrator_effect [of token r f now s t "Inr d"] show ?thesis by auto
next
  case (IssueNewReceipt r v f now)
  with assms issue_new_receipt_effect [of token r v f now s t "Inr d"] show ?thesis by auto
next
  case (CompleteTeardown e)
  with assms complete_teardown_effect [of token e s t "Inr d"] show ?thesis by auto
qed (use assms in \<open>auto simp: authorize_def\<close>)

section \<open>A concrete run\<close>

definition sample_target :: "char \<Rightarrow> authority_identity" where
  "sample_target c = \<lparr>ai_repository_fingerprint = replicate 64 CHR ''a'',
     ai_canonical_checkout_fingerprint = replicate 64 CHR ''b'',
     ai_state_store_fingerprint = replicate 64 CHR ''c'', ai_state_id = 7,
     ai_deployment_fingerprint = replicate 64 CHR ''d'', ai_candidate_sha = replicate 40 c,
     ai_environment_fingerprint = replicate 64 CHR ''e'', ai_runtime_binding = sample_runtime\<rparr>"

definition sample_grant :: "char \<Rightarrow> handoff_receipt" where
  "sample_grant c = \<lparr>hr_receipt_fingerprint = replicate 64 c, hr_identity = sample_target c,
     hr_issued_at = utc 1 0, hr_expires_at = utc 2 0\<rparr>"

definition sample_observation :: "char \<Rightarrow> receipt_verification" where
  "sample_observation c = \<lparr>rv_evidence_fingerprint = replicate 64 CHR ''f'', rv_receipt_fingerprint = replicate 64 c,
     rv_receipt_binding_digest = binding_digest (sample_grant c), rv_repository_fingerprint = replicate 64 CHR ''a'',
     rv_state_store_fingerprint = replicate 64 CHR ''c'', rv_state_id = 7, rv_candidate_sha = replicate 40 c,
     rv_environment_fingerprint = replicate 64 CHR ''e'', rv_status = Verified_FRESH\<rparr>"

definition empty_store :: authority_store where
  "empty_store = \<lparr>state_store_fingerprint = replicate 64 CHR ''c'', store_state_id = 7, active = None,
      verification = None, progress = None, revoked = {}, claim_owner_token = None,
      claim_receipt_fingerprint = None, claim_binding_digest = None, claim_fingerprint = None,
      claim_generation = 0, handoff_owner_token = None, handoff_fingerprint = None,
      handoff_binding_digest = None, handoff_owner_claim_fingerprint = None,
      handoff_owner_claim_generation = None, consumed_recovery_evidence = {}\<rparr>"

definition issued_store :: authority_store where
  "issued_store = empty_store\<lparr>active := Some (sample_grant CHR ''1''), verification := Some (sample_observation CHR ''1'')\<rparr>"

definition held_store :: authority_store where
  "held_store = issued_store\<lparr>claim_owner_token := Some 0, claim_receipt_fingerprint := Some (replicate 64 CHR ''1''),
     claim_binding_digest := Some (binding_digest (sample_grant CHR ''1'')),
     claim_fingerprint := Some (replicate 64 CHR ''8''), claim_generation := 1\<rparr>"

lemma receipt_eq_refl [simp]: "authority_identity_eq i i" "handoff_receipt_eq r r" "runtime_binding_eq b b"
  by (simp_all add: authority_identity_eq_def handoff_receipt_eq_def runtime_binding_eq_def)

lemma sample_grant_sel [simp]:
  "hr_receipt_fingerprint (sample_grant c) = replicate 64 c" "hr_identity (sample_grant c) = sample_target c"
  "ai_state_store_fingerprint (sample_target c) = replicate 64 CHR ''c''" "ai_state_id (sample_target c) = 7"
  "ai_candidate_sha (sample_target c) = replicate 40 c"
  by (simp_all add: sample_grant_def sample_target_def)

lemma sample_grant_valid [simp]: "is_hex c \<Longrightarrow> valid_handoff_receipt (sample_grant c)"
  "is_hex c \<Longrightarrow> valid_authority_identity (sample_target c)"
  by (simp_all add: valid_handoff_receipt_def valid_authority_identity_def handoff_receipt_guards_def
      authority_identity_guards_def sample_grant_def sample_target_def handoff_require_fingerprint_def
      handoff_require_candidate_def handoff_require_utc_def)

lemma sample_grant_current [simp]: "receipt_current (sample_grant c) (utc (Suc 0) h)"
  by (simp add: receipt_current_def sample_grant_def)

lemma sample_grant_verified [simp]: "verification_matches (sample_grant c) (Some (sample_observation c))"
  by (simp add: sample_observation_def) (simp add: sample_grant_def sample_target_def)

lemma sample_observation_valid [simp]: "is_hex c \<Longrightarrow> list_all fst (receipt_verification_guards (sample_observation c))"
  by (simp add: receipt_verification_guards_def sample_observation_def handoff_require_fingerprint_def
      handoff_require_candidate_def binding_digest_def)

lemmas store_samples = empty_store_def issued_store_def held_store_def

lemma empty_store_fresh [simp]: "fresh_store empty_store"
  by (simp add: fresh_store_def make_store_def empty_store_def handoff_require_fingerprint_def)

definition sample_history :: "handoff_label list" where
  "sample_history =
     [(0, ActivateInitial (Some (sample_grant CHR ''1'')) (Some (sample_observation CHR ''1'')) (utc 1 1),
       Inr (permit ''initial receipt is the sole active authority'' (replicate 64 CHR ''1''))),
      (0, ClaimOrchestrator (Some (sample_grant CHR ''1'')) (replicate 64 CHR ''8'') (utc 1 2),
       Inr (permit ''exclusive canonical orchestrator claim acquired'' (replicate 64 CHR ''1'')))]"

lemma issued_reachable: "handoff_run empty_store (take 1 sample_history) issued_store"
proof -
  have "store_step empty_store (hd sample_history) issued_store"
    unfolding sample_history_def list.sel
    by (rule store_step.intros)
      (simp_all add: activate_initial_def store_views store_samples del: verification_matches.simps)
  from hs.reaches_snoc [OF hs.reaches_nil this] show ?thesis by (simp add: sample_history_def)
qed

lemma held_reachable: "handoff_run empty_store sample_history held_store"
proof -
  have "store_step issued_store (last sample_history) held_store"
    unfolding sample_history_def
    by (simp, rule store_step.intros)
      (simp_all add: claim_orchestrator_def store_views store_samples is_hex_def del: verification_matches.simps)
  from hs.reaches_snoc [OF issued_reachable this] show ?thesis by (simp add: sample_history_def)
qed

lemma held_authorized:
  "hd_authorized (authorize_locked 0 (Some (sample_target CHR ''1'')) (Some (sample_grant CHR ''1'')) (utc 1 3) held_store)"
  unfolding authorize_locked_iff by (simp add: store_views store_samples del: verification_matches.simps)

section \<open>An undisturbed handoff\<close>

fun run_ops :: "nat \<Rightarrow> handoff_op list \<Rightarrow> authority_store \<Rightarrow> authority_store \<times> handoff_decision result list" where
  "run_ops token [] s = (s, [])"
| "run_ops token (op # ops) s =
     (let (t, res) = run_op token op s; (u, rs) = run_ops token ops t in (u, res # rs))"

definition stopped :: "nat \<Rightarrow> handoff_receipt \<Rightarrow> authority_identity \<Rightarrow> string \<Rightarrow> authority_store \<Rightarrow> authority_store" where
  "stopped token r n h s = s\<lparr>progress := Some \<lparr>pg_handoff_fingerprint = h,
       pg_old_receipt_fingerprint = hr_receipt_fingerprint r, pg_new_identity = n, pg_phase = STOPPING,
       pg_reconciliation = None, pg_owner_claim_fingerprint = the (claim_fingerprint s),
       pg_owner_claim_generation = claim_generation s, pg_consumed_recovery_evidence = []\<rparr>,
     handoff_owner_token := Some token, handoff_fingerprint := Some h,
     handoff_binding_digest := Some (binding_digest r),
     handoff_owner_claim_fingerprint := claim_fingerprint s,
     handoff_owner_claim_generation := Some (claim_generation s)\<rparr>"

lemma begin_handoff_stops:
  assumes inv: "store_inv s" and a: "active s = Some r" "progress s = None"
    and held: "holds_claim token s r (claim_fingerprint s)" "receipt_current r now"
    and target: "is_fingerprint h" "same_authority_domain (hr_identity r) n" "\<not> authority_identity_eq (hr_identity r) n"
  shows "begin_handoff token (Some r) (Some n) h now None s =
    (stopped token r n h s,
     Inr (permit ''old authority is now non-dispatching pending reconciliation'' (hr_receipt_fingerprint r)))"
proof -
  have names: "receipt_names_this_store s (Some r)" "identity_names_this_store s (Some n)"
    using inv a(1) target(2) by (auto simp: store_inv_defs receipt_names_this_store_def same_authority_domain_def)
  obtain f where f: "claim_fingerprint s = Some f" "is_fingerprint f" "1 \<le> claim_generation s"
    using inv held(1) by (auto simp: store_inv_def claim_ok_def holds_claim_def present_iff)
  have "make_progress h (hr_receipt_fingerprint r) n STOPPING None (Some f) (claim_generation s) [] =
     Inr \<lparr>pg_handoff_fingerprint = h, pg_old_receipt_fingerprint = hr_receipt_fingerprint r, pg_new_identity = n,
       pg_phase = STOPPING, pg_reconciliation = None, pg_owner_claim_fingerprint = f,
       pg_owner_claim_generation = claim_generation s, pg_consumed_recovery_evidence = []\<rparr>"
    using inv a(1) target(1) f
    by (simp add: make_progress_Inr_iff progress_ok_def store_inv_defs handoff_receipt_fingerprint_ok)
  then show ?thesis
    using a held target names f(1)
    by (cases s) (simp add: begin_handoff_def stopped_def del: identity_names_this_store.simps)
qed

lemma handoff_remaining_steps:
  assumes ok: "progress_ok p" "pg_phase p = STOPPING" "pg_handoff_fingerprint p = h"
      "pg_old_receipt_fingerprint p = hr_receipt_fingerprint r"
    and st: "progress s = Some p" "active s = Some r" "holds_handoff_claim token s p"
    and e: "complete e" "rec_handoff_fingerprint e = h" "rec_old_receipt_fingerprint e = hr_receipt_fingerprint r"
      "rec_state_store_fingerprint e = state_store_fingerprint s" "rec_state_id e = store_state_id s"
    and r': "authority_identity_eq (hr_identity r') (pg_new_identity p)" "receipt_names_this_store s (Some r')"
      "receipt_current r' now" "hr_receipt_fingerprint r' \<notin> insert (hr_receipt_fingerprint r) (revoked s)"
      "verification_matches r' v"
  shows "\<exists>t d1 d2 d3. run_ops token [Reconcile e, RevokeOldReceipt h, IssueNewReceipt r' v h now] s = (t, [Inr d1, Inr d2, Inr d3])
    \<and> hd_authorized d1 \<and> hd_authorized d2 \<and> hd_authorized d3
    \<and> active t = Some r' \<and> verification t = v \<and> progress t = None
    \<and> revoked t = insert (hr_receipt_fingerprint r) (revoked s)
    \<and> holds_claim token t r' (claim_fingerprint t) \<and> receipt_names_this_store t (Some r')"
proof -
  let ?p = "p\<lparr>pg_phase := RECONCILED, pg_reconciliation := Some e\<rparr>" and ?q = "p\<lparr>pg_phase := REVOKED, pg_reconciliation := Some e\<rparr>"
  have mk: "make_progress h (hr_receipt_fingerprint r) (pg_new_identity p) RECONCILED (Some e)
        (Some (pg_owner_claim_fingerprint p)) (pg_owner_claim_generation p) (pg_consumed_recovery_evidence p) = Inr ?p"
      "make_progress h (hr_receipt_fingerprint r) (pg_new_identity p) REVOKED (Some e)
        (Some (pg_owner_claim_fingerprint p)) (pg_owner_claim_generation p) (pg_consumed_recovery_evidence p) = Inr ?q"
    using ok e(1) by (auto simp: make_progress_Inr_iff progress_ok_def)
  have s1: "reconcile token e s = (s\<lparr>progress := Some ?p\<rparr>,
      Inr (permit ''old authority is reconciled and may be revoked'' (hr_receipt_fingerprint r)))"
    using ok st e mk(1) by (simp add: reconcile_def)
  let ?s2 = "(clear_authority_claim (s\<lparr>progress := Some ?p, revoked := insert (hr_receipt_fingerprint r) (revoked s),
                  active := None, verification := None\<rparr>))\<lparr>progress := Some ?q\<rparr>"
  have h: "is_fingerprint h" using ok by (auto simp: progress_ok_def)
  have s2: "revoke_old_receipt token h (s\<lparr>progress := Some ?p\<rparr>) = (?s2,
      Inr (permit ''old receipt is revoked; no authority is dispatching'' (hr_receipt_fingerprint r)))"
    using h ok st e mk(2) by (simp add: revoke_old_receipt_def holds_handoff_claim_def clear_authority_claim_def)
  show ?thesis
    using h ok st r'
    by (simp add: s1 s2) (simp add: issue_new_receipt_def store_views del: verification_matches.simps)
qed

lemma handoff_completes_aux:
  assumes inv: "store_inv s" and a: "active s = Some r" "progress s = None"
    and held: "holds_claim token s r (claim_fingerprint s)" "receipt_current r now"
    and target: "is_fingerprint h" "same_authority_domain (hr_identity r) n" "\<not> authority_identity_eq (hr_identity r) n"
    and e: "complete e" "rec_handoff_fingerprint e = h" "rec_old_receipt_fingerprint e = hr_receipt_fingerprint r"
      "rec_state_store_fingerprint e = state_store_fingerprint s" "rec_state_id e = store_state_id s"
    and r': "authority_identity_eq (hr_identity r') n" "receipt_current r' now'"
      "hr_receipt_fingerprint r' \<notin> insert (hr_receipt_fingerprint r) (revoked s)" "verification_matches r' v"
  shows "\<exists>t ds. run_ops token [BeginHandoff (Some r) (Some n) h now None, Reconcile e, RevokeOldReceipt h,
        IssueNewReceipt r' v h now'] s = (t, map Inr ds)
    \<and> length ds = 4 \<and> list_all hd_authorized ds
    \<and> active t = Some r' \<and> revoked t = insert (hr_receipt_fingerprint r) (revoked s)
    \<and> hd_authorized (authorize_locked token (Some n) (Some r') now' t)"
proof -
  let ?s = "stopped token r n h s"
  obtain f where f: "claim_fingerprint s = Some f" "is_fingerprint f" "1 \<le> claim_generation s"
    using inv held(1) by (auto simp: store_inv_def claim_ok_def holds_claim_def present_iff)
  have fp: "is_fingerprint (hr_receipt_fingerprint r)"
    using inv a(1) by (simp add: store_inv_defs handoff_receipt_fingerprint_ok)
  obtain p where p: "progress ?s = Some p" "progress_ok p" "pg_phase p = STOPPING" "pg_handoff_fingerprint p = h"
      "pg_old_receipt_fingerprint p = hr_receipt_fingerprint r" "pg_new_identity p = n" "holds_handoff_claim token ?s p"
    using target(1) f fp
    by (intro that [of "the (progress ?s)"]) (simp_all add: stopped_def progress_ok_def holds_handoff_claim_def)
  have names: "receipt_names_this_store ?s (Some r')"
    using inv a(1) target(2) r'(1)
    by (auto simp: store_inv_defs receipt_names_this_store_def same_authority_domain_def authority_identity_eq_def stopped_def)
  have same: "active ?s = Some r" "revoked ?s = revoked s" "state_store_fingerprint ?s = state_store_fingerprint s"
      "store_state_id ?s = store_state_id s"
    using a(1) by (simp_all add: stopped_def)
  from handoff_remaining_steps [OF p(2-5,1) same(1) p(7) e(1-3) _ _ _ names r'(2) _ r'(4)] e(4,5) r'(1,3) same p(6)
  obtain t d1 d2 d3 where
    t: "run_ops token [Reconcile e, RevokeOldReceipt h, IssueNewReceipt r' v h now'] ?s = (t, [Inr d1, Inr d2, Inr d3])"
      "hd_authorized d1" "hd_authorized d2" "hd_authorized d3" "active t = Some r'" "verification t = v" "progress t = None"
      "revoked t = insert (hr_receipt_fingerprint r) (revoked s)" "holds_claim token t r' (claim_fingerprint t)"
      "receipt_names_this_store t (Some r')"
    by auto
  let ?d = "permit ''old authority is now non-dispatching pending reconciliation'' (hr_receipt_fingerprint r)"
  have "run_ops token [BeginHandoff (Some r) (Some n) h now None, Reconcile e, RevokeOldReceipt h,
        IssueNewReceipt r' v h now'] s = (t, map Inr [?d, d1, d2, d3])"
    using t(1) begin_handoff_stops [OF inv a held target] by simp
  moreover have "hd_authorized (authorize_locked token (Some n) (Some r') now' t)"
    using t r' by (simp add: authorize_locked_iff)
  ultimately show ?thesis using t by (intro exI [of _ t] exI [of _ "[?d, d1, d2, d3]"]) simp
qed

text \<open>A run of operations by one session is a run of the store.\<close>

lemma run_ops_reachable:
  assumes "run_ops token ops s = (t, rs)" "list_all op_values_constructed ops" "handoff_run s0 hist s"
  shows "handoff_run s0 (hist @ map (\<lambda>(op, r). (token, op, r)) (zip ops rs)) t"
  using assms
proof (induction ops arbitrary: s hist rs)
  case (Cons op ops)
  obtain u r where u: "run_op token op s = (u, r)" by (cases "run_op token op s")
  then obtain rs' where rs: "run_ops token ops u = (t, rs')" "rs = r # rs'"
    using Cons.prems(1) by (auto split: prod.splits)
  have "handoff_run s0 (hist @ [(token, op, r)]) u"
    using Cons.prems(2,3) u by (auto intro: hs.reaches_snoc store_step.intros)
  from Cons.IH [OF rs(1) _ this] Cons.prems(2) rs(2) show ?case by simp
qed simp

definition sample_reconciliation :: handoff_reconciliation where
  "sample_reconciliation = \<lparr>rec_handoff_fingerprint = replicate 64 CHR ''9'',
     rec_old_receipt_fingerprint = replicate 64 CHR ''1'', rec_state_store_fingerprint = replicate 64 CHR ''c'',
     rec_state_id = 7, dispatcher_stopped = True, children_reconciled = True, lease_reconciled = True,
     rec_evidence_fingerprint = replicate 64 CHR ''0''\<rparr>"

definition sample_handoff :: "handoff_op list" where
  "sample_handoff = [BeginHandoff (Some (sample_grant CHR ''1'')) (Some (sample_target CHR ''2'')) (replicate 64 CHR ''9'')
       (utc 1 3) None,
     Reconcile sample_reconciliation, RevokeOldReceipt (replicate 64 CHR ''9''),
     IssueNewReceipt (sample_grant CHR ''2'') (Some (sample_observation CHR ''2'')) (replicate 64 CHR ''9'') (utc 1 5)]"

definition replaced_store :: authority_store where
  "replaced_store = fst (run_ops 0 sample_handoff held_store)"

lemma sample_targets:
  "same_authority_domain (sample_target c) (sample_target d)"
  "authority_identity_eq (sample_target c) (sample_target d) \<longleftrightarrow> c = d"
  by (auto simp: same_authority_domain_def authority_identity_eq_def sample_target_def runtime_binding_eq_def)

lemma held_sel [simp]: "active held_store = Some (sample_grant CHR ''1'')" "progress held_store = None"
  "revoked held_store = {}" "state_store_fingerprint held_store = replicate 64 CHR ''c''" "store_state_id held_store = 7"
  "holds_claim 0 held_store (sample_grant CHR ''1'') (claim_fingerprint held_store)"
  by (simp_all add: store_samples holds_claim_def)

lemma sample_reconciliation_sel [simp]:
  "complete sample_reconciliation" "rec_handoff_fingerprint sample_reconciliation = replicate 64 CHR ''9''"
  "rec_old_receipt_fingerprint sample_reconciliation = replicate 64 CHR ''1''"
  "rec_state_store_fingerprint sample_reconciliation = replicate 64 CHR ''c''" "rec_state_id sample_reconciliation = 7"
  by (simp_all add: sample_reconciliation_def complete_def)

lemma hex_nine [simp]: "is_hex CHR ''9''" by (simp add: is_hex_def)

lemma held_inv: "store_inv held_store"
  by (rule hs.reachable_inv [OF held_reachable empty_store_fresh])

lemma sample_handoff_done:
  obtains ds where "run_ops 0 sample_handoff held_store = (replaced_store, map Inr ds)" "length ds = 4"
    "list_all hd_authorized ds" "active replaced_store = Some (sample_grant CHR ''2'')"
    "revoked replaced_store = {replicate 64 CHR ''1''}"
    "hd_authorized (authorize_locked 0 (Some (sample_target CHR ''2'')) (Some (sample_grant CHR ''2'')) (utc 1 5) replaced_store)"
  using handoff_completes_aux [OF held_inv, of "sample_grant CHR ''1''" 0 "utc 1 3" "replicate 64 CHR ''9''"
      "sample_target CHR ''2''" sample_reconciliation "sample_grant CHR ''2''" "utc 1 5" "Some (sample_observation CHR ''2'')"]
  by (auto simp: sample_targets sample_handoff_def replaced_store_def simp del: run_ops.simps verification_matches.simps)

lemma replaced_authorized:
  "hd_authorized (authorize_locked 0 (Some (sample_target CHR ''2'')) (Some (sample_grant CHR ''2'')) (utc 1 5) replaced_store)"
  using sample_handoff_done by blast

lemma sample_handoff_constructed: "list_all op_values_constructed sample_handoff"
  by (simp add: sample_handoff_def reconciliation_guards_def sample_reconciliation_def handoff_require_fingerprint_def)

definition replacement_history :: "handoff_label list" where
  "replacement_history = map (\<lambda>(op, r). (0, op, r)) (zip sample_handoff (snd (run_ops 0 sample_handoff held_store)))"

lemma replaced_after_held: "handoff_run held_store replacement_history replaced_store"
  using run_ops_reachable [of 0 sample_handoff held_store replaced_store _ held_store "[]"]
    sample_handoff_constructed hs.reaches_nil
  by (metis append_Nil prod.collapse replaced_store_def replacement_history_def)

text \<open>A second session takes over after the first one's receipt expired, with recovery evidence.\<close>

definition sample_recovery :: recovery_claim where
  "sample_recovery = \<lparr>cl_evidence_fingerprint = replicate 64 CHR ''f'', cl_handoff_fingerprint = replicate 64 CHR ''9'',
     cl_old_receipt_fingerprint = replicate 64 CHR ''1'',
     cl_receipt_binding_digest = binding_digest (sample_grant CHR ''1''),
     cl_prior_owner_claim_fingerprint = replicate 64 CHR ''8'', cl_prior_owner_claim_generation = 1,
     cl_replacement_owner_claim_fingerprint = replicate 64 CHR ''7'', cl_state_store_fingerprint = replicate 64 CHR ''c'',
     cl_state_id = 7, cl_status = STALE_OWNER, cl_observed_at = utc 2 1, cl_expires_at = utc 4 0\<rparr>"

lemma sample_recovery_valid: "valid_recovery_claim sample_recovery"
  by (simp add: valid_recovery_claim_def recovery_claim_guards_def sample_recovery_def handoff_require_fingerprint_def
      handoff_require_utc_def is_hex_def binding_digest_def)

lemma sample_takeover:
  "\<exists>t d. store_step held_store (3, BeginHandoff (Some (sample_grant CHR ''1'')) (Some (sample_target CHR ''2''))
      (replicate 64 CHR ''9'') (utc 3 0) (Some sample_recovery), Inr d) t \<and> hd_authorized d"
proof -
  let ?op = "BeginHandoff (Some (sample_grant CHR ''1'')) (Some (sample_target CHR ''2''))
      (replicate 64 CHR ''9'') (utc 3 0) (Some sample_recovery)"
  have c: "op_values_constructed ?op" by (simp add: sample_recovery_valid)
  obtain t res where run: "run_op 3 ?op held_store = (t, res)" by (cases "run_op 3 ?op held_store")
  with run_op_inv_result [OF held_inv run c] obtain d where d: "res = Inr d" by auto
  have m: "recovery_matches (Some sample_recovery) (replicate 64 CHR ''9'') (OldReceipt (sample_grant CHR ''1'')) held_store
      None (claim_fingerprint held_store) (claim_generation held_store) (utc 3 0)"
    by (simp add: recovery_matches_def) (simp add: sample_recovery_def store_samples)
  have n: "\<not> holds_claim 3 held_store (sample_grant CHR ''1'') f"
      "cl_evidence_fingerprint sample_recovery \<notin> consumed_recovery_evidence held_store" for f
    by (simp_all add: store_samples holds_claim_def)
  have "hd_authorized d"
    using run d m n unfolding run_op.simps begin_handoff_def
    by (auto simp: sample_targets receipt_names_this_store_def split: sum.splits)
  with store_step.intros [OF c run] d show ?thesis by blast
qed

text \<open>An expired receipt that nobody claimed: no operation moves the store.\<close>

fun claims_from :: "datetime \<Rightarrow> handoff_op \<Rightarrow> bool" where
  "claims_from limit (ClaimOrchestrator receipt f now) = (stamp limit \<le> stamp now)"
| "claims_from limit _ = True"

lemma unclaimed_step:
  assumes "run_op token op s = (t, res)" "store_inv s" "active s = Some r" "claim_owner_token s = None" "progress s = None"
    and "claims_from (hr_expires_at r) op"
  shows "t = s"
proof (cases op)
  case (BeginHandoff r n f now c)
  with assms(1) have "begin_handoff token r n f now c s = (t, res)" by simp
  then show ?thesis
  proof (cases rule: begin_handoff_cases)
    case (begun a r n f g consumed)
    then show ?thesis using assms(2,4)
      by (auto simp: holds_claim_def recovery_accepted_def recovery_matches_def store_inv_def claim_ok_def split: if_splits)
  qed simp_all
next
  case (ClaimOrchestrator receipt f now)
  with assms(6) have "stamp (hr_expires_at r) \<le> stamp now" by simp
  with ClaimOrchestrator claim_orchestrator_effect [of token receipt f now s t res] assms(1,3) show ?thesis
    by (auto simp: receipt_current_def handoff_receipt_eq_def)
next
  case (ActivateInitial r v now)
  with activate_initial_effect [of r v now s t res] assms(1,3) show ?thesis by auto
qed (use assms(1,5) in \<open>simp_all add: authorize_def recover_handoff_def reconcile_def revoke_old_receipt_def
      issue_new_receipt_def complete_teardown_def split: if_splits\<close>)

section \<open>Properties\<close>

text \<open>
  Whatever coordinators do, in whatever order, a store that
  started empty stays consistent: an active receipt is valid, unrevoked, verified and names this
  store; a claim points at exactly that receipt; an open handoff owns all five handoff fields,
  its old receipt is still active until revoked and revoked afterwards, and its evidence
  history is recorded as consumed.
\<close>

lemma handoff_store_invariant:
  assumes "fresh_store s" "handoff_run s history t"
  shows "store_inv t"
  using assms by (blast intro: hs.reachable_inv)

text \<open>
  On a reachable store, with constructed arguments and well-formed
  fingerprints, no operation raises: in particular the \<open>HandoffProgress\<close> constructors that run
  in the middle of \<open>recover_handoff\<close> and \<open>revoke_old_receipt\<close> succeed, so no exception can leave a
  store half-updated. A refusal leaves the store exactly as it was.
\<close>

lemma handoff_never_raises:
  assumes "fresh_store s" "handoff_run s history t" "op_values_constructed op"
    and "pred_option is_fingerprint (op_fingerprint op)"
  shows "\<exists>u d. run_op token op t = (u, Inr d) \<and> (\<not> hd_authorized d \<longrightarrow> u = t)"
proof -
  obtain u res where run: "run_op token op t = (u, res)" by (cases "run_op token op t")
  from run_op_inv_result [OF hs.reachable_inv [OF assms(2,1)] run assms(3)] assms(4)
  obtain d where "res = Inr d" by blast
  with run refused_unchanged show ?thesis by blast
qed

text \<open>
  C1 (handoff_exclusive_authority). Exclusive authority over time: if a session is authorized
  under one receipt and, now or at any later point of the run, a session is authorized under a
  receipt, then it is the same session and the same receipt (same fingerprint, same binding
  digest), unless the first receipt has been revoked in between. No handoff is open whenever
  anybody is authorized.
\<close>

theorem handoff_exclusive_authority:
  assumes start: "fresh_store s0" "handoff_run s0 before s" and run: "handoff_run s history t"
    and a1: "hd_authorized (authorize_locked token1 i1 (Some r1) now1 s)"
    and a2: "hd_authorized (authorize_locked token2 i2 (Some r2) now2 t)"
  shows "progress s = None \<and> progress t = None \<and>
     (hr_receipt_fingerprint r1 \<in> revoked t \<or>
      token1 = token2 \<and> hr_receipt_fingerprint r1 = hr_receipt_fingerprint r2
        \<and> handoff_receipt_eq r1 r2 \<and> binding_digest r1 = binding_digest r2)"
proof -
  have inv: "store_inv s" using start by (blast intro: hs.reachable_inv)
  from a1 a2 obtain a b where
    h1: "active s = Some a" "handoff_receipt_eq a r1" "progress s = None"
      "holds_claim token1 s r1 (claim_fingerprint s)"
    and h2: "active t = Some b" "handoff_receipt_eq b r2" "progress t = None"
      "holds_claim token2 t r2 (claim_fingerprint t)" and v2: "verification_matches r2 (verification t)"
    and v1: "verification_matches r1 (verification s)"
    unfolding authorize_locked_iff by blast
  have inv_t: "store_inv t" using run inv by (rule hs.reaches_inv)
  have d: "binding_digest r1 = binding_digest a" "binding_digest r2 = binding_digest b"
    using inv inv_t h1(1) h2(1) v1 v2 by (auto simp: store_inv_defs intro: verification_binds)
  from succession_run [OF run inv] h1 h2 d show ?thesis
    by (auto simp: succession_def handoff_receipt_eq_def holds_claim_def authority_identity_eq_def runtime_binding_eq_def)
qed

theorem handoff_exclusive_authority_witness:
  "progress held_store = None \<and> progress replaced_store = None \<and>
     (replicate 64 CHR ''1'' \<in> revoked replaced_store \<or>
      (0::nat) = 0 \<and> replicate 64 CHR ''1'' = replicate 64 CHR ''2''
      \<and> handoff_receipt_eq (sample_grant CHR ''1'') (sample_grant CHR ''2'')
      \<and> binding_digest (sample_grant CHR ''1'') = binding_digest (sample_grant CHR ''2''))"
  using handoff_exclusive_authority [OF empty_store_fresh held_reachable replaced_after_held held_authorized replaced_authorized]
  by simp

text \<open>
  Revocation is irreversible: once a fingerprint is revoked, at
  every later point of the run no session, identity or time authorizes a receipt with it, it
  is not the active receipt, and neither \<open>activate_initial\<close> nor \<open>issue_new_receipt\<close> accepts it.
\<close>

lemma handoff_revocation_final:
  assumes start: "fresh_store s0" "handoff_run s0 before s" and run: "handoff_run s history t"
    and rev: "hr_receipt_fingerprint r \<in> revoked s"
  shows "\<not> hd_authorized (authorize_locked token identity (Some r) now t)
    \<and> map_option hr_receipt_fingerprint (active t) \<noteq> Some (hr_receipt_fingerprint r)
    \<and> (\<exists>why. activate_initial (Some r) verified now t = (t, Inr (refuse why)))
    \<and> fst (issue_new_receipt token r verified h now t) = t"
proof -
  have inv: "store_inv s" using start by (blast intro: hs.reachable_inv)
  have r: "hr_receipt_fingerprint r \<in> revoked t"
    using succession_run [OF run inv] rev by (auto simp: succession_def)
  have "store_inv t" using run inv by (rule hs.reaches_inv)
  with r have "map_option hr_receipt_fingerprint (active t) \<noteq> Some (hr_receipt_fingerprint r)"
    by (auto simp: store_inv_defs)
  moreover have "\<exists>why. activate_initial (Some r) verified now t = (t, Inr (refuse why))"
    using r activate_initial_effect [of "Some r" verified now t] by (metis option.inject prod.exhaust)
  moreover have "fst (issue_new_receipt token r verified h now t) = t"
    using r issue_new_receipt_effect [of token r verified h now t] by (metis fst_conv prod.exhaust)
  ultimately show ?thesis using r by (simp add: authorize_locked_iff)
qed

text \<open>
  Recovery evidence cannot be replayed: over a whole run
  of all coordinators, the evidence fingerprints with which \<open>begin_handoff\<close> or \<open>recover_handoff\<close>
  succeeded are pairwise different.
\<close>

lemma recovery_evidence_single_use:
  assumes "fresh_store s" "handoff_run s history t"
  shows "distinct (concat (map evidence_spent history))"
  using run_spends [OF assms(2)] hs.inv_init [OF assms(1)] by blast

text \<open>
  C2 (handoff_refines_lifecycle). Every operation of every coordinator is, on the abstract
  life cycle of an authority, a stuttering step or one of its ten transitions performed by the
  acting session: nobody skips reconciliation or revocation, only the owner of a handoff
  advances it, and a replacement receipt has another fingerprint than the revoked one.
\<close>

theorem handoff_refines_lifecycle:
  assumes "fresh_store s0" "handoff_run s0 history s" "store_step s (token, op, res) t"
  shows "lifecycle t = lifecycle s \<or> lifecycle_step token (lifecycle s) (lifecycle t)"
  using assms(3) hs.reachable_inv [OF assms(2,1)] by (elim store_stepE) (metis lifecycle_run_op)

theorem handoff_refines_lifecycle_witness:
  "\<exists>t d. store_step held_store (3, BeginHandoff (Some (sample_grant CHR ''1'')) (Some (sample_target CHR ''2''))
        (replicate 64 CHR ''9'') (utc 3 0) (Some sample_recovery), Inr d) t \<and> hd_authorized d
      \<and> (lifecycle t = lifecycle held_store \<or> lifecycle_step 3 (lifecycle held_store) (lifecycle t))"
proof -
  from sample_takeover obtain t d where
    st: "store_step held_store (3, BeginHandoff (Some (sample_grant CHR ''1'')) (Some (sample_target CHR ''2''))
        (replicate 64 CHR ''9'') (utc 3 0) (Some sample_recovery), Inr d) t" "hd_authorized d" by blast
  with handoff_refines_lifecycle [OF empty_store_fresh held_reachable st(1)] show ?thesis by blast
qed

text \<open>
  A handoff that nobody disturbs completes: from any reachable store
  whose holder has a current receipt, \<open>begin_handoff\<close>, \<open>reconcile\<close> with complete matching evidence,
  \<open>revoke_old_receipt\<close> and \<open>issue_new_receipt\<close> with a current, verified, unrevoked receipt for the
  target all succeed; afterwards the new receipt is active, the old one is revoked, and the
  session is authorized under the new identity.
\<close>

lemma handoff_completes:
  assumes "fresh_store s0" "handoff_run s0 history s"
    and "active s = Some r" "progress s = None"
    and "holds_claim token s r (claim_fingerprint s)" "receipt_current r now"
    and "is_fingerprint h" "same_authority_domain (hr_identity r) n" "\<not> authority_identity_eq (hr_identity r) n"
    and "complete e" "rec_handoff_fingerprint e = h" "rec_old_receipt_fingerprint e = hr_receipt_fingerprint r"
      "rec_state_store_fingerprint e = state_store_fingerprint s" "rec_state_id e = store_state_id s"
    and "authority_identity_eq (hr_identity r') n" "receipt_current r' now'"
      "hr_receipt_fingerprint r' \<notin> insert (hr_receipt_fingerprint r) (revoked s)" "verification_matches r' v"
  shows "\<exists>t ds. run_ops token [BeginHandoff (Some r) (Some n) h now None, Reconcile e, RevokeOldReceipt h,
        IssueNewReceipt r' v h now'] s = (t, map Inr ds)
    \<and> length ds = 4 \<and> list_all hd_authorized ds
    \<and> active t = Some r' \<and> revoked t = insert (hr_receipt_fingerprint r) (revoked s)
    \<and> hd_authorized (authorize_locked token (Some n) (Some r') now' t)"
  using assms by (intro handoff_completes_aux hs.reachable_inv)

text \<open>
  The store has no exit from a receipt that was
  activated but never claimed before it expired: at every time at or after the expiry, no
  sequence of operations of any session changes the store again. Claiming needs a current
  receipt, a handoff needs a claim (also with recovery evidence, which must name one), and
  activation needs an empty store.
\<close>

lemma expired_unclaimed_receipt_is_stuck:
  assumes "fresh_store s0" "handoff_run s0 before s"
    and "active s = Some r" "claim_owner_token s = None" "progress s = None"
    and "handoff_run s history t"
    and "list_all (\<lambda>l. claims_from (hr_expires_at r) (fst (snd l))) history"
  shows "t = s"
  using assms(6) hs.reachable_inv [OF assms(2,1)] assms(3-5,7)
proof (induction rule: hs.reaches.induct)
  case (reaches_snoc s ls t l u)
  have "t = s"
    by (rule reaches_snoc.IH) (use reaches_snoc.prems in auto)
  moreover obtain token op res where l: "l = (token, op, res)" by (cases l)
  ultimately have run: "run_op token op s = (u, res)" using reaches_snoc(2) by (auto elim!: store_stepE)
  have "claims_from (hr_expires_at r) op" using reaches_snoc.prems(5) l by simp
  with run reaches_snoc.prems(1-4) have "u = s" by (rule unclaimed_step)
  then show ?case .
qed simp

text \<open>
  C33 (authorize_ignores_review_policy). The identity comparison of \<open>authorize\<close> is the generated
  dataclass equality, which skips the five review-policy fields of the runtime binding: a caller
  that presents another review policy than the receipt's is authorized all the same, although
  \<open>require_matches\<close>, the comparison used for deployment receipts, rejects it.
\<close>

theorem authorize_ignores_review_policy:
  "authorize_locked token (Some (i\<lparr>ai_runtime_binding := (ai_runtime_binding i)
       \<lparr>review_complete_rounds := a, review_max_rounds := b, review_max_supervisor_attempts_per_round := c,
        review_on_final_findings := d, review_policy_digest := e\<rparr>\<rparr>)) receipt now s
   = authorize_locked token (Some i) receipt now s
   \<and> (require_matches (ai_runtime_binding i) (Some ((ai_runtime_binding i)
       \<lparr>review_complete_rounds := a, review_max_rounds := b, review_max_supervisor_attempts_per_round := c,
        review_on_final_findings := d, review_policy_digest := e\<rparr>)) = Inr ()
      \<longleftrightarrow> (review_complete_rounds (ai_runtime_binding i), review_max_rounds (ai_runtime_binding i),
           review_max_supervisor_attempts_per_round (ai_runtime_binding i),
           review_on_final_findings (ai_runtime_binding i), review_policy_digest (ai_runtime_binding i)) = (a, b, c, d, e))"
  by (cases receipt)
    (auto simp: authorize_locked_def authority_identity_eq_def runtime_binding_eq_def require_matches_def)

end
