(* ===== verification/Policy.thy ===== *)
theory Policy
  imports Runtime_Binding
begin

text \<open>
  \<open>policy.py\<close>: activation of one receipt-bound policy. A reviewed snapshot, an owner receipt and
  the standing authority go in; a decision comes out. The evaluator is modelled branch by
  branch; the interpretation \<open>policy_gate\<close> states that it is a fail-closed gate.
\<close>

section \<open>Data\<close>

datatype policy_action = ISSUE_COMMENT | PULL_REQUEST_READY | MERGE_PULL_REQUEST | RELEASE

fun action_value :: "policy_action \<Rightarrow> string" where
  "action_value ISSUE_COMMENT = ''issue-comment''"
| "action_value PULL_REQUEST_READY = ''pull-request-ready''"
| "action_value MERGE_PULL_REQUEST = ''merge-pull-request''"
| "action_value RELEASE = ''release''"

text \<open>\<open>PolicyAction(value)\<close>: the member with that value, or \<open>ValueError\<close>.\<close>

definition policy_action_of :: "string \<Rightarrow> policy_action result" where
  "policy_action_of s =
     (case List.find (\<lambda>a. action_value a = s) [ISSUE_COMMENT, PULL_REQUEST_READY, MERGE_PULL_REQUEST, RELEASE] of
        Some a \<Rightarrow> Inr a | None \<Rightarrow> Inl PyValueError)"

datatype receipt_status = Receipt_FRESH | Receipt_CONSUMED | Receipt_CONFLICTING | Receipt_REVOKED

definition POLICY_SCHEMA_VERSION :: int where
  "POLICY_SCHEMA_VERSION = 1"

record trusted_control_source =
  cs_source_fingerprint :: string
  cs_revision_fingerprint :: string

record policy_document =
  pd_schema_version :: int
  pd_allowed_actions :: "policy_action set"

text \<open>A field of a snapshot whose value has another type is \<open>None\<close>.\<close>

record trusted_policy_snapshot =
  ps_source :: "trusted_control_source option"
  ps_document :: "policy_document option"

record standing_authority =
  sa_allowed_actions :: "policy_action set"

record activation_receipt =
  ar_owner_fingerprint :: string
  ar_receipt_fingerprint :: string
  ar_source_fingerprint :: string
  ar_revision_fingerprint :: string
  ar_policy_digest :: string
  ar_schema_version :: int
  ar_task_fingerprint :: string
  ar_candidate_sha :: string
  ar_activated_at :: datetime
  ar_expires_at :: datetime
  ar_runtime_binding :: runtime_binding
  ar_selected_supervisor_profile_identity :: string

record policy_decision =
  pol_authorized :: bool
  pol_reason :: string
  pol_schema_version :: "int option"
  pol_source_fingerprint :: "string option"
  pol_policy_digest :: "string option"
  pol_receipt_fingerprint :: "string option"
  pol_activated_at :: "datetime option"
  pol_allowed_actions :: "policy_action set"

section \<open>Guards and digests\<close>

definition policy_require_fingerprint :: "string \<Rightarrow> string \<Rightarrow> bool \<times> py_error" where
  "policy_require_fingerprint value description =
     (is_fingerprint value, PolicyError (''the '' @ description @ '' fingerprint is invalid''))"

definition policy_require_commit_sha :: "string \<Rightarrow> string \<Rightarrow> bool \<times> py_error" where
  "policy_require_commit_sha value description =
     (is_commit_sha value, PolicyError (''the '' @ description @ '' commit identity is invalid''))"

definition policy_require_utc :: "datetime option \<Rightarrow> string \<Rightarrow> bool \<times> py_error" where
  "policy_require_utc value description =
     (present is_utc value, PolicyError (''the '' @ description @ '' must use UTC''))"

definition control_source_guards :: "trusted_control_source \<Rightarrow> (bool \<times> py_error) list" where
  "control_source_guards s =
     [policy_require_fingerprint (cs_source_fingerprint s) ''control source'',
      policy_require_fingerprint (cs_revision_fingerprint s) ''control revision'']"

definition policy_document_guards :: "policy_document \<Rightarrow> (bool \<times> py_error) list" where
  "policy_document_guards d =
     [(pd_schema_version d = POLICY_SCHEMA_VERSION, PolicyError ''the policy schema version is unsupported'')]"

definition make_policy_document :: "int \<Rightarrow> policy_action set \<Rightarrow> policy_document result" where
  "make_policy_document version actions =
     (let d = \<lparr>pd_schema_version = version, pd_allowed_actions = actions\<rparr>
      in construct (policy_document_guards d) d)"

text \<open>The fields that both the constructor and the evaluation boundary check.\<close>

definition receipt_field_guards :: "activation_receipt \<Rightarrow> (bool \<times> py_error) list" where
  "receipt_field_guards r =
     [policy_require_fingerprint (ar_owner_fingerprint r) ''owner receipt'',
      policy_require_fingerprint (ar_receipt_fingerprint r) ''activation receipt'',
      policy_require_fingerprint (ar_source_fingerprint r) ''receipt source'',
      policy_require_fingerprint (ar_revision_fingerprint r) ''receipt revision'',
      policy_require_fingerprint (ar_policy_digest r) ''receipt policy digest'',
      policy_require_fingerprint (ar_task_fingerprint r) ''receipt task'',
      policy_require_commit_sha (ar_candidate_sha r) ''receipt candidate'',
      (ar_schema_version r = POLICY_SCHEMA_VERSION, PolicyError ''the receipt schema version is unsupported''),
      policy_require_utc (Some (ar_activated_at r)) ''activation timestamp'',
      policy_require_utc (Some (ar_expires_at r)) ''receipt expiry'',
      (stamp (ar_activated_at r) < stamp (ar_expires_at r),
         PolicyError ''the activation receipt has an invalid lifetime'')]"

definition make_activation_receipt :: "activation_receipt \<Rightarrow> activation_receipt result" where
  "make_activation_receipt r = construct
     (receipt_field_guards r @
      [(ar_selected_supervisor_profile_identity r \<in> set (supervisor_profile_identities (ar_runtime_binding r)),
          PolicyError ''the activation receipt selected supervisor profile is invalid'')]) r"

definition policy_fields :: "policy_document \<Rightarrow> (string \<times> json) list" where
  "policy_fields d =
     [(''allowed_actions'', JList (map JStr (sorted_list_of_set (action_value ` pd_allowed_actions d)))),
      (''schema_version'', JInt (pd_schema_version d))]"

definition canonical_policy_bytes :: "policy_document \<Rightarrow> string" where
  "canonical_policy_bytes d = json_dumps (JObj (policy_fields d))"

definition policy_digest :: "policy_document \<Rightarrow> string" where
  "policy_digest d = sha256_hex (canonical_policy_bytes d)"

definition trusted_control_source_is_structurally_valid :: "trusted_control_source \<Rightarrow> bool" where
  "trusted_control_source_is_structurally_valid s \<longleftrightarrow> first_failure (control_source_guards s) = None"

definition policy_document_is_structurally_valid :: "policy_document \<Rightarrow> bool" where
  "policy_document_is_structurally_valid d \<longleftrightarrow> pd_schema_version d = POLICY_SCHEMA_VERSION"

definition snapshot_is_structurally_valid :: "trusted_policy_snapshot \<Rightarrow> bool" where
  "snapshot_is_structurally_valid s \<longleftrightarrow>
     present trusted_control_source_is_structurally_valid (ps_source s)
     \<and> present policy_document_is_structurally_valid (ps_document s)"

definition receipt_is_structurally_valid :: "activation_receipt \<Rightarrow> bool" where
  "receipt_is_structurally_valid r \<longleftrightarrow> first_failure (receipt_field_guards r) = None"

definition safe_policy_digest :: "trusted_policy_snapshot \<Rightarrow> string option" where
  "safe_policy_digest s = (case ps_document s of None \<Rightarrow> None
     | Some d \<Rightarrow> if policy_document_is_structurally_valid d then Some (policy_digest d) else None)"

section \<open>Parsing\<close>

text \<open>
  \<open>parse_policy_document\<close> on the decoded value; \<open>None\<close> stands for contents that \<open>json.loads\<close>
  refuses. Numbers with a fraction are not represented: the code rejects them with the same
  error as the other non-integers.
\<close>

fun is_jstr :: "json \<Rightarrow> bool" where
  "is_jstr (JStr s) = True"
| "is_jstr _ = False"

fun jstr_value :: "json \<Rightarrow> string" where
  "jstr_value (JStr s) = s"
| "jstr_value _ = []"

definition parse_policy_actions :: "json list \<Rightarrow> policy_action list result" where
  "parse_policy_actions vals =
     (if \<not> list_all is_jstr vals then Inl (PolicyError ''the policy actions are invalid'') else
      (case traverse (\<lambda>v. policy_action_of (jstr_value v)) vals of
         Inl _ \<Rightarrow> Inl (PolicyError ''the policy contains an unknown authority action'')
       | Inr typed \<Rightarrow>
           if card (set typed) \<noteq> length vals
           then Inl (PolicyError ''the policy contains duplicate authority actions'') else Inr typed))"

definition parse_policy_document :: "json option \<Rightarrow> policy_document result" where
  "parse_policy_document raw =
    (case raw of
       None \<Rightarrow> Inl (PolicyError ''the policy document is malformed'')
     | Some (JObj kvs) \<Rightarrow>
         if set (map fst (py_dict kvs)) \<noteq> {''schema_version'', ''allowed_actions''}
         then Inl (PolicyError ''the policy document contains unsupported fields'') else
         (case (map_of (py_dict kvs) ''schema_version'', map_of (py_dict kvs) ''allowed_actions'') of
            (Some (JInt version), Some actions) \<Rightarrow>
              (case actions of
                 JList vals \<Rightarrow>
                   bind_result (parse_policy_actions vals) (\<lambda>typed. make_policy_document version (set typed))
               | _ \<Rightarrow> Inl (PolicyError ''the policy actions are invalid''))
          | _ \<Rightarrow> Inl (PolicyError ''the policy schema version is invalid''))
     | Some _ \<Rightarrow> Inl (PolicyError ''the policy document contains unsupported fields''))"

section \<open>Evaluation\<close>

definition denied :: "string \<Rightarrow> trusted_policy_snapshot option \<Rightarrow> activation_receipt option \<Rightarrow> policy_decision" where
  "denied why snapshot receipt =
    (let valid_snapshot = present snapshot_is_structurally_valid snapshot;
         valid_receipt = present receipt_is_structurally_valid receipt;
         source = (if valid_snapshot then Option.bind snapshot ps_source else None);
         document = (if valid_snapshot then Option.bind snapshot ps_document else None) in
     \<lparr>pol_authorized = False, pol_reason = why,
      pol_schema_version = map_option pd_schema_version document,
      pol_source_fingerprint = map_option cs_source_fingerprint source,
      pol_policy_digest = (if valid_snapshot then Option.bind snapshot safe_policy_digest else None),
      pol_receipt_fingerprint = (if valid_receipt then map_option ar_receipt_fingerprint receipt else None),
      pol_activated_at = (if valid_receipt then map_option ar_activated_at receipt else None),
      pol_allowed_actions = {}\<rparr>)"

fun error_text :: "py_error \<Rightarrow> string" where
  "error_text (PolicyError s) = s"
| "error_text _ = []"

definition evaluate_policy ::
  "trusted_policy_snapshot option \<Rightarrow> activation_receipt option \<Rightarrow> string \<Rightarrow> string
     \<Rightarrow> standing_authority option \<Rightarrow> datetime option \<Rightarrow> receipt_status option \<Rightarrow> policy_decision" where
  "evaluate_policy snapshot receipt task candidate standing now status =
    (case snapshot of
       None \<Rightarrow> denied ''trusted policy evidence is unavailable'' snapshot receipt
     | Some snap \<Rightarrow>
     (case ps_source snap of
       None \<Rightarrow> denied ''trusted policy source evidence is unavailable'' snapshot receipt
     | Some source \<Rightarrow>
     (case ps_document snap of
       None \<Rightarrow> denied ''trusted policy document evidence is unavailable'' snapshot receipt
     | Some document \<Rightarrow>
       if \<not> snapshot_is_structurally_valid snap
         then denied ''trusted policy evidence is invalid'' snapshot receipt else
     (case receipt of
       None \<Rightarrow> denied ''activation receipt evidence is unavailable'' snapshot receipt
     | Some r \<Rightarrow>
       if \<not> receipt_is_structurally_valid r
         then denied ''activation receipt evidence is invalid'' snapshot receipt else
     (case standing of
       None \<Rightarrow> denied ''standing authority evidence is unavailable'' snapshot receipt
     | Some ceiling \<Rightarrow>
     (case first_failure
             [policy_require_fingerprint task ''candidate task'',
              policy_require_commit_sha candidate ''candidate'',
              policy_require_utc now ''evaluation timestamp'',
              (status \<noteq> None, PolicyError ''verified activation receipt status is unavailable'')] of
       Some e \<Rightarrow> denied (error_text e) snapshot receipt
     | None \<Rightarrow>
     (case first_failure
             [(ar_source_fingerprint r = cs_source_fingerprint source, ''the control source does not match the activation receipt''),
              (ar_revision_fingerprint r = cs_revision_fingerprint source, ''the control revision does not match the activation receipt''),
              (ar_policy_digest r = policy_digest document, ''the policy digest does not match the activation receipt''),
              (ar_schema_version r = pd_schema_version document, ''the policy schema does not match the activation receipt''),
              (ar_task_fingerprint r = task, ''the activation receipt is not bound to this task''),
              (ar_candidate_sha r = candidate, ''the activation receipt is not bound to this candidate''),
              (present (\<lambda>t. stamp (ar_activated_at r) \<le> stamp t \<and> stamp t < stamp (ar_expires_at r)) now,
                 ''the activation receipt is stale or not yet active''),
              (status = Some Receipt_FRESH, ''the activation receipt is replayed, conflicting, or revoked''),
              (pd_allowed_actions document \<subseteq> sa_allowed_actions ceiling, ''the policy would widen standing authority'')] of
       Some why \<Rightarrow> denied why snapshot receipt
     | None \<Rightarrow>
       \<lparr>pol_authorized = True, pol_reason = ''policy activation is valid'',
        pol_schema_version = Some (pd_schema_version document),
        pol_source_fingerprint = Some (cs_source_fingerprint source),
        pol_policy_digest = Some (policy_digest document),
        pol_receipt_fingerprint = Some (ar_receipt_fingerprint r),
        pol_activated_at = Some (ar_activated_at r),
        pol_allowed_actions = pd_allowed_actions document\<rparr>)))))))"

text \<open>\<open>PolicyDecision.diagnostic\<close>: the granted actions are not part of it.\<close>

definition diagnostic :: "policy_decision \<Rightarrow> (string \<times> json) list" where
  "diagnostic d =
     [(''authorized'', JBool (pol_authorized d)),
      (''reason'', JStr (pol_reason d)),
      (''schema_version'', (case pol_schema_version d of None \<Rightarrow> JNull | Some v \<Rightarrow> JInt v)),
      (''source_fingerprint'', (case pol_source_fingerprint d of None \<Rightarrow> JNull | Some v \<Rightarrow> JStr v)),
      (''policy_digest'', (case pol_policy_digest d of None \<Rightarrow> JNull | Some v \<Rightarrow> JStr v)),
      (''receipt_fingerprint'', (case pol_receipt_fingerprint d of None \<Rightarrow> JNull | Some v \<Rightarrow> JStr v)),
      (''activated_at'', (case pol_activated_at d of None \<Rightarrow> JNull | Some v \<Rightarrow> JStr (isoformat v)))]"

section \<open>The evaluator is a fail-closed gate\<close>

type_synonym policy_evidence = "trusted_policy_snapshot option \<times> activation_receipt option \<times> string \<times> string
  \<times> standing_authority option \<times> datetime option \<times> receipt_status option"

definition policy_binding_checks ::
  "trusted_control_source \<Rightarrow> policy_document \<Rightarrow> activation_receipt \<Rightarrow> string \<Rightarrow> string
     \<Rightarrow> standing_authority \<Rightarrow> datetime option \<Rightarrow> receipt_status option \<Rightarrow> (bool \<times> string) list" where
  "policy_binding_checks source document r task candidate ceiling now status =
     [(is_fingerprint task, ''the candidate task fingerprint is invalid''),
      (is_commit_sha candidate, ''the candidate commit identity is invalid''),
      (present is_utc now, ''the evaluation timestamp must use UTC''),
      (status \<noteq> None, ''verified activation receipt status is unavailable''),
      (ar_source_fingerprint r = cs_source_fingerprint source, ''the control source does not match the activation receipt''),
      (ar_revision_fingerprint r = cs_revision_fingerprint source, ''the control revision does not match the activation receipt''),
      (ar_policy_digest r = policy_digest document, ''the policy digest does not match the activation receipt''),
      (ar_schema_version r = pd_schema_version document, ''the policy schema does not match the activation receipt''),
      (ar_task_fingerprint r = task, ''the activation receipt is not bound to this task''),
      (ar_candidate_sha r = candidate, ''the activation receipt is not bound to this candidate''),
      (present (\<lambda>t. stamp (ar_activated_at r) \<le> stamp t \<and> stamp t < stamp (ar_expires_at r)) now,
         ''the activation receipt is stale or not yet active''),
      (status = Some Receipt_FRESH, ''the activation receipt is replayed, conflicting, or revoked''),
      (pd_allowed_actions document \<subseteq> sa_allowed_actions ceiling, ''the policy would widen standing authority'')]"

fun policy_checks :: "policy_evidence \<Rightarrow> (bool \<times> string) list" where
  "policy_checks (snapshot, receipt, task, candidate, standing, now, status) =
     [(snapshot \<noteq> None, ''trusted policy evidence is unavailable''),
      (present (\<lambda>s. ps_source s \<noteq> None) snapshot, ''trusted policy source evidence is unavailable''),
      (present (\<lambda>s. ps_document s \<noteq> None) snapshot, ''trusted policy document evidence is unavailable''),
      (present snapshot_is_structurally_valid snapshot, ''trusted policy evidence is invalid''),
      (receipt \<noteq> None, ''activation receipt evidence is unavailable''),
      (present receipt_is_structurally_valid receipt, ''activation receipt evidence is invalid''),
      (standing \<noteq> None, ''standing authority evidence is unavailable'')]
     @ (case (snapshot, receipt, standing) of
          (Some s, Some r, Some ceiling) \<Rightarrow>
            (case (ps_source s, ps_document s) of
               (Some source, Some document) \<Rightarrow>
                 policy_binding_checks source document r task candidate ceiling now status
             | _ \<Rightarrow> [])
        | _ \<Rightarrow> [])"

fun policy_decide :: "policy_evidence \<Rightarrow> policy_decision" where
  "policy_decide (snapshot, receipt, task, candidate, standing, now, status) =
     evaluate_policy snapshot receipt task candidate standing now status"

lemma denied_simps [simp]:
  "\<not> pol_authorized (denied why s r)" "pol_reason (denied why s r) = why" "pol_allowed_actions (denied why s r) = {}"
  by (simp_all add: denied_def Let_def)

lemma policy_gate_first_failure:
  "case first_failure (policy_checks ev) of
     None \<Rightarrow> pol_authorized (policy_decide ev)
   | Some w \<Rightarrow> \<not> pol_authorized (policy_decide ev) \<and> pol_reason (policy_decide ev) = w"
proof -
  obtain s r t c a n st where ev: "ev = (s, r, t, c, a, n, st)" by (cases ev)
  show ?thesis
  proof (cases s)
    case None
    then show ?thesis unfolding ev by (simp add: evaluate_policy_def)
  next
    case (Some snap)
    then show ?thesis unfolding ev
      by (cases "ps_source snap"; cases "ps_document snap"; cases r; cases a)
        (simp_all add: evaluate_policy_def policy_binding_checks_def policy_require_fingerprint_def
          policy_require_commit_sha_def policy_require_utc_def first_failure_append
          del: first_failure_None_iff)
  qed
qed

interpretation policy_gate: fail_closed_gate policy_checks pol_authorized pol_reason policy_decide
proof unfold_locales
  show "pol_authorized (policy_decide ev) = (first_failure (policy_checks ev) = None)" for ev
    using policy_gate_first_failure [of ev] by (auto split: option.splits simp del: first_failure_None_iff)
  show "pol_reason (policy_decide ev) = w" if "first_failure (policy_checks ev) = Some w" for ev w
    using policy_gate_first_failure [of ev] that by simp
qed

section \<open>The digest pins the document\<close>

lemma action_value_inj: "inj action_value"
proof (rule injI)
  show "a = b" if "action_value a = action_value b" for a b
    using that by (cases a; cases b) simp_all
qed

lemma finite_actions [simp]: "finite (A :: policy_action set)"
  by (rule finite_subset [of _ "{ISSUE_COMMENT, PULL_REQUEST_READY, MERGE_PULL_REQUEST, RELEASE}"])
    (auto intro: policy_action.exhaust)

lemma policy_action_of_value [simp]: "policy_action_of (action_value a) = Inr a"
  by (cases a) (simp_all add: policy_action_of_def)

lemma policy_action_of_Inr: "policy_action_of s = Inr a \<Longrightarrow> s = action_value a"
  by (auto simp: policy_action_of_def split: option.splits if_splits)

interpretation pd: sealed_record "[''allowed_actions'', ''schema_version'']" policy_fields id "\<lambda>_. True"
proof unfold_locales
  show "map fst (policy_fields x) = [''allowed_actions'', ''schema_version'']" for x
    by (simp add: policy_fields_def)
  show "distinct [''allowed_actions'', ''schema_version'']" by simp
  show "id x = id y" if "map (canon \<circ> snd) (policy_fields x) = map (canon \<circ> snd) (policy_fields y)" for x y
  proof -
    have "map JStr (sorted_list_of_set (action_value ` pd_allowed_actions x))
        = map JStr (sorted_list_of_set (action_value ` pd_allowed_actions y))"
      and v: "pd_schema_version x = pd_schema_version y"
      using that by (simp_all add: policy_fields_def comp_def)
    then have "sorted_list_of_set (action_value ` pd_allowed_actions x) = sorted_list_of_set (action_value ` pd_allowed_actions y)"
      by (simp add: inj_def inj_map_eq_map)
    then have "action_value ` pd_allowed_actions x = action_value ` pd_allowed_actions y"
      by (metis finite_actions finite_imageI set_sorted_list_of_set)
    with v show ?thesis by (cases x; cases y) (simp add: inj_image_eq_iff [OF action_value_inj])
  qed
qed

section \<open>Properties\<close>

lemma receipt_is_structurally_valid_iff:
  "receipt_is_structurally_valid r \<longleftrightarrow> list_all fst (receipt_field_guards r)"
  by (simp add: receipt_is_structurally_valid_def)

lemmas policy_rules = receipt_is_structurally_valid_iff snapshot_is_structurally_valid_def
  trusted_control_source_is_structurally_valid_def policy_document_is_structurally_valid_def
  receipt_field_guards_def control_source_guards_def policy_require_fingerprint_def
  policy_require_commit_sha_def policy_require_utc_def

lemma policy_authorized_evidence:
  "pol_authorized (evaluate_policy snapshot receipt task candidate standing now status) \<longleftrightarrow>
     (\<exists>s source d r ceiling t. snapshot = Some s \<and> ps_source s = Some source \<and> ps_document s = Some d
        \<and> receipt = Some r \<and> standing = Some ceiling \<and> now = Some t \<and> status = Some Receipt_FRESH
        \<and> snapshot_is_structurally_valid s \<and> receipt_is_structurally_valid r
        \<and> is_fingerprint task \<and> is_commit_sha candidate \<and> is_utc t
        \<and> ar_source_fingerprint r = cs_source_fingerprint source
        \<and> ar_revision_fingerprint r = cs_revision_fingerprint source
        \<and> ar_policy_digest r = policy_digest d \<and> ar_schema_version r = pd_schema_version d
        \<and> ar_task_fingerprint r = task \<and> ar_candidate_sha r = candidate
        \<and> stamp (ar_activated_at r) \<le> stamp t \<and> stamp t < stamp (ar_expires_at r)
        \<and> pd_allowed_actions d \<subseteq> sa_allowed_actions ceiling)"
proof -
  have gate: "pol_authorized (evaluate_policy snapshot receipt task candidate standing now status) \<longleftrightarrow>
      list_all fst (policy_checks (snapshot, receipt, task, candidate, standing, now, status))"
    using policy_gate.authorized_iff_all [of "(snapshot, receipt, task, candidate, standing, now, status)"] by simp
  show ?thesis
  proof (cases snapshot)
    case None
    then show ?thesis unfolding gate by simp
  next
    case (Some s)
    then show ?thesis unfolding gate
      by (cases "ps_source s"; cases "ps_document s"; cases receipt; cases standing; cases now; cases status)
        (auto simp: policy_binding_checks_def)
  qed
qed

lemma policy_grant:
  assumes "pol_authorized (evaluate_policy snapshot receipt task candidate standing now status)"
  shows "\<exists>s d. snapshot = Some s \<and> ps_document s = Some d
    \<and> pol_allowed_actions (evaluate_policy snapshot receipt task candidate standing now status) = pd_allowed_actions d"
  using assms [unfolded policy_authorized_evidence]
  by (auto simp: evaluate_policy_def policy_require_fingerprint_def policy_require_commit_sha_def policy_require_utc_def
      simp del: first_failure_None_iff)

lemma policy_refusal_grants_nothing:
  "pol_authorized (evaluate_policy snapshot receipt task candidate standing now status)
   \<or> pol_allowed_actions (evaluate_policy snapshot receipt task candidate standing now status) = {}"
proof (cases snapshot)
  case None
  then show ?thesis by (simp add: evaluate_policy_def)
next
  case (Some s)
  then show ?thesis
    by (cases "ps_source s"; cases "ps_document s"; cases receipt; cases standing)
      (simp_all add: evaluate_policy_def split: option.split del: first_failure_None_iff first_failure.simps)
qed

text \<open>
  A policy is activated exactly when the snapshot and the receipt are
  well formed, the receipt names this control source, revision, policy content (by digest),
  schema, task and candidate, the UTC time lies in its half-open lifetime, the receipt was
  observed fresh, and the document stays below the standing authority; it then grants the
  document's own actions, and every refusal grants nothing.
\<close>

lemma policy_authorized_iff:
  "(pol_authorized (evaluate_policy snapshot receipt task candidate standing now status) \<longleftrightarrow>
     (\<exists>s source d r ceiling t. snapshot = Some s \<and> ps_source s = Some source \<and> ps_document s = Some d
        \<and> receipt = Some r \<and> standing = Some ceiling \<and> now = Some t \<and> status = Some Receipt_FRESH
        \<and> snapshot_is_structurally_valid s \<and> receipt_is_structurally_valid r
        \<and> is_fingerprint task \<and> is_commit_sha candidate \<and> is_utc t
        \<and> ar_source_fingerprint r = cs_source_fingerprint source
        \<and> ar_revision_fingerprint r = cs_revision_fingerprint source
        \<and> ar_policy_digest r = policy_digest d \<and> ar_schema_version r = pd_schema_version d
        \<and> ar_task_fingerprint r = task \<and> ar_candidate_sha r = candidate
        \<and> stamp (ar_activated_at r) \<le> stamp t \<and> stamp t < stamp (ar_expires_at r)
        \<and> pd_allowed_actions d \<subseteq> sa_allowed_actions ceiling))
   \<and> pol_allowed_actions (evaluate_policy snapshot receipt task candidate standing now status) =
       (if pol_authorized (evaluate_policy snapshot receipt task candidate standing now status)
        then pd_allowed_actions (the (ps_document (the snapshot))) else {})"
proof -
  let ?d = "evaluate_policy snapshot receipt task candidate standing now status"
  have "pol_allowed_actions ?d = {}" if "\<not> pol_authorized ?d"
    using that policy_refusal_grants_nothing by blast
  with policy_grant [of snapshot receipt task candidate standing now status]
  show ?thesis by (auto simp: policy_authorized_evidence)
qed

text \<open>
  One activation receipt activates at most one policy:
  two successful evaluations under the same receipt, whatever the snapshots, times and
  ceilings, concern the same task, candidate and control source revision and the same document,
  hence grant the same actions, unless the two canonical policy texts collide under SHA-256.
\<close>

lemma policy_receipt_activates_one_policy:
  assumes "pol_authorized (evaluate_policy (Some s1) (Some r) task1 candidate1 standing1 now1 status1)"
    and "pol_authorized (evaluate_policy (Some s2) (Some r) task2 candidate2 standing2 now2 status2)"
  shows "task1 = task2 \<and> candidate1 = candidate2 \<and> ps_source s1 = ps_source s2
    \<and> (\<exists>d1 d2. ps_document s1 = Some d1 \<and> ps_document s2 = Some d2
         \<and> (d1 = d2 \<or> sha_collision (canonical_policy_bytes d1) (canonical_policy_bytes d2)))"
proof -
  from assms(1) obtain c1 d1 where 1: "ps_source s1 = Some c1" "ps_document s1 = Some d1" "ar_task_fingerprint r = task1"
      "ar_candidate_sha r = candidate1" "ar_source_fingerprint r = cs_source_fingerprint c1"
      "ar_revision_fingerprint r = cs_revision_fingerprint c1" "ar_policy_digest r = policy_digest d1"
    unfolding policy_authorized_evidence by auto
  from assms(2) obtain c2 d2 where 2: "ps_source s2 = Some c2" "ps_document s2 = Some d2" "ar_task_fingerprint r = task2"
      "ar_candidate_sha r = candidate2" "ar_source_fingerprint r = cs_source_fingerprint c2"
      "ar_revision_fingerprint r = cs_revision_fingerprint c2" "ar_policy_digest r = policy_digest d2"
    unfolding policy_authorized_evidence by auto
  have "hex_digest (JObj (policy_fields d1)) = hex_digest (JObj (policy_fields d2))"
    using 1(7) 2(7) by (simp add: policy_digest_def canonical_policy_bytes_def hex_digest_def)
  from pd.digest_commits [OF _ _ this] have "d1 = d2 \<or> sha_collision (canonical_policy_bytes d1) (canonical_policy_bytes d2)"
    by (simp add: canonical_policy_bytes_def)
  moreover have "c1 = c2" using 1 2 by (cases c1; cases c2) simp
  ultimately show ?thesis using 1 2 by auto
qed

lemma parse_policy_document_InrE:
  assumes "parse_policy_document raw = Inr e"
  obtains kvs version vals typed where
    "raw = Some (JObj kvs)" "map_of (py_dict kvs) ''schema_version'' = Some (JInt version)"
    "map_of (py_dict kvs) ''allowed_actions'' = Some (JList vals)"
    "parse_policy_actions vals = Inr typed" "make_policy_document version (set typed) = Inr e"
proof -
  from assms obtain kvs where raw: "raw = Some (JObj kvs)"
    by (cases raw) (auto simp: parse_policy_document_def split: json.split_asm)
  with assms obtain v a where va: "map_of (py_dict kvs) ''schema_version'' = Some v"
      "map_of (py_dict kvs) ''allowed_actions'' = Some a"
    by (auto simp: parse_policy_document_def split: if_split_asm option.split_asm json.split_asm)
  with assms raw obtain version where version: "v = JInt version"
    by (cases v) (auto simp: parse_policy_document_def split: if_split_asm)
  with assms raw va obtain vals where "a = JList vals"
    by (cases a) (auto simp: parse_policy_document_def split: if_split_asm)
  with assms raw va version that show ?thesis
    by (auto simp: parse_policy_document_def bind_result_Inr_iff split: if_split_asm)
qed

lemma parse_policy_actions_Inr:
  assumes "parse_policy_actions vals = Inr typed"
  shows "distinct vals \<and> set vals = (JStr \<circ> action_value) ` set typed"
proof -
  from assms have p: "list_all is_jstr vals" "card (set typed) = length vals"
    and t: "list_all2 (\<lambda>v a. policy_action_of (jstr_value v) = Inr a) vals typed"
    by (auto simp: parse_policy_actions_def traverse_Inr_iff split: if_split_asm sum.split_asm)
  from t p(1) have vs: "vals = map (JStr \<circ> action_value) typed"
  proof (induction rule: list_all2_induct)
    case (Cons v vs a as)
    then show ?case by (cases v) (auto dest: policy_action_of_Inr)
  qed simp
  have "distinct typed" using p(2) vs by (simp add: card_distinct)
  then have "distinct vals" using vs action_value_inj by (auto simp: distinct_map inj_def inj_on_def)
  with vs show ?thesis by simp
qed

text \<open>
  Parsing the canonical text of a document gives the document
  back, and every accepted document has the supported version and exactly the actions that the
  text lists, each listed once: unknown, duplicate or non-string actions never get through.
\<close>

lemma policy_document_round_trip:
  "(pd_schema_version d = POLICY_SCHEMA_VERSION \<longrightarrow> parse_policy_document (Some (canon (JObj (policy_fields d)))) = Inr d)
   \<and> (parse_policy_document raw = Inr e \<longrightarrow>
        pd_schema_version e = POLICY_SCHEMA_VERSION
        \<and> (\<exists>kvs vals. raw = Some (JObj kvs) \<and> map_of (py_dict kvs) ''schema_version'' = Some (JInt (pd_schema_version e))
             \<and> map_of (py_dict kvs) ''allowed_actions'' = Some (JList vals) \<and> distinct vals
             \<and> set vals = (JStr \<circ> action_value) ` pd_allowed_actions e))"
  (is "(_ \<longrightarrow> ?rt) \<and> (_ \<longrightarrow> ?acc)")
proof (rule conjI; rule impI)
  let ?vs = "sorted_list_of_set (action_value ` pd_allowed_actions d)"
  assume v: "pd_schema_version d = POLICY_SCHEMA_VERSION"
  have "\<exists>typed. ?vs = map action_value typed" unfolding ex_map_conv by auto
  then obtain typed where typed: "?vs = map action_value typed" by blast
  have tr: "traverse (\<lambda>v. policy_action_of (jstr_value v)) (map JStr (map action_value typed)) = Inr typed"
    by (simp add: traverse_Inr_iff list_all2_map1 list_all2_refl)
  have "action_value ` set typed = action_value ` pd_allowed_actions d"
    using typed by (metis finite_actions finite_imageI list.set_map set_sorted_list_of_set)
  then have st: "set typed = pd_allowed_actions d" by (simp add: inj_image_eq_iff [OF action_value_inj])
  have "distinct ?vs" by simp
  then have "distinct typed" unfolding typed by (simp add: distinct_map)
  then have "card (set typed) = length typed" by (simp add: distinct_card)
  with tr have "parse_policy_actions (map JStr ?vs) = Inr typed"
    unfolding typed by (simp add: parse_policy_actions_def list_all_iff)
  with v st show ?rt
    by (simp add: policy_fields_def parse_policy_document_def py_dict_def comp_def make_policy_document_def
        policy_document_guards_def insert_commute)
next
  assume "parse_policy_document raw = Inr e"
  then obtain kvs version vals typed where
    p: "raw = Some (JObj kvs)" "map_of (py_dict kvs) ''schema_version'' = Some (JInt version)"
      "map_of (py_dict kvs) ''allowed_actions'' = Some (JList vals)"
      "parse_policy_actions vals = Inr typed" "make_policy_document version (set typed) = Inr e"
    by (rule parse_policy_document_InrE)
  from parse_policy_actions_Inr [OF p(4)] p show ?acc
    by (auto simp: make_policy_document_def policy_document_guards_def Let_def)
qed

definition sample_snapshot :: trusted_policy_snapshot where
  "sample_snapshot = \<lparr>ps_source = Some \<lparr>cs_source_fingerprint = replicate 64 CHR ''a'',
       cs_revision_fingerprint = replicate 64 CHR ''b''\<rparr>,
     ps_document = Some \<lparr>pd_schema_version = 1, pd_allowed_actions = {ISSUE_COMMENT}\<rparr>\<rparr>"

definition sample_activation :: activation_receipt where
  "sample_activation = \<lparr>ar_owner_fingerprint = replicate 64 CHR ''0'', ar_receipt_fingerprint = replicate 64 CHR ''1'',
     ar_source_fingerprint = replicate 64 CHR ''a'', ar_revision_fingerprint = replicate 64 CHR ''b'',
     ar_policy_digest = policy_digest \<lparr>pd_schema_version = 1, pd_allowed_actions = {ISSUE_COMMENT}\<rparr>,
     ar_schema_version = 1, ar_task_fingerprint = replicate 64 CHR ''c'', ar_candidate_sha = replicate 40 CHR ''d'',
     ar_activated_at = utc 1 0, ar_expires_at = utc 2 0, ar_runtime_binding = sample_runtime,
     ar_selected_supervisor_profile_identity = ''sha256:'' @ replicate 64 CHR ''c''\<rparr>"

lemma policy_digest_fingerprint [simp]: "is_fingerprint (policy_digest d)"
  by (simp add: policy_digest_def)

lemma sample_activated:
  "pol_authorized (evaluate_policy (Some sample_snapshot) (Some sample_activation) (replicate 64 CHR ''c'')
     (replicate 40 CHR ''d'') (Some \<lparr>sa_allowed_actions = {ISSUE_COMMENT, RELEASE}\<rparr>) (Some (utc 1 h)) (Some Receipt_FRESH))"
  unfolding policy_authorized_evidence
  by (simp add: policy_rules sample_snapshot_def sample_activation_def POLICY_SCHEMA_VERSION_def)

end
