(* ===== verification/Repository_Policy.thy ===== *)
theory Repository_Policy
  imports Json
begin

text \<open>
  \<open>repository_policy.py\<close>: Boolean authority for the eleven repository mutations. The policy
  document and the marked authority blocks are parsed here; the evaluator authorizes one exact
  operation under a source, an owner receipt, a context, a standing ceiling, an exclusive
  dispatcher transition and a fresh lifecycle verification. A value of the wrong Python type is
  \<open>None\<close>; a decoded JSON text is a \<open>json\<close> value, a text that \<open>json.loads\<close> refuses is \<open>None\<close>.
\<close>

section \<open>Operations and switches\<close>

datatype repository_mutation_operation =
    ISSUE_COMMENT | CREATE_REMOTE_BRANCH | UPDATE_REMOTE_BRANCH | DELETE_REMOTE_BRANCH
  | CREATE_DRAFT_PR | REQUEST_REVIEW | MARK_PR_READY | MERGE_PR | CLOSE_LEAF_ISSUE
  | DELETE_LOCAL_BRANCH | REMOVE_WORKTREE

fun operation_value :: "repository_mutation_operation \<Rightarrow> string" where
  "operation_value ISSUE_COMMENT = ''issue-comment''"
| "operation_value CREATE_REMOTE_BRANCH = ''create-remote-branch''"
| "operation_value UPDATE_REMOTE_BRANCH = ''update-remote-branch''"
| "operation_value DELETE_REMOTE_BRANCH = ''delete-remote-branch''"
| "operation_value CREATE_DRAFT_PR = ''create-draft-pr''"
| "operation_value REQUEST_REVIEW = ''request-review''"
| "operation_value MARK_PR_READY = ''mark-pr-ready''"
| "operation_value MERGE_PR = ''merge-pr''"
| "operation_value CLOSE_LEAF_ISSUE = ''close-leaf-issue''"
| "operation_value DELETE_LOCAL_BRANCH = ''delete-local-branch''"
| "operation_value REMOVE_WORKTREE = ''remove-worktree''"

definition all_operations :: "repository_mutation_operation list" where
  "all_operations = [ISSUE_COMMENT, CREATE_REMOTE_BRANCH, UPDATE_REMOTE_BRANCH, DELETE_REMOTE_BRANCH,
     CREATE_DRAFT_PR, REQUEST_REVIEW, MARK_PR_READY, MERGE_PR, CLOSE_LEAF_ISSUE, DELETE_LOCAL_BRANCH,
     REMOVE_WORKTREE]"

text \<open>\<open>GitHubMutationOperation\<close> of \<open>github.py\<close>.\<close>

datatype github_mutation_operation =
    GH_CREATE_BRANCH | GH_UPDATE_BRANCH | GH_CREATE_PULL_REQUEST | GH_COMMENT | GH_REQUEST_REVIEW
  | GH_MARK_READY | GH_MERGE_PULL_REQUEST | GH_CLOSE_ISSUE | GH_DELETE_BRANCH

definition all_github_operations :: "github_mutation_operation list" where
  "all_github_operations = [GH_CREATE_BRANCH, GH_UPDATE_BRANCH, GH_CREATE_PULL_REQUEST, GH_COMMENT,
     GH_REQUEST_REVIEW, GH_MARK_READY, GH_MERGE_PULL_REQUEST, GH_CLOSE_ISSUE, GH_DELETE_BRANCH]"

datatype repository_receipt_status =
  RR_FRESH | RR_MISSING | RR_STALE | RR_REPLAYED | RR_CONFLICTING | RR_REVOKED

fun receipt_status_value :: "repository_receipt_status \<Rightarrow> string" where
  "receipt_status_value RR_FRESH = ''fresh''"
| "receipt_status_value RR_MISSING = ''missing''"
| "receipt_status_value RR_STALE = ''stale''"
| "receipt_status_value RR_REPLAYED = ''replayed''"
| "receipt_status_value RR_CONFLICTING = ''conflicting''"
| "receipt_status_value RR_REVOKED = ''revoked''"

record repository_mutation_policy =
  rp_schema_version :: int
  enabled :: bool
  allow_issue_comment :: bool
  allow_create_remote_branch :: bool
  allow_update_remote_branch :: bool
  allow_delete_remote_branch :: bool
  allow_create_draft_pr :: bool
  allow_request_review :: bool
  allow_mark_pr_ready :: bool
  allow_merge_pr :: bool
  allow_close_leaf_issue :: bool
  allow_delete_local_branch :: bool
  allow_remove_worktree :: bool

definition REPOSITORY_POLICY_SCHEMA_VERSION :: int where
  "REPOSITORY_POLICY_SCHEMA_VERSION = 2"

text \<open>\<open>_POLICY_KEYS\<close> without \<open>schema_version\<close> and \<open>enabled\<close>, with the field that \<open>getattr\<close> reads.\<close>

definition policy_switches :: "(string \<times> (repository_mutation_policy \<Rightarrow> bool)) list" where
  "policy_switches =
     [(''allow_issue_comment'', allow_issue_comment),
      (''allow_create_remote_branch'', allow_create_remote_branch),
      (''allow_update_remote_branch'', allow_update_remote_branch),
      (''allow_delete_remote_branch'', allow_delete_remote_branch),
      (''allow_create_draft_pr'', allow_create_draft_pr),
      (''allow_request_review'', allow_request_review),
      (''allow_mark_pr_ready'', allow_mark_pr_ready),
      (''allow_merge_pr'', allow_merge_pr),
      (''allow_close_leaf_issue'', allow_close_leaf_issue),
      (''allow_delete_local_branch'', allow_delete_local_branch),
      (''allow_remove_worktree'', allow_remove_worktree)]"

definition policy_action_keys :: "string list" where
  "policy_action_keys = map fst policy_switches"

definition policy_keys :: "string list" where
  "policy_keys = ''schema_version'' # ''enabled'' # policy_action_keys"

definition getattr_switch :: "repository_mutation_policy \<Rightarrow> string \<Rightarrow> bool" where
  "getattr_switch p name = (case map_of ((''enabled'', enabled) # policy_switches) name of
     Some f \<Rightarrow> f p | None \<Rightarrow> False)"

fun REPOSITORY_OPERATION_SWITCH :: "repository_mutation_operation \<Rightarrow> string" where
  "REPOSITORY_OPERATION_SWITCH ISSUE_COMMENT = ''allow_issue_comment''"
| "REPOSITORY_OPERATION_SWITCH CREATE_REMOTE_BRANCH = ''allow_create_remote_branch''"
| "REPOSITORY_OPERATION_SWITCH UPDATE_REMOTE_BRANCH = ''allow_update_remote_branch''"
| "REPOSITORY_OPERATION_SWITCH DELETE_REMOTE_BRANCH = ''allow_delete_remote_branch''"
| "REPOSITORY_OPERATION_SWITCH CREATE_DRAFT_PR = ''allow_create_draft_pr''"
| "REPOSITORY_OPERATION_SWITCH REQUEST_REVIEW = ''allow_request_review''"
| "REPOSITORY_OPERATION_SWITCH MARK_PR_READY = ''allow_mark_pr_ready''"
| "REPOSITORY_OPERATION_SWITCH MERGE_PR = ''allow_merge_pr''"
| "REPOSITORY_OPERATION_SWITCH CLOSE_LEAF_ISSUE = ''allow_close_leaf_issue''"
| "REPOSITORY_OPERATION_SWITCH DELETE_LOCAL_BRANCH = ''allow_delete_local_branch''"
| "REPOSITORY_OPERATION_SWITCH REMOVE_WORKTREE = ''allow_remove_worktree''"

fun GITHUB_REPOSITORY_OPERATION :: "github_mutation_operation \<Rightarrow> repository_mutation_operation" where
  "GITHUB_REPOSITORY_OPERATION GH_CREATE_BRANCH = CREATE_REMOTE_BRANCH"
| "GITHUB_REPOSITORY_OPERATION GH_UPDATE_BRANCH = UPDATE_REMOTE_BRANCH"
| "GITHUB_REPOSITORY_OPERATION GH_DELETE_BRANCH = DELETE_REMOTE_BRANCH"
| "GITHUB_REPOSITORY_OPERATION GH_CREATE_PULL_REQUEST = CREATE_DRAFT_PR"
| "GITHUB_REPOSITORY_OPERATION GH_COMMENT = ISSUE_COMMENT"
| "GITHUB_REPOSITORY_OPERATION GH_REQUEST_REVIEW = REQUEST_REVIEW"
| "GITHUB_REPOSITORY_OPERATION GH_MARK_READY = MARK_PR_READY"
| "GITHUB_REPOSITORY_OPERATION GH_MERGE_PULL_REQUEST = MERGE_PR"
| "GITHUB_REPOSITORY_OPERATION GH_CLOSE_ISSUE = CLOSE_LEAF_ISSUE"

definition repository_operation_for_github ::
  "github_mutation_operation option \<Rightarrow> repository_mutation_operation result" where
  "repository_operation_for_github operation = (case operation of
     None \<Rightarrow> Inl (RepositoryPolicyError ''GitHub mutation operation is invalid'')
   | Some gh \<Rightarrow> Inr (GITHUB_REPOSITORY_OPERATION gh))"

text \<open>\<open>_validate_total_mapping\<close>: a key or value of the wrong type is \<open>None\<close>.\<close>

definition validate_total_mapping ::
  "('k option \<times> 'v option) list \<Rightarrow> 'k set \<Rightarrow> 'v set \<Rightarrow> string \<Rightarrow> bool \<Rightarrow> unit result" where
  "validate_total_mapping mapping required allowed description require_all_values =
    (if None \<in> set (map fst mapping)
        \<or> set (map fst mapping) \<noteq> Some ` required
        \<or> None \<in> set (map snd mapping)
        \<or> \<not> set (map snd mapping) \<subseteq> Some ` allowed
        \<or> has_duplicates (map snd mapping)
        \<or> (require_all_values \<and> set (map snd mapping) \<noteq> Some ` allowed)
     then Inl (RepositoryPolicyError (description @ '' mapping is not total and one-to-one''))
     else Inr ())"

definition validate_repository_mutation_vocabulary ::
  "(repository_mutation_operation option \<times> string option) list
     \<Rightarrow> (github_mutation_operation option \<times> repository_mutation_operation option) list \<Rightarrow> unit result" where
  "validate_repository_mutation_vocabulary switches github =
     bind_result
       (validate_total_mapping switches (set all_operations) (set policy_action_keys)
          ''repository operation/Boolean'' True)
       (\<lambda>_. validate_total_mapping github (set all_github_operations) (set all_operations)
          ''GitHub/repository operation'' False)"

section \<open>Evidence\<close>

record repository_policy_source =
  src_source_fingerprint :: string
  src_revision_fingerprint :: string

record repository_policy_snapshot =
  snap_source :: repository_policy_source
  snap_document :: repository_mutation_policy

record standing_repository_authority =
  standing_policy :: repository_mutation_policy

record repository_mutation_context =
  ctx_repository_fingerprint :: string
  ctx_deployment_fingerprint :: string
  ctx_task_fingerprint :: string
  ctx_candidate_sha :: string

record repository_dispatcher_transition =
  dt_evidence_fingerprint :: string
  dt_repository_fingerprint :: string
  dt_deployment_fingerprint :: string
  dt_candidate_sha :: string
  roundlet_mutation_capable :: bool
  roundlet_reconciled :: bool
  roundwright_mutation_capable :: bool

record repository_activation_receipt =
  ra_owner_fingerprint :: string
  ra_receipt_fingerprint :: string
  ra_source_fingerprint :: string
  ra_revision_fingerprint :: string
  ra_policy_digest :: string
  ra_schema_version :: int
  ra_repository_fingerprint :: string
  ra_deployment_fingerprint :: string
  ra_task_fingerprint :: string
  ra_candidate_sha :: string
  ra_dispatcher_transition_digest :: string
  ra_activated_at :: datetime
  ra_expires_at :: datetime

record repository_receipt_verification =
  rrv_verification_fingerprint :: string
  rrv_receipt_fingerprint :: string
  rrv_receipt_binding_digest :: string
  rrv_status :: repository_receipt_status

record repository_mutation_binding =
  mb_source_fingerprint :: string
  mb_revision_fingerprint :: string
  mb_policy_digest :: string
  mb_schema_version :: int
  mb_owner_fingerprint :: string
  mb_receipt_fingerprint :: string
  mb_repository_fingerprint :: string
  mb_deployment_fingerprint :: string
  mb_task_fingerprint :: string
  mb_candidate_sha :: string
  mb_dispatcher_transition_fingerprint :: string
  mb_dispatcher_transition_digest :: string
  mb_receipt_verification_fingerprint :: string
  mb_receipt_binding_digest :: string
  mb_receipt_status :: repository_receipt_status

record repository_mutation_decision =
  rd_operation :: "repository_mutation_operation option"
  rd_authorized :: bool
  rd_reason :: string
  rd_policy_digest :: "string option"
  rd_source_fingerprint :: "string option"
  rd_receipt_fingerprint :: "string option"
  rd_enabled :: bool
  rd_action_enabled :: bool
  rd_next_action :: string
  rd_binding :: "repository_mutation_binding option"

record roundlet_authority_state =
  roundlet_enabled :: bool
  block_digest :: string

section \<open>Validation\<close>

definition repo_require_fingerprint :: "string \<Rightarrow> string \<Rightarrow> bool \<times> py_error" where
  "repo_require_fingerprint value description =
     (is_fingerprint value, RepositoryPolicyError (description @ '' fingerprint is invalid''))"

definition repo_require_commit_sha :: "string \<Rightarrow> string \<Rightarrow> bool \<times> py_error" where
  "repo_require_commit_sha value description =
     (is_commit_sha value, RepositoryPolicyError (description @ '' commit identity is invalid''))"

definition repository_policy_guards :: "repository_mutation_policy \<Rightarrow> (bool \<times> py_error) list" where
  "repository_policy_guards p =
     [(rp_schema_version p = REPOSITORY_POLICY_SCHEMA_VERSION,
         RepositoryPolicyError ''repository policy schema version is unsupported'')]"

definition policy_is_valid :: "repository_mutation_policy \<Rightarrow> bool" where
  "policy_is_valid p \<longleftrightarrow> first_failure (repository_policy_guards p) = None"

definition source_guards :: "repository_policy_source \<Rightarrow> (bool \<times> py_error) list" where
  "source_guards s =
     [repo_require_fingerprint (src_source_fingerprint s) ''policy source'',
      repo_require_fingerprint (src_revision_fingerprint s) ''policy source revision'']"

definition source_is_valid :: "repository_policy_source \<Rightarrow> bool" where
  "source_is_valid s \<longleftrightarrow> first_failure (source_guards s) = None"

definition snapshot_is_valid :: "repository_policy_snapshot \<Rightarrow> bool" where
  "snapshot_is_valid s \<longleftrightarrow> source_is_valid (snap_source s) \<and> policy_is_valid (snap_document s)"

definition standing_authority_is_valid :: "standing_repository_authority \<Rightarrow> bool" where
  "standing_authority_is_valid a \<longleftrightarrow> policy_is_valid (standing_policy a)"

definition context_guards :: "repository_mutation_context \<Rightarrow> (bool \<times> py_error) list" where
  "context_guards c =
     [repo_require_fingerprint (ctx_repository_fingerprint c) ''repository'',
      repo_require_fingerprint (ctx_deployment_fingerprint c) ''deployment'',
      repo_require_fingerprint (ctx_task_fingerprint c) ''task'',
      repo_require_commit_sha (ctx_candidate_sha c) ''candidate'']"

definition context_is_valid :: "repository_mutation_context \<Rightarrow> bool" where
  "context_is_valid c \<longleftrightarrow> first_failure (context_guards c) = None"

definition validate_dispatcher_transition :: "repository_dispatcher_transition \<Rightarrow> (bool \<times> py_error) list" where
  "validate_dispatcher_transition t =
     [repo_require_fingerprint (dt_evidence_fingerprint t) ''dispatcher transition evidence'',
      repo_require_fingerprint (dt_repository_fingerprint t) ''dispatcher transition repository'',
      repo_require_fingerprint (dt_deployment_fingerprint t) ''dispatcher transition deployment'',
      repo_require_commit_sha (dt_candidate_sha t) ''dispatcher transition candidate'',
      (\<not> (roundlet_mutation_capable t \<and> roundwright_mutation_capable t),
         RepositoryPolicyError ''Roundlet and Roundwright cannot both be mutation-capable''),
      (\<not> (roundwright_mutation_capable t \<and> \<not> roundlet_reconciled t),
         RepositoryPolicyError ''Roundlet must be reconciled before Roundwright becomes mutation-capable'')]"

definition dispatcher_transition_is_valid :: "repository_dispatcher_transition \<Rightarrow> bool" where
  "dispatcher_transition_is_valid t \<longleftrightarrow> first_failure (validate_dispatcher_transition t) = None"

definition validate_receipt :: "repository_activation_receipt \<Rightarrow> (bool \<times> py_error) list" where
  "validate_receipt r =
     [repo_require_fingerprint (ra_owner_fingerprint r) ''owner'',
      repo_require_fingerprint (ra_receipt_fingerprint r) ''activation receipt'',
      repo_require_fingerprint (ra_source_fingerprint r) ''receipt source'',
      repo_require_fingerprint (ra_revision_fingerprint r) ''receipt revision'',
      repo_require_fingerprint (ra_policy_digest r) ''receipt policy digest'',
      repo_require_fingerprint (ra_repository_fingerprint r) ''receipt repository'',
      repo_require_fingerprint (ra_deployment_fingerprint r) ''receipt deployment'',
      repo_require_fingerprint (ra_task_fingerprint r) ''receipt task'',
      repo_require_fingerprint (ra_dispatcher_transition_digest r) ''receipt dispatcher transition'',
      (ra_schema_version r = REPOSITORY_POLICY_SCHEMA_VERSION,
         RepositoryPolicyError ''repository policy receipt schema version is unsupported''),
      repo_require_commit_sha (ra_candidate_sha r) ''receipt candidate'',
      (is_utc (ra_activated_at r), RepositoryPolicyError ''repository policy receipt activation time is invalid''),
      (is_utc (ra_expires_at r) \<and> stamp (ra_activated_at r) < stamp (ra_expires_at r),
         RepositoryPolicyError ''repository policy receipt validity window is invalid'')]"

definition receipt_is_valid :: "repository_activation_receipt \<Rightarrow> bool" where
  "receipt_is_valid r \<longleftrightarrow> first_failure (validate_receipt r) = None"

definition validate_receipt_verification :: "repository_receipt_verification \<Rightarrow> (bool \<times> py_error) list" where
  "validate_receipt_verification v =
     [repo_require_fingerprint (rrv_verification_fingerprint v) ''receipt lifecycle verification'',
      repo_require_fingerprint (rrv_receipt_fingerprint v) ''verified receipt'',
      repo_require_fingerprint (rrv_receipt_binding_digest v) ''verified receipt binding'']"

definition receipt_verification_is_valid :: "repository_receipt_verification \<Rightarrow> bool" where
  "receipt_verification_is_valid v \<longleftrightarrow> first_failure (validate_receipt_verification v) = None"

definition validate_binding :: "repository_mutation_binding \<Rightarrow> (bool \<times> py_error) list" where
  "validate_binding b =
     [repo_require_fingerprint (mb_source_fingerprint b) ''binding policy source'',
      repo_require_fingerprint (mb_revision_fingerprint b) ''binding policy revision'',
      repo_require_fingerprint (mb_policy_digest b) ''binding policy digest'',
      repo_require_fingerprint (mb_owner_fingerprint b) ''binding owner'',
      repo_require_fingerprint (mb_receipt_fingerprint b) ''binding receipt'',
      repo_require_fingerprint (mb_repository_fingerprint b) ''binding repository'',
      repo_require_fingerprint (mb_deployment_fingerprint b) ''binding deployment'',
      repo_require_fingerprint (mb_task_fingerprint b) ''binding task'',
      repo_require_fingerprint (mb_dispatcher_transition_fingerprint b) ''binding dispatcher transition evidence'',
      repo_require_fingerprint (mb_dispatcher_transition_digest b) ''binding dispatcher transition'',
      repo_require_fingerprint (mb_receipt_verification_fingerprint b) ''binding receipt lifecycle verification'',
      repo_require_fingerprint (mb_receipt_binding_digest b) ''binding receipt identity'',
      (mb_schema_version b = REPOSITORY_POLICY_SCHEMA_VERSION,
         RepositoryPolicyError ''repository policy binding schema version is unsupported''),
      repo_require_commit_sha (mb_candidate_sha b) ''binding candidate'']"

definition binding_is_valid :: "repository_mutation_binding \<Rightarrow> bool" where
  "binding_is_valid b \<longleftrightarrow> first_failure (validate_binding b) = None"

section \<open>Digests\<close>

definition repository_policy_fields :: "repository_mutation_policy \<Rightarrow> (string \<times> json) list" where
  "repository_policy_fields p =
     (''schema_version'', JInt (rp_schema_version p)) # (''enabled'', JBool (enabled p))
       # map (\<lambda>(name, f). (name, JBool (f p))) policy_switches"

definition repository_policy_digest :: "repository_mutation_policy \<Rightarrow> string" where
  "repository_policy_digest p = hex_digest (JObj (repository_policy_fields p))"

definition transition_fields :: "repository_dispatcher_transition \<Rightarrow> (string \<times> json) list" where
  "transition_fields t =
     [(''evidence_fingerprint'', JStr (dt_evidence_fingerprint t)),
      (''repository_fingerprint'', JStr (dt_repository_fingerprint t)),
      (''deployment_fingerprint'', JStr (dt_deployment_fingerprint t)),
      (''candidate_sha'', JStr (dt_candidate_sha t)),
      (''roundlet_mutation_capable'', JBool (roundlet_mutation_capable t)),
      (''roundlet_reconciled'', JBool (roundlet_reconciled t)),
      (''roundwright_mutation_capable'', JBool (roundwright_mutation_capable t))]"

definition transition_digest :: "repository_dispatcher_transition \<Rightarrow> string" where
  "transition_digest t = hex_digest (JObj (transition_fields t))"

definition activation_fields :: "repository_activation_receipt \<Rightarrow> (string \<times> json) list" where
  "activation_fields r =
     [(''owner_fingerprint'', JStr (ra_owner_fingerprint r)),
      (''receipt_fingerprint'', JStr (ra_receipt_fingerprint r)),
      (''source_fingerprint'', JStr (ra_source_fingerprint r)),
      (''revision_fingerprint'', JStr (ra_revision_fingerprint r)),
      (''policy_digest'', JStr (ra_policy_digest r)),
      (''schema_version'', JInt (ra_schema_version r)),
      (''repository_fingerprint'', JStr (ra_repository_fingerprint r)),
      (''deployment_fingerprint'', JStr (ra_deployment_fingerprint r)),
      (''task_fingerprint'', JStr (ra_task_fingerprint r)),
      (''candidate_sha'', JStr (ra_candidate_sha r)),
      (''dispatcher_transition_digest'', JStr (ra_dispatcher_transition_digest r)),
      (''activated_at'', JStr (isoformat (ra_activated_at r))),
      (''expires_at'', JStr (isoformat (ra_expires_at r)))]"

definition receipt_binding_digest :: "repository_activation_receipt \<Rightarrow> string" where
  "receipt_binding_digest r = hex_digest (JObj (activation_fields r))"

definition binding_fields :: "repository_mutation_binding \<Rightarrow> (string \<times> json) list" where
  "binding_fields b =
     [(''source_fingerprint'', JStr (mb_source_fingerprint b)),
      (''revision_fingerprint'', JStr (mb_revision_fingerprint b)),
      (''policy_digest'', JStr (mb_policy_digest b)),
      (''schema_version'', JInt (mb_schema_version b)),
      (''owner_fingerprint'', JStr (mb_owner_fingerprint b)),
      (''receipt_fingerprint'', JStr (mb_receipt_fingerprint b)),
      (''repository_fingerprint'', JStr (mb_repository_fingerprint b)),
      (''deployment_fingerprint'', JStr (mb_deployment_fingerprint b)),
      (''task_fingerprint'', JStr (mb_task_fingerprint b)),
      (''candidate_sha'', JStr (mb_candidate_sha b)),
      (''dispatcher_transition_fingerprint'', JStr (mb_dispatcher_transition_fingerprint b)),
      (''dispatcher_transition_digest'', JStr (mb_dispatcher_transition_digest b)),
      (''receipt_verification_fingerprint'', JStr (mb_receipt_verification_fingerprint b)),
      (''receipt_binding_digest'', JStr (mb_receipt_binding_digest b)),
      (''receipt_status'', JStr (receipt_status_value (mb_receipt_status b)))]"

definition mutation_binding_digest :: "repository_mutation_binding \<Rightarrow> string" where
  "mutation_binding_digest b = hex_digest (JObj (binding_fields b))"

section \<open>Parsing\<close>

text \<open>
  \<open>object_pairs_hook=_reject_duplicate_keys\<close> runs on every object of the text, innermost first;
  any duplicate makes the whole document malformed.
\<close>

definition reject_duplicate_keys :: "(string \<times> 'v) list \<Rightarrow> (string \<times> 'v) list result" where
  "reject_duplicate_keys pairs =
     (if has_duplicates (map fst pairs)
      then Inl (RepositoryPolicyError ''repository policy document contains duplicate keys'') else Inr pairs)"

fun objects_duplicate_free :: "json \<Rightarrow> bool" where
  "objects_duplicate_free (JList xs) = list_all objects_duplicate_free xs"
| "objects_duplicate_free (JObj kvs) =
     (list_all (\<lambda>(k, v). objects_duplicate_free v) kvs
      \<and> (case reject_duplicate_keys kvs of Inl _ \<Rightarrow> False | Inr _ \<Rightarrow> True))"
| "objects_duplicate_free _ = True"

text \<open>\<open>RepositoryMutationPolicy(**raw)\<close> on a dictionary with exactly the policy keys.\<close>

definition raw_switch :: "(string \<times> json) list \<Rightarrow> string \<Rightarrow> bool" where
  "raw_switch raw name = (as_bool (map_of raw name) = Some True)"

definition policy_of_raw :: "(string \<times> json) list \<Rightarrow> repository_mutation_policy result" where
  "policy_of_raw raw = construct
     [(map_of raw ''schema_version'' = Some (JInt REPOSITORY_POLICY_SCHEMA_VERSION),
         RepositoryPolicyError ''repository policy schema version is unsupported''),
      (list_all (\<lambda>name. as_bool (map_of raw name) \<noteq> None) (''enabled'' # policy_action_keys),
         RepositoryPolicyError ''repository policy Boolean switch is invalid'')]
     \<lparr>rp_schema_version = REPOSITORY_POLICY_SCHEMA_VERSION,
      enabled = raw_switch raw ''enabled'',
      allow_issue_comment = raw_switch raw ''allow_issue_comment'',
      allow_create_remote_branch = raw_switch raw ''allow_create_remote_branch'',
      allow_update_remote_branch = raw_switch raw ''allow_update_remote_branch'',
      allow_delete_remote_branch = raw_switch raw ''allow_delete_remote_branch'',
      allow_create_draft_pr = raw_switch raw ''allow_create_draft_pr'',
      allow_request_review = raw_switch raw ''allow_request_review'',
      allow_mark_pr_ready = raw_switch raw ''allow_mark_pr_ready'',
      allow_merge_pr = raw_switch raw ''allow_merge_pr'',
      allow_close_leaf_issue = raw_switch raw ''allow_close_leaf_issue'',
      allow_delete_local_branch = raw_switch raw ''allow_delete_local_branch'',
      allow_remove_worktree = raw_switch raw ''allow_remove_worktree''\<rparr>"

definition parse_repository_mutation_policy :: "json option \<Rightarrow> repository_mutation_policy result" where
  "parse_repository_mutation_policy decoded =
    (case decoded of
       None \<Rightarrow> Inl (RepositoryPolicyError ''repository policy document is malformed'')
     | Some value \<Rightarrow>
       if \<not> objects_duplicate_free value
         then Inl (RepositoryPolicyError ''repository policy document is malformed'') else
       (case value of
          JObj raw \<Rightarrow>
            if set (map fst raw) \<noteq> set policy_keys
              then Inl (RepositoryPolicyError ''repository policy document has missing or unsupported keys'') else
            (case policy_of_raw raw of
               Inl _ \<Rightarrow> Inl (RepositoryPolicyError ''repository policy document is invalid'')
             | Inr p \<Rightarrow> Inr p)
        | _ \<Rightarrow> Inl (RepositoryPolicyError ''repository policy document has missing or unsupported keys'')))"

text \<open>
  \<open>str.splitlines\<close>: every line boundary of Python's table with a code point below 256, and the
  pair carriage return, line feed as one boundary.
\<close>

definition is_line_break :: "char \<Rightarrow> bool" where
  "is_line_break c \<longleftrightarrow> c \<in> {CHR 0x0A, CHR 0x0B, CHR 0x0C, CHR 0x0D, CHR 0x1C, CHR 0x1D, CHR 0x1E, CHR 0x85}"

fun splitlines_from :: "string \<Rightarrow> string \<Rightarrow> string list" where
  "splitlines_from line [] = (if line = [] then [] else [rev line])"
| "splitlines_from line [c] = (if is_line_break c then [rev line] else [rev (c # line)])"
| "splitlines_from line (c # d # cs) =
     (if c = CHR 0x0D \<and> d = CHR 0x0A then rev line # splitlines_from [] cs
      else if is_line_break c then rev line # splitlines_from [] (d # cs)
      else splitlines_from (c # line) (d # cs))"

definition splitlines :: "string \<Rightarrow> string list" where
  "splitlines text = splitlines_from [] text"

text \<open>
  The pattern for one value: two blanks, a key, a colon, a blank, and \<open>true\<close>, \<open>false\<close> or a decimal
  numeral without leading zeros. The key cannot contain a colon, so its maximal run is the match.
\<close>

definition is_key_char :: "char \<Rightarrow> bool" where
  "is_key_char c \<longleftrightarrow> is_lower c \<or> is_digit c \<or> c = CHR ''_''"

definition is_numeral :: "string \<Rightarrow> bool" where
  "is_numeral s \<longleftrightarrow> s = ''0'' \<or>
     (case s of [] \<Rightarrow> False | c # cs \<Rightarrow> is_digit c \<and> c \<noteq> CHR ''0'' \<and> list_all is_digit cs)"

definition match_authority_value :: "string \<Rightarrow> (string \<times> string) option" where
  "match_authority_value line =
    (if take 2 line \<noteq> [CHR '' '', CHR '' ''] then None else
     (let rest = drop 2 line; key = takeWhile is_key_char rest; tail = dropWhile is_key_char rest in
      if key = [] \<or> \<not> is_lower (hd key) \<or> take 2 tail \<noteq> [CHR '':'', CHR '' ''] then None else
      (let token = drop 2 tail in
       if token = ''true'' \<or> token = ''false'' \<or> is_numeral token then Some (key, token) else None)))"

text \<open>\<open>int(token)\<close>, which raises \<open>ValueError\<close> on more than 4300 digits.\<close>

definition py_int :: "string \<Rightarrow> int result" where
  "py_int s = (if length s > 4300 then Inl PyValueError
     else Inr (foldl (\<lambda>n c. n * 10 + (of_char c - 48)) 0 s))"

fun parse_authority_values ::
  "string \<Rightarrow> (string \<times> json) list \<Rightarrow> string list \<Rightarrow> (string \<times> json) list result" where
  "parse_authority_values root result [] = Inr result"
| "parse_authority_values root result (line # lines) =
    (case match_authority_value line of
       None \<Rightarrow> Inl (RepositoryPolicyError (root @ '' authority value is malformed''))
     | Some (key, token) \<Rightarrow>
       if key \<in> set (map fst result)
         then Inl (RepositoryPolicyError (root @ '' authority block contains duplicate keys'')) else
       if token = ''true'' \<or> token = ''false''
         then parse_authority_values root (result @ [(key, JBool (token = ''true''))]) lines else
       bind_result (py_int token) (\<lambda>n. parse_authority_values root (result @ [(key, JInt n)]) lines))"

definition indices_of :: "string \<Rightarrow> string list \<Rightarrow> nat list" where
  "indices_of marker lines = filter (\<lambda>i. lines ! i = marker) [0..<length lines]"

text \<open>\<open>None\<close>: bytes that are not UTF-8, or a value that is neither bytes nor text.\<close>

definition parse_marked_authority_block ::
  "string option \<Rightarrow> string \<Rightarrow> string \<Rightarrow> string \<Rightarrow> (string \<times> json) list result" where
  "parse_marked_authority_block contents start_marker end_marker root =
    (case contents of
       None \<Rightarrow> Inl (RepositoryPolicyError ''repository authority document is malformed'')
     | Some text \<Rightarrow>
       (let lines = splitlines text in
        (case (indices_of start_marker lines, indices_of end_marker lines) of
           ([b], [e]) \<Rightarrow>
             if e \<le> b + 1
               then Inl (RepositoryPolicyError (root @ '' authority markers are missing, duplicated, or malformed'')) else
             (case take (e - (b + 1)) (drop (b + 1) lines) of
                [] \<Rightarrow> Inl (RepositoryPolicyError (root @ '' authority root is malformed''))
              | first # rest \<Rightarrow>
                if first \<noteq> root @ '':''
                  then Inl (RepositoryPolicyError (root @ '' authority root is malformed'')) else
                parse_authority_values root [] rest)
         | _ \<Rightarrow> Inl (RepositoryPolicyError (root @ '' authority markers are missing, duplicated, or malformed'')))))"

definition ROUNDLET_AUTHORITY_START :: string where
  "ROUNDLET_AUTHORITY_START = ''# roundlet:repository-authority''"
definition ROUNDLET_AUTHORITY_END :: string where
  "ROUNDLET_AUTHORITY_END = ''# roundlet:end-repository-authority''"
definition ROUNDWRIGHT_AUTHORITY_START :: string where
  "ROUNDWRIGHT_AUTHORITY_START = ''# roundwright:repository-authority''"
definition ROUNDWRIGHT_AUTHORITY_END :: string where
  "ROUNDWRIGHT_AUTHORITY_END = ''# roundwright:end-repository-authority''"

definition parse_roundlet_authority_state :: "string option \<Rightarrow> roundlet_authority_state result" where
  "parse_roundlet_authority_state contents =
     bind_result (parse_marked_authority_block contents ROUNDLET_AUTHORITY_START ROUNDLET_AUTHORITY_END ''roundlet'')
       (\<lambda>raw. construct
          [(as_bool (map_of raw ''enabled'') \<noteq> None,
              RepositoryPolicyError ''Roundlet authority block has no strict enabled state''),
           (list_all (\<lambda>(k, v). as_bool (Some v) \<noteq> None) raw,
              RepositoryPolicyError ''Roundlet authority block contains an unsupported value''),
           repo_require_fingerprint (hex_digest (JObj raw)) ''Roundlet authority block'']
          \<lparr>roundlet_enabled = raw_switch raw ''enabled'', block_digest = hex_digest (JObj raw)\<rparr>)"

definition parse_roundwright_authority_block :: "string option \<Rightarrow> repository_mutation_policy result" where
  "parse_roundwright_authority_block contents =
     bind_result (parse_marked_authority_block contents ROUNDWRIGHT_AUTHORITY_START ROUNDWRIGHT_AUTHORITY_END ''roundwright'')
       (\<lambda>raw. if set (map fst raw) \<noteq> set policy_keys
              then Inl (RepositoryPolicyError ''Roundwright authority block has missing or unsupported keys'') else
              (case policy_of_raw raw of
                 Inl _ \<Rightarrow> Inl (RepositoryPolicyError ''Roundwright authority block is invalid'')
               | Inr p \<Rightarrow> Inr p))"

definition validate_dispatcher_exclusivity ::
  "roundlet_authority_state option \<Rightarrow> repository_mutation_policy option \<Rightarrow> bool option \<Rightarrow> unit result" where
  "validate_dispatcher_exclusivity roundlet roundwright reconciled =
    (case (roundlet, roundwright, reconciled) of
       (Some l, Some w, Some rec) \<Rightarrow>
         if roundlet_enabled l \<and> enabled w
           then Inl (RepositoryPolicyError ''Roundlet and Roundwright cannot both be mutation-capable'') else
         if enabled w \<and> \<not> rec
           then Inl (RepositoryPolicyError ''Roundlet must be stopped and reconciled before Roundwright activation'')
         else Inr ()
     | _ \<Rightarrow> Inl (RepositoryPolicyError ''dispatcher exclusivity evidence is invalid''))"

section \<open>Evaluation\<close>

definition policy_narrows :: "repository_mutation_policy \<Rightarrow> repository_mutation_policy \<Rightarrow> bool" where
  "policy_narrows p ceiling \<longleftrightarrow>
     list_all (\<lambda>name. \<not> getattr_switch p name \<or> getattr_switch ceiling name) (''enabled'' # policy_action_keys)"

definition action_switch_is_enabled :: "repository_mutation_policy \<Rightarrow> repository_mutation_operation \<Rightarrow> bool" where
  "action_switch_is_enabled p operation = getattr_switch p (REPOSITORY_OPERATION_SWITCH operation)"

text \<open>\<open>RepositoryMutationPolicy.allows\<close>, which does not look at \<open>enabled\<close>.\<close>

definition allows :: "repository_mutation_policy \<Rightarrow> repository_mutation_operation option \<Rightarrow> bool result" where
  "allows p operation = (case operation of
     None \<Rightarrow> Inl (RepositoryPolicyError ''repository mutation operation is invalid'')
   | Some q \<Rightarrow> Inr (action_switch_is_enabled p q))"

definition binding_from_evidence ::
  "repository_policy_snapshot option \<Rightarrow> repository_activation_receipt option
     \<Rightarrow> repository_mutation_context option \<Rightarrow> repository_dispatcher_transition option
     \<Rightarrow> repository_receipt_verification option \<Rightarrow> repository_mutation_binding option result" where
  "binding_from_evidence snapshot receipt context transition verification =
    (case (snapshot, receipt, context, transition, verification) of
       (Some s, Some r, Some c, Some t, Some v) \<Rightarrow>
         if \<not> snapshot_is_valid s \<or> \<not> receipt_is_valid r \<or> \<not> context_is_valid c
            \<or> \<not> dispatcher_transition_is_valid t \<or> \<not> receipt_verification_is_valid v
         then Inr None else
         (let b = \<lparr>mb_source_fingerprint = src_source_fingerprint (snap_source s),
              mb_revision_fingerprint = src_revision_fingerprint (snap_source s),
              mb_policy_digest = repository_policy_digest (snap_document s),
              mb_schema_version = rp_schema_version (snap_document s),
              mb_owner_fingerprint = ra_owner_fingerprint r,
              mb_receipt_fingerprint = ra_receipt_fingerprint r,
              mb_repository_fingerprint = ctx_repository_fingerprint c,
              mb_deployment_fingerprint = ctx_deployment_fingerprint c,
              mb_task_fingerprint = ctx_task_fingerprint c,
              mb_candidate_sha = ctx_candidate_sha c,
              mb_dispatcher_transition_fingerprint = dt_evidence_fingerprint t,
              mb_dispatcher_transition_digest = transition_digest t,
              mb_receipt_verification_fingerprint = rrv_verification_fingerprint v,
              mb_receipt_binding_digest = rrv_receipt_binding_digest v,
              mb_receipt_status = rrv_status v\<rparr>
          in construct (validate_binding b) (Some b))
     | _ \<Rightarrow> Inr None)"

definition repo_denied ::
  "string \<Rightarrow> repository_policy_snapshot option \<Rightarrow> repository_activation_receipt option
     \<Rightarrow> repository_mutation_operation option \<Rightarrow> repository_mutation_context option
     \<Rightarrow> repository_dispatcher_transition option \<Rightarrow> repository_receipt_verification option
     \<Rightarrow> repository_mutation_decision result" where
  "repo_denied why snapshot receipt operation context transition verification =
    (let good_snapshot = (if present snapshot_is_valid snapshot then snapshot else None);
         good_receipt = (if present receipt_is_valid receipt then receipt else None) in
     bind_result (binding_from_evidence snapshot receipt context transition verification)
       (\<lambda>b. Inr \<lparr>rd_operation = operation, rd_authorized = False, rd_reason = why,
          rd_policy_digest = map_option (\<lambda>s. repository_policy_digest (snap_document s)) good_snapshot,
          rd_source_fingerprint = map_option (\<lambda>s. src_source_fingerprint (snap_source s)) good_snapshot,
          rd_receipt_fingerprint = map_option ra_receipt_fingerprint good_receipt,
          rd_enabled = present (\<lambda>s. enabled (snap_document s)) good_snapshot,
          rd_action_enabled = (case (good_snapshot, operation) of
              (Some s, Some q) \<Rightarrow> action_switch_is_enabled (snap_document s) q | _ \<Rightarrow> False),
          rd_next_action = ''resolve-policy-or-owner-receipt'', rd_binding = b\<rparr>))"

definition repository_checks ::
  "repository_policy_snapshot \<Rightarrow> repository_activation_receipt \<Rightarrow> repository_mutation_context
     \<Rightarrow> repository_dispatcher_transition \<Rightarrow> repository_receipt_verification \<Rightarrow> datetime
     \<Rightarrow> (bool \<times> string) list" where
  "repository_checks s r c t v now =
     [(ra_source_fingerprint r = src_source_fingerprint (snap_source s), ''repository policy source does not match activation receipt''),
      (ra_revision_fingerprint r = src_revision_fingerprint (snap_source s), ''repository policy revision does not match activation receipt''),
      (ra_policy_digest r = repository_policy_digest (snap_document s), ''repository policy digest does not match activation receipt''),
      (ra_schema_version r = rp_schema_version (snap_document s), ''repository policy schema does not match activation receipt''),
      (ra_repository_fingerprint r = ctx_repository_fingerprint c, ''activation receipt is not bound to this repository''),
      (ra_deployment_fingerprint r = ctx_deployment_fingerprint c, ''activation receipt is not bound to this deployment''),
      (ra_task_fingerprint r = ctx_task_fingerprint c, ''activation receipt is not bound to this task''),
      (ra_candidate_sha r = ctx_candidate_sha c, ''activation receipt is not bound to this candidate''),
      (ra_dispatcher_transition_digest r = transition_digest t, ''activation receipt is not bound to this dispatcher transition''),
      (dt_repository_fingerprint t = ctx_repository_fingerprint c, ''dispatcher transition is not bound to this repository''),
      (dt_deployment_fingerprint t = ctx_deployment_fingerprint c, ''dispatcher transition is not bound to this deployment''),
      (dt_candidate_sha t = ctx_candidate_sha c, ''dispatcher transition is not bound to this candidate''),
      (\<not> roundlet_mutation_capable t, ''Roundlet remains mutation-capable''),
      (roundlet_reconciled t, ''Roundlet has not been reconciled''),
      (roundwright_mutation_capable t, ''Roundwright is not the selected mutation-capable dispatcher''),
      (stamp (ra_activated_at r) \<le> stamp now \<and> stamp now < stamp (ra_expires_at r), ''repository policy activation receipt is stale or not yet active''),
      (rrv_receipt_fingerprint v = ra_receipt_fingerprint r, ''repository policy lifecycle verification is not bound to this receipt''),
      (rrv_receipt_binding_digest v = receipt_binding_digest r, ''repository policy lifecycle verification does not match this receipt binding''),
      (rrv_status v = RR_FRESH, ''repository policy activation receipt is not fresh'')]"

definition evaluate_repository_mutation_policy ::
  "repository_policy_snapshot option \<Rightarrow> repository_activation_receipt option
     \<Rightarrow> repository_mutation_context option \<Rightarrow> repository_mutation_operation option
     \<Rightarrow> standing_repository_authority option \<Rightarrow> repository_dispatcher_transition option
     \<Rightarrow> repository_receipt_verification option \<Rightarrow> datetime option \<Rightarrow> repository_mutation_decision result" where
  "evaluate_repository_mutation_policy snapshot receipt context operation standing transition verification now =
    (let deny = (\<lambda>why. repo_denied why snapshot receipt operation context transition verification) in
     case operation of None \<Rightarrow> deny ''repository mutation operation is unavailable'' | Some q \<Rightarrow>
     if \<not> present snapshot_is_valid snapshot
       then deny ''trusted repository policy evidence is unavailable or invalid'' else
     if \<not> present receipt_is_valid receipt
       then deny ''repository policy activation receipt is unavailable or invalid'' else
     if \<not> present context_is_valid context
       then deny ''repository mutation context is unavailable or invalid'' else
     if \<not> present standing_authority_is_valid standing
       then deny ''standing repository authority is unavailable or invalid'' else
     if \<not> present dispatcher_transition_is_valid transition
       then deny ''exclusive dispatcher transition evidence is unavailable or invalid'' else
     if \<not> present receipt_verification_is_valid verification
       then deny ''repository policy receipt lifecycle verification is unavailable or invalid'' else
     if \<not> present is_utc now
       then deny ''repository policy evaluation time is unavailable or invalid'' else
     (case (snapshot, receipt, context, standing, transition, verification, now) of
        (Some s, Some r, Some c, Some a, Some t, Some v, Some n) \<Rightarrow>
          if \<not> policy_narrows (snap_document s) (standing_policy a)
            then deny ''repository policy would widen standing authority'' else
          (case first_failure (repository_checks s r c t v n) of
             Some why \<Rightarrow> deny why
           | None \<Rightarrow>
             if \<not> enabled (snap_document s) then deny ''repository mutation policy is disabled'' else
             if \<not> action_switch_is_enabled (snap_document s) q then deny ''repository mutation action is disabled'' else
             bind_result (binding_from_evidence snapshot receipt context transition verification)
               (\<lambda>b. Inr \<lparr>rd_operation = operation, rd_authorized = True,
                  rd_reason = ''repository mutation policy is active for this exact operation'',
                  rd_policy_digest = Some (repository_policy_digest (snap_document s)),
                  rd_source_fingerprint = Some (src_source_fingerprint (snap_source s)),
                  rd_receipt_fingerprint = Some (ra_receipt_fingerprint r),
                  rd_enabled = True, rd_action_enabled = True,
                  rd_next_action = ''mutation-adapter-may-attempt-readback'', rd_binding = b\<rparr>))
      | _ \<Rightarrow> deny ''repository policy evaluation time is unavailable or invalid''))"

definition evaluate_shadow_mutation_policy ::
  "repository_mutation_operation option \<Rightarrow> repository_mutation_decision result" where
  "evaluate_shadow_mutation_policy operation = (case operation of
     None \<Rightarrow> repo_denied ''shadow mutation operation is unavailable'' None None operation None None None
   | Some q \<Rightarrow> Inr \<lparr>rd_operation = operation, rd_authorized = False,
       rd_reason = ''shadow replay is read-only and all repository mutation switches are disabled'',
       rd_policy_digest = None, rd_source_fingerprint = None, rd_receipt_fingerprint = None,
       rd_enabled = False, rd_action_enabled = False,
       rd_next_action = ''retain-zero-mutation-evidence'', rd_binding = None\<rparr>)"

definition matches_context ::
  "repository_mutation_binding \<Rightarrow> repository_mutation_context option
     \<Rightarrow> repository_receipt_verification option \<Rightarrow> bool" where
  "matches_context b context verification =
    (if \<not> binding_is_valid b \<or> \<not> present context_is_valid context
        \<or> \<not> present receipt_verification_is_valid verification then False else
     (case (context, verification) of
        (Some c, Some v) \<Rightarrow>
          mb_repository_fingerprint b = ctx_repository_fingerprint c
          \<and> mb_deployment_fingerprint b = ctx_deployment_fingerprint c
          \<and> mb_task_fingerprint b = ctx_task_fingerprint c
          \<and> mb_candidate_sha b = ctx_candidate_sha c
          \<and> mb_receipt_verification_fingerprint b = rrv_verification_fingerprint v
          \<and> mb_receipt_fingerprint b = rrv_receipt_fingerprint v
          \<and> mb_receipt_binding_digest b = rrv_receipt_binding_digest v
          \<and> mb_receipt_status b = rrv_status v
      | _ \<Rightarrow> False))"

definition decision_diagnostic :: "repository_mutation_decision \<Rightarrow> (string \<times> json) list" where
  "decision_diagnostic d = (let text = (\<lambda>v. case v of None \<Rightarrow> JNull | Some s \<Rightarrow> JStr s) in
     [(''operation'', text (map_option operation_value (rd_operation d))),
      (''authorized'', JBool (rd_authorized d)),
      (''reason'', JStr (rd_reason d)),
      (''policy_digest'', text (rd_policy_digest d)),
      (''source_fingerprint'', text (rd_source_fingerprint d)),
      (''receipt_fingerprint'', text (rd_receipt_fingerprint d)),
      (''binding_digest'', text (map_option mutation_binding_digest (rd_binding d))),
      (''enabled'', JBool (rd_enabled d)),
      (''action_enabled'', JBool (rd_action_enabled d)),
      (''next_action'', JStr (rd_next_action d))])"

section \<open>The evaluator is a fail-closed gate\<close>

type_synonym repository_evidence = "repository_policy_snapshot option \<times> repository_activation_receipt option
  \<times> repository_mutation_context option \<times> repository_mutation_operation option
  \<times> standing_repository_authority option \<times> repository_dispatcher_transition option
  \<times> repository_receipt_verification option \<times> datetime option"

fun repository_gate_checks :: "repository_evidence \<Rightarrow> (bool \<times> string) list" where
  "repository_gate_checks (snapshot, receipt, context, operation, standing, transition, verification, now) =
     [(operation \<noteq> None, ''repository mutation operation is unavailable''),
      (present snapshot_is_valid snapshot, ''trusted repository policy evidence is unavailable or invalid''),
      (present receipt_is_valid receipt, ''repository policy activation receipt is unavailable or invalid''),
      (present context_is_valid context, ''repository mutation context is unavailable or invalid''),
      (present standing_authority_is_valid standing, ''standing repository authority is unavailable or invalid''),
      (present dispatcher_transition_is_valid transition, ''exclusive dispatcher transition evidence is unavailable or invalid''),
      (present receipt_verification_is_valid verification, ''repository policy receipt lifecycle verification is unavailable or invalid''),
      (present is_utc now, ''repository policy evaluation time is unavailable or invalid'')]
     @ (case (snapshot, receipt, context, operation, standing, transition, verification, now) of
          (Some s, Some r, Some c, Some q, Some a, Some t, Some v, Some n) \<Rightarrow>
            (policy_narrows (snap_document s) (standing_policy a), ''repository policy would widen standing authority'')
            # repository_checks s r c t v n
            @ [(enabled (snap_document s), ''repository mutation policy is disabled''),
               (action_switch_is_enabled (snap_document s) q, ''repository mutation action is disabled'')]
        | _ \<Rightarrow> [])"

fun repository_decide :: "repository_evidence \<Rightarrow> repository_mutation_decision result" where
  "repository_decide (snapshot, receipt, context, operation, standing, transition, verification, now) =
     evaluate_repository_mutation_policy snapshot receipt context operation standing transition verification now"

fun granted :: "repository_mutation_decision result \<Rightarrow> bool" where
  "granted (Inr d) = rd_authorized d"
| "granted (Inl _) = False"

fun grant_reason :: "repository_mutation_decision result \<Rightarrow> string" where
  "grant_reason (Inr d) = rd_reason d"
| "grant_reason (Inl _) = []"

lemma repository_validity_iffs:
  "source_is_valid x1 \<longleftrightarrow> list_all fst (source_guards x1)"
  "policy_is_valid x2 \<longleftrightarrow> list_all fst (repository_policy_guards x2)"
  "context_is_valid x3 \<longleftrightarrow> list_all fst (context_guards x3)"
  "dispatcher_transition_is_valid x4 \<longleftrightarrow> list_all fst (validate_dispatcher_transition x4)"
  "receipt_is_valid x5 \<longleftrightarrow> list_all fst (validate_receipt x5)"
  "receipt_verification_is_valid x6 \<longleftrightarrow> list_all fst (validate_receipt_verification x6)"
  "binding_is_valid x7 \<longleftrightarrow> list_all fst (validate_binding x7)"
  by (simp_all only: source_is_valid_def policy_is_valid_def context_is_valid_def dispatcher_transition_is_valid_def
      receipt_is_valid_def receipt_verification_is_valid_def binding_is_valid_def first_failure_None_iff)

lemmas repository_validity = repository_validity_iffs snapshot_is_valid_def standing_authority_is_valid_def
  source_guards_def repository_policy_guards_def context_guards_def validate_dispatcher_transition_def
  validate_receipt_def validate_receipt_verification_def validate_binding_def
  repo_require_fingerprint_def repo_require_commit_sha_def

lemma repository_digests [simp]:
  "is_fingerprint (repository_policy_digest p)" "is_fingerprint (transition_digest t)" "is_fingerprint (receipt_binding_digest r)"
  by (simp_all add: repository_policy_digest_def transition_digest_def receipt_binding_digest_def)

text \<open>The binding of validated evidence is itself valid, so its constructor never raises.\<close>

lemma binding_from_evidence_total: "\<exists>b. binding_from_evidence s r c t v = Inr b"
  by (cases s; cases r; cases c; cases t; cases v)
    (auto simp: binding_from_evidence_def Let_def repository_validity construct_def)

lemma repo_denied_total:
  "\<exists>b. repo_denied why s r q c t v = Inr b \<and> \<not> rd_authorized b \<and> rd_reason b = why \<and> rd_operation b = q"
proof -
  obtain b where "binding_from_evidence s r c t v = Inr b" using binding_from_evidence_total by blast
  then show ?thesis by (simp add: repo_denied_def Let_def)
qed

lemma repo_denied_simps [simp]: "\<not> granted (repo_denied why s r q c t v)" "grant_reason (repo_denied why s r q c t v) = why"
  using repo_denied_total [of why s r q c t v] by auto

lemma repository_evidence_cases:
  obtains (missing) "snapshot = None \<or> receipt = None \<or> context = None \<or> standing = None \<or> transition = None
      \<or> verification = None \<or> now = None"
  | (complete) s r c a t v n where "snapshot = Some s" "receipt = Some r" "context = Some c" "standing = Some a"
      "transition = Some t" "verification = Some v" "now = Some n"
  by (cases snapshot; cases receipt; cases "context"; cases standing; cases transition; cases verification; cases now) simp_all

text \<open>The evaluator reports the first failing check, or grants.\<close>

lemma repository_outcome:
  "evaluate_repository_mutation_policy snapshot receipt context operation standing transition verification now =
    (case first_failure (repository_gate_checks (snapshot, receipt, context, operation, standing, transition, verification, now)) of
       Some why \<Rightarrow> repo_denied why snapshot receipt operation context transition verification
     | None \<Rightarrow> bind_result (binding_from_evidence snapshot receipt context transition verification)
         (\<lambda>b. Inr \<lparr>rd_operation = operation, rd_authorized = True,
            rd_reason = ''repository mutation policy is active for this exact operation'',
            rd_policy_digest = Some (repository_policy_digest (snap_document (the snapshot))),
            rd_source_fingerprint = Some (src_source_fingerprint (snap_source (the snapshot))),
            rd_receipt_fingerprint = Some (ra_receipt_fingerprint (the receipt)),
            rd_enabled = True, rd_action_enabled = True,
            rd_next_action = ''mutation-adapter-may-attempt-readback'', rd_binding = b\<rparr>))"
proof (cases operation)
  case None
  then show ?thesis by (simp add: evaluate_repository_mutation_policy_def)
next
  case (Some q)
  show ?thesis
  proof (cases snapshot receipt "context" standing transition verification now rule: repository_evidence_cases)
    case missing
    then have "\<not> (present snapshot_is_valid snapshot \<and> present receipt_is_valid receipt \<and> present context_is_valid context
        \<and> present standing_authority_is_valid standing \<and> present dispatcher_transition_is_valid transition
        \<and> present receipt_verification_is_valid verification \<and> present is_utc now)"
      by auto
    with Some show ?thesis
      by (simp add: evaluate_repository_mutation_policy_def Let_def first_failure_append del: first_failure_None_iff)
  next
    case (complete s r c a t v n)
    with Some show ?thesis
      by (simp add: evaluate_repository_mutation_policy_def Let_def first_failure_append
          del: first_failure_None_iff split: option.split)
  qed
qed

lemma repository_gate_first_failure:
  "case first_failure (repository_gate_checks ev) of
     None \<Rightarrow> granted (repository_decide ev)
   | Some w \<Rightarrow> \<not> granted (repository_decide ev) \<and> grant_reason (repository_decide ev) = w"
proof -
  obtain s r c q a t v n where ev: "ev = (s, r, c, q, a, t, v, n)"
    by (cases ev rule: repository_gate_checks.cases)
  obtain b where b: "binding_from_evidence s r c t v = Inr b" using binding_from_evidence_total by blast
  show ?thesis
    unfolding ev repository_decide.simps repository_outcome using b
    by (simp split: option.split del: repository_gate_checks.simps first_failure_None_iff)
qed

interpretation repository_gate: fail_closed_gate repository_gate_checks granted grant_reason repository_decide
proof unfold_locales
  show "granted (repository_decide ev) = (first_failure (repository_gate_checks ev) = None)" for ev
    using repository_gate_first_failure [of ev] by (auto split: option.splits simp del: first_failure_None_iff)
  show "grant_reason (repository_decide ev) = w" if "first_failure (repository_gate_checks ev) = Some w" for ev w
    using repository_gate_first_failure [of ev] that by simp
qed

section \<open>Properties of the evaluator\<close>

lemma getattr_switch_names [simp]:
  "getattr_switch p ''enabled'' = enabled p"
  "getattr_switch p (REPOSITORY_OPERATION_SWITCH q) = (case q of
     ISSUE_COMMENT \<Rightarrow> allow_issue_comment p | CREATE_REMOTE_BRANCH \<Rightarrow> allow_create_remote_branch p
   | UPDATE_REMOTE_BRANCH \<Rightarrow> allow_update_remote_branch p | DELETE_REMOTE_BRANCH \<Rightarrow> allow_delete_remote_branch p
   | CREATE_DRAFT_PR \<Rightarrow> allow_create_draft_pr p | REQUEST_REVIEW \<Rightarrow> allow_request_review p
   | MARK_PR_READY \<Rightarrow> allow_mark_pr_ready p | MERGE_PR \<Rightarrow> allow_merge_pr p
   | CLOSE_LEAF_ISSUE \<Rightarrow> allow_close_leaf_issue p | DELETE_LOCAL_BRANCH \<Rightarrow> allow_delete_local_branch p
   | REMOVE_WORKTREE \<Rightarrow> allow_remove_worktree p)"
  by (simp add: getattr_switch_def) (cases q; simp add: getattr_switch_def policy_switches_def)

lemma switch_is_key: "REPOSITORY_OPERATION_SWITCH q \<in> set policy_action_keys"
  by (cases q) (simp_all add: policy_action_keys_def policy_switches_def)

lemma policy_narrows_iff:
  "policy_narrows p ceiling \<longleftrightarrow> (enabled p \<longrightarrow> enabled ceiling)
     \<and> (\<forall>q. action_switch_is_enabled p q \<longrightarrow> action_switch_is_enabled ceiling q)"
proof -
  have keys: "set policy_action_keys = range REPOSITORY_OPERATION_SWITCH"
  proof
    show "set policy_action_keys \<subseteq> range REPOSITORY_OPERATION_SWITCH"
      unfolding policy_action_keys_def policy_switches_def
      by (simp, intro conjI; rule range_eqI, rule REPOSITORY_OPERATION_SWITCH.simps [symmetric])
  qed (auto simp: switch_is_key)
  show ?thesis
    by (auto simp: policy_narrows_def list_all_iff keys action_switch_is_enabled_def simp del: getattr_switch_names(2))
qed

lemma repository_authorized_evidence:
  "granted (evaluate_repository_mutation_policy snapshot receipt context operation standing transition verification now) \<longleftrightarrow>
     (\<exists>s r c q a t v n. snapshot = Some s \<and> receipt = Some r \<and> context = Some c \<and> operation = Some q
        \<and> standing = Some a \<and> transition = Some t \<and> verification = Some v \<and> now = Some n
        \<and> snapshot_is_valid s \<and> receipt_is_valid r \<and> context_is_valid c \<and> standing_authority_is_valid a
        \<and> dispatcher_transition_is_valid t \<and> receipt_verification_is_valid v \<and> is_utc n
        \<and> ra_source_fingerprint r = src_source_fingerprint (snap_source s)
        \<and> ra_revision_fingerprint r = src_revision_fingerprint (snap_source s)
        \<and> ra_policy_digest r = repository_policy_digest (snap_document s)
        \<and> ctx_repository_fingerprint c = ra_repository_fingerprint r \<and> dt_repository_fingerprint t = ra_repository_fingerprint r
        \<and> ctx_deployment_fingerprint c = ra_deployment_fingerprint r \<and> dt_deployment_fingerprint t = ra_deployment_fingerprint r
        \<and> ctx_candidate_sha c = ra_candidate_sha r \<and> dt_candidate_sha t = ra_candidate_sha r
        \<and> ctx_task_fingerprint c = ra_task_fingerprint r
        \<and> ra_dispatcher_transition_digest r = transition_digest t
        \<and> \<not> roundlet_mutation_capable t \<and> roundlet_reconciled t \<and> roundwright_mutation_capable t
        \<and> stamp (ra_activated_at r) \<le> stamp n \<and> stamp n < stamp (ra_expires_at r)
        \<and> rrv_receipt_fingerprint v = ra_receipt_fingerprint r
        \<and> rrv_receipt_binding_digest v = receipt_binding_digest r \<and> rrv_status v = RR_FRESH
        \<and> enabled (snap_document s) \<and> action_switch_is_enabled (snap_document s) q
        \<and> enabled (standing_policy a) \<and> {q'. action_switch_is_enabled (snap_document s) q'} \<subseteq> {q'. action_switch_is_enabled (standing_policy a) q'})"
  (is "?g \<longleftrightarrow> ?e")
proof -
  let ?ev = "(snapshot, receipt, context, operation, standing, transition, verification, now)"
  have gate: "?g \<longleftrightarrow> list_all fst (repository_gate_checks ?ev)"
    using repository_gate.authorized_iff_all [of ?ev] by simp
  show ?thesis
  proof (cases snapshot receipt "context" standing transition verification now rule: repository_evidence_cases)
    case missing
    then show ?thesis unfolding gate by auto
  next
    case (complete s r c a t v n)
    have schema: "snapshot_is_valid s \<Longrightarrow> receipt_is_valid r \<Longrightarrow> ra_schema_version r = rp_schema_version (snap_document s)"
      by (simp add: repository_validity)
    show ?thesis
    proof (cases operation)
      case None
      then show ?thesis unfolding gate by simp
    next
      case (Some q)
      then show ?thesis unfolding gate unfolding complete using schema
        by (auto simp: repository_checks_def policy_narrows_iff)
    qed
  qed
qed

text \<open>
  C32 (repository_mutation_authorized_iff). A mutation is authorized exactly when all evidence is
  present and valid, every binding check passes, the policy is enabled and switches exactly
  this operation on, and neither the policy nor any of its eleven switches exceeds the
  standing authority. In particular Roundlet is stopped and reconciled and Roundwright is the
  one mutation-capable dispatcher for the same repository, deployment and candidate.
\<close>

theorem repository_mutation_authorized_iff:
  "granted (evaluate_repository_mutation_policy snapshot receipt context operation standing transition verification now) \<longleftrightarrow>
     (\<exists>s r c q a t v n. snapshot = Some s \<and> receipt = Some r \<and> context = Some c \<and> operation = Some q
        \<and> standing = Some a \<and> transition = Some t \<and> verification = Some v \<and> now = Some n
        \<and> snapshot_is_valid s \<and> receipt_is_valid r \<and> context_is_valid c \<and> standing_authority_is_valid a
        \<and> dispatcher_transition_is_valid t \<and> receipt_verification_is_valid v \<and> is_utc n
        \<and> ra_source_fingerprint r = src_source_fingerprint (snap_source s)
        \<and> ra_revision_fingerprint r = src_revision_fingerprint (snap_source s)
        \<and> ra_policy_digest r = repository_policy_digest (snap_document s)
        \<and> ctx_repository_fingerprint c = ra_repository_fingerprint r \<and> dt_repository_fingerprint t = ra_repository_fingerprint r
        \<and> ctx_deployment_fingerprint c = ra_deployment_fingerprint r \<and> dt_deployment_fingerprint t = ra_deployment_fingerprint r
        \<and> ctx_candidate_sha c = ra_candidate_sha r \<and> dt_candidate_sha t = ra_candidate_sha r
        \<and> ctx_task_fingerprint c = ra_task_fingerprint r
        \<and> ra_dispatcher_transition_digest r = transition_digest t
        \<and> \<not> roundlet_mutation_capable t \<and> roundlet_reconciled t \<and> roundwright_mutation_capable t
        \<and> stamp (ra_activated_at r) \<le> stamp n \<and> stamp n < stamp (ra_expires_at r)
        \<and> rrv_receipt_fingerprint v = ra_receipt_fingerprint r
        \<and> rrv_receipt_binding_digest v = receipt_binding_digest r \<and> rrv_status v = RR_FRESH
        \<and> enabled (snap_document s) \<and> action_switch_is_enabled (snap_document s) q
        \<and> enabled (standing_policy a) \<and> {q'. action_switch_is_enabled (snap_document s) q'} \<subseteq> {q'. action_switch_is_enabled (standing_policy a) q'})"
  by (rule repository_authorized_evidence)

text \<open>
  The evaluator never raises, for any combination of
  missing and invalid evidence: the constructor of the retained binding succeeds whenever it
  runs. A positive decision names the requested operation and retains a binding that matches
  the context and the verification it was taken under.
\<close>

lemma repository_mutation_decision_total:
  "\<exists>d. evaluate_repository_mutation_policy snapshot receipt context operation standing transition verification now = Inr d
     \<and> rd_operation d = operation
     \<and> (rd_authorized d \<longrightarrow> (\<exists>b. rd_binding d = Some b \<and> matches_context b context verification))"
  (is "\<exists>d. ?e = Inr d \<and> _")
proof -
  let ?f = "first_failure (repository_gate_checks (snapshot, receipt, context, operation, standing, transition, verification, now))"
  obtain b where b: "binding_from_evidence snapshot receipt context transition verification = Inr b"
    using binding_from_evidence_total by blast
  show ?thesis
  proof (cases ?f)
    case (Some why)
    with repo_denied_total [of why snapshot receipt operation "context" transition verification] show ?thesis
      unfolding repository_outcome by (auto simp del: repository_gate_checks.simps first_failure_None_iff)
  next
    case None
    then have "granted ?e"
      unfolding repository_outcome using b by (simp del: repository_gate_checks.simps first_failure_None_iff)
    then obtain s r c t v where e: "snapshot = Some s" "receipt = Some r" "context = Some c" "transition = Some t" "verification = Some v"
      and v: "snapshot_is_valid s" "receipt_is_valid r" "context_is_valid c"
        "dispatcher_transition_is_valid t" "receipt_verification_is_valid v"
        "rrv_receipt_fingerprint v = ra_receipt_fingerprint r"
      unfolding repository_authorized_evidence by blast
    from v(1-5) b e obtain m where m: "b = Some m" "binding_is_valid m"
        "mb_repository_fingerprint m = ctx_repository_fingerprint c" "mb_deployment_fingerprint m = ctx_deployment_fingerprint c"
        "mb_task_fingerprint m = ctx_task_fingerprint c" "mb_candidate_sha m = ctx_candidate_sha c"
        "mb_receipt_verification_fingerprint m = rrv_verification_fingerprint v"
        "mb_receipt_fingerprint m = ra_receipt_fingerprint r"
        "mb_receipt_binding_digest m = rrv_receipt_binding_digest v" "mb_receipt_status m = rrv_status v"
      by (simp add: binding_from_evidence_def Let_def binding_is_valid_def)
    then have "matches_context m context verification"
      using v e by (simp add: matches_context_def)
    with None b m(1) show ?thesis
      unfolding repository_outcome by (simp del: repository_gate_checks.simps first_failure_None_iff)
  qed
qed

section \<open>The vocabulary\<close>

lemma all_operations_UNIV: "set all_operations = UNIV"
  by (auto simp: all_operations_def intro: repository_mutation_operation.exhaust)

lemma all_github_operations_UNIV: "set all_github_operations = UNIV"
  by (auto simp: all_github_operations_def intro: github_mutation_operation.exhaust)

lemma operation_switch_inj: "inj REPOSITORY_OPERATION_SWITCH"
proof (rule injI)
  show "x = y" if "REPOSITORY_OPERATION_SWITCH x = REPOSITORY_OPERATION_SWITCH y" for x y
    using that by (cases x; cases y) simp_all
qed

lemma github_operation_inj: "inj GITHUB_REPOSITORY_OPERATION"
proof (rule injI)
  show "x = y" if "GITHUB_REPOSITORY_OPERATION x = GITHUB_REPOSITORY_OPERATION y" for x y
    using that by (cases x; cases y) simp_all
qed

lemma switch_range: "REPOSITORY_OPERATION_SWITCH ` set all_operations = set policy_action_keys"
  by (simp add: all_operations_def policy_action_keys_def policy_switches_def insert_commute)

text \<open>
  The two mapping tables that the module validates when
  it is loaded are accepted: every operation has its own switch and every switch its operation,
  and every GitHub mutation falls under exactly one repository operation. Consequently switches
  do not leak: for every operation there is a policy that switches on this operation and no other.
\<close>

lemma repository_vocabulary_one_to_one:
  "validate_repository_mutation_vocabulary
     (map (\<lambda>q. (Some q, Some (REPOSITORY_OPERATION_SWITCH q))) all_operations)
     (map (\<lambda>g. (Some g, Some (GITHUB_REPOSITORY_OPERATION g))) all_github_operations) = Inr ()
   \<and> bij_betw REPOSITORY_OPERATION_SWITCH UNIV (set policy_action_keys)
   \<and> inj GITHUB_REPOSITORY_OPERATION
   \<and> (\<forall>q. \<exists>p. \<forall>q'. action_switch_is_enabled p q' \<longleftrightarrow> q' = q)"
proof (intro conjI)
  have d: "distinct all_operations" "distinct all_github_operations"
    by (simp_all add: all_operations_def all_github_operations_def)
  have "distinct (map (\<lambda>q. Some (REPOSITORY_OPERATION_SWITCH q)) all_operations)"
    using d(1) operation_switch_inj by (auto simp: distinct_map inj_on_def)
  moreover have "distinct (map (\<lambda>g. Some (GITHUB_REPOSITORY_OPERATION g)) all_github_operations)"
    using d(2) github_operation_inj by (auto simp: distinct_map inj_on_def)
  moreover have "(\<lambda>q. Some (REPOSITORY_OPERATION_SWITCH q)) ` set all_operations = Some ` set policy_action_keys"
    using switch_range by (metis image_image)
  ultimately show "validate_repository_mutation_vocabulary
     (map (\<lambda>q. (Some q, Some (REPOSITORY_OPERATION_SWITCH q))) all_operations)
     (map (\<lambda>g. (Some g, Some (GITHUB_REPOSITORY_OPERATION g))) all_github_operations) = Inr ()"
    by (auto simp: validate_repository_mutation_vocabulary_def validate_total_mapping_def comp_def all_operations_UNIV)
  show "bij_betw REPOSITORY_OPERATION_SWITCH UNIV (set policy_action_keys)"
    using operation_switch_inj switch_range by (simp add: bij_betw_def all_operations_UNIV)
  show "inj GITHUB_REPOSITORY_OPERATION" by (rule github_operation_inj)
  show "\<forall>q. \<exists>p. \<forall>q'. action_switch_is_enabled p q' \<longleftrightarrow> q' = q"
  proof
    fix q
    let ?p = "\<lparr>rp_schema_version = 2, enabled = True, allow_issue_comment = (q = ISSUE_COMMENT),
      allow_create_remote_branch = (q = CREATE_REMOTE_BRANCH), allow_update_remote_branch = (q = UPDATE_REMOTE_BRANCH),
      allow_delete_remote_branch = (q = DELETE_REMOTE_BRANCH), allow_create_draft_pr = (q = CREATE_DRAFT_PR),
      allow_request_review = (q = REQUEST_REVIEW), allow_mark_pr_ready = (q = MARK_PR_READY), allow_merge_pr = (q = MERGE_PR),
      allow_close_leaf_issue = (q = CLOSE_LEAF_ISSUE), allow_delete_local_branch = (q = DELETE_LOCAL_BRANCH),
      allow_remove_worktree = (q = REMOVE_WORKTREE)\<rparr>"
    have "\<forall>q'. action_switch_is_enabled ?p q' \<longleftrightarrow> q' = q"
      by (auto simp: action_switch_is_enabled_def split: repository_mutation_operation.split)
    then show "\<exists>p. \<forall>q'. action_switch_is_enabled p q' \<longleftrightarrow> q' = q" by blast
  qed
qed

section \<open>The authority block in a text\<close>

definition join_lines :: "string list \<Rightarrow> string" where
  "join_lines lines = concat (map (\<lambda>l. l @ [CHR 0x0A]) lines)"

definition one_line :: "string \<Rightarrow> bool" where
  "one_line l \<longleftrightarrow> list_all (\<lambda>c. \<not> is_line_break c) l"

lemma splitlines_from_Cons:
  "\<not> is_line_break c \<Longrightarrow> splitlines_from line (c # cs) = splitlines_from (c # line) cs"
  "splitlines_from line (CHR 0x0A # cs) = rev line # splitlines_from [] cs"
  by (cases cs; auto simp: is_line_break_def)+

lemma splitlines_from_line:
  "one_line l \<Longrightarrow> splitlines_from acc (l @ CHR 0x0A # rest) = (rev acc @ l) # splitlines_from [] rest"
  by (induction l arbitrary: acc) (auto simp: one_line_def splitlines_from_Cons)

lemma splitlines_join: "list_all one_line lines \<Longrightarrow> splitlines (join_lines lines) = lines"
  unfolding splitlines_def by (induction lines) (simp_all add: join_lines_def splitlines_from_line)

lemma indices_of_none: "m \<notin> set xs \<Longrightarrow> indices_of m xs = []"
  by (auto simp: indices_of_def filter_empty_conv)

lemma indices_of_append:
  "indices_of m (xs @ ys) = indices_of m xs @ map ((+) (length xs)) (indices_of m ys)"
proof -
  have "[0..<length (xs @ ys)] = [0..<length xs] @ map ((+) (length xs)) [0..<length ys]"
    by (rule nth_equalityI) (auto simp: nth_append)
  then show ?thesis
    by (auto simp: indices_of_def filter_map comp_def nth_append intro!: filter_cong)
qed

lemma indices_of_single: "m \<notin> set xs \<Longrightarrow> m \<notin> set ys \<Longrightarrow> indices_of m (xs @ m # ys) = [length xs]"
  using indices_of_append [of m xs "[m] @ ys"] indices_of_append [of m "[m]" ys]
  by (simp add: indices_of_none) (simp add: indices_of_def)

definition authority_line :: "string \<Rightarrow> string \<Rightarrow> string" where
  "authority_line key token = [CHR '' '', CHR '' ''] @ key @ [CHR '':'', CHR '' ''] @ token"

definition bool_token :: "bool \<Rightarrow> string" where
  "bool_token b = (if b then ''true'' else ''false'')"

definition is_key :: "string \<Rightarrow> bool" where
  "is_key key \<longleftrightarrow> key \<noteq> [] \<and> is_lower (hd key) \<and> list_all is_key_char key"

lemma match_authority_line:
  assumes "is_key key" "token = ''true'' \<or> token = ''false'' \<or> is_numeral token"
  shows "match_authority_value (authority_line key token) = Some (key, token)"
proof -
  have "\<not> is_key_char CHR '':''" by (simp add: is_key_char_def is_lower_def is_digit_def less_eq_char_def)
  then have "takeWhile is_key_char (key @ CHR '':'' # x) = key" "dropWhile is_key_char (key @ CHR '':'' # x) = CHR '':'' # x" for x
    using assms(1) by (simp_all add: is_key_def takeWhile_append2 dropWhile_append2 list_all_iff)
  then show ?thesis
    using assms by (auto simp: match_authority_value_def authority_line_def is_key_def)
qed

lemma parse_bool_lines:
  assumes "list_all is_key (map fst kvs)" "distinct (map fst acc @ map fst kvs)"
  shows "parse_authority_values root acc (map (\<lambda>(k, b). authority_line k (bool_token b)) kvs)
    = Inr (acc @ map (\<lambda>(k, b). (k, JBool b)) kvs)"
  using assms
proof (induction kvs arbitrary: acc)
  case (Cons kb kvs)
  obtain k b where kb: "kb = (k, b)" by (cases kb)
  have "match_authority_value (authority_line k (bool_token b)) = Some (k, bool_token b)"
    using Cons.prems(1) by (intro match_authority_line) (auto simp: kb bool_token_def)
  moreover have "parse_authority_values root (acc @ [(k, JBool b)]) (map (\<lambda>(k, b). authority_line k (bool_token b)) kvs)
      = Inr ((acc @ [(k, JBool b)]) @ map (\<lambda>(k, b). (k, JBool b)) kvs)"
    using Cons.prems by (intro Cons.IH) (simp_all add: kb)
  moreover have "k \<notin> fst ` set acc" using Cons.prems(2) by (auto simp: kb)
  ultimately show ?case by (cases b) (simp_all add: kb bool_token_def)
qed simp

definition switch_settings :: "repository_mutation_policy \<Rightarrow> (string \<times> bool) list" where
  "switch_settings p = (''enabled'', enabled p) # map (\<lambda>(name, f). (name, f p)) policy_switches"

definition authority_block :: "repository_mutation_policy \<Rightarrow> string list" where
  "authority_block p = [ROUNDWRIGHT_AUTHORITY_START, ''roundwright:'', authority_line ''schema_version'' ''2'']
     @ map (\<lambda>(k, b). authority_line k (bool_token b)) (switch_settings p) @ [ROUNDWRIGHT_AUTHORITY_END]"

lemma switch_settings_keys: "map fst (switch_settings p) = ''enabled'' # policy_action_keys"
  by (simp add: switch_settings_def policy_action_keys_def comp_def case_prod_beta)

lemma policy_key_letters: "is_key_char c \<longleftrightarrow> (CHR ''a'' \<le> c \<and> c \<le> CHR ''z'') \<or> (CHR ''0'' \<le> c \<and> c \<le> CHR ''9'') \<or> c = CHR ''_''"
  by (simp add: is_key_char_def is_lower_def is_digit_def)

lemma policy_keys_ok: "list_all is_key policy_keys" "distinct policy_keys"
  by (simp_all add: policy_keys_def policy_action_keys_def policy_switches_def is_key_def policy_key_letters is_lower_def less_eq_char_def)

lemma policy_of_raw_settings:
  assumes "rp_schema_version p = REPOSITORY_POLICY_SCHEMA_VERSION"
  shows "policy_of_raw ((''schema_version'', JInt 2) # map (\<lambda>(k, b). (k, JBool b)) (switch_settings p)) = Inr p"
  using assms
  by (cases p) (simp add: policy_of_raw_def switch_settings_def policy_switches_def policy_action_keys_def raw_switch_def
      REPOSITORY_POLICY_SCHEMA_VERSION_def)

lemma parse_block_values:
  "parse_authority_values ''roundwright'' [] (authority_line ''schema_version'' ''2''
      # map (\<lambda>(k, b). authority_line k (bool_token b)) (switch_settings p))
   = Inr ((''schema_version'', JInt 2) # map (\<lambda>(k, b). (k, JBool b)) (switch_settings p))"
proof -
  have "match_authority_value (authority_line ''schema_version'' ''2'') = Some (''schema_version'', ''2'')"
    using policy_keys_ok(1) by (intro match_authority_line) (simp_all add: policy_keys_def is_numeral_def is_digit_def less_eq_char_def)
  moreover have "parse_authority_values ''roundwright'' [(''schema_version'', JInt 2)]
      (map (\<lambda>(k, b). authority_line k (bool_token b)) (switch_settings p))
     = Inr ([(''schema_version'', JInt 2)] @ map (\<lambda>(k, b). (k, JBool b)) (switch_settings p))"
    using policy_keys_ok by (intro parse_bool_lines) (auto simp: switch_settings_keys policy_keys_def)
  moreover have "py_int ''2'' = Inr 2" by (simp add: py_int_def of_char_def)
  ultimately show ?thesis by simp
qed

lemma authority_block_lines: "list_all one_line (authority_block p)"
proof -
  have br: "is_line_break c \<longleftrightarrow> c \<in> {CHR 0x0A, CHR 0x0B, CHR 0x0C, CHR 0x0D, CHR 0x1C, CHR 0x1D, CHR 0x1E, CHR 0x85}" for c
    by (simp add: is_line_break_def)
  have key: "one_line k" if "is_key k" for k
    using that by (auto simp: is_key_def one_line_def list_all_iff policy_key_letters br less_eq_char_def)
  have "one_line (authority_line k (bool_token b))" if "is_key k" for k b
    using key [OF that] by (simp add: authority_line_def one_line_def bool_token_def br)
  moreover have "is_key k" if "(k, b) \<in> set (switch_settings p)" for k b
  proof -
    have "k \<in> set (map fst (switch_settings p))" using that by force
    then show ?thesis using policy_keys_ok(1) by (auto simp: switch_settings_keys policy_keys_def list_all_iff)
  qed
  ultimately have "list_all one_line (map (\<lambda>(k, b). authority_line k (bool_token b)) (switch_settings p))"
    by (auto simp: list_all_iff)
  moreover have "one_line (authority_line ''schema_version'' ''2'')" "one_line ''roundwright:''"
      "one_line ROUNDWRIGHT_AUTHORITY_START" "one_line ROUNDWRIGHT_AUTHORITY_END"
    by (simp_all add: one_line_def authority_line_def br ROUNDWRIGHT_AUTHORITY_START_def ROUNDWRIGHT_AUTHORITY_END_def)
  ultimately show ?thesis by (simp add: authority_block_def)
qed

lemma markers_are_no_values:
  "ROUNDWRIGHT_AUTHORITY_START \<noteq> authority_line k t" "ROUNDWRIGHT_AUTHORITY_END \<noteq> authority_line k t"
  "ROUNDWRIGHT_AUTHORITY_START \<noteq> ROUNDWRIGHT_AUTHORITY_END"
  "ROUNDWRIGHT_AUTHORITY_START \<noteq> ''roundwright:''" "ROUNDWRIGHT_AUTHORITY_END \<noteq> ''roundwright:''"
  by (simp_all add: ROUNDWRIGHT_AUTHORITY_START_def ROUNDWRIGHT_AUTHORITY_END_def authority_line_def)

lemma parse_marked_block_inside:
  assumes "list_all one_line (pre @ post)" "list_all one_line block" "block \<noteq> []" "hd block = root @ '':''" "b \<noteq> e"
    and "one_line b" "one_line e" "{b, e} \<inter> (set pre \<union> set post \<union> set block) = {}"
  shows "parse_marked_authority_block (Some (join_lines (pre @ b # block @ e # post))) b e root
    = parse_authority_values root [] (tl block)"
proof -
  let ?ls = "pre @ b # block @ e # post"
  have "splitlines (join_lines ?ls) = ?ls" using assms by (intro splitlines_join) auto
  moreover have "indices_of b ?ls = [length pre]" using assms by (intro indices_of_single) auto
  moreover have "indices_of e ?ls = [length pre + Suc (length block)]"
    using assms indices_of_single [of e "pre @ b # block" post] by auto
  moreover have "take (length block) (drop (Suc (length pre)) ?ls) = block" by simp
  ultimately show ?thesis using assms(3,4)
    by (cases block) (auto simp: parse_marked_authority_block_def Let_def)
qed

lemma raw_settings_keys:
  "map fst ((''schema_version'', JInt 2) # map (\<lambda>(k, b). (k, JBool b)) (switch_settings p)) = policy_keys"
  using switch_settings_keys [of p] by (simp add: policy_keys_def comp_def case_prod_beta)

text \<open>
  Every policy can be written as a marked authority block
  anywhere in a text whose other lines are not the markers, and is read back exactly: no switch is
  lost, negated or attributed to another operation, and the surrounding text has no influence.
\<close>

lemma authority_block_round_trip:
  assumes "rp_schema_version p = REPOSITORY_POLICY_SCHEMA_VERSION"
    and "list_all one_line (pre @ post)"
    and "{ROUNDWRIGHT_AUTHORITY_START, ROUNDWRIGHT_AUTHORITY_END} \<inter> set (pre @ post) = {}"
  shows "parse_roundwright_authority_block (Some (join_lines (pre @ authority_block p @ post))) = Inr p"
proof -
  let ?vs = "authority_line ''schema_version'' ''2'' # map (\<lambda>(k, b). authority_line k (bool_token b)) (switch_settings p)"
  have blk: "authority_block p @ post = ROUNDWRIGHT_AUTHORITY_START # (''roundwright:'' # ?vs) @ ROUNDWRIGHT_AUTHORITY_END # post"
    by (simp add: authority_block_def)
  have "parse_marked_authority_block (Some (join_lines (pre @ authority_block p @ post)))
      ROUNDWRIGHT_AUTHORITY_START ROUNDWRIGHT_AUTHORITY_END ''roundwright'' = parse_authority_values ''roundwright'' [] (tl (''roundwright:'' # ?vs))"
    unfolding blk
    using assms(2,3) authority_block_lines [of p] markers_are_no_values markers_are_no_values(1,2) [THEN not_sym]
    by (intro parse_marked_block_inside) (auto simp: authority_block_def)
  then show ?thesis
    unfolding parse_roundwright_authority_block_def list.sel parse_block_values
    using policy_of_raw_settings [OF assms(1)] arg_cong [OF raw_settings_keys [of p], of set]
    by (simp add: image_image)
qed

definition sample_repository_policy :: repository_mutation_policy where
  "sample_repository_policy = \<lparr>rp_schema_version = 2, enabled = True, allow_issue_comment = True,
     allow_create_remote_branch = True, allow_update_remote_branch = False, allow_delete_remote_branch = False,
     allow_create_draft_pr = True, allow_request_review = False, allow_mark_pr_ready = False, allow_merge_pr = False,
     allow_close_leaf_issue = False, allow_delete_local_branch = False, allow_remove_worktree = False\<rparr>"

lemma policy_of_raw_Inr:
  assumes "policy_of_raw raw = Inr p"
  shows "rp_schema_version p = REPOSITORY_POLICY_SCHEMA_VERSION
    \<and> map_of raw ''schema_version'' = Some (JInt REPOSITORY_POLICY_SCHEMA_VERSION)
    \<and> map_of raw ''enabled'' = Some (JBool (enabled p))
    \<and> (\<forall>q. map_of raw (REPOSITORY_OPERATION_SWITCH q) = Some (JBool (action_switch_is_enabled p q)))"
proof -
  have b: "as_bool x \<noteq> None \<Longrightarrow> x = Some (JBool (as_bool x = Some True))" for x
    by (cases x rule: as_bool.cases) auto
  have raw: "map_of raw name = Some (JBool (raw_switch raw name))" if "name \<in> set (''enabled'' # policy_action_keys)" for name
    using assms that b [of "map_of raw name"] by (auto simp: policy_of_raw_def raw_switch_def list_all_iff)
  have "action_switch_is_enabled p q = raw_switch raw (REPOSITORY_OPERATION_SWITCH q)" for q
    using assms
    by (cases q) (auto simp: policy_of_raw_def action_switch_is_enabled_def getattr_switch_def policy_switches_def)
  moreover have "enabled p = raw_switch raw ''enabled''" using assms by (auto simp: policy_of_raw_def)
  ultimately show ?thesis using assms raw switch_is_key by (auto simp: policy_of_raw_def)
qed

text \<open>
  A policy survives its canonical JSON form, and every
  accepted document is free of duplicate keys, has exactly the thirteen policy keys, the
  supported schema number, and a Boolean for every switch, which is the one the policy then
  reports for the corresponding operation.
\<close>

lemma repository_policy_json_round_trip:
  "(rp_schema_version p = REPOSITORY_POLICY_SCHEMA_VERSION \<longrightarrow>
      parse_repository_mutation_policy (Some (JObj (repository_policy_fields p))) = Inr p)
   \<and> (parse_repository_mutation_policy decoded = Inr e \<longrightarrow>
      (\<exists>raw. decoded = Some (JObj raw) \<and> distinct (map fst raw) \<and> set (map fst raw) = set policy_keys
         \<and> map_of raw ''schema_version'' = Some (JInt (rp_schema_version e))
         \<and> map_of raw ''enabled'' = Some (JBool (enabled e))
         \<and> (\<forall>q. map_of raw (REPOSITORY_OPERATION_SWITCH q) = Some (JBool (action_switch_is_enabled e q)))))"
proof (rule conjI; rule impI)
  let ?raw = "(''schema_version'', JInt 2) # map (\<lambda>(k, b). (k, JBool b)) (switch_settings p)"
  assume v: "rp_schema_version p = REPOSITORY_POLICY_SCHEMA_VERSION"
  then have f: "repository_policy_fields p = ?raw"
    by (simp add: repository_policy_fields_def switch_settings_def policy_switches_def REPOSITORY_POLICY_SCHEMA_VERSION_def)
  note keys = raw_settings_keys [of p]
  then have "objects_duplicate_free (JObj ?raw)"
    using policy_keys_ok(2) by (auto simp: reject_duplicate_keys_def list_all_iff simp del: list.map)
  with policy_of_raw_settings [OF v] keys show "parse_repository_mutation_policy (Some (JObj (repository_policy_fields p))) = Inr p"
    unfolding f by (simp add: parse_repository_mutation_policy_def del: objects_duplicate_free.simps list.map)
next
  assume a: "parse_repository_mutation_policy decoded = Inr e"
  then obtain v where dec: "decoded = Some v" and df: "objects_duplicate_free v"
    by (auto simp: parse_repository_mutation_policy_def split: option.split_asm if_split_asm)
  with a obtain raw where raw: "v = JObj raw" "set (map fst raw) = set policy_keys" "policy_of_raw raw = Inr e"
    by (cases v) (auto simp: parse_repository_mutation_policy_def split: if_split_asm sum.split_asm simp del: objects_duplicate_free.simps(2))
  have "distinct (map fst raw)" using df raw(1) by (auto simp: reject_duplicate_keys_def split: if_split_asm)
  with dec raw policy_of_raw_Inr [OF raw(3)] show "\<exists>raw. decoded = Some (JObj raw) \<and> distinct (map fst raw)
         \<and> set (map fst raw) = set policy_keys
         \<and> map_of raw ''schema_version'' = Some (JInt (rp_schema_version e))
         \<and> map_of raw ''enabled'' = Some (JBool (enabled e))
         \<and> (\<forall>q. map_of raw (REPOSITORY_OPERATION_SWITCH q) = Some (JBool (action_switch_is_enabled e q)))"
    by auto
qed

definition sample_source :: repository_policy_source where
  "sample_source = \<lparr>src_source_fingerprint = replicate 64 CHR ''a'', src_revision_fingerprint = replicate 64 CHR ''b''\<rparr>"

definition sample_transition :: repository_dispatcher_transition where
  "sample_transition = \<lparr>dt_evidence_fingerprint = replicate 64 CHR ''c'', dt_repository_fingerprint = replicate 64 CHR ''d'',
     dt_deployment_fingerprint = replicate 64 CHR ''e'', dt_candidate_sha = replicate 40 CHR ''f'',
     roundlet_mutation_capable = False, roundlet_reconciled = True, roundwright_mutation_capable = True\<rparr>"

definition sample_context :: repository_mutation_context where
  "sample_context = \<lparr>ctx_repository_fingerprint = replicate 64 CHR ''d'', ctx_deployment_fingerprint = replicate 64 CHR ''e'',
     ctx_task_fingerprint = replicate 64 CHR ''a'', ctx_candidate_sha = replicate 40 CHR ''f''\<rparr>"

definition sample_repository_receipt :: repository_activation_receipt where
  "sample_repository_receipt = \<lparr>ra_owner_fingerprint = replicate 64 CHR ''a'', ra_receipt_fingerprint = replicate 64 CHR ''b'',
     ra_source_fingerprint = replicate 64 CHR ''a'', ra_revision_fingerprint = replicate 64 CHR ''b'',
     ra_policy_digest = repository_policy_digest sample_repository_policy, ra_schema_version = 2,
     ra_repository_fingerprint = replicate 64 CHR ''d'', ra_deployment_fingerprint = replicate 64 CHR ''e'',
     ra_task_fingerprint = replicate 64 CHR ''a'', ra_candidate_sha = replicate 40 CHR ''f'',
     ra_dispatcher_transition_digest = transition_digest sample_transition,
     ra_activated_at = utc 1 0, ra_expires_at = utc 2 0\<rparr>"

definition sample_lifecycle :: repository_receipt_verification where
  "sample_lifecycle = \<lparr>rrv_verification_fingerprint = replicate 64 CHR ''c'', rrv_receipt_fingerprint = replicate 64 CHR ''b'',
     rrv_receipt_binding_digest = receipt_binding_digest sample_repository_receipt, rrv_status = RR_FRESH\<rparr>"

lemma hex_samples: "is_hex CHR ''a''" "is_hex CHR ''b''" "is_hex CHR ''c''" "is_hex CHR ''d''" "is_hex CHR ''e''" "is_hex CHR ''f''"
  by (simp_all add: is_hex_def)

lemma sample_mutation_granted:
  "granted (evaluate_repository_mutation_policy (Some \<lparr>snap_source = sample_source, snap_document = sample_repository_policy\<rparr>)
     (Some sample_repository_receipt) (Some sample_context) (Some ISSUE_COMMENT)
     (Some \<lparr>standing_policy = sample_repository_policy\<rparr>) (Some sample_transition) (Some sample_lifecycle) (Some (utc 1 5)))"
proof -
  have "receipt_is_valid sample_repository_receipt" "snapshot_is_valid \<lparr>snap_source = sample_source, snap_document = sample_repository_policy\<rparr>"
      "context_is_valid sample_context" "dispatcher_transition_is_valid sample_transition" "receipt_verification_is_valid sample_lifecycle"
      "standing_authority_is_valid \<lparr>standing_policy = sample_repository_policy\<rparr>"
    by (simp_all add: repository_validity sample_repository_receipt_def sample_source_def sample_context_def sample_transition_def
        sample_lifecycle_def sample_repository_policy_def REPOSITORY_POLICY_SCHEMA_VERSION_def hex_samples)
  moreover have "action_switch_is_enabled sample_repository_policy ISSUE_COMMENT"
    by (simp add: action_switch_is_enabled_def getattr_switch_def policy_switches_def sample_repository_policy_def)
  moreover have "enabled sample_repository_policy" by (simp add: sample_repository_policy_def)
  ultimately show ?thesis unfolding repository_authorized_evidence
    by simp (simp add: sample_repository_receipt_def sample_source_def sample_context_def sample_transition_def sample_lifecycle_def)
qed

end
