(* ===== verification/Canary_Policy.thy ===== *)
theory Canary_Policy
  imports Repository_Policy
begin

text \<open>
  \<open>canary_policy.py\<close>: the bounded Canary contract. A policy fixes target, branch, paths,
  operations and call budgets; receipts form a hash chain from a zero-count genesis; every
  request is authorized against the validated chain. Fields computed by a constructor
  (\<open>policy_digest\<close>, \<open>request_digest\<close>, \<open>receipt_digest\<close>) are fields of the records, so that values
  altered after construction are representable and the code's drift checks have work to do.
\<close>

section \<open>Lexical rules\<close>

definition is_alnum :: "char \<Rightarrow> bool" where
  "is_alnum c \<longleftrightarrow> is_upper c \<or> is_lower c \<or> is_digit c"

text \<open>\<open>_SLUG\<close>: neither part can contain the slash.\<close>

definition is_slug_part :: "nat \<Rightarrow> string \<Rightarrow> bool" where
  "is_slug_part n s \<longleftrightarrow> (case s of [] \<Rightarrow> False
     | c # cs \<Rightarrow> is_alnum c \<and> length cs \<le> n \<and> list_all (\<lambda>c. is_alnum c \<or> c \<in> set ''_.-'') cs)"

definition is_slug :: "string \<Rightarrow> bool" where
  "is_slug s \<longleftrightarrow> (case py_split CHR ''/'' s of [owner, name] \<Rightarrow> is_slug_part 38 owner \<and> is_slug_part 99 name | _ \<Rightarrow> False)"

definition is_branch_text :: "string \<Rightarrow> bool" where
  "is_branch_text s \<longleftrightarrow> (case s of [] \<Rightarrow> False
     | c # cs \<Rightarrow> is_alnum c \<and> length cs \<le> 127 \<and> list_all (\<lambda>c. is_alnum c \<or> c \<in> set ''._/-'') cs)"

definition safe_path :: "string \<Rightarrow> bool" where
  "safe_path s \<longleftrightarrow> s \<noteq> [] \<and> hd s \<noteq> CHR ''/'' \<and> hd s \<noteq> CHR 0x5C \<and> CHR 0x5C \<notin> set s \<and> CHR '':'' \<notin> set s
     \<and> list_all (\<lambda>part. part \<notin> {[], ''.'', ''..''}) (py_split CHR ''/'' s)"

definition safe_branch :: "string \<Rightarrow> bool" where
  "safe_branch s \<longleftrightarrow> is_branch_text s
     \<and> \<not> py_startswith s ''refs/'' \<and> \<not> py_startswith s ''/''
     \<and> \<not> py_endswith s ''/'' \<and> \<not> py_endswith s ''.''
     \<and> \<not> py_contains s ''..'' \<and> \<not> py_contains s ''//'' \<and> \<not> py_contains s [CHR ''@'', CHR 0x7B]
     \<and> list_all (\<lambda>part. part \<noteq> [] \<and> \<not> py_startswith part ''.'' \<and> \<not> py_endswith part ''.lock'')
          (py_split CHR ''/'' s)"

section \<open>Data\<close>

datatype canary_result = GENESIS | PASS | DENIED | ROLLED_BACK | OWNER_INPUT_REQUIRED

fun canary_result_value :: "canary_result \<Rightarrow> string" where
  "canary_result_value GENESIS = ''genesis''"
| "canary_result_value PASS = ''pass''"
| "canary_result_value DENIED = ''denied''"
| "canary_result_value ROLLED_BACK = ''rolled-back''"
| "canary_result_value OWNER_INPUT_REQUIRED = ''owner-input-required''"

datatype cleanup_outcome = ROLLBACK | PRESERVE_FOR_OWNER

fun github_operation_value :: "github_mutation_operation \<Rightarrow> string" where
  "github_operation_value GH_CREATE_BRANCH = ''create-branch''"
| "github_operation_value GH_UPDATE_BRANCH = ''update-branch''"
| "github_operation_value GH_CREATE_PULL_REQUEST = ''create-pull-request''"
| "github_operation_value GH_COMMENT = ''comment''"
| "github_operation_value GH_REQUEST_REVIEW = ''request-review''"
| "github_operation_value GH_MARK_READY = ''mark-ready''"
| "github_operation_value GH_MERGE_PULL_REQUEST = ''merge-pull-request''"
| "github_operation_value GH_CLOSE_ISSUE = ''close-issue''"
| "github_operation_value GH_DELETE_BRANCH = ''delete-branch''"

definition github_operation_of :: "string \<Rightarrow> github_mutation_operation option" where
  "github_operation_of s = List.find (\<lambda>g. github_operation_value g = s) all_github_operations"

type_synonym call_counts = "(github_mutation_operation \<times> int) list"

record canary_target =
  tg_repository :: string
  tg_baseline_sha :: string
  tg_leaf_number :: int

record canary_budget =
  per_operation :: call_counts
  total_calls :: int

record canary_rollback_plan =
  rollback_trigger :: string
  kill_switch :: string
  semantic_readback :: string

record bounded_canary_policy =
  cp_base_sha :: string
  cp_candidate_sha :: string
  cp_contract_digest :: string
  cp_phase :: int
  cp_leaf_number :: int
  cp_target :: canary_target
  cp_target_policy_identity :: string
  cp_branch :: string
  allowed_paths :: "string list"
  requested_operations :: "github_mutation_operation list"
  cp_budget :: canary_budget
  cp_rollback :: canary_rollback_plan
  cp_schema :: string
  cp_policy_digest :: string

record canary_authority_context =
  cc_roundlet_enabled :: bool
  read_only_external_validation_allowed :: bool
  disposable_target_mutation_allowed :: bool
  cc_phase :: int
  cc_leaf_number :: int
  cc_route :: string
  cc_base_sha :: string
  cc_candidate_sha :: string
  cc_contract_digest :: string
  cc_target :: canary_target
  cc_target_policy :: repository_policy_snapshot
  cc_target_policy_identity :: string
  cc_policy_digest :: string
  cc_branch :: string
  cc_prior_receipt_digest :: "string option"
  kill_switch_active :: bool

record canary_authorization =
  au_policy_digest :: string
  au_contract_digest :: string
  au_request_digest :: string
  au_receipt_chain_head_digest :: string
  consumption_key :: string
  claim_digest :: string

record canary_decision =
  cd_authorized :: bool
  cd_reason :: string
  cd_policy_digest :: "string option"
  cd_next_action :: string
  cd_authorization :: "canary_authorization option"

record canary_mutation_request =
  rq_operation :: github_mutation_operation
  rq_branch :: string
  rq_paths :: "string list"
  rq_request_digest :: string

record bounded_canary_receipt =
  cr_policy :: bounded_canary_policy
  cr_result :: canary_result
  operation_counts :: call_counts
  cr_semantic_readback_digest :: string
  predecessor_receipt_digest :: "string option"
  receipt_digest :: string

definition CANARY_POLICY_SCHEMA :: string where
  "CANARY_POLICY_SCHEMA = ''roundwright-bounded-canary-policy/v2''"
definition CANARY_RECEIPT_SCHEMA :: string where
  "CANARY_RECEIPT_SCHEMA = ''roundwright-bounded-canary-receipt/v1''"
definition PHASE_4 :: int where "PHASE_4 = 4"
definition FORWARD_TEST_ROUTE :: string where "FORWARD_TEST_ROUTE = ''harness+forward-test''"

section \<open>Construction\<close>

definition canary_require_sha :: "string \<Rightarrow> string \<Rightarrow> bool \<times> py_error" where
  "canary_require_sha value name = (is_sha value, CanaryPolicyError (name @ '' must be an exact commit SHA''))"

definition canary_require_digest :: "string \<Rightarrow> string \<Rightarrow> bool \<times> py_error" where
  "canary_require_digest value name = (is_digest value, CanaryPolicyError (name @ '' must be a SHA-256 digest''))"

definition canary_target_guards :: "canary_target \<Rightarrow> (bool \<times> py_error) list" where
  "canary_target_guards t =
     [(is_slug (tg_repository t), CanaryPolicyError ''Canary target repository is invalid''),
      canary_require_sha (tg_baseline_sha t) ''Canary target baseline'',
      (0 < tg_leaf_number t, CanaryPolicyError ''Canary target leaf is invalid'')]"

definition canary_budget_guards :: "canary_budget \<Rightarrow> (bool \<times> py_error) list" where
  "canary_budget_guards b =
     [(1 \<le> total_calls b, CanaryPolicyError ''Canary call budget is invalid''),
      (\<not> has_duplicates (map fst (per_operation b)),
         CanaryPolicyError ''Canary call budget has duplicate or invalid operations''),
      (list_all (\<lambda>(operation, count). 0 < count) (per_operation b), CanaryPolicyError ''Canary call budget is invalid''),
      (total_calls b \<le> sum_list (map snd (per_operation b)),
         CanaryPolicyError ''Canary total budget exceeds per-operation budgets'')]"

definition limit_for :: "canary_budget \<Rightarrow> github_mutation_operation \<Rightarrow> int" where
  "limit_for b operation = (case map_of (py_dict (per_operation b)) operation of Some n \<Rightarrow> n | None \<Rightarrow> 0)"

definition rollback_guards :: "canary_rollback_plan \<Rightarrow> (bool \<times> py_error) list" where
  "rollback_guards r =
     [(rollback_trigger r \<noteq> [] \<and> length (rollback_trigger r) \<le> 160, CanaryPolicyError ''Canary rollback trigger is invalid''),
      (kill_switch r \<noteq> [] \<and> length (kill_switch r) \<le> 160, CanaryPolicyError ''Canary kill switch is invalid''),
      (semantic_readback r \<noteq> [] \<and> length (semantic_readback r) \<le> 160, CanaryPolicyError ''Canary semantic read-back is invalid'')]"

definition cleanup_disposition :: "bool \<Rightarrow> bool \<Rightarrow> cleanup_outcome" where
  "cleanup_disposition resource_is_reversible readback_is_unambiguous =
     (if resource_is_reversible \<and> readback_is_unambiguous then ROLLBACK else PRESERVE_FOR_OWNER)"

definition target_fields :: "canary_target \<Rightarrow> (string \<times> json) list" where
  "target_fields t = [(''repository'', JStr (tg_repository t)), (''baseline_sha'', JStr (tg_baseline_sha t)),
     (''leaf_number'', JInt (tg_leaf_number t))]"

definition count_fields :: "call_counts \<Rightarrow> (string \<times> json) list" where
  "count_fields counts = map (\<lambda>(operation, count). (github_operation_value operation, JInt count)) counts"

text \<open>\<open>public_payload(include_digest=False)\<close>.\<close>

definition canary_policy_payload :: "bounded_canary_policy \<Rightarrow> (string \<times> json) list" where
  "canary_policy_payload p =
     [(''schema'', JStr (cp_schema p)), (''base_sha'', JStr (cp_base_sha p)), (''candidate_sha'', JStr (cp_candidate_sha p)),
      (''contract_digest'', JStr (cp_contract_digest p)),
      (''phase'', JInt (cp_phase p)), (''leaf_number'', JInt (cp_leaf_number p)),
      (''target'', JObj (target_fields (cp_target p))),
      (''target_policy_identity'', JStr (cp_target_policy_identity p)),
      (''branch'', JStr (cp_branch p)), (''allowed_paths'', JList (map JStr (allowed_paths p))),
      (''requested_operations'', JList (map (JStr \<circ> github_operation_value) (requested_operations p))),
      (''budget'', JObj [(''per_operation'', JObj (count_fields (per_operation (cp_budget p)))),
                       (''total_calls'', JInt (total_calls (cp_budget p)))]),
      (''rollback'', JObj [(''rollback_trigger'', JStr (rollback_trigger (cp_rollback p))),
                         (''kill_switch'', JStr (kill_switch (cp_rollback p))),
                         (''semantic_readback'', JStr (semantic_readback (cp_rollback p)))])]"

definition canary_policy_guards :: "bounded_canary_policy \<Rightarrow> (bool \<times> py_error) list" where
  "canary_policy_guards p =
     [canary_require_sha (cp_base_sha p) ''Canary base'',
      canary_require_sha (cp_candidate_sha p) ''Canary candidate'',
      canary_require_digest (cp_contract_digest p) ''Canary contract'',
      (cp_base_sha p \<noteq> cp_candidate_sha p, CanaryPolicyError ''Canary candidate must differ from its base''),
      (cp_phase p = PHASE_4 \<and> 0 < cp_leaf_number p, CanaryPolicyError ''Canary phase or leaf is invalid''),
      canary_require_digest (cp_target_policy_identity p) ''Canary target policy'',
      (safe_branch (cp_branch p), CanaryPolicyError ''Canary branch is invalid''),
      (allowed_paths p \<noteq> [] \<and> \<not> has_duplicates (allowed_paths p) \<and> list_all safe_path (allowed_paths p),
         CanaryPolicyError ''Canary path allowlist is invalid''),
      (requested_operations p \<noteq> [] \<and> \<not> has_duplicates (requested_operations p),
         CanaryPolicyError ''Canary operation vocabulary is invalid''),
      (set (map fst (per_operation (cp_budget p))) = set (requested_operations p),
         CanaryPolicyError ''Canary budget does not bind exactly the requested operations''),
      (cp_schema p = CANARY_POLICY_SCHEMA, CanaryPolicyError ''Canary policy schema is unsupported'')]"

text \<open>\<open>BoundedCanaryPolicy.__post_init__\<close>; \<open>replace(self)\<close> runs it again and so recomputes the digest.\<close>

definition make_canary_policy :: "bounded_canary_policy \<Rightarrow> bounded_canary_policy result" where
  "make_canary_policy p = construct (canary_policy_guards p)
     (p\<lparr>cp_policy_digest := digest_value (JObj (canary_policy_payload p))\<rparr>)"

definition canary_policy_validate :: "bounded_canary_policy \<Rightarrow> unit result" where
  "canary_policy_validate p = bind_result (make_canary_policy p) (\<lambda>rebuilt.
     if cp_policy_digest rebuilt \<noteq> cp_policy_digest p
     then Inl (CanaryPolicyError ''Canary policy has drifted'') else Inr ())"

definition canary_target_policy_identity :: "repository_policy_snapshot \<Rightarrow> canary_target \<Rightarrow> string" where
  "canary_target_policy_identity s t = digest_value (JObj
     [(''source_fingerprint'', JStr (src_source_fingerprint (snap_source s))),
      (''revision_fingerprint'', JStr (src_revision_fingerprint (snap_source s))),
      (''policy_digest'', JStr (repository_policy_digest (snap_document s))),
      (''target'', JObj (target_fields t))])"

text \<open>
  \<open>_target_policy_for\<close>; the strict document that it rebuilds from the selected one has the same
  fields, so its own digest comparison cannot fail once the constructor accepts it.
\<close>

definition target_policy_for ::
  "canary_authority_context \<Rightarrow> bounded_canary_policy option \<Rightarrow> repository_mutation_policy result" where
  "target_policy_for context policy =
    (if canary_target_policy_identity (cc_target_policy context) (cc_target context) \<noteq> cc_target_policy_identity context
        \<or> (case policy of None \<Rightarrow> False
            | Some p \<Rightarrow> cc_target context \<noteq> cp_target p \<or> cc_target_policy_identity context \<noteq> cp_target_policy_identity p)
        \<or> \<not> policy_is_valid (snap_document (cc_target_policy context))
     then Inl (CanaryPolicyError ''Canary target policy evidence is invalid or stale'')
     else Inr (snap_document (cc_target_policy context)))"

definition context_construct_guards :: "canary_authority_context \<Rightarrow> (bool \<times> py_error) list" where
  "context_construct_guards c =
     [(cc_route c = FORWARD_TEST_ROUTE, CanaryPolicyError ''Canary selection route is invalid''),
      canary_require_sha (cc_base_sha c) ''selected base'',
      canary_require_sha (cc_candidate_sha c) ''selected candidate'',
      canary_require_digest (cc_contract_digest c) ''selected contract'',
      (target_policy_for c None = Inr (snap_document (cc_target_policy c)),
         CanaryPolicyError ''Canary target policy evidence is invalid or stale''),
      canary_require_digest (cc_target_policy_identity c) ''selected target policy'',
      canary_require_digest (cc_policy_digest c) ''selected policy'',
      (safe_branch (cc_branch c), CanaryPolicyError ''selected Canary branch is invalid''),
      (pred_option is_digest (cc_prior_receipt_digest c), CanaryPolicyError ''selected prior receipt must be a SHA-256 digest'')]"

definition make_authorization :: "string \<Rightarrow> string \<Rightarrow> string \<Rightarrow> string \<Rightarrow> canary_authorization result" where
  "make_authorization policy contract request head =
     (let key = digest_value (JObj [(''policy_digest'', JStr policy), (''contract_digest'', JStr contract),
                (''receipt_chain_head_digest'', JStr head)]) in
      construct
        [canary_require_digest policy ''Canary policy'', canary_require_digest contract ''Canary contract'',
         canary_require_digest request ''Canary request'', canary_require_digest head ''Canary receipt-chain head'']
        \<lparr>au_policy_digest = policy, au_contract_digest = contract, au_request_digest = request,
         au_receipt_chain_head_digest = head, consumption_key = key,
         claim_digest = digest_value (JObj [(''consumption_key'', JStr key), (''request_digest'', JStr request)])\<rparr>)"

definition make_request :: "github_mutation_operation \<Rightarrow> string \<Rightarrow> string list \<Rightarrow> canary_mutation_request result" where
  "make_request operation branch paths = construct
     [(safe_branch branch, CanaryPolicyError ''Canary request operation or branch is invalid''),
      (paths \<noteq> [] \<and> list_all safe_path paths, CanaryPolicyError ''Canary request paths are invalid'')]
     \<lparr>rq_operation = operation, rq_branch = branch, rq_paths = paths,
      rq_request_digest = digest_value (JObj [(''operation'', JStr (github_operation_value operation)),
        (''branch'', JStr branch), (''paths'', JList (map JStr paths))])\<rparr>"

section \<open>Receipts\<close>

definition genesis_identity :: "bounded_canary_policy \<Rightarrow> string" where
  "genesis_identity p = digest_value (JObj
     [(''schema'', JStr CANARY_RECEIPT_SCHEMA), (''policy_digest'', JStr (cp_policy_digest p)),
      (''contract_digest'', JStr (cp_contract_digest p)), (''kind'', JStr (canary_result_value GENESIS))])"

definition count_sum :: "call_counts \<Rightarrow> int" where
  "count_sum counts = sum_list (map snd counts)"

definition receipt_payload :: "bounded_canary_receipt \<Rightarrow> (string \<times> json) list" where
  "receipt_payload r = (let p = cr_policy r in
     [(''schema'', JStr CANARY_RECEIPT_SCHEMA), (''policy_digest'', JStr (cp_policy_digest p)),
      (''contract_digest'', JStr (cp_contract_digest p)), (''base_sha'', JStr (cp_base_sha p)),
      (''candidate_sha'', JStr (cp_candidate_sha p)),
      (''target_repository'', JStr (tg_repository (cp_target p))),
      (''target_baseline_sha'', JStr (tg_baseline_sha (cp_target p))),
      (''target_leaf_number'', JInt (tg_leaf_number (cp_target p))), (''leaf_number'', JInt (cp_leaf_number p)),
      (''requested_operations'', JList (map (JStr \<circ> github_operation_value) (requested_operations p))),
      (''operation_counts'', JObj (count_fields (operation_counts r))),
      (''total_calls'', JInt (count_sum (operation_counts r))),
      (''result'', JStr (canary_result_value (cr_result r))),
      (''semantic_readback_digest'', JStr (cr_semantic_readback_digest r)),
      (''predecessor_receipt_digest'', (case predecessor_receipt_digest r of None \<Rightarrow> JNull | Some d \<Rightarrow> JStr d))])"

text \<open>\<open>BoundedCanaryReceipt.__post_init__\<close>: the policy is validated first.\<close>

definition receipt_guards :: "bounded_canary_receipt \<Rightarrow> (bool \<times> py_error) list" where
  "receipt_guards r = (let p = cr_policy r; counts = operation_counts r in
     [(\<not> has_duplicates (map fst counts), CanaryPolicyError ''Canary receipt operation counts are invalid''),
      (list_all (\<lambda>(operation, count). 0 \<le> count) counts, CanaryPolicyError ''Canary receipt operation counts are invalid''),
      (set (map fst counts) = set (requested_operations p)
         \<and> count_sum counts \<le> total_calls (cp_budget p)
         \<and> list_all (\<lambda>(operation, count). count \<le> limit_for (cp_budget p) operation) counts,
         CanaryPolicyError ''Canary receipt exceeds its budget''),
      canary_require_digest (cr_semantic_readback_digest r) ''semantic read-back'',
      (pred_option is_digest (predecessor_receipt_digest r), CanaryPolicyError ''receipt predecessor must be a SHA-256 digest''),
      (cr_result r = GENESIS \<longrightarrow> predecessor_receipt_digest r = None \<and> list_all (\<lambda>(operation, count). count = 0) counts
          \<and> cr_semantic_readback_digest r = genesis_identity p,
         CanaryPolicyError ''Canary genesis receipt is invalid''),
      (cr_result r \<noteq> GENESIS \<longrightarrow> predecessor_receipt_digest r \<noteq> None,
         CanaryPolicyError ''Canary non-genesis receipt has no predecessor'')])"

definition make_receipt :: "bounded_canary_receipt \<Rightarrow> bounded_canary_receipt result" where
  "make_receipt r = bind_result (canary_policy_validate (cr_policy r)) (\<lambda>_.
     construct (receipt_guards r) (r\<lparr>receipt_digest := digest_value (JObj (receipt_payload r))\<rparr>))"

definition validate_for :: "bounded_canary_receipt \<Rightarrow> bounded_canary_policy \<Rightarrow> unit result" where
  "validate_for r policy = bind_result (make_receipt r) (\<lambda>rebuilt.
     if cp_policy_digest policy \<noteq> cp_policy_digest (cr_policy r) \<or> receipt_digest rebuilt \<noteq> receipt_digest r
     then Inl (CanaryPolicyError ''Canary receipt has drifted'') else Inr ())"

definition genesis_canary_receipt :: "bounded_canary_policy \<Rightarrow> bounded_canary_receipt result" where
  "genesis_canary_receipt policy = make_receipt
     \<lparr>cr_policy = policy, cr_result = GENESIS, operation_counts = map (\<lambda>g. (g, 0)) (requested_operations policy),
      cr_semantic_readback_digest = genesis_identity policy, predecessor_receipt_digest = None, receipt_digest = []\<rparr>"

text \<open>\<open>counts[operation]\<close> raises \<open>KeyError\<close> when the operation is absent.\<close>

definition count_of :: "call_counts \<Rightarrow> github_mutation_operation \<Rightarrow> int result" where
  "count_of counts operation = (case map_of (py_dict counts) operation of
     Some n \<Rightarrow> Inr n | None \<Rightarrow> Inl (PyKeyError (github_operation_value operation)))"

definition advance_canary_receipt ::
  "bounded_canary_receipt \<Rightarrow> github_mutation_operation \<Rightarrow> string \<Rightarrow> bounded_canary_receipt result" where
  "advance_canary_receipt predecessor operation readback =
     bind_result (validate_for predecessor (cr_policy predecessor)) (\<lambda>_.
     if cr_result predecessor \<notin> {GENESIS, PASS} \<or> operation \<notin> set (requested_operations (cr_policy predecessor))
       then Inl (CanaryPolicyError ''Canary receipt advancement is not permitted'') else
     (let counts = py_dict (operation_counts predecessor) in
      bind_result (count_of (operation_counts predecessor) operation) (\<lambda>n.
      if limit_for (cp_budget (cr_policy predecessor)) operation \<le> n
         \<or> total_calls (cp_budget (cr_policy predecessor)) \<le> count_sum counts
        then Inl (CanaryPolicyError ''Canary receipt advancement exceeds budget'') else
      make_receipt
        \<lparr>cr_policy = cr_policy predecessor, cr_result = PASS,
         operation_counts = AList.update operation (n + 1) counts,
         cr_semantic_readback_digest = readback,
         predecessor_receipt_digest = Some (receipt_digest predecessor), receipt_digest = []\<rparr>)))"

definition chain_link_ok ::
  "bounded_canary_policy \<Rightarrow> bounded_canary_receipt \<Rightarrow> bounded_canary_receipt \<Rightarrow> bool result" where
  "chain_link_ok policy previous r =
     bind_result (traverse (\<lambda>operation.
         bind_result (count_of (operation_counts r) operation) (\<lambda>n.
         bind_result (count_of (operation_counts previous) operation) (\<lambda>m. Inr (n - m))))
       (requested_operations policy))
     (\<lambda>differences. Inr (cr_result r = PASS
        \<and> predecessor_receipt_digest r = Some (receipt_digest previous)
        \<and> list_all (\<lambda>d. 0 \<le> d) differences
        \<and> sum_list differences = 1
        \<and> count_list differences 1 = 1))"

fun validate_chain_from ::
  "bounded_canary_policy \<Rightarrow> bounded_canary_receipt option \<Rightarrow> bounded_canary_receipt list
     \<Rightarrow> bounded_canary_receipt option result" where
  "validate_chain_from policy previous [] = Inr previous"
| "validate_chain_from policy previous (r # rs) =
     bind_result (validate_for r policy) (\<lambda>_.
     (case previous of
        None \<Rightarrow>
          if cr_result r \<noteq> GENESIS \<or> predecessor_receipt_digest r \<noteq> None
             \<or> \<not> list_all (\<lambda>(operation, count). count = 0) (operation_counts r)
          then Inl (CanaryPolicyError ''Canary receipt chain has no genesis'')
          else validate_chain_from policy (Some r) rs
      | Some q \<Rightarrow>
          bind_result (chain_link_ok policy q r) (\<lambda>good.
          if \<not> good then Inl (CanaryPolicyError ''Canary receipt chain is not monotonic'')
          else validate_chain_from policy (Some r) rs)))"

definition validate_canary_receipt_chain ::
  "bounded_canary_policy \<Rightarrow> bounded_canary_receipt list \<Rightarrow> bounded_canary_receipt result" where
  "validate_canary_receipt_chain policy chain =
     (if chain = [] then Inl (CanaryPolicyError ''Canary receipt chain is unavailable'') else
      bind_result (validate_chain_from policy None chain)
        (\<lambda>head. case head of Some r \<Rightarrow> Inr r | None \<Rightarrow> Inl (CanaryPolicyError ''Canary receipt chain is unavailable'')))"

section \<open>Decisions\<close>

definition canary_denied :: "string \<Rightarrow> string option \<Rightarrow> canary_decision" where
  "canary_denied why digest = \<lparr>cd_authorized = False, cd_reason = why, cd_policy_digest = digest,
     cd_next_action = ''preserve-for-owner'', cd_authorization = None\<rparr>"

definition evaluate_bounded_canary_policy ::
  "bounded_canary_policy option \<Rightarrow> canary_authority_context option \<Rightarrow> canary_decision" where
  "evaluate_bounded_canary_policy policy context =
    (case (policy, context) of
       (Some p, Some c) \<Rightarrow>
         (case first_failure
            [(canary_policy_validate p = Inr (), ''Canary policy has drifted''),
             (cc_roundlet_enabled c \<and> read_only_external_validation_allowed c \<and> disposable_target_mutation_allowed c,
                ''standing Canary authority is disabled''),
             (\<not> kill_switch_active c, ''Canary kill switch is active''),
             ((cc_phase c, cc_leaf_number c, cc_base_sha c, cc_candidate_sha c, cc_contract_digest c, cc_target c,
               cc_target_policy_identity c, cc_policy_digest c, cc_branch c)
              = (cp_phase p, cp_leaf_number p, cp_base_sha p, cp_candidate_sha p, cp_contract_digest p, cp_target p,
                 cp_target_policy_identity p, cp_policy_digest p, cp_branch p),
                ''Canary identity or policy binding is stale''),
             (target_policy_for c (Some p) = Inr (snap_document (cc_target_policy c)),
                ''Canary target policy evidence is unavailable or stale'')] of
            Some why \<Rightarrow> canary_denied why (Some (cp_policy_digest p))
          | None \<Rightarrow> \<lparr>cd_authorized = True, cd_reason = ''exact bounded Canary policy is authorized'',
              cd_policy_digest = Some (cp_policy_digest p), cd_next_action = ''execute-through-mutation-broker'',
              cd_authorization = None\<rparr>)
     | _ \<Rightarrow> canary_denied ''Canary policy or authority context is unavailable'' None)"

text \<open>
  \<open>authorize_canary_request\<close>. The vocabulary check on the module's own tables succeeds always
  (\<open>repository_vocabulary_one_to_one\<close>) and both lookups are total, so of the guarded block only
  the target policy can fail.
\<close>

definition authorize_canary_request ::
  "bounded_canary_policy option \<Rightarrow> canary_authority_context option \<Rightarrow> canary_mutation_request option
     \<Rightarrow> bounded_canary_receipt list option \<Rightarrow> canary_decision result" where
  "authorize_canary_request policy context request receipt_chain =
    (let decision = evaluate_bounded_canary_policy policy context in
     case (policy, context, request) of
       (Some p, Some c, Some q) \<Rightarrow>
         if \<not> cd_authorized decision then Inr (canary_denied (cd_reason decision) (cd_policy_digest decision)) else
         let deny = (\<lambda>why. Inr (canary_denied why (Some (cp_policy_digest p)))) in
         if rq_operation q \<notin> set (requested_operations p)
           then deny ''Canary operation is outside the selected vocabulary'' else
         if rq_branch q \<noteq> cp_branch p then deny ''Canary branch is outside the selected allowlist'' else
         if \<not> set (rq_paths q) \<subseteq> set (allowed_paths p) then deny ''Canary path is outside the selected allowlist'' else
         (case (cc_prior_receipt_digest c, receipt_chain) of
            (Some prior, Some chain) \<Rightarrow>
              (case validate_canary_receipt_chain p chain of
                 Inl e \<Rightarrow> (case e of CanaryPolicyError _ \<Rightarrow> deny ''Canary receipt-chain state is invalid or stale'' | _ \<Rightarrow> Inl e)
               | Inr head \<Rightarrow>
                 if receipt_digest head \<noteq> prior
                   then deny ''Canary receipt-chain head conflicts with selection state'' else
                 bind_result (count_of (operation_counts head) (rq_operation q)) (\<lambda>prior_operation_calls.
                 (case target_policy_for c None of
                    Inl _ \<Rightarrow> deny ''Canary target operation mapping is unavailable''
                  | Inr target_policy \<Rightarrow>
                    if \<not> enabled target_policy
                       \<or> \<not> getattr_switch target_policy
                            (REPOSITORY_OPERATION_SWITCH (GITHUB_REPOSITORY_OPERATION (rq_operation q)))
                      then deny ''Canary target policy denies the requested operation'' else
                    if limit_for (cp_budget p) (rq_operation q) \<le> prior_operation_calls
                       \<or> total_calls (cp_budget p) \<le> count_sum (py_dict (operation_counts head))
                      then deny ''Canary call budget is exhausted'' else
                    bind_result
                      (make_authorization (cp_policy_digest p) (cp_contract_digest p) (rq_request_digest q) (receipt_digest head))
                      (\<lambda>a. Inr \<lparr>cd_authorized = True, cd_reason = cd_reason decision,
                         cd_policy_digest = Some (cp_policy_digest p), cd_next_action = cd_next_action decision,
                         cd_authorization = Some a\<rparr>))))
          | _ \<Rightarrow> deny ''Canary receipt-chain state is unavailable'')
     | _ \<Rightarrow> Inr (canary_denied (if \<not> cd_authorized decision then cd_reason decision else ''Canary request is unavailable'')
              (cd_policy_digest decision)))"

section \<open>Parsing\<close>

text \<open>
  \<open>parse_bounded_canary_policy\<close> on the decoded value. Every failure, of the shape tests, of the
  enumeration lookups and of the nested constructors, is the same error, so the steps compose
  in the option monad.
\<close>

definition parse_canary_target :: "(string \<times> json) list \<Rightarrow> canary_target option" where
  "parse_canary_target kvs =
     Option.bind (has_keys [''repository'', ''baseline_sha'', ''leaf_number''] kvs) (\<lambda>kvs.
     Option.bind (as_str (map_of kvs ''repository'')) (\<lambda>repository.
     Option.bind (as_str (map_of kvs ''baseline_sha'')) (\<lambda>baseline.
     Option.bind (as_int (map_of kvs ''leaf_number'')) (\<lambda>leaf.
     let t = \<lparr>tg_repository = repository, tg_baseline_sha = baseline, tg_leaf_number = leaf\<rparr>
     in guarded (canary_target_guards t) t))))"

definition parse_canary_budget :: "(string \<times> json) list \<Rightarrow> canary_budget option" where
  "parse_canary_budget kvs =
     Option.bind (has_keys [''per_operation'', ''total_calls''] kvs) (\<lambda>kvs.
     Option.bind (as_obj (map_of kvs ''per_operation'')) (\<lambda>per.
     Option.bind (collect (\<lambda>(name, count). Option.bind (github_operation_of name) (\<lambda>g.
        Option.bind (as_int (Some count)) (\<lambda>n. Some (g, n)))) per) (\<lambda>counts.
     Option.bind (as_int (map_of kvs ''total_calls'')) (\<lambda>total.
     let b = \<lparr>per_operation = counts, total_calls = total\<rparr>
     in guarded (canary_budget_guards b) b))))"

definition parse_canary_rollback :: "(string \<times> json) list \<Rightarrow> canary_rollback_plan option" where
  "parse_canary_rollback kvs =
     Option.bind (has_keys [''rollback_trigger'', ''kill_switch'', ''semantic_readback''] kvs) (\<lambda>kvs.
     Option.bind (as_str (map_of kvs ''rollback_trigger'')) (\<lambda>trigger.
     Option.bind (as_str (map_of kvs ''kill_switch'')) (\<lambda>kill.
     Option.bind (as_str (map_of kvs ''semantic_readback'')) (\<lambda>readback.
     let r = \<lparr>rollback_trigger = trigger, kill_switch = kill, semantic_readback = readback\<rparr>
     in guarded (rollback_guards r) r))))"

definition policy_document_keys :: "string list" where
  "policy_document_keys = [''schema'', ''base_sha'', ''candidate_sha'', ''contract_digest'', ''phase'', ''leaf_number'',
     ''target'', ''target_policy_identity'', ''branch'', ''allowed_paths'', ''requested_operations'', ''budget'', ''rollback'']"

definition parse_canary_fields :: "(string \<times> json) list \<Rightarrow> bounded_canary_policy option" where
  "parse_canary_fields raw =
     Option.bind (has_keys policy_document_keys raw) (\<lambda>raw.
     Option.bind (as_str (map_of raw ''schema'')) (\<lambda>schema.
     Option.bind (as_str (map_of raw ''base_sha'')) (\<lambda>base.
     Option.bind (as_str (map_of raw ''candidate_sha'')) (\<lambda>candidate.
     Option.bind (as_str (map_of raw ''contract_digest'')) (\<lambda>contract.
     Option.bind (as_int (map_of raw ''phase'')) (\<lambda>phase.
     Option.bind (as_int (map_of raw ''leaf_number'')) (\<lambda>leaf.
     Option.bind (Option.bind (as_obj (map_of raw ''target'')) parse_canary_target) (\<lambda>target.
     Option.bind (as_str (map_of raw ''target_policy_identity'')) (\<lambda>identity.
     Option.bind (as_str (map_of raw ''branch'')) (\<lambda>branch.
     Option.bind (Option.bind (as_list (map_of raw ''allowed_paths'')) (collect (\<lambda>v. as_str (Some v)))) (\<lambda>paths.
     Option.bind (Option.bind (as_list (map_of raw ''requested_operations''))
        (collect (\<lambda>v. Option.bind (as_str (Some v)) github_operation_of))) (\<lambda>operations.
     Option.bind (Option.bind (as_obj (map_of raw ''budget'')) parse_canary_budget) (\<lambda>budget.
     Option.bind (Option.bind (as_obj (map_of raw ''rollback'')) parse_canary_rollback) (\<lambda>rollback.
     let p = \<lparr>cp_base_sha = base, cp_candidate_sha = candidate, cp_contract_digest = contract, cp_phase = phase,
        cp_leaf_number = leaf, cp_target = target, cp_target_policy_identity = identity, cp_branch = branch,
        allowed_paths = paths, requested_operations = operations, cp_budget = budget, cp_rollback = rollback,
        cp_schema = schema, cp_policy_digest = []\<rparr>
     in guarded (canary_policy_guards p) (p\<lparr>cp_policy_digest := digest_value (JObj (canary_policy_payload p))\<rparr>)))))))))))))))"

definition parse_bounded_canary_policy :: "json option \<Rightarrow> bounded_canary_policy result" where
  "parse_bounded_canary_policy decoded =
    (case Option.bind decoded (\<lambda>v. if objects_duplicate_free v then Option.bind (as_obj (Some v)) parse_canary_fields else None) of
       Some p \<Rightarrow> Inr p
     | None \<Rightarrow> Inl (CanaryPolicyError ''bounded Canary policy document is malformed''))"

section \<open>Well-formed values\<close>

text \<open>What the constructors establish, including those of the nested values.\<close>

definition canary_policy_ok :: "bounded_canary_policy \<Rightarrow> bool" where
  "canary_policy_ok p \<longleftrightarrow> list_all fst (canary_policy_guards p) \<and> list_all fst (canary_target_guards (cp_target p))
     \<and> list_all fst (canary_budget_guards (cp_budget p)) \<and> list_all fst (rollback_guards (cp_rollback p))
     \<and> cp_policy_digest p = digest_value (JObj (canary_policy_payload p))"

lemma canary_policy_validate_iff:
  "canary_policy_validate p = Inr () \<longleftrightarrow>
     list_all fst (canary_policy_guards p) \<and> cp_policy_digest p = digest_value (JObj (canary_policy_payload p))"
  by (auto simp: canary_policy_validate_def make_canary_policy_def bind_result_Inr_iff split: if_split_asm)

lemma canary_policy_ok_validates: "canary_policy_ok p \<Longrightarrow> canary_policy_validate p = Inr ()"
  by (simp add: canary_policy_ok_def canary_policy_validate_iff)

lemma make_receipt_Inr_iff:
  "make_receipt r = Inr r' \<longleftrightarrow> canary_policy_validate (cr_policy r) = Inr () \<and> list_all fst (receipt_guards r)
     \<and> r' = r\<lparr>receipt_digest := digest_value (JObj (receipt_payload r))\<rparr>"
  by (auto simp: make_receipt_def bind_result_Inr_iff)

lemma receipt_payload_digest_free [simp]: "receipt_payload (r\<lparr>receipt_digest := d\<rparr>) = receipt_payload r"
  by (simp add: receipt_payload_def)

lemma receipt_guards_digest_free [simp]: "receipt_guards (r\<lparr>receipt_digest := d\<rparr>) = receipt_guards r"
  by (simp add: receipt_guards_def)

definition receipt_ok :: "bounded_canary_receipt \<Rightarrow> bool" where
  "receipt_ok r \<longleftrightarrow> canary_policy_validate (cr_policy r) = Inr () \<and> list_all fst (receipt_guards r)
     \<and> receipt_digest r = digest_value (JObj (receipt_payload r))"

lemma validate_for_iff:
  "validate_for r p = Inr () \<longleftrightarrow> receipt_ok r \<and> cp_policy_digest p = cp_policy_digest (cr_policy r)"
  by (auto simp: validate_for_def bind_result_Inr_iff make_receipt_Inr_iff receipt_ok_def split: if_split_asm)

lemma make_receipt_ok: "make_receipt r = Inr r' \<Longrightarrow> receipt_ok r'"
  by (simp add: make_receipt_Inr_iff receipt_ok_def)

section \<open>The policy digest pins the policy\<close>

lemma github_operation_value_inj: "inj github_operation_value"
proof (rule injI)
  show "x = y" if "github_operation_value x = github_operation_value y" for x y
    using that by (cases x; cases y) simp_all
qed

lemma github_operation_value_eq [simp]: "github_operation_value x = github_operation_value y \<longleftrightarrow> x = y"
  using github_operation_value_inj by (auto simp: inj_def)

lemma github_operation_of_value [simp]: "github_operation_of (github_operation_value g) = Some g"
  by (cases g) (simp_all add: github_operation_of_def all_github_operations_def)

lemma map_operation_values_inj:
  "map (JStr \<circ> github_operation_value) xs = map (JStr \<circ> github_operation_value) ys \<longleftrightarrow> xs = ys"
  by (rule inj_map_eq_map) (simp add: inj_def)

lemma count_fields_inj:
  assumes "canon (JObj (count_fields a)) = canon (JObj (count_fields b))"
  shows "set a = set b"
proof -
  have img: "(\<lambda>(k, v). (k, canon v)) ` set (count_fields c) = (\<lambda>(g, n). (github_operation_value g, JInt n)) ` set c" for c
    by (force simp: count_fields_def)
  have "inj (\<lambda>(g, n :: int). (github_operation_value g, JInt n))" by (auto simp: inj_def)
  with canon_entries_inj [OF assms] show ?thesis by (simp only: img inj_image_eq_iff)
qed

definition policy_commitment where
  "policy_commitment p = (cp_schema p, cp_base_sha p, cp_candidate_sha p, cp_contract_digest p, cp_phase p,
     cp_leaf_number p, cp_target p, cp_target_policy_identity p, cp_branch p, allowed_paths p,
     requested_operations p, set (per_operation (cp_budget p)), total_calls (cp_budget p), cp_rollback p)"

definition policy_payload_keys :: "string list" where
  "policy_payload_keys = policy_document_keys"

lemma target_fields_inj:
  assumes "canon (JObj (target_fields a)) = canon (JObj (target_fields b))"
  shows "a = b"
proof -
  have "map (canon \<circ> snd) (target_fields a) = map (canon \<circ> snd) (target_fields b)"
    by (rule canon_fields_inj [OF _ _ assms]) (simp_all add: target_fields_def)
  then show ?thesis by (cases a; cases b) (simp add: target_fields_def)
qed

interpretation cpd: sealed_record policy_payload_keys canary_policy_payload policy_commitment "\<lambda>_. True"
proof unfold_locales
  show "map fst (canary_policy_payload x) = policy_payload_keys" for x
    by (simp add: canary_policy_payload_def policy_payload_keys_def policy_document_keys_def)
  show "distinct policy_payload_keys" by (simp add: policy_payload_keys_def policy_document_keys_def)
  show "policy_commitment x = policy_commitment y"
    if eq: "map (canon \<circ> snd) (canary_policy_payload x) = map (canon \<circ> snd) (canary_policy_payload y)" for x y
  proof -
    let ?bud = "\<lambda>p. [(''per_operation'', JObj (count_fields (per_operation (cp_budget p)))), (''total_calls'', JInt (total_calls (cp_budget p)))]"
    let ?rb = "\<lambda>p. [(''rollback_trigger'', JStr (rollback_trigger (cp_rollback p))),
       (''kill_switch'', JStr (kill_switch (cp_rollback p))), (''semantic_readback'', JStr (semantic_readback (cp_rollback p)))]"
    have c: "canon (JObj (target_fields (cp_target x))) = canon (JObj (target_fields (cp_target y)))"
      "canon (JObj (?bud x)) = canon (JObj (?bud y))" "canon (JObj (?rb x)) = canon (JObj (?rb y))"
      and ops: "map (JStr \<circ> github_operation_value) (requested_operations x) = map (JStr \<circ> github_operation_value) (requested_operations y)"
      and paths: "map JStr (allowed_paths x) = map JStr (allowed_paths y)"
      and rest: "cp_schema x = cp_schema y" "cp_base_sha x = cp_base_sha y" "cp_candidate_sha x = cp_candidate_sha y"
        "cp_contract_digest x = cp_contract_digest y" "cp_phase x = cp_phase y" "cp_leaf_number x = cp_leaf_number y"
        "cp_target_policy_identity x = cp_target_policy_identity y" "cp_branch x = cp_branch y"
      using eq by (simp_all add: canary_policy_payload_def comp_def del: canon.simps(2))
    have "map (canon \<circ> snd) (?bud x) = map (canon \<circ> snd) (?bud y)" by (rule canon_fields_inj [OF _ _ c(2)]) simp_all
    then have b: "canon (JObj (count_fields (per_operation (cp_budget x)))) = canon (JObj (count_fields (per_operation (cp_budget y))))"
      "total_calls (cp_budget x) = total_calls (cp_budget y)" by (simp_all del: canon.simps(2))
    have "map (canon \<circ> snd) (?rb x) = map (canon \<circ> snd) (?rb y)" by (rule canon_fields_inj [OF _ _ c(3)]) simp_all
    then have "cp_rollback x = cp_rollback y" by (cases "cp_rollback x"; cases "cp_rollback y") simp
    moreover have "allowed_paths x = allowed_paths y" using paths by (simp add: inj_map_eq_map inj_def)
    ultimately show ?thesis
      using rest b(2) count_fields_inj [OF b(1)] target_fields_inj [OF c(1)] ops
      by (simp add: policy_commitment_def map_operation_values_inj)
  qed
qed

text \<open>Two policies whose canonical texts collide under SHA-256.\<close>

definition policies_collide :: "bounded_canary_policy \<Rightarrow> bounded_canary_policy \<Rightarrow> bool" where
  "policies_collide p q \<longleftrightarrow>
     sha_collision (json_dumps (JObj (canary_policy_payload p))) (json_dumps (JObj (canary_policy_payload q)))"

lemma policy_digest_commits:
  assumes "canary_policy_validate p = Inr ()" "canary_policy_validate q = Inr ()" "cp_policy_digest p = cp_policy_digest q"
    and "\<not> policies_collide p q"
  shows "policy_commitment p = policy_commitment q"
proof -
  have "hex_digest (JObj (canary_policy_payload p)) = hex_digest (JObj (canary_policy_payload q))"
    using assms(1-3) by (simp add: canary_policy_validate_iff digest_value_def)
  from cpd.digest_commits [OF _ _ this] assms(4) show ?thesis by (simp add: policies_collide_def)
qed

section \<open>Chains\<close>

lemma receipt_ok_counts:
  assumes "receipt_ok r"
  shows "distinct (map fst (operation_counts r))" "fst ` set (operation_counts r) = set (requested_operations (cr_policy r))"
    "distinct (requested_operations (cr_policy r))" "count_sum (operation_counts r) \<le> total_calls (cp_budget (cr_policy r))"
    "\<And>g n. (g, n) \<in> set (operation_counts r) \<Longrightarrow> 0 \<le> n \<and> n \<le> limit_for (cp_budget (cr_policy r)) g"
  using assms
  by (auto simp: receipt_ok_def receipt_guards_def canary_policy_validate_iff canary_policy_guards_def Let_def list_all_iff)

lemma count_of_ok:
  assumes "receipt_ok r" "g \<in> set (requested_operations (cr_policy r))"
  shows "count_of (operation_counts r) g = Inr (the (map_of (operation_counts r) g))"
    and "(g, the (map_of (operation_counts r) g)) \<in> set (operation_counts r)"
proof -
  from assms receipt_ok_counts(2) [OF assms(1)] obtain n where "map_of (operation_counts r) g = Some n"
    by (metis image_iff map_of_eq_None_iff option.exhaust)
  with receipt_ok_counts(1) [OF assms(1)]
  show "count_of (operation_counts r) g = Inr (the (map_of (operation_counts r) g))"
    by (simp add: count_of_def py_dict_distinct)
  from map_of_SomeD [OF \<open>map_of (operation_counts r) g = Some n\<close>] \<open>map_of (operation_counts r) g = Some n\<close>
  show "(g, the (map_of (operation_counts r) g)) \<in> set (operation_counts r)" by simp
qed

lemma count_sum_by_operations:
  "receipt_ok r \<Longrightarrow> count_sum (operation_counts r) =
     sum_list (map (\<lambda>g. the (map_of (operation_counts r) g)) (requested_operations (cr_policy r)))"
  unfolding count_sum_def by (rule sum_values_by_keys) (simp_all add: receipt_ok_counts)

lemma chain_link_ok_iff:
  assumes "receipt_ok a" "receipt_ok b" "requested_operations (cr_policy a) = requested_operations p"
    "requested_operations (cr_policy b) = requested_operations p"
  shows "chain_link_ok p a b = Inr (cr_result b = PASS \<and> predecessor_receipt_digest b = Some (receipt_digest a)
     \<and> (let ds = map (\<lambda>g. the (map_of (operation_counts b) g) - the (map_of (operation_counts a) g)) (requested_operations p)
        in list_all (\<lambda>d. 0 \<le> d) ds \<and> sum_list ds = 1 \<and> count_list ds 1 = 1))"
proof -
  have "traverse (\<lambda>g. bind_result (count_of (operation_counts b) g) (\<lambda>n.
         bind_result (count_of (operation_counts a) g) (\<lambda>m. Inr (n - m)))) (requested_operations p)
     = Inr (map (\<lambda>g. the (map_of (operation_counts b) g) - the (map_of (operation_counts a) g)) (requested_operations p))"
    using assms by (auto simp: traverse_Inr_iff list_all2_conv_all_nth count_of_ok)
  then show ?thesis by (simp add: chain_link_ok_def Let_def)
qed

text \<open>Receipts that carry the policy itself, or one that the digest cannot tell from it.\<close>

definition same_policy :: "bounded_canary_policy \<Rightarrow> bounded_canary_receipt \<Rightarrow> bool" where
  "same_policy p r \<longleftrightarrow> policy_commitment (cr_policy r) = policy_commitment p"

lemma same_policy_operations: "same_policy p r \<Longrightarrow> requested_operations (cr_policy r) = requested_operations p"
  by (simp add: same_policy_def policy_commitment_def)

lemma limit_for_commits:
  assumes "policy_commitment p = policy_commitment q" "distinct (map fst (per_operation (cp_budget p)))"
    "distinct (map fst (per_operation (cp_budget q)))"
  shows "limit_for (cp_budget p) g = limit_for (cp_budget q) g"
proof -
  have "set (per_operation (cp_budget p)) = set (per_operation (cp_budget q))"
    using assms(1) by (simp add: policy_commitment_def)
  then have "map_of (per_operation (cp_budget p)) = map_of (per_operation (cp_budget q))"
    using assms(2,3) by (metis map_of_inject_set)
  with assms(2,3) show ?thesis by (simp add: limit_for_def py_dict_distinct)
qed

lemma validated_same_policy:
  assumes "validate_for r p = Inr ()" "canary_policy_validate p = Inr ()" "\<not> policies_collide p (cr_policy r)"
  shows "receipt_ok r \<and> same_policy p r"
  using assms policy_digest_commits [of p "cr_policy r"]
  by (auto simp: validate_for_iff receipt_ok_def same_policy_def)

lemma chain_from_head:
  assumes "validate_chain_from p (Some q) rs = Inr h" "canary_policy_validate p = Inr ()"
    and "receipt_ok q" "same_policy p q" "\<forall>r\<in>set rs. \<not> policies_collide p (cr_policy r)"
  shows "\<exists>r. h = Some r \<and> receipt_ok r \<and> same_policy p r \<and> r = last (q # rs)
    \<and> (rs \<noteq> [] \<longrightarrow> cr_result r = PASS)
    \<and> count_sum (operation_counts r) = count_sum (operation_counts q) + int (length rs)"
  using assms
proof (induction rs arbitrary: q)
  case (Cons b rs)
  from Cons.prems(1) have v: "validate_for b p = Inr ()"
    by (auto simp: bind_result_Inr_iff)
  with Cons.prems(2,5) have b: "receipt_ok b" "same_policy p b" using validated_same_policy by auto
  let ?ds = "map (\<lambda>g. the (map_of (operation_counts b) g) - the (map_of (operation_counts q) g)) (requested_operations p)"
  have link: "chain_link_ok p q b = Inr (cr_result b = PASS \<and> predecessor_receipt_digest b = Some (receipt_digest q)
     \<and> (let ds = ?ds in list_all (\<lambda>d. 0 \<le> d) ds \<and> sum_list ds = 1 \<and> count_list ds 1 = 1))"
    using Cons.prems(3,4) b by (intro chain_link_ok_iff) (simp_all add: same_policy_operations)
  with Cons.prems(1) v have s1: "sum_list ?ds = 1" and pass: "cr_result b = PASS"
    and rest: "validate_chain_from p (Some b) rs = Inr h"
    by (auto simp: Let_def split: if_split_asm)
  have "count_sum (operation_counts b) = count_sum (operation_counts q) + 1"
    using s1 Cons.prems(3,4) b by (simp add: count_sum_by_operations same_policy_operations sum_list_subtractf)
  with Cons.IH [OF rest Cons.prems(2) b] Cons.prems(5) pass show ?case by (cases rs) auto
qed simp

lemma zero_counts: "list_all (\<lambda>(operation, count). count = 0) c \<Longrightarrow> count_sum c = 0"
  by (induction c) (auto simp: count_sum_def)

lemma valid_chain_head:
  assumes "validate_canary_receipt_chain p chain = Inr r" "canary_policy_validate p = Inr ()"
    and "\<forall>r\<in>set chain. \<not> policies_collide p (cr_policy r)"
  shows "receipt_ok r \<and> same_policy p r \<and> chain \<noteq> [] \<and> r = last chain \<and> cr_result r \<in> {GENESIS, PASS}
    \<and> count_sum (operation_counts r) = int (length chain) - 1"
proof (cases chain)
  case Nil
  with assms(1) show ?thesis by (simp add: validate_canary_receipt_chain_def)
next
  case (Cons g rs)
  with assms(1) have v: "validate_for g p = Inr ()" and gen: "cr_result g = GENESIS" and zero: "list_all (\<lambda>(operation, count). count = 0) (operation_counts g)"
    and rest: "validate_chain_from p (Some g) rs = Inr (Some r)"
    by (auto simp: validate_canary_receipt_chain_def bind_result_Inr_iff split: if_split_asm option.split_asm)
  from v assms(2,3) Cons have g: "receipt_ok g" "same_policy p g" using validated_same_policy by auto
  have "count_sum (operation_counts g) = 0"
    using zero by (rule zero_counts)
  with chain_from_head [OF rest assms(2) g] assms(3) Cons gen show ?thesis by (cases rs) auto
qed

lemma bind_result_assoc: "bind_result (bind_result m f) g = bind_result m (\<lambda>x. bind_result (f x) g)"
  by (cases m) simp_all

lemma validate_chain_from_append:
  "validate_chain_from p prev (xs @ ys) = bind_result (validate_chain_from p prev xs) (\<lambda>h. validate_chain_from p h ys)"
proof (induction xs arbitrary: prev)
  case (Cons x xs)
  then show ?case
    by (cases "validate_for x p"; cases prev; cases "chain_link_ok p (the prev) x") (auto simp: bind_result_assoc)
qed simp

lemma validate_chain_snoc:
  assumes "validate_canary_receipt_chain p chain = Inr h" "validate_for r p = Inr ()" "chain_link_ok p h r = Inr True"
  shows "validate_canary_receipt_chain p (chain @ [r]) = Inr r"
proof -
  from assms(1) have "validate_chain_from p None chain = Inr (Some h)"
    by (auto simp: validate_canary_receipt_chain_def bind_result_Inr_iff split: if_split_asm option.split_asm)
  with assms(2,3) show ?thesis
    by (simp add: validate_canary_receipt_chain_def validate_chain_from_append)
qed

lemma indicator_list:
  assumes "distinct xs" "g \<in> set xs"
  shows "sum_list (map (\<lambda>x. if x = g then 1 else 0 :: int) xs) = 1"
    and "count_list (map (\<lambda>x. if x = g then 1 else 0 :: int) xs) 1 = 1"
proof -
  from split_list [OF assms(2)] obtain ys zs where xs: "xs = ys @ g # zs" by blast
  have n: "g \<notin> set ys" "g \<notin> set zs" using assms(1) xs by auto
  have z: "map (\<lambda>x. if x = g then 1 else 0 :: int) l = replicate (length l) 0" if "g \<notin> set l" for l
    using that by (induction l) auto
  show "sum_list (map (\<lambda>x. if x = g then 1 else 0 :: int) xs) = 1"
    using n by (simp add: xs z sum_list_replicate)
  have c: "count_list (replicate k (0::int)) 1 = 0" for k by (induction k) auto
  show "count_list (map (\<lambda>x. if x = g then 1 else 0 :: int) xs) 1 = 1"
    using n by (simp add: xs z c)
qed

lemma advance_Inr:
  assumes "advance_canary_receipt h g d = Inr r"
  shows "receipt_ok h \<and> receipt_ok r \<and> g \<in> set (requested_operations (cr_policy h)) \<and> cr_policy r = cr_policy h
    \<and> cr_result r = PASS \<and> predecessor_receipt_digest r = Some (receipt_digest h) \<and> cr_semantic_readback_digest r = d
    \<and> operation_counts r = AList.update g (the (map_of (operation_counts h) g) + 1) (operation_counts h)"
proof -
  from assms have v: "validate_for h (cr_policy h) = Inr ()" and g: "g \<in> set (requested_operations (cr_policy h))"
    by (auto simp: advance_canary_receipt_def bind_result_Inr_iff split: if_split_asm)
  then have h: "receipt_ok h" by (simp add: validate_for_iff)
  note c = count_of_ok(1) [OF h g] and d = py_dict_distinct [OF receipt_ok_counts(1) [OF h]]
  from assms v g c d have m: "make_receipt
        \<lparr>cr_policy = cr_policy h, cr_result = PASS,
         operation_counts = AList.update g (the (map_of (operation_counts h) g) + 1) (operation_counts h),
         cr_semantic_readback_digest = d, predecessor_receipt_digest = Some (receipt_digest h), receipt_digest = []\<rparr> = Inr r"
    by (simp add: advance_canary_receipt_def Let_def split: if_split_asm)
  with h g make_receipt_ok [OF m] show ?thesis by (simp add: make_receipt_Inr_iff)
qed

lemma advance_link:
  assumes "advance_canary_receipt h g d = Inr r" "same_policy p h"
  shows "chain_link_ok p h r = Inr True"
proof -
  note a = advance_Inr [OF assms(1)]
  have ops: "requested_operations (cr_policy h) = requested_operations p" using assms(2) by (rule same_policy_operations)
  let ?ds = "map (\<lambda>x. the (map_of (operation_counts r) x) - the (map_of (operation_counts h) x)) (requested_operations p)"
  have ds: "?ds = map (\<lambda>x. if x = g then 1 else 0) (requested_operations p)"
    using a by (simp add: update_conv')
  have dist: "distinct (requested_operations p)" "g \<in> set (requested_operations p)"
    using a receipt_ok_counts(3) [of h] ops by auto
  have link: "chain_link_ok p h r = Inr (cr_result r = PASS \<and> predecessor_receipt_digest r = Some (receipt_digest h)
     \<and> (let ds = ?ds in list_all (\<lambda>d. 0 \<le> d) ds \<and> sum_list ds = 1 \<and> count_list ds 1 = 1))"
    using a ops by (intro chain_link_ok_iff) simp_all
  show ?thesis
    unfolding link ds Let_def using a indicator_list [OF dist] by (auto simp: list_all_iff)
qed

lemma chain_from_validates:
  "validate_chain_from p prev xs = Inr h \<Longrightarrow> r \<in> set xs \<Longrightarrow> validate_for r p = Inr ()"
proof (induction xs arbitrary: prev)
  case (Cons x xs)
  then show ?case
    by (cases prev) (auto simp: bind_result_Inr_iff split: if_split_asm)
qed simp

lemma chain_receipts_validate:
  "validate_canary_receipt_chain p chain = Inr h \<Longrightarrow> r \<in> set chain \<Longrightarrow> validate_for r p = Inr ()"
  by (auto simp: validate_canary_receipt_chain_def bind_result_Inr_iff split: if_split_asm dest: chain_from_validates)

lemma advance_extends_aux:
  assumes "validate_canary_receipt_chain p chain = Inr h" "canary_policy_validate p = Inr ()"
    and "\<forall>r\<in>set chain. \<not> policies_collide p (cr_policy r)"
    and adv: "advance_canary_receipt h g d = Inr r"
  shows "validate_canary_receipt_chain p (chain @ [r]) = Inr r"
proof -
  have head: "receipt_ok h" "same_policy p h" "chain \<noteq> []" "h = last chain" using valid_chain_head [OF assms(1-3)] by auto
  have "validate_for h p = Inr ()" using chain_receipts_validate [OF assms(1)] head(3,4) by simp
  then have "validate_for r p = Inr ()" using advance_Inr [OF adv] by (simp add: validate_for_iff)
  with assms(1) advance_link [OF adv head(2)] show ?thesis by (intro validate_chain_snoc)
qed

text \<open>What an authorization of a request rests on.\<close>

lemma authorize_facts:
  assumes "authorize_canary_request policy context request receipt_chain = Inr d" "cd_authorized d"
  shows "\<exists>p c q chain h n. policy = Some p \<and> context = Some c \<and> request = Some q \<and> receipt_chain = Some chain
    \<and> cd_authorized (evaluate_bounded_canary_policy policy context)
    \<and> rq_operation q \<in> set (requested_operations p) \<and> rq_branch q = cp_branch p
    \<and> set (rq_paths q) \<subseteq> set (allowed_paths p)
    \<and> validate_canary_receipt_chain p chain = Inr h \<and> cc_prior_receipt_digest c = Some (receipt_digest h)
    \<and> count_of (operation_counts h) (rq_operation q) = Inr n
    \<and> n < limit_for (cp_budget p) (rq_operation q)
    \<and> count_sum (py_dict (operation_counts h)) < total_calls (cp_budget p)
    \<and> enabled (snap_document (cc_target_policy c))
    \<and> action_switch_is_enabled (snap_document (cc_target_policy c)) (GITHUB_REPOSITORY_OPERATION (rq_operation q))
    \<and> (\<exists>a. cd_authorization d = Some a \<and> make_authorization (cp_policy_digest p) (cp_contract_digest p)
            (rq_request_digest q) (receipt_digest h) = Inr a)"
proof -
  from assms obtain p c q where e: "policy = Some p" "context = Some c" "request = Some q"
    by (cases policy; cases "context"; cases request)
      (auto simp: authorize_canary_request_def canary_denied_def Let_def)
  from assms e obtain prior chain where r: "cc_prior_receipt_digest c = Some prior" "receipt_chain = Some chain"
    by (cases "cc_prior_receipt_digest c"; cases receipt_chain)
      (auto simp: authorize_canary_request_def canary_denied_def Let_def split: if_split_asm)
  from assms e r obtain h where h: "validate_canary_receipt_chain p chain = Inr h"
    by (cases "validate_canary_receipt_chain p chain")
      (auto simp: authorize_canary_request_def canary_denied_def Let_def split: if_split_asm py_error.split_asm)
  from assms e r h obtain n where n: "count_of (operation_counts h) (rq_operation q) = Inr n"
    by (cases "count_of (operation_counts h) (rq_operation q)")
      (auto simp: authorize_canary_request_def canary_denied_def Let_def split: if_split_asm)
  from assms e r h n obtain t where t: "target_policy_for c None = Inr t"
    by (cases "target_policy_for c None")
      (auto simp: authorize_canary_request_def canary_denied_def Let_def split: if_split_asm)
  then have "t = snap_document (cc_target_policy c)" by (simp add: target_policy_for_def split: if_split_asm)
  with assms e r h n t show ?thesis
    by (simp add: authorize_canary_request_def canary_denied_def Let_def action_switch_is_enabled_def bind_result_Inr_iff
        not_le split: if_split_asm del: getattr_switch_names) auto
qed

lemma evaluate_canary_iff:
  "cd_authorized (evaluate_bounded_canary_policy (Some p) (Some c)) \<longleftrightarrow>
     canary_policy_validate p = Inr () \<and> cc_roundlet_enabled c \<and> read_only_external_validation_allowed c
     \<and> disposable_target_mutation_allowed c \<and> \<not> kill_switch_active c
     \<and> (cc_phase c, cc_leaf_number c, cc_base_sha c, cc_candidate_sha c, cc_contract_digest c, cc_target c,
         cc_target_policy_identity c, cc_policy_digest c, cc_branch c)
       = (cp_phase p, cp_leaf_number p, cp_base_sha p, cp_candidate_sha p, cp_contract_digest p, cp_target p,
          cp_target_policy_identity p, cp_policy_digest p, cp_branch p)
     \<and> target_policy_for c (Some p) = Inr (snap_document (cc_target_policy c))"
  unfolding evaluate_bounded_canary_policy_def
  by (simp add: canary_denied_def del: first_failure_None_iff split: option.split) blast

lemma update_keys:
  "k \<in> fst ` set al \<Longrightarrow> map fst (AList.update k v al) = map fst al"
  by (induction al) auto

lemma update_sum:
  "distinct (map fst al) \<Longrightarrow> map_of al k = Some n \<Longrightarrow> count_sum (AList.update k (n + 1) al) = count_sum al + 1"
  by (induction al) (auto simp: count_sum_def split: if_split_asm)

lemma advance_succeeds:
  assumes h: "receipt_ok h" "cr_result h \<in> {GENESIS, PASS}" and g: "g \<in> set (requested_operations (cr_policy h))"
    and n: "count_of (operation_counts h) g = Inr n" "n < limit_for (cp_budget (cr_policy h)) g"
    and t: "count_sum (operation_counts h) < total_calls (cp_budget (cr_policy h))" and d: "is_digest readback"
  shows "\<exists>r. advance_canary_receipt h g readback = Inr r"
proof -
  let ?c = "operation_counts h"
  let ?r = "\<lparr>cr_policy = cr_policy h, cr_result = PASS, operation_counts = AList.update g (n + 1) ?c,
     cr_semantic_readback_digest = readback, predecessor_receipt_digest = Some (receipt_digest h), receipt_digest = []\<rparr>"
  note ok = receipt_ok_counts [OF h(1)]
  have mo: "map_of ?c g = Some n" using n(1) ok(1) by (simp add: count_of_def py_dict_distinct split: option.split_asm)
  then have k: "g \<in> fst ` set ?c" by (metis map_of_eq_None_iff option.distinct(1))
  have "list_all (\<lambda>(x, y). 0 \<le> y) (AList.update g (n + 1) ?c)"
    "list_all (\<lambda>(x, y). y \<le> limit_for (cp_budget (cr_policy h)) x) (AList.update g (n + 1) ?c)"
    using ok(1,5) n(2) map_of_SomeD [OF mo] by (fastforce simp: list_all_iff dest: update_entries [OF ok(1)])+
  moreover have "is_digest (receipt_digest h)" using h(1) by (simp add: receipt_ok_def)
  moreover have "fst ` set (AList.update g (n + 1) ?c) = fst ` set ?c"
    using arg_cong [OF update_keys [OF k, of "n + 1"], of set] by simp
  ultimately have "list_all fst (receipt_guards ?r)"
    using ok(1,2) t d update_keys [OF k, of "n + 1"] update_sum [OF ok(1) mo]
    by (simp add: receipt_guards_def canary_require_digest_def)
  moreover have "canary_policy_validate (cr_policy h) = Inr ()" using h(1) by (simp add: receipt_ok_def)
  ultimately have "\<exists>r. make_receipt ?r = Inr r" by (simp add: make_receipt_Inr_iff)
  moreover have "validate_for h (cr_policy h) = Inr ()" using h(1) by (simp add: validate_for_iff)
  ultimately show ?thesis
    using h(2) g n t py_dict_distinct [OF ok(1)] by (auto simp: advance_canary_receipt_def Let_def)
qed

section \<open>Properties\<close>

text \<open>
  The receipt chain is the call counter: for an accepted
  chain of a valid policy the head counts exactly one call per receipt after the genesis,
  the total is within \<open>total_calls\<close>, and every operation within its own limit; unless a receipt
  carries another policy whose canonical text collides with this one's.
\<close>

lemma canary_chain_stays_in_budget:
  assumes "canary_policy_validate p = Inr ()" "validate_canary_receipt_chain p chain = Inr head"
    and "\<forall>r\<in>set chain. \<not> policies_collide p (cr_policy r)"
  shows "count_sum (operation_counts head) = int (length chain) - 1
    \<and> int (length chain) - 1 \<le> total_calls (cp_budget p)
    \<and> (\<forall>g n. (g, n) \<in> set (operation_counts head) \<longrightarrow> 0 \<le> n \<and> n \<le> limit_for (cp_budget (cr_policy head)) g)
    \<and> head = last chain"
proof -
  have h: "receipt_ok head" "same_policy p head" "head = last chain"
    "count_sum (operation_counts head) = int (length chain) - 1"
    using valid_chain_head [OF assms(2,1,3)] by auto
  moreover have "total_calls (cp_budget (cr_policy head)) = total_calls (cp_budget p)"
    using h(2) by (simp add: same_policy_def policy_commitment_def)
  ultimately show ?thesis using receipt_ok_counts(4,5) [OF h(1)] by auto
qed

text \<open>
  Advancing the head of an accepted chain gives an accepted
  chain with the new receipt as head; exactly the named operation's count grows, by one.
\<close>

lemma canary_advance_extends_chain:
  assumes "canary_policy_validate p = Inr ()" "validate_canary_receipt_chain p chain = Inr head"
    and "\<forall>r\<in>set chain. \<not> policies_collide p (cr_policy r)"
    and "advance_canary_receipt head operation readback = Inr r"
  shows "validate_canary_receipt_chain p (chain @ [r]) = Inr r
    \<and> map_of (operation_counts r) = (map_of (operation_counts head))
         (operation \<mapsto> the (map_of (operation_counts head) operation) + 1)"
  using advance_extends_aux [OF assms(2,1,3,4)] advance_Inr [OF assms(4)] by (simp add: update_conv')

text \<open>
  An authorized request lies in the selected scope: the
  standing authority is on and the kill switch off, operation, branch and every path are on the
  policy's lists, the target's own policy is enabled and allows the corresponding repository
  operation, and the context names the head of the accepted chain. The budget really has a
  call left: after the call, \<open>advance_canary_receipt\<close> accepts its read-back.
\<close>

lemma canary_authorization_in_scope:
  assumes "authorize_canary_request (Some p) (Some c) (Some q) (Some chain) = Inr d" "cd_authorized d"
    and "\<forall>r\<in>set chain. \<not> policies_collide p (cr_policy r)" "list_all fst (canary_budget_guards (cp_budget p))"
    and "\<forall>r\<in>set chain. list_all fst (canary_budget_guards (cp_budget (cr_policy r)))"
    and "is_digest readback"
  shows "cc_roundlet_enabled c \<and> disposable_target_mutation_allowed c \<and> \<not> kill_switch_active c
    \<and> rq_operation q \<in> set (requested_operations p) \<and> rq_branch q = cp_branch p \<and> set (rq_paths q) \<subseteq> set (allowed_paths p)
    \<and> enabled (snap_document (cc_target_policy c))
    \<and> action_switch_is_enabled (snap_document (cc_target_policy c)) (GITHUB_REPOSITORY_OPERATION (rq_operation q))
    \<and> (\<exists>head r. validate_canary_receipt_chain p chain = Inr head \<and> cc_prior_receipt_digest c = Some (receipt_digest head)
         \<and> advance_canary_receipt head (rq_operation q) readback = Inr r
         \<and> validate_canary_receipt_chain p (chain @ [r]) = Inr r)"
proof -
  let ?g = "rq_operation q"
  obtain h n where f: "cd_authorized (evaluate_bounded_canary_policy (Some p) (Some c))" "?g \<in> set (requested_operations p)"
    "rq_branch q = cp_branch p" "set (rq_paths q) \<subseteq> set (allowed_paths p)"
    "validate_canary_receipt_chain p chain = Inr h" "cc_prior_receipt_digest c = Some (receipt_digest h)"
    "count_of (operation_counts h) ?g = Inr n" "n < limit_for (cp_budget p) ?g"
    "count_sum (py_dict (operation_counts h)) < total_calls (cp_budget p)" "enabled (snap_document (cc_target_policy c))"
    "action_switch_is_enabled (snap_document (cc_target_policy c)) (GITHUB_REPOSITORY_OPERATION ?g)"
    using authorize_facts [OF assms(1,2)] by auto
  note ev = f(1) [unfolded evaluate_canary_iff]
  have head: "receipt_ok h" "same_policy p h" "h \<in> set chain" "cr_result h \<in> {GENESIS, PASS}"
    using valid_chain_head [OF f(5) _ assms(3)] ev by auto
  have ops: "requested_operations (cr_policy h) = requested_operations p" by (rule same_policy_operations [OF head(2)])
  have bud: "distinct (map fst (per_operation (cp_budget p)))" "distinct (map fst (per_operation (cp_budget (cr_policy h))))"
    using assms(4,5) head(3) by (auto simp: canary_budget_guards_def)
  have lim: "limit_for (cp_budget (cr_policy h)) x = limit_for (cp_budget p) x" for x
    using head(2) bud by (intro limit_for_commits) (simp_all add: same_policy_def)
  have tot: "total_calls (cp_budget (cr_policy h)) = total_calls (cp_budget p)"
    using head(2) by (simp add: same_policy_def policy_commitment_def)
  have "\<exists>r. advance_canary_receipt h ?g readback = Inr r"
    using advance_succeeds [OF head(1,4), of ?g n readback] f(2,7-9) ops lim tot assms(6)
      receipt_ok_counts(1) [OF head(1)] by (simp add: py_dict_distinct)
  then obtain r where r: "advance_canary_receipt h ?g readback = Inr r" by blast
  with advance_extends_aux [OF f(5) _ assms(3) r] f ev show ?thesis by blast
qed

section \<open>The head digest pins the whole chain\<close>

definition receipt_commitment where
  "receipt_commitment r = (cp_policy_digest (cr_policy r), cr_result r, set (operation_counts r),
     cr_semantic_readback_digest r, predecessor_receipt_digest r)"

definition receipt_payload_keys :: "string list" where
  "receipt_payload_keys = [''schema'', ''policy_digest'', ''contract_digest'', ''base_sha'', ''candidate_sha'', ''target_repository'',
     ''target_baseline_sha'', ''target_leaf_number'', ''leaf_number'', ''requested_operations'', ''operation_counts'', ''total_calls'',
     ''result'', ''semantic_readback_digest'', ''predecessor_receipt_digest'']"

lemma canary_result_value_eq [simp]: "canary_result_value x = canary_result_value y \<longleftrightarrow> x = y"
  by (cases x; cases y) simp_all

interpretation crd: sealed_record receipt_payload_keys receipt_payload receipt_commitment "\<lambda>_. True"
proof unfold_locales
  show "map fst (receipt_payload x) = receipt_payload_keys" for x
    by (simp add: receipt_payload_def receipt_payload_keys_def Let_def)
  show "distinct receipt_payload_keys" by (simp add: receipt_payload_keys_def)
  show "receipt_commitment x = receipt_commitment y"
    if eq: "map (canon \<circ> snd) (receipt_payload x) = map (canon \<circ> snd) (receipt_payload y)" for x y
  proof -
    have c: "canon (JObj (count_fields (operation_counts x))) = canon (JObj (count_fields (operation_counts y)))"
      and pred: "canon (case predecessor_receipt_digest x of None \<Rightarrow> JNull | Some d \<Rightarrow> JStr d)
          = canon (case predecessor_receipt_digest y of None \<Rightarrow> JNull | Some d \<Rightarrow> JStr d)"
      and rest: "cp_policy_digest (cr_policy x) = cp_policy_digest (cr_policy y)" "cr_result x = cr_result y"
        "cr_semantic_readback_digest x = cr_semantic_readback_digest y"
      using eq by (simp_all add: receipt_payload_def Let_def del: canon.simps(2))
    have "predecessor_receipt_digest x = predecessor_receipt_digest y"
      using pred by (cases "predecessor_receipt_digest x"; cases "predecessor_receipt_digest y") simp_all
    with rest count_fields_inj [OF c] show ?thesis by (simp add: receipt_commitment_def)
  qed
qed

definition receipts_collide :: "bounded_canary_receipt \<Rightarrow> bounded_canary_receipt \<Rightarrow> bool" where
  "receipts_collide a b \<longleftrightarrow> sha_collision (json_dumps (JObj (receipt_payload a))) (json_dumps (JObj (receipt_payload b)))"

definition linked :: "bounded_canary_receipt list \<Rightarrow> bool" where
  "linked xs \<longleftrightarrow> (\<forall>i < length xs. receipt_ok (xs ! i)
     \<and> predecessor_receipt_digest (xs ! i) = (if i = 0 then None else Some (receipt_digest (xs ! (i - 1)))))"

lemma linked_snoc:
  "linked (xs @ [r]) \<longleftrightarrow> linked xs \<and> receipt_ok r
     \<and> predecessor_receipt_digest r = (if xs = [] then None else Some (receipt_digest (last xs)))"
  by (auto simp: linked_def nth_append last_conv_nth less_Suc_eq all_conj_distrib)

lemma chain_from_linked:
  assumes "validate_chain_from p (if xs = [] then None else Some (last xs)) ys = Inr h" "linked xs"
  shows "linked (xs @ ys)"
  using assms
proof (induction ys arbitrary: xs)
  case (Cons y ys)
  from Cons.prems(1) have y: "receipt_ok y" by (auto simp: bind_result_Inr_iff validate_for_iff)
  have "predecessor_receipt_digest y = (if xs = [] then None else Some (receipt_digest (last xs)))"
    and rest: "validate_chain_from p (Some y) ys = Inr h"
    using Cons.prems(1) by (auto simp: bind_result_Inr_iff chain_link_ok_def split: if_split_asm)
  with y Cons.prems(2) have "linked (xs @ [y])" by (simp add: linked_snoc)
  with Cons.IH [of "xs @ [y]"] rest show ?case by simp
qed simp

lemma valid_chain_linked:
  assumes "validate_canary_receipt_chain p chain = Inr h"
  shows "linked chain \<and> chain \<noteq> [] \<and> h = last chain"
proof -
  from assms have v: "validate_chain_from p None chain = Inr (Some h)" and ne: "chain \<noteq> []"
    by (auto simp: validate_canary_receipt_chain_def bind_result_Inr_iff split: if_split_asm option.split_asm)
  have last: "validate_chain_from p q xs = Inr (Some h) \<Longrightarrow> xs \<noteq> [] \<Longrightarrow> h = last xs" for q xs
  proof (induction xs arbitrary: q)
    case (Cons x xs)
    then have v: "validate_chain_from p (Some x) xs = Inr (Some h)"
      by (cases q) (auto simp: bind_result_Inr_iff split: if_split_asm)
    show ?case
    proof (cases "xs = []")
      case True
      with v show ?thesis by simp
    next
      case False
      with Cons.IH [OF v] show ?thesis by simp
    qed
  qed simp
  have "linked chain" using chain_from_linked [of p "[]" chain "Some h"] v by (simp add: linked_def)
  with last [OF v ne] ne show ?thesis by simp
qed

lemma linked_head_pins:
  assumes "linked xs" "linked ys" "xs \<noteq> []" "ys \<noteq> []" "receipt_digest (last xs) = receipt_digest (last ys)"
    and "\<forall>a\<in>set xs. \<forall>b\<in>set ys. \<not> receipts_collide a b"
  shows "list_all2 (\<lambda>a b. receipt_commitment a = receipt_commitment b) xs ys"
  using assms
proof (induction xs arbitrary: ys rule: rev_induct)
  case (snoc r xs)
  obtain zs b where ys: "ys = zs @ [b]" using snoc.prems(4) by (metis append_butlast_last_id)
  have r: "linked xs" "receipt_ok r" "predecessor_receipt_digest r = (if xs = [] then None else Some (receipt_digest (last xs)))"
    and b: "linked zs" "receipt_ok b" "predecessor_receipt_digest b = (if zs = [] then None else Some (receipt_digest (last zs)))"
    using snoc.prems(1,2) by (simp_all add: ys linked_snoc)
  have "hex_digest (JObj (receipt_payload r)) = hex_digest (JObj (receipt_payload b))"
    using snoc.prems(5) r(2) b(2) by (simp add: ys receipt_ok_def digest_value_def)
  with crd.digest_commits [of r b] snoc.prems(6) have c: "receipt_commitment r = receipt_commitment b"
    by (auto simp: ys receipts_collide_def)
  then have p: "predecessor_receipt_digest r = predecessor_receipt_digest b" by (simp add: receipt_commitment_def)
  show ?case
  proof (cases "xs = []")
    case True
    with p r(3) b(3) have "zs = []" by (simp split: if_split_asm)
    with True c show ?thesis by (simp add: ys)
  next
    case False
    with p r(3) b(3) have "zs \<noteq> []" "receipt_digest (last xs) = receipt_digest (last zs)" by (simp_all split: if_split_asm)
    with snoc.IH [OF r(1) b(1) False] snoc.prems(6)
    have "list_all2 (\<lambda>a b. receipt_commitment a = receipt_commitment b) xs zs" by (simp add: ys)
    then show ?thesis unfolding ys by (rule list_all2_appendI) (simp add: c)
  qed
qed simp

text \<open>
  The receipt chain is a hash chain: two accepted chains
  with the same head digest have the same length and agree receipt by receipt on policy
  digest, result, call counts, read-back and predecessor, unless two of their canonical
  receipt texts collide under SHA-256. Selecting a head therefore selects one history.
\<close>

lemma canary_chain_head_pins_history:
  assumes "validate_canary_receipt_chain p chain1 = Inr head1" "validate_canary_receipt_chain q chain2 = Inr head2"
    and "receipt_digest head1 = receipt_digest head2"
    and "\<forall>a\<in>set chain1. \<forall>b\<in>set chain2. \<not> receipts_collide a b"
  shows "length chain1 = length chain2
    \<and> list_all2 (\<lambda>a b. cp_policy_digest (cr_policy a) = cp_policy_digest (cr_policy b) \<and> cr_result a = cr_result b
         \<and> set (operation_counts a) = set (operation_counts b)
         \<and> cr_semantic_readback_digest a = cr_semantic_readback_digest b
         \<and> predecessor_receipt_digest a = predecessor_receipt_digest b) chain1 chain2"
proof -
  have "list_all2 (\<lambda>a b. receipt_commitment a = receipt_commitment b) chain1 chain2"
    using valid_chain_linked [OF assms(1)] valid_chain_linked [OF assms(2)] assms(3,4) by (intro linked_head_pins) auto
  then show ?thesis
    by (auto simp: receipt_commitment_def list_all2_lengthD elim!: list_all2_mono)
qed

section \<open>Starting a chain\<close>

lemma limit_for_nonneg: "list_all fst (canary_budget_guards b) \<Longrightarrow> 0 \<le> limit_for b g"
proof -
  assume a: "list_all fst (canary_budget_guards b)"
  then have d: "distinct (map fst (per_operation b))" and pos: "\<And>x n. (x, n) \<in> set (per_operation b) \<Longrightarrow> 0 < n"
    by (auto simp: canary_budget_guards_def list_all_iff)
  show ?thesis
  proof (cases "map_of (per_operation b) g")
    case (Some n)
    with pos [OF map_of_SomeD [OF Some]] d show ?thesis by (simp add: limit_for_def py_dict_distinct)
  qed (simp add: limit_for_def py_dict_distinct [OF d])
qed

lemma genesis_starts_chain_aux:
  assumes "canary_policy_ok p"
  shows "\<exists>g. genesis_canary_receipt p = Inr g \<and> cr_policy g = p \<and> validate_canary_receipt_chain p [g] = Inr g
    \<and> operation_counts g = map (\<lambda>x. (x, 0)) (requested_operations p)"
proof -
  let ?r = "\<lparr>cr_policy = p, cr_result = GENESIS, operation_counts = map (\<lambda>g. (g, 0)) (requested_operations p),
      cr_semantic_readback_digest = genesis_identity p, predecessor_receipt_digest = None, receipt_digest = []\<rparr>"
  let ?g = "?r\<lparr>receipt_digest := digest_value (JObj (receipt_payload ?r))\<rparr>"
  have v: "canary_policy_validate p = Inr ()" using assms by (rule canary_policy_ok_validates)
  have b: "list_all fst (canary_budget_guards (cp_budget p))" "distinct (requested_operations p)"
    using assms by (auto simp: canary_policy_ok_def canary_policy_guards_def)
  have "1 \<le> total_calls (cp_budget p)" using b(1) by (simp add: canary_budget_guards_def)
  moreover have "count_sum (map (\<lambda>g. (g, 0)) (requested_operations p)) = 0"
    by (rule zero_counts) (simp add: list_all_iff)
  moreover have "set (map fst (map (\<lambda>g. (g, 0::int)) (requested_operations p))) = set (requested_operations p)" by force
  moreover have "is_digest (genesis_identity p)" by (simp add: genesis_identity_def)
  ultimately have g: "list_all fst (receipt_guards ?r)"
    using b limit_for_nonneg [OF b(1)]
    by (simp add: receipt_guards_def canary_require_digest_def list_all_iff comp_def image_image)
  with v have m: "genesis_canary_receipt p = Inr ?g"
    unfolding genesis_canary_receipt_def make_receipt_Inr_iff by simp
  then have "receipt_ok ?g" unfolding genesis_canary_receipt_def by (rule make_receipt_ok)
  then have "validate_for ?g p = Inr ()" unfolding validate_for_iff by simp
  then have "validate_canary_receipt_chain p [?g] = Inr ?g"
    by (simp add: validate_canary_receipt_chain_def list_all_iff)
  with m show ?thesis by (intro exI [of _ ?g]) simp
qed

text \<open>
  For every well-formed policy the genesis receipt can be
  built, counts zero for every requested operation, and alone is an accepted chain.
\<close>

lemma canary_genesis_starts_chain:
  assumes "canary_policy_ok p"
  shows "\<exists>g. genesis_canary_receipt p = Inr g \<and> validate_canary_receipt_chain p [g] = Inr g
    \<and> operation_counts g = map (\<lambda>x. (x, 0)) (requested_operations p)"
  using genesis_starts_chain_aux [OF assms] by blast

section \<open>Reading a policy back\<close>

lemma parse_counts:
  "collect (\<lambda>(name, count). Option.bind (github_operation_of name) (\<lambda>g. Option.bind (as_int (Some count)) (\<lambda>n. Some (g, n))))
     (count_fields c) = Some c"
proof -
  have "collect (\<lambda>(name, count). Option.bind (github_operation_of name) (\<lambda>g. Option.bind (as_int (Some count)) (\<lambda>n. Some (g, n))))
     (map (\<lambda>(operation, count). (github_operation_value operation, JInt count)) c) = Some (map id c)"
    by (rule collect_map) auto
  then show ?thesis by (simp add: count_fields_def)
qed

lemma count_fields_distinct: "distinct (map fst c) \<Longrightarrow> distinct (map fst (count_fields c))"
  using github_operation_value_inj
  by (auto simp: count_fields_def distinct_map comp_def case_prod_beta inj_on_def)

lemma count_fields_objects: "list_all (\<lambda>(k, v). objects_duplicate_free v) (count_fields c)"
  by (auto simp: count_fields_def list_all_iff)

lemma duplicate_free_obj:
  "objects_duplicate_free (JObj kvs) \<longleftrightarrow> list_all (\<lambda>(k, v). objects_duplicate_free v) kvs \<and> distinct (map fst kvs)"
  by (simp add: reject_duplicate_keys_def)

lemma payload_duplicate_free:
  assumes "distinct (map fst (per_operation (cp_budget p)))"
  shows "objects_duplicate_free (JObj (canary_policy_payload p))"
proof -
  have "objects_duplicate_free (JObj (count_fields (per_operation (cp_budget p))))"
    unfolding duplicate_free_obj using count_fields_objects count_fields_distinct [OF assms] by blast
  moreover have "distinct (map fst (canary_policy_payload p))"
    by (simp add: canary_policy_payload_def)
  moreover have "objects_duplicate_free (JObj (target_fields (cp_target p)))"
    unfolding duplicate_free_obj by (simp add: target_fields_def)
  ultimately show ?thesis
    unfolding duplicate_free_obj [of "canary_policy_payload p"]
    by (simp add: canary_policy_payload_def list_all_iff reject_duplicate_keys_def)
qed

text \<open>
  Every well-formed policy is recovered exactly, digest
  included, from its own public payload: \<open>parse_bounded_canary_policy\<close> inverts \<open>public_payload\<close>.
\<close>

lemma canary_policy_round_trip:
  assumes "canary_policy_ok p"
  shows "parse_bounded_canary_policy (Some (JObj (canary_policy_payload p))) = Inr p"
proof -
  have g: "list_all fst (canary_policy_guards p)" "list_all fst (canary_target_guards (cp_target p))"
    "list_all fst (canary_budget_guards (cp_budget p))" "list_all fst (rollback_guards (cp_rollback p))"
    "cp_policy_digest p = digest_value (JObj (canary_policy_payload p))"
    using assms by (simp_all add: canary_policy_ok_def)
  have dup: "objects_duplicate_free (JObj (canary_policy_payload p))"
    using g(3) by (intro payload_duplicate_free) (simp add: canary_budget_guards_def)
  have t: "parse_canary_target (target_fields (cp_target p)) = Some (cp_target p)"
    using g(2) by (cases "cp_target p") (simp add: parse_canary_target_def target_fields_def has_keys_def)
  have b: "parse_canary_budget [(''per_operation'', JObj (count_fields (per_operation (cp_budget p)))),
      (''total_calls'', JInt (total_calls (cp_budget p)))] = Some (cp_budget p)"
    using g(3) parse_counts [of "per_operation (cp_budget p)"]
    by (cases "cp_budget p") (simp add: parse_canary_budget_def has_keys_def)
  have r: "parse_canary_rollback [(''rollback_trigger'', JStr (rollback_trigger (cp_rollback p))),
      (''kill_switch'', JStr (kill_switch (cp_rollback p))), (''semantic_readback'', JStr (semantic_readback (cp_rollback p)))]
      = Some (cp_rollback p)"
    using g(4) by (cases "cp_rollback p") (simp add: parse_canary_rollback_def has_keys_def)
  have paths: "collect (\<lambda>v. as_str (Some v)) (map JStr xs) = Some xs" for xs
    using collect_map [of xs "\<lambda>v. as_str (Some v)" JStr id] by simp
  have ops: "collect (\<lambda>v. Option.bind (as_str (Some v)) github_operation_of) (map (JStr \<circ> github_operation_value) xs) = Some xs" for xs
    using collect_map [of xs "\<lambda>v. Option.bind (as_str (Some v)) github_operation_of" "JStr \<circ> github_operation_value" id] by simp
  have keys: "has_keys policy_document_keys (canary_policy_payload p) = Some (canary_policy_payload p)"
    by (simp add: has_keys_def canary_policy_payload_def policy_document_keys_def)
  have pay: "canary_policy_payload (p\<lparr>cp_policy_digest := d\<rparr>) = canary_policy_payload p"
    "canary_policy_guards (p\<lparr>cp_policy_digest := d\<rparr>) = canary_policy_guards p" for d
    by (simp_all add: canary_policy_payload_def canary_policy_guards_def)
  have fields: "parse_canary_fields (canary_policy_payload p) =
      guarded (canary_policy_guards (p\<lparr>cp_policy_digest := []\<rparr>))
       ((p\<lparr>cp_policy_digest := []\<rparr>)\<lparr>cp_policy_digest := digest_value (JObj (canary_policy_payload (p\<lparr>cp_policy_digest := []\<rparr>)))\<rparr>)"
    unfolding parse_canary_fields_def keys
    by (cases p) (use t b r paths ops in \<open>simp add: canary_policy_payload_def\<close>)
  have "parse_canary_fields (canary_policy_payload p) = Some p"
    unfolding fields pay using g(1,5) by simp
  with dup show ?thesis by (simp add: parse_bounded_canary_policy_def del: objects_duplicate_free.simps)
qed

section \<open>A concrete canary\<close>

definition sample_canary_body :: bounded_canary_policy where
  "sample_canary_body = \<lparr>cp_base_sha = replicate 40 CHR ''1'', cp_candidate_sha = replicate 40 CHR ''2'',
     cp_contract_digest = ''sha256:'' @ replicate 64 CHR ''a'', cp_phase = 4, cp_leaf_number = 7,
     cp_target = \<lparr>tg_repository = ''owner/sandbox'', tg_baseline_sha = replicate 40 CHR ''3'', tg_leaf_number = 2\<rparr>,
     cp_target_policy_identity = canary_target_policy_identity
        \<lparr>snap_source = sample_source, snap_document = sample_repository_policy\<rparr>
        \<lparr>tg_repository = ''owner/sandbox'', tg_baseline_sha = replicate 40 CHR ''3'', tg_leaf_number = 2\<rparr>,
     cp_branch = ''canary/x'', allowed_paths = [''docs/a.md''], requested_operations = [GH_COMMENT],
     cp_budget = \<lparr>per_operation = [(GH_COMMENT, 2)], total_calls = 2\<rparr>,
     cp_rollback = \<lparr>rollback_trigger = ''any failure'', kill_switch = ''owner'', semantic_readback = ''comment exists''\<rparr>,
     cp_schema = CANARY_POLICY_SCHEMA, cp_policy_digest = []\<rparr>"

definition sample_canary :: bounded_canary_policy where
  "sample_canary = sample_canary_body\<lparr>cp_policy_digest := digest_value (JObj (canary_policy_payload sample_canary_body))\<rparr>"

lemma sample_lexical: "safe_branch ''canary/x''" "safe_path ''docs/a.md''" "is_slug ''owner/sandbox''"
  by code_simp+

lemma canary_payload_digest_free [simp]: "canary_policy_payload (p\<lparr>cp_policy_digest := d\<rparr>) = canary_policy_payload p"
  by (simp add: canary_policy_payload_def)

lemma sample_canary_ok: "canary_policy_ok sample_canary"
proof -
  have h: "is_hex CHR ''1''" "is_hex CHR ''2''" "is_hex CHR ''3''" "is_hex CHR ''a''" by (simp_all add: is_hex_def)
  have d: "is_digest (CHR ''s'' # CHR ''h'' # CHR ''a'' # CHR ''2'' # CHR ''5'' # CHR ''6'' # CHR '':'' # replicate 64 c) \<longleftrightarrow> is_hex c" for c
    using is_digest_prefixed [of "replicate 64 c"] by simp
  show ?thesis
    by (simp add: canary_policy_ok_def sample_canary_def)
      (simp add: canary_policy_guards_def canary_target_guards_def canary_budget_guards_def rollback_guards_def
        canary_require_sha_def canary_require_digest_def sample_canary_body_def sample_lexical h d PHASE_4_def
        canary_target_policy_identity_def)
qed

definition sample_genesis :: bounded_canary_receipt where
  "sample_genesis = (case genesis_canary_receipt sample_canary of Inr g \<Rightarrow> g | Inl _ \<Rightarrow> undefined)"

lemma sample_genesis_chain:
  "validate_canary_receipt_chain sample_canary [sample_genesis] = Inr sample_genesis"
  "cr_policy sample_genesis = sample_canary" "operation_counts sample_genesis = [(GH_COMMENT, 0)]"
proof -
  obtain g where g: "genesis_canary_receipt sample_canary = Inr g" "cr_policy g = sample_canary"
    "validate_canary_receipt_chain sample_canary [g] = Inr g" "operation_counts g = map (\<lambda>x. (x, 0)) (requested_operations sample_canary)"
    using genesis_starts_chain_aux [OF sample_canary_ok] by blast
  then have "sample_genesis = g" by (simp add: sample_genesis_def)
  with g show "validate_canary_receipt_chain sample_canary [sample_genesis] = Inr sample_genesis"
    "cr_policy sample_genesis = sample_canary" "operation_counts sample_genesis = [(GH_COMMENT, 0)]"
    by (simp_all add: sample_canary_def sample_canary_body_def)
qed

lemma no_self_collision: "\<not> policies_collide p p" "\<not> receipts_collide r r"
  by (simp_all add: policies_collide_def receipts_collide_def sha_collision_def)

definition sample_first :: bounded_canary_receipt where
  "sample_first = (case advance_canary_receipt sample_genesis GH_COMMENT (''sha256:'' @ replicate 64 CHR ''b'') of
     Inr r \<Rightarrow> r | Inl _ \<Rightarrow> undefined)"

lemma sample_genesis_ok: "receipt_ok sample_genesis" "cr_result sample_genesis \<in> {GENESIS, PASS}"
  using valid_chain_head [OF sample_genesis_chain(1) canary_policy_ok_validates [OF sample_canary_ok]]
  by (simp_all add: sample_genesis_chain no_self_collision)

lemma sample_first_advances:
  "advance_canary_receipt sample_genesis GH_COMMENT (''sha256:'' @ replicate 64 CHR ''b'') = Inr sample_first"
proof -
  have "is_digest (''sha256:'' @ replicate 64 CHR ''b'')" unfolding is_digest_prefixed by (simp add: is_hex_def)
  then have "\<exists>r. advance_canary_receipt sample_genesis GH_COMMENT (''sha256:'' @ replicate 64 CHR ''b'') = Inr r"
    by (intro advance_succeeds [OF sample_genesis_ok, where n = 0])
      (simp_all add: sample_genesis_chain sample_canary_def sample_canary_body_def count_of_def py_dict_def limit_for_def count_sum_def)
  then show ?thesis by (auto simp: sample_first_def)
qed

definition sample_canary_context :: canary_authority_context where
  "sample_canary_context = \<lparr>cc_roundlet_enabled = True, read_only_external_validation_allowed = True,
     disposable_target_mutation_allowed = True, cc_phase = 4, cc_leaf_number = 7, cc_route = FORWARD_TEST_ROUTE,
     cc_base_sha = cp_base_sha sample_canary, cc_candidate_sha = cp_candidate_sha sample_canary,
     cc_contract_digest = cp_contract_digest sample_canary, cc_target = cp_target sample_canary,
     cc_target_policy = \<lparr>snap_source = sample_source, snap_document = sample_repository_policy\<rparr>,
     cc_target_policy_identity = cp_target_policy_identity sample_canary, cc_policy_digest = cp_policy_digest sample_canary,
     cc_branch = ''canary/x'', cc_prior_receipt_digest = Some (receipt_digest sample_genesis), kill_switch_active = False\<rparr>"

definition sample_canary_request :: canary_mutation_request where
  "sample_canary_request = (case make_request GH_COMMENT ''canary/x'' [''docs/a.md''] of Inr q \<Rightarrow> q | Inl _ \<Rightarrow> undefined)"

lemma sample_request_sel [simp]:
  "rq_operation sample_canary_request = GH_COMMENT" "rq_branch sample_canary_request = ''canary/x''"
  "rq_paths sample_canary_request = [''docs/a.md'']" "is_digest (rq_request_digest sample_canary_request)"
  by (simp_all add: sample_canary_request_def make_request_def sample_lexical construct_ok)

lemma sample_canary_sel [simp]:
  "requested_operations sample_canary = [GH_COMMENT]" "cp_branch sample_canary = ''canary/x''"
  "allowed_paths sample_canary = [''docs/a.md'']" "cp_budget sample_canary = \<lparr>per_operation = [(GH_COMMENT, 2)], total_calls = 2\<rparr>"
  "cp_phase sample_canary = 4" "cp_leaf_number sample_canary = 7"
  by (simp_all add: sample_canary_def sample_canary_body_def)

lemma sample_target_policy:
  "target_policy_for sample_canary_context None = Inr sample_repository_policy"
  "target_policy_for sample_canary_context (Some sample_canary) = Inr sample_repository_policy"
  by (simp_all add: target_policy_for_def sample_canary_context_def policy_is_valid_def repository_policy_guards_def
      sample_repository_policy_def REPOSITORY_POLICY_SCHEMA_VERSION_def)
    (simp_all add: sample_canary_def sample_canary_body_def sample_repository_policy_def)

lemma sample_authorizes:
  assumes "rq_operation q = GH_COMMENT" "rq_branch q = ''canary/x''" "set (rq_paths q) \<subseteq> {''docs/a.md''}" "is_digest (rq_request_digest q)"
  shows "\<exists>d. authorize_canary_request (Some sample_canary) (Some sample_canary_context) (Some q)
      (Some [sample_genesis]) = Inr d \<and> cd_authorized d"
proof -
  have ev: "cd_authorized (evaluate_bounded_canary_policy (Some sample_canary) (Some sample_canary_context))"
    unfolding evaluate_canary_iff
    using canary_policy_ok_validates [OF sample_canary_ok] sample_target_policy(2) by (simp add: sample_canary_context_def)
  have digests: "is_digest (cp_policy_digest sample_canary)" "is_digest (cp_contract_digest sample_canary)"
      "is_digest (receipt_digest sample_genesis)"
    using sample_canary_ok sample_genesis_ok(1)
    by (simp_all add: canary_policy_ok_def receipt_ok_def canary_policy_guards_def canary_require_digest_def)
  have prior: "cc_prior_receipt_digest sample_canary_context = Some (receipt_digest sample_genesis)"
    by (simp add: sample_canary_context_def)
  have sw: "enabled sample_repository_policy" "getattr_switch sample_repository_policy ''allow_issue_comment''"
    by (simp_all add: sample_repository_policy_def getattr_switch_def policy_switches_def)
  have "count_of [(GH_COMMENT, 0)] GH_COMMENT = Inr 0" "py_dict [(GH_COMMENT, 0::int)] = [(GH_COMMENT, 0)]"
      "limit_for \<lparr>per_operation = [(GH_COMMENT, 2)], total_calls = 2\<rparr> GH_COMMENT = 2" "count_sum [(GH_COMMENT, 0)] = 0"
    by (simp_all add: count_of_def py_dict_def limit_for_def count_sum_def)
  with ev digests prior sw assms show ?thesis
    by (simp add: authorize_canary_request_def sample_genesis_chain sample_target_policy make_authorization_def
        canary_require_digest_def construct_ok Let_def)
qed

lemma sample_request_authorized:
  "\<exists>d. authorize_canary_request (Some sample_canary) (Some sample_canary_context) (Some sample_canary_request)
      (Some [sample_genesis]) = Inr d \<and> cd_authorized d"
  by (rule sample_authorizes) simp_all

end
