(* ===== verification/Canary_Execution.thy ===== *)
theory Canary_Execution
  imports Canary_Policy
begin

text \<open>
  \<open>canary_execution.py\<close>: the ledger of Canary transitions and the orchestrator that claims,
  dispatches, reads back, reconciles and retries them. The owner-host lease and broker are not
  in the repository: every operation takes a \<open>canary_host\<close> with their answers to the calls it
  makes (each capability is called at most once per operation) and returns the calls it made,
  in order, as a list of effects.

  A \<open>_TransitionRecord\<close> object is shared and mutated in place. It is created once per claim digest
  and never replaced in the dictionary, so the object is named by its claim digest: the test
  \<open>self._records.get(claim) is record\<close> is the presence of the key. A mutation that precedes an
  exception is kept, so ledger operations return the ledger also when they raise.
\<close>

section \<open>Data\<close>

datatype canary_readback_state = APPLIED | ABSENT | AMBIGUOUS

datatype canary_transition_state = CLAIMED | VERIFIED | QUARANTINED | RETRY_ALLOWED | PRESERVED_FOR_OWNER

datatype canary_transition_purpose = FOR_EXECUTE | FOR_ROLLBACK | FOR_CLEANUP

fun transition_state_value :: "canary_transition_state \<Rightarrow> string" where
  "transition_state_value CLAIMED = ''claimed''"
| "transition_state_value VERIFIED = ''verified''"
| "transition_state_value QUARANTINED = ''quarantined''"
| "transition_state_value RETRY_ALLOWED = ''retry-allowed''"
| "transition_state_value PRESERVED_FOR_OWNER = ''preserved-for-owner''"

fun transition_purpose_value :: "canary_transition_purpose \<Rightarrow> string" where
  "transition_purpose_value FOR_EXECUTE = ''execute''"
| "transition_purpose_value FOR_ROLLBACK = ''rollback''"
| "transition_purpose_value FOR_CLEANUP = ''cleanup''"

text \<open>\<open>_INVERSE_CLEANUP_OPERATION\<close> has one entry; every other operation is an error.\<close>

definition cleanup_action_for :: "github_mutation_operation \<Rightarrow> github_mutation_operation result" where
  "cleanup_action_for operation =
     (case map_of [(GH_CREATE_BRANCH, GH_DELETE_BRANCH)] operation of
        Some reversing \<Rightarrow> Inr reversing
      | None \<Rightarrow> Inl (CanaryExecutionError ''Canary predecessor has no reversible cleanup action''))"

definition execution_require_digest :: "string \<Rightarrow> string \<Rightarrow> bool \<times> py_error" where
  "execution_require_digest v name = (is_digest v, CanaryExecutionError (name @ '' is invalid''))"

record canary_semantic_readback =
  rb_state :: canary_readback_state
  rb_digest :: string

definition make_readback :: "canary_readback_state \<Rightarrow> string \<Rightarrow> canary_semantic_readback result" where
  "make_readback s d = construct [execution_require_digest d ''Canary read-back digest''] \<lparr>rb_state = s, rb_digest = d\<rparr>"

record canary_execution_receipt =
  er_policy_digest :: string
  er_contract_digest :: string
  er_claim_digest :: string
  er_request_digest :: string
  er_chain_head_digest :: string
  er_purpose :: canary_transition_purpose
  er_state :: canary_transition_state
  er_semantic_readback_digest :: "string option"
  er_canary_receipt_digest :: "string option"
  er_predecessor_digest :: "string option"
  er_pre_state_digest :: "string option"
  er_retry_used :: bool
  er_receipt_digest :: string

record transition_record =
  tr_authorization :: canary_authorization
  tr_request :: canary_mutation_request
  tr_purpose :: canary_transition_purpose
  tr_state :: canary_transition_state
  tr_receipt :: canary_execution_receipt
  tr_canary_receipt :: "bounded_canary_receipt option"
  tr_retry_used :: bool
  tr_predecessor_digest :: "string option"
  tr_pre_state_digest :: "string option"

record canary_ledger =
  lg_policy :: bounded_canary_policy
  lg_chain :: "bounded_canary_receipt list"
  lg_records :: "(string \<times> transition_record) list"
  lg_hydrated :: bool

record canary_execution_result =
  xr_decision :: canary_decision
  xr_receipt :: "canary_execution_receipt option"
  xr_canary_receipt :: "bounded_canary_receipt option"

definition xr_verified :: "canary_execution_result \<Rightarrow> bool" where
  "xr_verified x \<longleftrightarrow> (case xr_receipt x of Some r \<Rightarrow> er_state r = VERIFIED | None \<Rightarrow> False)"

section \<open>Execution receipts\<close>

definition execution_payload :: "canary_execution_receipt \<Rightarrow> (string \<times> json) list" where
  "execution_payload r =
     [(''policy_digest'', JStr (er_policy_digest r)), (''contract_digest'', JStr (er_contract_digest r)),
      (''claim_digest'', JStr (er_claim_digest r)), (''request_digest'', JStr (er_request_digest r)),
      (''receipt_chain_head_digest'', JStr (er_chain_head_digest r)),
      (''purpose'', JStr (transition_purpose_value (er_purpose r))),
      (''state'', JStr (transition_state_value (er_state r))),
      (''semantic_readback_digest'', json_opt (er_semantic_readback_digest r)),
      (''canary_receipt_digest'', json_opt (er_canary_receipt_digest r)),
      (''predecessor_transition_receipt_digest'', json_opt (er_predecessor_digest r)),
      (''pre_state_readback_digest'', json_opt (er_pre_state_digest r)),
      (''retry_used'', JBool (er_retry_used r))]"

definition execution_optional_digest :: "string option \<Rightarrow> string \<Rightarrow> bool \<times> py_error" where
  "execution_optional_digest v name = (pred_option is_digest v, CanaryExecutionError (name @ '' is invalid''))"

definition execution_receipt_guards :: "canary_execution_receipt \<Rightarrow> (bool \<times> py_error) list" where
  "execution_receipt_guards r =
     [execution_require_digest (er_policy_digest r) ''Canary policy digest'',
      execution_require_digest (er_contract_digest r) ''Canary contract digest'',
      execution_require_digest (er_claim_digest r) ''Canary claim digest'',
      execution_require_digest (er_request_digest r) ''Canary request digest'',
      execution_require_digest (er_chain_head_digest r) ''Canary chain head digest'',
      execution_optional_digest (er_semantic_readback_digest r) ''Canary execution read-back digest'',
      execution_optional_digest (er_canary_receipt_digest r) ''Canary execution receipt digest'',
      execution_optional_digest (er_predecessor_digest r) ''Canary predecessor receipt digest'',
      execution_optional_digest (er_pre_state_digest r) ''Canary pre-state read-back digest'',
      (er_purpose r = FOR_EXECUTE \<longrightarrow> er_predecessor_digest r = None \<and> er_pre_state_digest r = None,
         CanaryExecutionError ''ordinary Canary execution cannot carry cleanup preconditions''),
      (er_purpose r \<noteq> FOR_EXECUTE \<longrightarrow> er_predecessor_digest r \<noteq> None \<and> er_pre_state_digest r \<noteq> None,
         CanaryExecutionError ''rollback or cleanup lacks reconciled predecessor evidence''),
      (\<not> (er_retry_used r \<and> er_state r = RETRY_ALLOWED),
         CanaryExecutionError ''consumed Canary retry cannot remain retry-allowed''),
      (er_state r = VERIFIED \<longrightarrow> er_semantic_readback_digest r \<noteq> None \<and> er_canary_receipt_digest r \<noteq> None,
         CanaryExecutionError ''verified Canary transition lacks semantic receipt evidence''),
      (er_state r \<noteq> VERIFIED \<longrightarrow> er_canary_receipt_digest r = None,
         CanaryExecutionError ''unverified Canary transition cannot advance the receipt chain'')]"

definition make_execution_receipt :: "canary_execution_receipt \<Rightarrow> canary_execution_receipt result" where
  "make_execution_receipt r = construct (execution_receipt_guards r)
     (r\<lparr>er_receipt_digest := digest_value (JObj (execution_payload r))\<rparr>)"

text \<open>The constructor call that \<open>reserve\<close>, \<open>update\<close> and \<open>consume_retry\<close> make for a record.\<close>

definition receipt_for ::
  "canary_authorization \<Rightarrow> canary_transition_purpose \<Rightarrow> canary_transition_state \<Rightarrow> string option \<Rightarrow> string option
     \<Rightarrow> string option \<Rightarrow> string option \<Rightarrow> bool \<Rightarrow> canary_execution_receipt result" where
  "receipt_for a purpose state readback canary_digest predecessor pre_state retry_used = make_execution_receipt
     \<lparr>er_policy_digest = au_policy_digest a, er_contract_digest = au_contract_digest a,
      er_claim_digest = claim_digest a, er_request_digest = au_request_digest a,
      er_chain_head_digest = au_receipt_chain_head_digest a, er_purpose = purpose, er_state = state,
      er_semantic_readback_digest = readback, er_canary_receipt_digest = canary_digest,
      er_predecessor_digest = predecessor, er_pre_state_digest = pre_state,
      er_retry_used = retry_used, er_receipt_digest = []\<rparr>"

section \<open>The ledger\<close>

definition make_ledger :: "bounded_canary_policy \<Rightarrow> canary_ledger result" where
  "make_ledger policy = bind_result (genesis_canary_receipt policy) (\<lambda>genesis.
     Inr \<lparr>lg_policy = policy, lg_chain = [genesis], lg_records = [], lg_hydrated = False\<rparr>)"

definition ledger_record :: "canary_ledger \<Rightarrow> string \<Rightarrow> transition_record option result" where
  "ledger_record lg claim = construct [execution_require_digest claim ''Canary claim digest''] (map_of (lg_records lg) claim)"

definition ledger_matching ::
  "canary_ledger \<Rightarrow> canary_mutation_request \<Rightarrow> canary_transition_purpose \<Rightarrow> transition_record option result" where
  "ledger_matching lg request purpose =
     (case [rec \<leftarrow> map snd (lg_records lg). tr_request rec = request \<and> tr_purpose rec = purpose] of
        [] \<Rightarrow> Inr None
      | [rec] \<Rightarrow> Inr (Some rec)
      | _ \<Rightarrow> Inl (CanaryExecutionError ''Canary execution replay is ambiguous''))"

definition ledger_predecessor :: "canary_ledger \<Rightarrow> transition_record option result" where
  "ledger_predecessor lg = (let head = last (lg_chain lg) in
     if predecessor_receipt_digest head = None then Inr None else
     (case [rec \<leftarrow> map snd (lg_records lg). tr_state rec = VERIFIED \<and> tr_canary_receipt rec = Some head
              \<and> er_canary_receipt_digest (tr_receipt rec) = Some (receipt_digest head)] of
        [rec] \<Rightarrow> Inr (Some rec)
      | _ \<Rightarrow> Inl (CanaryExecutionError ''Canary retained predecessor is unavailable or ambiguous'')))"

definition ledger_reserve ::
  "canary_ledger \<Rightarrow> canary_authorization \<Rightarrow> canary_mutation_request \<Rightarrow> canary_transition_purpose
     \<Rightarrow> string option \<Rightarrow> string option \<Rightarrow> (canary_ledger \<times> transition_record \<times> bool) result" where
  "ledger_reserve lg authorization request purpose predecessor pre_state =
     (case map_of (lg_records lg) (claim_digest authorization) of
        Some existing \<Rightarrow>
          if tr_request existing \<noteq> request \<or> tr_purpose existing \<noteq> purpose
          then Inl (CanaryExecutionError ''Canary consumption fence was reused with a different transition'')
          else Inr (lg, existing, False)
      | None \<Rightarrow>
          bind_result (receipt_for authorization purpose CLAIMED None None predecessor pre_state False) (\<lambda>receipt.
            let rec = \<lparr>tr_authorization = authorization, tr_request = request, tr_purpose = purpose, tr_state = CLAIMED,
              tr_receipt = receipt, tr_canary_receipt = None, tr_retry_used = False,
              tr_predecessor_digest = predecessor, tr_pre_state_digest = pre_state\<rparr> in
            Inr (lg\<lparr>lg_records := lg_records lg @ [(claim_digest authorization, rec)]\<rparr>, rec, True)))"

definition put_record :: "string \<Rightarrow> transition_record \<Rightarrow> canary_ledger \<Rightarrow> canary_ledger" where
  "put_record claim rec lg = lg\<lparr>lg_records := AList.update claim rec (lg_records lg)\<rparr>"

text \<open>
  \<open>update\<close>: a verified receipt is appended to the chain and state and Canary receipt are stored
  before the new execution receipt is built.
\<close>

definition ledger_update ::
  "string \<Rightarrow> canary_transition_state \<Rightarrow> string option \<Rightarrow> bounded_canary_receipt option \<Rightarrow> bool option
     \<Rightarrow> canary_ledger \<Rightarrow> canary_ledger \<times> transition_record result" where
  "ledger_update claim state readback canary_receipt retry_used lg =
     (case map_of (lg_records lg) claim of
        None \<Rightarrow> (lg, Inl (CanaryExecutionError ''Canary execution record is stale''))
      | Some rec \<Rightarrow>
          if state = VERIFIED \<and> canary_receipt = None
            then (lg, Inl (CanaryExecutionError ''verified Canary transition has no receipt'')) else
          if state = VERIFIED \<and> predecessor_receipt_digest (the canary_receipt)
               \<noteq> Some (au_receipt_chain_head_digest (tr_authorization rec))
            then (lg, Inl (CanaryExecutionError ''verified Canary transition has stale chain evidence'')) else
          if state \<noteq> VERIFIED \<and> canary_receipt \<noteq> None
            then (lg, Inl (CanaryExecutionError ''unverified Canary transition cannot advance the chain'')) else
          (let lg' = (if state = VERIFIED then lg\<lparr>lg_chain := lg_chain lg @ [the canary_receipt]\<rparr> else lg);
               rec' = rec\<lparr>tr_state := state, tr_canary_receipt := canary_receipt,
                 tr_retry_used := (case retry_used of Some b \<Rightarrow> b | None \<Rightarrow> tr_retry_used rec)\<rparr> in
           case receipt_for (tr_authorization rec') (tr_purpose rec') state readback (map_option receipt_digest canary_receipt)
                  (tr_predecessor_digest rec') (tr_pre_state_digest rec') (tr_retry_used rec') of
             Inl e \<Rightarrow> (put_record claim rec' lg', Inl e)
           | Inr receipt \<Rightarrow>
               (put_record claim (rec'\<lparr>tr_receipt := receipt\<rparr>) lg', Inr (rec'\<lparr>tr_receipt := receipt\<rparr>))))"

definition consume_retry :: "string \<Rightarrow> canary_ledger \<Rightarrow> canary_ledger \<times> bool result" where
  "consume_retry claim lg =
     (case map_of (lg_records lg) claim of
        None \<Rightarrow> (lg, Inr False)
      | Some rec \<Rightarrow>
          if tr_state rec \<noteq> RETRY_ALLOWED \<or> tr_retry_used rec then (lg, Inr False) else
          (let rec' = rec\<lparr>tr_retry_used := True, tr_state := CLAIMED\<rparr> in
           case receipt_for (tr_authorization rec') (tr_purpose rec') CLAIMED None None
                  (tr_predecessor_digest rec') (tr_pre_state_digest rec') True of
             Inl e \<Rightarrow> (put_record claim rec' lg, Inl e)
           | Inr receipt \<Rightarrow> (put_record claim (rec'\<lparr>tr_receipt := receipt\<rparr>) lg, Inr True)))"

section \<open>The orchestrator\<close>

text \<open>
  Answers of the owner-host capabilities. The lease and the dispatch are used for a truth value
  only, of the returned object and of its \<open>accepted\<close> attribute: \<open>None\<close> stands for an exception. For a
  read-back, \<open>Foreign\<close> is a returned object of another type and \<open>Raises\<close> an exception; an answer
  arrives as the arguments of \<open>CanarySemanticReadback\<close>, whose constructor rejects a malformed
  digest inside the broker.
\<close>

datatype 'a answer = Answer 'a | Foreign | Raises py_error

record canary_host =
  lease_claim :: "string \<Rightarrow> string \<Rightarrow> bool option"
  broker_dispatch :: "canary_authorization \<Rightarrow> canary_mutation_request \<Rightarrow> canary_transition_purpose \<Rightarrow> bool option"
  broker_readback :: "canary_authorization \<Rightarrow> canary_mutation_request \<Rightarrow> (canary_readback_state \<times> string) answer"
  broker_pre_readback ::
    "canary_authorization \<Rightarrow> canary_mutation_request \<Rightarrow> string \<Rightarrow> (canary_readback_state \<times> string) answer"

fun received :: "(canary_readback_state \<times> string) answer \<Rightarrow> canary_semantic_readback answer" where
  "received (Answer (s, d)) = (case make_readback s d of Inr rb \<Rightarrow> Answer rb | Inl e \<Rightarrow> Raises e)"
| "received Foreign = Foreign"
| "received (Raises e) = Raises e"

datatype canary_effect =
    PreReadback canary_authorization canary_mutation_request string
  | ClaimLease string string
  | Dispatch canary_authorization canary_mutation_request canary_transition_purpose
  | Readback canary_authorization canary_mutation_request

text \<open>
  \<open>except (AttributeError, TypeError, ValueError, CanaryExecutionError, CanaryPolicyError)\<close>: every
  error class of the program derives from \<open>ValueError\<close>; a \<open>KeyError\<close> and other exceptions of a
  capability pass through.
\<close>

fun caught :: "py_error \<Rightarrow> bool" where
  "caught (PyKeyError _) = False"
| "caught (PyException _) = False"
| "caught _ = True"

record canary_orchestrator =
  or_policy :: bounded_canary_policy
  or_context :: canary_authority_context
  or_ledger :: canary_ledger

definition make_orchestrator ::
  "bounded_canary_policy \<Rightarrow> canary_authority_context \<Rightarrow> canary_ledger option \<Rightarrow> canary_orchestrator result" where
  "make_orchestrator policy context ledger =
     bind_result (case ledger of None \<Rightarrow> make_ledger policy | Some lg \<Rightarrow> Inr lg) (\<lambda>lg.
     if cp_policy_digest (lg_policy lg) \<noteq> cp_policy_digest policy
       then Inl (CanaryExecutionError ''Canary execution ledger is not bound to the selected policy'') else
     if cc_prior_receipt_digest context \<noteq> Some (receipt_digest (last (lg_chain lg)))
       then Inl (CanaryExecutionError ''Canary execution context is not bound to the ledger genesis receipt'') else
     Inr \<lparr>or_policy = policy, or_context = context, or_ledger = lg\<rparr>)"

text \<open>\<open>_decision\<close>: \<open>replace\<close> rebuilds the context, and so runs its constructor again.\<close>

definition orch_decision :: "canary_orchestrator \<Rightarrow> canary_mutation_request \<Rightarrow> canary_decision result" where
  "orch_decision oc request =
     (let chain = lg_chain (or_ledger oc);
          c = (or_context oc)\<lparr>cc_prior_receipt_digest := Some (receipt_digest (last chain))\<rparr> in
      bind_result (construct (context_construct_guards c) c) (\<lambda>c.
        authorize_canary_request (Some (or_policy oc)) (Some c) (Some request) (Some chain)))"

type_synonym execution_outcome = "canary_ledger \<times> canary_effect list \<times> canary_execution_result result"

definition exec_result ::
  "canary_decision \<Rightarrow> canary_execution_receipt option \<Rightarrow> bounded_canary_receipt option \<Rightarrow> canary_execution_result" where
  "exec_result d r c = \<lparr>xr_decision = d, xr_receipt = r, xr_canary_receipt = c\<rparr>"

definition exec_denied :: "string \<Rightarrow> string option \<Rightarrow> canary_execution_receipt option \<Rightarrow> bounded_canary_receipt option
    \<Rightarrow> canary_execution_result" where
  "exec_denied why digest r c = exec_result (canary_denied why digest) r c"

text \<open>A ledger update whose exception the caller does not handle.\<close>

definition after_update ::
  "canary_ledger \<times> transition_record result \<Rightarrow> (transition_record \<Rightarrow> canary_execution_result) \<Rightarrow> execution_outcome" where
  "after_update u result = (case u of (lg, Inl e) \<Rightarrow> (lg, [], Inl e) | (lg, Inr rec) \<Rightarrow> (lg, [], Inr (result rec)))"

definition prefix_effects :: "canary_effect list \<Rightarrow> execution_outcome \<Rightarrow> execution_outcome" where
  "prefix_effects es out = (case out of (lg, fs, res) \<Rightarrow> (lg, es @ fs, res))"

definition reconciliation_failed :: "canary_decision \<Rightarrow> string \<Rightarrow> canary_ledger \<Rightarrow> execution_outcome" where
  "reconciliation_failed d claim lg = after_update (ledger_update claim QUARANTINED None None None lg)
     (\<lambda>rec. exec_denied ''Canary receipt reconciliation failed'' (cd_policy_digest d) (Some (tr_receipt rec)) None)"

definition readback_applied ::
  "canary_decision \<Rightarrow> transition_record \<Rightarrow> string \<Rightarrow> canary_ledger \<Rightarrow> execution_outcome" where
  "readback_applied d rec digest lg = (let claim = claim_digest (tr_authorization rec) in
     case advance_canary_receipt (last (lg_chain lg)) (rq_operation (tr_request rec)) digest of
       Inl e \<Rightarrow> if caught e then reconciliation_failed d claim lg else (lg, [], Inl e)
     | Inr canary_receipt \<Rightarrow>
         (case ledger_update claim VERIFIED (Some digest) (Some canary_receipt) None lg of
            (lg', Inr rec') \<Rightarrow> (lg', [], Inr (exec_result d (Some (tr_receipt rec')) (tr_canary_receipt rec')))
          | (lg', Inl e) \<Rightarrow> if caught e then reconciliation_failed d claim lg' else (lg', [], Inl e)))"

definition readback_ambiguous ::
  "canary_decision \<Rightarrow> transition_record \<Rightarrow> string option \<Rightarrow> canary_ledger \<Rightarrow> execution_outcome" where
  "readback_ambiguous d rec digest lg =
     after_update (ledger_update (claim_digest (tr_authorization rec)) QUARANTINED digest None None lg)
       (\<lambda>rec'. exec_denied ''Canary outcome is ambiguous; semantic reconciliation is required'' (cd_policy_digest d)
          (Some (tr_receipt rec')) None)"

definition readback_absent ::
  "canary_decision \<Rightarrow> transition_record \<Rightarrow> bool \<Rightarrow> string \<Rightarrow> canary_ledger \<Rightarrow> execution_outcome" where
  "readback_absent d rec allow_retry digest lg =
     (let state = (if allow_retry \<and> \<not> tr_retry_used rec then RETRY_ALLOWED else PRESERVED_FOR_OWNER) in
      after_update (ledger_update (claim_digest (tr_authorization rec)) state (Some digest) None None lg)
        (\<lambda>rec'. exec_result \<lparr>cd_authorized = False, cd_reason = ''Canary read-back does not prove the requested transition'',
             cd_policy_digest = cd_policy_digest d,
             cd_next_action = (if state = RETRY_ALLOWED then ''retry-after-semantic-readback'' else ''preserve-for-owner''),
             cd_authorization = None\<rparr> (Some (tr_receipt rec')) None))"

definition orch_readback ::
  "canary_host \<Rightarrow> canary_decision \<Rightarrow> canary_authorization \<Rightarrow> transition_record \<Rightarrow> bool \<Rightarrow> canary_ledger
     \<Rightarrow> execution_outcome" where
  "orch_readback host d a rec allow_retry lg = prefix_effects [Readback a (tr_request rec)]
     (case received (broker_readback host a (tr_request rec)) of
        Answer rb \<Rightarrow>
          (case rb_state rb of
             AMBIGUOUS \<Rightarrow> readback_ambiguous d rec (Some (rb_digest rb)) lg
           | APPLIED \<Rightarrow> readback_applied d rec (rb_digest rb) lg
           | ABSENT \<Rightarrow> readback_absent d rec allow_retry (rb_digest rb) lg)
      | _ \<Rightarrow> readback_ambiguous d rec None lg)"

definition orch_dispatch ::
  "canary_host \<Rightarrow> canary_decision \<Rightarrow> canary_authorization \<Rightarrow> transition_record \<Rightarrow> canary_ledger \<Rightarrow> execution_outcome" where
  "orch_dispatch host d a rec lg = prefix_effects [Dispatch a (tr_request rec) (tr_purpose rec)]
     (orch_readback host d a rec (broker_dispatch host a (tr_request rec) (tr_purpose rec) \<noteq> Some True) lg)"

text \<open>
  The precondition block of \<open>_begin\<close> for rollback and cleanup: the effects made and either the two
  retained digests or the exception that left the block.
\<close>

definition cleanup_precondition ::
  "canary_host \<Rightarrow> canary_authorization \<Rightarrow> canary_mutation_request \<Rightarrow> canary_ledger
     \<Rightarrow> canary_effect list \<times> (string \<times> string) result" where
  "cleanup_precondition host a request lg =
     (case ledger_predecessor lg of
        Inl e \<Rightarrow> ([], Inl e)
      | Inr None \<Rightarrow> ([], Inl (CanaryExecutionError ''Canary rollback has no retained predecessor transition''))
      | Inr (Some predecessor) \<Rightarrow>
          if tr_canary_receipt predecessor = None
            then ([], Inl (CanaryExecutionError ''Canary rollback has no retained predecessor transition'')) else
          (case cleanup_action_for (rq_operation (tr_request predecessor)) of
             Inl e \<Rightarrow> ([], Inl e)
           | Inr reversing \<Rightarrow>
               if rq_operation request \<noteq> reversing \<or> rq_branch request \<noteq> rq_branch (tr_request predecessor)
                  \<or> rq_paths request \<noteq> rq_paths (tr_request predecessor)
                 then ([], Inl (CanaryExecutionError ''Canary rollback action does not exactly reverse its retained predecessor'')) else
               (let digest = er_receipt_digest (tr_receipt predecessor) in
                ([PreReadback a request digest],
                 (case received (broker_pre_readback host a request digest) of
                    Raises e \<Rightarrow> Inl e
                  | Foreign \<Rightarrow> Inl (CanaryExecutionError ''Canary rollback pre-state is absent or ambiguous'')
                  | Answer rb \<Rightarrow>
                      if cleanup_disposition (rq_operation request = reversing) (rb_state rb = APPLIED) \<noteq> ROLLBACK
                      then Inl (CanaryExecutionError ''Canary rollback pre-state is absent or ambiguous'')
                      else Inr (digest, rb_digest rb))))))"

definition begin_reserved ::
  "canary_host \<Rightarrow> canary_decision \<Rightarrow> canary_authorization \<Rightarrow> canary_mutation_request \<Rightarrow> canary_transition_purpose
     \<Rightarrow> string option \<Rightarrow> string option \<Rightarrow> canary_ledger \<Rightarrow> execution_outcome" where
  "begin_reserved host d a request purpose predecessor pre_state lg =
     (case ledger_reserve lg a request purpose predecessor pre_state of
        Inl e \<Rightarrow> (lg, [], Inr (exec_denied ''Canary consumption fence conflicts'' (cd_policy_digest d) None None))
      | Inr (lg', rec, newly_reserved) \<Rightarrow>
          if \<not> newly_reserved then (lg', [], Inr (exec_result d (Some (tr_receipt rec)) (tr_canary_receipt rec))) else
          prefix_effects [ClaimLease (consumption_key a) (claim_digest a)]
            (if lease_claim host (consumption_key a) (claim_digest a) \<noteq> Some True
             then after_update (ledger_update (claim_digest a) PRESERVED_FOR_OWNER None None None lg')
                    (\<lambda>rec'. exec_denied ''another Orchestrator owns this Canary transition'' (cd_policy_digest d)
                       (Some (tr_receipt rec')) None)
             else orch_dispatch host d a rec lg'))"

definition orch_begin ::
  "canary_host \<Rightarrow> canary_orchestrator \<Rightarrow> canary_mutation_request \<Rightarrow> canary_transition_purpose \<Rightarrow> execution_outcome" where
  "orch_begin host oc request purpose =
     (let lg = or_ledger oc; policy_digest = cp_policy_digest (or_policy oc) in
      case ledger_matching lg request purpose of
        Inl e \<Rightarrow> (lg, [], Inr (exec_denied ''Canary duplicate-delivery identity is ambiguous'' (Some policy_digest) None None))
      | Inr (Some prior) \<Rightarrow>
          (lg, [], Inr (exec_result
             \<lparr>cd_authorized = True, cd_reason = ''duplicate Canary delivery converged on its retained receipt'',
              cd_policy_digest = Some policy_digest, cd_next_action = ''reuse-receipt'', cd_authorization = None\<rparr>
             (Some (tr_receipt prior)) (tr_canary_receipt prior)))
      | Inr None \<Rightarrow>
          (case (case orch_decision oc request of
                   Inr d \<Rightarrow> Inr d
                 | Inl e \<Rightarrow> if caught e then Inr (canary_denied ''Canary execution evidence is unavailable'' None) else Inl e) of
             Inl e \<Rightarrow> (lg, [], Inl e)
           | Inr d \<Rightarrow>
               (case (cd_authorized d, cd_authorization d) of
                  (True, Some a) \<Rightarrow>
                    if purpose = FOR_EXECUTE then begin_reserved host d a request purpose None None lg else
                    (case cleanup_precondition host a request lg of
                       (es, Inl e) \<Rightarrow>
                         (lg, es, if caught e
                            then Inr (exec_denied ''Canary rollback or cleanup requires retained reversible semantic pre-state''
                                        (cd_policy_digest d) None None)
                            else Inl e)
                     | (es, Inr (predecessor, pre_state)) \<Rightarrow>
                         prefix_effects es (begin_reserved host d a request purpose (Some predecessor) (Some pre_state) lg))
                | _ \<Rightarrow> (lg, [], Inr (exec_result d None None)))))"

definition execute :: "canary_host \<Rightarrow> canary_orchestrator \<Rightarrow> canary_mutation_request \<Rightarrow> execution_outcome" where
  "execute host oc request = orch_begin host oc request FOR_EXECUTE"

definition rollback :: "canary_host \<Rightarrow> canary_orchestrator \<Rightarrow> canary_mutation_request \<Rightarrow> execution_outcome" where
  "rollback host oc request = orch_begin host oc request FOR_ROLLBACK"

definition cleanup :: "canary_host \<Rightarrow> canary_orchestrator \<Rightarrow> canary_mutation_request \<Rightarrow> execution_outcome" where
  "cleanup host oc request = orch_begin host oc request FOR_CLEANUP"

text \<open>
  The common beginning of \<open>reconcile\<close> and \<open>retry\<close>: the record must exist and be authorized again,
  by the very authorization it was reserved with.
\<close>

definition with_retained ::
  "canary_orchestrator \<Rightarrow> string \<Rightarrow> string \<Rightarrow> (canary_decision \<Rightarrow> transition_record \<Rightarrow> execution_outcome)
     \<Rightarrow> execution_outcome" where
  "with_retained oc claim drifted continue = (let lg = or_ledger oc in
     case ledger_record lg claim of
       Inl e \<Rightarrow> (lg, [], Inl e)
     | Inr None \<Rightarrow> (lg, [], Inr (exec_denied ''Canary transition is unknown'' None None None))
     | Inr (Some rec) \<Rightarrow>
         (case orch_decision oc (tr_request rec) of
            Inl e \<Rightarrow> (lg, [], Inl e)
          | Inr d \<Rightarrow>
              if \<not> cd_authorized d \<or> cd_authorization d \<noteq> Some (tr_authorization rec)
              then (lg, [], Inr (exec_denied drifted (cd_policy_digest d) (Some (tr_receipt rec)) (tr_canary_receipt rec)))
              else continue d rec))"

definition reconcile :: "canary_host \<Rightarrow> canary_orchestrator \<Rightarrow> string \<Rightarrow> execution_outcome" where
  "reconcile host oc claim = with_retained oc claim ''Canary reconciliation evidence has drifted'' (\<lambda>d rec.
     if tr_state rec \<notin> {QUARANTINED, RETRY_ALLOWED}
     then (or_ledger oc, [], Inr (exec_result d (Some (tr_receipt rec)) (tr_canary_receipt rec)))
     else orch_readback host d (tr_authorization rec) rec True (or_ledger oc))"

definition retry_consumed ::
  "canary_host \<Rightarrow> canary_decision \<Rightarrow> transition_record \<Rightarrow> canary_ledger \<Rightarrow> execution_outcome" where
  "retry_consumed host d rec lg = (let claim = claim_digest (tr_authorization rec) in
     case consume_retry claim lg of
       (lg', Inl e) \<Rightarrow> (lg', [], Inl e)
     | (lg', Inr False) \<Rightarrow>
         (lg', [], Inr (exec_denied ''Canary retry budget is exhausted'' (cd_policy_digest d) (Some (tr_receipt rec)) None))
     | (lg', Inr True) \<Rightarrow>
         orch_dispatch host d (tr_authorization rec) (the (map_of (lg_records lg') claim)) lg')"

definition retry :: "canary_host \<Rightarrow> canary_orchestrator \<Rightarrow> string \<Rightarrow> execution_outcome" where
  "retry host oc claim = with_retained oc claim ''Canary retry evidence has drifted'' (\<lambda>d rec.
     let lg = or_ledger oc; a = tr_authorization rec in
     if tr_state rec \<noteq> RETRY_ALLOWED
       then (lg, [], Inr (exec_denied ''Canary retry requires an absent semantic read-back'' (cd_policy_digest d)
               (Some (tr_receipt rec)) None)) else
     if lg_hydrated lg
       then prefix_effects [ClaimLease (consumption_key a) (claim_digest a)]
         (if lease_claim host (consumption_key a) (claim_digest a) \<noteq> Some True
          then after_update (ledger_update (claim_digest a) PRESERVED_FOR_OWNER None None None lg)
                 (\<lambda>rec'. exec_denied ''replacement Orchestrator cannot prove the original retry fence'' (cd_policy_digest d)
                    (Some (tr_receipt rec')) None)
          else retry_consumed host d rec lg)
       else retry_consumed host d rec lg)"

end
