(* ===== verification/Canary_Safety.thy ===== *)
theory Canary_Safety
  imports Canary_Execution
begin

text \<open>
  What the Canary orchestrator guarantees over whole runs: the ledger invariant, the life cycle of
  a claim as an abstract machine that the operations refine, and what follows from it for
  dispatches, read-backs, duplicate deliveries and the receipt chain.
\<close>

section \<open>Receipts of records\<close>

definition cleanup_evidence :: "canary_transition_purpose \<Rightarrow> string option \<Rightarrow> string option \<Rightarrow> bool" where
  "cleanup_evidence purpose predecessor pre_state \<longleftrightarrow>
     (purpose = FOR_EXECUTE \<longrightarrow> predecessor = None \<and> pre_state = None)
     \<and> (purpose \<noteq> FOR_EXECUTE \<longrightarrow> predecessor \<noteq> None \<and> pre_state \<noteq> None)"

lemma execution_receipt_guards_iff:
  "list_all fst (execution_receipt_guards r) \<longleftrightarrow>
     is_digest (er_policy_digest r) \<and> is_digest (er_contract_digest r) \<and> is_digest (er_claim_digest r)
     \<and> is_digest (er_request_digest r) \<and> is_digest (er_chain_head_digest r)
     \<and> pred_option is_digest (er_semantic_readback_digest r) \<and> pred_option is_digest (er_canary_receipt_digest r)
     \<and> pred_option is_digest (er_predecessor_digest r) \<and> pred_option is_digest (er_pre_state_digest r)
     \<and> cleanup_evidence (er_purpose r) (er_predecessor_digest r) (er_pre_state_digest r)
     \<and> \<not> (er_retry_used r \<and> er_state r = RETRY_ALLOWED)
     \<and> (er_state r = VERIFIED \<longrightarrow> er_semantic_readback_digest r \<noteq> None)
     \<and> (er_state r = VERIFIED \<longleftrightarrow> er_canary_receipt_digest r \<noteq> None)"
  by (cases "er_purpose r = FOR_EXECUTE"; cases "er_state r = VERIFIED"; cases "er_canary_receipt_digest r")
    (auto simp: execution_receipt_guards_def execution_require_digest_def execution_optional_digest_def
      cleanup_evidence_def)

lemma authorization_fields:
  assumes "make_authorization policy contract request head = Inr a"
  shows "au_policy_digest a = policy \<and> au_contract_digest a = contract \<and> au_request_digest a = request
    \<and> au_receipt_chain_head_digest a = head \<and> is_digest policy \<and> is_digest contract \<and> is_digest request
    \<and> is_digest head \<and> is_digest (claim_digest a)
    \<and> consumption_key a = digest_value (JObj [(''policy_digest'', JStr policy), (''contract_digest'', JStr contract),
         (''receipt_chain_head_digest'', JStr head)])"
  using assms by (auto simp: make_authorization_def Let_def canary_require_digest_def digest_value_digest)

text \<open>The part of a record that is fixed when it is reserved.\<close>

definition reserved_ok :: "bounded_canary_policy \<Rightarrow> transition_record \<Rightarrow> bool" where
  "reserved_ok p rec \<longleftrightarrow>
     make_authorization (cp_policy_digest p) (cp_contract_digest p) (rq_request_digest (tr_request rec))
       (au_receipt_chain_head_digest (tr_authorization rec)) = Inr (tr_authorization rec)
     \<and> pred_option is_digest (tr_predecessor_digest rec) \<and> pred_option is_digest (tr_pre_state_digest rec)
     \<and> cleanup_evidence (tr_purpose rec) (tr_predecessor_digest rec) (tr_pre_state_digest rec)
     \<and> rq_operation (tr_request rec) \<in> set (requested_operations p) \<and> rq_branch (tr_request rec) = cp_branch p
     \<and> set (rq_paths (tr_request rec)) \<subseteq> set (allowed_paths p)"

definition record_receipt :: "transition_record \<Rightarrow> string option \<Rightarrow> canary_execution_receipt result" where
  "record_receipt rec readback = receipt_for (tr_authorization rec) (tr_purpose rec) (tr_state rec) readback
     (map_option receipt_digest (tr_canary_receipt rec)) (tr_predecessor_digest rec) (tr_pre_state_digest rec) (tr_retry_used rec)"

lemma record_receipt_ok:
  assumes "reserved_ok p rec" "pred_option is_digest readback"
    and "tr_state rec = VERIFIED \<longleftrightarrow> tr_canary_receipt rec \<noteq> None" "tr_state rec = VERIFIED \<Longrightarrow> readback \<noteq> None"
    and "pred_option (\<lambda>cr. is_digest (receipt_digest cr)) (tr_canary_receipt rec)"
    and "\<not> (tr_retry_used rec \<and> tr_state rec = RETRY_ALLOWED)"
  shows "\<exists>r. record_receipt rec readback = Inr r \<and> er_state r = tr_state rec \<and> er_semantic_readback_digest r = readback
     \<and> er_canary_receipt_digest r = map_option receipt_digest (tr_canary_receipt rec)
     \<and> er_claim_digest r = claim_digest (tr_authorization rec)"
proof -
  have a: "make_authorization (cp_policy_digest p) (cp_contract_digest p) (rq_request_digest (tr_request rec))
       (au_receipt_chain_head_digest (tr_authorization rec)) = Inr (tr_authorization rec)"
    and e: "pred_option is_digest (tr_predecessor_digest rec)" "pred_option is_digest (tr_pre_state_digest rec)"
      "cleanup_evidence (tr_purpose rec) (tr_predecessor_digest rec) (tr_pre_state_digest rec)"
    using assms(1) by (simp_all add: reserved_ok_def)
  note f = authorization_fields [OF a]
  have c: "pred_option is_digest (map_option receipt_digest (tr_canary_receipt rec))"
    using assms(5) by (simp add: option.pred_map comp_def)
  show ?thesis
    unfolding record_receipt_def receipt_for_def make_execution_receipt_def
    using f e c assms(2-4,6) by (subst construct_ok) (simp_all add: execution_receipt_guards_iff)
qed

lemma reserved_ok_update [simp]:
  "reserved_ok p (rec\<lparr>tr_state := st\<rparr>) = reserved_ok p rec"
  "reserved_ok p (rec\<lparr>tr_canary_receipt := cr\<rparr>) = reserved_ok p rec"
  "reserved_ok p (rec\<lparr>tr_receipt := r\<rparr>) = reserved_ok p rec"
  "reserved_ok p (rec\<lparr>tr_retry_used := u\<rparr>) = reserved_ok p rec"
  by (simp_all add: reserved_ok_def)

section \<open>The ledger invariant\<close>

text \<open>
  A settled record: its receipt is the one its own fields give; it was authorized at a receipt of
  the chain where the budget had a call left; a Canary receipt, if there is one, is in the chain
  and follows the receipt it was authorized at.
\<close>

definition record_ok :: "bounded_canary_policy \<Rightarrow> bounded_canary_receipt list \<Rightarrow> transition_record \<Rightarrow> bool" where
  "record_ok p chain rec \<longleftrightarrow> reserved_ok p rec \<and> tr_state rec \<noteq> CLAIMED
     \<and> (\<exists>readback. record_receipt rec readback = Inr (tr_receipt rec))
     \<and> (\<exists>i<length chain. int i < total_calls (cp_budget p)
          \<and> au_receipt_chain_head_digest (tr_authorization rec) = receipt_digest (chain ! i))
     \<and> (\<forall>cr. tr_canary_receipt rec = Some cr \<longrightarrow> cr \<in> set chain
          \<and> predecessor_receipt_digest cr = Some (au_receipt_chain_head_digest (tr_authorization rec))
          \<and> er_semantic_readback_digest (tr_receipt rec) = Some (cr_semantic_readback_digest cr))"

definition is_verified :: "transition_record \<Rightarrow> bool" where
  "is_verified rec \<longleftrightarrow> tr_state rec = VERIFIED"

definition delivery :: "transition_record \<Rightarrow> canary_mutation_request \<times> canary_transition_purpose" where
  "delivery rec = (tr_request rec, tr_purpose rec)"

definition chain_ok :: "bounded_canary_policy \<Rightarrow> bounded_canary_receipt list \<Rightarrow> bool" where
  "chain_ok p chain \<longleftrightarrow> canary_policy_validate p = Inr () \<and> validate_canary_receipt_chain p chain = Inr (last chain)
     \<and> (\<forall>r\<in>set chain. cr_policy r = p)"

definition ledger_inv :: "bounded_canary_policy \<Rightarrow> canary_ledger \<Rightarrow> bool" where
  "ledger_inv p lg \<longleftrightarrow> lg_policy lg = p \<and> chain_ok p (lg_chain lg)
     \<and> distinct (map fst (lg_records lg)) \<and> distinct (map (delivery \<circ> snd) (lg_records lg))
     \<and> (\<forall>(claim, rec)\<in>set (lg_records lg). claim = claim_digest (tr_authorization rec) \<and> record_ok p (lg_chain lg) rec)
     \<and> length (filter (is_verified \<circ> snd) (lg_records lg)) + 1 = length (lg_chain lg)"

text \<open>One record added or replaced; a verified one brings its Canary receipt to the chain.\<close>

definition settled :: "canary_ledger \<Rightarrow> string \<Rightarrow> transition_record \<Rightarrow> canary_ledger" where
  "settled lg claim rec = lg\<lparr>lg_chain := lg_chain lg @ (case tr_canary_receipt rec of Some cr \<Rightarrow> [cr] | None \<Rightarrow> []),
     lg_records := AList.update claim rec (lg_records lg)\<rparr>"

lemma chain_ok_facts:
  assumes "chain_ok p chain"
  shows "chain \<noteq> [] \<and> receipt_ok (last chain) \<and> cr_policy (last chain) = p \<and> cr_result (last chain) \<in> {GENESIS, PASS}
     \<and> count_sum (operation_counts (last chain)) = int (length chain) - 1"
proof -
  have v: "validate_canary_receipt_chain p chain = Inr (last chain)" "canary_policy_validate p = Inr ()"
    and same: "\<forall>r\<in>set chain. cr_policy r = p" using assms by (simp_all add: chain_ok_def)
  have "\<forall>r\<in>set chain. \<not> policies_collide p (cr_policy r)" using same by (simp add: no_self_collision)
  from valid_chain_head [OF v this] show ?thesis using same last_in_set [of chain] by simp
qed

lemma chain_ok_snoc:
  assumes "chain_ok p chain" "advance_canary_receipt (last chain) g d = Inr cr"
  shows "chain_ok p (chain @ [cr])"
proof -
  have v: "validate_canary_receipt_chain p chain = Inr (last chain)" "canary_policy_validate p = Inr ()"
    and same: "\<forall>r\<in>set chain. cr_policy r = p" using assms by (simp_all add: chain_ok_def)
  have "\<forall>r\<in>set chain. \<not> policies_collide p (cr_policy r)" using same by (simp add: no_self_collision)
  from advance_extends_aux [OF v this assms(2)] advance_Inr [OF assms(2)] chain_ok_facts [OF assms(1)] same v(2)
  show ?thesis by (auto simp: chain_ok_def)
qed

lemma record_ok_mono: "record_ok p chain rec \<Longrightarrow> record_ok p (chain @ rs) rec"
  unfolding record_ok_def by (auto simp: nth_append)

section \<open>Ledger operations\<close>

lemma caught_iff: "caught e \<longleftrightarrow> (\<forall>k. e \<noteq> PyKeyError k \<and> e \<noteq> PyException k)"
  by (cases e) auto

lemma first_failure_caught:
  "first_failure gs = Some e \<Longrightarrow> list_all (caught \<circ> snd) gs \<Longrightarrow> caught e"
  by (induction gs rule: first_failure.induct) (auto split: if_split_asm)

lemma receipt_guards_caught: "list_all (caught \<circ> snd) (receipt_guards r)"
  by (simp add: receipt_guards_def Let_def canary_require_digest_def)

lemma construct_Inl: "construct gs v = Inl e \<Longrightarrow> list_all (caught \<circ> snd) gs \<Longrightarrow> caught e"
  unfolding construct_def using first_failure_caught by (auto split: option.split_asm)

lemma advance_error_caught:
  assumes "receipt_ok h" "advance_canary_receipt h g d = Inl e"
  shows "caught e"
proof (cases "g \<in> set (requested_operations (cr_policy h)) \<and> cr_result h \<in> {GENESIS, PASS}")
  case False
  with assms show ?thesis
    by (auto simp: advance_canary_receipt_def validate_for_iff [THEN iffD2] split: if_split_asm)
next
  case True
  have v: "validate_for h (cr_policy h) = Inr ()" using assms(1) by (simp add: validate_for_iff)
  have p: "canary_policy_validate (cr_policy h) = Inr ()" using assms(1) by (simp add: receipt_ok_def)
  from True count_of_ok(1) [OF assms(1)] obtain n where "count_of (operation_counts h) g = Inr n" by blast
  with True v p assms(2) show ?thesis
    by (auto simp: advance_canary_receipt_def Let_def make_receipt_def split: if_split_asm
        intro: construct_Inl [OF _ receipt_guards_caught])
qed

text \<open>An update that the record admits: its outcome, as one settled record.\<close>

lemma ledger_update_settles:
  assumes "map_of (lg_records lg) claim = Some rec"
    and "st = VERIFIED \<longleftrightarrow> cr \<noteq> None"
    and "\<And>c. cr = Some c \<Longrightarrow> predecessor_receipt_digest c = Some (au_receipt_chain_head_digest (tr_authorization rec))"
    and "record_receipt (rec\<lparr>tr_state := st, tr_canary_receipt := cr\<rparr>) readback = Inr r"
  shows "ledger_update claim st readback cr None lg =
     (settled lg claim (rec\<lparr>tr_state := st, tr_canary_receipt := cr, tr_receipt := r\<rparr>),
      Inr (rec\<lparr>tr_state := st, tr_canary_receipt := cr, tr_receipt := r\<rparr>))"
  using assms by (cases cr) (auto simp: ledger_update_def Let_def record_receipt_def settled_def put_record_def)

lemma ledger_update_stale:
  assumes "map_of (lg_records lg) claim = Some rec"
    and "predecessor_receipt_digest c \<noteq> Some (au_receipt_chain_head_digest (tr_authorization rec))"
  shows "ledger_update claim VERIFIED readback (Some c) None lg =
     (lg, Inl (CanaryExecutionError ''verified Canary transition has stale chain evidence''))"
  using assms by (simp add: ledger_update_def)

section \<open>Reading back\<close>

text \<open>
  What a read-back makes of a record that is not verified yet. The answer is part of the
  description: only an applied read-back verifies, and then the chain grows by the receipt that
  counts the operation with the digest that was read back.
\<close>

definition reads_back ::
  "canary_host \<Rightarrow> canary_ledger \<Rightarrow> transition_record \<Rightarrow> transition_record \<Rightarrow> bool" where
  "reads_back host lg rec rec' \<longleftrightarrow>
     (\<exists>st cr r. rec' = rec\<lparr>tr_state := st, tr_canary_receipt := cr, tr_receipt := r\<rparr>
        \<and> (\<exists>readback. record_receipt rec' readback = Inr r)
        \<and> st \<noteq> CLAIMED \<and> (st = VERIFIED \<longleftrightarrow> cr \<noteq> None) \<and> \<not> (st = RETRY_ALLOWED \<and> tr_retry_used rec)
        \<and> (\<forall>c. cr = Some c \<longrightarrow>
             predecessor_receipt_digest c = Some (au_receipt_chain_head_digest (tr_authorization rec))
             \<and> er_semantic_readback_digest r = Some (cr_semantic_readback_digest c)
             \<and> broker_readback host (tr_authorization rec) (tr_request rec) = Answer (APPLIED, cr_semantic_readback_digest c)
             \<and> advance_canary_receipt (last (lg_chain lg)) (rq_operation (tr_request rec)) (cr_semantic_readback_digest c) = Inr c))"

lemma update_reads_back:
  assumes "map_of (lg_records lg) claim = Some rec" "reserved_ok p rec"
    and "st \<noteq> VERIFIED" "st \<noteq> CLAIMED" "\<not> (st = RETRY_ALLOWED \<and> tr_retry_used rec)" "pred_option is_digest readback"
  shows "\<exists>rec'. ledger_update claim st readback None None lg = (settled lg claim rec', Inr rec') \<and> reads_back host lg rec rec'
     \<and> tr_state rec' = st"
proof -
  have "reserved_ok p (rec\<lparr>tr_state := st, tr_canary_receipt := None\<rparr>)" using assms(2) by simp
  from record_receipt_ok [OF this assms(6)] assms(3-5) obtain r
    where r: "record_receipt (rec\<lparr>tr_state := st, tr_canary_receipt := None\<rparr>) readback = Inr r" by auto
  have "reads_back host lg rec (rec\<lparr>tr_state := st, tr_canary_receipt := None, tr_receipt := r\<rparr>)"
    unfolding reads_back_def using r assms(3-5)
    by (intro exI [of _ st] exI [of _ None] exI [of _ r]) (auto simp: record_receipt_def)
  with ledger_update_settles [OF assms(1) _ _ r] assms(3) show ?thesis by auto
qed

lemma received_Answer_iff:
  "received ans = Answer rb \<longleftrightarrow> ans = Answer (rb_state rb, rb_digest rb) \<and> is_digest (rb_digest rb)"
  by (cases ans rule: received.cases)
    (auto simp: make_readback_def construct_def execution_require_digest_def split: if_split_asm)

lemma after_update_settles:
  assumes "\<exists>rec'. u = (settled lg claim rec', Inr rec') \<and> reads_back host lg rec rec' \<and> q rec'"
    and "\<And>r. xr_receipt (f r) = Some (tr_receipt r)"
  shows "\<exists>rec' x. after_update u f = (settled lg claim rec', [], Inr x) \<and> reads_back host lg rec rec'
     \<and> xr_receipt x = Some (tr_receipt rec')"
proof -
  from assms(1) obtain rec' where "u = (settled lg claim rec', Inr rec')" "reads_back host lg rec rec'" by blast
  with assms(2) [of rec'] show ?thesis by (intro exI [of _ rec'] exI [of _ "f rec'"]) (simp add: after_update_def)
qed

lemma readback_ambiguous_settles:
  assumes "map_of (lg_records lg) (claim_digest (tr_authorization rec)) = Some rec" "reserved_ok p rec"
    and "pred_option is_digest digest"
  shows "\<exists>rec' x. readback_ambiguous d rec digest lg = (settled lg (claim_digest (tr_authorization rec)) rec', [], Inr x)
     \<and> reads_back host lg rec rec' \<and> xr_receipt x = Some (tr_receipt rec')"
  unfolding readback_ambiguous_def using assms
  by - (rule after_update_settles, rule update_reads_back, simp_all add: exec_denied_def exec_result_def)

lemma reconciliation_failed_settles:
  assumes "map_of (lg_records lg) (claim_digest (tr_authorization rec)) = Some rec" "reserved_ok p rec"
  shows "\<exists>rec' x. reconciliation_failed d (claim_digest (tr_authorization rec)) lg
        = (settled lg (claim_digest (tr_authorization rec)) rec', [], Inr x)
     \<and> reads_back host lg rec rec' \<and> xr_receipt x = Some (tr_receipt rec')"
  unfolding reconciliation_failed_def using assms
  by - (rule after_update_settles, rule update_reads_back, simp_all add: exec_denied_def exec_result_def)

lemma readback_absent_settles:
  assumes "map_of (lg_records lg) (claim_digest (tr_authorization rec)) = Some rec" "reserved_ok p rec" "is_digest digest"
  shows "\<exists>rec' x. readback_absent d rec allow digest lg = (settled lg (claim_digest (tr_authorization rec)) rec', [], Inr x)
     \<and> reads_back host lg rec rec' \<and> xr_receipt x = Some (tr_receipt rec')"
  unfolding readback_absent_def Let_def using assms
  by - (rule after_update_settles, rule update_reads_back, simp_all add: exec_denied_def exec_result_def)

lemma readback_applied_settles:
  assumes chain: "chain_ok p (lg_chain lg)"
    and rec: "map_of (lg_records lg) (claim_digest (tr_authorization rec)) = Some rec" "reserved_ok p rec" "is_digest digest"
    and ans: "broker_readback host (tr_authorization rec) (tr_request rec) = Answer (APPLIED, digest)"
  shows "\<exists>rec' x. readback_applied d rec digest lg = (settled lg (claim_digest (tr_authorization rec)) rec', [], Inr x)
     \<and> reads_back host lg rec rec' \<and> xr_receipt x = Some (tr_receipt rec')"
proof (cases "advance_canary_receipt (last (lg_chain lg)) (rq_operation (tr_request rec)) digest")
  case (Inl e)
  with advance_error_caught chain_ok_facts [OF chain] have "caught e" by blast
  with Inl reconciliation_failed_settles [OF rec(1,2)] show ?thesis by (simp add: readback_applied_def Let_def)
next
  case (Inr c)
  note adv = advance_Inr [OF Inr]
  show ?thesis
  proof (cases "predecessor_receipt_digest c = Some (au_receipt_chain_head_digest (tr_authorization rec))")
    case False
    with Inr ledger_update_stale [OF rec(1) False] reconciliation_failed_settles [OF rec(1,2)] show ?thesis
      by (simp add: readback_applied_def Let_def)
  next
    case True
    have "is_digest (receipt_digest c)" using adv by (simp add: receipt_ok_def digest_value_digest)
    with record_receipt_ok [of p "rec\<lparr>tr_state := VERIFIED, tr_canary_receipt := Some c\<rparr>" "Some digest"] rec(2,3)
    obtain r where r: "record_receipt (rec\<lparr>tr_state := VERIFIED, tr_canary_receipt := Some c\<rparr>) (Some digest) = Inr r"
      and rb: "er_semantic_readback_digest r = Some digest" by auto
    let ?rec' = "rec\<lparr>tr_state := VERIFIED, tr_canary_receipt := Some c, tr_receipt := r\<rparr>"
    have "reads_back host lg rec ?rec'" unfolding reads_back_def
      using r rb ans Inr adv True by (intro exI [of _ VERIFIED] exI [of _ "Some c"] exI [of _ r]) (auto simp: record_receipt_def)
    with ledger_update_settles [OF rec(1) _ _ r] True Inr show ?thesis
      by (intro exI [of _ ?rec']) (auto simp: readback_applied_def Let_def exec_result_def)
  qed
qed

lemma orch_readback_settles:
  assumes "chain_ok p (lg_chain lg)" "map_of (lg_records lg) (claim_digest (tr_authorization rec)) = Some rec" "reserved_ok p rec"
  shows "\<exists>rec' x. orch_readback host d (tr_authorization rec) rec allow lg =
        (settled lg (claim_digest (tr_authorization rec)) rec', [Readback (tr_authorization rec) (tr_request rec)], Inr x)
     \<and> reads_back host lg rec rec' \<and> xr_receipt x = Some (tr_receipt rec')"
proof (cases "received (broker_readback host (tr_authorization rec) (tr_request rec))")
  case (Answer rb)
  then have rb: "broker_readback host (tr_authorization rec) (tr_request rec) = Answer (rb_state rb, rb_digest rb)"
    "is_digest (rb_digest rb)" by (simp_all add: received_Answer_iff)
  show ?thesis
    using Answer rb assms readback_applied_settles [OF assms rb(2), of host d]
      readback_absent_settles [OF assms(2,3) rb(2), of d allow host]
      readback_ambiguous_settles [OF assms(2,3), of "Some (rb_digest rb)" d host]
    by (cases "rb_state rb") (auto simp: orch_readback_def prefix_effects_def)
qed (use readback_ambiguous_settles [OF assms(2,3), of None d host] in \<open>auto simp: orch_readback_def prefix_effects_def\<close>)

lemma orch_dispatch_settles:
  assumes "chain_ok p (lg_chain lg)" "map_of (lg_records lg) (claim_digest (tr_authorization rec)) = Some rec" "reserved_ok p rec"
  shows "\<exists>rec' x. orch_dispatch host d (tr_authorization rec) rec lg =
        (settled lg (claim_digest (tr_authorization rec)) rec',
         [Dispatch (tr_authorization rec) (tr_request rec) (tr_purpose rec), Readback (tr_authorization rec) (tr_request rec)], Inr x)
     \<and> reads_back host lg rec rec' \<and> xr_receipt x = Some (tr_receipt rec')"
proof -
  let ?allow = "broker_dispatch host (tr_authorization rec) (tr_request rec) (tr_purpose rec) \<noteq> Some True"
  from orch_readback_settles [OF assms, of host d ?allow] obtain rec' x where
    "orch_readback host d (tr_authorization rec) rec ?allow lg =
        (settled lg (claim_digest (tr_authorization rec)) rec', [Readback (tr_authorization rec) (tr_request rec)], Inr x)"
    "reads_back host lg rec rec'" "xr_receipt x = Some (tr_receipt rec')" by blast
  then show ?thesis by (intro exI [of _ rec'] exI [of _ x]) (simp add: orch_dispatch_def prefix_effects_def)
qed

section \<open>What one operation does to the ledger\<close>

datatype canary_op = Execute canary_mutation_request | Rollback canary_mutation_request | Cleanup canary_mutation_request
  | Reconcile string | Retry string

fun run_canary :: "canary_host \<Rightarrow> canary_orchestrator \<Rightarrow> canary_op \<Rightarrow> execution_outcome" where
  "run_canary host oc (Execute request) = execute host oc request"
| "run_canary host oc (Rollback request) = rollback host oc request"
| "run_canary host oc (Cleanup request) = cleanup host oc request"
| "run_canary host oc (Reconcile claim) = reconcile host oc claim"
| "run_canary host oc (Retry claim) = retry host oc claim"

fun is_pre_readback :: "canary_effect \<Rightarrow> bool" where
  "is_pre_readback (PreReadback _ _ _) = True"
| "is_pre_readback _ = False"

definition claim_of :: "transition_record \<Rightarrow> string" where
  "claim_of rec = claim_digest (tr_authorization rec)"

definition lease_granted :: "canary_host \<Rightarrow> transition_record \<Rightarrow> bool" where
  "lease_granted host rec \<longleftrightarrow> lease_claim host (consumption_key (tr_authorization rec)) (claim_of rec) = Some True"

definition lease_call :: "transition_record \<Rightarrow> canary_effect" where
  "lease_call rec = ClaimLease (consumption_key (tr_authorization rec)) (claim_of rec)"

definition dispatch_call :: "transition_record \<Rightarrow> canary_effect list" where
  "dispatch_call rec = [Dispatch (tr_authorization rec) (tr_request rec) (tr_purpose rec),
     Readback (tr_authorization rec) (tr_request rec)]"

text \<open>A record as \<open>reserve\<close> creates it, for a delivery and a claim that the ledger does not know.\<close>

definition new_record :: "bounded_canary_policy \<Rightarrow> canary_ledger \<Rightarrow> transition_record \<Rightarrow> bool" where
  "new_record p lg rec \<longleftrightarrow> claim_of rec \<notin> fst ` set (lg_records lg)
     \<and> delivery rec \<notin> (delivery \<circ> snd) ` set (lg_records lg)
     \<and> reserved_ok p rec \<and> tr_state rec = CLAIMED \<and> tr_canary_receipt rec = None \<and> \<not> tr_retry_used rec
     \<and> au_receipt_chain_head_digest (tr_authorization rec) = receipt_digest (last (lg_chain lg))
     \<and> int (length (lg_chain lg)) \<le> total_calls (cp_budget p)"

definition retained :: "canary_ledger \<Rightarrow> transition_record \<Rightarrow> bool" where
  "retained lg rec \<longleftrightarrow> map_of (lg_records lg) (claim_of rec) = Some rec"

inductive ledger_step ::
  "bounded_canary_policy \<Rightarrow> canary_host \<Rightarrow> canary_ledger \<Rightarrow> canary_effect list \<Rightarrow> canary_ledger \<Rightarrow> bool"
  for p host lg where
  idle: "list_all is_pre_readback es \<Longrightarrow> ledger_step p host lg es lg"
| refused: "new_record p lg rec \<Longrightarrow> list_all is_pre_readback es \<Longrightarrow> \<not> lease_granted host rec
    \<Longrightarrow> reads_back host lg rec rec' \<Longrightarrow> tr_state rec' = PRESERVED_FOR_OWNER
    \<Longrightarrow> ledger_step p host lg (es @ [lease_call rec]) (settled lg (claim_of rec) rec')"
| first: "new_record p lg rec \<Longrightarrow> list_all is_pre_readback es \<Longrightarrow> lease_granted host rec
    \<Longrightarrow> reads_back host lg rec rec'
    \<Longrightarrow> ledger_step p host lg (es @ lease_call rec # dispatch_call rec) (settled lg (claim_of rec) rec')"
| reconciled: "retained lg rec \<Longrightarrow> tr_state rec \<in> {QUARANTINED, RETRY_ALLOWED} \<Longrightarrow> reads_back host lg rec rec'
    \<Longrightarrow> ledger_step p host lg [Readback (tr_authorization rec) (tr_request rec)] (settled lg (claim_of rec) rec')"
| fence_lost: "retained lg rec \<Longrightarrow> lg_hydrated lg \<Longrightarrow> tr_state rec = RETRY_ALLOWED \<Longrightarrow> \<not> lease_granted host rec
    \<Longrightarrow> reads_back host lg rec rec' \<Longrightarrow> tr_state rec' = PRESERVED_FOR_OWNER
    \<Longrightarrow> ledger_step p host lg [lease_call rec] (settled lg (claim_of rec) rec')"
| retried: "retained lg rec \<Longrightarrow> tr_state rec = RETRY_ALLOWED \<Longrightarrow> \<not> tr_retry_used rec
    \<Longrightarrow> es = (if lg_hydrated lg then [lease_call rec] else []) \<Longrightarrow> (lg_hydrated lg \<Longrightarrow> lease_granted host rec)
    \<Longrightarrow> reads_back host lg (rec\<lparr>tr_retry_used := True, tr_state := CLAIMED, tr_receipt := r\<rparr>) rec'
    \<Longrightarrow> ledger_step p host lg (es @ dispatch_call rec) (settled lg (claim_of rec) rec')"

inductive_cases ledger_stepE: "ledger_step p host lg es lg'"

lemma settled_again [simp]:
  "settled (lg\<lparr>lg_records := lg_records lg @ [(claim, rec)]\<rparr>) claim rec' = settled lg claim rec'"
  if "claim \<notin> fst ` set (lg_records lg)"
proof -
  have "AList.update claim rec' (al @ [(claim, rec)]) = AList.update claim rec' al" if "claim \<notin> fst ` set al" for al
    using that by (induction al) auto
  with that show ?thesis by (simp add: settled_def)
qed

lemma settled_put [simp]: "settled (put_record claim rec lg) claim rec' = settled lg claim rec'"
  by (simp add: settled_def put_record_def)

lemma reads_back_chain: "lg_chain lg = lg_chain lg' \<Longrightarrow> reads_back host lg rec rec' = reads_back host lg' rec rec'"
  by (simp add: reads_back_def)

lemma orch_decision_facts:
  assumes "orch_decision oc request = Inr d" "cd_authorized d" "chain_ok (or_policy oc) (lg_chain (or_ledger oc))"
  shows "\<exists>a. cd_authorization d = Some a
    \<and> make_authorization (cp_policy_digest (or_policy oc)) (cp_contract_digest (or_policy oc)) (rq_request_digest request)
        (receipt_digest (last (lg_chain (or_ledger oc)))) = Inr a
    \<and> rq_operation request \<in> set (requested_operations (or_policy oc)) \<and> rq_branch request = cp_branch (or_policy oc)
    \<and> set (rq_paths request) \<subseteq> set (allowed_paths (or_policy oc))
    \<and> int (length (lg_chain (or_ledger oc))) \<le> total_calls (cp_budget (or_policy oc))
    \<and> \<not> kill_switch_active (or_context oc)"
proof -
  let ?chain = "lg_chain (or_ledger oc)"
  let ?c = "(or_context oc)\<lparr>cc_prior_receipt_digest := Some (receipt_digest (last ?chain))\<rparr>"
  from assms(1) have auth: "authorize_canary_request (Some (or_policy oc)) (Some ?c) (Some request) (Some ?chain) = Inr d"
    by (auto simp: orch_decision_def Let_def bind_result_Inr_iff)
  have head: "validate_canary_receipt_chain (or_policy oc) ?chain = Inr (last ?chain)" using assms(3) by (simp add: chain_ok_def)
  have dist: "distinct (map fst (operation_counts (last ?chain)))"
    using chain_ok_facts [OF assms(3)] receipt_ok_counts(1) by blast
  from authorize_facts [OF auth assms(2)] head chain_ok_facts [OF assms(3)] show ?thesis
    by (auto simp: py_dict_distinct [OF dist] evaluate_canary_iff)
qed

lemma matching_None_iff:
  "ledger_matching lg request purpose = Inr None \<longleftrightarrow> (request, purpose) \<notin> (delivery \<circ> snd) ` set (lg_records lg)"
proof -
  have "ledger_matching lg request purpose = Inr None \<longleftrightarrow>
     [rec \<leftarrow> map snd (lg_records lg). tr_request rec = request \<and> tr_purpose rec = purpose] = []"
    by (auto simp: ledger_matching_def split: list.split)
  then show ?thesis by (auto simp: filter_empty_conv delivery_def)
qed

lemma reserve_cases:
  assumes "ledger_reserve lg a request purpose predecessor pre_state = Inr (lg', rec, fresh)"
  shows "(\<not> fresh \<and> lg' = lg) \<or>
    (fresh \<and> claim_digest a \<notin> fst ` set (lg_records lg) \<and> lg' = lg\<lparr>lg_records := lg_records lg @ [(claim_digest a, rec)]\<rparr>
     \<and> tr_authorization rec = a \<and> tr_request rec = request \<and> tr_purpose rec = purpose \<and> tr_state rec = CLAIMED
     \<and> tr_canary_receipt rec = None \<and> \<not> tr_retry_used rec
     \<and> tr_predecessor_digest rec = predecessor \<and> tr_pre_state_digest rec = pre_state)"
  using assms
  by (auto simp: ledger_reserve_def Let_def bind_result_Inr_iff map_of_eq_None_iff split: option.split_asm if_split_asm)

lemma begin_reserved_step:
  assumes inv: "chain_ok p (lg_chain lg)"
    and a: "make_authorization (cp_policy_digest p) (cp_contract_digest p) (rq_request_digest request)
        (receipt_digest (last (lg_chain lg))) = Inr a"
    and scope: "rq_operation request \<in> set (requested_operations p)" "rq_branch request = cp_branch p"
      "set (rq_paths request) \<subseteq> set (allowed_paths p)" "int (length (lg_chain lg)) \<le> total_calls (cp_budget p)"
    and new: "ledger_matching lg request purpose = Inr None"
    and ev: "cleanup_evidence purpose predecessor pre_state" "pred_option is_digest predecessor" "pred_option is_digest pre_state"
    and quiet: "list_all is_pre_readback qs"
    and run: "begin_reserved host d a request purpose predecessor pre_state lg = (lg', es, res)"
  shows "ledger_step p host lg (qs @ es) lg' \<and> (\<exists>x. res = Inr x)"
proof (cases "ledger_reserve lg a request purpose predecessor pre_state")
  case (Inl e)
  with run quiet show ?thesis by (auto simp: begin_reserved_def intro: idle)
next
  case (Inr reservation)
  obtain lg1 rec fresh where res: "reservation = (lg1, rec, fresh)" by (cases reservation) auto
  note cases = reserve_cases [OF Inr [unfolded res]]
  show ?thesis
  proof (cases fresh)
    case False
    with Inr res cases run quiet show ?thesis by (auto simp: begin_reserved_def intro: idle)
  next
    case True
    with cases have c: "claim_digest a \<notin> fst ` set (lg_records lg)" and lg1: "lg1 = lg\<lparr>lg_records := lg_records lg @ [(claim_digest a, rec)]\<rparr>"
      and rec: "tr_authorization rec = a" "tr_request rec = request" "tr_purpose rec = purpose" "tr_state rec = CLAIMED"
        "tr_canary_receipt rec = None" "\<not> tr_retry_used rec" "tr_predecessor_digest rec = predecessor" "tr_pre_state_digest rec = pre_state"
      by auto
    have ok: "reserved_ok p rec" using a scope ev authorization_fields [OF a] by (simp add: reserved_ok_def rec)
    have nr: "new_record p lg rec" using c new ok scope(4) authorization_fields [OF a]
      by (simp add: new_record_def claim_of_def rec matching_None_iff delivery_def)
    have look: "map_of (lg_records lg1) (claim_digest (tr_authorization rec)) = Some rec"
      using c by (simp add: lg1 rec map_add_def map_of_eq_None_iff [THEN iffD2])
    have same: "reads_back host lg1 = reads_back host lg" "settled lg1 (claim_digest a) = settled lg (claim_digest a)"
      using c by (auto simp: lg1 fun_eq_iff reads_back_def)
    have out: "(lg', es, res) = prefix_effects [lease_call rec]
       (if \<not> lease_granted host rec then after_update (ledger_update (claim_digest a) PRESERVED_FOR_OWNER None None None lg1)
          (\<lambda>rec'. exec_denied ''another Orchestrator owns this Canary transition'' (cd_policy_digest d) (Some (tr_receipt rec')) None)
        else orch_dispatch host d a rec lg1)"
      using run Inr res True by (simp add: begin_reserved_def lease_granted_def lease_call_def claim_of_def rec)
    show ?thesis
    proof (cases "lease_granted host rec")
      case False
      from update_reads_back [OF look ok, of PRESERVED_FOR_OWNER None host] obtain rec' where
        "ledger_update (claim_digest a) PRESERVED_FOR_OWNER None None None lg1 = (settled lg (claim_digest a) rec', Inr rec')"
        and r: "reads_back host lg rec rec'" "tr_state rec' = PRESERVED_FOR_OWNER" by (auto simp: rec same)
      with out False have "lg' = settled lg (claim_of rec) rec'" "es = [lease_call rec]" "\<exists>x. res = Inr x"
        by (simp_all add: prefix_effects_def after_update_def claim_of_def rec)
      with refused [OF nr quiet False r] show ?thesis by simp
    next
      case True
      have "chain_ok p (lg_chain lg1)" using inv by (simp add: lg1)
      from orch_dispatch_settles [OF this look ok, of host d] obtain rec' x where
        "orch_dispatch host d a rec lg1 = (settled lg (claim_digest a) rec', dispatch_call rec, Inr x)"
        and r: "reads_back host lg rec rec'" by (auto simp: rec same dispatch_call_def)
      with out True have "lg' = settled lg (claim_of rec) rec'" "es = lease_call rec # dispatch_call rec" "\<exists>x. res = Inr x"
        by (simp_all add: prefix_effects_def claim_of_def rec)
      with first [OF nr quiet True r] show ?thesis by simp
    qed
  qed
qed

lemma predecessor_SomeD:
  assumes "ledger_predecessor lg = Inr (Some rec)"
  shows "rec \<in> snd ` set (lg_records lg)"
proof -
  have "filter q xs = [x] \<Longrightarrow> x \<in> set xs" for q and x :: transition_record and xs
    by (metis filter_is_subset list.set_intros(1) subsetD)
  with assms show ?thesis by (fastforce simp: ledger_predecessor_def Let_def split: if_split_asm list.split_asm)
qed

lemma record_receipt_digest: "record_receipt rec readback = Inr r \<Longrightarrow> is_digest (er_receipt_digest r)"
  by (auto simp: record_receipt_def receipt_for_def make_execution_receipt_def digest_value_digest)

lemma cleanup_precondition_facts:
  assumes inv: "ledger_inv p lg" and run: "cleanup_precondition host a request lg = (es, res)"
  shows "list_all is_pre_readback es
    \<and> (\<forall>predecessor pre_state. res = Inr (predecessor, pre_state) \<longrightarrow> is_digest predecessor \<and> is_digest pre_state)"
proof (cases "ledger_predecessor lg")
  case (Inl e)
  with run show ?thesis by (auto simp: cleanup_precondition_def)
next
  case (Inr found)
  show ?thesis
  proof (cases found)
    case None
    with Inr run show ?thesis by (auto simp: cleanup_precondition_def)
  next
    case (Some rec)
    with Inr inv have "is_digest (er_receipt_digest (tr_receipt rec))"
      using predecessor_SomeD [of lg rec] by (fastforce simp: ledger_inv_def record_ok_def dest: record_receipt_digest)
    with Inr Some run show ?thesis
      by (cases "cleanup_action_for (rq_operation (tr_request rec))")
        (auto simp: cleanup_precondition_def Let_def received_Answer_iff split: if_split_asm answer.split_asm)
  qed
qed

lemma orch_begin_step:
  assumes inv: "ledger_inv (or_policy oc) (or_ledger oc)" and run: "orch_begin host oc request purpose = (lg', es, res)"
  shows "ledger_step (or_policy oc) host (or_ledger oc) es lg'"
proof (cases "ledger_matching (or_ledger oc) request purpose = Inr None \<and>
    (\<exists>d a. orch_decision oc request = Inr d \<and> cd_authorized d \<and> cd_authorization d = Some a)")
  case False
  then have "lg' = or_ledger oc \<and> es = []"
    using run by (auto simp: orch_begin_def Let_def canary_denied_def split: sum.split_asm option.split_asm if_split_asm bool.split_asm)
  then show ?thesis by (simp add: idle)
next
  case True
  then obtain d a where new: "ledger_matching (or_ledger oc) request purpose = Inr None"
    and dec: "orch_decision oc request = Inr d" "cd_authorized d" "cd_authorization d = Some a" by blast
  have chain: "chain_ok (or_policy oc) (lg_chain (or_ledger oc))" using inv by (simp add: ledger_inv_def)
  note facts = orch_decision_facts [OF dec(1,2) chain]
  have reserving: "begin_reserved host d a request purpose predecessor pre_state (or_ledger oc) = (lg', es', res')
      \<Longrightarrow> cleanup_evidence purpose predecessor pre_state \<Longrightarrow> pred_option is_digest predecessor \<Longrightarrow> pred_option is_digest pre_state
      \<Longrightarrow> list_all is_pre_readback qs \<Longrightarrow> ledger_step (or_policy oc) host (or_ledger oc) (qs @ es') lg'"
    for predecessor pre_state es' res' qs
    by (rule begin_reserved_step [OF chain, THEN conjunct1]) (use facts dec(3) new in auto)
  show ?thesis
  proof (cases "purpose = FOR_EXECUTE")
    case True
    with run new dec have "begin_reserved host d a request purpose None None (or_ledger oc) = (lg', es, res)"
      by (simp add: orch_begin_def Let_def)
    from reserving [OF this, of "[]"] True show ?thesis by (simp add: cleanup_evidence_def)
  next
    case False
    obtain qs pre where pre: "cleanup_precondition host a request (or_ledger oc) = (qs, pre)" by (cases "cleanup_precondition host a request (or_ledger oc)")
    note q = cleanup_precondition_facts [OF inv pre]
    show ?thesis
    proof (cases pre)
      case (Inl e)
      with run new dec pre False q show ?thesis by (auto simp: orch_begin_def Let_def intro: idle)
    next
      case (Inr digests)
      obtain predecessor pre_state where ds: "digests = (predecessor, pre_state)" by (cases digests)
      obtain lg1 es1 res1 where b: "begin_reserved host d a request purpose (Some predecessor) (Some pre_state) (or_ledger oc) = (lg1, es1, res1)"
        by (cases "begin_reserved host d a request purpose (Some predecessor) (Some pre_state) (or_ledger oc)") auto
      with run new dec pre False Inr ds have "lg1 = lg'" "es = qs @ es1"
        by (auto simp: orch_begin_def Let_def prefix_effects_def)
      with reserving [of "Some predecessor" "Some pre_state" es1 res1 qs] b q Inr ds False show ?thesis
        by (simp add: cleanup_evidence_def)
    qed
  qed
qed

lemma inv_retained:
  assumes "ledger_inv p lg" "map_of (lg_records lg) claim = Some rec"
  shows "claim = claim_of rec \<and> retained lg rec \<and> record_ok p (lg_chain lg) rec \<and> reserved_ok p rec"
proof -
  from map_of_SomeD [OF assms(2)] assms(1) have "claim = claim_digest (tr_authorization rec) \<and> record_ok p (lg_chain lg) rec"
    by (fastforce simp: ledger_inv_def)
  with assms(2) show ?thesis by (simp add: retained_def claim_of_def record_ok_def)
qed

lemma with_retained_cases:
  assumes "with_retained oc claim drifted continue = (lg', es, res)"
  shows "(lg' = or_ledger oc \<and> es = []) \<or>
    (\<exists>rec d. map_of (lg_records (or_ledger oc)) claim = Some rec \<and> orch_decision oc (tr_request rec) = Inr d \<and> cd_authorized d
       \<and> cd_authorization d = Some (tr_authorization rec) \<and> continue d rec = (lg', es, res))"
  using assms
  by (auto simp: with_retained_def ledger_record_def Let_def split: sum.split_asm option.split_asm if_split_asm)

lemma reconcile_step:
  assumes inv: "ledger_inv (or_policy oc) (or_ledger oc)" and run: "reconcile host oc claim = (lg', es, res)"
  shows "ledger_step (or_policy oc) host (or_ledger oc) es lg'"
proof -
  consider "lg' = or_ledger oc" "es = []"
    | rec d where "map_of (lg_records (or_ledger oc)) claim = Some rec" "tr_state rec \<in> {QUARANTINED, RETRY_ALLOWED}"
        "orch_readback host d (tr_authorization rec) rec True (or_ledger oc) = (lg', es, res)"
    using with_retained_cases [OF run [unfolded reconcile_def]] by (auto split: if_split_asm)
  then show ?thesis
  proof cases
    case 1
    then show ?thesis by (simp add: idle)
  next
    case 2
    note r = inv_retained [OF inv 2(1)]
    have chain: "chain_ok (or_policy oc) (lg_chain (or_ledger oc))" using inv by (simp add: ledger_inv_def)
    from orch_readback_settles [OF chain, of rec host d True] r 2(3) show ?thesis
      using reconciled [OF _ 2(2)] by (auto simp: retained_def claim_of_def)
  qed
qed

lemma consume_retry_effect:
  assumes "map_of (lg_records lg) claim = Some rec" "reserved_ok p rec" "tr_state rec = RETRY_ALLOWED" "\<not> tr_retry_used rec"
    "tr_canary_receipt rec = None"
  shows "\<exists>r. consume_retry claim lg = (put_record claim (rec\<lparr>tr_retry_used := True, tr_state := CLAIMED, tr_receipt := r\<rparr>) lg, Inr True)"
proof -
  from record_receipt_ok [of p "rec\<lparr>tr_retry_used := True, tr_state := CLAIMED\<rparr>" None] assms(2,5) obtain r
    where "record_receipt (rec\<lparr>tr_retry_used := True, tr_state := CLAIMED\<rparr>) None = Inr r" by auto
  with assms show ?thesis by (auto simp: consume_retry_def Let_def record_receipt_def)
qed

lemma record_ok_unverified:
  assumes "record_ok p chain rec"
  shows "tr_state rec = VERIFIED \<longleftrightarrow> tr_canary_receipt rec \<noteq> None" "\<not> (tr_retry_used rec \<and> tr_state rec = RETRY_ALLOWED)"
  using assms by (auto simp: record_ok_def record_receipt_def receipt_for_def make_execution_receipt_def execution_receipt_guards_iff)

lemma retry_consumed_step:
  assumes inv: "ledger_inv p lg" and rec: "map_of (lg_records lg) claim = Some rec" "tr_state rec = RETRY_ALLOWED"
    and run: "retry_consumed host d rec lg = (lg', es, res)"
  shows "\<exists>r rec' x. reads_back host lg (rec\<lparr>tr_retry_used := True, tr_state := CLAIMED, tr_receipt := r\<rparr>) rec'
    \<and> lg' = settled lg (claim_of rec) rec' \<and> es = dispatch_call rec \<and> res = Inr x \<and> \<not> tr_retry_used rec"
proof -
  note r = inv_retained [OF inv rec(1)]
  then have u: "\<not> tr_retry_used rec" "tr_canary_receipt rec = None" using record_ok_unverified [of p "lg_chain lg" rec] rec(2) by auto
  have ok: "reserved_ok p rec" and look: "map_of (lg_records lg) (claim_of rec) = Some rec" using r rec by (auto simp: retained_def)
  from consume_retry_effect [OF look ok rec(2) u] obtain rc where
    c: "consume_retry (claim_of rec) lg = (put_record (claim_of rec) (rec\<lparr>tr_retry_used := True, tr_state := CLAIMED, tr_receipt := rc\<rparr>) lg, Inr True)"
    by blast
  let ?rec1 = "rec\<lparr>tr_retry_used := True, tr_state := CLAIMED, tr_receipt := rc\<rparr>"
  let ?lg1 = "put_record (claim_of rec) ?rec1 lg"
  have look1: "map_of (lg_records ?lg1) (claim_digest (tr_authorization ?rec1)) = Some ?rec1"
    by (simp add: put_record_def update_conv' claim_of_def)
  have chain1: "chain_ok p (lg_chain ?lg1)" using inv by (simp add: ledger_inv_def put_record_def)
  from orch_dispatch_settles [OF chain1 look1, of host d] ok obtain rec' x where
    o: "orch_dispatch host d (tr_authorization rec) ?rec1 ?lg1 = (settled ?lg1 (claim_of rec) rec', dispatch_call rec, Inr x)"
    and rb: "reads_back host ?lg1 ?rec1 rec'" by (auto simp: dispatch_call_def claim_of_def)
  from c o look1 run have "lg' = settled lg (claim_of rec) rec' \<and> es = dispatch_call rec \<and> res = Inr x"
    by (simp add: retry_consumed_def Let_def claim_of_def)
  moreover have "reads_back host lg ?rec1 rec'" using rb reads_back_chain [of ?lg1 lg] by (simp add: put_record_def)
  ultimately show ?thesis using u by blast
qed

lemma prefix_effects_Nil [simp]: "prefix_effects [] out = out"
  by (cases out) (simp add: prefix_effects_def)

lemma retry_step:
  assumes inv: "ledger_inv (or_policy oc) (or_ledger oc)" and run: "retry host oc claim = (lg', es, res)"
  shows "ledger_step (or_policy oc) host (or_ledger oc) es lg'"
proof -
  let ?lg = "or_ledger oc"
  consider "lg' = ?lg" "es = []"
    | (lost) rec f where "map_of (lg_records ?lg) claim = Some rec" "tr_state rec = RETRY_ALLOWED" "lg_hydrated ?lg" "\<not> lease_granted host rec"
        "prefix_effects [lease_call rec] (after_update (ledger_update (claim_of rec) PRESERVED_FOR_OWNER None None None ?lg) f) = (lg', es, res)"
    | (again) rec d where "map_of (lg_records ?lg) claim = Some rec" "tr_state rec = RETRY_ALLOWED" "lg_hydrated ?lg \<longrightarrow> lease_granted host rec"
        "prefix_effects (if lg_hydrated ?lg then [lease_call rec] else []) (retry_consumed host d rec ?lg) = (lg', es, res)"
    using with_retained_cases [OF run [unfolded retry_def]]
    by (auto simp: Let_def lease_granted_def lease_call_def claim_of_def split: if_split_asm)
  then show ?thesis
  proof cases
    case 1
    then show ?thesis by (simp add: idle)
  next
    case lost
    note r = inv_retained [OF inv lost(1)]
    have look: "map_of (lg_records ?lg) (claim_of rec) = Some rec" using r by (simp add: retained_def)
    from update_reads_back [OF look, of "or_policy oc" PRESERVED_FOR_OWNER None host] r obtain rec' where
      "ledger_update (claim_of rec) PRESERVED_FOR_OWNER None None None ?lg = (settled ?lg (claim_of rec) rec', Inr rec')"
      and rb: "reads_back host ?lg rec rec'" "tr_state rec' = PRESERVED_FOR_OWNER" by auto
    with lost(5) have "lg' = settled ?lg (claim_of rec) rec'" "es = [lease_call rec]"
      by (auto simp: prefix_effects_def after_update_def)
    with fence_lost [OF _ lost(3,2,4) rb] r show ?thesis by simp
  next
    case again
    note r = inv_retained [OF inv again(1)]
    obtain lg1 es1 res1 where c: "retry_consumed host d rec ?lg = (lg1, es1, res1)" by (cases "retry_consumed host d rec ?lg") auto
    from retry_consumed_step [OF inv again(1,2) c] obtain rc rec' where
      step: "reads_back host ?lg (rec\<lparr>tr_retry_used := True, tr_state := CLAIMED, tr_receipt := rc\<rparr>) rec'" "\<not> tr_retry_used rec"
      and out: "lg1 = settled ?lg (claim_of rec) rec'" "es1 = dispatch_call rec" by blast
    have "lg' = lg1" "es = (if lg_hydrated ?lg then [lease_call rec] else []) @ es1"
      using again(4) c by (auto simp: prefix_effects_def)
    with retried [OF _ again(2) step(2) refl _ step(1), of "or_policy oc"] again(3) r out show ?thesis by simp
  qed
qed

lemma run_canary_step:
  assumes "ledger_inv (or_policy oc) (or_ledger oc)" "run_canary host oc op = (lg', es, res)"
  shows "ledger_step (or_policy oc) host (or_ledger oc) es lg'"
  using assms by (cases op) (auto simp: execute_def rollback_def cleanup_def intro: orch_begin_step reconcile_step retry_step)

section \<open>The invariant is kept\<close>

lemma update_map_same:
  "map_of al k = Some v \<Longrightarrow> f v = f v' \<Longrightarrow> map (f \<circ> snd) (AList.update k v' al) = map (f \<circ> snd) al"
  by (induction al) auto

lemma update_filter_count:
  "map_of al k = Some v \<Longrightarrow> \<not> q v \<Longrightarrow>
     length (filter (q \<circ> snd) (AList.update k v' al)) = length (filter (q \<circ> snd) al) + (if q v' then 1 else 0)"
  by (induction al) auto

text \<open>The record under a claim is new, or an unverified record of the same delivery.\<close>

definition replaceable :: "canary_ledger \<Rightarrow> transition_record \<Rightarrow> bool" where
  "replaceable lg rec \<longleftrightarrow>
     (case map_of (lg_records lg) (claim_of rec) of
        None \<Rightarrow> delivery rec \<notin> (delivery \<circ> snd) ` set (lg_records lg)
      | Some old \<Rightarrow> delivery old = delivery rec \<and> \<not> is_verified old)"

definition head_ok :: "bounded_canary_policy \<Rightarrow> bounded_canary_receipt list \<Rightarrow> transition_record \<Rightarrow> bool" where
  "head_ok p chain rec \<longleftrightarrow> (\<exists>i<length chain. int i < total_calls (cp_budget p)
     \<and> au_receipt_chain_head_digest (tr_authorization rec) = receipt_digest (chain ! i))"

lemma reads_back_fields:
  assumes "reads_back host lg rec rec'"
  shows "claim_of rec' = claim_of rec" "delivery rec' = delivery rec" "tr_authorization rec' = tr_authorization rec"
    "tr_retry_used rec' = tr_retry_used rec" "tr_request rec' = tr_request rec" "tr_purpose rec' = tr_purpose rec"
    "reserved_ok p rec' = reserved_ok p rec"
    "tr_state rec' = VERIFIED \<longleftrightarrow> tr_canary_receipt rec' \<noteq> None" "tr_state rec' \<noteq> CLAIMED"
    "\<not> (tr_state rec' = RETRY_ALLOWED \<and> tr_retry_used rec')"
  using assms by (auto simp: reads_back_def claim_of_def delivery_def)

lemma reads_back_record_ok:
  assumes "reads_back host lg rec rec'" "reserved_ok p rec" "head_ok p (lg_chain lg) rec"
  shows "record_ok p (lg_chain (settled lg claim rec')) rec'"
proof -
  from assms(3) have "head_ok p (lg_chain (settled lg claim rec')) rec'"
    using reads_back_fields(3) [OF assms(1)] unfolding head_ok_def settled_def by (auto simp: nth_append)
  with assms(1,2) reads_back_fields(7,9) [OF assms(1)] show ?thesis
    unfolding record_ok_def head_ok_def by (auto simp: reads_back_def settled_def)
qed

lemma settled_inv:
  assumes inv: "ledger_inv p lg" and rb: "reads_back host lg rec rec'" and ok: "reserved_ok p rec" "head_ok p (lg_chain lg) rec"
    and old: "replaceable lg rec"
  shows "ledger_inv p (settled lg (claim_of rec) rec')"
proof -
  let ?al = "lg_records lg" and ?k = "claim_of rec" and ?lg' = "settled lg (claim_of rec) rec'"
  note f = reads_back_fields [OF rb]
  have d: "distinct (map fst ?al)" "distinct (map (delivery \<circ> snd) ?al)" and chain: "chain_ok p (lg_chain lg)"
    and recs: "\<And>c r. (c, r) \<in> set ?al \<Longrightarrow> c = claim_digest (tr_authorization r) \<and> record_ok p (lg_chain lg) r"
    and len: "length (filter (is_verified \<circ> snd) ?al) + 1 = length (lg_chain lg)"
    using inv by (auto simp: ledger_inv_def)
  have chain': "chain_ok p (lg_chain ?lg')"
    using rb chain chain_ok_snoc by (cases "tr_canary_receipt rec'") (auto simp: settled_def reads_back_def)
  have mono: "record_ok p (lg_chain lg) r \<Longrightarrow> record_ok p (lg_chain ?lg') r" for r
    by (simp add: settled_def record_ok_mono)
  have recs': "c = claim_digest (tr_authorization r) \<and> record_ok p (lg_chain ?lg') r"
    if "(c, r) \<in> set (lg_records ?lg')" for c r
    using update_entries [OF d(1)] that recs mono reads_back_record_ok [OF rb ok, of ?k] f(1)
    by (fastforce simp: settled_def claim_of_def)
  have "distinct (map (delivery \<circ> snd) (AList.update ?k rec' ?al))
     \<and> length (filter (is_verified \<circ> snd) (AList.update ?k rec' ?al))
         = length (filter (is_verified \<circ> snd) ?al) + (if is_verified rec' then 1 else 0)"
  proof (cases "map_of ?al ?k")
    case None
    with old d(2) f(2) show ?thesis
      by (simp add: replaceable_def update_new_key map_of_eq_None_iff)
  next
    case (Some v)
    with old d(2) f(2) show ?thesis
      by (simp add: replaceable_def update_map_same [of _ _ v] update_filter_count)
  qed
  then have "distinct (map (delivery \<circ> snd) (lg_records ?lg'))"
    "length (filter (is_verified \<circ> snd) (lg_records ?lg')) + 1 = length (lg_chain ?lg')"
    using len f(8) by (auto simp: settled_def is_verified_def split: option.split)
  with d(1) chain' recs' inv show ?thesis
    unfolding ledger_inv_def by (auto simp: settled_def distinct_update)
qed

definition usable :: "bounded_canary_policy \<Rightarrow> canary_ledger \<Rightarrow> transition_record \<Rightarrow> bool" where
  "usable p lg rec \<longleftrightarrow> reserved_ok p rec \<and> head_ok p (lg_chain lg) rec \<and> replaceable lg rec"

lemma new_record_usable:
  assumes "new_record p lg rec" "ledger_inv p lg"
  shows "usable p lg rec"
proof -
  have c: "lg_chain lg \<noteq> []" using assms(2) chain_ok_facts by (auto simp: ledger_inv_def)
  with assms(1) have "head_ok p (lg_chain lg) rec" unfolding head_ok_def
    by (cases "length (lg_chain lg)") (auto simp: new_record_def last_conv_nth intro!: exI [of _ "length (lg_chain lg) - 1"])
  with assms(1) show ?thesis
    by (simp add: usable_def new_record_def replaceable_def map_of_eq_None_iff [THEN iffD2])
qed

lemma retained_usable:
  assumes "retained lg rec" "ledger_inv p lg" "tr_state rec \<noteq> VERIFIED"
  shows "usable p lg rec" "usable p lg (rec\<lparr>tr_retry_used := u, tr_state := CLAIMED, tr_receipt := r\<rparr>)"
proof -
  have "head_ok p (lg_chain lg) rec" "reserved_ok p rec"
    using inv_retained [OF assms(2), of "claim_of rec" rec] assms(1) by (auto simp: retained_def record_ok_def head_ok_def)
  with assms(1,3) show "usable p lg rec" "usable p lg (rec\<lparr>tr_retry_used := u, tr_state := CLAIMED, tr_receipt := r\<rparr>)"
    by (simp_all add: usable_def replaceable_def retained_def is_verified_def delivery_def claim_of_def head_ok_def)
qed

text \<open>Every operation leaves the ledger alone or settles one usable record.\<close>

lemma ledger_step_settles:
  assumes "ledger_step p host lg es lg'" "ledger_inv p lg"
  shows "lg' = lg \<or> (\<exists>rec rec'. usable p lg rec \<and> reads_back host lg rec rec' \<and> lg' = settled lg (claim_of rec) rec')"
  using assms
proof (cases rule: ledger_step.cases)
  case (refused rec es rec')
  then show ?thesis using new_record_usable assms(2) by blast
next
  case (first rec es rec')
  then show ?thesis using new_record_usable assms(2) by blast
next
  case (reconciled rec rec')
  then show ?thesis using retained_usable(1) [OF reconciled(3) assms(2)] by auto
next
  case (fence_lost rec rec')
  then show ?thesis using retained_usable(1) [OF fence_lost(3) assms(2)] by auto
next
  case (retried rec es r rec')
  let ?r = "rec\<lparr>tr_retry_used := True, tr_state := CLAIMED, tr_receipt := r\<rparr>"
  have "usable p lg ?r" "claim_of ?r = claim_of rec"
    using retained_usable(2) [OF retried(3) assms(2)] retried(4) by (auto simp: claim_of_def)
  with retried show ?thesis by metis
qed blast

lemma ledger_step_inv: "ledger_step p host lg es lg' \<Longrightarrow> ledger_inv p lg \<Longrightarrow> ledger_inv p lg'"
  using ledger_step_settles settled_inv unfolding usable_def by blast

section \<open>Runs of the orchestrator\<close>

type_synonym canary_label = "canary_host \<times> canary_op \<times> canary_effect list \<times> canary_execution_result result"

inductive canary_step :: "canary_orchestrator \<Rightarrow> canary_label \<Rightarrow> canary_orchestrator \<Rightarrow> bool" where
  "run_canary host oc op = (lg', es, res) \<Longrightarrow> canary_step oc (host, op, es, res) (oc\<lparr>or_ledger := lg'\<rparr>)"

inductive_cases canary_stepE: "canary_step oc (host, op, es, res) oc'"

definition fresh_orchestrator :: "canary_orchestrator \<Rightarrow> bool" where
  "fresh_orchestrator oc \<longleftrightarrow> list_all fst (context_construct_guards (or_context oc))
     \<and> canary_policy_ok (or_policy oc) \<and> make_orchestrator (or_policy oc) (or_context oc) None = Inr oc"

definition orchestrator_inv :: "canary_orchestrator \<Rightarrow> bool" where
  "orchestrator_inv oc \<longleftrightarrow> ledger_inv (or_policy oc) (or_ledger oc) \<and> \<not> lg_hydrated (or_ledger oc)
     \<and> list_all fst (context_construct_guards (or_context oc)) \<and> canary_policy_ok (or_policy oc)"

lemma fresh_ledger:
  assumes "fresh_orchestrator oc"
  shows "\<exists>g. genesis_canary_receipt (or_policy oc) = Inr g
    \<and> or_ledger oc = \<lparr>lg_policy = or_policy oc, lg_chain = [g], lg_records = [], lg_hydrated = False\<rparr>"
proof -
  from assms obtain lg where lg: "make_ledger (or_policy oc) = Inr lg" "oc = \<lparr>or_policy = or_policy oc, or_context = or_context oc, or_ledger = lg\<rparr>"
    by (auto simp: fresh_orchestrator_def make_orchestrator_def bind_result_Inr_iff split: if_split_asm)
  then have "or_ledger oc = lg" by (metis canary_orchestrator.select_convs(3))
  with lg(1) show ?thesis by (auto simp: make_ledger_def bind_result_Inr_iff)
qed

lemma fresh_orchestrator_inv: "fresh_orchestrator oc \<Longrightarrow> orchestrator_inv oc"
proof -
  assume fresh: "fresh_orchestrator oc"
  from fresh_ledger [OF this] obtain g where g: "genesis_canary_receipt (or_policy oc) = Inr g"
    and lg: "or_ledger oc = \<lparr>lg_policy = or_policy oc, lg_chain = [g], lg_records = [], lg_hydrated = False\<rparr>" by blast
  have "cr_policy g = or_policy oc" using g by (simp add: genesis_canary_receipt_def make_receipt_Inr_iff)
  with g lg fresh genesis_starts_chain_aux [of "or_policy oc"] show ?thesis
    by (auto simp: orchestrator_inv_def ledger_inv_def chain_ok_def fresh_orchestrator_def canary_policy_ok_validates)
qed

lemma canary_step_ledger:
  assumes "canary_step oc (host, op, es, res) oc'" "orchestrator_inv oc"
  shows "ledger_step (or_policy oc) host (or_ledger oc) es (or_ledger oc')"
    "or_policy oc' = or_policy oc" "or_context oc' = or_context oc" "run_canary host oc op = (or_ledger oc', es, res)"
  using assms run_canary_step by (auto elim!: canary_stepE simp: orchestrator_inv_def)

lemma canary_step_inv: "orchestrator_inv oc \<Longrightarrow> canary_step oc l oc' \<Longrightarrow> orchestrator_inv oc'"
proof -
  assume inv: "orchestrator_inv oc" and step: "canary_step oc l oc'"
  obtain host op es res where l: "l = (host, op, es, res)" by (cases l) auto
  note s = canary_step_ledger [OF step [unfolded l] inv]
  have li: "ledger_inv (or_policy oc) (or_ledger oc)" using inv by (simp add: orchestrator_inv_def)
  have "lg_hydrated (or_ledger oc') = lg_hydrated (or_ledger oc)"
    using ledger_step_settles [OF s(1) li] by (auto simp: settled_def)
  with inv s ledger_step_inv [OF s(1) li] show ?thesis by (simp add: orchestrator_inv_def)
qed

interpretation cs: invariant_system fresh_orchestrator canary_step orchestrator_inv
  by unfold_locales (auto intro: fresh_orchestrator_inv canary_step_inv)

abbreviation canary_run :: "canary_orchestrator \<Rightarrow> canary_label list \<Rightarrow> canary_orchestrator \<Rightarrow> bool" where
  "canary_run \<equiv> cs.reaches"

section \<open>The life cycle of a claim\<close>

text \<open>
  The abstract machine: a claim is unknown or has a state and a used-up retry. A step of the
  machine is labelled with the number of dispatches to the broker it makes. Verified and
  preserved claims have no further step, and no step makes a second retry.
\<close>

type_synonym claim_status = "(canary_transition_state \<times> bool) option"

inductive claim_step :: "nat \<Rightarrow> claim_status \<Rightarrow> claim_status \<Rightarrow> bool" where
  lease_refused: "claim_step 0 None (Some (PRESERVED_FOR_OWNER, False))"
| dispatched: "st \<noteq> CLAIMED \<Longrightarrow> claim_step 1 None (Some (st, False))"
| read_again: "q \<in> {QUARANTINED, RETRY_ALLOWED} \<Longrightarrow> st \<noteq> CLAIMED \<Longrightarrow> \<not> (st = RETRY_ALLOWED \<and> used)
    \<Longrightarrow> claim_step 0 (Some (q, used)) (Some (st, used))"
| redispatched: "st \<notin> {CLAIMED, RETRY_ALLOWED} \<Longrightarrow> claim_step 1 (Some (RETRY_ALLOWED, False)) (Some (st, True))"

inductive_simps claim_step_simps [simp]: "claim_step n s t"

definition claim_state :: "canary_ledger \<Rightarrow> string \<Rightarrow> claim_status" where
  "claim_state lg claim = map_option (\<lambda>rec. (tr_state rec, tr_retry_used rec)) (map_of (lg_records lg) claim)"

definition is_dispatch_of :: "string \<Rightarrow> canary_effect \<Rightarrow> bool" where
  "is_dispatch_of claim e \<longleftrightarrow> (case e of Dispatch a _ _ \<Rightarrow> claim_digest a = claim | _ \<Rightarrow> False)"

definition dispatches :: "string \<Rightarrow> canary_effect list \<Rightarrow> nat" where
  "dispatches claim es = length (filter (is_dispatch_of claim) es)"

lemma dispatches_simps [simp]:
  "dispatches claim [] = 0" "dispatches claim (es @ fs) = dispatches claim es + dispatches claim fs"
  "dispatches claim (lease_call rec # es) = dispatches claim es"
  "dispatches claim (dispatch_call rec) = (if claim_of rec = claim then 1 else 0)"
  "dispatches claim [Readback a q] = 0"
  "list_all is_pre_readback es \<Longrightarrow> dispatches claim es = 0"
proof -
  show "dispatches claim es = 0" if "list_all is_pre_readback es"
    using that by (induction es) (auto simp: dispatches_def is_dispatch_of_def split: canary_effect.splits)
qed (simp_all add: dispatches_def is_dispatch_of_def lease_call_def dispatch_call_def claim_of_def)

lemma claim_state_settled:
  "claim_state (settled lg k rec) c = (if c = k then Some (tr_state rec, tr_retry_used rec) else claim_state lg c)"
  by (simp add: claim_state_def settled_def update_conv')

lemma ledger_step_refines:
  assumes step: "ledger_step p host lg es lg'" and inv: "ledger_inv p lg"
  shows "\<exists>c. (\<forall>c'. c' \<noteq> c \<longrightarrow> claim_state lg' c' = claim_state lg c' \<and> dispatches c' es = 0)
    \<and> (claim_state lg' c = claim_state lg c \<and> dispatches c es = 0
       \<or> claim_step (dispatches c es) (claim_state lg c) (claim_state lg' c))"
proof -
  have new: "claim_state lg (claim_of rec) = None" if "new_record p lg rec" for rec
    using that by (simp add: new_record_def claim_state_def map_of_eq_None_iff)
  have old: "claim_state lg (claim_of rec) = Some (tr_state rec, tr_retry_used rec)" if "retained lg rec" for rec
    using that by (simp add: retained_def claim_state_def)
  have old_ok: "\<not> (tr_state rec = RETRY_ALLOWED \<and> tr_retry_used rec)" if "retained lg rec" for rec
    using inv_retained [OF inv, of "claim_of rec" rec] record_ok_unverified(2) that by (auto simp: retained_def)
  from step show ?thesis
  proof (cases rule: ledger_step.cases)
    case (refused rec qs rec')
    note f = reads_back_fields(4) [OF refused(6)]
    show ?thesis by (rule exI [of _ "claim_of rec"]) (use refused new f in \<open>auto simp: claim_state_settled new_record_def\<close>)
  next
    case (first rec qs rec')
    note f = reads_back_fields(4,9) [OF first(6)]
    show ?thesis by (rule exI [of _ "claim_of rec"]) (use first new f in \<open>auto simp: claim_state_settled new_record_def\<close>)
  next
    case (reconciled rec rec')
    note f = reads_back_fields(4,9,10) [OF reconciled(5)]
    show ?thesis by (rule exI [of _ "claim_of rec"]) (use reconciled old f in \<open>auto simp: claim_state_settled\<close>)
  next
    case (fence_lost rec rec')
    note f = reads_back_fields(4) [OF fence_lost(7)]
    show ?thesis by (rule exI [of _ "claim_of rec"]) (use fence_lost old old_ok f in \<open>auto simp: claim_state_settled\<close>)
  next
    case (retried rec qs r rec')
    note f = reads_back_fields(4,9,10) [OF retried(8)]
    show ?thesis by (rule exI [of _ "claim_of rec"]) (use retried old f in \<open>auto simp: claim_state_settled\<close>)
  qed (auto)
qed

lemma canary_step_refines:
  assumes "canary_step oc (host, op, es, res) oc'" "orchestrator_inv oc"
  shows "\<exists>c. (\<forall>c'. c' \<noteq> c \<longrightarrow> claim_state (or_ledger oc') c' = claim_state (or_ledger oc) c' \<and> dispatches c' es = 0)
    \<and> (claim_state (or_ledger oc') c = claim_state (or_ledger oc) c \<and> dispatches c es = 0
       \<or> claim_step (dispatches c es) (claim_state (or_ledger oc) c) (claim_state (or_ledger oc') c))"
  using ledger_step_refines [OF canary_step_ledger(1) [OF assms]] assms(2) by (simp add: orchestrator_inv_def)

section \<open>Dispatches over a run\<close>

definition effects_of :: "canary_label list \<Rightarrow> canary_effect list" where
  "effects_of history = concat (map (\<lambda>(host, op, es, res). es) history)"

lemma effects_of_snoc [simp]:
  "effects_of [] = []" "effects_of (h @ [(host, op, es, res)]) = effects_of h @ es"
  by (simp_all add: effects_of_def)

fun dispatch_allowance :: "claim_status \<Rightarrow> nat" where
  "dispatch_allowance None = 0"
| "dispatch_allowance (Some (_, used)) = (if used then 2 else 1)"

lemma claim_step_allowance: "claim_step n s t \<Longrightarrow> dispatch_allowance s + n \<le> dispatch_allowance t"
  by (erule claim_step.cases) auto

lemma run_dispatches:
  assumes "canary_run s history t" "orchestrator_inv s"
  shows "dispatch_allowance (claim_state (or_ledger s) claim) + dispatches claim (effects_of history)
    \<le> dispatch_allowance (claim_state (or_ledger t) claim)"
  using assms
proof (induction rule: cs.reaches.induct)
  case (reaches_snoc s ls t l u)
  obtain host op es res where l: "l = (host, op, es, res)" by (cases l) auto
  have "orchestrator_inv t" using reaches_snoc cs.reaches_inv by blast
  from canary_step_refines [OF reaches_snoc(2) [unfolded l] this]
  have "dispatch_allowance (claim_state (or_ledger t) claim) + dispatches claim es \<le> dispatch_allowance (claim_state (or_ledger u) claim)"
    by (metis claim_step_allowance add.right_neutral order_refl)
  with reaches_snoc(3,4) show ?case by (simp add: l)
qed simp

text \<open>
  Over a whole run, whatever the broker and the lease
  answer and whatever is delivered, reconciled or retried in which order, a claim is dispatched
  at most once before its one retry is consumed, at most twice ever, and never without a
  retained record.
\<close>

lemma canary_dispatch_at_most_twice:
  assumes "fresh_orchestrator s" "canary_run s history t"
  shows "dispatches claim (effects_of history) \<le> 2
    \<and> (case map_of (lg_records (or_ledger t)) claim of
         None \<Rightarrow> dispatches claim (effects_of history) = 0
       | Some rec \<Rightarrow> \<not> tr_retry_used rec \<longrightarrow> dispatches claim (effects_of history) \<le> 1)"
proof -
  have "lg_records (or_ledger s) = []" using fresh_ledger [OF assms(1)] by auto
  then have "claim_state (or_ledger s) claim = None" by (simp add: claim_state_def)
  with run_dispatches [OF assms(2) cs.inv_init [OF assms(1)], of claim] show ?thesis
    by (auto simp: claim_state_def split: option.split_asm option.split if_split_asm)
qed

text \<open>
  C4 (canary_claim_refines_lifecycle). Every operation of the orchestrator touches at most one
  claim, and moves it along one step of the abstract life cycle with exactly the dispatches that
  step allows: the first dispatch needs an unknown claim, the second one consumes the retry
  of an absent read-back, reconciliation dispatches nothing, and verified and preserved claims
  are final.
\<close>

theorem canary_claim_refines_lifecycle:
  assumes "fresh_orchestrator s" "canary_run s history oc" "canary_step oc (host, op, es, res) oc'"
  shows "\<exists>c. (\<forall>c'. c' \<noteq> c \<longrightarrow> claim_state (or_ledger oc') c' = claim_state (or_ledger oc) c' \<and> dispatches c' es = 0)
    \<and> (claim_state (or_ledger oc') c = claim_state (or_ledger oc) c \<and> dispatches c es = 0
       \<or> claim_step (dispatches c es) (claim_state (or_ledger oc) c) (claim_state (or_ledger oc') c))"
  using canary_step_refines [OF assms(3)] cs.reachable_inv [OF assms(2,1)] by blast

section \<open>Dispatches and the lease\<close>

text \<open>The lease grants of a run, and the contract of the lease: a consumption key belongs to one claim.\<close>

definition grants :: "canary_label list \<Rightarrow> (string \<times> string) set" where
  "grants history = {(k, c). \<exists>host op es res. (host, op, es, res) \<in> set history \<and> ClaimLease k c \<in> set es
     \<and> lease_claim host k c = Some True}"

definition lease_exclusive :: "canary_label list \<Rightarrow> bool" where
  "lease_exclusive history \<longleftrightarrow> (\<forall>k c c'. (k, c) \<in> grants history \<longrightarrow> (k, c') \<in> grants history \<longrightarrow> c = c')"

definition fence_of :: "transition_record \<Rightarrow> string \<times> string" where
  "fence_of rec = (consumption_key (tr_authorization rec), claim_of rec)"

text \<open>
  A step keeps the authorization of every record; a record that is dispatched or that is left in
  another state than preserved was granted its fence now, or had it before.
\<close>

lemma ledger_step_records:
  assumes "ledger_step p host lg es lg'" "map_of (lg_records lg) c = Some rec"
  shows "\<exists>rec'. map_of (lg_records lg') c = Some rec' \<and> tr_authorization rec' = tr_authorization rec"
proof -
  have upd: "\<exists>rec''. map_of (lg_records (settled lg (claim_of r) rec')) c = Some rec''
      \<and> (tr_authorization rec'' = tr_authorization rec)"
    if "tr_authorization rec' = tr_authorization r" "retained lg r \<or> claim_of r \<notin> fst ` set (lg_records lg)" for r rec'
    using that assms(2) by (auto simp: settled_def update_conv' retained_def map_of_eq_None_iff [THEN iffD2])
  from assms(1) show ?thesis
  proof (cases rule: ledger_step.cases)
    case (refused r qs rec')
    then show ?thesis using upd [OF reads_back_fields(3) [OF refused(6)]] by (simp add: new_record_def)
  next
    case (first r qs rec')
    then show ?thesis using upd [OF reads_back_fields(3) [OF first(6)]] by (simp add: new_record_def)
  next
    case (reconciled r rec')
    then show ?thesis using upd [OF reads_back_fields(3) [OF reconciled(5)]] by simp
  next
    case (fence_lost r rec')
    then show ?thesis using upd [OF reads_back_fields(3) [OF fence_lost(7)]] by simp
  next
    case (retried r qs rc rec')
    then show ?thesis using upd [of rec' r] reads_back_fields(3) [OF retried(8)] by simp
  qed (use assms(2) in auto)
qed

lemma ledger_step_fence:
  assumes step: "ledger_step p host lg es lg'" and inv: "ledger_inv p lg" and hyd: "\<not> lg_hydrated lg"
    and rec': "map_of (lg_records lg') c = Some rec'" and live: "tr_state rec' \<noteq> PRESERVED_FOR_OWNER \<or> 0 < dispatches c es"
  shows "ClaimLease (consumption_key (tr_authorization rec')) c \<in> set es
       \<and> lease_claim host (consumption_key (tr_authorization rec')) c = Some True
     \<or> (\<exists>rec. map_of (lg_records lg) c = Some rec \<and> tr_authorization rec = tr_authorization rec' \<and> tr_state rec \<noteq> PRESERVED_FOR_OWNER)"
proof -
  have old: "c \<noteq> claim_of r \<Longrightarrow> map_of (lg_records (settled lg (claim_of r) r')) c = map_of (lg_records lg) c" for r r'
    by (simp add: settled_def update_conv')
  have new: "map_of (lg_records (settled lg (claim_of r) r')) (claim_of r) = Some r'" for r r'
    by (simp add: settled_def update_conv')
  have ret: "map_of (lg_records lg) (claim_of r) = Some r" if "retained lg r" for r using that by (simp add: retained_def)
  from step show ?thesis
  proof (cases rule: ledger_step.cases)
    case (refused r qs r')
    then show ?thesis using live rec' old new by (cases "c = claim_of r") auto
  next
    case (first r qs r')
    then have "dispatches c es = (if c = claim_of r then 1 else 0)" "lease_call r \<in> set es" by simp_all
    with first show ?thesis using live rec' old new reads_back_fields(3) [OF first(6)]
      by (cases "c = claim_of r") (auto simp: lease_call_def lease_granted_def)
  next
    case (reconciled r r')
    then show ?thesis using live rec' old new ret reads_back_fields(3) [OF reconciled(5)] by (cases "c = claim_of r") auto
  next
    case (retried r qs rc r')
    then have "es = dispatch_call r" using hyd by simp
    with retried(2-5) show ?thesis
      using live rec' old new ret reads_back_fields(3) [OF retried(8)] by (cases "c = claim_of r") auto
  qed (use live rec' hyd in auto)
qed

lemma run_fences:
  assumes "canary_run s history t" "fresh_orchestrator s"
  shows "map_of (lg_records (or_ledger t)) c = Some rec \<Longrightarrow> tr_state rec \<noteq> PRESERVED_FOR_OWNER \<or> 0 < dispatches c (effects_of history)
     \<Longrightarrow> (consumption_key (tr_authorization rec), c) \<in> grants history"
  using assms
proof (induction arbitrary: rec rule: cs.reaches.induct)
  case (reaches_nil s)
  then show ?case using fresh_ledger [of s] by auto
next
  case (reaches_snoc s ls t l u)
  obtain host op es res where l: "l = (host, op, es, res)" by (cases l) auto
  have inv: "orchestrator_inv t" using reaches_snoc cs.reachable_inv by blast
  note step = canary_step_ledger(1) [OF reaches_snoc(2) [unfolded l] inv]
  have li: "ledger_inv (or_policy t) (or_ledger t)" "\<not> lg_hydrated (or_ledger t)" using inv by (simp_all add: orchestrator_inv_def)
  have mono: "grants ls \<subseteq> grants (ls @ [l])" by (auto simp: grants_def)
  show ?case
  proof (cases "tr_state rec \<noteq> PRESERVED_FOR_OWNER \<or> 0 < dispatches c es")
    case True
    from ledger_step_fence [OF step li reaches_snoc(4) True] show ?thesis
    proof (elim disjE exE conjE)
      show ?thesis if "ClaimLease (consumption_key (tr_authorization rec)) c \<in> set es"
        "lease_claim host (consumption_key (tr_authorization rec)) c = Some True"
        using that by (auto simp: grants_def l)
      show ?thesis if "map_of (lg_records (or_ledger t)) c = Some r" "tr_authorization r = tr_authorization rec"
        "tr_state r \<noteq> PRESERVED_FOR_OWNER" for r
        using that reaches_snoc(3) [of r] reaches_snoc(6) mono by auto
    qed
  next
    case False
    with reaches_snoc(5) have d: "0 < dispatches c (effects_of ls)" by (simp add: l)
    then have "map_of (lg_records (or_ledger t)) c \<noteq> None"
      using run_dispatches [OF reaches_snoc(1) cs.inv_init [OF reaches_snoc(6)], of c]
      by (cases "map_of (lg_records (or_ledger t)) c") (auto simp: claim_state_def)
    then obtain r where r: "map_of (lg_records (or_ledger t)) c = Some r" by blast
    from ledger_step_records [OF step r] reaches_snoc(4) have "tr_authorization rec = tr_authorization r" by auto
    with reaches_snoc(3) [OF r] d reaches_snoc(6) mono show ?thesis by auto
  qed
qed

fun is_dispatch :: "canary_effect \<Rightarrow> bool" where
  "is_dispatch (Dispatch _ _ _) = True"
| "is_dispatch _ = False"

lemma dispatches_by_claim:
  assumes "finite C" "\<And>c. 0 < dispatches c es \<Longrightarrow> c \<in> C"
  shows "length (filter is_dispatch es) = (\<Sum>c\<in>C. dispatches c es)"
  using assms(2)
proof (induction es)
  case (Cons e es)
  have IH: "length (filter is_dispatch es) = (\<Sum>c\<in>C. dispatches c es)"
    using Cons by (auto simp: dispatches_def split: if_split_asm)
  show ?case
  proof (cases "\<exists>a q u. e = Dispatch a q u")
    case True
    then obtain a q u where e: "e = Dispatch a q u" by blast
    have "claim_digest a \<in> C" using Cons.prems [of "claim_digest a"] by (simp add: e dispatches_def is_dispatch_of_def)
    moreover have "dispatches c (e # es) = dispatches c es + (if c = claim_digest a then 1 else 0)" for c
      by (auto simp: e dispatches_def is_dispatch_of_def)
    ultimately show ?thesis using assms(1) by (simp add: IH e sum.distrib)
  next
    case False
    then have "dispatches c (e # es) = dispatches c es" "\<not> is_dispatch e" for c
      by (cases e; simp add: dispatches_def is_dispatch_of_def)+
    then show ?thesis by (simp add: IH)
  qed
qed (simp add: dispatches_def)

lemma same_head_same_key:
  assumes "reserved_ok p a" "reserved_ok p b"
    and "au_receipt_chain_head_digest (tr_authorization a) = au_receipt_chain_head_digest (tr_authorization b)"
  shows "consumption_key (tr_authorization a) = consumption_key (tr_authorization b)"
  using assms(3) assms(1,2) [unfolded reserved_ok_def] authorization_fields [of _ _ _ _ "tr_authorization a"]
    authorization_fields [of _ _ _ _ "tr_authorization b"] by (metis (no_types))

text \<open>
  C3 (canary_dispatches_within_budget). The end-to-end budget: when the owner-host lease keeps
  its contract, that a consumption key is granted to one claim only, the whole run dispatches at
  most twice the number of calls of the policy, whatever the broker answers and however many
  requests are delivered, including those that end in quarantine and never reach the chain.
\<close>

theorem canary_dispatches_within_budget:
  assumes "fresh_orchestrator s" "canary_run s history t" "lease_exclusive history"
  shows "length (filter is_dispatch (effects_of history)) \<le> 2 * nat (total_calls (cp_budget (or_policy s)))"
proof -
  let ?lg = "or_ledger t" and ?es = "effects_of history"
  define C where "C = {c. 0 < dispatches c ?es}"
  define rec where "rec c = the (map_of (lg_records ?lg) c)" for c
  define head where "head c = au_receipt_chain_head_digest (tr_authorization (rec c))" for c
  have pol: "or_policy t = or_policy s"
    using assms(2) by (induction rule: cs.reaches.induct) (auto elim!: canary_step.cases)
  note inv = cs.reachable_inv [OF assms(2,1)]
  then have li: "ledger_inv (or_policy s) ?lg" by (simp add: orchestrator_inv_def pol)
  have known: "map_of (lg_records ?lg) c = Some (rec c)" if "c \<in> C" for c
    using that run_dispatches [OF assms(2) cs.inv_init [OF assms(1)], of c]
    by (cases "map_of (lg_records ?lg) c") (auto simp: C_def rec_def claim_state_def)
  have ok: "reserved_ok (or_policy s) (rec c)" "record_ok (or_policy s) (lg_chain ?lg) (rec c)" if "c \<in> C" for c
    using inv_retained [OF li known [OF that]] by auto
  have fenced: "(consumption_key (tr_authorization (rec c)), c) \<in> grants history" if "c \<in> C" for c
    using run_fences [OF assms(2,1) known [OF that]] that by (simp add: C_def)
  have "C \<subseteq> dom (map_of (lg_records ?lg))" using known by auto
  then have fin: "finite C" using finite_dom_map_of finite_subset by blast
  have "inj_on head C"
    using fenced ok(1) same_head_same_key assms(3) by (auto simp: inj_on_def head_def lease_exclusive_def) metis
  moreover have "head ` C \<subseteq> (\<lambda>i. receipt_digest (lg_chain ?lg ! i)) ` {..<nat (total_calls (cp_budget (or_policy s)))}"
    using ok(2) unfolding record_ok_def head_def by fastforce
  ultimately have "card C \<le> nat (total_calls (cp_budget (or_policy s)))"
    using surj_card_le [of "{..<nat (total_calls (cp_budget (or_policy s)))}" "head ` C"] by (simp add: card_image)
  moreover have "length (filter is_dispatch ?es) = (\<Sum>c\<in>C. dispatches c ?es)"
    by (rule dispatches_by_claim [OF fin]) (simp add: C_def)
  moreover have "(\<Sum>c\<in>C. dispatches c ?es) \<le> (\<Sum>c\<in>C. 2)"
  proof (rule sum_mono)
    show "dispatches c ?es \<le> 2" for c
      using run_dispatches [OF assms(2) cs.inv_init [OF assms(1)], of c]
      by (cases "claim_state ?lg c") (auto split: if_split_asm)
  qed
  ultimately show ?thesis by simp
qed

section \<open>Verification, final records and duplicate deliveries\<close>

text \<open>Every step that settles a record reads it back, unless the lease was refused.\<close>

lemma ledger_step_reads:
  assumes "ledger_step p host lg es lg'" "map_of (lg_records lg') c = Some rec'" "map_of (lg_records lg) c \<noteq> Some rec'"
  shows "lg' = settled lg c rec' \<and> (tr_state rec' = VERIFIED \<longrightarrow> Readback (tr_authorization rec') (tr_request rec') \<in> set es)
     \<and> (\<exists>rec. reads_back host lg rec rec' \<and> claim_of rec = c)"
proof -
  have c: "c = claim_of r \<and> rec' = r'" if "lg' = settled lg (claim_of r) r'" for r r'
    using that assms(2,3) by (auto simp: settled_def update_conv' split: if_split_asm)
  from assms(1) show ?thesis
  proof (cases rule: ledger_step.cases)
    case (refused r qs r')
    then show ?thesis using c by auto
  next
    case (first r qs r')
    then show ?thesis using c reads_back_fields(3,5) [OF first(6)] by (auto simp: dispatch_call_def)
  next
    case (reconciled r r')
    then show ?thesis using c reads_back_fields(3,5) [OF reconciled(5)] by auto
  next
    case (fence_lost r r')
    then show ?thesis using c by auto
  next
    case (retried r qs rc r')
    let ?r = "r\<lparr>tr_retry_used := True, tr_state := CLAIMED, tr_receipt := rc\<rparr>"
    have "claim_of ?r = claim_of r" by (simp add: claim_of_def)
    with retried show ?thesis using c reads_back_fields(3,5) [OF retried(8)] by (auto simp: dispatch_call_def intro!: exI [of _ ?r])
  qed (use assms(2,3) in auto)
qed

text \<open>
  C5 (canary_verified_needs_applied). Acknowledged dispatches prove nothing: an operation turns
  a transition verified only if, in this very operation, the broker's semantic read-back of
  exactly that authorization and request said applied. The chain then grows by one receipt,
  which counts this request's operation once more and carries the digest that was read back,
  and the retained execution receipt names it.
\<close>

theorem canary_verified_needs_applied:
  assumes "fresh_orchestrator s" "canary_run s history oc" "canary_step oc (host, op, es, res) oc'"
    and "map_of (lg_records (or_ledger oc')) claim = Some rec" "tr_state rec = VERIFIED"
    and "map_of (lg_records (or_ledger oc)) claim \<noteq> Some rec"
  shows "\<exists>cr. tr_canary_receipt rec = Some cr \<and> Readback (tr_authorization rec) (tr_request rec) \<in> set es
    \<and> broker_readback host (tr_authorization rec) (tr_request rec) = Answer (APPLIED, cr_semantic_readback_digest cr)
    \<and> advance_canary_receipt (last (lg_chain (or_ledger oc))) (rq_operation (tr_request rec)) (cr_semantic_readback_digest cr) = Inr cr
    \<and> lg_chain (or_ledger oc') = lg_chain (or_ledger oc) @ [cr]
    \<and> er_canary_receipt_digest (tr_receipt rec) = Some (receipt_digest cr)
    \<and> er_semantic_readback_digest (tr_receipt rec) = Some (cr_semantic_readback_digest cr)"
proof -
  note step = canary_step_ledger(1) [OF assms(3) cs.reachable_inv [OF assms(2,1)]]
  from ledger_step_reads [OF step assms(4,6)] assms(5) obtain r where rb: "reads_back host (or_ledger oc) r rec"
    and lg: "or_ledger oc' = settled (or_ledger oc) claim rec" "Readback (tr_authorization rec) (tr_request rec) \<in> set es" by blast
  from rb assms(5) obtain cr where cr: "tr_canary_receipt rec = Some cr" using reads_back_fields(8) by blast
  from rb cr obtain readback where "record_receipt rec readback = Inr (tr_receipt rec)" by (auto simp: reads_back_def)
  with cr have "er_canary_receipt_digest (tr_receipt rec) = Some (receipt_digest cr)"
    by (auto simp: record_receipt_def receipt_for_def make_execution_receipt_def)
  with rb lg cr show ?thesis by (auto simp: reads_back_def settled_def)
qed

lemma final_record_kept:
  assumes step: "ledger_step p host lg es lg'" and inv: "ledger_inv p lg"
    and rec: "map_of (lg_records lg) c = Some rec" "tr_state rec \<in> {VERIFIED, PRESERVED_FOR_OWNER}"
  shows "map_of (lg_records lg') c = Some rec \<and> dispatches c es = 0"
proof -
  have k: "c = claim_of rec" "retained lg rec" using inv_retained [OF inv rec(1)] by auto
  have keep: "c \<noteq> claim_of r \<Longrightarrow> map_of (lg_records (settled lg (claim_of r) r')) c = Some rec" for r r'
    using rec(1) by (simp add: settled_def update_conv')
  have new: "c \<noteq> claim_of r" if "new_record p lg r" for r using that rec(1) by (metis new_record_def map_of_eq_None_iff option.distinct(1))
  have old: "c \<noteq> claim_of r" if "retained lg r" "tr_state r \<notin> {VERIFIED, PRESERVED_FOR_OWNER}" for r
    using that rec by (auto simp: retained_def)
  from step show ?thesis
  proof (cases rule: ledger_step.cases)
    case (reconciled r r')
    then show ?thesis using keep old [of r] by auto
  next
    case (fence_lost r r')
    then show ?thesis using keep old [of r] by auto
  next
    case (retried r qs rc r')
    then show ?thesis using keep old [of r] by auto
  qed (use keep new rec(1) in auto)
qed

text \<open>
  Verified and preserved transitions are final: whatever happens
  afterwards, the record with its receipt stays as it is and its claim is never dispatched again.
\<close>

lemma canary_final_records_kept:
  assumes "fresh_orchestrator s0" "canary_run s0 before s" "canary_run s history t"
    and "map_of (lg_records (or_ledger s)) claim = Some rec" "tr_state rec \<in> {VERIFIED, PRESERVED_FOR_OWNER}"
  shows "map_of (lg_records (or_ledger t)) claim = Some rec \<and> dispatches claim (effects_of history) = 0"
  using assms(3) cs.reachable_inv [OF assms(2,1)] assms(4,5)
proof (induction rule: cs.reaches.induct)
  case (reaches_snoc s ls t l u)
  obtain host op es res where l: "l = (host, op, es, res)" by (cases l) auto
  have inv: "orchestrator_inv t" using reaches_snoc cs.reaches_inv by blast
  from final_record_kept [OF canary_step_ledger(1) [OF reaches_snoc(2) [unfolded l] inv], of claim rec] inv reaches_snoc
  show ?case by (simp add: l orchestrator_inv_def)
qed simp

lemma filter_distinct_key:
  "distinct (map f xs) \<Longrightarrow> x \<in> set xs \<Longrightarrow> filter (\<lambda>y. f y = f x) xs = [x]"
  by (induction xs) (auto simp: filter_empty_conv, metis imageI)

text \<open>
  Delivery is idempotent: a request that the ledger already
  holds for the same purpose, in whatever state, is answered with the retained receipt, without
  any call to the lease or the broker and without a change of the ledger.
\<close>

lemma canary_duplicate_delivery:
  assumes "fresh_orchestrator s" "canary_run s history oc" "(claim, rec) \<in> set (lg_records (or_ledger oc))"
  shows "\<exists>x. orch_begin host oc (tr_request rec) (tr_purpose rec) = (or_ledger oc, [], Inr x)
    \<and> xr_receipt x = Some (tr_receipt rec) \<and> xr_canary_receipt x = tr_canary_receipt rec
    \<and> cd_next_action (xr_decision x) = ''reuse-receipt'' \<and> cd_authorization (xr_decision x) = None"
proof -
  have "distinct (map delivery (map snd (lg_records (or_ledger oc))))"
    using cs.reachable_inv [OF assms(2,1)] by (simp add: orchestrator_inv_def ledger_inv_def comp_def)
  moreover have "rec \<in> set (map snd (lg_records (or_ledger oc)))" using assms(3) by force
  ultimately have "filter (\<lambda>y. delivery y = delivery rec) (map snd (lg_records (or_ledger oc))) = [rec]"
    by (rule filter_distinct_key)
  then have "ledger_matching (or_ledger oc) (tr_request rec) (tr_purpose rec) = Inr (Some rec)"
    by (simp add: ledger_matching_def delivery_def)
  then show ?thesis by (simp add: orch_begin_def Let_def exec_result_def)
qed

text \<open>
  C6 (canary_ledger_invariant). In every reachable state the receipt chain is accepted by
  \<open>validate_canary_receipt_chain\<close> with the ledger's last receipt as head, it has exactly one receipt
  per verified transition after the genesis and stays within the call budget; no two records
  share a claim or a delivery; every record is within the policy's scope, was authorized at a
  receipt of the chain, and a verified one is followed there by its own Canary receipt.
\<close>

theorem canary_ledger_invariant:
  assumes "fresh_orchestrator s" "canary_run s history t"
  shows "validate_canary_receipt_chain (or_policy t) (lg_chain (or_ledger t)) = Inr (last (lg_chain (or_ledger t)))
    \<and> length (filter (is_verified \<circ> snd) (lg_records (or_ledger t))) + 1 = length (lg_chain (or_ledger t))
    \<and> int (length (lg_chain (or_ledger t))) - 1 \<le> total_calls (cp_budget (or_policy t))
    \<and> distinct (map fst (lg_records (or_ledger t))) \<and> distinct (map (delivery \<circ> snd) (lg_records (or_ledger t)))
    \<and> (\<forall>(claim, rec)\<in>set (lg_records (or_ledger t)). claim = claim_digest (tr_authorization rec)
         \<and> rq_operation (tr_request rec) \<in> set (requested_operations (or_policy t)) \<and> rq_branch (tr_request rec) = cp_branch (or_policy t)
         \<and> set (rq_paths (tr_request rec)) \<subseteq> set (allowed_paths (or_policy t))
         \<and> au_receipt_chain_head_digest (tr_authorization rec) \<in> receipt_digest ` set (lg_chain (or_ledger t))
         \<and> (tr_state rec = VERIFIED \<longrightarrow> (\<exists>cr\<in>set (lg_chain (or_ledger t)). tr_canary_receipt rec = Some cr
              \<and> predecessor_receipt_digest cr = Some (au_receipt_chain_head_digest (tr_authorization rec)))))"
proof -
  have inv: "ledger_inv (or_policy t) (or_ledger t)" using cs.reachable_inv [OF assms(2,1)] by (simp add: orchestrator_inv_def)
  then have chain: "chain_ok (or_policy t) (lg_chain (or_ledger t))" by (simp add: ledger_inv_def)
  note facts = chain_ok_facts [OF chain]
  have "count_sum (operation_counts (last (lg_chain (or_ledger t)))) \<le> total_calls (cp_budget (or_policy t))"
    using receipt_ok_counts(4) [of "last (lg_chain (or_ledger t))"] facts by auto
  moreover have "claim = claim_digest (tr_authorization rec)
         \<and> rq_operation (tr_request rec) \<in> set (requested_operations (or_policy t)) \<and> rq_branch (tr_request rec) = cp_branch (or_policy t)
         \<and> set (rq_paths (tr_request rec)) \<subseteq> set (allowed_paths (or_policy t))
         \<and> au_receipt_chain_head_digest (tr_authorization rec) \<in> receipt_digest ` set (lg_chain (or_ledger t))
         \<and> (tr_state rec = VERIFIED \<longrightarrow> (\<exists>cr\<in>set (lg_chain (or_ledger t)). tr_canary_receipt rec = Some cr
              \<and> predecessor_receipt_digest cr = Some (au_receipt_chain_head_digest (tr_authorization rec))))"
    if "(claim, rec) \<in> set (lg_records (or_ledger t))" for claim rec
  proof -
    from that inv have r: "claim = claim_digest (tr_authorization rec)" "record_ok (or_policy t) (lg_chain (or_ledger t)) rec"
      by (auto simp: ledger_inv_def)
    then show ?thesis using record_ok_unverified(1) [OF r(2)] by (auto simp: record_ok_def reserved_ok_def)
  qed
  ultimately show ?thesis using inv chain facts by (auto simp: ledger_inv_def chain_ok_def)
qed

section \<open>Errors\<close>

lemma orch_decision_budget:
  assumes "orch_decision oc request = Inr d" "cd_authorized d" "chain_ok (or_policy oc) (lg_chain (or_ledger oc))"
  shows "\<exists>n. count_of (operation_counts (last (lg_chain (or_ledger oc)))) (rq_operation request) = Inr n
     \<and> n < limit_for (cp_budget (or_policy oc)) (rq_operation request)"
proof -
  from assms(1) obtain c where
    "authorize_canary_request (Some (or_policy oc)) (Some c) (Some request) (Some (lg_chain (or_ledger oc))) = Inr d"
    by (auto simp: orch_decision_def Let_def bind_result_Inr_iff)
  from authorize_facts [OF this assms(2)] assms(3) show ?thesis by (auto simp: chain_ok_def)
qed

lemma orch_decision_total:
  assumes inv: "orchestrator_inv oc" and q: "is_digest (rq_request_digest request)"
  shows "\<exists>d. orch_decision oc request = Inr d"
proof -
  let ?chain = "lg_chain (or_ledger oc)" and ?p = "or_policy oc"
  let ?c = "(or_context oc)\<lparr>cc_prior_receipt_digest := Some (receipt_digest (last ?chain))\<rparr>"
  have chain: "chain_ok ?p ?chain" using inv by (simp add: orchestrator_inv_def ledger_inv_def)
  note h = chain_ok_facts [OF chain]
  have v: "validate_canary_receipt_chain ?p ?chain = Inr (last ?chain)" "canary_policy_validate ?p = Inr ()"
    using chain by (simp_all add: chain_ok_def)
  have digests: "is_digest (receipt_digest (last ?chain))" "is_digest (cp_policy_digest ?p)" "is_digest (cp_contract_digest ?p)"
    using h v(2) by (auto simp: receipt_ok_def digest_value_digest canary_policy_validate_iff canary_policy_guards_def
        canary_require_digest_def Let_def)
  have "target_policy_for ?c None = target_policy_for (or_context oc) None" by (simp add: target_policy_for_def)
  then have ctx: "list_all fst (context_construct_guards ?c)"
    using inv digests(1) by (simp add: orchestrator_inv_def context_construct_guards_def canary_require_sha_def canary_require_digest_def)
  have auth: "\<exists>a. make_authorization (cp_policy_digest ?p) (cp_contract_digest ?p) (rq_request_digest request) (receipt_digest (last ?chain)) = Inr a"
    using digests q by (simp add: make_authorization_def Let_def canary_require_digest_def construct_ok)
  have "\<exists>d. authorize_canary_request (Some ?p) (Some ?c) (Some request) (Some ?chain) = Inr d"
  proof (cases "rq_operation request \<in> set (requested_operations ?p)")
    case False
    then show ?thesis by (simp add: authorize_canary_request_def Let_def)
  next
    case True
    with count_of_ok(1) [of "last ?chain" "rq_operation request"] h obtain n
      where "count_of (operation_counts (last ?chain)) (rq_operation request) = Inr n" by auto
    with True v auth show ?thesis
      by (auto simp: authorize_canary_request_def Let_def split: sum.split)
  qed
  with ctx show ?thesis by (simp add: orch_decision_def Let_def construct_ok)
qed

lemma received_Raises:
  "received ans = Raises e \<Longrightarrow> (\<And>f. ans = Raises f \<Longrightarrow> caught f) \<Longrightarrow> caught e"
  by (cases ans rule: received.cases)
    (auto simp: make_readback_def construct_def execution_require_digest_def split: if_split_asm)

lemma cleanup_error_caught:
  assumes "\<And>a u d e. broker_pre_readback host a u d = Raises e \<Longrightarrow> caught e"
    and "cleanup_precondition host a request lg = (es, Inl e)"
  shows "caught e"
proof -
  have p: "caught f" if "ledger_predecessor lg = Inl f" for f
    using that by (auto simp: ledger_predecessor_def Let_def split: if_split_asm list.split_asm)
  have i: "caught f" if "cleanup_action_for g = Inl f" for f g
    using that by (auto simp: cleanup_action_for_def split: option.split_asm)
  have r: "caught f" if "received (broker_pre_readback host x y z) = Raises f" for f x y z
    using received_Raises [OF that] assms(1) by blast
  from assms(2) show ?thesis
    by (auto simp: cleanup_precondition_def Let_def split: sum.split_asm option.split_asm if_split_asm answer.split_asm
        intro: p i r)
qed

lemma begin_total:
  assumes inv: "orchestrator_inv oc" and q: "is_digest (rq_request_digest request)"
    and pre: "\<And>a u d e. broker_pre_readback host a u d = Raises e \<Longrightarrow> caught e"
    and run: "orch_begin host oc request purpose = (lg', es, res)"
  shows "\<exists>x. res = Inr x"
proof -
  let ?lg = "or_ledger oc"
  have li: "ledger_inv (or_policy oc) ?lg" and chain: "chain_ok (or_policy oc) (lg_chain ?lg)"
    using inv by (simp_all add: orchestrator_inv_def ledger_inv_def)
  obtain d where d: "orch_decision oc request = Inr d" using orch_decision_total [OF inv q] by blast
  show ?thesis
  proof (cases "ledger_matching ?lg request purpose = Inr None \<and> cd_authorized d")
    case False
    with d run show ?thesis by (auto simp: orch_begin_def Let_def split: sum.split_asm option.split_asm bool.split_asm)
  next
    case True
    with orch_decision_facts [OF d _ chain] obtain a where a: "cd_authorization d = Some a" by auto
    have go: "\<exists>x. res' = Inr x" if "begin_reserved host d a request purpose predecessor pre_state ?lg = (lg'', es', res')"
      "cleanup_evidence purpose predecessor pre_state" "pred_option is_digest predecessor" "pred_option is_digest pre_state"
      for predecessor pre_state lg'' es' res'
      by (rule begin_reserved_step [OF chain, where qs = "[]", THEN conjunct2])
        (use orch_decision_facts [OF d _ chain] a that True in auto)
    show ?thesis
    proof (cases "purpose = FOR_EXECUTE")
      case True
      with run d a \<open>_ \<and> cd_authorized d\<close> go [of None None lg' es res] show ?thesis
        by (simp add: orch_begin_def Let_def cleanup_evidence_def)
    next
      case False
      obtain qs p where c: "cleanup_precondition host a request ?lg = (qs, p)" by (cases "cleanup_precondition host a request ?lg")
      note facts = cleanup_precondition_facts [OF li c]
      obtain lg1 es1 res1 where b: "begin_reserved host d a request purpose (Some (fst (projr p))) (Some (snd (projr p))) ?lg = (lg1, es1, res1)"
        by (cases "begin_reserved host d a request purpose (Some (fst (projr p))) (Some (snd (projr p))) ?lg") auto
      have "caught e" if "p = Inl e" for e
        using cleanup_error_caught [OF pre c [unfolded that]] .
      with run d a \<open>_ \<and> cd_authorized d\<close> c False facts b go [OF b] show ?thesis
        by (cases p) (auto simp: orch_begin_def Let_def cleanup_evidence_def prefix_effects_def)
    qed
  qed
qed

lemma with_retained_total:
  assumes inv: "orchestrator_inv oc" and c: "is_digest claim"
    and cont: "\<And>d rec. map_of (lg_records (or_ledger oc)) claim = Some rec \<Longrightarrow> \<exists>lg' es x. continue d rec = (lg', es, Inr x)"
  shows "\<exists>lg' es x. with_retained oc claim drifted continue = (lg', es, Inr x)"
proof (cases "map_of (lg_records (or_ledger oc)) claim")
  case None
  with c show ?thesis by (simp add: with_retained_def ledger_record_def Let_def construct_ok execution_require_digest_def)
next
  case (Some rec)
  have li: "ledger_inv (or_policy oc) (or_ledger oc)" using inv by (simp add: orchestrator_inv_def)
  have "is_digest (rq_request_digest (tr_request rec))"
    using inv_retained [OF li Some] authorization_fields by (auto simp: reserved_ok_def)
  from orch_decision_total [OF inv this] obtain d where "orch_decision oc (tr_request rec) = Inr d" by blast
  with Some c cont [OF Some, of d] show ?thesis
    by (auto simp: with_retained_def ledger_record_def Let_def construct_ok execution_require_digest_def)
qed

lemma reconcile_total:
  assumes inv: "orchestrator_inv oc" and c: "is_digest claim"
  shows "\<exists>lg' es x. reconcile host oc claim = (lg', es, Inr x)"
  unfolding reconcile_def
proof (rule with_retained_total [OF inv c])
  fix d rec assume rec: "map_of (lg_records (or_ledger oc)) claim = Some rec"
  have li: "ledger_inv (or_policy oc) (or_ledger oc)" using inv by (simp add: orchestrator_inv_def)
  then have chain: "chain_ok (or_policy oc) (lg_chain (or_ledger oc))" by (simp add: ledger_inv_def)
  from inv_retained [OF li rec] orch_readback_settles [OF chain, of rec host d True]
  show "\<exists>lg' es x. (if tr_state rec \<notin> {QUARANTINED, RETRY_ALLOWED}
     then (or_ledger oc, [], Inr (exec_result d (Some (tr_receipt rec)) (tr_canary_receipt rec)))
     else orch_readback host d (tr_authorization rec) rec True (or_ledger oc)) = (lg', es, Inr x)"
    by (auto simp: retained_def claim_of_def)
qed

lemma retry_total:
  assumes inv: "orchestrator_inv oc" and c: "is_digest claim"
  shows "\<exists>lg' es x. retry host oc claim = (lg', es, Inr x)"
  unfolding retry_def
proof (rule with_retained_total [OF inv c])
  fix d rec assume rec: "map_of (lg_records (or_ledger oc)) claim = Some rec"
  have li: "ledger_inv (or_policy oc) (or_ledger oc)" and hyd: "\<not> lg_hydrated (or_ledger oc)" using inv by (simp_all add: orchestrator_inv_def)
  obtain lg1 es1 res1 where run: "retry_consumed host d rec (or_ledger oc) = (lg1, es1, res1)"
    by (cases "retry_consumed host d rec (or_ledger oc)") auto
  have "tr_state rec = RETRY_ALLOWED \<Longrightarrow> \<exists>x. res1 = Inr x" using retry_consumed_step [OF li rec _ run] by blast
  then show "\<exists>lg' es x. (let lg = or_ledger oc; a = tr_authorization rec in
     if tr_state rec \<noteq> RETRY_ALLOWED
       then (lg, [], Inr (exec_denied ''Canary retry requires an absent semantic read-back'' (cd_policy_digest d)
               (Some (tr_receipt rec)) None)) else
     if lg_hydrated lg
       then prefix_effects [ClaimLease (consumption_key a) (claim_digest a)]
         (if lease_claim host (consumption_key a) (claim_digest a) \<noteq> Some True
          then after_update (ledger_update (claim_digest a) PRESERVED_FOR_OWNER None None None lg)
                 (\<lambda>rec'. exec_denied ''replacement Orchestrator cannot prove the original retry fence'' (cd_policy_digest d)
                    (Some (tr_receipt rec')) None)
          else retry_consumed host d rec lg)
       else retry_consumed host d rec lg) = (lg', es, Inr x)"
    using run hyd by (auto simp: Let_def)
qed

text \<open>A request or claim digest as its constructor or the ledger would give it.\<close>

fun op_digest :: "canary_op \<Rightarrow> string" where
  "op_digest (Execute request) = rq_request_digest request"
| "op_digest (Rollback request) = rq_request_digest request"
| "op_digest (Cleanup request) = rq_request_digest request"
| "op_digest (Reconcile claim) = claim"
| "op_digest (Retry claim) = claim"

text \<open>
  On every reachable state, with a well-formed request or claim digest,
  every operation returns a result, whatever the lease and the broker answer or raise; the only
  exceptions that pass are those of the pre-state read-back outside the classes the code
  handles. In particular no \<open>KeyError\<close> escapes from the call counts, the context can be rebuilt,
  and no execution receipt fails to be constructed after its record was changed.
\<close>

lemma canary_never_raises:
  assumes "fresh_orchestrator s" "canary_run s history oc" "is_digest (op_digest op)"
    and "\<And>a q d e. broker_pre_readback host a q d = Raises e \<Longrightarrow> caught e"
  shows "\<exists>lg es x. run_canary host oc op = (lg, es, Inr x)"
proof -
  note inv = cs.reachable_inv [OF assms(2,1)]
  obtain lg es res where run: "run_canary host oc op = (lg, es, res)" by (cases "run_canary host oc op") auto
  have "\<exists>x. res = Inr x"
  proof (cases op)
    case (Reconcile claim)
    with run assms(3) reconcile_total [OF inv, of claim host] show ?thesis by auto
  next
    case (Retry claim)
    with run assms(3) retry_total [OF inv, of claim host] show ?thesis by auto
  qed (use run assms(3,4) begin_total [OF inv, of _ host] in \<open>auto simp: execute_def rollback_def cleanup_def\<close>)
  with run show ?thesis by blast
qed

section \<open>Progress\<close>

lemma execute_granted:
  assumes inv: "orchestrator_inv oc"
    and dec: "orch_decision oc request = Inr d" "cd_authorized d" "cd_authorization d = Some a"
    and new: "ledger_matching (or_ledger oc) request FOR_EXECUTE = Inr None" "map_of (lg_records (or_ledger oc)) (claim_digest a) = None"
    and lease: "lease_claim host (consumption_key a) (claim_digest a) = Some True"
  shows "\<exists>rec. execute host oc request = prefix_effects [ClaimLease (consumption_key a) (claim_digest a)] (orch_dispatch host d a rec
       (or_ledger oc\<lparr>lg_records := lg_records (or_ledger oc) @ [(claim_digest a, rec)]\<rparr>))
    \<and> reserved_ok (or_policy oc) rec \<and> tr_authorization rec = a \<and> tr_request rec = request \<and> tr_purpose rec = FOR_EXECUTE
    \<and> \<not> tr_retry_used rec \<and> au_receipt_chain_head_digest a = receipt_digest (last (lg_chain (or_ledger oc)))"
proof -
  let ?lg = "or_ledger oc" and ?p = "or_policy oc"
  have chain: "chain_ok ?p (lg_chain ?lg)" using inv by (simp add: orchestrator_inv_def ledger_inv_def)
  note facts = orch_decision_facts [OF dec(1,2) chain]
  from facts dec(3) have a: "make_authorization (cp_policy_digest ?p) (cp_contract_digest ?p) (rq_request_digest request)
      (receipt_digest (last (lg_chain ?lg))) = Inr a" by simp
  note af = authorization_fields [OF a]
  let ?rec = "\<lambda>r. \<lparr>tr_authorization = a, tr_request = request, tr_purpose = FOR_EXECUTE, tr_state = CLAIMED,
      tr_receipt = r, tr_canary_receipt = None, tr_retry_used = False, tr_predecessor_digest = None, tr_pre_state_digest = None\<rparr>"
  have ok: "reserved_ok ?p (?rec r)" for r using a af facts by (simp add: reserved_ok_def cleanup_evidence_def)
  from record_receipt_ok [OF ok, of None] obtain r where r: "receipt_for a FOR_EXECUTE CLAIMED None None None None False = Inr r"
    by (auto simp: record_receipt_def)
  then have "ledger_reserve ?lg a request FOR_EXECUTE None None
      = Inr (?lg\<lparr>lg_records := lg_records ?lg @ [(claim_digest a, ?rec r)]\<rparr>, ?rec r, True)"
    using new(2) by (simp add: ledger_reserve_def Let_def)
  with dec new lease ok af show ?thesis
    by (intro exI [of _ "?rec r"]) (simp add: execute_def orch_begin_def begin_reserved_def Let_def)
qed

lemma execution_completes_aux:
  assumes inv: "orchestrator_inv oc"
    and dec: "orch_decision oc request = Inr d" "cd_authorized d" "cd_authorization d = Some a"
    and new: "ledger_matching (or_ledger oc) request FOR_EXECUTE = Inr None" "map_of (lg_records (or_ledger oc)) (claim_digest a) = None"
    and lease: "lease_claim host (consumption_key a) (claim_digest a) = Some True"
    and rb: "broker_readback host a request = Answer (APPLIED, digest)" "is_digest digest"
  shows "\<exists>lg x cr rec. execute host oc request = (lg, [ClaimLease (consumption_key a) (claim_digest a),
        Dispatch a request FOR_EXECUTE, Readback a request], Inr x)
    \<and> xr_verified x \<and> xr_canary_receipt x = Some cr \<and> lg_chain lg = lg_chain (or_ledger oc) @ [cr]
    \<and> cr_semantic_readback_digest cr = digest \<and> map_of (lg_records lg) (claim_digest a) = Some rec \<and> tr_state rec = VERIFIED
    \<and> tr_request rec = request \<and> tr_purpose rec = FOR_EXECUTE
    \<and> advance_canary_receipt (last (lg_chain (or_ledger oc))) (rq_operation request) digest = Inr cr"
proof -
  let ?lg = "or_ledger oc" and ?p = "or_policy oc"
  have chain: "chain_ok ?p (lg_chain ?lg)" using inv by (simp add: orchestrator_inv_def ledger_inv_def)
  note facts = orch_decision_facts [OF dec(1,2) chain] and head = chain_ok_facts [OF chain]
  from execute_granted [OF inv dec new lease] obtain rec where
    ex: "execute host oc request = prefix_effects [ClaimLease (consumption_key a) (claim_digest a)] (orch_dispatch host d a rec
       (?lg\<lparr>lg_records := lg_records ?lg @ [(claim_digest a, rec)]\<rparr>))"
    and rec: "reserved_ok ?p rec" "tr_authorization rec = a" "tr_request rec = request" "tr_purpose rec = FOR_EXECUTE" "\<not> tr_retry_used rec"
      "au_receipt_chain_head_digest a = receipt_digest (last (lg_chain ?lg))" by blast
  let ?lg1 = "?lg\<lparr>lg_records := lg_records ?lg @ [(claim_digest a, rec)]\<rparr>"
  have look: "map_of (lg_records ?lg1) (claim_digest a) = Some rec" using new(2) by (simp add: map_add_def)
  obtain n where n: "count_of (operation_counts (last (lg_chain ?lg))) (rq_operation request) = Inr n"
    and lim: "n < limit_for (cp_budget ?p) (rq_operation request)"
    using orch_decision_budget [OF dec(1,2) chain] by blast
  have "count_sum (operation_counts (last (lg_chain ?lg))) < total_calls (cp_budget ?p)" using head facts by auto
  with advance_succeeds [OF _ _ _ n] lim head facts rb(2) obtain cr
    where cr: "advance_canary_receipt (last (lg_chain ?lg)) (rq_operation request) digest = Inr cr" by auto
  note adv = advance_Inr [OF cr]
  have "is_digest (receipt_digest cr)" using adv by (simp add: receipt_ok_def digest_value_digest)
  with record_receipt_ok [of ?p "rec\<lparr>tr_state := VERIFIED, tr_canary_receipt := Some cr\<rparr>" "Some digest"] rec(1,5) rb(2)
  obtain r' where r': "record_receipt (rec\<lparr>tr_state := VERIFIED, tr_canary_receipt := Some cr\<rparr>) (Some digest) = Inr r'"
    and st: "er_state r' = VERIFIED" by auto
  from ledger_update_settles [OF look _ _ r'] adv rec have
    up: "ledger_update (claim_digest a) VERIFIED (Some digest) (Some cr) None ?lg1 =
     (settled ?lg1 (claim_digest a) (rec\<lparr>tr_state := VERIFIED, tr_canary_receipt := Some cr, tr_receipt := r'\<rparr>),
      Inr (rec\<lparr>tr_state := VERIFIED, tr_canary_receipt := Some cr, tr_receipt := r'\<rparr>))" by simp
  have "received (broker_readback host a request) = Answer \<lparr>rb_state = APPLIED, rb_digest = digest\<rparr>"
    unfolding received_Answer_iff using rb by simp
  then have "execute host oc request = (settled ?lg1 (claim_digest a) (rec\<lparr>tr_state := VERIFIED, tr_canary_receipt := Some cr, tr_receipt := r'\<rparr>),
     [ClaimLease (consumption_key a) (claim_digest a), Dispatch a request FOR_EXECUTE, Readback a request],
     Inr (exec_result d (Some r') (Some cr)))"
    using ex cr up rec by (simp add: orch_dispatch_def orch_readback_def readback_applied_def prefix_effects_def Let_def)
  with adv cr st rec show ?thesis by (auto simp: xr_verified_def exec_result_def settled_def update_conv')
qed

text \<open>
  An undisturbed execution succeeds: if the request is
  authorized in a reachable state and neither its delivery nor its claim is known, the lease
  grants the fence and the read-back says applied, then \<open>execute\<close> claims, dispatches, reads back,
  in this order, and reports a verified transition whose Canary receipt is the new head.
\<close>

lemma canary_execution_completes:
  assumes "fresh_orchestrator s" "canary_run s history oc"
    and "orch_decision oc request = Inr d" "cd_authorized d" "cd_authorization d = Some a"
    and "ledger_matching (or_ledger oc) request FOR_EXECUTE = Inr None" "map_of (lg_records (or_ledger oc)) (claim_digest a) = None"
    and "lease_claim host (consumption_key a) (claim_digest a) = Some True"
    and "broker_readback host a request = Answer (APPLIED, digest)" "is_digest digest"
  shows "\<exists>lg x cr. execute host oc request = (lg, [ClaimLease (consumption_key a) (claim_digest a),
        Dispatch a request FOR_EXECUTE, Readback a request], Inr x)
    \<and> xr_verified x \<and> xr_canary_receipt x = Some cr \<and> lg_chain lg = lg_chain (or_ledger oc) @ [cr]
    \<and> cr_semantic_readback_digest cr = digest"
  using execution_completes_aux [OF cs.reachable_inv [OF assms(2,1)] assms(3-10)] by blast

section \<open>Interleaved updates\<close>

lemma repeated_receipt_rejected:
  assumes chain: "chain_ok p (chain @ [cr])"
  shows "\<exists>e. validate_canary_receipt_chain p (chain @ [cr, cr]) = Inl e"
proof -
  have v: "validate_canary_receipt_chain p (chain @ [cr]) = Inr cr" "canary_policy_validate p = Inr ()" "cr_policy cr = p"
    using chain by (simp_all add: chain_ok_def)
  have ok: "receipt_ok cr" using chain_ok_facts [OF chain] by simp
  have "chain_link_ok p cr cr = Inr False"
    using ok v(3) by (simp add: chain_link_ok_iff Let_def sum_list_triv comp_def)
  moreover have "validate_for cr p = Inr ()" using ok v(3) by (simp add: validate_for_iff)
  moreover have "validate_chain_from p None (chain @ [cr]) = Inr (Some cr)"
    using v(1) by (auto simp: validate_canary_receipt_chain_def bind_result_Inr_iff split: if_split_asm option.split_asm)
  ultimately show ?thesis
    using validate_chain_from_append [of p None "chain @ [cr]" "[cr]"] by (simp add: validate_canary_receipt_chain_def)
qed

text \<open>
  C34 (canary_concurrent_update_corrupts_chain). \<open>update\<close> compares a verified receipt with the
  record's own authorization, not with the chain's current head or the record's state. Two
  concurrent reconciliations of one transition, that both read back applied and both compute the
  next receipt before either updates, therefore both succeed: the chain holds the receipt twice,
  \<open>validate_canary_receipt_chain\<close> rejects it from then on, and no request is authorized again.
\<close>

theorem canary_concurrent_update_corrupts_chain:
  assumes "fresh_orchestrator s" "canary_run s history oc"
    and "map_of (lg_records (or_ledger oc)) claim = Some rec"
    and "au_receipt_chain_head_digest (tr_authorization rec) = receipt_digest (last (lg_chain (or_ledger oc)))"
    and "advance_canary_receipt (last (lg_chain (or_ledger oc))) (rq_operation (tr_request rec)) digest = Inr cr"
    and "is_digest digest"
  shows "\<exists>lg1 rec1 lg2 rec2. ledger_update claim VERIFIED (Some digest) (Some cr) None (or_ledger oc) = (lg1, Inr rec1)
    \<and> ledger_update claim VERIFIED (Some digest) (Some cr) None lg1 = (lg2, Inr rec2)
    \<and> lg_chain lg2 = lg_chain (or_ledger oc) @ [cr, cr]
    \<and> (\<exists>e. validate_canary_receipt_chain (or_policy oc) (lg_chain lg2) = Inl e)
    \<and> (\<forall>request d. orch_decision (oc\<lparr>or_ledger := lg2\<rparr>) request = Inr d \<longrightarrow> \<not> cd_authorized d)"
proof -
  let ?lg = "or_ledger oc" and ?p = "or_policy oc"
  have li: "ledger_inv ?p ?lg" using cs.reachable_inv [OF assms(2,1)] by (simp add: orchestrator_inv_def)
  then have chain: "chain_ok ?p (lg_chain ?lg)" by (simp add: ledger_inv_def)
  have ok: "reserved_ok ?p rec" using inv_retained [OF li assms(3)] by simp
  note adv = advance_Inr [OF assms(5)]
  have "is_digest (receipt_digest cr)" using adv by (simp add: receipt_ok_def digest_value_digest)
  with record_receipt_ok [of ?p "rec\<lparr>tr_state := VERIFIED, tr_canary_receipt := Some cr\<rparr>" "Some digest"] ok assms(6)
  obtain r where r: "record_receipt (rec\<lparr>tr_state := VERIFIED, tr_canary_receipt := Some cr\<rparr>) (Some digest) = Inr r" by auto
  let ?rec1 = "rec\<lparr>tr_state := VERIFIED, tr_canary_receipt := Some cr, tr_receipt := r\<rparr>"
  have one: "ledger_update claim VERIFIED (Some digest) (Some cr) None ?lg = (settled ?lg claim ?rec1, Inr ?rec1)"
    using ledger_update_settles [OF assms(3) _ _ r] adv assms(4) by simp
  have look: "map_of (lg_records (settled ?lg claim ?rec1)) claim = Some ?rec1" by (simp add: settled_def update_conv')
  have r2: "record_receipt (?rec1\<lparr>tr_state := VERIFIED, tr_canary_receipt := Some cr\<rparr>) (Some digest) = Inr r"
    using r by (simp add: record_receipt_def)
  have two: "ledger_update claim VERIFIED (Some digest) (Some cr) None (settled ?lg claim ?rec1)
      = (settled (settled ?lg claim ?rec1) claim ?rec1, Inr ?rec1)"
    using ledger_update_settles [OF look _ _ r2] adv assms(4) by simp
  have bad: "\<exists>e. validate_canary_receipt_chain ?p (lg_chain ?lg @ [cr, cr]) = Inl e"
    by (rule repeated_receipt_rejected [OF chain_ok_snoc [OF chain assms(5)]])
  have "\<not> cd_authorized d" if "orch_decision (oc\<lparr>or_ledger := lg2\<rparr>) request = Inr d" "lg_chain lg2 = lg_chain ?lg @ [cr, cr]" for lg2 request d
    using that bad authorize_facts by (fastforce simp: orch_decision_def Let_def bind_result_Inr_iff)
  with one two bad show ?thesis by (simp add: settled_def)
qed

section \<open>A concrete run\<close>

definition sample_readback :: string where
  "sample_readback = ''sha256:'' @ replicate 64 CHR ''b''"

definition sample_host :: "canary_readback_state \<Rightarrow> canary_host" where
  "sample_host s = \<lparr>lease_claim = (\<lambda>_ _. Some True), broker_dispatch = (\<lambda>_ _ _. Some True),
     broker_readback = (\<lambda>_ _. Answer (s, sample_readback)), broker_pre_readback = (\<lambda>_ _ _. Foreign)\<rparr>"

definition sample_orchestrator :: canary_orchestrator where
  "sample_orchestrator = \<lparr>or_policy = sample_canary, or_context = sample_canary_context,
     or_ledger = \<lparr>lg_policy = sample_canary, lg_chain = [sample_genesis], lg_records = [], lg_hydrated = False\<rparr>\<rparr>"

lemma sample_readback_digest: "is_digest sample_readback"
  unfolding sample_readback_def is_digest_prefixed by (simp add: is_hex_def)

lemma sample_genesis_built: "genesis_canary_receipt sample_canary = Inr sample_genesis"
  using genesis_starts_chain_aux [OF sample_canary_ok] by (auto simp: sample_genesis_def)

lemma sample_context_ok: "list_all fst (context_construct_guards sample_canary_context)"
proof -
  have "list_all fst (canary_policy_guards sample_canary)" using sample_canary_ok by (simp add: canary_policy_ok_def)
  moreover have "is_digest (cp_policy_digest sample_canary)" "is_digest (receipt_digest sample_genesis)"
    using sample_canary_ok sample_genesis_ok(1) by (simp_all add: canary_policy_ok_def receipt_ok_def digest_value_digest)
  ultimately show ?thesis using sample_target_policy(1) sample_lexical(1)
    by (simp add: context_construct_guards_def canary_require_sha_def canary_require_digest_def sample_canary_context_def
        canary_policy_guards_def)
qed

lemma sample_fresh: "fresh_orchestrator sample_orchestrator"
  using sample_canary_ok sample_context_ok
  by (simp add: fresh_orchestrator_def sample_orchestrator_def make_orchestrator_def make_ledger_def sample_genesis_built)
    (simp add: sample_canary_context_def)

lemma sample_decides:
  assumes "rq_operation q = GH_COMMENT" "rq_branch q = ''canary/x''" "set (rq_paths q) \<subseteq> {''docs/a.md''}" "is_digest (rq_request_digest q)"
    and "lg_chain lg = [sample_genesis]"
  shows "\<exists>d a. orch_decision (sample_orchestrator\<lparr>or_ledger := lg\<rparr>) q = Inr d \<and> cd_authorized d \<and> cd_authorization d = Some a
    \<and> make_authorization (cp_policy_digest sample_canary) (cp_contract_digest sample_canary) (rq_request_digest q) (receipt_digest sample_genesis) = Inr a"
proof -
  have same: "sample_canary_context\<lparr>cc_prior_receipt_digest := Some (receipt_digest sample_genesis)\<rparr> = sample_canary_context"
    by (simp add: sample_canary_context_def)
  from sample_authorizes [OF assms(1-4)] obtain d where d: "authorize_canary_request (Some sample_canary) (Some sample_canary_context)
     (Some q) (Some [sample_genesis]) = Inr d" "cd_authorized d" by blast
  have "orch_decision (sample_orchestrator\<lparr>or_ledger := lg\<rparr>) q = Inr d"
    using d(1) sample_context_ok assms(5) by (simp add: orch_decision_def sample_orchestrator_def same construct_ok)
  with d(2) authorize_facts [OF d] sample_genesis_chain(1) show ?thesis by auto
qed

lemma sample_decision:
  "\<exists>d a. orch_decision sample_orchestrator sample_canary_request = Inr d \<and> cd_authorized d \<and> cd_authorization d = Some a"
  using sample_decides [of sample_canary_request "or_ledger sample_orchestrator"] by (auto simp: sample_orchestrator_def)

definition sample_effects :: "canary_authorization \<Rightarrow> canary_effect list" where
  "sample_effects a = [ClaimLease (consumption_key a) (claim_digest a), Dispatch a sample_canary_request FOR_EXECUTE,
     Readback a sample_canary_request]"

lemma sample_unknown:
  "ledger_matching (or_ledger sample_orchestrator) sample_canary_request FOR_EXECUTE = Inr None"
  "map_of (lg_records (or_ledger sample_orchestrator)) c = None"
  by (simp_all add: sample_orchestrator_def ledger_matching_def)

lemma sample_run:
  "\<exists>oc rec a x. canary_run sample_orchestrator [(sample_host APPLIED, Execute sample_canary_request, sample_effects a, Inr x)] oc
     \<and> canary_step sample_orchestrator (sample_host APPLIED, Execute sample_canary_request, sample_effects a, Inr x) oc
     \<and> map_of (lg_records (or_ledger oc)) (claim_digest a) = Some rec \<and> tr_state rec = VERIFIED
     \<and> tr_request rec = sample_canary_request \<and> tr_purpose rec = FOR_EXECUTE"
proof -
  obtain d a where dec: "orch_decision sample_orchestrator sample_canary_request = Inr d" "cd_authorized d" "cd_authorization d = Some a"
    using sample_decision by blast
  from execution_completes_aux [OF fresh_orchestrator_inv [OF sample_fresh] dec sample_unknown, of "sample_host APPLIED" sample_readback]
    sample_readback_digest
  obtain lg x rec where ex: "execute (sample_host APPLIED) sample_orchestrator sample_canary_request = (lg, sample_effects a, Inr x)"
    and rec: "map_of (lg_records lg) (claim_digest a) = Some rec" "tr_state rec = VERIFIED"
      "tr_request rec = sample_canary_request" "tr_purpose rec = FOR_EXECUTE" by (auto simp: sample_host_def sample_effects_def)
  have step: "canary_step sample_orchestrator (sample_host APPLIED, Execute sample_canary_request, sample_effects a, Inr x)
      (sample_orchestrator\<lparr>or_ledger := lg\<rparr>)" using ex by (auto intro: canary_step.intros)
  have run: "canary_run sample_orchestrator [(sample_host APPLIED, Execute sample_canary_request, sample_effects a, Inr x)]
      (sample_orchestrator\<lparr>or_ledger := lg\<rparr>)" using cs.reaches_snoc [OF cs.reaches_nil step] by simp
  show ?thesis by (rule exI [of _ "sample_orchestrator\<lparr>or_ledger := lg\<rparr>"], rule exI [of _ rec], rule exI [of _ a], rule exI [of _ x])
      (use step run rec in simp)
qed

theorem canary_claim_refines_lifecycle_witness:
  "\<exists>es lg c. claim_step (dispatches c es) (claim_state (or_ledger sample_orchestrator) c) (claim_state lg c)"
proof -
  from sample_run obtain oc a x
    where step: "canary_step sample_orchestrator (sample_host APPLIED, Execute sample_canary_request, sample_effects a, Inr x) oc" by blast
  have d: "dispatches (claim_digest a) (sample_effects a) \<noteq> 0" by (simp add: dispatches_def is_dispatch_of_def sample_effects_def)
  from canary_claim_refines_lifecycle [OF sample_fresh cs.reaches_nil step] obtain c where
    c: "c \<noteq> claim_digest a \<longrightarrow> dispatches (claim_digest a) (sample_effects a) = 0"
    "dispatches c (sample_effects a) = 0
       \<or> claim_step (dispatches c (sample_effects a)) (claim_state (or_ledger sample_orchestrator) c) (claim_state (or_ledger oc) c)"
    by metis
  then have "c = claim_digest a" using d by blast
  with c(2) d show ?thesis by (intro exI [of _ "sample_effects a"] exI [of _ "or_ledger oc"] exI [of _ c]) metis
qed

theorem canary_dispatches_within_budget_witness:
  "\<exists>history t. canary_run sample_orchestrator history t \<and> effects_of history \<noteq> []
     \<and> length (filter is_dispatch (effects_of history)) \<le> 4"
proof -
  from sample_run obtain oc a x
    where run: "canary_run sample_orchestrator [(sample_host APPLIED, Execute sample_canary_request, sample_effects a, Inr x)] oc" by blast
  have "lease_exclusive [(sample_host APPLIED, Execute sample_canary_request, sample_effects a, Inr x)]"
    by (auto simp: lease_exclusive_def grants_def sample_effects_def)
  from canary_dispatches_within_budget [OF sample_fresh run this]
  have "length (filter is_dispatch (effects_of [(sample_host APPLIED, Execute sample_canary_request, sample_effects a, Inr x)])) \<le> 4"
    by (simp add: sample_orchestrator_def)
  moreover have "effects_of [(sample_host APPLIED, Execute sample_canary_request, sample_effects a, Inr x)] \<noteq> []"
    by (simp add: effects_of_def sample_effects_def)
  ultimately show ?thesis using run by blast
qed

theorem canary_verified_needs_applied_witness:
  "\<exists>lg claim rec cr. map_of (lg_records (lg :: canary_ledger)) claim = Some rec \<and> tr_canary_receipt rec = Some cr
     \<and> lg_chain lg = lg_chain (or_ledger sample_orchestrator) @ [cr]"
proof -
  from sample_run obtain oc a x rec
    where step: "canary_step sample_orchestrator (sample_host APPLIED, Execute sample_canary_request, sample_effects a, Inr x) oc"
    and rec: "map_of (lg_records (or_ledger oc)) (claim_digest a) = Some rec" "tr_state rec = VERIFIED" by blast
  have "map_of (lg_records (or_ledger sample_orchestrator)) (claim_digest a) \<noteq> Some rec" by (simp add: sample_unknown)
  from canary_verified_needs_applied [OF sample_fresh cs.reaches_nil step rec this] rec(1) show ?thesis by blast
qed

theorem canary_ledger_invariant_witness:
  "\<exists>history t. canary_run sample_orchestrator history t \<and> history \<noteq> []
     \<and> int (length (lg_chain (or_ledger t))) - 1 \<le> total_calls (cp_budget (or_policy t))"
proof -
  from sample_run obtain l oc where run: "canary_run sample_orchestrator [l] oc" by blast
  from canary_ledger_invariant [OF sample_fresh run] run show ?thesis by blast
qed

text \<open>A run that leaves a claimed transition unverified, with the chain at the genesis.\<close>

lemma sample_ambiguous_run:
  "\<exists>h oc claim rec. canary_run sample_orchestrator h oc \<and> lg_records (or_ledger oc) = [(claim, rec)]
     \<and> oc = sample_orchestrator\<lparr>or_ledger := or_ledger oc\<rparr>
     \<and> tr_request rec = sample_canary_request \<and> tr_purpose rec = FOR_EXECUTE \<and> tr_state rec \<noteq> VERIFIED
     \<and> lg_chain (or_ledger oc) = [sample_genesis]
     \<and> au_receipt_chain_head_digest (tr_authorization rec) = receipt_digest sample_genesis"
proof -
  let ?host = "sample_host AMBIGUOUS" and ?lg = "or_ledger sample_orchestrator"
  obtain d a where dec: "orch_decision sample_orchestrator sample_canary_request = Inr d" "cd_authorized d" "cd_authorization d = Some a"
    using sample_decision by blast
  note inv = fresh_orchestrator_inv [OF sample_fresh]
  from execute_granted [OF inv dec sample_unknown, of ?host] obtain rec where
    ex: "execute ?host sample_orchestrator sample_canary_request = prefix_effects [ClaimLease (consumption_key a) (claim_digest a)]
       (orch_dispatch ?host d a rec (?lg\<lparr>lg_records := lg_records ?lg @ [(claim_digest a, rec)]\<rparr>))"
    and rec: "reserved_ok sample_canary rec" "tr_authorization rec = a" "tr_request rec = sample_canary_request" "tr_purpose rec = FOR_EXECUTE"
      "au_receipt_chain_head_digest a = receipt_digest sample_genesis"
    by (auto simp: sample_host_def) (auto simp: sample_orchestrator_def)
  let ?lg1 = "?lg\<lparr>lg_records := lg_records ?lg @ [(claim_digest a, rec)]\<rparr>"
  have "chain_ok sample_canary (lg_chain ?lg1)" using inv by (simp add: orchestrator_inv_def ledger_inv_def sample_orchestrator_def)
  moreover have "map_of (lg_records ?lg1) (claim_digest (tr_authorization rec)) = Some rec" by (simp add: sample_orchestrator_def rec)
  ultimately obtain rec' x where out: "orch_dispatch ?host d a rec ?lg1 = (settled ?lg1 (claim_digest a) rec',
        [Dispatch a (tr_request rec) (tr_purpose rec), Readback a (tr_request rec)], Inr x)"
    and rb: "reads_back ?host ?lg1 rec rec'" using orch_dispatch_settles [of sample_canary ?lg1 rec ?host d] rec by auto
  from rb have none: "tr_canary_receipt rec' = None" by (auto simp: reads_back_def sample_host_def)
  then have fin: "lg_chain (settled ?lg1 (claim_digest a) rec') = [sample_genesis]"
      "lg_records (settled ?lg1 (claim_digest a) rec') = [(claim_digest a, rec')]"
    by (simp_all add: settled_def sample_orchestrator_def)
  let ?oc = "sample_orchestrator\<lparr>or_ledger := settled ?lg1 (claim_digest a) rec'\<rparr>"
  from ex out have "canary_step sample_orchestrator (?host, Execute sample_canary_request,
       ClaimLease (consumption_key a) (claim_digest a) # [Dispatch a (tr_request rec) (tr_purpose rec), Readback a (tr_request rec)], Inr x)
       (sample_orchestrator\<lparr>or_ledger := settled ?lg1 (claim_digest a) rec'\<rparr>)"
    by (auto simp: prefix_effects_def intro: canary_step.intros)
  note run = cs.reaches_snoc [OF cs.reaches_nil this]
  have "lg_records (or_ledger ?oc) = [(claim_digest a, rec')] \<and> ?oc = sample_orchestrator\<lparr>or_ledger := or_ledger ?oc\<rparr>
     \<and> tr_request rec' = sample_canary_request \<and> tr_purpose rec' = FOR_EXECUTE \<and> tr_state rec' \<noteq> VERIFIED
     \<and> lg_chain (or_ledger ?oc) = [sample_genesis] \<and> au_receipt_chain_head_digest (tr_authorization rec') = receipt_digest sample_genesis"
    using fin rec none reads_back_fields(3,5,6,8) [OF rb] by simp
  with run show ?thesis by blast
qed

theorem canary_concurrent_update_corrupts_chain_witness:
  "\<exists>(oc :: canary_orchestrator) claim lg1 rec1 lg2 rec2 e. ledger_update claim VERIFIED (Some sample_readback) (Some sample_first) None (or_ledger oc) = (lg1, Inr rec1)
    \<and> ledger_update claim VERIFIED (Some sample_readback) (Some sample_first) None lg1 = (lg2, Inr rec2)
    \<and> validate_canary_receipt_chain (or_policy oc) (lg_chain lg2) = Inl e"
proof -
  from sample_ambiguous_run obtain h oc claim rec where run: "canary_run sample_orchestrator h oc"
    and rec': "lg_records (or_ledger oc) = [(claim, rec)]" and q: "tr_request rec = sample_canary_request"
    and c: "lg_chain (or_ledger oc) = [sample_genesis]"
    and h: "au_receipt_chain_head_digest (tr_authorization rec) = receipt_digest (last (lg_chain (or_ledger oc)))" by auto
  have "advance_canary_receipt (last (lg_chain (or_ledger oc))) (rq_operation (tr_request rec)) sample_readback = Inr sample_first"
    using sample_first_advances by (simp add: c q sample_readback_def)
  moreover have "map_of (lg_records (or_ledger oc)) claim = Some rec" by (simp add: rec')
  ultimately show ?thesis
    using canary_concurrent_update_corrupts_chain [OF sample_fresh run _ h _ sample_readback_digest] by blast
qed

end
