(* ===== verification/Canary_Hydration.thy ===== *)
theory Canary_Hydration
  imports Canary_Execution
begin

text \<open>
  \<open>canary_execution.py\<close>, persistence: the sealed state of a Canary ledger and its hydration after a
  restart. Hydration reads untrusted material: it rebuilds every receipt through its constructor,
  compares every digest, binds the verified records to the receipt chain one to one, and turns
  every failure into one error.

  The sealed material is a decoded JSON value. Python's equality identifies Booleans with the
  integers 0 and 1; this matters for the two leaf numbers, which are compared without a type test.
  The retry flag of a record is read as a Boolean only.
\<close>

section \<open>Sealing\<close>

definition canary_receipt_public :: "bounded_canary_receipt \<Rightarrow> (string \<times> json) list" where
  "canary_receipt_public r = receipt_payload r @ [(''receipt_digest'', JStr (receipt_digest r))]"

definition execution_receipt_public :: "canary_execution_receipt \<Rightarrow> (string \<times> json) list" where
  "execution_receipt_public r = execution_payload r @ [(''receipt_digest'', JStr (er_receipt_digest r))]"

definition sealed_transition :: "transition_record \<Rightarrow> json" where
  "sealed_transition rec = JObj
     [(''authorization'', JObj
        [(''policy_digest'', JStr (au_policy_digest (tr_authorization rec))),
         (''contract_digest'', JStr (au_contract_digest (tr_authorization rec))),
         (''request_digest'', JStr (au_request_digest (tr_authorization rec))),
         (''receipt_chain_head_digest'', JStr (au_receipt_chain_head_digest (tr_authorization rec)))]),
      (''request'', JObj
        [(''operation'', JStr (github_operation_value (rq_operation (tr_request rec)))),
         (''branch'', JStr (rq_branch (tr_request rec))),
         (''paths'', JList (map JStr (rq_paths (tr_request rec))))]),
      (''purpose'', JStr (transition_purpose_value (tr_purpose rec))),
      (''state'', JStr (transition_state_value (tr_state rec))),
      (''receipt'', JObj (execution_receipt_public (tr_receipt rec))),
      (''canary_receipt_digest'', json_opt (map_option receipt_digest (tr_canary_receipt rec))),
      (''retry_used'', JBool (tr_retry_used rec)),
      (''predecessor_transition_receipt_digest'', json_opt (tr_predecessor_digest rec)),
      (''pre_state_readback_digest'', json_opt (tr_pre_state_digest rec))]"

definition sealed_state :: "canary_ledger \<Rightarrow> json" where
  "sealed_state lg = JObj
     [(''schema'', JStr ''roundwright-canary-execution-ledger/v1''),
      (''policy_digest'', JStr (cp_policy_digest (lg_policy lg))),
      (''contract_digest'', JStr (cp_contract_digest (lg_policy lg))),
      (''candidate_sha'', JStr (cp_candidate_sha (lg_policy lg))),
      (''chain'', JList (map (JObj \<circ> canary_receipt_public) (lg_chain lg))),
      (''records'', JList (map (sealed_transition \<circ> snd) (lg_records lg)))]"

section \<open>Receipts\<close>

abbreviation canary_result_of :: "string \<Rightarrow> canary_result option" where
  "canary_result_of \<equiv> enum_of [GENESIS, PASS, DENIED, ROLLED_BACK, OWNER_INPUT_REQUIRED] canary_result_value"

abbreviation transition_state_of :: "string \<Rightarrow> canary_transition_state option" where
  "transition_state_of \<equiv> enum_of [CLAIMED, VERIFIED, QUARANTINED, RETRY_ALLOWED, PRESERVED_FOR_OWNER] transition_state_value"

abbreviation transition_purpose_of :: "string \<Rightarrow> canary_transition_purpose option" where
  "transition_purpose_of \<equiv> enum_of [FOR_EXECUTE, FOR_ROLLBACK, FOR_CLEANUP] transition_purpose_value"

fun equals_int :: "json option \<Rightarrow> int \<Rightarrow> bool" where
  "equals_int (Some (JInt m)) n = (m = n)"
| "equals_int (Some (JBool b)) n = (n = of_bool b)"
| "equals_int _ n = False"

definition sealed_counts ::
  "bounded_canary_policy \<Rightarrow> (string \<times> json) list \<Rightarrow> call_counts option" where
  "sealed_counts policy kvs =
     Option.bind (as_obj (map_of kvs ''operation_counts'')) (\<lambda>cs.
     if set (map fst cs) \<noteq> set (map github_operation_value (requested_operations policy)) then None else
     Option.bind (collect (\<lambda>(k, v). Option.bind (as_int (Some v)) (\<lambda>n. if n < 0 then None else Some (k, n))) cs) (\<lambda>ns.
     Option.bind (as_int (map_of kvs ''total_calls'')) (\<lambda>total.
     if total \<noteq> sum_list (map snd ns) then None else
     collect (\<lambda>g. map_option (Pair g) (map_of ns (github_operation_value g))) (requested_operations policy))))"

definition canary_receipt_keys :: "string list" where
  "canary_receipt_keys = [''schema'', ''policy_digest'', ''contract_digest'', ''base_sha'', ''candidate_sha'',
     ''target_repository'', ''target_baseline_sha'', ''target_leaf_number'', ''leaf_number'',
     ''requested_operations'', ''operation_counts'', ''total_calls'', ''result'',
     ''semantic_readback_digest'', ''predecessor_receipt_digest'', ''receipt_digest'']"

definition receipt_names_policy :: "bounded_canary_policy \<Rightarrow> (string \<times> json) list \<Rightarrow> bool" where
  "receipt_names_policy policy kvs \<longleftrightarrow>
     map_of kvs ''schema'' = Some (JStr CANARY_RECEIPT_SCHEMA)
     \<and> map_of kvs ''policy_digest'' = Some (JStr (cp_policy_digest policy))
     \<and> map_of kvs ''contract_digest'' = Some (JStr (cp_contract_digest policy))
     \<and> map_of kvs ''base_sha'' = Some (JStr (cp_base_sha policy))
     \<and> map_of kvs ''candidate_sha'' = Some (JStr (cp_candidate_sha policy))
     \<and> map_of kvs ''target_repository'' = Some (JStr (tg_repository (cp_target policy)))
     \<and> map_of kvs ''target_baseline_sha'' = Some (JStr (tg_baseline_sha (cp_target policy)))
     \<and> equals_int (map_of kvs ''target_leaf_number'') (tg_leaf_number (cp_target policy))
     \<and> equals_int (map_of kvs ''leaf_number'') (cp_leaf_number policy)
     \<and> map_of kvs ''requested_operations'' = Some (JList (map (JStr \<circ> github_operation_value) (requested_operations policy)))"

definition hydrate_canary_receipt :: "bounded_canary_policy \<Rightarrow> json \<Rightarrow> bounded_canary_receipt option" where
  "hydrate_canary_receipt policy v =
     Option.bind (as_obj (Some v)) (\<lambda>kvs0. Option.bind (has_keys canary_receipt_keys kvs0) (\<lambda>kvs.
     if \<not> receipt_names_policy policy kvs then None else
     Option.bind (sealed_counts policy kvs) (\<lambda>counts.
     Option.bind (Option.bind (as_str (map_of kvs ''result'')) canary_result_of) (\<lambda>result.
     Option.bind (as_str (map_of kvs ''semantic_readback_digest'')) (\<lambda>readback.
     Option.bind (as_str_or_null (map_of kvs ''predecessor_receipt_digest'')) (\<lambda>predecessor.
     Option.bind (caught_result (make_receipt
       \<lparr>cr_policy = policy, cr_result = result, operation_counts = counts, cr_semantic_readback_digest = readback,
        predecessor_receipt_digest = predecessor, receipt_digest = []\<rparr>)) (\<lambda>r.
     if map_of kvs ''receipt_digest'' \<noteq> Some (JStr (receipt_digest r)) then None else Some r)))))))"

definition execution_receipt_keys :: "string list" where
  "execution_receipt_keys = [''policy_digest'', ''contract_digest'', ''claim_digest'', ''request_digest'',
     ''receipt_chain_head_digest'', ''purpose'', ''state'', ''semantic_readback_digest'', ''canary_receipt_digest'',
     ''predecessor_transition_receipt_digest'', ''pre_state_readback_digest'', ''retry_used'', ''receipt_digest'']"

definition hydrate_execution_receipt :: "json option \<Rightarrow> canary_execution_receipt option" where
  "hydrate_execution_receipt v =
     Option.bind (as_obj v) (\<lambda>kvs0. Option.bind (has_keys execution_receipt_keys kvs0) (\<lambda>kvs.
     Option.bind (as_str (map_of kvs ''policy_digest'')) (\<lambda>policy.
     Option.bind (as_str (map_of kvs ''contract_digest'')) (\<lambda>contract.
     Option.bind (as_str (map_of kvs ''claim_digest'')) (\<lambda>claim.
     Option.bind (as_str (map_of kvs ''request_digest'')) (\<lambda>request.
     Option.bind (as_str (map_of kvs ''receipt_chain_head_digest'')) (\<lambda>head.
     Option.bind (Option.bind (as_str (map_of kvs ''purpose'')) transition_purpose_of) (\<lambda>purpose.
     Option.bind (Option.bind (as_str (map_of kvs ''state'')) transition_state_of) (\<lambda>state.
     Option.bind (as_str_or_null (map_of kvs ''semantic_readback_digest'')) (\<lambda>readback.
     Option.bind (as_str_or_null (map_of kvs ''canary_receipt_digest'')) (\<lambda>canary.
     Option.bind (as_str_or_null (map_of kvs ''predecessor_transition_receipt_digest'')) (\<lambda>predecessor.
     Option.bind (as_str_or_null (map_of kvs ''pre_state_readback_digest'')) (\<lambda>pre_state.
     Option.bind (as_bool (map_of kvs ''retry_used'')) (\<lambda>retry_used.
     Option.bind (caught_result (make_execution_receipt
       \<lparr>er_policy_digest = policy, er_contract_digest = contract, er_claim_digest = claim, er_request_digest = request,
        er_chain_head_digest = head, er_purpose = purpose, er_state = state, er_semantic_readback_digest = readback,
        er_canary_receipt_digest = canary, er_predecessor_digest = predecessor, er_pre_state_digest = pre_state,
        er_retry_used = retry_used, er_receipt_digest = []\<rparr>)) (\<lambda>r.
     if map_of kvs ''receipt_digest'' \<noteq> Some (JStr (er_receipt_digest r)) then None else Some r)))))))))))))))"

section \<open>Records\<close>

definition record_keys :: "string list" where
  "record_keys = [''authorization'', ''request'', ''purpose'', ''state'', ''receipt'', ''canary_receipt_digest'',
     ''retry_used'', ''predecessor_transition_receipt_digest'', ''pre_state_readback_digest'']"

definition authorization_keys :: "string list" where
  "authorization_keys = [''policy_digest'', ''contract_digest'', ''request_digest'', ''receipt_chain_head_digest'']"

definition hydrate_request :: "json option \<Rightarrow> canary_mutation_request option" where
  "hydrate_request v =
     Option.bind (as_obj v) (\<lambda>kvs0. Option.bind (has_keys [''operation'', ''branch'', ''paths''] kvs0) (\<lambda>kvs.
     Option.bind (Option.bind (as_str (map_of kvs ''operation'')) github_operation_of) (\<lambda>operation.
     Option.bind (as_str (map_of kvs ''branch'')) (\<lambda>branch.
     Option.bind (Option.bind (as_list (map_of kvs ''paths'')) (collect (\<lambda>x. as_str (Some x)))) (\<lambda>paths.
     caught_result (make_request operation branch paths))))))"

definition hydrate_authorization :: "json option \<Rightarrow> canary_authorization option" where
  "hydrate_authorization v =
     Option.bind (as_obj v) (\<lambda>kvs0. Option.bind (has_keys authorization_keys kvs0) (\<lambda>kvs.
     Option.bind (as_str (map_of kvs ''policy_digest'')) (\<lambda>policy.
     Option.bind (as_str (map_of kvs ''contract_digest'')) (\<lambda>contract.
     Option.bind (as_str (map_of kvs ''request_digest'')) (\<lambda>request.
     Option.bind (as_str (map_of kvs ''receipt_chain_head_digest'')) (\<lambda>head.
     caught_result (make_authorization policy contract request head)))))))"

text \<open>The execution receipt of a record repeats its authorization and its other fields.\<close>

definition receipt_agrees ::
  "canary_execution_receipt \<Rightarrow> canary_authorization \<Rightarrow> canary_transition_purpose \<Rightarrow> canary_transition_state
    \<Rightarrow> bool \<Rightarrow> string option \<Rightarrow> string option \<Rightarrow> bool" where
  "receipt_agrees r a purpose state retry_used predecessor pre_state \<longleftrightarrow>
     er_policy_digest r = au_policy_digest a \<and> er_contract_digest r = au_contract_digest a
     \<and> er_claim_digest r = claim_digest a \<and> er_request_digest r = au_request_digest a
     \<and> er_chain_head_digest r = au_receipt_chain_head_digest a
     \<and> er_purpose r = purpose \<and> er_state r = state \<and> er_retry_used r = retry_used
     \<and> er_predecessor_digest r = predecessor \<and> er_pre_state_digest r = pre_state"

text \<open>
  \<open>by_digest.get\<close>: an unhashable key is an error, a key of another type than a string finds nothing.
\<close>

fun receipt_lookup ::
  "(string \<times> bounded_canary_receipt) list \<Rightarrow> json option \<Rightarrow> bounded_canary_receipt option option" where
  "receipt_lookup by_digest (Some (JStr d)) = Some (map_of by_digest d)"
| "receipt_lookup by_digest (Some (JList _)) = None"
| "receipt_lookup by_digest (Some (JObj _)) = None"
| "receipt_lookup by_digest None = None"
| "receipt_lookup by_digest (Some _) = Some None"

definition hydrate_record ::
  "bounded_canary_policy \<Rightarrow> json \<Rightarrow> (string \<times> bounded_canary_receipt) list \<Rightarrow> string \<Rightarrow> transition_record option" where
  "hydrate_record policy v by_digest chain_head =
     Option.bind (as_obj (Some v)) (\<lambda>kvs0. Option.bind (has_keys record_keys kvs0) (\<lambda>kvs.
     Option.bind (hydrate_request (map_of kvs ''request'')) (\<lambda>request.
     Option.bind (hydrate_authorization (map_of kvs ''authorization'')) (\<lambda>a.
     if au_policy_digest a \<noteq> cp_policy_digest policy \<or> au_contract_digest a \<noteq> cp_contract_digest policy
        \<or> au_request_digest a \<noteq> rq_request_digest request
        \<or> map_of by_digest (au_receipt_chain_head_digest a) = None then None else
     Option.bind (hydrate_execution_receipt (map_of kvs ''receipt'')) (\<lambda>receipt.
     Option.bind (Option.bind (as_str (map_of kvs ''purpose'')) transition_purpose_of) (\<lambda>purpose.
     Option.bind (Option.bind (as_str (map_of kvs ''state'')) transition_state_of) (\<lambda>state.
     Option.bind (as_bool (map_of kvs ''retry_used'')) (\<lambda>retry_used.
     Option.bind (as_str_or_null (map_of kvs ''predecessor_transition_receipt_digest'')) (\<lambda>predecessor.
     Option.bind (as_str_or_null (map_of kvs ''pre_state_readback_digest'')) (\<lambda>pre_state.
     if \<not> receipt_agrees receipt a purpose state retry_used predecessor pre_state then None else
     Option.bind (receipt_lookup by_digest (map_of kvs ''canary_receipt_digest'')) (\<lambda>canary_receipt.
     if state = VERIFIED \<and> (canary_receipt = None
          \<or> Some (json_opt (er_canary_receipt_digest receipt)) \<noteq> map_of kvs ''canary_receipt_digest''
          \<or> predecessor_receipt_digest (the canary_receipt) \<noteq> Some (au_receipt_chain_head_digest a)) then None else
     if state \<noteq> VERIFIED \<and> (canary_receipt \<noteq> None \<or> er_canary_receipt_digest receipt \<noteq> None) then None else
     if state \<noteq> VERIFIED \<and> au_receipt_chain_head_digest a \<noteq> chain_head then None else
     Some \<lparr>tr_authorization = a, tr_request = request, tr_purpose = purpose, tr_state = state, tr_receipt = receipt,
       tr_canary_receipt = canary_receipt, tr_retry_used = retry_used, tr_predecessor_digest = predecessor,
       tr_pre_state_digest = pre_state\<rparr>)))))))))))"

fun hydrate_records ::
  "bounded_canary_policy \<Rightarrow> (string \<times> bounded_canary_receipt) list \<Rightarrow> string
    \<Rightarrow> (string \<times> transition_record) list \<Rightarrow> (string \<times> canary_transition_purpose) set \<Rightarrow> json list
    \<Rightarrow> (string \<times> transition_record) list option" where
  "hydrate_records policy by_digest head records identities [] = Some records"
| "hydrate_records policy by_digest head records identities (v # vs) =
     Option.bind (hydrate_record policy v by_digest head) (\<lambda>rec.
     if claim_digest (tr_authorization rec) \<in> fst ` set records then None else
     if (rq_request_digest (tr_request rec), tr_purpose rec) \<in> identities then None else
     hydrate_records policy by_digest head (records @ [(claim_digest (tr_authorization rec), rec)])
       (insert (rq_request_digest (tr_request rec), tr_purpose rec) identities) vs)"

section \<open>Verified records and the chain\<close>

definition hydrated_authorization_ok ::
  "bounded_canary_policy \<Rightarrow> transition_record \<Rightarrow> bounded_canary_receipt \<Rightarrow> bool" where
  "hydrated_authorization_ok policy rec predecessor \<longleftrightarrow>
     make_authorization (cp_policy_digest policy) (cp_contract_digest policy) (rq_request_digest (tr_request rec))
       (receipt_digest predecessor) = Inr (tr_authorization rec)
     \<and> rq_operation (tr_request rec) \<in> set (requested_operations policy)
     \<and> rq_branch (tr_request rec) = cp_branch policy
     \<and> list_all (\<lambda>path. path \<in> set (allowed_paths policy)) (rq_paths (tr_request rec))
     \<and> (tr_purpose rec = FOR_EXECUTE \<longrightarrow> tr_predecessor_digest rec = None \<and> tr_pre_state_digest rec = None)"

text \<open>A rollback or cleanup names the verified record that advanced the chain before it, and undoes it.\<close>

definition cleanup_follows ::
  "transition_record list \<Rightarrow> bounded_canary_receipt \<Rightarrow> transition_record \<Rightarrow> bool" where
  "cleanup_follows verified previous rec \<longleftrightarrow>
     (case List.find (\<lambda>item. tr_canary_receipt item = Some previous) verified of
        None \<Rightarrow> False
      | Some item \<Rightarrow>
          tr_predecessor_digest rec = Some (er_receipt_digest (tr_receipt item))
          \<and> tr_pre_state_digest rec \<noteq> None
          \<and> cleanup_action_for (rq_operation (tr_request item)) = Inr (rq_operation (tr_request rec))
          \<and> rq_branch (tr_request rec) = rq_branch (tr_request item)
          \<and> rq_paths (tr_request rec) = rq_paths (tr_request item))"

definition hydrated_record_ok ::
  "bounded_canary_policy \<Rightarrow> transition_record list \<Rightarrow> bounded_canary_receipt \<Rightarrow> transition_record \<Rightarrow> bool" where
  "hydrated_record_ok policy verified previous rec \<longleftrightarrow>
     hydrated_authorization_ok policy rec previous
     \<and> (tr_purpose rec \<noteq> FOR_EXECUTE \<longrightarrow> cleanup_follows verified previous rec)"

text \<open>The one operation that the next receipt counts once more; any other change is refused.\<close>

definition advanced_operation ::
  "bounded_canary_policy \<Rightarrow> bounded_canary_receipt \<Rightarrow> bounded_canary_receipt \<Rightarrow> github_mutation_operation option" where
  "advanced_operation policy previous r =
     Option.bind (collect (\<lambda>g. Option.bind (caught_result (count_of (operation_counts r) g)) (\<lambda>n.
         Option.bind (caught_result (count_of (operation_counts previous) g)) (\<lambda>m. Some (g, n - m))))
       (requested_operations policy)) (\<lambda>differences.
     if list_ex (\<lambda>(g, d). d \<notin> {0, 1}) differences then None else
     (case filter (\<lambda>(g, d). d = 1) differences of [(g, _)] \<Rightarrow> Some g | _ \<Rightarrow> None))"

fun match_receipts ::
  "bounded_canary_policy \<Rightarrow> transition_record list \<Rightarrow> bounded_canary_receipt \<Rightarrow> bounded_canary_receipt list
    \<Rightarrow> string list \<Rightarrow> string list option" where
  "match_receipts policy verified previous [] matched = Some matched"
| "match_receipts policy verified previous (r # rs) matched =
     Option.bind (advanced_operation policy previous r) (\<lambda>operation.
     (case filter (\<lambda>rec. tr_canary_receipt rec = Some r
           \<and> au_receipt_chain_head_digest (tr_authorization rec) = receipt_digest previous
           \<and> rq_operation (tr_request rec) = operation
           \<and> er_canary_receipt_digest (tr_receipt rec) = Some (receipt_digest r)
           \<and> er_semantic_readback_digest (tr_receipt rec) = Some (cr_semantic_readback_digest r)) verified of
        [rec] \<Rightarrow>
          if claim_digest (tr_authorization rec) \<in> set matched then None else
          if \<not> hydrated_record_ok policy verified previous rec then None else
          match_receipts policy verified r rs (claim_digest (tr_authorization rec) # matched)
      | _ \<Rightarrow> None))"

definition require_verified_record_bijection ::
  "bounded_canary_policy \<Rightarrow> bounded_canary_receipt list \<Rightarrow> (string \<times> transition_record) list \<Rightarrow> unit option" where
  "require_verified_record_bijection policy chain records =
     (let verified = filter (\<lambda>rec. tr_state rec = VERIFIED) (map snd records) in
      if length verified \<noteq> length chain - 1 then None else
      Option.bind (match_receipts policy verified (hd chain) (tl chain) []) (\<lambda>matched.
      if length matched \<noteq> length verified then None else
      if list_all (\<lambda>rec.
          (case List.find (\<lambda>r. receipt_digest r = au_receipt_chain_head_digest (tr_authorization rec)) chain of
             None \<Rightarrow> False
           | Some predecessor \<Rightarrow> hydrated_record_ok policy verified predecessor rec)) (map snd records)
      then Some () else None))"

section \<open>Hydration\<close>

definition ledger_keys :: "string list" where
  "ledger_keys = [''schema'', ''policy_digest'', ''contract_digest'', ''candidate_sha'', ''chain'', ''records'']"

definition hydrate_fields :: "bounded_canary_policy \<Rightarrow> (string \<times> json) list \<Rightarrow> canary_ledger option" where
  "hydrate_fields policy kvs =
     (if map_of kvs ''schema'' \<noteq> Some (JStr ''roundwright-canary-execution-ledger/v1'')
         \<or> map_of kvs ''policy_digest'' \<noteq> Some (JStr (cp_policy_digest policy))
         \<or> map_of kvs ''contract_digest'' \<noteq> Some (JStr (cp_contract_digest policy))
         \<or> map_of kvs ''candidate_sha'' \<noteq> Some (JStr (cp_candidate_sha policy)) then None else
      Option.bind (as_list (map_of kvs ''chain'')) (\<lambda>receipts.
      Option.bind (as_list (map_of kvs ''records'')) (\<lambda>items.
      Option.bind (collect (hydrate_canary_receipt policy) receipts) (\<lambda>chain.
      Option.bind (caught_result (validate_canary_receipt_chain policy chain)) (\<lambda>_.
      let by_digest = py_dict (map (\<lambda>r. (receipt_digest r, r)) chain) in
      if length by_digest \<noteq> length chain then None else
      Option.bind (hydrate_records policy by_digest (receipt_digest (last chain)) [] {} items) (\<lambda>records.
      Option.bind (require_verified_record_bijection policy chain records) (\<lambda>_.
      Option.bind (caught_result (make_ledger policy)) (\<lambda>lg0.
      let lg = lg0\<lparr>lg_chain := chain, lg_records := records, lg_hydrated := True\<rparr> in
      if predecessor_receipt_digest (last chain) \<noteq> None
      then Option.bind (caught_result (ledger_predecessor lg)) (\<lambda>_. Some lg)
      else Some lg))))))))"

definition hydrate :: "bounded_canary_policy \<Rightarrow> json \<Rightarrow> canary_ledger result" where
  "hydrate policy sealed =
     (case Option.bind (as_obj (Some sealed)) (\<lambda>kvs. Option.bind (has_keys ledger_keys kvs) (hydrate_fields policy)) of
        Some lg \<Rightarrow> Inr lg
      | None \<Rightarrow> Inl (CanaryExecutionError ''Canary execution ledger hydration is invalid or stale''))"

end
