(* ===== verification/Canary_Restart.thy ===== *)
theory Canary_Restart
  imports Canary_Safety Canary_Hydration
begin

text \<open>
  What survives a restart of the Canary orchestrator: a ledger that hydration accepts is as good
  as one that was built by operations, whatever the sealed material; and a limit of the format: a
  ledger that keeps an unverified record of an earlier chain head seals a state that hydration
  refuses.
\<close>

section \<open>Records of a hydrated ledger\<close>

lemma caught_bind: "Option.bind (caught_result m) f = Some y \<longleftrightarrow> (\<exists>x. m = Inr x \<and> f x = Some y)"
  by (simp add: bind_eq_Some_conv)

lemma hydrated_receipt:
  assumes "hydrate_canary_receipt p v = Some r"
  shows "cr_policy r = p \<and> canary_policy_validate p = Inr ()
    \<and> (\<exists>kvs. v = JObj kvs \<and> map_of kvs ''receipt_digest'' = Some (JStr (receipt_digest r)))"
  using assms
  by (cases v) (auto simp: hydrate_canary_receipt_def has_keys_def bind_eq_Some_conv caught_bind make_receipt_Inr_iff
      split: if_split_asm)

lemma hydrated_execution_receipt:
  assumes "hydrate_execution_receipt v = Some r"
  shows "\<exists>r0. er_receipt_digest r0 = [] \<and> make_execution_receipt r0 = Inr r"
  using assms
  by (cases "as_obj v") (auto simp: hydrate_execution_receipt_def has_keys_def bind_eq_Some_conv caught_bind
      split: if_split_asm intro!: exI)

text \<open>What one accepted record satisfies before the records are compared with the chain.\<close>

definition hydrated_shape ::
  "bounded_canary_policy \<Rightarrow> (string \<times> bounded_canary_receipt) list \<Rightarrow> string \<Rightarrow> transition_record \<Rightarrow> bool" where
  "hydrated_shape p by_digest head rec \<longleftrightarrow>
     map_of by_digest (au_receipt_chain_head_digest (tr_authorization rec)) \<noteq> None
     \<and> (\<exists>readback. record_receipt rec readback = Inr (tr_receipt rec))
     \<and> (tr_state rec = VERIFIED \<longleftrightarrow> tr_canary_receipt rec \<noteq> None)
     \<and> (\<forall>cr. tr_canary_receipt rec = Some cr \<longrightarrow> (\<exists>d. map_of by_digest d = Some cr)
          \<and> predecessor_receipt_digest cr = Some (au_receipt_chain_head_digest (tr_authorization rec)))
     \<and> (tr_state rec \<noteq> VERIFIED \<longrightarrow> au_receipt_chain_head_digest (tr_authorization rec) = head)"

lemma agreeing_receipt:
  assumes "receipt_agrees r a purpose state retry_used predecessor pre_state"
    and "er_receipt_digest r0 = []" "make_execution_receipt r0 = Inr r"
  shows "receipt_for a purpose state (er_semantic_readback_digest r) (er_canary_receipt_digest r) predecessor pre_state retry_used = Inr r"
proof -
  have "r0 = r\<lparr>er_receipt_digest := []\<rparr>"
    using assms(2,3) by (cases r0) (simp add: make_execution_receipt_def)
  moreover have "r\<lparr>er_receipt_digest := []\<rparr> = \<lparr>er_policy_digest = au_policy_digest a, er_contract_digest = au_contract_digest a,
      er_claim_digest = claim_digest a, er_request_digest = au_request_digest a,
      er_chain_head_digest = au_receipt_chain_head_digest a, er_purpose = purpose, er_state = state,
      er_semantic_readback_digest = er_semantic_readback_digest r, er_canary_receipt_digest = er_canary_receipt_digest r,
      er_predecessor_digest = predecessor, er_pre_state_digest = pre_state, er_retry_used = retry_used, er_receipt_digest = []\<rparr>"
    using assms(1) by (cases r) (simp add: receipt_agrees_def)
  ultimately show ?thesis unfolding receipt_for_def using assms(3) by simp
qed

lemma receipt_lookup_Some:
  "receipt_lookup by_digest v = Some (Some cr) \<Longrightarrow> \<exists>d. v = Some (JStr d) \<and> map_of by_digest d = Some cr"
  by (cases "(by_digest, v)" rule: receipt_lookup.cases) auto

lemma json_opt_JStr [simp]: "json_opt v = JStr d \<longleftrightarrow> v = Some d" "JStr d = json_opt v \<longleftrightarrow> v = Some d"
  by (cases v; auto)+

lemma hydrated_record_fields:
  assumes "hydrate_record p v by_digest head = Some rec"
  shows "receipt_agrees (tr_receipt rec) (tr_authorization rec) (tr_purpose rec) (tr_state rec) (tr_retry_used rec)
      (tr_predecessor_digest rec) (tr_pre_state_digest rec)
    \<and> (\<exists>r0. er_receipt_digest r0 = [] \<and> make_execution_receipt r0 = Inr (tr_receipt rec))
    \<and> map_of by_digest (au_receipt_chain_head_digest (tr_authorization rec)) \<noteq> None
    \<and> (if tr_state rec = VERIFIED
       then \<exists>d cr. er_canary_receipt_digest (tr_receipt rec) = Some d \<and> map_of by_digest d = Some cr
         \<and> tr_canary_receipt rec = Some cr
         \<and> predecessor_receipt_digest cr = Some (au_receipt_chain_head_digest (tr_authorization rec))
       else tr_canary_receipt rec = None \<and> er_canary_receipt_digest (tr_receipt rec) = None
         \<and> au_receipt_chain_head_digest (tr_authorization rec) = head)"
  using assms unfolding hydrate_record_def Let_def
  by (auto simp: bind_eq_Some_conv split: if_split_asm Option.bind_splits dest!: hydrated_execution_receipt receipt_lookup_Some)

lemma by_digest_Some:
  "map_of (py_dict (map (\<lambda>r. (receipt_digest r, r)) chain)) d = Some cr \<Longrightarrow> cr \<in> set chain \<and> receipt_digest cr = d"
  by (auto simp: map_of_py_dict rev_map dest!: map_of_SomeD)

lemma hydrated_record_shape:
  assumes "hydrate_record p v by_digest head = Some rec"
    and keyed: "\<And>d cr. map_of by_digest d = Some cr \<Longrightarrow> receipt_digest cr = d"
  shows "hydrated_shape p by_digest head rec"
proof -
  note f = hydrated_record_fields [OF assms(1)]
  from f obtain r0 where "er_receipt_digest r0 = []" "make_execution_receipt r0 = Inr (tr_receipt rec)" by blast
  with agreeing_receipt f have r: "receipt_for (tr_authorization rec) (tr_purpose rec) (tr_state rec)
      (er_semantic_readback_digest (tr_receipt rec)) (er_canary_receipt_digest (tr_receipt rec))
      (tr_predecessor_digest rec) (tr_pre_state_digest rec) (tr_retry_used rec) = Inr (tr_receipt rec)" by blast
  have "er_canary_receipt_digest (tr_receipt rec) = map_option receipt_digest (tr_canary_receipt rec)"
    using f keyed by (cases "tr_state rec = VERIFIED") auto
  with r have "record_receipt rec (er_semantic_readback_digest (tr_receipt rec)) = Inr (tr_receipt rec)"
    by (simp add: record_receipt_def)
  with f show ?thesis
    unfolding hydrated_shape_def by (cases "tr_state rec = VERIFIED") auto
qed

text \<open>The loop keeps claims and delivery identities unique.\<close>

definition identity_of :: "transition_record \<Rightarrow> string \<times> canary_transition_purpose" where
  "identity_of rec = (rq_request_digest (tr_request rec), tr_purpose rec)"

lemma hydrate_records_spec:
  assumes "hydrate_records p by_digest head records identities vs = Some out"
    and "distinct (map fst records)" "distinct (map (identity_of \<circ> snd) records)"
    and "identities = (identity_of \<circ> snd) ` set records"
  shows "distinct (map fst out) \<and> distinct (map (identity_of \<circ> snd) out)
    \<and> (\<forall>(claim, rec)\<in>set out. (claim, rec) \<in> set records
         \<or> claim = claim_digest (tr_authorization rec) \<and> (\<exists>v. hydrate_record p v by_digest head = Some rec))"
  using assms
proof (induction vs arbitrary: records identities)
  case (Cons v vs)
  from Cons.prems(1) obtain rec where rec: "hydrate_record p v by_digest head = Some rec"
    "claim_digest (tr_authorization rec) \<notin> fst ` set records" "identity_of rec \<notin> identities"
    and rest: "hydrate_records p by_digest head (records @ [(claim_digest (tr_authorization rec), rec)])
      (insert (identity_of rec) identities) vs = Some out"
    by (auto simp: bind_eq_Some_conv identity_of_def split: if_split_asm)
  let ?records = "records @ [(claim_digest (tr_authorization rec), rec)]"
  have "distinct (map fst ?records)" "distinct (map (identity_of \<circ> snd) ?records)"
    "insert (identity_of rec) identities = (identity_of \<circ> snd) ` set ?records"
    using Cons.prems(2-4) rec(2,3) by (auto simp: comp_def)
  from Cons.IH [OF rest this] rec(1) show ?case by auto
qed auto

section \<open>Verified records and the chain\<close>

text \<open>A verified record that advanced the chain from one receipt to the next.\<close>

definition advances ::
  "bounded_canary_policy \<Rightarrow> bounded_canary_receipt \<Rightarrow> bounded_canary_receipt \<Rightarrow> transition_record \<Rightarrow> bool" where
  "advances p previous r rec \<longleftrightarrow> tr_canary_receipt rec = Some r
     \<and> au_receipt_chain_head_digest (tr_authorization rec) = receipt_digest previous
     \<and> advanced_operation p previous r = Some (rq_operation (tr_request rec))
     \<and> er_semantic_readback_digest (tr_receipt rec) = Some (cr_semantic_readback_digest r)"

lemma case_singleton:
  "(case xs of [x] \<Rightarrow> f x | _ \<Rightarrow> None) = Some y \<longleftrightarrow> (\<exists>x. xs = [x] \<and> f x = Some y)"
  by (auto split: list.split)

lemma match_receipts_step:
  assumes "match_receipts p verified previous (r # rs) matched = Some out"
  obtains rec where "rec \<in> set verified" "advances p previous r rec" "claim_digest (tr_authorization rec) \<notin> set matched"
    "match_receipts p verified r rs (claim_digest (tr_authorization rec) # matched) = Some out"
proof -
  from assms obtain operation rec where op: "advanced_operation p previous r = Some operation"
    and f: "filter (\<lambda>rec. tr_canary_receipt rec = Some r
           \<and> au_receipt_chain_head_digest (tr_authorization rec) = receipt_digest previous
           \<and> rq_operation (tr_request rec) = operation
           \<and> er_canary_receipt_digest (tr_receipt rec) = Some (receipt_digest r)
           \<and> er_semantic_readback_digest (tr_receipt rec) = Some (cr_semantic_readback_digest r)) verified = [rec]"
    and new: "claim_digest (tr_authorization rec) \<notin> set matched"
    and rest: "match_receipts p verified r rs (claim_digest (tr_authorization rec) # matched) = Some out"
    unfolding match_receipts.simps bind_eq_Some_conv case_singleton by (auto split: if_split_asm)
  from arg_cong [OF f, of set] have "rec \<in> set verified" "advances p previous r rec" using op by (auto simp: advances_def)
  with new rest that show thesis by blast
qed

lemma match_receipts_spec:
  assumes "match_receipts p verified previous rs matched = Some out" "distinct matched"
  shows "distinct out \<and> (\<forall>c\<in>set out. c \<in> set matched \<or> (\<exists>rec\<in>set verified. \<exists>i<length rs.
    claim_digest (tr_authorization rec) = c \<and> advances p ((previous # rs) ! i) (rs ! i) rec))"
  using assms
proof (induction rs arbitrary: previous matched)
  case (Cons r rs)
  from Cons.prems(1) obtain rec where here: "rec \<in> set verified" "advances p previous r rec"
    and new: "claim_digest (tr_authorization rec) \<notin> set matched"
    and rest: "match_receipts p verified r rs (claim_digest (tr_authorization rec) # matched) = Some out"
    by (rule match_receipts_step)
  have "distinct (claim_digest (tr_authorization rec) # matched)" using new Cons.prems(2) by simp
  note ih = Cons.IH [OF rest this]
  show ?case
  proof (intro conjI ballI)
    show "distinct out" using ih by blast
    fix c
    assume "c \<in> set out"
    with ih consider "c \<in> set matched" | "c = claim_digest (tr_authorization rec)"
      | rec' i where "rec' \<in> set verified" "i < length rs" "claim_digest (tr_authorization rec') = c"
          "advances p ((r # rs) ! i) (rs ! i) rec'" by auto
    then show "c \<in> set matched \<or> (\<exists>rec\<in>set verified. \<exists>i<length (r # rs).
        claim_digest (tr_authorization rec) = c \<and> advances p ((previous # r # rs) ! i) ((r # rs) ! i) rec)"
    proof cases
      case 2
      with here show ?thesis by (intro disjI2 bexI [of _ rec] exI [of _ 0]) auto
    next
      case 3
      then show ?thesis by (intro disjI2 bexI [of _ rec'] exI [of _ "Suc i"]) auto
    qed simp
  qed
qed simp

lemma match_receipts_length:
  "match_receipts p verified previous rs matched = Some out \<Longrightarrow> length out = length matched + length rs"
proof (induction rs arbitrary: previous matched)
  case (Cons r rs)
  from Cons.prems show ?case by (rule match_receipts_step) (use Cons.IH in force)
qed simp

lemma bijection_spec:
  assumes "require_verified_record_bijection p chain records = Some u" "chain \<noteq> []"
    and keys: "distinct (map fst records)" "\<forall>(claim, rec)\<in>set records. claim = claim_digest (tr_authorization rec)"
  shows "length (filter (\<lambda>rec. tr_state rec = VERIFIED) (map snd records)) + 1 = length chain
    \<and> (\<forall>(claim, rec)\<in>set records. tr_state rec = VERIFIED \<longrightarrow>
        (\<exists>i. Suc i < length chain \<and> advances p (chain ! i) (chain ! Suc i) rec))
    \<and> (\<forall>(claim, rec)\<in>set records. \<exists>r\<in>set chain. hydrated_record_ok p
         (filter (\<lambda>rec. tr_state rec = VERIFIED) (map snd records)) r rec)"
proof -
  let ?verified = "filter (\<lambda>rec. tr_state rec = VERIFIED) (map snd records)"
  let ?claim = "\<lambda>rec. claim_digest (tr_authorization rec)"
  from assms(1) obtain matched where m: "match_receipts p ?verified (hd chain) (tl chain) [] = Some matched"
    and len: "length ?verified = length chain - 1"
    and all: "list_all (\<lambda>rec. case List.find (\<lambda>r. receipt_digest r = au_receipt_chain_head_digest (tr_authorization rec)) chain of
             None \<Rightarrow> False | Some predecessor \<Rightarrow> hydrated_record_ok p ?verified predecessor rec) (map snd records)"
    unfolding require_verified_record_bijection_def Let_def bind_eq_Some_conv
    by (auto simp: bind_eq_Some_conv simp del: list.pred_map filter_map length_filter_map split: if_split_asm)
  have claims: "map ?claim (map snd records) = map fst records" using keys(2) by (auto simp: case_prod_beta)
  then have dist: "distinct (map ?claim (map snd records))" using keys(1) by (simp only:)
  have spec: "distinct matched" "\<And>c. c \<in> set matched \<Longrightarrow> \<exists>rec\<in>set ?verified. \<exists>i<length (tl chain).
      ?claim rec = c \<and> advances p ((hd chain # tl chain) ! i) (tl chain ! i) rec"
    using match_receipts_spec [OF m] by auto
  have "length matched = length ?verified" using match_receipts_length [OF m] len by simp
  moreover have "set matched \<subseteq> set (map ?claim ?verified)" using spec(2) by fastforce
  moreover have dv: "distinct (map ?claim ?verified)" using dist by (rule distinct_map_filter)
  ultimately have cover: "set matched = set (map ?claim ?verified)"
    by (metis (no_types, lifting) card_subset_eq distinct_card length_map List.finite_set spec(1))
  have adv: "\<exists>i. Suc i < length chain \<and> advances p (chain ! i) (chain ! Suc i) rec"
    if rec: "(claim, rec) \<in> set records" "tr_state rec = VERIFIED" for claim rec
  proof -
    have v: "rec \<in> set ?verified" using rec by force
    then have "?claim rec \<in> set matched" unfolding cover by simp
    from spec(2) [OF this] obtain rec' i where r': "rec' \<in> set ?verified" "?claim rec' = ?claim rec" "i < length (tl chain)"
      "advances p ((hd chain # tl chain) ! i) (tl chain ! i) rec'" by blast
    have "rec' = rec" using dv v r'(1,2) by (simp add: distinct_map inj_on_def)
    moreover have "hd chain # tl chain = chain" "tl chain ! i = chain ! Suc i" using assms(2) r'(3) by (simp_all add: nth_tl)
    ultimately show ?thesis using r' assms(2) by (intro exI [of _ i]) auto
  qed
  have "\<exists>r\<in>set chain. hydrated_record_ok p ?verified r rec" if "(claim, rec) \<in> set records" for claim rec
    using all that by (force simp: list_all_iff find_Some_iff split: option.split_asm dest: nth_mem)
  with adv len assms(2) show ?thesis by (auto simp: Suc_diff_Suc)
qed

section \<open>Soundness of hydration\<close>

text \<open>What hydration establishes of the two lists of the sealed material and the ledger it returns.\<close>

definition rebuilt :: "bounded_canary_policy \<Rightarrow> json list \<Rightarrow> json list \<Rightarrow> canary_ledger \<Rightarrow> bool" where
  "rebuilt p receipts items lg \<longleftrightarrow> lg_policy lg = p \<and> lg_hydrated lg
     \<and> collect (hydrate_canary_receipt p) receipts = Some (lg_chain lg)
     \<and> (\<exists>h. validate_canary_receipt_chain p (lg_chain lg) = Inr h) \<and> distinct (map receipt_digest (lg_chain lg))
     \<and> hydrate_records p (py_dict (map (\<lambda>r. (receipt_digest r, r)) (lg_chain lg)))
         (receipt_digest (last (lg_chain lg))) [] {} items = Some (lg_records lg)
     \<and> require_verified_record_bijection p (lg_chain lg) (lg_records lg) = Some () \<and> (\<exists>g. genesis_canary_receipt p = Inr g)
     \<and> (predecessor_receipt_digest (last (lg_chain lg)) \<noteq> None \<longrightarrow> (\<exists>x. ledger_predecessor lg = Inr x))"

definition names_ledger :: "bounded_canary_policy \<Rightarrow> (string \<times> json) list \<Rightarrow> bool" where
  "names_ledger p kvs \<longleftrightarrow> map_of kvs ''schema'' = Some (JStr ''roundwright-canary-execution-ledger/v1'')
     \<and> map_of kvs ''policy_digest'' = Some (JStr (cp_policy_digest p))
     \<and> map_of kvs ''contract_digest'' = Some (JStr (cp_contract_digest p))
     \<and> map_of kvs ''candidate_sha'' = Some (JStr (cp_candidate_sha p))"

lemma as_list_Some_iff: "as_list v = Some xs \<longleftrightarrow> v = Some (JList xs)"
  by (cases v rule: as_list.cases) auto

lemma make_ledger_Inr_iff: "make_ledger p = Inr lg \<longleftrightarrow>
    (\<exists>g. genesis_canary_receipt p = Inr g \<and> lg = \<lparr>lg_policy = p, lg_chain = [g], lg_records = [], lg_hydrated = False\<rparr>)"
  by (auto simp: make_ledger_def bind_result_Inr_iff)

lemma by_digest_length:
  "length (py_dict (map (\<lambda>r. (receipt_digest r, r)) chain)) = length chain \<longleftrightarrow> distinct (map receipt_digest chain)"
  using length_py_dict [of "map (\<lambda>r. (receipt_digest r, r)) chain"] by (simp add: comp_def)

lemma hydrate_fields_Some:
  assumes "names_ledger p kvs" "map_of kvs ''chain'' = Some (JList receipts)" "map_of kvs ''records'' = Some (JList items)"
    and "rebuilt p receipts items lg"
  shows "hydrate_fields p kvs = Some lg"
proof -
  have r: "lg_policy lg = p" "lg_hydrated lg" "collect (hydrate_canary_receipt p) receipts = Some (lg_chain lg)"
    "distinct (map receipt_digest (lg_chain lg))"
    "hydrate_records p (py_dict (map (\<lambda>r. (receipt_digest r, r)) (lg_chain lg)))
         (receipt_digest (last (lg_chain lg))) [] {} items = Some (lg_records lg)"
    "require_verified_record_bijection p (lg_chain lg) (lg_records lg) = Some ()"
    "predecessor_receipt_digest (last (lg_chain lg)) \<noteq> None \<longrightarrow> (\<exists>x. ledger_predecessor lg = Inr x)"
    using assms(4) unfolding rebuilt_def by blast+
  obtain h g where v: "validate_canary_receipt_chain p (lg_chain lg) = Inr h" and g: "genesis_canary_receipt p = Inr g"
    using assms(4) unfolding rebuilt_def by blast
  have m: "make_ledger p = Inr \<lparr>lg_policy = p, lg_chain = [g], lg_records = [], lg_hydrated = False\<rparr>"
    using g by (simp add: make_ledger_Inr_iff)
  have lg: "\<lparr>lg_policy = p, lg_chain = lg_chain lg, lg_records = lg_records lg, lg_hydrated = True\<rparr> = lg"
    using r(1,2) by (cases lg) simp
  have "hydrate_fields p kvs = (if predecessor_receipt_digest (last (lg_chain lg)) \<noteq> None
      then Option.bind (caught_result (ledger_predecessor lg)) (\<lambda>_. Some lg) else Some lg)"
    using assms(1-3) unfolding hydrate_fields_def names_ledger_def Let_def
    by (simp add: by_digest_length r(3-6) v m lg)
  with r(7) show ?thesis by auto
qed

lemma hydrate_fields_rebuilt:
  assumes "hydrate_fields p kvs = Some lg"
  shows "names_ledger p kvs \<and> (\<exists>receipts items. map_of kvs ''chain'' = Some (JList receipts)
    \<and> map_of kvs ''records'' = Some (JList items) \<and> rebuilt p receipts items lg)"
  using assms unfolding hydrate_fields_def Let_def
  by (auto simp: bind_eq_Some_conv caught_bind make_ledger_Inr_iff by_digest_length rebuilt_def names_ledger_def
      as_list_Some_iff split: if_split_asm)

lemma hydrate_Inr_iff:
  "hydrate p sealed = Inr lg \<longleftrightarrow> (\<exists>kvs. sealed = JObj kvs \<and> set (map fst kvs) = set ledger_keys \<and> hydrate_fields p kvs = Some lg)"
  by (cases sealed) (auto simp: hydrate_def has_keys_def bind_eq_Some_conv split: option.split)

lemma hydrate_rebuilt: "hydrate p sealed = Inr lg \<Longrightarrow> \<exists>receipts items. rebuilt p receipts items lg"
  unfolding hydrate_Inr_iff using hydrate_fields_rebuilt by blast

lemma hydrated_chain:
  assumes "rebuilt p receipts items lg"
  shows "chain_ok p (lg_chain lg) \<and> lg_chain lg \<noteq> []"
proof -
  have c: "collect (hydrate_canary_receipt p) receipts = Some (lg_chain lg)" using assms by (simp add: rebuilt_def)
  obtain h where v: "validate_canary_receipt_chain p (lg_chain lg) = Inr h" using assms by (auto simp: rebuilt_def)
  have all: "list_all (\<lambda>r. cr_policy r = p \<and> canary_policy_validate p = Inr ()) (lg_chain lg)"
    using c by (rule collect_all) (use hydrated_receipt in blast)
  have ne: "lg_chain lg \<noteq> []" using v by (auto simp: validate_canary_receipt_chain_def)
  with all have pv: "canary_policy_validate p = Inr ()" by (cases "lg_chain lg") auto
  have same: "\<forall>r\<in>set (lg_chain lg). cr_policy r = p" using all by (auto simp: list_all_iff)
  then have "\<forall>r\<in>set (lg_chain lg). \<not> policies_collide p (cr_policy r)" by (simp add: no_self_collision)
  from valid_chain_head [OF v pv this] v pv same ne show ?thesis by (simp add: chain_ok_def)
qed

lemma hydrated_entries:
  assumes "rebuilt p receipts items lg"
  shows "distinct (map fst (lg_records lg)) \<and> distinct (map (identity_of \<circ> snd) (lg_records lg))
    \<and> (\<forall>(claim, rec)\<in>set (lg_records lg). claim = claim_digest (tr_authorization rec)
         \<and> hydrated_shape p (py_dict (map (\<lambda>r. (receipt_digest r, r)) (lg_chain lg))) (receipt_digest (last (lg_chain lg))) rec)"
proof -
  let ?by = "py_dict (map (\<lambda>r. (receipt_digest r, r)) (lg_chain lg))"
  have "hydrate_records p ?by (receipt_digest (last (lg_chain lg))) [] {} items = Some (lg_records lg)"
    using assms by (simp add: rebuilt_def)
  from hydrate_records_spec [OF this] have spec: "distinct (map fst (lg_records lg))"
    "distinct (map (identity_of \<circ> snd) (lg_records lg))"
    "\<And>claim rec. (claim, rec) \<in> set (lg_records lg) \<Longrightarrow> claim = claim_digest (tr_authorization rec)
       \<and> (\<exists>v. hydrate_record p v ?by (receipt_digest (last (lg_chain lg))) = Some rec)" by auto
  with hydrated_record_shape [where by_digest = ?by] by_digest_Some show ?thesis by blast
qed

lemma hydrated_reserved:
  assumes "hydrated_record_ok p verified r rec" "record_receipt rec readback = Inr (tr_receipt rec)"
  shows "reserved_ok p rec"
proof -
  have a: "make_authorization (cp_policy_digest p) (cp_contract_digest p) (rq_request_digest (tr_request rec))
       (receipt_digest r) = Inr (tr_authorization rec)"
    and scope: "rq_operation (tr_request rec) \<in> set (requested_operations p)" "rq_branch (tr_request rec) = cp_branch p"
      "set (rq_paths (tr_request rec)) \<subseteq> set (allowed_paths p)"
    using assms(1) by (auto simp: hydrated_record_ok_def hydrated_authorization_ok_def list_all_iff)
  have "au_receipt_chain_head_digest (tr_authorization rec) = receipt_digest r" using authorization_fields [OF a] by simp
  moreover have "pred_option is_digest (tr_predecessor_digest rec)" "pred_option is_digest (tr_pre_state_digest rec)"
    "cleanup_evidence (tr_purpose rec) (tr_predecessor_digest rec) (tr_pre_state_digest rec)"
    using assms(2) unfolding record_receipt_def receipt_for_def make_execution_receipt_def
    by (simp_all add: execution_receipt_guards_iff)
  ultimately show ?thesis using a scope by (simp add: reserved_ok_def)
qed

section \<open>Reading sealed material back\<close>

lemma enum_values [simp]:
  "canary_result_of (canary_result_value r) = Some r"
  "transition_state_of (transition_state_value st) = Some st"
  "transition_purpose_of (transition_purpose_value pu) = Some pu"
  by ((cases r; simp add: enum_of_def), (cases st; simp add: enum_of_def), (cases pu; simp add: enum_of_def))

lemma read_counts:
  assumes "map fst c = ops" "distinct ops" "list_all (\<lambda>(g, n). 0 \<le> n) c" "requested_operations p = ops"
    and "map_of kvs ''operation_counts'' = Some (JObj (count_fields c))"
    and "map_of kvs ''total_calls'' = Some (JInt (count_sum c))"
  shows "sealed_counts p kvs = Some c"
proof -
  let ?ns = "map (\<lambda>(g, n). (github_operation_value g, n)) c"
  have ns: "collect (\<lambda>(k, v). Option.bind (as_int (Some v)) (\<lambda>n. if n < 0 then None else Some (k, n))) (count_fields c) = Some ?ns"
    unfolding count_fields_def by (rule collect_map) (use assms(3) in \<open>auto simp: list_all_iff\<close>)
  have look: "map_of ?ns (github_operation_value g) = map_of c g" for g
    using github_operation_value_inj by (induction c) (auto simp: inj_eq)
  have "collect (\<lambda>g. map_option (Pair g) (map_of ?ns (github_operation_value g))) (map fst c) = Some (map id c)"
    by (rule collect_map) (use assms(1,2) in \<open>auto simp: look map_of_is_SomeI\<close>)
  moreover have "set (map fst (count_fields c)) = set (map github_operation_value ops)"
    using assms(1) by (force simp: count_fields_def)
  moreover have "sum_list (map snd ?ns) = count_sum c" by (simp add: count_sum_def comp_def case_prod_beta)
  ultimately show ?thesis
    unfolding sealed_counts_def using assms(1,4-6) ns by simp
qed

lemma canary_receipt_codec:
  assumes "receipt_ok r" "cr_policy r = p" "map fst (operation_counts r) = requested_operations p"
  shows "hydrate_canary_receipt p (JObj (canary_receipt_public r)) = Some r"
proof -
  let ?kvs = "canary_receipt_public r"
  have g: "list_all fst (receipt_guards r)" "canary_policy_validate p = Inr ()"
    "receipt_digest r = digest_value (JObj (receipt_payload r))"
    using assms(1,2) by (simp_all add: receipt_ok_def)
  have "distinct (requested_operations p)" "list_all (\<lambda>(g, n). 0 \<le> n) (operation_counts r)"
    using g(1) assms(3) by (simp_all add: receipt_guards_def Let_def)
  with assms(3) have c: "sealed_counts p ?kvs = Some (operation_counts r)"
    by (intro read_counts) (simp_all add: canary_receipt_public_def receipt_payload_def Let_def)
  have keys: "has_keys canary_receipt_keys ?kvs = Some ?kvs"
    by (simp add: has_keys_def canary_receipt_public_def receipt_payload_def canary_receipt_keys_def Let_def)
  have n: "receipt_names_policy p ?kvs"
    using assms(2) by (simp add: receipt_names_policy_def canary_receipt_public_def receipt_payload_def Let_def)
  have m: "make_receipt (r\<lparr>receipt_digest := []\<rparr>) = Inr r"
    using g assms(2) by (simp add: make_receipt_Inr_iff)
  have r: "\<lparr>cr_policy = p, cr_result = cr_result r, operation_counts = operation_counts r,
      cr_semantic_readback_digest = cr_semantic_readback_digest r,
      predecessor_receipt_digest = predecessor_receipt_digest r, receipt_digest = []\<rparr> = r\<lparr>receipt_digest := []\<rparr>"
    using assms(2) by (cases r) simp
  have f: "map_of ?kvs ''result'' = Some (JStr (canary_result_value (cr_result r)))"
    "map_of ?kvs ''semantic_readback_digest'' = Some (JStr (cr_semantic_readback_digest r))"
    "map_of ?kvs ''predecessor_receipt_digest'' = Some (json_opt (predecessor_receipt_digest r))"
    "map_of ?kvs ''receipt_digest'' = Some (JStr (receipt_digest r))"
    by (cases "predecessor_receipt_digest r"; simp add: canary_receipt_public_def receipt_payload_def Let_def)+
  show ?thesis
    unfolding hydrate_canary_receipt_def by (simp add: keys n c f r m)
qed

lemma execution_receipt_codec:
  assumes "make_execution_receipt (r\<lparr>er_receipt_digest := []\<rparr>) = Inr r"
  shows "hydrate_execution_receipt (Some (JObj (execution_receipt_public r))) = Some r"
proof -
  have keys: "has_keys execution_receipt_keys (execution_receipt_public r) = Some (execution_receipt_public r)"
    by (simp add: has_keys_def execution_receipt_public_def execution_payload_def execution_receipt_keys_def)
  have r: "\<lparr>er_policy_digest = er_policy_digest r, er_contract_digest = er_contract_digest r, er_claim_digest = er_claim_digest r,
      er_request_digest = er_request_digest r, er_chain_head_digest = er_chain_head_digest r, er_purpose = er_purpose r,
      er_state = er_state r, er_semantic_readback_digest = er_semantic_readback_digest r,
      er_canary_receipt_digest = er_canary_receipt_digest r, er_predecessor_digest = er_predecessor_digest r,
      er_pre_state_digest = er_pre_state_digest r, er_retry_used = er_retry_used r, er_receipt_digest = []\<rparr>
     = r\<lparr>er_receipt_digest := []\<rparr>" by (cases r) simp
  show ?thesis
    unfolding hydrate_execution_receipt_def
    by (simp add: keys) (simp add: execution_receipt_public_def execution_payload_def r assms)
qed

lemma request_codec:
  assumes "make_request (rq_operation rq) (rq_branch rq) (rq_paths rq) = Inr rq"
  shows "hydrate_request (Some (JObj [(''operation'', JStr (github_operation_value (rq_operation rq))),
     (''branch'', JStr (rq_branch rq)), (''paths'', JList (map JStr (rq_paths rq)))])) = Some rq"
proof -
  have "collect (\<lambda>x. as_str (Some x)) (map JStr (rq_paths rq)) = Some (map id (rq_paths rq))" by (rule collect_map) simp
  with assms show ?thesis by (simp add: hydrate_request_def has_keys_def)
qed

lemma authorization_codec:
  assumes "make_authorization (au_policy_digest a) (au_contract_digest a) (au_request_digest a) (au_receipt_chain_head_digest a) = Inr a"
  shows "hydrate_authorization (Some (JObj [(''policy_digest'', JStr (au_policy_digest a)),
     (''contract_digest'', JStr (au_contract_digest a)), (''request_digest'', JStr (au_request_digest a)),
     (''receipt_chain_head_digest'', JStr (au_receipt_chain_head_digest a))])) = Some a"
  using assms by (simp add: hydrate_authorization_def has_keys_def authorization_keys_def)

lemma record_receipt_fields:
  assumes "record_receipt rec readback = Inr r"
  shows "make_execution_receipt (r\<lparr>er_receipt_digest := []\<rparr>) = Inr r
    \<and> receipt_agrees r (tr_authorization rec) (tr_purpose rec) (tr_state rec) (tr_retry_used rec)
        (tr_predecessor_digest rec) (tr_pre_state_digest rec)
    \<and> er_canary_receipt_digest r = map_option receipt_digest (tr_canary_receipt rec)"
  using assms unfolding record_receipt_def receipt_for_def make_execution_receipt_def
  by (auto simp: receipt_agrees_def)

text \<open>What a record must satisfy for hydration to read it back from its own sealed form.\<close>

definition sealable ::
  "bounded_canary_policy \<Rightarrow> (string \<times> bounded_canary_receipt) list \<Rightarrow> string \<Rightarrow> transition_record \<Rightarrow> bool" where
  "sealable p by_digest head rec \<longleftrightarrow>
     make_request (rq_operation (tr_request rec)) (rq_branch (tr_request rec)) (rq_paths (tr_request rec)) = Inr (tr_request rec)
     \<and> reserved_ok p rec \<and> (\<exists>readback. record_receipt rec readback = Inr (tr_receipt rec))
     \<and> map_of by_digest (au_receipt_chain_head_digest (tr_authorization rec)) \<noteq> None
     \<and> (case tr_canary_receipt rec of
          Some cr \<Rightarrow> tr_state rec = VERIFIED \<and> map_of by_digest (receipt_digest cr) = Some cr
            \<and> predecessor_receipt_digest cr = Some (au_receipt_chain_head_digest (tr_authorization rec))
        | None \<Rightarrow> tr_state rec \<noteq> VERIFIED \<and> au_receipt_chain_head_digest (tr_authorization rec) = head)"

lemma record_codec:
  assumes "sealable p by_digest head rec"
  shows "hydrate_record p (sealed_transition rec) by_digest head = Some rec"
proof -
  let ?a = "tr_authorization rec"
  obtain readback where "record_receipt rec readback = Inr (tr_receipt rec)" using assms by (auto simp: sealable_def)
  note f = record_receipt_fields [OF this]
  have a: "make_authorization (cp_policy_digest p) (cp_contract_digest p) (rq_request_digest (tr_request rec))
       (au_receipt_chain_head_digest ?a) = Inr ?a" using assms by (simp add: sealable_def reserved_ok_def)
  note af = authorization_fields [OF a]
  have req: "make_request (rq_operation (tr_request rec)) (rq_branch (tr_request rec)) (rq_paths (tr_request rec)) = Inr (tr_request rec)"
    and known: "map_of by_digest (au_receipt_chain_head_digest ?a) \<noteq> None" using assms by (simp_all add: sealable_def)
  note codecs = execution_receipt_codec [of "tr_receipt rec"] authorization_codec [of ?a] request_codec [OF req]
  have look: "receipt_lookup by_digest (Some (json_opt (map_option receipt_digest (tr_canary_receipt rec)))) = Some (tr_canary_receipt rec)"
    using assms by (auto simp: sealable_def split: option.split_asm)
  have st: "(tr_state rec = VERIFIED \<longrightarrow> tr_canary_receipt rec \<noteq> None
        \<and> predecessor_receipt_digest (the (tr_canary_receipt rec)) = Some (au_receipt_chain_head_digest ?a))
      \<and> (tr_state rec \<noteq> VERIFIED \<longrightarrow> tr_canary_receipt rec = None \<and> au_receipt_chain_head_digest ?a = head)"
    using assms by (auto simp: sealable_def split: option.split_asm)
  show ?thesis
    unfolding hydrate_record_def sealed_transition_def
    using codecs(1,2) f a af known st look
    by (simp add: has_keys_def record_keys_def codecs(3)) (cases "tr_state rec = VERIFIED"; simp)
qed

lemma records_codec:
  assumes "\<forall>(claim, rec)\<in>set rs. claim = claim_digest (tr_authorization rec) \<and> sealable p by_digest head rec"
    and "distinct (map fst (acc @ rs))" "distinct (map (identity_of \<circ> snd) (acc @ rs))"
    and "identities = (identity_of \<circ> snd) ` set acc"
  shows "hydrate_records p by_digest head acc identities (map (sealed_transition \<circ> snd) rs) = Some (acc @ rs)"
  using assms
proof (induction rs arbitrary: acc identities)
  case (Cons cr rs)
  obtain claim rec where cr: "cr = (claim, rec)" by (cases cr)
  with Cons.prems(1) have c: "claim = claim_digest (tr_authorization rec)"
    and r: "hydrate_record p (sealed_transition rec) by_digest head = Some rec" by (auto intro: record_codec)
  have "hydrate_records p by_digest head (acc @ [cr]) (insert (identity_of rec) identities) (map (sealed_transition \<circ> snd) rs)
      = Some ((acc @ [cr]) @ rs)"
    by (rule Cons.IH) (use Cons.prems cr in auto)
  moreover have "claim \<notin> fst ` set acc" "identity_of rec \<notin> identities" using Cons.prems(2-4) cr by auto
  ultimately show ?case using r c cr by (simp add: identity_of_def comp_def)
qed simp

lemma hydrated_receipt_fields:
  assumes "hydrate_canary_receipt p v = Some r"
  shows "receipt_ok r \<and> cr_policy r = p \<and> map fst (operation_counts r) = requested_operations p"
proof -
  from assms obtain kvs counts r0 where c: "sealed_counts p kvs = Some counts" and m: "make_receipt r0 = Inr r"
    and r0: "operation_counts r0 = counts" "cr_policy r0 = p"
    by (cases v) (auto simp: hydrate_canary_receipt_def bind_eq_Some_conv caught_bind split: if_split_asm)
  have keep: "collect (\<lambda>g. map_option (Pair g) (f g)) gs = Some out \<Longrightarrow> map fst out = gs" for f gs and out :: call_counts
    by (induction gs arbitrary: out) (auto simp: bind_eq_Some_conv)
  have "map fst counts = requested_operations p"
    using c unfolding sealed_counts_def by (auto simp: bind_eq_Some_conv split: if_split_asm dest: keep)
  moreover have "operation_counts r = counts" "cr_policy r = p" using m r0 by (auto simp: make_receipt_Inr_iff)
  ultimately show ?thesis using make_receipt_ok [OF m] by simp
qed

lemma hydrated_record_request:
  assumes "hydrate_record p v by_digest head = Some rec"
  shows "make_request (rq_operation (tr_request rec)) (rq_branch (tr_request rec)) (rq_paths (tr_request rec)) = Inr (tr_request rec)"
proof -
  from assms obtain x where "hydrate_request x = Some (tr_request rec)"
    unfolding hydrate_record_def by (auto simp: bind_eq_Some_conv split: if_split_asm)
  then obtain operation branch paths where "make_request operation branch paths = Inr (tr_request rec)"
    unfolding hydrate_request_def by (auto simp: bind_eq_Some_conv)
  then show ?thesis by (auto simp: make_request_def)
qed

lemma hydrated_records:
  assumes "rebuilt p receipts items lg" "(claim, rec) \<in> set (lg_records lg)"
  shows "claim = claim_digest (tr_authorization rec) \<and> reserved_ok p rec
    \<and> (\<exists>readback. record_receipt rec readback = Inr (tr_receipt rec))
    \<and> (if tr_state rec = VERIFIED
       then \<exists>i. Suc i < length (lg_chain lg) \<and> advances p (lg_chain lg ! i) (lg_chain lg ! Suc i) rec
       else tr_canary_receipt rec = None
         \<and> au_receipt_chain_head_digest (tr_authorization rec) = receipt_digest (last (lg_chain lg)))"
proof -
  let ?verified = "filter (\<lambda>rec. tr_state rec = VERIFIED) (map snd (lg_records lg))"
  have e: "distinct (map fst (lg_records lg))"
    "\<forall>(claim, rec)\<in>set (lg_records lg). claim = claim_digest (tr_authorization rec)"
    and sh: "hydrated_shape p (py_dict (map (\<lambda>r. (receipt_digest r, r)) (lg_chain lg))) (receipt_digest (last (lg_chain lg))) rec"
    using hydrated_entries [OF assms(1)] assms(2) by auto
  have "require_verified_record_bijection p (lg_chain lg) (lg_records lg) = Some ()"
    using assms(1) by (simp add: rebuilt_def)
  note b = bijection_spec [OF this _ e]
  have ne: "lg_chain lg \<noteq> []" using hydrated_chain [OF assms(1)] by simp
  from b [OF ne] assms(2) obtain r where "hydrated_record_ok p ?verified r rec" by blast
  with sh have "reserved_ok p rec" using hydrated_reserved unfolding hydrated_shape_def by blast
  moreover have "tr_state rec = VERIFIED \<Longrightarrow>
      \<exists>i. Suc i < length (lg_chain lg) \<and> advances p (lg_chain lg ! i) (lg_chain lg ! Suc i) rec"
    using b [OF ne] assms(2) by blast
  ultimately show ?thesis using e(2) assms(2) sh unfolding hydrated_shape_def by auto
qed

text \<open>
  Whatever the sealed material, a ledger that hydration accepts has
  the shape of one that operations built under the selected policy: the chain is valid and free of
  repeated receipts; no two records share a claim or a delivery; every record is within the policy's
  scope, carries an authorization and an execution receipt that match its fields, and cleanup
  evidence exactly when it is a rollback or a cleanup; each verified record advanced the chain from
  one receipt to the next, by its own operation and with its own read-back, and there is exactly
  one per receipt after the genesis; every other record was authorized at the current head.
\<close>

lemma hydrated_ledger_sound:
  assumes "hydrate p sealed = Inr lg"
  shows "lg_policy lg = p \<and> lg_hydrated lg \<and> chain_ok p (lg_chain lg) \<and> distinct (map receipt_digest (lg_chain lg))
    \<and> distinct (map fst (lg_records lg)) \<and> distinct (map (delivery \<circ> snd) (lg_records lg))
    \<and> length (filter (is_verified \<circ> snd) (lg_records lg)) + 1 = length (lg_chain lg)
    \<and> (\<forall>(claim, rec)\<in>set (lg_records lg). claim = claim_digest (tr_authorization rec) \<and> reserved_ok p rec
         \<and> (\<exists>readback. record_receipt rec readback = Inr (tr_receipt rec))
         \<and> (if tr_state rec = VERIFIED
            then \<exists>i. Suc i < length (lg_chain lg) \<and> advances p (lg_chain lg ! i) (lg_chain lg ! Suc i) rec
            else tr_canary_receipt rec = None
              \<and> au_receipt_chain_head_digest (tr_authorization rec) = receipt_digest (last (lg_chain lg))))"
proof -
  from hydrate_rebuilt [OF assms] obtain receipts items where r: "rebuilt p receipts items lg" by blast
  note c = hydrated_chain [OF r] and e = hydrated_entries [OF r]
  have bij: "require_verified_record_bijection p (lg_chain lg) (lg_records lg) = Some ()" using r by (simp add: rebuilt_def)
  have "distinct (map (identity_of \<circ> snd) (lg_records lg))" using e by blast
  then have d: "distinct (map (delivery \<circ> snd) (lg_records lg))"
    unfolding distinct_map inj_on_def by (auto simp: identity_of_def delivery_def)
  have "filter (is_verified \<circ> snd) (lg_records lg) = filter ((\<lambda>rec. tr_state rec = VERIFIED) \<circ> snd) (lg_records lg)"
    by (simp add: is_verified_def comp_def)
  then have "length (filter (is_verified \<circ> snd) (lg_records lg)) + 1 = length (lg_chain lg)"
    using bijection_spec [OF bij] c e by (auto simp: filter_map)
  moreover have "lg_policy lg = p" "lg_hydrated lg" "distinct (map receipt_digest (lg_chain lg))"
    using r by (simp_all add: rebuilt_def)
  moreover have "chain_ok p (lg_chain lg)" "distinct (map fst (lg_records lg))" using c e by blast+
  ultimately show ?thesis using d by - (intro conjI, assumption+, rule ballI, rule case_prodI2, rule hydrated_records [OF r], simp)
qed

section \<open>Sealing again\<close>

text \<open>A ledger whose chain and records can be read back one by one survives sealing and hydration.\<close>

lemma sealed_rebuilt:
  assumes "chain_ok p (lg_chain lg)" "distinct (map receipt_digest (lg_chain lg))" "lg_policy lg = p"
    and receipts: "\<forall>r\<in>set (lg_chain lg). receipt_ok r \<and> map fst (operation_counts r) = requested_operations p"
    and records: "\<forall>(claim, rec)\<in>set (lg_records lg). claim = claim_digest (tr_authorization rec)
      \<and> sealable p (py_dict (map (\<lambda>r. (receipt_digest r, r)) (lg_chain lg))) (receipt_digest (last (lg_chain lg))) rec"
    and "distinct (map fst (lg_records lg))" "distinct (map (identity_of \<circ> snd) (lg_records lg))"
    and "require_verified_record_bijection p (lg_chain lg) (lg_records lg) = Some ()"
    and "\<exists>g. genesis_canary_receipt p = Inr g"
    and "predecessor_receipt_digest (last (lg_chain lg)) \<noteq> None \<longrightarrow> (\<exists>x. ledger_predecessor lg = Inr x)"
  shows "hydrate p (sealed_state lg) = Inr (lg\<lparr>lg_hydrated := True\<rparr>)"
proof -
  let ?lg = "lg\<lparr>lg_hydrated := True\<rparr>"
  let ?receipts = "map (JObj \<circ> canary_receipt_public) (lg_chain lg)" and ?items = "map (sealed_transition \<circ> snd) (lg_records lg)"
  have "\<forall>r\<in>set (lg_chain lg). cr_policy r = p" using assms(1) by (simp add: chain_ok_def)
  then have "collect (hydrate_canary_receipt p) ?receipts = Some (map id (lg_chain lg))"
    by (intro collect_map) (use receipts in \<open>auto intro: canary_receipt_codec\<close>)
  moreover have "ledger_predecessor ?lg = ledger_predecessor lg" by (simp add: ledger_predecessor_def cong: if_cong)
  moreover have "hydrate_records p (py_dict (map (\<lambda>r. (receipt_digest r, r)) (lg_chain lg)))
         (receipt_digest (last (lg_chain lg))) [] {} ?items = Some ([] @ lg_records lg)"
    by (rule records_codec) (use assms records in simp_all)
  moreover have "\<exists>h. validate_canary_receipt_chain p (lg_chain lg) = Inr h" using assms(1) by (auto simp: chain_ok_def)
  ultimately have r: "rebuilt p ?receipts ?items ?lg" using assms unfolding rebuilt_def by simp
  have "hydrate_fields p [(''schema'', JStr ''roundwright-canary-execution-ledger/v1''),
      (''policy_digest'', JStr (cp_policy_digest p)), (''contract_digest'', JStr (cp_contract_digest p)),
      (''candidate_sha'', JStr (cp_candidate_sha p)), (''chain'', JList ?receipts), (''records'', JList ?items)] = Some ?lg"
    by (rule hydrate_fields_Some [OF _ _ _ r]) (simp_all add: names_ledger_def)
  then show ?thesis using assms(3) by (simp add: hydrate_Inr_iff sealed_state_def ledger_keys_def)
qed

lemma hydrated_sealable:
  assumes "rebuilt p receipts items lg" "(claim, rec) \<in> set (lg_records lg)"
  shows "sealable p (py_dict (map (\<lambda>r. (receipt_digest r, r)) (lg_chain lg))) (receipt_digest (last (lg_chain lg))) rec"
proof -
  let ?by = "py_dict (map (\<lambda>r. (receipt_digest r, r)) (lg_chain lg))" and ?head = "receipt_digest (last (lg_chain lg))"
  have "hydrate_records p ?by ?head [] {} items = Some (lg_records lg)" using assms(1) by (simp add: rebuilt_def)
  from hydrate_records_spec [OF this] assms(2) obtain v where "hydrate_record p v ?by ?head = Some rec" by fastforce
  note rq = hydrated_record_request [OF this]
  have sh: "hydrated_shape p ?by ?head rec" using hydrated_entries [OF assms(1)] assms(2) by auto
  have "map_of ?by (receipt_digest cr) = Some cr" if "tr_canary_receipt rec = Some cr" for cr
  proof -
    from sh that obtain d where "map_of ?by d = Some cr" unfolding hydrated_shape_def by blast
    with by_digest_Some [OF this] show ?thesis by simp
  qed
  moreover have "map_of ?by (au_receipt_chain_head_digest (tr_authorization rec)) \<noteq> None"
    "\<exists>readback. record_receipt rec readback = Inr (tr_receipt rec)" "tr_state rec = VERIFIED \<longleftrightarrow> tr_canary_receipt rec \<noteq> None"
    "\<And>cr. tr_canary_receipt rec = Some cr \<Longrightarrow>
       predecessor_receipt_digest cr = Some (au_receipt_chain_head_digest (tr_authorization rec))"
    "tr_state rec \<noteq> VERIFIED \<Longrightarrow> au_receipt_chain_head_digest (tr_authorization rec) = ?head"
    using sh unfolding hydrated_shape_def by blast+
  moreover have "reserved_ok p rec" using hydrated_records [OF assms] by blast
  ultimately show ?thesis using rq unfolding sealable_def by (cases "tr_canary_receipt rec") simp_all
qed

text \<open>
  C16 (hydration_round_trip). Hydration inverts sealing on what it accepts: a hydrated ledger that
  is sealed and hydrated once more is the same ledger, record by record and receipt by receipt.
\<close>

theorem hydration_round_trip:
  assumes "hydrate p sealed = Inr lg"
  shows "hydrate p (sealed_state lg) = Inr lg"
proof -
  from hydrate_rebuilt [OF assms] obtain receipts items where r: "rebuilt p receipts items lg" by blast
  have c: "collect (hydrate_canary_receipt p) receipts = Some (lg_chain lg)" "lg_policy lg = p" "lg_hydrated lg"
    using r by (simp_all add: rebuilt_def)
  have "list_all (\<lambda>x. receipt_ok x \<and> map fst (operation_counts x) = requested_operations p) (lg_chain lg)"
    using c(1) by (rule collect_all) (use hydrated_receipt_fields in blast)
  then have "hydrate p (sealed_state lg) = Inr (lg\<lparr>lg_hydrated := True\<rparr>)"
    using hydrated_chain [OF r] hydrated_entries [OF r] hydrated_sealable [OF r] r
    by (intro sealed_rebuilt) (auto simp: rebuilt_def list_all_iff)
  with c(3) show ?thesis by (cases lg) simp
qed

section \<open>A record that outlives its chain head\<close>

lemma sealed_transition_stale:
  assumes "tr_state rec \<noteq> VERIFIED" "au_receipt_chain_head_digest (tr_authorization rec) \<noteq> head"
  shows "hydrate_record p (sealed_transition rec) by_digest head = None"
proof -
  have "au_receipt_chain_head_digest a = au_receipt_chain_head_digest (tr_authorization rec)"
    if "hydrate_authorization (Some (JObj [(''policy_digest'', JStr (au_policy_digest (tr_authorization rec))),
     (''contract_digest'', JStr (au_contract_digest (tr_authorization rec))), (''request_digest'', JStr (au_request_digest (tr_authorization rec))),
     (''receipt_chain_head_digest'', JStr (au_receipt_chain_head_digest (tr_authorization rec)))])) = Some a" for a
    using that by (auto simp: hydrate_authorization_def has_keys_def authorization_keys_def bind_eq_Some_conv dest: authorization_fields)
  then show ?thesis
    using assms unfolding hydrate_record_def sealed_transition_def
    by (auto simp: has_keys_def record_keys_def split: Option.bind_splits)
qed

lemma hydrate_records_None:
  "v \<in> set vs \<Longrightarrow> hydrate_record p v by_digest head = None \<Longrightarrow> hydrate_records p by_digest head records identities vs = None"
  by (induction vs arbitrary: records identities) (auto split: Option.bind_splits)

lemma sealed_chain_head:
  assumes "collect (hydrate_canary_receipt p) (map (JObj \<circ> canary_receipt_public) rs) = Some chain" "chain \<noteq> []"
  shows "receipt_digest (last chain) = receipt_digest (last rs)"
proof -
  have "map_of (canary_receipt_public r) ''receipt_digest'' = Some (JStr (receipt_digest r))" for r
    by (simp add: canary_receipt_public_def receipt_payload_def Let_def)
  then have "receipt_digest r' = receipt_digest r" if "hydrate_canary_receipt p (JObj (canary_receipt_public r)) = Some r'" for r r'
    using hydrated_receipt [OF that] by auto
  then have "map receipt_digest chain = map receipt_digest rs"
    using assms(1) by (induction rs arbitrary: chain) (auto simp: bind_eq_Some_conv)
  then show ?thesis using assms(2) by (metis last_map map_is_Nil_conv)
qed

text \<open>
  C35 (unresolved_record_blocks_restart). A ledger that still holds an unverified record of an earlier
  chain head cannot be restored from its own sealed state: \<open>sealed_state\<close> writes the record and
  \<open>hydrate\<close> refuses the whole ledger, under every policy. The witness shows that an orchestrator
  reaches such a ledger by two ordinary executions, an ambiguous one and then a verified one, unless
  SHA-256 collides on one of three given pairs of texts: the claims of the two requests under the sample policy and its genesis
  receipt, the two requests, or the genesis receipt and the first receipt after it.
\<close>

theorem unresolved_record_blocks_restart:
  assumes "(claim, rec) \<in> set (lg_records lg)" "tr_state rec \<noteq> VERIFIED"
    and "au_receipt_chain_head_digest (tr_authorization rec) \<noteq> receipt_digest (last (lg_chain lg))"
  shows "hydrate p (sealed_state lg) = Inl (CanaryExecutionError ''Canary execution ledger hydration is invalid or stale'')"
proof (cases "hydrate p (sealed_state lg)")
  case (Inl e)
  then show ?thesis by (auto simp: hydrate_def split: option.split_asm)
next
  case (Inr lg')
  then obtain kvs where kvs: "sealed_state lg = JObj kvs" and f: "hydrate_fields p kvs = Some lg'"
    by (auto simp: hydrate_Inr_iff)
  from hydrate_fields_rebuilt [OF f] kvs
  have r: "rebuilt p (map (JObj \<circ> canary_receipt_public) (lg_chain lg)) (map (sealed_transition \<circ> snd) (lg_records lg)) lg'"
    by (auto simp: sealed_state_def)
  have "receipt_digest (last (lg_chain lg')) = receipt_digest (last (lg_chain lg))"
    by (rule sealed_chain_head [where p = p]) (use r hydrated_chain [OF r] in \<open>simp_all add: rebuilt_def\<close>)
  then have "hydrate_record p (sealed_transition rec) by_digest (receipt_digest (last (lg_chain lg'))) = None" for by_digest
    using assms(2,3) by (simp add: sealed_transition_stale)
  moreover have "sealed_transition rec \<in> set (map (sealed_transition \<circ> snd) (lg_records lg))" using assms(1) by force
  ultimately have "hydrate_records p (py_dict (map (\<lambda>r. (receipt_digest r, r)) (lg_chain lg'))) (receipt_digest (last (lg_chain lg')))
      [] {} (map (sealed_transition \<circ> snd) (lg_records lg)) = None" by (rule hydrate_records_None [rotated])
  with r show ?thesis unfolding rebuilt_def by simp
qed

section \<open>Concrete ledgers\<close>

lemma sample_request_made: "make_request GH_COMMENT ''canary/x'' [''docs/a.md''] = Inr sample_canary_request"
  by (simp add: sample_canary_request_def make_request_def sample_lexical construct_ok)

lemma genesis_no_predecessor: "genesis_canary_receipt p = Inr g \<Longrightarrow> predecessor_receipt_digest g = None"
  by (simp add: genesis_canary_receipt_def make_receipt_Inr_iff)

text \<open>The ledger of an orchestrator that stopped after an ambiguous read-back.\<close>

lemma sample_restart:
  "\<exists>lg claim rec. lg_records lg = [(claim, rec)] \<and> tr_request rec = sample_canary_request
     \<and> hydrate sample_canary (sealed_state lg) = Inr (lg\<lparr>lg_hydrated := True\<rparr>)"
proof -
  from sample_ambiguous_run obtain h oc claim rec where run: "canary_run sample_orchestrator h oc"
    and lg: "lg_records (or_ledger oc) = [(claim, rec)]" "lg_chain (or_ledger oc) = [sample_genesis]"
    and oc: "oc = sample_orchestrator\<lparr>or_ledger := or_ledger oc\<rparr>"
    and rec: "tr_request rec = sample_canary_request" "tr_purpose rec = FOR_EXECUTE" "tr_state rec \<noteq> VERIFIED"
      "au_receipt_chain_head_digest (tr_authorization rec) = receipt_digest sample_genesis" by blast
  have "or_policy oc = sample_canary" by (subst oc) (simp add: sample_orchestrator_def)
  with cs.reachable_inv [OF run sample_fresh] have inv: "ledger_inv sample_canary (or_ledger oc)" by (simp add: orchestrator_inv_def)
  with lg have ok: "record_ok sample_canary [sample_genesis] rec" "claim = claim_digest (tr_authorization rec)"
    and chain: "chain_ok sample_canary [sample_genesis]" "lg_policy (or_ledger oc) = sample_canary" by (auto simp: ledger_inv_def)
  then have res: "reserved_ok sample_canary rec" and none: "tr_canary_receipt rec = None"
    using record_ok_unverified(1) [OF ok(1)] rec(3) by (simp_all add: record_ok_def)
  note genesis = genesis_no_predecessor [OF sample_genesis_built]
  have "sealable sample_canary (py_dict (map (\<lambda>r. (receipt_digest r, r)) [sample_genesis])) (receipt_digest sample_genesis) rec"
    using ok(1) rec none by (simp add: sealable_def record_ok_def sample_request_made py_dict_def)
  moreover have "require_verified_record_bijection sample_canary [sample_genesis] [(claim, rec)] = Some ()"
    using rec res by (simp add: require_verified_record_bijection_def hydrated_record_ok_def hydrated_authorization_ok_def
        reserved_ok_def cleanup_evidence_def list_all_iff subset_iff)
  ultimately have "hydrate sample_canary (sealed_state (or_ledger oc)) = Inr (or_ledger oc\<lparr>lg_hydrated := True\<rparr>)"
    using chain ok(2) sample_genesis_ok(1) genesis sample_genesis_built
    by (intro sealed_rebuilt) (simp_all add: lg sample_genesis_chain)
  with lg(1) rec(1) show ?thesis by blast
qed

theorem hydration_round_trip_witness:
  "\<exists>lg claim rec. lg_records lg = [(claim, rec)] \<and> hydrate sample_canary (sealed_state lg) = Inr lg"
proof -
  from sample_restart obtain lg claim rec where lg: "lg_records lg = [(claim, rec)]"
    "hydrate sample_canary (sealed_state lg) = Inr (lg\<lparr>lg_hydrated := True\<rparr>)" by blast
  from hydration_round_trip [OF lg(2)] lg(1) show ?thesis by (intro exI [of _ "lg\<lparr>lg_hydrated := True\<rparr>"]) auto
qed

definition sample_second_request :: canary_mutation_request where
  "sample_second_request = (case make_request GH_COMMENT ''canary/x'' [''docs/a.md'', ''docs/a.md''] of Inr q \<Rightarrow> q | Inl _ \<Rightarrow> undefined)"

lemma sample_second_made: "make_request GH_COMMENT ''canary/x'' [''docs/a.md'', ''docs/a.md''] = Inr sample_second_request"
  by (simp add: sample_second_request_def make_request_def sample_lexical construct_ok)

lemma sample_second_sel [simp]:
  "rq_operation sample_second_request = GH_COMMENT" "rq_branch sample_second_request = ''canary/x''"
  "rq_paths sample_second_request = [''docs/a.md'', ''docs/a.md'']" "is_digest (rq_request_digest sample_second_request)"
  by (simp_all add: sample_second_request_def make_request_def sample_lexical construct_ok digest_value_digest)

text \<open>The texts whose digests name a request and, under one policy and chain head, its claim.\<close>

definition canary_request_text :: "canary_mutation_request \<Rightarrow> string" where
  "canary_request_text q = json_dumps (JObj [(''operation'', JStr (github_operation_value (rq_operation q))), (''branch'', JStr (rq_branch q)),
     (''paths'', JList (map JStr (rq_paths q)))])"

definition canary_claim_text :: "string \<Rightarrow> string \<Rightarrow> string \<Rightarrow> string \<Rightarrow> string" where
  "canary_claim_text policy contract head request = json_dumps (JObj
     [(''consumption_key'', JStr (digest_value (JObj [(''policy_digest'', JStr policy), (''contract_digest'', JStr contract),
        (''receipt_chain_head_digest'', JStr head)]))), (''request_digest'', JStr request)])"

lemma canary_request_text_digest: "make_request g b ps = Inr q \<Longrightarrow> rq_request_digest q = ''sha256:'' @ sha256_hex (canary_request_text q)"
  by (auto simp: make_request_def canary_request_text_def digest_value_def hex_digest_def)

lemma canary_claim_text_digest: "make_authorization policy contract request head = Inr a \<Longrightarrow> claim_digest a = ''sha256:'' @ sha256_hex (canary_claim_text policy contract head request)"
  by (auto simp: make_authorization_def Let_def canary_claim_text_def digest_value_def hex_digest_def)

lemma canary_request_texts: "canary_request_text q = canary_request_text q' \<Longrightarrow> rq_paths q = rq_paths q'"
  unfolding canary_request_text_def by (drule dumps_fields_inj [rotated 2]) (auto simp: inj_map_eq_map inj_def)

lemma canary_claim_texts: "canary_claim_text policy contract head request = canary_claim_text policy contract head request' \<Longrightarrow> request = request'"
  unfolding canary_claim_text_def by (drule dumps_fields_inj [rotated 2]) auto

lemma sample_claims_apart:
  assumes a: "make_authorization policy contract (rq_request_digest sample_canary_request) head = Inr a"
    and b: "make_authorization policy contract (rq_request_digest sample_second_request) head = Inr b" and "claim_digest a = claim_digest b"
  shows "sha_collision (canary_claim_text policy contract head (rq_request_digest sample_canary_request)) (canary_claim_text policy contract head (rq_request_digest sample_second_request))
    \<or> sha_collision (canary_request_text sample_canary_request) (canary_request_text sample_second_request)"
proof (cases "rq_request_digest sample_canary_request = rq_request_digest sample_second_request")
  case True
  have "canary_request_text sample_canary_request \<noteq> canary_request_text sample_second_request" using canary_request_texts by force
  with True canary_request_text_digest [OF sample_request_made] canary_request_text_digest [OF sample_second_made] show ?thesis by (simp add: sha_collision_def)
next
  case False
  then have "canary_claim_text policy contract head (rq_request_digest sample_canary_request) \<noteq> canary_claim_text policy contract head (rq_request_digest sample_second_request)"
    using canary_claim_texts by blast
  with canary_claim_text_digest [OF a] canary_claim_text_digest [OF b] assms(3) show ?thesis by (simp add: sha_collision_def)
qed

lemma sample_receipts_apart:
  assumes "receipt_digest sample_first = receipt_digest sample_genesis"
  shows "receipts_collide sample_first sample_genesis"
proof -
  have ok: "receipt_ok sample_first" "predecessor_receipt_digest sample_first \<noteq> predecessor_receipt_digest sample_genesis"
    using advance_Inr [OF sample_first_advances] genesis_no_predecessor [OF sample_genesis_built] by simp_all
  with crd.digest_commits [of sample_first sample_genesis] assms sample_genesis_ok(1) show ?thesis
    by (auto simp: receipts_collide_def receipt_ok_def digest_value_def receipt_commitment_def)
qed

theorem unresolved_record_blocks_restart_witness:
  "(\<exists>history t. canary_run sample_orchestrator history t
      \<and> hydrate sample_canary (sealed_state (or_ledger t)) = Inl (CanaryExecutionError ''Canary execution ledger hydration is invalid or stale''))
   \<or> sha_collision
       (canary_claim_text (cp_policy_digest sample_canary) (cp_contract_digest sample_canary) (receipt_digest sample_genesis) (rq_request_digest sample_canary_request))
       (canary_claim_text (cp_policy_digest sample_canary) (cp_contract_digest sample_canary) (receipt_digest sample_genesis) (rq_request_digest sample_second_request))
   \<or> sha_collision (canary_request_text sample_canary_request) (canary_request_text sample_second_request)
   \<or> receipts_collide sample_first sample_genesis"
proof -
  let ?host = "sample_host APPLIED"
  from sample_ambiguous_run obtain h oc claim rec where run: "canary_run sample_orchestrator h oc"
    and lg: "lg_records (or_ledger oc) = [(claim, rec)]" "lg_chain (or_ledger oc) = [sample_genesis]"
    and oc: "oc = sample_orchestrator\<lparr>or_ledger := or_ledger oc\<rparr>"
    and rec: "tr_request rec = sample_canary_request" "tr_state rec \<noteq> VERIFIED"
      "au_receipt_chain_head_digest (tr_authorization rec) = receipt_digest sample_genesis" by blast
  have policy: "or_policy oc = sample_canary" by (subst oc) (simp add: sample_orchestrator_def)
  note inv = cs.reachable_inv [OF run sample_fresh]
  have claim: "claim = claim_digest (tr_authorization rec)" and res: "reserved_ok sample_canary rec"
    using inv lg policy by (auto simp: orchestrator_inv_def ledger_inv_def record_ok_def)
  from sample_decides [of sample_second_request "or_ledger oc"] lg(2) oc obtain d a where
    dec: "orch_decision oc sample_second_request = Inr d" "cd_authorized d" "cd_authorization d = Some a"
    and a: "make_authorization (cp_policy_digest sample_canary) (cp_contract_digest sample_canary) (rq_request_digest sample_second_request) (receipt_digest sample_genesis) = Inr a" by auto
  show ?thesis
  proof (cases "claim_digest a = claim")
    case True
    have "make_authorization (cp_policy_digest sample_canary) (cp_contract_digest sample_canary) (rq_request_digest sample_canary_request) (receipt_digest sample_genesis)
        = Inr (tr_authorization rec)" using res rec by (simp add: reserved_ok_def)
    from sample_claims_apart [OF this a True [unfolded claim, symmetric]] show ?thesis by blast
  next
    case False
    have other: "sample_canary_request \<noteq> sample_second_request"
      by (rule notI, drule arg_cong [of _ _ rq_paths]) simp
    then have new: "ledger_matching (or_ledger oc) sample_second_request FOR_EXECUTE = Inr None"
      "map_of (lg_records (or_ledger oc)) (claim_digest a) = None" using lg rec(1) False by (simp_all add: ledger_matching_def)
    from execution_completes_aux [OF inv dec new, of ?host sample_readback] sample_readback_digest
    obtain lg' es x cr rec' where ex: "execute ?host oc sample_second_request = (lg', es, Inr x)"
      and c: "lg_chain lg' = [sample_genesis, cr]" "advance_canary_receipt sample_genesis GH_COMMENT sample_readback = Inr cr"
      and rec': "map_of (lg_records lg') (claim_digest a) = Some rec'" by (auto simp: sample_host_def lg(2))
    have cr: "cr = sample_first" using c(2) sample_first_advances by (simp add: sample_readback_def)
    let ?t = "oc\<lparr>or_ledger := lg'\<rparr>"
    have step: "canary_step oc (?host, Execute sample_second_request, es, Inr x) ?t" using ex by (auto intro: canary_step.intros)
    have reach: "canary_run sample_orchestrator (h @ [(?host, Execute sample_second_request, es, Inr x)]) ?t"
      using cs.reaches_snoc [OF run step] .
    have "ledger_inv (or_policy oc) (or_ledger oc)" using inv by (simp add: orchestrator_inv_def)
    from ledger_step_settles [OF canary_step_ledger(1) [OF step inv] this] obtain r r' where
      "lg' = or_ledger oc \<or> lg' = settled (or_ledger oc) (claim_of r) r'" by auto
    with rec' new(2) False lg(1) have keep: "(claim, rec) \<in> set (lg_records lg')"
      by (auto simp: settled_def split: if_split_asm)
    show ?thesis
    proof (cases "receipt_digest sample_first = receipt_digest sample_genesis")
      case True
      then show ?thesis using sample_receipts_apart by blast
    next
      case False
      have "hydrate sample_canary (sealed_state lg') = Inl (CanaryExecutionError ''Canary execution ledger hydration is invalid or stale'')"
        by (rule unresolved_record_blocks_restart [OF keep rec(2)]) (use False rec(3) c(1) cr in simp)
      with reach show ?thesis by (intro disjI1 exI conjI) auto
    qed
  qed
qed

end
