(* ===== verification/Dependency_Review.thy ===== *)
theory Dependency_Review
  imports Json
begin

text \<open>
  \<open>dependency_review.py\<close>, data model: the binding of a review to one candidate, the affected
  subset it may speak about, source-owned relations, and the digest-only proposal a provider may
  return, with the strict parser of the provider's response. The SQLite store of attempts is not
  part of this theory.
\<close>

section \<open>Enumerations\<close>

datatype edge_kind = EXPLICIT | POLICY_DERIVED | SEMANTIC_INFERRED

fun edge_kind_value :: "edge_kind \<Rightarrow> string" where
  "edge_kind_value EXPLICIT = ''explicit''"
| "edge_kind_value POLICY_DERIVED = ''policy-derived''"
| "edge_kind_value SEMANTIC_INFERRED = ''semantic-inferred''"

datatype edge_direction = DEPENDS_ON | BLOCKS

fun edge_direction_value :: "edge_direction \<Rightarrow> string" where
  "edge_direction_value DEPENDS_ON = ''depends-on''"
| "edge_direction_value BLOCKS = ''blocks''"

datatype confidence = HIGH | MEDIUM | LOW

fun confidence_value :: "confidence \<Rightarrow> string" where
  "confidence_value HIGH = ''high''"
| "confidence_value MEDIUM = ''medium''"
| "confidence_value LOW = ''low''"

datatype requested_disposition = AUTO_ACTIVATE | OWNER_REVIEW | REJECT

fun requested_disposition_value :: "requested_disposition \<Rightarrow> string" where
  "requested_disposition_value AUTO_ACTIVATE = ''auto-activate''"
| "requested_disposition_value OWNER_REVIEW = ''owner-review''"
| "requested_disposition_value REJECT = ''reject''"

abbreviation edge_kind_of :: "string \<Rightarrow> edge_kind option" where
  "edge_kind_of \<equiv> enum_of [EXPLICIT, POLICY_DERIVED, SEMANTIC_INFERRED] edge_kind_value"

abbreviation edge_direction_of :: "string \<Rightarrow> edge_direction option" where
  "edge_direction_of \<equiv> enum_of [DEPENDS_ON, BLOCKS] edge_direction_value"

abbreviation confidence_of :: "string \<Rightarrow> confidence option" where
  "confidence_of \<equiv> enum_of [HIGH, MEDIUM, LOW] confidence_value"

abbreviation requested_disposition_of :: "string \<Rightarrow> requested_disposition option" where
  "requested_disposition_of \<equiv> enum_of [AUTO_ACTIVATE, OWNER_REVIEW, REJECT] requested_disposition_value"

lemma edge_kind_of_value [simp]: "edge_kind_of (edge_kind_value k) = Some k"
  by (cases k) (simp_all add: enum_of_def)

lemma edge_direction_of_value [simp]: "edge_direction_of (edge_direction_value d) = Some d"
  by (cases d) (simp_all add: enum_of_def)

lemma confidence_of_value [simp]: "confidence_of (confidence_value c) = Some c"
  by (cases c) (simp_all add: enum_of_def)

lemma requested_disposition_of_value [simp]: "requested_disposition_of (requested_disposition_value r) = Some r"
  by (cases r) (simp_all add: enum_of_def)

section \<open>Bindings, members and the affected subset\<close>

record dependency_review_binding =
  rb_candidate_sha :: string
  rb_policy_digest :: string
  rb_configuration_digest :: string
  rb_profile_identity :: string

definition review_binding_guards :: "dependency_review_binding \<Rightarrow> (bool \<times> py_error) list" where
  "review_binding_guards b =
     [(is_sha (rb_candidate_sha b) \<and> is_digest (rb_policy_digest b) \<and> is_digest (rb_configuration_digest b)
         \<and> is_digest (rb_profile_identity b), DependencyReviewError ''dependency review binding is invalid'')]"

record affected_member =
  member_id :: string
  member_fingerprint :: string
  member_content_digest :: string

definition affected_member_guards :: "affected_member \<Rightarrow> (bool \<times> py_error) list" where
  "affected_member_guards m =
     [(is_token (member_id m) \<and> is_digest (member_fingerprint m) \<and> is_digest (member_content_digest m),
       DependencyReviewError ''affected subset member is invalid'')]"

definition member_payload :: "affected_member \<Rightarrow> (string \<times> json) list" where
  "member_payload m =
     [(''member_id'', JStr (member_id m)), (''member_fingerprint'', JStr (member_fingerprint m)),
      (''content_digest'', JStr (member_content_digest m))]"

record affected_subset =
  as_snapshot_id :: string
  as_task_id :: string
  as_source_digest :: string
  as_candidate_sha :: string
  as_policy_digest :: string
  as_configuration_digest :: string
  as_boundary_digest :: string
  as_creation_reason :: string
  as_members :: "affected_member list"

definition affected_subset_guards :: "affected_subset \<Rightarrow> (bool \<times> py_error) list" where
  "affected_subset_guards s =
     [(is_token (as_snapshot_id s) \<and> is_token (as_task_id s) \<and> is_fingerprint (as_source_digest s)
         \<and> is_sha (as_candidate_sha s) \<and> is_digest (as_policy_digest s) \<and> is_digest (as_configuration_digest s)
         \<and> is_digest (as_boundary_digest s) \<and> is_reason (as_creation_reason s) \<and> as_members s \<noteq> [],
       DependencyReviewError ''affected subset is invalid''),
      (\<not> has_duplicates (map member_id (as_members s)) \<and> \<not> has_duplicates (map member_fingerprint (as_members s)),
       DependencyReviewError ''affected subset members are ambiguous'')]"

text \<open>The constructor checks its arguments and then stores the members by identity.\<close>

definition make_affected_subset :: "affected_subset \<Rightarrow> affected_subset result" where
  "make_affected_subset s =
     construct (affected_subset_guards s) (s\<lparr>as_members := sort_key member_id (as_members s)\<rparr>)"

definition subset_payload :: "affected_subset \<Rightarrow> (string \<times> json) list" where
  "subset_payload s =
     [(''schema'', JStr ''roundwright-dependency-review-subset/v1''),
      (''snapshot_id'', JStr (as_snapshot_id s)), (''task_id'', JStr (as_task_id s)),
      (''source_digest'', JStr (as_source_digest s)), (''candidate_sha'', JStr (as_candidate_sha s)),
      (''policy_digest'', JStr (as_policy_digest s)), (''configuration_digest'', JStr (as_configuration_digest s)),
      (''boundary_digest'', JStr (as_boundary_digest s)), (''creation_reason'', JStr (as_creation_reason s)),
      (''members'', JList (map (JObj \<circ> member_payload) (as_members s)))]"

definition subset_content_digest :: "affected_subset \<Rightarrow> string" where
  "subset_content_digest s = digest_value (JObj (subset_payload s))"

definition review_require_subset :: "dependency_review_binding \<Rightarrow> affected_subset \<Rightarrow> unit result" where
  "review_require_subset b s =
     construct [((as_candidate_sha s, as_policy_digest s, as_configuration_digest s)
         = (rb_candidate_sha b, rb_policy_digest b, rb_configuration_digest b),
       DependencyReviewError ''dependency review binding has drifted'')] ()"

section \<open>Relations and proposals\<close>

record source_owned_relation =
  so_kind :: edge_kind
  so_direction :: edge_direction
  so_subject :: string
  so_object :: string
  so_rationale_digest :: string
  so_confidence :: confidence
  so_conflicts_digest :: string

definition source_relation_guards :: "source_owned_relation \<Rightarrow> (bool \<times> py_error) list" where
  "source_relation_guards r =
     [(so_kind r \<in> {EXPLICIT, POLICY_DERIVED} \<and> is_token (so_subject r) \<and> is_token (so_object r)
         \<and> so_subject r \<noteq> so_object r \<and> is_digest (so_rationale_digest r) \<and> is_digest (so_conflicts_digest r),
       DependencyReviewError ''source-owned relation is invalid'')]"

definition relation_payload :: "source_owned_relation \<Rightarrow> (string \<times> json) list" where
  "relation_payload r =
     [(''kind'', JStr (edge_kind_value (so_kind r))), (''direction'', JStr (edge_direction_value (so_direction r))),
      (''subject_member_id'', JStr (so_subject r)), (''object_member_id'', JStr (so_object r)),
      (''rationale_digest'', JStr (so_rationale_digest r)), (''confidence'', JStr (confidence_value (so_confidence r))),
      (''conflicts_digest'', JStr (so_conflicts_digest r))]"

definition relation_digest :: "source_owned_relation \<Rightarrow> string" where
  "relation_digest r =
     digest_value (JObj ((''schema'', JStr ''roundwright-source-owned-relation/v1'') # relation_payload r))"

record proposed_edge =
  pe_kind :: edge_kind
  pe_direction :: edge_direction
  pe_subject :: string
  pe_object :: string
  pe_rationale_digest :: string
  pe_confidence :: confidence
  pe_conflicts_digest :: string
  pe_trusted_relation_digest :: "string option"

definition proposed_edge_guards :: "proposed_edge \<Rightarrow> (bool \<times> py_error) list" where
  "proposed_edge_guards e =
     [(is_token (pe_subject e) \<and> is_token (pe_object e) \<and> pe_subject e \<noteq> pe_object e
         \<and> is_digest (pe_rationale_digest e) \<and> is_digest (pe_conflicts_digest e)
         \<and> (pe_trusted_relation_digest e = None \<or> present is_digest (pe_trusted_relation_digest e))
         \<and> \<not> (pe_kind e = SEMANTIC_INFERRED \<and> pe_trusted_relation_digest e \<noteq> None),
       DependencyReviewError ''dependency proposal edge is invalid'')]"

definition edge_payload :: "proposed_edge \<Rightarrow> (string \<times> json) list" where
  "edge_payload e =
     [(''kind'', JStr (edge_kind_value (pe_kind e))), (''direction'', JStr (edge_direction_value (pe_direction e))),
      (''subject_member_id'', JStr (pe_subject e)), (''object_member_id'', JStr (pe_object e)),
      (''rationale_digest'', JStr (pe_rationale_digest e)), (''confidence'', JStr (confidence_value (pe_confidence e))),
      (''conflicts_digest'', JStr (pe_conflicts_digest e)),
      (''trusted_relation_digest'', json_opt (pe_trusted_relation_digest e))]"

record dependency_proposal =
  dp_proposal_id :: string
  dp_attempt_id :: string
  dp_disposition :: requested_disposition
  dp_owner_route :: string
  dp_edges :: "proposed_edge list"

definition proposal_semantic :: "dependency_proposal \<Rightarrow> bool" where
  "proposal_semantic p \<longleftrightarrow> list_ex (\<lambda>e. pe_kind e = SEMANTIC_INFERRED) (dp_edges p)"

definition proposal_guards :: "dependency_proposal \<Rightarrow> (bool \<times> py_error) list" where
  "proposal_guards p =
     [(is_token (dp_proposal_id p) \<and> is_token (dp_attempt_id p) \<and> is_reason (dp_owner_route p) \<and> dp_edges p \<noteq> [],
       DependencyReviewError ''dependency proposal is invalid''),
      (\<not> has_duplicates (map (\<lambda>e. (pe_kind e, pe_direction e, pe_subject e, pe_object e)) (dp_edges p)),
       DependencyReviewError ''dependency proposal contains duplicate edges''),
      (\<not> (proposal_semantic p \<and> (dp_disposition p \<noteq> OWNER_REVIEW \<or> dp_owner_route p \<noteq> ''owner-review'')),
       DependencyReviewError ''semantic inferred edge requires owner routing''),
      (\<not> (\<not> proposal_semantic p \<and> dp_disposition p = OWNER_REVIEW \<and> dp_owner_route p \<noteq> ''owner-review''),
       DependencyReviewError ''owner review proposal has no owner route'')]"

definition proposal_payload :: "dependency_proposal \<Rightarrow> (string \<times> json) list" where
  "proposal_payload p =
     [(''schema'', JStr ''roundwright-dependency-review-proposal/v2''),
      (''proposal_id'', JStr (dp_proposal_id p)), (''attempt_id'', JStr (dp_attempt_id p)),
      (''requested_disposition'', JStr (requested_disposition_value (dp_disposition p))),
      (''owner_route'', JStr (dp_owner_route p)),
      (''edges'', JList (map (JObj \<circ> edge_payload) (dp_edges p)))]"

definition proposal_digest :: "dependency_proposal \<Rightarrow> string" where
  "proposal_digest p = digest_value (JObj (proposal_payload p))"

section \<open>Reading a provider's response\<close>

definition edge_keys :: "string list" where
  "edge_keys = [''kind'', ''direction'', ''subject_member_id'', ''object_member_id'', ''rationale_digest'',
     ''confidence'', ''conflicts_digest'', ''trusted_relation_digest'']"

definition proposal_keys :: "string list" where
  "proposal_keys = [''schema'', ''proposal_id'', ''attempt_id'', ''requested_disposition'', ''owner_route'', ''edges'']"

definition parse_edge :: "json \<Rightarrow> proposed_edge option" where
  "parse_edge v =
     Option.bind (as_obj (Some v)) (\<lambda>kvs0. Option.bind (has_keys edge_keys kvs0) (\<lambda>kvs.
     Option.bind (Option.bind (as_str (map_of kvs ''kind'')) edge_kind_of) (\<lambda>kind.
     Option.bind (Option.bind (as_str (map_of kvs ''direction'')) edge_direction_of) (\<lambda>direction.
     Option.bind (as_str (map_of kvs ''subject_member_id'')) (\<lambda>subj.
     Option.bind (as_str (map_of kvs ''object_member_id'')) (\<lambda>obj.
     Option.bind (as_str (map_of kvs ''rationale_digest'')) (\<lambda>rationale.
     Option.bind (Option.bind (as_str (map_of kvs ''confidence'')) confidence_of) (\<lambda>conf.
     Option.bind (as_str (map_of kvs ''conflicts_digest'')) (\<lambda>conflicts.
     Option.bind (as_str_or_null (map_of kvs ''trusted_relation_digest'')) (\<lambda>trusted.
     let e = \<lparr>pe_kind = kind, pe_direction = direction, pe_subject = subj, pe_object = obj,
       pe_rationale_digest = rationale, pe_confidence = conf, pe_conflicts_digest = conflicts,
       pe_trusted_relation_digest = trusted\<rparr>
     in guarded (proposed_edge_guards e) e))))))))))"

text \<open>
  \<open>proposal.payload() != material\<close> compares dictionaries, so the order of keys does not matter;
  values are strings, null, lists and dictionaries only.
\<close>

definition parse_fields :: "(string \<times> json) list \<Rightarrow> dependency_proposal option" where
  "parse_fields kvs =
     (if map_of kvs ''schema'' \<noteq> Some (JStr ''roundwright-dependency-review-proposal/v2'') then None else
     Option.bind (as_list (map_of kvs ''edges'')) (\<lambda>items.
     Option.bind (collect parse_edge items) (\<lambda>edges.
     Option.bind (as_str (map_of kvs ''proposal_id'')) (\<lambda>pid.
     Option.bind (as_str (map_of kvs ''attempt_id'')) (\<lambda>attempt.
     Option.bind (Option.bind (as_str (map_of kvs ''requested_disposition'')) requested_disposition_of) (\<lambda>disposition.
     Option.bind (as_str (map_of kvs ''owner_route'')) (\<lambda>route.
     let p = \<lparr>dp_proposal_id = pid, dp_attempt_id = attempt, dp_disposition = disposition,
       dp_owner_route = route, dp_edges = edges\<rparr>
     in Option.bind (guarded (proposal_guards p) p) (\<lambda>p.
        if canon (JObj (proposal_payload p)) \<noteq> canon (JObj kvs) then None else Some p))))))))"

definition parse_proposal :: "json \<Rightarrow> dependency_proposal result" where
  "parse_proposal material =
     (case Option.bind (as_obj (Some material)) (\<lambda>kvs. Option.bind (has_keys proposal_keys kvs) parse_fields) of
        Some p \<Rightarrow> Inr p
      | None \<Rightarrow> Inl (DependencyReviewError ''dependency proposal response is malformed''))"

section \<open>Well-formed values\<close>

definition affected_member_ok :: "affected_member \<Rightarrow> bool" where
  "affected_member_ok m \<longleftrightarrow> list_all fst (affected_member_guards m)"

definition affected_subset_ok :: "affected_subset \<Rightarrow> bool" where
  "affected_subset_ok s \<longleftrightarrow> list_all fst (affected_subset_guards s) \<and> list_all affected_member_ok (as_members s)
     \<and> sorted (map member_id (as_members s))"

definition proposal_ok :: "dependency_proposal \<Rightarrow> bool" where
  "proposal_ok p \<longleftrightarrow> list_all fst (proposal_guards p) \<and> list_all (\<lambda>e. list_all fst (proposed_edge_guards e)) (dp_edges p)"

lemma parse_edge_ok: "parse_edge v = Some e \<Longrightarrow> list_all fst (proposed_edge_guards e)"
  by (auto simp: parse_edge_def bind_eq_Some_conv Let_def dest!: guarded_SomeD)

lemma parse_edge_payload:
  assumes "list_all fst (proposed_edge_guards e)"
  shows "parse_edge (JObj (edge_payload e)) = Some e"
proof -
  have "has_keys edge_keys (edge_payload e) = Some (edge_payload e)"
    by (simp add: has_keys_def edge_keys_def edge_payload_def)
  with assms show ?thesis
    by (cases e) (simp add: parse_edge_def edge_payload_def Let_def)
qed

lemma parse_fieldsD:
  assumes "parse_fields kvs = Some p"
  shows "proposal_ok p \<and> canon (JObj kvs) = canon (JObj (proposal_payload p))"
  using assms unfolding parse_fields_def
  by (auto simp: bind_eq_Some_conv Let_def proposal_ok_def split: if_splits dest!: guarded_SomeD
      elim: collect_all [OF _ parse_edge_ok] simp del: canon.simps)

lemma parse_fields_payload:
  assumes "proposal_ok p"
  shows "parse_fields (proposal_payload p) = Some p"
proof -
  have "collect parse_edge (map (JObj \<circ> edge_payload) (dp_edges p)) = Some (map id (dp_edges p))"
    by (rule collect_map) (use assms in \<open>auto simp: proposal_ok_def list_all_iff intro: parse_edge_payload\<close>)
  with assms show ?thesis
    by (cases p) (simp add: parse_fields_def proposal_payload_def proposal_ok_def Let_def del: canon.simps)
qed

text \<open>
  The provider response parser inverts the payload: a well-formed
  proposal is recovered from its own payload, and whatever the parser accepts is a well-formed
  proposal whose payload is the material that was read, up to the order of object keys.
\<close>

lemma proposal_round_trip:
  "(proposal_ok p \<longrightarrow> parse_proposal (JObj (proposal_payload p)) = Inr p)
   \<and> (parse_proposal material = Inr q \<longrightarrow> proposal_ok q \<and> canon material = canon (JObj (proposal_payload q)))"
proof -
  have "has_keys proposal_keys (proposal_payload p) = Some (proposal_payload p)"
    by (simp add: has_keys_def proposal_keys_def proposal_payload_def)
  then have "proposal_ok p \<longrightarrow> parse_proposal (JObj (proposal_payload p)) = Inr p"
    by (simp add: parse_proposal_def parse_fields_payload)
  moreover have "proposal_ok q \<and> canon material = canon (JObj (proposal_payload q))" if "parse_proposal material = Inr q"
    using that by (cases material)
      (auto simp: parse_proposal_def has_keys_def split: option.splits if_splits dest!: parse_fieldsD simp del: canon.simps)
  ultimately show ?thesis by blast
qed

end
