(* ===== verification/Dependency_Graph.thy ===== *)
theory Dependency_Graph
  imports Dependency_Review
begin

text \<open>
  \<open>dependency_graph.py\<close>: deterministic validation of one proposal against the active graph, the
  depth-first cycle test, the successor snapshot, and the rows of a graph version in the SQLite
  tables. Python's recursion limit is not modelled.
\<close>

section \<open>Data\<close>

text \<open>The text of \<open>VALIDATOR_DIGEST\<close> is a digest of a constant; only its form is ever used.\<close>

definition VALIDATOR_DIGEST :: string where
  "VALIDATOR_DIGEST = ''sha256:'' @ sha256_hex ''roundwright-dependency-graph-validator/v1''"

datatype graph_decision = ACCEPTED | PENDING_OWNER | REJECTED

fun graph_decision_value :: "graph_decision \<Rightarrow> string" where
  "graph_decision_value ACCEPTED = ''accepted''"
| "graph_decision_value PENDING_OWNER = ''pending-owner''"
| "graph_decision_value REJECTED = ''rejected''"

record dependency_graph_binding =
  gb_candidate_sha :: string
  gb_policy_digest :: string
  gb_configuration_digest :: string
  gb_validator_digest :: string

definition graph_binding_guards :: "dependency_graph_binding \<Rightarrow> (bool \<times> py_error) list" where
  "graph_binding_guards b =
     [(is_sha (gb_candidate_sha b) \<and> is_digest (gb_policy_digest b) \<and> is_digest (gb_configuration_digest b)
         \<and> is_digest (gb_validator_digest b), DependencyGraphError ''dependency graph binding is invalid'')]"

definition from_review_binding :: "dependency_review_binding \<Rightarrow> string \<Rightarrow> dependency_graph_binding result" where
  "from_review_binding rb validator =
     (let b = \<lparr>gb_candidate_sha = rb_candidate_sha rb, gb_policy_digest = rb_policy_digest rb,
        gb_configuration_digest = rb_configuration_digest rb, gb_validator_digest = validator\<rparr>
      in construct (graph_binding_guards b) b)"

definition graph_require_subset :: "dependency_graph_binding \<Rightarrow> affected_subset \<Rightarrow> unit result" where
  "graph_require_subset b s =
     construct [((as_candidate_sha s, as_policy_digest s, as_configuration_digest s)
         = (gb_candidate_sha b, gb_policy_digest b, gb_configuration_digest b),
       DependencyGraphError ''dependency graph binding has drifted'')] ()"

record trusted_edge_provenance =
  tp_kind :: edge_kind
  tp_direction :: edge_direction
  tp_subject :: string
  tp_object :: string
  tp_rationale_digest :: string
  tp_confidence :: string
  tp_conflicts_digest :: string
  tp_candidate_sha :: string
  tp_policy_digest :: string
  tp_configuration_digest :: string
  tp_source_digest :: string
  tp_subject_fingerprint :: string
  tp_object_fingerprint :: string
  tp_provenance_digest :: string

definition provenance_payload :: "trusted_edge_provenance \<Rightarrow> (string \<times> json) list" where
  "provenance_payload t =
     [(''kind'', JStr (edge_kind_value (tp_kind t))), (''direction'', JStr (edge_direction_value (tp_direction t))),
      (''subject_member_id'', JStr (tp_subject t)), (''object_member_id'', JStr (tp_object t)),
      (''rationale_digest'', JStr (tp_rationale_digest t)), (''confidence'', JStr (tp_confidence t)),
      (''conflicts_digest'', JStr (tp_conflicts_digest t)), (''candidate_sha'', JStr (tp_candidate_sha t)),
      (''policy_digest'', JStr (tp_policy_digest t)), (''configuration_digest'', JStr (tp_configuration_digest t)),
      (''source_digest'', JStr (tp_source_digest t)), (''subject_member_fingerprint'', JStr (tp_subject_fingerprint t)),
      (''object_member_fingerprint'', JStr (tp_object_fingerprint t))]"

definition provenance_guards :: "trusted_edge_provenance \<Rightarrow> (bool \<times> py_error) list" where
  "provenance_guards t =
     [(tp_kind t \<in> {EXPLICIT, POLICY_DERIVED} \<and> is_token (tp_subject t) \<and> is_token (tp_object t)
         \<and> is_digest (tp_rationale_digest t) \<and> tp_confidence t \<in> {''high'', ''medium'', ''low''}
         \<and> is_digest (tp_conflicts_digest t) \<and> is_sha (tp_candidate_sha t)
         \<and> is_digest (tp_policy_digest t) \<and> is_digest (tp_configuration_digest t)
         \<and> (is_fingerprint (tp_source_digest t) \<or> is_digest (tp_source_digest t))
         \<and> is_digest (tp_subject_fingerprint t) \<and> is_digest (tp_object_fingerprint t)
         \<and> is_digest (tp_provenance_digest t)
         \<and> tp_provenance_digest t = digest_value (JObj (provenance_payload t)),
       DependencyGraphError ''trusted edge provenance is invalid'')]"

text \<open>\<open>{member.member_id: member for member in subset.members}[key]\<close>.\<close>

definition member_lookup :: "affected_subset \<Rightarrow> string \<Rightarrow> affected_member option" where
  "member_lookup s k = map_of (py_dict (map (\<lambda>m. (member_id m, m)) (as_members s))) k"

text \<open>Seal a relation to the two members it names; the digest is taken of all other fields.\<close>

definition seal_provenance :: "trusted_edge_provenance \<Rightarrow> trusted_edge_provenance result" where
  "seal_provenance t =
     (let t' = t\<lparr>tp_provenance_digest := digest_value (JObj (provenance_payload t))\<rparr>
      in construct (provenance_guards t') t')"

definition from_explicit_source ::
  "affected_subset \<Rightarrow> dependency_graph_binding \<Rightarrow> edge_kind \<Rightarrow> edge_direction \<Rightarrow> string \<Rightarrow> string
    \<Rightarrow> string \<Rightarrow> string \<Rightarrow> string \<Rightarrow> trusted_edge_provenance result" where
  "from_explicit_source s b kind direction subj obj rationale conf conflicts =
     (if kind \<noteq> EXPLICIT then Inl (DependencyGraphError ''trusted edge provenance is invalid'')
      else case (member_lookup s subj, member_lookup s obj) of
        (Some sm, Some om) \<Rightarrow> seal_provenance
          \<lparr>tp_kind = kind, tp_direction = direction, tp_subject = subj, tp_object = obj,
           tp_rationale_digest = rationale, tp_confidence = conf, tp_conflicts_digest = conflicts,
           tp_candidate_sha = gb_candidate_sha b, tp_policy_digest = gb_policy_digest b,
           tp_configuration_digest = gb_configuration_digest b, tp_source_digest = as_source_digest s,
           tp_subject_fingerprint = member_fingerprint sm, tp_object_fingerprint = member_fingerprint om,
           tp_provenance_digest = []\<rparr>
      | _ \<Rightarrow> Inl (DependencyGraphError ''trusted edge provenance is invalid''))"

definition from_deterministic_policy ::
  "affected_subset \<Rightarrow> dependency_graph_binding \<Rightarrow> edge_direction \<Rightarrow> string \<Rightarrow> string
    \<Rightarrow> string \<Rightarrow> string \<Rightarrow> string \<Rightarrow> trusted_edge_provenance result" where
  "from_deterministic_policy s b direction subj obj rationale conf conflicts =
     (case (member_lookup s subj, member_lookup s obj) of
        (Some sm, Some om) \<Rightarrow> seal_provenance
          \<lparr>tp_kind = POLICY_DERIVED, tp_direction = direction, tp_subject = subj, tp_object = obj,
           tp_rationale_digest = rationale, tp_confidence = conf, tp_conflicts_digest = conflicts,
           tp_candidate_sha = gb_candidate_sha b, tp_policy_digest = gb_policy_digest b,
           tp_configuration_digest = gb_configuration_digest b, tp_source_digest = gb_policy_digest b,
           tp_subject_fingerprint = member_fingerprint sm, tp_object_fingerprint = member_fingerprint om,
           tp_provenance_digest = []\<rparr>
      | _ \<Rightarrow> Inl (DependencyGraphError ''trusted edge provenance is invalid''))"

record graph_edge =
  ge_subject :: string
  ge_object :: string
  ge_kind :: edge_kind
  ge_proposal_id :: string
  ge_provenance_digest :: string

definition graph_edge_guards :: "graph_edge \<Rightarrow> (bool \<times> py_error) list" where
  "graph_edge_guards e =
     [(is_token (ge_subject e) \<and> is_token (ge_object e) \<and> ge_subject e \<noteq> ge_object e
         \<and> ge_kind e \<in> {EXPLICIT, POLICY_DERIVED} \<and> is_token (ge_proposal_id e) \<and> is_digest (ge_provenance_digest e),
       DependencyGraphError ''dependency graph edge is invalid'')]"

definition make_edge :: "string \<Rightarrow> string \<Rightarrow> edge_kind \<Rightarrow> string \<Rightarrow> string \<Rightarrow> graph_edge result" where
  "make_edge subj obj kind pid prov =
     (let e = \<lparr>ge_subject = subj, ge_object = obj, ge_kind = kind, ge_proposal_id = pid, ge_provenance_digest = prov\<rparr>
      in construct (graph_edge_guards e) e)"

definition graph_edge_payload :: "graph_edge \<Rightarrow> (string \<times> json) list" where
  "graph_edge_payload e =
     [(''subject_member_id'', JStr (ge_subject e)), (''object_member_id'', JStr (ge_object e)),
      (''kind'', JStr (edge_kind_value (ge_kind e))), (''proposal_id'', JStr (ge_proposal_id e)),
      (''provenance_digest'', JStr (ge_provenance_digest e))]"

record graph_member =
  gm_task_id :: string
  gm_snapshot_id :: string
  gm_member :: affected_member

abbreviation gm_id :: "graph_member \<Rightarrow> string" where
  "gm_id m \<equiv> member_id (gm_member m)"

definition graph_member_guards :: "graph_member \<Rightarrow> (bool \<times> py_error) list" where
  "graph_member_guards m =
     [(is_token (gm_task_id m) \<and> is_token (gm_snapshot_id m), DependencyGraphError ''dependency graph member is invalid'')]"

definition make_graph_member :: "string \<Rightarrow> string \<Rightarrow> affected_member \<Rightarrow> graph_member result" where
  "make_graph_member task snapshot m =
     (let g = \<lparr>gm_task_id = task, gm_snapshot_id = snapshot, gm_member = m\<rparr> in construct (graph_member_guards g) g)"

definition graph_member_payload :: "graph_member \<Rightarrow> (string \<times> json) list" where
  "graph_member_payload m =
     [(''task_id'', JStr (gm_task_id m)), (''snapshot_id'', JStr (gm_snapshot_id m))] @ member_payload (gm_member m)"

record graph_snapshot =
  gs_version_id :: "string option"
  gs_binding :: "dependency_graph_binding option"
  gs_members :: "graph_member list"
  gs_edges :: "graph_edge list"
  gs_proposal_ids :: "string list"

definition graph_snapshot_guards :: "graph_snapshot \<Rightarrow> (bool \<times> py_error) list" where
  "graph_snapshot_guards g =
     [(gs_version_id g = None \<or> present is_token (gs_version_id g), DependencyGraphError ''dependency graph snapshot is invalid''),
      (gs_version_id g = None \<longleftrightarrow> gs_binding g = None, DependencyGraphError ''dependency graph snapshot is invalid''),
      (\<not> has_duplicates (map gm_id (gs_members g)) \<and> \<not> has_duplicates (gs_proposal_ids g),
       DependencyGraphError ''dependency graph snapshot is invalid'')]"

definition make_snapshot ::
  "string option \<Rightarrow> dependency_graph_binding option \<Rightarrow> graph_member list \<Rightarrow> graph_edge list \<Rightarrow> string list
    \<Rightarrow> graph_snapshot result" where
  "make_snapshot version b members edges pids =
     (let g = \<lparr>gs_version_id = version, gs_binding = b, gs_members = members, gs_edges = edges, gs_proposal_ids = pids\<rparr>
      in construct (graph_snapshot_guards g) g)"

definition empty_snapshot :: graph_snapshot where
  "empty_snapshot = \<lparr>gs_version_id = None, gs_binding = None, gs_members = [], gs_edges = [], gs_proposal_ids = []\<rparr>"

definition graph_digest :: "graph_snapshot \<Rightarrow> string" where
  "graph_digest g = digest_value (JObj
     [(''members'', JList (map (JObj \<circ> graph_member_payload) (sort_key gm_id (gs_members g)))),
      (''edges'', JList (map (JObj \<circ> graph_edge_payload)
         (sort_key (\<lambda>e. (ge_subject e, ge_object e, edge_kind_value (ge_kind e), ge_proposal_id e)) (gs_edges g))))])"

definition proposal_set_digest :: "graph_snapshot \<Rightarrow> string" where
  "proposal_set_digest g = digest_value (JObj [(''proposal_ids'', JList (map JStr (sort (gs_proposal_ids g))))])"

record graph_validation =
  gv_decision :: graph_decision
  gv_reason_code :: string
  gv_edges :: "graph_edge list"

definition graph_validation_guards :: "graph_validation \<Rightarrow> (bool \<times> py_error) list" where
  "graph_validation_guards v =
     [(is_reason (gv_reason_code v), DependencyGraphError ''dependency graph decision is invalid''),
      (\<not> (gv_decision v \<noteq> ACCEPTED \<and> gv_edges v \<noteq> []),
       DependencyGraphError ''non-accepted graph decision cannot contain edges'')]"

definition make_validation :: "graph_decision \<Rightarrow> string \<Rightarrow> graph_edge list \<Rightarrow> graph_validation result" where
  "make_validation d reason edges =
     (let v = \<lparr>gv_decision = d, gv_reason_code = reason, gv_edges = edges\<rparr>
      in construct (graph_validation_guards v) v)"

definition validation_digest ::
  "graph_validation \<Rightarrow> dependency_proposal \<Rightarrow> affected_subset \<Rightarrow> dependency_graph_binding \<Rightarrow> string" where
  "validation_digest v p s b = digest_value (JObj
     [(''proposal_digest'', JStr (proposal_digest p)), (''subset_digest'', JStr (subset_content_digest s)),
      (''validator_digest'', JStr (gb_validator_digest b)), (''policy_digest'', JStr (gb_policy_digest b)),
      (''candidate_sha'', JStr (gb_candidate_sha b)), (''configuration_digest'', JStr (gb_configuration_digest b)),
      (''decision'', JStr (graph_decision_value (gv_decision v))), (''reason_code'', JStr (gv_reason_code v)),
      (''edges'', JList (map (JObj \<circ> graph_edge_payload) (gv_edges v)))])"

definition decision_digest ::
  "graph_validation \<Rightarrow> dependency_proposal \<Rightarrow> affected_subset \<Rightarrow> dependency_graph_binding
    \<Rightarrow> string option \<Rightarrow> string option \<Rightarrow> string option \<Rightarrow> string" where
  "decision_digest v p s b version predecessor digest = digest_value (JObj
     [(''validation'', JStr (validation_digest v p s b)), (''graph_version_id'', json_opt version),
      (''predecessor_graph_version_id'', json_opt predecessor), (''graph_digest'', json_opt digest)])"

section \<open>The cycle test\<close>

text \<open>
  The adjacency dictionary, in insertion order, and the depth-first search over it. The nested
  function \<open>visit\<close> and the generator \<open>any(visit(n) for n in ...)\<close> that calls it become one recursion
  on the nodes still to be tried: it stops at the first cycle and returns the nodes finished so
  far. The nodes on the current path and the finished nodes are sets, as in the code; a node
  without an entry is a \<open>KeyError\<close>.
\<close>

type_synonym adjacency = "(string \<times> string list) list"

definition setdefault :: "string \<Rightarrow> adjacency \<Rightarrow> adjacency" where
  "setdefault k adj = (case map_of adj k of None \<Rightarrow> adj @ [(k, [])] | Some _ \<Rightarrow> adj)"

definition add_successor :: "string \<Rightarrow> string \<Rightarrow> adjacency \<Rightarrow> adjacency" where
  "add_successor k v adj = map (\<lambda>(x, vs). if x = k then (x, List.insert v vs) else (x, vs)) adj"

definition add_edge :: "adjacency \<Rightarrow> graph_edge \<Rightarrow> adjacency" where
  "add_edge adj e =
     setdefault (ge_object e) (add_successor (ge_subject e) (ge_object e) (setdefault (ge_subject e) adj))"

definition adjacency_of :: "graph_edge list \<Rightarrow> adjacency" where
  "adjacency_of edges = foldl add_edge [] edges"

function visit_any :: "adjacency \<Rightarrow> string set \<Rightarrow> string set \<Rightarrow> string list \<Rightarrow> (bool \<times> string set) result" where
  "visit_any adj visiting visited [] = Inr (False, visited)"
| "visit_any adj visiting visited (node # rest) =
     (if node \<in> visiting then Inr (True, visited)
      else if node \<in> visited then visit_any adj visiting visited rest
      else case map_of adj node of
        None \<Rightarrow> Inl (PyKeyError node)
      | Some successors \<Rightarrow>
          (case visit_any adj (insert node visiting) visited successors of
             Inl e \<Rightarrow> Inl e
           | Inr (found, visited') \<Rightarrow>
               if found then Inr (True, insert node visited')
               else visit_any adj visiting (insert node visited') rest))"
  by pat_completeness auto

lemma visit_any_grows:
  "visit_any_dom (adj, visiting, visited, nodes) \<Longrightarrow>
   visit_any adj visiting visited nodes = Inr (found, visited') \<Longrightarrow> visited \<subseteq> visited'"
proof (induction arbitrary: found visited' rule: visit_any.pinduct)
  case (1 adj visiting visited)
  then show ?case by (simp add: visit_any.psimps)
next
  case (2 adj visiting visited node rest)
  show ?case
  proof (cases "node \<in> visiting \<or> node \<in> visited")
    case True
    with 2 show ?thesis by (auto simp: visit_any.psimps split: if_splits)
  next
    case False
    with 2 obtain successors where s: "map_of adj node = Some successors"
      by (auto simp: visit_any.psimps split: option.splits)
    with 2 False obtain f1 v1 where f: "visit_any adj (insert node visiting) visited successors = Inr (f1, v1)"
      by (auto simp: visit_any.psimps split: sum.splits)
    have "visited \<subseteq> v1" using 2(3) [OF _ _ s f] False by blast
    moreover have "insert node v1 \<subseteq> visited'"
    proof (cases f1)
      case True
      with 2(1,5) s f False show ?thesis by (auto simp: visit_any.psimps)
    next
      case f1: False
      then have "visit_any adj visiting (insert node v1) rest = Inr (found, visited')"
        using 2(1,5) s f False by (simp add: visit_any.psimps)
      from 2(4) [OF _ _ s f _ _ this] False f1 show ?thesis by blast
    qed
    ultimately show ?thesis by blast
  qed
qed

termination visit_any
proof (relation "measures [\<lambda>(adj, visiting, visited, nodes). card (fst ` set adj - visiting - visited),
    \<lambda>(adj, visiting, visited, nodes). length nodes]")
  fix adj :: adjacency and visiting visited node rest successors
  assume a: "node \<notin> visiting" "node \<notin> visited" "map_of adj node = Some successors"
  then have n: "node \<in> fst ` set adj - visiting - visited" by (force dest: map_of_SomeD)
  show "((adj, insert node visiting, visited, successors), (adj, visiting, visited, node # rest))
      \<in> measures [\<lambda>(adj, visiting, visited, nodes). card (fst ` set adj - visiting - visited),
          \<lambda>(adj, visiting, visited, nodes). length nodes]"
    using n by (auto intro!: psubset_card_mono)
  fix x p found visited'
  assume d: "visit_any_dom (adj, insert node visiting, visited, successors)"
    and f: "visit_any adj (insert node visiting) visited successors = Inr x" "(found, visited') = x"
  from visit_any_grows [OF d] f have "visited \<subseteq> visited'" by blast
  with n show "((adj, visiting, insert node visited', rest), (adj, visiting, visited, node # rest))
      \<in> measures [\<lambda>(adj, visiting, visited, nodes). card (fst ` set adj - visiting - visited),
          \<lambda>(adj, visiting, visited, nodes). length nodes]"
    by (auto intro!: psubset_card_mono)
qed auto

definition search_cycle :: "adjacency \<Rightarrow> bool result" where
  "search_cycle adj = bind_result (visit_any adj {} {} (map fst adj)) (\<lambda>(found, visited). Inr found)"

definition has_cycle :: "graph_edge list \<Rightarrow> bool result" where
  "has_cycle edges = search_cycle (adjacency_of edges)"

section \<open>Validation of one proposal\<close>

text \<open>
  A replacement snapshot drops the members of the task that is being replaced and every edge that
  touches one of them; a graph of another binding is not carried over at all.
\<close>

definition replaced_ids :: "graph_member list \<Rightarrow> affected_subset \<Rightarrow> string set" where
  "replaced_ids members s = set (map gm_id (filter (\<lambda>m. gm_task_id m = as_task_id s) members))"

definition replacement_baseline ::
  "graph_snapshot \<Rightarrow> affected_subset \<Rightarrow> dependency_graph_binding \<Rightarrow> graph_snapshot result" where
  "replacement_baseline active s b =
     (if gs_binding active \<noteq> Some b then make_snapshot None None [] [] []
      else let replaced = replaced_ids (gs_members active) s;
               members = filter (\<lambda>m. gm_id m \<notin> replaced) (gs_members active);
               edges = filter (\<lambda>e. ge_subject e \<notin> replaced \<and> ge_object e \<notin> replaced) (gs_edges active);
               retained = sort (remdups (map ge_proposal_id edges))
           in make_snapshot None None members edges retained)"

definition canonical_pair :: "proposed_edge \<Rightarrow> string \<times> string" where
  "canonical_pair e = (case pe_direction e of
     DEPENDS_ON \<Rightarrow> (pe_subject e, pe_object e) | BLOCKS \<Rightarrow> (pe_object e, pe_subject e))"

definition edge_pair :: "graph_edge \<Rightarrow> string \<times> string" where
  "edge_pair e = (ge_subject e, ge_object e)"

definition structural_edge :: "dependency_proposal \<Rightarrow> proposed_edge \<Rightarrow> graph_edge result" where
  "structural_edge p e =
     make_edge (fst (canonical_pair e)) (snd (canonical_pair e))
       (if pe_kind e \<in> {EXPLICIT, POLICY_DERIVED} then pe_kind e else EXPLICIT)
       (dp_proposal_id p) (''sha256:'' @ replicate 64 CHR ''0'')"

text \<open>The trusted relations under their digests; a later one of the same digest replaces the earlier.\<close>

definition keyed_proof :: "trusted_edge_provenance \<Rightarrow> (string \<times> trusted_edge_provenance) result" where
  "keyed_proof t = (case confidence_of (tp_confidence t) of
     None \<Rightarrow> Inl PyValueError
   | Some c \<Rightarrow>
       let r = \<lparr>so_kind = tp_kind t, so_direction = tp_direction t, so_subject = tp_subject t, so_object = tp_object t,
           so_rationale_digest = tp_rationale_digest t, so_confidence = c, so_conflicts_digest = tp_conflicts_digest t\<rparr>
       in bind_result (construct (source_relation_guards r) r) (\<lambda>r. Inr (relation_digest r, t)))"

definition trusted_proofs :: "trusted_edge_provenance list \<Rightarrow> (string \<times> trusted_edge_provenance) list result" where
  "trusted_proofs provenance = bind_result (traverse keyed_proof provenance) (\<lambda>kvs. Inr (py_dict kvs))"

definition expected_source :: "affected_subset \<Rightarrow> dependency_graph_binding \<Rightarrow> proposed_edge \<Rightarrow> string" where
  "expected_source s b e = (if pe_kind e = EXPLICIT then as_source_digest s else gb_policy_digest b)"

definition proof_matches ::
  "affected_subset \<Rightarrow> dependency_graph_binding \<Rightarrow> proposed_edge \<Rightarrow> trusted_edge_provenance \<Rightarrow> bool" where
  "proof_matches s b e t \<longleftrightarrow>
     (tp_kind t, tp_direction t, tp_subject t, tp_object t, tp_rationale_digest t, tp_confidence t, tp_conflicts_digest t)
       = (pe_kind e, pe_direction e, pe_subject e, pe_object e, pe_rationale_digest e,
          confidence_value (pe_confidence e), pe_conflicts_digest e)
     \<and> (tp_candidate_sha t, tp_policy_digest t, tp_configuration_digest t, tp_source_digest t,
         Some (tp_subject_fingerprint t), Some (tp_object_fingerprint t))
       = (gb_candidate_sha b, gb_policy_digest b, gb_configuration_digest b, expected_source s b e,
          map_option member_fingerprint (member_lookup s (pe_subject e)),
          map_option member_fingerprint (member_lookup s (pe_object e)))"

text \<open>
  The loop over the proposed edges: it returns the canonical edges, or the reason code of the
  first edge that is refused.
\<close>

fun canonical_edges ::
  "dependency_proposal \<Rightarrow> affected_subset \<Rightarrow> dependency_graph_binding \<Rightarrow> (string \<times> trusted_edge_provenance) list
    \<Rightarrow> proposed_edge list \<Rightarrow> (string + graph_edge list) result" where
  "canonical_edges p s b proofs [] = Inr (Inr [])"
| "canonical_edges p s b proofs (e # es) =
     (if pe_kind e \<notin> {EXPLICIT, POLICY_DERIVED} then Inr (Inl ''edge-kind-not-verifiable'')
      else case pe_trusted_relation_digest e of
        None \<Rightarrow> Inr (Inl ''provenance-identity-unavailable'')
      | Some d \<Rightarrow>
         (case map_of proofs d of
            None \<Rightarrow> Inr (Inl ''provenance-unavailable'')
          | Some t \<Rightarrow>
             if \<not> proof_matches s b e t then Inr (Inl ''provenance-unavailable'')
             else bind_result (make_edge (fst (canonical_pair e)) (snd (canonical_pair e)) (pe_kind e)
                      (dp_proposal_id p) (tp_provenance_digest t)) (\<lambda>g.
                  bind_result (canonical_edges p s b proofs es) (\<lambda>r.
                    Inr (case r of Inl reason \<Rightarrow> Inl reason | Inr gs \<Rightarrow> Inr (g # gs))))))"

definition edge_order :: "graph_edge \<Rightarrow> string \<times> string \<times> string" where
  "edge_order e = (ge_subject e, ge_object e, edge_kind_value (ge_kind e))"

text \<open>The second half of \<open>validate\<close>: provenance of every edge, then the tests on the canonical edges.\<close>

definition validate_provenance ::
  "dependency_proposal \<Rightarrow> affected_subset \<Rightarrow> dependency_graph_binding \<Rightarrow> graph_snapshot
    \<Rightarrow> trusted_edge_provenance list \<Rightarrow> graph_validation result" where
  "validate_provenance p s b prior provenance =
     bind_result (trusted_proofs provenance) (\<lambda>proofs.
     bind_result (canonical_edges p s b proofs (dp_edges p)) (\<lambda>r.
     case r of
       Inl reason \<Rightarrow> make_validation REJECTED reason []
     | Inr canonical \<Rightarrow>
        if has_duplicates (map edge_pair canonical) then make_validation REJECTED ''duplicate-or-conflicting-edge'' []
        else if set (map edge_pair canonical) \<inter> set (map edge_pair (gs_edges prior)) \<noteq> {}
        then make_validation REJECTED ''duplicate-or-conflicting-edge'' []
        else bind_result (has_cycle (gs_edges prior @ canonical)) (\<lambda>cyclic.
          if cyclic then make_validation REJECTED ''cycle-detected'' []
          else make_validation ACCEPTED ''graph-valid'' (sort_key edge_order canonical))))"

definition validate_graph ::
  "dependency_proposal \<Rightarrow> affected_subset \<Rightarrow> dependency_graph_binding \<Rightarrow> graph_snapshot
    \<Rightarrow> trusted_edge_provenance list \<Rightarrow> graph_validation result" where
  "validate_graph p s b active provenance =
     bind_result (graph_require_subset b s) (\<lambda>_.
     let active = (if gs_binding active \<noteq> None \<and> gs_binding active \<noteq> Some b then empty_snapshot else active) in
     if set (concat (map (\<lambda>e. [pe_subject e, pe_object e]) (dp_edges p))) \<noteq> set (map member_id (as_members s))
     then make_validation REJECTED ''affected-subset-incomplete'' []
     else bind_result (replacement_baseline active s b) (\<lambda>prior.
     let pairs = map canonical_pair (dp_edges p) in
     if has_duplicates pairs \<or> set pairs \<inter> set (map edge_pair (gs_edges prior)) \<noteq> {}
     then make_validation REJECTED ''duplicate-or-conflicting-edge'' []
     else bind_result (traverse (structural_edge p) (dp_edges p)) (\<lambda>structural.
     bind_result (has_cycle (gs_edges prior @ structural)) (\<lambda>cyclic.
     if cyclic then make_validation REJECTED ''cycle-detected'' []
     else if dp_disposition p = REJECT then make_validation REJECTED ''proposal-rejected'' []
     else if dp_disposition p = OWNER_REVIEW \<or> proposal_semantic p
     then make_validation PENDING_OWNER ''owner-decision-required'' []
     else if dp_disposition p \<noteq> AUTO_ACTIVATE \<or> dp_owner_route p \<noteq> ''not-required''
     then make_validation REJECTED ''invalid-disposition'' []
     else validate_provenance p s b prior provenance))))"

section \<open>The successor graph\<close>

definition next_snapshot ::
  "graph_snapshot \<Rightarrow> affected_subset \<Rightarrow> graph_edge list \<Rightarrow> string \<Rightarrow> dependency_graph_binding \<Rightarrow> graph_snapshot result" where
  "next_snapshot active s edges pid b =
     bind_result (replacement_baseline active s b) (\<lambda>baseline.
     let old = gs_members baseline; replaced = replaced_ids old s in
     bind_result (traverse (make_graph_member (as_task_id s) (as_snapshot_id s)) (as_members s)) (\<lambda>new.
     make_snapshot None None
       (sort_key gm_id (filter (\<lambda>m. gm_id m \<notin> replaced) old @ new))
       (sort_key edge_order (gs_edges baseline @ edges))
       (sort (gs_proposal_ids baseline @ [pid]))))"

text \<open>
  One activation on the active snapshot, as \<open>activate\<close> performs it between reading the current
  graph and writing the next version: validate, and on acceptance compute the successor, which
  becomes current under the new version identity. A refusal leaves the current graph in place,
  and so does an exception, by rollback.
\<close>

record activation =
  ac_proposal :: dependency_proposal
  ac_subset :: affected_subset
  ac_binding :: dependency_graph_binding
  ac_provenance :: "trusted_edge_provenance list"
  ac_version :: string

definition advance :: "graph_snapshot \<Rightarrow> activation \<Rightarrow> (graph_validation \<times> graph_snapshot) result" where
  "advance active a =
     bind_result (validate_graph (ac_proposal a) (ac_subset a) (ac_binding a) active (ac_provenance a)) (\<lambda>v.
     if gv_decision v = ACCEPTED
     then bind_result (next_snapshot active (ac_subset a) (gv_edges v) (dp_proposal_id (ac_proposal a)) (ac_binding a)) (\<lambda>g.
       Inr (v, g\<lparr>gs_version_id := Some (ac_version a), gs_binding := Some (ac_binding a)\<rparr>))
     else Inr (v, active))"

definition current_after :: "graph_snapshot \<Rightarrow> activation \<Rightarrow> graph_snapshot" where
  "current_after active a = (case advance active a of Inl e \<Rightarrow> active | Inr (v, g) \<Rightarrow> g)"

section \<open>Graph versions in the database\<close>

text \<open>
  The rows of \<open>dependency_graph_versions\<close>, \<open>dependency_graph_members\<close> and \<open>dependency_graph_edges\<close>,
  with the keys that their declarations in \<open>state.py\<close> make unique, and the identities the foreign
  keys refer to. A violated constraint is an \<open>IntegrityError\<close>; the transaction around the writes
  is then rolled back.
\<close>

record version_row =
  vr_version :: string
  vr_predecessor :: "string option"
  vr_proposal_set_digest :: string
  vr_validator_digest :: string
  vr_policy_digest :: string
  vr_candidate_sha :: string
  vr_configuration_digest :: string
  vr_graph_digest :: string

record member_row =
  mr_version :: string
  mr_task_id :: string
  mr_snapshot_id :: string
  mr_member_id :: string
  mr_fingerprint :: string
  mr_content_digest :: string

record edge_row =
  er_version :: string
  er_subject :: string
  er_object :: string
  er_kind :: string
  er_proposal_id :: string
  er_provenance_digest :: string

record graph_tables =
  version_rows :: "version_row list"
  member_rows :: "member_row list"
  edge_rows :: "edge_row list"
  current_row :: "string option"
  task_ids :: "string list"
  subset_ids :: "string list"
  proposal_rows :: "string list"

definition integrity_error :: py_error where
  "integrity_error = PyException ''IntegrityError''"

definition insert_version :: "version_row \<Rightarrow> graph_tables \<Rightarrow> graph_tables result" where
  "insert_version r db =
     construct [(vr_version r \<notin> set (map vr_version (version_rows db)), integrity_error),
        (vr_predecessor r = None \<or> vr_predecessor r \<in> Some ` set (vr_version r # map vr_version (version_rows db)), integrity_error)]
       (db\<lparr>version_rows := version_rows db @ [r]\<rparr>)"

definition insert_member :: "member_row \<Rightarrow> graph_tables \<Rightarrow> graph_tables result" where
  "insert_member r db =
     construct [(mr_version r \<in> set (map vr_version (version_rows db)), integrity_error),
        (mr_task_id r \<in> set (task_ids db), integrity_error), (mr_snapshot_id r \<in> set (subset_ids db), integrity_error),
        ((mr_version r, mr_member_id r) \<notin> set (map (\<lambda>x. (mr_version x, mr_member_id x)) (member_rows db)), integrity_error),
        ((mr_version r, mr_fingerprint r) \<notin> set (map (\<lambda>x. (mr_version x, mr_fingerprint x)) (member_rows db)), integrity_error)]
       (db\<lparr>member_rows := member_rows db @ [r]\<rparr>)"

definition insert_edge :: "edge_row \<Rightarrow> graph_tables \<Rightarrow> graph_tables result" where
  "insert_edge r db =
     construct [(er_version r \<in> set (map vr_version (version_rows db)), integrity_error),
        (er_kind r \<in> {''explicit'', ''policy-derived''}, integrity_error),
        (er_proposal_id r \<in> set (proposal_rows db), integrity_error),
        ((er_version r, er_subject r, er_object r) \<notin> set (map (\<lambda>x. (er_version x, er_subject x, er_object x)) (edge_rows db)),
         integrity_error)]
       (db\<lparr>edge_rows := edge_rows db @ [r]\<rparr>)"

fun insert_all :: "('r \<Rightarrow> 'db \<Rightarrow> 'db result) \<Rightarrow> 'r list \<Rightarrow> 'db \<Rightarrow> 'db result" where
  "insert_all ins [] db = Inr db"
| "insert_all ins (r # rs) db = bind_result (ins r db) (insert_all ins rs)"

definition version_row_of ::
  "string \<Rightarrow> string option \<Rightarrow> graph_snapshot \<Rightarrow> dependency_graph_binding \<Rightarrow> version_row" where
  "version_row_of v predecessor g b =
     \<lparr>vr_version = v, vr_predecessor = predecessor, vr_proposal_set_digest = proposal_set_digest g,
      vr_validator_digest = gb_validator_digest b, vr_policy_digest = gb_policy_digest b,
      vr_candidate_sha = gb_candidate_sha b, vr_configuration_digest = gb_configuration_digest b,
      vr_graph_digest = graph_digest g\<rparr>"

definition member_row_of :: "string \<Rightarrow> graph_member \<Rightarrow> member_row" where
  "member_row_of v m =
     \<lparr>mr_version = v, mr_task_id = gm_task_id m, mr_snapshot_id = gm_snapshot_id m, mr_member_id = gm_id m,
      mr_fingerprint = member_fingerprint (gm_member m), mr_content_digest = member_content_digest (gm_member m)\<rparr>"

definition edge_row_of :: "string \<Rightarrow> graph_edge \<Rightarrow> edge_row" where
  "edge_row_of v e =
     \<lparr>er_version = v, er_subject = ge_subject e, er_object = ge_object e, er_kind = edge_kind_value (ge_kind e),
      er_proposal_id = ge_proposal_id e, er_provenance_digest = ge_provenance_digest e\<rparr>"

definition write_version ::
  "string \<Rightarrow> string option \<Rightarrow> graph_snapshot \<Rightarrow> dependency_graph_binding \<Rightarrow> graph_tables \<Rightarrow> graph_tables result" where
  "write_version v predecessor g b db =
     bind_result (insert_version (version_row_of v predecessor g b) db) (\<lambda>db.
     bind_result (insert_all insert_member (map (member_row_of v) (gs_members g)) db) (\<lambda>db.
     insert_all insert_edge (map (edge_row_of v) (gs_edges g)) db))"

definition read_member :: "member_row \<Rightarrow> graph_member result" where
  "read_member r =
     (let m = \<lparr>member_id = mr_member_id r, member_fingerprint = mr_fingerprint r, member_content_digest = mr_content_digest r\<rparr>
      in bind_result (construct (affected_member_guards m) m) (make_graph_member (mr_task_id r) (mr_snapshot_id r)))"

definition read_edge :: "edge_row \<Rightarrow> graph_edge result" where
  "read_edge r = (case edge_kind_of (er_kind r) of
     None \<Rightarrow> Inl PyValueError
   | Some k \<Rightarrow> make_edge (er_subject r) (er_object r) k (er_proposal_id r) (er_provenance_digest r))"

definition read_version :: "string \<Rightarrow> graph_tables \<Rightarrow> (graph_snapshot \<times> string option) result" where
  "read_version v db = (case List.find (\<lambda>r. vr_version r = v) (version_rows db) of
     None \<Rightarrow> Inl (DependencyGraphError ''current dependency graph is unavailable'')
   | Some row \<Rightarrow>
      let b = \<lparr>gb_candidate_sha = vr_candidate_sha row, gb_policy_digest = vr_policy_digest row,
          gb_configuration_digest = vr_configuration_digest row, gb_validator_digest = vr_validator_digest row\<rparr>
      in bind_result (construct (graph_binding_guards b) b) (\<lambda>b.
         bind_result (traverse read_member (sort_key mr_member_id (filter (\<lambda>r. mr_version r = v) (member_rows db)))) (\<lambda>members.
         bind_result (traverse read_edge
             (sort_key (\<lambda>r. (er_subject r, er_object r)) (filter (\<lambda>r. er_version r = v) (edge_rows db)))) (\<lambda>edges.
         bind_result (make_snapshot (Some v) (Some b) members edges
             (sort (remdups (map er_proposal_id (filter (\<lambda>r. er_version r = v) (edge_rows db)))))) (\<lambda>g.
         if proposal_set_digest g \<noteq> vr_proposal_set_digest row \<or> graph_digest g \<noteq> vr_graph_digest row
         then Inl (DependencyGraphError ''current dependency graph has drifted'')
         else bind_result (has_cycle (gs_edges g)) (\<lambda>cyclic.
           if cyclic then Inl (DependencyGraphError ''current dependency graph has drifted'')
           else Inr (g, vr_predecessor row)))))))"

end
