(* ===== verification/Graph_Safety.thy ===== *)
theory Graph_Safety
  imports Dependency_Graph
begin

text \<open>
  What the dependency graph guarantees: the depth-first search decides acyclicity of the edge
  relation whatever the order in which it meets nodes; an accepted proposal is acyclic,
  non-conflicting and covered edge by edge by trusted provenance; the snapshots of any sequence
  of activations stay well formed; and a version reads back from the tables as it was written.
\<close>

section \<open>The search decides acyclicity\<close>

definition edge_rel :: "graph_edge list \<Rightarrow> (string \<times> string) set" where
  "edge_rel edges = set (map edge_pair edges)"

definition successor_rel :: "adjacency \<Rightarrow> (string \<times> string) set" where
  "successor_rel adj = {(x, y). \<exists>ys. map_of adj x = Some ys \<and> y \<in> set ys}"

text \<open>An adjacency dictionary of the edges, whatever the order of its keys and of its sets.\<close>

definition enumerates :: "adjacency \<Rightarrow> graph_edge list \<Rightarrow> bool" where
  "enumerates adj edges \<longleftrightarrow> set (map fst adj) = Field (edge_rel edges) \<and> successor_rel adj = edge_rel edges"

lemma successor_closed:
  "map_of adj x = Some ys \<Longrightarrow> set ys = successor_rel adj `` {x}"
  by (auto simp: successor_rel_def)

lemma closed_trancl:
  assumes "E `` V \<subseteq> V" "(x, y) \<in> E\<^sup>+" "x \<in> V"
  shows "y \<in> V"
  using assms(2,1,3) by (induction rule: trancl.induct) auto

text \<open>A finished set is closed under successors and meets no cycle.\<close>

definition finished :: "(string \<times> string) set \<Rightarrow> string set \<Rightarrow> bool" where
  "finished E V \<longleftrightarrow> E `` V \<subseteq> V \<and> (\<forall>v\<in>V. (v, v) \<notin> E\<^sup>+)"

lemma finished_insert:
  assumes "finished E V" "E `` {x} \<subseteq> V" "x \<notin> V"
  shows "finished E (insert x V)"
proof -
  have "(x, x) \<notin> E\<^sup>+"
  proof
    assume "(x, x) \<in> E\<^sup>+"
    then obtain y where "(x, y) \<in> E" "y = x \<or> (y, x) \<in> E\<^sup>+" by (metis tranclD rtranclD)
    with assms closed_trancl [of E V y x] show False by (auto simp: finished_def)
  qed
  with assms show ?thesis by (auto simp: finished_def)
qed

text \<open>
  The search never raises. It answers \<open>True\<close> only when a node of the current path is reached
  again, and \<open>False\<close> only with a finished set that contains every node it was given.
\<close>

lemma visit_any_spec:
  assumes "finished (successor_rel adj) visited" "visiting \<inter> visited = {}"
    and "set nodes \<subseteq> set (map fst adj)" "Range (successor_rel adj) \<subseteq> set (map fst adj)"
    and "\<forall>v\<in>visiting. \<forall>n\<in>set nodes. (v, n) \<in> (successor_rel adj)\<^sup>+"
  shows "\<exists>found visited'. visit_any adj visiting visited nodes = Inr (found, visited')
    \<and> (if found then \<exists>x. (x, x) \<in> (successor_rel adj)\<^sup>+
       else visited \<union> set nodes \<subseteq> visited' \<and> finished (successor_rel adj) visited' \<and> visiting \<inter> visited' = {})"
  using assms
proof (induction adj visiting visited nodes rule: visit_any.induct)
  case (1 adj visiting visited)
  then show ?case by (intro exI [of _ False] exI [of _ visited]) simp
next
  case (2 adj visiting visited node rest)
  let ?E = "successor_rel adj"
  show ?case
  proof (cases "node \<in> visiting \<or> node \<in> visited")
    case True
    show ?thesis
    proof (cases "node \<in> visiting")
      case True
      with "2.prems"(5) show ?thesis by auto
    next
      case False
      with True have n: "node \<in> visited" by blast
      obtain found visited' where r: "visit_any adj visiting visited rest = Inr (found, visited')"
        and "if found then \<exists>x. (x, x) \<in> ?E\<^sup>+
          else visited \<union> set rest \<subseteq> visited' \<and> finished ?E visited' \<and> visiting \<inter> visited' = {}"
        using "2.IH"(1) [OF False n] "2.prems" by auto
      with False n show ?thesis by (intro exI [of _ found] exI [of _ visited']) auto
    qed
  next
    case False
    then have new: "node \<notin> visiting" "node \<notin> visited" by auto
    from "2.prems"(3) obtain succs where s: "map_of adj node = Some succs"
      by (cases "map_of adj node") (auto simp: map_of_eq_None_iff)
    have e: "set succs = ?E `` {node}" by (rule successor_closed [OF s])
    have sub: "set succs \<subseteq> set (map fst adj)" using e "2.prems"(4) by auto
    have path: "\<forall>v\<in>insert node visiting. \<forall>n\<in>set succs. (v, n) \<in> ?E\<^sup>+"
    proof (intro ballI)
      fix v n
      assume "v \<in> insert node visiting" "n \<in> set succs"
      then have "(node, n) \<in> ?E" "v = node \<or> (v, node) \<in> ?E\<^sup>+" using e "2.prems"(5) by auto
      then show "(v, n) \<in> ?E\<^sup>+" by (auto intro: trancl_into_trancl)
    qed
    have dis: "insert node visiting \<inter> visited = {}" using new "2.prems"(2) by blast
    obtain f1 v1 where inner: "visit_any adj (insert node visiting) visited succs = Inr (f1, v1)"
      and i: "if f1 then \<exists>x. (x, x) \<in> ?E\<^sup>+
         else visited \<union> set succs \<subseteq> v1 \<and> finished ?E v1 \<and> insert node visiting \<inter> v1 = {}"
      using "2.IH"(2) [OF new s "2.prems"(1) dis sub "2.prems"(4) path] by blast
    show ?thesis
    proof (cases f1)
      case True
      with new s inner i show ?thesis by auto
    next
      case f1: False
      with i have v1: "visited \<union> set succs \<subseteq> v1" "finished ?E v1" "insert node visiting \<inter> v1 = {}" by auto
      have "finished ?E (insert node v1)" using v1 e by (intro finished_insert) auto
      moreover have "visiting \<inter> insert node v1 = {}" using v1(3) new by blast
      ultimately obtain f2 v2 where outer: "visit_any adj visiting (insert node v1) rest = Inr (f2, v2)"
        and o: "if f2 then \<exists>x. (x, x) \<in> ?E\<^sup>+
           else insert node v1 \<union> set rest \<subseteq> v2 \<and> finished ?E v2 \<and> visiting \<inter> v2 = {}"
        using "2.IH"(3) [OF new s inner refl f1] "2.prems"(3,4,5) by auto
      have "visit_any adj visiting visited (node # rest) = Inr (f2, v2)"
        using new s inner f1 outer by simp
      with o v1 show ?thesis by (auto split: if_splits)
    qed
  qed
qed

lemma search_cycle_decides:
  assumes "Field (successor_rel adj) \<subseteq> set (map fst adj)"
  shows "search_cycle adj = Inr (\<not> acyclic (successor_rel adj))"
proof -
  let ?E = "successor_rel adj"
  have "finished ?E {}" by (simp add: finished_def)
  then obtain found visited where v: "visit_any adj {} {} (map fst adj) = Inr (found, visited)"
    and r: "if found then \<exists>x. (x, x) \<in> ?E\<^sup>+
      else {} \<union> set (map fst adj) \<subseteq> visited \<and> finished ?E visited \<and> {} \<inter> visited = {}"
    using visit_any_spec [of adj "{}" "{}" "map fst adj"] assms unfolding Field_def by blast
  have "found \<longleftrightarrow> \<not> acyclic ?E"
  proof (cases found)
    case True
    with r show ?thesis by (auto simp: acyclic_def)
  next
    case False
    have "(x, x) \<notin> ?E\<^sup>+" for x
    proof
      assume c: "(x, x) \<in> ?E\<^sup>+"
      then have "x \<in> Field ?E" by (meson FieldI1 tranclD)
      with assms r False have "x \<in> visited" by auto
      with r False c show False by (auto simp: finished_def)
    qed
    with False show ?thesis by (auto simp: acyclic_def)
  qed
  with v show ?thesis by (simp add: search_cycle_def)
qed

subsection \<open>The dictionary built by the code\<close>

lemma setdefault_keys [simp]: "fst ` set (setdefault k adj) = insert k (fst ` set adj)"
proof (cases "map_of adj k")
  case None
  then show ?thesis by (auto simp: setdefault_def)
next
  case (Some vs)
  then have "k \<in> fst ` set adj" by (force dest: map_of_SomeD)
  with Some show ?thesis by (auto simp: setdefault_def)
qed

lemma add_successor_keys [simp]: "fst ` set (add_successor k v adj) = fst ` set adj"
  by (force simp: add_successor_def image_image)

lemma map_of_setdefault:
  "map_of (setdefault k adj) x = (if x = k \<and> map_of adj k = None then Some [] else map_of adj x)"
  by (auto simp: setdefault_def map_add_def split: option.splits)

lemma map_of_add_successor:
  "map_of (add_successor k v adj) x = map_option (\<lambda>vs. if x = k then List.insert v vs else vs) (map_of adj x)"
  by (induction adj) (auto simp: add_successor_def)

lemma setdefault_rel [simp]: "successor_rel (setdefault k adj) = successor_rel adj"
  by (auto simp: successor_rel_def map_of_setdefault split: if_splits)

lemma add_successor_rel:
  assumes "k \<in> fst ` set adj"
  shows "successor_rel (add_successor k v adj) = insert (k, v) (successor_rel adj)"
proof -
  from assms obtain vs where "map_of adj k = Some vs"
    by (cases "map_of adj k") (auto simp: map_of_eq_None_iff)
  then have "(x, y) \<in> successor_rel (add_successor k v adj) \<longleftrightarrow> (x, y) \<in> insert (k, v) (successor_rel adj)" for x y
    by (cases "x = k") (auto simp: successor_rel_def map_of_add_successor)
  then show ?thesis by auto
qed

lemma adjacency_step:
  "fst ` set (add_edge adj e) = insert (ge_subject e) (insert (ge_object e) (fst ` set adj))"
  "successor_rel (add_edge adj e) = insert (edge_pair e) (successor_rel adj)"
  by (auto simp: add_edge_def add_successor_rel edge_pair_def)

lemma adjacency_enumerates: "enumerates (adjacency_of edges) edges"
proof (induction edges rule: rev_induct)
  case Nil
  show ?case by (simp add: enumerates_def adjacency_of_def edge_rel_def successor_rel_def)
next
  case (snoc e es)
  have "adjacency_of (es @ [e]) = add_edge (adjacency_of es) e" by (simp add: adjacency_of_def)
  with snoc show ?case
    by (auto simp: enumerates_def adjacency_step edge_rel_def edge_pair_def)
qed

lemma enumerated_search: "enumerates adj edges \<Longrightarrow> search_cycle adj = Inr (\<not> acyclic (edge_rel edges))"
  using search_cycle_decides [of adj] by (simp add: enumerates_def)

lemma has_cycle_eq [simp]: "has_cycle edges = Inr (\<not> acyclic (edge_rel edges))"
  by (simp add: has_cycle_def enumerated_search [OF adjacency_enumerates])

text \<open>
  C8 (cycle_search_decides). The depth-first search is total and decides acyclicity: run over any
  enumeration of the adjacency dictionary of a list of edges, whatever order Python gives the keys
  and the successor sets, it returns (no node is missing from the dictionary, and every recursive
  call terminates) and answers whether the edge relation has a cycle. In particular \<open>_has_cycle\<close>
  does, with the dictionary it builds.
\<close>

theorem cycle_search_decides:
  "(enumerates adj edges \<longrightarrow> search_cycle adj = Inr (\<not> acyclic (edge_rel edges)))
   \<and> has_cycle edges = Inr (\<not> acyclic (edge_rel edges))"
  by (simp add: enumerated_search)

section \<open>What validation decides\<close>

lemma distinct_map_sort [simp]: "distinct (map g (sort_key f xs)) \<longleftrightarrow> distinct (map g xs)"
  by (simp add: distinct_map)

lemma make_validation_simps [simp]:
  "make_validation d r es = Inr v \<longleftrightarrow>
     is_reason r \<and> (d \<noteq> ACCEPTED \<longrightarrow> es = []) \<and> v = \<lparr>gv_decision = d, gv_reason_code = r, gv_edges = es\<rparr>"
  by (auto simp: make_validation_def graph_validation_guards_def Let_def)

lemma reason_codes [simp]:
  "is_reason ''affected-subset-incomplete''" "is_reason ''duplicate-or-conflicting-edge''"
  "is_reason ''cycle-detected''" "is_reason ''proposal-rejected''" "is_reason ''owner-decision-required''"
  "is_reason ''invalid-disposition''" "is_reason ''edge-kind-not-verifiable''"
  "is_reason ''provenance-identity-unavailable''" "is_reason ''provenance-unavailable''" "is_reason ''graph-valid''"
  by (simp_all add: is_reason_def is_lower_def less_eq_char_def)

lemma make_validation_reject:
  "is_reason r \<Longrightarrow> make_validation REJECTED r [] = Inr \<lparr>gv_decision = REJECTED, gv_reason_code = r, gv_edges = []\<rparr>"
  "is_reason r \<Longrightarrow> make_validation PENDING_OWNER r [] = Inr \<lparr>gv_decision = PENDING_OWNER, gv_reason_code = r, gv_edges = []\<rparr>"
  "is_reason r \<Longrightarrow> make_validation ACCEPTED r es = Inr \<lparr>gv_decision = ACCEPTED, gv_reason_code = r, gv_edges = es\<rparr>"
  by simp_all

text \<open>A snapshot that a constructor returned, and provenance records that one returned.\<close>

definition snapshot_ok :: "graph_snapshot \<Rightarrow> bool" where
  "snapshot_ok g \<longleftrightarrow> list_all fst (graph_snapshot_guards g)"

definition provenance_ok :: "trusted_edge_provenance \<Rightarrow> bool" where
  "provenance_ok t \<longleftrightarrow> list_all fst (provenance_guards t)"

text \<open>The constructor of a provenance record does not compare its two members; that of the relation it is keyed by does.\<close>

definition self_related :: "trusted_edge_provenance \<Rightarrow> bool" where
  "self_related t \<longleftrightarrow> tp_subject t = tp_object t"

definition matches_binding :: "affected_subset \<Rightarrow> dependency_graph_binding \<Rightarrow> bool" where
  "matches_binding s b \<longleftrightarrow> as_candidate_sha s = gb_candidate_sha b \<and> as_policy_digest s = gb_policy_digest b
     \<and> as_configuration_digest s = gb_configuration_digest b"

text \<open>The part of the active graph that a proposal for the subset is judged against.\<close>

definition retained_edges :: "graph_snapshot \<Rightarrow> affected_subset \<Rightarrow> dependency_graph_binding \<Rightarrow> graph_edge list" where
  "retained_edges active s b =
     (if gs_binding active \<noteq> Some b then []
      else filter (\<lambda>e. ge_subject e \<notin> replaced_ids (gs_members active) s \<and> ge_object e \<notin> replaced_ids (gs_members active) s)
        (gs_edges active))"

definition retained_members :: "graph_snapshot \<Rightarrow> affected_subset \<Rightarrow> dependency_graph_binding \<Rightarrow> graph_member list" where
  "retained_members active s b =
     (if gs_binding active \<noteq> Some b then []
      else filter (\<lambda>m. gm_task_id m \<noteq> as_task_id s) (gs_members active))"

lemma replaced_by_task:
  assumes "distinct (map gm_id ms)" "m \<in> set ms"
  shows "gm_id m \<in> replaced_ids ms s \<longleftrightarrow> gm_task_id m = as_task_id s"
proof
  assume "gm_id m \<in> replaced_ids ms s"
  then obtain n where n: "n \<in> set ms" "gm_task_id n = as_task_id s" "gm_id n = gm_id m"
    by (auto simp: replaced_ids_def)
  with assms have "n = m" by (simp add: distinct_map inj_on_def)
  with n show "gm_task_id m = as_task_id s" by simp
qed (use assms in \<open>auto simp: replaced_ids_def\<close>)

lemma baseline_eq:
  assumes "snapshot_ok active"
  shows "replacement_baseline active s b = Inr
    \<lparr>gs_version_id = None, gs_binding = None, gs_members = retained_members active s b,
     gs_edges = retained_edges active s b,
     gs_proposal_ids = sort (remdups (map ge_proposal_id (retained_edges active s b)))\<rparr>"
proof -
  have d: "distinct (map gm_id (gs_members active))"
    using assms by (simp add: snapshot_ok_def graph_snapshot_guards_def)
  have "filter (\<lambda>m. gm_id m \<notin> replaced_ids (gs_members active) s) (gs_members active)
      = filter (\<lambda>m. gm_task_id m \<noteq> as_task_id s) (gs_members active)"
    by (rule filter_cong) (use replaced_by_task [OF d] in auto)
  then show ?thesis
    using d by (auto simp: replacement_baseline_def make_snapshot_def retained_members_def retained_edges_def Let_def
        graph_snapshot_guards_def distinct_map_filter intro!: construct_ok)
qed

lemma edge_pair_record [simp]:
  "edge_pair \<lparr>ge_subject = x, ge_object = y, ge_kind = k, ge_proposal_id = i, ge_provenance_digest = d\<rparr> = (x, y)"
  by (simp add: edge_pair_def)

lemma make_edge_proposed:
  assumes "list_all fst (proposed_edge_guards e)" "k \<in> {EXPLICIT, POLICY_DERIVED}" "is_token pid" "is_digest prov"
  shows "make_edge (fst (canonical_pair e)) (snd (canonical_pair e)) k pid prov =
    Inr \<lparr>ge_subject = fst (canonical_pair e), ge_object = snd (canonical_pair e), ge_kind = k,
         ge_proposal_id = pid, ge_provenance_digest = prov\<rparr>"
  using assms
  by (cases "pe_direction e")
    (auto simp: make_edge_def graph_edge_guards_def Let_def canonical_pair_def proposed_edge_guards_def intro!: construct_ok)

lemma proposal_okD:
  assumes "proposal_ok p"
  shows "is_token (dp_proposal_id p)" "\<And>e. e \<in> set (dp_edges p) \<Longrightarrow> list_all fst (proposed_edge_guards e)"
    "dp_edges p \<noteq> []"
    "dp_disposition p = AUTO_ACTIVATE \<Longrightarrow> \<not> proposal_semantic p"
  using assms by (auto simp: proposal_ok_def proposal_guards_def list_all_iff)

lemma structural_edges:
  assumes "proposal_ok p"
  shows "\<exists>es. traverse (structural_edge p) (dp_edges p) = Inr es \<and> map edge_pair es = map canonical_pair (dp_edges p)"
proof -
  have "\<exists>gs. traverse (structural_edge p) es = Inr gs \<and> map edge_pair gs = map canonical_pair es"
    if "set es \<subseteq> set (dp_edges p)" for es
    using that
  proof (induction es)
    case (Cons e es)
    then obtain gs where "traverse (structural_edge p) es = Inr gs" "map edge_pair gs = map canonical_pair es" by auto
    moreover have "is_digest (''sha256:'' @ replicate 64 CHR ''0'')"
      by (simp only: is_digest_prefixed is_fingerprint_replicate) (simp add: is_hex_def)
    then have "structural_edge p e = Inr \<lparr>ge_subject = fst (canonical_pair e), ge_object = snd (canonical_pair e),
        ge_kind = (if pe_kind e \<in> {EXPLICIT, POLICY_DERIVED} then pe_kind e else EXPLICIT),
        ge_proposal_id = dp_proposal_id p, ge_provenance_digest = ''sha256:'' @ replicate 64 CHR ''0''\<rparr>"
      unfolding structural_edge_def using Cons.prems proposal_okD [OF assms] by (intro make_edge_proposed) auto
    ultimately show ?case by simp
  qed simp
  then show ?thesis by blast
qed

section \<open>Provenance of every edge\<close>

text \<open>An edge is backed when the relation it names is trusted and agrees with it in every field.\<close>

definition backed ::
  "affected_subset \<Rightarrow> dependency_graph_binding \<Rightarrow> (string \<times> trusted_edge_provenance) list \<Rightarrow> proposed_edge \<Rightarrow> bool" where
  "backed s b proofs e \<longleftrightarrow> pe_kind e \<noteq> SEMANTIC_INFERRED
     \<and> (\<exists>d t. pe_trusted_relation_digest e = Some d \<and> map_of proofs d = Some t \<and> proof_matches s b e t)"

definition accepted_edge ::
  "dependency_proposal \<Rightarrow> (string \<times> trusted_edge_provenance) list \<Rightarrow> proposed_edge \<Rightarrow> graph_edge" where
  "accepted_edge p proofs e =
     \<lparr>ge_subject = fst (canonical_pair e), ge_object = snd (canonical_pair e), ge_kind = pe_kind e,
      ge_proposal_id = dp_proposal_id p,
      ge_provenance_digest = tp_provenance_digest (the (map_of proofs (the (pe_trusted_relation_digest e))))\<rparr>"

lemma verifiable_kind: "k \<in> {EXPLICIT, POLICY_DERIVED} \<longleftrightarrow> k \<noteq> SEMANTIC_INFERRED"
  by (cases k) auto

lemma canonical_edges_eq:
  assumes "is_token (dp_proposal_id p)" "\<And>e. e \<in> set es \<Longrightarrow> list_all fst (proposed_edge_guards e)"
    and "\<And>d t. map_of proofs d = Some t \<Longrightarrow> is_digest (tp_provenance_digest t)"
  shows "\<exists>reason. is_reason reason \<and> canonical_edges p s b proofs es =
    Inr (if list_all (backed s b proofs) es then Inr (map (accepted_edge p proofs) es) else Inl reason)"
  using assms(2)
proof (induction es)
  case Nil
  show ?case by (intro exI [of _ "''graph-valid''"]) simp
next
  case (Cons e es)
  then obtain reason where r: "is_reason reason" "canonical_edges p s b proofs es =
      Inr (if list_all (backed s b proofs) es then Inr (map (accepted_edge p proofs) es) else Inl reason)" by auto
  show ?case
  proof (cases "backed s b proofs e")
    case True
    then obtain d t where t: "pe_kind e \<in> {EXPLICIT, POLICY_DERIVED}" "pe_trusted_relation_digest e = Some d"
      "map_of proofs d = Some t" "proof_matches s b e t"
      unfolding backed_def verifiable_kind by blast
    have "make_edge (fst (canonical_pair e)) (snd (canonical_pair e)) (pe_kind e) (dp_proposal_id p) (tp_provenance_digest t)
        = Inr (accepted_edge p proofs e)"
      unfolding accepted_edge_def using make_edge_proposed [of e "pe_kind e"] t assms Cons.prems by simp
    with True t r show ?thesis by (intro exI [of _ reason]) simp
  next
    case False
    then show ?thesis
      by (cases "pe_trusted_relation_digest e")
        (auto simp: backed_def verifiable_kind split: option.splits intro: exI [of _ "''provenance-identity-unavailable''"]
          exI [of _ "''provenance-unavailable''"] exI [of _ "''edge-kind-not-verifiable''"])
  qed
qed

lemma keyed_proof_ok:
  assumes "provenance_ok t"
  shows "if self_related t then keyed_proof t = Inl (DependencyReviewError ''source-owned relation is invalid'') else \<exists>d. keyed_proof t = Inr (d, t)"
proof -
  from assms have g: "tp_kind t \<in> {EXPLICIT, POLICY_DERIVED}" "is_token (tp_subject t)" "is_token (tp_object t)"
    "is_digest (tp_rationale_digest t)" "is_digest (tp_conflicts_digest t)" and "tp_confidence t \<in> {''high'', ''medium'', ''low''}"
    by (simp_all add: provenance_ok_def provenance_guards_def)
  from this(6) obtain c where "confidence_of (tp_confidence t) = Some c"
    by (auto simp: enum_of_def)
  with g show ?thesis
    by (simp add: keyed_proof_def Let_def source_relation_guards_def construct_def self_related_def)
qed

lemma keyed_proof_key: "keyed_proof t = Inr (d, u) \<Longrightarrow> u = t"
  by (auto simp: keyed_proof_def Let_def bind_result_Inr_iff split: option.split_asm)

lemma keyed_proofs:
  assumes "list_all provenance_ok ts"
  shows "if list_ex self_related ts then traverse keyed_proof ts = Inl (DependencyReviewError ''source-owned relation is invalid'')
    else \<exists>kvs. traverse keyed_proof ts = Inr kvs"
  using assms
proof (induction ts)
  case (Cons t ts)
  with keyed_proof_ok [of t] show ?case by (cases "self_related t"; cases "list_ex self_related ts") auto
qed simp

text \<open>The proofs a validation works with: a self-related record makes the lookup table unavailable.\<close>

lemma trusted_proofs_cases:
  assumes "list_all provenance_ok provenance"
  shows "if list_ex self_related provenance then trusted_proofs provenance = Inl (DependencyReviewError ''source-owned relation is invalid'')
    else \<exists>proofs. trusted_proofs provenance = Inr proofs"
  using keyed_proofs [OF assms] by (auto simp: trusted_proofs_def)

lemma trusted_proofs_from:
  assumes "trusted_proofs provenance = Inr proofs" "map_of proofs d = Some t"
  shows "t \<in> set provenance \<and> keyed_proof t = Inr (d, t)"
proof -
  from assms(1) obtain kvs where kvs: "list_all2 (\<lambda>t kv. keyed_proof t = Inr kv) provenance kvs" "proofs = py_dict kvs"
    by (auto simp: trusted_proofs_def bind_result_Inr_iff traverse_Inr_iff)
  from assms(2) have "(d, t) \<in> set kvs" unfolding kvs(2) by (metis map_of_SomeD map_of_py_dict set_rev)
  then obtain u where "u \<in> set provenance" "keyed_proof u = Inr (d, t)"
    using kvs(1) by (auto simp: list_all2_conv_all_nth in_set_conv_nth) (metis nth_mem)
  with keyed_proof_key [OF this(2)] show ?thesis by simp
qed

section \<open>Acceptance\<close>

definition subset_complete :: "dependency_proposal \<Rightarrow> affected_subset \<Rightarrow> bool" where
  "subset_complete p s \<longleftrightarrow> (\<Union>e\<in>set (dp_edges p). {pe_subject e, pe_object e}) = member_id ` set (as_members s)"

text \<open>
  The specification of acceptance: the proposal speaks about exactly the affected members,
  canonical pairs are distinct and new, the graph stays acyclic, the provider asks for automatic
  activation, and every edge is backed.
\<close>

definition admissible ::
  "dependency_proposal \<Rightarrow> affected_subset \<Rightarrow> dependency_graph_binding \<Rightarrow> graph_snapshot
    \<Rightarrow> (string \<times> trusted_edge_provenance) list \<Rightarrow> bool" where
  "admissible p s b active proofs \<longleftrightarrow>
     subset_complete p s \<and> distinct (map canonical_pair (dp_edges p))
     \<and> set (map canonical_pair (dp_edges p)) \<inter> edge_rel (retained_edges active s b) = {}
     \<and> acyclic (edge_rel (retained_edges active s b) \<union> set (map canonical_pair (dp_edges p)))
     \<and> dp_disposition p = AUTO_ACTIVATE \<and> dp_owner_route p = ''not-required''
     \<and> list_all (backed s b proofs) (dp_edges p)"

lemma edge_rel_append: "edge_rel (es @ fs) = edge_rel es \<union> edge_rel fs"
  by (simp add: edge_rel_def)

lemma snapshot_ok_empty [simp]: "snapshot_ok empty_snapshot"
  by (simp add: snapshot_ok_def empty_snapshot_def graph_snapshot_guards_def)

lemma retained_empty [simp]:
  "retained_edges empty_snapshot s b = []" "retained_members empty_snapshot s b = []"
  by (simp_all add: retained_edges_def retained_members_def empty_snapshot_def)

lemma retained_other_binding:
  "gs_binding active \<noteq> Some b \<Longrightarrow> retained_edges active s b = [] \<and> retained_members active s b = []"
  by (simp add: retained_edges_def retained_members_def)

text \<open>Given provenance and canonical edges, the second half refuses only an edge that is not backed.\<close>

lemma validate_provenance_eq:
  assumes p: "proposal_ok p" and proofs: "trusted_proofs provenance = Inr proofs"
    and digests: "\<forall>d t. map_of proofs d = Some t \<longrightarrow> is_digest (tp_provenance_digest t)"
    and pairs: "distinct (map canonical_pair (dp_edges p))"
      "set (map canonical_pair (dp_edges p)) \<inter> edge_rel (gs_edges prior) = {}"
      "acyclic (edge_rel (gs_edges prior) \<union> set (map canonical_pair (dp_edges p)))"
  shows "\<exists>reason. is_reason reason \<and> validate_provenance p s b prior provenance = Inr
    (if list_all (backed s b proofs) (dp_edges p)
     then \<lparr>gv_decision = ACCEPTED, gv_reason_code = ''graph-valid'',
           gv_edges = sort_key edge_order (map (accepted_edge p proofs) (dp_edges p))\<rparr>
     else \<lparr>gv_decision = REJECTED, gv_reason_code = reason, gv_edges = []\<rparr>)"
proof -
  obtain reason where r: "is_reason reason" "canonical_edges p s b proofs (dp_edges p) =
      Inr (if list_all (backed s b proofs) (dp_edges p) then Inr (map (accepted_edge p proofs) (dp_edges p)) else Inl reason)"
    using canonical_edges_eq [of p "dp_edges p" proofs s b] proposal_okD [OF p] digests by blast
  have e: "map edge_pair (map (accepted_edge p proofs) es) = map canonical_pair es" for es
    by (simp add: accepted_edge_def)
  have rel: "edge_rel (gs_edges prior @ map (accepted_edge p proofs) (dp_edges p))
      = edge_rel (gs_edges prior) \<union> set (map canonical_pair (dp_edges p))"
    unfolding edge_rel_append by (simp only: edge_rel_def e)
  show ?thesis
  proof (cases "list_all (backed s b proofs) (dp_edges p)")
    case True
    have "validate_provenance p s b prior provenance = make_validation ACCEPTED ''graph-valid''
        (sort_key edge_order (map (accepted_edge p proofs) (dp_edges p)))"
      unfolding validate_provenance_def proofs using True pairs
      by (simp only: r(2) bind_result.simps if_True sum.case e has_duplicates_iff not_True_eq_False if_False has_cycle_eq rel
          edge_rel_def [of "gs_edges prior", symmetric] simp_thms)
    with True r(1) show ?thesis by (intro exI [of _ reason]) (simp only: make_validation_reject reason_codes simp_thms if_True)
  next
    case False
    with r proofs show ?thesis
      by (intro exI [of _ reason]) (simp add: validate_provenance_def make_validation_reject)
  qed
qed

lemma validate_active:
  "snapshot_ok active \<Longrightarrow> snapshot_ok (if gs_binding active \<noteq> None \<and> gs_binding active \<noteq> Some b then empty_snapshot else active)"
  "retained_edges (if gs_binding active \<noteq> None \<and> gs_binding active \<noteq> Some b then empty_snapshot else active) s b
     = retained_edges active s b"
  by (auto simp: retained_other_binding)

text \<open>
  The first half of a validation: what is checked of the proposal before any provenance is looked at, and the part of
  the active graph it is checked against.
\<close>

definition structurally_sound :: "dependency_proposal \<Rightarrow> affected_subset \<Rightarrow> dependency_graph_binding \<Rightarrow> graph_snapshot \<Rightarrow> bool" where
  "structurally_sound p s b active \<longleftrightarrow>
     subset_complete p s \<and> distinct (map canonical_pair (dp_edges p))
     \<and> set (map canonical_pair (dp_edges p)) \<inter> edge_rel (retained_edges active s b) = {}
     \<and> acyclic (edge_rel (retained_edges active s b) \<union> set (map canonical_pair (dp_edges p)))
     \<and> dp_disposition p = AUTO_ACTIVATE \<and> dp_owner_route p = ''not-required''"

lemma admissible_iff: "admissible p s b active proofs \<longleftrightarrow> structurally_sound p s b active \<and> list_all (backed s b proofs) (dp_edges p)"
  by (auto simp: admissible_def structurally_sound_def)

lemma validate_graph_gate:
  assumes p: "proposal_ok p" and active: "snapshot_ok active" and m: "matches_binding s b"
  shows "if structurally_sound p s b active
    then \<exists>prior. gs_edges prior = retained_edges active s b \<and> validate_graph p s b active provenance = validate_provenance p s b prior provenance
    else \<exists>d reason. d \<noteq> ACCEPTED \<and> is_reason reason \<and> validate_graph p s b active provenance = Inr \<lparr>gv_decision = d, gv_reason_code = reason, gv_edges = []\<rparr>"
proof -
  let ?pairs = "map canonical_pair (dp_edges p)" and ?old = "retained_edges active s b"
  let ?prior = "\<lparr>gs_version_id = None, gs_binding = None, gs_members = retained_members
      (if gs_binding active \<noteq> None \<and> gs_binding active \<noteq> Some b then empty_snapshot else active) s b,
     gs_edges = ?old, gs_proposal_ids = sort (remdups (map ge_proposal_id ?old))\<rparr>"
  obtain structural where st: "traverse (structural_edge p) (dp_edges p) = Inr structural" "map edge_pair structural = ?pairs"
    using structural_edges [OF p] by blast
  have rel: "edge_rel (?old @ structural) = edge_rel ?old \<union> set ?pairs"
    unfolding edge_rel_append by (simp only: edge_rel_def st(2))
  have complete: "set (concat (map (\<lambda>e. [pe_subject e, pe_object e]) (dp_edges p))) = set (map member_id (as_members s))
      \<longleftrightarrow> subset_complete p s"
    by (auto simp: subset_complete_def)
  have unfolded: "validate_graph p s b active provenance =
     (if \<not> subset_complete p s then make_validation REJECTED ''affected-subset-incomplete'' []
      else if \<not> distinct ?pairs \<or> set ?pairs \<inter> edge_rel ?old \<noteq> {}
      then make_validation REJECTED ''duplicate-or-conflicting-edge'' []
      else if \<not> acyclic (edge_rel ?old \<union> set ?pairs) then make_validation REJECTED ''cycle-detected'' []
      else if dp_disposition p = REJECT then make_validation REJECTED ''proposal-rejected'' []
      else if dp_disposition p = OWNER_REVIEW \<or> proposal_semantic p
      then make_validation PENDING_OWNER ''owner-decision-required'' []
      else if dp_disposition p \<noteq> AUTO_ACTIVATE \<or> dp_owner_route p \<noteq> ''not-required''
      then make_validation REJECTED ''invalid-disposition'' []
      else validate_provenance p s b ?prior provenance)"
    using m unfolding validate_graph_def complete Let_def baseline_eq [OF validate_active(1) [OF active]] validate_active(2)
    by (simp only: graph_require_subset_def matches_binding_def construct_ok list.pred_inject fst_conv simp_thms
        bind_result.simps graph_snapshot.simps st(1) has_cycle_eq rel has_duplicates_iff edge_rel_def [of ?old, symmetric])
  show ?thesis
  proof (cases "structurally_sound p s b active")
    case True
    then have "validate_graph p s b active provenance = validate_provenance p s b ?prior provenance"
      unfolding unfolded using proposal_okD(4) [OF p] by (simp add: structurally_sound_def)
    then show ?thesis using True by (auto intro!: exI [of _ ?prior])
  next
    case False
    then show ?thesis unfolding unfolded if_not_P [OF False] by (auto simp: make_validation_reject structurally_sound_def)
  qed
qed

lemma validate_graph_eq:
  assumes p: "proposal_ok p" and active: "snapshot_ok active" and m: "matches_binding s b"
    and proofs: "trusted_proofs provenance = Inr proofs"
    and digests: "\<forall>d t. map_of proofs d = Some t \<longrightarrow> is_digest (tp_provenance_digest t)"
  shows "\<exists>d reason. d \<noteq> ACCEPTED \<and> is_reason reason \<and> validate_graph p s b active provenance = Inr
    (if admissible p s b active proofs
     then \<lparr>gv_decision = ACCEPTED, gv_reason_code = ''graph-valid'',
           gv_edges = sort_key edge_order (map (accepted_edge p proofs) (dp_edges p))\<rparr>
     else \<lparr>gv_decision = d, gv_reason_code = reason, gv_edges = []\<rparr>)"
proof (cases "structurally_sound p s b active")
  case True
  then obtain prior where prior: "gs_edges prior = retained_edges active s b"
    and v: "validate_graph p s b active provenance = validate_provenance p s b prior provenance"
    using validate_graph_gate [OF p active m, of provenance] by auto
  obtain reason where "is_reason reason" "validate_provenance p s b prior provenance = Inr
      (if list_all (backed s b proofs) (dp_edges p)
       then \<lparr>gv_decision = ACCEPTED, gv_reason_code = ''graph-valid'',
             gv_edges = sort_key edge_order (map (accepted_edge p proofs) (dp_edges p))\<rparr>
       else \<lparr>gv_decision = REJECTED, gv_reason_code = reason, gv_edges = []\<rparr>)"
    using validate_provenance_eq [OF p proofs digests, where prior = prior and s = s and b = b] True prior
    by (auto simp: structurally_sound_def)
  with True v show ?thesis by (intro exI [of _ REJECTED] exI [of _ reason]) (simp add: admissible_iff)
next
  case False
  then show ?thesis using validate_graph_gate [OF p active m, of provenance] by (auto simp: admissible_iff)
qed

lemma validate_self_related:
  assumes "proposal_ok p" "snapshot_ok active" "matches_binding s b" "list_all provenance_ok provenance"
    and "structurally_sound p s b active" "list_ex self_related provenance"
  shows "validate_graph p s b active provenance = Inl (DependencyReviewError ''source-owned relation is invalid'')"
  using validate_graph_gate [OF assms(1-3), of provenance] trusted_proofs_cases [OF assms(4)] assms(5,6)
  by (auto simp: validate_provenance_def)

lemma provenance_digest_ok: "provenance_ok t \<Longrightarrow> is_digest (tp_provenance_digest t)"
  by (simp add: provenance_ok_def provenance_guards_def)

lemma trusted_digests:
  assumes "list_all provenance_ok provenance" "trusted_proofs provenance = Inr proofs"
  shows "\<forall>d t. map_of proofs d = Some t \<longrightarrow> t \<in> set provenance \<and> is_digest (tp_provenance_digest t)"
  using trusted_proofs_from [OF assms(2)] assms(1) by (auto simp: list_all_iff provenance_digest_ok)

lemma validate_unbound:
  "\<not> matches_binding s b \<Longrightarrow>
   validate_graph p s b active provenance = Inl (DependencyGraphError ''dependency graph binding has drifted'')"
  by (auto simp: validate_graph_def graph_require_subset_def matches_binding_def construct_def)

text \<open>
  C14 (validate_accepts_iff). On well-formed inputs validation accepts exactly the proposals that
  the specification admits: the subset is bound to the same candidate, policy and configuration,
  the proposal names exactly the affected members, its canonical pairs are distinct and new with
  respect to the retained part of the active graph, the union stays acyclic, automatic activation
  is requested without an owner route, and every edge is backed by trusted provenance.
\<close>

theorem validate_accepts_iff:
  assumes "proposal_ok p" "snapshot_ok active" "list_all provenance_ok provenance"
    and "trusted_proofs provenance = Inr proofs"
  shows "(\<exists>v. validate_graph p s b active provenance = Inr v \<and> gv_decision v = ACCEPTED)
    \<longleftrightarrow> matches_binding s b \<and> admissible p s b active proofs"
proof (cases "matches_binding s b")
  case True
  from trusted_digests [OF assms(3,4)]
  have "\<forall>d t. map_of proofs d = Some t \<longrightarrow> is_digest (tp_provenance_digest t)" by blast
  from validate_graph_eq [OF assms(1,2) True assms(4) this] True show ?thesis by (auto split: if_splits)
qed (simp add: validate_unbound)

lemma accepted_edge_guards:
  assumes "proposal_ok p" "e \<in> set (dp_edges p)" "backed s b proofs e"
    and "\<forall>d t. map_of proofs d = Some t \<longrightarrow> is_digest (tp_provenance_digest t)"
  shows "list_all fst (graph_edge_guards (accepted_edge p proofs e))"
  using proposal_okD(1) [OF assms(1)] proposal_okD(2) [OF assms(1,2)] assms(3,4)
  by (cases "pe_direction e"; cases "pe_kind e")
    (auto simp: graph_edge_guards_def accepted_edge_def backed_def proposed_edge_guards_def canonical_pair_def)

text \<open>
  C36 (validate_total_and_typed). On inputs that their constructors returned, validation raises in two cases only: for a
  subset of another candidate, policy or configuration, which is refused as drift, and for a provenance record that
  relates a member to itself, once the proposal has passed every check that needs no provenance, which raises the
  relation's own error. In every other case it returns a value that satisfies the invariants of \<open>GraphValidation\<close>,
  every edge of which satisfies those of \<open>GraphEdge\<close>.
\<close>

theorem validate_total_and_typed:
  assumes "proposal_ok p" "snapshot_ok active" "list_all provenance_ok provenance"
  shows "if \<not> matches_binding s b
    then validate_graph p s b active provenance = Inl (DependencyGraphError ''dependency graph binding has drifted'')
    else if structurally_sound p s b active \<and> list_ex self_related provenance
    then validate_graph p s b active provenance = Inl (DependencyReviewError ''source-owned relation is invalid'')
    else \<exists>v. validate_graph p s b active provenance = Inr v \<and> list_all fst (graph_validation_guards v)
      \<and> list_all (\<lambda>e. list_all fst (graph_edge_guards e)) (gv_edges v)"
proof (cases "matches_binding s b")
  case True
  show ?thesis
  proof (cases "list_ex self_related provenance")
    case self: True
    then show ?thesis
      using validate_self_related [OF assms(1,2) True assms(3)] validate_graph_gate [OF assms(1,2) True, of provenance] True
      by (cases "structurally_sound p s b active") (auto simp: graph_validation_guards_def)
  next
    case False
    then obtain proofs where proofs: "trusted_proofs provenance = Inr proofs" using trusted_proofs_cases [OF assms(3)] by auto
    have dig: "\<forall>d t. map_of proofs d = Some t \<longrightarrow> is_digest (tp_provenance_digest t)"
      using trusted_digests [OF assms(3) proofs] by blast
    have "list_all (\<lambda>e. list_all fst (graph_edge_guards e)) (map (accepted_edge p proofs) (dp_edges p))"
      if "admissible p s b active proofs"
    proof -
      have "\<forall>e\<in>set (dp_edges p). backed s b proofs e" using that by (simp add: admissible_def list_all_iff)
      then show ?thesis unfolding list.pred_map list_all_iff [of _ "dp_edges p"] comp_def
        using accepted_edge_guards [OF assms(1) _ _ dig] by blast
    qed
    with validate_graph_eq [OF assms(1,2) True proofs dig] True False show ?thesis
      by (auto simp: graph_validation_guards_def list_all_iff)
  qed
qed (simp add: validate_unbound)

text \<open>What an accepted validation carries; the shared consequence of the characterisation.\<close>

lemma accepted_validation:
  assumes "proposal_ok p" "snapshot_ok active" "list_all provenance_ok provenance"
    and v: "validate_graph p s b active provenance = Inr v" "gv_decision v = ACCEPTED"
  obtains proofs where "matches_binding s b" "admissible p s b active proofs"
    "gv_edges v = sort_key edge_order (map (accepted_edge p proofs) (dp_edges p))"
    "\<forall>d t. map_of proofs d = Some t \<longrightarrow> t \<in> set provenance \<and> is_digest (tp_provenance_digest t)"
proof -
  have m: "matches_binding s b" using v validate_unbound by fastforce
  have "\<not> (structurally_sound p s b active \<and> list_ex self_related provenance)"
    using validate_self_related [OF assms(1,2) m assms(3)] v by auto
  moreover have "structurally_sound p s b active"
    using validate_graph_gate [OF assms(1,2) m, of provenance] v by (auto split: if_split_asm)
  ultimately obtain proofs where proofs: "trusted_proofs provenance = Inr proofs" using trusted_proofs_cases [OF assms(3)] by auto
  note dig = trusted_digests [OF assms(3) proofs]
  have "\<forall>d t. map_of proofs d = Some t \<longrightarrow> is_digest (tp_provenance_digest t)" using dig by blast
  from validate_graph_eq [OF assms(1,2) m proofs this] v
  have "admissible p s b active proofs" "gv_edges v = sort_key edge_order (map (accepted_edge p proofs) (dp_edges p))"
    by (auto split: if_splits)
  with m dig that show thesis by blast
qed

text \<open>
  A model proposal cannot mint an edge: every edge of an
  accepted validation comes from a proposed edge that is not semantically inferred, and carries
  the digest of a trusted record that agrees with it in kind, direction, members, rationale,
  confidence, conflicts, candidate, policy, configuration, source and member fingerprints.
\<close>

lemma accepted_edges_have_provenance:
  assumes "proposal_ok p" "snapshot_ok active" "list_all provenance_ok provenance"
    and "validate_graph p s b active provenance = Inr v" "gv_decision v = ACCEPTED"
  shows "\<forall>g\<in>set (gv_edges v). \<exists>e\<in>set (dp_edges p). \<exists>t\<in>set provenance.
    edge_pair g = canonical_pair e \<and> ge_kind g = pe_kind e \<and> pe_kind e \<noteq> SEMANTIC_INFERRED
    \<and> ge_proposal_id g = dp_proposal_id p \<and> ge_provenance_digest g = tp_provenance_digest t \<and> proof_matches s b e t"
proof -
  obtain proofs where a: "admissible p s b active proofs"
    "gv_edges v = sort_key edge_order (map (accepted_edge p proofs) (dp_edges p))"
    "\<forall>d t. map_of proofs d = Some t \<longrightarrow> t \<in> set provenance \<and> is_digest (tp_provenance_digest t)"
    using accepted_validation [OF assms] by metis
  show ?thesis
  proof
    fix g
    assume "g \<in> set (gv_edges v)"
    then obtain e where e: "e \<in> set (dp_edges p)" "g = accepted_edge p proofs e" using a(2) by auto
    with a(1) obtain d t where "pe_kind e \<noteq> SEMANTIC_INFERRED" "pe_trusted_relation_digest e = Some d"
      "map_of proofs d = Some t" "proof_matches s b e t"
      by (auto simp: admissible_def list_all_iff backed_def)
    with a(3) e show "\<exists>e\<in>set (dp_edges p). \<exists>t\<in>set provenance. edge_pair g = canonical_pair e \<and> ge_kind g = pe_kind e
        \<and> pe_kind e \<noteq> SEMANTIC_INFERRED \<and> ge_proposal_id g = dp_proposal_id p
        \<and> ge_provenance_digest g = tp_provenance_digest t \<and> proof_matches s b e t"
      by (intro bexI [of _ e] bexI [of _ t]) (auto simp: accepted_edge_def)
  qed
qed

section \<open>The graph across activations\<close>

definition graph_inv :: "graph_snapshot \<Rightarrow> bool" where
  "graph_inv g \<longleftrightarrow> snapshot_ok g
     \<and> list_all (\<lambda>e. list_all fst (graph_edge_guards e)) (gs_edges g)
     \<and> list_all (\<lambda>m. list_all fst (graph_member_guards m) \<and> affected_member_ok (gm_member m)) (gs_members g)
     \<and> distinct (map edge_pair (gs_edges g)) \<and> acyclic (edge_rel (gs_edges g))
     \<and> Field (edge_rel (gs_edges g)) \<subseteq> gm_id ` set (gs_members g)
     \<and> sorted (map gm_id (gs_members g)) \<and> sorted (map edge_order (gs_edges g))
     \<and> gs_proposal_ids g = sort (remdups (map ge_proposal_id (gs_edges g)))"

definition activation_ok :: "activation \<Rightarrow> bool" where
  "activation_ok a \<longleftrightarrow> proposal_ok (ac_proposal a) \<and> affected_subset_ok (ac_subset a)
     \<and> list_all provenance_ok (ac_provenance a) \<and> is_token (ac_version a)"

lemma new_members:
  assumes "affected_subset_ok s"
  shows "traverse (make_graph_member (as_task_id s) (as_snapshot_id s)) (as_members s) =
    Inr (map (\<lambda>m. \<lparr>gm_task_id = as_task_id s, gm_snapshot_id = as_snapshot_id s, gm_member = m\<rparr>) (as_members s))"
proof -
  have "is_token (as_task_id s)" "is_token (as_snapshot_id s)"
    using assms by (simp_all add: affected_subset_ok_def affected_subset_guards_def)
  then have "make_graph_member (as_task_id s) (as_snapshot_id s) m =
      Inr \<lparr>gm_task_id = as_task_id s, gm_snapshot_id = as_snapshot_id s, gm_member = m\<rparr>" for m
    by (simp add: make_graph_member_def Let_def graph_member_guards_def construct_ok)
  then show ?thesis by (simp add: traverse_Inr_iff list_all2_conv_all_nth)
qed

abbreviation subset_members :: "affected_subset \<Rightarrow> graph_member list" where
  "subset_members s \<equiv> map (\<lambda>m. \<lparr>gm_task_id = as_task_id s, gm_snapshot_id = as_snapshot_id s, gm_member = m\<rparr>) (as_members s)"

text \<open>The successor: retained members and edges, then those of the proposal.\<close>

lemma next_snapshot_eq:
  assumes "snapshot_ok active" "affected_subset_ok s"
  shows "next_snapshot active s edges pid b =
    make_snapshot None None (sort_key gm_id (retained_members active s b @ subset_members s))
      (sort_key edge_order (retained_edges active s b @ edges))
      (sort (sort (remdups (map ge_proposal_id (retained_edges active s b))) @ [pid]))"
proof -
  have "replaced_ids (retained_members active s b) s = {}"
    by (auto simp: replaced_ids_def retained_members_def)
  then show ?thesis
    by (simp add: next_snapshot_def baseline_eq [OF assms(1)] new_members [OF assms(2)] Let_def)
qed

lemma edge_rel_sort [simp]: "edge_rel (sort_key f es) = edge_rel es"
  by (simp add: edge_rel_def)

lemma edge_rel_accepted [simp]: "edge_rel (map (accepted_edge p proofs) es) = set (map canonical_pair es)"
  by (simp add: edge_rel_def accepted_edge_def image_image)

lemma canonical_pair_members: "fst (canonical_pair e) \<in> {pe_subject e, pe_object e}" "snd (canonical_pair e) \<in> {pe_subject e, pe_object e}"
  by (cases "pe_direction e"; simp add: canonical_pair_def)+

lemma retained_inv:
  assumes "graph_inv active"
  shows "set (retained_edges active s b) \<subseteq> set (gs_edges active)" "set (retained_members active s b) \<subseteq> set (gs_members active)"
    "distinct (map edge_pair (retained_edges active s b))"
    "Field (edge_rel (retained_edges active s b)) \<subseteq> gm_id ` set (retained_members active s b)"
proof -
  let ?R = "replaced_ids (gs_members active) s"
  have d: "distinct (map gm_id (gs_members active))"
    using assms by (simp add: graph_inv_def snapshot_ok_def graph_snapshot_guards_def)
  show "set (retained_edges active s b) \<subseteq> set (gs_edges active)" "set (retained_members active s b) \<subseteq> set (gs_members active)"
    by (auto simp: retained_edges_def retained_members_def)
  show "distinct (map edge_pair (retained_edges active s b))"
    using assms by (simp add: retained_edges_def graph_inv_def distinct_map_filter)
  show "Field (edge_rel (retained_edges active s b)) \<subseteq> gm_id ` set (retained_members active s b)"
  proof
    fix x
    assume "x \<in> Field (edge_rel (retained_edges active s b))"
    then obtain e where e: "gs_binding active = Some b" "e \<in> set (gs_edges active)" "x \<in> {ge_subject e, ge_object e}" "x \<notin> ?R"
      by (auto simp: Field_def edge_rel_def edge_pair_def retained_edges_def split: if_splits)
    then have "x \<in> Field (edge_rel (gs_edges active))" by (auto simp: Field_def edge_rel_def edge_pair_def image_iff)
    with assms obtain m where m: "m \<in> set (gs_members active)" "x = gm_id m" by (auto simp: graph_inv_def)
    with e replaced_by_task [OF d m(1)] show "x \<in> gm_id ` set (retained_members active s b)"
      by (auto simp: retained_members_def)
  qed
qed

lemma next_snapshot_inv:
  assumes inv: "graph_inv active" and s: "affected_subset_ok s" and p: "proposal_ok p" and version: "is_token version"
    and adm: "admissible p s b active proofs"
    and dig: "\<forall>d t. map_of proofs d = Some t \<longrightarrow> is_digest (tp_provenance_digest t)"
    and succ: "next_snapshot active s (sort_key edge_order (map (accepted_edge p proofs) (dp_edges p))) (dp_proposal_id p) b = Inr g"
  shows "graph_inv (g\<lparr>gs_version_id := Some version, gs_binding := Some b\<rparr>)"
proof -
  let ?old = "retained_edges active s b" and ?new = "map (accepted_edge p proofs) (dp_edges p)"
  let ?edges = "sort_key edge_order (?old @ sort_key edge_order ?new)"
  let ?pids = "sort (sort (remdups (map ge_proposal_id ?old)) @ [dp_proposal_id p])"
  let ?members = "sort_key gm_id (retained_members active s b @ subset_members s)"
  note ret = retained_inv [OF inv, of s b]
  have ok: "snapshot_ok active" using inv by (simp add: graph_inv_def)
  from succ have g: "g = \<lparr>gs_version_id = None, gs_binding = None, gs_members = ?members, gs_edges = ?edges, gs_proposal_ids = ?pids\<rparr>"
    and d: "distinct (map gm_id ?members)" "distinct ?pids"
    unfolding next_snapshot_eq [OF ok s] by (auto simp: make_snapshot_def Let_def graph_snapshot_guards_def)
  have rel: "edge_rel ?edges = edge_rel ?old \<union> set (map canonical_pair (dp_edges p))"
    by (simp add: edge_rel_append)
  have pids: "?pids = sort (remdups (map ge_proposal_id ?edges))"
  proof (rule sorted_distinct_set_unique)
    show "set ?pids = set (sort (remdups (map ge_proposal_id ?edges)))"
      using proposal_okD(3) [OF p] by (simp add: accepted_edge_def image_Un image_image image_constant_conv)
  qed (use d in auto)
  have new_guards: "list_all (\<lambda>e. list_all fst (graph_edge_guards e)) ?new"
    using adm accepted_edge_guards [OF p _ _ dig] unfolding list.pred_map comp_def admissible_def list_all_iff [of _ "dp_edges p"] by blast
  have guards: "list_all (\<lambda>e. list_all fst (graph_edge_guards e)) ?edges"
    using new_guards ret(1) inv unfolding graph_inv_def list_all_iff [of "\<lambda>e. list_all fst (graph_edge_guards e)"] by auto
  have members: "list_all (\<lambda>m. list_all fst (graph_member_guards m) \<and> affected_member_ok (gm_member m)) ?members"
    using ret(2) inv s
    by (auto simp: graph_inv_def list_all_iff affected_subset_ok_def affected_subset_guards_def graph_member_guards_def)
  have distinct: "distinct (map edge_pair ?edges)"
  proof -
    have "distinct (map edge_pair ?old @ map canonical_pair (dp_edges p))"
      using ret(3) adm by (auto simp: admissible_def edge_rel_def)
    moreover have "map edge_pair ?new = map canonical_pair (dp_edges p)" by (simp add: accepted_edge_def)
    ultimately have "distinct (map edge_pair ?old @ map edge_pair ?new)" by (simp only:)
    then show ?thesis unfolding distinct_map_sort map_append distinct_append set_map set_sort .
  qed
  have fields: "Field (edge_rel ?edges) \<subseteq> gm_id ` set ?members"
  proof -
    have "Field (set (map canonical_pair (dp_edges p))) \<subseteq> (\<Union>e\<in>set (dp_edges p). {pe_subject e, pe_object e})"
    proof
      fix x
      assume "x \<in> Field (set (map canonical_pair (dp_edges p)))"
      then obtain e where "e \<in> set (dp_edges p)" "x = fst (canonical_pair e) \<or> x = snd (canonical_pair e)"
        by (auto simp: Field_def Domain_iff Range_iff image_iff) (metis fst_conv, metis snd_conv)
      with canonical_pair_members [of e] show "x \<in> (\<Union>e\<in>set (dp_edges p). {pe_subject e, pe_object e})" by auto
    qed
    also have "\<dots> \<subseteq> gm_id ` set (subset_members s)" using adm by (simp add: admissible_def subset_complete_def image_image)
    finally show ?thesis unfolding rel Field_Un set_sort set_append image_Un using ret(4) by blast
  qed
  have "acyclic (edge_rel ?edges)" unfolding rel using adm by (simp add: admissible_def)
  moreover have "snapshot_ok (g\<lparr>gs_version_id := Some version, gs_binding := Some b\<rparr>)"
    using d version by (simp add: snapshot_ok_def graph_snapshot_guards_def g)
  ultimately show ?thesis
    unfolding graph_inv_def using guards members distinct fields pids by (simp add: g)
qed

lemma graph_inv_empty [simp]: "graph_inv empty_snapshot"
  by (simp add: graph_inv_def) (simp add: empty_snapshot_def edge_rel_def acyclic_def)

lemma current_after_inv:
  assumes inv: "graph_inv active" and a: "activation_ok a"
  shows "graph_inv (current_after active a)"
proof (cases "advance active a")
  case (Inr r)
  obtain v g where r: "r = (v, g)" by (cases r)
  from Inr r have v: "validate_graph (ac_proposal a) (ac_subset a) (ac_binding a) active (ac_provenance a) = Inr v"
    by (auto simp: advance_def bind_result_Inr_iff split: if_splits)
  show ?thesis
  proof (cases "gv_decision v = ACCEPTED")
    case True
    from a have ok: "proposal_ok (ac_proposal a)" "affected_subset_ok (ac_subset a)" "list_all provenance_ok (ac_provenance a)"
      "is_token (ac_version a)" by (simp_all add: activation_ok_def)
    have "snapshot_ok active" using inv by (simp add: graph_inv_def)
    then obtain proofs where adm: "admissible (ac_proposal a) (ac_subset a) (ac_binding a) active proofs"
      "gv_edges v = sort_key edge_order (map (accepted_edge (ac_proposal a) proofs) (dp_edges (ac_proposal a)))"
      "\<forall>d t. map_of proofs d = Some t \<longrightarrow> is_digest (tp_provenance_digest t)"
      using accepted_validation [OF ok(1) _ ok(3) v True] by metis
    from Inr r v True obtain h where
      h: "next_snapshot active (ac_subset a) (gv_edges v) (dp_proposal_id (ac_proposal a)) (ac_binding a) = Inr h"
      and g: "g = h\<lparr>gs_version_id := Some (ac_version a), gs_binding := Some (ac_binding a)\<rparr>"
      by (auto simp: advance_def bind_result_Inr_iff)
    from next_snapshot_inv [OF inv ok(2,1,4) adm(1,3) h [unfolded adm(2)]] Inr r g show ?thesis
      by (simp add: current_after_def)
  next
    case False
    with Inr r v inv show ?thesis by (auto simp: current_after_def advance_def)
  qed
qed (use inv in \<open>simp add: current_after_def\<close>)

text \<open>The activations of a repository, one after the other, as a transition system.\<close>

inductive graph_step :: "graph_snapshot \<Rightarrow> activation \<Rightarrow> graph_snapshot \<Rightarrow> bool" where
  graph_step: "activation_ok a \<Longrightarrow> graph_step active a (current_after active a)"

inductive_cases graph_stepE: "graph_step active a g"

interpretation graph: invariant_system "\<lambda>g. g = empty_snapshot" graph_step graph_inv
  by unfold_locales (auto elim!: graph_stepE intro: current_after_inv)

lemma run_reaches: "list_all activation_ok as \<Longrightarrow> graph.reaches empty_snapshot as (foldl current_after empty_snapshot as)"
proof (induction as rule: rev_induct)
  case (snoc a as)
  then show ?case by (auto intro!: graph.reaches_snoc graph_step)
qed (auto intro: graph.reaches_nil)

text \<open>
  C15 (graph_stays_sound). From the empty graph, after any sequence of activations (accepted,
  refused or raising), the current graph is acyclic, has no two edges with the same endpoints,
  relates only its own members, and carries distinct members, well-formed edges and exactly the
  proposals that its edges come from.
\<close>

theorem graph_stays_sound:
  assumes "list_all activation_ok as" "g = foldl current_after empty_snapshot as"
  shows "acyclic (edge_rel (gs_edges g)) \<and> distinct (map edge_pair (gs_edges g))
    \<and> Field (edge_rel (gs_edges g)) \<subseteq> gm_id ` set (gs_members g) \<and> distinct (map gm_id (gs_members g))
    \<and> list_all (\<lambda>e. list_all fst (graph_edge_guards e)) (gs_edges g)
    \<and> gs_proposal_ids g = sort (remdups (map ge_proposal_id (gs_edges g)))"
proof -
  have "graph_inv g" using graph.reachable_inv [OF run_reaches [OF assms(1)]] assms(2) by simp
  then show ?thesis by (simp add: graph_inv_def snapshot_ok_def graph_snapshot_guards_def)
qed

section \<open>Versions in the tables\<close>

definition tables_ok :: "graph_tables \<Rightarrow> bool" where
  "tables_ok db \<longleftrightarrow> set (map mr_version (member_rows db)) \<subseteq> set (map vr_version (version_rows db))
     \<and> set (map er_version (edge_rows db)) \<subseteq> set (map vr_version (version_rows db))"

lemma insert_members_eq:
  "insert_all insert_member rs db = Inr db' \<Longrightarrow> db' = db\<lparr>member_rows := member_rows db @ rs\<rparr>"
proof (induction rs arbitrary: db)
  case (Cons r rs)
  then obtain db1 where db1: "insert_member r db = Inr db1" "insert_all insert_member rs db1 = Inr db'"
    by (auto simp: bind_result_Inr_iff)
  from db1(1) have "db1 = db\<lparr>member_rows := member_rows db @ [r]\<rparr>" by (simp add: insert_member_def)
  with Cons.IH [OF db1(2)] show ?case by simp
qed simp

lemma insert_edges_eq:
  "insert_all insert_edge rs db = Inr db' \<Longrightarrow> db' = db\<lparr>edge_rows := edge_rows db @ rs\<rparr>"
proof (induction rs arbitrary: db)
  case (Cons r rs)
  then obtain db1 where db1: "insert_edge r db = Inr db1" "insert_all insert_edge rs db1 = Inr db'"
    by (auto simp: bind_result_Inr_iff)
  from db1(1) have "db1 = db\<lparr>edge_rows := edge_rows db @ [r]\<rparr>" by (simp add: insert_edge_def)
  with Cons.IH [OF db1(2)] show ?case by simp
qed simp

lemma write_version_eq:
  assumes "write_version v predecessor g b db = Inr db'"
  shows "v \<notin> set (map vr_version (version_rows db))
    \<and> db' = db\<lparr>version_rows := version_rows db @ [version_row_of v predecessor g b],
      member_rows := member_rows db @ map (member_row_of v) (gs_members g),
      edge_rows := edge_rows db @ map (edge_row_of v) (gs_edges g)\<rparr>"
proof -
  from assms obtain db1 db2 where "insert_version (version_row_of v predecessor g b) db = Inr db1"
    "insert_all insert_member (map (member_row_of v) (gs_members g)) db1 = Inr db2"
    "insert_all insert_edge (map (edge_row_of v) (gs_edges g)) db2 = Inr db'"
    by (auto simp: write_version_def bind_result_Inr_iff)
  with insert_members_eq [OF this(2)] insert_edges_eq [OF this(3)] show ?thesis
    by (simp add: insert_version_def version_row_of_def)
qed

lemma read_member_row:
  "list_all fst (graph_member_guards m) \<Longrightarrow> affected_member_ok (gm_member m) \<Longrightarrow> read_member (member_row_of v m) = Inr m"
  by (cases m; cases "gm_member m")
    (simp add: read_member_def member_row_of_def make_graph_member_def Let_def affected_member_ok_def construct_ok)

lemma read_edge_row: "list_all fst (graph_edge_guards e) \<Longrightarrow> read_edge (edge_row_of v e) = Inr e"
  by (cases e) (simp add: read_edge_def edge_row_of_def make_edge_def Let_def construct_ok)

lemma sorted_pairs: "sorted (map edge_order es) \<Longrightarrow> sorted (map edge_pair es)"
  by (induction es) (auto simp: edge_order_def edge_pair_def less_eq_prod_def)

lemma graph_digest_version [simp]:
  "graph_digest (g\<lparr>gs_version_id := x, gs_binding := y\<rparr>) = graph_digest g"
  "proposal_set_digest (g\<lparr>gs_version_id := x, gs_binding := y\<rparr>) = proposal_set_digest g"
  by (simp_all add: graph_digest_def proposal_set_digest_def)

lemma read_version_rows:
  assumes inv: "graph_inv g" and v: "is_token v" and b: "list_all fst (graph_binding_guards b)"
    and row: "List.find (\<lambda>r. vr_version r = v) (version_rows db) = Some (version_row_of v predecessor g b)"
    and ms: "filter (\<lambda>r. mr_version r = v) (member_rows db) = map (member_row_of v) (gs_members g)"
    and es: "filter (\<lambda>r. er_version r = v) (edge_rows db) = map (edge_row_of v) (gs_edges g)"
  shows "read_version v db = Inr (g\<lparr>gs_version_id := Some v, gs_binding := Some b\<rparr>, predecessor)"
proof -
  let ?g = "g\<lparr>gs_version_id := Some v, gs_binding := Some b\<rparr>"
  have "sort_key mr_member_id (map (member_row_of v) (gs_members g)) = map (member_row_of v) (gs_members g)"
    using inv by (intro sort_key_id_if_sorted) (simp add: graph_inv_def comp_def member_row_of_def)
  moreover have "traverse read_member (map (member_row_of v) (gs_members g)) = Inr (gs_members g)"
    using inv by (simp add: traverse_Inr_iff list_all2_conv_all_nth read_member_row graph_inv_def list_all_length)
  ultimately have m: "traverse read_member (sort_key mr_member_id (filter (\<lambda>r. mr_version r = v) (member_rows db))) = Inr (gs_members g)"
    unfolding ms by simp
  have "sort_key (\<lambda>r. (er_subject r, er_object r)) (map (edge_row_of v) (gs_edges g)) = map (edge_row_of v) (gs_edges g)"
    using inv sorted_pairs [of "gs_edges g"]
    by (intro sort_key_id_if_sorted) (simp add: graph_inv_def comp_def edge_row_of_def edge_pair_def [abs_def])
  moreover have "traverse read_edge (map (edge_row_of v) (gs_edges g)) = Inr (gs_edges g)"
    using inv by (simp add: traverse_Inr_iff list_all2_conv_all_nth read_edge_row graph_inv_def list_all_length)
  ultimately have e: "traverse read_edge (sort_key (\<lambda>r. (er_subject r, er_object r)) (filter (\<lambda>r. er_version r = v) (edge_rows db))) = Inr (gs_edges g)"
    unfolding es by simp
  have pids: "sort (remdups (map er_proposal_id (filter (\<lambda>r. er_version r = v) (edge_rows db)))) = gs_proposal_ids g"
    unfolding es using inv by (simp add: comp_def edge_row_of_def graph_inv_def)
  have "snapshot_ok ?g" using inv v by (simp add: graph_inv_def snapshot_ok_def graph_snapshot_guards_def)
  then have mk: "make_snapshot (Some v) (Some b) (gs_members g) (gs_edges g) (gs_proposal_ids g) = Inr ?g"
    by (cases g) (simp add: make_snapshot_def Let_def snapshot_ok_def construct_ok)
  have bind: "\<lparr>gb_candidate_sha = gb_candidate_sha b, gb_policy_digest = gb_policy_digest b,
      gb_configuration_digest = gb_configuration_digest b, gb_validator_digest = gb_validator_digest b\<rparr> = b"
    by simp
  have "acyclic (edge_rel (gs_edges ?g))" using inv by (simp add: graph_inv_def)
  with row m e pids mk b show ?thesis
    by (simp add: read_version_def version_row_of_def Let_def bind construct_ok)
qed

lemma written_version_reads_back:
  assumes "tables_ok db" "graph_inv g" "is_token v" "list_all fst (graph_binding_guards b)"
    and "write_version v predecessor g b db = Inr db'"
  shows "read_version v db' = Inr (g\<lparr>gs_version_id := Some v, gs_binding := Some b\<rparr>, predecessor)"
proof -
  from write_version_eq [OF assms(5)] have fresh: "v \<notin> set (map vr_version (version_rows db))"
    and db': "db' = db\<lparr>version_rows := version_rows db @ [version_row_of v predecessor g b],
      member_rows := member_rows db @ map (member_row_of v) (gs_members g),
      edge_rows := edge_rows db @ map (edge_row_of v) (gs_edges g)\<rparr>" by auto
  have none: "filter (\<lambda>r. mr_version r = v) (member_rows db) = []" "filter (\<lambda>r. er_version r = v) (edge_rows db) = []"
    "List.find (\<lambda>r. vr_version r = v) (version_rows db) = None"
    using fresh assms(1) by (auto simp: tables_ok_def filter_empty_conv find_None_iff)
  have "List.find (\<lambda>r. vr_version r = v) (xs @ [version_row_of v predecessor g b]) = Some (version_row_of v predecessor g b)"
    if "List.find (\<lambda>r. vr_version r = v) xs = None" for xs
    using that by (induction xs) (auto simp: version_row_of_def split: if_splits)
  with none assms(2-4) show ?thesis
    by (intro read_version_rows) (auto simp: db' member_row_of_def edge_row_of_def comp_def)
qed

lemma other_versions_kept:
  assumes "write_version v predecessor g b db = Inr db'" "w \<noteq> v"
  shows "read_version w db' = read_version w db"
proof -
  from write_version_eq [OF assms(1)] have db': "db' = db\<lparr>version_rows := version_rows db @ [version_row_of v predecessor g b],
      member_rows := member_rows db @ map (member_row_of v) (gs_members g),
      edge_rows := edge_rows db @ map (edge_row_of v) (gs_edges g)\<rparr>" by simp
  have "List.find (\<lambda>r. vr_version r = w) (xs @ [version_row_of v predecessor g b]) = List.find (\<lambda>r. vr_version r = w) xs" for xs
    using assms(2) by (induction xs) (auto simp: version_row_of_def)
  then have "List.find (\<lambda>r. vr_version r = w) (version_rows db') = List.find (\<lambda>r. vr_version r = w) (version_rows db)"
    by (simp add: db')
  moreover have "filter (\<lambda>r. mr_version r = w) (member_rows db') = filter (\<lambda>r. mr_version r = w) (member_rows db)"
    using assms(2) by (simp add: db' filter_empty_conv member_row_of_def)
  moreover have "filter (\<lambda>r. er_version r = w) (edge_rows db') = filter (\<lambda>r. er_version r = w) (edge_rows db)"
    using assms(2) by (simp add: db' filter_empty_conv edge_row_of_def)
  ultimately show ?thesis unfolding read_version_def by (simp only:)
qed

text \<open>
  Writing a sound snapshot under a new version and reading that
  version back from the tables yields the snapshot under its version and binding, together with
  its predecessor: all drift checks on the way (constructors, both digests, acyclicity) pass. The
  rows of every other version are untouched, so history reads as before.
\<close>

lemma graph_version_round_trip:
  assumes "tables_ok db" "graph_inv g" "is_token v" "list_all fst (graph_binding_guards b)"
    and "write_version v predecessor g b db = Inr db'"
  shows "read_version v db' = Inr (g\<lparr>gs_version_id := Some v, gs_binding := Some b\<rparr>, predecessor)
    \<and> tables_ok db' \<and> (\<forall>w. w \<noteq> v \<longrightarrow> read_version w db' = read_version w db)"
proof -
  have "tables_ok db'"
    using write_version_eq [OF assms(5)] assms(1)
    by (auto simp: tables_ok_def member_row_of_def edge_row_of_def version_row_of_def)
  with written_version_reads_back [OF assms] other_versions_kept [OF assms(5)] show ?thesis by blast
qed

section \<open>A sample activation\<close>

text \<open>Two members of one task, one explicit source relation between them, and a proposal that cites it.\<close>

definition sample_hex :: "char \<Rightarrow> string" where
  "sample_hex c = ''sha256:'' @ replicate 64 c"

definition sample_subset :: affected_subset where
  "sample_subset = \<lparr>as_snapshot_id = ''snapshot'', as_task_id = ''task'', as_source_digest = replicate 64 CHR ''1'',
     as_candidate_sha = replicate 40 CHR ''2'', as_policy_digest = sample_hex CHR ''3'',
     as_configuration_digest = sample_hex CHR ''4'', as_boundary_digest = sample_hex CHR ''5'',
     as_creation_reason = ''scan'', as_members =
       [\<lparr>member_id = ''a'', member_fingerprint = sample_hex CHR ''6'', member_content_digest = sample_hex CHR ''7''\<rparr>,
        \<lparr>member_id = ''b'', member_fingerprint = sample_hex CHR ''8'', member_content_digest = sample_hex CHR ''9''\<rparr>]\<rparr>"

definition sample_binding :: dependency_graph_binding where
  "sample_binding = \<lparr>gb_candidate_sha = replicate 40 CHR ''2'', gb_policy_digest = sample_hex CHR ''3'',
     gb_configuration_digest = sample_hex CHR ''4'', gb_validator_digest = VALIDATOR_DIGEST\<rparr>"

definition sample_relation :: source_owned_relation where
  "sample_relation = \<lparr>so_kind = EXPLICIT, so_direction = DEPENDS_ON, so_subject = ''a'', so_object = ''b'',
     so_rationale_digest = sample_hex CHR ''c'', so_confidence = HIGH, so_conflicts_digest = sample_hex CHR ''d''\<rparr>"

definition sample_unsealed :: trusted_edge_provenance where
  "sample_unsealed = \<lparr>tp_kind = EXPLICIT, tp_direction = DEPENDS_ON, tp_subject = ''a'', tp_object = ''b'',
     tp_rationale_digest = sample_hex CHR ''c'', tp_confidence = ''high'', tp_conflicts_digest = sample_hex CHR ''d'',
     tp_candidate_sha = replicate 40 CHR ''2'', tp_policy_digest = sample_hex CHR ''3'',
     tp_configuration_digest = sample_hex CHR ''4'', tp_source_digest = replicate 64 CHR ''1'',
     tp_subject_fingerprint = sample_hex CHR ''6'', tp_object_fingerprint = sample_hex CHR ''8'', tp_provenance_digest = []\<rparr>"

definition sample_provenance :: trusted_edge_provenance where
  "sample_provenance = sample_unsealed\<lparr>tp_provenance_digest := digest_value (JObj (provenance_payload sample_unsealed))\<rparr>"

definition sample_self_related :: trusted_edge_provenance where
  "sample_self_related = sample_unsealed\<lparr>tp_object := ''a'',
     tp_provenance_digest := digest_value (JObj (provenance_payload (sample_unsealed\<lparr>tp_object := ''a''\<rparr>)))\<rparr>"

definition sample_proposal :: dependency_proposal where
  "sample_proposal = \<lparr>dp_proposal_id = ''p1'', dp_attempt_id = ''t1'', dp_disposition = AUTO_ACTIVATE,
     dp_owner_route = ''not-required'', dp_edges =
       [\<lparr>pe_kind = EXPLICIT, pe_direction = DEPENDS_ON, pe_subject = ''a'', pe_object = ''b'',
         pe_rationale_digest = sample_hex CHR ''c'', pe_confidence = HIGH, pe_conflicts_digest = sample_hex CHR ''d'',
         pe_trusted_relation_digest = Some (relation_digest sample_relation)\<rparr>]\<rparr>"

definition sample_activation :: activation where
  "sample_activation = \<lparr>ac_proposal = sample_proposal, ac_subset = sample_subset, ac_binding = sample_binding,
     ac_provenance = [sample_provenance], ac_version = ''v1''\<rparr>"

lemma sample_hex_digest [simp]: "is_digest (sample_hex c) = is_hex c"
  unfolding sample_hex_def is_digest_prefixed is_fingerprint_replicate ..

lemma sample_hex_inj [simp]: "sample_hex c = sample_hex d \<longleftrightarrow> c = d"
  by (simp add: sample_hex_def)

lemma relation_digest_ok [simp]: "is_digest (relation_digest r)"
  by (simp add: relation_digest_def)

lemmas sample_lexical = is_hex_def is_token_def is_token_char_def is_reason_def is_lower_def is_digit_def less_eq_char_def

lemma sample_proposal_ok: "proposal_ok sample_proposal"
  by (simp add: proposal_ok_def proposal_guards_def proposed_edge_guards_def sample_proposal_def proposal_semantic_def sample_lexical)

lemma sample_subset_ok: "affected_subset_ok sample_subset"
  by (simp add: affected_subset_ok_def affected_subset_guards_def affected_member_ok_def affected_member_guards_def
      sample_subset_def sample_lexical)

lemma sample_payload: "provenance_payload sample_provenance = provenance_payload sample_unsealed"
  by (simp add: sample_provenance_def provenance_payload_def)

lemma sample_self_payload: "provenance_payload sample_self_related = provenance_payload (sample_unsealed\<lparr>tp_object := ''a''\<rparr>)"
  by (simp add: sample_self_related_def provenance_payload_def)

lemma sample_provenance_ok: "provenance_ok sample_provenance"
  unfolding provenance_ok_def provenance_guards_def sample_payload
  by (simp add: sample_provenance_def) (simp add: sample_unsealed_def sample_lexical)

lemma sample_self_related_ok: "provenance_ok sample_self_related"
  unfolding provenance_ok_def provenance_guards_def sample_self_payload
  by (simp add: sample_self_related_def) (simp add: sample_unsealed_def sample_lexical)

lemma sample_self_related: "self_related sample_self_related" "\<not> self_related sample_provenance"
  by (simp_all add: self_related_def sample_self_related_def sample_provenance_def sample_unsealed_def)

lemma sample_proofs: "trusted_proofs [sample_provenance] = Inr [(relation_digest sample_relation, sample_provenance)]"
  by (simp add: trusted_proofs_def keyed_proof_def sample_provenance_def sample_unsealed_def sample_relation_def enum_of_def
      Let_def source_relation_guards_def construct_ok py_dict_def sample_lexical)

lemma sample_matches: "matches_binding sample_subset sample_binding"
  by (simp add: matches_binding_def sample_subset_def sample_binding_def)

lemma single_edge_acyclic: "x \<noteq> y \<Longrightarrow> acyclic {(x, y)}"
  using acyclic_insert [of x y "{}"] by (simp add: acyclic_def)

lemma sample_admissible:
  "admissible sample_proposal sample_subset sample_binding empty_snapshot [(relation_digest sample_relation, sample_provenance)]"
proof -
  have "acyclic {(''a'', ''b'')}" by (rule single_edge_acyclic) simp
  moreover have "list_all (backed sample_subset sample_binding [(relation_digest sample_relation, sample_provenance)]) (dp_edges sample_proposal)"
    by (simp add: sample_proposal_def backed_def proof_matches_def sample_provenance_def sample_unsealed_def sample_binding_def
        expected_source_def sample_subset_def member_lookup_def py_dict_def)
  ultimately show ?thesis
    by (auto simp: admissible_def subset_complete_def sample_proposal_def sample_subset_def canonical_pair_def edge_rel_def)
qed

lemma sample_accepted:
  "\<exists>v. validate_graph sample_proposal sample_subset sample_binding empty_snapshot [sample_provenance] = Inr v \<and> gv_decision v = ACCEPTED"
proof -
  have "list_all provenance_ok [sample_provenance]" using sample_provenance_ok by simp
  from trusted_digests [OF this sample_proofs]
  have "\<forall>d t. map_of [(relation_digest sample_relation, sample_provenance)] d = Some t \<longrightarrow> is_digest (tp_provenance_digest t)" by blast
  from validate_graph_eq [OF sample_proposal_ok snapshot_ok_empty sample_matches sample_proofs this] sample_admissible
  show ?thesis by auto
qed

text \<open>A graph of one edge between two members, for the tables.\<close>

definition sample_graph :: graph_snapshot where
  "sample_graph = \<lparr>gs_version_id = None, gs_binding = None, gs_members = subset_members sample_subset,
     gs_edges = [\<lparr>ge_subject = ''a'', ge_object = ''b'', ge_kind = EXPLICIT, ge_proposal_id = ''p1'', ge_provenance_digest = sample_hex CHR ''e''\<rparr>],
     gs_proposal_ids = [''p1'']\<rparr>"

definition sample_tables :: graph_tables where
  "sample_tables = \<lparr>version_rows = [], member_rows = [], edge_rows = [], current_row = None,
     task_ids = [''task''], subset_ids = [''snapshot''], proposal_rows = [''p1'']\<rparr>"

lemma sample_graph_inv: "graph_inv sample_graph"
proof -
  have "acyclic {(''a'', ''b'')}" by (rule single_edge_acyclic) simp
  then show ?thesis
    by (simp add: graph_inv_def sample_graph_def sample_subset_def snapshot_ok_def graph_snapshot_guards_def graph_edge_guards_def
        graph_member_guards_def affected_member_ok_def affected_member_guards_def edge_rel_def sample_lexical)
qed

lemma sample_write: "\<exists>db'. write_version ''v1'' None sample_graph sample_binding sample_tables = Inr db'"
  by (simp add: write_version_def insert_version_def version_row_of_def insert_member_def member_row_of_def insert_edge_def
      edge_row_of_def sample_graph_def sample_subset_def sample_tables_def construct_ok)

text \<open>Witnesses.\<close>

theorem cycle_search_decides_witness:
  "search_cycle [(''a'', [''b'']), (''b'', [])] = Inr False
   \<and> enumerates [(''a'', [''b'']), (''b'', [])] (gs_edges sample_graph)"
proof -
  let ?adj = "[(''a'', [''b'']), (''b'', [])]"
  have e: "enumerates ?adj (gs_edges sample_graph)"
    by (auto simp: enumerates_def sample_graph_def edge_rel_def successor_rel_def split: if_splits)
  have "acyclic (edge_rel (gs_edges sample_graph))" using sample_graph_inv by (simp add: graph_inv_def)
  with e cycle_search_decides [of ?adj "gs_edges sample_graph"] show ?thesis by simp
qed

theorem validate_accepts_iff_witness:
  "matches_binding sample_subset sample_binding
   \<and> (\<exists>v. validate_graph sample_proposal sample_subset sample_binding empty_snapshot [sample_provenance] = Inr v \<and> gv_decision v = ACCEPTED)"
  using validate_accepts_iff [OF sample_proposal_ok snapshot_ok_empty _ sample_proofs, of sample_subset sample_binding]
    sample_provenance_ok sample_matches sample_admissible by simp

theorem validate_total_and_typed_witness:
  "(\<exists>v. validate_graph sample_proposal sample_subset sample_binding empty_snapshot [sample_provenance] = Inr v
    \<and> list_all fst (graph_validation_guards v))
   \<and> validate_graph sample_proposal sample_subset sample_binding empty_snapshot [sample_self_related] = Inl (DependencyReviewError ''source-owned relation is invalid'')"
proof -
  note total = validate_total_and_typed [OF sample_proposal_ok snapshot_ok_empty]
  have "structurally_sound sample_proposal sample_subset sample_binding empty_snapshot" using sample_admissible by (simp add: admissible_iff)
  then show ?thesis
    using total [of "[sample_provenance]" sample_subset sample_binding] total [of "[sample_self_related]" sample_subset sample_binding]
      sample_provenance_ok sample_self_related_ok sample_matches sample_self_related by auto
qed

theorem graph_stays_sound_witness:
  "list_all activation_ok [sample_activation]
   \<and> acyclic (edge_rel (gs_edges (foldl current_after empty_snapshot [sample_activation])))"
proof -
  have "list_all activation_ok [sample_activation]"
    using sample_proposal_ok sample_subset_ok sample_provenance_ok
    by (simp add: activation_ok_def sample_activation_def sample_lexical)
  with graph_stays_sound [OF this refl] show ?thesis by blast
qed

end
