(* ===== verification/Candidate_Seal.thy ===== *)
theory Candidate_Seal
  imports Runtime_Binding
begin

text \<open>
  \<open>git_identity.py\<close>, candidate sealing: the seal that names the exact commit under review, and the
  operations that drop every piece of evidence as soon as the worktree no longer shows that commit.

  What the operations observe outside the tables they change is a \<open>git_world\<close>: the answers of Git,
  the lease row, the state identity and the clock. The checks of \<open>revalidate_worktree\<close> are one
  observation, since all they do is to raise; \<open>gw_binding\<close> says where they raised, because only a
  failure after the lease was checked drops the candidate.
\<close>

section \<open>Data\<close>

datatype gate_error = GitIdentityError string | GateError string | StateError string

type_synonym 'a gate_result = "gate_error + 'a"

record transition_lease =
  tl_repository_id :: string
  tl_state_identity :: string
  tl_owner :: string
  tl_generation :: int
  tl_expires_at :: int

record worktree_binding =
  wb_task_id :: string
  wb_repository_id :: string
  wb_branch :: string
  wb_worktree :: string
  wb_base_sha :: string
  wb_state_identity :: string

record candidate_seal =
  sl_task_id :: string
  sl_base_sha :: string
  sl_candidate_sha :: string
  sl_state_identity :: string

record task_identity =
  ti_task_id :: string
  ti_source_id :: string
  ti_repository_id :: string
  ti_branch :: string
  ti_worktree :: string
  ti_base_sha :: string

text \<open>The rows of \<open>gate_contexts\<close> and \<open>gate_evidence\<close>; their keys are in the tables.\<close>

record context_row =
  cx_source_count :: int
  cx_isolated_local_task :: bool
  cx_policy_digest :: string
  cx_receipt_fingerprint :: string
  cx_runtime_binding :: runtime_binding
  cx_selected_supervisor_profile_identity :: string
  cx_dependency_graph_version_id :: string
  cx_dependency_graph_decision_digest :: string
  cx_policy_activated_at :: string
  cx_terminal_dependency_binding :: string

record evidence_row =
  ev_outcome :: string
  ev_evaluated_at :: int
  ev_changed_boundary :: "string option"
  ev_reason :: "string option"
  ev_follow_ups :: json

text \<open>A candidate key is task and commit; an evidence key adds gate, evaluator and fingerprint.\<close>

type_synonym candidate_key = "string \<times> string"
type_synonym evidence_key = "candidate_key \<times> string \<times> string \<times> string"

record gate_tables =
  candidate_seals :: "(string \<times> (string \<times> string \<times> string)) list"
  candidate_evidence_rows :: "(candidate_key \<times> string) list"
  gate_contexts :: "(candidate_key \<times> context_row) list"
  gate_evidence_rows :: "(evidence_key \<times> evidence_row) list"

datatype binding_check = BindingVerified | BindingRefused gate_error | BindingDrifted gate_error

record git_world =
  gw_binding :: binding_check
  gw_dirty :: "bool gate_result"
  gw_head :: "string gate_result"
  gw_lease_row :: "transition_lease option"
  gw_state_id :: string
  gw_now :: int

section \<open>Leases\<close>

definition lease_failure :: "git_world \<Rightarrow> transition_lease option \<Rightarrow> string \<Rightarrow> string option" where
  "lease_failure w lease repository_id = (case lease of
       None \<Rightarrow> Some ''a current transition lease is required''
     | Some l \<Rightarrow> first_failure
         [(gw_lease_row w = Some l, ''transition lease ownership has drifted''),
          (tl_repository_id l = repository_id, ''transition lease does not match the task repository''),
          (gw_state_id w = tl_state_identity l, ''transition lease state identity has drifted''),
          (gw_now w < tl_expires_at l, ''transition lease is stale and requires owner recovery'')])"

definition require_current_lease :: "git_world \<Rightarrow> transition_lease option \<Rightarrow> string \<Rightarrow> unit gate_result" where
  "require_current_lease w lease repository_id = (case lease_failure w lease repository_id of
     None \<Rightarrow> Inr () | Some why \<Rightarrow> Inl (GitIdentityError why))"

definition require_current_transition_lease :: "git_world \<Rightarrow> transition_lease option \<Rightarrow> string \<Rightarrow> unit gate_result" where
  "require_current_transition_lease w lease repository_id = (case lease_failure w lease repository_id of
     None \<Rightarrow> Inr () | Some why \<Rightarrow> Inl (StateError why))"

section \<open>Sealing and invalidation\<close>

text \<open>The four deletions of \<open>_invalidate_candidate\<close>; \<open>seal_candidate\<close> makes the first three.\<close>

definition drop_evidence :: "string \<Rightarrow> gate_tables \<Rightarrow> gate_tables" where
  "drop_evidence task t = t
     \<lparr>candidate_evidence_rows := filter (\<lambda>((k, _), _). k \<noteq> task) (candidate_evidence_rows t),
      gate_evidence_rows := filter (\<lambda>(((k, _), _), _). k \<noteq> task) (gate_evidence_rows t),
      gate_contexts := filter (\<lambda>((k, _), _). k \<noteq> task) (gate_contexts t)\<rparr>"

definition drop_seal :: "string \<Rightarrow> gate_tables \<Rightarrow> gate_tables" where
  "drop_seal task t = t\<lparr>candidate_seals := filter (\<lambda>(k, _). k \<noteq> task) (candidate_seals t)\<rparr>"

definition invalidate_candidate ::
  "git_world \<Rightarrow> worktree_binding \<Rightarrow> transition_lease option \<Rightarrow> gate_tables \<Rightarrow> gate_tables \<times> unit gate_result" where
  "invalidate_candidate w b lease t = (case require_current_lease w lease (wb_repository_id b) of
       Inl e \<Rightarrow> (t, Inl e)
     | Inr _ \<Rightarrow>
       if wb_state_identity b \<noteq> tl_state_identity (the lease)
       then (t, Inl (GitIdentityError ''candidate state identity has drifted''))
       else (drop_seal (wb_task_id b) (drop_evidence (wb_task_id b) t), Inr ()))"

text \<open>An invalidation that fails raises its own error, otherwise the error that caused it.\<close>

definition invalidate_and_raise ::
  "git_world \<Rightarrow> worktree_binding \<Rightarrow> transition_lease option \<Rightarrow> gate_error \<Rightarrow> gate_tables
     \<Rightarrow> gate_tables \<times> 'a gate_result" where
  "invalidate_and_raise w b lease e t =
     (case invalidate_candidate w b lease t of (t', Inl e') \<Rightarrow> (t', Inl e') | (t', Inr _) \<Rightarrow> (t', Inl e))"

definition revalidate_live_candidate_binding ::
  "git_world \<Rightarrow> worktree_binding \<Rightarrow> transition_lease option \<Rightarrow> gate_tables \<Rightarrow> gate_tables \<times> unit gate_result" where
  "revalidate_live_candidate_binding w b lease t = (case gw_binding w of
       BindingRefused e \<Rightarrow> (t, Inl e)
     | BindingDrifted e \<Rightarrow> invalidate_and_raise w b lease e t
     | BindingVerified \<Rightarrow> (t, Inr ()))"

definition require_live_candidate ::
  "git_world \<Rightarrow> worktree_binding \<Rightarrow> candidate_seal \<Rightarrow> transition_lease option \<Rightarrow> gate_tables
     \<Rightarrow> gate_tables \<times> unit gate_result" where
  "require_live_candidate w b s lease t = (case revalidate_live_candidate_binding w b lease t of
       (t', Inl e) \<Rightarrow> (t', Inl e)
     | (t', Inr _) \<Rightarrow>
       if wb_task_id b \<noteq> sl_task_id s \<or> wb_base_sha b \<noteq> sl_base_sha s \<or> wb_state_identity b \<noteq> sl_state_identity s
         then (t', Inl (GitIdentityError ''candidate seal identity has drifted'')) else
       (case gw_dirty w of
          Inl e \<Rightarrow> (t', Inl e)
        | Inr True \<Rightarrow> invalidate_and_raise w b lease (GitIdentityError ''candidate worktree is dirty'') t'
        | Inr False \<Rightarrow>
       (case gw_head w of
          Inl e \<Rightarrow> (t', Inl e)
        | Inr head \<Rightarrow>
          if head \<noteq> sl_candidate_sha s
          then invalidate_and_raise w b lease (GitIdentityError ''candidate head moved and candidate sealing is required'') t'
          else (t', Inr ()))))"

text \<open>
  \<open>seal_candidate\<close>; the entry-point control it checks first is part of what \<open>gw_binding\<close> reports.
\<close>

definition seal_candidate ::
  "git_world \<Rightarrow> worktree_binding \<Rightarrow> transition_lease option \<Rightarrow> gate_tables \<Rightarrow> gate_tables \<times> candidate_seal gate_result" where
  "seal_candidate w b lease t = (case revalidate_live_candidate_binding w b lease t of
       (t', Inl e) \<Rightarrow> (t', Inl e)
     | (t', Inr _) \<Rightarrow>
       (case gw_dirty w of
          Inl e \<Rightarrow> (t', Inl e)
        | Inr True \<Rightarrow> invalidate_and_raise w b lease (GitIdentityError ''candidate worktree is dirty'') t'
        | Inr False \<Rightarrow>
       (case gw_head w of
          Inl e \<Rightarrow> (t', Inl e)
        | Inr head \<Rightarrow>
       (case require_current_lease w lease (wb_repository_id b) of
          Inl e \<Rightarrow> (t', Inl e)
        | Inr _ \<Rightarrow>
          let row = (wb_base_sha b, head, wb_state_identity b);
              t'' = (case map_of (candidate_seals t') (wb_task_id b) of
                       None \<Rightarrow> t'
                     | Some old \<Rightarrow> if old \<noteq> row then drop_evidence (wb_task_id b) t' else t') in
          (t''\<lparr>candidate_seals := AList.update (wb_task_id b) row (candidate_seals t'')\<rparr>,
           Inr \<lparr>sl_task_id = wb_task_id b, sl_base_sha = wb_base_sha b, sl_candidate_sha = head,
                sl_state_identity = wb_state_identity b\<rparr>)))))"

definition seal_is_current :: "candidate_seal \<Rightarrow> gate_tables \<Rightarrow> bool" where
  "seal_is_current s t \<longleftrightarrow> map_of (candidate_seals t) (sl_task_id s) = Some (sl_base_sha s, sl_candidate_sha s, sl_state_identity s)"

definition insert_or_ignore :: "'a \<Rightarrow> 'a list \<Rightarrow> 'a list" where
  "insert_or_ignore x xs = (if x \<in> set xs then xs else xs @ [x])"

definition bind_candidate_evidence ::
  "git_world \<Rightarrow> worktree_binding \<Rightarrow> candidate_seal \<Rightarrow> string \<Rightarrow> transition_lease option \<Rightarrow> gate_tables
     \<Rightarrow> gate_tables \<times> unit gate_result" where
  "bind_candidate_evidence w b s fingerprint lease t =
     (if \<not> is_fingerprint fingerprint then (t, Inl (GitIdentityError ''candidate evidence fingerprint is invalid'')) else
      case require_live_candidate w b s lease t of
        (t', Inl e) \<Rightarrow> (t', Inl e)
      | (t', Inr _) \<Rightarrow>
        (case require_current_lease w lease (wb_repository_id b) of
           Inl e \<Rightarrow> (t', Inl e)
         | Inr _ \<Rightarrow>
           if \<not> seal_is_current s t' then (t', Inl (GitIdentityError ''candidate seal is no longer current'')) else
           (t'\<lparr>candidate_evidence_rows :=
                insert_or_ignore ((sl_task_id s, sl_candidate_sha s), fingerprint) (candidate_evidence_rows t')\<rparr>, Inr ())))"

definition candidate_evidence ::
  "git_world \<Rightarrow> worktree_binding \<Rightarrow> candidate_seal \<Rightarrow> transition_lease option \<Rightarrow> gate_tables
     \<Rightarrow> gate_tables \<times> string list gate_result" where
  "candidate_evidence w b s lease t = (case require_live_candidate w b s lease t of
       (t', Inl e) \<Rightarrow> (t', Inl e)
     | (t', Inr _) \<Rightarrow>
       if \<not> seal_is_current s t' then (t', Inl (GitIdentityError ''candidate seal is no longer current'')) else
       (t', Inr (sort (map snd (filter (\<lambda>(k, _). k = (sl_task_id s, sl_candidate_sha s)) (candidate_evidence_rows t'))))))"

end
