(* ===== verification/Gates.thy ===== *)
theory Gates
  imports Candidate_Seal Policy
begin

text \<open>
  \<open>gates.py\<close>: the final gates of a task. Evidence is recorded per gate for one sealed candidate under
  one trusted context; the decision aggregates it and is fail-closed; only an aggregate \<open>PASS\<close> lets
  the task become ready for its owner.

  The columns of a context hold the runtime binding itself: the text column of its supervisor
  identities is compared and read back, and \<open>json.loads\<close> inverts \<open>json.dumps\<close> on lists of strings.
  The column of follow-ups holds the decoded text.
\<close>

section \<open>Data\<close>

datatype gate_key = PLAN_REVIEW | CANDIDATE_SEAL | SUPERVISOR_DIFF_REVIEW | TARGETED_TESTS | FULL_TESTS | BUILD
  | POLICY_GATE | DEPLOYMENT_AUTHORITY | DEPENDENCY_GRAPH | GITHUB_TRACE | PUBLIC_IDENTIFIER | LIVE_PROOF | EXTERNAL_CI

fun gate_key_value :: "gate_key \<Rightarrow> string" where
  "gate_key_value PLAN_REVIEW = ''plan-review''"
| "gate_key_value CANDIDATE_SEAL = ''candidate-seal''"
| "gate_key_value SUPERVISOR_DIFF_REVIEW = ''supervisor-diff-review''"
| "gate_key_value TARGETED_TESTS = ''targeted-tests''"
| "gate_key_value FULL_TESTS = ''full-tests''"
| "gate_key_value BUILD = ''build''"
| "gate_key_value POLICY_GATE = ''policy''"
| "gate_key_value DEPLOYMENT_AUTHORITY = ''deployment-authority''"
| "gate_key_value DEPENDENCY_GRAPH = ''dependency-graph''"
| "gate_key_value GITHUB_TRACE = ''github-trace''"
| "gate_key_value PUBLIC_IDENTIFIER = ''public-identifier''"
| "gate_key_value LIVE_PROOF = ''live-proof''"
| "gate_key_value EXTERNAL_CI = ''external-ci''"

datatype evidence_outcome = E_PASS | E_NOT_APPLICABLE | E_PENDING | E_BLOCKED | E_FINDINGS | E_UNKNOWN | E_STALE | E_CONFLICT

fun evidence_outcome_value :: "evidence_outcome \<Rightarrow> string" where
  "evidence_outcome_value E_PASS = ''PASS''"
| "evidence_outcome_value E_NOT_APPLICABLE = ''NOT_APPLICABLE''"
| "evidence_outcome_value E_PENDING = ''PENDING''"
| "evidence_outcome_value E_BLOCKED = ''BLOCKED''"
| "evidence_outcome_value E_FINDINGS = ''FINDINGS''"
| "evidence_outcome_value E_UNKNOWN = ''UNKNOWN''"
| "evidence_outcome_value E_STALE = ''STALE''"
| "evidence_outcome_value E_CONFLICT = ''CONFLICT''"

definition all_evidence_outcomes :: "evidence_outcome list" where
  "all_evidence_outcomes = [E_PASS, E_NOT_APPLICABLE, E_PENDING, E_BLOCKED, E_FINDINGS, E_UNKNOWN, E_STALE, E_CONFLICT]"

datatype gate_outcome = G_PASS | G_PENDING | G_BLOCKED

record gate_requirement =
  gq_key :: gate_key
  permits_phase_two_local_na :: bool

definition GATE_REGISTRY :: "gate_requirement list" where
  "GATE_REGISTRY =
     map (\<lambda>k. \<lparr>gq_key = k, permits_phase_two_local_na = False\<rparr>)
       [PLAN_REVIEW, CANDIDATE_SEAL, SUPERVISOR_DIFF_REVIEW, TARGETED_TESTS, FULL_TESTS, BUILD, POLICY_GATE, DEPLOYMENT_AUTHORITY]
     @ map (\<lambda>k. \<lparr>gq_key = k, permits_phase_two_local_na = True\<rparr>)
       [DEPENDENCY_GRAPH, GITHUB_TRACE, PUBLIC_IDENTIFIER, LIVE_PROOF, EXTERNAL_CI]"

record gate_context =
  gc_task_id :: string
  gc_candidate_sha :: string
  gc_source_count :: int
  gc_isolated_local_task :: bool
  gc_policy_digest :: string
  gc_receipt_fingerprint :: string
  gc_runtime_binding :: runtime_binding
  gc_selected_supervisor_profile_identity :: string
  gc_dependency_graph_version_id :: "string option"
  gc_dependency_graph_decision_digest :: "string option"

text \<open>
  A resolution is any value: the code only asks whether it is a fingerprint. Follow-ups of another
  type than a tuple are \<open>None\<close>.
\<close>

record follow_up =
  fu_identifier :: string
  fu_resolved :: bool
  fu_resolution_fingerprint :: json

record gate_evidence =
  gv_task_id :: string
  gv_candidate_sha :: string
  gv_gate_key :: string
  gv_outcome :: string
  gv_evaluator_id :: string
  gv_evaluated_at :: int
  gv_evidence_fingerprint :: string
  gv_changed_boundary :: "string option"
  gv_reason :: "string option"
  gv_follow_ups :: "follow_up list option"

record gate_result_row =
  gr_gate_key :: string
  gr_outcome :: gate_outcome
  gr_reason :: string

record gate_decision =
  gd_outcome :: gate_outcome
  gd_results :: "gate_result_row list"

section \<open>Lexical rules\<close>

definition is_gate_token_char :: "char \<Rightarrow> bool" where
  "is_gate_token_char c \<longleftrightarrow> is_lower c \<or> is_upper c \<or> is_digit c \<or> c \<in> set ''._:@/-''"

definition is_gate_token :: "string \<Rightarrow> bool" where
  "is_gate_token s \<longleftrightarrow> (case s of [] \<Rightarrow> False
     | c # cs \<Rightarrow> (is_lower c \<or> is_upper c \<or> is_digit c) \<and> length cs \<le> 127 \<and> list_all is_gate_token_char cs)"

definition is_graph_digest :: "string \<Rightarrow> bool" where
  "is_graph_digest s \<longleftrightarrow> is_fingerprint s \<or> is_digest s"

definition graph_fingerprint :: "string \<Rightarrow> string" where
  "graph_fingerprint s = (if py_startswith s ''sha256:'' then drop 7 s else s)"

definition justified_na :: "gate_evidence \<Rightarrow> bool" where
  "justified_na e \<longleftrightarrow> list_all (present (\<lambda>s. list_ex (\<lambda>c. \<not> is_py_space c) s)) [gv_changed_boundary e, gv_reason e]"

fun is_fingerprint_value :: "json \<Rightarrow> bool" where
  "is_fingerprint_value (JStr s) = is_fingerprint s"
| "is_fingerprint_value _ = False"

definition follow_ups_are_valid :: "follow_up list \<Rightarrow> bool" where
  "follow_ups_are_valid fs \<longleftrightarrow>
     list_all (\<lambda>f. is_gate_token (fu_identifier f) \<and> fu_resolved f = is_fingerprint_value (fu_resolution_fingerprint f)) fs
     \<and> distinct (map fu_identifier fs)"

definition is_well_formed :: "gate_evidence \<Rightarrow> bool" where
  "is_well_formed e \<longleftrightarrow>
     is_gate_token (gv_task_id e) \<and> is_sha (gv_candidate_sha e)
     \<and> gv_outcome e \<in> set (map evidence_outcome_value all_evidence_outcomes)
     \<and> is_gate_token (gv_evaluator_id e) \<and> 0 < gv_evaluated_at e \<and> is_fingerprint (gv_evidence_fingerprint e)
     \<and> present follow_ups_are_valid (gv_follow_ups e)"

definition is_well_formed_context :: "gate_context \<Rightarrow> bool" where
  "is_well_formed_context c \<longleftrightarrow>
     is_gate_token (gc_task_id c) \<and> is_sha (gc_candidate_sha c) \<and> 0 < gc_source_count c
     \<and> is_fingerprint (gc_policy_digest c) \<and> is_fingerprint (gc_receipt_fingerprint c)
     \<and> gc_selected_supervisor_profile_identity c \<in> set (supervisor_profile_identities (gc_runtime_binding c))
     \<and> pred_option is_gate_token (gc_dependency_graph_version_id c)
     \<and> pred_option is_graph_digest (gc_dependency_graph_decision_digest c)"

section \<open>The decision\<close>

definition gate_row :: "string \<Rightarrow> gate_outcome \<Rightarrow> string \<Rightarrow> gate_result_row" where
  "gate_row key outcome why = \<lparr>gr_gate_key = key, gr_outcome = outcome, gr_reason = why\<rparr>"

definition decide_outcome :: "gate_context \<Rightarrow> gate_requirement \<Rightarrow> gate_evidence list \<Rightarrow> string \<Rightarrow> gate_result_row" where
  "decide_outcome c r entries outcome = (let key = gate_key_value (gq_key r) in
     if outcome = evidence_outcome_value E_PASS then
       (if gq_key r = DEPENDENCY_GRAPH \<and> 1 < gc_source_count c
            \<and> (\<not> present is_gate_token (gc_dependency_graph_version_id c)
               \<or> \<not> present is_graph_digest (gc_dependency_graph_decision_digest c))
        then gate_row key G_BLOCKED ''accepted graph decision is unavailable''
        else gate_row key G_PASS ''accepted'') else
     if outcome = evidence_outcome_value E_NOT_APPLICABLE then
       (if \<not> permits_phase_two_local_na r then gate_row key G_BLOCKED ''not applicable is unsupported for this gate'' else
        if gc_source_count c \<noteq> 1 \<or> \<not> gc_isolated_local_task c
          then gate_row key G_BLOCKED ''not applicable requires the isolated single-source local boundary'' else
        if list_ex (\<lambda>e. \<not> justified_na e) entries then gate_row key G_BLOCKED ''not applicable is not auditable'' else
        gate_row key G_PASS ''accepted isolated-local not applicable'') else
     if outcome \<in> {evidence_outcome_value E_PENDING, evidence_outcome_value E_STALE}
       then gate_row key G_PENDING ''evidence is pending or stale'' else
     if outcome = evidence_outcome_value E_FINDINGS then gate_row key G_BLOCKED ''findings remain'' else
     gate_row key G_BLOCKED ''unknown or blocked evidence'')"

definition decide_requirement :: "gate_context \<Rightarrow> gate_requirement \<Rightarrow> gate_evidence list \<Rightarrow> gate_result_row" where
  "decide_requirement c r entries = (let key = gate_key_value (gq_key r) in
     if list_ex (\<lambda>e. gv_task_id e \<noteq> gc_task_id c \<or> gv_candidate_sha e \<noteq> gc_candidate_sha c) entries
       then gate_row key G_BLOCKED ''candidate identity mismatch'' else
     if list_ex (\<lambda>e. \<not> is_well_formed e) entries then gate_row key G_BLOCKED ''invalid structured evidence'' else
     if list_ex (\<lambda>e. list_ex (\<lambda>f. \<not> fu_resolved f) (the (gv_follow_ups e))) entries
       then gate_row key G_BLOCKED ''unresolved follow-up remains'' else
     (case remdups (map gv_outcome entries) of
        [outcome] \<Rightarrow> decide_outcome c r entries outcome
      | _ \<Rightarrow> gate_row key G_BLOCKED ''conflicting evidence''))"

text \<open>An item of the evidence tuple that is no \<open>GateEvidence\<close> is \<open>None\<close>.\<close>

definition grouped :: "gate_evidence option list \<Rightarrow> string \<Rightarrow> gate_evidence list" where
  "grouped evidence key = filter (\<lambda>e. gv_gate_key e = key) (List.map_filter id evidence)"

definition registered :: "string \<Rightarrow> bool" where
  "registered key \<longleftrightarrow> key \<in> set (map (gate_key_value \<circ> gq_key) GATE_REGISTRY)"

definition aggregate :: "gate_result_row list \<Rightarrow> gate_outcome" where
  "aggregate results =
     (if list_ex (\<lambda>r. gr_outcome r = G_BLOCKED) results then G_BLOCKED else
      if list_ex (\<lambda>r. gr_outcome r = G_PENDING) results then G_PENDING else G_PASS)"

definition decide_gates :: "gate_context option \<Rightarrow> gate_evidence option list option \<Rightarrow> gate_decision" where
  "decide_gates context evidence = (case context of
       None \<Rightarrow> \<lparr>gd_outcome = G_BLOCKED, gd_results = [gate_row ''context'' G_BLOCKED ''invalid gate context'']\<rparr>
     | Some c \<Rightarrow>
       if \<not> is_well_formed_context c
       then \<lparr>gd_outcome = G_BLOCKED, gd_results = [gate_row ''context'' G_BLOCKED ''invalid gate context'']\<rparr> else
     (case evidence of
       None \<Rightarrow> \<lparr>gd_outcome = G_BLOCKED, gd_results = [gate_row ''evidence'' G_BLOCKED ''invalid evidence container'']\<rparr>
     | Some items \<Rightarrow>
       let results =
         map (\<lambda>r. let entries = grouped items (gate_key_value (gq_key r)) in
               if entries = [] then gate_row (gate_key_value (gq_key r)) G_PENDING ''missing evidence''
               else decide_requirement c r entries) GATE_REGISTRY
         @ (if list_ex (\<lambda>e. \<not> registered (gv_gate_key e)) (List.map_filter id items)
            then [gate_row ''unsupported'' G_BLOCKED ''unsupported gate evidence''] else [])
         @ (if None \<in> set items then [gate_row ''malformed'' G_BLOCKED ''invalid structured evidence''] else []) in
       \<lparr>gd_outcome = aggregate results, gd_results = results\<rparr>))"

fun gate_outcome_value :: "gate_outcome \<Rightarrow> string" where
  "gate_outcome_value G_PASS = ''PASS''"
| "gate_outcome_value G_PENDING = ''PENDING''"
| "gate_outcome_value G_BLOCKED = ''BLOCKED''"

definition render_gate_decision :: "gate_decision \<Rightarrow> string" where
  "render_gate_decision d = ''decision='' @ gate_outcome_value (gd_outcome d)
     @ concat (map (\<lambda>r. [CHR 0x0A] @ ''gate='' @ gr_gate_key r @ '' outcome='' @ gate_outcome_value (gr_outcome r)
         @ '' reason='' @ gr_reason r) (gd_results d))"

section \<open>Follow-ups as a column\<close>

definition follow_up_value :: "follow_up \<Rightarrow> json" where
  "follow_up_value f = JObj [(''identifier'', JStr (fu_identifier f)),
     (''resolution_fingerprint'', fu_resolution_fingerprint f), (''resolved'', JBool (fu_resolved f))]"

definition encode_follow_ups :: "follow_up list option \<Rightarrow> json gate_result" where
  "encode_follow_ups fs = (if \<not> present follow_ups_are_valid fs then Inl (GateError ''gate follow-ups are invalid'')
     else Inr (JList (map follow_up_value (the fs))))"

text \<open>
  An identifier that is no string and a flag that is no Boolean make the whole value invalid, so
  they are dropped where the object is read.
\<close>

definition decode_follow_up :: "json \<Rightarrow> follow_up option" where
  "decode_follow_up v =
     Option.bind (as_obj (Some v)) (\<lambda>kvs0. Option.bind (has_keys [''identifier'', ''resolved'', ''resolution_fingerprint''] kvs0) (\<lambda>kvs.
     Option.bind (as_str (map_of kvs ''identifier'')) (\<lambda>i.
     Option.bind (as_bool (map_of kvs ''resolved'')) (\<lambda>r.
     Option.bind (map_of kvs ''resolution_fingerprint'') (\<lambda>fp.
     Some \<lparr>fu_identifier = i, fu_resolved = r, fu_resolution_fingerprint = fp\<rparr>)))))"

definition decode_follow_ups :: "json \<Rightarrow> follow_up list option" where
  "decode_follow_ups v = Option.bind (as_list (Some v)) (\<lambda>items. Option.bind (collect decode_follow_up items) (\<lambda>fs.
     if follow_ups_are_valid fs then Some fs else None))"

section \<open>The evidence the gates rest on\<close>

text \<open>Rows and computations of the state file that the gates only read.\<close>

record review_limit_receipt =
  rl_review_round :: int
  rl_findings_fingerprint :: string
  rl_worker_repair_fingerprint :: string
  rl_candidate_sha :: string
  rl_worker_thread_identity :: string
  rl_diff_review_attempt_id :: string
  rl_configuration_digest :: string
  rl_review_policy_digest :: string
  rl_receipt_fingerprint :: string

record gate_world =
  gw_git :: git_world
  gw_tasks :: "string \<Rightarrow> task_identity option"
  gw_same_worktree :: "string \<Rightarrow> string \<Rightarrow> bool"
  gw_runtime_rows :: "string \<Rightarrow> (string \<times> string \<times> string \<times> string) option"
  gw_review_policy_rows :: "string \<Rightarrow> (string \<times> int \<times> int \<times> int \<times> string \<times> string) option"
  gw_limit_rows :: "string \<Rightarrow> review_limit_receipt option"
  gw_routed_reviews :: "string \<Rightarrow> string \<Rightarrow> (int \<times> string \<times> int \<times> int \<times> int \<times> string \<times> string) option"
  gw_terminal :: "string \<Rightarrow> (string \<times> int) gate_result"
  gw_graph_is_current :: "string \<Rightarrow> string \<Rightarrow> gate_context \<Rightarrow> gate_evidence \<Rightarrow> bool"
  gw_blockers :: "string \<Rightarrow> string \<Rightarrow> bool"

definition gate_task_identity :: "gate_world \<Rightarrow> string \<Rightarrow> task_identity gate_result" where
  "gate_task_identity w task = (case gw_tasks w task of Some ti \<Rightarrow> Inr ti | None \<Rightarrow> Inl (GateError ''task identity is unavailable''))"

definition require_runtime_binding :: "gate_world \<Rightarrow> task_identity \<Rightarrow> runtime_binding \<Rightarrow> unit gate_result" where
  "require_runtime_binding w ti rb =
     (if gw_runtime_rows w (ti_task_id ti) \<noteq> Some (columns rb)
        then Inl (StateError ''resolved configuration binding is missing or has drifted'') else
      if has_review_policy rb
         \<and> (case gw_review_policy_rows w (ti_task_id ti) of None \<Rightarrow> True | Some row \<Rightarrow> review_policy_columns rb \<noteq> Inr row)
        then Inl (StateError ''resolved review policy binding is missing or has drifted'') else Inr ())"

text \<open>\<open>_valid_review_limit_finalization\<close>: a receipt exactly when a final repair was consumed.\<close>

definition valid_review_limit_finalization ::
  "gate_world \<Rightarrow> worktree_binding \<Rightarrow> candidate_seal \<Rightarrow> runtime_binding \<Rightarrow> review_limit_receipt option \<Rightarrow> bool" where
  "valid_review_limit_finalization w b s rb receipt = (case gw_limit_rows w (wb_task_id b) of
       None \<Rightarrow>
         (case gw_routed_reviews w (wb_task_id b) (sl_candidate_sha s) of
            None \<Rightarrow> receipt = None
          | Some (review_round, mode, policy) \<Rightarrow>
              has_review_policy rb
              \<and> policy = (review_complete_rounds rb, review_max_rounds rb, review_max_supervisor_attempts_per_round rb,
                   review_on_final_findings rb, review_policy_digest rb)
              \<and> \<not> (review_round = review_max_rounds rb \<and> mode = ''CONVERGING'') \<and> receipt = None)
     | Some row \<Rightarrow>
         receipt = Some row \<and> has_review_policy rb \<and> rl_candidate_sha row = sl_candidate_sha s
         \<and> rl_review_round row = review_max_rounds rb \<and> rl_configuration_digest row = resolved_digest rb
         \<and> rl_review_policy_digest row = review_policy_digest rb)"

definition utf8_char :: "char \<Rightarrow> string" where
  "utf8_char c = (let n = of_char c :: nat in
     if n < 128 then [c] else [char_of (192 + n div 64), char_of (128 + n mod 64)])"

definition task_identity_fingerprint :: "task_identity \<Rightarrow> string" where
  "task_identity_fingerprint ti = sha256_hex (concat (map utf8_char (ti_task_id ti @ [CHR 0x00] @ ti_source_id ti @ [CHR 0x00]
     @ ti_repository_id ti @ [CHR 0x00] @ ti_branch ti @ [CHR 0x00] @ ti_worktree ti @ [CHR 0x00] @ ti_base_sha ti)))"

record trusted_gate_policy_evidence =
  tp_snapshot :: "trusted_policy_snapshot option"
  tp_receipt :: "activation_receipt option"
  tp_standing_authority :: "standing_authority option"
  tp_evaluated_at :: "datetime option"
  tp_receipt_status :: "receipt_status option"

definition gate_policy_decision ::
  "task_identity \<Rightarrow> gate_context \<Rightarrow> trusted_gate_policy_evidence \<Rightarrow> policy_decision" where
  "gate_policy_decision ti c pe = evaluate_policy (tp_snapshot pe) (tp_receipt pe) (task_identity_fingerprint ti)
     (gc_candidate_sha c) (tp_standing_authority pe) (tp_evaluated_at pe) (tp_receipt_status pe)"

definition current_trusted_policy_activation ::
  "gate_world \<Rightarrow> worktree_binding \<Rightarrow> gate_context \<Rightarrow> trusted_gate_policy_evidence \<Rightarrow> string option" where
  "current_trusted_policy_activation w b c pe = (case gw_tasks w (gc_task_id c) of
       None \<Rightarrow> None
     | Some ti \<Rightarrow>
       if ti_task_id ti \<noteq> wb_task_id b \<or> ti_repository_id ti \<noteq> wb_repository_id b \<or> ti_branch ti \<noteq> wb_branch b
          \<or> \<not> gw_same_worktree w (ti_worktree ti) (wb_worktree b) \<or> ti_base_sha ti \<noteq> wb_base_sha b then None else
       if require_runtime_binding w ti (gc_runtime_binding c) \<noteq> Inr () then None else
       (let d = gate_policy_decision ti c pe in
        case tp_receipt pe of
          None \<Rightarrow> None
        | Some r \<Rightarrow>
          if pol_authorized d \<and> pol_policy_digest d = Some (gc_policy_digest c)
             \<and> pol_receipt_fingerprint d = Some (gc_receipt_fingerprint c)
             \<and> require_matches (gc_runtime_binding c) (Some (ar_runtime_binding r)) = Inr ()
             \<and> ar_selected_supervisor_profile_identity r = gc_selected_supervisor_profile_identity c
          then Some (isoformat (ar_activated_at r)) else None))"

section \<open>Recording evidence\<close>

text \<open>The sixteen columns that a caller's context gives, with the activation and the terminal binding.\<close>

definition context_values :: "gate_context \<Rightarrow> string \<Rightarrow> string \<Rightarrow> context_row" where
  "context_values c activated_at terminal =
     \<lparr>cx_source_count = gc_source_count c, cx_isolated_local_task = gc_isolated_local_task c,
      cx_policy_digest = gc_policy_digest c, cx_receipt_fingerprint = gc_receipt_fingerprint c,
      cx_runtime_binding = gc_runtime_binding c,
      cx_selected_supervisor_profile_identity = gc_selected_supervisor_profile_identity c,
      cx_dependency_graph_version_id = (case gc_dependency_graph_version_id c of Some v \<Rightarrow> v | None \<Rightarrow> []),
      cx_dependency_graph_decision_digest = (case gc_dependency_graph_decision_digest c of Some d \<Rightarrow> d | None \<Rightarrow> []),
      cx_policy_activated_at = activated_at, cx_terminal_dependency_binding = terminal\<rparr>"

text \<open>Slices of the column tuple: \<open>[:2]\<close>, \<open>[2:14]\<close> and \<open>[:16]\<close>.\<close>

definition same_source :: "context_row \<Rightarrow> context_row \<Rightarrow> bool" where
  "same_source a b \<longleftrightarrow> cx_source_count a = cx_source_count b \<and> cx_isolated_local_task a = cx_isolated_local_task b"

definition same_trust :: "context_row \<Rightarrow> context_row \<Rightarrow> bool" where
  "same_trust a b \<longleftrightarrow> cx_policy_digest a = cx_policy_digest b \<and> cx_receipt_fingerprint a = cx_receipt_fingerprint b
     \<and> complete_columns (cx_runtime_binding a) = complete_columns (cx_runtime_binding b)
     \<and> cx_selected_supervisor_profile_identity a = cx_selected_supervisor_profile_identity b"

definition same_context :: "context_row \<Rightarrow> context_row \<Rightarrow> bool" where
  "same_context a b \<longleftrightarrow> same_source a b \<and> same_trust a b
     \<and> cx_dependency_graph_version_id a = cx_dependency_graph_version_id b
     \<and> cx_dependency_graph_decision_digest a = cx_dependency_graph_decision_digest b"

definition drop_candidate_evidence :: "candidate_key \<Rightarrow> gate_tables \<Rightarrow> gate_tables" where
  "drop_candidate_evidence key t = t
     \<lparr>gate_evidence_rows := filter (\<lambda>((k, _), _). k \<noteq> key) (gate_evidence_rows t),
      candidate_evidence_rows := filter (\<lambda>(k, _). k \<noteq> key) (candidate_evidence_rows t)\<rparr>"

definition graph_pass :: "gate_evidence \<Rightarrow> bool" where
  "graph_pass e \<longleftrightarrow> gv_gate_key e = gate_key_value DEPENDENCY_GRAPH \<and> gv_outcome e = evidence_outcome_value E_PASS"

text \<open>\<open>_require_current_dependency_graph\<close>; the comparison with the graph store is an observation.\<close>

definition require_current_dependency_graph ::
  "gate_world \<Rightarrow> string \<Rightarrow> string \<Rightarrow> gate_context \<Rightarrow> gate_evidence \<Rightarrow> unit gate_result" where
  "require_current_dependency_graph w task candidate c e =
     (if gc_source_count c \<le> 1 then Inl (GateError ''dependency graph PASS is not valid for a single-source task'') else
      if \<not> present is_gate_token (gc_dependency_graph_version_id c) \<or> \<not> present is_graph_digest (gc_dependency_graph_decision_digest c)
        then Inl (GateError ''dependency graph context is unavailable'') else
      if \<not> gw_graph_is_current w task candidate c e
         \<or> gv_evidence_fingerprint e \<noteq> graph_fingerprint (the (gc_dependency_graph_decision_digest c))
        then Inl (GateError ''dependency graph evidence is unavailable or stale'') else Inr ())"

text \<open>
  The context part of the transaction: \<open>Inl (t, e)\<close> is an error with the tables it commits, \<open>Inr t\<close>
  goes on with the evidence row.
\<close>

definition commit_context ::
  "candidate_key \<Rightarrow> context_row \<Rightarrow> bool \<Rightarrow> gate_tables \<Rightarrow> (gate_tables \<times> gate_error) + gate_tables" where
  "commit_context key row is_graph_pass t = (case map_of (gate_contexts t) key of
       None \<Rightarrow> Inr (t\<lparr>gate_contexts := gate_contexts t @ [(key, row)]\<rparr>)
     | Some old \<Rightarrow>
       if \<not> same_context old row then
         (let trusted_context_unchanged = same_trust old row \<and> cx_policy_activated_at old = cx_policy_activated_at row;
              source_rebound = (trusted_context_unchanged \<and> cx_source_count old \<noteq> cx_source_count row);
              graph_moved = (trusted_context_unchanged \<and> same_source old row) in
          if source_rebound \<and> 1 < cx_source_count row \<and> \<not> is_graph_pass
            then Inl (t, GateError ''source-count rebind requires current dependency graph evidence'') else
          if \<not> (source_rebound \<or> graph_moved) \<and> cx_policy_activated_at row \<le> cx_policy_activated_at old
            then Inl (t, GateError ''gate context conflicts with committed task state'') else
          Inr ((drop_candidate_evidence key t)\<lparr>gate_contexts := AList.update key row (gate_contexts t)\<rparr>)) else
       if cx_policy_activated_at old \<noteq> cx_policy_activated_at row
         then Inl (t, GateError ''gate context conflicts with committed task state'') else
       if cx_terminal_dependency_binding old \<noteq> cx_terminal_dependency_binding row
         then Inl (drop_candidate_evidence key t, GateError ''terminal dependency-review binding has moved'') else
       Inr t)"

definition evidence_key_of :: "gate_evidence \<Rightarrow> evidence_key" where
  "evidence_key_of e = ((gv_task_id e, gv_candidate_sha e), gv_gate_key e, gv_evaluator_id e, gv_evidence_fingerprint e)"

definition evidence_row_of :: "gate_evidence \<Rightarrow> json \<Rightarrow> evidence_row" where
  "evidence_row_of e follow_ups = \<lparr>ev_outcome = gv_outcome e, ev_evaluated_at = gv_evaluated_at e,
     ev_changed_boundary = gv_changed_boundary e, ev_reason = gv_reason e, ev_follow_ups = follow_ups\<rparr>"

text \<open>The evidence row: a replay with other contents marks the stored row as a conflict and is reported.\<close>

definition commit_evidence :: "gate_evidence \<Rightarrow> json \<Rightarrow> gate_tables \<Rightarrow> gate_tables \<times> unit gate_result" where
  "commit_evidence e follow_ups t =
     (case map_of (gate_evidence_rows t) (evidence_key_of e) of
        None \<Rightarrow> (t\<lparr>gate_evidence_rows := gate_evidence_rows t @ [(evidence_key_of e, evidence_row_of e follow_ups)]\<rparr>, Inr ())
      | Some old \<Rightarrow>
        if old \<noteq> evidence_row_of e follow_ups
        then (t\<lparr>gate_evidence_rows := AList.update (evidence_key_of e)
                 (old\<lparr>ev_outcome := evidence_outcome_value E_CONFLICT, ev_reason := Some ''conflicting evidence replay''\<rparr>)
                 (gate_evidence_rows t)\<rparr>,
              Inl (GateError ''conflicting gate evidence was recorded''))
        else (t, Inr ()))"

text \<open>The transaction of \<open>record_gate_evidence\<close>; an error rolls back to \<open>t\<close> unless it was committed.\<close>

definition gate_transaction ::
  "gate_world \<Rightarrow> worktree_binding \<Rightarrow> candidate_seal \<Rightarrow> gate_context \<Rightarrow> gate_evidence \<Rightarrow> string \<Rightarrow> transition_lease option
     \<Rightarrow> gate_tables \<Rightarrow> gate_tables \<times> unit gate_result" where
  "gate_transaction w b s c e activated_at lease t =
     (case require_current_transition_lease (gw_git w) lease (wb_repository_id b) of Inl x \<Rightarrow> (t, Inl x) | Inr _ \<Rightarrow>
     (case gate_task_identity w (wb_task_id b) of Inl x \<Rightarrow> (t, Inl x) | Inr ti \<Rightarrow>
     (case require_runtime_binding w ti (gc_runtime_binding c) of Inl x \<Rightarrow> (t, Inl x) | Inr _ \<Rightarrow>
      if map_option (fst \<circ> snd) (map_of (candidate_seals t) (wb_task_id b)) \<noteq> Some (sl_candidate_sha s)
        then (t, Inl (GateError ''candidate seal is no longer current'')) else
     (case gw_terminal w (wb_task_id b) of Inl x \<Rightarrow> (t, Inl x) | Inr (terminal, source_count) \<Rightarrow>
      if gc_source_count c \<noteq> source_count
        then (t, Inl (GateError ''gate context source count does not match committed task state'')) else
     (case (if graph_pass e then require_current_dependency_graph w (wb_task_id b) (sl_candidate_sha s) c e else Inr ()) of
        Inl x \<Rightarrow> (t, Inl x) | Inr _ \<Rightarrow>
     (case commit_context (wb_task_id b, sl_candidate_sha s) (context_values c activated_at terminal) (graph_pass e) t of
        Inl (t', x) \<Rightarrow> (t', Inl x)
      | Inr t' \<Rightarrow>
     (case encode_follow_ups (gv_follow_ups e) of Inl x \<Rightarrow> (t, Inl x) | Inr follow_ups \<Rightarrow>
      commit_evidence e follow_ups
        (t'\<lparr>candidate_evidence_rows := insert_or_ignore ((wb_task_id b, sl_candidate_sha s), gv_evidence_fingerprint e)
              (candidate_evidence_rows t')\<rparr>))))))))"

definition record_gate_evidence ::
  "gate_world \<Rightarrow> worktree_binding \<Rightarrow> candidate_seal \<Rightarrow> gate_context \<Rightarrow> review_limit_receipt option \<Rightarrow> gate_evidence
     \<Rightarrow> trusted_gate_policy_evidence \<Rightarrow> transition_lease option \<Rightarrow> gate_tables \<Rightarrow> gate_tables \<times> unit gate_result" where
  "record_gate_evidence w b s c limit_receipt e pe lease t =
     (if \<not> is_well_formed_context c then (t, Inl (GateError ''gate context is invalid'')) else
      if \<not> valid_review_limit_finalization w b s (gc_runtime_binding c) limit_receipt
        then (t, Inl (GateError ''review-limit finalization receipt is unavailable or stale'')) else
      if \<not> registered (gv_gate_key e) then (t, Inl (GateError ''gate key is unsupported'')) else
      if \<not> is_well_formed e then (t, Inl (GateError ''gate evidence is invalid'')) else
      (case current_trusted_policy_activation w b c pe of
         None \<Rightarrow> (t, Inl (GateError ''gate context does not match current trusted policy evidence''))
       | Some activated_at \<Rightarrow>
         if gc_task_id c \<noteq> wb_task_id b \<or> gc_candidate_sha c \<noteq> sl_candidate_sha s
            \<or> gv_task_id e \<noteq> wb_task_id b \<or> gv_candidate_sha e \<noteq> sl_candidate_sha s
           then (t, Inl (GateError ''gate evidence does not match the active task candidate'')) else
         (case bind_candidate_evidence (gw_git w) b s (gv_evidence_fingerprint e) lease t of
            (t', Inl x) \<Rightarrow> (t', Inl x)
          | (t', Inr _) \<Rightarrow> gate_transaction w b s c e activated_at lease t')))"

section \<open>Deciding from the tables\<close>

definition evidence_of_row :: "evidence_key \<times> evidence_row \<Rightarrow> gate_evidence" where
  "evidence_of_row = (\<lambda>(((task, candidate), key, evaluator, fingerprint), row).
     \<lparr>gv_task_id = task, gv_candidate_sha = candidate, gv_gate_key = key, gv_outcome = ev_outcome row,
      gv_evaluator_id = evaluator, gv_evaluated_at = ev_evaluated_at row, gv_evidence_fingerprint = fingerprint,
      gv_changed_boundary = ev_changed_boundary row, gv_reason = ev_reason row,
      gv_follow_ups = decode_follow_ups (ev_follow_ups row)\<rparr>)"

text \<open>\<open>ORDER BY gate_key, evaluator_id, evidence_fingerprint\<close>.\<close>

definition candidate_rows :: "candidate_key \<Rightarrow> gate_tables \<Rightarrow> (evidence_key \<times> evidence_row) list" where
  "candidate_rows key t = sort_key (\<lambda>((_, k), _). [fst k, fst (snd k), snd (snd k)])
     (filter (\<lambda>((k, _), _). k = key) (gate_evidence_rows t))"

definition read_gate_evidence ::
  "git_world \<Rightarrow> worktree_binding \<Rightarrow> candidate_seal \<Rightarrow> transition_lease option \<Rightarrow> gate_tables
     \<Rightarrow> gate_tables \<times> gate_evidence list gate_result" where
  "read_gate_evidence w b s lease t = (case candidate_evidence w b s lease t of
       (t', Inl x) \<Rightarrow> (t', Inl x)
     | (t', Inr valid_fingerprints) \<Rightarrow>
       (t', Inr (map evidence_of_row (filter (\<lambda>((_, _, _, fingerprint), _). fingerprint \<in> set valid_fingerprints)
          (candidate_rows (wb_task_id b, sl_candidate_sha s) t')))))"

definition read_gate_context :: "candidate_key \<Rightarrow> gate_tables \<Rightarrow> gate_context option" where
  "read_gate_context key t = Option.bind (map_of (gate_contexts t) key) (\<lambda>row.
     if cx_source_count row \<le> 0 \<or> \<not> is_fingerprint (cx_policy_digest row) \<or> \<not> is_fingerprint (cx_receipt_fingerprint row) then None else
     Option.bind (caught_result (make_runtime_binding (cx_runtime_binding row))) (\<lambda>rb.
     if cx_selected_supervisor_profile_identity row \<notin> set (supervisor_profile_identities rb) then None else
     Some \<lparr>gc_task_id = fst key, gc_candidate_sha = snd key, gc_source_count = cx_source_count row,
       gc_isolated_local_task = cx_isolated_local_task row, gc_policy_digest = cx_policy_digest row,
       gc_receipt_fingerprint = cx_receipt_fingerprint row, gc_runtime_binding = rb,
       gc_selected_supervisor_profile_identity = cx_selected_supervisor_profile_identity row,
       gc_dependency_graph_version_id =
         (if cx_dependency_graph_version_id row = [] then None else Some (cx_dependency_graph_version_id row)),
       gc_dependency_graph_decision_digest =
         (if cx_dependency_graph_decision_digest row = [] then None else Some (cx_dependency_graph_decision_digest row))\<rparr>))"

definition blocked_by :: "string \<Rightarrow> string \<Rightarrow> gate_decision" where
  "blocked_by key why = \<lparr>gd_outcome = G_BLOCKED, gd_results = [gate_row key G_BLOCKED why]\<rparr>"

text \<open>The join of gate evidence with the candidate's evidence, in order.\<close>

definition joined_evidence :: "candidate_key \<Rightarrow> gate_tables \<Rightarrow> gate_evidence list" where
  "joined_evidence key t = map evidence_of_row
     (filter (\<lambda>((k, _, _, fingerprint), _). (k, fingerprint) \<in> set (candidate_evidence_rows t)) (candidate_rows key t))"

definition decision_from_connection :: "gate_world \<Rightarrow> task_identity \<Rightarrow> gate_tables \<Rightarrow> gate_decision" where
  "decision_from_connection w ti t = (case (map_of (candidate_seals t) (ti_task_id ti), gw_lease_row (gw_git w)) of
       (Some (base, candidate, state_identity), Some lease) \<Rightarrow>
         if base \<noteq> ti_base_sha ti \<or> state_identity \<noteq> tl_state_identity lease
           then blocked_by ''context'' ''candidate seal is unavailable or stale'' else
         if gw_blockers w (ti_task_id ti) candidate then blocked_by ''review-items'' ''unresolved PASS follow-up remains'' else
         (case (read_gate_context (ti_task_id ti, candidate) t, map_of (gate_contexts t) (ti_task_id ti, candidate)) of
            (Some context, Some row) \<Rightarrow>
              (case gw_terminal w (ti_task_id ti) of
                 Inl _ \<Rightarrow> blocked_by ''context'' ''affected source subset is unavailable or stale''
               | Inr (terminal, source_count) \<Rightarrow>
                 if cx_terminal_dependency_binding row \<noteq> terminal \<or> gc_source_count context \<noteq> source_count
                   then blocked_by ''context'' ''terminal dependency-review binding is stale'' else
                 (let evidence = joined_evidence (ti_task_id ti, candidate) t;
                      decision = decide_gates (Some context) (Some (map Some evidence)) in
                  if gd_outcome decision = G_PASS \<and> 1 < gc_source_count context then
                    (case List.find graph_pass evidence of
                       None \<Rightarrow> blocked_by ''dependency-graph'' ''accepted graph decision is unavailable''
                     | Some e \<Rightarrow>
                       (case require_current_dependency_graph w (ti_task_id ti) candidate context e of
                          Inl _ \<Rightarrow> blocked_by ''dependency-graph'' ''accepted graph decision is stale''
                        | Inr _ \<Rightarrow> decision))
                  else decision))
          | _ \<Rightarrow> blocked_by ''context'' ''gate context is unavailable'')
     | _ \<Rightarrow> blocked_by ''context'' ''candidate seal is unavailable or stale'')"

definition contexts_match :: "gate_context \<Rightarrow> gate_context option \<Rightarrow> bool" where
  "contexts_match expected actual = (case actual of None \<Rightarrow> False | Some a \<Rightarrow>
     gc_task_id expected = gc_task_id a \<and> gc_candidate_sha expected = gc_candidate_sha a
     \<and> gc_source_count expected = gc_source_count a \<and> gc_isolated_local_task expected = gc_isolated_local_task a
     \<and> gc_policy_digest expected = gc_policy_digest a \<and> gc_receipt_fingerprint expected = gc_receipt_fingerprint a
     \<and> gc_selected_supervisor_profile_identity expected = gc_selected_supervisor_profile_identity a
     \<and> gc_dependency_graph_version_id expected = gc_dependency_graph_version_id a
     \<and> gc_dependency_graph_decision_digest expected = gc_dependency_graph_decision_digest a
     \<and> require_matches (gc_runtime_binding expected) (Some (gc_runtime_binding a)) = Inr ())"

definition persisted_policy_activation :: "candidate_key \<Rightarrow> gate_tables \<Rightarrow> string option" where
  "persisted_policy_activation key t = Option.bind (map_of (gate_contexts t) key) (\<lambda>row.
     if cx_policy_activated_at row = [] then None else Some (cx_policy_activated_at row))"

definition read_persisted_decision ::
  "gate_world \<Rightarrow> worktree_binding \<Rightarrow> candidate_seal \<Rightarrow> transition_lease option \<Rightarrow> gate_tables
     \<Rightarrow> gate_tables \<times> gate_decision gate_result" where
  "read_persisted_decision w b s lease t = (case candidate_evidence (gw_git w) b s lease t of
       (t', Inl x) \<Rightarrow> (t', Inl x)
     | (t', Inr _) \<Rightarrow>
       (case gate_task_identity w (wb_task_id b) of
          Inl x \<Rightarrow> (t', Inl x)
        | Inr ti \<Rightarrow> (t', Inr (decision_from_connection w ti t'))))"

definition evaluate_gates ::
  "gate_world \<Rightarrow> worktree_binding \<Rightarrow> candidate_seal \<Rightarrow> gate_context \<Rightarrow> review_limit_receipt option
     \<Rightarrow> trusted_gate_policy_evidence \<Rightarrow> transition_lease option \<Rightarrow> gate_tables \<Rightarrow> gate_tables \<times> gate_decision gate_result" where
  "evaluate_gates w b s c limit_receipt pe lease t = (case current_trusted_policy_activation w b c pe of
       None \<Rightarrow> (t, Inr (blocked_by ''policy'' ''current trusted policy evidence is unavailable''))
     | Some activated_at \<Rightarrow>
       if \<not> valid_review_limit_finalization w b s (gc_runtime_binding c) limit_receipt
         then (t, Inr (blocked_by ''review-limit'' ''review-limit finalization receipt is unavailable or stale'')) else
       (case read_persisted_decision w b s lease t of
          (t', Inl x) \<Rightarrow> (t', Inl x)
        | (t', Inr decision) \<Rightarrow>
          if \<not> contexts_match c (read_gate_context (wb_task_id b, sl_candidate_sha s) t')
            then (t', Inr (blocked_by ''context'' ''candidate identity mismatch'')) else
          if persisted_policy_activation (wb_task_id b, sl_candidate_sha s) t' \<noteq> Some activated_at
            then (t', Inr (blocked_by ''policy'' ''trusted policy receipt is stale'')) else
          (t', Inr decision)))"

text \<open>
  \<open>transition_ready_for_owner\<close> up to the call of \<open>_transition_ready_for_owner\<close>: \<open>Inr ti\<close> is the
  identity of the task whose final transition is attempted.
\<close>

definition transition_ready_for_owner ::
  "gate_world \<Rightarrow> worktree_binding \<Rightarrow> candidate_seal \<Rightarrow> gate_context \<Rightarrow> review_limit_receipt option
     \<Rightarrow> trusted_gate_policy_evidence \<Rightarrow> transition_lease option \<Rightarrow> gate_tables \<Rightarrow> gate_tables \<times> task_identity gate_result" where
  "transition_ready_for_owner w b s c limit_receipt pe lease t = (case current_trusted_policy_activation w b c pe of
       None \<Rightarrow> (t, Inl (GateError ''gate context does not match current trusted policy evidence''))
     | Some activated_at \<Rightarrow>
       if \<not> valid_review_limit_finalization w b s (gc_runtime_binding c) limit_receipt
         then (t, Inl (GateError ''review-limit finalization receipt is unavailable or stale'')) else
       (case candidate_evidence (gw_git w) b s lease t of
          (t', Inl x) \<Rightarrow> (t', Inl x)
        | (t', Inr _) \<Rightarrow>
          if \<not> contexts_match c (read_gate_context (wb_task_id b, sl_candidate_sha s) t')
            then (t', Inl (GateError ''gate context does not match committed task state'')) else
          if persisted_policy_activation (wb_task_id b, sl_candidate_sha s) t' \<noteq> Some activated_at
            then (t', Inl (GateError ''trusted policy receipt is stale'')) else
          (case read_persisted_decision w b s lease t' of
             (t'', Inl x) \<Rightarrow> (t'', Inl x)
           | (t'', Inr decision) \<Rightarrow>
             if gd_outcome decision \<noteq> G_PASS
               then (t'', Inl (GateError ''persisted gate decision is no longer current'')) else
             (t'', gate_task_identity w (wb_task_id b)))))"

end
