(* ===== verification/Gates_Safety.thy ===== *)
theory Gates_Safety
  imports Gates
begin

text \<open>
  What the final gates guarantee: the exact condition for an aggregate \<open>PASS\<close>, its independence of
  the order of the evidence, and, over all sequences of operations on the tables, that evidence
  never outlives its candidate. \<open>Gates_Ready\<close> goes on with the trusted context and the final
  transition.
\<close>

section \<open>The decision\<close>

lemma distinct_singleton: "distinct ys \<Longrightarrow> set ys = {x} \<Longrightarrow> ys = [x]"
  by (cases ys; cases "tl ys") auto

lemma remdups_singleton: "remdups xs = [x] \<longleftrightarrow> set xs = {x}"
proof
  assume "remdups xs = [x]"
  then show "set xs = {x}" using set_remdups [of xs] by simp
next
  assume "set xs = {x}"
  then show "remdups xs = [x]" by (intro distinct_singleton) simp_all
qed

lemma case_remdups:
  "(case remdups xs of [x] \<Rightarrow> f x | _ \<Rightarrow> d) = (if \<exists>x. set xs = {x} then f (the_elem (set xs)) else d)"
proof (cases "\<exists>x. set xs = {x}")
  case True
  then obtain x where "set xs = {x}" by blast
  moreover from this have "remdups xs = [x]" by (simp add: remdups_singleton)
  ultimately show ?thesis by simp
next
  case False
  then have "\<nexists>x. remdups xs = [x]" by (simp add: remdups_singleton)
  with False show ?thesis by (simp split: list.split)
qed

lemma decide_outcome_cong:
  assumes "set es = set es'"
  shows "decide_outcome c r es oc = decide_outcome c r es' oc"
  unfolding decide_outcome_def list_ex_iff assms ..

lemma decide_requirement_cong:
  assumes "set es = set es'"
  shows "decide_requirement c r es = decide_requirement c r es'"
  unfolding decide_requirement_def case_remdups list_ex_iff set_map assms decide_outcome_cong [OF assms] ..

lemma set_map_filter_id: "set (List.map_filter id xs) = {x. Some x \<in> set xs}"
  by (force simp: map_filter_def)

lemma grouped_set: "set (grouped items key) = {e. Some e \<in> set items \<and> gv_gate_key e = key}"
  by (auto simp: grouped_def set_map_filter_id)

text \<open>
  The decision is a function of the set of evidence items:
  neither their order nor repeated items change the outcome or any result row.
\<close>

lemma gates_depend_on_evidence_set:
  assumes "set items = set items'"
  shows "decide_gates (Some c) (Some items) = decide_gates (Some c) (Some items')"
proof -
  have g: "set (grouped items k) = set (grouped items' k)" for k using assms by (simp add: grouped_set)
  have e: "grouped items k = [] \<longleftrightarrow> grouped items' k = []" for k using g [of k] by (metis set_empty)
  have "(if grouped items k = [] then a else decide_requirement c r (grouped items k))
      = (if grouped items' k = [] then a else decide_requirement c r (grouped items' k))" for k a r
    using e [of k] decide_requirement_cong [OF g [of k]] by simp
  moreover have "list_ex P (List.map_filter id items) = list_ex P (List.map_filter id items')" for P
    using assms by (simp add: list_ex_iff set_map_filter_id)
  ultimately show ?thesis unfolding decide_gates_def Let_def by (simp only: option.case assms)
qed

text \<open>What a gate asks of its evidence.\<close>

definition settled_entry :: "gate_context \<Rightarrow> gate_evidence \<Rightarrow> bool" where
  "settled_entry c e \<longleftrightarrow> gv_task_id e = gc_task_id c \<and> gv_candidate_sha e = gc_candidate_sha c \<and> is_well_formed e
     \<and> list_all fu_resolved (the (gv_follow_ups e))"

definition gate_accepts :: "gate_context \<Rightarrow> gate_requirement \<Rightarrow> gate_evidence set \<Rightarrow> bool" where
  "gate_accepts c r es \<longleftrightarrow> es \<noteq> {} \<and> (\<forall>e\<in>es. settled_entry c e)
     \<and> ((\<forall>e\<in>es. gv_outcome e = evidence_outcome_value E_PASS)
          \<and> (gq_key r = DEPENDENCY_GRAPH \<and> 1 < gc_source_count c \<longrightarrow>
               gc_dependency_graph_version_id c \<noteq> None \<and> gc_dependency_graph_decision_digest c \<noteq> None)
        \<or> (\<forall>e\<in>es. gv_outcome e = evidence_outcome_value E_NOT_APPLICABLE \<and> justified_na e)
          \<and> permits_phase_two_local_na r \<and> gc_source_count c = 1 \<and> gc_isolated_local_task c)"

lemma gate_row_sel [simp]: "gr_outcome (gate_row k oc why) = oc" "gr_gate_key (gate_row k oc why) = k"
  by (simp_all add: gate_row_def)

lemma decide_outcome_pass:
  "gr_outcome (decide_outcome c r es oc) = G_PASS \<longleftrightarrow>
     oc = evidence_outcome_value E_PASS
       \<and> (gq_key r = DEPENDENCY_GRAPH \<and> 1 < gc_source_count c \<longrightarrow>
            present is_gate_token (gc_dependency_graph_version_id c) \<and> present is_graph_digest (gc_dependency_graph_decision_digest c))
     \<or> oc = evidence_outcome_value E_NOT_APPLICABLE \<and> permits_phase_two_local_na r \<and> gc_source_count c = 1
       \<and> gc_isolated_local_task c \<and> (\<forall>e\<in>set es. justified_na e)"
  by (auto simp: decide_outcome_def Let_def list_ex_iff)

lemma decide_requirement_pass:
  assumes "es \<noteq> []" "is_well_formed_context c"
  shows "gr_outcome (decide_requirement c r es) = G_PASS \<longleftrightarrow> gate_accepts c r (set es)"
proof -
  have opt: "present is_gate_token (gc_dependency_graph_version_id c) \<longleftrightarrow> gc_dependency_graph_version_id c \<noteq> None"
    "present is_graph_digest (gc_dependency_graph_decision_digest c) \<longleftrightarrow> gc_dependency_graph_decision_digest c \<noteq> None"
    using assms(2) by (auto simp: is_well_formed_context_def split: option.split
        elim!: present.elims intro: present.simps(2) [THEN iffD2])
  have single: "(\<exists>x. set (map gv_outcome es) = {x}) \<and> P (the_elem (set (map gv_outcome es)))
      \<longleftrightarrow> (\<exists>oc. (\<forall>e\<in>set es. gv_outcome e = oc) \<and> P oc)" for P
  proof
    assume "(\<exists>x. set (map gv_outcome es) = {x}) \<and> P (the_elem (set (map gv_outcome es)))"
    then obtain x where "set (map gv_outcome es) = {x}" "P x" by auto
    then show "\<exists>oc. (\<forall>e\<in>set es. gv_outcome e = oc) \<and> P oc" by (intro exI [of _ x]) auto
  next
    assume "\<exists>oc. (\<forall>e\<in>set es. gv_outcome e = oc) \<and> P oc"
    then obtain oc where "\<forall>e\<in>set es. gv_outcome e = oc" "P oc" by blast
    with assms(1) have "set (map gv_outcome es) = {oc}" by (cases es) auto
    with \<open>P oc\<close> show "(\<exists>x. set (map gv_outcome es) = {x}) \<and> P (the_elem (set (map gv_outcome es)))" by simp
  qed
  have "gr_outcome (decide_requirement c r es) = G_PASS \<longleftrightarrow> (\<forall>e\<in>set es. settled_entry c e)
      \<and> (\<exists>x. set (map gv_outcome es) = {x}) \<and> gr_outcome (decide_outcome c r es (the_elem (set (map gv_outcome es)))) = G_PASS"
    unfolding decide_requirement_def case_remdups by (auto simp: Let_def list_ex_iff list_all_iff settled_entry_def)
  also have "\<dots> \<longleftrightarrow> (\<forall>e\<in>set es. settled_entry c e)
      \<and> (\<exists>oc. (\<forall>e\<in>set es. gv_outcome e = oc) \<and> gr_outcome (decide_outcome c r es oc) = G_PASS)"
    using single [of "\<lambda>oc. gr_outcome (decide_outcome c r es oc) = G_PASS"] by blast
  also have "\<dots> \<longleftrightarrow> gate_accepts c r (set es)"
    using assms(1) unfolding decide_outcome_pass gate_accepts_def opt by auto
  finally show ?thesis .
qed

lemma aggregate_pass: "aggregate rs = G_PASS \<longleftrightarrow> (\<forall>r\<in>set rs. gr_outcome r = G_PASS)"
proof -
  have "gr_outcome r = G_PASS \<longleftrightarrow> gr_outcome r \<noteq> G_BLOCKED \<and> gr_outcome r \<noteq> G_PENDING" for r by (cases "gr_outcome r") simp_all
  then show ?thesis unfolding aggregate_def list_ex_iff by auto
qed

lemma decide_gates_pass:
  "gd_outcome (decide_gates (Some c) (Some items)) = G_PASS \<longleftrightarrow>
     is_well_formed_context c \<and> None \<notin> set items \<and> (\<forall>e. Some e \<in> set items \<longrightarrow> registered (gv_gate_key e))
     \<and> (\<forall>r\<in>set GATE_REGISTRY. gate_accepts c r {e. Some e \<in> set items \<and> gv_gate_key e = gate_key_value (gq_key r)})"
proof (cases "is_well_formed_context c")
  case True
  have rows: "gr_outcome (if grouped items (gate_key_value (gq_key r)) = [] then gate_row (gate_key_value (gq_key r)) G_PENDING ''missing evidence''
        else decide_requirement c r (grouped items (gate_key_value (gq_key r)))) = G_PASS
      \<longleftrightarrow> gate_accepts c r {e. Some e \<in> set items \<and> gv_gate_key e = gate_key_value (gq_key r)}" for r
  proof (cases "grouped items (gate_key_value (gq_key r)) = []")
    case True
    then have "{e. Some e \<in> set items \<and> gv_gate_key e = gate_key_value (gq_key r)} = {}"
      using grouped_set [of items "gate_key_value (gq_key r)"] by simp
    with True show ?thesis unfolding gate_accepts_def by simp
  next
    case False
    then show ?thesis using decide_requirement_pass [OF False True, of r] by (simp only: grouped_set if_False)
  qed
  have extra: "(\<forall>x\<in>set (if b then [gate_row k G_BLOCKED why] else []). gr_outcome x = G_PASS) \<longleftrightarrow> \<not> b" for b k why by simp
  have unsupported: "list_ex (\<lambda>e. \<not> registered (gv_gate_key e)) (List.map_filter id items)
      \<longleftrightarrow> \<not> (\<forall>e. Some e \<in> set items \<longrightarrow> registered (gv_gate_key e))" unfolding list_ex_iff set_map_filter_id by blast
  show ?thesis
    unfolding decide_gates_def Let_def using True
    by (simp only: option.case not_True_eq_False if_False gate_decision.select_convs aggregate_pass set_append ball_Un set_map
        ball_simps(9) rows extra unsupported not_not) blast
qed (simp add: decide_gates_def)

text \<open>
  C19 (gates_pass_iff). The aggregate is \<open>PASS\<close> exactly when the context is well formed, every item
  is evidence for a registered gate, and each of the thirteen gates has evidence, all of it for this
  task and candidate, well formed and with every follow-up resolved, that agrees on \<open>PASS\<close> (with a
  graph decision named when the dependency gate covers several sources) or on a justified
  \<open>NOT_APPLICABLE\<close> that the gate permits for an isolated single-source task.
\<close>

theorem gates_pass_iff:
  "gd_outcome (decide_gates (Some c) (Some items)) = G_PASS \<longleftrightarrow>
     is_well_formed_context c \<and> None \<notin> set items \<and> (\<forall>e. Some e \<in> set items \<longrightarrow> registered (gv_gate_key e))
     \<and> (\<forall>r\<in>set GATE_REGISTRY. gate_accepts c r {e. Some e \<in> set items \<and> gv_gate_key e = gate_key_value (gq_key r)})"
  by (rule decide_gates_pass)

section \<open>Follow-ups\<close>

lemma decode_follow_up_value: "decode_follow_up (follow_up_value f) = Some f"
  by (cases f) (auto simp: decode_follow_up_def follow_up_value_def has_keys_def)

lemma decode_encoded_follow_ups: "encode_follow_ups fs = Inr v \<Longrightarrow> decode_follow_ups v = fs"
proof -
  have "collect decode_follow_up (map follow_up_value xs) = Some (map id xs)" for xs
    by (rule collect_map) (simp add: decode_follow_up_value)
  then show "encode_follow_ups fs = Inr v \<Longrightarrow> decode_follow_ups v = fs"
    by (cases fs) (auto simp: encode_follow_ups_def decode_follow_ups_def split: if_split_asm)
qed

text \<open>
  The follow-up column is lossless and strict: valid follow-ups, and
  only those, are written, what is written reads back unchanged, and whatever the column holds, what
  is read from it is valid.
\<close>

lemma follow_ups_round_trip:
  "(if present follow_ups_are_valid fs
    then \<exists>v. encode_follow_ups fs = Inr v \<and> decode_follow_ups v = fs
    else encode_follow_ups fs = Inl (GateError ''gate follow-ups are invalid''))
   \<and> pred_option follow_ups_are_valid (decode_follow_ups u)"
proof
  show "if present follow_ups_are_valid fs then \<exists>v. encode_follow_ups fs = Inr v \<and> decode_follow_ups v = fs
    else encode_follow_ups fs = Inl (GateError ''gate follow-ups are invalid'')"
    using decode_encoded_follow_ups [of fs] by (auto simp: encode_follow_ups_def)
  show "pred_option follow_ups_are_valid (decode_follow_ups u)"
    by (cases u) (simp_all add: decode_follow_ups_def split: Option.bind_split)
qed

section \<open>Operations on the tables\<close>

datatype gate_op =
    SealOp git_world worktree_binding "transition_lease option"
  | RecordOp gate_world worktree_binding candidate_seal gate_context "review_limit_receipt option" gate_evidence
      trusted_gate_policy_evidence "transition_lease option"
  | ReadOp git_world worktree_binding candidate_seal "transition_lease option"
  | EvaluateOp gate_world worktree_binding candidate_seal gate_context "review_limit_receipt option"
      trusted_gate_policy_evidence "transition_lease option"
  | ReadyOp gate_world worktree_binding candidate_seal gate_context "review_limit_receipt option"
      trusted_gate_policy_evidence "transition_lease option"

fun run_gate :: "gate_op \<Rightarrow> gate_tables \<Rightarrow> gate_tables" where
  "run_gate (SealOp w b lease) t = fst (seal_candidate w b lease t)"
| "run_gate (RecordOp w b s c lr e pe lease) t = fst (record_gate_evidence w b s c lr e pe lease t)"
| "run_gate (ReadOp w b s lease) t = fst (read_gate_evidence w b s lease t)"
| "run_gate (EvaluateOp w b s c lr pe lease) t = fst (evaluate_gates w b s c lr pe lease t)"
| "run_gate (ReadyOp w b s c lr pe lease) t = fst (transition_ready_for_owner w b s c lr pe lease t)"

inductive gate_step :: "gate_tables \<Rightarrow> gate_op \<Rightarrow> gate_tables \<Rightarrow> bool" where
  "gate_step t op (run_gate op t)"

inductive_simps gate_step_simps [simp]: "gate_step t op t'"

definition empty_tables :: "gate_tables \<Rightarrow> bool" where
  "empty_tables t \<longleftrightarrow> t = \<lparr>candidate_seals = [], candidate_evidence_rows = [], gate_contexts = [], gate_evidence_rows = []\<rparr>"

text \<open>Checks of the live candidate leave the tables alone or drop everything of one task.\<close>

definition dropped :: "gate_tables \<Rightarrow> gate_tables \<Rightarrow> bool" where
  "dropped t t' \<longleftrightarrow> t' = t \<or> (\<exists>task. t' = drop_seal task (drop_evidence task t))"

lemma dropped_refl [simp]: "dropped t t"
  by (simp add: dropped_def)

lemma invalidate_and_raise_drops [simp]: "dropped t (fst (invalidate_and_raise w b lease e t))"
  by (auto simp: invalidate_and_raise_def invalidate_candidate_def dropped_def split: sum.split)

lemma invalidate_and_raise_fails [simp]: "snd (invalidate_and_raise w b lease e t) \<noteq> Inr x"
  by (auto simp: invalidate_and_raise_def split: prod.split sum.split)

lemma revalidate_drops:
  "dropped t (fst (revalidate_live_candidate_binding w b lease t))"
  "snd (revalidate_live_candidate_binding w b lease t) = Inr u \<Longrightarrow>
     fst (revalidate_live_candidate_binding w b lease t) = t \<and> gw_binding w = BindingVerified"
  by (auto simp: revalidate_live_candidate_binding_def split: binding_check.split_asm binding_check.split)

lemma live_drops: "dropped t (fst (require_live_candidate w b s lease t))"
proof (cases "revalidate_live_candidate_binding w b lease t")
  case (Pair t1 r)
  then show ?thesis
    using revalidate_drops(1) [where t = t and w = w and b = b and lease = lease]
      revalidate_drops(2) [where t = t and w = w and b = b and lease = lease]
    by (cases r) (auto simp: require_live_candidate_def split: sum.split bool.split)
qed

lemma live_facts:
  assumes "require_live_candidate w b s lease t = (t', Inr u)"
  shows "t' = t \<and> gw_binding w = BindingVerified \<and> gw_dirty w = Inr False \<and> gw_head w = Inr (sl_candidate_sha s)
    \<and> wb_task_id b = sl_task_id s \<and> wb_base_sha b = sl_base_sha s \<and> wb_state_identity b = sl_state_identity s"
proof -
  obtain t1 r where v: "revalidate_live_candidate_binding w b lease t = (t1, r)" by fastforce
  have f: "invalidate_and_raise w b lease e t1 \<noteq> (t', Inr u)" for e
    by (metis invalidate_and_raise_fails snd_conv)
  from assms v f have "r = Inr ()" by (cases r) (auto simp: require_live_candidate_def)
  with v revalidate_drops(2) [of w b lease t "()"] have "t1 = t" "gw_binding w = BindingVerified" by simp_all
  with assms v f \<open>r = Inr ()\<close> show ?thesis
    by (auto simp: require_live_candidate_def split: sum.split_asm bool.split_asm if_split_asm)
qed

lemma seal_drops:
  assumes "seal_candidate w b lease t = (t', r)"
  shows "dropped t t' \<or> (\<exists>row. t' = t\<lparr>candidate_seals := AList.update (wb_task_id b) row (candidate_seals t)\<rparr>
      \<and> map_of (candidate_seals t) (wb_task_id b) \<in> {None, Some row})
    \<or> (\<exists>row. t' = (drop_evidence (wb_task_id b) t)\<lparr>candidate_seals := AList.update (wb_task_id b) row (candidate_seals t)\<rparr>)"
proof -
  obtain t1 r1 where v: "revalidate_live_candidate_binding w b lease t = (t1, r1)" by fastforce
  show ?thesis
  proof (cases r1)
    case (Inl e)
    with assms v revalidate_drops(1) [where t = t and w = w and b = b and lease = lease] show ?thesis
      by (simp add: seal_candidate_def)
  next
    case (Inr u)
    with v revalidate_drops(2) [where t = t and w = w and b = b and lease = lease] have "t1 = t" by simp
    moreover have "dropped t t'" if "invalidate_and_raise w b lease e t = (t', r)" for e
      by (metis invalidate_and_raise_drops fst_conv that)
    ultimately show ?thesis using assms v Inr
      by (auto simp: seal_candidate_def Let_def drop_evidence_def split: sum.split_asm bool.split_asm option.split_asm if_split_asm)
  qed
qed

lemma candidate_evidence_facts:
  assumes "candidate_evidence w b s lease t = (t', r)"
  shows "dropped t t'" "r = Inr fs \<Longrightarrow> t' = t \<and> require_live_candidate w b s lease t = (t, Inr ()) \<and> seal_is_current s t"
proof -
  obtain t1 r1 where v: "require_live_candidate w b s lease t = (t1, r1)" by fastforce
  show "dropped t t'" using assms v live_drops [where t = t and w = w and b = b and s = s and lease = lease]
    by (auto simp: candidate_evidence_def split: sum.split_asm if_split_asm)
  assume "r = Inr fs"
  with assms v live_facts [of w b s lease t t1] show "t' = t \<and> require_live_candidate w b s lease t = (t, Inr ()) \<and> seal_is_current s t"
    by (auto simp: candidate_evidence_def split: sum.split_asm if_split_asm)
qed

lemma bind_facts:
  assumes "bind_candidate_evidence w b s fp lease t = (t', r)"
  shows "r = Inl e \<Longrightarrow> dropped t t'"
    "r = Inr () \<Longrightarrow> seal_is_current s t \<and> wb_task_id b = sl_task_id s
      \<and> t' = t\<lparr>candidate_evidence_rows := insert_or_ignore ((sl_task_id s, sl_candidate_sha s), fp) (candidate_evidence_rows t)\<rparr>"
proof -
  obtain t1 r1 where v: "require_live_candidate w b s lease t = (t1, r1)" by fastforce
  show "dropped t t'" if "r = Inl e"
    using assms v that live_drops [where t = t and w = w and b = b and s = s and lease = lease]
    by (auto simp: bind_candidate_evidence_def split: sum.split_asm if_split_asm)
  assume "r = Inr ()"
  with assms v live_facts [of w b s lease t t1] show "seal_is_current s t \<and> wb_task_id b = sl_task_id s
      \<and> t' = t\<lparr>candidate_evidence_rows := insert_or_ignore ((sl_task_id s, sl_candidate_sha s), fp) (candidate_evidence_rows t)\<rparr>"
    by (auto simp: bind_candidate_evidence_def split: sum.split_asm if_split_asm)
qed

text \<open>The three reading operations at most drop a task.\<close>

lemma persisted_decision_facts:
  assumes "read_persisted_decision w b s lease t = (t', r)"
  shows "dropped t t'" "r = Inr d \<Longrightarrow> t' = t \<and> require_live_candidate (gw_git w) b s lease t = (t, Inr ()) \<and> seal_is_current s t
    \<and> (\<exists>ti. gw_tasks w (wb_task_id b) = Some ti \<and> d = decision_from_connection w ti t)"
proof -
  obtain t1 r1 where v: "candidate_evidence (gw_git w) b s lease t = (t1, r1)" by fastforce
  note f = candidate_evidence_facts [OF v]
  show "dropped t t'" using assms v f(1) by (auto simp: read_persisted_decision_def split: sum.split_asm)
  assume "r = Inr d"
  with assms v f(2) show "t' = t \<and> require_live_candidate (gw_git w) b s lease t = (t, Inr ()) \<and> seal_is_current s t
    \<and> (\<exists>ti. gw_tasks w (wb_task_id b) = Some ti \<and> d = decision_from_connection w ti t)"
    by (auto simp: read_persisted_decision_def gate_task_identity_def split: sum.split_asm option.split_asm)
qed

lemma reading_drops:
  "dropped t (fst (read_gate_evidence g b s lease t))"
  "dropped t (fst (evaluate_gates w b s c lr pe lease t))"
  "dropped t (fst (transition_ready_for_owner w b s c lr pe lease t))"
proof -
  obtain t1 r1 where v: "candidate_evidence g b s lease t = (t1, r1)" by fastforce
  show "dropped t (fst (read_gate_evidence g b s lease t))"
    using candidate_evidence_facts(1) [OF v] v by (auto simp: read_gate_evidence_def split: sum.split)
  obtain t2 r2 where d: "read_persisted_decision w b s lease t = (t2, r2)" by fastforce
  show "dropped t (fst (evaluate_gates w b s c lr pe lease t))"
    using persisted_decision_facts(1) [OF d] d by (auto simp: evaluate_gates_def split: sum.split option.split)
  obtain t3 r3 where v': "candidate_evidence (gw_git w) b s lease t = (t3, r3)" by fastforce
  show "dropped t (fst (transition_ready_for_owner w b s c lr pe lease t))"
    using candidate_evidence_facts [OF v'] persisted_decision_facts(1) [OF d] v' d
    by (auto simp: transition_ready_for_owner_def split: sum.split option.split)
qed

text \<open>
  Recording: the tables are left to the liveness check, or the candidate is the sealed one and the
  transaction commits the context and then the evidence row.
\<close>

definition bound_tables :: "candidate_seal \<Rightarrow> gate_evidence \<Rightarrow> gate_tables \<Rightarrow> gate_tables" where
  "bound_tables s e t = t\<lparr>candidate_evidence_rows :=
     insert_or_ignore ((sl_task_id s, sl_candidate_sha s), gv_evidence_fingerprint e) (candidate_evidence_rows t)\<rparr>"

text \<open>Reading a chain of early returns.\<close>

lemma early_return:
  "(case m of Inl x \<Rightarrow> (t, Inl x) | Inr y \<Rightarrow> f y) = (t', r) \<longleftrightarrow>
     (\<exists>x. m = Inl x \<and> t' = t \<and> r = Inl x) \<or> (\<exists>y. m = Inr y \<and> f y = (t', r))"
  "(if q then (t, Inl x) else u) = (t', r) \<longleftrightarrow> q \<and> t' = t \<and> r = Inl x \<or> \<not> q \<and> u = (t', r)"
  "(case z of (a, b) \<Rightarrow> g a b) = (t', r) \<longleftrightarrow> (\<exists>a b. z = (a, b) \<and> g a b = (t', r))"
  by ((cases m; force), force, (cases z; force))

lemma transaction_cases:
  fixes b s e
  defines "key \<equiv> (wb_task_id b, sl_candidate_sha s)"
  assumes "gate_transaction w b s c e act lease t = (t', r)"
  shows "t' = t
    \<or> (\<exists>terminal x. commit_context key (context_values c act terminal) (graph_pass e) t = Inl (t', x))
    \<or> (\<exists>terminal t2 v. commit_context key (context_values c act terminal) (graph_pass e) t = Inr t2
        \<and> encode_follow_ups (gv_follow_ups e) = Inr v
        \<and> commit_evidence e v (t2\<lparr>candidate_evidence_rows :=
             insert_or_ignore (key, gv_evidence_fingerprint e) (candidate_evidence_rows t2)\<rparr>) = (t', r))"
proof -
  define tail where "tail terminal =
     (case commit_context key (context_values c act terminal) (graph_pass e) t of
        Inl (t', x) \<Rightarrow> (t', Inl x)
      | Inr t' \<Rightarrow>
     (case encode_follow_ups (gv_follow_ups e) of Inl x \<Rightarrow> (t, Inl x) | Inr follow_ups \<Rightarrow>
      commit_evidence e follow_ups
        (t'\<lparr>candidate_evidence_rows := insert_or_ignore (key, gv_evidence_fingerprint e) (candidate_evidence_rows t')\<rparr>)))" for terminal
  have "t' = t \<or> (\<exists>terminal. tail terminal = (t', r))"
    using assms(2) unfolding gate_transaction_def key_def [symmetric] tail_def [symmetric] early_return by blast
  moreover have "t' = t \<or> (\<exists>x. commit_context key (context_values c act terminal) (graph_pass e) t = Inl (t', x))
    \<or> (\<exists>t2 v. commit_context key (context_values c act terminal) (graph_pass e) t = Inr t2
        \<and> encode_follow_ups (gv_follow_ups e) = Inr v
        \<and> commit_evidence e v (t2\<lparr>candidate_evidence_rows :=
             insert_or_ignore (key, gv_evidence_fingerprint e) (candidate_evidence_rows t2)\<rparr>) = (t', r))"
    if "tail terminal = (t', r)" for terminal
    using that unfolding tail_def by (auto split: sum.split_asm)
  ultimately show ?thesis by blast
qed

lemma record_cases:
  assumes "record_gate_evidence w b s c lr e pe lease t = (t', r)"
  obtains "dropped t t'"
  | act where "seal_is_current s t" "is_well_formed e" "current_trusted_policy_activation w b c pe = Some act"
      "fst (evidence_key_of e) = (sl_task_id s, sl_candidate_sha s)" "t' = bound_tables s e t"
  | act terminal x where "seal_is_current s t" "is_well_formed e" "current_trusted_policy_activation w b c pe = Some act"
      "fst (evidence_key_of e) = (sl_task_id s, sl_candidate_sha s)"
      "commit_context (sl_task_id s, sl_candidate_sha s) (context_values c act terminal) (graph_pass e) (bound_tables s e t) = Inl (t', x)"
  | act terminal t2 v where "seal_is_current s t" "is_well_formed e" "current_trusted_policy_activation w b c pe = Some act"
      "fst (evidence_key_of e) = (sl_task_id s, sl_candidate_sha s)"
      "commit_context (sl_task_id s, sl_candidate_sha s) (context_values c act terminal) (graph_pass e) (bound_tables s e t) = Inr t2"
      "encode_follow_ups (gv_follow_ups e) = Inr v" "commit_evidence e v (bound_tables s e t2) = (t', r)"
proof -
  obtain t1 r1 where bc: "bind_candidate_evidence (gw_git w) b s (gv_evidence_fingerprint e) lease t = (t1, r1)" by fastforce
  show thesis
  proof (cases r1)
    case (Inl x)
    with bind_facts(1) [OF bc] assms bc have "dropped t t'"
      unfolding record_gate_evidence_def by (auto split: if_split_asm option.split_asm)
    then show thesis by (rule that(1))
  next
    case (Inr u)
    note bf = bind_facts(2) [OF bc] and r1 = Inr
    show thesis
    proof (cases "\<exists>act. is_well_formed e \<and> current_trusted_policy_activation w b c pe = Some act
        \<and> gv_task_id e = wb_task_id b \<and> gv_candidate_sha e = sl_candidate_sha s
        \<and> gate_transaction w b s c e act lease t1 = (t', r)")
      case False
      with assms bc r1 have "t' = t"
        unfolding record_gate_evidence_def by (auto split: if_split_asm option.split_asm)
      then show thesis using that(1) by simp
    next
      case True
      then obtain act where wf: "is_well_formed e" and act: "current_trusted_policy_activation w b c pe = Some act"
        and ids: "gv_task_id e = wb_task_id b" "gv_candidate_sha e = sl_candidate_sha s"
        and tr: "gate_transaction w b s c e act lease t1 = (t', r)" by blast
      from bf r1 have t1: "t1 = bound_tables s e t" and seal: "seal_is_current s t" and task: "wb_task_id b = sl_task_id s"
        by (simp_all add: bound_tables_def)
      have key: "fst (evidence_key_of e) = (sl_task_id s, sl_candidate_sha s)" using ids task by (simp add: evidence_key_of_def)
      note base = seal wf act key
      consider "t' = t1" | terminal x where
          "commit_context (sl_task_id s, sl_candidate_sha s) (context_values c act terminal) (graph_pass e) t1 = Inl (t', x)"
        | terminal t2 v where
          "commit_context (sl_task_id s, sl_candidate_sha s) (context_values c act terminal) (graph_pass e) t1 = Inr t2"
          "encode_follow_ups (gv_follow_ups e) = Inr v" "commit_evidence e v (bound_tables s e t2) = (t', r)"
        using transaction_cases [OF tr] unfolding task bound_tables_def by blast
      then show thesis
      proof cases
        case 1
        with base t1 show thesis by (intro that(2)) simp_all
      next
        case 2
        with base t1 show thesis by (intro that(3)) simp_all
      next
        case 3
        with base t1 show thesis by (intro that(4)) simp_all
      qed
    qed
  qed
qed

section \<open>Evidence belongs to the sealed candidate\<close>

definition sealed :: "gate_tables \<Rightarrow> candidate_key \<Rightarrow> bool" where
  "sealed t k \<longleftrightarrow> (\<exists>base state_identity. map_of (candidate_seals t) (fst k) = Some (base, snd k, state_identity))"

definition row_keys :: "gate_tables \<Rightarrow> candidate_key set" where
  "row_keys t = fst ` set (candidate_evidence_rows t) \<union> fst ` set (gate_contexts t) \<union> (fst \<circ> fst) ` set (gate_evidence_rows t)"

definition tables_ok :: "gate_tables \<Rightarrow> bool" where
  "tables_ok t \<longleftrightarrow> distinct (map fst (gate_contexts t)) \<and> distinct (map fst (gate_evidence_rows t)) \<and> (\<forall>k\<in>row_keys t. sealed t k)"

lemma row_keys_simps [simp]:
  "row_keys (drop_evidence task t) = {k \<in> row_keys t. fst k \<noteq> task}"
  "row_keys (drop_seal task t) = row_keys t"
  "row_keys (t\<lparr>candidate_seals := x\<rparr>) = row_keys t"
  by (force simp: row_keys_def drop_evidence_def drop_seal_def)+

lemma map_of_filter_key: "k \<noteq> a \<Longrightarrow> map_of (filter (\<lambda>(k, _). k \<noteq> a) al) k = map_of al k"
  by (induction al) auto

lemma sealed_simps [simp]:
  "sealed (drop_evidence task t) k = sealed t k"
  "fst k \<noteq> task \<Longrightarrow> sealed (drop_seal task t) k = sealed t k"
  "fst k \<noteq> task \<Longrightarrow> sealed (t\<lparr>candidate_seals := AList.update task row seals\<rparr>) k = sealed (t\<lparr>candidate_seals := seals\<rparr>) k"
  by (simp_all add: sealed_def drop_seal_def drop_evidence_def map_of_filter_key update_conv')

lemma table_keys_drop:
  assumes "tables_ok t"
  shows "distinct (map fst (gate_contexts (drop_evidence task t)))" "distinct (map fst (gate_evidence_rows (drop_evidence task t)))"
  using assms by (simp_all add: tables_ok_def drop_evidence_def distinct_map_filter)

lemma tables_ok_dropped: "tables_ok t \<Longrightarrow> dropped t t' \<Longrightarrow> tables_ok t'"
  using table_keys_drop by (auto simp: dropped_def tables_ok_def) (simp_all add: drop_seal_def)

lemma tables_ok_seal:
  assumes "tables_ok t" "seal_candidate w b lease t = (t', r)"
  shows "tables_ok t'"
  using seal_drops [OF assms(2)]
proof (elim disjE exE conjE)
  assume "dropped t t'"
  with assms(1) show ?thesis by (rule tables_ok_dropped)
next
  fix row
  assume t': "t' = t\<lparr>candidate_seals := AList.update (wb_task_id b) row (candidate_seals t)\<rparr>"
    and old: "map_of (candidate_seals t) (wb_task_id b) \<in> {None, Some row}"
  have "sealed t' k" if "sealed t k" for k
    using that old unfolding t' sealed_def by (cases "fst k = wb_task_id b") (auto simp: update_conv')
  with assms(1) show ?thesis unfolding tables_ok_def by (simp add: t')
next
  fix row
  assume t': "t' = (drop_evidence (wb_task_id b) t)\<lparr>candidate_seals := AList.update (wb_task_id b) row (candidate_seals t)\<rparr>"
  have "sealed t' k" if "fst k \<noteq> wb_task_id b" "sealed t k" for k
    using that unfolding t' sealed_def by (simp add: update_conv')
  with assms(1) table_keys_drop [OF assms(1)] show ?thesis unfolding tables_ok_def by (simp add: t')
qed

lemma commit_context_Inl:
  "commit_context key row g t = Inl (t', x) \<Longrightarrow> t' = t \<or> t' = drop_candidate_evidence key t"
  by (auto simp: commit_context_def Let_def split: option.split_asm if_split_asm)

text \<open>The three ways a context is committed: first, unchanged, or replaced with the evidence dropped.\<close>

lemma commit_context_Inr:
  assumes "commit_context key row g t = Inr t2"
  obtains (first) "map_of (gate_contexts t) key = None" "t2 = t\<lparr>gate_contexts := gate_contexts t @ [(key, row)]\<rparr>"
  | (same) old where "map_of (gate_contexts t) key = Some old" "same_context old row"
      "cx_policy_activated_at old = cx_policy_activated_at row" "t2 = t"
  | (moved) old where "map_of (gate_contexts t) key = Some old"
      "t2 = (drop_candidate_evidence key t)\<lparr>gate_contexts := AList.update key row (gate_contexts t)\<rparr>"
  using assms by (auto simp: commit_context_def Let_def split: option.split_asm if_split_asm)

lemma commit_evidence_cases:
  assumes "commit_evidence e v t = (t', r)"
  obtains (new) "map_of (gate_evidence_rows t) (evidence_key_of e) = None" "r = Inr ()"
      "t' = t\<lparr>gate_evidence_rows := gate_evidence_rows t @ [(evidence_key_of e, evidence_row_of e v)]\<rparr>"
  | (replay) "map_of (gate_evidence_rows t) (evidence_key_of e) = Some (evidence_row_of e v)" "t' = t" "r = Inr ()"
  | (conflict) old where "map_of (gate_evidence_rows t) (evidence_key_of e) = Some old" "old \<noteq> evidence_row_of e v"
      "r = Inl (GateError ''conflicting gate evidence was recorded'')"
      "t' = t\<lparr>gate_evidence_rows := AList.update (evidence_key_of e)
         (old\<lparr>ev_outcome := evidence_outcome_value E_CONFLICT, ev_reason := Some ''conflicting evidence replay''\<rparr>) (gate_evidence_rows t)\<rparr>"
  using assms by (auto simp: commit_evidence_def split: option.split_asm if_split_asm)

lemma seal_current_sealed: "seal_is_current s t \<Longrightarrow> sealed t (sl_task_id s, sl_candidate_sha s)"
  by (simp add: seal_is_current_def sealed_def)

lemma sealed_rows [simp]:
  "sealed (t\<lparr>gate_contexts := x\<rparr>) k = sealed t k" "sealed (t\<lparr>gate_evidence_rows := y\<rparr>) k = sealed t k"
  "sealed (bound_tables s e t) k = sealed t k" "sealed (drop_candidate_evidence key t) k = sealed t k"
  by (simp_all add: sealed_def bound_tables_def drop_candidate_evidence_def)

lemma bound_tables_rows [simp]:
  "gate_contexts (bound_tables s e t) = gate_contexts t" "gate_evidence_rows (bound_tables s e t) = gate_evidence_rows t"
  "row_keys (bound_tables s e t) = insert (sl_task_id s, sl_candidate_sha s) (row_keys t)"
  by (force simp: bound_tables_def row_keys_def insert_or_ignore_def)+

lemma drop_candidate_evidence_rows:
  "gate_contexts (drop_candidate_evidence key t) = gate_contexts t"
  "set (gate_evidence_rows (drop_candidate_evidence key t)) = {r \<in> set (gate_evidence_rows t). fst (fst r) \<noteq> key}"
  "row_keys (drop_candidate_evidence key t) \<subseteq> row_keys t"
  by (auto simp: drop_candidate_evidence_def row_keys_def)

lemma tables_ok_drop_candidate: "tables_ok t \<Longrightarrow> tables_ok (drop_candidate_evidence key t)"
  using drop_candidate_evidence_rows(3) [of key t]
  by (auto simp: tables_ok_def) (simp_all add: drop_candidate_evidence_def distinct_map_filter)

lemma tables_ok_bound: "tables_ok t \<Longrightarrow> seal_is_current s t \<Longrightarrow> tables_ok (bound_tables s e t)"
  using seal_current_sealed by (auto simp: tables_ok_def)

lemma row_keys_contexts: "row_keys (t\<lparr>gate_contexts := x\<rparr>) \<subseteq> row_keys t \<union> fst ` set x"
  by (auto simp: row_keys_def)

lemma row_keys_evidence: "row_keys (t\<lparr>gate_evidence_rows := x\<rparr>) \<subseteq> row_keys t \<union> (fst \<circ> fst) ` set x"
  by (auto simp: row_keys_def)

lemma tables_ok_contexts:
  assumes "tables_ok t" "distinct (map fst x)" "\<forall>k\<in>fst ` set x. sealed t k"
  shows "tables_ok (t\<lparr>gate_contexts := x\<rparr>)"
proof -
  have "\<forall>k\<in>row_keys (t\<lparr>gate_contexts := x\<rparr>). sealed t k"
    using assms(1,3) row_keys_contexts [of x t] unfolding tables_ok_def by blast
  with assms(1,2) show ?thesis by (simp add: tables_ok_def)
qed

lemma tables_ok_evidence:
  assumes "tables_ok t" "distinct (map fst x)" "\<forall>k\<in>fst ` set x. sealed t (fst k)"
  shows "tables_ok (t\<lparr>gate_evidence_rows := x\<rparr>)"
proof -
  have "\<forall>k\<in>row_keys (t\<lparr>gate_evidence_rows := x\<rparr>). sealed t k"
    using assms(1,3) row_keys_evidence [of x t] unfolding tables_ok_def image_comp [symmetric] by blast
  with assms(1,2) show ?thesis by (simp add: tables_ok_def)
qed

lemma tables_ok_commit_context:
  assumes "tables_ok t" "sealed t key" "commit_context key row g t = Inr t2"
  shows "tables_ok t2 \<and> sealed t2 key"
proof -
  have ctx: "\<forall>k\<in>fst ` set (gate_contexts t). sealed t k" "distinct (map fst (gate_contexts t))"
    using assms(1) unfolding tables_ok_def row_keys_def by blast+
  from assms(3) show ?thesis
  proof (cases rule: commit_context_Inr)
    case first
    have "tables_ok t2" unfolding first(2)
      by (rule tables_ok_contexts [OF assms(1)]) (use first(1) ctx assms(2) in \<open>simp_all add: map_of_eq_None_iff\<close>)
    then show ?thesis using assms(2) by (simp add: first(2))
  next
    case (moved old)
    have "tables_ok t2" unfolding moved(2)
      by (rule tables_ok_contexts [OF tables_ok_drop_candidate [OF assms(1)]])
        (use ctx assms(2) in \<open>simp_all add: distinct_update dom_update del: image_set\<close>)
    then show ?thesis using assms(2) by (simp add: moved(2))
  qed (use assms in simp)
qed

lemma tables_ok_commit_evidence:
  assumes "tables_ok t" "sealed t (fst (evidence_key_of e))" "commit_evidence e v t = (t', r)"
  shows "tables_ok t'"
proof -
  have rows: "\<forall>k\<in>fst ` set (gate_evidence_rows t). sealed t (fst k)" "distinct (map fst (gate_evidence_rows t))"
    using assms(1) unfolding tables_ok_def row_keys_def image_comp [symmetric] by blast+
  from assms(3) show ?thesis
  proof (cases rule: commit_evidence_cases)
    case new
    show ?thesis unfolding new(3)
      by (rule tables_ok_evidence [OF assms(1)]) (use new(1) rows assms(2) in \<open>simp_all add: map_of_eq_None_iff\<close>)
  next
    case (conflict old)
    show ?thesis unfolding conflict(4)
      by (rule tables_ok_evidence [OF assms(1)]) (use rows assms(2) in \<open>simp_all add: distinct_update dom_update\<close>)
  qed (use assms in simp)
qed

text \<open>Every operation keeps the tables consistent.\<close>

lemma tables_ok_record:
  assumes "tables_ok t" "record_gate_evidence w b s c lr e pe lease t = (t', r)"
  shows "tables_ok t'"
  using assms(2)
proof (cases rule: record_cases)
  case 1
  with assms(1) show ?thesis by (rule tables_ok_dropped)
next
  case (2 act)
  with assms(1) show ?thesis using tables_ok_bound by blast
next
  case (3 act terminal x)
  with commit_context_Inl [OF 3(5)] tables_ok_bound [OF assms(1) 3(1)] tables_ok_drop_candidate show ?thesis by blast
next
  case (4 act terminal t2 v)
  have "tables_ok t2 \<and> sealed t2 (sl_task_id s, sl_candidate_sha s)"
    by (rule tables_ok_commit_context [OF tables_ok_bound [OF assms(1) 4(1)] _ 4(5)]) (simp add: seal_current_sealed [OF 4(1)])
  then have "tables_ok (bound_tables s e t2)" "sealed (bound_tables s e t2) (fst (evidence_key_of e))"
    using 4(4) by (auto simp: tables_ok_def)
  from tables_ok_commit_evidence [OF this 4(7)] show ?thesis .
qed

lemma tables_ok_step: "tables_ok t \<Longrightarrow> gate_step t op t' \<Longrightarrow> tables_ok t'"
proof (cases op)
  case (SealOp w b lease)
  then show "tables_ok t \<Longrightarrow> gate_step t op t' \<Longrightarrow> tables_ok t'"
    using tables_ok_seal by (cases "seal_candidate w b lease t") auto
next
  case (RecordOp w b s c lr e pe lease)
  then show "tables_ok t \<Longrightarrow> gate_step t op t' \<Longrightarrow> tables_ok t'"
    using tables_ok_record by (cases "record_gate_evidence w b s c lr e pe lease t") auto
qed (auto intro: tables_ok_dropped reading_drops)

lemma empty_tables_ok: "empty_tables t \<Longrightarrow> tables_ok t"
  by (simp add: empty_tables_def tables_ok_def row_keys_def)

interpretation gts: invariant_system empty_tables gate_step tables_ok
  by unfold_locales (auto intro: empty_tables_ok tables_ok_step simp del: gate_step_simps)

abbreviation gates_run :: "gate_tables \<Rightarrow> gate_op list \<Rightarrow> gate_tables \<Rightarrow> bool" where
  "gates_run \<equiv> gts.reaches"

section \<open>An example run\<close>

text \<open>A single-source task whose candidate is sealed and whose gates are recorded one after the other.\<close>

definition sample_lease :: transition_lease where
  "sample_lease = \<lparr>tl_repository_id = ''repo'', tl_state_identity = ''state'', tl_owner = ''owner'', tl_generation = 1, tl_expires_at = 2\<rparr>"

definition sample_git :: git_world where
  "sample_git = \<lparr>gw_binding = BindingVerified, gw_dirty = Inr False, gw_head = Inr (replicate 40 CHR ''d''),
     gw_lease_row = Some sample_lease, gw_state_id = ''state'', gw_now = 1\<rparr>"

definition sample_worktree :: worktree_binding where
  "sample_worktree = \<lparr>wb_task_id = ''task'', wb_repository_id = ''repo'', wb_branch = ''branch'', wb_worktree = ''tree'',
     wb_base_sha = replicate 40 CHR ''e'', wb_state_identity = ''state''\<rparr>"

definition sample_seal :: candidate_seal where
  "sample_seal = \<lparr>sl_task_id = ''task'', sl_base_sha = replicate 40 CHR ''e'', sl_candidate_sha = replicate 40 CHR ''d'',
     sl_state_identity = ''state''\<rparr>"

definition sample_task :: task_identity where
  "sample_task = \<lparr>ti_task_id = ''task'', ti_source_id = ''source'', ti_repository_id = ''repo'', ti_branch = ''branch'',
     ti_worktree = ''tree'', ti_base_sha = replicate 40 CHR ''e''\<rparr>"

definition sample_world :: gate_world where
  "sample_world = \<lparr>gw_git = sample_git, gw_tasks = [''task'' \<mapsto> sample_task], gw_same_worktree = (=),
     gw_runtime_rows = (\<lambda>_. Some (columns sample_runtime)), gw_review_policy_rows = (\<lambda>_. None), gw_limit_rows = (\<lambda>_. None),
     gw_routed_reviews = (\<lambda>_ _. None), gw_terminal = (\<lambda>_. Inr (''terminal'', 1)), gw_graph_is_current = (\<lambda>_ _ _ _. False),
     gw_blockers = (\<lambda>_ _. False)\<rparr>"

definition sample_policy :: trusted_gate_policy_evidence where
  "sample_policy = \<lparr>tp_snapshot = Some sample_snapshot,
     tp_receipt = Some (sample_activation\<lparr>ar_task_fingerprint := task_identity_fingerprint sample_task\<rparr>),
     tp_standing_authority = Some \<lparr>sa_allowed_actions = {ISSUE_COMMENT}\<rparr>, tp_evaluated_at = Some (utc 1 3),
     tp_receipt_status = Some Receipt_FRESH\<rparr>"

definition sample_gate_context :: gate_context where
  "sample_gate_context = \<lparr>gc_task_id = ''task'', gc_candidate_sha = replicate 40 CHR ''d'', gc_source_count = 1,
     gc_isolated_local_task = True, gc_policy_digest = policy_digest \<lparr>pd_schema_version = 1, pd_allowed_actions = {ISSUE_COMMENT}\<rparr>,
     gc_receipt_fingerprint = replicate 64 CHR ''1'', gc_runtime_binding = sample_runtime,
     gc_selected_supervisor_profile_identity = ''sha256:'' @ replicate 64 CHR ''c'',
     gc_dependency_graph_version_id = None, gc_dependency_graph_decision_digest = None\<rparr>"

definition sample_gate_evidence :: "gate_key \<Rightarrow> gate_evidence" where
  "sample_gate_evidence k = \<lparr>gv_task_id = ''task'', gv_candidate_sha = replicate 40 CHR ''d'', gv_gate_key = gate_key_value k,
     gv_outcome = evidence_outcome_value (if k = DEPENDENCY_GRAPH then E_NOT_APPLICABLE else E_PASS),
     gv_evaluator_id = ''evaluator'', gv_evaluated_at = 1, gv_evidence_fingerprint = replicate 64 CHR ''f'',
     gv_changed_boundary = Some ''local'', gv_reason = Some ''single'', gv_follow_ups = Some []\<rparr>"

definition sample_tables :: "gate_key list \<Rightarrow> gate_tables" where
  "sample_tables ks = \<lparr>candidate_seals = [(''task'', replicate 40 CHR ''e'', replicate 40 CHR ''d'', ''state'')],
     candidate_evidence_rows = (if ks = [] then [] else [((''task'', replicate 40 CHR ''d''), replicate 64 CHR ''f'')]),
     gate_contexts = (if ks = [] then [] else [((''task'', replicate 40 CHR ''d''),
       context_values sample_gate_context (isoformat (utc 1 0)) ''terminal'')]),
     gate_evidence_rows = map (\<lambda>k. (evidence_key_of (sample_gate_evidence k), evidence_row_of (sample_gate_evidence k) (JList []))) ks\<rparr>"

definition sample_record :: "gate_key \<Rightarrow> gate_op" where
  "sample_record k = RecordOp sample_world sample_worktree sample_seal sample_gate_context None (sample_gate_evidence k)
     sample_policy (Some sample_lease)"

lemmas sample_defs = sample_lease_def sample_git_def sample_worktree_def sample_seal_def sample_task_def sample_world_def

lemma sample_gate_authorized: "pol_authorized (gate_policy_decision sample_task sample_gate_context sample_policy)"
  unfolding gate_policy_decision_def policy_authorized_evidence
  by (simp add: policy_rules sample_policy_def sample_gate_context_def sample_snapshot_def sample_activation_def
      POLICY_SCHEMA_VERSION_def task_identity_fingerprint_def)

lemma authorized_names:
  assumes "pol_authorized (evaluate_policy snapshot (Some r) task candidate standing now status)"
  shows "pol_policy_digest (evaluate_policy snapshot (Some r) task candidate standing now status) = Some (ar_policy_digest r)
    \<and> pol_receipt_fingerprint (evaluate_policy snapshot (Some r) task candidate standing now status) = Some (ar_receipt_fingerprint r)"
  using assms [unfolded policy_authorized_evidence]
  by (auto simp: evaluate_policy_def policy_require_fingerprint_def policy_require_commit_sha_def policy_require_utc_def
      simp del: first_failure_None_iff)

lemma sample_current_activation:
  "current_trusted_policy_activation sample_world sample_worktree sample_gate_context sample_policy = Some (isoformat (utc 1 0))"
proof -
  let ?d = "gate_policy_decision sample_task sample_gate_context sample_policy"
  have d: "?d = evaluate_policy (tp_snapshot sample_policy)
      (Some (sample_activation\<lparr>ar_task_fingerprint := task_identity_fingerprint sample_task\<rparr>)) (task_identity_fingerprint sample_task)
      (gc_candidate_sha sample_gate_context) (tp_standing_authority sample_policy) (tp_evaluated_at sample_policy)
      (tp_receipt_status sample_policy)"
    by (simp add: gate_policy_decision_def sample_policy_def)
  have n: "pol_policy_digest ?d = Some (gc_policy_digest sample_gate_context)"
      "pol_receipt_fingerprint ?d = Some (gc_receipt_fingerprint sample_gate_context)"
    using authorized_names [OF sample_gate_authorized [unfolded d]] unfolding d by (simp_all add: sample_gate_context_def sample_activation_def)
  have "require_runtime_binding sample_world sample_task (gc_runtime_binding sample_gate_context) = Inr ()"
    by (simp add: require_runtime_binding_def sample_world_def sample_gate_context_def has_review_policy_def sample_runtime_def)
  moreover have "gw_tasks sample_world (gc_task_id sample_gate_context) = Some sample_task"
    by (simp add: sample_world_def sample_gate_context_def)
  moreover have "ti_task_id sample_task = wb_task_id sample_worktree" "ti_repository_id sample_task = wb_repository_id sample_worktree"
      "ti_branch sample_task = wb_branch sample_worktree" "ti_base_sha sample_task = wb_base_sha sample_worktree"
      "gw_same_worktree sample_world (ti_worktree sample_task) (wb_worktree sample_worktree)"
    by (simp_all add: sample_defs)
  ultimately show ?thesis using sample_gate_authorized n
    by (simp add: current_trusted_policy_activation_def Let_def)
      (simp add: sample_policy_def sample_activation_def sample_gate_context_def require_matches_def)
qed

lemma sample_live: "bind_candidate_evidence sample_git sample_worktree sample_seal (replicate 64 CHR ''f'') (Some sample_lease) (sample_tables ks)
    = (bound_tables sample_seal (sample_gate_evidence k) (sample_tables ks), Inr ())"
  by (simp add: bind_candidate_evidence_def require_live_candidate_def revalidate_live_candidate_binding_def require_current_lease_def
      lease_failure_def seal_is_current_def bound_tables_def sample_tables_def sample_defs sample_gate_evidence_def)

lemma registry_complete: "registered (gate_key_value k)"
  by (cases k) (simp_all add: registered_def GATE_REGISTRY_def)

lemma outcomes_complete: "evidence_outcome_value oc \<in> evidence_outcome_value ` set all_evidence_outcomes"
  by (cases oc) (simp_all add: all_evidence_outcomes_def)

lemma sample_tokens: "is_gate_token ''task''" "is_gate_token ''evaluator''"
  by code_simp+

lemma sample_well_formed: "is_well_formed_context sample_gate_context" "is_well_formed (sample_gate_evidence k)"
  by (simp_all add: is_well_formed_context_def is_well_formed_def sample_gate_context_def sample_gate_evidence_def sample_tokens
      outcomes_complete sample_runtime_def follow_ups_are_valid_def del: evidence_outcome_value.simps)

lemma gate_key_value_inj: "gate_key_value k = gate_key_value k' \<longleftrightarrow> k = k'"
  by (cases k; cases k') simp_all

lemma sample_key_inj: "evidence_key_of (sample_gate_evidence k) = evidence_key_of (sample_gate_evidence k') \<longleftrightarrow> k = k'"
  by (simp add: evidence_key_of_def sample_gate_evidence_def gate_key_value_inj)

lemma sample_new_row:
  "k \<notin> set ks \<Longrightarrow> map_of (gate_evidence_rows (sample_tables ks)) (evidence_key_of (sample_gate_evidence k)) = None"
  by (auto simp: sample_tables_def map_of_eq_None_iff sample_key_inj)

lemma same_context_refl [simp]: "same_context ctx ctx"
  by (simp add: same_context_def same_source_def same_trust_def)

lemma sample_step:
  assumes "k \<notin> set ks"
  shows "run_gate (sample_record k) (sample_tables ks) = sample_tables (ks @ [k])"
proof -
  let ?e = "sample_gate_evidence k" and ?t = "bound_tables sample_seal (sample_gate_evidence k) (sample_tables ks)"
  let ?t2 = "?t\<lparr>gate_contexts := gate_contexts (sample_tables [k])\<rparr>"
  have ids: "gc_task_id sample_gate_context = wb_task_id sample_worktree" "gc_candidate_sha sample_gate_context = sl_candidate_sha sample_seal"
      "gv_task_id ?e = wb_task_id sample_worktree" "gv_candidate_sha ?e = sl_candidate_sha sample_seal"
    by (simp_all add: sample_gate_context_def sample_gate_evidence_def sample_worktree_def sample_seal_def)
  have fin: "valid_review_limit_finalization sample_world sample_worktree sample_seal (gc_runtime_binding sample_gate_context) None"
    by (simp add: valid_review_limit_finalization_def sample_world_def)
  have np: "\<not> graph_pass ?e" by (cases k) (simp_all add: graph_pass_def sample_gate_evidence_def)
  have cc: "commit_context (''task'', replicate 40 CHR ''d'') (context_values sample_gate_context (isoformat (utc 1 0)) ''terminal'') False ?t = Inr ?t2"
    by (simp add: commit_context_def) (simp add: sample_tables_def bound_tables_def)
  have fu: "encode_follow_ups (gv_follow_ups ?e) = Inr (JList [])"
    by (simp add: sample_gate_evidence_def encode_follow_ups_def follow_ups_are_valid_def)
  have "gate_transaction sample_world sample_worktree sample_seal sample_gate_context ?e (isoformat (utc 1 0)) (Some sample_lease) ?t
      = commit_evidence ?e (JList []) (bound_tables sample_seal ?e ?t2)"
    using np cc fu
    by (simp add: gate_transaction_def) (simp add: require_current_transition_lease_def lease_failure_def sample_defs gate_task_identity_def
        require_runtime_binding_def sample_gate_context_def sample_runtime_def has_review_policy_def bound_tables_def sample_tables_def)
  also have "\<dots> = (sample_tables (ks @ [k]), Inr ())"
    using sample_new_row [OF assms]
    by (simp add: commit_evidence_def) (simp add: sample_tables_def bound_tables_def insert_or_ignore_def sample_seal_def sample_gate_evidence_def)
  finally show ?thesis
    using sample_live [of ks k] ids fin sample_well_formed sample_current_activation registry_complete [of k]
    by (simp add: sample_record_def record_gate_evidence_def) (simp add: sample_world_def sample_gate_evidence_def)
qed

lemma sample_gate_run:
  "distinct ks \<Longrightarrow> gates_run \<lparr>candidate_seals = [], candidate_evidence_rows = [], gate_contexts = [], gate_evidence_rows = []\<rparr>
     (SealOp sample_git sample_worktree (Some sample_lease) # map sample_record ks) (sample_tables ks)"
proof (induction ks rule: rev_induct)
  case Nil
  have "run_gate (SealOp sample_git sample_worktree (Some sample_lease))
      \<lparr>candidate_seals = [], candidate_evidence_rows = [], gate_contexts = [], gate_evidence_rows = []\<rparr> = sample_tables []"
    by (simp add: seal_candidate_def revalidate_live_candidate_binding_def require_current_lease_def lease_failure_def sample_defs
        sample_tables_def)
  then have "gate_step \<lparr>candidate_seals = [], candidate_evidence_rows = [], gate_contexts = [], gate_evidence_rows = []\<rparr>
      (SealOp sample_git sample_worktree (Some sample_lease)) (sample_tables [])" unfolding gate_step_simps by (rule sym)
  from gts.reaches_snoc [OF gts.reaches_nil this] show ?case by (simp del: gate_step_simps)
next
  case (snoc k ks)
  then have "gate_step (sample_tables ks) (sample_record k) (sample_tables (ks @ [k]))" by (simp add: sample_step)
  from gts.reaches_snoc [OF snoc.IH this] snoc.prems show ?case by (simp del: gate_step_simps)
qed

lemma sample_accepts:
  assumes "r \<in> set GATE_REGISTRY"
  shows "gate_accepts sample_gate_context r {sample_gate_evidence (gq_key r)}"
proof -
  have "settled_entry sample_gate_context (sample_gate_evidence k)" for k
    using sample_well_formed(2) [of k] by (simp add: settled_entry_def) (simp add: sample_gate_context_def sample_gate_evidence_def)
  moreover have "justified_na (sample_gate_evidence k)" for k
    by (simp add: justified_na_def sample_gate_evidence_def) code_simp
  moreover have "gq_key r = DEPENDENCY_GRAPH \<longrightarrow> permits_phase_two_local_na r" using assms by (auto simp: GATE_REGISTRY_def)
  ultimately show ?thesis by (simp add: gate_accepts_def) (simp add: sample_gate_context_def sample_gate_evidence_def)
qed

lemma sample_entries:
  "{e. Some e \<in> set (map (Some \<circ> sample_gate_evidence) (map gq_key GATE_REGISTRY)) \<and> gv_gate_key e = gate_key_value (gq_key r)}
     = (if gq_key r \<in> gq_key ` set GATE_REGISTRY then {sample_gate_evidence (gq_key r)} else {})"
proof -
  have "gv_gate_key (sample_gate_evidence k) = gate_key_value k" for k by (simp add: sample_gate_evidence_def)
  then show ?thesis by (auto simp: gate_key_value_inj image_iff)
qed

text \<open>
  After any sequence of sealing, recording, reading, evaluating and
  transition attempts, every context, every gate record and every evidence fingerprint in the tables
  belongs to the commit that is sealed for its task now; keys are unique.
\<close>

lemma evidence_bound_to_seal:
  assumes "empty_tables s" "gates_run s history t"
  shows "distinct (map fst (gate_contexts t)) \<and> distinct (map fst (gate_evidence_rows t))
    \<and> (\<forall>k\<in>fst ` set (candidate_evidence_rows t) \<union> fst ` set (gate_contexts t) \<union> (fst \<circ> fst) ` set (gate_evidence_rows t).
         \<exists>base state_identity. map_of (candidate_seals t) (fst k) = Some (base, snd k, state_identity))"
  using gts.reachable_inv [OF assms(2,1)] unfolding tables_ok_def row_keys_def sealed_def .

theorem gates_pass_iff_witness:
  "gd_outcome (decide_gates (Some sample_gate_context)
     (Some (map (Some \<circ> sample_gate_evidence) (map gq_key GATE_REGISTRY)))) = G_PASS"
  unfolding gates_pass_iff sample_entries
  using sample_accepts sample_well_formed(1) registry_complete by (auto simp: sample_gate_evidence_def)

end
