(* ===== verification/Gates_Ready.thy ===== *)
theory Gates_Ready
  imports Gates_Safety
begin

text \<open>
  The trusted context and the final transition: every stored record was recorded under the context
  that is committed now, so that an attempt to hand the task to its owner rests only on evidence for
  the sealed candidate under the current policy activation.
\<close>

section \<open>Evidence belongs to the committed context\<close>

text \<open>The recording operation that a stored row comes from, under the context that is stored now.\<close>

fun records :: "gate_op \<Rightarrow> evidence_key \<Rightarrow> evidence_row \<Rightarrow> context_row \<Rightarrow> bool" where
  "records (RecordOp w b s c lr e pe lease) key row ctx \<longleftrightarrow>
     evidence_key_of e = key \<and> is_well_formed e
     \<and> (\<exists>act v. current_trusted_policy_activation w b c pe = Some act \<and> cx_policy_activated_at ctx = act
          \<and> same_context ctx (context_values c act []) \<and> encode_follow_ups (gv_follow_ups e) = Inr v
          \<and> (row = evidence_row_of e v \<or> ev_outcome row = evidence_outcome_value E_CONFLICT))"
| "records _ _ _ _ \<longleftrightarrow> False"

definition recorded :: "gate_op list \<Rightarrow> gate_tables \<Rightarrow> bool" where
  "recorded h t \<longleftrightarrow> (\<forall>(key, row)\<in>set (gate_evidence_rows t).
     \<exists>ctx op. map_of (gate_contexts t) (fst key) = Some ctx \<and> op \<in> set h \<and> records op key row ctx)"

definition keeps :: "gate_tables \<Rightarrow> gate_tables \<Rightarrow> bool" where
  "keeps t t' \<longleftrightarrow> (\<forall>r\<in>set (gate_evidence_rows t'). r \<in> set (gate_evidence_rows t)
     \<and> map_of (gate_contexts t') (fst (fst r)) = map_of (gate_contexts t) (fst (fst r)))"

lemma recorded_keeps: "recorded h t \<Longrightarrow> keeps t t' \<Longrightarrow> recorded (h @ h') t'"
  by (fastforce simp: recorded_def keeps_def)

lemma map_of_filter_task: "fst k \<noteq> task \<Longrightarrow> map_of (filter (\<lambda>((k, _), _). k \<noteq> task) al) k = map_of al k"
  by (induction al) auto

lemma keeps_drop_evidence: "keeps t (drop_evidence task t)"
  by (auto simp: keeps_def drop_evidence_def map_of_filter_task)

lemma keeps_seals [simp]:
  "keeps t (t'\<lparr>candidate_seals := x\<rparr>) = keeps t t'" "keeps t (drop_seal task t') = keeps t t'" "keeps t t"
  by (simp_all add: keeps_def drop_seal_def)

lemma keeps_bound [simp]: "keeps t (bound_tables s e t') = keeps t t'"
  by (simp add: keeps_def)

lemma keeps_drop_candidate: "keeps t (drop_candidate_evidence key t)"
  unfolding keeps_def drop_candidate_evidence_rows by simp

lemma keeps_dropped: "dropped t t' \<Longrightarrow> keeps t t'"
  using keeps_drop_evidence by (auto simp: dropped_def)

lemma keeps_seal: "seal_candidate w b lease t = (t', r) \<Longrightarrow> keeps t t'"
  using seal_drops [of w b lease t t' r] keeps_dropped keeps_drop_evidence by auto

lemma same_context_values: "same_context ctx (context_values c x y) = same_context ctx (context_values c x' y')"
  by (simp add: same_context_def same_source_def same_trust_def context_values_def)

lemma recorded_context:
  assumes "recorded h t" "commit_context key (context_values c act terminal) g t = Inr t2"
  shows "recorded (h @ h') t2" "\<exists>ctx. map_of (gate_contexts t2) key = Some ctx \<and> cx_policy_activated_at ctx = act
    \<and> same_context ctx (context_values c act [])"
proof -
  let ?row = "context_values c act terminal"
  have act: "cx_policy_activated_at ?row = act" by (simp add: context_values_def)
  have same: "same_context ?row (context_values c act [])" by (subst same_context_values [where x' = act and y' = terminal]) simp
  from assms(2) show "recorded (h @ h') t2"
  proof (cases rule: commit_context_Inr)
    case first
    have "fst (fst r) \<noteq> key" if "r \<in> set (gate_evidence_rows t)" for r
      using assms(1) that first(1) by (fastforce simp: recorded_def)
    then have "keeps t t2" using first(1) by (auto simp: keeps_def first(2) map_add_def split: option.split)
    with assms(1) show ?thesis by (rule recorded_keeps)
  next
    case (moved old)
    have "keeps t t2" unfolding moved(2) keeps_def
      by (auto simp: drop_candidate_evidence_rows update_conv')
    with assms(1) show ?thesis by (rule recorded_keeps)
  qed (use assms(1) recorded_keeps in simp)
  from assms(2) show "\<exists>ctx. map_of (gate_contexts t2) key = Some ctx \<and> cx_policy_activated_at ctx = act
    \<and> same_context ctx (context_values c act [])"
  proof (cases rule: commit_context_Inr)
    case first
    with act same show ?thesis by (auto simp: map_add_def)
  next
    case (same old)
    then show ?thesis using act same_context_values [of old c act terminal act "[]"] by auto
  next
    case (moved old)
    with act same show ?thesis by (simp add: update_conv')
  qed
qed

lemma recorded_grow:
  assumes "recorded h t" "gate_contexts t' = gate_contexts t" "map_of (gate_contexts t) (fst k) = Some ctx"
    "op \<in> set h" "records op k r ctx" "set (gate_evidence_rows t') \<subseteq> insert (k, r) (set (gate_evidence_rows t))"
  shows "recorded h t'"
  unfolding recorded_def
proof (rule ballI, rule case_prodI2)
  fix x key row assume "x \<in> set (gate_evidence_rows t')" "x = (key, row)"
  with assms(6) have "(key, row) = (k, r) \<or> (key, row) \<in> set (gate_evidence_rows t)" by blast
  then show "\<exists>ctx op. map_of (gate_contexts t') (fst key) = Some ctx \<and> op \<in> set h \<and> records op key row ctx"
  proof
    assume "(key, row) = (k, r)"
    with assms(2-5) show ?thesis by auto
  next
    assume "(key, row) \<in> set (gate_evidence_rows t)"
    with assms(1) have "\<exists>ctx op. map_of (gate_contexts t) (fst key) = Some ctx \<and> op \<in> set h \<and> records op key row ctx"
      unfolding recorded_def by blast
    then show ?thesis unfolding assms(2) .
  qed
qed

lemma recorded_commit:
  assumes old: "recorded h t" and op: "op = RecordOp w b s c lr e pe lease" "is_well_formed e"
      "current_trusted_policy_activation w b c pe = Some act" "encode_follow_ups (gv_follow_ups e) = Inr v"
    and ctx: "map_of (gate_contexts t) (fst (evidence_key_of e)) = Some ctx" "cx_policy_activated_at ctx = act"
      "same_context ctx (context_values c act [])"
    and step: "tables_ok t" "commit_evidence e v t = (t', r)"
  shows "recorded (h @ [op]) t'"
proof -
  have grow: "recorded (h @ [op]) t" using recorded_keeps [OF old, of t "[op]"] by simp
  from step(2) show ?thesis
  proof (cases rule: commit_evidence_cases)
    case new
    have this_new: "records op (evidence_key_of e) (evidence_row_of e v) ctx" using op ctx by simp
    show ?thesis by (rule recorded_grow [OF grow _ ctx(1) _ this_new]) (auto simp: new(3))
  next
    case (conflict old_row)
    let ?row = "old_row\<lparr>ev_outcome := evidence_outcome_value E_CONFLICT, ev_reason := Some ''conflicting evidence replay''\<rparr>"
    have new: "records op (evidence_key_of e) ?row ctx" using op ctx by simp
    have "(key, row) = (evidence_key_of e, ?row) \<or> (key, row) \<in> set (gate_evidence_rows t)"
      if "(key, row) \<in> set (gate_evidence_rows t')" for key row
      using update_entries [of "gate_evidence_rows t" key row "evidence_key_of e" ?row] that step(1)
      unfolding conflict(4) by (simp add: tables_ok_def)
    then have rows: "set (gate_evidence_rows t') \<subseteq> insert (evidence_key_of e, ?row) (set (gate_evidence_rows t))"
      by (intro subrelI) simp
    show ?thesis by (rule recorded_grow [OF grow _ ctx(1) _ new rows]) (simp_all add: conflict(4))
  qed (use grow in simp)
qed

lemma recorded_record:
  assumes "recorded h t" "tables_ok t" "record_gate_evidence w b s c lr e pe lease t = (t', r)"
  shows "recorded (h @ [RecordOp w b s c lr e pe lease]) t'"
  using assms(3)
proof (cases rule: record_cases)
  case 1
  with assms(1) show ?thesis using keeps_dropped recorded_keeps by blast
next
  case (2 act)
  then show ?thesis using recorded_keeps [OF assms(1), of t'] by simp
next
  case (3 act terminal x)
  have "keeps t t'" using commit_context_Inl [OF 3(5)] keeps_drop_candidate [of "bound_tables s e t"] by (auto simp: keeps_def)
  with assms(1) show ?thesis by (rule recorded_keeps)
next
  case (4 act terminal t2 v)
  have b: "recorded h (bound_tables s e t)" using recorded_keeps [OF assms(1), of "bound_tables s e t" "[]"] by simp
  note c = recorded_context(1) [OF b 4(5), of "[]"] recorded_context(2) [OF b 4(5)]
  have "tables_ok t2 \<and> sealed t2 (sl_task_id s, sl_candidate_sha s)"
    by (rule tables_ok_commit_context [OF tables_ok_bound [OF assms(2) 4(1)] _ 4(5)]) (simp add: seal_current_sealed [OF 4(1)])
  then have ok: "tables_ok (bound_tables s e t2)" by (auto simp: tables_ok_def)
  have "recorded h (bound_tables s e t2)" using recorded_keeps [of "h @ []" t2 "bound_tables s e t2" "[]"] c(1) by simp
  with c(2) ok 4 show ?thesis by (auto intro: recorded_commit)
qed

lemma recorded_step:
  assumes "recorded h t" "tables_ok t" "gate_step t op t'"
  shows "recorded (h @ [op]) t'"
proof (cases op)
  case (SealOp w b lease)
  with assms(3) keeps_seal [of w b lease t] have "keeps t t'" by (cases "seal_candidate w b lease t") auto
  with assms(1) show ?thesis by (rule recorded_keeps)
next
  case (RecordOp w b s c lr e pe lease)
  with assms(3) recorded_record [OF assms(1,2), of w b s c lr e pe lease] show ?thesis
    by (cases "record_gate_evidence w b s c lr e pe lease t") auto
qed (use assms reading_drops keeps_dropped recorded_keeps in auto)

lemma recorded_run:
  assumes "gates_run s history t" "empty_tables s"
  shows "recorded history t"
  using assms
proof (induction rule: gts.reaches.induct)
  case (reaches_nil s)
  then show ?case by (simp add: recorded_def empty_tables_def)
next
  case (reaches_snoc s ls t op u)
  then show ?case using recorded_step gts.reachable_inv by blast
qed

text \<open>
  Every gate record that the tables hold after any sequence of
  operations was recorded by one of them as well-formed evidence, under the policy activation and the
  very context columns that are committed for its candidate now; it has its recorded contents, or it
  was marked as a conflict by a differing replay. Evidence of an earlier context is gone.
\<close>

lemma evidence_never_survives_context:
  assumes "empty_tables s" "gates_run s history t" "(key, row) \<in> set (gate_evidence_rows t)"
  shows "\<exists>ctx w b sl c lr e pe lease act v. map_of (gate_contexts t) (fst key) = Some ctx
    \<and> RecordOp w b sl c lr e pe lease \<in> set history \<and> evidence_key_of e = key \<and> is_well_formed e
    \<and> current_trusted_policy_activation w b c pe = Some act \<and> cx_policy_activated_at ctx = act
    \<and> same_context ctx (context_values c act []) \<and> encode_follow_ups (gv_follow_ups e) = Inr v
    \<and> (row = evidence_row_of e v \<or> ev_outcome row = evidence_outcome_value E_CONFLICT)"
proof -
  from recorded_run [OF assms(2,1)] assms(3) obtain ctx op where
    "map_of (gate_contexts t) (fst key) = Some ctx" "op \<in> set history" "records op key row ctx" by (auto simp: recorded_def)
  then show ?thesis by (cases op) (simp_all, blast)
qed

section \<open>Ready for the owner\<close>

lemma ready_facts:
  assumes "transition_ready_for_owner w b s c lr pe lease t = (t', Inr ti)"
  obtains act where "t' = t" "current_trusted_policy_activation w b c pe = Some act"
    "valid_review_limit_finalization w b s (gc_runtime_binding c) lr"
    "require_live_candidate (gw_git w) b s lease t = (t, Inr ())" "seal_is_current s t"
    "contexts_match c (read_gate_context (wb_task_id b, sl_candidate_sha s) t)"
    "persisted_policy_activation (wb_task_id b, sl_candidate_sha s) t = Some act"
    "gw_tasks w (wb_task_id b) = Some ti" "gd_outcome (decision_from_connection w ti t) = G_PASS"
proof -
  obtain t1 r1 where v: "candidate_evidence (gw_git w) b s lease t = (t1, r1)" by fastforce
  obtain t2 r2 where d: "read_persisted_decision w b s lease t1 = (t2, r2)" by fastforce
  from assms v obtain act fs where 1: "current_trusted_policy_activation w b c pe = Some act"
    "valid_review_limit_finalization w b s (gc_runtime_binding c) lr" "r1 = Inr fs"
    "contexts_match c (read_gate_context (wb_task_id b, sl_candidate_sha s) t1)"
    "persisted_policy_activation (wb_task_id b, sl_candidate_sha s) t1 = Some act"
    by (auto simp: transition_ready_for_owner_def split: option.split_asm if_split_asm sum.split_asm)
  with assms v d obtain dec where 2: "r2 = Inr dec" "gd_outcome dec = G_PASS" "t' = t2" "gate_task_identity w (wb_task_id b) = Inr ti"
    by (auto simp: transition_ready_for_owner_def split: sum.split_asm if_split_asm)
  have t1: "t1 = t" using candidate_evidence_facts(2) [OF v 1(3)] by simp
  note f = persisted_decision_facts(2) [OF d 2(1)]
  from 2(4) have "gw_tasks w (wb_task_id b) = Some ti" by (simp add: gate_task_identity_def split: option.split_asm)
  with f 1 2 t1 show thesis by (intro that) auto
qed

lemma decision_pass_facts:
  assumes "gd_outcome (decision_from_connection w ti t) = G_PASS" "map_of (candidate_seals t) (ti_task_id ti) = Some (base, candidate, st)"
  obtains cx where "read_gate_context (ti_task_id ti, candidate) t = Some cx" "base = ti_base_sha ti"
    "\<not> gw_blockers w (ti_task_id ti) candidate"
    "gd_outcome (decide_gates (Some cx) (Some (map Some (joined_evidence (ti_task_id ti, candidate) t)))) = G_PASS"
    "1 < gc_source_count cx \<Longrightarrow> \<exists>e\<in>set (joined_evidence (ti_task_id ti, candidate) t).
       require_current_dependency_graph w (ti_task_id ti) candidate cx e = Inr ()"
  using assms unfolding decision_from_connection_def
  by (auto simp: blocked_by_def Let_def find_Some_iff
      split: option.split_asm if_split_asm sum.split_asm intro!: that) (blast intro: nth_mem)

lemma activation_facts:
  assumes "current_trusted_policy_activation w b c pe = Some act" "gw_tasks w (gc_task_id c) = Some ti"
  shows "ti_task_id ti = wb_task_id b \<and> pol_authorized (gate_policy_decision ti c pe)
    \<and> pol_policy_digest (gate_policy_decision ti c pe) = Some (gc_policy_digest c)"
  using assms by (auto simp: current_trusted_policy_activation_def Let_def split: option.split_asm if_split_asm)

lemma read_context_row:
  assumes "read_gate_context key t = Some cx"
  obtains row where "map_of (gate_contexts t) key = Some row" "gc_task_id cx = fst key" "gc_candidate_sha cx = snd key"
    "gc_source_count cx = cx_source_count row" "gc_policy_digest cx = cx_policy_digest row"
    "gc_receipt_fingerprint cx = cx_receipt_fingerprint row"
  using assms by (auto simp: read_gate_context_def bind_eq_Some_conv split: if_split_asm)

lemma evidence_of_recorded:
  assumes "encode_follow_ups (gv_follow_ups e) = Inr v"
  shows "evidence_of_row (evidence_key_of e, evidence_row_of e v) = e"
  using decode_encoded_follow_ups [OF assms] by (cases e) (simp add: evidence_of_row_def evidence_key_of_def evidence_row_of_def)

lemma joined_row:
  assumes "e \<in> set (joined_evidence key t)"
  obtains k row where "((key, k), row) \<in> set (gate_evidence_rows t)" "e = evidence_of_row ((key, k), row)" "gv_outcome e = ev_outcome row"
  using assms by (auto simp: joined_evidence_def candidate_rows_def evidence_of_row_def)

text \<open>Evidence that is read back and is no conflict was recorded as it is.\<close>

lemma joined_recorded:
  assumes "recorded h t" "e \<in> set (joined_evidence key t)" "gv_outcome e \<noteq> evidence_outcome_value E_CONFLICT"
    "map_of (gate_contexts t) key = Some ctx"
  obtains w b s c lr pe lease where "RecordOp w b s c lr e pe lease \<in> set h"
    "current_trusted_policy_activation w b c pe = Some (cx_policy_activated_at ctx)"
    "same_context ctx (context_values c (cx_policy_activated_at ctx) [])"
proof -
  from assms(2) obtain k row where r: "((key, k), row) \<in> set (gate_evidence_rows t)" "e = evidence_of_row ((key, k), row)"
    "gv_outcome e = ev_outcome row" by (rule joined_row)
  from assms(1) r(1) have "\<exists>ctx op. map_of (gate_contexts t) (fst (key, k)) = Some ctx \<and> op \<in> set h \<and> records op (key, k) row ctx"
    unfolding recorded_def by blast
  with assms(4) obtain op where op: "op \<in> set h" "records op (key, k) row ctx" by auto
  show thesis
  proof (cases op)
    case (RecordOp w b s c lr e' pe lease)
    with op(2) obtain v where v: "evidence_key_of e' = (key, k)" "encode_follow_ups (gv_follow_ups e') = Inr v"
        "row = evidence_row_of e' v \<or> ev_outcome row = evidence_outcome_value E_CONFLICT"
      and a: "current_trusted_policy_activation w b c pe = Some (cx_policy_activated_at ctx)"
        "same_context ctx (context_values c (cx_policy_activated_at ctx) [])" by auto
    from v(3) assms(3) r(3) have "row = evidence_row_of e' v" by simp
    then have "e = e'" using r(2) v(1) evidence_of_recorded [OF v(2)] by simp
    with op(1) RecordOp a show thesis by (intro that) simp_all
  qed (use op(2) in simp_all)
qed

text \<open>The outcomes a gate accepts.\<close>

definition accepted_outcome :: "gate_requirement \<Rightarrow> gate_evidence \<Rightarrow> bool" where
  "accepted_outcome r e \<longleftrightarrow> gv_outcome e = evidence_outcome_value E_PASS
     \<or> permits_phase_two_local_na r \<and> gv_outcome e = evidence_outcome_value E_NOT_APPLICABLE \<and> justified_na e"

lemma gate_accepts_entry:
  assumes "gate_accepts c r es" "e \<in> es"
  shows "settled_entry c e \<and> accepted_outcome r e"
  using assms unfolding gate_accepts_def accepted_outcome_def by blast

lemma ready_decision:
  assumes "transition_ready_for_owner w b s c lr pe lease t = (t', Inr ti)"
  obtains ctx where "map_of (gate_contexts t) (wb_task_id b, sl_candidate_sha s) = Some ctx"
    "current_trusted_policy_activation w b c pe = Some (cx_policy_activated_at ctx)" "\<not> gw_blockers w (wb_task_id b) (sl_candidate_sha s)"
    "cx_source_count ctx = gc_source_count c" "cx_policy_digest ctx = gc_policy_digest c"
    "cx_receipt_fingerprint ctx = gc_receipt_fingerprint c"
    "gc_task_id c = wb_task_id b" "gc_candidate_sha c = sl_candidate_sha s"
    "\<And>e. e \<in> set (joined_evidence (wb_task_id b, sl_candidate_sha s) t) \<Longrightarrow> registered (gv_gate_key e)"
    "\<And>r. r \<in> set GATE_REGISTRY \<Longrightarrow>
       \<exists>e\<in>set (joined_evidence (wb_task_id b, sl_candidate_sha s) t). gv_gate_key e = gate_key_value (gq_key r)"
    "\<And>r e. r \<in> set GATE_REGISTRY \<Longrightarrow> e \<in> set (joined_evidence (wb_task_id b, sl_candidate_sha s) t) \<Longrightarrow>
       gv_gate_key e = gate_key_value (gq_key r) \<Longrightarrow> settled_entry c e \<and> accepted_outcome r e"
proof -
  let ?key = "(wb_task_id b, sl_candidate_sha s)"
  obtain act where f: "current_trusted_policy_activation w b c pe = Some act" "seal_is_current s t"
    "require_live_candidate (gw_git w) b s lease t = (t, Inr ())" "contexts_match c (read_gate_context ?key t)"
    "persisted_policy_activation ?key t = Some act"
    "gw_tasks w (wb_task_id b) = Some ti" "gd_outcome (decision_from_connection w ti t) = G_PASS"
    using assms by (rule ready_facts)
  from f(4) obtain cx where cx: "read_gate_context ?key t = Some cx"
    and m: "gc_task_id c = gc_task_id cx" "gc_candidate_sha c = gc_candidate_sha cx" "gc_source_count c = gc_source_count cx"
      "gc_policy_digest c = gc_policy_digest cx" "gc_receipt_fingerprint c = gc_receipt_fingerprint cx"
    by (auto simp: contexts_match_def split: option.split_asm)
  from cx obtain row where row: "map_of (gate_contexts t) ?key = Some row" "gc_task_id cx = fst ?key" "gc_candidate_sha cx = snd ?key"
    "gc_source_count cx = cx_source_count row" "gc_policy_digest cx = cx_policy_digest row"
    "gc_receipt_fingerprint cx = cx_receipt_fingerprint row" by (rule read_context_row)
  have act: "act = cx_policy_activated_at row"
    using f(5) row(1) by (simp add: persisted_policy_activation_def split: if_split_asm)
  have ti: "ti_task_id ti = wb_task_id b" using activation_facts [OF f(1), of ti] f(6) m(1) row(2) by simp
  have seal: "map_of (candidate_seals t) (ti_task_id ti) = Some (sl_base_sha s, sl_candidate_sha s, sl_state_identity s)"
    using f(2) live_facts [OF f(3)] ti by (simp add: seal_is_current_def)
  from f(7) seal obtain cx' where d: "read_gate_context (ti_task_id ti, sl_candidate_sha s) t = Some cx'"
    "\<not> gw_blockers w (ti_task_id ti) (sl_candidate_sha s)"
    "gd_outcome (decide_gates (Some cx') (Some (map Some (joined_evidence (ti_task_id ti, sl_candidate_sha s) t)))) = G_PASS"
    by (rule decision_pass_facts)
  from d(1) cx have "cx' = cx" by (simp add: ti)
  note pass = d(3) [unfolded this ti decide_gates_pass]
  have settled: "settled_entry cx e = settled_entry c e" for e using m by (simp add: settled_entry_def)
  have entry: "\<exists>e\<in>set (joined_evidence ?key t). gv_gate_key e = gate_key_value (gq_key r)" if "r \<in> set GATE_REGISTRY" for r
    using pass that unfolding gate_accepts_def by (auto simp: image_iff)
  have entries: "settled_entry c e \<and> accepted_outcome r e" if "r \<in> set GATE_REGISTRY" "e \<in> set (joined_evidence ?key t)"
      "gv_gate_key e = gate_key_value (gq_key r)" for r e
    using pass that gate_accepts_entry [of cx r _ e] unfolding settled by (auto simp: image_iff)
  show thesis by (rule that [of row]) (use row m f(1) act d(2) ti pass entry entries in auto)
qed

text \<open>
  C18 (ready_for_owner_safe). When the final transition of a task is attempted, after any history of
  operations, then at that moment: the trusted policy is activated for this task and candidate, the
  worktree is verified, clean and at the sealed commit, the seal is the current one, no review item
  blocks, and each registered gate rests on evidence that an operation of the history recorded for
  this very task and candidate, well formed, with all follow-ups resolved and an outcome the gate
  accepts, under the same activation, policy, receipt and number of sources. No evidence of another
  candidate or an earlier activation is ever counted, and the attempt itself changes no row.
\<close>

theorem ready_for_owner_safe:
  assumes "empty_tables t0" "gates_run t0 history t" "transition_ready_for_owner w b s c lr pe lease t = (t', Inr ti)"
  shows "t' = t \<and> gw_tasks w (wb_task_id b) = Some ti \<and> pol_authorized (gate_policy_decision ti c pe)
    \<and> gw_binding (gw_git w) = BindingVerified \<and> gw_dirty (gw_git w) = Inr False
    \<and> gw_head (gw_git w) = Inr (sl_candidate_sha s) \<and> seal_is_current s t \<and> \<not> gw_blockers w (wb_task_id b) (sl_candidate_sha s)
    \<and> (\<forall>r\<in>set GATE_REGISTRY. \<exists>w' b' s' c' lr' e pe' lease'. RecordOp w' b' s' c' lr' e pe' lease' \<in> set history
         \<and> gv_gate_key e = gate_key_value (gq_key r) \<and> gv_task_id e = wb_task_id b \<and> gv_candidate_sha e = sl_candidate_sha s
         \<and> is_well_formed e \<and> list_all fu_resolved (the (gv_follow_ups e)) \<and> accepted_outcome r e
         \<and> gc_policy_digest c' = gc_policy_digest c \<and> gc_receipt_fingerprint c' = gc_receipt_fingerprint c
         \<and> gc_source_count c' = gc_source_count c
         \<and> current_trusted_policy_activation w' b' c' pe' = current_trusted_policy_activation w b c pe)"
proof -
  let ?key = "(wb_task_id b, sl_candidate_sha s)"
  note rec = recorded_run [OF assms(2,1)]
  obtain act where f: "t' = t" "current_trusted_policy_activation w b c pe = Some act" "seal_is_current s t"
    "require_live_candidate (gw_git w) b s lease t = (t, Inr ())" "gw_tasks w (wb_task_id b) = Some ti"
    using assms(3) by (rule ready_facts)
  from assms(3) show ?thesis
  proof (cases rule: ready_decision)
    case (1 ctx)
    note row = 1(1) and fields = 1(2,4-8) and entry = 1(10) and entries = 1(11)
    have gate: "\<exists>w' b' s' c' lr' e pe' lease'. RecordOp w' b' s' c' lr' e pe' lease' \<in> set history
         \<and> gv_gate_key e = gate_key_value (gq_key r) \<and> gv_task_id e = wb_task_id b \<and> gv_candidate_sha e = sl_candidate_sha s
         \<and> is_well_formed e \<and> list_all fu_resolved (the (gv_follow_ups e)) \<and> accepted_outcome r e
         \<and> gc_policy_digest c' = gc_policy_digest c \<and> gc_receipt_fingerprint c' = gc_receipt_fingerprint c
         \<and> gc_source_count c' = gc_source_count c
         \<and> current_trusted_policy_activation w' b' c' pe' = current_trusted_policy_activation w b c pe" if r: "r \<in> set GATE_REGISTRY" for r
    proof -
      obtain e where e: "e \<in> set (joined_evidence ?key t)" "gv_gate_key e = gate_key_value (gq_key r)" using entry [OF r] by blast
      have ok: "settled_entry c e" "accepted_outcome r e" using entries [OF r e] by simp_all
      have "gv_outcome e \<noteq> evidence_outcome_value E_CONFLICT" using ok(2) by (auto simp: accepted_outcome_def)
      from joined_recorded [OF rec e(1) this row] obtain w' b' s' c' lr' pe' lease' where
        op: "RecordOp w' b' s' c' lr' e pe' lease' \<in> set history"
          "current_trusted_policy_activation w' b' c' pe' = Some (cx_policy_activated_at ctx)"
          "same_context ctx (context_values c' (cx_policy_activated_at ctx) [])" .
      have "gc_policy_digest c' = gc_policy_digest c" "gc_receipt_fingerprint c' = gc_receipt_fingerprint c"
        "gc_source_count c' = gc_source_count c"
        using op(3) fields by (simp_all add: same_context_def same_source_def same_trust_def context_values_def)
      with op(1,2) e(2) ok fields show ?thesis unfolding settled_entry_def by metis
    qed
    have "pol_authorized (gate_policy_decision ti c pe)" using activation_facts [OF f(2)] f(5) fields by simp
    with f live_facts [OF f(4)] 1(3) gate show ?thesis by (intro conjI ballI) simp_all
  qed
qed

section \<open>The example run, up to the owner\<close>

abbreviation sample_key :: candidate_key where
  "sample_key \<equiv> (''task'', replicate 40 CHR ''d'')"

abbreviation all_gates :: "gate_key list" where
  "all_gates \<equiv> map gq_key GATE_REGISTRY"

lemma isoformat_nonempty: "isoformat (utc d h) \<noteq> []"
  by (simp add: isoformat_def utc_def)

lemma sample_context_read: "ks \<noteq> [] \<Longrightarrow> read_gate_context sample_key (sample_tables ks) = Some sample_gate_context"
proof -
  have "first_failure (runtime_binding_guards sample_runtime) = None" using sample_runtime_valid by (simp add: valid_runtime_binding_def)
  then have rb: "caught_result (make_runtime_binding sample_runtime) = Some sample_runtime"
    by (simp only: make_runtime_binding_def construct_def option.case caught_result.simps)
  have sel: "''sha256:'' @ replicate 64 CHR ''c'' \<in> set (supervisor_profile_identities sample_runtime)" by (simp add: sample_runtime_def)
  assume "ks \<noteq> []"
  then show ?thesis using rb sel by (simp add: read_gate_context_def sample_tables_def context_values_def sample_gate_context_def)
qed

lemma sample_joined: "ks \<noteq> [] \<Longrightarrow> set (joined_evidence sample_key (sample_tables ks)) = sample_gate_evidence ` set ks"
proof -
  have fu: "encode_follow_ups (gv_follow_ups (sample_gate_evidence k)) = Inr (JList [])" for k
    by (simp add: sample_gate_evidence_def encode_follow_ups_def follow_ups_are_valid_def)
  have "evidence_of_row (evidence_key_of (sample_gate_evidence k), evidence_row_of (sample_gate_evidence k) (JList [])) = sample_gate_evidence k"
    for k using evidence_of_recorded [OF fu] .
  moreover assume "ks \<noteq> []"
  ultimately show ?thesis
    by (simp add: joined_evidence_def candidate_rows_def sample_tables_def evidence_key_of_def sample_gate_evidence_def image_image
        Collect_conj_eq cong: image_cong)
qed

lemma sample_candidate_evidence:
  "\<exists>fs. candidate_evidence sample_git sample_worktree sample_seal (Some sample_lease) (sample_tables ks) = (sample_tables ks, Inr fs)"
  by (simp add: candidate_evidence_def require_live_candidate_def revalidate_live_candidate_binding_def seal_is_current_def
      sample_tables_def sample_git_def sample_worktree_def sample_seal_def)

text \<open>The run depends on the blockers of this task and candidate only.\<close>

lemma sample_gate_decision:
  assumes "\<not> f ''task'' (replicate 40 CHR ''d'')"
  shows "gd_outcome (decision_from_connection (sample_world\<lparr>gw_blockers := f\<rparr>) sample_task (sample_tables all_gates)) = G_PASS"
proof -
  have ne: "all_gates \<noteq> []" by (simp add: GATE_REGISTRY_def)
  have set: "Some ` set (joined_evidence sample_key (sample_tables all_gates))
      = set (map (Some \<circ> sample_gate_evidence) all_gates)" by (simp add: sample_joined [OF ne] image_comp)
  have pass: "gd_outcome (decide_gates (Some sample_gate_context) (Some (map Some (joined_evidence sample_key (sample_tables all_gates))))) = G_PASS"
    unfolding decide_gates_pass set_map set unfolding set_map [symmetric] sample_entries
    using sample_accepts sample_well_formed(1) registry_complete by (auto simp: sample_gate_evidence_def)
  have seal: "map_of (candidate_seals (sample_tables all_gates)) ''task'' = Some (replicate 40 CHR ''e'', replicate 40 CHR ''d'', ''state'')"
    by (simp add: sample_tables_def)
  have row: "map_of (gate_contexts (sample_tables all_gates)) sample_key
      = Some (context_values sample_gate_context (isoformat (utc 1 0)) ''terminal'')" using ne by (simp add: sample_tables_def)
  have "ti_task_id sample_task = ''task''" "ti_base_sha sample_task = replicate 40 CHR ''e''" "gw_lease_row (gw_git sample_world) = Some sample_lease"
      "tl_state_identity sample_lease = ''state''" "gw_terminal sample_world x = Inr (''terminal'', 1)"
      "gc_source_count sample_gate_context = 1" "cx_terminal_dependency_binding (context_values sample_gate_context a v) = v" for x y a v
    by (simp_all add: sample_defs sample_gate_context_def context_values_def)
  then show ?thesis using pass seal row sample_context_read [OF ne] assms by (simp add: decision_from_connection_def Let_def)
qed

lemma sample_ready_with:
  assumes "\<not> f ''task'' (replicate 40 CHR ''d'')"
  shows "transition_ready_for_owner (sample_world\<lparr>gw_blockers := f\<rparr>) sample_worktree sample_seal sample_gate_context None sample_policy (Some sample_lease)
     (sample_tables all_gates) = (sample_tables all_gates, Inr sample_task)"
proof -
  let ?t = "sample_tables all_gates"
  have ne: "all_gates \<noteq> []" by (simp add: GATE_REGISTRY_def)
  have w: "gw_git sample_world = sample_git" "wb_task_id sample_worktree = ''task''" "sl_candidate_sha sample_seal = replicate 40 CHR ''d''"
      "gate_task_identity (sample_world\<lparr>gw_blockers := f\<rparr>) ''task'' = Inr sample_task"
    by (simp_all add: sample_world_def sample_worktree_def sample_seal_def gate_task_identity_def)
  have fin: "valid_review_limit_finalization (sample_world\<lparr>gw_blockers := f\<rparr>) sample_worktree sample_seal (gc_runtime_binding sample_gate_context) None"
    by (simp add: valid_review_limit_finalization_def sample_world_def)
  have ctx: "contexts_match sample_gate_context (read_gate_context sample_key ?t)"
    by (simp add: sample_context_read [OF ne] contexts_match_def require_matches_def)
  have act: "persisted_policy_activation sample_key ?t = Some (isoformat (utc 1 0))"
    using ne isoformat_nonempty by (simp add: persisted_policy_activation_def sample_tables_def context_values_def)
  from sample_candidate_evidence obtain fs where
    fs: "candidate_evidence sample_git sample_worktree sample_seal (Some sample_lease) ?t = (?t, Inr fs)" by blast
  have "current_trusted_policy_activation (sample_world\<lparr>gw_blockers := f\<rparr>) sample_worktree sample_gate_context sample_policy
      = current_trusted_policy_activation sample_world sample_worktree sample_gate_context sample_policy"
    by (simp add: current_trusted_policy_activation_def require_runtime_binding_def cong: option.case_cong if_cong)
  then show ?thesis
    using sample_current_activation fin ctx act fs sample_gate_decision [of f, OF assms] w
    by (simp add: transition_ready_for_owner_def read_persisted_decision_def)
qed

lemma sample_ready:
  "transition_ready_for_owner sample_world sample_worktree sample_seal sample_gate_context None sample_policy (Some sample_lease)
     (sample_tables all_gates) = (sample_tables all_gates, Inr sample_task)"
proof -
  have "sample_world\<lparr>gw_blockers := \<lambda>_ _. False\<rparr> = sample_world" by (simp add: sample_world_def)
  then show ?thesis using sample_ready_with [of "\<lambda>_ _. False"] by simp
qed


theorem ready_for_owner_safe_witness:
  "\<exists>t. gates_run \<lparr>candidate_seals = [], candidate_evidence_rows = [], gate_contexts = [], gate_evidence_rows = []\<rparr>
         (SealOp sample_git sample_worktree (Some sample_lease) # map sample_record all_gates) t
     \<and> transition_ready_for_owner sample_world sample_worktree sample_seal sample_gate_context None sample_policy (Some sample_lease) t
         = (t, Inr sample_task)
     \<and> pol_authorized (gate_policy_decision sample_task sample_gate_context sample_policy) \<and> seal_is_current sample_seal t"
proof -
  have "distinct all_gates" by (simp add: GATE_REGISTRY_def)
  note run = sample_gate_run [OF this]
  from ready_for_owner_safe [OF _ run sample_ready] show ?thesis using run sample_ready
    by (intro exI [of _ "sample_tables all_gates"]) (simp add: empty_tables_def del: gate_step_simps)
qed

end
