(* ===== verification/Failure_Recovery.thy ===== *)
theory Failure_Recovery
  imports Json
begin

text \<open>
  \<open>failure_recovery.py\<close>, decisions: the closed taxonomy of failures, the evidence each class needs, the
  only recovery action the matrix allows for it, and the versioned record of such a decision with its
  canonical payload and strict parser. \<open>Recovery_Ledger\<close> holds the durable part.
\<close>

section \<open>Taxonomy\<close>

datatype failure_role = Role_WORKER | Role_SUPERVISOR | Role_DEPENDENCY_REVIEW

fun failure_role_value :: "failure_role \<Rightarrow> string" where
  "failure_role_value Role_WORKER = ''worker''"
| "failure_role_value Role_SUPERVISOR = ''supervisor''"
| "failure_role_value Role_DEPENDENCY_REVIEW = ''dependency-review''"

datatype failure_class = F_PARTIAL_INCREMENT | F_ORDINARY_REVIEW_HANDOFF | F_VALIDATION_RUNNING | F_NO_PROGRESS
  | F_SESSION_TERMINATED | F_FORMAT_INVALID | F_MISSING_OUTPUT | F_TOPOLOGY_VIOLATION | F_HOST_SECURITY_DENIAL
  | F_TRANSIENT_SERVICE | F_CREDENTIAL_FAILURE | F_MISSING_OWNER_SCOPE | F_BUDGET_EXHAUSTED | F_AMBIGUOUS_EFFECT | F_UNKNOWN

fun failure_class_value :: "failure_class \<Rightarrow> string" where
  "failure_class_value F_PARTIAL_INCREMENT = ''partial-increment''"
| "failure_class_value F_ORDINARY_REVIEW_HANDOFF = ''ordinary-review-handoff''"
| "failure_class_value F_VALIDATION_RUNNING = ''validation-running''"
| "failure_class_value F_NO_PROGRESS = ''no-progress''"
| "failure_class_value F_SESSION_TERMINATED = ''session-terminated''"
| "failure_class_value F_FORMAT_INVALID = ''format-invalid''"
| "failure_class_value F_MISSING_OUTPUT = ''missing-output''"
| "failure_class_value F_TOPOLOGY_VIOLATION = ''topology-violation''"
| "failure_class_value F_HOST_SECURITY_DENIAL = ''host-security-denial''"
| "failure_class_value F_TRANSIENT_SERVICE = ''transient-service''"
| "failure_class_value F_CREDENTIAL_FAILURE = ''credential-failure''"
| "failure_class_value F_MISSING_OWNER_SCOPE = ''missing-owner-scope''"
| "failure_class_value F_BUDGET_EXHAUSTED = ''budget-exhausted''"
| "failure_class_value F_AMBIGUOUS_EFFECT = ''ambiguous-effect''"
| "failure_class_value F_UNKNOWN = ''unknown''"

definition all_failure_classes :: "failure_class list" where
  "all_failure_classes = [F_PARTIAL_INCREMENT, F_ORDINARY_REVIEW_HANDOFF, F_VALIDATION_RUNNING, F_NO_PROGRESS,
     F_SESSION_TERMINATED, F_FORMAT_INVALID, F_MISSING_OUTPUT, F_TOPOLOGY_VIOLATION, F_HOST_SECURITY_DENIAL,
     F_TRANSIENT_SERVICE, F_CREDENTIAL_FAILURE, F_MISSING_OWNER_SCOPE, F_BUDGET_EXHAUSTED, F_AMBIGUOUS_EFFECT, F_UNKNOWN]"

datatype evidence_source = VERIFIED_OUTPUT | VERIFIED_HOST | VERIFIED_LIFECYCLE | VERIFIED_TOPOLOGY | VERIFIED_SERVICE
  | MODEL_SELF_REPORT | EVIDENCE_UNAVAILABLE

fun evidence_source_value :: "evidence_source \<Rightarrow> string" where
  "evidence_source_value VERIFIED_OUTPUT = ''verified-output''"
| "evidence_source_value VERIFIED_HOST = ''verified-host''"
| "evidence_source_value VERIFIED_LIFECYCLE = ''verified-lifecycle''"
| "evidence_source_value VERIFIED_TOPOLOGY = ''verified-topology''"
| "evidence_source_value VERIFIED_SERVICE = ''verified-service''"
| "evidence_source_value MODEL_SELF_REPORT = ''model-self-report''"
| "evidence_source_value EVIDENCE_UNAVAILABLE = ''unavailable''"

definition all_evidence_sources :: "evidence_source list" where
  "all_evidence_sources = [VERIFIED_OUTPUT, VERIFIED_HOST, VERIFIED_LIFECYCLE, VERIFIED_TOPOLOGY, VERIFIED_SERVICE,
     MODEL_SELF_REPORT, EVIDENCE_UNAVAILABLE]"

datatype evidence_confidence = Confidence_VERIFIED | Confidence_UNAVAILABLE

fun evidence_confidence_value :: "evidence_confidence \<Rightarrow> string" where
  "evidence_confidence_value Confidence_VERIFIED = ''verified''"
| "evidence_confidence_value Confidence_UNAVAILABLE = ''unavailable''"

datatype recovery_action = CONTINUE_SAME_SESSION | RECONCILE_FIRST | STOP_SCOPE | PREBOUND_FALLBACK

fun recovery_action_value :: "recovery_action \<Rightarrow> string" where
  "recovery_action_value CONTINUE_SAME_SESSION = ''continue-same-session''"
| "recovery_action_value RECONCILE_FIRST = ''reconcile''"
| "recovery_action_value STOP_SCOPE = ''stop-scope''"
| "recovery_action_value PREBOUND_FALLBACK = ''prebound-fallback''"

text \<open>Members of an enumeration by their value, as in \<open>FailureRole(text)\<close>.\<close>

definition failure_role_of :: "string \<Rightarrow> failure_role option" where
  "failure_role_of = enum_of [Role_WORKER, Role_SUPERVISOR, Role_DEPENDENCY_REVIEW] failure_role_value"

definition failure_class_of :: "string \<Rightarrow> failure_class option" where
  "failure_class_of = enum_of all_failure_classes failure_class_value"

definition evidence_source_of :: "string \<Rightarrow> evidence_source option" where
  "evidence_source_of = enum_of all_evidence_sources evidence_source_value"

definition evidence_confidence_of :: "string \<Rightarrow> evidence_confidence option" where
  "evidence_confidence_of = enum_of [Confidence_VERIFIED, Confidence_UNAVAILABLE] evidence_confidence_value"

definition recovery_action_of :: "string \<Rightarrow> recovery_action option" where
  "recovery_action_of = enum_of [CONTINUE_SAME_SESSION, RECONCILE_FIRST, STOP_SCOPE, PREBOUND_FALLBACK] recovery_action_value"

definition untrusted_sources :: "evidence_source set" where
  "untrusted_sources = {MODEL_SELF_REPORT, EVIDENCE_UNAVAILABLE}"

record failure_evidence =
  fe_source :: evidence_source
  fe_confidence :: evidence_confidence

definition make_failure_evidence :: "failure_evidence \<Rightarrow> failure_evidence result" where
  "make_failure_evidence e = construct
     [(\<not> (fe_source e \<in> untrusted_sources \<and> fe_confidence e \<noteq> Confidence_UNAVAILABLE),
       FailureRecoveryError ''untrusted evidence cannot be verified'')] e"

record failure_compatibility =
  co_sources :: "evidence_source set"
  co_action :: recovery_action
  co_retryable :: bool
  co_clearance_required :: bool

definition compatibility :: "evidence_source set \<Rightarrow> recovery_action \<Rightarrow> bool \<Rightarrow> bool \<Rightarrow> failure_compatibility" where
  "compatibility sources action retryable clearance =
     \<lparr>co_sources = sources, co_action = action, co_retryable = retryable, co_clearance_required = clearance\<rparr>"

fun failure_compatibility_matrix :: "failure_class \<Rightarrow> failure_compatibility" where
  "failure_compatibility_matrix F_PARTIAL_INCREMENT = compatibility {VERIFIED_OUTPUT} CONTINUE_SAME_SESSION False False"
| "failure_compatibility_matrix F_ORDINARY_REVIEW_HANDOFF = compatibility {VERIFIED_OUTPUT} CONTINUE_SAME_SESSION False False"
| "failure_compatibility_matrix F_VALIDATION_RUNNING = compatibility {VERIFIED_LIFECYCLE} CONTINUE_SAME_SESSION False False"
| "failure_compatibility_matrix F_NO_PROGRESS = compatibility {VERIFIED_OUTPUT} CONTINUE_SAME_SESSION False False"
| "failure_compatibility_matrix F_SESSION_TERMINATED = compatibility {VERIFIED_LIFECYCLE} PREBOUND_FALLBACK True False"
| "failure_compatibility_matrix F_FORMAT_INVALID = compatibility {VERIFIED_OUTPUT} PREBOUND_FALLBACK True False"
| "failure_compatibility_matrix F_MISSING_OUTPUT = compatibility {VERIFIED_OUTPUT} RECONCILE_FIRST False False"
| "failure_compatibility_matrix F_TOPOLOGY_VIOLATION = compatibility {VERIFIED_TOPOLOGY} RECONCILE_FIRST False False"
| "failure_compatibility_matrix F_HOST_SECURITY_DENIAL = compatibility {VERIFIED_HOST} STOP_SCOPE False True"
| "failure_compatibility_matrix F_TRANSIENT_SERVICE = compatibility {VERIFIED_SERVICE} PREBOUND_FALLBACK True False"
| "failure_compatibility_matrix F_CREDENTIAL_FAILURE = compatibility {VERIFIED_HOST} RECONCILE_FIRST False True"
| "failure_compatibility_matrix F_MISSING_OWNER_SCOPE = compatibility {VERIFIED_LIFECYCLE} STOP_SCOPE False True"
| "failure_compatibility_matrix F_BUDGET_EXHAUSTED = compatibility {VERIFIED_SERVICE} RECONCILE_FIRST False True"
| "failure_compatibility_matrix F_AMBIGUOUS_EFFECT = compatibility {VERIFIED_OUTPUT} RECONCILE_FIRST False False"
| "failure_compatibility_matrix F_UNKNOWN = compatibility (set all_evidence_sources) RECONCILE_FIRST False False"

section \<open>Bindings and records\<close>

text \<open>The regular expression \<open>[A-Za-z0-9][A-Za-z0-9._:/-]*\<close>, matched in full.\<close>

definition is_recovery_token_char :: "char \<Rightarrow> bool" where
  "is_recovery_token_char c \<longleftrightarrow> is_lower c \<or> is_upper c \<or> is_digit c \<or> c \<in> set ''._:/-''"

definition is_recovery_token :: "string \<Rightarrow> bool" where
  "is_recovery_token s \<longleftrightarrow> (case s of [] \<Rightarrow> False
     | c # cs \<Rightarrow> (is_lower c \<or> is_upper c \<or> is_digit c) \<and> list_all is_recovery_token_char cs)"

record failure_binding =
  fb_candidate_sha :: string
  fb_policy_digest :: string
  fb_configuration_digest :: string
  fb_authority_scope :: string
  fb_role :: failure_role
  fb_profile_identity :: string
  fb_session_identity :: string
  fb_attempt_identity :: string

definition failure_binding_guards :: "failure_binding \<Rightarrow> (bool \<times> py_error) list" where
  "failure_binding_guards b =
     [(is_sha (fb_candidate_sha b) \<and> is_digest (fb_policy_digest b) \<and> is_digest (fb_configuration_digest b)
         \<and> is_recovery_token (fb_authority_scope b) \<and> is_digest (fb_profile_identity b)
         \<and> is_recovery_token (fb_session_identity b) \<and> is_recovery_token (fb_attempt_identity b),
       FailureRecoveryError ''failure binding is invalid'')]"

definition make_failure_binding :: "failure_binding \<Rightarrow> failure_binding result" where
  "make_failure_binding b = construct (failure_binding_guards b) b"

record clearance_condition_set =
  cc_schema :: string
  cc_conditions :: "string list"

definition CLEARANCE_CONDITIONS :: "string list" where
  "CLEARANCE_CONDITIONS = [''dedicated-denial-authority'', ''exact-denial-target'', ''current-candidate-seal'',
     ''verified-host-result'', ''single-use-command'']"

definition CLEARANCE_SCHEMA :: string where
  "CLEARANCE_SCHEMA = ''roundwright-denial-clearance-conditions/v1''"

definition clearance_condition_guards :: "clearance_condition_set \<Rightarrow> (bool \<times> py_error) list" where
  "clearance_condition_guards c = [(cc_schema c = CLEARANCE_SCHEMA \<and> cc_conditions c = CLEARANCE_CONDITIONS,
     FailureRecoveryError ''clearance conditions are invalid'')]"

definition default_clearance_conditions :: clearance_condition_set where
  "default_clearance_conditions = \<lparr>cc_schema = CLEARANCE_SCHEMA, cc_conditions = CLEARANCE_CONDITIONS\<rparr>"

record failure_record =
  fr_binding :: failure_binding
  fr_failure :: failure_class
  fr_evidence :: evidence_source
  fr_retryable :: bool
  fr_action :: recovery_action
  fr_clearance_required :: bool
  fr_evidence_confidence :: evidence_confidence
  fr_schema :: string
  fr_clearance_conditions :: "clearance_condition_set option"
  fr_clearance_provenance :: "failure_binding option"

definition RECOVERY_V1 :: string where "RECOVERY_V1 = ''roundwright-failure-recovery/v1''"

definition RECOVERY_V2 :: string where "RECOVERY_V2 = ''roundwright-failure-recovery/v2''"

definition RECOVERY_V3 :: string where "RECOVERY_V3 = ''roundwright-failure-recovery/v3''"

text \<open>\<open>_require_failure_compatibility\<close>: a legacy record is held to its action only.\<close>

definition compatibility_guards :: "failure_record \<Rightarrow> (bool \<times> py_error) list" where
  "compatibility_guards r = (let expected = failure_compatibility_matrix (fr_failure r);
       same = (fr_action r, fr_retryable r, fr_clearance_required r)
            = (co_action expected, co_retryable expected, co_clearance_required expected) in
     if fr_schema r = RECOVERY_V1 then [(same, FailureRecoveryError ''legacy failure recovery category is incompatible'')]
     else
      [(fr_evidence r \<in> co_sources expected, FailureRecoveryError ''failure evidence taxonomy is incompatible''),
       (fr_failure r = F_UNKNOWN \<or> fr_evidence_confidence r = Confidence_VERIFIED,
          FailureRecoveryError ''authenticated failure evidence is unavailable''),
       (same, FailureRecoveryError ''failure recovery category is incompatible'')])"

definition require_failure_compatibility :: "failure_record \<Rightarrow> unit result" where
  "require_failure_compatibility r = construct (compatibility_guards r) ()"

definition failure_record_guards :: "failure_record \<Rightarrow> (bool \<times> py_error) list" where
  "failure_record_guards r =
     [(fr_schema r \<in> {RECOVERY_V1, RECOVERY_V2, RECOVERY_V3}, FailureRecoveryError ''failure record is invalid''),
      (\<not> (fr_schema r = RECOVERY_V1 \<and> fr_evidence_confidence r \<noteq> Confidence_UNAVAILABLE),
         FailureRecoveryError ''legacy failure evidence confidence is unavailable''),
      (\<not> (fr_evidence r \<in> untrusted_sources \<and> fr_evidence_confidence r \<noteq> Confidence_UNAVAILABLE),
         FailureRecoveryError ''untrusted failure evidence cannot be verified''),
      (\<not> (fr_failure r = F_HOST_SECURITY_DENIAL
          \<and> (fr_retryable r \<or> fr_action r \<noteq> STOP_SCOPE \<or> \<not> fr_clearance_required r)),
         FailureRecoveryError ''security denial must stop its scope''),
      (if fr_schema r = RECOVERY_V3
       then (fr_clearance_required r \<longleftrightarrow>
               fr_clearance_conditions r \<noteq> None \<and> fr_clearance_provenance r = Some (fr_binding r),
             FailureRecoveryError ''security denial clearance provenance is invalid'')
       else (fr_clearance_conditions r = None \<and> fr_clearance_provenance r = None,
             FailureRecoveryError ''legacy failure clearance provenance is invalid'')),
      (\<not> (fr_failure r \<in> {F_UNKNOWN, F_MISSING_OUTPUT, F_AMBIGUOUS_EFFECT}
          \<and> (fr_retryable r \<or> fr_action r \<noteq> RECONCILE_FIRST)),
         FailureRecoveryError ''unverified outcome must reconcile'')]
     @ compatibility_guards r"

definition make_failure_record :: "failure_record \<Rightarrow> failure_record result" where
  "make_failure_record r = construct (failure_record_guards r) r"

section \<open>Classification\<close>

datatype observation = Observed_source evidence_source | Observed_evidence failure_evidence

fun observation_parts :: "observation \<Rightarrow> evidence_source \<times> evidence_confidence" where
  "observation_parts (Observed_evidence e) = (fe_source e, fe_confidence e)"
| "observation_parts (Observed_source s) =
     (s, if s \<in> untrusted_sources then Confidence_UNAVAILABLE else Confidence_VERIFIED)"

definition classify :: "failure_binding \<Rightarrow> failure_class \<Rightarrow> observation \<Rightarrow> failure_record result" where
  "classify b failure obs = (case observation_parts obs of (evidence, confidence) \<Rightarrow>
     let f1 = (if confidence \<noteq> Confidence_VERIFIED \<or> evidence \<in> untrusted_sources then F_UNKNOWN else failure);
         f2 = (if evidence \<notin> co_sources (failure_compatibility_matrix f1) then F_UNKNOWN else f1);
         expected = failure_compatibility_matrix f2 in
     make_failure_record
       \<lparr>fr_binding = b, fr_failure = f2, fr_evidence = evidence, fr_retryable = co_retryable expected,
        fr_action = co_action expected, fr_clearance_required = co_clearance_required expected,
        fr_evidence_confidence = confidence, fr_schema = RECOVERY_V3,
        fr_clearance_conditions = (if co_clearance_required expected then Some default_clearance_conditions else None),
        fr_clearance_provenance = (if co_clearance_required expected then Some b else None)\<rparr>)"

definition classify_for_role ::
  "failure_role \<Rightarrow> failure_binding \<Rightarrow> failure_class \<Rightarrow> evidence_source \<Rightarrow> failure_record result" where
  "classify_for_role role b failure evidence =
     (if fb_role b \<noteq> role then Inl (FailureRecoveryError ''failure role binding is invalid'')
      else classify b failure (Observed_source evidence))"

text \<open>The value of a \<open>CodexFailure\<close>, or \<open>None\<close> for an object of any other type.\<close>

definition native_failure_class :: "string option \<Rightarrow> failure_class \<times> evidence_source" where
  "native_failure_class native = (case native of None \<Rightarrow> (F_UNKNOWN, EVIDENCE_UNAVAILABLE) | Some v \<Rightarrow>
     if v = ''sandbox-or-approval-denied'' then (F_HOST_SECURITY_DENIAL, VERIFIED_HOST) else
     if v \<in> {''provider-outage'', ''transport-or-provider-outage''} then (F_TRANSIENT_SERVICE, VERIFIED_SERVICE) else
     if v \<in> {''auth-missing'', ''auth-expired'', ''auth-rejected''} then (F_CREDENTIAL_FAILURE, VERIFIED_HOST) else
     if v = ''missing-owner-scope'' then (F_MISSING_OWNER_SCOPE, VERIFIED_LIFECYCLE) else
     if v \<in> {''rate-limited'', ''quota-limited'', ''quota-or-rate-limit''} then (F_BUDGET_EXHAUSTED, VERIFIED_SERVICE) else
     (F_UNKNOWN, EVIDENCE_UNAVAILABLE))"

definition classify_native_failure :: "failure_role \<Rightarrow> failure_binding \<Rightarrow> string option \<Rightarrow> failure_record result" where
  "classify_native_failure role b native =
     (case native_failure_class native of (failure, evidence) \<Rightarrow> classify_for_role role b failure evidence)"

definition pre_dispatch_failure_identity :: "failure_role \<Rightarrow> string \<Rightarrow> string result" where
  "pre_dispatch_failure_identity role attempt =
     (if \<not> is_recovery_token attempt then Inl (FailureRecoveryError ''pre-dispatch failure identity is invalid'')
      else Inr (''pre-dispatch-'' @ failure_role_value role @ ''-''
        @ take 32 (sha256_hex (''roundwright-pre-dispatch-failure/v1'' @ [CHR 0x00] @ failure_role_value role
            @ [CHR 0x00] @ attempt))))"

section \<open>Payload and parser\<close>

definition binding_payload :: "failure_binding \<Rightarrow> (string \<times> json) list" where
  "binding_payload b =
     [(''candidate_sha'', JStr (fb_candidate_sha b)), (''policy_digest'', JStr (fb_policy_digest b)),
      (''configuration_digest'', JStr (fb_configuration_digest b)), (''authority_scope'', JStr (fb_authority_scope b)),
      (''role'', JStr (failure_role_value (fb_role b))), (''profile_identity'', JStr (fb_profile_identity b)),
      (''session_identity'', JStr (fb_session_identity b)), (''attempt_identity'', JStr (fb_attempt_identity b))]"

definition conditions_payload :: "clearance_condition_set \<Rightarrow> json" where
  "conditions_payload c = JObj [(''schema'', JStr (cc_schema c)), (''conditions'', JList (map JStr (cc_conditions c)))]"

definition optional_json :: "('a \<Rightarrow> json) \<Rightarrow> 'a option \<Rightarrow> json" where
  "optional_json f x = (case x of None \<Rightarrow> JNull | Some v \<Rightarrow> f v)"

definition failure_payload :: "failure_record \<Rightarrow> (string \<times> json) list" where
  "failure_payload r =
     [(''schema'', JStr (fr_schema r)), (''binding'', JObj (binding_payload (fr_binding r))),
      (''failure'', JStr (failure_class_value (fr_failure r))), (''evidence'', JStr (evidence_source_value (fr_evidence r))),
      (''retryable'', JBool (fr_retryable r)), (''action'', JStr (recovery_action_value (fr_action r))),
      (''clearance_required'', JBool (fr_clearance_required r))]
     @ (if fr_schema r \<in> {RECOVERY_V2, RECOVERY_V3}
        then [(''evidence_confidence'', JStr (evidence_confidence_value (fr_evidence_confidence r)))] else [])
     @ (if fr_schema r = RECOVERY_V3
        then [(''clearance_conditions'', optional_json conditions_payload (fr_clearance_conditions r)),
              (''clearance_provenance'', optional_json (\<lambda>b. JObj (binding_payload b)) (fr_clearance_provenance r))]
        else [])"

definition record_digest :: "failure_record \<Rightarrow> string" where
  "record_digest r = digest_value (JObj (failure_payload r))"

definition binding_keys :: "string list" where
  "binding_keys = [''candidate_sha'', ''policy_digest'', ''configuration_digest'', ''authority_scope'', ''role'',
     ''profile_identity'', ''session_identity'', ''attempt_identity'']"

text \<open>A member that is no string makes \<open>fullmatch\<close> or the enumeration lookup raise, which is caught.\<close>

definition parse_binding :: "(string \<times> json) list \<Rightarrow> failure_binding option" where
  "parse_binding kvs =
     Option.bind (as_str (map_of kvs ''candidate_sha'')) (\<lambda>candidate.
     Option.bind (as_str (map_of kvs ''policy_digest'')) (\<lambda>policy.
     Option.bind (as_str (map_of kvs ''configuration_digest'')) (\<lambda>configuration.
     Option.bind (as_str (map_of kvs ''authority_scope'')) (\<lambda>scope.
     Option.bind (Option.bind (as_str (map_of kvs ''role'')) failure_role_of) (\<lambda>role.
     Option.bind (as_str (map_of kvs ''profile_identity'')) (\<lambda>profile.
     Option.bind (as_str (map_of kvs ''session_identity'')) (\<lambda>session.
     Option.bind (as_str (map_of kvs ''attempt_identity'')) (\<lambda>attempt.
     caught_result (make_failure_binding
       \<lparr>fb_candidate_sha = candidate, fb_policy_digest = policy, fb_configuration_digest = configuration,
        fb_authority_scope = scope, fb_role = role, fb_profile_identity = profile, fb_session_identity = session,
        fb_attempt_identity = attempt\<rparr>)))))))))"

definition parse_conditions :: "json \<Rightarrow> clearance_condition_set option option" where
  "parse_conditions v = (if v = JNull then Some None else
     Option.bind (as_obj (Some v)) (\<lambda>kvs0. Option.bind (has_keys [''schema'', ''conditions''] kvs0) (\<lambda>kvs.
     Option.bind (as_list (map_of kvs ''conditions'')) (\<lambda>items.
     Option.bind (as_str (map_of kvs ''schema'')) (\<lambda>schema.
     Option.bind (collect (\<lambda>x. as_str (Some x)) items) (\<lambda>conditions.
     let c = \<lparr>cc_schema = schema, cc_conditions = conditions\<rparr> in
     map_option Some (guarded (clearance_condition_guards c) c)))))))"

definition parse_provenance :: "json \<Rightarrow> failure_binding option option" where
  "parse_provenance v = (if v = JNull then Some None else
     Option.bind (as_obj (Some v)) (\<lambda>kvs0. Option.bind (has_keys binding_keys kvs0) (\<lambda>kvs.
     map_option Some (parse_binding kvs))))"

definition record_keys :: "string \<Rightarrow> string list" where
  "record_keys schema = [''schema'', ''binding'', ''failure'', ''evidence'', ''retryable'', ''action'', ''clearance_required'']
     @ (if schema \<in> {RECOVERY_V2, RECOVERY_V3} then [''evidence_confidence''] else [])
     @ (if schema = RECOVERY_V3 then [''clearance_conditions'', ''clearance_provenance''] else [])"

definition parse_record_fields :: "string \<Rightarrow> (string \<times> json) list \<Rightarrow> (string \<times> json) list \<Rightarrow> failure_record option" where
  "parse_record_fields schema kvs binding_kvs =
     Option.bind (parse_binding binding_kvs) (\<lambda>b.
     Option.bind (if schema = RECOVERY_V3 then Option.bind (map_of kvs ''clearance_conditions'') parse_conditions else Some None) (\<lambda>conditions.
     Option.bind (if schema = RECOVERY_V3 then Option.bind (map_of kvs ''clearance_provenance'') parse_provenance else Some None) (\<lambda>provenance.
     Option.bind (Option.bind (as_str (map_of kvs ''failure'')) failure_class_of) (\<lambda>failure.
     Option.bind (Option.bind (as_str (map_of kvs ''evidence'')) evidence_source_of) (\<lambda>evidence.
     Option.bind (as_bool (map_of kvs ''retryable'')) (\<lambda>retryable.
     Option.bind (Option.bind (as_str (map_of kvs ''action'')) recovery_action_of) (\<lambda>action.
     Option.bind (as_bool (map_of kvs ''clearance_required'')) (\<lambda>clearance.
     Option.bind (if schema \<in> {RECOVERY_V2, RECOVERY_V3}
                  then Option.bind (as_str (map_of kvs ''evidence_confidence'')) evidence_confidence_of
                  else Some Confidence_UNAVAILABLE) (\<lambda>confidence.
     caught_result (make_failure_record
       \<lparr>fr_binding = b, fr_failure = failure, fr_evidence = evidence, fr_retryable = retryable, fr_action = action,
        fr_clearance_required = clearance, fr_evidence_confidence = confidence, fr_schema = schema,
        fr_clearance_conditions = conditions, fr_clearance_provenance = provenance\<rparr>))))))))))"

text \<open>
  \<open>parse_failure_record\<close>. A schema that is a list or an object cannot be looked up in a set: that is
  the one \<open>TypeError\<close> outside the handler.
\<close>

definition parse_failure_record :: "json \<Rightarrow> failure_record result" where
  "parse_failure_record v =
     (let malformed = Inl (FailureRecoveryError ''durable failure record is malformed'') in
      case v of
        JObj kvs \<Rightarrow>
          (case map_of kvs ''binding'' of
             Some (JObj binding_kvs) \<Rightarrow>
               (case map_of kvs ''schema'' of
                  Some (JList _) \<Rightarrow> Inl PyTypeError
                | Some (JObj _) \<Rightarrow> Inl PyTypeError
                | Some (JStr schema) \<Rightarrow>
                    if schema \<notin> {RECOVERY_V1, RECOVERY_V2, RECOVERY_V3}
                       \<or> set (map fst kvs) \<noteq> set (record_keys schema) then malformed else
                    if set (map fst binding_kvs) \<noteq> set binding_keys then malformed else
                    (case parse_record_fields schema kvs binding_kvs of
                       None \<Rightarrow> malformed
                     | Some r \<Rightarrow>
                         if canon (JObj (failure_payload r)) \<noteq> canon v
                         then Inl (FailureRecoveryError ''durable failure record is non-canonical'') else Inr r)
                | _ \<Rightarrow> malformed)
           | _ \<Rightarrow> malformed)
      | _ \<Rightarrow> malformed)"

section \<open>Admission of a recovery\<close>

text \<open>\<open>admit_recovery\<close>; what consuming the sealed in-process route answers is an argument.\<close>

definition admit_recovery ::
  "failure_record \<Rightarrow> failure_binding \<Rightarrow> failure_binding \<Rightarrow> unit result \<Rightarrow> recovery_action result" where
  "admit_recovery r current route_binding consumed =
     (if fr_binding r \<noteq> current \<or> route_binding \<noteq> current then Inl (FailureRecoveryError ''recovery context has drifted'') else
      case require_failure_compatibility r of Inl e \<Rightarrow> Inl e | Inr _ \<Rightarrow>
      if fr_schema r \<noteq> RECOVERY_V3
        then Inl (FailureRecoveryError ''legacy failure record cannot admit a recovery route'') else
      if fr_failure r = F_FORMAT_INVALID
        then Inl (FailureRecoveryError ''format correction requires durable bounded coordinates'') else
      if fr_clearance_required r then Inr STOP_SCOPE else
      if fr_action r = PREBOUND_FALLBACK
        then (case consumed of Inl e \<Rightarrow> Inl e | Inr _ \<Rightarrow> Inr (if fr_retryable r then PREBOUND_FALLBACK else RECONCILE_FIRST)) else
      Inr (fr_action r))"

section \<open>Properties of the taxonomy\<close>

lemma failure_role_of_value [simp]: "failure_role_of (failure_role_value role) = Some role"
  by (cases role) (simp_all add: failure_role_of_def enum_of_def)

lemma failure_class_of_value [simp]: "failure_class_of (failure_class_value f) = Some f"
  by (cases f) (simp_all add: failure_class_of_def enum_of_def all_failure_classes_def)

lemma evidence_source_of_value [simp]: "evidence_source_of (evidence_source_value s) = Some s"
  by (cases s) (simp_all add: evidence_source_of_def enum_of_def all_evidence_sources_def)

lemma evidence_confidence_of_value [simp]: "evidence_confidence_of (evidence_confidence_value c) = Some c"
  by (cases c) (simp_all add: evidence_confidence_of_def enum_of_def)

lemma recovery_action_of_value [simp]: "recovery_action_of (recovery_action_value a) = Some a"
  by (cases a) (simp_all add: recovery_action_of_def enum_of_def)

lemma recovery_schemas [simp]: "RECOVERY_V1 \<noteq> RECOVERY_V2" "RECOVERY_V1 \<noteq> RECOVERY_V3" "RECOVERY_V2 \<noteq> RECOVERY_V3"
  "RECOVERY_V2 \<noteq> RECOVERY_V1" "RECOVERY_V3 \<noteq> RECOVERY_V1" "RECOVERY_V3 \<noteq> RECOVERY_V2"
  by (simp_all add: RECOVERY_V1_def RECOVERY_V2_def RECOVERY_V3_def)

lemma compatibility_sel [simp]:
  "co_sources (compatibility s a r c) = s" "co_action (compatibility s a r c) = a" "co_retryable (compatibility s a r c) = r"
  "co_clearance_required (compatibility s a r c) = c"
  by (simp_all add: compatibility_def)

lemma every_source_unknown [simp]: "s \<in> co_sources (failure_compatibility_matrix F_UNKNOWN)"
  by (cases s) (simp_all add: all_evidence_sources_def)

text \<open>What the matrix guarantees of every class.\<close>

lemma matrix_retryable: "co_retryable (failure_compatibility_matrix f) \<longleftrightarrow> co_action (failure_compatibility_matrix f) = PREBOUND_FALLBACK"
  by (cases f) simp_all

lemma matrix_stop: "co_action (failure_compatibility_matrix f) = STOP_SCOPE \<Longrightarrow> co_clearance_required (failure_compatibility_matrix f)"
  by (cases f) simp_all

lemma matrix_unverified:
  "f \<in> {F_UNKNOWN, F_MISSING_OUTPUT, F_AMBIGUOUS_EFFECT} \<Longrightarrow>
     co_action (failure_compatibility_matrix f) = RECONCILE_FIRST \<and> \<not> co_retryable (failure_compatibility_matrix f)"
  by auto

definition observation_ok :: "observation \<Rightarrow> bool" where
  "observation_ok obs \<longleftrightarrow> fst (observation_parts obs) \<in> untrusted_sources \<longrightarrow> snd (observation_parts obs) = Confidence_UNAVAILABLE"

text \<open>The class that an observation establishes.\<close>

definition established :: "failure_class \<Rightarrow> observation \<Rightarrow> failure_class" where
  "established f obs = (if snd (observation_parts obs) = Confidence_VERIFIED
     \<and> fst (observation_parts obs) \<in> co_sources (failure_compatibility_matrix f) then f else F_UNKNOWN)"

lemma classify_established:
  assumes "observation_ok obs"
  shows "classify b f obs = make_failure_record
    \<lparr>fr_binding = b, fr_failure = established f obs, fr_evidence = fst (observation_parts obs),
     fr_retryable = co_retryable (failure_compatibility_matrix (established f obs)),
     fr_action = co_action (failure_compatibility_matrix (established f obs)),
     fr_clearance_required = co_clearance_required (failure_compatibility_matrix (established f obs)),
     fr_evidence_confidence = snd (observation_parts obs), fr_schema = RECOVERY_V3,
     fr_clearance_conditions = (if co_clearance_required (failure_compatibility_matrix (established f obs))
       then Some default_clearance_conditions else None),
     fr_clearance_provenance = (if co_clearance_required (failure_compatibility_matrix (established f obs)) then Some b else None)\<rparr>"
proof -
  obtain s c where p: "observation_parts obs = (s, c)" by fastforce
  have "(let f1 = if c \<noteq> Confidence_VERIFIED \<or> s \<in> untrusted_sources then F_UNKNOWN else f
      in if s \<notin> co_sources (failure_compatibility_matrix f1) then F_UNKNOWN else f1) = established f obs"
    using assms every_source_unknown [of s] by (auto simp: established_def observation_ok_def p Let_def)
  then show ?thesis by (simp add: classify_def p Let_def)
qed

lemma established_valid:
  assumes "observation_ok obs" "f' = established f obs"
  shows "fst (observation_parts obs) \<in> co_sources (failure_compatibility_matrix f')"
    "f' = F_UNKNOWN \<or> snd (observation_parts obs) = Confidence_VERIFIED"
  unfolding assms(2) established_def using every_source_unknown by presburger+

text \<open>
  Classification is total and closed: for every binding, claimed failure and
  constructed observation it yields a valid current record, whose class is the claimed one only when
  verified evidence of a source that class admits was observed, and is unknown otherwise; action,
  retryability and the need for a clearance are those of the matrix. In particular no unverified
  report stops a scope, is retried or continues a session, a retry needs a prebound fallback, and
  every stop needs a clearance.
\<close>

lemma classify_closed:
  assumes "observation_ok obs"
  shows "\<exists>r. classify b f obs = Inr r \<and> list_all fst (failure_record_guards r) \<and> fr_binding r = b \<and> fr_schema r = RECOVERY_V3
    \<and> fr_failure r = established f obs
    \<and> (fr_action r, fr_retryable r, fr_clearance_required r)
        = (co_action (failure_compatibility_matrix (established f obs)), co_retryable (failure_compatibility_matrix (established f obs)),
           co_clearance_required (failure_compatibility_matrix (established f obs)))
    \<and> (snd (observation_parts obs) \<noteq> Confidence_VERIFIED \<longrightarrow> fr_action r = RECONCILE_FIRST)
    \<and> (fr_retryable r \<longleftrightarrow> fr_action r = PREBOUND_FALLBACK) \<and> (fr_action r = STOP_SCOPE \<longrightarrow> fr_clearance_required r)"
proof -
  let ?f = "established f obs"
  define r where "r = \<lparr>fr_binding = b, fr_failure = ?f, fr_evidence = fst (observation_parts obs),
     fr_retryable = co_retryable (failure_compatibility_matrix ?f), fr_action = co_action (failure_compatibility_matrix ?f),
     fr_clearance_required = co_clearance_required (failure_compatibility_matrix ?f),
     fr_evidence_confidence = snd (observation_parts obs), fr_schema = RECOVERY_V3,
     fr_clearance_conditions = (if co_clearance_required (failure_compatibility_matrix ?f)
       then Some default_clearance_conditions else None),
     fr_clearance_provenance = (if co_clearance_required (failure_compatibility_matrix ?f) then Some b else None)\<rparr>"
  have denial: "?f = F_HOST_SECURITY_DENIAL \<Longrightarrow> \<not> co_retryable (failure_compatibility_matrix ?f)
      \<and> co_action (failure_compatibility_matrix ?f) = STOP_SCOPE \<and> co_clearance_required (failure_compatibility_matrix ?f)" by simp
  have ok: "list_all fst (failure_record_guards r)"
    using established_valid [OF assms refl, of f] assms denial matrix_unverified [of ?f]
    by (auto simp: failure_record_guards_def compatibility_guards_def r_def observation_ok_def Let_def)
  have "classify b f obs = Inr r" unfolding classify_established [OF assms] r_def [symmetric] using ok by (simp add: make_failure_record_def)
  moreover have "snd (observation_parts obs) \<noteq> Confidence_VERIFIED \<Longrightarrow> ?f = F_UNKNOWN" by (simp add: established_def)
  ultimately show ?thesis using ok matrix_retryable [of ?f] matrix_stop [of ?f] by (intro exI [of _ r]) (auto simp: r_def)
qed

section \<open>The payload of a record\<close>

definition binding_ok :: "failure_binding \<Rightarrow> bool" where
  "binding_ok b \<longleftrightarrow> list_all fst (failure_binding_guards b)"

text \<open>A record that was built by constructors only.\<close>

definition record_ok :: "failure_record \<Rightarrow> bool" where
  "record_ok r \<longleftrightarrow> list_all fst (failure_record_guards r) \<and> binding_ok (fr_binding r)
     \<and> pred_option (\<lambda>c. list_all fst (clearance_condition_guards c)) (fr_clearance_conditions r)
     \<and> pred_option binding_ok (fr_clearance_provenance r)"

lemma parse_binding_payload: "binding_ok b \<Longrightarrow> parse_binding (binding_payload b) = Some b"
  by (cases b) (simp add: parse_binding_def binding_payload_def make_failure_binding_def binding_ok_def)

lemma binding_payload_keys [simp]: "map fst (binding_payload b) = binding_keys"
  by (simp add: binding_payload_def binding_keys_def)

lemma has_keys_binding [simp]: "has_keys binding_keys (binding_payload b) = Some (binding_payload b)"
  by (simp only: has_keys_def binding_payload_keys simp_thms if_True)

lemma parse_conditions_payload:
  assumes "pred_option (\<lambda>c. list_all fst (clearance_condition_guards c)) c"
  shows "parse_conditions (optional_json conditions_payload c) = Some c"
proof (cases c)
  case None
  then show ?thesis by (simp add: parse_conditions_def optional_json_def)
next
  case (Some k)
  have "collect (\<lambda>x. as_str (Some x)) (map JStr xs) = Some (map id xs)" for xs by (rule collect_map) simp
  with Some assms show ?thesis
    by (cases k) (simp add: parse_conditions_def optional_json_def conditions_payload_def has_keys_def clearance_condition_guards_def
        Let_def)
qed

lemma parse_provenance_payload:
  "pred_option binding_ok p \<Longrightarrow> parse_provenance (optional_json (\<lambda>b. JObj (binding_payload b)) p) = Some p"
  by (cases p) (simp_all add: parse_provenance_def optional_json_def parse_binding_payload)

lemma failure_payload_keys: "fr_schema r \<in> {RECOVERY_V1, RECOVERY_V2, RECOVERY_V3} \<Longrightarrow> map fst (failure_payload r) = record_keys (fr_schema r)"
  by (auto simp: failure_payload_def record_keys_def)

lemma parse_record_fields_payload:
  assumes "record_ok r"
  shows "parse_record_fields (fr_schema r) (failure_payload r) (binding_payload (fr_binding r)) = Some r"
proof -
  have g: "list_all fst (failure_record_guards r)" and b: "binding_ok (fr_binding r)"
    and c: "pred_option (\<lambda>c. list_all fst (clearance_condition_guards c)) (fr_clearance_conditions r)"
    and p: "pred_option binding_ok (fr_clearance_provenance r)" using assms by (simp_all add: record_ok_def)
  from g have schema: "fr_schema r \<in> {RECOVERY_V1, RECOVERY_V2, RECOVERY_V3}"
    and legacy: "fr_schema r = RECOVERY_V1 \<Longrightarrow> fr_evidence_confidence r = Confidence_UNAVAILABLE"
    and none: "fr_schema r \<noteq> RECOVERY_V3 \<Longrightarrow> fr_clearance_conditions r = None \<and> fr_clearance_provenance r = None"
    by (auto simp: failure_record_guards_def)
  have parts: "parse_binding (binding_payload (fr_binding r)) = Some (fr_binding r)"
    "parse_conditions (optional_json conditions_payload (fr_clearance_conditions r)) = Some (fr_clearance_conditions r)"
    "parse_provenance (optional_json (\<lambda>b. JObj (binding_payload b)) (fr_clearance_provenance r)) = Some (fr_clearance_provenance r)"
    using parse_binding_payload [OF b] parse_conditions_payload [OF c] parse_provenance_payload [OF p] by simp_all
  from schema g legacy none parts show ?thesis
    by (cases r) (auto simp: parse_record_fields_def failure_payload_def make_failure_record_def)
qed

lemma parsed_record_ok:
  assumes "parse_record_fields schema kvs bkvs = Some r"
  shows "record_ok r \<and> fr_schema r = schema"
proof -
  have b: "binding_ok b" if "parse_binding x = Some b" for x b
    using that by (auto simp: parse_binding_def make_failure_binding_def binding_ok_def bind_eq_Some_conv)
  have c: "pred_option (\<lambda>c. list_all fst (clearance_condition_guards c)) c" if "parse_conditions v = Some c" for v c
    using that by (auto simp: parse_conditions_def bind_eq_Some_conv Let_def dest: guarded_SomeD split: if_split_asm)
  have p: "pred_option binding_ok p" if "parse_provenance v = Some p" for v p
    using that b by (auto simp: parse_provenance_def bind_eq_Some_conv split: if_split_asm)
  from assms have "parse_binding bkvs = Some (fr_binding r)" "list_all fst (failure_record_guards r)" "fr_schema r = schema"
      "fr_clearance_conditions r = None \<or> (\<exists>x. parse_conditions x = Some (fr_clearance_conditions r))"
      "fr_clearance_provenance r = None \<or> (\<exists>y. parse_provenance y = Some (fr_clearance_provenance r))"
    by (auto simp: parse_record_fields_def make_failure_record_def bind_eq_Some_conv split: if_split_asm)
  with b c p show ?thesis unfolding record_ok_def by fastforce
qed

lemma parse_payload: "record_ok r \<Longrightarrow> parse_failure_record (JObj (failure_payload r)) = Inr r"
proof -
  assume ok: "record_ok r"
  then have schema: "fr_schema r \<in> {RECOVERY_V1, RECOVERY_V2, RECOVERY_V3}" by (simp add: record_ok_def failure_record_guards_def)
  have "map_of (failure_payload r) ''binding'' = Some (JObj (binding_payload (fr_binding r)))"
    "map_of (failure_payload r) ''schema'' = Some (JStr (fr_schema r))" by (simp_all add: failure_payload_def)
  with parse_record_fields_payload [OF ok] failure_payload_keys [OF schema] schema show ?thesis
    by (simp add: parse_failure_record_def Let_def del: canon.simps)
qed

lemma parse_Inr: "parse_failure_record v = Inr r \<Longrightarrow> record_ok r \<and> canon v = canon (JObj (failure_payload r))"
  by (cases v) (auto simp: parse_failure_record_def Let_def parsed_record_ok simp del: canon.simps
      split: option.split_asm json.split_asm if_split_asm)

text \<open>
  The durable form of a failure decision is lossless and strict:
  every record built by the constructors reads back as itself, and whatever material the parser
  accepts is the payload of a valid record, up to the order of object keys.
\<close>

lemma failure_record_round_trip:
  "(record_ok r \<longrightarrow> parse_failure_record (JObj (failure_payload r)) = Inr r)
   \<and> (parse_failure_record v = Inr q \<longrightarrow> record_ok q \<and> canon v = canon (JObj (failure_payload q)))"
  using parse_payload parse_Inr by blast

section \<open>A sample record\<close>

definition recovery_sample_binding :: failure_binding where
  "recovery_sample_binding = \<lparr>fb_candidate_sha = replicate 40 CHR ''a'', fb_policy_digest = ''sha256:'' @ replicate 64 CHR ''b'',
     fb_configuration_digest = ''sha256:'' @ replicate 64 CHR ''c'', fb_authority_scope = ''supervisor:task-1'', fb_role = Role_SUPERVISOR,
     fb_profile_identity = ''sha256:'' @ replicate 64 CHR ''d'', fb_session_identity = ''session-1'', fb_attempt_identity = ''attempt-1''\<rparr>"

definition recovery_sample :: "failure_class \<Rightarrow> evidence_source \<Rightarrow> failure_record" where
  "recovery_sample f s = (let expected = failure_compatibility_matrix f in
     \<lparr>fr_binding = recovery_sample_binding, fr_failure = f, fr_evidence = s, fr_retryable = co_retryable expected,
      fr_action = co_action expected, fr_clearance_required = co_clearance_required expected,
      fr_evidence_confidence = Confidence_VERIFIED, fr_schema = RECOVERY_V3,
      fr_clearance_conditions = (if co_clearance_required expected then Some default_clearance_conditions else None),
      fr_clearance_provenance = (if co_clearance_required expected then Some recovery_sample_binding else None)\<rparr>)"

lemma recovery_sample_binding_ok: "binding_ok recovery_sample_binding"
  by (simp add: binding_ok_def recovery_sample_binding_def failure_binding_guards_def is_sha_def list_all_iff is_recovery_token_def
      is_recovery_token_char_def is_lower_def is_upper_def is_digit_def is_digest_def is_hex_def)

lemma recovery_sample_ok: "record_ok (recovery_sample F_HOST_SECURITY_DENIAL VERIFIED_HOST)"
  "record_ok (recovery_sample F_TRANSIENT_SERVICE VERIFIED_SERVICE)"
  by (simp_all add: record_ok_def recovery_sample_binding_ok recovery_sample_def failure_record_guards_def compatibility_guards_def
      untrusted_sources_def default_clearance_conditions_def clearance_condition_guards_def)

end
