(* ===== verification/Recovery_Ledger.thy ===== *)
theory Recovery_Ledger
  imports Failure_Recovery Candidate_Seal
begin

text \<open>
  \<open>failure_recovery.py\<close>, durable part: the ledger of failure records, the append-only chain of owner
  decisions that clear a stopped scope or revoke the clearance, the admission of effects in a scope,
  the one-use recovery routes with their reservations, and the intents of other provider effects.

  Every operation runs in one transaction that rolls back on any exception: it returns the error, or
  the committed tables with its result. Columns of JSON text hold the decoded value, and two texts
  are equal exactly when the values are equal up to the order of keys, so they are compared in
  canonical form. Columns of recording times are never read and are left out.

  What the operations only read is a \<open>recovery_world\<close>: the task row, the candidate seal, the commands and
  grants of the owner, the attempts of providers, and the session-bound admission of a failed attempt
  (\<open>_require_attempt_admission\<close>), which either raises or not.
\<close>

section \<open>Tables and observations\<close>

record decision_row =
  dr_digest :: string
  dr_task :: string
  dr_record :: string
  dr_command :: string
  dr_command_kind :: string
  dr_json :: json
  dr_sequence :: int

record route_row =
  rr_task :: string
  rr_repository :: string
  rr_record :: string
  rr_binding :: json
  rr_target_role :: string
  rr_target_profile :: string
  rr_target_route :: string
  rr_coordinate :: string
  rr_budget :: string
  rr_state :: string
  rr_reservation :: "string option"

record successor_row =
  sr_task :: string
  sr_repository :: string
  sr_reservation :: string
  sr_attempt :: string
  sr_request :: string

record intent_row =
  ir_task :: string
  ir_repository :: string
  ir_scope :: string
  ir_role :: string
  ir_reservation :: string
  ir_reservation_repository :: string
  ir_reservation_task :: string

record recovery_ledger =
  failure_rows :: "(string \<times> (string \<times> json)) list"
  decision_rows :: "decision_row list"
  route_rows :: "(string \<times> route_row) list"
  successor_rows :: "(string \<times> successor_row) list"
  intent_rows :: "(string \<times> intent_row) list"

record denial_command =
  dc_task :: string
  dc_repository :: string
  dc_denial :: string
  dc_grant :: string
  dc_candidate_sha :: string
  dc_candidate_seal :: string
  dc_scope :: string
  dc_target :: string
  dc_kind :: string
  dc_clearance :: string
  dc_command_digest :: string
  dc_host_result :: string
  dc_result :: string
  dc_state :: string

record denial_grant =
  dg_owner :: string
  dg_task :: string
  dg_repository :: string
  dg_candidate_sha :: string
  dg_candidate_seal :: string
  dg_scope :: string
  dg_target :: string
  dg_authority_digest :: string
  dg_state :: string

record provider_attempt_row =
  pa_task :: string
  pa_role :: string
  pa_state :: string
  pa_identities :: "string option list"

record recovery_world =
  rw_matching_task :: "task_identity \<Rightarrow> unit result"
  rw_tasks :: "string \<Rightarrow> task_identity option"
  rw_seals :: "string \<Rightarrow> (string \<times> string) option"
  rw_commands :: "bool \<Rightarrow> string \<Rightarrow> denial_command option"
  rw_grants :: "bool \<Rightarrow> string \<Rightarrow> denial_grant option"
  rw_admission :: "task_identity \<Rightarrow> failure_binding \<Rightarrow> unit result"
  rw_dependency_successor :: "string \<Rightarrow> bool"
  rw_provider_successor :: "string \<Rightarrow> string \<Rightarrow> bool"
  rw_provider_attempt :: "string \<Rightarrow> provider_attempt_row option"
  rw_dependency_attempt :: "string \<Rightarrow> (string \<times> string) option"
  rw_dispatch_claim :: "bool \<Rightarrow> string \<Rightarrow> bool"
  rw_occupied :: "bool \<Rightarrow> string \<Rightarrow> bool"

abbreviation fail :: "string \<Rightarrow> 'a result" where
  "fail why \<equiv> Inl (FailureRecoveryError why)"

definition require :: "bool \<Rightarrow> string \<Rightarrow> unit result" where
  "require p why = (if p then Inr () else fail why)"

section \<open>Failure records\<close>

text \<open>A parser failure of type \<open>TypeError\<close> is caught around the parser in all callers but one.\<close>

definition reparse :: "string \<Rightarrow> json \<Rightarrow> failure_record result" where
  "reparse why v = (case parse_failure_record v of Inl PyTypeError \<Rightarrow> fail why | m \<Rightarrow> m)"

definition record_durable_failure ::
  "recovery_world \<Rightarrow> task_identity \<Rightarrow> failure_record \<Rightarrow> int \<Rightarrow> recovery_ledger \<Rightarrow> (recovery_ledger \<times> string) result" where
  "record_durable_failure w ti r now t =
     bind_result (require (0 < now) ''failure record time is invalid'') (\<lambda>_.
     bind_result (rw_matching_task w ti) (\<lambda>_.
     bind_result (require_failure_compatibility r) (\<lambda>_.
     bind_result (require (fr_schema r = RECOVERY_V3) ''legacy failure records cannot be persisted'') (\<lambda>_.
     bind_result (rw_admission w ti (fr_binding r)) (\<lambda>_.
     case map_of (failure_rows t) (record_digest r) of
       None \<Rightarrow> Inr (t\<lparr>failure_rows := failure_rows t @ [(record_digest r, (ti_task_id ti, JObj (failure_payload r)))]\<rparr>, record_digest r)
     | Some (task, v) \<Rightarrow>
         if task \<noteq> ti_task_id ti \<or> canon v \<noteq> canon (JObj (failure_payload r))
         then fail ''durable failure record conflicts'' else Inr (t, record_digest r))))))"

definition stored_failure :: "string \<Rightarrow> string \<Rightarrow> recovery_ledger \<Rightarrow> json option" where
  "stored_failure task digest t = (case map_of (failure_rows t) digest of
     Some (owner, v) \<Rightarrow> if owner = task then Some v else None | None \<Rightarrow> None)"

definition read_durable_failure ::
  "recovery_world \<Rightarrow> task_identity \<Rightarrow> string \<Rightarrow> recovery_ledger \<Rightarrow> failure_record result" where
  "read_durable_failure w ti digest t =
     bind_result (rw_matching_task w ti) (\<lambda>_.
     case stored_failure (ti_task_id ti) digest t of
       None \<Rightarrow> fail ''durable failure record is unavailable''
     | Some v \<Rightarrow>
       bind_result (parse_failure_record v) (\<lambda>r.
       bind_result (require (record_digest r = digest) ''durable failure record digest has drifted'') (\<lambda>_.
       bind_result (require_failure_compatibility r) (\<lambda>_.
       bind_result (rw_admission w ti (fr_binding r)) (\<lambda>_. Inr r)))))"

section \<open>Owner decisions on a denial\<close>

definition denial_authority_digest :: "string \<Rightarrow> denial_grant \<Rightarrow> denial_command \<Rightarrow> string result" where
  "denial_authority_digest kind g c =
     ascii_digest (join_units [''roundwright-denial-clearance-authority/v1'', kind, dg_owner g, dc_task c, dc_repository c,
       dc_candidate_sha c, dc_candidate_seal c, dc_scope c, dc_target c])"

definition decision_kind :: "bool \<Rightarrow> string" where
  "decision_kind revoke = (if revoke then ''revoke'' else ''clear'')"

definition command_kind_of :: "bool \<Rightarrow> string" where
  "command_kind_of revoke = (if revoke then ''revoke-denial-clearance'' else ''clear-denial'')"

text \<open>What the code compares of the joined row, all but the authority digest.\<close>

definition command_agrees ::
  "bool \<Rightarrow> string \<Rightarrow> string \<Rightarrow> failure_binding \<Rightarrow> string option \<Rightarrow> denial_command \<Rightarrow> denial_grant \<Rightarrow> string \<times> string \<Rightarrow> string \<Rightarrow> bool" where
  "command_agrees revoke task digest b expected c g seal repository \<longleftrightarrow>
     dc_task c = task \<and> dc_repository c = repository \<and> dc_denial c = digest \<and> dc_target c = digest
     \<and> dc_candidate_sha c = fb_candidate_sha b \<and> dc_scope c = fb_authority_scope b
     \<and> dc_kind c = command_kind_of revoke \<and> dc_state c = ''consumed'' \<and> dg_state g = ''active''
     \<and> (revoke \<longrightarrow> Some (dc_clearance c) = expected)
     \<and> (dg_task g, dg_repository g, dg_candidate_sha g, dg_candidate_seal g, dg_scope g, dg_target g)
         = (dc_task c, dc_repository c, dc_candidate_sha c, dc_candidate_seal c, dc_scope c, dc_target c)
     \<and> seal = (dc_candidate_sha c, dc_candidate_seal c)
     \<and> dg_owner g = ''ythdelmar68''
     \<and> list_all is_fingerprint [dc_command_digest c, dc_host_result c, dc_result c, dg_authority_digest g]"

definition command_receipt :: "string \<Rightarrow> denial_command \<Rightarrow> denial_grant \<Rightarrow> json" where
  "command_receipt command c g = JObj
     [(''schema'', JStr ''roundwright-dedicated-denial-command-receipt/v1''), (''command_id'', JStr command),
      (''command_kind'', JStr (dc_kind c)), (''denial_digest'', JStr (dc_denial c)), (''target_digest'', JStr (dc_target c)),
      (''repository_id'', JStr (dc_repository c)), (''candidate_sha'', JStr (dc_candidate_sha c)),
      (''candidate_seal'', JStr (dc_candidate_seal c)), (''authority_scope'', JStr (dc_scope c)),
      (''owner_identity'', JStr (dg_owner g)), (''authority_grant_id'', JStr (dc_grant c)),
      (''authority_digest'', JStr (''sha256:'' @ dg_authority_digest g)),
      (''command_digest'', JStr (''sha256:'' @ dc_command_digest c)),
      (''verified_host_result_digest'', JStr (''sha256:'' @ dc_host_result c)),
      (''result_digest'', JStr (''sha256:'' @ dc_result c))]"

text \<open>
  \<open>_denial_command_receipt\<close>; the joins need the command, its grant, the seal and the task row of the
  command's task.
\<close>

definition denial_command_receipt ::
  "recovery_world \<Rightarrow> string \<Rightarrow> string \<Rightarrow> failure_binding \<Rightarrow> string \<Rightarrow> bool \<Rightarrow> string option \<Rightarrow> json result" where
  "denial_command_receipt w task digest b command revoke expected =
     (if (if revoke then \<not> present is_digest expected else expected \<noteq> None)
        then fail ''dedicated denial command clearance is invalid'' else
      case rw_commands w revoke command of None \<Rightarrow> fail ''dedicated denial command is unavailable'' | Some c \<Rightarrow>
      (case (rw_grants w revoke (dc_grant c), rw_seals w (dc_task c), rw_tasks w (dc_task c)) of
         (Some g, Some seal, Some owner) \<Rightarrow>
           if \<not> command_agrees revoke task digest b expected c g seal (ti_repository_id owner)
             then fail ''dedicated denial command has drifted'' else
           bind_result (denial_authority_digest (command_kind_of revoke) g c) (\<lambda>authority.
           if dg_authority_digest g \<noteq> authority then fail ''dedicated denial command has drifted'' else
           Inr (command_receipt command c g))
       | _ \<Rightarrow> fail ''dedicated denial command is unavailable''))"

definition decision_payload ::
  "bool \<Rightarrow> string \<Rightarrow> failure_binding \<Rightarrow> json \<Rightarrow> string option \<Rightarrow> int \<Rightarrow> json" where
  "decision_payload revoke digest b receipt predecessor sequence = JObj
     [(''schema'', JStr ''roundwright-failure-clearance-decision/v3''), (''kind'', JStr (decision_kind revoke)),
      (''record_digest'', JStr digest), (''binding'', JObj (binding_payload b)),
      (''conditions'', JList (map JStr CLEARANCE_CONDITIONS)), (''denial_command'', receipt),
      (''predecessor_digest'', json_opt predecessor), (''sequence'', JInt sequence)]"

definition decision_keys :: "string list" where
  "decision_keys = [''schema'', ''kind'', ''record_digest'', ''binding'', ''conditions'', ''denial_command'',
     ''predecessor_digest'', ''sequence'']"

definition same_json :: "json option \<Rightarrow> json \<Rightarrow> bool" where
  "same_json v u \<longleftrightarrow> map_option canon v = Some (canon u)"

definition decision_matches :: "string \<Rightarrow> failure_binding \<Rightarrow> string option \<Rightarrow> decision_row \<Rightarrow> (string \<times> json) list \<Rightarrow> bool" where
  "decision_matches digest b predecessor row kvs \<longleftrightarrow>
     same_json (map_of kvs ''schema'') (JStr ''roundwright-failure-clearance-decision/v3'')
     \<and> same_json (map_of kvs ''record_digest'') (JStr digest)
     \<and> same_json (map_of kvs ''binding'') (JObj (binding_payload b))
     \<and> same_json (map_of kvs ''conditions'') (JList (map JStr CLEARANCE_CONDITIONS))
     \<and> same_json (map_of kvs ''sequence'') (JInt (dr_sequence row))
     \<and> same_json (map_of kvs ''predecessor_digest'') (json_opt predecessor)
     \<and> dr_digest row = digest_value (JObj kvs)"

text \<open>
  The kind and the receipt of one decision: the receipt is recomputed from the current rows. A
  command identity that is no string finds no row.
\<close>

definition check_receipt ::
  "recovery_world \<Rightarrow> string \<Rightarrow> string \<Rightarrow> failure_binding \<Rightarrow> string option \<Rightarrow> (string \<times> json) list \<Rightarrow> bool result" where
  "check_receipt w task digest b predecessor kvs =
     (let drifted = fail ''durable clearance receipt has drifted'' in
      case map_of kvs ''kind'' of
        Some (JList _) \<Rightarrow> Inl PyTypeError
      | Some (JObj _) \<Rightarrow> Inl PyTypeError
      | Some (JStr kind) \<Rightarrow>
          if kind \<notin> {''clear'', ''revoke''} then drifted else
          (case map_of kvs ''denial_command'' of
             Some (JObj receipt) \<Rightarrow>
               (case as_str (map_of receipt ''command_id'') of
                  None \<Rightarrow> fail ''dedicated denial command is unavailable''
                | Some command \<Rightarrow>
                  (let revoke = (kind = ''revoke'') in
                   bind_result (denial_command_receipt w task digest b command revoke (if revoke then predecessor else None)) (\<lambda>current.
                   if canon (JObj receipt) \<noteq> canon current then drifted else Inr revoke)))
           | _ \<Rightarrow> drifted)
      | _ \<Rightarrow> drifted)"

text \<open>The loop of \<open>_decision_history\<close>: expected sequence number, predecessor and whether the scope is cleared.\<close>

fun check_history ::
  "recovery_world \<Rightarrow> string \<Rightarrow> string \<Rightarrow> failure_binding \<Rightarrow> int \<Rightarrow> string option \<Rightarrow> bool \<Rightarrow> decision_row list
     \<Rightarrow> (string \<times> bool) list result" where
  "check_history w task digest b n predecessor cleared [] = Inr []"
| "check_history w task digest b n predecessor cleared (row # rows) =
     bind_result (require (dr_sequence row = n) ''clearance decision sequence is stale or out of order'') (\<lambda>_.
     case Option.bind (as_obj (Some (dr_json row))) (has_keys decision_keys) of
       None \<Rightarrow> fail ''durable clearance decision is malformed''
     | Some kvs \<Rightarrow>
       bind_result (require (decision_matches digest b predecessor row kvs) ''durable clearance decision has drifted'') (\<lambda>_.
       bind_result (check_receipt w task digest b predecessor kvs) (\<lambda>revoke.
       bind_result (require (revoke = cleared) ''clearance decision is stale or out of order'') (\<lambda>_.
       bind_result (check_history w task digest b (n + 1) (Some (dr_digest row)) (\<not> revoke) rows) (\<lambda>history.
       Inr ((dr_digest row, revoke) # history))))))"

definition decisions_for :: "string \<Rightarrow> string \<Rightarrow> recovery_ledger \<Rightarrow> decision_row list" where
  "decisions_for task digest t =
     sort_key dr_sequence (filter (\<lambda>row. dr_task row = task \<and> dr_record row = digest) (decision_rows t))"

text \<open>The digests of the decisions in order, each with whether it is a revocation.\<close>

definition decision_history ::
  "recovery_world \<Rightarrow> string \<Rightarrow> string \<Rightarrow> failure_binding \<Rightarrow> recovery_ledger \<Rightarrow> (string \<times> bool) list result" where
  "decision_history w task digest b t = check_history w task digest b 1 None False (decisions_for task digest t)"

definition require_clearance_record ::
  "recovery_world \<Rightarrow> task_identity \<Rightarrow> string \<Rightarrow> failure_binding \<Rightarrow> recovery_ledger \<Rightarrow> unit result" where
  "require_clearance_record w ti digest b t =
     bind_result (rw_admission w ti b) (\<lambda>_.
     case stored_failure (ti_task_id ti) digest t of
       None \<Rightarrow> fail ''durable clearance denial is unavailable''
     | Some v \<Rightarrow>
       bind_result (reparse ''durable clearance denial is malformed'' v) (\<lambda>r.
       bind_result (require (record_digest r = digest \<and> fr_binding r = b \<and> fr_action r = STOP_SCOPE \<and> fr_clearance_required r
           \<and> fr_clearance_conditions r = Some default_clearance_conditions \<and> fr_clearance_provenance r = Some b)
         ''durable clearance denial has drifted'') (\<lambda>_.
       bind_result (require_failure_compatibility r) (\<lambda>_.
       require (fr_schema r = RECOVERY_V3) ''legacy failure records cannot be cleared''))))"

text \<open>The constraints of the table: its primary key and its two unique keys.\<close>

definition decision_conflicts :: "decision_row \<Rightarrow> decision_row \<Rightarrow> bool" where
  "decision_conflicts a b \<longleftrightarrow> dr_digest a = dr_digest b
     \<or> (dr_task a, dr_record a, dr_sequence a) = (dr_task b, dr_record b, dr_sequence b)
     \<or> (dr_task a, dr_command_kind a, dr_command a) = (dr_task b, dr_command_kind b, dr_command b)"

definition insert_decision :: "decision_row \<Rightarrow> recovery_ledger \<Rightarrow> recovery_ledger result" where
  "insert_decision row t = (if list_ex (decision_conflicts row) (decision_rows t) then Inl PyIntegrityError
     else Inr (t\<lparr>decision_rows := decision_rows t @ [row]\<rparr>))"

definition append_clearance_decision ::
  "recovery_world \<Rightarrow> task_identity \<Rightarrow> bool \<Rightarrow> string \<Rightarrow> failure_binding \<Rightarrow> string \<Rightarrow> string option \<Rightarrow> recovery_ledger
     \<Rightarrow> (recovery_ledger \<times> string) result" where
  "append_clearance_decision w ti revoke digest b command requested t =
     bind_result (decision_history w (ti_task_id ti) digest b t) (\<lambda>history.
     let predecessor = (if history = [] then None else Some (fst (last history)));
         cleared = (history \<noteq> [] \<and> \<not> snd (last history)) in
     bind_result (require (revoke = cleared) ''clearance decision is stale or out of order'') (\<lambda>_.
     bind_result (require (\<not> (revoke \<and> requested \<noteq> predecessor)) ''clearance revocation target is stale or substituted'') (\<lambda>_.
     bind_result (denial_command_receipt w (ti_task_id ti) digest b command revoke (if revoke then predecessor else None)) (\<lambda>receipt.
     let payload = decision_payload revoke digest b receipt predecessor (int (length history) + 1);
         row = \<lparr>dr_digest = digest_value payload, dr_task = ti_task_id ti, dr_record = digest, dr_command = command,
                dr_command_kind = command_kind_of revoke, dr_json = payload, dr_sequence = int (length history) + 1\<rparr> in
     case List.find (\<lambda>old. dr_digest old = dr_digest row) (decision_rows t) of
       None \<Rightarrow> bind_result (insert_decision row t) (\<lambda>t'. Inr (t', dr_digest row))
     | Some old \<Rightarrow>
         if (dr_task old, dr_record old, canon (dr_json old)) \<noteq> (dr_task row, dr_record row, canon payload)
         then fail ''durable clearance decision conflicts'' else Inr (t, dr_digest row)))))"

record clearance =
  cl_record_digest :: string
  cl_binding :: failure_binding
  cl_command_id :: string

definition make_clearance :: "clearance \<Rightarrow> clearance result" where
  "make_clearance c = construct [(is_digest (cl_record_digest c) \<and> is_recovery_token (cl_command_id c),
     FailureRecoveryError ''clearance is invalid'')] c"

record clearance_revocation =
  cv_clearance_digest :: string
  cv_binding :: failure_binding
  cv_command_id :: string

definition make_clearance_revocation :: "clearance_revocation \<Rightarrow> clearance_revocation result" where
  "make_clearance_revocation c = construct [(is_digest (cv_clearance_digest c) \<and> is_recovery_token (cv_command_id c),
     FailureRecoveryError ''clearance revocation is invalid'')] c"

definition record_durable_clearance ::
  "recovery_world \<Rightarrow> task_identity \<Rightarrow> clearance \<Rightarrow> int \<Rightarrow> recovery_ledger \<Rightarrow> (recovery_ledger \<times> string) result" where
  "record_durable_clearance w ti c now t =
     bind_result (require (0 < now) ''clearance time is invalid'') (\<lambda>_.
     bind_result (rw_matching_task w ti) (\<lambda>_.
     bind_result (require_clearance_record w ti (cl_record_digest c) (cl_binding c) t) (\<lambda>_.
     append_clearance_decision w ti False (cl_record_digest c) (cl_binding c) (cl_command_id c) None t)))"

definition record_durable_clearance_revocation ::
  "recovery_world \<Rightarrow> task_identity \<Rightarrow> clearance_revocation \<Rightarrow> int \<Rightarrow> recovery_ledger \<Rightarrow> (recovery_ledger \<times> string) result" where
  "record_durable_clearance_revocation w ti c now t =
     bind_result (require (0 < now) ''clearance revocation time is invalid'') (\<lambda>_.
     bind_result (rw_matching_task w ti) (\<lambda>_.
     case List.find (\<lambda>row. dr_task row = ti_task_id ti \<and> dr_digest row = cv_clearance_digest c
                       \<and> dr_command_kind row = command_kind_of False) (decision_rows t) of
       None \<Rightarrow> fail ''clearance revocation clearance is unavailable''
     | Some row \<Rightarrow>
       bind_result (require_clearance_record w ti (dr_record row) (cv_binding c) t) (\<lambda>_.
       append_clearance_decision w ti True (dr_record row) (cv_binding c) (cv_command_id c) (Some (cv_clearance_digest c)) t)))"

section \<open>Scopes\<close>

definition check_stop :: "recovery_world \<Rightarrow> string \<Rightarrow> string \<Rightarrow> recovery_ledger \<Rightarrow> string \<times> json \<Rightarrow> unit result" where
  "check_stop w task scope t = (\<lambda>(digest, v).
     bind_result (reparse ''durable failure record is malformed'' v) (\<lambda>r.
     bind_result (require (record_digest r = digest) ''durable failure record digest has drifted'') (\<lambda>_.
     bind_result (require_failure_compatibility r) (\<lambda>_.
     if fr_action r \<noteq> STOP_SCOPE \<or> fb_authority_scope (fr_binding r) \<noteq> scope then Inr () else
     (case rw_tasks w task of
        None \<Rightarrow> fail ''failure scope task authority is unavailable''
      | Some ti \<Rightarrow>
        bind_result (rw_admission w ti (fr_binding r)) (\<lambda>_.
        bind_result (decision_history w task digest (fr_binding r) t) (\<lambda>history.
        if history = [] \<or> snd (last history) then Inl (ScopeAdmissionDenied ''failure scope remains stopped'') else Inr ())))))))"

definition require_scope_open :: "recovery_world \<Rightarrow> string \<Rightarrow> string \<Rightarrow> recovery_ledger \<Rightarrow> unit result" where
  "require_scope_open w task scope t =
     bind_result (traverse (check_stop w task scope t)
       (map (\<lambda>(digest, _, v). (digest, v)) (filter (\<lambda>(_, owner, _). owner = task) (failure_rows t)))) (\<lambda>_. Inr ())"

definition require_scope_effect_admission :: "recovery_world \<Rightarrow> task_identity \<Rightarrow> string \<Rightarrow> recovery_ledger \<Rightarrow> unit result" where
  "require_scope_effect_admission w ti scope t =
     bind_result (rw_matching_task w ti) (\<lambda>_. require_scope_open w (ti_task_id ti) scope t)"

text \<open>\<open>reserve\<close> is what the callback answers when it runs, under the writer lock of the ledger.\<close>

definition admit_scope_effect_reservation ::
  "recovery_world \<Rightarrow> task_identity \<Rightarrow> string \<Rightarrow> 'a result \<Rightarrow> recovery_ledger \<Rightarrow> 'a result" where
  "admit_scope_effect_reservation w ti scope reserve t =
     bind_result (rw_matching_task w ti) (\<lambda>_. bind_result (require_scope_open w (ti_task_id ti) scope t) (\<lambda>_. reserve))"

end
