(* ===== verification/Recovery_Routes.thy ===== *)
theory Recovery_Routes
  imports Recovery_Ledger
begin

text \<open>
  \<open>failure_recovery.py\<close>, recovery routes and provider intents: a route is issued from a retryable failure
  record, fenced for one reservation, and either consumed by one admitted successor or given back.
\<close>

section \<open>Authorizations\<close>

record route_authorization =
  ra_route_digest :: string
  ra_record_digest :: string
  ra_binding :: failure_binding
  ra_target_role :: failure_role
  ra_target_profile :: string
  ra_target_route :: string
  ra_coordinate :: string
  ra_budget :: string

definition route_authorization_guards :: "route_authorization \<Rightarrow> (bool \<times> py_error) list" where
  "route_authorization_guards a =
     [(list_all is_digest [ra_route_digest a, ra_record_digest a, ra_target_profile a, ra_target_route a, ra_coordinate a, ra_budget a],
       FailureRecoveryError ''durable recovery route authorization is invalid''),
      (ra_target_role a = fb_role (ra_binding a), FailureRecoveryError ''durable recovery route target role is invalid'')]"

definition make_route_authorization :: "route_authorization \<Rightarrow> route_authorization result" where
  "make_route_authorization a = construct (route_authorization_guards a) a"

definition route_payload :: "route_authorization \<Rightarrow> json" where
  "route_payload a = JObj
     [(''schema'', JStr ''roundwright-durable-recovery-route/v1''), (''record_digest'', JStr (ra_record_digest a)),
      (''binding'', JObj (binding_payload (ra_binding a))), (''target_role'', JStr (failure_role_value (ra_target_role a))),
      (''target_profile_digest'', JStr (ra_target_profile a)), (''target_route_digest'', JStr (ra_target_route a)),
      (''coordinate_digest'', JStr (ra_coordinate a)), (''remaining_budget_digest'', JStr (ra_budget a))]"

text \<open>The columns that identify an authorization, with the binding in canonical form.\<close>

definition route_columns :: "task_identity \<Rightarrow> route_authorization \<Rightarrow> route_row" where
  "route_columns ti a = \<lparr>rr_task = ti_task_id ti, rr_repository = ti_repository_id ti, rr_record = ra_record_digest a,
     rr_binding = canon (JObj (binding_payload (ra_binding a))), rr_target_role = failure_role_value (ra_target_role a),
     rr_target_profile = ra_target_profile a, rr_target_route = ra_target_route a, rr_coordinate = ra_coordinate a,
     rr_budget = ra_budget a, rr_state = ''issued'', rr_reservation = None\<rparr>"

definition same_columns :: "route_row \<Rightarrow> route_row \<Rightarrow> bool" where
  "same_columns a b \<longleftrightarrow> a\<lparr>rr_state := [], rr_reservation := None\<rparr> = b\<lparr>rr_state := [], rr_reservation := None\<rparr>"

text \<open>\<open>SELECT ... WHERE route_digest=? AND task_id=?\<close>.\<close>

definition task_route :: "string \<Rightarrow> string \<Rightarrow> recovery_ledger \<Rightarrow> route_row option" where
  "task_route task route t = (case map_of (route_rows t) route of
     Some row \<Rightarrow> if rr_task row = task then Some row else None | None \<Rightarrow> None)"

definition set_route :: "string \<Rightarrow> route_row \<Rightarrow> recovery_ledger \<Rightarrow> recovery_ledger" where
  "set_route route row t = t\<lparr>route_rows := AList.update route row (route_rows t)\<rparr>"

definition read_route_source ::
  "recovery_world \<Rightarrow> task_identity \<Rightarrow> string \<Rightarrow> failure_binding \<Rightarrow> recovery_ledger \<Rightarrow> failure_record result" where
  "read_route_source w ti digest b t = (case stored_failure (ti_task_id ti) digest t of
       None \<Rightarrow> fail ''durable recovery route source is unavailable''
     | Some v \<Rightarrow>
       bind_result (reparse ''durable recovery route source is malformed'' v) (\<lambda>r.
       bind_result (require (record_digest r = digest \<and> fr_binding r = b) ''durable recovery route source has drifted'') (\<lambda>_.
       bind_result (require_failure_compatibility r) (\<lambda>_.
       bind_result (require (fr_schema r = RECOVERY_V3 \<and> fr_evidence_confidence r = Confidence_VERIFIED \<and> fr_failure r \<noteq> F_UNKNOWN)
         ''durable recovery route requires current verified evidence'') (\<lambda>_.
       bind_result (rw_admission w ti b) (\<lambda>_. Inr r))))))"

text \<open>The arguments are those of the authorization; its route digest is computed here.\<close>

definition issue_durable_recovery_route_authorization ::
  "recovery_world \<Rightarrow> task_identity \<Rightarrow> route_authorization \<Rightarrow> int \<Rightarrow> recovery_ledger \<Rightarrow> (recovery_ledger \<times> string) result" where
  "issue_durable_recovery_route_authorization w ti a0 now t =
     bind_result (require (list_all is_digest [ra_record_digest a0, ra_target_profile a0, ra_target_route a0, ra_coordinate a0, ra_budget a0])
       ''durable recovery route inputs are invalid'') (\<lambda>_.
     bind_result (require (0 < now) ''durable recovery route time is invalid'') (\<lambda>_.
     let route = digest_value (route_payload a0); a = a0\<lparr>ra_route_digest := route\<rparr> in
     bind_result (rw_matching_task w ti) (\<lambda>_.
     bind_result (read_route_source w ti (ra_record_digest a) (ra_binding a) t) (\<lambda>r.
     bind_result (require (fr_action r = PREBOUND_FALLBACK \<and> fr_retryable r \<and> ra_target_role a = fb_role (ra_binding a))
       ''durable recovery route source is not eligible'') (\<lambda>_.
     bind_result (require (\<not> (fr_failure r = F_FORMAT_INVALID
          \<and> (fb_role (ra_binding a) \<noteq> Role_SUPERVISOR \<or> ra_target_profile a \<noteq> fb_profile_identity (ra_binding a))))
       ''format correction cannot change profiles'') (\<lambda>_.
     bind_result (require (map_option ti_repository_id (rw_tasks w (ti_task_id ti)) = Some (ti_repository_id ti))
       ''durable recovery route authority has drifted'') (\<lambda>_.
     bind_result (require
         (case List.find (\<lambda>(_, row). rr_task row = ti_task_id ti \<and> rr_record row = ra_record_digest a \<and> rr_target_route row = ra_target_route a)
             (route_rows t) of None \<Rightarrow> True | Some (prior, _) \<Rightarrow> prior = route)
       ''durable recovery route ordering conflicts'') (\<lambda>_.
     case map_of (route_rows t) route of
       None \<Rightarrow> Inr (t\<lparr>route_rows := route_rows t @ [(route, route_columns ti a)]\<rparr>, route)
     | Some row \<Rightarrow>
         if \<not> same_columns row (route_columns ti a) then fail ''durable recovery route conflicts'' else Inr (t, route)))))))))"

definition read_durable_recovery_route_authorization ::
  "recovery_world \<Rightarrow> task_identity \<Rightarrow> string \<Rightarrow> recovery_ledger \<Rightarrow> route_authorization result" where
  "read_durable_recovery_route_authorization w ti route t =
     bind_result (require (is_digest route) ''durable recovery route digest is invalid'') (\<lambda>_.
     bind_result (rw_matching_task w ti) (\<lambda>_.
     case task_route (ti_task_id ti) route t of
       None \<Rightarrow> fail ''durable recovery route is unavailable''
     | Some row \<Rightarrow>
       if rr_repository row \<noteq> ti_repository_id ti then fail ''durable recovery route is unavailable'' else
       (case Option.bind (Option.bind (as_obj (Some (rr_binding row))) (has_keys binding_keys)) parse_binding of
          None \<Rightarrow> fail ''durable recovery route is malformed''
        | Some b \<Rightarrow>
          (case failure_role_of (rr_target_role row) of
             None \<Rightarrow> Inl PyValueError
           | Some role \<Rightarrow>
             bind_result (make_route_authorization
               \<lparr>ra_route_digest = route, ra_record_digest = rr_record row, ra_binding = b, ra_target_role = role,
                ra_target_profile = rr_target_profile row, ra_target_route = rr_target_route row,
                ra_coordinate = rr_coordinate row, ra_budget = rr_budget row\<rparr>) (\<lambda>a.
             bind_result (require (route = digest_value (route_payload a)) ''durable recovery route has drifted'') (\<lambda>_.
             bind_result (read_route_source w ti (rr_record row) b t) (\<lambda>_. Inr a)))))))"

section \<open>Reservations\<close>

text \<open>The target that the caller presents, and that must be the authorized one.\<close>

record route_target =
  rt_role :: failure_role
  rt_profile :: string
  rt_route :: string
  rt_coordinate :: string
  rt_budget :: string

definition target_of :: "route_authorization \<Rightarrow> route_target" where
  "target_of a = \<lparr>rt_role = ra_target_role a, rt_profile = ra_target_profile a, rt_route = ra_target_route a,
     rt_coordinate = ra_coordinate a, rt_budget = ra_budget a\<rparr>"

definition target_digests :: "route_target \<Rightarrow> string list" where
  "target_digests g = [rt_profile g, rt_route g, rt_coordinate g, rt_budget g]"

definition route_holds :: "task_identity \<Rightarrow> route_authorization \<Rightarrow> recovery_ledger \<Rightarrow> (route_row \<Rightarrow> bool) \<Rightarrow> bool" where
  "route_holds ti a t P = (case task_route (ti_task_id ti) (ra_route_digest a) t of
     None \<Rightarrow> False | Some row \<Rightarrow> same_columns row (route_columns ti a) \<and> P row)"

definition consume_durable_recovery_route_authorization ::
  "recovery_world \<Rightarrow> task_identity \<Rightarrow> route_authorization \<Rightarrow> string \<Rightarrow> route_target \<Rightarrow> recovery_ledger \<Rightarrow> (recovery_ledger \<times> unit) result" where
  "consume_durable_recovery_route_authorization w ti a reservation g t =
     bind_result (require (list_all is_digest (reservation # target_digests g)) ''durable recovery route consumption is invalid'') (\<lambda>_.
     bind_result (rw_matching_task w ti) (\<lambda>_.
     bind_result (require (route_holds ti a t (\<lambda>row. rr_state row = ''issued'') \<and> g = target_of a)
       ''durable recovery route consumption has drifted'') (\<lambda>_.
     bind_result (read_route_source w ti (ra_record_digest a) (ra_binding a) t) (\<lambda>_.
     Inr (set_route (ra_route_digest a)
       (the (map_of (route_rows t) (ra_route_digest a))\<lparr>rr_state := ''consumed'', rr_reservation := Some reservation\<rparr>) t, ())))))"

definition scope_of :: "failure_role \<Rightarrow> task_identity \<Rightarrow> string" where
  "scope_of role ti = failure_role_value role @ '':'' @ ti_task_id ti"

text \<open>\<open>True\<close>: this caller fenced the route; \<open>False\<close>: the same reservation was fenced before.\<close>

definition begin_durable_recovery_route_reservation ::
  "recovery_world \<Rightarrow> task_identity \<Rightarrow> route_authorization \<Rightarrow> string \<Rightarrow> route_target \<Rightarrow> recovery_ledger \<Rightarrow> (recovery_ledger \<times> bool) result" where
  "begin_durable_recovery_route_reservation w ti a reservation g t =
     bind_result (require (list_all is_digest (reservation # target_digests g)) ''durable recovery route reservation is invalid'') (\<lambda>_.
     bind_result (rw_matching_task w ti) (\<lambda>_.
     bind_result (require (route_holds ti a t (\<lambda>_. True) \<and> g = target_of a) ''durable recovery route reservation has drifted'') (\<lambda>_.
     bind_result (read_route_source w ti (ra_record_digest a) (ra_binding a) t) (\<lambda>_.
     bind_result (require_scope_open w (ti_task_id ti) (scope_of (ra_target_role a) ti) t) (\<lambda>_.
     let row = the (map_of (route_rows t) (ra_route_digest a)) in
     if (rr_state row, rr_reservation row) = (''issued'', None)
       then Inr (set_route (ra_route_digest a) (row\<lparr>rr_state := ''reserving'', rr_reservation := Some reservation\<rparr>) t, True) else
     if (rr_state row, rr_reservation row) = (''reserving'', Some reservation) then Inr (t, False) else
     fail ''durable recovery route is already admitted'')))))"

text \<open>The guarded update to \<open>consumed\<close>, which a replay of the same reservation finds done.\<close>

definition consume_reserved :: "task_identity \<Rightarrow> route_authorization \<Rightarrow> string \<Rightarrow> string \<Rightarrow> recovery_ledger \<Rightarrow> recovery_ledger result" where
  "consume_reserved ti a reservation why t = (case task_route (ti_task_id ti) (ra_route_digest a) t of
       None \<Rightarrow> fail why
     | Some row \<Rightarrow>
       if (rr_state row, rr_reservation row) = (''reserving'', Some reservation)
         then Inr (set_route (ra_route_digest a) (row\<lparr>rr_state := ''consumed''\<rparr>) t) else
       if (rr_state row, rr_reservation row) = (''consumed'', Some reservation) then Inr t else fail why)"

definition commit_durable_recovery_route_reservation ::
  "recovery_world \<Rightarrow> task_identity \<Rightarrow> route_authorization \<Rightarrow> string \<Rightarrow> int \<Rightarrow> recovery_ledger \<Rightarrow> (recovery_ledger \<times> unit) result" where
  "commit_durable_recovery_route_reservation w ti a reservation now t =
     bind_result (require (is_digest reservation \<and> 0 < now) ''durable recovery route commit is invalid'') (\<lambda>_.
     bind_result (rw_matching_task w ti) (\<lambda>_.
     bind_result (read_route_source w ti (ra_record_digest a) (ra_binding a) t) (\<lambda>_.
     bind_result (consume_reserved ti a reservation ''durable recovery route commit has drifted'' t) (\<lambda>t'. Inr (t', ())))))"

text \<open>The unique keys of the table of successors.\<close>

definition successor_conflicts :: "successor_row \<Rightarrow> successor_row \<Rightarrow> bool" where
  "successor_conflicts a b \<longleftrightarrow> sr_task a = sr_task b \<and> (sr_attempt a = sr_attempt b \<or> sr_request a = sr_request b)"

definition insert_successor :: "string \<Rightarrow> successor_row \<Rightarrow> recovery_ledger \<Rightarrow> recovery_ledger result" where
  "insert_successor route row t =
     (if list_ex (\<lambda>(_, old). successor_conflicts old row) (successor_rows t) then Inl PyIntegrityError
      else Inr (t\<lparr>successor_rows := successor_rows t @ [(route, row)]\<rparr>))"

definition commit_durable_recovery_route_successor_admission ::
  "recovery_world \<Rightarrow> task_identity \<Rightarrow> route_authorization \<Rightarrow> string \<Rightarrow> string \<Rightarrow> string \<Rightarrow> int \<Rightarrow> recovery_ledger
     \<Rightarrow> (recovery_ledger \<times> unit) result" where
  "commit_durable_recovery_route_successor_admission w ti a reservation attempt request now t =
     bind_result (require (is_digest reservation \<and> attempt \<noteq> [] \<and> is_digest request \<and> 0 < now)
       ''durable recovery successor admission is invalid'') (\<lambda>_.
     bind_result (rw_matching_task w ti) (\<lambda>_.
     bind_result (read_route_source w ti (ra_record_digest a) (ra_binding a) t) (\<lambda>_.
     let row = \<lparr>sr_task = ti_task_id ti, sr_repository = ti_repository_id ti, sr_reservation = reservation,
                sr_attempt = attempt, sr_request = request\<rparr> in
     bind_result (case map_of (successor_rows t) (ra_route_digest a) of
         None \<Rightarrow> insert_successor (ra_route_digest a) row t
       | Some old \<Rightarrow> if old \<noteq> row then fail ''durable recovery successor admission has drifted'' else Inr t) (\<lambda>t1.
     bind_result (consume_reserved ti a reservation ''durable recovery successor admission has drifted'' t1) (\<lambda>t2. Inr (t2, ()))))))"

definition require_no_recovery_successor ::
  "recovery_world \<Rightarrow> task_identity \<Rightarrow> route_authorization \<Rightarrow> recovery_ledger \<Rightarrow> unit result" where
  "require_no_recovery_successor w ti a t =
     bind_result (require (map_of (successor_rows t) (ra_route_digest a) = None) ''durable recovery route successor is already admitted'') (\<lambda>_.
     require (\<not> rw_dependency_successor w (fb_attempt_identity (ra_binding a))
         \<and> \<not> rw_provider_successor w (fb_attempt_identity (ra_binding a)) (ti_task_id ti))
       ''durable recovery route successor is already admitted'')"

text \<open>\<open>refund\<close> is what releasing the budget row answers, if there is one.\<close>

definition abandon_durable_recovery_route_reservation ::
  "recovery_world \<Rightarrow> task_identity \<Rightarrow> route_authorization \<Rightarrow> string \<Rightarrow> unit result option \<Rightarrow> recovery_ledger \<Rightarrow> (recovery_ledger \<times> unit) result" where
  "abandon_durable_recovery_route_reservation w ti a reservation refund t =
     bind_result (require (is_digest reservation) ''durable recovery route abandonment is invalid'') (\<lambda>_.
     bind_result (rw_matching_task w ti) (\<lambda>_.
     bind_result (require (route_holds ti a t (\<lambda>row. rr_state row = ''reserving'' \<and> rr_reservation row = Some reservation))
       ''durable recovery route abandonment has drifted'') (\<lambda>_.
     bind_result (read_route_source w ti (ra_record_digest a) (ra_binding a) t) (\<lambda>_.
     bind_result (require_no_recovery_successor w ti a t) (\<lambda>_.
     bind_result (case refund of None \<Rightarrow> Inr () | Some m \<Rightarrow> m) (\<lambda>_.
     Inr (set_route (ra_route_digest a)
       (the (map_of (route_rows t) (ra_route_digest a))\<lparr>rr_state := ''issued'', rr_reservation := None\<rparr>) t, ())))))))"

definition release_durable_recovery_route_authorization ::
  "recovery_world \<Rightarrow> task_identity \<Rightarrow> route_authorization \<Rightarrow> string \<Rightarrow> recovery_ledger \<Rightarrow> (recovery_ledger \<times> unit) result" where
  "release_durable_recovery_route_authorization w ti a reservation t =
     bind_result (require (is_digest reservation) ''durable recovery route release is invalid'') (\<lambda>_.
     bind_result (rw_matching_task w ti) (\<lambda>_.
     bind_result (require (route_holds ti a t (\<lambda>row. rr_state row = ''consumed'' \<and> rr_reservation row = Some reservation))
       ''durable recovery route release has drifted'') (\<lambda>_.
     bind_result (read_route_source w ti (ra_record_digest a) (ra_binding a) t) (\<lambda>_.
     bind_result (require_no_recovery_successor w ti a t) (\<lambda>_.
     Inr (set_route (ra_route_digest a)
       (the (map_of (route_rows t) (ra_route_digest a))\<lparr>rr_state := ''issued'', rr_reservation := None\<rparr>) t, ()))))))"

section \<open>Intents of provider effects\<close>

text \<open>\<open>_provider_intent_role\<close>: \<open>Some False\<close> for the supervisor, \<open>Some True\<close> for the dependency review.\<close>

definition provider_intent_role :: "task_identity \<Rightarrow> string \<Rightarrow> bool option" where
  "provider_intent_role ti scope =
     (if scope = scope_of Role_SUPERVISOR ti then Some False else
      if scope = scope_of Role_DEPENDENCY_REVIEW ti then Some True else None)"

definition provider_role_value :: "bool \<Rightarrow> string" where
  "provider_role_value dependency = failure_role_value (if dependency then Role_DEPENDENCY_REVIEW else Role_SUPERVISOR)"

text \<open>A successor that is only prepared, with or without looking at its identities.\<close>

definition prepared_successor :: "recovery_world \<Rightarrow> task_identity \<Rightarrow> bool \<Rightarrow> string \<Rightarrow> bool option" where
  "prepared_successor w ti dependency attempt =
     (if dependency
      then map_option (\<lambda>row. row = (ti_task_id ti, ''prepared'')) (rw_dependency_attempt w attempt)
      else map_option (\<lambda>row. pa_task row = ti_task_id ti \<and> pa_role row = ''supervisor'' \<and> pa_state row = ''prepared'')
             (rw_provider_attempt w attempt))"

definition unopened :: "recovery_world \<Rightarrow> bool \<Rightarrow> string \<Rightarrow> bool" where
  "unopened w dependency attempt \<longleftrightarrow> dependency \<or>
     (case rw_provider_attempt w attempt of None \<Rightarrow> True | Some row \<Rightarrow> list_all (\<lambda>x. x = None) (pa_identities row))"

definition begin_provider_effect_reservation_intent ::
  "recovery_world \<Rightarrow> task_identity \<Rightarrow> string \<Rightarrow> string \<Rightarrow> string \<Rightarrow> string \<Rightarrow> string \<Rightarrow> recovery_ledger \<Rightarrow> (recovery_ledger \<times> bool) result" where
  "begin_provider_effect_reservation_intent w ti scope attempt reservation reservation_repository reservation_task t =
     (case provider_intent_role ti scope of
        None \<Rightarrow> fail ''provider effect reservation intent is invalid''
      | Some dependency \<Rightarrow>
        bind_result (require (attempt \<noteq> [] \<and> is_digest reservation \<and> is_digest reservation_repository \<and> is_recovery_token reservation_task)
          ''provider effect reservation intent is invalid'') (\<lambda>_.
        bind_result (rw_matching_task w ti) (\<lambda>_.
        bind_result (require_scope_open w (ti_task_id ti) scope t) (\<lambda>_.
        bind_result (require (prepared_successor w ti dependency attempt \<noteq> Some False \<and> unopened w dependency attempt
            \<and> \<not> rw_dispatch_claim w dependency attempt) ''provider effect reservation already has a successor'') (\<lambda>_.
        let row = \<lparr>ir_task = ti_task_id ti, ir_repository = ti_repository_id ti, ir_scope = scope, ir_role = provider_role_value dependency,
                   ir_reservation = reservation, ir_reservation_repository = reservation_repository,
                   ir_reservation_task = reservation_task\<rparr> in
        case map_of (intent_rows t) attempt of
          None \<Rightarrow>
            if list_ex (\<lambda>(_, old). ir_task old = ir_task row \<and> ir_reservation old = ir_reservation row) (intent_rows t)
            then Inl PyIntegrityError else Inr (t\<lparr>intent_rows := intent_rows t @ [(attempt, row)]\<rparr>, True)
        | Some old \<Rightarrow> if old \<noteq> row then fail ''provider effect reservation intent has drifted'' else Inr (t, False))))))"

definition drop_intent :: "string \<Rightarrow> recovery_ledger \<Rightarrow> recovery_ledger" where
  "drop_intent attempt t = t\<lparr>intent_rows := filter (\<lambda>(k, _). k \<noteq> attempt) (intent_rows t)\<rparr>"

definition commit_provider_effect_reservation_intent ::
  "recovery_world \<Rightarrow> task_identity \<Rightarrow> string \<Rightarrow> string \<Rightarrow> string \<Rightarrow> recovery_ledger \<Rightarrow> (recovery_ledger \<times> unit) result" where
  "commit_provider_effect_reservation_intent w ti scope attempt reservation t =
     (case provider_intent_role ti scope of
        None \<Rightarrow> fail ''provider effect reservation commit is invalid''
      | Some dependency \<Rightarrow>
        bind_result (require (attempt \<noteq> [] \<and> is_digest reservation) ''provider effect reservation commit is invalid'') (\<lambda>_.
        bind_result (rw_matching_task w ti) (\<lambda>_.
        bind_result (require (prepared_successor w ti dependency attempt = Some True \<and> \<not> rw_dispatch_claim w dependency attempt)
          ''provider effect reservation successor has drifted'') (\<lambda>_.
        case map_of (intent_rows t) attempt of
          None \<Rightarrow> Inr (t, ())
        | Some old \<Rightarrow>
            if (ir_task old, ir_repository old, ir_scope old, ir_role old, ir_reservation old)
                = (ti_task_id ti, ti_repository_id ti, scope, provider_role_value dependency, reservation)
            then Inr (drop_intent attempt t, ()) else fail ''provider effect reservation commit has drifted''))))"

text \<open>
  \<open>release_unused_provider_effect_reservation\<close>; the sealed reservation is its role, its request, its
  digest and its two identities, and \<open>refund\<close> is what releasing the budget row answers.
\<close>

record effect_reservation =
  fx_role :: string
  fx_request_identity :: string
  fx_recovery_digest :: string
  fx_repository_identity :: string
  fx_task_identity :: string

definition release_unused_provider_effect_reservation ::
  "recovery_world \<Rightarrow> task_identity \<Rightarrow> string \<Rightarrow> string \<Rightarrow> effect_reservation \<Rightarrow> unit result \<Rightarrow> recovery_ledger \<Rightarrow> (recovery_ledger \<times> unit) result" where
  "release_unused_provider_effect_reservation w ti scope attempt fx refund t =
     bind_result (require (attempt \<noteq> []) ''unused provider reservation is invalid'') (\<lambda>_.
     case provider_intent_role ti scope of
       None \<Rightarrow> fail ''unused provider reservation has drifted''
     | Some dependency \<Rightarrow>
       bind_result (require (fx_role fx = provider_role_value dependency \<and> fx_request_identity fx = attempt
           \<and> scope = fx_role fx @ '':'' @ ti_task_id ti) ''unused provider reservation has drifted'') (\<lambda>_.
       bind_result (rw_matching_task w ti) (\<lambda>_.
       bind_result (require (map_of (intent_rows t) attempt = Some
           \<lparr>ir_task = ti_task_id ti, ir_repository = ti_repository_id ti, ir_scope = scope, ir_role = provider_role_value dependency,
            ir_reservation = fx_recovery_digest fx, ir_reservation_repository = fx_repository_identity fx,
            ir_reservation_task = fx_task_identity fx\<rparr>) ''unused provider reservation has drifted'') (\<lambda>_.
       bind_result (require (\<not> rw_occupied w dependency attempt) ''unused provider reservation has a durable successor'') (\<lambda>_.
       bind_result refund (\<lambda>_. Inr (drop_intent attempt t, ())))))))"

end
