(* ===== verification/Recovery_Safety.thy ===== *)
theory Recovery_Safety
  imports Recovery_Routes
begin

text \<open>
  Safety of the failure recovery ledger over arbitrary histories of its operations, successful or
  not, in worlds that may change between any two of them: the chain of owner decisions, the admission
  of effects in a scope, and the life cycle of recovery routes.
\<close>

section \<open>Histories\<close>

datatype recovery_op =
    Record task_identity failure_record int
  | Clear task_identity clearance int
  | Revoke task_identity clearance_revocation int
  | Issue task_identity route_authorization int
  | Consume task_identity route_authorization string route_target
  | Begin task_identity route_authorization string route_target
  | Commit task_identity route_authorization string int
  | Admit task_identity route_authorization string string string int
  | Abandon task_identity route_authorization string "unit result option"
  | Release task_identity route_authorization string
  | Begin_intent task_identity string string string string string
  | Commit_intent task_identity string string string
  | Release_unused task_identity string string effect_reservation "unit result"

definition tables :: "('a \<times> 'b) result \<Rightarrow> 'a result" where
  "tables m = bind_result m (\<lambda>(t, _). Inr t)"

fun run_op :: "recovery_world \<Rightarrow> recovery_op \<Rightarrow> recovery_ledger \<Rightarrow> recovery_ledger result" where
  "run_op w (Record ti r now) t = tables (record_durable_failure w ti r now t)"
| "run_op w (Clear ti c now) t = tables (record_durable_clearance w ti c now t)"
| "run_op w (Revoke ti c now) t = tables (record_durable_clearance_revocation w ti c now t)"
| "run_op w (Issue ti a now) t = tables (issue_durable_recovery_route_authorization w ti a now t)"
| "run_op w (Consume ti a reservation g) t = tables (consume_durable_recovery_route_authorization w ti a reservation g t)"
| "run_op w (Begin ti a reservation g) t = tables (begin_durable_recovery_route_reservation w ti a reservation g t)"
| "run_op w (Commit ti a reservation now) t = tables (commit_durable_recovery_route_reservation w ti a reservation now t)"
| "run_op w (Admit ti a reservation attempt request now) t =
     tables (commit_durable_recovery_route_successor_admission w ti a reservation attempt request now t)"
| "run_op w (Abandon ti a reservation refund) t = tables (abandon_durable_recovery_route_reservation w ti a reservation refund t)"
| "run_op w (Release ti a reservation) t = tables (release_durable_recovery_route_authorization w ti a reservation t)"
| "run_op w (Begin_intent ti scope attempt reservation repository task) t =
     tables (begin_provider_effect_reservation_intent w ti scope attempt reservation repository task t)"
| "run_op w (Commit_intent ti scope attempt reservation) t =
     tables (commit_provider_effect_reservation_intent w ti scope attempt reservation t)"
| "run_op w (Release_unused ti scope attempt fx refund) t =
     tables (release_unused_provider_effect_reservation w ti scope attempt fx refund t)"

text \<open>Callers pass records built by the constructors.\<close>

fun op_ok :: "recovery_op \<Rightarrow> bool" where
  "op_ok (Record ti r now) = record_ok r"
| "op_ok _ = True"

text \<open>A label: the world, the operation and whether it returned; one that raises changes nothing.\<close>

type_synonym recovery_label = "recovery_world \<times> recovery_op \<times> bool"

fun recovery_step :: "recovery_ledger \<Rightarrow> recovery_label \<Rightarrow> recovery_ledger \<Rightarrow> bool" where
  "recovery_step t (w, op, ok) t' \<longleftrightarrow> op_ok op \<and>
     (case run_op w op t of Inl _ \<Rightarrow> \<not> ok \<and> t' = t | Inr u \<Rightarrow> ok \<and> t' = u)"

definition empty_ledger :: recovery_ledger where
  "empty_ledger = \<lparr>failure_rows = [], decision_rows = [], route_rows = [], successor_rows = [], intent_rows = []\<rparr>"

lemma require_Inr [simp]: "require p why = Inr u \<longleftrightarrow> p"
  by (simp add: require_def)

lemma tables_Inr: "tables m = Inr t \<longleftrightarrow> (\<exists>x. m = Inr (t, x))"
  by (auto simp: tables_def bind_result_Inr_iff)

section \<open>What a successful operation did\<close>

lemma record_effect:
  assumes "record_durable_failure w ti r now t = Inr (t', d)"
  shows "d = record_digest r \<and> fr_schema r = RECOVERY_V3 \<and>
    ((map_of (failure_rows t) d = None
       \<and> t' = t\<lparr>failure_rows := failure_rows t @ [(d, (ti_task_id ti, JObj (failure_payload r)))]\<rparr>)
     \<or> (\<exists>v. map_of (failure_rows t) d = Some (ti_task_id ti, v) \<and> canon v = canon (JObj (failure_payload r)) \<and> t' = t))"
  using assms unfolding record_durable_failure_def bind_result_Inr_iff
  by (auto split: option.split_asm if_split_asm simp del: canon.simps)

lemma append_effect:
  assumes "append_clearance_decision w ti revoke digest b command requested t = Inr (t', d)"
  shows "\<exists>history receipt. decision_history w (ti_task_id ti) digest b t = Inr history
    \<and> revoke = (history \<noteq> [] \<and> \<not> snd (last history))
    \<and> (revoke \<longrightarrow> requested = Some (fst (last history)))
    \<and> denial_command_receipt w (ti_task_id ti) digest b command revoke (if revoke then Some (fst (last history)) else None) = Inr receipt
    \<and> (let payload = decision_payload revoke digest b receipt (if history = [] then None else Some (fst (last history)))
             (int (length history) + 1);
           row = \<lparr>dr_digest = digest_value payload, dr_task = ti_task_id ti, dr_record = digest, dr_command = command,
             dr_command_kind = command_kind_of revoke, dr_json = payload, dr_sequence = int (length history) + 1\<rparr>
       in d = digest_value payload \<and>
          (t' = t \<and> (\<exists>old. List.find (\<lambda>old. dr_digest old = d) (decision_rows t) = Some old
              \<and> (dr_task old, dr_record old, canon (dr_json old)) = (dr_task row, dr_record row, canon payload))
           \<or> t' = t\<lparr>decision_rows := decision_rows t @ [row]\<rparr> \<and> \<not> list_ex (decision_conflicts row) (decision_rows t)))"
  using assms unfolding append_clearance_decision_def bind_result_Inr_iff Let_def insert_decision_def require_Inr
  by (elim exE conjE) (auto simp: bind_result_Inr_iff simp del: canon.simps split: option.split_asm if_split_asm)

lemma clear_effect:
  assumes "record_durable_clearance w ti c now t = Inr (t', d)"
  shows "require_clearance_record w ti (cl_record_digest c) (cl_binding c) t = Inr ()
    \<and> append_clearance_decision w ti False (cl_record_digest c) (cl_binding c) (cl_command_id c) None t = Inr (t', d)"
  using assms unfolding record_durable_clearance_def bind_result_Inr_iff by auto

lemma revoke_effect:
  assumes "record_durable_clearance_revocation w ti c now t = Inr (t', d)"
  shows "\<exists>digest. require_clearance_record w ti digest (cv_binding c) t = Inr ()
    \<and> append_clearance_decision w ti True digest (cv_binding c) (cv_command_id c) (Some (cv_clearance_digest c)) t = Inr (t', d)"
  using assms unfolding record_durable_clearance_revocation_def bind_result_Inr_iff
  by (auto split: option.split_asm simp: bind_result_Inr_iff)

lemma task_route_Some: "task_route task route t = Some row \<longleftrightarrow> map_of (route_rows t) route = Some row \<and> rr_task row = task"
  by (auto simp: task_route_def split: option.split)

lemma route_holdsE:
  assumes "route_holds ti a t P"
  obtains row where "map_of (route_rows t) (ra_route_digest a) = Some row" "rr_task row = ti_task_id ti" "P row"
  using assms unfolding route_holds_def by (auto simp: task_route_Some split: option.split_asm)

lemma issue_effect:
  assumes "issue_durable_recovery_route_authorization w ti a now t = Inr (t', d)"
  shows "t' = t \<or> (map_of (route_rows t) d = None \<and>
    t' = t\<lparr>route_rows := route_rows t @ [(d, route_columns ti (a\<lparr>ra_route_digest := d\<rparr>))]\<rparr>)"
  using assms unfolding issue_durable_recovery_route_authorization_def bind_result_Inr_iff Let_def
  by (auto split: option.split_asm if_split_asm)

lemma consume_effect:
  assumes "consume_durable_recovery_route_authorization w ti a reservation g t = Inr (t', u)"
  shows "\<exists>row. map_of (route_rows t) (ra_route_digest a) = Some row \<and> rr_task row = ti_task_id ti \<and> rr_state row = ''issued''
    \<and> t' = set_route (ra_route_digest a) (row\<lparr>rr_state := ''consumed'', rr_reservation := Some reservation\<rparr>) t"
  using assms unfolding consume_durable_recovery_route_authorization_def bind_result_Inr_iff require_Inr
  by (elim exE conjE route_holdsE) simp

lemma begin_effect:
  assumes "begin_durable_recovery_route_reservation w ti a reservation g t = Inr (t', fenced)"
  shows "require_scope_open w (ti_task_id ti) (scope_of (ra_target_role a) ti) t = Inr () \<and>
    (\<exists>row. map_of (route_rows t) (ra_route_digest a) = Some row \<and> rr_task row = ti_task_id ti \<and>
      (if fenced then rr_state row = ''issued'' \<and> rr_reservation row = None
         \<and> t' = set_route (ra_route_digest a) (row\<lparr>rr_state := ''reserving'', rr_reservation := Some reservation\<rparr>) t
       else rr_state row = ''reserving'' \<and> rr_reservation row = Some reservation \<and> t' = t))"
  using assms unfolding begin_durable_recovery_route_reservation_def bind_result_Inr_iff require_Inr Let_def
  by (elim exE conjE route_holdsE) (auto split: if_split_asm)

lemma consume_reserved_effect:
  assumes "consume_reserved ti a reservation why t = Inr t'"
  shows "\<exists>row. map_of (route_rows t) (ra_route_digest a) = Some row \<and> rr_task row = ti_task_id ti \<and> rr_reservation row = Some reservation
    \<and> (rr_state row = ''reserving'' \<and> t' = set_route (ra_route_digest a) (row\<lparr>rr_state := ''consumed''\<rparr>) t
       \<or> rr_state row = ''consumed'' \<and> t' = t)"
  using assms unfolding consume_reserved_def by (auto simp: task_route_Some split: option.split_asm if_split_asm)

lemma commit_effect:
  "commit_durable_recovery_route_reservation w ti a reservation now t = Inr (t', u) \<Longrightarrow>
     \<exists>why. consume_reserved ti a reservation why t = Inr t'"
  unfolding commit_durable_recovery_route_reservation_def bind_result_Inr_iff by auto

lemma admit_effect:
  assumes "commit_durable_recovery_route_successor_admission w ti a reservation attempt request now t = Inr (t', u)"
  shows "let row = \<lparr>sr_task = ti_task_id ti, sr_repository = ti_repository_id ti, sr_reservation = reservation,
                sr_attempt = attempt, sr_request = request\<rparr> in
    \<exists>t1 why. consume_reserved ti a reservation why t1 = Inr t' \<and>
      (map_of (successor_rows t) (ra_route_digest a) = Some row \<and> t1 = t
       \<or> map_of (successor_rows t) (ra_route_digest a) = None
         \<and> \<not> list_ex (\<lambda>(_, old). successor_conflicts old row) (successor_rows t)
         \<and> t1 = t\<lparr>successor_rows := successor_rows t @ [(ra_route_digest a, row)]\<rparr>)"
  using assms unfolding commit_durable_recovery_route_successor_admission_def bind_result_Inr_iff Let_def insert_successor_def
  by (elim exE conjE) (auto split: option.split_asm if_split_asm)

lemma abandon_effect:
  assumes "abandon_durable_recovery_route_reservation w ti a reservation refund t = Inr (t', u)"
  shows "\<exists>row. map_of (route_rows t) (ra_route_digest a) = Some row \<and> rr_task row = ti_task_id ti
    \<and> rr_state row = ''reserving'' \<and> rr_reservation row = Some reservation \<and> map_of (successor_rows t) (ra_route_digest a) = None
    \<and> t' = set_route (ra_route_digest a) (row\<lparr>rr_state := ''issued'', rr_reservation := None\<rparr>) t"
  using assms
  unfolding abandon_durable_recovery_route_reservation_def bind_result_Inr_iff require_Inr require_no_recovery_successor_def
  by (elim exE conjE route_holdsE) simp

lemma release_effect:
  assumes "release_durable_recovery_route_authorization w ti a reservation t = Inr (t', u)"
  shows "\<exists>row. map_of (route_rows t) (ra_route_digest a) = Some row \<and> rr_task row = ti_task_id ti
    \<and> rr_state row = ''consumed'' \<and> rr_reservation row = Some reservation \<and> map_of (successor_rows t) (ra_route_digest a) = None
    \<and> t' = set_route (ra_route_digest a) (row\<lparr>rr_state := ''issued'', rr_reservation := None\<rparr>) t"
  using assms
  unfolding release_durable_recovery_route_authorization_def bind_result_Inr_iff require_Inr require_no_recovery_successor_def
  by (elim exE conjE route_holdsE) simp

text \<open>Operations on intents leave the other tables alone.\<close>

lemma intent_effect:
  "begin_provider_effect_reservation_intent w ti scope attempt reservation repository task t = Inr (t', fenced) \<Longrightarrow>
     \<exists>rows. t' = t\<lparr>intent_rows := rows\<rparr>"
  "commit_provider_effect_reservation_intent w ti scope attempt reservation t = Inr (t', u) \<Longrightarrow> \<exists>rows. t' = t\<lparr>intent_rows := rows\<rparr>"
  "release_unused_provider_effect_reservation w ti scope attempt fx refund t = Inr (t', u) \<Longrightarrow> \<exists>rows. t' = t\<lparr>intent_rows := rows\<rparr>"
proof -
  have same: "\<exists>rows. t = t\<lparr>intent_rows := rows\<rparr>" by (rule exI [of _ "intent_rows t"]) simp
  show "begin_provider_effect_reservation_intent w ti scope attempt reservation repository task t = Inr (t', fenced) \<Longrightarrow>
     \<exists>rows. t' = t\<lparr>intent_rows := rows\<rparr>"
    unfolding begin_provider_effect_reservation_intent_def using same
    by (auto simp: bind_result_Inr_iff Let_def split: option.split_asm if_split_asm)
  show "commit_provider_effect_reservation_intent w ti scope attempt reservation t = Inr (t', u) \<Longrightarrow> \<exists>rows. t' = t\<lparr>intent_rows := rows\<rparr>"
    unfolding commit_provider_effect_reservation_intent_def drop_intent_def using same
    by (auto simp: bind_result_Inr_iff split: option.split_asm if_split_asm)
  show "release_unused_provider_effect_reservation w ti scope attempt fx refund t = Inr (t', u) \<Longrightarrow> \<exists>rows. t' = t\<lparr>intent_rows := rows\<rparr>"
    unfolding release_unused_provider_effect_reservation_def drop_intent_def
    by (auto simp: bind_result_Inr_iff split: option.split_asm)
qed

section \<open>The chain of decisions\<close>

text \<open>A row that continues a chain: its place, its kind, and what its text commits to.\<close>

definition decision_link :: "string \<Rightarrow> int \<Rightarrow> string option \<Rightarrow> bool \<Rightarrow> decision_row \<Rightarrow> bool" where
  "decision_link digest n predecessor revoke row \<longleftrightarrow>
     dr_sequence row = n \<and> dr_command_kind row = command_kind_of revoke \<and> dr_digest row = digest_value (dr_json row)
     \<and> (\<exists>b c g. dr_json row = decision_payload revoke digest b (command_receipt (dr_command row) c g) predecessor n)"

fun decision_chain :: "string \<Rightarrow> int \<Rightarrow> string option \<Rightarrow> bool \<Rightarrow> decision_row list \<Rightarrow> bool" where
  "decision_chain digest n predecessor revoke [] = True"
| "decision_chain digest n predecessor revoke (row # rows) =
     (decision_link digest n predecessor revoke row \<and> decision_chain digest (n + 1) (Some (dr_digest row)) (\<not> revoke) rows)"

definition rows_of :: "string \<Rightarrow> string \<Rightarrow> decision_row list \<Rightarrow> decision_row list" where
  "rows_of task digest rows = filter (\<lambda>row. dr_task row = task \<and> dr_record row = digest) rows"

definition decisions_ok :: "decision_row list \<Rightarrow> bool" where
  "decisions_ok rows \<longleftrightarrow> (\<forall>task digest. decision_chain digest 1 None False (rows_of task digest rows))
     \<and> sorted_wrt (\<lambda>a b. \<not> decision_conflicts b a) rows"

lemma chain_sequence: "decision_chain digest n p r rows \<Longrightarrow> map dr_sequence rows = map (\<lambda>i. n + int i) [0..<length rows]"
proof (induction rows arbitrary: n p r)
  case (Cons row rows)
  have "map dr_sequence rows = map (\<lambda>i. n + 1 + int i) [0..<length rows]"
    using Cons.prems by (intro Cons.IH [of _ "Some (dr_digest row)" "\<not> r"]) simp
  moreover have "dr_sequence row = n" using Cons.prems by (simp add: decision_link_def)
  ultimately show ?case
    by (simp add: map_upt_Suc add.assoc del: upt_Suc)
qed simp

lemma chain_sorted: "decision_chain digest n p r rows \<Longrightarrow> sorted (map dr_sequence rows)"
  by (drule chain_sequence) (simp add: sorted_wrt_map sorted_wrt_mono_rel [OF _ sorted_wrt_upt])

lemma decisions_for_rows: "decisions_ok (decision_rows t) \<Longrightarrow> decisions_for task digest t = rows_of task digest (decision_rows t)"
  unfolding decisions_for_def rows_of_def [symmetric] decisions_ok_def
  by (rule sort_key_id_if_sorted) (blast intro: chain_sorted)

text \<open>A verified history ends where a new row has to continue.\<close>

lemma chain_append:
  assumes "check_history w task digest b n p r rows = Inr history" "decision_chain digest n p r rows"
  shows "length history = length rows \<and>
    (decision_chain digest n p r (rows @ [row]) \<longleftrightarrow>
     decision_link digest (n + int (length history)) (if history = [] then p else Some (fst (last history)))
       (if history = [] then r else \<not> snd (last history)) row)"
  using assms
proof (induction rows arbitrary: n p r history)
  case (Cons x rows)
  from Cons.prems(1) obtain h where
    h: "check_history w task digest b (n + 1) (Some (dr_digest x)) (\<not> r) rows = Inr h" "history = (dr_digest x, r) # h"
    by (auto simp: bind_result_Inr_iff split: option.split_asm)
  show ?case using Cons.IH [OF h(1)] Cons.prems(2) by (auto simp: h(2) algebra_simps)
qed simp

lemma receipt_of_command:
  "denial_command_receipt w task digest b command revoke expected = Inr receipt \<Longrightarrow> \<exists>c g. receipt = command_receipt command c g"
  unfolding denial_command_receipt_def by (auto simp: bind_result_Inr_iff split: if_split_asm option.split_asm)

lemma append_keeps_chain:
  assumes ok: "decisions_ok (decision_rows t)"
    and run: "append_clearance_decision w ti revoke digest b command requested t = Inr (t', d)"
  shows "decisions_ok (decision_rows t')"
proof -
  from append_effect [OF run] obtain history receipt where
    history: "decision_history w (ti_task_id ti) digest b t = Inr history" "revoke = (history \<noteq> [] \<and> \<not> snd (last history))"
    and receipt: "denial_command_receipt w (ti_task_id ti) digest b command revoke
      (if revoke then Some (fst (last history)) else None) = Inr receipt"
    and effect: "let payload = decision_payload revoke digest b receipt (if history = [] then None else Some (fst (last history)))
             (int (length history) + 1);
           row = \<lparr>dr_digest = digest_value payload, dr_task = ti_task_id ti, dr_record = digest, dr_command = command,
             dr_command_kind = command_kind_of revoke, dr_json = payload, dr_sequence = int (length history) + 1\<rparr>
       in t' = t \<or> t' = t\<lparr>decision_rows := decision_rows t @ [row]\<rparr> \<and> \<not> list_ex (decision_conflicts row) (decision_rows t)"
    unfolding Let_def by blast
  let ?payload = "decision_payload revoke digest b receipt (if history = [] then None else Some (fst (last history)))
             (int (length history) + 1)"
  let ?row = "\<lparr>dr_digest = digest_value ?payload, dr_task = ti_task_id ti, dr_record = digest, dr_command = command,
             dr_command_kind = command_kind_of revoke, dr_json = ?payload, dr_sequence = int (length history) + 1\<rparr>"
  consider "t' = t" | "decision_rows t' = decision_rows t @ [?row]" "\<not> list_ex (decision_conflicts ?row) (decision_rows t)"
    using effect unfolding Let_def by force
  then show ?thesis
  proof cases
    case 1
    then show ?thesis using ok by simp
  next
    case 2
    let ?rows = "rows_of (ti_task_id ti) digest (decision_rows t)"
    have chain: "decision_chain digest 1 None False ?rows" using ok by (simp add: decisions_ok_def)
    have check: "check_history w (ti_task_id ti) digest b 1 None False ?rows = Inr history"
      using history(1) by (simp add: decision_history_def decisions_for_rows [OF ok])
    obtain c g where "receipt = command_receipt command c g" using receipt_of_command [OF receipt] by blast
    then have "decision_link digest (1 + int (length history)) (if history = [] then None else Some (fst (last history)))
        (if history = [] then False else \<not> snd (last history)) ?row"
      using history(2) unfolding decision_link_def by (auto simp: add.commute)
    then have "decision_chain digest 1 None False (?rows @ [?row])" using chain_append [OF check chain] by blast
    then have "decision_chain digest' 1 None False (rows_of task digest' (decision_rows t'))" for task digest'
      using ok unfolding 2(1) by (cases "task = ti_task_id ti \<and> digest' = digest") (auto simp: rows_of_def decisions_ok_def)
    moreover have "sorted_wrt (\<lambda>a b. \<not> decision_conflicts b a) (decision_rows t')"
      using ok 2(2) unfolding 2(1) by (simp add: decisions_ok_def sorted_wrt_append list_ex_iff)
    ultimately show ?thesis by (simp add: decisions_ok_def)
  qed
qed

section \<open>Stored failure records\<close>

definition failures_ok :: "(string \<times> (string \<times> json)) list \<Rightarrow> bool" where
  "failures_ok rows \<longleftrightarrow> distinct (map fst rows) \<and>
     (\<forall>(digest, task, v) \<in> set rows.
        \<exists>r. record_ok r \<and> fr_schema r = RECOVERY_V3 \<and> digest = record_digest r \<and> v = JObj (failure_payload r))"

lemma record_keeps_failures:
  assumes ok: "failures_ok (failure_rows t)" and "record_ok r" and run: "record_durable_failure w ti r now t = Inr (t', d)"
  shows "failures_ok (failure_rows t')"
proof -
  have "fr_schema r = RECOVERY_V3" and d: "d = record_digest r"
    and "t' = t \<or> map_of (failure_rows t) d = None
       \<and> t' = t\<lparr>failure_rows := failure_rows t @ [(d, (ti_task_id ti, JObj (failure_payload r)))]\<rparr>"
    using record_effect [OF run] by blast+
  then consider "t' = t" | "map_of (failure_rows t) d = None"
      "failure_rows t' = failure_rows t @ [(d, (ti_task_id ti, JObj (failure_payload r)))]" by force
  then show ?thesis
  proof cases
    case 1
    then show ?thesis using ok by simp
  next
    case 2
    have "d \<notin> fst ` set (failure_rows t)" using 2(1) by (simp add: map_of_eq_None_iff)
    then show ?thesis using ok \<open>record_ok r\<close> \<open>fr_schema r = RECOVERY_V3\<close> d unfolding failures_ok_def 2(2) by auto
  qed
qed

text \<open>Two valid records of the current schema with one canonical text are equal.\<close>

lemma binding_payload_inj: "canon (JObj (binding_payload b)) = canon (JObj (binding_payload b')) \<Longrightarrow> b = b'"
proof -
  assume "canon (JObj (binding_payload b)) = canon (JObj (binding_payload b'))"
  then have "map (canon \<circ> snd) (binding_payload b) = map (canon \<circ> snd) (binding_payload b')"
    by (rule canon_fields_inj [rotated 2]) (simp_all only: binding_payload_keys, simp add: binding_keys_def)
  moreover have "fb_role b = fb_role b'" if "failure_role_value (fb_role b) = failure_role_value (fb_role b')"
    using that by (metis failure_role_of_value option.inject)
  ultimately show ?thesis by (simp add: binding_payload_def)
qed

lemma optional_binding_inj:
  "canon (optional_json (\<lambda>b. JObj (binding_payload b)) p) = canon (optional_json (\<lambda>b. JObj (binding_payload b)) p') \<Longrightarrow> p = p'"
  using binding_payload_inj by (cases p; cases p') (auto simp: optional_json_def)

lemma optional_conditions_inj:
  assumes "pred_option (\<lambda>c. list_all fst (clearance_condition_guards c)) c"
    "pred_option (\<lambda>c. list_all fst (clearance_condition_guards c)) c'"
    "canon (optional_json conditions_payload c) = canon (optional_json conditions_payload c')"
  shows "c = c'"
  using assms by (cases c; cases c') (auto simp: optional_json_def conditions_payload_def clearance_condition_guards_def)

lemma failure_payload_inj:
  assumes ok: "record_ok r" "record_ok r'" "fr_schema r = RECOVERY_V3" "fr_schema r' = RECOVERY_V3"
    and eq: "canon (JObj (failure_payload r)) = canon (JObj (failure_payload r'))"
  shows "r = r'"
proof -
  have keys: "map fst (failure_payload x) = record_keys RECOVERY_V3" if "fr_schema x = RECOVERY_V3" for x
    using failure_payload_keys [of x] that by simp
  have "map (canon \<circ> snd) (failure_payload r) = map (canon \<circ> snd) (failure_payload r')"
    by (rule canon_fields_inj [OF _ _ eq]) (simp_all only: keys ok, simp add: record_keys_def)
  then have f: "canon (JObj (binding_payload (fr_binding r))) = canon (JObj (binding_payload (fr_binding r')))"
      "failure_class_value (fr_failure r) = failure_class_value (fr_failure r')"
      "evidence_source_value (fr_evidence r) = evidence_source_value (fr_evidence r')"
      "fr_retryable r = fr_retryable r'" "recovery_action_value (fr_action r) = recovery_action_value (fr_action r')"
      "fr_clearance_required r = fr_clearance_required r'"
      "evidence_confidence_value (fr_evidence_confidence r) = evidence_confidence_value (fr_evidence_confidence r')"
      "canon (optional_json conditions_payload (fr_clearance_conditions r)) = canon (optional_json conditions_payload (fr_clearance_conditions r'))"
      "canon (optional_json (\<lambda>b. JObj (binding_payload b)) (fr_clearance_provenance r))
         = canon (optional_json (\<lambda>b. JObj (binding_payload b)) (fr_clearance_provenance r'))"
    using ok(3,4) by (simp_all add: failure_payload_def del: canon.simps(2))
  have "fr_failure r = fr_failure r'" "fr_evidence r = fr_evidence r'" "fr_action r = fr_action r'"
    "fr_evidence_confidence r = fr_evidence_confidence r'"
    using f by (metis failure_class_of_value option.inject, metis evidence_source_of_value option.inject,
        metis recovery_action_of_value option.inject, metis evidence_confidence_of_value option.inject)
  moreover have "fr_clearance_conditions r = fr_clearance_conditions r'"
    using ok(1,2) by (intro optional_conditions_inj [OF _ _ f(8)]) (simp_all add: record_ok_def)
  ultimately show ?thesis using f binding_payload_inj [OF f(1)] optional_binding_inj [OF f(9)] ok(3,4) by simp
qed

section \<open>Routes\<close>

datatype route_phase = Unissued | Issued | Reserving string | Consumed string | Admitted string string string

text \<open>The phase of a route as its row and its successor row show it.\<close>

fun row_phase :: "route_row option \<Rightarrow> route_phase" where
  "row_phase None = Unissued"
| "row_phase (Some row) = (if rr_state row = ''issued'' then Issued else
     case rr_reservation row of
       None \<Rightarrow> Unissued
     | Some reservation \<Rightarrow> if rr_state row = ''reserving'' then Reserving reservation else Consumed reservation)"

definition phase :: "recovery_ledger \<Rightarrow> string \<Rightarrow> route_phase" where
  "phase t route = (case map_of (successor_rows t) route of
     Some s \<Rightarrow> Admitted (sr_reservation s) (sr_attempt s) (sr_request s) | None \<Rightarrow> row_phase (map_of (route_rows t) route))"

inductive route_edge :: "route_phase \<Rightarrow> route_phase \<Rightarrow> bool" where
  stay: "route_edge x x"
| issue: "route_edge Unissued Issued"
| fence: "route_edge Issued (Reserving reservation)"
| consume: "route_edge Issued (Consumed reservation)"
| abandon: "route_edge (Reserving reservation) Issued"
| commit: "route_edge (Reserving reservation) (Consumed reservation)"
| release: "route_edge (Consumed reservation) Issued"
| admit_reserved: "route_edge (Reserving reservation) (Admitted reservation attempt request)"
| admit_consumed: "route_edge (Consumed reservation) (Admitted reservation attempt request)"

inductive_cases route_edge_admitted: "route_edge (Admitted reservation attempt request) x"

definition row_ok :: "route_row \<Rightarrow> bool" where
  "row_ok row \<longleftrightarrow> (rr_state row = ''issued'' \<and> rr_reservation row = None)
     \<or> (rr_state row \<in> {''reserving'', ''consumed''} \<and> rr_reservation row \<noteq> None)"

definition routes_ok :: "recovery_ledger \<Rightarrow> bool" where
  "routes_ok t \<longleftrightarrow> (\<forall>route row. map_of (route_rows t) route = Some row \<longrightarrow> row_ok row)
     \<and> (\<forall>route s. map_of (successor_rows t) route = Some s \<longrightarrow>
          (\<exists>row. map_of (route_rows t) route = Some row \<and> rr_task row = sr_task s \<and> rr_state row = ''consumed''
             \<and> rr_reservation row = Some (sr_reservation s)))
     \<and> sorted_wrt (\<lambda>(_, a) (_, b). \<not> successor_conflicts a b) (successor_rows t)
     \<and> distinct (map fst (successor_rows t))"

lemma set_route_sel [simp]:
  "map_of (route_rows (set_route d row t)) = (map_of (route_rows t))(d \<mapsto> row)"
  "successor_rows (set_route d row t) = successor_rows t" "failure_rows (set_route d row t) = failure_rows t"
  "decision_rows (set_route d row t) = decision_rows t" "intent_rows (set_route d row t) = intent_rows t"
  by (simp_all add: set_route_def AList.update_conv')

lemma routes_ok_rowD: "routes_ok t \<Longrightarrow> map_of (route_rows t) d = Some row \<Longrightarrow> row_ok row"
  by (simp add: routes_ok_def)

lemma routes_ok_successorD:
  "routes_ok t \<Longrightarrow> map_of (successor_rows t) route = Some s \<Longrightarrow>
     \<exists>row. map_of (route_rows t) route = Some row \<and> rr_task row = sr_task s \<and> rr_state row = ''consumed''
       \<and> rr_reservation row = Some (sr_reservation s)"
  by (simp add: routes_ok_def)

lemma no_successor:
  assumes "routes_ok t" "map_of (route_rows t) d = Some row" "rr_state row \<noteq> ''consumed''"
  shows "map_of (successor_rows t) d = None"
proof (rule ccontr)
  assume "map_of (successor_rows t) d \<noteq> None"
  then obtain s where "map_of (successor_rows t) d = Some s" by auto
  then show False using routes_ok_successorD [OF assms(1)] assms(2,3) by fastforce
qed

text \<open>A step on one route: the invariant is kept, the route follows an edge and no other route moves.\<close>

definition route_move :: "recovery_ledger \<Rightarrow> string \<Rightarrow> recovery_ledger \<Rightarrow> bool" where
  "route_move t d t' \<longleftrightarrow> routes_ok t' \<and> route_edge (phase t d) (phase t' d) \<and> (\<forall>route. route \<noteq> d \<longrightarrow> phase t' route = phase t route)"

lemma write_move:
  assumes ok: "routes_ok t" and rows: "map_of (route_rows t') = (map_of (route_rows t))(d \<mapsto> row)"
    and successors: "successor_rows t' = successor_rows t" and none: "map_of (successor_rows t) d = None"
    and row: "row_ok row" and edge: "route_edge (row_phase (map_of (route_rows t) d)) (row_phase (Some row))"
  shows "route_move t d t'"
proof -
  have "phase t' route = phase t route" if "route \<noteq> d" for route
    using that unfolding phase_def rows successors by (simp split: option.split)
  moreover have "phase t d = row_phase (map_of (route_rows t) d)" "phase t' d = row_phase (Some row)"
    unfolding phase_def rows successors by (simp_all add: none del: row_phase.simps)
  moreover have "routes_ok t'" 
  proof -
    have "row_ok x" if "((map_of (route_rows t))(d \<mapsto> row)) route = Some x" for route x
      using that row routes_ok_rowD [OF ok] by (auto split: if_split_asm)
    moreover have "((map_of (route_rows t))(d \<mapsto> row)) route = map_of (route_rows t) route" if "map_of (successor_rows t) route = Some s" for route s
      using that none by auto
    ultimately show ?thesis using ok unfolding routes_ok_def rows successors by (metis (no_types, lifting))
  qed
  ultimately show ?thesis using edge by (simp add: route_move_def del: row_phase.simps)
qed

lemma set_route_move:
  assumes "routes_ok t" and "map_of (route_rows t) d = Some row" and "map_of (successor_rows t) d = None"
    and "row_ok row'" and "route_edge (row_phase (Some row)) (row_phase (Some row'))"
  shows "route_move t d (set_route d row' t)"
  by (rule write_move [OF assms(1) _ _ assms(3,4)]) (use assms(2,5) in simp_all)

lemma stay_move: "routes_ok t \<Longrightarrow> route_move t d t"
  by (simp add: route_move_def route_edge.stay)

lemma consume_reserved_move:
  assumes ok: "routes_ok t" and run: "consume_reserved ti a reservation why t = Inr t'"
  shows "route_move t (ra_route_digest a) t' \<and> successor_rows t' = successor_rows t
    \<and> (\<exists>row. map_of (route_rows t') (ra_route_digest a) = Some row \<and> rr_task row = ti_task_id ti
       \<and> rr_state row = ''consumed'' \<and> rr_reservation row = Some reservation)"
proof -
  from consume_reserved_effect [OF run] obtain row where
    row: "map_of (route_rows t) (ra_route_digest a) = Some row" "rr_task row = ti_task_id ti" "rr_reservation row = Some reservation"
    and "rr_state row = ''reserving'' \<and> t' = set_route (ra_route_digest a) (row\<lparr>rr_state := ''consumed''\<rparr>) t
       \<or> rr_state row = ''consumed'' \<and> t' = t" by blast
  then consider "rr_state row = ''reserving''" "t' = set_route (ra_route_digest a) (row\<lparr>rr_state := ''consumed''\<rparr>) t"
    | "rr_state row = ''consumed''" "t' = t" by blast
  then show ?thesis
  proof cases
    case 1
    have "route_move t (ra_route_digest a) t'" unfolding 1(2)
      by (rule set_route_move [OF ok row(1)]) (simp_all add: no_successor [OF ok row(1)] 1(1) row row_ok_def route_edge.commit)
    then show ?thesis using row by (simp add: 1(2))
  next
    case 2
    then show ?thesis using stay_move [OF ok] row by simp
  qed
qed

lemma admit_move:
  assumes ok: "routes_ok t" and run: "commit_durable_recovery_route_successor_admission w ti a reservation attempt request now t = Inr (t', u)"
  shows "route_move t (ra_route_digest a) t' \<and> phase t' (ra_route_digest a) = Admitted reservation attempt request"
proof -
  let ?d = "ra_route_digest a"
  let ?row = "\<lparr>sr_task = ti_task_id ti, sr_repository = ti_repository_id ti, sr_reservation = reservation,
                sr_attempt = attempt, sr_request = request\<rparr>"
  from admit_effect [OF run] obtain t1 why where consumed: "consume_reserved ti a reservation why t1 = Inr t'"
    and "map_of (successor_rows t) ?d = Some ?row \<and> t1 = t
       \<or> map_of (successor_rows t) ?d = None
         \<and> \<not> list_ex (\<lambda>(_, old). successor_conflicts old ?row) (successor_rows t)
         \<and> t1 = t\<lparr>successor_rows := successor_rows t @ [(?d, ?row)]\<rparr>"
    unfolding Let_def by blast
  then consider "map_of (successor_rows t) ?d = Some ?row" "t1 = t"
    | "map_of (successor_rows t) ?d = None" "t1 = t\<lparr>successor_rows := successor_rows t @ [(?d, ?row)]\<rparr>"
      "\<not> list_ex (\<lambda>(_, old). successor_conflicts old ?row) (successor_rows t)"
    by (elim disjE conjE) simp_all
  then show ?thesis
  proof cases
    case 1
    then show ?thesis using consume_reserved_move [OF ok consumed [unfolded 1(2)]] by (simp add: phase_def)
  next
    case 2
    have routes: "route_rows t1 = route_rows t" by (simp add: 2(2))
    from consume_reserved_effect [OF consumed] obtain old where
      old: "map_of (route_rows t) ?d = Some old" "rr_task old = ti_task_id ti" "rr_reservation old = Some reservation"
      "rr_state old = ''reserving'' \<or> rr_state old = ''consumed''"
      and t': "t' = t1 \<and> rr_state old = ''consumed'' \<or> t' = set_route ?d (old\<lparr>rr_state := ''consumed''\<rparr>) t1"
      unfolding routes by blast
    define new where "new = old\<lparr>rr_state := ''consumed''\<rparr>"
    have "\<exists>row. map_of (route_rows t') = (map_of (route_rows t))(?d \<mapsto> row) \<and> row = new"
      using t' old(1) by (auto simp: routes new_def fun_upd_idem)
    then have rows: "map_of (route_rows t') = (map_of (route_rows t))(?d \<mapsto> new)" by blast
    have succ: "successor_rows t' = successor_rows t @ [(?d, ?row)]" using t' by (auto simp: 2(2))
    have notin: "?d \<notin> fst ` set (successor_rows t)" using 2(1) by (simp add: map_of_eq_None_iff)
    have new: "row_ok new" "rr_task new = ti_task_id ti" "rr_state new = ''consumed''" "rr_reservation new = Some reservation"
      using old by (simp_all add: new_def row_ok_def)
    have absent: "(?d, s) \<notin> set (successor_rows t)" for s using notin by force
    have "routes_ok t'" using ok 2(3) notin absent new unfolding routes_ok_def rows succ
      by (auto simp: map_add_def map_of_append sorted_wrt_append list_ex_iff split: option.split_asm)
    moreover have "phase t' ?d = Admitted reservation attempt request" using 2(1) by (simp add: phase_def succ map_add_def)
    moreover have "phase t' route = phase t route" if "route \<noteq> ?d" for route
      using that by (simp add: phase_def succ rows map_add_def split: option.split)
    moreover have "phase t ?d = Reserving reservation \<or> phase t ?d = Consumed reservation"
      using old 2(1) by (auto simp: phase_def)
    ultimately show ?thesis unfolding route_move_def by (auto intro: route_edge.intros)
  qed
qed

lemma issue_move:
  assumes ok: "routes_ok t" and none: "map_of (route_rows t) d = None"
  shows "route_move t d (t\<lparr>route_rows := route_rows t @ [(d, route_columns ti a)]\<rparr>)"
proof -
  have "map_of (successor_rows t) d = None" using routes_ok_successorD [OF ok, of d] none by (cases "map_of (successor_rows t) d") auto
  then show ?thesis
    by (intro write_move [OF ok, where row = "route_columns ti a"])
      (simp_all add: none map_add_def fun_eq_iff route_columns_def row_ok_def route_edge.issue split: option.split)
qed

lemma returned_move:
  assumes ok: "routes_ok t" and "map_of (route_rows t) d = Some row" "rr_state row = ''reserving'' \<or> rr_state row = ''consumed''"
    "rr_reservation row = Some reservation" "map_of (successor_rows t) d = None"
  shows "route_move t d (set_route d (row\<lparr>rr_state := ''issued'', rr_reservation := None\<rparr>) t)"
  by (rule set_route_move [OF assms(1,2)]) (use assms(3-5) in \<open>auto simp: row_ok_def route_edge.abandon route_edge.release\<close>)

lemma unchanged_move:
  assumes "routes_ok t" "route_rows t' = route_rows t \<and> successor_rows t' = successor_rows t"
  shows "route_move t d t'"
proof -
  note same = assms(2) [THEN conjunct1] assms(2) [THEN conjunct2]
  have "phase t' = phase t" by (rule ext) (simp only: phase_def same)
  moreover have "routes_ok t'" using assms(1) unfolding routes_ok_def same .
  ultimately show ?thesis by (simp add: route_move_def route_edge.stay)
qed

lemma consume_move:
  assumes ok: "routes_ok t" and run: "consume_durable_recovery_route_authorization w ti a reservation g t = Inr (t', u)"
  shows "route_move t (ra_route_digest a) t'"
proof -
  from consume_effect [OF run] obtain row where
    row: "map_of (route_rows t) (ra_route_digest a) = Some row" "rr_state row = ''issued''"
    and t': "t' = set_route (ra_route_digest a) (row\<lparr>rr_state := ''consumed'', rr_reservation := Some reservation\<rparr>) t" by blast
  show ?thesis unfolding t'
    by (rule set_route_move [OF ok row(1)]) (simp_all add: no_successor [OF ok row(1)] row row_ok_def route_edge.consume)
qed

lemma begin_move:
  assumes ok: "routes_ok t" and run: "begin_durable_recovery_route_reservation w ti a reservation g t = Inr (t', fenced)"
  shows "route_move t (ra_route_digest a) t'"
proof -
  from begin_effect [OF run] obtain row where
    row: "map_of (route_rows t) (ra_route_digest a) = Some row"
    and "if fenced then rr_state row = ''issued'' \<and> rr_reservation row = None
       \<and> t' = set_route (ra_route_digest a) (row\<lparr>rr_state := ''reserving'', rr_reservation := Some reservation\<rparr>) t else t' = t"
    by (auto split: if_split_asm)
  then consider "rr_state row = ''issued''"
      "t' = set_route (ra_route_digest a) (row\<lparr>rr_state := ''reserving'', rr_reservation := Some reservation\<rparr>) t" | "t' = t"
    by (auto split: if_split_asm)
  then show ?thesis
  proof cases
    case 1
    show ?thesis unfolding 1(2)
      by (rule set_route_move [OF ok row]) (simp_all add: no_successor [OF ok row] 1(1) row_ok_def route_edge.fence)
  qed (use stay_move [OF ok] in simp)
qed

text \<open>Operations that never touch the routes.\<close>

lemma append_frame:
  assumes "append_clearance_decision w ti revoke digest b command requested t = Inr (t', d)"
  shows "failure_rows t' = failure_rows t \<and> route_rows t' = route_rows t \<and> successor_rows t' = successor_rows t"
  using append_effect [OF assms] unfolding Let_def by auto

lemma decision_frame:
  "record_durable_clearance w ti c now t = Inr (t', d) \<Longrightarrow>
     failure_rows t' = failure_rows t \<and> route_rows t' = route_rows t \<and> successor_rows t' = successor_rows t"
  "record_durable_clearance_revocation w ti c' now t = Inr (t', d) \<Longrightarrow>
     failure_rows t' = failure_rows t \<and> route_rows t' = route_rows t \<and> successor_rows t' = successor_rows t"
  by (drule clear_effect, blast dest: append_frame, drule revoke_effect, blast dest: append_frame)

text \<open>Every operation moves at most one route along an edge.\<close>

lemma run_moves:
  assumes ok: "routes_ok t" and run: "run_op w op t = Inr t'"
  shows "\<exists>d. route_move t d t'"
proof (cases op)
  case (Record ti r now)
  then obtain d where "record_durable_failure w ti r now t = Inr (t', d)" using run by (auto simp: tables_Inr)
  from record_effect [OF this] show ?thesis by (intro exI unchanged_move [OF ok]) auto
next
  case (Clear ti c now)
  then show ?thesis using run decision_frame(1) unchanged_move [OF ok] by (auto simp: tables_Inr)
next
  case (Revoke ti c now)
  then show ?thesis using run decision_frame(2) unchanged_move [OF ok] by (auto simp: tables_Inr)
next
  case (Issue ti a now)
  then obtain d where "issue_durable_recovery_route_authorization w ti a now t = Inr (t', d)" using run by (auto simp: tables_Inr)
  from issue_effect [OF this] show ?thesis using issue_move [OF ok] stay_move [OF ok] by blast
next
  case (Abandon ti a reservation refund)
  then have "abandon_durable_recovery_route_reservation w ti a reservation refund t = Inr (t', ())" using run by (auto simp: tables_Inr)
  from returned_move [OF ok] abandon_effect [OF this] show ?thesis by blast
next
  case (Release ti a reservation)
  then have "release_durable_recovery_route_authorization w ti a reservation t = Inr (t', ())" using run by (auto simp: tables_Inr)
  from returned_move [OF ok] release_effect [OF this] show ?thesis by blast
next
  case (Commit ti a reservation now)
  then have "commit_durable_recovery_route_reservation w ti a reservation now t = Inr (t', ())" using run by (auto simp: tables_Inr)
  then show ?thesis using commit_effect consume_reserved_move [OF ok] by blast
next
  case (Consume ti a reservation g)
  then show ?thesis using run by (auto simp: tables_Inr dest: consume_move [OF ok])
next
  case (Begin ti a reservation g)
  then show ?thesis using run by (auto simp: tables_Inr dest: begin_move [OF ok])
next
  case (Admit ti a reservation attempt request now)
  then show ?thesis using run by (auto simp: tables_Inr dest: admit_move [OF ok])
qed (use run in \<open>auto simp: tables_Inr dest!: intent_effect intro!: exI unchanged_move [OF ok]\<close>)

section \<open>The invariant of the ledger\<close>

definition ledger_ok :: "recovery_ledger \<Rightarrow> bool" where
  "ledger_ok t \<longleftrightarrow> failures_ok (failure_rows t) \<and> decisions_ok (decision_rows t) \<and> routes_ok t"

lemma reserved_frame: "consume_reserved ti a reservation why t = Inr t' \<Longrightarrow>
    failure_rows t' = failure_rows t \<and> decision_rows t' = decision_rows t"
  by (auto dest!: consume_reserved_effect)

lemma admit_frame:
  assumes "commit_durable_recovery_route_successor_admission w ti a reservation attempt request now t = Inr (t', u)"
  shows "failure_rows t' = failure_rows t \<and> decision_rows t' = decision_rows t"
  using admit_effect [OF assms] unfolding Let_def by (auto dest!: reserved_frame)

lemma run_frame:
  assumes "run_op w op t = Inr t'"
  shows "((\<exists>ti r now. op = Record ti r now) \<or> failure_rows t' = failure_rows t)
    \<and> ((\<exists>ti c now. op = Clear ti c now) \<or> (\<exists>ti c now. op = Revoke ti c now) \<or> decision_rows t' = decision_rows t)"
proof (cases op)
  case (Record ti r now)
  then obtain d where "record_durable_failure w ti r now t = Inr (t', d)" using assms by (auto simp: tables_Inr)
  from record_effect [OF this] show ?thesis using Record by auto
qed (use assms in \<open>auto simp: tables_Inr dest!: decision_frame issue_effect consume_effect begin_effect commit_effect reserved_frame admit_frame
      abandon_effect release_effect intent_effect split: if_split_asm\<close>)

lemma run_keeps_ledger:
  assumes ok: "ledger_ok t" and "op_ok op" and run: "run_op w op t = Inr t'"
  shows "ledger_ok t'"
proof -
  have failures: "failures_ok (failure_rows t)" and decisions: "decisions_ok (decision_rows t)" and routes: "routes_ok t"
    using ok by (simp_all add: ledger_ok_def)
  have "failures_ok (failure_rows t')"
    using record_keeps_failures [OF failures] run_frame [OF run] run \<open>op_ok op\<close> failures by (cases op) (auto simp: tables_Inr)
  moreover have "decisions_ok (decision_rows t')"
  proof -
    have "decisions_ok (decision_rows t')" if "op = Clear ti c now" for ti c now
      using run that append_keeps_chain [OF decisions] clear_effect by (fastforce simp: tables_Inr)
    moreover have "decisions_ok (decision_rows t')" if "op = Revoke ti c now" for ti c now
      using run that append_keeps_chain [OF decisions] revoke_effect by (fastforce simp: tables_Inr)
    ultimately show ?thesis using run_frame [OF run] decisions by metis
  qed
  moreover have "routes_ok t'" using run_moves [OF routes run] by (auto simp: route_move_def)
  ultimately show ?thesis by (simp add: ledger_ok_def)
qed

lemma step_cases:
  assumes "recovery_step t (w, op, ok) t'"
  shows "op_ok op \<and> (\<not> ok \<and> t' = t \<or> ok \<and> run_op w op t = Inr t')"
  using assms by (auto split: sum.split_asm)

interpretation recovery: invariant_system "\<lambda>t. t = empty_ledger" recovery_step ledger_ok
proof unfold_locales
  fix s assume "s = empty_ledger"
  then show "ledger_ok s"
    by (simp add: empty_ledger_def ledger_ok_def failures_ok_def decisions_ok_def rows_of_def routes_ok_def)
next
  fix s l t assume "ledger_ok s" "recovery_step s l t"
  then show "ledger_ok t" using run_keeps_ledger by (cases l) (metis step_cases)
qed

text \<open>What happened stays in the tables.\<close>

lemma reached_ok: "recovery.reaches empty_ledger ls t \<Longrightarrow> ledger_ok t"
  by (rule recovery.reachable_inv) simp_all

definition recorded :: "recovery_label list \<Rightarrow> string \<Rightarrow> failure_record \<Rightarrow> bool" where
  "recorded ls task r \<longleftrightarrow> (\<exists>w ti now. (w, Record ti r now, True) \<in> set ls \<and> ti_task_id ti = task)"

definition cleared_by :: "recovery_label list \<Rightarrow> string \<Rightarrow> string \<Rightarrow> string \<Rightarrow> bool" where
  "cleared_by ls task digest command \<longleftrightarrow>
     (\<exists>w ti c now. (w, Clear ti c now, True) \<in> set ls \<and> ti_task_id ti = task \<and> cl_record_digest c = digest \<and> cl_command_id c = command)"

lemma recorded_snoc:
  "recorded (ls @ [(w, op, ok)]) task r \<longleftrightarrow> recorded ls task r \<or> ok \<and> (\<exists>ti now. op = Record ti r now \<and> ti_task_id ti = task)"
  unfolding recorded_def set_append by auto blast+

lemma cleared_by_snoc:
  "cleared_by (ls @ [(w, op, ok)]) task digest command \<longleftrightarrow> cleared_by ls task digest command \<or>
     ok \<and> (\<exists>ti c now. op = Clear ti c now \<and> ti_task_id ti = task \<and> cl_record_digest c = digest \<and> cl_command_id c = command)"
  unfolding cleared_by_def set_append by auto blast+

lemma failure_rows_grow:
  assumes "run_op w op t = Inr t'" "x \<in> set (failure_rows t)"
  shows "x \<in> set (failure_rows t')"
proof (cases "\<exists>ti r now. op = Record ti r now")
  case True
  then obtain ti r now d where "record_durable_failure w ti r now t = Inr (t', d)" using assms(1) by (auto simp: tables_Inr)
  from record_effect [OF this] show ?thesis using assms(2) by auto
qed (use run_frame [OF assms(1)] assms(2) in auto)

lemma record_stored:
  assumes failures: "failures_ok (failure_rows t)" and "record_ok r" and run: "record_durable_failure w ti r now t = Inr (u, d)"
  shows "(record_digest r, ti_task_id ti, JObj (failure_payload r)) \<in> set (failure_rows u) \<and> fr_schema r = RECOVERY_V3"
proof -
  have schema: "fr_schema r = RECOVERY_V3" and d: "d = record_digest r" using record_effect [OF run] by blast+
  consider "u = t\<lparr>failure_rows := failure_rows t @ [(d, (ti_task_id ti, JObj (failure_payload r)))]\<rparr>"
    | v where "map_of (failure_rows t) d = Some (ti_task_id ti, v)" "canon v = canon (JObj (failure_payload r))" "u = t"
    using record_effect [OF run] by blast
  then show ?thesis
  proof cases
    case 1
    then show ?thesis using schema d by simp
  next
    case 2
    from map_of_SomeD [OF 2(1)] failures obtain r' where
      r': "record_ok r'" "fr_schema r' = RECOVERY_V3" "v = JObj (failure_payload r')" unfolding failures_ok_def by fastforce
    then have "r' = r" using failure_payload_inj [OF r'(1) \<open>record_ok r\<close> r'(2) schema] 2(2) by simp
    then show ?thesis using map_of_SomeD [OF 2(1)] 2(3) schema d r' by simp
  qed
qed

lemma recorded_stored:
  assumes "recovery.reaches empty_ledger ls t" "recorded ls task r"
  shows "(record_digest r, task, JObj (failure_payload r)) \<in> set (failure_rows t) \<and> record_ok r \<and> fr_schema r = RECOVERY_V3"
  using assms
proof (induction "empty_ledger" ls t rule: recovery.reaches.induct)
  case (reaches_snoc ls t l u)
  obtain w op ok where l: "l = (w, op, ok)" by (cases l) auto
  note step = step_cases [OF reaches_snoc.hyps(3) [unfolded l]]
  show ?case
  proof (cases "recorded ls task r")
    case True
    then show ?thesis using reaches_snoc.hyps(2) step failure_rows_grow by blast
  next
    case False
    then obtain ti now where op: "ok" "op = Record ti r now" "ti_task_id ti = task"
      using reaches_snoc.prems unfolding l recorded_snoc by blast
    then obtain d where run: "record_durable_failure w ti r now t = Inr (u, d)" and "record_ok r" using step by (auto simp: tables_Inr)
    have failures: "failures_ok (failure_rows t)" using reached_ok [OF reaches_snoc.hyps(1)] by (simp add: ledger_ok_def)
    then show ?thesis using record_stored [OF _ \<open>record_ok r\<close> run] \<open>record_ok r\<close> op by simp
  qed
qed (simp add: recorded_def)

text \<open>Only a successful clearance adds a row that clears.\<close>

lemma kinds_distinct [simp]: "command_kind_of revoke = command_kind_of revoke' \<longleftrightarrow> revoke = revoke'"
  by (simp add: command_kind_of_def)

lemma append_rows:
  assumes "append_clearance_decision w ti revoke digest b command requested t = Inr (t', d)" "row \<in> set (decision_rows t')"
  shows "row \<in> set (decision_rows t) \<or> dr_task row = ti_task_id ti \<and> dr_record row = digest \<and> dr_command row = command
    \<and> dr_command_kind row = command_kind_of revoke"
  using append_effect [OF assms(1)] assms(2) unfolding Let_def by auto

lemma run_clear_rows:
  assumes run: "run_op w op t = Inr t'" and row: "row \<in> set (decision_rows t')" "dr_command_kind row = command_kind_of False"
  shows "row \<in> set (decision_rows t) \<or>
    (\<exists>ti c now. op = Clear ti c now \<and> ti_task_id ti = dr_task row \<and> cl_record_digest c = dr_record row \<and> cl_command_id c = dr_command row)"
proof -
  consider ti c now where "op = Clear ti c now" | ti c now where "op = Revoke ti c now" | "decision_rows t' = decision_rows t"
    using run_frame [OF run] by blast
  then show ?thesis
  proof cases
    case 1
    then obtain d where "record_durable_clearance w ti c now t = Inr (t', d)" using run by (auto simp: tables_Inr)
    with 1 row(1) show ?thesis using append_rows clear_effect by metis
  next
    case 2
    then obtain d where "record_durable_clearance_revocation w ti c now t = Inr (t', d)" using run by (auto simp: tables_Inr)
    with revoke_effect obtain digest where
      "append_clearance_decision w ti True digest (cv_binding c) (cv_command_id c) (Some (cv_clearance_digest c)) t = Inr (t', d)" by blast
    from append_rows [OF this row(1)] row(2) show ?thesis by auto
  qed (use row(1) in simp)
qed

lemma clear_rows_recorded:
  assumes "recovery.reaches empty_ledger ls t" "row \<in> set (decision_rows t)" "dr_command_kind row = command_kind_of False"
  shows "cleared_by ls (dr_task row) (dr_record row) (dr_command row)"
  using assms
proof (induction "empty_ledger" ls t rule: recovery.reaches.induct)
  case (reaches_snoc ls t l u)
  obtain w op ok where l: "l = (w, op, ok)" by (cases l) auto
  from step_cases [OF reaches_snoc.hyps(3) [unfolded l]] consider "u = t" | "ok" "run_op w op t = Inr u" by blast
  then show ?case
  proof cases
    case 1
    then show ?thesis using reaches_snoc unfolding l cleared_by_snoc by simp
  next
    case 2
    from run_clear_rows [OF 2(2) reaches_snoc.prems] 2(1) reaches_snoc.hyps(2) reaches_snoc.prems(2) show ?thesis
      unfolding l cleared_by_snoc by blast
  qed
qed (simp add: empty_ledger_def)

section \<open>Admission in a scope\<close>

lemma decision_payload_fields:
  assumes "JObj kvs = decision_payload revoke digest b (command_receipt command c g) p n"
  shows "map_of kvs ''kind'' = Some (JStr (decision_kind revoke))"
    "\<exists>rkvs. map_of kvs ''denial_command'' = Some (JObj rkvs) \<and> command_receipt command c g = JObj rkvs
       \<and> map_of rkvs ''command_id'' = Some (JStr command)"
  using assms by (auto simp: decision_payload_def command_receipt_def)

lemma check_receipt_payload:
  assumes kvs: "JObj kvs = decision_payload revoke digest' b' (command_receipt command c g) p' n"
  shows "check_receipt w task digest b p kvs = Inr r \<longleftrightarrow> r = revoke \<and>
    (\<exists>receipt. denial_command_receipt w task digest b command revoke (if revoke then p else None) = Inr receipt
       \<and> canon receipt = canon (command_receipt command c g))"
proof -
  obtain rkvs where f: "map_of kvs ''denial_command'' = Some (JObj rkvs)" "command_receipt command c g = JObj rkvs"
    "map_of rkvs ''command_id'' = Some (JStr command)" using decision_payload_fields(2) [OF kvs] by blast
  show ?thesis unfolding check_receipt_def decision_payload_fields(1) [OF kvs] f
    by (cases revoke; cases "denial_command_receipt w task digest b command revoke (if revoke then p else None)")
      (auto simp: f(3) decision_kind_def simp del: canon.simps)
qed

text \<open>The last row of a verified history, whose receipt the current rows of commands and grants still give.\<close>

lemma verified_last:
  assumes "check_history w task digest b n p r rows = Inr history" "decision_chain digest n p r rows" "history \<noteq> []"
  shows "rows \<noteq> [] \<and> dr_command_kind (last rows) = command_kind_of (snd (last history))
    \<and> (\<exists>expected receipt. denial_command_receipt w task digest b (dr_command (last rows)) (snd (last history)) expected = Inr receipt)"
  using assms
proof (induction rows arbitrary: n p r history)
  case (Cons x rows)
  from Cons.prems(2) obtain b' c g where link: "dr_command_kind x = command_kind_of r"
    "dr_json x = decision_payload r digest b' (command_receipt (dr_command x) c g) p n"
    by (auto simp: decision_link_def)
  from Cons.prems(1) obtain h kvs where kvs: "dr_json x = JObj kvs"
    and receipt: "check_receipt w task digest b p kvs = Inr r"
    and h: "check_history w task digest b (n + 1) (Some (dr_digest x)) (\<not> r) rows = Inr h" "history = (dr_digest x, r) # h"
    by (auto simp: bind_result_Inr_iff bind_eq_Some_conv has_keys_def split: option.split_asm if_split_asm) (cases "dr_json x"; auto)+
  show ?case
  proof (cases "h = []")
    case True
    then have "rows = []" using chain_append [OF h(1)] Cons.prems(2) by auto
    moreover have "\<exists>expected receipt. denial_command_receipt w task digest b (dr_command x) r expected = Inr receipt"
      using receipt unfolding check_receipt_payload [OF link(2) [unfolded kvs]] by blast
    ultimately show ?thesis using True link(1) by (simp add: h(2))
  next
    case False
    then show ?thesis using Cons.IH [OF h(1)] Cons.prems(2) by (auto simp: h(2))
  qed
qed simp

text \<open>What a receipt proves of the current rows.\<close>

definition command_in_force :: "recovery_world \<Rightarrow> string \<Rightarrow> string \<Rightarrow> failure_binding \<Rightarrow> bool \<Rightarrow> string \<Rightarrow> bool" where
  "command_in_force w task digest b revoke command \<longleftrightarrow>
     (\<exists>c g. rw_commands w revoke command = Some c \<and> rw_grants w revoke (dc_grant c) = Some g
        \<and> dc_denial c = digest \<and> dc_kind c = command_kind_of revoke \<and> dc_state c = ''consumed'' \<and> dg_state g = ''active''
        \<and> dg_owner g = ''ythdelmar68'' \<and> dc_task c = task \<and> dg_task g = task \<and> dg_target g = digest
        \<and> rw_seals w task = Some (fb_candidate_sha b, dc_candidate_seal c)
        \<and> Inr (dg_authority_digest g) = denial_authority_digest (command_kind_of revoke) g c)"

lemma receipt_in_force:
  assumes "denial_command_receipt w task digest b command revoke expected = Inr receipt"
  shows "command_in_force w task digest b revoke command"
  using assms unfolding denial_command_receipt_def command_in_force_def command_agrees_def
  by (auto simp: bind_result_Inr_iff split: if_split_asm option.split_asm)

lemma traverse_total: "(\<exists>ys. traverse f xs = Inr ys) \<longleftrightarrow> (\<forall>x \<in> set xs. \<exists>y. f x = Inr y)"
  by (induction xs) (auto simp: bind_result_Inr_iff)

lemma require_scope_open_iff:
  "require_scope_open w task scope t = Inr () \<longleftrightarrow>
     (\<forall>(digest, owner, v) \<in> set (failure_rows t). owner = task \<longrightarrow> check_stop w task scope t (digest, v) = Inr ())"
  unfolding require_scope_open_def bind_result_Inr_iff by (auto simp: traverse_total)

lemma open_scope_cleared:
  assumes ok: "ledger_ok t" and scope: "require_scope_open w (ti_task_id ti) scope t = Inr ()"
    and stored: "(record_digest r, ti_task_id ti, JObj (failure_payload r)) \<in> set (failure_rows t)" and "record_ok r"
    and stop: "fr_action r = STOP_SCOPE" "fb_authority_scope (fr_binding r) = scope"
  defines "rows \<equiv> decisions_for (ti_task_id ti) (record_digest r) t"
  shows "rows \<noteq> [] \<and> dr_command_kind (last rows) = command_kind_of False
    \<and> command_in_force w (ti_task_id ti) (record_digest r) (fr_binding r) False (dr_command (last rows))"
proof -
  have "check_stop w (ti_task_id ti) scope t (record_digest r, JObj (failure_payload r)) = Inr ()"
    using scope stored unfolding require_scope_open_iff by auto
  then obtain history where "decision_history w (ti_task_id ti) (record_digest r) (fr_binding r) t = Inr history"
    and history: "history \<noteq> []" "\<not> snd (last history)"
    using stop by (auto simp: check_stop_def reparse_def parse_payload [OF \<open>record_ok r\<close>] bind_result_Inr_iff
        split: option.split_asm if_split_asm)
  then have "check_history w (ti_task_id ti) (record_digest r) (fr_binding r) 1 None False rows = Inr history"
    by (simp add: decision_history_def rows_def)
  moreover have "decision_chain (record_digest r) 1 None False rows"
    using ok unfolding rows_def ledger_ok_def by (simp add: decisions_for_rows) (simp add: decisions_ok_def)
  ultimately show ?thesis using verified_last [of w _ _ _ 1 None False rows history] history receipt_in_force by fastforce
qed

section \<open>Properties\<close>

text \<open>
  C9 (scope_admission_safe). After any history of operations, an effect is admitted in a scope only
  if every failure that stopped the scope was cleared: its last decision is a clearance that an
  operation of the history recorded, and the consumed command and the active grant of the owner
  behind it are still in force for the candidate that is sealed now.
\<close>

theorem scope_admission_safe:
  assumes run: "recovery.reaches empty_ledger ls t" and scope: "require_scope_effect_admission w ti scope t = Inr ()"
    and recorded: "recorded ls (ti_task_id ti) r" and stop: "fr_action r = STOP_SCOPE" "fb_authority_scope (fr_binding r) = scope"
  shows "let rows = decisions_for (ti_task_id ti) (record_digest r) t; command = dr_command (last rows) in
    rows \<noteq> [] \<and> dr_command_kind (last rows) = command_kind_of False
    \<and> command_in_force w (ti_task_id ti) (record_digest r) (fr_binding r) False command
    \<and> cleared_by ls (ti_task_id ti) (record_digest r) command"
proof -
  let ?rows = "decisions_for (ti_task_id ti) (record_digest r) t"
  note stored = recorded_stored [OF run recorded]
  have opened: "require_scope_open w (ti_task_id ti) scope t = Inr ()"
    using scope by (auto simp: require_scope_effect_admission_def bind_result_Inr_iff)
  have cleared: "?rows \<noteq> []" "dr_command_kind (last ?rows) = command_kind_of False"
    "command_in_force w (ti_task_id ti) (record_digest r) (fr_binding r) False (dr_command (last ?rows))"
    using open_scope_cleared [OF reached_ok [OF run] opened _ _ stop] stored by blast+
  have "last ?rows \<in> set (decision_rows t)" "dr_task (last ?rows) = ti_task_id ti" "dr_record (last ?rows) = record_digest r"
    using last_in_set [OF cleared(1)] by (simp_all add: decisions_for_def)
  then have "cleared_by ls (ti_task_id ti) (record_digest r) (dr_command (last ?rows))"
    using clear_rows_recorded [OF run _ cleared(2)] by simp
  with cleared show ?thesis by (simp add: Let_def)
qed

lemma chain_nth:
  assumes "decision_chain digest n p r rows" "i < length rows"
  shows "decision_link digest (n + int i) (if i = 0 then p else Some (dr_digest (rows ! (i - 1)))) (r \<noteq> odd i) (rows ! i)"
  using assms
proof (induction rows arbitrary: n p r i)
  case (Cons x rows)
  show ?case
  proof (cases i)
    case (Suc j)
    have "decision_link digest (n + 1 + int j) (if j = 0 then Some (dr_digest x) else Some (dr_digest (rows ! (j - 1)))) ((\<not> r) \<noteq> odd j) (rows ! j)"
      using Cons.prems Suc by (intro Cons.IH) auto
    then show ?thesis using Suc by (cases j) (auto simp: algebra_simps)
  qed (use Cons.prems in simp)
qed simp

text \<open>
  The decisions on one denial form an append-only chain: numbered from one
  without a gap, clearances and revocations in turn, each text naming the digest of the decision
  before it, and no command of the owner serves for two decisions of a task.
\<close>

lemma decision_chain_sound:
  assumes run: "recovery.reaches empty_ledger ls t"
  defines "rows \<equiv> \<lambda>task digest. decisions_for task digest t"
  shows "(\<forall>task digest i. i < length (rows task digest) \<longrightarrow>
      decision_link digest (int i + 1) (if i = 0 then None else Some (dr_digest (rows task digest ! (i - 1)))) (odd i) (rows task digest ! i))
    \<and> (\<forall>i j. i < j \<longrightarrow> j < length (decision_rows t) \<longrightarrow>
        dr_digest (decision_rows t ! i) \<noteq> dr_digest (decision_rows t ! j)
        \<and> (dr_task (decision_rows t ! i), dr_command_kind (decision_rows t ! i), dr_command (decision_rows t ! i))
          \<noteq> (dr_task (decision_rows t ! j), dr_command_kind (decision_rows t ! j), dr_command (decision_rows t ! j)))"
proof -
  have ok: "decisions_ok (decision_rows t)" using reached_ok [OF run] by (simp add: ledger_ok_def)
  have "decision_chain digest 1 None False (rows task digest)" for task digest
    using ok unfolding rows_def decisions_for_rows [OF ok] by (simp add: decisions_ok_def)
  then have "decision_link digest (int i + 1) (if i = 0 then None else Some (dr_digest (rows task digest ! (i - 1)))) (odd i) (rows task digest ! i)"
    if "i < length (rows task digest)" for task digest i
    using chain_nth [of digest 1 None False "rows task digest" i] that by (simp add: add.commute)
  moreover have "\<not> decision_conflicts (decision_rows t ! j) (decision_rows t ! i)" if "i < j" "j < length (decision_rows t)" for i j
    using ok that unfolding decisions_ok_def by (blast dest: sorted_wrt_nth_less)
  ultimately show ?thesis unfolding decision_conflicts_def by fastforce
qed

text \<open>
  C10 (routes_refine_lifecycle). Whatever an operation does to the tables is one step of the life
  cycle of a recovery route: issued, fenced for one reservation, consumed by it or given back,
  admitted once; all other routes keep their phase.
\<close>

theorem routes_refine_lifecycle:
  assumes "recovery.reaches empty_ledger ls t" "recovery_step t l t'"
  shows "\<exists>d. route_edge (phase t d) (phase t' d) \<and> (\<forall>route. route \<noteq> d \<longrightarrow> phase t' route = phase t route)"
proof -
  obtain w op ok where l: "l = (w, op, ok)" by (cases l) auto
  have routes: "routes_ok t" using reached_ok [OF assms(1)] by (simp add: ledger_ok_def)
  from step_cases [OF assms(2) [unfolded l]] have "t' = t \<or> run_op w op t = Inr t'" by blast
  then show ?thesis using run_moves [OF routes] stay_move [OF routes] unfolding route_move_def by blast
qed

lemma reserved_successors: "consume_reserved ti a reservation why t = Inr t' \<Longrightarrow> successor_rows t' = successor_rows t"
  by (auto dest!: consume_reserved_effect)

lemma admit_successors:
  assumes "commit_durable_recovery_route_successor_admission w ti a reservation attempt request now t = Inr (t', u)"
  shows "(\<exists>xs. successor_rows t' = successor_rows t @ xs) \<and> map_of (successor_rows t') (ra_route_digest a) =
    Some \<lparr>sr_task = ti_task_id ti, sr_repository = ti_repository_id ti, sr_reservation = reservation, sr_attempt = attempt, sr_request = request\<rparr>"
  using admit_effect [OF assms] unfolding Let_def by (auto dest!: reserved_successors simp: map_add_def)

lemma run_successors:
  assumes run: "run_op w op t = Inr t'"
  shows "\<exists>xs. successor_rows t' = successor_rows t @ xs"
proof (cases op)
  case (Record ti r now)
  then obtain d where "record_durable_failure w ti r now t = Inr (t', d)" using run by (auto simp: tables_Inr)
  from record_effect [OF this] show ?thesis by auto
next
  case (Admit ti a reservation attempt request now)
  then show ?thesis using run by (auto simp: tables_Inr dest: admit_successors)
qed (use run in \<open>auto simp: tables_Inr dest!: decision_frame issue_effect consume_effect begin_effect commit_effect reserved_successors
      abandon_effect release_effect intent_effect split: if_split_asm\<close>)

lemma admitted_stays:
  assumes "recovery.reaches empty_ledger ls t" "(w, Admit ti a reservation attempt request now, True) \<in> set ls"
  shows "map_of (successor_rows t) (ra_route_digest a) =
    Some \<lparr>sr_task = ti_task_id ti, sr_repository = ti_repository_id ti, sr_reservation = reservation, sr_attempt = attempt, sr_request = request\<rparr>"
  using assms
proof (induction "empty_ledger" ls t rule: recovery.reaches.induct)
  case (reaches_snoc ls t l u)
  obtain w' op ok where l: "l = (w', op, ok)" by (cases l) auto
  note step = step_cases [OF reaches_snoc.hyps(3) [unfolded l]]
  show ?case
  proof (cases "(w, Admit ti a reservation attempt request now, True) \<in> set ls")
    case True
    from step have "\<exists>xs. successor_rows u = successor_rows t @ xs" using run_successors by auto
    then show ?thesis using reaches_snoc.hyps(2) [OF True] by (auto simp: map_add_def)
  next
    case False
    then have "run_op w (Admit ti a reservation attempt request now) t = Inr u" using reaches_snoc.prems step by (auto simp: l)
    then show ?thesis using admit_successors by (auto simp: tables_Inr)
  qed
qed simp

lemma successors_unique:
  assumes ok: "routes_ok t" and a: "map_of (successor_rows t) d = Some x" and b: "map_of (successor_rows t) e = Some y"
    and "sr_task x = sr_task y" "sr_attempt x = sr_attempt y \<or> sr_request x = sr_request y"
  shows "d = e"
proof -
  from map_of_SomeD [OF a] obtain i where i: "i < length (successor_rows t)" "successor_rows t ! i = (d, x)" by (auto simp: in_set_conv_nth)
  from map_of_SomeD [OF b] obtain j where j: "j < length (successor_rows t)" "successor_rows t ! j = (e, y)" by (auto simp: in_set_conv_nth)
  have "\<not> successor_conflicts (snd (successor_rows t ! k)) (snd (successor_rows t ! m))" if "k < m" "m < length (successor_rows t)" for k m
    using ok that unfolding routes_ok_def by (auto dest!: sorted_wrt_nth_less split: prod.split_asm)
  moreover have "successor_conflicts x y" "successor_conflicts y x" using assms(4,5) by (auto simp: successor_conflicts_def)
  ultimately have "i = j" using i j by (metis linorder_less_linear snd_conv)
  then show ?thesis using i j by simp
qed

text \<open>
  Admissions of successors are one to one, over any history: two
  admissions through one route name the same task, reservation, attempt and request, and two
  admissions of one attempt or of one request of a task went through the same route. Once admitted,
  the route can be neither fenced, consumed, abandoned nor released.
\<close>

lemma route_admission_single_use:
  assumes run: "recovery.reaches empty_ledger ls t" and "(w, Admit ti a reservation attempt request now, True) \<in> set ls"
  shows "((w', Admit ti' a' reservation' attempt' request' now', True) \<in> set ls \<longrightarrow>
      (ra_route_digest a' = ra_route_digest a \<longrightarrow>
         (ti_task_id ti', reservation', attempt', request') = (ti_task_id ti, reservation, attempt, request))
      \<and> (ti_task_id ti' = ti_task_id ti \<and> (attempt' = attempt \<or> request' = request) \<longrightarrow> ra_route_digest a' = ra_route_digest a))
    \<and> (run_op w' op t = Inr u \<longrightarrow> ra_route_digest b = ra_route_digest a \<longrightarrow>
         op \<noteq> Consume ti' b reservation' g \<and> op \<noteq> Begin ti' b reservation' g \<and> op \<noteq> Abandon ti' b reservation' refund
         \<and> op \<noteq> Release ti' b reservation')"
proof -
  have routes: "routes_ok t" using reached_ok [OF run] by (simp add: ledger_ok_def)
  note successor = admitted_stays [OF run assms(2)]
  from routes_ok_successorD [OF routes successor] obtain row where
    row: "map_of (route_rows t) (ra_route_digest a) = Some row" "rr_state row = ''consumed''" by auto
  have "op \<noteq> Consume ti' b reservation' g \<and> op \<noteq> Begin ti' b reservation' g \<and> op \<noteq> Abandon ti' b reservation' refund
         \<and> op \<noteq> Release ti' b reservation'" if "run_op w' op t = Inr u" "ra_route_digest b = ra_route_digest a"
    using that row successor
    by (auto simp: tables_Inr dest!: consume_effect begin_effect abandon_effect release_effect split: if_split_asm)
  moreover have "(ra_route_digest a' = ra_route_digest a \<longrightarrow>
         (ti_task_id ti', reservation', attempt', request') = (ti_task_id ti, reservation, attempt, request))
      \<and> (ti_task_id ti' = ti_task_id ti \<and> (attempt' = attempt \<or> request' = request) \<longrightarrow> ra_route_digest a' = ra_route_digest a)"
    if "(w', Admit ti' a' reservation' attempt' request' now', True) \<in> set ls"
    using admitted_stays [OF run that] successor successors_unique [OF routes admitted_stays [OF run that] successor] by auto
  ultimately show ?thesis by blast
qed

section \<open>Reopening a scope\<close>

lemma new_decision_checked:
  assumes payload: "payload = decision_payload revoke digest b receipt p n"
    and row: "dr_digest row = digest_value payload" "dr_json row = payload" "dr_sequence row = n"
    and receipt: "denial_command_receipt w task digest b command revoke (if revoke then p else None) = Inr receipt"
  shows "check_history w task digest b n p revoke [row] = Inr [(dr_digest row, revoke)]"
proof -
  obtain c g where cg: "receipt = command_receipt command c g" using receipt_of_command [OF receipt] by blast
  obtain kvs where kvs: "payload = JObj kvs" and keys: "has_keys decision_keys kvs = Some kvs"
    unfolding payload by (auto simp: decision_payload_def has_keys_def decision_keys_def)
  have "decision_matches digest b p row kvs"
    using payload row unfolding kvs by (simp add: decision_matches_def decision_payload_def same_json_def del: canon.simps(2))
  moreover have "check_receipt w task digest b p kvs = Inr revoke"
    unfolding check_receipt_payload [OF payload [unfolded kvs cg]] using receipt cg by simp
  ultimately show ?thesis by (simp add: row kvs keys require_def)
qed

lemma history_append:
  assumes "check_history w task digest b n p r rows = Inr history"
    and "check_history w task digest b (n + int (length history)) (if history = [] then p else Some (fst (last history)))
      (if history = [] then r else \<not> snd (last history)) rest = Inr history'"
  shows "check_history w task digest b n p r (rows @ rest) = Inr (history @ history')"
  using assms
proof (induction rows arbitrary: n p r history)
  case (Cons x rows)
  from Cons.prems(1) obtain kvs h where kvs: "Option.bind (as_obj (Some (dr_json x))) (has_keys decision_keys) = Some kvs"
      "dr_sequence x = n" "decision_matches digest b p x kvs" "check_receipt w task digest b p kvs = Inr r"
    and h: "check_history w task digest b (n + 1) (Some (dr_digest x)) (\<not> r) rows = Inr h" "history = (dr_digest x, r) # h"
    by (auto simp: bind_result_Inr_iff split: option.split_asm)
  have "check_history w task digest b (n + 1) (Some (dr_digest x)) (\<not> r) (rows @ rest) = Inr (h @ history')"
    using Cons.prems(2) by (intro Cons.IH [OF h(1)]) (cases "h = []"; simp add: h(2) add.assoc)
  then show ?case by (simp add: kvs h(2) require_def)
qed simp

text \<open>A stop that the matrix requires to be cleared has the clearance conditions of its own binding.\<close>

lemma stop_conditions:
  assumes ok: "record_ok r" and "fr_schema r = RECOVERY_V3" "fr_action r = STOP_SCOPE"
  shows "fr_clearance_required r \<and> fr_clearance_conditions r = Some default_clearance_conditions \<and> fr_clearance_provenance r = Some (fr_binding r)
    \<and> require_failure_compatibility r = Inr ()"
proof -
  have guards: "list_all fst (failure_record_guards r)" using ok by (simp add: record_ok_def)
  have "list_all fst (compatibility_guards r)" using guards unfolding failure_record_guards_def list_all_append by blast
  then have "fr_action r = co_action (failure_compatibility_matrix (fr_failure r))"
    "fr_clearance_required r = co_clearance_required (failure_compatibility_matrix (fr_failure r))"
    using assms(2) by (simp_all add: compatibility_guards_def Let_def)
  then have required: "fr_clearance_required r" using matrix_stop [of "fr_failure r"] assms(3) by simp
  then have "fr_clearance_conditions r \<noteq> None" "fr_clearance_provenance r = Some (fr_binding r)"
    using guards assms(2) by (simp_all add: failure_record_guards_def)
  then show ?thesis using ok required guards
    by (auto simp: record_ok_def clearance_condition_guards_def default_clearance_conditions_def failure_record_guards_def
        require_failure_compatibility_def)
qed

lemma next_sequence_free:
  assumes ok: "decisions_ok (decision_rows t)" and history: "decision_history w task digest b t = Inr history"
    and row: "row \<in> set (decision_rows t)" "dr_task row = task" "dr_record row = digest"
  shows "dr_sequence row \<le> int (length history)"
proof -
  let ?rows = "rows_of task digest (decision_rows t)"
  have chain: "decision_chain digest 1 None False ?rows" using ok by (simp add: decisions_ok_def)
  have "length history = length ?rows"
    using chain_append [OF _ chain] history unfolding decision_history_def decisions_for_rows [OF ok] by blast
  moreover have "dr_sequence row \<in> set (map dr_sequence ?rows)" using row by (simp add: rows_of_def)
  ultimately show ?thesis unfolding chain_sequence [OF chain] by auto
qed

text \<open>In a reachable ledger the text of the next decision is new, so that a decision is never taken for a repetition.\<close>

lemma decision_sequence_inj:
  assumes "canon (decision_payload revoke digest b receipt p n) = canon (decision_payload revoke' digest' b' receipt' p' n')"
  shows "n = n'"
  using canon_fields_inj [OF _ _ assms [unfolded decision_payload_def]] by simp

lemma next_decision_new:
  assumes ok: "decisions_ok (decision_rows t)" and history: "decision_history w task digest b t = Inr history"
    and old: "old \<in> set (decision_rows t)" "dr_task old = task" "dr_record old = digest"
  shows "canon (dr_json old) \<noteq> canon (decision_payload revoke digest b' receipt p (int (length history) + 1))"
proof
  assume eq: "canon (dr_json old) = canon (decision_payload revoke digest b' receipt p (int (length history) + 1))"
  have "old \<in> set (rows_of task digest (decision_rows t))" using old by (simp add: rows_of_def)
  then obtain i where "i < length (rows_of task digest (decision_rows t))" "old = rows_of task digest (decision_rows t) ! i"
    by (metis in_set_conv_nth)
  with ok chain_nth [of digest 1 None False "rows_of task digest (decision_rows t)" i]
  obtain revoke'' b'' receipt'' p'' where "dr_json old = decision_payload revoke'' digest b'' receipt'' p'' (dr_sequence old)"
    unfolding decisions_ok_def decision_link_def by metis
  with decision_sequence_inj [of revoke'' digest b'' receipt'' p'' "dr_sequence old"] eq have "dr_sequence old = int (length history) + 1" by simp
  with next_sequence_free [OF ok history old] show False by simp
qed

text \<open>The text and the row of the decision that clears a denial next.\<close>

definition next_decision :: "failure_record \<Rightarrow> json \<Rightarrow> (string \<times> bool) list \<Rightarrow> json" where
  "next_decision r receipt history = decision_payload False (record_digest r) (fr_binding r) receipt
     (if history = [] then None else Some (fst (last history))) (int (length history) + 1)"

definition clearance_row :: "task_identity \<Rightarrow> failure_record \<Rightarrow> string \<Rightarrow> json \<Rightarrow> (string \<times> bool) list \<Rightarrow> decision_row" where
  "clearance_row ti r command receipt history = \<lparr>dr_digest = digest_value (next_decision r receipt history), dr_task = ti_task_id ti,
     dr_record = record_digest r, dr_command = command, dr_command_kind = command_kind_of False, dr_json = next_decision r receipt history,
     dr_sequence = int (length history) + 1\<rparr>"

lemma clearance_appends_iff:
  assumes ok: "decisions_ok (decision_rows t)"
  shows "append_clearance_decision w ti False (record_digest r) (fr_binding r) command None t = Inr (t', d) \<longleftrightarrow>
    (\<exists>history receipt. decision_history w (ti_task_id ti) (record_digest r) (fr_binding r) t = Inr history \<and> (history = [] \<or> snd (last history))
      \<and> denial_command_receipt w (ti_task_id ti) (record_digest r) (fr_binding r) command False None = Inr receipt
      \<and> (\<forall>row \<in> set (decision_rows t). dr_digest row \<noteq> digest_value (next_decision r receipt history)
          \<and> (dr_task row, dr_command_kind row, dr_command row) \<noteq> (ti_task_id ti, command_kind_of False, command))
      \<and> d = digest_value (next_decision r receipt history)
      \<and> t' = t\<lparr>decision_rows := decision_rows t @ [clearance_row ti r command receipt history]\<rparr>)"
    (is "?run \<longleftrightarrow> ?cond")
proof
  assume ?run
  from append_effect [OF this] obtain history receipt where
    h: "decision_history w (ti_task_id ti) (record_digest r) (fr_binding r) t = Inr history" "history = [] \<or> snd (last history)"
    and receipt: "denial_command_receipt w (ti_task_id ti) (record_digest r) (fr_binding r) command False None = Inr receipt"
    and d: "d = digest_value (next_decision r receipt history)"
    and cases: "(\<exists>old. List.find (\<lambda>old. dr_digest old = d) (decision_rows t) = Some old \<and> dr_task old = ti_task_id ti \<and> dr_record old = record_digest r
        \<and> canon (dr_json old) = canon (next_decision r receipt history))
      \<or> t' = t\<lparr>decision_rows := decision_rows t @ [clearance_row ti r command receipt history]\<rparr>
        \<and> \<not> list_ex (decision_conflicts (clearance_row ti r command receipt history)) (decision_rows t)"
    unfolding Let_def clearance_row_def next_decision_def by (auto simp del: canon.simps)
  have "List.find (\<lambda>old. dr_digest old = d) (decision_rows t) = Some old \<Longrightarrow> old \<in> set (decision_rows t)" for old
    by (auto simp: find_Some_iff)
  with cases next_decision_new [OF ok h(1)] have "t' = t\<lparr>decision_rows := decision_rows t @ [clearance_row ti r command receipt history]\<rparr>
        \<and> \<not> list_ex (decision_conflicts (clearance_row ti r command receipt history)) (decision_rows t)"
    unfolding next_decision_def by metis
  with h receipt d show ?cond by (intro exI [of _ history] exI [of _ receipt]) (auto simp: list_ex_iff decision_conflicts_def clearance_row_def)
next
  assume ?cond
  then obtain history receipt where
    h: "decision_history w (ti_task_id ti) (record_digest r) (fr_binding r) t = Inr history" "history = [] \<or> snd (last history)"
    and receipt: "denial_command_receipt w (ti_task_id ti) (record_digest r) (fr_binding r) command False None = Inr receipt"
    and free: "\<And>row. row \<in> set (decision_rows t) \<Longrightarrow> dr_digest row \<noteq> d
          \<and> (dr_task row, dr_command_kind row, dr_command row) \<noteq> (ti_task_id ti, command_kind_of False, command)"
    and d: "d = digest_value (next_decision r receipt history)"
    and t': "t' = t\<lparr>decision_rows := decision_rows t @ [clearance_row ti r command receipt history]\<rparr>" by auto
  let ?row = "clearance_row ti r command receipt history"
  have "\<not> decision_conflicts ?row old" if "old \<in> set (decision_rows t)" for old
    using free [OF that] next_sequence_free [OF ok h(1) that] by (force simp: decision_conflicts_def clearance_row_def d)
  then have insert: "insert_decision ?row t = Inr t'" by (auto simp: insert_decision_def list_ex_iff t')
  have none: "List.find (\<lambda>old. dr_digest old = d) (decision_rows t) = None" using free by (force simp: find_None_iff)
  have closed: "(history \<noteq> [] \<and> \<not> snd (last history)) = False" using h(2) by auto
  show ?run unfolding append_clearance_decision_def Let_def
    by (simp add: h(1) closed receipt require_def next_decision_def [symmetric] none [unfolded d] insert [unfolded clearance_row_def]) (simp add: d)
qed

lemma history_after_clearance:
  assumes ok: "decisions_ok (decision_rows t)" "decisions_ok (decision_rows t @ [row])"
    and history: "decision_history w task digest b t = Inr history" and stopped: "history = [] \<or> snd (last history)"
    and receipt: "denial_command_receipt w task digest b command False None = Inr receipt"
    and payload: "payload = decision_payload False digest b receipt (if history = [] then None else Some (fst (last history))) (int (length history) + 1)"
    and row: "row = \<lparr>dr_digest = digest_value payload, dr_task = task, dr_record = digest, dr_command = command,
                dr_command_kind = command_kind_of False, dr_json = payload, dr_sequence = int (length history) + 1\<rparr>"
  shows "decision_history w task digest b (t\<lparr>decision_rows := decision_rows t @ [row]\<rparr>) = Inr (history @ [(dr_digest row, False)])"
proof -
  have "decisions_for task digest (t\<lparr>decision_rows := decision_rows t @ [row]\<rparr>) = rows_of task digest (decision_rows t @ [row])"
    using decisions_for_rows [of "t\<lparr>decision_rows := decision_rows t @ [row]\<rparr>"] ok(2) by simp
  also have "\<dots> = decisions_for task digest t @ [row]"
    unfolding decisions_for_rows [OF ok(1)] by (simp add: rows_of_def row)
  finally have rows: "decisions_for task digest (t\<lparr>decision_rows := decision_rows t @ [row]\<rparr>) = decisions_for task digest t @ [row]" .
  have "check_history w task digest b (int (length history) + 1) (if history = [] then None else Some (fst (last history))) False [row]
      = Inr [(dr_digest row, False)]"
    by (rule new_decision_checked [OF payload]) (use receipt in \<open>simp_all add: row\<close>)
  moreover have "(if history = [] then False else \<not> snd (last history)) = False" using stopped by auto
  ultimately show ?thesis unfolding decision_history_def rows
    using history_append [of w task digest b 1 None False "decisions_for task digest t" history "[row]"] history
    by (simp add: decision_history_def add.commute)
qed

text \<open>A decision on one denial leaves the histories of all others as they were.\<close>

lemma decisions_for_other:
  "dr_record row \<noteq> digest \<Longrightarrow> decisions_for task digest (t\<lparr>decision_rows := decision_rows t @ [row]\<rparr>) = decisions_for task digest t"
  by (simp add: decisions_for_def)

lemma check_stop_other:
  assumes "dr_record row \<noteq> digest"
  shows "check_stop w task scope (t\<lparr>decision_rows := decision_rows t @ [row]\<rparr>) (digest, v) = check_stop w task scope t (digest, v)"
  unfolding check_stop_def decision_history_def split_conv decisions_for_other [OF assms] ..

text \<open>The denial a clearance names, in a reachable ledger.\<close>

lemma clearance_recorded_iff:
  assumes run: "recovery.reaches empty_ledger ls t" and recorded: "recorded ls (ti_task_id ti) r" and stop: "fr_action r = STOP_SCOPE"
  shows "record_durable_clearance w ti \<lparr>cl_record_digest = record_digest r, cl_binding = fr_binding r, cl_command_id = command\<rparr> now t = Inr (t', d) \<longleftrightarrow>
    0 < now \<and> rw_matching_task w ti = Inr () \<and> rw_admission w ti (fr_binding r) = Inr ()
    \<and> append_clearance_decision w ti False (record_digest r) (fr_binding r) command None t = Inr (t', d)"
proof -
  have r: "record_ok r" "fr_schema r = RECOVERY_V3" "(record_digest r, ti_task_id ti, JObj (failure_payload r)) \<in> set (failure_rows t)"
    using recorded_stored [OF run recorded] by blast+
  then have "map_of (failure_rows t) (record_digest r) = Some (ti_task_id ti, JObj (failure_payload r))"
    using reached_ok [OF run] by (simp add: ledger_ok_def failures_ok_def)
  then have "require_clearance_record w ti (record_digest r) (fr_binding r) t = Inr () \<longleftrightarrow> rw_admission w ti (fr_binding r) = Inr ()"
    using stop_conditions [OF r(1,2) stop] stop r(2)
    by (auto simp: require_clearance_record_def stored_failure_def reparse_def parse_payload [OF r(1)] require_def bind_result_Inr_iff)
  then show ?thesis by (auto simp: record_durable_clearance_def bind_result_Inr_iff require_def split: if_split_asm)
qed

lemma cleared_scope_admits:
  assumes run: "recovery.reaches empty_ledger ls t" and recorded: "recorded ls (ti_task_id ti) r"
    and stop: "fr_action r = STOP_SCOPE" "fb_authority_scope (fr_binding r) = scope" and task: "rw_tasks w (ti_task_id ti) = Some ti"
    and clear: "record_durable_clearance w ti \<lparr>cl_record_digest = record_digest r, cl_binding = fr_binding r, cl_command_id = command\<rparr> now t = Inr (t', d)"
  shows "require_scope_effect_admission w ti scope t' = Inr () \<longleftrightarrow>
    (\<forall>(digest, owner, v) \<in> set (failure_rows t). owner = ti_task_id ti \<and> digest \<noteq> record_digest r \<longrightarrow> check_stop w (ti_task_id ti) scope t (digest, v) = Inr ())"
proof -
  have ok: "decisions_ok (decision_rows t)" "failures_ok (failure_rows t)" using reached_ok [OF run] by (simp_all add: ledger_ok_def)
  have r: "record_ok r" "fr_schema r = RECOVERY_V3" "(record_digest r, ti_task_id ti, JObj (failure_payload r)) \<in> set (failure_rows t)"
    using recorded_stored [OF run recorded] by blast+
  from clear have matching: "rw_matching_task w ti = Inr ()" and admission: "rw_admission w ti (fr_binding r) = Inr ()"
    and append: "append_clearance_decision w ti False (record_digest r) (fr_binding r) command None t = Inr (t', d)"
    unfolding clearance_recorded_iff [OF run recorded stop(1)] by blast+
  from append obtain history receipt where h: "decision_history w (ti_task_id ti) (record_digest r) (fr_binding r) t = Inr history" "history = [] \<or> snd (last history)"
    and receipt: "denial_command_receipt w (ti_task_id ti) (record_digest r) (fr_binding r) command False None = Inr receipt"
    and t': "t' = t\<lparr>decision_rows := decision_rows t @ [clearance_row ti r command receipt history]\<rparr>"
    unfolding clearance_appends_iff [OF ok(1)] by blast
  have "decisions_ok (decision_rows t @ [clearance_row ti r command receipt history])" using append_keeps_chain [OF ok(1) append] by (simp add: t')
  then have "decision_history w (ti_task_id ti) (record_digest r) (fr_binding r) t' = Inr (history @ [(dr_digest (clearance_row ti r command receipt history), False)])"
    unfolding t' by (rule history_after_clearance [OF ok(1) _ h receipt next_decision_def [of r receipt history] clearance_row_def])
  then have self: "check_stop w (ti_task_id ti) scope t' (record_digest r, JObj (failure_payload r)) = Inr ()"
    using stop_conditions [OF r(1,2) stop(1)] stop
    by (simp add: check_stop_def reparse_def parse_payload [OF r(1)] require_def task admission)
  have unique: "v = JObj (failure_payload r)" if "(record_digest r, ti_task_id ti, v) \<in> set (failure_rows t)" for v
    using that r(3) ok(2) by (auto simp: failures_ok_def dest: eq_key_imp_eq_value)
  have other: "check_stop w (ti_task_id ti) scope t' (digest, v) = check_stop w (ti_task_id ti) scope t (digest, v)" if "digest \<noteq> record_digest r" for digest v
    using that unfolding t' by (intro check_stop_other) (simp add: clearance_row_def)
  have "failure_rows t' = failure_rows t" by (simp add: t')
  then show ?thesis unfolding require_scope_effect_admission_def require_scope_open_iff matching
    using self unique other by (auto simp: require_scope_open_iff split: prod.splits) metis
qed

text \<open>
  C23 (clearance_reopens_scope). Which clearances of a stored stop are recorded, and what they open. In a reachable
  ledger, for a task whose stored row is the caller's, recording the clearance succeeds exactly if the time is valid, the task and the admission of the denied attempt
  still agree with the database, every earlier decision on the denial still verifies against the current commands, grants
  and seal and the last of them, if any, is a revocation, the owner's command for the denial is consumed under a grant that is in
  force, no earlier clearance of the task used that command, and the new decision's digest is not that of an older one.
  Once it is recorded, effects of the scope are admitted exactly if no other stored failure of the task
  keeps the scope closed.
\<close>

theorem clearance_reopens_scope:
  assumes run: "recovery.reaches empty_ledger ls t" and recorded: "recorded ls (ti_task_id ti) r"
    and stop: "fr_action r = STOP_SCOPE" "fb_authority_scope (fr_binding r) = scope" and task: "rw_tasks w (ti_task_id ti) = Some ti"
  shows "((\<exists>t' d. record_durable_clearance w ti \<lparr>cl_record_digest = record_digest r, cl_binding = fr_binding r, cl_command_id = command\<rparr> now t = Inr (t', d)) \<longleftrightarrow>
      0 < now \<and> rw_matching_task w ti = Inr () \<and> rw_admission w ti (fr_binding r) = Inr ()
      \<and> (\<exists>history receipt. decision_history w (ti_task_id ti) (record_digest r) (fr_binding r) t = Inr history \<and> (history = [] \<or> snd (last history))
        \<and> denial_command_receipt w (ti_task_id ti) (record_digest r) (fr_binding r) command False None = Inr receipt
        \<and> (\<forall>row \<in> set (decision_rows t). dr_digest row \<noteq> digest_value (next_decision r receipt history)
          \<and> (dr_task row, dr_command_kind row, dr_command row) \<noteq> (ti_task_id ti, command_kind_of False, command))))
    \<and> (\<forall>t' d. record_durable_clearance w ti \<lparr>cl_record_digest = record_digest r, cl_binding = fr_binding r, cl_command_id = command\<rparr> now t = Inr (t', d) \<longrightarrow>
      (require_scope_effect_admission w ti scope t' = Inr () \<longleftrightarrow>
        (\<forall>(digest, owner, v) \<in> set (failure_rows t). owner = ti_task_id ti \<and> digest \<noteq> record_digest r \<longrightarrow> check_stop w (ti_task_id ti) scope t (digest, v) = Inr ())))"
proof -
  have ok: "decisions_ok (decision_rows t)" using reached_ok [OF run] by (simp add: ledger_ok_def)
  show ?thesis using cleared_scope_admits [OF assms]
    unfolding clearance_recorded_iff [OF run recorded stop(1)] clearance_appends_iff [OF ok] by blast
qed

section \<open>Sample histories\<close>

definition recovery_sample_task :: task_identity where
  "recovery_sample_task = \<lparr>ti_task_id = ''task-1'', ti_source_id = ''source-1'', ti_repository_id = ''repository-1'', ti_branch = ''branch'',
     ti_worktree = ''worktree'', ti_base_sha = replicate 40 CHR ''0''\<rparr>"

abbreviation sample_denial :: failure_record where
  "sample_denial \<equiv> recovery_sample F_HOST_SECURITY_DENIAL VERIFIED_HOST"

abbreviation sample_transient :: failure_record where
  "sample_transient \<equiv> recovery_sample F_TRANSIENT_SERVICE VERIFIED_SERVICE"

definition sample_denial_command :: denial_command where
  "sample_denial_command = \<lparr>dc_task = ''task-1'', dc_repository = ''repository-1'', dc_denial = record_digest sample_denial, dc_grant = ''grant-1'',
     dc_candidate_sha = replicate 40 CHR ''a'', dc_candidate_seal = replicate 64 CHR ''1'', dc_scope = ''supervisor:task-1'',
     dc_target = record_digest sample_denial, dc_kind = ''clear-denial'', dc_clearance = [], dc_command_digest = replicate 64 CHR ''2'',
     dc_host_result = replicate 64 CHR ''3'', dc_result = replicate 64 CHR ''4'', dc_state = ''consumed''\<rparr>"

definition sample_denial_grant :: "string \<Rightarrow> denial_grant" where
  "sample_denial_grant authority = \<lparr>dg_owner = ''ythdelmar68'', dg_task = ''task-1'', dg_repository = ''repository-1'',
     dg_candidate_sha = replicate 40 CHR ''a'', dg_candidate_seal = replicate 64 CHR ''1'', dg_scope = ''supervisor:task-1'',
     dg_target = record_digest sample_denial, dg_authority_digest = authority, dg_state = ''active''\<rparr>"

definition recovery_sample_world :: "string \<Rightarrow> recovery_world" where
  "recovery_sample_world authority = \<lparr>rw_matching_task = \<lambda>_. Inr (), rw_tasks = \<lambda>_. Some recovery_sample_task,
     rw_seals = \<lambda>_. Some (replicate 40 CHR ''a'', replicate 64 CHR ''1''), rw_commands = \<lambda>_ _. Some sample_denial_command,
     rw_grants = \<lambda>_ _. Some (sample_denial_grant authority), rw_admission = \<lambda>_ _. Inr (), rw_dependency_successor = \<lambda>_. False,
     rw_provider_successor = \<lambda>_ _. False, rw_provider_attempt = \<lambda>_. None, rw_dependency_attempt = \<lambda>_. None,
     rw_dispatch_claim = \<lambda>_ _. False, rw_occupied = \<lambda>_ _. False\<rparr>"

lemma sample_records [simp]:
  "fr_action sample_denial = STOP_SCOPE" "fr_binding (recovery_sample f e) = recovery_sample_binding" "fr_schema (recovery_sample f e) = RECOVERY_V3"
  "fb_authority_scope recovery_sample_binding = ''supervisor:task-1''" "fb_role recovery_sample_binding = Role_SUPERVISOR"
  "fb_candidate_sha recovery_sample_binding = replicate 40 CHR ''a''"
  "fr_action sample_transient = PREBOUND_FALLBACK" "fr_retryable sample_transient" "fr_failure sample_transient = F_TRANSIENT_SERVICE"
  "fr_evidence_confidence (recovery_sample f e) = Confidence_VERIFIED"
  by (simp_all add: recovery_sample_def recovery_sample_binding_def Let_def)

lemma sample_compatible [simp]: "require_failure_compatibility sample_denial = Inr ()" "require_failure_compatibility sample_transient = Inr ()"
  using recovery_sample_ok by (simp_all add: record_ok_def require_failure_compatibility_def failure_record_guards_def)

lemma hex_ascii: "list_all is_hex s \<Longrightarrow> \<not> list_ex (\<lambda>x. 128 \<le> (of_char x :: nat)) s"
  by (induction s) (auto simp: is_hex_def)

lemma record_digest_ascii: "\<not> list_ex (\<lambda>x. 128 \<le> (of_char x :: nat)) (record_digest r)"
  using hex_ascii [of "hex_digest (JObj (failure_payload r))"] sha256_hex_fingerprint
  by (simp add: record_digest_def digest_value_def hex_digest_def is_fingerprint_def)

lemma sample_authority:
  "\<exists>authority. denial_authority_digest ''clear-denial'' (sample_denial_grant x) sample_denial_command = Inr authority \<and> is_fingerprint authority"
  using record_digest_ascii [of sample_denial]
  by (simp add: denial_authority_digest_def ascii_digest_def sample_denial_grant_def sample_denial_command_def unit_separator_def eval_nat_numeral)

lemma sample_receipt_valid:
  "\<exists>authority receipt. denial_command_receipt (recovery_sample_world authority) ''task-1'' (record_digest sample_denial) recovery_sample_binding
     ''command-1'' False None = Inr receipt"
proof -
  obtain authority where a: "denial_authority_digest ''clear-denial'' (sample_denial_grant []) sample_denial_command = Inr authority" "is_fingerprint authority"
    using sample_authority by blast
  moreover have "denial_authority_digest ''clear-denial'' (sample_denial_grant authority) sample_denial_command
      = denial_authority_digest ''clear-denial'' (sample_denial_grant []) sample_denial_command"
    by (simp add: denial_authority_digest_def sample_denial_grant_def)
  moreover have "command_agrees False ''task-1'' (record_digest sample_denial) recovery_sample_binding None sample_denial_command
      (sample_denial_grant authority) (replicate 40 CHR ''a'', replicate 64 CHR ''1'') ''repository-1''"
    using a(2) by (simp add: command_agrees_def sample_denial_command_def sample_denial_grant_def command_kind_of_def is_hex_def)
  ultimately have "denial_command_receipt (recovery_sample_world authority) ''task-1'' (record_digest sample_denial) recovery_sample_binding
      ''command-1'' False None = Inr (command_receipt ''command-1'' sample_denial_command (sample_denial_grant authority))"
    by (simp add: denial_command_receipt_def recovery_sample_world_def recovery_sample_task_def command_kind_of_def)
      (simp add: sample_denial_command_def sample_denial_grant_def)
  then show ?thesis by blast
qed

text \<open>The ledger after one recorded failure.\<close>

abbreviation sample_stored :: "failure_record \<Rightarrow> recovery_ledger" where
  "sample_stored r \<equiv> empty_ledger\<lparr>failure_rows := [(record_digest r, (''task-1'', JObj (failure_payload r)))]\<rparr>"

abbreviation sample_recorded :: "recovery_world \<Rightarrow> failure_record \<Rightarrow> recovery_label list" where
  "sample_recorded w r \<equiv> [(w, Record recovery_sample_task r 1, True)]"

lemma recovery_one: "recovery_step empty_ledger l t \<Longrightarrow> recovery.reaches empty_ledger [l] t"
  using recovery.reaches_snoc [OF recovery.reaches_nil] by simp

lemma sample_reached:
  assumes "r \<in> {sample_denial, sample_transient}"
  shows "recovery.reaches empty_ledger (sample_recorded (recovery_sample_world x) r) (sample_stored r)"
    "recorded (sample_recorded (recovery_sample_world x) r) ''task-1'' r"
proof -
  show "recovery.reaches empty_ledger (sample_recorded (recovery_sample_world x) r) (sample_stored r)"
    using assms recovery_sample_ok
    by (intro recovery_one) (auto simp: record_durable_failure_def require_def recovery_sample_world_def recovery_sample_task_def tables_def empty_ledger_def)
  show "recorded (sample_recorded (recovery_sample_world x) r) ''task-1'' r" by (simp add: recorded_def recovery_sample_task_def)
qed

lemma clearance_reopens:
  assumes run: "recovery.reaches empty_ledger ls t" and recorded: "recorded ls (ti_task_id ti) r"
    and stop: "fr_action r = STOP_SCOPE" "fb_authority_scope (fr_binding r) = scope"
    and task: "rw_matching_task w ti = Inr ()" "rw_tasks w (ti_task_id ti) = Some ti" "rw_admission w ti (fr_binding r) = Inr ()" "0 < now"
    and receipt: "denial_command_receipt w (ti_task_id ti) (record_digest r) (fr_binding r) command False None = Inr receipt"
    and first: "decision_rows t = []" and only: "\<forall>(digest, owner, v) \<in> set (failure_rows t). digest = record_digest r"
  shows "\<exists>t' d. record_durable_clearance w ti \<lparr>cl_record_digest = record_digest r, cl_binding = fr_binding r, cl_command_id = command\<rparr> now t
      = Inr (t', d) \<and> require_scope_effect_admission w ti scope t' = Inr ()"
proof -
  have ok: "decisions_ok (decision_rows t)" using reached_ok [OF run] by (simp add: ledger_ok_def)
  have "decision_history w (ti_task_id ti) (record_digest r) (fr_binding r) t = Inr []" by (simp add: decision_history_def decisions_for_def first)
  then obtain t' d where clear: "record_durable_clearance w ti \<lparr>cl_record_digest = record_digest r, cl_binding = fr_binding r, cl_command_id = command\<rparr> now t = Inr (t', d)"
    using task receipt unfolding clearance_recorded_iff [OF run recorded stop(1)] clearance_appends_iff [OF ok] first by auto
  with cleared_scope_admits [OF run recorded stop task(2) clear] only show ?thesis by fastforce
qed

theorem clearance_reopens_scope_witness:
  "\<exists>authority t d. record_durable_clearance (recovery_sample_world authority) recovery_sample_task
      \<lparr>cl_record_digest = record_digest sample_denial, cl_binding = fr_binding sample_denial, cl_command_id = ''command-1''\<rparr> 1
      (sample_stored sample_denial) = Inr (t, d)
    \<and> require_scope_effect_admission (recovery_sample_world authority) recovery_sample_task ''supervisor:task-1'' t = Inr ()"
proof -
  obtain authority receipt where receipt: "denial_command_receipt (recovery_sample_world authority) ''task-1'' (record_digest sample_denial)
      recovery_sample_binding ''command-1'' False None = Inr receipt" using sample_receipt_valid by blast
  let ?w = "recovery_sample_world authority"
  have sample: "ti_task_id recovery_sample_task = ''task-1''" "rw_tasks ?w ''task-1'' = Some recovery_sample_task"
      "rw_matching_task ?w recovery_sample_task = Inr ()" "rw_admission ?w recovery_sample_task recovery_sample_binding = Inr ()"
      "decision_history ?w ''task-1'' (record_digest sample_denial) recovery_sample_binding (sample_stored sample_denial) = Inr []"
      "decision_rows (sample_stored sample_denial) = []"
    by (simp_all add: recovery_sample_task_def recovery_sample_world_def decision_history_def decisions_for_def empty_ledger_def)
  have run: "recovery.reaches empty_ledger (sample_recorded ?w sample_denial) (sample_stored sample_denial)"
      "recorded (sample_recorded ?w sample_denial) (ti_task_id recovery_sample_task) sample_denial"
    unfolding sample(1) by (rule sample_reached; simp)+
  have scope: "fb_authority_scope (fr_binding sample_denial) = ''supervisor:task-1''" "rw_tasks ?w (ti_task_id recovery_sample_task) = Some recovery_sample_task"
    by (simp_all add: sample)
  note reopens = clearance_reopens_scope [OF run sample_records(1) scope, of "''command-1''" 1]
  obtain t d where clear: "record_durable_clearance ?w recovery_sample_task
      \<lparr>cl_record_digest = record_digest sample_denial, cl_binding = fr_binding sample_denial, cl_command_id = ''command-1''\<rparr> 1
      (sample_stored sample_denial) = Inr (t, d)"
    using iffD2 [OF conjunct1 [OF reopens]] sample receipt by fastforce
  with conjunct2 [OF reopens, rule_format, OF clear] have "require_scope_effect_admission ?w recovery_sample_task ''supervisor:task-1'' t = Inr ()" by simp
  with clear show ?thesis by blast
qed

definition sample_clear :: "string \<Rightarrow> recovery_label" where
  "sample_clear authority = (recovery_sample_world authority, Clear recovery_sample_task
     \<lparr>cl_record_digest = record_digest sample_denial, cl_binding = recovery_sample_binding, cl_command_id = ''command-1''\<rparr> 1, True)"

lemma sample_cleared:
  "\<exists>authority t. recovery.reaches empty_ledger (sample_recorded (recovery_sample_world authority) sample_denial @ [sample_clear authority]) t
     \<and> require_scope_effect_admission (recovery_sample_world authority) recovery_sample_task ''supervisor:task-1'' t = Inr ()"
proof -
  obtain authority receipt where receipt: "denial_command_receipt (recovery_sample_world authority) ''task-1'' (record_digest sample_denial)
      recovery_sample_binding ''command-1'' False None = Inr receipt" using sample_receipt_valid by blast
  let ?w = "recovery_sample_world authority"
  have task: "ti_task_id recovery_sample_task = ''task-1''" by (simp add: recovery_sample_task_def)
  have "\<exists>t d. record_durable_clearance ?w recovery_sample_task
      \<lparr>cl_record_digest = record_digest sample_denial, cl_binding = fr_binding sample_denial, cl_command_id = ''command-1''\<rparr> 1
      (sample_stored sample_denial) = Inr (t, d) \<and> require_scope_effect_admission ?w recovery_sample_task ''supervisor:task-1'' t = Inr ()"
    by (rule clearance_reopens [of "sample_recorded ?w sample_denial", where receipt = receipt])
      (use receipt sample_reached in \<open>simp_all add: task recovery_sample_world_def empty_ledger_def del: recovery_step.simps\<close>)
  then obtain t d where t: "record_durable_clearance ?w recovery_sample_task
      \<lparr>cl_record_digest = record_digest sample_denial, cl_binding = recovery_sample_binding, cl_command_id = ''command-1''\<rparr> 1
      (sample_stored sample_denial) = Inr (t, d)" "require_scope_effect_admission ?w recovery_sample_task ''supervisor:task-1'' t = Inr ()" by auto
  have "recovery_step (sample_stored sample_denial) (sample_clear authority) t" by (simp add: sample_clear_def t(1) tables_def)
  then have "recovery.reaches empty_ledger (sample_recorded ?w sample_denial @ [sample_clear authority]) t"
    using sample_reached(1) by (intro recovery.reaches_snoc) auto
  with t(2) show ?thesis by blast
qed

theorem scope_admission_safe_witness:
  "\<exists>authority t. let w = recovery_sample_world authority; ls = sample_recorded w sample_denial @ [sample_clear authority];
       rows = decisions_for ''task-1'' (record_digest sample_denial) t in
     recovery.reaches empty_ledger ls t \<and> require_scope_effect_admission w recovery_sample_task ''supervisor:task-1'' t = Inr ()
     \<and> rows \<noteq> [] \<and> command_in_force w ''task-1'' (record_digest sample_denial) recovery_sample_binding False (dr_command (last rows))"
proof -
  obtain authority t where run: "recovery.reaches empty_ledger (sample_recorded (recovery_sample_world authority) sample_denial @ [sample_clear authority]) t"
    and scope: "require_scope_effect_admission (recovery_sample_world authority) recovery_sample_task ''supervisor:task-1'' t = Inr ()"
    using sample_cleared by blast
  have task: "ti_task_id recovery_sample_task = ''task-1''" by (simp add: recovery_sample_task_def)
  have "recorded (sample_recorded (recovery_sample_world authority) sample_denial @ [sample_clear authority]) (ti_task_id recovery_sample_task) sample_denial"
    by (auto simp: recorded_def)
  from scope_admission_safe [OF run scope this] run scope show ?thesis unfolding Let_def task by auto
qed

definition sample_route :: route_authorization where
  "sample_route = (let a = \<lparr>ra_route_digest = [], ra_record_digest = record_digest sample_transient, ra_binding = recovery_sample_binding,
      ra_target_role = Role_SUPERVISOR, ra_target_profile = digest_value (JStr ''profile''), ra_target_route = digest_value (JStr ''route''),
      ra_coordinate = digest_value (JStr ''coordinate''), ra_budget = digest_value (JStr ''budget'')\<rparr>
    in a\<lparr>ra_route_digest := digest_value (route_payload a)\<rparr>)"

abbreviation sample_reservation :: string where
  "sample_reservation \<equiv> digest_value (JStr ''reservation'')"

abbreviation sample_admit :: recovery_op where
  "sample_admit \<equiv> Admit recovery_sample_task sample_route sample_reservation ''attempt-2'' (digest_value (JStr ''request'')) 1"

abbreviation sample_begin :: recovery_op where
  "sample_begin \<equiv> Begin recovery_sample_task sample_route sample_reservation (target_of sample_route)"

lemma sample_route_sel:
  "ra_record_digest sample_route = record_digest sample_transient" "ra_binding sample_route = recovery_sample_binding"
  "ra_target_role sample_route = Role_SUPERVISOR" "is_digest (ra_target_profile sample_route)" "is_digest (ra_target_route sample_route)"
  "is_digest (ra_coordinate sample_route)" "is_digest (ra_budget sample_route)"
  "digest_value (route_payload sample_route) = ra_route_digest sample_route"
  by (simp_all add: sample_route_def Let_def route_payload_def)

lemma record_digest_digest [simp]: "is_digest (record_digest r)"
  by (simp add: record_digest_def)

lemma sample_source:
  assumes "failure_rows t = failure_rows (sample_stored sample_transient)"
  shows "read_route_source (recovery_sample_world x) recovery_sample_task (record_digest sample_transient) recovery_sample_binding t = Inr sample_transient"
  using parse_payload [OF recovery_sample_ok(2)]
  by (simp add: read_route_source_def stored_failure_def assms reparse_def recovery_sample_task_def require_def recovery_sample_world_def)

lemma sample_scope_open:
  assumes "failure_rows t = failure_rows (sample_stored sample_transient)"
  shows "require_scope_open (recovery_sample_world x) ''task-1'' scope t = Inr ()"
  using parse_payload [OF recovery_sample_ok(2)]
  by (simp add: require_scope_open_iff assms check_stop_def reparse_def require_def)

lemma sample_world_sel:
  "rw_matching_task (recovery_sample_world x) ti = Inr ()" "rw_tasks (recovery_sample_world x) task = Some recovery_sample_task"
  "ti_task_id recovery_sample_task = ''task-1''" "successor_rows empty_ledger = []" "route_rows empty_ledger = []"
  by (simp_all add: recovery_sample_world_def recovery_sample_task_def empty_ledger_def)

text \<open>A history in which a route is issued, fenced and admitted.\<close>

definition sample_route_history :: "recovery_label list" where
  "sample_route_history = (let w = recovery_sample_world [] in
     ((sample_recorded w sample_transient @ [(w, Issue recovery_sample_task sample_route 1, True)]) @ [(w, sample_begin, True)]) @ [(w, sample_admit, True)])"

lemma sample_route_run:
  defines "w \<equiv> recovery_sample_world []"
  shows "\<exists>t. recovery_step (sample_stored sample_transient) (w, Issue recovery_sample_task sample_route 1, True) t"
    "\<exists>t. recovery.reaches empty_ledger sample_route_history t"
proof -
  let ?row = "route_columns recovery_sample_task sample_route" and ?d = "ra_route_digest sample_route"
  let ?t1 = "sample_stored sample_transient\<lparr>route_rows := [(?d, ?row)]\<rparr>"
  let ?t2 = "set_route ?d (?row\<lparr>rr_state := ''reserving'', rr_reservation := Some sample_reservation\<rparr>) ?t1"
  have start: "recovery.reaches empty_ledger (sample_recorded w sample_transient) (sample_stored sample_transient)"
    unfolding w_def by (rule sample_reached) simp
  have issue: "recovery_step (sample_stored sample_transient) (w, Issue recovery_sample_task sample_route 1, True) ?t1"
    by (simp add: issue_durable_recovery_route_authorization_def require_def sample_route_sel Let_def w_def sample_source tables_def sample_world_sel)
  have row: "rr_task ?row = ''task-1''" "rr_state ?row = ''issued''" "rr_reservation ?row = None"
    by (simp_all add: route_columns_def recovery_sample_task_def)
  have fence: "recovery_step ?t1 (w, sample_begin, True) ?t2"
    using row sample_scope_open [of ?t1]
    by (simp add: begin_durable_recovery_route_reservation_def require_def sample_route_sel sample_source route_holds_def task_route_def
        tables_def target_digests_def target_of_def w_def same_columns_def Let_def sample_world_sel)
  have admit: "\<exists>t. recovery_step ?t2 (w, sample_admit, True) t"
    using row
    by (simp add: commit_durable_recovery_route_successor_admission_def require_def sample_route_sel sample_source tables_def w_def
        consume_reserved_def task_route_def insert_successor_def Let_def sample_world_sel)
  have "recovery.reaches empty_ledger ((sample_recorded w sample_transient @ [(w, Issue recovery_sample_task sample_route 1, True)]) @ [(w, sample_begin, True)]) ?t2"
    by (rule recovery.reaches_snoc [OF recovery.reaches_snoc [OF start issue] fence])
  then show "\<exists>t. recovery.reaches empty_ledger sample_route_history t"
    using admit recovery.reaches_snoc unfolding sample_route_history_def Let_def w_def by meson
  show "\<exists>t. recovery_step (sample_stored sample_transient) (w, Issue recovery_sample_task sample_route 1, True) t"
    by (rule exI) (rule issue)
qed

theorem routes_refine_lifecycle_witness:
  "\<exists>t' d. recovery_step (sample_stored sample_transient) (recovery_sample_world [], Issue recovery_sample_task sample_route 1, True) t'
     \<and> route_edge (phase (sample_stored sample_transient) d) (phase t' d)"
proof -
  obtain t1 where issue: "recovery_step (sample_stored sample_transient) (recovery_sample_world [], Issue recovery_sample_task sample_route 1, True) t1"
    by (rule exE [OF sample_route_run(1)])
  have start: "recovery.reaches empty_ledger (sample_recorded (recovery_sample_world []) sample_transient) (sample_stored sample_transient)"
    by (rule sample_reached) simp
  from routes_refine_lifecycle [OF start issue] issue show ?thesis by blast
qed

end
