(* ===== verification/Review_Lifecycle.thy ===== *)
theory Review_Lifecycle
  imports Json Candidate_Seal
begin

text \<open>
  \<open>review_lifecycle.py\<close>: review items with the provenance of every review that produced them, the
  objectives of workers, the owner's commands that resolve or waive an item, and the receipt over the
  blocking follow-ups that the final gates consult.

  Every operation of the store runs in one transaction that rolls back on any exception: it returns
  the error, or the committed tables with its result. The columns of the tables are text, as in the
  schema, and reading them back decodes the enumerations.

  What the operations only read is a \<open>review_world\<close>: the lease and the clock, the task rows, the
  candidate seals, the owner's grants, and the attempts of providers with the rows joined to them.
\<close>

section \<open>Data\<close>

datatype review_item_kind = PASS_FOLLOW_UP | FINDING

fun item_kind_value :: "review_item_kind \<Rightarrow> string" where
  "item_kind_value PASS_FOLLOW_UP = ''pass-follow-up''"
| "item_kind_value FINDING = ''finding''"

datatype review_item_source = ACCEPTED_REVIEW | SUPERVISOR_FINDING

fun item_source_value :: "review_item_source \<Rightarrow> string" where
  "item_source_value ACCEPTED_REVIEW = ''accepted-review''"
| "item_source_value SUPERVISOR_FINDING = ''supervisor-finding''"

datatype item_disposition = Disposition_PENDING | Disposition_RESOLVED | Disposition_WAIVED

fun disposition_value :: "item_disposition \<Rightarrow> string" where
  "disposition_value Disposition_PENDING = ''pending''"
| "disposition_value Disposition_RESOLVED = ''resolved''"
| "disposition_value Disposition_WAIVED = ''waived''"

datatype verification_state = Verification_PENDING | Verification_VERIFIED | Verification_WAIVED

fun verification_value :: "verification_state \<Rightarrow> string" where
  "verification_value Verification_PENDING = ''pending''"
| "verification_value Verification_VERIFIED = ''verified''"
| "verification_value Verification_WAIVED = ''waived''"

datatype owner_command_kind = RESOLVE_REVIEW_ITEM | WAIVE_REVIEW_ITEM

fun owner_kind_value :: "owner_command_kind \<Rightarrow> string" where
  "owner_kind_value RESOLVE_REVIEW_ITEM = ''resolve-review-item''"
| "owner_kind_value WAIVE_REVIEW_ITEM = ''waive-review-item''"

datatype objective_state = Objective_ACTIVE | Objective_CANCELLED | Objective_COMPLETED

fun objective_state_value :: "objective_state \<Rightarrow> string" where
  "objective_state_value Objective_ACTIVE = ''active''"
| "objective_state_value Objective_CANCELLED = ''cancelled''"
| "objective_state_value Objective_COMPLETED = ''completed''"

definition item_kind_of :: "string \<Rightarrow> review_item_kind option" where
  "item_kind_of = enum_of [PASS_FOLLOW_UP, FINDING] item_kind_value"

definition disposition_of :: "string \<Rightarrow> item_disposition option" where
  "disposition_of = enum_of [Disposition_PENDING, Disposition_RESOLVED, Disposition_WAIVED] disposition_value"

definition verification_of :: "string \<Rightarrow> verification_state option" where
  "verification_of = enum_of [Verification_PENDING, Verification_VERIFIED, Verification_WAIVED] verification_value"

definition objective_state_of :: "string \<Rightarrow> objective_state option" where
  "objective_state_of = enum_of [Objective_ACTIVE, Objective_CANCELLED, Objective_COMPLETED] objective_state_value"

abbreviation review_error :: "string \<Rightarrow> 'a result" where
  "review_error why \<equiv> Inl (ReviewLifecycleError why)"

definition require_review :: "bool \<Rightarrow> string \<Rightarrow> unit result" where
  "require_review p why = (if p then Inr () else review_error why)"

record review_item =
  ri_item_id :: string
  ri_task_id :: string
  ri_review_identity :: string
  ri_candidate_sha :: string
  ri_source_attempt_id :: string
  ri_kind :: review_item_kind
  ri_source :: review_item_source
  ri_content_digest :: string
  ri_destination :: string
  ri_blocking :: bool
  ri_created_at :: int

definition review_item_guards :: "review_item \<Rightarrow> (bool \<times> py_error) list" where
  "review_item_guards i =
     [(list_all is_token [ri_item_id i, ri_task_id i, ri_review_identity i, ri_source_attempt_id i, ri_destination i]
         \<and> is_sha (ri_candidate_sha i) \<and> is_fingerprint (ri_content_digest i) \<and> 0 < ri_created_at i,
       ReviewLifecycleError ''review item is invalid''),
      ((ri_kind i, ri_source i) \<in> {(PASS_FOLLOW_UP, ACCEPTED_REVIEW), (FINDING, SUPERVISOR_FINDING)},
       ReviewLifecycleError ''review item kind/source pairing is invalid'')]"

definition make_review_item :: "review_item \<Rightarrow> review_item result" where
  "make_review_item i = construct (review_item_guards i) i"

record worker_objective_result =
  wr_candidate_sha :: string
  wr_completion_evidence_fingerprint :: string
  wr_accepted_result_identity :: string

definition make_objective_result :: "worker_objective_result \<Rightarrow> worker_objective_result result" where
  "make_objective_result r = construct
     [(list_all is_fingerprint [wr_completion_evidence_fingerprint r, wr_accepted_result_identity r] \<and> is_sha (wr_candidate_sha r),
       ReviewLifecycleError ''Worker objective result is invalid'')] r"

record worker_objective =
  wo_objective_id :: string
  wo_task_id :: string
  wo_dispatch_sha :: string
  wo_provider_attempt_id :: string
  wo_retry_identity :: string
  wo_objective_digest :: string
  wo_state :: objective_state
  wo_result :: "worker_objective_result option"
  wo_cancellation_reason_digest :: "string option"

definition worker_objective_guards :: "worker_objective \<Rightarrow> (bool \<times> py_error) list" where
  "worker_objective_guards x =
     [(list_all is_token [wo_objective_id x, wo_task_id x, wo_provider_attempt_id x, wo_retry_identity x]
         \<and> is_sha (wo_dispatch_sha x) \<and> is_fingerprint (wo_objective_digest x),
       ReviewLifecycleError ''Worker objective is invalid''),
      (case wo_state x of
         Objective_ACTIVE \<Rightarrow> wo_result x = None \<and> wo_cancellation_reason_digest x = None
       | Objective_COMPLETED \<Rightarrow> wo_result x \<noteq> None \<and> wo_cancellation_reason_digest x = None
       | Objective_CANCELLED \<Rightarrow> wo_result x = None \<and> present is_fingerprint (wo_cancellation_reason_digest x),
       ReviewLifecycleError ''Worker objective terminal state is invalid'')]"

definition make_worker_objective :: "worker_objective \<Rightarrow> worker_objective result" where
  "make_worker_objective x = construct (worker_objective_guards x) x"

record owner_command =
  oc_command_id :: string
  oc_task_id :: string
  oc_kind :: owner_command_kind
  oc_target_item_id :: string
  oc_candidate_sha :: string
  oc_command_digest :: string
  oc_idempotency_key :: string
  oc_owner_identity :: string
  oc_authority_grant_id :: string

definition owner_command_guards :: "owner_command \<Rightarrow> (bool \<times> py_error) list" where
  "owner_command_guards c =
     [(list_all is_token [oc_command_id c, oc_task_id c, oc_target_item_id c, oc_idempotency_key c, oc_owner_identity c, oc_authority_grant_id c]
         \<and> is_sha (oc_candidate_sha c) \<and> is_fingerprint (oc_command_digest c),
       ReviewLifecycleError ''owner command is invalid'')]"

definition make_owner_command :: "owner_command \<Rightarrow> owner_command result" where
  "make_owner_command c = construct (owner_command_guards c) c"

record item_projection =
  ip_item_id :: string
  ip_kind :: review_item_kind
  ip_disposition :: item_disposition
  ip_verification :: verification_state
  ip_blocking :: bool
  ip_destination :: string

section \<open>Tables and observations\<close>

record item_row =
  it_task :: string
  it_review :: string
  it_candidate :: string
  it_kind :: string
  it_source :: string
  it_attempt :: string
  it_owner :: string
  it_content :: string
  it_destination :: string
  it_blocker :: string
  it_verification :: string
  it_disposition :: string
  it_created :: int
  it_resolved :: "string option"

text \<open>A row of provenance: its key is item, review, source and attempt.\<close>

type_synonym provenance_key = "string \<times> string \<times> string \<times> string"

record objective_row =
  ob_task :: string
  ob_dispatch :: string
  ob_attempt :: string
  ob_retry :: string
  ob_digest :: string
  ob_state :: string
  ob_candidate :: "string option"
  ob_evidence :: "string option"
  ob_accepted :: "string option"
  ob_reason :: "string option"

record command_row =
  cm_task :: string
  cm_kind :: string
  cm_owner :: string
  cm_grant :: string
  cm_target :: string
  cm_candidate :: string
  cm_digest :: string
  cm_scope :: string
  cm_key :: string
  cm_state :: string
  cm_result :: "string option"

record review_store =
  item_rows :: "(string \<times> item_row) list"
  provenance_rows :: "(provenance_key \<times> (string \<times> string \<times> string)) list"
  objective_rows :: "(string \<times> objective_row) list"
  command_rows :: "(string \<times> command_row) list"

record grant_row =
  gr_owner :: string
  gr_scope :: string
  gr_task :: string
  gr_candidate :: string
  gr_authority :: string
  gr_state :: string

text \<open>The row of an attempt, joined with its accepted review, outcome, output and implementation.\<close>

record implementation_row =
  im_task :: string
  im_thread :: string
  im_turn :: string
  im_state :: string
  im_repair :: "string option"
  im_candidate :: "(string \<times> string \<times> string \<times> string) option"

record attempt_row =
  at_task :: string
  at_role :: string
  at_number :: int
  at_state :: string
  at_session :: "string option"
  at_turn :: "string option"
  at_profile :: "string option"
  at_accepted_profile :: "string option"
  at_accepted_review :: "string option"
  at_output_pointer :: "string option"
  at_evidence :: "string option"
  at_output :: "string option"
  at_outcome :: "(string \<times> string option) option"
  at_implementation :: "implementation_row option"

record review_world =
  vw_git :: git_world
  vw_task_failure :: "task_identity \<Rightarrow> string option"
  vw_seals :: "string \<Rightarrow> (string \<times> string) option"
  vw_repositories :: "string \<Rightarrow> string option"
  vw_grants :: "string \<Rightarrow> grant_row option"
  vw_attempts :: "string \<Rightarrow> attempt_row option"
  vw_diff_reviews :: "string \<Rightarrow> (string \<times> string \<times> string \<times> string \<times> string option) option"
  vw_plan_reviews :: "string \<Rightarrow> (string \<times> string \<times> string) option"

section \<open>Authority\<close>

text \<open>\<open>vw_task_failure\<close> is why \<open>_require_matching_task\<close> refuses a task, if it does.\<close>

definition require_lifecycle_authority :: "review_world \<Rightarrow> task_identity \<Rightarrow> transition_lease option \<Rightarrow> unit result" where
  "require_lifecycle_authority w ti lease =
     require_review (lease_failure (vw_git w) lease (ti_repository_id ti) = None \<and> vw_task_failure w ti = None)
       ''review lifecycle mutation lacks a current exact transition lease''"

definition require_current_candidate :: "review_world \<Rightarrow> task_identity \<Rightarrow> string \<Rightarrow> transition_lease option \<Rightarrow> unit result" where
  "require_current_candidate w ti candidate lease =
     require_review (case vw_seals w (ti_task_id ti) of
         None \<Rightarrow> False
       | Some (sealed, state) \<Rightarrow> sealed = candidate \<and> Some state = map_option tl_state_identity lease)
       ''review lifecycle candidate is stale or not bound to the current lease state''"

text \<open>A token, or \<open>sha256:\<close> and a digest.\<close>

definition is_durable_identity :: "string \<Rightarrow> bool" where
  "is_durable_identity s \<longleftrightarrow> is_token s \<or> is_digest s"

text \<open>\<open>COALESCE(NULLIF(attempts.selected_profile_identity, ''), accepted.selected_profile_identity)\<close>.\<close>

definition source_profile :: "attempt_row \<Rightarrow> string option" where
  "source_profile a = (case at_profile a of Some p \<Rightarrow> if p = [] then at_accepted_profile a else Some p | None \<Rightarrow> at_accepted_profile a)"

definition accepted_review_bound :: "review_world \<Rightarrow> task_identity \<Rightarrow> review_item \<Rightarrow> attempt_row \<Rightarrow> bool" where
  "accepted_review_bound w ti i a \<longleftrightarrow>
     at_state a = ''accepted'' \<and> at_accepted_review a = Some (ri_review_identity i)
     \<and> (vw_diff_reviews w (ri_review_identity i)
           = Some (ti_task_id ti, ri_candidate_sha i, ri_source_attempt_id i, ''accepted'', Some (ri_review_identity i))
        \<or> vw_plan_reviews w (ri_review_identity i) = Some (ti_task_id ti, ri_source_attempt_id i, ''recorded'')
          \<and> ri_candidate_sha i = ti_base_sha ti)"

definition supervisor_finding_bound :: "review_world \<Rightarrow> task_identity \<Rightarrow> review_item \<Rightarrow> attempt_row \<Rightarrow> bool" where
  "supervisor_finding_bound w ti i a \<longleftrightarrow>
     at_state a \<in> {''completed'', ''accepted''} \<and> at_output a \<noteq> None
     \<and> (case vw_diff_reviews w (ri_review_identity i) of
          None \<Rightarrow> False
        | Some (task, candidate, attempt, state, _) \<Rightarrow>
            (task, candidate, attempt, state) = (ti_task_id ti, ri_candidate_sha i, ri_source_attempt_id i, ''recorded''))"

definition require_accepted_review :: "review_world \<Rightarrow> task_identity \<Rightarrow> review_item \<Rightarrow> string result" where
  "require_accepted_review w ti i =
     (let missing = review_error ''review item provenance is missing, stale, or not an accepted supervisor review'' in
      case vw_attempts w (ri_source_attempt_id i) of
        None \<Rightarrow> missing
      | Some a \<Rightarrow>
        if at_task a \<noteq> ti_task_id ti \<or> at_role a \<noteq> ''supervisor'' then missing else
        (case source_profile a of
           None \<Rightarrow> missing
         | Some profile \<Rightarrow>
           if \<not> is_durable_identity profile then missing else
           bind_result (case ri_source i of
               ACCEPTED_REVIEW \<Rightarrow> require_review (accepted_review_bound w ti i a)
                 ''review item accepted review is not bound to the current candidate''
             | SUPERVISOR_FINDING \<Rightarrow> require_review (supervisor_finding_bound w ti i a)
                 ''review finding provenance is not bound to a recorded supervisor output'') (\<lambda>_. Inr profile)))"

section \<open>Review items\<close>

definition blocker_value :: "bool \<Rightarrow> string" where
  "blocker_value blocking = (if blocking then ''blocking'' else ''non-blocking'')"

text \<open>\<open>_projection\<close>: a stored value outside its enumeration is an error.\<close>

definition projection :: "string \<Rightarrow> item_row \<Rightarrow> item_projection result" where
  "projection item row = (case (item_kind_of (it_kind row), disposition_of (it_disposition row), verification_of (it_verification row)) of
     (Some kind, Some disposition, Some verification) \<Rightarrow> Inr
       \<lparr>ip_item_id = item, ip_kind = kind, ip_disposition = disposition, ip_verification = verification,
        ip_blocking = (it_blocker row = ''blocking''), ip_destination = it_destination row\<rparr>
   | _ \<Rightarrow> review_error ''committed review item is invalid'')"

definition same_item :: "review_item \<Rightarrow> item_row \<Rightarrow> bool" where
  "same_item i row \<longleftrightarrow>
     (it_task row, it_candidate row, it_kind row, it_source row, it_content row, it_destination row, it_blocker row)
       = (ri_task_id i, ri_candidate_sha i, item_kind_value (ri_kind i), item_source_value (ri_source i), ri_content_digest i,
          ri_destination i, blocker_value (ri_blocking i))"

text \<open>The semantic key under which an item is recorded once.\<close>

definition semantic_key :: "item_row \<Rightarrow> string \<times> string \<times> string \<times> string" where
  "semantic_key row = (it_task row, it_candidate row, it_kind row, it_content row)"

definition item_key :: "review_item \<Rightarrow> string \<times> string \<times> string \<times> string" where
  "item_key i = (ri_task_id i, ri_candidate_sha i, item_kind_value (ri_kind i), ri_content_digest i)"

definition provenance_key_of :: "string \<Rightarrow> review_item \<Rightarrow> provenance_key" where
  "provenance_key_of item i = (item, ri_review_identity i, item_source_value (ri_source i), ri_source_attempt_id i)"

text \<open>\<open>INSERT ... ON CONFLICT DO NOTHING\<close>.\<close>

definition add_provenance :: "string \<Rightarrow> review_item \<Rightarrow> string \<Rightarrow> review_store \<Rightarrow> review_store" where
  "add_provenance item i owner s =
     (if map_of (provenance_rows s) (provenance_key_of item i) = None
      then s\<lparr>provenance_rows := provenance_rows s @ [(provenance_key_of item i, (ri_task_id i, ri_candidate_sha i, owner))]\<rparr> else s)"

definition new_item_row :: "review_item \<Rightarrow> string \<Rightarrow> item_row" where
  "new_item_row i owner = \<lparr>it_task = ri_task_id i, it_review = ri_review_identity i, it_candidate = ri_candidate_sha i,
     it_kind = item_kind_value (ri_kind i), it_source = item_source_value (ri_source i), it_attempt = ri_source_attempt_id i,
     it_owner = owner, it_content = ri_content_digest i, it_destination = ri_destination i, it_blocker = blocker_value (ri_blocking i),
     it_verification = ''pending'', it_disposition = ''pending'', it_created = ri_created_at i, it_resolved = None\<rparr>"

text \<open>
  \<open>_record_review_item_connection\<close>. The unconditional insertion of the provenance of a new item
  violates its key when a row is left from an item that is gone; the unique key of the item rows is
  covered by the semantic key.
\<close>

definition record_review_item_connection ::
  "review_world \<Rightarrow> task_identity \<Rightarrow> review_item \<Rightarrow> review_store \<Rightarrow> (review_store \<times> item_projection) result" where
  "record_review_item_connection w ti i s =
     bind_result (require_accepted_review w ti i) (\<lambda>owner.
     case map_of (item_rows s) (ri_item_id i) of
       Some row \<Rightarrow>
         if \<not> same_item i row then review_error ''review item identity conflicts with committed state'' else
         bind_result (projection (ri_item_id i) row) (\<lambda>p. Inr (add_provenance (ri_item_id i) i owner s, p))
     | None \<Rightarrow>
       (case List.find (\<lambda>(_, row). semantic_key row = item_key i) (item_rows s) of
          Some (item, row) \<Rightarrow>
            if (it_destination row, it_blocker row) \<noteq> (ri_destination i, blocker_value (ri_blocking i))
            then review_error ''review item semantic identity has materially conflicting state'' else
            bind_result (projection item row) (\<lambda>p. Inr (add_provenance item i owner s, p))
        | None \<Rightarrow>
          if map_of (provenance_rows s) (provenance_key_of (ri_item_id i) i) \<noteq> None then Inl PyIntegrityError else
          Inr (add_provenance (ri_item_id i) i owner (s\<lparr>item_rows := item_rows s @ [(ri_item_id i, new_item_row i owner)]\<rparr>),
               \<lparr>ip_item_id = ri_item_id i, ip_kind = ri_kind i, ip_disposition = Disposition_PENDING,
                ip_verification = Verification_PENDING, ip_blocking = ri_blocking i, ip_destination = ri_destination i\<rparr>)))"

definition integrity_as :: "string \<Rightarrow> 'a result \<Rightarrow> 'a result" where
  "integrity_as why m = (case m of Inl PyIntegrityError \<Rightarrow> review_error why | _ \<Rightarrow> m)"

definition record_review_item ::
  "review_world \<Rightarrow> task_identity \<Rightarrow> review_item \<Rightarrow> transition_lease option \<Rightarrow> review_store \<Rightarrow> (review_store \<times> item_projection) result" where
  "record_review_item w ti i lease s =
     bind_result (require_review (ri_task_id i = ti_task_id ti) ''review item task does not match its exact identity'') (\<lambda>_.
     bind_result (require_lifecycle_authority w ti lease) (\<lambda>_.
     bind_result (require_current_candidate w ti (ri_candidate_sha i) lease) (\<lambda>_.
     integrity_as ''review item conflicts with committed state'' (record_review_item_connection w ti i s))))"

section \<open>Objectives\<close>

definition dispatch_sha_of :: "task_identity \<Rightarrow> implementation_row \<Rightarrow> string" where
  "dispatch_sha_of ti im = (case im_repair im of Some sha \<Rightarrow> if sha = [] then ti_base_sha ti else sha | None \<Rightarrow> ti_base_sha ti)"

definition retry_of :: "attempt_row \<Rightarrow> string \<Rightarrow> string" where
  "retry_of a attempt = ''worker-'' @ int_str (at_number a) @ ''-'' @ attempt"

definition require_worker_dispatch :: "review_world \<Rightarrow> task_identity \<Rightarrow> string \<Rightarrow> string \<Rightarrow> string result" where
  "require_worker_dispatch w ti attempt dispatch =
     (let stale = review_error ''Worker objective provider dispatch is unavailable or stale'' in
      case vw_attempts w attempt of None \<Rightarrow> stale | Some a \<Rightarrow>
      (case at_implementation a of None \<Rightarrow> stale | Some im \<Rightarrow>
        if at_task a = ti_task_id ti \<and> at_role a = ''worker'' \<and> at_state a = ''dispatched''
           \<and> present is_token (at_session a) \<and> present is_token (at_turn a) \<and> at_session a = Some (im_thread im)
           \<and> im_task im = ti_task_id ti \<and> at_turn a = Some (im_turn im) \<and> im_state im = ''dispatched''
           \<and> dispatch = dispatch_sha_of ti im
        then Inr (retry_of a attempt) else stale))"

definition recoverable_ambiguity :: "attempt_row \<Rightarrow> bool" where
  "recoverable_ambiguity a \<longleftrightarrow> at_state a = ''ambiguous'' \<and> present is_fingerprint (at_evidence a)
     \<and> at_outcome a = Some (''blocked-ambiguous-turn'', Some ''completion-evidence-unverified'')"

definition require_worker_objective_attempt :: "review_world \<Rightarrow> task_identity \<Rightarrow> string \<Rightarrow> string \<Rightarrow> string result" where
  "require_worker_objective_attempt w ti attempt dispatch =
     (let stale = review_error ''Worker objective provider attempt is unavailable or stale'' in
      case vw_attempts w attempt of None \<Rightarrow> stale | Some a \<Rightarrow>
      (case at_implementation a of None \<Rightarrow> stale | Some im \<Rightarrow>
        if at_task a = ti_task_id ti \<and> at_role a = ''worker''
           \<and> (at_state a \<in> {''dispatched'', ''completed''} \<or> recoverable_ambiguity a)
           \<and> im_task im = ti_task_id ti \<and> im_state im \<in> {''dispatched'', ''recorded''} \<and> dispatch = dispatch_sha_of ti im
        then Inr (retry_of a attempt) else stale))"

definition require_worker_objective_result ::
  "review_world \<Rightarrow> task_identity \<Rightarrow> string \<Rightarrow> worker_objective_result \<Rightarrow> unit result" where
  "require_worker_objective_result w ti attempt r =
     require_review (case vw_attempts w attempt of None \<Rightarrow> False | Some a \<Rightarrow>
       (case at_implementation a of None \<Rightarrow> False | Some im \<Rightarrow>
       (case im_candidate im of None \<Rightarrow> False | Some candidate \<Rightarrow>
         at_task a = ti_task_id ti \<and> at_role a = ''worker'' \<and> at_state a = ''completed''
         \<and> present is_token (at_session a) \<and> present is_token (at_turn a)
         \<and> at_session a = Some (im_thread im) \<and> at_turn a = Some (im_turn im)
         \<and> present (\<lambda>p. p \<noteq> []) (at_output_pointer a)
         \<and> at_evidence a = Some (wr_completion_evidence_fingerprint r) \<and> at_output a = Some (wr_accepted_result_identity r)
         \<and> im_task im = ti_task_id ti \<and> im_state im = ''recorded''
         \<and> candidate = (ti_base_sha ti, wr_candidate_sha r, wr_completion_evidence_fingerprint r, wr_accepted_result_identity r))))
       ''Worker objective result is missing, stale, or mismatched''"

definition row_result :: "objective_row \<Rightarrow> worker_objective_result option result" where
  "row_result row = (case (ob_candidate row, ob_evidence row, ob_accepted row) of
     (Some candidate, Some evidence, Some accepted) \<Rightarrow> bind_result (make_objective_result
       \<lparr>wr_candidate_sha = candidate, wr_completion_evidence_fingerprint = evidence, wr_accepted_result_identity = accepted\<rparr>) (\<lambda>r. Inr (Some r))
   | _ \<Rightarrow> Inr None)"

definition objective_projection :: "string \<Rightarrow> objective_row \<Rightarrow> worker_objective result" where
  "objective_projection objective row = (case objective_state_of (ob_state row) of
       None \<Rightarrow> Inl PyValueError
     | Some state \<Rightarrow>
       bind_result (if state = Objective_COMPLETED then row_result row else Inr None) (\<lambda>r.
       make_worker_objective \<lparr>wo_objective_id = objective, wo_task_id = ob_task row, wo_dispatch_sha = ob_dispatch row,
         wo_provider_attempt_id = ob_attempt row, wo_retry_identity = ob_retry row, wo_objective_digest = ob_digest row, wo_state = state,
         wo_result = r, wo_cancellation_reason_digest = (if state = Objective_CANCELLED then ob_reason row else None)\<rparr>))"

text \<open>The columns that identify an objective, with the retry identity of its attempt.\<close>

definition objective_columns :: "worker_objective \<Rightarrow> string \<Rightarrow> string \<times> string \<times> string \<times> string \<times> string" where
  "objective_columns x retry = (wo_task_id x, wo_dispatch_sha x, wo_provider_attempt_id x, retry, wo_objective_digest x)"

definition row_columns :: "objective_row \<Rightarrow> string \<times> string \<times> string \<times> string \<times> string" where
  "row_columns row = (ob_task row, ob_dispatch row, ob_attempt row, ob_retry row, ob_digest row)"

definition active_row :: "worker_objective \<Rightarrow> string \<Rightarrow> objective_row" where
  "active_row x retry = \<lparr>ob_task = wo_task_id x, ob_dispatch = wo_dispatch_sha x, ob_attempt = wo_provider_attempt_id x, ob_retry = retry,
     ob_digest = wo_objective_digest x, ob_state = ''active'', ob_candidate = None, ob_evidence = None, ob_accepted = None, ob_reason = None\<rparr>"

text \<open>The unique keys of the table besides the primary one.\<close>

definition objective_conflicts :: "objective_row \<Rightarrow> objective_row \<Rightarrow> bool" where
  "objective_conflicts a b \<longleftrightarrow> ob_attempt a = ob_attempt b \<or> ob_retry a = ob_retry b
     \<or> (ob_task a, ob_dispatch a, ob_digest a) = (ob_task b, ob_dispatch b, ob_digest b)"

definition start_objective ::
  "review_world \<Rightarrow> task_identity \<Rightarrow> worker_objective \<Rightarrow> transition_lease option \<Rightarrow> review_store \<Rightarrow> (review_store \<times> worker_objective) result" where
  "start_objective w ti x lease s =
     bind_result (require_review (wo_task_id x = ti_task_id ti) ''Worker objective task does not match its exact identity'') (\<lambda>_.
     bind_result (require_lifecycle_authority w ti lease) (\<lambda>_.
     bind_result (require_worker_dispatch w ti (wo_provider_attempt_id x) (wo_dispatch_sha x)) (\<lambda>retry.
     bind_result (require_review (wo_retry_identity x = retry) ''Worker objective retry identity is not the durable attempt identity'') (\<lambda>_.
     case map_of (objective_rows s) (wo_objective_id x) of
       None \<Rightarrow>
         if list_ex (\<lambda>(_, old). objective_conflicts old (active_row x retry)) (objective_rows s)
           then review_error ''Worker objective conflicts with an existing attempt'' else
         bind_result (objective_projection (wo_objective_id x) (active_row x retry)) (\<lambda>y.
         Inr (s\<lparr>objective_rows := objective_rows s @ [(wo_objective_id x, active_row x retry)]\<rparr>, y))
     | Some row \<Rightarrow>
         if row_columns row \<noteq> objective_columns x retry then review_error ''Worker objective identity conflicts with committed state'' else
         bind_result (objective_projection (wo_objective_id x) row) (\<lambda>y. Inr (s, y))))))"

definition set_objective :: "string \<Rightarrow> objective_row \<Rightarrow> review_store \<Rightarrow> review_store" where
  "set_objective objective row s = s\<lparr>objective_rows := AList.update objective row (objective_rows s)\<rparr>"

definition complete_row :: "worker_objective_result \<Rightarrow> objective_row \<Rightarrow> objective_row" where
  "complete_row r row = row\<lparr>ob_state := ''completed'', ob_candidate := Some (wr_candidate_sha r),
     ob_evidence := Some (wr_completion_evidence_fingerprint r), ob_accepted := Some (wr_accepted_result_identity r)\<rparr>"

definition cancel_row :: "string \<Rightarrow> objective_row \<Rightarrow> objective_row" where
  "cancel_row reason row = row\<lparr>ob_state := ''cancelled'', ob_reason := Some reason\<rparr>"

text \<open>
  \<open>_terminal_objective\<close>; the terminal is the result of a completion or the reason of a
  cancellation. The objective that is returned has the columns of the terminal row. The code projects
  it after the commit; the projection of a row with the columns of a constructed objective succeeds.
\<close>

definition terminal_objective ::
  "review_world \<Rightarrow> task_identity \<Rightarrow> worker_objective \<Rightarrow> transition_lease option \<Rightarrow> worker_objective_result + string \<Rightarrow> review_store
     \<Rightarrow> (review_store \<times> worker_objective) result" where
  "terminal_objective w ti x lease terminal s =
     bind_result (require_review (wo_task_id x = ti_task_id ti) ''Worker objective task does not match its exact identity'') (\<lambda>_.
     bind_result (require_lifecycle_authority w ti lease) (\<lambda>_.
     bind_result (require_worker_objective_attempt w ti (wo_provider_attempt_id x) (wo_dispatch_sha x)) (\<lambda>retry.
     let missing = review_error ''Worker objective is missing or has drifted'';
         conflict = ''Worker objective terminal replay conflicts with committed state'' in
     case map_of (objective_rows s) (wo_objective_id x) of
       None \<Rightarrow> missing
     | Some row \<Rightarrow>
       if row_columns row \<noteq> objective_columns x retry then missing else
       bind_result (case terminal of
           Inl r \<Rightarrow>
             if ob_state row = ''completed'' then
               bind_result (require_review ((ob_candidate row, ob_evidence row, ob_accepted row)
                   = (Some (wr_candidate_sha r), Some (wr_completion_evidence_fingerprint r), Some (wr_accepted_result_identity r))) conflict) (\<lambda>_.
               bind_result (require_current_candidate w ti (wr_candidate_sha r) lease) (\<lambda>_.
               bind_result (require_worker_objective_result w ti (wo_provider_attempt_id x) r) (\<lambda>_. Inr s)))
             else if ob_state row \<noteq> ''active'' then review_error ''Worker objective is already terminal'' else
               bind_result (require_current_candidate w ti (wr_candidate_sha r) lease) (\<lambda>_.
               bind_result (require_worker_objective_result w ti (wo_provider_attempt_id x) r) (\<lambda>_.
               Inr (set_objective (wo_objective_id x) (complete_row r row) s)))
         | Inr reason \<Rightarrow>
             if ob_state row = ''cancelled'' then bind_result (require_review (ob_reason row = Some reason) conflict) (\<lambda>_. Inr s)
             else if ob_state row \<noteq> ''active'' then review_error ''Worker objective is already terminal'' else
               Inr (set_objective (wo_objective_id x) (cancel_row reason row) s)) (\<lambda>s'.
       bind_result (objective_projection (wo_objective_id x) (the (map_of (objective_rows s') (wo_objective_id x)))) (\<lambda>y. Inr (s', y))))))"

definition complete_objective ::
  "review_world \<Rightarrow> task_identity \<Rightarrow> worker_objective \<Rightarrow> transition_lease option \<Rightarrow> worker_objective_result \<Rightarrow> review_store
     \<Rightarrow> (review_store \<times> worker_objective) result" where
  "complete_objective w ti x lease r s = terminal_objective w ti x lease (Inl r) s"

definition cancel_objective ::
  "review_world \<Rightarrow> task_identity \<Rightarrow> worker_objective \<Rightarrow> transition_lease option \<Rightarrow> string \<Rightarrow> review_store
     \<Rightarrow> (review_store \<times> worker_objective) result" where
  "cancel_objective w ti x lease reason s =
     bind_result (require_review (is_fingerprint reason) ''objective cancellation is invalid'') (\<lambda>_.
     terminal_objective w ti x lease (Inr reason) s)"

text \<open>
  \<open>_cancel_objective_for_recovery_connection\<close>: only after a persisted outcome that abandons the
  worker, and never while its completion evidence can still be verified.
\<close>

definition abandonment_actions :: "string set" where
  "abandonment_actions = {''blocked-stale-worker'', ''blocked-ambiguous-turn'', ''blocked-identity-drift'', ''blocked-retry-limit''}"

definition worker_abandoned :: "attempt_row \<Rightarrow> bool" where
  "worker_abandoned a \<longleftrightarrow> at_role a = ''worker'' \<and> at_state a \<in> {''blocked'', ''ambiguous''}
     \<and> (case at_outcome a of None \<Rightarrow> False | Some (action, blocker) \<Rightarrow> action \<in> abandonment_actions \<and> present is_token blocker)"

definition cancel_objective_for_recovery_connection ::
  "review_world \<Rightarrow> task_identity \<Rightarrow> string \<Rightarrow> string \<Rightarrow> review_store \<Rightarrow> (review_store \<times> worker_objective option) result" where
  "cancel_objective_for_recovery_connection w ti attempt reason s =
     bind_result (require_review (is_token attempt \<and> is_fingerprint reason) ''Worker recovery cancellation is invalid'') (\<lambda>_.
     bind_result (require_review (case vw_attempts w attempt of None \<Rightarrow> False | Some a \<Rightarrow> at_task a = ti_task_id ti \<and> worker_abandoned a)
       ''Worker recovery cancellation lacks terminal abandonment evidence'') (\<lambda>_.
     bind_result (require_review (case vw_attempts w attempt of None \<Rightarrow> False | Some a \<Rightarrow>
         \<not> (at_state a = ''ambiguous'' \<and> at_outcome a = Some (''blocked-ambiguous-turn'', Some ''completion-evidence-unverified'')))
       ''Worker recovery cancellation is unavailable while completion evidence remains recoverable'') (\<lambda>_.
     case List.find (\<lambda>(_, row). ob_task row = ti_task_id ti \<and> ob_attempt row = attempt) (objective_rows s) of
       None \<Rightarrow> Inr (s, None)
     | Some (objective, row) \<Rightarrow>
       bind_result (objective_projection objective row) (\<lambda>x.
       if wo_state x = Objective_COMPLETED then Inr (s, Some x) else
       if wo_state x = Objective_CANCELLED then
         bind_result (require_review (wo_cancellation_reason_digest x = Some reason)
           ''Worker objective terminal replay conflicts with committed state'') (\<lambda>_. Inr (s, Some x)) else
       bind_result (make_worker_objective (x\<lparr>wo_state := Objective_CANCELLED, wo_result := None, wo_cancellation_reason_digest := Some reason\<rparr>)) (\<lambda>y.
       Inr (set_objective objective (cancel_row reason row) s, Some y))))))"

definition cancel_objective_for_provider_attempt ::
  "review_world \<Rightarrow> task_identity \<Rightarrow> string \<Rightarrow> string \<Rightarrow> transition_lease option \<Rightarrow> review_store
     \<Rightarrow> (review_store \<times> worker_objective option) result" where
  "cancel_objective_for_provider_attempt w ti attempt reason lease s =
     bind_result (require_lifecycle_authority w ti lease) (\<lambda>_. cancel_objective_for_recovery_connection w ti attempt reason s)"

text \<open>A mismatch of the task raises a \<open>StateError\<close> here, which no caller converts.\<close>

definition read_objective :: "review_world \<Rightarrow> task_identity \<Rightarrow> string \<Rightarrow> review_store \<Rightarrow> worker_objective result" where
  "read_objective w ti objective s =
     bind_result (require_review (is_token objective) ''Worker objective identity is invalid'') (\<lambda>_.
     bind_result (case vw_task_failure w ti of None \<Rightarrow> Inr () | Some why \<Rightarrow> Inl (PyStateError why)) (\<lambda>_.
     case map_of (objective_rows s) objective of
       None \<Rightarrow> review_error ''Worker objective is unavailable''
     | Some row \<Rightarrow>
       bind_result (objective_projection objective row) (\<lambda>x.
       bind_result (case wo_state x of
           Objective_COMPLETED \<Rightarrow> require_worker_objective_result w ti (wo_provider_attempt_id x) (the (wo_result x))
         | Objective_ACTIVE \<Rightarrow> bind_result (require_worker_objective_attempt w ti (wo_provider_attempt_id x) (wo_dispatch_sha x)) (\<lambda>_. Inr ())
         | Objective_CANCELLED \<Rightarrow> Inr ()) (\<lambda>_. Inr x))))"

section \<open>Owner commands\<close>

definition OWNER_ALLOWLIST :: "string list" where
  "OWNER_ALLOWLIST = [''ythdelmar68'']"

definition owner_scope_digest :: "owner_command \<Rightarrow> string result" where
  "owner_scope_digest c = ascii_digest (join_units [owner_kind_value (oc_kind c), oc_task_id c, oc_candidate_sha c, oc_target_item_id c,
     oc_owner_identity c, oc_authority_grant_id c])"

definition owner_authority_digest :: "string \<Rightarrow> string \<Rightarrow> string \<Rightarrow> string \<Rightarrow> string result" where
  "owner_authority_digest owner scope task candidate =
     ascii_digest (join_units ([''review-owner-authority/v1'', owner, scope, task, candidate] @ sort OWNER_ALLOWLIST))"

text \<open>\<open>_valid_owner_grant\<close> on the columns of a grant; the digest is computed last.\<close>

definition valid_owner_grant :: "grant_row option \<Rightarrow> string \<Rightarrow> string \<Rightarrow> string \<Rightarrow> string \<Rightarrow> bool result" where
  "valid_owner_grant grant owner scope task candidate = (case grant of
       None \<Rightarrow> Inr False
     | Some g \<Rightarrow>
       if (gr_owner g, gr_scope g, gr_task g, gr_candidate g) \<noteq> (owner, scope, task, candidate) \<or> gr_state g \<noteq> ''active''
          \<or> owner \<notin> set OWNER_ALLOWLIST then Inr False else
       bind_result (owner_authority_digest owner scope task candidate) (\<lambda>d. Inr (gr_authority g = d)))"

definition owner_command_target :: "task_identity \<Rightarrow> string \<Rightarrow> string \<Rightarrow> review_store \<Rightarrow> bool" where
  "owner_command_target ti item candidate s = (case map_of (item_rows s) item of
     None \<Rightarrow> False
   | Some row \<Rightarrow> it_task row = ti_task_id ti \<and>
       (it_candidate row = candidate \<or> (it_kind row, it_source row) = (''pass-follow-up'', ''accepted-review'')))"

definition command_columns :: "owner_command \<Rightarrow> string \<Rightarrow> command_row" where
  "command_columns c scope = \<lparr>cm_task = oc_task_id c, cm_kind = owner_kind_value (oc_kind c), cm_owner = oc_owner_identity c,
     cm_grant = oc_authority_grant_id c, cm_target = oc_target_item_id c, cm_candidate = oc_candidate_sha c, cm_digest = oc_command_digest c,
     cm_scope = scope, cm_key = oc_idempotency_key c, cm_state = ''pending'', cm_result = None\<rparr>"

definition queue_owner_command ::
  "review_world \<Rightarrow> task_identity \<Rightarrow> owner_command \<Rightarrow> transition_lease option \<Rightarrow> review_store \<Rightarrow> (review_store \<times> owner_command) result" where
  "queue_owner_command w ti c lease s =
     bind_result (require_review (oc_task_id c = ti_task_id ti) ''owner command task does not match its exact identity'') (\<lambda>_.
     bind_result (require_lifecycle_authority w ti lease) (\<lambda>_.
     bind_result (require_current_candidate w ti (oc_candidate_sha c) lease) (\<lambda>_.
     bind_result (require_review (owner_command_target ti (oc_target_item_id c) (oc_candidate_sha c) s)
       ''owner command target is stale or outside its scope'') (\<lambda>_.
     bind_result (owner_scope_digest c) (\<lambda>scope.
     bind_result (valid_owner_grant (vw_grants w (oc_authority_grant_id c)) (oc_owner_identity c) (owner_kind_value (oc_kind c))
       (ti_task_id ti) (oc_candidate_sha c)) (\<lambda>valid.
     bind_result (require_review valid ''owner command lacks a current allowlisted authority grant'') (\<lambda>_.
     case map_of (command_rows s) (oc_command_id c) of
       None \<Rightarrow>
         if list_ex (\<lambda>(_, row). cm_key row = oc_idempotency_key c) (command_rows s)
         then review_error ''owner command idempotency key conflicts with committed state''
         else Inr (s\<lparr>command_rows := command_rows s @ [(oc_command_id c, command_columns c scope)]\<rparr>, c)
     | Some row \<Rightarrow>
         if row\<lparr>cm_state := ''pending'', cm_result := None\<rparr> \<noteq> command_columns c scope
         then review_error ''owner command identity conflicts with committed state'' else Inr (s, c))))))))"

definition terminal_item :: "string \<Rightarrow> string \<Rightarrow> item_row \<Rightarrow> item_row" where
  "terminal_item kind command row =
     (if kind = owner_kind_value RESOLVE_REVIEW_ITEM
      then row\<lparr>it_disposition := ''resolved'', it_verification := ''verified'', it_resolved := Some command\<rparr>
      else row\<lparr>it_disposition := ''waived'', it_verification := ''waived'', it_resolved := Some command\<rparr>)"

definition set_item :: "string \<Rightarrow> item_row \<Rightarrow> review_store \<Rightarrow> review_store" where
  "set_item item row s = s\<lparr>item_rows := AList.update item row (item_rows s)\<rparr>"

definition set_command :: "string \<Rightarrow> command_row \<Rightarrow> review_store \<Rightarrow> review_store" where
  "set_command command row s = s\<lparr>command_rows := AList.update command row (command_rows s)\<rparr>"

text \<open>
  The row that the join of a command with its grant yields: all of the grant but its owner, whose
  place the command's owner takes.
\<close>

definition command_grant :: "review_world \<Rightarrow> command_row \<Rightarrow> grant_row option" where
  "command_grant w c = map_option (\<lambda>g. g\<lparr>gr_owner := cm_owner c\<rparr>) (vw_grants w (cm_grant c))"

definition consume_owner_command ::
  "review_world \<Rightarrow> task_identity \<Rightarrow> string \<Rightarrow> transition_lease option \<Rightarrow> string \<Rightarrow> review_store \<Rightarrow> (review_store \<times> item_projection) result" where
  "consume_owner_command w ti command lease result_digest s =
     bind_result (require_review (is_token command \<and> is_fingerprint result_digest) ''owner command consumption is invalid'') (\<lambda>_.
     bind_result (require_lifecycle_authority w ti lease) (\<lambda>_.
     let missing = review_error ''owner command is missing or outside its exact task'' in
     case map_of (command_rows s) command of None \<Rightarrow> missing | Some c \<Rightarrow>
     if cm_task c \<noteq> ti_task_id ti \<or> command_grant w c = None then missing else
     bind_result (valid_owner_grant (command_grant w c) (cm_owner c) (cm_kind c) (ti_task_id ti) (cm_candidate c)) (\<lambda>valid.
     bind_result (require_review valid ''owner command authority is stale or no longer allowlisted'') (\<lambda>_.
     bind_result (require_current_candidate w ti (cm_candidate c) lease) (\<lambda>_.
     let stale = review_error ''owner command target is stale or outside its scope'' in
     case map_of (item_rows s) (cm_target c) of None \<Rightarrow> stale | Some item \<Rightarrow>
     if it_task item \<noteq> ti_task_id ti then stale else
     if cm_state c = ''consumed'' then
       bind_result (require_review (cm_result c = Some result_digest \<and> it_resolved item = Some command)
         ''owner command terminal replay conflicts with committed state'') (\<lambda>_.
       bind_result (projection (cm_target c) item) (\<lambda>p. Inr (s, p))) else
     bind_result (require_review (cm_state c = ''pending'' \<and> it_disposition item = ''pending'')
       ''owner command conflicts with an already terminal item'') (\<lambda>_.
     if list_ex (\<lambda>(_, row). it_resolved row = Some command) (item_rows s) then Inl PyIntegrityError else
     bind_result (projection (cm_target c) (terminal_item (cm_kind c) command item)) (\<lambda>p.
     Inr (set_command command (c\<lparr>cm_state := ''consumed'', cm_result := Some result_digest\<rparr>)
            (set_item (cm_target c) (terminal_item (cm_kind c) command item) s), p))))))))"

section \<open>Blockers\<close>

text \<open>\<open>str(UUID(value)) == value\<close>: lower-case hexadecimal digits in groups of 8, 4, 4, 4 and 12.\<close>

definition is_state_identity :: "string \<Rightarrow> bool" where
  "is_state_identity s \<longleftrightarrow> length s = 36 \<and>
     list_all (\<lambda>(i, c). if i \<in> {8, 13, 18, 23} then c = CHR ''-'' else is_hex c) (zip [0..<36] s)"

record owner_blocker_receipt =
  br_task_id :: string
  br_repository_id :: string
  br_candidate_sha :: string
  br_seal_state_identity :: string
  br_blockers_pending :: bool
  br_blocker_state_digest :: string
  br_receipt_identity :: string

definition blocker_receipt_fields :: "owner_blocker_receipt \<Rightarrow> (string \<times> json) list" where
  "blocker_receipt_fields r =
     [(''schema'', JStr ''roundwright-owner-blocker-state-receipt/v1''), (''task_id'', JStr (br_task_id r)),
      (''repository_id'', JStr (br_repository_id r)), (''candidate_sha'', JStr (br_candidate_sha r)),
      (''seal_state_identity'', JStr (br_seal_state_identity r)), (''blockers_pending'', JBool (br_blockers_pending r)),
      (''blocker_state_digest'', JStr (br_blocker_state_digest r))]"

definition owner_blocker_receipt_identity :: "owner_blocker_receipt \<Rightarrow> string" where
  "owner_blocker_receipt_identity r = hex_digest (JObj (blocker_receipt_fields r))"

definition blocker_receipt_guards :: "owner_blocker_receipt \<Rightarrow> (bool \<times> py_error) list" where
  "blocker_receipt_guards r =
     [(is_token (br_task_id r) \<and> is_token (br_repository_id r) \<and> is_sha (br_candidate_sha r) \<and> is_state_identity (br_seal_state_identity r)
         \<and> is_fingerprint (br_blocker_state_digest r) \<and> br_receipt_identity r = owner_blocker_receipt_identity r,
       ReviewLifecycleError ''owner blocker state receipt is invalid'')]"

definition make_blocker_receipt :: "owner_blocker_receipt \<Rightarrow> owner_blocker_receipt result" where
  "make_blocker_receipt r = construct (blocker_receipt_guards r) r"

text \<open>A pending blocking follow-up of an accepted review.\<close>

definition is_blocker :: "string \<Rightarrow> item_row \<Rightarrow> bool" where
  "is_blocker task row \<longleftrightarrow> it_task row = task \<and> it_kind row = ''pass-follow-up'' \<and> it_source row = ''accepted-review''
     \<and> it_blocker row = ''blocking'' \<and> it_disposition row = ''pending''"

text \<open>\<open>ORDER BY\<close> the columns from the first on; the first is the primary key, so it decides.\<close>

definition pending_blockers :: "string \<Rightarrow> review_store \<Rightarrow> (string \<times> item_row) list" where
  "pending_blockers task s = sort_key fst (filter (\<lambda>(_, row). is_blocker task row) (item_rows s))"

definition blocker_row_ok :: "string \<times> item_row \<Rightarrow> bool" where
  "blocker_row_ok = (\<lambda>(item, row). is_token item \<and> is_sha (it_candidate row) \<and> is_token (it_attempt row) \<and> is_fingerprint (it_content row)
     \<and> is_token (it_destination row) \<and> (it_verification row, it_disposition row) = (''pending'', ''pending''))"

definition blocker_json :: "string \<times> item_row \<Rightarrow> json" where
  "blocker_json = (\<lambda>(item, row). JObj
     [(''item_id'', JStr item), (''provenance_candidate_sha'', JStr (it_candidate row)), (''source_attempt_id'', JStr (it_attempt row)),
      (''content_digest'', JStr (it_content row)), (''destination'', JStr (it_destination row)),
      (''verification_state'', JStr (it_verification row)), (''disposition'', JStr (it_disposition row))])"

definition owner_blocker_state_receipt :: "review_world \<Rightarrow> string \<Rightarrow> string \<Rightarrow> review_store \<Rightarrow> owner_blocker_receipt result" where
  "owner_blocker_state_receipt w task candidate s =
     bind_result (require_review (is_token task \<and> is_sha candidate) ''owner blocker state scope is invalid'') (\<lambda>_.
     let unsealed = review_error ''owner blocker state lacks the exact current candidate seal'' in
     case (vw_seals w task, vw_repositories w task) of
       (Some (sealed, state), Some repository) \<Rightarrow>
         if sealed \<noteq> candidate \<or> \<not> is_state_identity state \<or> \<not> is_token repository then unsealed else
         (let rows = pending_blockers task s in
          bind_result (require_review (list_all blocker_row_ok rows) ''owner blocker state is invalid'') (\<lambda>_.
          let r = \<lparr>br_task_id = task, br_repository_id = repository, br_candidate_sha = candidate, br_seal_state_identity = state,
                   br_blockers_pending = (rows \<noteq> []), br_blocker_state_digest = hex_digest (JList (map blocker_json rows)),
                   br_receipt_identity = []\<rparr> in
          make_blocker_receipt (r\<lparr>br_receipt_identity := owner_blocker_receipt_identity r\<rparr>)))
     | _ \<Rightarrow> unsealed)"

definition unresolved_final_gate_blockers :: "review_world \<Rightarrow> string \<Rightarrow> string \<Rightarrow> review_store \<Rightarrow> bool result" where
  "unresolved_final_gate_blockers w task candidate s =
     bind_result (owner_blocker_state_receipt w task candidate s) (\<lambda>r. Inr (br_blockers_pending r))"

section \<open>The owner's view\<close>

definition newline :: string where
  "newline = [CHR 0x0A]"

fun join_lines :: "string list \<Rightarrow> string" where
  "join_lines [] = []"
| "join_lines [x] = x"
| "join_lines (x # y # ys) = x @ newline @ join_lines (y # ys)"

definition item_line :: "string \<times> item_row \<Rightarrow> string" where
  "item_line = (\<lambda>(item, row). ''item='' @ item @ '' kind='' @ it_kind row @ '' disposition='' @ it_disposition row @ '' verification=''
     @ it_verification row @ '' blocking='' @ it_blocker row @ '' destination='' @ it_destination row)"

definition command_line :: "string \<times> command_row \<Rightarrow> string" where
  "command_line = (\<lambda>(command, row). ''command='' @ command @ '' kind='' @ cm_kind row @ '' target='' @ cm_target row @ '' state='' @ cm_state row)"

definition view_items :: "string \<Rightarrow> string \<Rightarrow> review_store \<Rightarrow> (string \<times> item_row) list" where
  "view_items task candidate s = sort_key fst (filter (\<lambda>(_, row). it_task row = task \<and>
     (it_candidate row = candidate \<or> it_kind row = ''pass-follow-up'' \<and> it_source row = ''accepted-review'')) (item_rows s))"

definition view_commands :: "string \<Rightarrow> string \<Rightarrow> review_store \<Rightarrow> (string \<times> command_row) list" where
  "view_commands task candidate s = sort_key fst (filter (\<lambda>(_, row). cm_task row = task \<and> cm_candidate row = candidate) (command_rows s))"

definition render_owner_view :: "string \<Rightarrow> string \<Rightarrow> review_store \<Rightarrow> string result" where
  "render_owner_view task candidate s =
     bind_result (require_review (is_token task \<and> is_sha candidate) ''owner rendering scope is invalid'') (\<lambda>_.
     Inr (join_lines (''review-items'' # map item_line (view_items task candidate s)
       @ ''owner-commands'' # map command_line (view_commands task candidate s))))"

end
