(* ===== verification/Review_Safety.thy ===== *)
theory Review_Safety
  imports Review_Lifecycle Gates_Ready
begin

text \<open>
  Safety of the review life cycle over arbitrary histories of its operations, in worlds that may
  change between any two of them: who released a review item, how objectives end, and what the final
  gates may conclude from the absence of blockers.
\<close>

section \<open>Histories\<close>

text \<open>
  \<open>Record_accepted\<close> and \<open>Cancel_recovery\<close> are the two operations that other components run inside
  their own transactions.
\<close>

datatype review_op =
    Record_item task_identity review_item "transition_lease option"
  | Record_accepted task_identity review_item
  | Start task_identity worker_objective "transition_lease option"
  | Complete task_identity worker_objective "transition_lease option" worker_objective_result
  | Cancel task_identity worker_objective "transition_lease option" string
  | Cancel_attempt task_identity string string "transition_lease option"
  | Cancel_recovery task_identity string string
  | Queue task_identity owner_command "transition_lease option"
  | Consume_command task_identity string "transition_lease option" string

definition committed :: "('a \<times> 'b) result \<Rightarrow> 'a result" where
  "committed m = bind_result m (\<lambda>(s, _). Inr s)"

fun run_review :: "review_world \<Rightarrow> review_op \<Rightarrow> review_store \<Rightarrow> review_store result" where
  "run_review w (Record_item ti i lease) s = committed (record_review_item w ti i lease s)"
| "run_review w (Record_accepted ti i) s = committed (record_review_item_connection w ti i s)"
| "run_review w (Start ti x lease) s = committed (start_objective w ti x lease s)"
| "run_review w (Complete ti x lease r) s = committed (complete_objective w ti x lease r s)"
| "run_review w (Cancel ti x lease reason) s = committed (cancel_objective w ti x lease reason s)"
| "run_review w (Cancel_attempt ti attempt reason lease) s = committed (cancel_objective_for_provider_attempt w ti attempt reason lease s)"
| "run_review w (Cancel_recovery ti attempt reason) s = committed (cancel_objective_for_recovery_connection w ti attempt reason s)"
| "run_review w (Queue ti c lease) s = committed (queue_owner_command w ti c lease s)"
| "run_review w (Consume_command ti command lease result_digest) s = committed (consume_owner_command w ti command lease result_digest s)"

text \<open>Callers pass values built by the constructors, and items of the task they act for.\<close>

fun review_op_ok :: "review_op \<Rightarrow> bool" where
  "review_op_ok (Record_item ti i lease) \<longleftrightarrow> list_all fst (review_item_guards i)"
| "review_op_ok (Record_accepted ti i) \<longleftrightarrow> list_all fst (review_item_guards i) \<and> ri_task_id i = ti_task_id ti"
| "review_op_ok (Start ti x lease) \<longleftrightarrow> list_all fst (worker_objective_guards x)"
| "review_op_ok (Complete ti x lease r) \<longleftrightarrow> list_all fst (worker_objective_guards x) \<and> make_objective_result r = Inr r"
| "review_op_ok (Cancel ti x lease reason) \<longleftrightarrow> list_all fst (worker_objective_guards x)"
| "review_op_ok (Queue ti c lease) \<longleftrightarrow> list_all fst (owner_command_guards c)"
| "review_op_ok _ \<longleftrightarrow> True"

type_synonym review_label = "review_world \<times> review_op \<times> bool"

fun review_step :: "review_store \<Rightarrow> review_label \<Rightarrow> review_store \<Rightarrow> bool" where
  "review_step s (w, op, ok) s' \<longleftrightarrow> review_op_ok op \<and>
     (case run_review w op s of Inl _ \<Rightarrow> \<not> ok \<and> s' = s | Inr u \<Rightarrow> ok \<and> s' = u)"

definition empty_store :: review_store where
  "empty_store = \<lparr>item_rows = [], provenance_rows = [], objective_rows = [], command_rows = []\<rparr>"

lemma require_review_Inr [simp]: "require_review p why = Inr u \<longleftrightarrow> p"
  by (simp add: require_review_def)

lemma committed_Inr: "committed m = Inr s \<longleftrightarrow> (\<exists>x. m = Inr (s, x))"
  by (auto simp: committed_def bind_result_Inr_iff)

lemma integrity_as_Inr [simp]: "integrity_as why m = Inr x \<longleftrightarrow> m = Inr x"
  by (auto simp: integrity_as_def split: sum.split py_error.split)

section \<open>What a successful operation did\<close>

lemma add_provenance_sel [simp]:
  "item_rows (add_provenance item i owner s) = item_rows s" "objective_rows (add_provenance item i owner s) = objective_rows s"
  "command_rows (add_provenance item i owner s) = command_rows s"
  by (simp_all add: add_provenance_def)

text \<open>A recorded item is there afterwards under its semantic key; at most one row was added.\<close>

lemma item_record_effect:
  assumes "record_review_item_connection w ti i s = Inr (s', p)"
  shows "command_rows s' = command_rows s \<and> objective_rows s' = objective_rows s \<and>
    (item_rows s' = item_rows s \<and> (\<exists>item row. (item, row) \<in> set (item_rows s) \<and> semantic_key row = item_key i
         \<and> it_blocker row = blocker_value (ri_blocking i) \<and> it_destination row = ri_destination i)
     \<or> (\<exists>owner. item_rows s' = item_rows s @ [(ri_item_id i, new_item_row i owner)]
         \<and> map_of (item_rows s) (ri_item_id i) = None \<and> (\<forall>(_, row) \<in> set (item_rows s). semantic_key row \<noteq> item_key i)))"
proof -
  from assms obtain owner where "require_accepted_review w ti i = Inr owner" by (auto simp: record_review_item_connection_def bind_result_Inr_iff)
  note run = assms [unfolded record_review_item_connection_def this bind_result.simps]
  show ?thesis
  proof (cases "map_of (item_rows s) (ri_item_id i)")
    case (Some row)
    with run have "same_item i row" "\<exists>item. s' = add_provenance item i owner s" by (auto simp: bind_result_Inr_iff split: if_split_asm)
    then show ?thesis using map_of_SomeD [OF Some] by (auto simp: same_item_def semantic_key_def item_key_def)
  next
    case None
    show ?thesis
    proof (cases "List.find (\<lambda>(_, row). semantic_key row = item_key i) (item_rows s)")
      case (Some x)
      then obtain item row where x: "x = (item, row)" "(item, row) \<in> set (item_rows s)" "semantic_key row = item_key i"
        using find_SomeD by (cases x) fastforce
      then show ?thesis using run None Some by (auto simp: bind_result_Inr_iff split: if_split_asm)
    next
      case find: None
      then have "\<forall>(_, row) \<in> set (item_rows s). semantic_key row \<noteq> item_key i" by (auto simp: find_None_iff)
      then show ?thesis using run None find by (auto split: if_split_asm)
    qed
  qed
qed

lemma record_item_effect:
  "record_review_item w ti i lease s = Inr (s', p) \<Longrightarrow> ri_task_id i = ti_task_id ti \<and> record_review_item_connection w ti i s = Inr (s', p)"
  by (auto simp: record_review_item_def bind_result_Inr_iff)

lemma set_rows_sel [simp]:
  "map_of (item_rows (set_item item row s)) = (map_of (item_rows s))(item \<mapsto> row)" "command_rows (set_item item row s) = command_rows s"
  "objective_rows (set_item item row s) = objective_rows s" "item_rows (set_command c r s) = item_rows s"
  "map_of (command_rows (set_command c r s)) = (map_of (command_rows s))(c \<mapsto> r)" "objective_rows (set_command c r s) = objective_rows s"
  "map_of (objective_rows (set_objective o' x s)) = (map_of (objective_rows s))(o' \<mapsto> x)" "item_rows (set_objective o' x s) = item_rows s"
  "command_rows (set_objective o' x s) = command_rows s"
  by (simp_all add: set_item_def set_command_def set_objective_def AList.update_conv')

text \<open>The owner's authority behind a command, as a grant in force shows it.\<close>

definition owner_authorized :: "review_world \<Rightarrow> string \<Rightarrow> command_row \<Rightarrow> bool" where
  "owner_authorized w task c \<longleftrightarrow>
     (\<exists>g. vw_grants w (cm_grant c) = Some g \<and> gr_state g = ''active'' \<and> gr_scope g = cm_kind c \<and> gr_task g = task
        \<and> gr_candidate g = cm_candidate c \<and> cm_owner c \<in> set OWNER_ALLOWLIST
        \<and> owner_authority_digest (cm_owner c) (cm_kind c) task (cm_candidate c) = Inr (gr_authority g))
     \<and> (\<exists>state. vw_seals w task = Some (cm_candidate c, state))"

lemma command_consume_effect:
  assumes "consume_owner_command w ti command lease result_digest s = Inr (s', p)"
  obtains (replay) c row where "s' = s" "map_of (command_rows s) command = Some c" "cm_task c = ti_task_id ti" "cm_state c = ''consumed''"
      "cm_result c = Some result_digest" "map_of (item_rows s) (cm_target c) = Some row" "it_resolved row = Some command"
      "projection (cm_target c) row = Inr p" "owner_authorized w (ti_task_id ti) c"
  | (consumed) c row where "map_of (command_rows s) command = Some c" "cm_task c = ti_task_id ti" "cm_state c = ''pending''"
      "map_of (item_rows s) (cm_target c) = Some row" "it_task row = ti_task_id ti" "it_disposition row = ''pending''"
      "owner_authorized w (ti_task_id ti) c" "projection (cm_target c) (terminal_item (cm_kind c) command row) = Inr p"
      "s' = set_command command (c\<lparr>cm_state := ''consumed'', cm_result := Some result_digest\<rparr>)
              (set_item (cm_target c) (terminal_item (cm_kind c) command row) s)"
proof -
  from assms obtain c where c: "map_of (command_rows s) command = Some c" "cm_task c = ti_task_id ti" "command_grant w c \<noteq> None"
    by (auto simp: consume_owner_command_def bind_result_Inr_iff Let_def split: option.split_asm if_split_asm)
  note run = assms [unfolded consume_owner_command_def Let_def c(1) option.case]
  from run c obtain row where
    valid: "valid_owner_grant (command_grant w c) (cm_owner c) (cm_kind c) (ti_task_id ti) (cm_candidate c) = Inr True"
    and seal: "require_current_candidate w ti (cm_candidate c) lease = Inr ()"
    and row: "map_of (item_rows s) (cm_target c) = Some row" "it_task row = ti_task_id ti"
    by (auto simp: bind_result_Inr_iff split: option.split_asm if_split_asm)
  have auth: "owner_authorized w (ti_task_id ti) c" using valid seal
    by (auto simp: owner_authorized_def valid_owner_grant_def command_grant_def require_current_candidate_def bind_result_Inr_iff
        split: option.split_asm if_split_asm)
  show thesis
  proof (cases "cm_state c = ''consumed''")
    case True
    show thesis by (rule replay [of c row]) (use run c row auth True in \<open>auto simp: bind_result_Inr_iff split: option.split_asm if_split_asm\<close>)
  next
    case False
    show thesis by (rule consumed [of c row]) (use run c row auth False in \<open>auto simp: bind_result_Inr_iff split: option.split_asm if_split_asm\<close>)
  qed
qed

lemma queue_effect:
  assumes "queue_owner_command w ti c lease s = Inr (s', x)"
  shows "s' = s \<or> (\<exists>scope. map_of (command_rows s) (oc_command_id c) = None
    \<and> (\<forall>(_, row) \<in> set (command_rows s). cm_key row \<noteq> oc_idempotency_key c)
    \<and> s' = s\<lparr>command_rows := command_rows s @ [(oc_command_id c, command_columns c scope)]\<rparr>)"
  using assms unfolding queue_owner_command_def bind_result_Inr_iff
  by (cases "map_of (command_rows s) (oc_command_id c)") (auto simp: list_ex_iff split: if_split_asm)

text \<open>Operations on objectives write one row of their table, if any.\<close>

lemma start_effect:
  assumes "start_objective w ti x lease s = Inr (s', y)"
  shows "\<exists>retry. objective_projection (wo_objective_id x) (active_row x retry) = Inr y \<and> map_of (objective_rows s) (wo_objective_id x) = None
      \<and> (\<forall>(_, old) \<in> set (objective_rows s). \<not> objective_conflicts old (active_row x retry))
      \<and> s' = s\<lparr>objective_rows := objective_rows s @ [(wo_objective_id x, active_row x retry)]\<rparr>
    \<or> s' = s"
  using assms unfolding start_objective_def bind_result_Inr_iff
  by (cases "map_of (objective_rows s) (wo_objective_id x)") (auto simp: bind_result_Inr_iff list_ex_iff split: if_split_asm)

lemma terminal_effect:
  assumes "terminal_objective w ti x lease terminal s = Inr (s', y)"
  shows "s' = s \<or> (\<exists>row. map_of (objective_rows s) (wo_objective_id x) = Some row \<and> ob_state row = ''active'' \<and> ob_task row = ti_task_id ti
      \<and> ob_attempt row = wo_provider_attempt_id x
      \<and> (case terminal of
           Inl r \<Rightarrow> require_current_candidate w ti (wr_candidate_sha r) lease = Inr () \<and> require_worker_objective_result w ti (ob_attempt row) r = Inr ()
             \<and> s' = set_objective (wo_objective_id x) (complete_row r row) s
         | Inr reason \<Rightarrow> s' = set_objective (wo_objective_id x) (cancel_row reason row) s))"
proof -
  from assms obtain retry row where row: "map_of (objective_rows s) (wo_objective_id x) = Some row" "row_columns row = objective_columns x retry"
    and task: "wo_task_id x = ti_task_id ti"
    by (auto simp: terminal_objective_def bind_result_Inr_iff Let_def split: option.split_asm if_split_asm)
  then have "ob_task row = ti_task_id ti" "ob_attempt row = wo_provider_attempt_id x" by (simp_all add: row_columns_def objective_columns_def)
  with assms row show ?thesis unfolding terminal_objective_def
    by (cases terminal) (auto simp: bind_result_Inr_iff Let_def split: if_split_asm)
qed

lemma recovery_cancel_effect:
  assumes "cancel_objective_for_recovery_connection w ti attempt reason s = Inr (s', y)"
  shows "s' = s \<or> (\<exists>objective row. (objective, row) \<in> set (objective_rows s) \<and> ob_state row = ''active'' \<and> is_fingerprint reason
    \<and> s' = set_objective objective (cancel_row reason row) s)"
proof (cases "s' = s")
  case False
  with assms obtain objective row x where
    find: "List.find (\<lambda>(_, row). ob_task row = ti_task_id ti \<and> ob_attempt row = attempt) (objective_rows s) = Some (objective, row)"
    and x: "objective_projection objective row = Inr x" "wo_state x \<noteq> Objective_COMPLETED" "wo_state x \<noteq> Objective_CANCELLED"
    and "is_fingerprint reason" "s' = set_objective objective (cancel_row reason row) s"
    by (auto simp: cancel_objective_for_recovery_connection_def bind_result_Inr_iff split: option.split_asm if_split_asm)
  moreover have "ob_state row = ''active''"
    using x by (auto simp: objective_projection_def objective_state_of_def enum_of_def make_worker_objective_def bind_result_Inr_iff
        split: option.split_asm if_split_asm)
  ultimately show ?thesis using find_SomeD [OF find] by blast
qed simp

section \<open>The invariant of items and commands\<close>

definition item_text_ok :: "string \<Rightarrow> item_row \<Rightarrow> bool" where
  "item_text_ok item row \<longleftrightarrow> is_token item \<and> is_sha (it_candidate row) \<and> is_token (it_attempt row) \<and> is_fingerprint (it_content row)
     \<and> is_token (it_destination row) \<and> it_blocker row \<in> {''blocking'', ''non-blocking''}
     \<and> (it_kind row, it_source row) \<in> {(''pass-follow-up'', ''accepted-review''), (''finding'', ''supervisor-finding'')}"

text \<open>Pending, or released by the consumed command that the row names.\<close>

definition item_state_ok :: "review_store \<Rightarrow> string \<Rightarrow> item_row \<Rightarrow> bool" where
  "item_state_ok s item row \<longleftrightarrow>
     (it_disposition row, it_verification row, it_resolved row) = (''pending'', ''pending'', None)
     \<or> (\<exists>command c. it_resolved row = Some command \<and> map_of (command_rows s) command = Some c \<and> cm_state c = ''consumed''
          \<and> cm_target c = item \<and> cm_task c = it_task row
          \<and> (it_disposition row, it_verification row)
              = (if cm_kind c = owner_kind_value RESOLVE_REVIEW_ITEM then (''resolved'', ''verified'') else (''waived'', ''waived'')))"

definition command_ok :: "review_store \<Rightarrow> string \<Rightarrow> command_row \<Rightarrow> bool" where
  "command_ok s command c \<longleftrightarrow> cm_kind c \<in> range owner_kind_value \<and>
     (if cm_state c = ''pending'' then cm_result c = None else
      cm_state c = ''consumed'' \<and> cm_result c \<noteq> None \<and>
      (\<exists>row. map_of (item_rows s) (cm_target c) = Some row \<and> it_resolved row = Some command))"

definition items_ok :: "review_store \<Rightarrow> bool" where
  "items_ok s \<longleftrightarrow> distinct (map fst (item_rows s))
     \<and> (\<forall>item row. map_of (item_rows s) item = Some row \<longrightarrow> item_text_ok item row \<and> item_state_ok s item row)
     \<and> (\<forall>a b ra rb. map_of (item_rows s) a = Some ra \<longrightarrow> map_of (item_rows s) b = Some rb \<longrightarrow> semantic_key ra = semantic_key rb \<longrightarrow> a = b)"

definition commands_ok :: "review_store \<Rightarrow> bool" where
  "commands_ok s \<longleftrightarrow> (\<forall>command c. map_of (command_rows s) command = Some c \<longrightarrow> command_ok s command c)
     \<and> (\<forall>a b ca cb. map_of (command_rows s) a = Some ca \<longrightarrow> map_of (command_rows s) b = Some cb \<longrightarrow> cm_key ca = cm_key cb \<longrightarrow> a = b)"

lemma items_okD:
  assumes "items_ok s" "map_of (item_rows s) item = Some row"
  shows "item_text_ok item row" "item_state_ok s item row"
  using assms by (simp_all add: items_ok_def)

lemma items_ok_unique:
  "items_ok s \<Longrightarrow> map_of (item_rows s) a = Some ra \<Longrightarrow> map_of (item_rows s) b = Some rb \<Longrightarrow> semantic_key ra = semantic_key rb \<Longrightarrow> a = b"
  by (simp add: items_ok_def)

lemma commands_okD: "commands_ok s \<Longrightarrow> map_of (command_rows s) command = Some c \<Longrightarrow> command_ok s command c"
  by (simp add: commands_ok_def)

lemma commands_ok_unique:
  "commands_ok s \<Longrightarrow> map_of (command_rows s) a = Some ca \<Longrightarrow> map_of (command_rows s) b = Some cb \<Longrightarrow> cm_key ca = cm_key cb \<Longrightarrow> a = b"
  by (simp add: commands_ok_def)

lemma new_item_ok:
  assumes "list_all fst (review_item_guards i)"
  shows "item_text_ok (ri_item_id i) (new_item_row i owner)" "item_state_ok s (ri_item_id i) (new_item_row i owner)"
    "semantic_key (new_item_row i owner) = item_key i"
  using assms by (auto simp: item_text_ok_def item_state_ok_def new_item_row_def review_item_guards_def blocker_value_def semantic_key_def item_key_def)

lemma record_keeps_items:
  assumes ok: "items_ok s" "commands_ok s" and guards: "list_all fst (review_item_guards i)"
    and rows: "item_rows s' = item_rows s @ [(ri_item_id i, new_item_row i owner)]" "command_rows s' = command_rows s"
    and fresh: "map_of (item_rows s) (ri_item_id i) = None" "\<forall>(_, row) \<in> set (item_rows s). semantic_key row \<noteq> item_key i"
  shows "items_ok s' \<and> commands_ok s'"
proof -
  let ?new = "new_item_row i owner"
  have look: "map_of (item_rows s') = (map_of (item_rows s))(ri_item_id i \<mapsto> ?new)"
    using fresh(1) by (auto simp: rows fun_eq_iff map_add_def split: option.split)
  have state: "item_state_ok s' item row = item_state_ok s item row" for item row by (simp add: item_state_ok_def rows)
  have old: "semantic_key row \<noteq> item_key i" if "map_of (item_rows s) item = Some row" for item row
    using fresh(2) map_of_SomeD [OF that] by auto
  have "distinct (map fst (item_rows s'))" using ok(1) fresh(1) by (auto simp: rows items_ok_def map_of_eq_None_iff)
  moreover have "item_text_ok item row \<and> item_state_ok s' item row" if "map_of (item_rows s') item = Some row" for item row
    using that new_item_ok [OF guards] items_okD [OF ok(1)] unfolding look state by (auto split: if_split_asm)
  moreover have "a = b" if "map_of (item_rows s') a = Some ra" "map_of (item_rows s') b = Some rb" "semantic_key ra = semantic_key rb" for a b ra rb
    using that old items_ok_unique [OF ok(1)] new_item_ok(3) [OF guards] unfolding look by (metis fun_upd_apply option.inject)
  moreover have "command_ok s' command c" if "map_of (command_rows s) command = Some c" for command c
    using commands_okD [OF ok(2) that] fresh(1) unfolding command_ok_def look by (auto split: if_split_asm)
  ultimately show ?thesis using ok(2) unfolding items_ok_def commands_ok_def rows(2) by blast
qed

lemma queue_keeps_items:
  assumes ok: "items_ok s" "commands_ok s" and fresh: "map_of (command_rows s) (oc_command_id c) = None"
      "\<forall>(_, row) \<in> set (command_rows s). cm_key row \<noteq> oc_idempotency_key c"
    and s': "s' = s\<lparr>command_rows := command_rows s @ [(oc_command_id c, command_columns c scope)]\<rparr>"
  shows "items_ok s' \<and> commands_ok s'"
proof -
  have look: "map_of (command_rows s') = (map_of (command_rows s))(oc_command_id c \<mapsto> command_columns c scope)"
    using fresh(1) by (auto simp: s' fun_eq_iff map_add_def split: option.split)
  have new: "command_ok s' (oc_command_id c) (command_columns c scope)" by (simp add: command_ok_def command_columns_def)
  have keys: "cm_key row \<noteq> cm_key (command_columns c scope)" if "map_of (command_rows s) command = Some row" for command row
    using fresh(2) map_of_SomeD [OF that] by (auto simp: command_columns_def)
  have "item_state_ok s' item row" if "item_state_ok s item row" for item row
    using that fresh(1) unfolding item_state_ok_def look by (metis fun_upd_other option.distinct(1))
  moreover have "command_ok s' command row" if "map_of (command_rows s') command = Some row" for command row
  proof (cases "command = oc_command_id c")
    case False
    then have "command_ok s command row" using that commands_okD [OF ok(2)] unfolding look by simp
    then show ?thesis by (simp add: command_ok_def s')
  qed (use that new in \<open>simp add: look\<close>)
  moreover have "a = b" if "map_of (command_rows s') a = Some ca" "map_of (command_rows s') b = Some cb" "cm_key ca = cm_key cb" for a b ca cb
    using that keys commands_ok_unique [OF ok(2)] unfolding look by (metis fun_upd_apply option.inject)
  ultimately show ?thesis using ok(1) unfolding items_ok_def commands_ok_def by (simp add: s')
qed

lemma terminal_item_sel [simp]:
  "semantic_key (terminal_item kind command row) = semantic_key row" "it_task (terminal_item kind command row) = it_task row"
  "it_resolved (terminal_item kind command row) = Some command" "it_kind (terminal_item kind command row) = it_kind row"
  "it_source (terminal_item kind command row) = it_source row" "it_blocker (terminal_item kind command row) = it_blocker row"
  "it_destination (terminal_item kind command row) = it_destination row"
  "item_text_ok item (terminal_item kind command row) = item_text_ok item row"
  by (simp_all add: terminal_item_def semantic_key_def item_text_ok_def)

lemma consume_keeps_items:
  assumes ok: "items_ok s" "commands_ok s"
    and c: "map_of (command_rows s) command = Some c" "cm_state c = ''pending''"
    and row: "map_of (item_rows s) (cm_target c) = Some row" "it_task row = cm_task c" "it_disposition row = ''pending''"
    and s': "s' = set_command command (c\<lparr>cm_state := ''consumed'', cm_result := Some result_digest\<rparr>)
              (set_item (cm_target c) (terminal_item (cm_kind c) command row) s)"
  shows "items_ok s' \<and> commands_ok s'"
proof -
  let ?row = "terminal_item (cm_kind c) command row" and ?c = "c\<lparr>cm_state := ''consumed'', cm_result := Some result_digest\<rparr>"
  have items: "map_of (item_rows s') = (map_of (item_rows s))(cm_target c \<mapsto> ?row)"
    and commands: "map_of (command_rows s') = (map_of (command_rows s))(command \<mapsto> ?c)" by (simp_all add: s')
  have unresolved: "it_resolved row = None" using items_okD(2) [OF ok(1) row(1)] row(3) by (auto simp: item_state_ok_def split: if_split_asm)
  have target: "item_state_ok s' (cm_target c) ?row"
    unfolding item_state_ok_def commands using row(2) by (auto simp: terminal_item_def)
  have keep: "map_of (command_rows s') a = Some x" if "map_of (command_rows s) a = Some x" "cm_state x = ''consumed''" for a x
    using that c unfolding commands by (cases "a = command") auto
  have other: "item_state_ok s' item x" if "item_state_ok s item x" for item x
    using that keep unfolding item_state_ok_def by blast
  have "distinct (map fst (item_rows s'))" using ok(1) by (simp add: items_ok_def s' set_item_def set_command_def distinct_update)
  moreover have "item_text_ok item x \<and> item_state_ok s' item x" if "map_of (item_rows s') item = Some x" for item x
    using that target other items_okD [OF ok(1)] row(1) unfolding items by (auto split: if_split_asm)
  moreover have "a = b" if "map_of (item_rows s') a = Some ra" "map_of (item_rows s') b = Some rb" "semantic_key ra = semantic_key rb" for a b ra rb
    using that items_ok_unique [OF ok(1)] row(1) unfolding items by (metis fun_upd_apply option.inject terminal_item_sel(1))
  moreover have "command_ok s' a x" if "map_of (command_rows s') a = Some x" for a x
  proof (cases "a = command")
    case True
    then show ?thesis using that commands_okD [OF ok(2) c(1)] c(2) unfolding commands command_ok_def items by auto
  next
    case False
    then have "command_ok s a x" using that commands_okD [OF ok(2)] unfolding commands by simp
    then show ?thesis using unresolved row(1) unfolding command_ok_def items by (auto split: if_split_asm)
  qed
  moreover have "a = b" if "map_of (command_rows s') a = Some ca" "map_of (command_rows s') b = Some cb" "cm_key ca = cm_key cb" for a b ca cb
    using that commands_ok_unique [OF ok(2)] c(1) unfolding commands by (auto split: if_split_asm)
  ultimately show ?thesis unfolding items_ok_def commands_ok_def by blast
qed

section \<open>The invariant of objectives\<close>

text \<open>The \<open>CHECK\<close> of the table, and that a row can be projected.\<close>

definition objective_ok :: "string \<Rightarrow> objective_row \<Rightarrow> bool" where
  "objective_ok objective row \<longleftrightarrow> (\<exists>x. objective_projection objective row = Inr x) \<and>
     (if ob_state row = ''active'' then ob_candidate row = None \<and> ob_evidence row = None \<and> ob_accepted row = None \<and> ob_reason row = None else
      if ob_state row = ''cancelled'' then ob_candidate row = None \<and> ob_evidence row = None \<and> ob_accepted row = None \<and> ob_reason row \<noteq> None
      else ob_state row = ''completed'' \<and> ob_candidate row \<noteq> None \<and> ob_evidence row \<noteq> None \<and> ob_accepted row \<noteq> None \<and> ob_reason row = None)"

definition objectives_ok :: "review_store \<Rightarrow> bool" where
  "objectives_ok s \<longleftrightarrow> distinct (map fst (objective_rows s))
     \<and> (\<forall>objective row. map_of (objective_rows s) objective = Some row \<longrightarrow> objective_ok objective row)
     \<and> (\<forall>a b ra rb. map_of (objective_rows s) a = Some ra \<longrightarrow> map_of (objective_rows s) b = Some rb \<longrightarrow> objective_conflicts ra rb \<longrightarrow> a = b)"

lemma objectives_okD: "objectives_ok s \<Longrightarrow> map_of (objective_rows s) objective = Some row \<Longrightarrow> objective_ok objective row"
  by (simp add: objectives_ok_def)

lemma objectives_ok_unique:
  "objectives_ok s \<Longrightarrow> map_of (objective_rows s) a = Some ra \<Longrightarrow> map_of (objective_rows s) b = Some rb \<Longrightarrow> objective_conflicts ra rb \<Longrightarrow> a = b"
  by (simp add: objectives_ok_def)

lemma active_projects:
  assumes "objective_ok objective row" "ob_state row = ''active''"
  shows "make_objective_result r = Inr r \<Longrightarrow> objective_ok objective (complete_row r row)" "is_fingerprint reason \<Longrightarrow> objective_ok objective (cancel_row reason row)"
  using assms
  by (auto simp: objective_ok_def objective_projection_def objective_state_of_def enum_of_def make_worker_objective_def worker_objective_guards_def
      complete_row_def cancel_row_def row_result_def make_objective_result_def bind_result_Inr_iff)

lemma objective_write:
  assumes ok: "objectives_ok s" and row: "map_of (objective_rows s) objective = Some row" and "objective_ok objective row'"
    and same: "row_columns row' = row_columns row"
  shows "objectives_ok (set_objective objective row' s)"
proof -
  have clash: "objective_conflicts row' x = objective_conflicts row x" "objective_conflicts x row' = objective_conflicts x row" for x
    using same by (auto simp: objective_conflicts_def row_columns_def)
  have "distinct (map fst (objective_rows (set_objective objective row' s)))" using ok by (simp add: objectives_ok_def set_objective_def distinct_update)
  moreover have "a = b" if "((map_of (objective_rows s))(objective \<mapsto> row')) a = Some ra" "((map_of (objective_rows s))(objective \<mapsto> row')) b = Some rb"
      "objective_conflicts ra rb" for a b ra rb
    using that objectives_ok_unique [OF ok] row clash by (metis fun_upd_apply option.inject)
  moreover have "objective_ok a x" if "((map_of (objective_rows s))(objective \<mapsto> row')) a = Some x" for a x
    using that objectives_okD [OF ok] assms(3) by (auto split: if_split_asm)
  ultimately show ?thesis unfolding objectives_ok_def set_rows_sel by blast
qed

lemma start_keeps_objectives:
  assumes ok: "objectives_ok s" and new: "objective_projection (wo_objective_id x) (active_row x retry) = Inr y"
      "map_of (objective_rows s) (wo_objective_id x) = None" "\<forall>(_, old) \<in> set (objective_rows s). \<not> objective_conflicts old (active_row x retry)"
    and s': "s' = s\<lparr>objective_rows := objective_rows s @ [(wo_objective_id x, active_row x retry)]\<rparr>"
  shows "objectives_ok s'"
proof -
  let ?row = "active_row x retry"
  have look: "map_of (objective_rows s') = (map_of (objective_rows s))(wo_objective_id x \<mapsto> ?row)"
    using new(2) by (auto simp: s' fun_eq_iff map_add_def split: option.split)
  have "\<not> objective_conflicts old ?row \<and> \<not> objective_conflicts ?row old" if "map_of (objective_rows s) a = Some old" for a old
    using new(3) map_of_SomeD [OF that] by (auto simp: objective_conflicts_def)
  then have "a = b" if "map_of (objective_rows s') a = Some ra" "map_of (objective_rows s') b = Some rb" "objective_conflicts ra rb" for a b ra rb
    using that objectives_ok_unique [OF ok] unfolding look by (metis fun_upd_apply option.inject)
  moreover have "objective_ok (wo_objective_id x) ?row" using new(1) by (simp add: objective_ok_def active_row_def)
  then have "objective_ok a row" if "map_of (objective_rows s') a = Some row" for a row
    using that objectives_okD [OF ok] unfolding look by (auto split: if_split_asm)
  moreover have "distinct (map fst (objective_rows s'))" using ok new(2) by (auto simp: s' objectives_ok_def map_of_eq_None_iff)
  ultimately show ?thesis unfolding objectives_ok_def by blast
qed

lemma row_columns_terminal [simp]: "row_columns (complete_row r row) = row_columns row" "row_columns (cancel_row reason row) = row_columns row"
  by (simp_all add: row_columns_def complete_row_def cancel_row_def)

lemma terminal_keeps_objectives:
  assumes ok: "objectives_ok s" and run: "terminal_objective w ti x lease terminal s = Inr (s', y)"
    and valid: "case terminal of Inl r \<Rightarrow> make_objective_result r = Inr r | Inr reason \<Rightarrow> is_fingerprint reason"
  shows "objectives_ok s'"
proof (cases "s' = s")
  case False
  with terminal_effect [OF run] obtain row where row: "map_of (objective_rows s) (wo_objective_id x) = Some row" "ob_state row = ''active''"
    and s': "case terminal of Inl r \<Rightarrow> s' = set_objective (wo_objective_id x) (complete_row r row) s
      | Inr reason \<Rightarrow> s' = set_objective (wo_objective_id x) (cancel_row reason row) s"
    by (cases terminal) auto
  note projects = active_projects [OF objectives_okD [OF ok row(1)] row(2)]
  show ?thesis using s' valid by (cases terminal) (auto intro: objective_write [OF ok row(1)] projects)
qed (use ok in simp)

lemma recovery_cancel_row:
  assumes "objectives_ok s" "cancel_objective_for_recovery_connection w ti attempt reason s = Inr (s', y)"
  shows "s' = s \<or> (\<exists>objective row. map_of (objective_rows s) objective = Some row \<and> ob_state row = ''active'' \<and> is_fingerprint reason
    \<and> s' = set_objective objective (cancel_row reason row) s)"
  using recovery_cancel_effect [OF assms(2)] assms(1) by (auto simp: objectives_ok_def)

lemma recovery_keeps_objectives:
  assumes ok: "objectives_ok s" and run: "cancel_objective_for_recovery_connection w ti attempt reason s = Inr (s', y)"
  shows "objectives_ok s'"
  using recovery_cancel_row [OF ok run] objective_write [OF ok] active_projects(2) objectives_okD [OF ok] ok by auto

section \<open>The invariant of the store\<close>

definition store_ok :: "review_store \<Rightarrow> bool" where
  "store_ok s \<longleftrightarrow> items_ok s \<and> commands_ok s \<and> objectives_ok s"

lemma items_cong:
  assumes "item_rows s' = item_rows s" "command_rows s' = command_rows s"
  shows "items_ok s' = items_ok s" "commands_ok s' = commands_ok s"
  by (simp_all add: items_ok_def commands_ok_def item_state_ok_def command_ok_def assms)

lemma objectives_cong: "objective_rows s' = objective_rows s \<Longrightarrow> objectives_ok s' = objectives_ok s"
  by (simp add: objectives_ok_def)

lemma record_keeps_store:
  assumes ok: "store_ok s" and guards: "list_all fst (review_item_guards i)" and run: "record_review_item_connection w ti i s = Inr (s', p)"
  shows "store_ok s'"
proof -
  have frame: "command_rows s' = command_rows s" "objective_rows s' = objective_rows s" using item_record_effect [OF run] by blast+
  consider "item_rows s' = item_rows s" | owner where "item_rows s' = item_rows s @ [(ri_item_id i, new_item_row i owner)]"
      "map_of (item_rows s) (ri_item_id i) = None" "\<forall>(_, row) \<in> set (item_rows s). semantic_key row \<noteq> item_key i"
    using item_record_effect [OF run] by blast
  then have "items_ok s' \<and> commands_ok s'"
  proof cases
    case 1
    then show ?thesis using ok items_cong [OF 1 frame(1)] by (simp add: store_ok_def)
  next
    case 2
    then show ?thesis using ok by (intro record_keeps_items [OF _ _ guards 2(1) frame(1) 2(2,3)]) (simp_all add: store_ok_def)
  qed
  then show ?thesis using ok objectives_cong [OF frame(2)] by (simp add: store_ok_def)
qed

lemma consume_keeps_store:
  assumes ok: "store_ok s" and run: "consume_owner_command w ti command lease result_digest s = Inr (s', p)"
  shows "store_ok s'"
  using run
proof (cases rule: command_consume_effect)
  case (consumed c row)
  have "items_ok s' \<and> commands_ok s'"
    by (rule consume_keeps_items [OF _ _ consumed(1,3,4) _ consumed(6,9)]) (use ok consumed in \<open>simp_all add: store_ok_def\<close>)
  moreover have "objective_rows s' = objective_rows s" by (simp add: consumed(9))
  from objectives_cong [OF this] have "objectives_ok s'" using ok by (simp add: store_ok_def)
  ultimately show ?thesis by (simp add: store_ok_def)
qed (use ok in simp)

lemma queue_keeps_store:
  assumes ok: "store_ok s" and run: "queue_owner_command w ti c lease s = Inr (s', x)"
  shows "store_ok s'"
proof (cases "s' = s")
  case False
  with queue_effect [OF run] obtain scope where q: "map_of (command_rows s) (oc_command_id c) = None"
      "\<forall>(_, row) \<in> set (command_rows s). cm_key row \<noteq> oc_idempotency_key c"
      "s' = s\<lparr>command_rows := command_rows s @ [(oc_command_id c, command_columns c scope)]\<rparr>" by blast
  then have "items_ok s' \<and> commands_ok s'" using ok by (intro queue_keeps_items) (auto simp: store_ok_def)
  then show ?thesis using ok objectives_cong [of s' s] q(3) by (simp add: store_ok_def)
qed (use ok in simp)

text \<open>Operations on objectives leave items and commands alone.\<close>

lemma objective_frame:
  "start_objective w ti x lease s = Inr (s', y) \<Longrightarrow> item_rows s' = item_rows s \<and> command_rows s' = command_rows s"
  "terminal_objective w ti x lease terminal s = Inr (s', y) \<Longrightarrow> item_rows s' = item_rows s \<and> command_rows s' = command_rows s"
  "cancel_objective_for_recovery_connection w ti attempt reason s = Inr (s', z) \<Longrightarrow> item_rows s' = item_rows s \<and> command_rows s' = command_rows s"
  by (auto dest!: start_effect terminal_effect recovery_cancel_effect split: sum.split_asm)

lemma run_keeps_store:
  assumes ok: "store_ok s" and valid: "review_op_ok op" and run: "run_review w op s = Inr s'"
  shows "store_ok s'"
proof -
  have objectives: "store_ok s'" if "objectives_ok s'" "item_rows s' = item_rows s \<and> command_rows s' = command_rows s"
    using that ok items_cong [of s' s] by (simp add: store_ok_def)
  have o: "objectives_ok s" using ok by (simp add: store_ok_def)
  show ?thesis
  proof (cases op)
    case (Record_item ti i lease)
    then show ?thesis using run valid record_keeps_store [OF ok] by (auto simp: committed_Inr dest!: record_item_effect)
  next
    case (Record_accepted ti i)
    then show ?thesis using run valid record_keeps_store [OF ok] by (auto simp: committed_Inr)
  next
    case (Start ti x lease)
    then obtain y where y: "start_objective w ti x lease s = Inr (s', y)" using run by (auto simp: committed_Inr)
    from start_effect [OF y] have "objectives_ok s'" using start_keeps_objectives [OF o] o by blast
    then show ?thesis using objectives objective_frame(1) [OF y] by blast
  next
    case (Complete ti x lease r)
    then obtain y where y: "terminal_objective w ti x lease (Inl r) s = Inr (s', y)" using run by (auto simp: committed_Inr complete_objective_def)
    show ?thesis using objectives [OF terminal_keeps_objectives [OF o y] objective_frame(2) [OF y]] valid Complete by simp
  next
    case (Cancel ti x lease reason)
    then obtain y where y: "terminal_objective w ti x lease (Inr reason) s = Inr (s', y)" "is_fingerprint reason"
      using run by (auto simp: committed_Inr cancel_objective_def bind_result_Inr_iff)
    show ?thesis using objectives [OF terminal_keeps_objectives [OF o y(1)] objective_frame(2) [OF y(1)]] y(2) by simp
  next
    case (Cancel_attempt ti attempt reason lease)
    then obtain y where y: "cancel_objective_for_recovery_connection w ti attempt reason s = Inr (s', y)"
      using run by (auto simp: committed_Inr cancel_objective_for_provider_attempt_def bind_result_Inr_iff)
    show ?thesis by (rule objectives [OF recovery_keeps_objectives [OF o y] objective_frame(3) [OF y]])
  next
    case (Cancel_recovery ti attempt reason)
    then obtain y where y: "cancel_objective_for_recovery_connection w ti attempt reason s = Inr (s', y)" using run by (auto simp: committed_Inr)
    show ?thesis by (rule objectives [OF recovery_keeps_objectives [OF o y] objective_frame(3) [OF y]])
  next
    case (Queue ti c lease)
    then show ?thesis using run queue_keeps_store [OF ok] by (auto simp: committed_Inr)
  next
    case (Consume_command ti command lease result_digest)
    then show ?thesis using run consume_keeps_store [OF ok] by (auto simp: committed_Inr)
  qed
qed

lemma review_step_cases:
  assumes "review_step s (w, op, ok) s'"
  shows "review_op_ok op \<and> (\<not> ok \<and> s' = s \<or> ok \<and> run_review w op s = Inr s')"
  using assms by (auto split: sum.split_asm)

interpretation review: invariant_system "\<lambda>s. s = empty_store" review_step store_ok
proof unfold_locales
  fix s assume "s = empty_store"
  then show "store_ok s" by (simp add: empty_store_def store_ok_def items_ok_def commands_ok_def objectives_ok_def)
next
  fix s l t assume "store_ok s" "review_step s l t"
  then show "store_ok t" using run_keeps_store by (cases l) (metis review_step_cases)
qed

lemma reached_store_ok: "review.reaches empty_store ls s \<Longrightarrow> store_ok s"
  by (rule review.reachable_inv) simp_all

section \<open>Items over a history\<close>

definition item_recorded :: "review_label list \<Rightarrow> review_item \<Rightarrow> bool" where
  "item_recorded ls i \<longleftrightarrow> (\<exists>w ti lease. (w, Record_item ti i lease, True) \<in> set ls \<or> (w, Record_accepted ti i, True) \<in> set ls)"

text \<open>The row that stands for an item: it agrees on everything but the state.\<close>

definition stands_for :: "review_store \<Rightarrow> review_item \<Rightarrow> string \<Rightarrow> item_row \<Rightarrow> bool" where
  "stands_for s i item row \<longleftrightarrow> map_of (item_rows s) item = Some row \<and> semantic_key row = item_key i
     \<and> it_blocker row = blocker_value (ri_blocking i) \<and> it_destination row = ri_destination i"

text \<open>Rows are never dropped, and a row only changes when a command releases it.\<close>

lemma run_item_rows:
  assumes ok: "store_ok s" and run: "run_review w op s = Inr s'" and row: "map_of (item_rows s) item = Some row"
  shows "map_of (item_rows s') item = Some row \<or>
    (\<exists>ti command lease result_digest c. op = Consume_command ti command lease result_digest \<and> map_of (command_rows s) command = Some c \<and> cm_target c = item
       \<and> cm_task c = ti_task_id ti \<and> it_disposition row = ''pending'' \<and> owner_authorized w (ti_task_id ti) c
       \<and> map_of (item_rows s') item = Some (terminal_item (cm_kind c) command row))"
proof -
  have kept: "map_of (item_rows s') item = Some row" if "record_review_item_connection w ti i s = Inr (s', p)" for ti i p
    using item_record_effect [OF that] row by (auto simp: map_add_def)
  show ?thesis
  proof (cases op)
    case (Consume_command ti command lease result_digest)
    then obtain p where "consume_owner_command w ti command lease result_digest s = Inr (s', p)" using run by (auto simp: committed_Inr)
    then show ?thesis
    proof (cases rule: command_consume_effect)
      case (consumed c r)
      then show ?thesis using row Consume_command by (cases "cm_target c = item") auto
    qed (use row in simp)
  next
    case (Queue ti c lease)
    then show ?thesis using run row by (auto simp: committed_Inr dest!: queue_effect)
  qed (use run row kept in \<open>auto simp: committed_Inr complete_objective_def cancel_objective_def cancel_objective_for_provider_attempt_def
      bind_result_Inr_iff dest!: record_item_effect objective_frame\<close>)
qed

lemma run_new_items:
  assumes run: "run_review w op s = Inr s'" and none: "map_of (item_rows s) item = None" and row: "map_of (item_rows s') item = Some row"
  shows "it_disposition row = ''pending''"
proof -
  have new: "it_disposition row = ''pending''" if "record_review_item_connection w ti i s = Inr (s', p)" for ti i p
    using item_record_effect [OF that] none row by (auto simp: map_add_def new_item_row_def split: if_split_asm)
  show ?thesis
  proof (cases op)
    case (Consume_command ti command lease result_digest)
    then obtain p where "consume_owner_command w ti command lease result_digest s = Inr (s', p)" using run by (auto simp: committed_Inr)
    then show ?thesis by (cases rule: command_consume_effect) (use none row in \<open>auto split: if_split_asm\<close>)
  next
    case (Queue ti c lease)
    then show ?thesis using run none row by (auto simp: committed_Inr dest!: queue_effect)
  qed (use run none row new in \<open>auto simp: committed_Inr complete_objective_def cancel_objective_def cancel_objective_for_provider_attempt_def
      bind_result_Inr_iff dest!: record_item_effect objective_frame\<close>)
qed

text \<open>Consumed commands never change.\<close>

lemma run_consumed_commands:
  assumes run: "run_review w op s = Inr s'" and c: "map_of (command_rows s) command = Some c" "cm_state c = ''consumed''"
  shows "map_of (command_rows s') command = Some c"
proof -
  have kept: "map_of (command_rows s') command = Some c" if "record_review_item_connection w ti i s = Inr (s', p)" for ti i p
    using item_record_effect [OF that] c by auto
  show ?thesis
  proof (cases op)
    case (Consume_command ti command' lease result_digest)
    then obtain p where "consume_owner_command w ti command' lease result_digest s = Inr (s', p)" using run by (auto simp: committed_Inr)
    then show ?thesis by (cases rule: command_consume_effect) (use c in auto)
  next
    case (Queue ti x lease)
    then show ?thesis using run c by (auto simp: committed_Inr map_add_def dest!: queue_effect)
  qed (use run c kept in \<open>auto simp: committed_Inr complete_objective_def cancel_objective_def cancel_objective_for_provider_attempt_def
      bind_result_Inr_iff dest!: record_item_effect objective_frame\<close>)
qed

text \<open>The release of an item: the consumption that did it, and the authority the owner had then.\<close>

definition released :: "review_label list \<Rightarrow> review_store \<Rightarrow> string \<Rightarrow> item_row \<Rightarrow> bool" where
  "released ls s item row \<longleftrightarrow> (\<exists>w ti command lease result_digest c. (w, Consume_command ti command lease result_digest, True) \<in> set ls
     \<and> map_of (command_rows s) command = Some c \<and> cm_state c = ''consumed'' \<and> cm_target c = item \<and> it_resolved row = Some command
     \<and> ti_task_id ti = it_task row \<and> owner_authorized w (it_task row) c)"

lemma released_later:
  assumes "released ls s item row"
    and "\<And>command c. map_of (command_rows s) command = Some c \<Longrightarrow> cm_state c = ''consumed'' \<Longrightarrow> map_of (command_rows u) command = Some c"
  shows "released (ls @ ls') u item row"
proof -
  from assms(1) obtain w ti command lease result_digest c where
    "(w, Consume_command ti command lease result_digest, True) \<in> set (ls @ ls')"
    "map_of (command_rows s) command = Some c" "cm_state c = ''consumed''" "cm_target c = item" "it_resolved row = Some command"
    "ti_task_id ti = it_task row" "owner_authorized w (it_task row) c" unfolding released_def set_append by blast
  with assms(2) show ?thesis unfolding released_def by blast
qed

lemma owner_authorized_state: "owner_authorized w task (c\<lparr>cm_state := x, cm_result := y\<rparr>) = owner_authorized w task c"
  by (simp add: owner_authorized_def)

lemma consumption_releases:
  assumes ok: "store_ok s" and run: "run_review w (Consume_command ti command lease result_digest) s = Inr s'"
    and c: "map_of (command_rows s) command = Some c" "cm_target c = item" "cm_task c = ti_task_id ti" "owner_authorized w (ti_task_id ti) c"
    and row: "map_of (item_rows s) item = Some row" "it_disposition row = ''pending''" "map_of (item_rows s') item = Some (terminal_item (cm_kind c) command row)"
  shows "released (ls @ [(w, Consume_command ti command lease result_digest, True)]) s' item (terminal_item (cm_kind c) command row)"
proof -
  from run obtain p where "consume_owner_command w ti command lease result_digest s = Inr (s', p)" by (auto simp: committed_Inr)
  then obtain c' where c': "map_of (command_rows s') command = Some c'" "cm_state c' = ''consumed''" "cm_target c' = item"
    "owner_authorized w (ti_task_id ti) c'" "it_task row = ti_task_id ti"
  proof (cases rule: command_consume_effect)
    case (replay c0 r0)
    then have "it_resolved row = Some command" using c row(1) by simp
    moreover have "item_state_ok s item row" using items_okD(2) [OF _ row(1)] ok by (simp add: store_ok_def)
    ultimately show ?thesis using row(2) by (auto simp: item_state_ok_def split: if_split_asm)
  next
    case (consumed c0 r0)
    then show ?thesis using that [of "c\<lparr>cm_state := ''consumed'', cm_result := Some result_digest\<rparr>"] c row(1) by (simp add: owner_authorized_state)
  qed
  then show ?thesis unfolding released_def
    by (intro exI [of _ w] exI [of _ ti] exI [of _ command] exI [of _ lease] exI [of _ result_digest] exI [of _ c']) simp
qed

lemma terminal_items_released:
  assumes "review.reaches empty_store ls s" "map_of (item_rows s) item = Some row" "it_disposition row \<noteq> ''pending''"
  shows "released ls s item row"
  using assms
proof (induction "empty_store" ls s arbitrary: row rule: review.reaches.induct)
  case (reaches_snoc ls s l u)
  obtain w op ok where l: "l = (w, op, ok)" by (cases l) auto
  have store: "store_ok s" by (rule reached_store_ok [OF reaches_snoc.hyps(1)])
  from review_step_cases [OF reaches_snoc.hyps(3) [unfolded l]] consider "u = s" | "ok" "run_review w op s = Inr u" by blast
  then show ?case
  proof cases
    case 1
    then have "released ls s item row" using reaches_snoc.hyps(2) reaches_snoc.prems by simp
    then show ?thesis using 1 released_later by blast
  next
    case 2
    from run_new_items [OF 2(2) _ reaches_snoc.prems(1)] reaches_snoc.prems(2) obtain old where old: "map_of (item_rows s) item = Some old"
      by (cases "map_of (item_rows s) item") auto
    from run_item_rows [OF store 2(2) old] consider "map_of (item_rows u) item = Some old"
      | ti command lease result_digest c where "op = Consume_command ti command lease result_digest" "map_of (command_rows s) command = Some c"
          "cm_target c = item" "cm_task c = ti_task_id ti" "it_disposition old = ''pending''" "owner_authorized w (ti_task_id ti) c"
          "map_of (item_rows u) item = Some (terminal_item (cm_kind c) command old)" by blast
    then show ?thesis
    proof cases
      case 1
      then have "released ls s item row" using reaches_snoc.hyps(2) [OF old] reaches_snoc.prems by simp
      then show ?thesis using run_consumed_commands [OF 2(2)] released_later by blast
    next
      case c: 2
      from consumption_releases [OF store 2(2) [unfolded c(1)] c(2,3,4,6) old c(5,7)] c(1,7) 2(1) reaches_snoc.prems(1) l
      show ?thesis by simp
    qed
  qed
qed (simp add: empty_store_def)

lemma recorded_item_stands:
  assumes "review.reaches empty_store ls s" "item_recorded ls i"
  shows "\<exists>item row. stands_for s i item row"
  using assms
proof (induction "empty_store" ls s rule: review.reaches.induct)
  case (reaches_snoc ls s l u)
  obtain w op ok where l: "l = (w, op, ok)" by (cases l) auto
  have store: "store_ok s" by (rule reached_store_ok [OF reaches_snoc.hyps(1)])
  note step = review_step_cases [OF reaches_snoc.hyps(3) [unfolded l]]
  show ?case
  proof (cases "item_recorded ls i")
    case True
    then obtain item row where row: "stands_for s i item row" using reaches_snoc.hyps(2) by blast
    from step consider "u = s" | "run_review w op s = Inr u" by blast
    then show ?thesis
    proof cases
      case 2
      from row have "map_of (item_rows s) item = Some row" by (simp add: stands_for_def)
      from run_item_rows [OF store 2 this] row obtain row' where "stands_for u i item row'"
        unfolding stands_for_def by auto
      then show ?thesis by blast
    qed (use row in blast)
  next
    case False
    then have "ok" and "(\<exists>ti lease. op = Record_item ti i lease) \<or> (\<exists>ti. op = Record_accepted ti i)"
      using reaches_snoc.prems by (auto simp: item_recorded_def l)
    with step obtain ti p where run: "record_review_item_connection w ti i s = Inr (u, p)" by (auto simp: committed_Inr dest!: record_item_effect)
    have guards: "list_all fst (review_item_guards i)" using step \<open>_ \<or> _\<close> by auto
    from item_record_effect [OF run] consider item row where "item_rows u = item_rows s" "(item, row) \<in> set (item_rows s)" "semantic_key row = item_key i"
         "it_blocker row = blocker_value (ri_blocking i)" "it_destination row = ri_destination i"
     | owner where "item_rows u = item_rows s @ [(ri_item_id i, new_item_row i owner)]" "map_of (item_rows s) (ri_item_id i) = None" by blast
    then show ?thesis
    proof cases
      case 1
      then have "map_of (item_rows s) item = Some row" using store by (simp add: store_ok_def items_ok_def)
      then have "stands_for u i item row" using 1 by (simp add: stands_for_def)
      then show ?thesis by blast
    next
      case 2
      then have "stands_for u i (ri_item_id i) (new_item_row i owner)"
        using new_item_ok(3) [OF guards] by (auto simp: stands_for_def map_add_def new_item_row_def)
      then show ?thesis by blast
    qed
  qed
qed (simp add: item_recorded_def)

section \<open>Properties\<close>

text \<open>
  C11 (review_item_release_authorized). Every review item that any operation of a history recorded is
  there for good, under exactly one identity per task, candidate, kind and content, with its
  destination and its blocking state unchanged; and it is still pending unless a command was consumed
  for it when the sealed candidate was that of the command and an active grant of an allowlisted
  owner authorized a command of that kind on the task and the candidate.
\<close>

theorem review_item_release_authorized:
  assumes run: "review.reaches empty_store ls s" and "item_recorded ls i"
  shows "\<exists>item row. stands_for s i item row \<and> (\<forall>item' row'. stands_for s i item' row' \<longrightarrow> item' = item)
    \<and> (it_disposition row = ''pending'' \<or> released ls s item row)"
proof -
  obtain item row where row: "stands_for s i item row" using recorded_item_stands [OF assms] by blast
  have items: "items_ok s" using reached_store_ok [OF run] by (simp add: store_ok_def)
  have "item' = item" if "stands_for s i item' row'" for item' row'
    using items_ok_unique [OF items] row that by (simp add: stands_for_def)
  moreover have "it_disposition row = ''pending'' \<or> released ls s item row"
    using terminal_items_released [OF run] row by (auto simp: stands_for_def)
  ultimately show ?thesis using row by blast
qed

lemma pending_blockers_set:
  assumes "items_ok s"
  shows "(item, row) \<in> set (pending_blockers task s) \<longleftrightarrow> map_of (item_rows s) item = Some row \<and> is_blocker task row"
  using assms by (auto simp: pending_blockers_def items_ok_def)

lemma pending_blockers_ok:
  assumes "items_ok s"
  shows "list_all blocker_row_ok (pending_blockers task s)"
proof -
  have "blocker_row_ok (item, row)" if "map_of (item_rows s) item = Some row" "is_blocker task row" for item row
    using items_okD [OF assms that(1)] that(2) by (auto simp: blocker_row_ok_def is_blocker_def item_text_ok_def item_state_ok_def split: if_split_asm)
  then show ?thesis using pending_blockers_set [OF assms] by (auto simp: list_all_iff)
qed

lemma receipt_of_store:
  assumes "items_ok s" "owner_blocker_state_receipt w task candidate s = Inr r"
  shows "br_blockers_pending r \<longleftrightarrow> (\<exists>item row. map_of (item_rows s) item = Some row \<and> is_blocker task row)"
proof -
  have "br_blockers_pending r \<longleftrightarrow> pending_blockers task s \<noteq> []"
    using assms(2) unfolding owner_blocker_state_receipt_def
    by (auto simp: bind_result_Inr_iff Let_def make_blocker_receipt_def split: option.split_asm if_split_asm)
  also have "\<dots> \<longleftrightarrow> (\<exists>x. x \<in> set (pending_blockers task s))" by (cases "pending_blockers task s") auto
  also have "\<dots> \<longleftrightarrow> (\<exists>item row. map_of (item_rows s) item = Some row \<and> is_blocker task row)"
    using pending_blockers_set [OF assms(1)] by (metis surj_pair)
  finally show ?thesis .
qed

text \<open>
  Over any history, the receipt over the blockers of a task is issued
  whenever the scope is well formed and the candidate is the sealed one of a task of a known
  repository; no stored row can make it fail. It reports blockers exactly when a blocking follow-up
  of an accepted review is pending, of whatever candidate.
\<close>

lemma blocker_receipt_exact:
  assumes run: "review.reaches empty_store ls s" and scope: "is_token task" "is_sha candidate"
    and seal: "vw_seals w task = Some (candidate, state)" "is_state_identity state" "vw_repositories w task = Some repository" "is_token repository"
  shows "\<exists>r. owner_blocker_state_receipt w task candidate s = Inr r
    \<and> (br_task_id r, br_repository_id r, br_candidate_sha r, br_seal_state_identity r) = (task, repository, candidate, state)
    \<and> (br_blockers_pending r \<longleftrightarrow> (\<exists>item row. map_of (item_rows s) item = Some row \<and> is_blocker task row))
    \<and> unresolved_final_gate_blockers w task candidate s = Inr (br_blockers_pending r)"
proof -
  have items: "items_ok s" using reached_store_ok [OF run] by (simp add: store_ok_def)
  define r where "r = \<lparr>br_task_id = task, br_repository_id = repository, br_candidate_sha = candidate, br_seal_state_identity = state,
     br_blockers_pending = (pending_blockers task s \<noteq> []), br_blocker_state_digest = hex_digest (JList (map blocker_json (pending_blockers task s))),
     br_receipt_identity = []\<rparr>"
  define r' where "r' = r\<lparr>br_receipt_identity := owner_blocker_receipt_identity r\<rparr>"
  have "owner_blocker_receipt_identity r' = owner_blocker_receipt_identity r"
    by (simp add: owner_blocker_receipt_identity_def blocker_receipt_fields_def r'_def)
  moreover have "is_fingerprint (br_blocker_state_digest r)" by (simp add: r_def hex_digest_def)
  ultimately have "make_blocker_receipt r' = Inr r'"
    using scope seal by (simp add: make_blocker_receipt_def blocker_receipt_guards_def r'_def) (simp add: r_def)
  then have receipt: "owner_blocker_state_receipt w task candidate s = Inr r'"
    using scope seal pending_blockers_ok [OF items] unfolding owner_blocker_state_receipt_def
    by (simp add: require_review_def Let_def r'_def r_def)
  then show ?thesis using receipt_of_store [OF items receipt]
    by (intro exI [of _ r']) (simp add: unresolved_final_gate_blockers_def, simp add: r'_def r_def)
qed

lemma no_blockers_released:
  assumes run: "review.reaches empty_store ls s" and "item_recorded ls i" and clear: "unresolved_final_gate_blockers w task candidate s = Inr False"
    and i: "ri_kind i = PASS_FOLLOW_UP" "ri_blocking i" "ri_task_id i = task"
  shows "\<exists>item row. stands_for s i item row \<and> released ls s item row"
proof -
  obtain item row where row: "stands_for s i item row" using recorded_item_stands [OF assms(1,2)] by blast
  then have look: "map_of (item_rows s) item = Some row" by (simp add: stands_for_def)
  have items: "items_ok s" using reached_store_ok [OF run] by (simp add: store_ok_def)
  obtain r where "owner_blocker_state_receipt w task candidate s = Inr r" "\<not> br_blockers_pending r"
    using clear by (auto simp: unresolved_final_gate_blockers_def bind_result_Inr_iff)
  then have "\<not> is_blocker task row" using receipt_of_store [OF items] look by blast
  moreover have "it_task row = task" "it_kind row = ''pass-follow-up''" "it_blocker row = ''blocking''"
    using row i by (auto simp: stands_for_def semantic_key_def item_key_def blocker_value_def)
  moreover from this(2) have "it_source row = ''accepted-review''" using items_okD(1) [OF items look] by (auto simp: item_text_ok_def)
  ultimately have "it_disposition row \<noteq> ''pending''" by (simp add: is_blocker_def)
  then show ?thesis using terminal_items_released [OF run look] row by blast
qed

text \<open>
  C12 (ready_needs_released_follow_ups). The final gates and the review life cycle compose: when a task
  becomes ready for its owner in a world whose blockers are those the review store reports (an error
  of the receipt counts as a blocker), then every blocking follow-up that an accepted review of the
  task ever recorded was released by an authorized command of the owner.
\<close>

theorem ready_needs_released_follow_ups:
  assumes ready: "transition_ready_for_owner w b sl c lr pe lease t = (t', Inr ti)"
    and blockers: "gw_blockers w = (\<lambda>task candidate. unresolved_final_gate_blockers vw task candidate s \<noteq> Inr False)"
    and run: "review.reaches empty_store ls s" and "item_recorded ls i"
    and i: "ri_kind i = PASS_FOLLOW_UP" "ri_blocking i" "ri_task_id i = wb_task_id b"
  shows "\<exists>item row. stands_for s i item row \<and> released ls s item row"
proof -
  from ready have "\<not> gw_blockers w (wb_task_id b) (sl_candidate_sha sl)" by (rule ready_decision)
  then have "unresolved_final_gate_blockers vw (wb_task_id b) (sl_candidate_sha sl) s = Inr False" unfolding blockers by blast
  from no_blockers_released [OF run assms(4) this i] show ?thesis .
qed

section \<open>Objectives over a history\<close>

text \<open>The completion that a row records: the result was the sealed candidate of the recorded implementation.\<close>

definition completed_by :: "review_world \<Rightarrow> review_op \<Rightarrow> string \<Rightarrow> objective_row \<Rightarrow> bool" where
  "completed_by w op objective row \<longleftrightarrow> (\<exists>ti x lease r. op = Complete ti x lease r \<and> wo_objective_id x = objective \<and> ti_task_id ti = ob_task row
     \<and> (ob_candidate row, ob_evidence row, ob_accepted row)
         = (Some (wr_candidate_sha r), Some (wr_completion_evidence_fingerprint r), Some (wr_accepted_result_identity r))
     \<and> require_current_candidate w ti (wr_candidate_sha r) lease = Inr () \<and> require_worker_objective_result w ti (ob_attempt row) r = Inr ())"

lemma run_objective_rows:
  assumes ok: "store_ok s" and run: "run_review w op s = Inr s'" and row': "map_of (objective_rows s') objective = Some row'"
  shows "map_of (objective_rows s) objective = Some row' \<or> ob_state row' = ''active'' \<and> map_of (objective_rows s) objective = None
    \<or> (\<exists>row. map_of (objective_rows s) objective = Some row \<and> ob_state row = ''active'' \<and> (ob_state row' = ''completed'' \<longrightarrow> completed_by w op objective row'))"
proof -
  have objectives: "objectives_ok s" using ok by (simp add: store_ok_def)
  have kept: "map_of (objective_rows s) objective = Some row'" if "record_review_item_connection w ti i s = Inr (s', p)" for ti i p
    using item_record_effect [OF that] row' by auto
  have recovery: ?thesis if "cancel_objective_for_recovery_connection w ti attempt reason s = Inr (s', y)" for ti attempt reason y
    using recovery_cancel_row [OF objectives that] row' by (auto simp: cancel_row_def split: if_split_asm)
  show ?thesis
  proof (cases op)
    case (Record_item ti i lease)
    then show ?thesis using run kept by (auto simp: committed_Inr dest!: record_item_effect)
  next
    case (Record_accepted ti i)
    then show ?thesis using run kept by (auto simp: committed_Inr)
  next
    case (Start ti x lease)
    then obtain y where "start_objective w ti x lease s = Inr (s', y)" using run by (auto simp: committed_Inr)
    from start_effect [OF this] show ?thesis using row' by (auto simp: map_add_def active_row_def split: if_split_asm option.split_asm)
  next
    case (Complete ti x lease r)
    then obtain y where "terminal_objective w ti x lease (Inl r) s = Inr (s', y)" using run by (auto simp: committed_Inr complete_objective_def)
    from terminal_effect [OF this] show ?thesis using row' Complete by (auto simp: completed_by_def complete_row_def split: if_split_asm)
  next
    case (Cancel ti x lease reason)
    then obtain y where "terminal_objective w ti x lease (Inr reason) s = Inr (s', y)"
      using run by (auto simp: committed_Inr cancel_objective_def bind_result_Inr_iff)
    from terminal_effect [OF this] show ?thesis using row' by (auto simp: cancel_row_def split: if_split_asm)
  next
    case (Consume_command ti command lease result_digest)
    then obtain p where "consume_owner_command w ti command lease result_digest s = Inr (s', p)" using run by (auto simp: committed_Inr)
    then show ?thesis by (cases rule: command_consume_effect) (use row' in auto)
  qed (use run recovery row' in \<open>auto simp: committed_Inr cancel_objective_for_provider_attempt_def bind_result_Inr_iff dest!: queue_effect\<close>)
qed

lemma completions_recorded:
  assumes "review.reaches empty_store ls s" "map_of (objective_rows s) objective = Some row" "ob_state row = ''completed''"
  shows "\<exists>w op. (w, op, True) \<in> set ls \<and> completed_by w op objective row"
  using assms
proof (induction "empty_store" ls s arbitrary: row rule: review.reaches.induct)
  case (reaches_snoc ls s l u)
  obtain w op ok where l: "l = (w, op, ok)" by (cases l) auto
  have earlier: ?case if "map_of (objective_rows s) objective = Some row"
    using reaches_snoc.hyps(2) [OF that reaches_snoc.prems(2)] by auto
  from review_step_cases [OF reaches_snoc.hyps(3) [unfolded l]] consider "u = s" | "ok" "run_review w op s = Inr u" by blast
  then show ?case
  proof cases
    case 2
    from run_objective_rows [OF reached_store_ok [OF reaches_snoc.hyps(1)] 2(2) reaches_snoc.prems(1)] reaches_snoc.prems(2) earlier l 2(1)
    show ?thesis by auto
  qed (use earlier reaches_snoc.prems(1) in simp)
qed (simp add: empty_store_def)

lemma terminal_objectives_kept:
  assumes ok: "store_ok s" and run: "run_review w op s = Inr s'" and row: "map_of (objective_rows s) objective = Some row" "ob_state row \<noteq> ''active''"
  shows "map_of (objective_rows s') objective = Some row"
proof -
  have objectives: "objectives_ok s" using ok by (simp add: store_ok_def)
  have kept: "map_of (objective_rows s') objective = Some row" if "record_review_item_connection w ti i s = Inr (s', p)" for ti i p
    using item_record_effect [OF that] row by auto
  have recovery: "map_of (objective_rows s') objective = Some row" if "cancel_objective_for_recovery_connection w ti attempt reason s = Inr (s', y)" for ti attempt reason y
    using recovery_cancel_row [OF objectives that] row by auto
  have terminal: "map_of (objective_rows s') objective = Some row" if "terminal_objective w ti x lease terminal s = Inr (s', y)" for ti x lease terminal y
    using terminal_effect [OF that] row by (cases terminal) auto
  show ?thesis
  proof (cases op)
    case (Start ti x lease)
    then obtain y where "start_objective w ti x lease s = Inr (s', y)" using run by (auto simp: committed_Inr)
    from start_effect [OF this] show ?thesis using row by (auto simp: map_add_def)
  next
    case (Consume_command ti command lease result_digest)
    then obtain p where "consume_owner_command w ti command lease result_digest s = Inr (s', p)" using run by (auto simp: committed_Inr)
    then show ?thesis by (cases rule: command_consume_effect) (use row in auto)
  qed (use run recovery kept terminal row in \<open>auto simp: committed_Inr complete_objective_def cancel_objective_def
      cancel_objective_for_provider_attempt_def bind_result_Inr_iff dest!: queue_effect record_item_effect\<close>)
qed

text \<open>
  An objective of a worker ends at most once: a completed or cancelled one
  keeps its row through every continuation of the history. If it is completed, an operation of the
  history completed it with the candidate that was sealed then and that the recorded implementation of
  its attempt had produced. No attempt and no retry identity ever has two objectives.
\<close>

lemma objective_ends_once:
  assumes run: "review.reaches empty_store ls s" and row: "map_of (objective_rows s) objective = Some row"
  shows "(ob_state row = ''completed'' \<longrightarrow> (\<exists>w op. (w, op, True) \<in> set ls \<and> completed_by w op objective row))
    \<and> (ob_state row \<noteq> ''active'' \<and> review.reaches s ls' u \<longrightarrow> map_of (objective_rows u) objective = Some row)
    \<and> (map_of (objective_rows s) other = Some row' \<and> (ob_attempt row' = ob_attempt row \<or> ob_retry row' = ob_retry row) \<longrightarrow> other = objective)"
proof -
  have ok: "store_ok s" by (rule reached_store_ok [OF run])
  have kept: "map_of (objective_rows u) objective = Some row" if "review.reaches s ls' u" "ob_state row \<noteq> ''active''"
  proof -
    let ?r = "\<lambda>x y. map_of (objective_rows x) objective = Some row \<longrightarrow> map_of (objective_rows y) objective = Some row"
    have "?r x y" if "store_ok x" "review_step x l y" for x l y
      using that terminal_objectives_kept [OF that(1) _ _ \<open>ob_state row \<noteq> _\<close>] review_step_cases by (cases l) blast
    then have "?r s u" using review.reaches_monotone [OF that(1) ok, of ?r] by blast
    then show ?thesis using row by blast
  qed
  have unique: "other = objective" if "map_of (objective_rows s) other = Some row'" "ob_attempt row' = ob_attempt row \<or> ob_retry row' = ob_retry row"
  proof (rule objectives_ok_unique [OF _ that(1) row])
    show "objectives_ok s" using ok by (simp add: store_ok_def)
    show "objective_conflicts row' row" using that(2) by (auto simp: objective_conflicts_def)
  qed
  show ?thesis using completions_recorded [OF run row] kept unique by blast
qed

section \<open>Replays and receipts\<close>

lemma consume_guards:
  assumes "consume_owner_command w ti command lease result_digest s = Inr (s', p)"
  shows "is_token command \<and> require_lifecycle_authority w ti lease = Inr ()
    \<and> (\<exists>c. map_of (command_rows s) command = Some c \<and> cm_task c = ti_task_id ti \<and> command_grant w c \<noteq> None
        \<and> valid_owner_grant (command_grant w c) (cm_owner c) (cm_kind c) (ti_task_id ti) (cm_candidate c) = Inr True
        \<and> require_current_candidate w ti (cm_candidate c) lease = Inr ())"
  using assms by (auto simp: consume_owner_command_def bind_result_Inr_iff Let_def split: option.split_asm if_split_asm)

lemma consume_again:
  assumes guards: "is_token command" "is_fingerprint result_digest" "require_lifecycle_authority w ti lease = Inr ()"
    and c: "map_of (command_rows s) command = Some c" "cm_task c = ti_task_id ti" "command_grant w c \<noteq> None" "cm_state c = ''consumed''"
      "valid_owner_grant (command_grant w c) (cm_owner c) (cm_kind c) (ti_task_id ti) (cm_candidate c) = Inr True"
      "require_current_candidate w ti (cm_candidate c) lease = Inr ()"
    and row: "map_of (item_rows s) (cm_target c) = Some row" "it_task row = ti_task_id ti"
  shows "consume_owner_command w ti command lease result_digest s =
    (if cm_result c = Some result_digest \<and> it_resolved row = Some command
     then bind_result (projection (cm_target c) row) (\<lambda>p. Inr (s, p))
     else review_error ''owner command terminal replay conflicts with committed state'')"
  using assms by (cases "command_grant w c") (simp_all add: consume_owner_command_def require_review_def)

lemma grant_of_state [simp]: "command_grant w (c\<lparr>cm_state := x, cm_result := y\<rparr>) = command_grant w c"
  by (simp add: command_grant_def)

text \<open>
  Consuming a command is idempotent: the same request, repeated in the same
  world, changes nothing and returns the same item, while a request with another result is refused.
\<close>

lemma owner_command_replay:
  assumes run: "review.reaches empty_store ls s" and consume: "consume_owner_command w ti command lease result_digest s = Inr (s', p)"
  shows "consume_owner_command w ti command lease result_digest s' = Inr (s', p)
    \<and> (is_fingerprint other \<and> other \<noteq> result_digest \<longrightarrow> consume_owner_command w ti command lease other s'
         = review_error ''owner command terminal replay conflicts with committed state'')"
proof -
  have digest: "is_fingerprint result_digest" using consume by (auto simp: consume_owner_command_def bind_result_Inr_iff)
  note guards = consume_guards [OF consume]
  obtain c row where final: "map_of (command_rows s') command = Some c" "cm_task c = ti_task_id ti" "cm_state c = ''consumed''"
    "command_grant w c \<noteq> None" "valid_owner_grant (command_grant w c) (cm_owner c) (cm_kind c) (ti_task_id ti) (cm_candidate c) = Inr True"
    "require_current_candidate w ti (cm_candidate c) lease = Inr ()" "cm_result c = Some result_digest"
    "map_of (item_rows s') (cm_target c) = Some row" "it_task row = ti_task_id ti" "it_resolved row = Some command" "projection (cm_target c) row = Inr p"
    using consume
  proof (cases rule: command_consume_effect)
    case (replay c row)
    have "item_state_ok s (cm_target c) row" using items_okD(2) [OF _ replay(6)] reached_store_ok [OF run] by (simp add: store_ok_def)
    then have "it_task row = ti_task_id ti" using replay by (auto simp: item_state_ok_def)
    then show ?thesis using that [of c row] replay guards by auto
  next
    case (consumed c row)
    then show ?thesis using that [of "c\<lparr>cm_state := ''consumed'', cm_result := Some result_digest\<rparr>" "terminal_item (cm_kind c) command row"] guards by auto
  qed
  note again = consume_again [OF _ _ _ final(1,2,4,3,5,6,8,9)]
  show ?thesis using guards digest again final by (auto simp: require_review_def)
qed

text \<open>What the identity of a receipt commits to.\<close>

definition receipt_commits :: "owner_blocker_receipt \<Rightarrow> string \<times> string \<times> string \<times> string \<times> bool \<times> string" where
  "receipt_commits r = (br_task_id r, br_repository_id r, br_candidate_sha r, br_seal_state_identity r, br_blockers_pending r, br_blocker_state_digest r)"

interpretation obr: sealed_record
  "[''schema'', ''task_id'', ''repository_id'', ''candidate_sha'', ''seal_state_identity'', ''blockers_pending'', ''blocker_state_digest'']"
  blocker_receipt_fields receipt_commits "\<lambda>_. True"
  by unfold_locales (simp_all add: blocker_receipt_fields_def receipt_commits_def)

definition blocker_facts :: "string \<times> item_row \<Rightarrow> string \<times> string \<times> string \<times> string \<times> string" where
  "blocker_facts = (\<lambda>(item, row). (item, it_candidate row, it_attempt row, it_content row, it_destination row))"

lemma blocker_json_inj: "canon (blocker_json x) = canon (blocker_json y) \<Longrightarrow> blocker_facts x = blocker_facts y"
  by (cases x; cases y) (simp add: blocker_json_def blocker_facts_def)

lemma map_factor:
  assumes eq: "map f xs = map f ys" and factor: "\<And>x y. f x = f y \<Longrightarrow> g x = g y"
  shows "map g xs = map g ys"
proof (rule nth_equalityI)
  show len: "length (map g xs) = length (map g ys)" using arg_cong [OF eq, of length] by simp
  fix i assume i: "i < length (map g xs)"
  then have "f (xs ! i) = f (ys ! i)" using arg_cong [OF eq, of "\<lambda>l. l ! i"] len by simp
  from factor [OF this] show "map g xs ! i = map g ys ! i" using i len by simp
qed

lemma blocker_list_inj:
  assumes "hex_digest (JList (map blocker_json xs)) = hex_digest (JList (map blocker_json ys))"
  shows "map blocker_facts xs = map blocker_facts ys \<or> sha_collision (json_dumps (JList (map blocker_json xs))) (json_dumps (JList (map blocker_json ys)))"
proof (cases "json_dumps (JList (map blocker_json xs)) = json_dumps (JList (map blocker_json ys))")
  case True
  then have "canon (JList (map blocker_json xs)) = canon (JList (map blocker_json ys))" unfolding json_dumps_def by (rule render_inj)
  then have "map (canon \<circ> blocker_json) xs = map (canon \<circ> blocker_json) ys" by simp
  then have "map blocker_facts xs = map blocker_facts ys" by (rule map_factor) (rule blocker_json_inj, simp only: comp_def)
  then show ?thesis ..
next
  case False
  then show ?thesis using assms by (simp add: sha_collision_def hex_digest_def)
qed

lemma receipt_identity_made:
  assumes "owner_blocker_state_receipt w task candidate s = Inr r"
  shows "br_receipt_identity r = hex_digest (JObj (blocker_receipt_fields r))
    \<and> br_blocker_state_digest r = hex_digest (JList (map blocker_json (pending_blockers task s))) \<and> br_task_id r = task"
  using assms unfolding owner_blocker_state_receipt_def
  by (auto simp: bind_result_Inr_iff Let_def make_blocker_receipt_def blocker_receipt_guards_def owner_blocker_receipt_identity_def
      split: option.split_asm if_split_asm)

text \<open>The canonical texts of two receipts, or of the blockers they were taken of, collide.\<close>

definition blocker_receipts_collide :: "owner_blocker_receipt \<Rightarrow> owner_blocker_receipt \<Rightarrow> bool" where
  "blocker_receipts_collide r q \<longleftrightarrow> sha_collision (json_dumps (JObj (blocker_receipt_fields r))) (json_dumps (JObj (blocker_receipt_fields q)))"

definition blockers_collide :: "(string \<times> item_row) list \<Rightarrow> (string \<times> item_row) list \<Rightarrow> bool" where
  "blockers_collide xs ys \<longleftrightarrow> sha_collision (json_dumps (JList (map blocker_json xs))) (json_dumps (JList (map blocker_json ys)))"

text \<open>
  The identity of a receipt pins what the owner saw: two receipts
  with one identity, taken from any two stores and worlds, are of the same task, repository, sealed
  candidate and state, and list the same pending blockers with their provenance; otherwise the
  canonical texts of these receipts, or of these blockers, collide under SHA-256.
\<close>

lemma blocker_receipt_pins_state:
  assumes a: "owner_blocker_state_receipt w task candidate s = Inr r" and b: "owner_blocker_state_receipt w' task' candidate' s' = Inr r'"
    and same: "br_receipt_identity r = br_receipt_identity r'"
  shows "(receipt_commits r = receipt_commits r' \<and> task = task'
       \<and> map blocker_facts (pending_blockers task s) = map blocker_facts (pending_blockers task' s'))
    \<or> blocker_receipts_collide r r' \<or> blockers_collide (pending_blockers task s) (pending_blockers task' s')"
proof -
  note ra = receipt_identity_made [OF a] and rb = receipt_identity_made [OF b]
  have "receipt_commits r = receipt_commits r' \<or> blocker_receipts_collide r r'"
    using obr.digest_commits [of r r'] ra rb same by (auto simp: blocker_receipts_collide_def)
  moreover have "map blocker_facts (pending_blockers task s) = map blocker_facts (pending_blockers task' s') \<or> blockers_collide (pending_blockers task s) (pending_blockers task' s')"
    if "receipt_commits r = receipt_commits r'"
    using that ra rb blocker_list_inj [of "pending_blockers task s" "pending_blockers task' s'"] by (auto simp: receipt_commits_def blockers_collide_def)
  ultimately show ?thesis using ra rb by (auto simp: receipt_commits_def)
qed

section \<open>A sample history\<close>

definition rv_task :: task_identity where
  "rv_task = \<lparr>ti_task_id = ''task'', ti_source_id = ''source'', ti_repository_id = ''repository'', ti_branch = ''branch'', ti_worktree = ''worktree'',
     ti_base_sha = replicate 40 CHR ''b''\<rparr>"

definition rv_lease :: transition_lease where
  "rv_lease = \<lparr>tl_repository_id = ''repository'', tl_state_identity = ''00000000-0000-0000-0000-000000000001'', tl_owner = ''owner'',
     tl_generation = 1, tl_expires_at = 10\<rparr>"

abbreviation rv_sha :: string where
  "rv_sha \<equiv> replicate 40 CHR ''d''"

definition rv_item :: review_item where
  "rv_item = \<lparr>ri_item_id = ''item'', ri_task_id = ''task'', ri_review_identity = ''review'', ri_candidate_sha = rv_sha,
     ri_source_attempt_id = ''attempt'', ri_kind = PASS_FOLLOW_UP, ri_source = ACCEPTED_REVIEW, ri_content_digest = replicate 64 CHR ''c'',
     ri_destination = ''destination'', ri_blocking = True, ri_created_at = 1\<rparr>"

definition rv_command :: owner_command where
  "rv_command = \<lparr>oc_command_id = ''command'', oc_task_id = ''task'', oc_kind = RESOLVE_REVIEW_ITEM, oc_target_item_id = ''item'',
     oc_candidate_sha = rv_sha, oc_command_digest = replicate 64 CHR ''e'', oc_idempotency_key = ''key'', oc_owner_identity = ''ythdelmar68'',
     oc_authority_grant_id = ''grant''\<rparr>"

definition rv_implementation :: implementation_row where
  "rv_implementation = \<lparr>im_task = ''task'', im_thread = ''session'', im_turn = ''turn'', im_state = ''dispatched'', im_repair = None, im_candidate = None\<rparr>"

definition rv_attempt :: "string \<Rightarrow> string \<Rightarrow> attempt_row" where
  "rv_attempt role state = \<lparr>at_task = ''task'', at_role = role, at_number = 1, at_state = state, at_session = Some ''session'', at_turn = Some ''turn'',
     at_profile = Some ''profile'', at_accepted_profile = None, at_accepted_review = Some ''review'', at_output_pointer = None, at_evidence = None,
     at_output = None, at_outcome = None, at_implementation = Some rv_implementation\<rparr>"

definition rv_authority :: string where
  "rv_authority = sha256_hex (join_units [''review-owner-authority/v1'', ''ythdelmar68'', ''resolve-review-item'', ''task'', rv_sha, ''ythdelmar68''])"

definition rv_world :: review_world where
  "rv_world = \<lparr>vw_git = \<lparr>gw_binding = BindingVerified, gw_dirty = Inr False, gw_head = Inr rv_sha, gw_lease_row = Some rv_lease,
       gw_state_id = ''00000000-0000-0000-0000-000000000001'', gw_now = 1\<rparr>,
     vw_task_failure = \<lambda>_. None, vw_seals = \<lambda>_. Some (rv_sha, ''00000000-0000-0000-0000-000000000001''), vw_repositories = \<lambda>_. Some ''repository'',
     vw_grants = \<lambda>_. Some \<lparr>gr_owner = ''ythdelmar68'', gr_scope = ''resolve-review-item'', gr_task = ''task'', gr_candidate = rv_sha,
       gr_authority = rv_authority, gr_state = ''active''\<rparr>,
     vw_attempts = (\<lambda>a. Some (if a = ''worker'' then rv_attempt ''worker'' ''dispatched'' else rv_attempt ''supervisor'' ''accepted'')),
     vw_diff_reviews = \<lambda>_. Some (''task'', rv_sha, ''attempt'', ''accepted'', Some ''review''), vw_plan_reviews = \<lambda>_. None\<rparr>"

lemma rv_lexical:
  "is_token ''item''" "is_token ''task''" "is_token ''review''" "is_token ''attempt''" "is_token ''destination''" "is_token ''command''" "is_token ''key''"
  "is_token ''ythdelmar68''" "is_token ''grant''" "is_token ''profile''" "is_token ''repository''" "is_token ''session''" "is_token ''turn''"
  "is_token ''worker''" "is_token ''objective''" "is_token ''worker-1-worker''"
  "is_sha rv_sha" "is_sha (replicate 40 CHR ''b'')" "is_fingerprint (replicate 64 CHR ''c'')" "is_fingerprint (replicate 64 CHR ''e'')"
  "is_fingerprint (replicate 64 CHR ''f'')" "is_state_identity ''00000000-0000-0000-0000-000000000001''"
  by (simp_all add: is_token_def is_token_char_def is_lower_def is_digit_def is_sha_def is_hex_def list_all_iff is_state_identity_def upt_rec)

lemma rv_authority_digest: "owner_authority_digest ''ythdelmar68'' ''resolve-review-item'' ''task'' rv_sha = Inr rv_authority"
  by (simp add: owner_authority_digest_def ascii_digest_def OWNER_ALLOWLIST_def rv_authority_def unit_separator_def list_ex_iff eval_nat_numeral)

abbreviation rv_provenance :: "(provenance_key \<times> (string \<times> string \<times> string)) list" where
  "rv_provenance \<equiv> [((''item'', ''review'', ''accepted-review'', ''attempt''), (''task'', rv_sha, ''profile''))]"

definition rv_row :: item_row where
  "rv_row = new_item_row rv_item ''profile''"

definition rv_scope :: string where
  "rv_scope = sha256_hex (join_units [''resolve-review-item'', ''task'', rv_sha, ''item'', ''ythdelmar68'', ''grant''])"

definition rv_recorded :: review_store where
  "rv_recorded = \<lparr>item_rows = [(''item'', rv_row)], provenance_rows = rv_provenance, objective_rows = [], command_rows = []\<rparr>"

definition rv_queued :: review_store where
  "rv_queued = rv_recorded\<lparr>command_rows := [(''command'', command_columns rv_command rv_scope)]\<rparr>"

definition rv_resolved :: review_store where
  "rv_resolved = \<lparr>item_rows = [(''item'', terminal_item ''resolve-review-item'' ''command'' rv_row)], provenance_rows = rv_provenance,
     objective_rows = [], command_rows = [(''command'', (command_columns rv_command rv_scope)\<lparr>cm_state := ''consumed'', cm_result := Some (replicate 64 CHR ''f'')\<rparr>)]\<rparr>"

lemma rv_authority_ok [simp]: "require_lifecycle_authority rv_world rv_task (Some rv_lease) = Inr ()"
  "require_current_candidate rv_world rv_task rv_sha (Some rv_lease) = Inr ()"
  by (simp_all add: require_lifecycle_authority_def require_current_candidate_def require_review_def lease_failure_def rv_world_def rv_task_def rv_lease_def)

lemma rv_record: "\<exists>p. record_review_item rv_world rv_task rv_item (Some rv_lease) empty_store = Inr (rv_recorded, p)"
proof -
  have "require_accepted_review rv_world rv_task rv_item = Inr ''profile''"
    using rv_lexical by (simp add: require_accepted_review_def accepted_review_bound_def source_profile_def is_durable_identity_def require_review_def
        rv_world_def rv_task_def rv_item_def rv_attempt_def)
  moreover have "ri_task_id rv_item = ''task''" "ti_task_id rv_task = ''task''" "ri_candidate_sha rv_item = rv_sha"
    by (simp_all add: rv_item_def rv_task_def)
  ultimately show ?thesis
    by (simp add: record_review_item_def record_review_item_connection_def require_review_def empty_store_def integrity_as_def)
      (simp add: add_provenance_def provenance_key_of_def rv_recorded_def rv_row_def rv_item_def)
qed

lemma rv_queue: "\<exists>x. queue_owner_command rv_world rv_task rv_command (Some rv_lease) rv_recorded = Inr (rv_queued, x)"
proof -
  have "owner_scope_digest rv_command = Inr rv_scope"
    by (simp add: owner_scope_digest_def ascii_digest_def rv_command_def rv_scope_def unit_separator_def list_ex_iff eval_nat_numeral)
  moreover have "valid_owner_grant (vw_grants rv_world (oc_authority_grant_id rv_command)) (oc_owner_identity rv_command)
      (owner_kind_value (oc_kind rv_command)) (ti_task_id rv_task) (oc_candidate_sha rv_command) = Inr True"
    using rv_authority_digest by (simp add: valid_owner_grant_def rv_world_def rv_command_def rv_task_def OWNER_ALLOWLIST_def)
  moreover have "owner_command_target rv_task (oc_target_item_id rv_command) (oc_candidate_sha rv_command) rv_recorded"
    by (simp add: owner_command_target_def rv_recorded_def rv_command_def rv_row_def new_item_row_def rv_item_def rv_task_def)
  moreover have "oc_task_id rv_command = ti_task_id rv_task" "oc_candidate_sha rv_command = rv_sha" by (simp_all add: rv_command_def rv_task_def)
  ultimately show ?thesis by (simp add: queue_owner_command_def require_review_def) (simp add: rv_recorded_def rv_queued_def rv_command_def)
qed

lemma rv_consume: "\<exists>p. consume_owner_command rv_world rv_task ''command'' (Some rv_lease) (replicate 64 CHR ''f'') rv_queued = Inr (rv_resolved, p)"
proof -
  let ?c = "command_columns rv_command rv_scope"
  have c: "map_of (command_rows rv_queued) ''command'' = Some ?c" "map_of (item_rows rv_queued) ''item'' = Some rv_row"
    "\<not> list_ex (\<lambda>(_, row). it_resolved row = Some ''command'') (item_rows rv_queued)"
    by (simp_all add: rv_queued_def rv_recorded_def rv_row_def new_item_row_def)
  have grant: "command_grant rv_world ?c \<noteq> None" "valid_owner_grant (command_grant rv_world ?c) ''ythdelmar68'' ''resolve-review-item'' ''task'' rv_sha = Inr True"
    using rv_authority_digest by (simp_all add: valid_owner_grant_def command_grant_def rv_world_def command_columns_def rv_command_def OWNER_ALLOWLIST_def)
  have sel: "cm_task ?c = ''task''" "ti_task_id rv_task = ''task''" "cm_owner ?c = ''ythdelmar68''" "cm_kind ?c = ''resolve-review-item''" "cm_candidate ?c = rv_sha"
    "cm_target ?c = ''item''" "cm_state ?c = ''pending''" "it_task rv_row = ''task''" "it_disposition rv_row = ''pending''"
    by (simp_all add: command_columns_def rv_command_def rv_task_def rv_row_def new_item_row_def rv_item_def)
  have "\<exists>p. projection ''item'' (terminal_item ''resolve-review-item'' ''command'' rv_row) = Inr p"
    by (simp add: projection_def terminal_item_def rv_row_def new_item_row_def rv_item_def item_kind_of_def disposition_of_def verification_of_def enum_of_def)
  then show ?thesis using grant c rv_lexical
    by (simp add: consume_owner_command_def require_review_def sel del: not_None_eq)
      (auto simp: set_command_def set_item_def rv_queued_def rv_recorded_def rv_resolved_def)
qed

definition rv_history :: "review_label list" where
  "rv_history = [(rv_world, Record_item rv_task rv_item (Some rv_lease), True), (rv_world, Queue rv_task rv_command (Some rv_lease), True),
     (rv_world, Consume_command rv_task ''command'' (Some rv_lease) (replicate 64 CHR ''f''), True)]"

lemma review_snoc: "review.reaches empty_store ls s \<Longrightarrow> review_op_ok op \<Longrightarrow> run_review w op s = Inr u \<Longrightarrow>
    review.reaches empty_store (ls @ [(w, op, True)]) u"
  by (erule review.reaches_snoc) (simp split: sum.split)

lemma rv_reached:
  "review.reaches empty_store [(rv_world, Record_item rv_task rv_item (Some rv_lease), True)] rv_recorded"
  "review.reaches empty_store (butlast rv_history) rv_queued"
  "review.reaches empty_store rv_history rv_resolved"
proof -
  have "review_op_ok (Record_item rv_task rv_item (Some rv_lease))" using rv_lexical by (simp add: review_item_guards_def rv_item_def)
  from review_snoc [OF review.reaches_nil this, of rv_world rv_recorded]
  show one: "review.reaches empty_store [(rv_world, Record_item rv_task rv_item (Some rv_lease), True)] rv_recorded"
    using rv_record by (simp add: committed_Inr)
  have "review_op_ok (Queue rv_task rv_command (Some rv_lease))" using rv_lexical by (simp add: owner_command_guards_def rv_command_def)
  from review_snoc [OF one this, of rv_world rv_queued]
  show two: "review.reaches empty_store (butlast rv_history) rv_queued" using rv_queue by (simp add: committed_Inr rv_history_def)
  from review_snoc [OF two, of "Consume_command rv_task ''command'' (Some rv_lease) (replicate 64 CHR ''f'')" rv_world rv_resolved]
  show "review.reaches empty_store rv_history rv_resolved" using rv_consume by (simp add: committed_Inr rv_history_def)
qed

lemma rv_item_recorded: "item_recorded rv_history rv_item"
  by (auto simp: item_recorded_def rv_history_def)

theorem review_item_release_authorized_witness:
  "\<exists>item row. review.reaches empty_store rv_history rv_resolved \<and> item_recorded rv_history rv_item
     \<and> stands_for rv_resolved rv_item item row \<and> it_disposition row = ''resolved'' \<and> released rv_history rv_resolved item row"
proof -
  from review_item_release_authorized [OF rv_reached(3) rv_item_recorded] obtain item row where
    row: "stands_for rv_resolved rv_item item row" "it_disposition row = ''pending'' \<or> released rv_history rv_resolved item row" by blast
  moreover from row(1) have "it_disposition row = ''resolved''"
    by (auto simp: stands_for_def rv_resolved_def terminal_item_def split: if_split_asm)
  ultimately show ?thesis using rv_reached(3) rv_item_recorded by auto
qed

lemma rv_clear: "unresolved_final_gate_blockers rv_world ''task'' rv_sha rv_resolved = Inr False"
proof -
  have items: "items_ok rv_resolved" using reached_store_ok [OF rv_reached(3)] by (simp add: store_ok_def)
  have rows: "pending_blockers ''task'' rv_resolved = []" by (simp add: pending_blockers_def is_blocker_def rv_resolved_def terminal_item_def)
  show ?thesis using rv_lexical
    by (simp add: unresolved_final_gate_blockers_def owner_blocker_state_receipt_def rows rv_world_def require_review_def make_blocker_receipt_def
        blocker_receipt_guards_def owner_blocker_receipt_identity_def blocker_receipt_fields_def construct_ok hex_digest_def)
qed

theorem ready_needs_released_follow_ups_witness:
  "\<exists>w item row. transition_ready_for_owner w sample_worktree sample_seal sample_gate_context None sample_policy (Some sample_lease)
       (Gates_Safety.sample_tables all_gates) = (Gates_Safety.sample_tables all_gates, Inr sample_task)
     \<and> stands_for rv_resolved rv_item item row \<and> released rv_history rv_resolved item row"
proof -
  let ?f = "\<lambda>task candidate. unresolved_final_gate_blockers rv_world task candidate rv_resolved \<noteq> Inr False"
  have ready: "transition_ready_for_owner (sample_world\<lparr>gw_blockers := ?f\<rparr>) sample_worktree sample_seal sample_gate_context None sample_policy
      (Some sample_lease) (Gates_Safety.sample_tables all_gates) = (Gates_Safety.sample_tables all_gates, Inr sample_task)"
    by (rule sample_ready_with) (simp add: rv_clear)
  have "\<exists>item row. stands_for rv_resolved rv_item item row \<and> released rv_history rv_resolved item row"
    by (rule ready_needs_released_follow_ups [OF ready _ rv_reached(3) rv_item_recorded])
      (simp_all add: rv_item_def sample_worktree_def)
  then show ?thesis using ready by blast
qed

section \<open>Reading an objective\<close>

definition rv_objective :: worker_objective where
  "rv_objective = \<lparr>wo_objective_id = ''objective'', wo_task_id = ''task'', wo_dispatch_sha = replicate 40 CHR ''b'', wo_provider_attempt_id = ''worker'',
     wo_retry_identity = ''worker-1-worker'', wo_objective_digest = replicate 64 CHR ''c'', wo_state = Objective_ACTIVE, wo_result = None,
     wo_cancellation_reason_digest = None\<rparr>"

definition rv_active :: review_store where
  "rv_active = empty_store\<lparr>objective_rows := [(''objective'', active_row rv_objective ''worker-1-worker'')]\<rparr>"

definition rv_cancelled :: review_store where
  "rv_cancelled = empty_store\<lparr>objective_rows := [(''objective'', cancel_row (replicate 64 CHR ''f'') (active_row rv_objective ''worker-1-worker''))]\<rparr>"

lemma rv_dispatch:
  "require_worker_dispatch rv_world rv_task ''worker'' (replicate 40 CHR ''b'') = Inr ''worker-1-worker''"
  "require_worker_objective_attempt rv_world rv_task ''worker'' (replicate 40 CHR ''b'') = Inr ''worker-1-worker''"
proof -
  have "vw_attempts rv_world ''worker'' = Some (rv_attempt ''worker'' ''dispatched'')" by (simp add: rv_world_def)
  moreover have "retry_of (rv_attempt ''worker'' ''dispatched'') ''worker'' = ''worker-1-worker''"
    by (simp add: retry_of_def rv_attempt_def int_str_def nat_str.simps digit_char_def)
  ultimately show "require_worker_dispatch rv_world rv_task ''worker'' (replicate 40 CHR ''b'') = Inr ''worker-1-worker''"
    "require_worker_objective_attempt rv_world rv_task ''worker'' (replicate 40 CHR ''b'') = Inr ''worker-1-worker''"
    using rv_lexical
    by (simp_all add: require_worker_dispatch_def require_worker_objective_attempt_def rv_attempt_def rv_implementation_def rv_task_def dispatch_sha_of_def)
qed

lemma rv_objective_sel:
  "wo_objective_id rv_objective = ''objective''" "wo_task_id rv_objective = ''task''" "wo_dispatch_sha rv_objective = replicate 40 CHR ''b''"
  "wo_provider_attempt_id rv_objective = ''worker''" "wo_retry_identity rv_objective = ''worker-1-worker''" "ti_task_id rv_task = ''task''"
  by (simp_all add: rv_objective_def rv_task_def)

lemma rv_projections:
  "\<exists>y. objective_projection ''objective'' (active_row rv_objective ''worker-1-worker'') = Inr y"
  "\<exists>y. objective_projection ''objective'' (cancel_row (replicate 64 CHR ''f'') (active_row rv_objective ''worker-1-worker'')) = Inr y \<and> wo_task_id y = ''task''
     \<and> wo_state y = Objective_CANCELLED"
  using rv_lexical
  by (simp_all add: objective_projection_def active_row_def cancel_row_def rv_objective_def objective_state_of_def enum_of_def make_worker_objective_def
      worker_objective_guards_def construct_ok)

lemma rv_objective_reached:
  "review.reaches empty_store [(rv_world, Start rv_task rv_objective (Some rv_lease), True),
     (rv_world, Cancel rv_task rv_objective (Some rv_lease) (replicate 64 CHR ''f''), True)] rv_cancelled"
proof -
  have guards: "list_all fst (worker_objective_guards rv_objective)" using rv_lexical by (simp add: worker_objective_guards_def rv_objective_def)
  obtain y where y: "objective_projection ''objective'' (active_row rv_objective ''worker-1-worker'') = Inr y" using rv_projections(1) by blast
  have "run_review rv_world (Start rv_task rv_objective (Some rv_lease)) empty_store = Inr rv_active"
    by (simp add: committed_def start_objective_def require_review_def rv_objective_sel rv_dispatch empty_store_def rv_active_def y)
  from review_snoc [OF review.reaches_nil _ this] guards
  have one: "review.reaches empty_store [(rv_world, Start rv_task rv_objective (Some rv_lease), True)] rv_active" by simp
  obtain z where z: "objective_projection ''objective'' (cancel_row (replicate 64 CHR ''f'') (active_row rv_objective ''worker-1-worker'')) = Inr z"
    using rv_projections(2) by blast
  have "row_columns (active_row rv_objective ''worker-1-worker'') = objective_columns rv_objective ''worker-1-worker''"
    "ob_state (active_row rv_objective ''worker-1-worker'') = ''active''"
    by (simp_all add: row_columns_def objective_columns_def active_row_def)
  then have "run_review rv_world (Cancel rv_task rv_objective (Some rv_lease) (replicate 64 CHR ''f'')) rv_active = Inr rv_cancelled"
    using rv_lexical
    by (simp add: committed_def cancel_objective_def terminal_objective_def require_review_def rv_objective_sel rv_dispatch rv_active_def z)
      (simp add: set_objective_def rv_cancelled_def)
  from review_snoc [OF one _ this] guards show ?thesis by simp
qed

text \<open>
  C38 (cancelled_objective_crosses_tasks). Reading an objective checks the task of an active or
  completed one through its attempt, but not that of a cancelled one: a reachable store returns the
  cancelled objective of one task to a caller that acts for another.
\<close>

theorem cancelled_objective_crosses_tasks:
  "\<exists>ls s w ti x. review.reaches empty_store ls s \<and> vw_task_failure w ti = None \<and> read_objective w ti ''objective'' s = Inr x
     \<and> wo_state x = Objective_CANCELLED \<and> wo_task_id x \<noteq> ti_task_id ti"
proof -
  let ?ti = "rv_task\<lparr>ti_task_id := ''other''\<rparr>"
  obtain x where x: "objective_projection ''objective'' (cancel_row (replicate 64 CHR ''f'') (active_row rv_objective ''worker-1-worker'')) = Inr x"
    "wo_task_id x = ''task''" "wo_state x = Objective_CANCELLED" using rv_projections(2) by blast
  have none: "vw_task_failure rv_world ?ti = None" by (simp add: rv_world_def)
  have "read_objective rv_world ?ti ''objective'' rv_cancelled = Inr x"
    using rv_lexical by (simp add: read_objective_def require_review_def none x rv_cancelled_def)
  moreover have "wo_task_id x \<noteq> ti_task_id ?ti" by (simp add: x)
  ultimately show ?thesis using rv_objective_reached none x(3) by blast
qed

end
