(* ===== verification/Dependency_Policy.thy ===== *)
theory Dependency_Policy
  imports Json
begin

text \<open>
  \<open>dependency_policy.py\<close>: the gate in front of every helper that a task executes. A policy for one
  candidate names the exact identity of each dependency and the versions it supports; it counts only
  when a trusted admission covers it, either as the first policy of its lineage or as a reviewed
  upgrade or rollback of the previous one.

  Arguments whose type the code tests are optional, \<open>None\<close> standing for a value of another type. All
  values of the model's records are built by their constructors.
\<close>

section \<open>Lexical classes and versions\<close>

text \<open>The regular expression \<open>[a-z0-9][a-z0-9._-]{0,n}\<close>, matched in full.\<close>

definition is_name_char :: "char \<Rightarrow> bool" where
  "is_name_char c \<longleftrightarrow> is_lower c \<or> is_digit c \<or> c \<in> set ''._-''"

definition is_name :: "nat \<Rightarrow> string \<Rightarrow> bool" where
  "is_name n s \<longleftrightarrow> (case s of [] \<Rightarrow> False
     | c # cs \<Rightarrow> (is_lower c \<or> is_digit c) \<and> length cs \<le> n \<and> list_all is_name_char cs)"

text \<open>Two names with a slash between them, which neither can contain.\<close>

definition is_repository :: "string \<Rightarrow> bool" where
  "is_repository s \<longleftrightarrow> (case dropWhile (\<lambda>c. c \<noteq> CHR ''/'') s of [] \<Rightarrow> False
     | _ # repository \<Rightarrow> is_name 38 (takeWhile (\<lambda>c. c \<noteq> CHR ''/'') s) \<and> is_name 99 repository)"

text \<open>\<open>part in text\<close>.\<close>

definition has_part :: "string \<Rightarrow> string \<Rightarrow> bool" where
  "has_part part text \<longleftrightarrow> list_ex (\<lambda>i. take (length part) (drop i text) = part) [0..<Suc (length text)]"

text \<open>The regular expression \<open>0|[1-9][0-9]*\<close>, matched in full.\<close>

definition is_numeral :: "string \<Rightarrow> bool" where
  "is_numeral s \<longleftrightarrow> s = ''0'' \<or> (s \<noteq> [] \<and> hd s \<noteq> CHR ''0'' \<and> list_all is_digit s)"

definition digit_value :: "char \<Rightarrow> nat" where
  "digit_value c = of_char c - 48"

definition numeral_value :: "string \<Rightarrow> nat" where
  "numeral_value s = foldl (\<lambda>n c. 10 * n + digit_value c) 0 s"

text \<open>The groups between the dots.\<close>

fun split_dots :: "string \<Rightarrow> string list" where
  "split_dots [] = [[]]"
| "split_dots (c # cs) = (if c = CHR ''.'' then [] # split_dots cs else
     (case split_dots cs of [] \<Rightarrow> [[c]] | g # gs \<Rightarrow> (c # g) # gs))"

definition is_version :: "string \<Rightarrow> bool" where
  "is_version s \<longleftrightarrow> length (split_dots s) = 3 \<and> list_all is_numeral (split_dots s)"

type_synonym version_key = "nat \<times> nat \<times> nat"

definition key_of :: "string \<Rightarrow> version_key" where
  "key_of s = (let gs = map numeral_value (split_dots s) in (gs ! 0, gs ! 1, gs ! 2))"

text \<open>\<open>int\<close> refuses numerals of more than 4300 digits.\<close>

definition within_int_limit :: "string \<Rightarrow> bool" where
  "within_int_limit s \<longleftrightarrow> list_all (\<lambda>g. length g \<le> 4300) (split_dots s)"

definition version_key_result :: "string \<Rightarrow> version_key result" where
  "version_key_result s = (if within_int_limit s then Inr (key_of s) else Inl PyValueError)"

definition key_less :: "version_key \<Rightarrow> version_key \<Rightarrow> bool" where
  "key_less a b \<longleftrightarrow> fst a < fst b \<or> fst a = fst b \<and> (fst (snd a) < fst (snd b) \<or> fst (snd a) = fst (snd b) \<and> snd (snd a) < snd (snd b))"

definition compare_version :: "string \<Rightarrow> string \<Rightarrow> int" where
  "compare_version a b = (if key_less (key_of b) (key_of a) then 1 else 0) - (if key_less (key_of a) (key_of b) then 1 else 0)"

section \<open>Data\<close>

datatype dependency_component = D_PACKAGE | D_PROVIDER_RUNTIME | D_GITHUB_CLI | D_BUILD_BACKEND | D_GIT_EXECUTABLE | D_OPTIONAL_ADAPTER

definition all_components :: "dependency_component list" where
  "all_components = [D_PACKAGE, D_PROVIDER_RUNTIME, D_GITHUB_CLI, D_BUILD_BACKEND, D_GIT_EXECUTABLE, D_OPTIONAL_ADAPTER]"

fun component_value :: "dependency_component \<Rightarrow> string" where
  "component_value D_PACKAGE = ''package''"
| "component_value D_PROVIDER_RUNTIME = ''provider-runtime''"
| "component_value D_GITHUB_CLI = ''github-cli''"
| "component_value D_BUILD_BACKEND = ''build-backend''"
| "component_value D_GIT_EXECUTABLE = ''git-executable''"
| "component_value D_OPTIONAL_ADAPTER = ''optional-adapter''"

datatype dependency_stage = S_DISPATCH | S_GITHUB_READ | S_GITHUB_MUTATION | S_PACKAGE_BUILD | S_PROVIDER_QUALIFICATION | S_OPTIONAL_ADAPTER | S_GIT_ENTRYPOINT

fun stage_value :: "dependency_stage \<Rightarrow> string" where
  "stage_value S_DISPATCH = ''dispatch''"
| "stage_value S_GITHUB_READ = ''github-read''"
| "stage_value S_GITHUB_MUTATION = ''github-mutation''"
| "stage_value S_PACKAGE_BUILD = ''package-build''"
| "stage_value S_PROVIDER_QUALIFICATION = ''provider-qualification''"
| "stage_value S_OPTIONAL_ADAPTER = ''optional-adapter''"
| "stage_value S_GIT_ENTRYPOINT = ''git-entrypoint''"

datatype transition_kind = T_INITIAL | T_BOOTSTRAP | T_UPGRADE | T_ROLLBACK

datatype decision_code = C_AUTHORIZED | C_INVALID_CONTEXT | C_POLICY_UNAVAILABLE | C_POLICY_STALE | C_CANDIDATE_MISMATCH
  | C_PROVENANCE_UNAVAILABLE | C_PROVENANCE_INVALID | C_DUPLICATE_PROVENANCE | C_POLICY_COVERAGE_MISSING | C_PROVENANCE_MISSING
  | C_PROVENANCE_STALE | C_IDENTITY_MISMATCH | C_EXECUTABLE_MISMATCH | C_VERSION_UNSUPPORTED | C_POLICY_TRANSITION_INVALID

fun code_value :: "decision_code \<Rightarrow> string" where
  "code_value C_AUTHORIZED = ''authorized''"
| "code_value C_INVALID_CONTEXT = ''invalid-context''"
| "code_value C_POLICY_UNAVAILABLE = ''policy-unavailable''"
| "code_value C_POLICY_STALE = ''policy-stale''"
| "code_value C_CANDIDATE_MISMATCH = ''candidate-mismatch''"
| "code_value C_PROVENANCE_UNAVAILABLE = ''provenance-unavailable''"
| "code_value C_PROVENANCE_INVALID = ''provenance-invalid''"
| "code_value C_DUPLICATE_PROVENANCE = ''duplicate-provenance''"
| "code_value C_POLICY_COVERAGE_MISSING = ''policy-coverage-missing''"
| "code_value C_PROVENANCE_MISSING = ''provenance-missing''"
| "code_value C_PROVENANCE_STALE = ''provenance-stale''"
| "code_value C_IDENTITY_MISMATCH = ''identity-mismatch''"
| "code_value C_EXECUTABLE_MISMATCH = ''executable-mismatch''"
| "code_value C_VERSION_UNSUPPORTED = ''version-unsupported''"
| "code_value C_POLICY_TRANSITION_INVALID = ''policy-transition-invalid''"

fun dependency_diagnostic :: "decision_code \<Rightarrow> string" where
  "dependency_diagnostic C_AUTHORIZED = ''all mandatory dependency identities are current''"
| "dependency_diagnostic C_INVALID_CONTEXT = ''candidate dependency preflight context is invalid''"
| "dependency_diagnostic C_POLICY_UNAVAILABLE = ''trusted dependency policy is unavailable''"
| "dependency_diagnostic C_POLICY_STALE = ''trusted dependency policy is stale''"
| "dependency_diagnostic C_CANDIDATE_MISMATCH = ''dependency evidence does not match the active candidate''"
| "dependency_diagnostic C_PROVENANCE_UNAVAILABLE = ''dependency provenance is unavailable''"
| "dependency_diagnostic C_PROVENANCE_INVALID = ''dependency provenance is invalid''"
| "dependency_diagnostic C_DUPLICATE_PROVENANCE = ''duplicate dependency provenance was supplied''"
| "dependency_diagnostic C_POLICY_COVERAGE_MISSING = ''required dependency is not covered by policy''"
| "dependency_diagnostic C_PROVENANCE_MISSING = ''required dependency provenance is missing''"
| "dependency_diagnostic C_PROVENANCE_STALE = ''dependency provenance is stale''"
| "dependency_diagnostic C_IDENTITY_MISMATCH = ''dependency identity does not match policy''"
| "dependency_diagnostic C_EXECUTABLE_MISMATCH = ''dependency executable identity does not match policy''"
| "dependency_diagnostic C_VERSION_UNSUPPORTED = ''dependency version is unsupported''"
| "dependency_diagnostic C_POLICY_TRANSITION_INVALID = ''dependency policy transition is not admitted''"

fun canonical_stage_requirements :: "dependency_stage \<Rightarrow> dependency_component list" where
  "canonical_stage_requirements S_DISPATCH = [D_PACKAGE, D_PROVIDER_RUNTIME, D_GITHUB_CLI, D_BUILD_BACKEND]"
| "canonical_stage_requirements S_GITHUB_READ = [D_PACKAGE, D_GITHUB_CLI]"
| "canonical_stage_requirements S_GITHUB_MUTATION = [D_PACKAGE, D_GITHUB_CLI]"
| "canonical_stage_requirements S_PACKAGE_BUILD = [D_PACKAGE, D_BUILD_BACKEND]"
| "canonical_stage_requirements S_PROVIDER_QUALIFICATION = [D_PACKAGE, D_PROVIDER_RUNTIME]"
| "canonical_stage_requirements S_OPTIONAL_ADAPTER = [D_PACKAGE, D_OPTIONAL_ADAPTER]"
| "canonical_stage_requirements S_GIT_ENTRYPOINT = [D_PACKAGE, D_GIT_EXECUTABLE]"

record candidate_binding =
  cb_repository :: string
  cb_task_id :: string
  cb_candidate_sha :: string

definition make_candidate_binding :: "candidate_binding \<Rightarrow> candidate_binding result" where
  "make_candidate_binding b = construct
     [(is_repository (cb_repository b) \<and> is_name 127 (cb_task_id b) \<and> is_sha (cb_candidate_sha b),
       DependencyPolicyError ''candidate dependency binding is invalid'')] b"

definition binding_fields :: "candidate_binding \<Rightarrow> (string \<times> json) list" where
  "binding_fields b = [(''repository'', JStr (cb_repository b)), (''task_id'', JStr (cb_task_id b)), (''candidate_sha'', JStr (cb_candidate_sha b))]"

definition binding_fingerprint :: "candidate_binding \<Rightarrow> string" where
  "binding_fingerprint b = digest_value (JObj (binding_fields b))"

record version_range =
  vr_minimum :: string
  vr_maximum_exclusive :: string

definition make_version_range :: "version_range \<Rightarrow> version_range result" where
  "make_version_range v =
     (let invalid = Inl (DependencyPolicyError ''supported version range is invalid'') in
      if \<not> is_version (vr_minimum v) \<or> \<not> is_version (vr_maximum_exclusive v) then invalid else
      bind_result (version_key_result (vr_minimum v)) (\<lambda>low.
      bind_result (version_key_result (vr_maximum_exclusive v)) (\<lambda>high.
      if key_less low high then Inr v else invalid)))"

definition range_contains :: "version_range \<Rightarrow> string \<Rightarrow> bool result" where
  "range_contains v version = (if \<not> is_version version then Inr False else
     bind_result (version_key_result (vr_minimum v)) (\<lambda>low.
     bind_result (version_key_result version) (\<lambda>key.
     if key_less key low then Inr False else
     bind_result (version_key_result (vr_maximum_exclusive v)) (\<lambda>high. Inr (key_less key high)))))"

record component_policy =
  cp_component :: dependency_component
  cp_identifier :: string
  cp_versions :: version_range
  cp_source_identity :: string
  cp_artifact_digest :: string
  cp_executable_digest :: string

definition component_policy_guards :: "component_policy \<Rightarrow> (bool \<times> py_error) list" where
  "component_policy_guards c =
     [(is_token (cp_identifier c) \<and> \<not> has_part ''copilot'' (cp_identifier c) \<and> is_token (cp_source_identity c),
         DependencyPolicyError ''dependency component policy is invalid''),
      (is_digest (cp_artifact_digest c) \<and> is_digest (cp_executable_digest c), DependencyPolicyError ''dependency component policy is invalid'')]"

definition make_component_policy :: "component_policy \<Rightarrow> component_policy result" where
  "make_component_policy c = construct (component_policy_guards c) c"

definition component_evidence :: "component_policy \<Rightarrow> json" where
  "component_evidence c = JObj
     [(''component'', JStr (component_value (cp_component c))), (''identifier'', JStr (cp_identifier c)),
      (''minimum'', JStr (vr_minimum (cp_versions c))), (''maximum_exclusive'', JStr (vr_maximum_exclusive (cp_versions c))),
      (''source_identity'', JStr (cp_source_identity c)), (''artifact_digest'', JStr (cp_artifact_digest c)),
      (''executable_digest'', JStr (cp_executable_digest c))]"

section \<open>Receipts and policies\<close>

record transition_review =
  tr_binding :: candidate_binding
  tr_reviewer_identity :: string
  tr_authority_digest :: string
  tr_previous_policy_fingerprint :: string
  tr_current_policy_fingerprint :: string
  tr_delta_digest :: string
  tr_review_digest :: string

definition review_evidence :: "transition_review \<Rightarrow> (string \<times> json) list" where
  "review_evidence r =
     [(''binding'', JStr (binding_fingerprint (tr_binding r))), (''reviewer_identity'', JStr (tr_reviewer_identity r)),
      (''authority_digest'', JStr (tr_authority_digest r)), (''previous_policy_fingerprint'', JStr (tr_previous_policy_fingerprint r)),
      (''current_policy_fingerprint'', JStr (tr_current_policy_fingerprint r)), (''delta_digest'', JStr (tr_delta_digest r))]"

definition transition_review_guards :: "transition_review \<Rightarrow> (bool \<times> py_error) list" where
  "transition_review_guards r =
     (let invalid = DependencyPolicyError ''policy transition review is invalid'' in
      [(list_all is_digest [tr_reviewer_identity r, tr_authority_digest r, tr_previous_policy_fingerprint r,
          tr_current_policy_fingerprint r, tr_delta_digest r, tr_review_digest r], invalid),
       (tr_review_digest r = digest_value (JObj (review_evidence r)), invalid)])"

definition make_transition_review :: "transition_review \<Rightarrow> transition_review result" where
  "make_transition_review r = construct (transition_review_guards r) r"

record bootstrap_receipt =
  bs_binding :: candidate_binding
  bs_reviewer_identity :: string
  bs_authority_digest :: string
  bs_policy_fingerprint :: string
  bs_receipt_digest :: string

definition bootstrap_evidence :: "bootstrap_receipt \<Rightarrow> (string \<times> json) list" where
  "bootstrap_evidence r =
     [(''binding'', JStr (binding_fingerprint (bs_binding r))), (''reviewer_identity'', JStr (bs_reviewer_identity r)),
      (''authority_digest'', JStr (bs_authority_digest r)), (''policy_fingerprint'', JStr (bs_policy_fingerprint r))]"

definition bootstrap_receipt_guards :: "bootstrap_receipt \<Rightarrow> (bool \<times> py_error) list" where
  "bootstrap_receipt_guards r =
     (let invalid = DependencyPolicyError ''bootstrap policy receipt is invalid'' in
      [(list_all is_digest [bs_reviewer_identity r, bs_authority_digest r, bs_policy_fingerprint r, bs_receipt_digest r], invalid),
       (bs_receipt_digest r = digest_value (JObj (bootstrap_evidence r)), invalid)])"

definition make_bootstrap_receipt :: "bootstrap_receipt \<Rightarrow> bootstrap_receipt result" where
  "make_bootstrap_receipt r = construct (bootstrap_receipt_guards r) r"

text \<open>The union type of the field \<open>review\<close>.\<close>

datatype transition_evidence = Reviewed transition_review | Receipted bootstrap_receipt

record policy_transition =
  pt_kind :: transition_kind
  pt_review :: "transition_evidence option"

fun is_reviewed :: "transition_evidence option \<Rightarrow> bool" where
  "is_reviewed (Some (Reviewed r)) = True"
| "is_reviewed e = False"

definition make_policy_transition :: "policy_transition \<Rightarrow> policy_transition result" where
  "make_policy_transition t = construct
     [(\<not> (pt_kind t = T_INITIAL \<or> pt_kind t = T_BOOTSTRAP \<and> is_reviewed (pt_review t)
          \<or> pt_kind t \<in> {T_UPGRADE, T_ROLLBACK} \<and> \<not> is_reviewed (pt_review t)),
       DependencyPolicyError ''dependency policy transition is invalid'')] t"

record dependency_policy =
  dp_binding :: candidate_binding
  dp_policy_digest :: string
  dp_issued_at :: int
  dp_freshness_seconds :: int
  dp_components :: "component_policy list"
  dp_transition :: policy_transition

definition dependency_policy_guards :: "dependency_policy \<Rightarrow> (bool \<times> py_error) list" where
  "dependency_policy_guards p =
     (let invalid = DependencyPolicyError ''dependency policy is invalid'' in
      [(is_digest (dp_policy_digest p) \<and> 0 \<le> dp_issued_at p \<and> 1 \<le> dp_freshness_seconds p, invalid),
       (dp_components p \<noteq> [] \<and> distinct (map cp_component (dp_components p)), invalid)])"

definition make_dependency_policy :: "dependency_policy \<Rightarrow> dependency_policy result" where
  "make_dependency_policy p = construct (dependency_policy_guards p) p"

definition core_fields :: "dependency_policy \<Rightarrow> (string \<times> json) list" where
  "core_fields p =
     [(''binding'', JStr (binding_fingerprint (dp_binding p))), (''policy_digest'', JStr (dp_policy_digest p)),
      (''issued_at'', JInt (dp_issued_at p)), (''freshness_seconds'', JInt (dp_freshness_seconds p)),
      (''components'', JList (map component_evidence (dp_components p)))]"

definition core_fingerprint :: "dependency_policy \<Rightarrow> string" where
  "core_fingerprint p = digest_value (JObj (core_fields p))"

definition policy_component :: "dependency_policy \<Rightarrow> dependency_component \<Rightarrow> component_policy option" where
  "policy_component p kind = find (\<lambda>c. cp_component c = kind) (dp_components p)"

definition policy_delta_digest :: "dependency_policy \<Rightarrow> dependency_policy \<Rightarrow> string" where
  "policy_delta_digest previous current = digest_value (JObj
     [(''previous'', JList (map component_evidence (dp_components previous))), (''current'', JList (map component_evidence (dp_components current)))])"

definition create_transition_review ::
  "dependency_policy \<Rightarrow> dependency_policy \<Rightarrow> string \<Rightarrow> string \<Rightarrow> transition_review result" where
  "create_transition_review previous current reviewer authority =
     (if dp_binding previous \<noteq> dp_binding current then Inl (DependencyPolicyError ''policy transition review is invalid'') else
      let unsigned = \<lparr>tr_binding = dp_binding previous, tr_reviewer_identity = reviewer, tr_authority_digest = authority,
            tr_previous_policy_fingerprint = core_fingerprint previous, tr_current_policy_fingerprint = core_fingerprint current,
            tr_delta_digest = policy_delta_digest previous current, tr_review_digest = []\<rparr> in
      make_transition_review (unsigned\<lparr>tr_review_digest := digest_value (JObj (review_evidence unsigned))\<rparr>))"

definition create_bootstrap_receipt :: "dependency_policy \<Rightarrow> string \<Rightarrow> string \<Rightarrow> bootstrap_receipt result" where
  "create_bootstrap_receipt policy reviewer authority =
     (let unsigned = \<lparr>bs_binding = dp_binding policy, bs_reviewer_identity = reviewer, bs_authority_digest = authority,
            bs_policy_fingerprint = core_fingerprint policy, bs_receipt_digest = []\<rparr> in
      make_bootstrap_receipt (unsigned\<lparr>bs_receipt_digest := digest_value (JObj (bootstrap_evidence unsigned))\<rparr>))"

record trusted_admission =
  ta_binding :: candidate_binding
  ta_policy_fingerprint :: string
  ta_receipt_digest :: string
  ta_reviewer_identity :: string
  ta_authority_digest :: string
  ta_previous_policy :: "dependency_policy option"

definition trusted_admission_guards :: "trusted_admission \<Rightarrow> (bool \<times> py_error) list" where
  "trusted_admission_guards a =
     (let invalid = DependencyPolicyError ''trusted dependency admission is invalid'' in
      [(list_all is_digest [ta_policy_fingerprint a, ta_receipt_digest a, ta_reviewer_identity a, ta_authority_digest a], invalid),
       (case ta_previous_policy a of None \<Rightarrow> True | Some previous \<Rightarrow> dp_binding previous = ta_binding a, invalid)])"

definition make_trusted_admission :: "trusted_admission \<Rightarrow> trusted_admission result" where
  "make_trusted_admission a = construct (trusted_admission_guards a) a"

record observed_dependency =
  od_binding :: candidate_binding
  od_component :: dependency_component
  od_identifier :: string
  od_version :: string
  od_source_identity :: string
  od_artifact_digest :: string
  od_executable_digest :: string
  od_observed_at :: int
  od_policy_digest :: string

definition observed_dependency_guards :: "observed_dependency \<Rightarrow> (bool \<times> py_error) list" where
  "observed_dependency_guards x =
     (let invalid = DependencyPolicyError ''dependency observation is invalid'' in
      [(is_token (od_identifier x) \<and> is_version (od_version x) \<and> is_token (od_source_identity x)
          \<and> \<not> has_part ''copilot'' (od_identifier x), invalid),
       (list_all is_digest [od_artifact_digest x, od_executable_digest x, od_policy_digest x] \<and> 0 \<le> od_observed_at x, invalid)])"

definition make_observed_dependency :: "observed_dependency \<Rightarrow> observed_dependency result" where
  "make_observed_dependency x = construct (observed_dependency_guards x) x"

definition observation_fields :: "observed_dependency \<Rightarrow> (string \<times> json) list" where
  "observation_fields x =
     [(''binding'', JStr (binding_fingerprint (od_binding x))), (''component'', JStr (component_value (od_component x))),
      (''identifier'', JStr (od_identifier x)), (''version'', JStr (od_version x)), (''source_identity'', JStr (od_source_identity x)),
      (''artifact_digest'', JStr (od_artifact_digest x)), (''executable_digest'', JStr (od_executable_digest x)),
      (''observed_at'', JInt (od_observed_at x)), (''policy_digest'', JStr (od_policy_digest x))]"

definition observation_fingerprint :: "observed_dependency \<Rightarrow> string" where
  "observation_fingerprint x = digest_value (JObj (observation_fields x))"

datatype decision_outcome = Outcome_PASS | Outcome_BLOCKED

fun outcome_value :: "decision_outcome \<Rightarrow> string" where
  "outcome_value Outcome_PASS = ''PASS''"
| "outcome_value Outcome_BLOCKED = ''BLOCKED''"

record dependency_decision =
  dd_outcome :: decision_outcome
  dd_code :: decision_code
  dd_stage :: "dependency_stage option"
  dd_binding_fingerprint :: "string option"
  dd_policy_fingerprint :: "string option"
  dd_observation_fingerprints :: "string list"
  dd_evaluated_at :: int

definition make_dependency_decision :: "dependency_decision \<Rightarrow> dependency_decision result" where
  "make_dependency_decision d = construct
     [(list_all is_digest (dd_observation_fingerprints d) \<and> 0 \<le> dd_evaluated_at d, DependencyPolicyError ''dependency decision is invalid'')] d"

section \<open>Admission of a policy\<close>

text \<open>
  The two sets of directions are lists here, one entry per component; the code reads the policies
  by component, so the order of the components does not matter.
\<close>

definition directions :: "(version_range \<Rightarrow> string) \<Rightarrow> dependency_policy \<Rightarrow> dependency_policy \<Rightarrow> int list" where
  "directions bound previous current = List.map_filter (\<lambda>c.
     map_option (\<lambda>d. compare_version (bound (cp_versions d)) (bound (cp_versions c))) (policy_component current (cp_component c)))
     (dp_components previous)"

definition verify_policy_transition :: "dependency_policy \<Rightarrow> dependency_policy \<Rightarrow> bool" where
  "verify_policy_transition previous current =
     (if dp_binding previous \<noteq> dp_binding current then False else
      let transition = dp_transition current in
      if pt_kind transition \<notin> {T_UPGRADE, T_ROLLBACK} then False else
      (case pt_review transition of
         Some (Reviewed review) \<Rightarrow>
           if tr_binding review \<noteq> dp_binding current \<or> tr_previous_policy_fingerprint review \<noteq> core_fingerprint previous
              \<or> tr_current_policy_fingerprint review \<noteq> core_fingerprint current
              \<or> tr_delta_digest review \<noteq> policy_delta_digest previous current then False else
           if cp_component ` set (dp_components previous) \<noteq> cp_component ` set (dp_components current) then False else
           let minimum = directions vr_minimum previous current; maximum = directions vr_maximum_exclusive previous current in
           if set minimum = {0} \<and> set maximum = {0} then False else
           if pt_kind transition = T_UPGRADE
             then list_all (\<lambda>v. 0 \<le> v) (minimum @ maximum) \<and> list_ex (\<lambda>v. 0 < v) (minimum @ maximum)
             else list_all (\<lambda>v. v \<le> 0) (minimum @ maximum) \<and> list_ex (\<lambda>v. v < 0) (minimum @ maximum)
       | _ \<Rightarrow> False))"

text \<open>What the trusted admission repeats of a receipt.\<close>

definition admission_covers :: "trusted_admission \<Rightarrow> string \<Rightarrow> string \<Rightarrow> string \<Rightarrow> bool" where
  "admission_covers a receipt reviewer authority \<longleftrightarrow>
     (receipt, reviewer, authority) = (ta_receipt_digest a, ta_reviewer_identity a, ta_authority_digest a)"

definition verify_policy_admission :: "dependency_policy \<Rightarrow> dependency_policy option \<Rightarrow> trusted_admission option \<Rightarrow> bool" where
  "verify_policy_admission policy previous trusted =
     (case trusted of None \<Rightarrow> False | Some a \<Rightarrow>
        if ta_binding a \<noteq> dp_binding policy \<or> ta_policy_fingerprint a \<noteq> core_fingerprint policy then False else
        (case (pt_kind (dp_transition policy), pt_review (dp_transition policy)) of
           (T_BOOTSTRAP, Some (Receipted receipt)) \<Rightarrow>
             ta_previous_policy a = None \<and> bs_binding receipt = dp_binding policy \<and> bs_policy_fingerprint receipt = core_fingerprint policy
             \<and> admission_covers a (bs_receipt_digest receipt) (bs_reviewer_identity receipt) (bs_authority_digest receipt)
         | (_, review) \<Rightarrow>
             (case previous of None \<Rightarrow> False | Some p \<Rightarrow>
                if previous \<noteq> ta_previous_policy a \<or> \<not> verify_policy_transition p policy then False else
                (case review of
                   Some (Reviewed r) \<Rightarrow> admission_covers a (tr_review_digest r) (tr_reviewer_identity r) (tr_authority_digest r)
                 | _ \<Rightarrow> False))))"

section \<open>The preflight\<close>

text \<open>
  The argument \<open>observations\<close>: \<open>None\<close>, a value that cannot be iterated, or the records it yields,
  where \<open>None\<close> stands for an element of another type.
\<close>

datatype observations = Absent | Not_iterable | Records "observed_dependency option list"

definition validate_observation :: "dependency_policy \<Rightarrow> component_policy \<Rightarrow> observed_dependency \<Rightarrow> int \<Rightarrow> decision_code option result" where
  "validate_observation policy expected observed now =
     (if od_policy_digest observed \<noteq> dp_policy_digest policy then Inr (Some C_CANDIDATE_MISMATCH) else
      if now - od_observed_at observed > dp_freshness_seconds policy \<or> od_observed_at observed > now then Inr (Some C_PROVENANCE_STALE) else
      if (od_identifier observed, od_source_identity observed, od_artifact_digest observed)
         \<noteq> (cp_identifier expected, cp_source_identity expected, cp_artifact_digest expected) then Inr (Some C_IDENTITY_MISMATCH) else
      if od_executable_digest observed \<noteq> cp_executable_digest expected then Inr (Some C_EXECUTABLE_MISMATCH) else
      bind_result (range_contains (cp_versions expected) (od_version observed)) (\<lambda>supported.
      Inr (if supported then None else Some C_VERSION_UNSUPPORTED)))"

definition dependency_blocked :: "candidate_binding option \<Rightarrow> dependency_stage option \<Rightarrow> decision_code \<Rightarrow> int option \<Rightarrow> dependency_decision result" where
  "dependency_blocked binding stage code now = make_dependency_decision
     \<lparr>dd_outcome = Outcome_BLOCKED, dd_code = code, dd_stage = stage, dd_binding_fingerprint = map_option binding_fingerprint binding,
      dd_policy_fingerprint = None, dd_observation_fingerprints = [],
      dd_evaluated_at = (case now of Some n \<Rightarrow> if 0 \<le> n then n else 0 | None \<Rightarrow> 0)\<rparr>"

text \<open>The loop over the required components: the fingerprints of the selected records, or the code that blocks.\<close>

fun select_observations ::
  "dependency_policy \<Rightarrow> observed_dependency list \<Rightarrow> int \<Rightarrow> dependency_component list \<Rightarrow> string list \<Rightarrow> (decision_code + string list) result" where
  "select_observations policy records now [] selected = Inr (Inr selected)"
| "select_observations policy records now (component # components) selected =
     (case policy_component policy component of None \<Rightarrow> Inr (Inl C_POLICY_COVERAGE_MISSING) | Some expected \<Rightarrow>
      (case find (\<lambda>r. od_component r = component) (rev records) of None \<Rightarrow> Inr (Inl C_PROVENANCE_MISSING) | Some observed \<Rightarrow>
      bind_result (validate_observation policy expected observed now) (\<lambda>code.
        case code of Some c \<Rightarrow> Inr (Inl c)
        | None \<Rightarrow> select_observations policy records now components (selected @ [observation_fingerprint observed]))))"

definition evaluate_records ::
  "candidate_binding \<Rightarrow> dependency_policy \<Rightarrow> observed_dependency list \<Rightarrow> dependency_stage \<Rightarrow> int \<Rightarrow> dependency_decision result" where
  "evaluate_records binding policy records stage now =
     (if list_ex (\<lambda>r. od_binding r \<noteq> binding) records then dependency_blocked (Some binding) (Some stage) C_CANDIDATE_MISMATCH (Some now) else
      if \<not> distinct (map od_component records) then dependency_blocked (Some binding) (Some stage) C_DUPLICATE_PROVENANCE (Some now) else
      bind_result (select_observations policy records now (canonical_stage_requirements stage) []) (\<lambda>outcome.
        case outcome of
          Inl code \<Rightarrow> dependency_blocked (Some binding) (Some stage) code (Some now)
        | Inr selected \<Rightarrow> make_dependency_decision
            \<lparr>dd_outcome = Outcome_PASS, dd_code = C_AUTHORIZED, dd_stage = Some stage, dd_binding_fingerprint = Some (binding_fingerprint binding),
             dd_policy_fingerprint = Some (core_fingerprint policy), dd_observation_fingerprints = selected, dd_evaluated_at = now\<rparr>))"

definition evaluate_dependency_preflight ::
  "candidate_binding option \<Rightarrow> dependency_policy option \<Rightarrow> observations \<Rightarrow> dependency_stage option \<Rightarrow> int option
   \<Rightarrow> dependency_policy option \<Rightarrow> trusted_admission option \<Rightarrow> dependency_decision result" where
  "evaluate_dependency_preflight binding policy observations stage now previous trusted =
     (case (binding, stage, now) of
        (Some b, Some s, Some n) \<Rightarrow>
          if n < 0 then dependency_blocked binding stage C_INVALID_CONTEXT now else
          (case policy of None \<Rightarrow> dependency_blocked binding stage C_POLICY_UNAVAILABLE now | Some p \<Rightarrow>
            if dp_binding p \<noteq> b then dependency_blocked binding stage C_CANDIDATE_MISMATCH now else
            if n - dp_issued_at p > dp_freshness_seconds p \<or> dp_issued_at p > n then dependency_blocked binding stage C_POLICY_STALE now else
            if \<not> verify_policy_admission p previous trusted then dependency_blocked binding stage C_POLICY_TRANSITION_INVALID now else
            (case observations of
               Absent \<Rightarrow> dependency_blocked binding stage C_PROVENANCE_UNAVAILABLE now
             | Not_iterable \<Rightarrow> dependency_blocked binding stage C_PROVENANCE_INVALID now
             | Records items \<Rightarrow>
                 if list_ex (\<lambda>i. i = None) items then dependency_blocked binding stage C_PROVENANCE_INVALID now else
                 evaluate_records b p (map the items) s n))
      | _ \<Rightarrow> dependency_blocked binding stage C_INVALID_CONTEXT now)"

text \<open>The action is a computation of the caller; it runs at most once, in the last step.\<close>

definition execute_after_dependency_preflight ::
  "candidate_binding option \<Rightarrow> dependency_policy option \<Rightarrow> observations \<Rightarrow> dependency_stage option \<Rightarrow> int option
   \<Rightarrow> dependency_policy option \<Rightarrow> trusted_admission option \<Rightarrow> (unit \<Rightarrow> 'a result) \<Rightarrow> 'a result" where
  "execute_after_dependency_preflight binding policy observations stage now previous trusted action =
     bind_result (evaluate_dependency_preflight binding policy observations stage now previous trusted) (\<lambda>decision.
     if dd_outcome decision \<noteq> Outcome_PASS then Inl (DependencyPolicyError (code_value (dd_code decision))) else action ())"

record execution_control =
  xc_policy :: dependency_policy
  xc_observations :: "observed_dependency list"
  xc_admission :: trusted_admission

definition make_execution_control :: "execution_control \<Rightarrow> execution_control result" where
  "make_execution_control c = construct
     [(ta_binding (xc_admission c) = dp_binding (xc_policy c), DependencyPolicyError ''dependency execution control is invalid'')] c"

definition control_require :: "execution_control \<Rightarrow> candidate_binding option \<Rightarrow> dependency_stage option \<Rightarrow> int option \<Rightarrow> unit result" where
  "control_require c binding stage now =
     bind_result (evaluate_dependency_preflight binding (Some (xc_policy c)) (Records (map Some (xc_observations c))) stage now
        (ta_previous_policy (xc_admission c)) (Some (xc_admission c))) (\<lambda>decision.
     if dd_outcome decision \<noteq> Outcome_PASS then Inl (DependencyPolicyError (code_value (dd_code decision))) else Inr ())"

definition render_dependency_decision :: "dependency_decision option \<Rightarrow> string" where
  "render_dependency_decision decision = (case decision of
     None \<Rightarrow> ''dependency-gate=BLOCKED stage=unknown code=invalid-context reason=candidate dependency preflight context is invalid''
   | Some d \<Rightarrow> ''dependency-gate='' @ outcome_value (dd_outcome d) @ '' stage='' @ (case dd_stage d of Some s \<Rightarrow> stage_value s | None \<Rightarrow> ''unknown'')
       @ '' code='' @ code_value (dd_code d) @ '' reason='' @ dependency_diagnostic (dd_code d))"

end
