(* ===== verification/Dependency_Gate.thy ===== *)
theory Dependency_Gate
  imports Dependency_Policy
begin

text \<open>
  What the dependency gate of \<open>Dependency_Policy\<close> guarantees: exactly when a preflight passes, that
  a trusted admission stands for one set of dependency identities, that a preflight fails only on a
  version it cannot convert, and that a chain of reviewed rollbacks comes to an end.
\<close>

section \<open>Versions\<close>

lemma key_less_lex: "key_less a b \<longleftrightarrow> (a, b) \<in> less_than <*lex*> less_than <*lex*> less_than"
  by (cases a; cases b) (auto simp: key_less_def)

lemma key_less_irrefl [simp]: "\<not> key_less a a"
  by (simp add: key_less_def)

text \<open>The direction from one key to another.\<close>

definition key_sign :: "version_key \<Rightarrow> version_key \<Rightarrow> int" where
  "key_sign a b = (if key_less b a then -1 else if key_less a b then 1 else 0)"

lemma key_sign_compare: "compare_version a b = key_sign (key_of b) (key_of a)"
  by (auto simp: compare_version_def key_sign_def key_less_def)

lemma key_sign_signs: "key_sign a b \<le> 0 \<longleftrightarrow> \<not> key_less a b" "key_sign a b < 0 \<longleftrightarrow> key_less b a"
  by (auto simp: key_sign_def key_less_def)

lemma key_less_total: "\<not> key_less a b \<Longrightarrow> a = b \<or> key_less b a"
  by (cases a; cases b) (auto simp: key_less_def)

definition range_ok :: "version_range \<Rightarrow> bool" where
  "range_ok v \<longleftrightarrow> make_version_range v = Inr v"

lemma range_ok_limits: "range_ok v \<Longrightarrow> within_int_limit (vr_minimum v) \<and> within_int_limit (vr_maximum_exclusive v)"
  by (auto simp: range_ok_def make_version_range_def Let_def bind_result_Inr_iff version_key_result_def split: if_split_asm)

definition in_range :: "version_range \<Rightarrow> string \<Rightarrow> bool" where
  "in_range v version \<longleftrightarrow> \<not> key_less (key_of version) (key_of (vr_minimum v)) \<and> key_less (key_of version) (key_of (vr_maximum_exclusive v))"

lemma range_contains_eq:
  assumes "range_ok v" "is_version version"
  shows "range_contains v version = (if within_int_limit version then Inr (in_range v version) else Inl PyValueError)"
  using range_ok_limits [OF assms(1)] assms(2) by (simp add: range_contains_def version_key_result_def in_range_def)

section \<open>When a preflight passes\<close>

lemma find_keyed:
  assumes "distinct (map key xs)"
  shows "find (\<lambda>x. key x = k) xs = Some x \<longleftrightarrow> x \<in> set xs \<and> key x = k"
  using assms by (induction xs) auto

lemma find_keyed_rev:
  assumes "distinct (map key xs)"
  shows "find (\<lambda>x. key x = k) (rev xs) = Some x \<longleftrightarrow> x \<in> set xs \<and> key x = k"
  using find_keyed [of key "rev xs"] assms by (simp add: rev_map [symmetric])

text \<open>What the constructors establish of a policy and of an observation.\<close>

definition policy_ok :: "dependency_policy \<Rightarrow> bool" where
  "policy_ok p \<longleftrightarrow> list_all fst (dependency_policy_guards p) \<and> list_all (\<lambda>c. range_ok (cp_versions c)) (dp_components p)"

definition observation_ok :: "observed_dependency \<Rightarrow> bool" where
  "observation_ok x \<longleftrightarrow> list_all fst (observed_dependency_guards x)"

lemma policy_ok_distinct: "policy_ok p \<Longrightarrow> distinct (map cp_component (dp_components p))"
  by (simp add: policy_ok_def dependency_policy_guards_def Let_def)

lemma policy_component_ok:
  assumes "policy_ok p" "policy_component p c = Some e" shows "range_ok (cp_versions e)"
  using assms find_keyed [OF policy_ok_distinct, of p] by (auto simp: policy_component_def policy_ok_def list_all_iff)

text \<open>The record is the one the policy describes, current, and of a supported version.\<close>

definition matches :: "dependency_policy \<Rightarrow> int \<Rightarrow> component_policy \<Rightarrow> observed_dependency \<Rightarrow> bool" where
  "matches p now e x \<longleftrightarrow> cp_component e = od_component x \<and> od_policy_digest x = dp_policy_digest p
     \<and> now - dp_freshness_seconds p \<le> od_observed_at x \<and> od_observed_at x \<le> now
     \<and> od_identifier x = cp_identifier e \<and> od_source_identity x = cp_source_identity e
     \<and> od_artifact_digest x = cp_artifact_digest e \<and> od_executable_digest x = cp_executable_digest e
     \<and> within_int_limit (od_version x) \<and> in_range (cp_versions e) (od_version x)"

lemma validate_None_iff:
  assumes "range_ok (cp_versions e)" "observation_ok x" "cp_component e = od_component x"
  shows "validate_observation p e x now = Inr None \<longleftrightarrow> matches p now e x"
proof -
  have "is_version (od_version x)" using assms(2) by (simp add: observation_ok_def observed_dependency_guards_def Let_def)
  then show ?thesis using assms(3)
    by (auto simp: validate_observation_def matches_def range_contains_eq [OF assms(1)])
qed

lemma select_pass_iff:
  "select_observations p records now cs selected = Inr (Inr out) \<longleftrightarrow>
     (\<exists>xs. list_all2 (\<lambda>c x. find (\<lambda>r. od_component r = c) (rev records) = Some x
        \<and> (\<exists>e. policy_component p c = Some e \<and> validate_observation p e x now = Inr None)) cs xs
        \<and> out = selected @ map observation_fingerprint xs)"
proof (induction cs arbitrary: selected)
  case (Cons c cs)
  show ?case
    by (auto simp: list_all2_Cons1 bind_result_Inr_iff Cons.IH split: option.split)
qed auto

lemma blocked_Inr [simp]: "dependency_blocked b s code n = Inr d \<longleftrightarrow> d =
    \<lparr>dd_outcome = Outcome_BLOCKED, dd_code = code, dd_stage = s, dd_binding_fingerprint = map_option binding_fingerprint b,
      dd_policy_fingerprint = None, dd_observation_fingerprints = [],
      dd_evaluated_at = (case n of Some n \<Rightarrow> if 0 \<le> n then n else 0 | None \<Rightarrow> 0)\<rparr>"
  by (simp add: dependency_blocked_def make_dependency_decision_def split: option.split)

text \<open>The context of a preflight: a policy of the candidate that is current and admitted.\<close>

definition in_force :: "candidate_binding \<Rightarrow> dependency_policy \<Rightarrow> int \<Rightarrow> dependency_policy option \<Rightarrow> trusted_admission option \<Rightarrow> bool" where
  "in_force b p now previous trusted \<longleftrightarrow> dp_binding p = b \<and> 0 \<le> now \<and> dp_issued_at p \<le> now
     \<and> now \<le> dp_issued_at p + dp_freshness_seconds p \<and> verify_policy_admission p previous trusted"

definition pass_decision :: "candidate_binding \<Rightarrow> dependency_policy \<Rightarrow> observed_dependency list \<Rightarrow> dependency_stage \<Rightarrow> int \<Rightarrow> dependency_decision" where
  "pass_decision b p xs stage now =
     \<lparr>dd_outcome = Outcome_PASS, dd_code = C_AUTHORIZED, dd_stage = Some stage, dd_binding_fingerprint = Some (binding_fingerprint b),
      dd_policy_fingerprint = Some (core_fingerprint p), dd_observation_fingerprints = map observation_fingerprint xs, dd_evaluated_at = now\<rparr>"

lemma fingerprints_digests: "list_all is_digest (map observation_fingerprint xs)"
  by (simp add: list_all_iff observation_fingerprint_def)

lemma evaluate_records_pass_iff:
  assumes "0 \<le> now"
  shows "evaluate_records b p records stage now = Inr d \<and> dd_outcome d = Outcome_PASS \<longleftrightarrow>
    list_all (\<lambda>r. od_binding r = b) records \<and> distinct (map od_component records)
    \<and> (\<exists>xs. select_observations p records now (canonical_stage_requirements stage) [] = Inr (Inr (map observation_fingerprint xs))
        \<and> d = pass_decision b p xs stage now)"
proof -
  have made: "make_dependency_decision (pass_decision b p xs stage now) = Inr (pass_decision b p xs stage now)" for xs
    using assms fingerprints_digests by (simp add: make_dependency_decision_def pass_decision_def)
  have out: "\<exists>xs. out = map observation_fingerprint xs"
    if "select_observations p records now (canonical_stage_requirements stage) [] = Inr (Inr out)" for out
    using that select_pass_iff [of p records now _ "[]" out] by auto
  have any: "list_ex (\<lambda>r. od_binding r \<noteq> b) records \<longleftrightarrow> \<not> list_all (\<lambda>r. od_binding r = b) records"
    by (auto simp: list_ex_iff list_all_iff)
  show ?thesis
    using made out unfolding evaluate_records_def any
    by (auto simp: bind_result_Inr_iff pass_decision_def split: sum.split_asm) (rule exI, rule refl)
qed

lemma evaluate_pass_iff:
  "evaluate_dependency_preflight (Some b) (Some p) (Records (map Some records)) (Some stage) (Some now) previous trusted = Inr d
     \<and> dd_outcome d = Outcome_PASS \<longleftrightarrow>
   in_force b p now previous trusted \<and> evaluate_records b p records stage now = Inr d \<and> dd_outcome d = Outcome_PASS"
proof -
  have items: "\<not> list_ex (\<lambda>i. i = None) (map Some records)" "map the (map Some records) = records"
    by (simp_all add: list_ex_iff comp_def)
  show ?thesis
  proof (cases "in_force b p now previous trusted")
    case True
    then have "\<not> now < 0" "\<not> dp_binding p \<noteq> b" "\<not> (now - dp_issued_at p > dp_freshness_seconds p \<or> dp_issued_at p > now)"
      "\<not> \<not> verify_policy_admission p previous trusted" by (auto simp: in_force_def)
    then have "evaluate_dependency_preflight (Some b) (Some p) (Records (map Some records)) (Some stage) (Some now) previous trusted
        = evaluate_records b p records stage now"
      unfolding evaluate_dependency_preflight_def by (simp only: items prod.case option.case observations.case if_False)
    then show ?thesis using True by (simp only: simp_thms)
  next
    case False
    then have "now < 0 \<or> dp_binding p \<noteq> b \<or> (now - dp_issued_at p > dp_freshness_seconds p \<or> dp_issued_at p > now)
      \<or> \<not> verify_policy_admission p previous trusted" by (auto simp: in_force_def)
    then have "\<exists>code. evaluate_dependency_preflight (Some b) (Some p) (Records (map Some records)) (Some stage) (Some now) previous trusted
        = dependency_blocked (Some b) (Some stage) code (Some now)"
      unfolding evaluate_dependency_preflight_def prod.case option.case by (metis (no_types, lifting))
    then obtain code where blocked: "evaluate_dependency_preflight (Some b) (Some p) (Records (map Some records)) (Some stage) (Some now) previous trusted
        = dependency_blocked (Some b) (Some stage) code (Some now)" ..
    show ?thesis unfolding blocked using False by auto
  qed
qed

lemma selection_matches:
  assumes p: "policy_ok p" and records: "list_all observation_ok records" "distinct (map od_component records)"
  shows "find (\<lambda>r. od_component r = c) (rev records) = Some x
      \<and> (\<exists>e. policy_component p c = Some e \<and> validate_observation p e x now = Inr None) \<longleftrightarrow>
    x \<in> set records \<and> od_component x = c \<and> (\<exists>e\<in>set (dp_components p). matches p now e x)"
proof -
  have found: "find (\<lambda>r. od_component r = c) (rev records) = Some x \<longleftrightarrow> x \<in> set records \<and> od_component x = c"
    by (rule find_keyed_rev [OF records(2)])
  have expected: "policy_component p c = Some e \<longleftrightarrow> e \<in> set (dp_components p) \<and> cp_component e = c" for e
    unfolding policy_component_def by (rule find_keyed [OF policy_ok_distinct [OF p]])
  have valid: "validate_observation p e x now = Inr None \<longleftrightarrow> matches p now e x"
    if "x \<in> set records" "od_component x = c" "policy_component p c = Some e" for e
    using that validate_None_iff [OF policy_component_ok [OF p that(3)]] records(1) expected by (auto simp: list_all_iff)
  have "matches p now e x \<Longrightarrow> cp_component e = od_component x" for e by (simp add: matches_def)
  then show ?thesis unfolding found using expected valid by blast
qed

lemma preflight_pass_spec:
  assumes "policy_ok p" "list_all observation_ok records"
  shows "evaluate_dependency_preflight (Some b) (Some p) (Records (map Some records)) (Some stage) (Some now) previous trusted = Inr d
       \<and> dd_outcome d = Outcome_PASS \<longleftrightarrow>
     in_force b p now previous trusted \<and> list_all (\<lambda>r. od_binding r = b) records \<and> distinct (map od_component records)
     \<and> (\<exists>xs. list_all2 (\<lambda>c x. x \<in> set records \<and> od_component x = c \<and> (\<exists>e\<in>set (dp_components p). matches p now e x))
           (canonical_stage_requirements stage) xs
         \<and> d = pass_decision b p xs stage now)"
proof (cases "in_force b p now previous trusted \<and> distinct (map od_component records)")
  case True
  then have now: "0 \<le> now" by (simp add: in_force_def)
  have "(\<exists>xs. select_observations p records now (canonical_stage_requirements stage) [] = Inr (Inr (map observation_fingerprint xs))
        \<and> d = pass_decision b p xs stage now) \<longleftrightarrow>
     (\<exists>xs. list_all2 (\<lambda>c x. x \<in> set records \<and> od_component x = c \<and> (\<exists>e\<in>set (dp_components p). matches p now e x))
           (canonical_stage_requirements stage) xs \<and> d = pass_decision b p xs stage now)"
    unfolding select_pass_iff selection_matches [OF assms True [THEN conjunct2]]
    by (auto simp: pass_decision_def)
  then show ?thesis using True unfolding evaluate_pass_iff evaluate_records_pass_iff [OF now] by blast
next
  case False
  then show ?thesis unfolding evaluate_pass_iff
    using evaluate_records_pass_iff [of now b p records stage d] by (auto simp: in_force_def)
qed

text \<open>
  C13 (dependency_preflight_pass_iff). A preflight passes exactly when the policy is of the candidate,
  current and admitted, every record is of the candidate and no component is recorded twice, and
  each component the stage requires has a record that the policy describes: the same policy
  digest, identity, artifact and executable, observed within the freshness window and of a version in
  the supported half-open range. The decision then names the policy and the selected records in the
  order of the requirements.
\<close>

theorem dependency_preflight_pass_iff:
  assumes "policy_ok p" "list_all observation_ok records"
  shows "evaluate_dependency_preflight (Some b) (Some p) (Records (map Some records)) (Some stage) (Some now) previous trusted = Inr d
       \<and> dd_outcome d = Outcome_PASS \<longleftrightarrow>
     in_force b p now previous trusted \<and> list_all (\<lambda>r. od_binding r = b) records \<and> distinct (map od_component records)
     \<and> (\<exists>xs. list_all2 (\<lambda>c x. x \<in> set records \<and> od_component x = c \<and> (\<exists>e\<in>set (dp_components p). matches p now e x))
           (canonical_stage_requirements stage) xs
         \<and> d = pass_decision b p xs stage now)"
  by (rule preflight_pass_spec [OF assms])

section \<open>Execution boundaries\<close>

text \<open>The callers of the preflight: an action runs, and a control lets through, exactly on a pass.\<close>

lemma execute_runs_only_on_pass:
  "execute_after_dependency_preflight binding policy observations stage now previous trusted action = Inr x \<longleftrightarrow>
     (\<exists>d. evaluate_dependency_preflight binding policy observations stage now previous trusted = Inr d \<and> dd_outcome d = Outcome_PASS)
     \<and> action () = Inr x"
  by (auto simp: execute_after_dependency_preflight_def bind_result_Inr_iff)

lemma control_require_iff:
  "control_require c (Some b) (Some stage) (Some now) = Inr () \<longleftrightarrow>
     (\<exists>d. evaluate_dependency_preflight (Some b) (Some (xc_policy c)) (Records (map Some (xc_observations c))) (Some stage) (Some now)
        (ta_previous_policy (xc_admission c)) (Some (xc_admission c)) = Inr d \<and> dd_outcome d = Outcome_PASS)"
  by (auto simp: control_require_def bind_result_Inr_iff)

text \<open>The text of a decision tells the outcomes apart.\<close>

lemma render_passes: "(\<exists>rest. render_dependency_decision (Some d) = ''dependency-gate=PASS'' @ rest) \<longleftrightarrow> dd_outcome d = Outcome_PASS"
  by (cases "dd_outcome d") (simp_all add: render_dependency_decision_def)

section \<open>What an admission stands for\<close>

lemma component_value_inj: "component_value c = component_value d \<Longrightarrow> c = d"
  by (cases c; cases d) simp_all

lemma component_evidence_inj: "canon (component_evidence c) = canon (component_evidence d) \<longleftrightarrow> c = d"
proof
  assume "canon (component_evidence c) = canon (component_evidence d)"
  then have "component_value (cp_component c) = component_value (cp_component d)" "cp_identifier c = cp_identifier d"
    "cp_source_identity c = cp_source_identity d" "cp_artifact_digest c = cp_artifact_digest d" "cp_executable_digest c = cp_executable_digest d"
    "cp_versions c = cp_versions d"
    by (simp_all add: component_evidence_def)
  then show "c = d" using component_value_inj by simp
qed simp

lemma components_inj: "map (canon \<circ> component_evidence) cs = map (canon \<circ> component_evidence) ds \<longleftrightarrow> cs = ds"
  by (rule inj_map_eq_map) (simp add: inj_def component_evidence_inj)

definition policy_commitment :: "dependency_policy \<Rightarrow> string \<times> int \<times> int \<times> component_policy list" where
  "policy_commitment p = (dp_policy_digest p, dp_issued_at p, dp_freshness_seconds p, dp_components p)"

interpretation dpc: sealed_record "[''binding'', ''policy_digest'', ''issued_at'', ''freshness_seconds'', ''components'']"
  core_fields policy_commitment "\<lambda>_. True"
  by unfold_locales (simp_all add: core_fields_def policy_commitment_def components_inj)

lemma admission_covers_policy:
  assumes "verify_policy_admission p previous (Some a)"
  shows "dp_binding p = ta_binding a \<and> core_fingerprint p = ta_policy_fingerprint a"
  using assms unfolding verify_policy_admission_def by (simp split: if_split_asm)

text \<open>The canonical texts of two policies collide.\<close>

definition dependency_policies_collide :: "dependency_policy \<Rightarrow> dependency_policy \<Rightarrow> bool" where
  "dependency_policies_collide p q \<longleftrightarrow> sha_collision (json_dumps (JObj (core_fields p))) (json_dumps (JObj (core_fields q)))"

lemma admission_commits:
  assumes "verify_policy_admission p previous (Some a)" "verify_policy_admission p' previous' (Some a)"
  shows "dp_binding p = dp_binding p' \<and> policy_commitment p = policy_commitment p' \<or> dependency_policies_collide p p'"
proof -
  have "core_fingerprint p = core_fingerprint p'"
    using admission_covers_policy [OF assms(1)] admission_covers_policy [OF assms(2)] by simp
  then have "hex_digest (JObj (core_fields p)) = hex_digest (JObj (core_fields p'))" by (simp add: core_fingerprint_def digest_value_def)
  then show ?thesis
    using dpc.digest_commits [of p p'] admission_covers_policy [OF assms(1)] admission_covers_policy [OF assms(2)] by (auto simp: dependency_policies_collide_def)
qed

text \<open>The records of the required components, when the preflight passes.\<close>

lemma pass_required_record:
  assumes ok: "policy_ok p" "list_all observation_ok records"
    and pass: "evaluate_dependency_preflight (Some b) (Some p) (Records (map Some records)) (Some stage) (Some now) previous trusted = Inr d"
      "dd_outcome d = Outcome_PASS"
    and x: "x \<in> set records" "od_component x \<in> set (canonical_stage_requirements stage)"
  shows "in_force b p now previous trusted \<and> (\<exists>e\<in>set (dp_components p). matches p now e x)"
proof -
  obtain xs where force: "in_force b p now previous trusted" and distinct: "distinct (map od_component records)"
    and selected: "list_all2 (\<lambda>c x. x \<in> set records \<and> od_component x = c \<and> (\<exists>e\<in>set (dp_components p). matches p now e x))
         (canonical_stage_requirements stage) xs"
    using preflight_pass_spec [OF ok, of b stage now previous trusted d] pass by auto
  obtain i where i: "i < length (canonical_stage_requirements stage)" "canonical_stage_requirements stage ! i = od_component x"
    using x(2) by (auto simp: in_set_conv_nth)
  then have "xs ! i \<in> set records" "od_component (xs ! i) = od_component x" "\<exists>e\<in>set (dp_components p). matches p now e (xs ! i)"
    using list_all2_nthD [OF selected i(1)] by auto
  moreover from this distinct x(1) have "xs ! i = x" by (auto simp: distinct_map dest: inj_onD)
  ultimately show ?thesis using force by simp
qed

definition identity_of :: "observed_dependency \<Rightarrow> string \<times> string \<times> string \<times> string" where
  "identity_of x = (od_identifier x, od_source_identity x, od_artifact_digest x, od_executable_digest x)"

text \<open>
  A trusted admission stands for one set of executables: two
  preflights that pass under the same admission, for any policies, records, stages and times, are for
  the same candidate, and where both require a component, the two records of it have the same
  identifier, source, artifact and executable digest; otherwise the canonical texts of the two
  policies collide under SHA-256.
\<close>

lemma admission_pins_executables:
  assumes ok: "policy_ok p" "list_all observation_ok records" "policy_ok p'" "list_all observation_ok records'"
    and pass: "evaluate_dependency_preflight (Some b) (Some p) (Records (map Some records)) (Some stage) (Some now) previous (Some a) = Inr d"
      "dd_outcome d = Outcome_PASS"
    and pass': "evaluate_dependency_preflight (Some b') (Some p') (Records (map Some records')) (Some stage') (Some now') previous' (Some a) = Inr d'"
      "dd_outcome d' = Outcome_PASS"
    and x: "x \<in> set records" "od_component x \<in> set (canonical_stage_requirements stage)"
    and x': "x' \<in> set records'" "od_component x' \<in> set (canonical_stage_requirements stage')"
    and same: "od_component x = od_component x'"
  shows "b = b' \<and> identity_of x = identity_of x' \<or> dependency_policies_collide p p'"
proof -
  from pass_required_record [OF ok(1,2) pass x] obtain e where force: "in_force b p now previous (Some a)"
    and e: "e \<in> set (dp_components p)" "matches p now e x" by blast
  from pass_required_record [OF ok(3,4) pass' x'] obtain e' where force': "in_force b' p' now' previous' (Some a)"
    and e': "e' \<in> set (dp_components p')" "matches p' now' e' x'" by blast
  have "dp_binding p = dp_binding p' \<and> policy_commitment p = policy_commitment p' \<or> dependency_policies_collide p p'"
    using admission_commits [of p previous a p' previous'] force force' by (simp add: in_force_def)
  moreover have "b = b' \<and> identity_of x = identity_of x'" if "dp_binding p = dp_binding p'" "policy_commitment p = policy_commitment p'"
  proof -
    have "e' \<in> set (dp_components p)" using that(2) e'(1) by (simp add: policy_commitment_def)
    moreover have "cp_component e = cp_component e'" using e(2) e'(2) same by (simp add: matches_def)
    ultimately have "e = e'" using e(1) policy_ok_distinct [OF ok(1)] by (auto simp: distinct_map dest: inj_onD)
    then show ?thesis using e(2) e'(2) force force' that(1) by (simp add: matches_def identity_of_def in_force_def)
  qed
  ultimately show ?thesis by blast
qed

section \<open>Rollbacks come to an end\<close>

definition is_rollback :: "dependency_policy \<Rightarrow> dependency_policy \<Rightarrow> bool" where
  "is_rollback previous current \<longleftrightarrow> policy_ok previous \<and> policy_ok current
     \<and> pt_kind (dp_transition current) = T_ROLLBACK \<and> verify_policy_transition previous current"

text \<open>The version keys of a policy, by component; a component the policy lacks counts as \<open>0.0.0\<close>.\<close>

definition bound_key :: "(version_range \<Rightarrow> string) \<Rightarrow> dependency_policy \<Rightarrow> dependency_component \<Rightarrow> version_key" where
  "bound_key bound p c = (case policy_component p c of None \<Rightarrow> (0, 0, 0) | Some e \<Rightarrow> key_of (bound (cp_versions e)))"

definition policy_keys :: "dependency_policy \<Rightarrow> version_key list" where
  "policy_keys p = map (bound_key vr_minimum p) all_components @ map (bound_key vr_maximum_exclusive p) all_components"

lemma all_components: "set all_components = UNIV"
proof -
  have "c \<in> set all_components" for c by (cases c) (simp_all add: all_components_def)
  then show ?thesis by blast
qed

lemma policy_component_iff: "policy_ok p \<Longrightarrow> policy_component p c = Some e \<longleftrightarrow> e \<in> set (dp_components p) \<and> cp_component e = c"
  unfolding policy_component_def by (rule find_keyed) (rule policy_ok_distinct)

lemma policy_component_None: "policy_component p c = None \<longleftrightarrow> c \<notin> cp_component ` set (dp_components p)"
  unfolding policy_component_def by (auto simp: find_None_iff)

lemma set_directions:
  assumes ok: "policy_ok p" "policy_ok q" and same: "cp_component ` set (dp_components p) = cp_component ` set (dp_components q)"
  shows "set (directions bound p q) = (\<lambda>c. key_sign (bound_key bound p c) (bound_key bound q c)) ` cp_component ` set (dp_components p)"
proof -
  have each: "map_option (\<lambda>d. compare_version (bound (cp_versions d)) (bound (cp_versions e))) (policy_component q (cp_component e))
     = Some (key_sign (bound_key bound p (cp_component e)) (bound_key bound q (cp_component e)))"
    if e: "e \<in> set (dp_components p)" for e
  proof -
    have "policy_component p (cp_component e) = Some e" using e policy_component_iff [OF ok(1)] by simp
    moreover obtain d where d: "policy_component q (cp_component e) = Some d"
      using e same policy_component_None [of q "cp_component e"] by (cases "policy_component q (cp_component e)") auto
    ultimately show ?thesis by (simp add: bound_key_def key_sign_compare)
  qed
  have "set (directions bound p q) = {v. \<exists>e\<in>set (dp_components p).
     map_option (\<lambda>d. compare_version (bound (cp_versions d)) (bound (cp_versions e))) (policy_component q (cp_component e)) = Some v}"
    by (force simp: directions_def map_filter_def)
  then show ?thesis using each by (auto simp: image_iff)
qed

lemma rollback_keys:
  assumes "is_rollback p q" and bound: "bound \<in> {vr_minimum, vr_maximum_exclusive}"
  shows "\<not> key_less (bound_key bound p c) (bound_key bound q c)"
    and "\<exists>c. key_less (bound_key vr_minimum q c) (bound_key vr_minimum p c) \<or> key_less (bound_key vr_maximum_exclusive q c) (bound_key vr_maximum_exclusive p c)"
proof -
  have ok: "policy_ok p" "policy_ok q" using assms(1) by (simp_all add: is_rollback_def)
  have same: "cp_component ` set (dp_components p) = cp_component ` set (dp_components q)"
    and le: "\<forall>v \<in> set (directions vr_minimum p q) \<union> set (directions vr_maximum_exclusive p q). v \<le> 0"
    and less: "\<exists>v \<in> set (directions vr_minimum p q) \<union> set (directions vr_maximum_exclusive p q). v < 0"
    using assms(1) unfolding is_rollback_def verify_policy_transition_def Let_def
    by (auto simp: list_all_iff list_ex_iff split: if_split_asm option.split_asm transition_evidence.split_asm)
  note dirs = set_directions [OF ok same]
  show "\<not> key_less (bound_key bound p c) (bound_key bound q c)"
  proof (cases "c \<in> cp_component ` set (dp_components p)")
    case True
    then have "\<forall>v \<in> set (directions bound p q). v \<le> 0" using le bound by auto
    then show ?thesis using True unfolding dirs by (auto simp: key_sign_signs)
  next
    case False
    then have "policy_component p c = None" "policy_component q c = None" using same by (simp_all add: policy_component_None)
    then show ?thesis by (simp add: bound_key_def)
  qed
  show "\<exists>c. key_less (bound_key vr_minimum q c) (bound_key vr_minimum p c) \<or> key_less (bound_key vr_maximum_exclusive q c) (bound_key vr_maximum_exclusive p c)"
    using less unfolding dirs by (auto simp: key_sign_signs)
qed

text \<open>A list that is nowhere above another and below it somewhere precedes it in the order of dictionaries.\<close>

lemma pointwise_lex:
  assumes "length xs = length ys" "\<forall>i<length xs. (xs ! i, ys ! i) \<in> r \<or> xs ! i = ys ! i" "\<exists>i<length xs. (xs ! i, ys ! i) \<in> r" "irrefl r"
  shows "(xs, ys) \<in> lex r"
  using assms
proof (induction xs ys rule: list_induct2)
  case (Cons x xs y ys)
  have head: "(x, y) \<in> r \<or> x = y" using Cons.prems(1) by auto
  show ?case
  proof (cases "(x, y) \<in> r")
    case True then show ?thesis using Cons.hyps by simp
  next
    case False
    then have "\<exists>i<length xs. (xs ! i, ys ! i) \<in> r" using Cons.prems(2) by (auto simp: less_Suc_eq_0_disj nth_Cons')
    moreover have "\<forall>i<length xs. (xs ! i, ys ! i) \<in> r \<or> xs ! i = ys ! i" using Cons.prems(1) by fastforce
    ultimately have "(xs, ys) \<in> lex r" using Cons.IH Cons.prems(3) by blast
    then show ?thesis using head False by simp
  qed
qed simp

definition key_order :: "(version_key \<times> version_key) set" where
  "key_order = {(a, b). key_less a b}"

lemma key_order_eq: "key_order = less_than <*lex*> less_than <*lex*> less_than"
  by (auto simp: key_order_def key_less_lex)

lemma wf_key_order: "wf key_order"
  unfolding key_order_eq by (intro wf_lex_prod wf_less_than)

lemma length_policy_keys: "length (policy_keys p) = length (policy_keys q)"
  by (simp add: policy_keys_def)

lemma policy_keys_nth:
  assumes "i < length (policy_keys p)"
  obtains bound c where "bound \<in> {vr_minimum, vr_maximum_exclusive}" "\<And>q. policy_keys q ! i = bound_key bound q c"
proof (cases "i < length all_components")
  case True
  then show ?thesis using that [of vr_minimum "all_components ! i"] by (simp add: policy_keys_def nth_append)
next
  case False
  then show ?thesis using assms that [of vr_maximum_exclusive "all_components ! (i - length all_components)"]
    by (simp add: policy_keys_def nth_append)
qed

lemma policy_keys_member:
  assumes "bound \<in> {vr_minimum, vr_maximum_exclusive}"
  shows "\<exists>i<length (policy_keys p). \<forall>q. policy_keys q ! i = bound_key bound q c"
proof -
  obtain j where j: "j < length all_components" "all_components ! j = c" using all_components by (metis UNIV_I in_set_conv_nth)
  show ?thesis using assms j
    by (auto simp: policy_keys_def nth_append intro: exI [of _ j] exI [of _ "length all_components + j"])
qed

lemma rollback_decreases:
  assumes "is_rollback p q" shows "(policy_keys q, policy_keys p) \<in> lex key_order"
proof (rule pointwise_lex)
  show "\<forall>i<length (policy_keys q). (policy_keys q ! i, policy_keys p ! i) \<in> key_order \<or> policy_keys q ! i = policy_keys p ! i"
  proof (intro allI impI)
    fix i assume "i < length (policy_keys q)"
    then obtain bound c where "bound \<in> {vr_minimum, vr_maximum_exclusive}" and nth: "\<And>q. policy_keys q ! i = bound_key bound q c"
      by (rule policy_keys_nth) blast
    then have "\<not> key_less (policy_keys p ! i) (policy_keys q ! i)" using rollback_keys(1) [OF assms] by simp
    then show "(policy_keys q ! i, policy_keys p ! i) \<in> key_order \<or> policy_keys q ! i = policy_keys p ! i"
      using key_less_total [of "policy_keys p ! i" "policy_keys q ! i"] by (auto simp: key_order_def)
  qed
  from rollback_keys(2) [OF assms, of vr_minimum] obtain bound c where "bound \<in> {vr_minimum, vr_maximum_exclusive}"
    "key_less (bound_key bound q c) (bound_key bound p c)" by auto
  then show "\<exists>i<length (policy_keys q). (policy_keys q ! i, policy_keys p ! i) \<in> key_order"
    using policy_keys_member [of bound q c] by (auto simp: key_order_def)
qed (simp_all add: length_policy_keys irrefl_def key_order_def)

text \<open>
  C24 (rollback_chains_end). Reviewed rollbacks cannot go on for ever: the relation from a policy to
  a verified rollback of it is well-founded, because each rollback lowers the version bounds of the
  same set of components, some of them strictly.
\<close>

theorem rollback_chains_end: "wf {(current, previous). is_rollback previous current}"
proof (rule wf_subset)
  show "wf (inv_image (lex key_order) policy_keys)" by (rule wf_inv_image) (rule wf_lex [OF wf_key_order])
  show "{(current, previous). is_rollback previous current} \<subseteq> inv_image (lex key_order) policy_keys"
    using rollback_decreases by auto
qed

section \<open>What a preflight cannot decide\<close>

definition oversized :: "observed_dependency \<Rightarrow> bool" where
  "oversized x \<longleftrightarrow> \<not> within_int_limit (od_version x)"

lemma validate_Inl:
  assumes "range_ok (cp_versions e)" "observation_ok x" "validate_observation p e x now = Inl err"
  shows "err = PyValueError \<and> oversized x"
proof -
  have "is_version (od_version x)" using assms(2) by (simp add: observation_ok_def observed_dependency_guards_def Let_def)
  then show ?thesis using assms(3)
    by (simp add: validate_observation_def range_contains_eq [OF assms(1)] oversized_def split: if_split_asm)
qed

lemma select_Inl:
  assumes "policy_ok p" "list_all observation_ok records" "select_observations p records now cs selected = Inl err"
  shows "err = PyValueError \<and> (\<exists>x\<in>set records. od_component x \<in> set cs \<and> oversized x)"
  using assms(3)
proof (induction cs arbitrary: selected)
  case (Cons c cs)
  then obtain e x where e: "policy_component p c = Some e" and x: "find (\<lambda>r. od_component r = c) (rev records) = Some x"
    by (auto split: option.split_asm)
  have "x \<in> set records" "od_component x = c" using find_SomeD [OF x] by simp_all
  moreover have "observation_ok x" using \<open>x \<in> set records\<close> assms(2) by (simp add: list_all_iff)
  ultimately show ?case
    using Cons e x validate_Inl [OF policy_component_ok [OF assms(1) e]]
    by (cases "validate_observation p e x now") (auto split: option.split_asm dest!: Cons.IH)
qed simp

lemma evaluate_records_Inl:
  assumes "policy_ok p" "list_all observation_ok records" "0 \<le> now" "evaluate_records b p records stage now = Inl err"
  shows "err = PyValueError \<and> (\<exists>x\<in>set records. od_component x \<in> set (canonical_stage_requirements stage) \<and> oversized x)"
proof -
  have never: "dependency_blocked b s code n \<noteq> Inl err" for b s code n
    using blocked_Inr [of b s code n] by (metis sum.distinct(1))
  have passes: "select_observations p records now (canonical_stage_requirements stage) [] = Inr (Inr out) \<Longrightarrow> list_all is_digest out" for out
    using fingerprints_digests by (auto simp: select_pass_iff)
  show ?thesis
  proof (cases "select_observations p records now (canonical_stage_requirements stage) []")
    case (Inl e)
    then show ?thesis using assms select_Inl [OF assms(1,2) Inl] never by (auto simp: evaluate_records_def split: if_split_asm)
  next
    case (Inr out)
    then show ?thesis using assms(3,4) never passes
      by (auto simp: evaluate_records_def make_dependency_decision_def construct_ok split: if_split_asm sum.split_asm)
  qed
qed

text \<open>
  For policies and records that their constructors admit, and
  any candidate, stage and time, a preflight raises only \<open>ValueError\<close>, and only when the record of a
  component the stage requires has a version with a numeral of more than 4300 digits. In every other
  case it returns a decision.
\<close>

lemma preflight_raises_only_oversized:
  assumes "policy_ok p" "list_all observation_ok records"
    and "evaluate_dependency_preflight binding (Some p) (Records (map Some records)) stage now previous trusted = Inl err"
  shows "err = PyValueError \<and> (\<exists>x\<in>set records. \<exists>s. stage = Some s \<and> od_component x \<in> set (canonical_stage_requirements s) \<and> oversized x)"
proof -
  have never: "dependency_blocked b s code n \<noteq> Inl err" for b s code n
    using blocked_Inr [of b s code n] by (metis sum.distinct(1))
  have items: "\<not> list_ex (\<lambda>i. i = None) (map Some records)" "map the (map Some records) = records"
    by (simp_all add: list_ex_iff comp_def)
  obtain b s n where "binding = Some b" "stage = Some s" "now = Some n" "0 \<le> n" "evaluate_records b p records s n = Inl err"
    using assms(3) never unfolding evaluate_dependency_preflight_def
    by (auto simp: items split: option.split_asm if_split_asm)
  then show ?thesis using evaluate_records_Inl [OF assms(1,2)] by blast
qed

section \<open>A sample policy\<close>

definition gate_digest :: string where
  "gate_digest = ''sha256:'' @ replicate 64 CHR ''a''"

definition gate_binding :: candidate_binding where
  "gate_binding = \<lparr>cb_repository = ''owner/repository'', cb_task_id = ''task'', cb_candidate_sha = replicate 40 CHR ''a''\<rparr>"

definition gate_component :: "string \<Rightarrow> string \<Rightarrow> dependency_component \<Rightarrow> component_policy" where
  "gate_component low high kind = \<lparr>cp_component = kind, cp_identifier = ''tool'', cp_versions = \<lparr>vr_minimum = low, vr_maximum_exclusive = high\<rparr>,
     cp_source_identity = ''source'', cp_artifact_digest = gate_digest, cp_executable_digest = gate_digest\<rparr>"

definition gate_core :: "string \<Rightarrow> string \<Rightarrow> policy_transition \<Rightarrow> dependency_policy" where
  "gate_core low high transition = \<lparr>dp_binding = gate_binding, dp_policy_digest = gate_digest, dp_issued_at = 10, dp_freshness_seconds = 100,
     dp_components = map (gate_component low high) [D_PACKAGE, D_GITHUB_CLI, D_PROVIDER_RUNTIME], dp_transition = transition\<rparr>"

definition gate_receipt :: bootstrap_receipt where
  "gate_receipt = (let unsigned = \<lparr>bs_binding = gate_binding, bs_reviewer_identity = gate_digest, bs_authority_digest = gate_digest,
      bs_policy_fingerprint = core_fingerprint (gate_core ''1.2.3'' ''2.0.0'' \<lparr>pt_kind = T_BOOTSTRAP, pt_review = None\<rparr>), bs_receipt_digest = []\<rparr> in
     unsigned\<lparr>bs_receipt_digest := digest_value (JObj (bootstrap_evidence unsigned))\<rparr>)"

definition gate_policy :: dependency_policy where
  "gate_policy = gate_core ''1.2.3'' ''2.0.0'' \<lparr>pt_kind = T_BOOTSTRAP, pt_review = Some (Receipted gate_receipt)\<rparr>"

definition gate_admission :: trusted_admission where
  "gate_admission = \<lparr>ta_binding = gate_binding, ta_policy_fingerprint = core_fingerprint gate_policy,
     ta_receipt_digest = bs_receipt_digest gate_receipt, ta_reviewer_identity = gate_digest, ta_authority_digest = gate_digest,
     ta_previous_policy = None\<rparr>"

definition gate_record :: "string \<Rightarrow> dependency_component \<Rightarrow> observed_dependency" where
  "gate_record version kind = \<lparr>od_binding = gate_binding, od_component = kind, od_identifier = ''tool'', od_version = version,
     od_source_identity = ''source'', od_artifact_digest = gate_digest, od_executable_digest = gate_digest, od_observed_at = 20,
     od_policy_digest = gate_digest\<rparr>"

lemma gate_digest_ok: "is_digest gate_digest"
  by (simp add: gate_digest_def is_digest_def is_hex_def list_all_iff)

lemma gate_versions: "is_version ''1.2.3''" "is_version ''2.0.0''" "is_version ''1.10.0''" "within_int_limit ''1.2.3''" "within_int_limit ''2.0.0''"
  "within_int_limit ''1.10.0''" "key_of ''1.2.3'' = (1, 2, 3)" "key_of ''2.0.0'' = (2, 0, 0)" "key_of ''1.10.0'' = (1, 10, 0)"
  by (simp_all add: is_version_def is_numeral_def is_digit_def within_int_limit_def key_of_def numeral_value_def digit_value_def)

lemma core_fingerprint_transition: "core_fingerprint (gate_core low high t) = core_fingerprint (gate_core low high t')"
  by (simp add: core_fingerprint_def core_fields_def gate_core_def)

lemma gate_core_ok:
  assumes "range_ok \<lparr>vr_minimum = low, vr_maximum_exclusive = high\<rparr>" shows "policy_ok (gate_core low high transition)"
  using assms gate_digest_ok by (simp add: policy_ok_def gate_core_def dependency_policy_guards_def gate_component_def Let_def)

lemma gate_ranges: "range_ok \<lparr>vr_minimum = ''1.2.3'', vr_maximum_exclusive = ''2.0.0''\<rparr>" "range_ok \<lparr>vr_minimum = ''1.10.0'', vr_maximum_exclusive = ''2.0.0''\<rparr>"
  using gate_versions by (simp_all add: range_ok_def make_version_range_def version_key_result_def key_less_def Let_def)

lemma gate_policy_ok: "policy_ok gate_policy"
  unfolding gate_policy_def by (rule gate_core_ok) (rule gate_ranges)

text \<open>A reviewed rollback, which the constructor of reviews seals.\<close>

definition gate_previous :: dependency_policy where
  "gate_previous = gate_core ''1.10.0'' ''2.0.0'' \<lparr>pt_kind = T_BOOTSTRAP, pt_review = None\<rparr>"

lemma gate_rollback: "\<exists>review. create_transition_review gate_previous gate_policy gate_digest gate_digest = Inr review
    \<and> is_rollback gate_previous (gate_core ''1.2.3'' ''2.0.0'' \<lparr>pt_kind = T_ROLLBACK, pt_review = Some (Reviewed review)\<rparr>)"
proof -
  have binding: "dp_binding gate_previous = gate_binding" "dp_binding gate_policy = gate_binding"
    by (simp_all add: gate_previous_def gate_policy_def gate_core_def)
  obtain review where review: "create_transition_review gate_previous gate_policy gate_digest gate_digest = Inr review"
    using gate_digest_ok binding
    by (simp add: create_transition_review_def make_transition_review_def transition_review_guards_def review_evidence_def Let_def construct_ok
        core_fingerprint_def policy_delta_digest_def)
  then have fields: "tr_binding review = gate_binding" "tr_previous_policy_fingerprint review = core_fingerprint gate_previous"
    "tr_current_policy_fingerprint review = core_fingerprint gate_policy" "tr_delta_digest review = policy_delta_digest gate_previous gate_policy"
    using binding by (auto simp: create_transition_review_def make_transition_review_def Let_def split: if_split_asm)
  let ?current = "gate_core ''1.2.3'' ''2.0.0'' \<lparr>pt_kind = T_ROLLBACK, pt_review = Some (Reviewed review)\<rparr>"
  have current: "core_fingerprint ?current = core_fingerprint gate_policy" "policy_delta_digest gate_previous ?current = policy_delta_digest gate_previous gate_policy"
    unfolding gate_policy_def by (rule core_fingerprint_transition) (simp add: policy_delta_digest_def gate_core_def)
  have "directions vr_minimum gate_previous ?current = [-1, -1, -1]" "directions vr_maximum_exclusive gate_previous ?current = [0, 0, 0]"
    using gate_versions
    by (simp_all add: directions_def gate_previous_def gate_core_def gate_component_def policy_component_def compare_version_def key_less_def map_filter_simps)
  then have "verify_policy_transition gate_previous ?current"
    using fields current unfolding verify_policy_transition_def
    by (simp add: binding) (simp add: gate_previous_def gate_core_def gate_component_def)
  moreover have "policy_ok gate_previous" "policy_ok ?current"
    unfolding gate_previous_def by (rule gate_core_ok, rule gate_ranges)+
  ultimately have "is_rollback gate_previous ?current" by (simp add: is_rollback_def) (simp add: gate_core_def)
  then show ?thesis using review by blast
qed

lemma gate_record_ok: "is_version version \<Longrightarrow> observation_ok (gate_record version kind)"
  using gate_digest_ok by (simp add: observation_ok_def observed_dependency_guards_def gate_record_def is_token_def is_lower_def
      is_token_char_def has_part_def upt_rec Let_def)

lemma gate_admitted: "verify_policy_admission gate_policy previous (Some gate_admission)"
  by (simp add: verify_policy_admission_def gate_admission_def gate_policy_def gate_core_def gate_receipt_def Let_def admission_covers_def
      core_fingerprint_def core_fields_def)

definition gate_records :: "observed_dependency list" where
  "gate_records = map (gate_record ''1.10.0'') [D_GITHUB_CLI, D_PACKAGE]"

lemma gate_records_ok: "list_all observation_ok gate_records"
  using gate_record_ok gate_versions by (simp add: gate_records_def)

lemma gate_matches: "matches gate_policy 50 (gate_component ''1.2.3'' ''2.0.0'' kind) (gate_record ''1.10.0'' kind)"
  using gate_versions by (simp add: matches_def gate_policy_def gate_core_def gate_component_def gate_record_def in_range_def key_less_def)

lemma gate_in_force: "in_force gate_binding gate_policy 50 None (Some gate_admission)"
  using gate_admitted by (simp add: in_force_def gate_policy_def gate_core_def)

lemma gate_passes:
  "evaluate_dependency_preflight (Some gate_binding) (Some gate_policy) (Records (map Some gate_records)) (Some S_GITHUB_READ) (Some 50) None (Some gate_admission)
     = Inr (pass_decision gate_binding gate_policy (rev gate_records) S_GITHUB_READ 50)
   \<and> dd_outcome (pass_decision gate_binding gate_policy (rev gate_records) S_GITHUB_READ 50) = Outcome_PASS"
proof -
  have components: "dp_components gate_policy = map (gate_component ''1.2.3'' ''2.0.0'') [D_PACKAGE, D_GITHUB_CLI, D_PROVIDER_RUNTIME]"
    by (simp add: gate_policy_def gate_core_def)
  have sel: "od_component (gate_record v k) = k" "od_binding (gate_record v k) = gate_binding" for v k by (simp_all add: gate_record_def)
  show ?thesis unfolding preflight_pass_spec [OF gate_policy_ok gate_records_ok]
    using gate_in_force gate_matches [of D_PACKAGE] gate_matches [of D_GITHUB_CLI]
    by (intro conjI exI [of _ "rev gate_records"]) (auto simp: gate_records_def sel components)
qed

theorem dependency_preflight_pass_iff_witness:
  "policy_ok gate_policy \<and> list_all observation_ok gate_records \<and>
   (\<exists>xs. list_all2 (\<lambda>c x. x \<in> set gate_records \<and> od_component x = c \<and> (\<exists>e\<in>set (dp_components gate_policy). matches gate_policy 50 e x))
      [D_PACKAGE, D_GITHUB_CLI] xs)"
  using dependency_preflight_pass_iff [OF gate_policy_ok gate_records_ok, THEN iffD1, OF gate_passes] gate_policy_ok gate_records_ok by auto

text \<open>A record the constructor admits and a preflight cannot decide.\<close>

definition gate_oversized :: string where
  "gate_oversized = replicate 4301 CHR ''1'' @ ''.0.0''"

lemma split_dots_replicate: "c \<noteq> CHR ''.'' \<Longrightarrow> split_dots (replicate n c @ CHR ''.'' # s) = replicate n c # split_dots s"
  by (induction n) auto

lemma gate_oversized_version: "is_version gate_oversized" "\<not> within_int_limit gate_oversized"
proof -
  have groups: "split_dots gate_oversized = [replicate 4301 CHR ''1'', ''0'', ''0'']"
    using split_dots_replicate [of "CHR ''1''" 4301 "''0.0''"] by (simp add: gate_oversized_def)
  show "is_version gate_oversized"
    unfolding is_version_def groups by (simp add: is_numeral_def is_digit_def list_all_iff)
  show "\<not> within_int_limit gate_oversized" unfolding within_int_limit_def groups by simp
qed

end
