(* ===== verification/Provider_Health.thy ===== *)
theory Provider_Health
  imports Runtime_Binding Dependency_Gate
begin

text \<open>
  \<open>provider_health.py\<close>: qualification of a configured provider profile through a credentialless
  channel, the health observation it leaves in a process-local cache, and the receipt that a later
  dispatch presents. The native credential store and its channels are services that may answer
  anything; every call on them is an event of the operation's trace.

  Records are built by their constructors; a service's reply is either such a record, a value of
  another type, an adapter error with a classified failure, or some other exception.
\<close>

section \<open>Lexical classes\<close>

text \<open>\<open>str.isalnum\<close> on characters below 256.\<close>

definition is_alnum :: "char \<Rightarrow> bool" where
  "is_alnum c \<longleftrightarrow> is_lower c \<or> is_upper c \<or> is_digit c \<or> (let n = (of_char c :: nat) in
     n \<in> {0xAA, 0xB2, 0xB3, 0xB5, 0xB9, 0xBA, 0xBC, 0xBD, 0xBE} \<or> 0xC0 \<le> n \<and> n \<noteq> 0xD7 \<and> n \<noteq> 0xF7)"

definition is_safe_identifier :: "string \<Rightarrow> bool" where
  "is_safe_identifier s \<longleftrightarrow> s \<noteq> [] \<and> length s \<le> 128 \<and> list_all (\<lambda>c. is_alnum c \<or> c \<in> set ''._-'') s"

text \<open>The regular expression \<open>[0-9]+\.[0-9]+\.[0-9]+(?:[-+][A-Za-z0-9.-]+)?\<close>, matched in full.\<close>

definition skip_digits :: "string \<Rightarrow> string option" where
  "skip_digits s = (if s \<noteq> [] \<and> is_digit (hd s) then Some (dropWhile is_digit s) else None)"

fun skip_dot :: "string \<Rightarrow> string option" where
  "skip_dot [] = None"
| "skip_dot (c # s) = (if c = CHR ''.'' then Some s else None)"

definition is_semver_suffix :: "string \<Rightarrow> bool" where
  "is_semver_suffix s \<longleftrightarrow> (case s of [] \<Rightarrow> True | c # cs \<Rightarrow>
     c \<in> set ''-+'' \<and> cs \<noteq> [] \<and> list_all (\<lambda>d. is_lower d \<or> is_upper d \<or> is_digit d \<or> d \<in> set ''.-'') cs)"

definition is_semver :: "string \<Rightarrow> bool" where
  "is_semver s \<longleftrightarrow> present is_semver_suffix
     (Option.bind (Option.bind (Option.bind (Option.bind (skip_digits s) skip_dot) skip_digits) skip_dot) skip_digits)"

section \<open>Closed vocabularies\<close>

datatype attempt_role = P_PLANNING | P_WORKER | P_SUPERVISOR | P_AGGREGATION

definition all_attempt_roles :: "attempt_role list" where
  "all_attempt_roles = [P_PLANNING, P_WORKER, P_SUPERVISOR, P_AGGREGATION]"

fun attempt_role_value :: "attempt_role \<Rightarrow> string" where
  "attempt_role_value P_PLANNING = ''planning''"
| "attempt_role_value P_WORKER = ''worker''"
| "attempt_role_value P_SUPERVISOR = ''supervisor''"
| "attempt_role_value P_AGGREGATION = ''aggregation''"

datatype codex_failure = AUTH_MISSING | AUTH_EXPIRED | AUTH_REJECTED | RATE_LIMITED | QUOTA_LIMITED | QUOTA_OR_RATE_LIMIT
  | MODEL_UNAVAILABLE | UNSUPPORTED_CAPABILITY | SDK_INCOMPATIBLE | SANDBOX_OR_APPROVAL_DENIED | PROVIDER_OUTAGE
  | TRANSPORT_OR_PROVIDER_OUTAGE | MALFORMED_RESPONSE | CODEX_UNKNOWN

definition all_codex_failures :: "codex_failure list" where
  "all_codex_failures = [AUTH_MISSING, AUTH_EXPIRED, AUTH_REJECTED, RATE_LIMITED, QUOTA_LIMITED, QUOTA_OR_RATE_LIMIT,
     MODEL_UNAVAILABLE, UNSUPPORTED_CAPABILITY, SDK_INCOMPATIBLE, SANDBOX_OR_APPROVAL_DENIED, PROVIDER_OUTAGE,
     TRANSPORT_OR_PROVIDER_OUTAGE, MALFORMED_RESPONSE, CODEX_UNKNOWN]"

fun codex_failure_value :: "codex_failure \<Rightarrow> string" where
  "codex_failure_value AUTH_MISSING = ''auth-missing''"
| "codex_failure_value AUTH_EXPIRED = ''auth-expired''"
| "codex_failure_value AUTH_REJECTED = ''auth-rejected''"
| "codex_failure_value RATE_LIMITED = ''rate-limited''"
| "codex_failure_value QUOTA_LIMITED = ''quota-limited''"
| "codex_failure_value QUOTA_OR_RATE_LIMIT = ''quota-or-rate-limit''"
| "codex_failure_value MODEL_UNAVAILABLE = ''model-unavailable''"
| "codex_failure_value UNSUPPORTED_CAPABILITY = ''unsupported-capability''"
| "codex_failure_value SDK_INCOMPATIBLE = ''sdk-incompatible''"
| "codex_failure_value SANDBOX_OR_APPROVAL_DENIED = ''sandbox-or-approval-denied''"
| "codex_failure_value PROVIDER_OUTAGE = ''provider-outage''"
| "codex_failure_value TRANSPORT_OR_PROVIDER_OUTAGE = ''transport-or-provider-outage''"
| "codex_failure_value MALFORMED_RESPONSE = ''malformed-response''"
| "codex_failure_value CODEX_UNKNOWN = ''unknown''"

datatype health_state = Health_READY | Health_BLOCKED

fun health_state_value :: "health_state \<Rightarrow> string" where
  "health_state_value Health_READY = ''ready''"
| "health_state_value Health_BLOCKED = ''blocked''"

datatype reasoning_effort = LOW | MEDIUM | HIGH_EFFORT | XHIGH | MAX_EFFORT | ULTRA

definition all_efforts :: "reasoning_effort list" where
  "all_efforts = [LOW, MEDIUM, HIGH_EFFORT, XHIGH, MAX_EFFORT, ULTRA]"

fun effort_value :: "reasoning_effort \<Rightarrow> string" where
  "effort_value LOW = ''low''"
| "effort_value MEDIUM = ''medium''"
| "effort_value HIGH_EFFORT = ''high''"
| "effort_value XHIGH = ''xhigh''"
| "effort_value MAX_EFFORT = ''max''"
| "effort_value ULTRA = ''ultra''"

definition PUBLIC_MODELS :: "string list" where
  "PUBLIC_MODELS = [''gpt-5.6-terra'', ''gpt-5.6-sol'']"

section \<open>Profiles, audits and contracts\<close>

record provider_profile =
  pp_model :: string
  pp_effort :: reasoning_effort
  pp_name :: "string option"

definition profile_fields :: "provider_profile \<Rightarrow> (string \<times> json) list" where
  "profile_fields p = [(''model'', JStr (pp_model p)), (''reasoning_effort'', JStr (effort_value (pp_effort p)))]
     @ (case pp_name p of None \<Rightarrow> [] | Some name \<Rightarrow> [(''name'', JStr name)])"

definition profile_fingerprint :: "provider_profile \<Rightarrow> string" where
  "profile_fingerprint p = digest_value (JObj (profile_fields p))"

record codex_capability =
  cc_model :: string
  cc_effort :: string

definition make_capability :: "codex_capability \<Rightarrow> codex_capability result" where
  "make_capability c = construct [(is_safe_identifier (cc_model c) \<and> is_safe_identifier (cc_effort c),
     ProviderHealthError ''provider capability is invalid'')] c"

record runtime_audit =
  ra_sdk_version :: string
  ra_runtime_version :: string
  ra_capabilities :: "codex_capability list"

definition runtime_audit_guards :: "runtime_audit \<Rightarrow> (bool \<times> py_error) list" where
  "runtime_audit_guards a =
     [(is_semver (ra_sdk_version a) \<and> is_semver (ra_runtime_version a), ProviderHealthError ''provider runtime version is invalid''),
      (ra_capabilities a \<noteq> [] \<and> distinct (ra_capabilities a), ProviderHealthError ''provider runtime capabilities are invalid'')]"

definition make_runtime_audit :: "runtime_audit \<Rightarrow> runtime_audit result" where
  "make_runtime_audit a = construct (runtime_audit_guards a) a"

definition capability_json :: "codex_capability \<Rightarrow> json" where
  "capability_json c = JList [JStr (cc_model c), JStr (cc_effort c)]"

definition audit_fields :: "runtime_audit \<Rightarrow> (string \<times> json) list" where
  "audit_fields a = [(''sdk_version'', JStr (ra_sdk_version a)), (''runtime_version'', JStr (ra_runtime_version a)),
     (''capabilities'', JList (map capability_json (ra_capabilities a)))]"

definition audit_fingerprint :: "runtime_audit \<Rightarrow> string" where
  "audit_fingerprint a = digest_value (JObj (audit_fields a))"

text \<open>The constructor of the wanted capability cannot fail where \<open>supports\<close> is called.\<close>

definition audit_supports :: "runtime_audit \<Rightarrow> provider_profile \<Rightarrow> bool" where
  "audit_supports a p \<longleftrightarrow> \<lparr>cc_model = pp_model p, cc_effort = effort_value (pp_effort p)\<rparr> \<in> set (ra_capabilities a)"

record health_contract =
  hc_sdk_version :: string
  hc_runtime_version :: string
  hc_contract_commit :: string

definition make_health_contract :: "health_contract \<Rightarrow> health_contract result" where
  "make_health_contract c = construct [(is_semver (hc_sdk_version c) \<and> is_semver (hc_runtime_version c) \<and> is_sha (hc_contract_commit c),
     ProviderHealthError ''required provider runtime version is invalid'')] c"

definition contract_accepts :: "health_contract \<Rightarrow> runtime_audit \<Rightarrow> bool" where
  "contract_accepts c a \<longleftrightarrow> (ra_sdk_version a, ra_runtime_version a) = (hc_sdk_version c, hc_runtime_version c)"

definition contract_fields :: "health_contract \<Rightarrow> (string \<times> json) list" where
  "contract_fields c = [(''sdk_version'', JStr (hc_sdk_version c)), (''runtime_version'', JStr (hc_runtime_version c)),
     (''contract_commit'', JStr (hc_contract_commit c))]"

definition contract_fingerprint :: "health_contract \<Rightarrow> string" where
  "contract_fingerprint c = digest_value (JObj (contract_fields c))"

record audit_identity =
  ai_audit :: runtime_audit
  ai_profile :: provider_profile
  ai_profile_identity_value :: string

definition make_audit_identity :: "audit_identity \<Rightarrow> audit_identity result" where
  "make_audit_identity i = construct
     [((ai_profile_identity_value i = [] \<or> is_digest (ai_profile_identity_value i)) \<and> pp_model (ai_profile i) \<in> set PUBLIC_MODELS
       \<and> list_all (\<lambda>c. cc_model c \<in> set PUBLIC_MODELS \<and> cc_effort c \<in> set (map effort_value all_efforts)) (ra_capabilities (ai_audit i))
       \<and> audit_supports (ai_audit i) (ai_profile i), ProviderHealthError ''provider audit identity is invalid'')] i"

definition ai_profile_identity :: "audit_identity \<Rightarrow> string" where
  "ai_profile_identity i = (if ai_profile_identity_value i \<noteq> [] then ai_profile_identity_value i else profile_fingerprint (ai_profile i))"

definition audit_identity_fields :: "audit_identity \<Rightarrow> (string \<times> json) list" where
  "audit_identity_fields i =
     [(''sdk_version'', JStr (ra_sdk_version (ai_audit i))), (''runtime_version'', JStr (ra_runtime_version (ai_audit i))),
      (''capabilities'', JList (map capability_json (ra_capabilities (ai_audit i)))), (''model'', JStr (pp_model (ai_profile i))),
      (''reasoning_effort'', JStr (effort_value (pp_effort (ai_profile i)))), (''profile_identity'', JStr (ai_profile_identity i)),
      (''runtime_fingerprint'', JStr (audit_fingerprint (ai_audit i)))]"

section \<open>Observations\<close>

record health_observation =
  ho_role :: attempt_role
  ho_profile_identity :: string
  ho_contract_identity :: string
  ho_runtime_fingerprint :: string
  ho_state :: health_state
  ho_failure :: "codex_failure option"
  ho_observed_at :: int
  ho_fresh_until :: int
  ho_attempts :: int

definition health_observation_guards :: "health_observation \<Rightarrow> (bool \<times> py_error) list" where
  "health_observation_guards h =
     [(is_digest (ho_profile_identity h) \<and> is_digest (ho_contract_identity h) \<and> is_digest (ho_runtime_fingerprint h),
         ProviderHealthError ''provider health identity is invalid''),
      ((ho_state h = Health_READY) = (ho_failure h = None), ProviderHealthError ''provider health state is invalid''),
      (ho_observed_at h < ho_fresh_until h, ProviderHealthError ''provider health freshness is invalid''),
      (1 \<le> ho_attempts h \<and> ho_attempts h \<le> 3, ProviderHealthError ''provider health retry count is invalid'')]"

definition make_health_observation :: "health_observation \<Rightarrow> health_observation result" where
  "make_health_observation h = construct (health_observation_guards h) h"

definition is_fresh_at :: "health_observation \<Rightarrow> int \<Rightarrow> bool" where
  "is_fresh_at h now \<longleftrightarrow> ho_observed_at h \<le> now \<and> now < ho_fresh_until h"

definition health_evidence :: "health_observation \<Rightarrow> (string \<times> json) list" where
  "health_evidence h =
     [(''role'', JStr (attempt_role_value (ho_role h))), (''profile_identity'', JStr (ho_profile_identity h)),
      (''health_contract_identity'', JStr (ho_contract_identity h)), (''runtime_fingerprint'', JStr (ho_runtime_fingerprint h)),
      (''state'', JStr (health_state_value (ho_state h))), (''failure'', json_opt (map_option codex_failure_value (ho_failure h))),
      (''observed_at'', JInt (ho_observed_at h)), (''fresh_until'', JInt (ho_fresh_until h)), (''attempts'', JInt (ho_attempts h))]"

definition health_evidence_keys :: "string list" where
  "health_evidence_keys = [''role'', ''profile_identity'', ''health_contract_identity'', ''runtime_fingerprint'', ''state'', ''failure'',
     ''observed_at'', ''fresh_until'', ''attempts'']"

definition parse_health_observation :: "(string \<times> json) list \<Rightarrow> health_observation option" where
  "parse_health_observation evidence =
     Option.bind (has_keys health_evidence_keys evidence) (\<lambda>kvs.
     Option.bind (as_str_or_null (map_of kvs ''failure'')) (\<lambda>failure_value.
     Option.bind (Option.bind (as_str (map_of kvs ''role'')) (enum_of all_attempt_roles attempt_role_value)) (\<lambda>role.
     Option.bind (as_str (map_of kvs ''profile_identity'')) (\<lambda>profile.
     Option.bind (as_str (map_of kvs ''health_contract_identity'')) (\<lambda>contract.
     Option.bind (as_str (map_of kvs ''runtime_fingerprint'')) (\<lambda>runtime.
     Option.bind (Option.bind (as_str (map_of kvs ''state'')) (enum_of [Health_READY, Health_BLOCKED] health_state_value)) (\<lambda>state.
     Option.bind (case failure_value of None \<Rightarrow> Some None
        | Some f \<Rightarrow> map_option Some (enum_of all_codex_failures codex_failure_value f)) (\<lambda>failure.
     Option.bind (as_int (map_of kvs ''observed_at'')) (\<lambda>observed.
     Option.bind (as_int (map_of kvs ''fresh_until'')) (\<lambda>until.
     Option.bind (as_int (map_of kvs ''attempts'')) (\<lambda>attempts.
     caught_result (make_health_observation \<lparr>ho_role = role, ho_profile_identity = profile, ho_contract_identity = contract,
       ho_runtime_fingerprint = runtime, ho_state = state, ho_failure = failure, ho_observed_at = observed, ho_fresh_until = until,
       ho_attempts = attempts\<rparr>))))))))))))"

definition health_from_evidence :: "(string \<times> json) list \<Rightarrow> health_observation result" where
  "health_from_evidence evidence = (case parse_health_observation evidence of
     None \<Rightarrow> Inl (ProviderHealthError ''provider health evidence is invalid'') | Some h \<Rightarrow> Inr h)"

section \<open>Credential channels\<close>

record credential_identity =
  ci_store :: string
  ci_role :: attempt_role
  ci_channel :: string
  ci_denied_roles :: "attempt_role list"

definition other_roles :: "attempt_role \<Rightarrow> attempt_role list" where
  "other_roles role = filter (\<lambda>r. r \<noteq> role) all_attempt_roles"

definition make_credential_identity :: "credential_identity \<Rightarrow> credential_identity result" where
  "make_credential_identity c = construct
     [(is_digest (ci_store c) \<and> is_digest (ci_channel c) \<and> ci_denied_roles c = other_roles (ci_role c),
       ProviderHealthError ''role-bound credential identity is invalid'')] c"

definition authorize_channel :: "credential_identity \<Rightarrow> attempt_role \<Rightarrow> string \<Rightarrow> string \<Rightarrow> unit result" where
  "authorize_channel c role store channel =
     (if (role, store, channel) \<noteq> (ci_role c, ci_store c, ci_channel c)
      then Inl (ProviderHealthError ''role-bound credential channel is denied'') else Inr ())"

record isolation_evidence =
  ie_role :: attempt_role
  ie_identity :: credential_identity
  ie_model_session_can_read_secret :: bool
  ie_prompt_can_read_secret :: bool
  ie_artifact_can_read_secret :: bool
  ie_tool_can_read_secret :: bool
  ie_github_adapter_can_read_secret :: bool
  ie_registry_adapter_can_read_secret :: bool
  ie_unrelated_role_can_read_secret :: bool

definition make_isolation_evidence :: "isolation_evidence \<Rightarrow> isolation_evidence result" where
  "make_isolation_evidence e = construct
     [(ci_role (ie_identity e) = ie_role e \<and> list_all Not [ie_model_session_can_read_secret e, ie_prompt_can_read_secret e,
         ie_artifact_can_read_secret e, ie_tool_can_read_secret e, ie_github_adapter_can_read_secret e, ie_registry_adapter_can_read_secret e,
         ie_unrelated_role_can_read_secret e], ProviderHealthError ''provider credential isolation is not proven'')] e"

text \<open>The evidence with the default values of the seven claims.\<close>

definition isolated :: "attempt_role \<Rightarrow> credential_identity \<Rightarrow> isolation_evidence" where
  "isolated role identity = \<lparr>ie_role = role, ie_identity = identity, ie_model_session_can_read_secret = False,
     ie_prompt_can_read_secret = False, ie_artifact_can_read_secret = False, ie_tool_can_read_secret = False,
     ie_github_adapter_can_read_secret = False, ie_registry_adapter_can_read_secret = False, ie_unrelated_role_can_read_secret = False\<rparr>"

record qualification_request =
  qr_role :: attempt_role
  qr_model :: string
  qr_effort :: string

definition make_request :: "qualification_request \<Rightarrow> qualification_request result" where
  "make_request r = construct [(is_safe_identifier (qr_model r) \<and> is_safe_identifier (qr_effort r),
     ProviderHealthError ''provider qualification request is invalid'')] r"

record probe_outcome =
  po_available :: bool
  po_failure :: "codex_failure option"

definition make_probe_outcome :: "probe_outcome \<Rightarrow> probe_outcome result" where
  "make_probe_outcome p = construct [(po_available p = (po_failure p = None),
     ProviderHealthError ''provider probe outcome is malformed'')] p"

text \<open>
  The registry of native channels, \<open>RoleBoundCodexCredentialStore\<close>: an entry per role with the identity
  of its channel and of the object behind it.
\<close>

record native_store =
  ns_identity :: string
  ns_channels :: "(attempt_role \<times> credential_identity \<times> nat) list"

fun build_channels :: "string \<Rightarrow> (attempt_role \<rightharpoonup> string \<times> nat) \<Rightarrow> attempt_role list \<Rightarrow> string list \<Rightarrow> nat list
    \<Rightarrow> (attempt_role \<times> credential_identity \<times> nat) list result" where
  "build_channels store channels [] used_identities used_backends = Inr []"
| "build_channels store channels (role # roles) used_identities used_backends = (case channels role of
     None \<Rightarrow> Inl (PyKeyError (attempt_role_value role))
   | Some (channel, backend) \<Rightarrow>
       if \<not> is_digest channel \<or> channel \<in> set used_identities \<or> backend \<in> set used_backends
       then Inl (ProviderHealthError ''native credential channel is invalid'')
       else bind_result (make_credential_identity \<lparr>ci_store = store, ci_role = role, ci_channel = channel, ci_denied_roles = other_roles role\<rparr>)
         (\<lambda>identity. bind_result (build_channels store channels roles (channel # used_identities) (backend # used_backends))
         (\<lambda>built. Inr ((role, identity, backend) # built))))"

definition make_native_store :: "string \<Rightarrow> (attempt_role \<rightharpoonup> string \<times> nat) \<Rightarrow> native_store result" where
  "make_native_store store channels =
     (if \<not> is_digest store \<or> \<not> list_all (\<lambda>r. channels r \<noteq> None) all_attempt_roles
      then Inl (ProviderHealthError ''native credential store is invalid'')
      else bind_result (build_channels store channels all_attempt_roles [] [])
        (\<lambda>built. Inr \<lparr>ns_identity = store, ns_channels = built\<rparr>))"

definition native_open :: "native_store \<Rightarrow> attempt_role \<Rightarrow> (credential_identity \<times> nat) result" where
  "native_open s role = (case map_of (ns_channels s) role of
     None \<Rightarrow> Inl (PyKeyError (attempt_role_value role)) | Some channel \<Rightarrow> Inr channel)"

definition native_isolation :: "native_store \<Rightarrow> attempt_role \<Rightarrow> isolation_evidence result" where
  "native_isolation s role = bind_result (native_open s role) (\<lambda>(identity, backend).
     make_isolation_evidence (isolated role identity))"

text \<open>The role check in front of a native backend's probe.\<close>

definition native_probe :: "credential_identity \<Rightarrow> qualification_request \<Rightarrow> (qualification_request \<Rightarrow> 'a result) \<Rightarrow> 'a result" where
  "native_probe identity request backend =
     (if qr_role request \<noteq> ci_role identity then Inl (ProviderHealthError ''native credential role is invalid'') else backend request)"

section \<open>Receipts\<close>

record health_receipt =
  hr_contract_commit :: string
  hr_candidate_sha :: "string option"
  hr_case_id :: string
  hr_selection_ordinal :: int
  hr_configuration :: runtime_binding
  hr_role :: attempt_role
  hr_profile_identity :: string
  hr_observation :: health_observation
  hr_audit_identity :: audit_identity
  hr_schema :: string
  hr_digest :: string

definition HEALTH_SCHEMA :: string where
  "HEALTH_SCHEMA = ''roundwright-provider-health/v1''"

definition columns_json :: "runtime_binding \<Rightarrow> json" where
  "columns_json b = (case complete_columns b of ((schema, resolved, worker, supervisors), complete, rounds, attempts, final, policy) \<Rightarrow>
     JList [JStr schema, JStr resolved, JStr worker, JStr supervisors, JInt complete, JInt rounds, JInt attempts, JStr final, JStr policy])"

definition receipt_payload :: "health_receipt \<Rightarrow> (string \<times> json) list" where
  "receipt_payload r =
     [(''schema'', JStr (hr_schema r)), (''contract_commit'', JStr (hr_contract_commit r)), (''candidate_sha'', json_opt (hr_candidate_sha r)),
      (''case_id'', JStr (hr_case_id r)), (''selection_ordinal'', JInt (hr_selection_ordinal r)), (''configuration'', columns_json (hr_configuration r)),
      (''role'', JStr (attempt_role_value (hr_role r))), (''profile_identity'', JStr (hr_profile_identity r)),
      (''observation'', JObj (health_evidence (hr_observation r))), (''audit_identity'', JObj (audit_identity_fields (hr_audit_identity r)))]"

definition receipt_ok :: "health_receipt \<Rightarrow> bool" where
  "receipt_ok r \<longleftrightarrow> hr_schema r = HEALTH_SCHEMA \<and> is_sha (hr_contract_commit r)
     \<and> (case hr_candidate_sha r of None \<Rightarrow> True | Some c \<Rightarrow> is_sha c) \<and> is_safe_identifier (hr_case_id r) \<and> 0 \<le> hr_selection_ordinal r
     \<and> is_digest (hr_profile_identity r)
     \<and> (ho_role (hr_observation r), ho_profile_identity (hr_observation r)) = (hr_role r, hr_profile_identity r)
     \<and> ai_profile_identity (hr_audit_identity r) = hr_profile_identity r
     \<and> audit_fingerprint (ai_audit (hr_audit_identity r)) = ho_runtime_fingerprint (hr_observation r)
     \<and> contract_fingerprint \<lparr>hc_sdk_version = ra_sdk_version (ai_audit (hr_audit_identity r)),
          hc_runtime_version = ra_runtime_version (ai_audit (hr_audit_identity r)), hc_contract_commit = hr_contract_commit r\<rparr>
        = ho_contract_identity (hr_observation r)"

definition make_health_receipt :: "health_receipt \<Rightarrow> health_receipt result" where
  "make_health_receipt r =
     (if \<not> receipt_ok r then Inl (ProviderHealthError ''provider health receipt is invalid'')
      else let digest = digest_value (JObj (receipt_payload r)) in
        if hr_digest r \<noteq> [] \<and> hr_digest r \<noteq> digest then Inl (ProviderHealthError ''provider health receipt digest is invalid'')
        else Inr (r\<lparr>hr_digest := digest\<rparr>))"

definition authorize_dispatch :: "health_receipt \<Rightarrow> runtime_binding \<Rightarrow> attempt_role \<Rightarrow> string \<Rightarrow> string \<Rightarrow> string option \<Rightarrow> string \<Rightarrow> int
    \<Rightarrow> unit result" where
  "authorize_dispatch r binding role profile commit candidate case_id now =
     (if \<not> is_sha commit \<or> (case candidate of None \<Rightarrow> False | Some c \<Rightarrow> \<not> is_sha c) \<or> \<not> is_safe_identifier case_id
        \<or> (hr_contract_commit r, hr_candidate_sha r, hr_case_id r, hr_role r, hr_profile_identity r) \<noteq> (commit, candidate, case_id, role, profile)
        \<or> require_matches (hr_configuration r) (Some binding) \<noteq> Inr ()
        \<or> ho_state (hr_observation r) \<noteq> Health_READY \<or> \<not> is_fresh_at (hr_observation r) now
      then Inl (ProviderHealthError ''provider health receipt does not authorize dispatch'') else Inr ())"

section \<open>Reports\<close>

type_synonym selection = "int \<times> attempt_role \<times> string"

definition number_from_zero :: "'a list \<Rightarrow> (int \<times> 'a) list" where
  "number_from_zero xs = zip (map int [0..<length xs]) xs"

definition required_provider_selections :: "runtime_binding \<Rightarrow> selection list" where
  "required_provider_selections b = number_from_zero
     ([(P_PLANNING, worker_profile_identity b), (P_WORKER, worker_profile_identity b)]
      @ map (\<lambda>p. (P_SUPERVISOR, p)) (supervisor_profile_identities b))"

record qualification_report =
  qp_contract_identity :: string
  qp_configuration :: runtime_binding
  qp_selections :: "selection list"
  qp_observations :: "health_observation list"

definition report_ok :: "qualification_report \<Rightarrow> bool" where
  "report_ok r \<longleftrightarrow> is_digest (qp_contract_identity r) \<and> qp_observations r \<noteq> []
     \<and> list_all (\<lambda>(index, ordinal, role, profile). ordinal = index \<and> is_digest profile) (number_from_zero (qp_selections r))
     \<and> qp_selections r = required_provider_selections (qp_configuration r)
     \<and> length (qp_selections r) = length (qp_observations r)
     \<and> map (\<lambda>h. (ho_role h, ho_profile_identity h)) (qp_observations r) = map snd (qp_selections r)
     \<and> list_all (\<lambda>h. ho_contract_identity h = qp_contract_identity r) (qp_observations r)"

definition make_report :: "qualification_report \<Rightarrow> qualification_report result" where
  "make_report r = construct [(report_ok r, ProviderHealthError ''provider qualification report is invalid'')] r"

definition ready_at :: "qualification_report \<Rightarrow> int \<Rightarrow> bool" where
  "ready_at r now \<longleftrightarrow> list_all (\<lambda>h. ho_state h = Health_READY \<and> is_fresh_at h now) (qp_observations r)"

definition blocker_for :: "qualification_report \<Rightarrow> attempt_role \<Rightarrow> provider_profile \<Rightarrow> int \<Rightarrow> int option \<Rightarrow> codex_failure option result" where
  "blocker_for r role profile now ordinal =
     (let matches = filter (\<lambda>(index, h). (ho_role h, ho_profile_identity h) = (role, profile_fingerprint profile)) (number_from_zero (qp_observations r));
          chosen = (case ordinal of None \<Rightarrow> matches | Some n \<Rightarrow> filter (\<lambda>(index, h). index = n) matches)
      in case chosen of [(index, h)] \<Rightarrow> Inr (if \<not> is_fresh_at h now then Some CODEX_UNKNOWN else ho_failure h)
         | _ \<Rightarrow> Inl (ProviderHealthError ''configured profile was not qualified''))"

end
