(* ===== verification/Provider_Qualification.thy ===== *)
theory Provider_Qualification
  imports Provider_Health
begin

text \<open>
  The operations of \<open>CodexProviderHealth\<close> (\<open>provider_health.py\<close>). The credential store and the channel it
  opens are services: a call is an event of the operation's trace and its reply is anything the adapter
  may do, a record of the expected type, a value of another type, an adapter error with a classified
  failure, or another exception. The replies are an argument of the operations; the cache is the state.
\<close>

section \<open>Services\<close>

datatype 'a reply = Reply 'a | OtherValue | AdapterError codex_failure | OtherException

record credential_services =
  cs_store_identity :: "string reply"
  cs_isolation :: "isolation_evidence reply"
  cs_open :: "unit reply"
  cs_identity :: "credential_identity reply"
  cs_audit :: "runtime_audit reply"
  cs_probe :: "nat \<Rightarrow> probe_outcome reply"

datatype health_event = Ask_Store_Identity | Ask_Isolation attempt_role | Open_Channel attempt_role | Ask_Channel_Identity
  | Ask_Audit | Probe qualification_request

text \<open>
  A run is the trace of the calls made and how it ended: with a value, with the adapter's error, or with
  another exception.
\<close>

datatype 'a outcome = Done 'a | Adapter codex_failure | Raised py_error

type_synonym 'a run = "health_event list \<times> 'a outcome"

definition attempt_run :: "'a run \<Rightarrow> (codex_failure \<Rightarrow> 'b run) \<Rightarrow> (py_error \<Rightarrow> 'b run) \<Rightarrow> ('a \<Rightarrow> 'b run) \<Rightarrow> 'b run" where
  "attempt_run r on_adapter on_error k = (case snd r of
     Done x \<Rightarrow> (fst r @ fst (k x), snd (k x))
   | Adapter f \<Rightarrow> (fst r @ fst (on_adapter f), snd (on_adapter f))
   | Raised e \<Rightarrow> (fst r @ fst (on_error e), snd (on_error e)))"

definition bind_run :: "'a run \<Rightarrow> ('a \<Rightarrow> 'b run) \<Rightarrow> 'b run" where
  "bind_run r k = attempt_run r (\<lambda>f. ([], Adapter f)) (\<lambda>e. ([], Raised e)) k"

fun of_result :: "'a result \<Rightarrow> 'a run" where
  "of_result (Inl e) = ([], Raised e)"
| "of_result (Inr x) = ([], Done x)"

text \<open>A call; a value of a type that the caller does not expect is \<open>None\<close>.\<close>

fun ask :: "health_event \<Rightarrow> 'a reply \<Rightarrow> 'a option run" where
  "ask ev (Reply x) = ([ev], Done (Some x))"
| "ask ev OtherValue = ([ev], Done None)"
| "ask ev (AdapterError f) = ([ev], Adapter f)"
| "ask ev OtherException = ([ev], Raised (PyException ''service''))"

text \<open>\<open>except Exception\<close> after \<open>except CodexAdapterError: raise\<close>.\<close>

definition replace_error :: "py_error \<Rightarrow> 'a run \<Rightarrow> 'a run" where
  "replace_error e r = attempt_run r (\<lambda>f. ([], Adapter f)) (\<lambda>_. ([], Raised e)) (\<lambda>x. ([], Done x))"

section \<open>The dependency gate in front of every call\<close>

record qualification_control =
  qc_binding :: candidate_binding
  qc_dependency_control :: execution_control
  qc_now :: int

definition require_provider_stage :: "execution_control \<Rightarrow> candidate_binding \<Rightarrow> int \<Rightarrow> unit result" where
  "require_provider_stage c binding now = (case control_require c (Some binding) (Some S_PROVIDER_QUALIFICATION) (Some now) of
     Inr x \<Rightarrow> Inr x
   | Inl (DependencyPolicyError m) \<Rightarrow> Inl (ProviderHealthError ''provider qualification preflight blocked execution'')
   | Inl e \<Rightarrow> Inl e)"

definition make_qualification_control :: "qualification_control \<Rightarrow> qualification_control result" where
  "make_qualification_control c =
     (if qc_now c < 0 then Inl (ProviderHealthError ''provider qualification control is invalid'')
      else bind_result (require_provider_stage (qc_dependency_control c) (qc_binding c) (qc_now c)) (\<lambda>_. Inr c))"

definition authorize_control :: "candidate_binding \<Rightarrow> qualification_control \<Rightarrow> int \<Rightarrow> unit result" where
  "authorize_control binding control now =
     (if qc_binding control \<noteq> binding \<or> qc_now control \<noteq> now then Inl (ProviderHealthError ''provider qualification control is invalid'')
      else require_provider_stage (qc_dependency_control control) binding now)"

section \<open>The cache\<close>

type_synonym health_cache = "attempt_role \<times> string \<times> string \<rightharpoonup> health_observation"

definition cache_get :: "health_cache \<Rightarrow> attempt_role \<Rightarrow> string \<Rightarrow> string \<Rightarrow> int \<Rightarrow> health_observation option result" where
  "cache_get cache role profile contract now =
     (if \<not> is_digest profile \<or> \<not> is_digest contract then Inl (ProviderHealthError ''provider health cache key is invalid'')
      else Inr (case cache (role, profile, contract) of None \<Rightarrow> None | Some h \<Rightarrow> if is_fresh_at h now then Some h else None))"

definition cache_put :: "health_observation \<Rightarrow> health_cache \<Rightarrow> health_cache" where
  "cache_put h cache = cache((ho_role h, ho_profile_identity h, ho_contract_identity h) \<mapsto> h)"

section \<open>Qualification\<close>

definition unknown_runtime_fingerprint :: string where
  "unknown_runtime_fingerprint = digest_value (JObj [(''runtime'', JStr ''unavailable'')])"

definition credential_isolation :: "credential_services \<Rightarrow> attempt_role \<Rightarrow> candidate_binding \<Rightarrow> qualification_control \<Rightarrow> int
    \<Rightarrow> isolation_evidence run" where
  "credential_isolation sv role binding control now =
     (let unproven = ProviderHealthError ''provider credential isolation is not proven'' in
      bind_run (of_result (authorize_control binding control now)) (\<lambda>_.
      bind_run (replace_error unproven
          (bind_run (ask Ask_Store_Identity (cs_store_identity sv)) (\<lambda>store.
           bind_run (ask (Ask_Isolation role) (cs_isolation sv)) (\<lambda>evidence. ([], Done (store, evidence))))))
        (\<lambda>(store, evidence). case (store, evidence) of
          (Some s, Some e) \<Rightarrow>
            if \<not> is_digest s \<or> ie_role e \<noteq> role then ([], Raised unproven)
            else replace_error unproven (of_result (bind_result (authorize_channel (ie_identity e) role s (ci_channel (ie_identity e))) (\<lambda>_. Inr e)))
        | _ \<Rightarrow> ([], Raised unproven))))"

text \<open>Opening the role's channel and comparing its identity with the proven one.\<close>

definition open_bound_channel :: "credential_services \<Rightarrow> attempt_role \<Rightarrow> isolation_evidence \<Rightarrow> unit run" where
  "open_bound_channel sv role isolation =
     bind_run (ask (Open_Channel role) (cs_open sv)) (\<lambda>channel. case channel of
       None \<Rightarrow> ([], Raised (PyException ''attribute''))
     | Some _ \<Rightarrow>
       bind_run (ask Ask_Channel_Identity (cs_identity sv)) (\<lambda>identity. case identity of
         None \<Rightarrow> ([], Raised (ProviderHealthError ''provider credential channel is invalid''))
       | Some c \<Rightarrow>
         bind_run (of_result (authorize_channel c role (ci_store (ie_identity isolation)) (ci_channel c))) (\<lambda>_.
         if c \<noteq> ie_identity isolation then ([], Raised (ProviderHealthError ''provider credential channel is invalid'')) else ([], Done ()))))"

definition audit_runtime_under_control :: "credential_services \<Rightarrow> candidate_binding \<Rightarrow> qualification_control \<Rightarrow> int \<Rightarrow> runtime_audit option run" where
  "audit_runtime_under_control sv binding control now =
     bind_run (of_result (authorize_control binding control now)) (\<lambda>_. ask Ask_Audit (cs_audit sv))"

definition audit_runtime :: "credential_services \<Rightarrow> attempt_role \<Rightarrow> candidate_binding \<Rightarrow> qualification_control \<Rightarrow> int \<Rightarrow> runtime_audit run" where
  "audit_runtime sv role binding control now =
     (let unproven = ProviderHealthError ''provider runtime audit is not proven'' in
      bind_run (of_result (authorize_control binding control now)) (\<lambda>_.
      bind_run (credential_isolation sv role binding control now) (\<lambda>isolation.
      bind_run (replace_error unproven (bind_run (open_bound_channel sv role isolation) (\<lambda>_. audit_runtime_under_control sv binding control now)))
        (\<lambda>audit. case audit of None \<Rightarrow> ([], Raised unproven) | Some a \<Rightarrow> ([], Done a)))))"

definition record_health :: "attempt_role \<Rightarrow> string \<Rightarrow> string \<Rightarrow> string \<Rightarrow> codex_failure option \<Rightarrow> int \<Rightarrow> int \<Rightarrow> int \<Rightarrow> health_cache
    \<Rightarrow> (health_observation \<times> health_cache) run" where
  "record_health role profile contract runtime failure now freshness attempts cache =
     of_result (bind_result (make_health_observation \<lparr>ho_role = role, ho_profile_identity = profile, ho_contract_identity = contract,
         ho_runtime_fingerprint = runtime, ho_state = (if failure = None then Health_READY else Health_BLOCKED), ho_failure = failure,
         ho_observed_at = now, ho_fresh_until = now + freshness, ho_attempts = attempts\<rparr>)
       (\<lambda>h. Inr (h, cache_put h cache)))"

definition retryable :: "codex_failure option \<Rightarrow> bool" where
  "retryable f \<longleftrightarrow> f \<in> Some ` {RATE_LIMITED, QUOTA_LIMITED, QUOTA_OR_RATE_LIMIT, PROVIDER_OUTAGE, TRANSPORT_OR_PROVIDER_OUTAGE}"

text \<open>One probe: \<open>Inl\<close> when the profile is available, otherwise the failure it leaves.\<close>

fun probe_result :: "probe_outcome reply \<Rightarrow> unit + codex_failure option" where
  "probe_result (Reply r) = (if po_available r then Inl () else Inr (po_failure r))"
| "probe_result OtherValue = Inr (Some MALFORMED_RESPONSE)"
| "probe_result (AdapterError f) = Inr (Some f)"
| "probe_result OtherException = Inr (Some CODEX_UNKNOWN)"

text \<open>
  The loop \<open>for attempts in range(1, max_attempts + 1)\<close>: the iterations left, the attempts made and the
  failure of the last one. The result is \<open>None\<close> as soon as a probe finds the profile available.
\<close>

fun probe_loop :: "(nat \<Rightarrow> probe_outcome reply) \<Rightarrow> qualification_request \<Rightarrow> nat \<Rightarrow> nat \<Rightarrow> codex_failure option
    \<Rightarrow> health_event list \<times> codex_failure option \<times> nat" where
  "probe_loop replies request 0 attempts failure = ([], Some (case failure of None \<Rightarrow> CODEX_UNKNOWN | Some f \<Rightarrow> f), attempts)"
| "probe_loop replies request (Suc left) attempts failure = (case probe_result (replies (Suc attempts)) of
     Inl _ \<Rightarrow> ([Probe request], None, Suc attempts)
   | Inr f \<Rightarrow>
       if retryable f then (case probe_loop replies request left (Suc attempts) f of (es, r) \<Rightarrow> (Probe request # es, r))
       else ([Probe request], Some (case f of None \<Rightarrow> CODEX_UNKNOWN | Some g \<Rightarrow> g), Suc attempts))"

definition refresh :: "health_contract \<Rightarrow> credential_services \<Rightarrow> attempt_role \<Rightarrow> provider_profile \<Rightarrow> string \<Rightarrow> string \<Rightarrow> isolation_evidence
    \<Rightarrow> int \<Rightarrow> int \<Rightarrow> int \<Rightarrow> candidate_binding \<Rightarrow> qualification_control \<Rightarrow> health_cache \<Rightarrow> (health_observation \<times> health_cache) run" where
  "refresh hc sv role profile profile_id contract_id isolation now freshness max_attempts binding control cache =
     (let blocked_by = (\<lambda>runtime f. record_health role profile_id contract_id runtime (Some f) now freshness 1 cache) in
      bind_run (of_result (authorize_control binding control now)) (\<lambda>_.
      attempt_run (open_bound_channel sv role isolation)
        (blocked_by unknown_runtime_fingerprint) (\<lambda>_. blocked_by unknown_runtime_fingerprint MALFORMED_RESPONSE) (\<lambda>_.
      attempt_run (audit_runtime_under_control sv binding control now)
        (blocked_by unknown_runtime_fingerprint) (\<lambda>_. blocked_by unknown_runtime_fingerprint CODEX_UNKNOWN) (\<lambda>audit.
      case audit of None \<Rightarrow> blocked_by unknown_runtime_fingerprint MALFORMED_RESPONSE
      | Some a \<Rightarrow>
        if \<not> contract_accepts hc a then blocked_by (audit_fingerprint a) SDK_INCOMPATIBLE
        else if pp_model profile \<notin> cc_model ` set (ra_capabilities a) then blocked_by (audit_fingerprint a) MODEL_UNAVAILABLE
        else if \<not> audit_supports a profile then blocked_by (audit_fingerprint a) UNSUPPORTED_CAPABILITY
        else bind_run (of_result (make_request \<lparr>qr_role = role, qr_model = pp_model profile, qr_effort = effort_value (pp_effort profile)\<rparr>)) (\<lambda>request.
          case probe_loop (cs_probe sv) request (nat max_attempts) 0 None of (es, failure, attempts) \<Rightarrow>
            bind_run (es, Done ()) (\<lambda>_. record_health role profile_id contract_id (audit_fingerprint a) failure now freshness (int attempts) cache))))))"

definition qualify :: "health_contract \<Rightarrow> credential_services \<Rightarrow> attempt_role \<Rightarrow> provider_profile \<Rightarrow> candidate_binding \<Rightarrow> qualification_control
    \<Rightarrow> int \<Rightarrow> int \<Rightarrow> bool \<Rightarrow> int \<Rightarrow> health_cache \<Rightarrow> (health_observation \<times> health_cache) run" where
  "qualify hc sv role profile binding control freshness max_attempts force_refresh now cache =
     bind_run (of_result (authorize_control binding control now)) (\<lambda>_.
     if freshness < 1 then ([], Raised (ProviderHealthError ''provider health freshness boundary is invalid''))
     else if \<not> (1 \<le> max_attempts \<and> max_attempts \<le> 3) then ([], Raised (ProviderHealthError ''provider health retry policy is invalid''))
     else
       let profile_id = profile_fingerprint profile; contract_id = contract_fingerprint hc;
           blocked_by = (\<lambda>f. record_health role profile_id contract_id unknown_runtime_fingerprint (Some f) now freshness 1 cache)
       in attempt_run (credential_isolation sv role binding control now) blocked_by
            (\<lambda>e. case e of ProviderHealthError m \<Rightarrow> blocked_by MALFORMED_RESPONSE | _ \<Rightarrow> ([], Raised e))
            (\<lambda>isolation.
              let fresh = refresh hc sv role profile profile_id contract_id isolation now freshness max_attempts binding control cache
              in if force_refresh then fresh
                 else bind_run (of_result (cache_get cache role profile_id contract_id now)) (\<lambda>cached.
                   case cached of Some h \<Rightarrow> ([], Done (h, cache)) | None \<Rightarrow> fresh)))"

section \<open>Qualifying a configuration\<close>

text \<open>
  What qualification reads of a resolved configuration (\<open>configuration.py\<close>): the configured profiles, the
  review policy, and the schema and digest of its pin, or the error that pinning raises.
\<close>

record review_policy =
  rp_complete_rounds :: int
  rp_max_rounds :: int
  rp_max_supervisor_attempts :: int
  rp_on_final_findings :: string

record provider_configuration =
  pc_worker :: provider_profile
  pc_supervisors :: "provider_profile list"
  pc_review :: review_policy
  pc_pin :: "(string \<times> string) result"

definition policy_payload :: "review_policy \<Rightarrow> (string \<times> json) list" where
  "policy_payload p = [(''complete_rounds'', JInt (rp_complete_rounds p)), (''max_rounds'', JInt (rp_max_rounds p)),
     (''max_supervisor_attempts_per_round'', JInt (rp_max_supervisor_attempts p)), (''on_final_findings'', JStr (rp_on_final_findings p))]"

definition pinned_runtime_binding :: "provider_configuration \<Rightarrow> runtime_binding result" where
  "pinned_runtime_binding c = bind_result (pc_pin c) (\<lambda>(schema, digest).
     make_runtime_binding \<lparr>schema_version = schema, resolved_digest = digest, worker_profile_identity = profile_fingerprint (pc_worker c),
       supervisor_profile_identities = map profile_fingerprint (pc_supervisors c), review_complete_rounds = rp_complete_rounds (pc_review c),
       review_max_rounds = rp_max_rounds (pc_review c), review_max_supervisor_attempts_per_round = rp_max_supervisor_attempts (pc_review c),
       review_on_final_findings = rp_on_final_findings (pc_review c), review_policy_digest = hex_digest (JObj (policy_payload (pc_review c)))\<rparr>)"

definition selected_profiles :: "provider_configuration \<Rightarrow> runtime_binding \<Rightarrow> (attempt_role \<times> provider_profile) list" where
  "selected_profiles c pin = map (\<lambda>((ordinal, role, identity), profile). (role, profile))
     (zip (required_provider_selections pin) (pc_worker c # pc_worker c # pc_supervisors c))"

text \<open>The selections are qualified in order, each against the cache the earlier ones left.\<close>

fun qualify_all :: "health_contract \<Rightarrow> (nat \<Rightarrow> credential_services) \<Rightarrow> nat \<Rightarrow> (attempt_role \<times> provider_profile) list \<Rightarrow> candidate_binding
    \<Rightarrow> qualification_control \<Rightarrow> int \<Rightarrow> int \<Rightarrow> bool \<Rightarrow> int \<Rightarrow> health_cache \<Rightarrow> (health_observation list \<times> health_cache) run" where
  "qualify_all hc sv n [] binding control freshness max_attempts force_refresh now cache = ([], Done ([], cache))"
| "qualify_all hc sv n ((role, profile) # rest) binding control freshness max_attempts force_refresh now cache =
     bind_run (qualify hc (sv n) role profile binding control freshness max_attempts force_refresh now cache) (\<lambda>(h, cache').
     bind_run (qualify_all hc sv (Suc n) rest binding control freshness max_attempts force_refresh now cache') (\<lambda>(hs, cache'').
     ([], Done (h # hs, cache''))))"

definition qualify_configuration :: "health_contract \<Rightarrow> (nat \<Rightarrow> credential_services) \<Rightarrow> provider_configuration \<Rightarrow> candidate_binding
    \<Rightarrow> qualification_control \<Rightarrow> int \<Rightarrow> int \<Rightarrow> bool \<Rightarrow> int \<Rightarrow> health_cache \<Rightarrow> (qualification_report \<times> health_cache) run" where
  "qualify_configuration hc sv c binding control freshness max_attempts force_refresh now cache =
     bind_run (of_result (authorize_control binding control now)) (\<lambda>_.
     bind_run (of_result (pinned_runtime_binding c)) (\<lambda>pin.
     let selected = selected_profiles c pin in
     bind_run (qualify_all hc sv 0 selected binding control freshness max_attempts force_refresh now cache) (\<lambda>(hs, cache').
     of_result (bind_result (make_report \<lparr>qp_contract_identity = contract_fingerprint hc, qp_configuration = pin,
         qp_selections = number_from_zero (map (\<lambda>(role, profile). (role, profile_fingerprint profile)) selected), qp_observations = hs\<rparr>)
       (\<lambda>report. Inr (report, cache'))))))"

section \<open>Operator guidance\<close>

fun provider_recovery_guidance :: "codex_failure \<Rightarrow> string \<times> string \<times> string" where
  "provider_recovery_guidance AUTH_MISSING = (''auth-missing'', ''authentication is not available'', ''sign in with the approved provider tool, then rerun qualification'')"
| "provider_recovery_guidance AUTH_EXPIRED = (''auth-expired'', ''authentication renewal required'', ''renew authentication with the approved provider tool, then rerun qualification'')"
| "provider_recovery_guidance AUTH_REJECTED = (''auth-rejected'', ''authentication was rejected'', ''verify the approved account and authorization, then rerun qualification'')"
| "provider_recovery_guidance RATE_LIMITED = (''rate-limited'', ''provider rate limit is active'', ''wait for the provider limit to clear, then rerun qualification'')"
| "provider_recovery_guidance QUOTA_LIMITED = (''quota-limited'', ''provider quota is exhausted'', ''restore provider quota through the approved account process, then rerun qualification'')"
| "provider_recovery_guidance QUOTA_OR_RATE_LIMIT = (''quota-or-rate-limit'', ''provider capacity is unavailable'', ''check provider quota or rate-limit status, then rerun qualification'')"
| "provider_recovery_guidance MODEL_UNAVAILABLE = (''model-unavailable'', ''the requested model is unavailable'', ''make the requested model available; do not select a fallback model'')"
| "provider_recovery_guidance UNSUPPORTED_CAPABILITY = (''unsupported-capability'', ''the requested model capability is unavailable'', ''enable the exact requested capability; do not change model or reasoning settings'')"
| "provider_recovery_guidance SDK_INCOMPATIBLE = (''sdk-incompatible'', ''the configured runtime version is incompatible'', ''install the approved runtime version, then rerun qualification'')"
| "provider_recovery_guidance SANDBOX_OR_APPROVAL_DENIED = (''sandbox-or-approval-denied'', ''provider qualification was denied'', ''obtain the required approval or sandbox access, then rerun qualification'')"
| "provider_recovery_guidance PROVIDER_OUTAGE = (''provider-outage'', ''the provider is unavailable'', ''wait for provider recovery, then rerun qualification'')"
| "provider_recovery_guidance TRANSPORT_OR_PROVIDER_OUTAGE = (''transport-or-provider-outage'', ''provider transport is unavailable'', ''check provider availability, then rerun qualification'')"
| "provider_recovery_guidance MALFORMED_RESPONSE = (''malformed-response'', ''the qualification response was invalid'', ''rerun qualification; if it repeats, contact the provider operator'')"
| "provider_recovery_guidance CODEX_UNKNOWN = (''unknown'', ''provider qualification is unavailable'', ''rerun qualification; do not dispatch until a typed ready result exists'')"

definition newline :: string where
  "newline = [CHR 0x0A]"

definition render_health_diagnostic :: "health_observation \<Rightarrow> string" where
  "render_health_diagnostic h = ''codex provider health'' @ newline @ ''role: '' @ attempt_role_value (ho_role h) @ newline @
     (case ho_failure h of
        None \<Rightarrow> ''state: ready'' @ newline @ ''detail: qualification ready'' @ newline @ ''operator action: none'' @ newline @ ''result: ready'' @ newline
      | Some f \<Rightarrow> (case provider_recovery_guidance f of (classification, detail, action) \<Rightarrow>
          ''state: blocked'' @ newline @ ''classification: '' @ classification @ newline @ ''detail: '' @ detail @ newline
          @ ''operator action: '' @ action @ newline @ ''result: blocked'' @ newline))"

section \<open>Runs\<close>

lemma of_result_split: "of_result m = ([], case m of Inl e \<Rightarrow> Raised e | Inr x \<Rightarrow> Done x)"
  by (cases m) simp_all

lemma fst_attempt_run:
  "fst (attempt_run r a e k) = fst r @ (case snd r of Done x \<Rightarrow> fst (k x) | Adapter f \<Rightarrow> fst (a f) | Raised x \<Rightarrow> fst (e x))"
  by (simp add: attempt_run_def split: outcome.split)

lemma snd_attempt_run:
  "snd (attempt_run r a e k) = (case snd r of Done x \<Rightarrow> snd (k x) | Adapter f \<Rightarrow> snd (a f) | Raised x \<Rightarrow> snd (e x))"
  by (simp add: attempt_run_def split: outcome.split)

lemmas run_simps = bind_run_def replace_error_def of_result_split fst_attempt_run snd_attempt_run

lemma bind_run_start [simp]: "bind_run ([], Done x) k = k x" "bind_run ([], Raised e) k = ([], Raised e)"
  by (simp_all add: bind_run_def attempt_run_def)



lemma of_result_trace [simp]: "fst (of_result m) = []"
  by (cases m) auto

lemma replace_error_Done [simp]: "snd (replace_error e r) = Done x \<longleftrightarrow> snd r = Done x"
  by (auto simp: run_simps split: outcome.split)

lemma ask_Done [simp]: "snd (ask ev r) = Done x \<longleftrightarrow> (r = OtherValue \<and> x = None \<or> (\<exists>y. r = Reply y \<and> x = Some y))"
  by (cases r) auto

lemma ask_trace [simp]: "fst (ask ev r) = [ev]"
  by (cases r) auto

section \<open>The gate\<close>

definition gate_open :: "qualification_control \<Rightarrow> candidate_binding \<Rightarrow> int \<Rightarrow> bool" where
  "gate_open control binding now \<longleftrightarrow> qc_binding control = binding \<and> qc_now control = now \<and>
     (\<exists>d. evaluate_dependency_preflight (Some binding) (Some (xc_policy (qc_dependency_control control)))
        (Records (map Some (xc_observations (qc_dependency_control control)))) (Some S_PROVIDER_QUALIFICATION) (Some now)
        (ta_previous_policy (xc_admission (qc_dependency_control control))) (Some (xc_admission (qc_dependency_control control))) = Inr d
      \<and> dd_outcome d = Outcome_PASS)"

lemma authorize_control_iff: "authorize_control binding control now = Inr () \<longleftrightarrow> gate_open control binding now"
proof -
  have "require_provider_stage c binding now = Inr () \<longleftrightarrow> control_require c (Some binding) (Some S_PROVIDER_QUALIFICATION) (Some now) = Inr ()" for c
    by (auto simp: require_provider_stage_def split: sum.split py_error.split)
  then show ?thesis unfolding authorize_control_def gate_open_def by (auto simp: control_require_iff)
qed

lemma closed_gate: "\<not> gate_open control binding now \<Longrightarrow> \<exists>e. authorize_control binding control now = Inl e"
  by (cases "authorize_control binding control now") (auto simp: authorize_control_iff [symmetric])

lemma isolation_trace:
  "fst (credential_isolation sv role binding control now) \<noteq> [] \<longleftrightarrow> gate_open control binding now"
proof (cases "gate_open control binding now")
  case True
  then have "authorize_control binding control now = Inr ()" by (simp add: authorize_control_iff)
  with True show ?thesis by (simp add: credential_isolation_def Let_def run_simps)
next
  case False
  with closed_gate obtain e where "authorize_control binding control now = Inl e" by blast
  with False show ?thesis by (simp add: credential_isolation_def Let_def run_simps)
qed

definition sound_parameters :: "int \<Rightarrow> int \<Rightarrow> bool" where
  "sound_parameters freshness max_attempts \<longleftrightarrow> 1 \<le> freshness \<and> 1 \<le> max_attempts \<and> max_attempts \<le> 3"

text \<open>Past the gate with sound parameters, qualification is what follows the isolation evidence.\<close>

definition qualify_isolated :: "health_contract \<Rightarrow> credential_services \<Rightarrow> attempt_role \<Rightarrow> provider_profile \<Rightarrow> candidate_binding \<Rightarrow> qualification_control
    \<Rightarrow> int \<Rightarrow> int \<Rightarrow> bool \<Rightarrow> int \<Rightarrow> health_cache \<Rightarrow> isolation_evidence \<Rightarrow> (health_observation \<times> health_cache) run" where
  "qualify_isolated hc sv role profile binding control freshness max_attempts force_refresh now cache isolation =
     (let fresh = refresh hc sv role profile (profile_fingerprint profile) (contract_fingerprint hc) isolation now freshness max_attempts binding control cache
      in if force_refresh then fresh
         else bind_run (of_result (cache_get cache role (profile_fingerprint profile) (contract_fingerprint hc) now)) (\<lambda>cached.
           case cached of Some h \<Rightarrow> ([], Done (h, cache)) | None \<Rightarrow> fresh))"

lemma qualify_gated:
  assumes "gate_open control binding now" "sound_parameters freshness max_attempts"
  shows "qualify hc sv role profile binding control freshness max_attempts force_refresh now cache =
    (let blocked_by = (\<lambda>f. record_health role (profile_fingerprint profile) (contract_fingerprint hc) unknown_runtime_fingerprint (Some f) now freshness 1 cache)
     in attempt_run (credential_isolation sv role binding control now) blocked_by
          (\<lambda>e. case e of ProviderHealthError m \<Rightarrow> blocked_by MALFORMED_RESPONSE | _ \<Rightarrow> ([], Raised e))
          (qualify_isolated hc sv role profile binding control freshness max_attempts force_refresh now cache))"
proof -
  have "authorize_control binding control now = Inr ()" using assms(1) by (simp add: authorize_control_iff)
  moreover have "\<not> freshness < 1" "1 \<le> max_attempts \<and> max_attempts \<le> 3" using assms(2) by (simp_all add: sound_parameters_def)
  ultimately show ?thesis unfolding qualify_def qualify_isolated_def Let_def
    by (simp only: of_result.simps bind_run_start if_False if_True simp_thms)
qed

lemma qualify_refused:
  assumes "\<not> (gate_open control binding now \<and> sound_parameters freshness max_attempts)"
  shows "\<exists>e. qualify hc sv role profile binding control freshness max_attempts force_refresh now cache = ([], Raised e)"
proof (cases "gate_open control binding now")
  case True
  then have "authorize_control binding control now = Inr ()" by (simp add: authorize_control_iff)
  moreover have "freshness < 1 \<or> (1 \<le> max_attempts \<and> max_attempts \<le> 3) = False"
    using assms True by (simp add: sound_parameters_def) arith
  ultimately show ?thesis unfolding qualify_def
    by (elim disjE) (simp_all only: of_result.simps bind_run_start if_True if_False simp_thms split: if_split, blast+)
next
  case False
  with closed_gate obtain e where "authorize_control binding control now = Inl e" by blast
  then show ?thesis unfolding qualify_def by (simp only: of_result.simps bind_run_start) blast
qed

lemma qualify_trace:
  "fst (qualify hc sv role profile binding control freshness max_attempts force_refresh now cache) \<noteq> [] \<longleftrightarrow>
     gate_open control binding now \<and> sound_parameters freshness max_attempts"
proof (cases "gate_open control binding now \<and> sound_parameters freshness max_attempts")
  case True
  with isolation_trace [of sv role binding control now] show ?thesis
    by (simp add: qualify_gated Let_def fst_attempt_run)
next
  case False
  with qualify_refused [OF False, of hc sv role profile force_refresh cache] show ?thesis by auto
qed

section \<open>What a ready observation rests on\<close>

lemma record_health_Done:
  assumes "is_digest profile" "is_digest contract" "is_digest runtime" "1 \<le> freshness" "1 \<le> attempts" "attempts \<le> 3"
  shows "record_health role profile contract runtime failure now freshness attempts cache =
    (let h = \<lparr>ho_role = role, ho_profile_identity = profile, ho_contract_identity = contract, ho_runtime_fingerprint = runtime,
       ho_state = (if failure = None then Health_READY else Health_BLOCKED), ho_failure = failure, ho_observed_at = now,
       ho_fresh_until = now + freshness, ho_attempts = attempts\<rparr>
     in ([], Done (h, cache_put h cache)))"
  using assms by (simp add: record_health_def make_health_observation_def health_observation_guards_def construct_ok Let_def)


lemma record_health_trace [simp]: "fst (record_health role profile contract runtime failure now freshness attempts cache) = []"
  by (simp add: record_health_def)

lemma identity_digests [simp]:
  "is_digest (profile_fingerprint p)" "is_digest (contract_fingerprint c)" "is_digest (audit_fingerprint a)" "is_digest unknown_runtime_fingerprint"
  by (simp_all add: profile_fingerprint_def contract_fingerprint_def audit_fingerprint_def unknown_runtime_fingerprint_def)



text \<open>The loop asks the same question until a probe is available or fails for good.\<close>

lemma probe_loop_trace:
  assumes "probe_loop replies request left n failure = (es, r, m)"
  shows "es = replicate (m - n) (Probe request) \<and> n \<le> m \<and> m \<le> n + left \<and> (0 < left \<longrightarrow> n < m)"
  using assms
proof (induction left arbitrary: n failure es)
  case (Suc left)
  show ?case
  proof (cases "\<exists>f. probe_result (replies (Suc n)) = Inr f \<and> retryable f")
    case True
    with Suc.prems obtain f es' where "probe_loop replies request left (Suc n) f = (es', r, m)" "es = Probe request # es'"
      by (auto split: prod.split_asm)
    with Suc.IH [of "Suc n" f es'] show ?thesis by (auto simp: replicate_Suc [symmetric] Suc_diff_le simp del: replicate_Suc)
  qed (use Suc.prems in \<open>auto split: sum.split_asm if_split_asm\<close>)
qed simp



lemma effort_safe: "is_safe_identifier (effort_value e)"
  by (cases e) (simp_all add: is_safe_identifier_def is_alnum_def is_lower_def less_eq_char_def)

text \<open>A ready verdict leaves a refresh only through the last branch.\<close>

definition ready_observation :: "health_contract \<Rightarrow> attempt_role \<Rightarrow> provider_profile \<Rightarrow> runtime_audit \<Rightarrow> int \<Rightarrow> int \<Rightarrow> nat \<Rightarrow> health_observation" where
  "ready_observation hc role profile a now freshness k = \<lparr>ho_role = role, ho_profile_identity = profile_fingerprint profile,
     ho_contract_identity = contract_fingerprint hc, ho_runtime_fingerprint = audit_fingerprint a, ho_state = Health_READY, ho_failure = None,
     ho_observed_at = now, ho_fresh_until = now + freshness, ho_attempts = int k\<rparr>"


definition refresh_probed :: "health_contract \<Rightarrow> credential_services \<Rightarrow> attempt_role \<Rightarrow> provider_profile \<Rightarrow> runtime_audit \<Rightarrow> int \<Rightarrow> int \<Rightarrow> int
    \<Rightarrow> health_cache \<Rightarrow> (health_observation \<times> health_cache) run" where
  "refresh_probed hc sv role profile a now freshness max_attempts cache =
     bind_run (of_result (make_request \<lparr>qr_role = role, qr_model = pp_model profile, qr_effort = effort_value (pp_effort profile)\<rparr>)) (\<lambda>request.
       case probe_loop (cs_probe sv) request (nat max_attempts) 0 None of (es, failure, attempts) \<Rightarrow>
         bind_run (es, Done ()) (\<lambda>_. record_health role (profile_fingerprint profile) (contract_fingerprint hc) (audit_fingerprint a) failure now freshness (int attempts) cache))"



definition isolation_proven :: "credential_services \<Rightarrow> attempt_role \<Rightarrow> isolation_evidence \<Rightarrow> bool" where
  "isolation_proven sv role e \<longleftrightarrow> cs_store_identity sv = Reply (ci_store (ie_identity e)) \<and> cs_isolation sv = Reply e
     \<and> is_digest (ci_store (ie_identity e)) \<and> ie_role e = role \<and> ci_role (ie_identity e) = role"




section \<open>Bounded, content-free probing\<close>

fun is_probe :: "health_event \<Rightarrow> bool" where
  "is_probe (Probe r) = True"
| "is_probe ev = False"

definition probes :: "health_event list \<Rightarrow> health_event list" where
  "probes es = filter is_probe es"

lemma probes_append [simp]: "probes (xs @ ys) = probes xs @ probes ys"
  by (simp add: probes_def)

lemma probes_Nil [simp]: "probes [] = []"
  by (simp add: probes_def)

lemma isolation_no_probe [simp]: "probes (fst (credential_isolation sv role binding control now)) = []"
  by (auto simp: credential_isolation_def Let_def run_simps probes_def split: outcome.split sum.split option.split)

lemma open_no_probe [simp]: "probes (fst (open_bound_channel sv role isolation)) = []"
  by (auto simp: open_bound_channel_def run_simps probes_def split: outcome.split sum.split option.split)

lemma audit_no_probe [simp]: "probes (fst (audit_runtime_under_control sv binding control now)) = []"
  by (auto simp: audit_runtime_under_control_def run_simps probes_def split: outcome.split sum.split)

definition probe_request :: "attempt_role \<Rightarrow> provider_profile \<Rightarrow> qualification_request" where
  "probe_request role profile = \<lparr>qr_role = role, qr_model = pp_model profile, qr_effort = effort_value (pp_effort profile)\<rparr>"

definition bounded_probes :: "attempt_role \<Rightarrow> provider_profile \<Rightarrow> int \<Rightarrow> health_event list \<Rightarrow> bool" where
  "bounded_probes role profile limit es \<longleftrightarrow> (\<exists>n. int n \<le> limit \<and> probes es = replicate n (Probe (probe_request role profile)))"

lemma no_probes: "0 \<le> limit \<Longrightarrow> probes es = [] \<Longrightarrow> bounded_probes role profile limit es"
  unfolding bounded_probes_def by (intro exI [of _ 0]) simp

lemma refresh_probed_probes:
  assumes "0 \<le> max_attempts"
  shows "bounded_probes role profile max_attempts (fst (refresh_probed hc sv role profile a now freshness max_attempts cache))"
proof -
  obtain es failure attempts where loop: "probe_loop (cs_probe sv) (probe_request role profile) (nat max_attempts) 0 None = (es, failure, attempts)"
    by (metis prod_cases3)
  have "probes es = replicate attempts (Probe (probe_request role profile))" "int attempts \<le> max_attempts"
    using probe_loop_trace [OF loop] assms by (auto simp: probes_def)
  then have es: "bounded_probes role profile max_attempts es" unfolding bounded_probes_def by blast
  have "fst (refresh_probed hc sv role profile a now freshness max_attempts cache) = (if is_safe_identifier (pp_model profile) then es else [])"
    unfolding refresh_probed_def probe_request_def [symmetric]
    by (simp add: make_request_def construct_def effort_safe loop run_simps) (simp add: probe_request_def effort_safe)
  with es assms show ?thesis by (simp add: no_probes)
qed

lemma refresh_probes:
  assumes "0 \<le> max_attempts"
  shows "bounded_probes role profile max_attempts (fst (refresh hc sv role profile (profile_fingerprint profile) (contract_fingerprint hc) isolation now freshness max_attempts binding control cache))"
proof -
  have prefix: "bounded_probes role profile limit (xs @ ys) = bounded_probes role profile limit ys" if "probes xs = []" for limit xs ys
    using that by (simp add: bounded_probes_def)
  show ?thesis
    using assms refresh_probed_probes [OF assms]
    by (auto simp: refresh_def Let_def run_simps prefix no_probes refresh_probed_def [symmetric, unfolded run_simps] split: outcome.split sum.split option.split)
qed

lemma qualify_probes:
  "bounded_probes role profile (if sound_parameters freshness max_attempts then max_attempts else 0)
     (fst (qualify hc sv role profile binding control freshness max_attempts force_refresh now cache))"
proof (cases "gate_open control binding now \<and> sound_parameters freshness max_attempts")
  case True
  then have limit: "0 \<le> max_attempts" by (simp add: sound_parameters_def)
  have prefix: "bounded_probes role profile limit (xs @ ys) = bounded_probes role profile limit ys" if "probes xs = []" for limit xs ys
    using that by (simp add: bounded_probes_def)
  have "bounded_probes role profile max_attempts (fst (qualify_isolated hc sv role profile binding control freshness max_attempts force_refresh now cache e))" for e
    using limit by (auto simp: qualify_isolated_def Let_def run_simps no_probes refresh_probes split: sum.split option.split)
  with True limit show ?thesis
    by (auto simp: qualify_gated Let_def fst_attempt_run prefix no_probes split: outcome.split py_error.split)
next
  case False
  with qualify_refused [OF False, of hc sv role profile force_refresh cache] show ?thesis
    by (auto simp: sound_parameters_def intro!: no_probes)
qed

lemma qualify_all_probes:
  assumes "sound_parameters freshness max_attempts"
  shows "int (length (probes (fst (qualify_all hc sv n selected binding control freshness max_attempts force_refresh now cache))))
    \<le> max_attempts * int (length selected)"
  using assms
proof (induction hc sv n selected binding control freshness max_attempts force_refresh now cache rule: qualify_all.induct)
  case (2 hc sv n role profile rest binding control freshness max_attempts force_refresh now cache)
  let ?r = "qualify hc (sv n) role profile binding control freshness max_attempts force_refresh now cache"
  have first: "int (length (probes (fst ?r))) \<le> max_attempts"
    using qualify_probes [of role profile freshness max_attempts hc "sv n" binding control force_refresh now cache] "2.prems"
    by (auto simp: bounded_probes_def)
  have pos: "0 \<le> max_attempts" using "2.prems" by (simp add: sound_parameters_def)
  show ?case
  proof (cases "snd ?r")
    case (Done x)
    obtain h cache' where x: "x = (h, cache')" by (cases x)
    from "2.IH" [of cache'] "2.prems" have
      "int (length (probes (fst (qualify_all hc sv (Suc n) rest binding control freshness max_attempts force_refresh now cache')))) \<le> max_attempts * int (length rest)"
      by simp
    with first Done x show ?thesis
      by (auto simp: bind_run_def fst_attempt_run distrib_left split: outcome.split)
  qed (use first pos in \<open>auto simp: bind_run_def fst_attempt_run distrib_left intro: add_increasing2\<close>)
qed simp

lemma qualify_all_trace:
  "selected \<noteq> [] \<Longrightarrow> fst (qualify_all hc sv n selected binding control freshness max_attempts force_refresh now cache) \<noteq> [] \<longleftrightarrow>
     gate_open control binding now \<and> sound_parameters freshness max_attempts"
proof -
  assume "selected \<noteq> []"
  then obtain role profile rest where sel: "selected = (role, profile) # rest" by (metis list.exhaust prod.exhaust)
  show ?thesis
  proof (cases "gate_open control binding now \<and> sound_parameters freshness max_attempts")
    case True
    then show ?thesis
      using qualify_trace [of hc "sv n" role profile binding control freshness max_attempts force_refresh now cache] unfolding sel
      by (simp add: bind_run_def fst_attempt_run)
  next
    case False
    with qualify_refused [OF False, of hc "sv n" role profile force_refresh cache] show ?thesis unfolding sel by auto
  qed
qed

lemma length_selected [simp]:
  "length (required_provider_selections b) = 2 + length (supervisor_profile_identities b)"
  by (simp add: required_provider_selections_def number_from_zero_def)

lemma pinned_supervisors: "pinned_runtime_binding c = Inr pin \<Longrightarrow> supervisor_profile_identities pin = map profile_fingerprint (pc_supervisors c)
    \<and> worker_profile_identity pin = profile_fingerprint (pc_worker c)"
  by (auto simp: pinned_runtime_binding_def bind_result_Inr_iff make_runtime_binding_def)

lemma length_selected_profiles: "pinned_runtime_binding c = Inr pin \<Longrightarrow> length (selected_profiles c pin) = 2 + length (pc_supervisors c)"
  using pinned_supervisors [of c pin] by (simp add: selected_profiles_def)

lemma configuration_refused:
  "\<not> gate_open control binding now \<Longrightarrow> \<exists>e. qualify_configuration hc sv c binding control freshness max_attempts force_refresh now cache = ([], Raised e)"
  using closed_gate [of control binding now] by (auto simp: qualify_configuration_def)

lemma configuration_gated:
  assumes "gate_open control binding now"
  shows "fst (qualify_configuration hc sv c binding control freshness max_attempts force_refresh now cache) =
    (case pinned_runtime_binding c of Inl e \<Rightarrow> [] | Inr pin \<Rightarrow>
       fst (qualify_all hc sv 0 (selected_profiles c pin) binding control freshness max_attempts force_refresh now cache))"
proof -
  have "authorize_control binding control now = Inr ()" using assms by (simp add: authorize_control_iff)
  then show ?thesis
    by (auto simp: qualify_configuration_def Let_def bind_run_def fst_attempt_run of_result_split split: sum.split outcome.split)
qed

lemma audit_trace: "fst (audit_runtime sv role binding control now) \<noteq> [] \<longleftrightarrow> gate_open control binding now"
proof (cases "gate_open control binding now")
  case True
  then have "authorize_control binding control now = Inr ()" by (simp add: authorize_control_iff)
  with True isolation_trace [of sv role binding control now] show ?thesis
    by (simp add: audit_runtime_def Let_def bind_run_def fst_attempt_run)
next
  case False
  with closed_gate obtain e where "authorize_control binding control now = Inl e" by blast
  with False show ?thesis by (simp add: audit_runtime_def Let_def)
qed

lemma configuration_trace:
  "fst (qualify_configuration hc svs c binding control freshness max_attempts force_refresh now cache) \<noteq> [] \<longleftrightarrow>
     gate_open control binding now \<and> sound_parameters freshness max_attempts \<and> (\<exists>pin. pinned_runtime_binding c = Inr pin)"
proof -
  have "selected_profiles c pin \<noteq> []" if "pinned_runtime_binding c = Inr pin" for pin
    using length_selected_profiles [OF that] by auto
  then show ?thesis
    using configuration_refused [of control binding now hc svs c freshness max_attempts force_refresh cache] qualify_all_trace
    by (cases "gate_open control binding now") (auto simp: configuration_gated split: sum.split)
qed

lemma configuration_probes:
  "length (probes (fst (qualify_configuration hc svs c binding control freshness max_attempts force_refresh now cache)))
     \<le> nat (min 3 max_attempts) * (2 + length (pc_supervisors c))" (is "length (probes (fst ?q)) \<le> _")
proof (cases "fst ?q = []")
  case False
  with configuration_trace [of hc svs c binding control freshness max_attempts force_refresh now cache] obtain pin
    where gate: "gate_open control binding now" and sound: "sound_parameters freshness max_attempts" and pin: "pinned_runtime_binding c = Inr pin"
    by blast
  have trace: "fst ?q = fst (qualify_all hc svs 0 (selected_profiles c pin) binding control freshness max_attempts force_refresh now cache)"
    using gate pin by (simp add: configuration_gated)
  have "nat (min 3 max_attempts) = nat max_attempts" "0 \<le> max_attempts" using sound by (simp_all add: sound_parameters_def)
  then have "int (nat (min 3 max_attempts) * (2 + length (pc_supervisors c))) = max_attempts * int (length (selected_profiles c pin))"
    using length_selected_profiles [OF pin] by (simp add: distrib_left)
  with qualify_all_probes [OF sound, of hc svs 0 "selected_profiles c pin" binding control force_refresh now cache] show ?thesis
    unfolding trace by linarith
qed simp

text \<open>
  C40 (services_called_only_past_gate). No call reaches the credential store or a channel unless the control is bound to
  this candidate and instant and the sealed dependency preflight passes for the provider stage at that
  instant; past the gate each entry point does call, provided the retry and freshness parameters are in
  their bounds and, for a whole configuration, its pin exists.
\<close>

theorem services_called_only_past_gate:
  "(fst (credential_isolation sv role binding control now) \<noteq> [] \<longleftrightarrow> gate_open control binding now) \<and>
   (fst (audit_runtime sv role binding control now) \<noteq> [] \<longleftrightarrow> gate_open control binding now) \<and>
   (fst (qualify hc sv role profile binding control freshness max_attempts force_refresh now cache) \<noteq> [] \<longleftrightarrow>
     gate_open control binding now \<and> sound_parameters freshness max_attempts) \<and>
   (fst (qualify_configuration hc svs c binding control freshness max_attempts force_refresh now cache) \<noteq> [] \<longleftrightarrow>
     gate_open control binding now \<and> sound_parameters freshness max_attempts \<and> (\<exists>pin. pinned_runtime_binding c = Inr pin))"
  by (intro conjI isolation_trace audit_trace qualify_trace configuration_trace)

text \<open>
  Qualifying a configuration sends at most \<open>max_attempts\<close>, never more than three, probes for
  each of its selections (planning, worker and every supervisor profile), whatever the services answer;
  each qualification repeats one request that names only the role, the model and the effort.
\<close>

lemma configuration_probes_bounded:
  "bounded_probes role profile (if sound_parameters freshness max_attempts then max_attempts else 0)
     (fst (qualify hc sv role profile binding control freshness max_attempts force_refresh now cache)) \<and>
   length (probes (fst (qualify_configuration hc svs c binding control freshness max_attempts force_refresh now cache)))
     \<le> nat (min 3 max_attempts) * (2 + length (pc_supervisors c))"
  by (intro conjI qualify_probes configuration_probes)

section \<open>Every selection is reported\<close>

text \<open>The cache holds each observation under its own identities.\<close>

definition cache_ok :: "health_cache \<Rightarrow> bool" where
  "cache_ok cache \<longleftrightarrow> (\<forall>key h. cache key = Some h \<longrightarrow> key = (ho_role h, ho_profile_identity h, ho_contract_identity h))"

text \<open>What the constructors of a runtime audit and its capabilities guarantee.\<close>

definition audit_ok :: "runtime_audit \<Rightarrow> bool" where
  "audit_ok a \<longleftrightarrow> list_all fst (runtime_audit_guards a) \<and> list_all (\<lambda>c. make_capability c = Inr c) (ra_capabilities a)"

definition services_ok :: "credential_services \<Rightarrow> bool" where
  "services_ok sv \<longleftrightarrow> (case cs_audit sv of Reply a \<Rightarrow> audit_ok a | _ \<Rightarrow> True)"

definition observed :: "health_contract \<Rightarrow> attempt_role \<Rightarrow> provider_profile \<Rightarrow> health_observation \<Rightarrow> bool" where
  "observed hc role profile h \<longleftrightarrow> ho_role h = role \<and> ho_profile_identity h = profile_fingerprint profile \<and> ho_contract_identity h = contract_fingerprint hc"

definition reported :: "health_contract \<Rightarrow> attempt_role \<Rightarrow> provider_profile \<Rightarrow> (health_observation \<times> health_cache) outcome \<Rightarrow> bool" where
  "reported hc role profile r \<longleftrightarrow> (\<exists>h cache. r = Done (h, cache) \<and> observed hc role profile h \<and> cache_ok cache)"

lemma cache_put_ok: "cache_ok cache \<Longrightarrow> cache_ok (cache_put h cache)"
  by (simp add: cache_ok_def cache_put_def)

lemma record_reported:
  assumes "cache_ok cache" "is_digest runtime" "1 \<le> freshness" "1 \<le> attempts" "attempts \<le> 3"
  shows "reported hc role profile (snd (record_health role (profile_fingerprint profile) (contract_fingerprint hc) runtime failure now freshness attempts cache))"
  using assms by (simp add: record_health_Done Let_def reported_def observed_def cache_put_ok)

lemma refresh_probed_reported:
  assumes "cache_ok cache" "sound_parameters freshness max_attempts" "is_safe_identifier (pp_model profile)"
  shows "reported hc role profile (snd (refresh_probed hc sv role profile a now freshness max_attempts cache))"
proof -
  obtain es failure attempts where loop: "probe_loop (cs_probe sv) (probe_request role profile) (nat max_attempts) 0 None = (es, failure, attempts)"
    by (metis prod_cases3)
  have bounds: "1 \<le> int attempts" "int attempts \<le> 3" "1 \<le> freshness"
    using probe_loop_trace [OF loop] assms(2) by (auto simp: sound_parameters_def)
  have "make_request (probe_request role profile) = Inr (probe_request role profile)"
    using assms(3) by (simp add: make_request_def probe_request_def effort_safe)
  then have "snd (refresh_probed hc sv role profile a now freshness max_attempts cache) =
      snd (record_health role (profile_fingerprint profile) (contract_fingerprint hc) (audit_fingerprint a) failure now freshness (int attempts) cache)"
    unfolding refresh_probed_def probe_request_def [symmetric] by (simp add: loop bind_run_def snd_attempt_run)
  with record_reported [OF assms(1) _ bounds(3,1,2)] show ?thesis by simp
qed

lemma supported_model_safe: "audit_ok a \<Longrightarrow> audit_supports a profile \<Longrightarrow> is_safe_identifier (pp_model profile)"
  by (auto simp: audit_ok_def audit_supports_def list_all_iff make_capability_def)

lemma refresh_reported:
  assumes "cache_ok cache" "gate_open control binding now" "sound_parameters freshness max_attempts" "services_ok sv"
  shows "reported hc role profile (snd (refresh hc sv role profile (profile_fingerprint profile) (contract_fingerprint hc) isolation now freshness
    max_attempts binding control cache))"
proof -
  have ok: "authorize_control binding control now = Inr ()" using assms(2) by (simp add: authorize_control_iff)
  have blocked: "reported hc role profile (snd (record_health role (profile_fingerprint profile) (contract_fingerprint hc) runtime (Some f) now freshness 1 cache))"
    if "is_digest runtime" for runtime f using assms(1,3) that by (intro record_reported) (simp_all add: sound_parameters_def)
  have probed: "reported hc role profile (snd (refresh_probed hc sv role profile a now freshness max_attempts cache))"
    if "cs_audit sv = Reply a" "audit_supports a profile" for a
    using that assms supported_model_safe by (intro refresh_probed_reported) (auto simp: services_ok_def)
  show ?thesis
    unfolding refresh_def Let_def ok of_result.simps bind_run_start snd_attempt_run audit_runtime_under_control_def refresh_probed_def [symmetric]
    by (cases "cs_audit sv") (auto simp: blocked probed split: outcome.split)
qed

lemma qualify_reported:
  assumes "cache_ok cache" "gate_open control binding now" "sound_parameters freshness max_attempts" "services_ok sv"
  shows "reported hc role profile (snd (qualify hc sv role profile binding control freshness max_attempts force_refresh now cache))"
proof -
  have blocked: "reported hc role profile (snd (record_health role (profile_fingerprint profile) (contract_fingerprint hc) unknown_runtime_fingerprint (Some f) now freshness 1 cache))"
    for f using assms(1,3) by (intro record_reported) (simp_all add: sound_parameters_def)
  have cached: "reported hc role profile (Done (h, cache))" if "cache (role, profile_fingerprint profile, contract_fingerprint hc) = Some h" for h
    using that assms(1) by (auto simp: reported_def observed_def cache_ok_def)
  have isolated: "reported hc role profile (snd (qualify_isolated hc sv role profile binding control freshness max_attempts force_refresh now cache e))" for e
    using refresh_reported [OF assms] cached
    by (auto simp: qualify_isolated_def Let_def cache_get_def split: option.split)
  have errors: "\<exists>m. x = ProviderHealthError m" if "snd (credential_isolation sv role binding control now) = Raised x" for x
  proof -
    have "authorize_control binding control now = Inr ()" using assms(2) by (simp add: authorize_control_iff)
    with that show ?thesis
      by (auto simp: credential_isolation_def Let_def run_simps split: outcome.split_asm option.split_asm if_split_asm sum.split_asm)
  qed
  show ?thesis
    unfolding qualify_gated [OF assms(2,3)] Let_def snd_attempt_run
    using blocked isolated errors by (auto split: outcome.split)
qed

lemma qualify_all_reported:
  assumes "cache_ok cache" "gate_open control binding now" "sound_parameters freshness max_attempts" "\<And>i. services_ok (sv i)"
  shows "\<exists>hs cache'. snd (qualify_all hc sv n selected binding control freshness max_attempts force_refresh now cache) = Done (hs, cache')
    \<and> cache_ok cache' \<and> list_all2 (\<lambda>(role, profile) h. observed hc role profile h) selected hs"
  using assms(1)
proof (induction selected arbitrary: n cache)
  case (Cons sel rest)
  obtain role profile where sel: "sel = (role, profile)" by (cases sel)
  from qualify_reported [OF Cons.prems assms(2-4)] obtain h cache1 where
    first: "snd (qualify hc (sv n) role profile binding control freshness max_attempts force_refresh now cache) = Done (h, cache1)"
    "observed hc role profile h" "cache_ok cache1" unfolding reported_def by blast
  from Cons.IH [OF first(3), of "Suc n"] obtain hs cache2 where
    rest: "snd (qualify_all hc sv (Suc n) rest binding control freshness max_attempts force_refresh now cache1) = Done (hs, cache2)"
    "cache_ok cache2" "list_all2 (\<lambda>(role, profile) h. observed hc role profile h) rest hs" by blast
  show ?case
    using first rest unfolding sel by (intro exI [of _ "h # hs"] exI [of _ cache2]) (simp add: bind_run_def snd_attempt_run)
qed simp

lemma snd_number_from_zero [simp]: "map snd (number_from_zero xs) = xs"
  by (simp add: number_from_zero_def)

lemma selected_profiles_eq:
  assumes "pinned_runtime_binding c = Inr pin"
  shows "selected_profiles c pin = (P_PLANNING, pc_worker c) # (P_WORKER, pc_worker c) # map (\<lambda>p. (P_SUPERVISOR, p)) (pc_supervisors c)"
proof -
  let ?roles = "P_PLANNING # P_WORKER # map (\<lambda>_. P_SUPERVISOR) (pc_supervisors c)"
  let ?profiles = "pc_worker c # pc_worker c # pc_supervisors c"
  have roles: "map (fst \<circ> snd) (required_provider_selections pin) = ?roles"
    unfolding required_provider_selections_def map_map [symmetric] snd_number_from_zero
    using pinned_supervisors [OF assms] by (simp add: comp_def)
  have "selected_profiles c pin = map (\<lambda>(s, p). (fst (snd s), p)) (zip (required_provider_selections pin) ?profiles)"
    by (simp add: selected_profiles_def split_beta)
  also have "\<dots> = zip (map (fst \<circ> snd) (required_provider_selections pin)) ?profiles"
    by (simp add: zip_map1 comp_def split_beta)
  finally show ?thesis unfolding roles by (simp add: zip_map1 zip_same_conv_map)
qed

lemma selections_required:
  assumes "pinned_runtime_binding c = Inr pin"
  shows "number_from_zero (map (\<lambda>(role, profile). (role, profile_fingerprint profile)) (selected_profiles c pin)) = required_provider_selections pin"
  unfolding selected_profiles_eq [OF assms] required_provider_selections_def using pinned_supervisors [OF assms] by (simp add: comp_def)

lemma required_numbered:
  "list_all (\<lambda>(index, ordinal, role, profile). ordinal = index \<and> is_digest profile) (number_from_zero (required_provider_selections b)) \<longleftrightarrow>
     list_all is_digest (worker_profile_identity b # supervisor_profile_identities b)"
proof -
  let ?xs = "[(P_PLANNING, worker_profile_identity b), (P_WORKER, worker_profile_identity b)] @ map (\<lambda>p. (P_SUPERVISOR, p)) (supervisor_profile_identities b)"
  have "list_all (\<lambda>(index, ordinal, role, profile). ordinal = index \<and> is_digest profile) (number_from_zero (number_from_zero xs)) \<longleftrightarrow>
      list_all (is_digest \<circ> snd) xs" for xs :: "(attempt_role \<times> string) list"
    by (auto simp: number_from_zero_def list_all_length split_beta)
  from this [of ?xs] show ?thesis unfolding required_provider_selections_def by (auto simp: list_all_iff)
qed

lemma report_built:
  assumes "pinned_runtime_binding c = Inr pin" "list_all2 (\<lambda>(role, profile) h. observed hc role profile h) (selected_profiles c pin) hs"
  shows "report_ok \<lparr>qp_contract_identity = contract_fingerprint hc, qp_configuration = pin,
    qp_selections = required_provider_selections pin, qp_observations = hs\<rparr>"
proof -
  let ?sel = "selected_profiles c pin"
  have len: "length hs = length ?sel" "length ?sel = length (required_provider_selections pin)"
    using list_all2_lengthD [OF assms(2)] length_selected_profiles [OF assms(1)] pinned_supervisors [OF assms(1)] by simp_all
  have obs: "observed hc (fst (?sel ! i)) (snd (?sel ! i)) (hs ! i)" if "i < length hs" for i
    using assms(2) that by (auto simp: list_all2_conv_all_nth split_beta)
  have "map snd (required_provider_selections pin) = map (\<lambda>(role, profile). (role, profile_fingerprint profile)) ?sel"
    using arg_cong [OF selections_required [OF assms(1)], of "map snd"] by simp
  then have keys: "map (\<lambda>h. (ho_role h, ho_profile_identity h)) hs = map snd (required_provider_selections pin)"
    using len obs by (intro nth_equalityI) (auto simp: observed_def split_beta)
  have contract: "list_all (\<lambda>h. ho_contract_identity h = contract_fingerprint hc) hs"
    using obs by (auto simp: list_all_length observed_def)
  have digests: "list_all is_digest (worker_profile_identity pin # supervisor_profile_identities pin)"
    using pinned_supervisors [OF assms(1)] by (auto simp: list_all_iff)
  have "hs \<noteq> []" using len(1) length_selected_profiles [OF assms(1)] by auto
  with keys contract len digests [folded required_numbered] show ?thesis by (simp add: report_ok_def)
qed

text \<open>
  Qualifying a pinned configuration past the gate always ends with a report, however the
  services behave: the report lists planning, worker and every supervisor profile in dispatch order, each
  with an observation of exactly that role and profile under the contract, and the cache keeps every
  observation under its own identities. An unavailable profile is a blocked observation, never a missing
  one.
\<close>

lemma configuration_reports_every_selection:
  assumes "cache_ok cache" "\<And>i. services_ok (sv i)"
    and "gate_open control binding now" "sound_parameters freshness max_attempts" "pinned_runtime_binding c = Inr pin"
  shows "\<exists>report cache'. snd (qualify_configuration hc sv c binding control freshness max_attempts force_refresh now cache) = Done (report, cache')
    \<and> report_ok report \<and> qp_configuration report = pin \<and> qp_contract_identity report = contract_fingerprint hc \<and> cache_ok cache'"
proof -
  have ok: "authorize_control binding control now = Inr ()" using assms(3) by (simp add: authorize_control_iff)
  from qualify_all_reported [where sv = sv, OF assms(1,3,4,2)] obtain hs cache' where
    all: "snd (qualify_all hc sv 0 (selected_profiles c pin) binding control freshness max_attempts force_refresh now cache) = Done (hs, cache')"
    "cache_ok cache'" "list_all2 (\<lambda>(role, profile) h. observed hc role profile h) (selected_profiles c pin) hs" by blast
  show ?thesis
    using all report_built [OF assms(5) all(3)] unfolding qualify_configuration_def ok assms(5) of_result.simps bind_run_start Let_def selections_required [OF assms(5)]
    by (simp add: bind_run_def snd_attempt_run make_report_def construct_ok)
qed

section \<open>Evidence of an observation\<close>

text \<open>An observation that its constructor admits, and no other, reads back from its evidence.\<close>

lemma health_evidence_round_trip:
  "health_from_evidence (health_evidence h) = (if list_all fst (health_observation_guards h) then Inr h
     else Inl (ProviderHealthError ''provider health evidence is invalid''))"
proof -
  have role: "enum_of all_attempt_roles attempt_role_value (attempt_role_value r) = Some r" for r
    by (cases r) (simp_all add: enum_of_def all_attempt_roles_def)
  have state: "enum_of [Health_READY, Health_BLOCKED] health_state_value (health_state_value x) = Some x" for x
    by (cases x) (simp_all add: enum_of_def)
  have failure: "enum_of all_codex_failures codex_failure_value (codex_failure_value f) = Some f" for f
    by (cases f) (simp_all add: enum_of_def all_codex_failures_def)
  have keys: "has_keys health_evidence_keys (health_evidence h) = Some (health_evidence h)"
    by (auto simp: has_keys_def health_evidence_keys_def health_evidence_def)
  have "parse_health_observation (health_evidence h) = caught_result (make_health_observation h)"
    unfolding parse_health_observation_def keys
    by (cases h; cases "ho_failure h") (simp_all add: health_evidence_def role state failure)
  then show ?thesis
    by (cases "first_failure (health_observation_guards h)")
      (simp_all add: health_from_evidence_def make_health_observation_def construct_def del: first_failure_None_iff,
       simp_all flip: first_failure_None_iff)
qed

section \<open>Receipts\<close>

text \<open>What a receipt's digest commits to: everything but its own digest and the unrendered parts of the profile.\<close>

definition receipt_commitment where
  "receipt_commitment r = (hr_contract_commit r, hr_candidate_sha r, hr_case_id r, hr_selection_ordinal r, hr_configuration r, hr_role r,
     hr_profile_identity r, hr_observation r)"

lemma role_value_inj: "attempt_role_value a = attempt_role_value b \<Longrightarrow> a = b"
  by (cases a; cases b) simp_all

lemma failure_value_inj: "codex_failure_value a = codex_failure_value b \<Longrightarrow> a = b"
  by (cases a; cases b) simp_all

lemma state_value_inj: "health_state_value a = health_state_value b \<Longrightarrow> a = b"
  by (cases a; cases b) simp_all

lemma json_opt_inj [simp]: "json_opt a = json_opt b \<longleftrightarrow> a = b"
  by (cases a; cases b) simp_all

lemma canon_json_opt [simp]: "canon (json_opt a) = json_opt a"
  by (cases a) simp_all

lemma columns_json_inj: "canon (columns_json a) = canon (columns_json b) \<Longrightarrow> a = b"
proof -
  assume eq: "canon (columns_json a) = canon (columns_json b)"
  then have "json_dumps (JList (map JStr (supervisor_profile_identities a))) = json_dumps (JList (map JStr (supervisor_profile_identities b)))"
    by (simp add: columns_json_def complete_columns_def columns_def)
  then have "canon (JList (map JStr (supervisor_profile_identities a))) = canon (JList (map JStr (supervisor_profile_identities b)))"
    unfolding json_dumps_def by (rule render_inj)
  then have "supervisor_profile_identities a = supervisor_profile_identities b" by (simp add: comp_def)
  with eq show ?thesis by (cases a; cases b) (simp add: columns_json_def complete_columns_def columns_def)
qed

lemma health_evidence_inj: "canon (JObj (health_evidence a)) = canon (JObj (health_evidence b)) \<Longrightarrow> a = b"
proof -
  assume "canon (JObj (health_evidence a)) = canon (JObj (health_evidence b))"
  then have "map (canon \<circ> snd) (health_evidence a) = map (canon \<circ> snd) (health_evidence b)"
    by (rule canon_fields_inj [rotated 2]) (simp_all add: health_evidence_def)
  then show ?thesis
    by (cases a; cases b) (auto simp: health_evidence_def dest: role_value_inj state_value_inj failure_value_inj elim!: option.inj_map_strong [rotated])
qed

interpretation hrc: sealed_record "[''schema'', ''contract_commit'', ''candidate_sha'', ''case_id'', ''selection_ordinal'', ''configuration'', ''role'',
    ''profile_identity'', ''observation'', ''audit_identity'']" receipt_payload receipt_commitment "\<lambda>r. True"
  by unfold_locales (auto simp: receipt_payload_def receipt_commitment_def simp del: canon.simps(2) dest: role_value_inj columns_json_inj health_evidence_inj)

lemma authorize_dispatch_iff:
  "authorize_dispatch r binding role profile commit candidate case_id now = Inr () \<longleftrightarrow>
     is_sha commit \<and> (case candidate of None \<Rightarrow> True | Some c \<Rightarrow> is_sha c) \<and> is_safe_identifier case_id
     \<and> (hr_contract_commit r, hr_candidate_sha r, hr_case_id r, hr_role r, hr_profile_identity r) = (commit, candidate, case_id, role, profile)
     \<and> hr_configuration r = binding \<and> ho_state (hr_observation r) = Health_READY \<and> is_fresh_at (hr_observation r) now"
  by (auto simp: authorize_dispatch_def split: option.split)

lemma receipt_payload_digest [simp]: "receipt_payload (r\<lparr>hr_digest := d\<rparr>) = receipt_payload r"
  by (simp add: receipt_payload_def)

lemma make_receipt_sound:
  assumes "make_health_receipt r = Inr a"
  shows "a = r\<lparr>hr_digest := digest_value (JObj (receipt_payload a))\<rparr> \<and> receipt_ok a"
  using assms by (auto simp: make_health_receipt_def Let_def receipt_ok_def split: if_split_asm)

text \<open>
  Two health receipts with one digest authorize exactly the same dispatches at every
  instant, unless the canonical texts of the two are a SHA-256 collision.
\<close>

lemma receipt_digest_fixes_authority:
  assumes "make_health_receipt r = Inr a" "make_health_receipt s = Inr b" "hr_digest a = hr_digest b"
  shows "authorize_dispatch a binding role profile commit candidate case_id now = authorize_dispatch b binding role profile commit candidate case_id now
    \<or> sha_collision (json_dumps (JObj (receipt_payload a))) (json_dumps (JObj (receipt_payload b)))"
proof -
  have "digest_value (JObj (receipt_payload a)) = digest_value (JObj (receipt_payload b))"
    using make_receipt_sound [OF assms(1)] make_receipt_sound [OF assms(2)] assms(3) by (metis health_receipt.select_convs(11) health_receipt.surjective health_receipt.update_convs(11))
  then have "hex_digest (JObj (receipt_payload a)) = hex_digest (JObj (receipt_payload b))" by (simp add: digest_value_def)
  with hrc.digest_commits [of a b] show ?thesis
    by (auto simp: receipt_commitment_def authorize_dispatch_def)
qed

section \<open>The native registry keeps the roles apart\<close>

lemma role_cases: "role \<in> set all_attempt_roles"
  by (cases role) (simp_all add: all_attempt_roles_def)

lemma build_channels_sound:
  assumes "build_channels store channels roles used backends = Inr built"
  shows "map fst built = roles \<and> distinct (map (ci_channel \<circ> fst \<circ> snd) built) \<and> distinct (map (snd \<circ> snd) built)
    \<and> ci_channel ` fst ` snd ` set built \<inter> set used = {} \<and> snd ` snd ` set built \<inter> set backends = {}
    \<and> list_all (\<lambda>(role, c, b). c = \<lparr>ci_store = store, ci_role = role, ci_channel = ci_channel c, ci_denied_roles = other_roles role\<rparr>
         \<and> channels role = Some (ci_channel c, b)) built"
  using assms
proof (induction store channels roles used backends arbitrary: built rule: build_channels.induct)
  case (2 store channels role roles used backends)
  obtain channel backend where entry: "channels role = Some (channel, backend)"
    using "2.prems" by (auto split: option.split_asm)
  with "2.prems" obtain built' where fresh: "is_digest channel" "channel \<notin> set used" "backend \<notin> set backends"
    and built': "build_channels store channels roles (channel # used) (backend # backends) = Inr built'"
    and built: "built = (role, \<lparr>ci_store = store, ci_role = role, ci_channel = channel, ci_denied_roles = other_roles role\<rparr>, backend) # built'"
    by (auto simp: bind_result_Inr_iff make_credential_identity_def split: if_split_asm)
  from "2.IH" [OF entry _ _ built', simplified] fresh entry show ?case
    unfolding built by (fastforce simp: make_credential_identity_def image_iff)
qed simp

text \<open>The services that a registry offers for a role, with what its backends answer.\<close>

fun as_reply :: "'a result \<Rightarrow> 'a reply" where
  "as_reply (Inr x) = Reply x"
| "as_reply (Inl e) = OtherException"

definition native_services :: "native_store \<Rightarrow> attempt_role \<Rightarrow> (nat \<Rightarrow> runtime_audit reply) \<Rightarrow> (nat \<Rightarrow> nat \<Rightarrow> probe_outcome reply) \<Rightarrow> credential_services" where
  "native_services s role audits answers = (case native_open s role of
     Inl e \<Rightarrow> \<lparr>cs_store_identity = Reply (ns_identity s), cs_isolation = OtherException, cs_open = OtherException, cs_identity = OtherException,
       cs_audit = OtherException, cs_probe = (\<lambda>_. OtherException)\<rparr>
   | Inr (identity, backend) \<Rightarrow> \<lparr>cs_store_identity = Reply (ns_identity s), cs_isolation = as_reply (native_isolation s role), cs_open = Reply (),
       cs_identity = Reply identity, cs_audit = audits backend, cs_probe = answers backend\<rparr>)"

lemma native_open_entry:
  assumes "make_native_store store channels = Inr s"
  shows "\<exists>channel backend. channels role = Some (channel, backend)
    \<and> native_open s role = Inr (\<lparr>ci_store = store, ci_role = role, ci_channel = channel, ci_denied_roles = other_roles role\<rparr>, backend)
    \<and> (role, \<lparr>ci_store = store, ci_role = role, ci_channel = channel, ci_denied_roles = other_roles role\<rparr>, backend) \<in> set (ns_channels s)"
proof -
  from assms obtain built where built: "build_channels store channels all_attempt_roles [] [] = Inr built" and s: "s = \<lparr>ns_identity = store, ns_channels = built\<rparr>"
    by (auto simp: make_native_store_def bind_result_Inr_iff split: if_split_asm)
  note sound = build_channels_sound [OF built]
  have "role \<in> fst ` set built" using sound role_cases [of role] by (metis list.set_map)
  then obtain c b where entry: "(role, c, b) \<in> set built" by auto
  moreover have "distinct (map fst built)" using sound by (simp add: all_attempt_roles_def)
  moreover have "c = \<lparr>ci_store = store, ci_role = role, ci_channel = ci_channel c, ci_denied_roles = other_roles role\<rparr> \<and> channels role = Some (ci_channel c, b)"
    using sound entry by (auto simp: list_all_iff)
  ultimately show ?thesis unfolding s native_open_def
    by (intro exI [of _ "ci_channel c"] exI [of _ b]) (auto simp: map_of_eq_Some_iff)
qed

text \<open>
  A constructed native registry meets what qualification demands of a credential store for
  every role: it proves the isolation of the role's own channel and opens exactly that channel, and no
  other role ever gets that channel or the backend behind it.
\<close>

lemma native_channels_isolated:
  assumes "make_native_store store channels = Inr s"
  shows "\<exists>c b. native_open s role = Inr (c, b) \<and> isolation_proven (native_services s role audits answers) role (isolated role c)
    \<and> cs_open (native_services s role audits answers) = Reply () \<and> cs_identity (native_services s role audits answers) = Reply c
    \<and> (\<forall>other c' b'. other \<noteq> role \<longrightarrow> native_open s other = Inr (c', b') \<longrightarrow> ci_channel c' \<noteq> ci_channel c \<and> b' \<noteq> b)"
proof -
  from native_open_entry [OF assms, of role] obtain channel b where
    own: "native_open s role = Inr (\<lparr>ci_store = store, ci_role = role, ci_channel = channel, ci_denied_roles = other_roles role\<rparr>, b)"
    and mine: "(role, \<lparr>ci_store = store, ci_role = role, ci_channel = channel, ci_denied_roles = other_roles role\<rparr>, b) \<in> set (ns_channels s)" by blast
  let ?c = "\<lparr>ci_store = store, ci_role = role, ci_channel = channel, ci_denied_roles = other_roles role\<rparr>"
  from assms obtain built where built: "build_channels store channels all_attempt_roles [] [] = Inr built" and s: "s = \<lparr>ns_identity = store, ns_channels = built\<rparr>"
    and store: "is_digest store" by (auto simp: make_native_store_def bind_result_Inr_iff split: if_split_asm)
  note sound = build_channels_sound [OF built]
  have apart: "ci_channel c' \<noteq> channel \<and> b' \<noteq> b" if "other \<noteq> role" "native_open s other = Inr (c', b')" for other c' b'
  proof -
    from native_open_entry [OF assms, of other] that(2) have theirs: "(other, c', b') \<in> set (ns_channels s)" by auto
    have d: "distinct (map (ci_channel \<circ> fst \<circ> snd) (ns_channels s))" "distinct (map (snd \<circ> snd) (ns_channels s))"
      using sound by (simp_all add: s)
    show ?thesis
      using inj_onD [OF d(1) [unfolded distinct_map, THEN conjunct2] _ theirs mine] inj_onD [OF d(2) [unfolded distinct_map, THEN conjunct2] _ theirs mine] that(1)
      by auto
  qed
  show ?thesis
    using own apart store s
    by (intro exI [of _ ?c] exI [of _ b])
      (simp add: native_services_def isolation_proven_def native_isolation_def make_isolation_evidence_def isolated_def construct_ok)
qed

section \<open>Sample qualification\<close>

definition provider_records :: "observed_dependency list" where
  "provider_records = map (gate_record ''1.10.0'') [D_PACKAGE, D_PROVIDER_RUNTIME]"

definition sample_control :: qualification_control where
  "sample_control = \<lparr>qc_binding = gate_binding, qc_dependency_control = \<lparr>xc_policy = gate_policy, xc_observations = provider_records, xc_admission = gate_admission\<rparr>, qc_now = 50\<rparr>"

lemma sample_gate_open: "gate_open sample_control gate_binding 50"
proof -
  have records: "list_all observation_ok provider_records" using gate_record_ok gate_versions by (simp add: provider_records_def)
  have components: "dp_components gate_policy = map (gate_component ''1.2.3'' ''2.0.0'') [D_PACKAGE, D_GITHUB_CLI, D_PROVIDER_RUNTIME]"
    by (simp add: gate_policy_def gate_core_def)
  have sel: "od_component (gate_record v k) = k" "od_binding (gate_record v k) = gate_binding" for v k by (simp_all add: gate_record_def)
  have "evaluate_dependency_preflight (Some gate_binding) (Some gate_policy) (Records (map Some provider_records)) (Some S_PROVIDER_QUALIFICATION) (Some 50) None (Some gate_admission)
      = Inr (pass_decision gate_binding gate_policy provider_records S_PROVIDER_QUALIFICATION 50)
    \<and> dd_outcome (pass_decision gate_binding gate_policy provider_records S_PROVIDER_QUALIFICATION 50) = Outcome_PASS"
    unfolding preflight_pass_spec [OF gate_policy_ok records]
    using gate_in_force gate_matches [of D_PACKAGE] gate_matches [of D_PROVIDER_RUNTIME]
    by (intro conjI exI [of _ provider_records]) (auto simp: provider_records_def sel components)
  moreover have "ta_previous_policy gate_admission = None" by (simp add: gate_admission_def)
  ultimately show ?thesis unfolding gate_open_def sample_control_def by simp
qed

definition sample_profile :: provider_profile where
  "sample_profile = \<lparr>pp_model = ''gpt-5.6-sol'', pp_effort = XHIGH, pp_name = None\<rparr>"

definition sample_configuration :: provider_configuration where
  "sample_configuration = \<lparr>pc_worker = sample_profile, pc_supervisors = [sample_profile],
     pc_review = \<lparr>rp_complete_rounds = 1, rp_max_rounds = 2, rp_max_supervisor_attempts = 1, rp_on_final_findings = ''worker-final-repair-then-merge''\<rparr>,
     pc_pin = Inr (RUNTIME_SCHEMA, gate_digest)\<rparr>"

definition silent_services :: credential_services where
  "silent_services = \<lparr>cs_store_identity = OtherException, cs_isolation = OtherException, cs_open = OtherException, cs_identity = OtherException,
     cs_audit = OtherException, cs_probe = (\<lambda>_. OtherException)\<rparr>"

definition sample_contract :: health_contract where
  "sample_contract = \<lparr>hc_sdk_version = ''1.2.3'', hc_runtime_version = ''1.2.4'', hc_contract_commit = replicate 40 CHR ''a''\<rparr>"

lemma sample_pinned: "\<exists>pin. pinned_runtime_binding sample_configuration = Inr pin"
proof -
  have "is_digest (''sha256:'' @ hex_digest v)" for v by (simp add: digest_value_def [symmetric])
  then show ?thesis
    using gate_digest_ok by (simp add: pinned_runtime_binding_def sample_configuration_def make_runtime_binding_def runtime_binding_guards_def construct_ok)
qed

definition sample_channels :: "attempt_role \<rightharpoonup> string \<times> nat" where
  "sample_channels role = (case role of P_PLANNING \<Rightarrow> Some (''sha256:'' @ replicate 64 CHR ''a'', 1) | P_WORKER \<Rightarrow> Some (''sha256:'' @ replicate 64 CHR ''b'', 2)
     | P_SUPERVISOR \<Rightarrow> Some (''sha256:'' @ replicate 64 CHR ''c'', 3) | P_AGGREGATION \<Rightarrow> Some (''sha256:'' @ replicate 64 CHR ''d'', 4))"

lemma sample_store: "\<exists>s. make_native_store gate_digest sample_channels = Inr s"
  using gate_digest_ok
  by (simp add: make_native_store_def all_attempt_roles_def sample_channels_def make_credential_identity_def construct_ok bind_result_Inr_iff)

definition sample_audit :: runtime_audit where
  "sample_audit = \<lparr>ra_sdk_version = ''1.2.3'', ra_runtime_version = ''1.2.4'', ra_capabilities = [\<lparr>cc_model = ''gpt-5.6-sol'', cc_effort = ''xhigh''\<rparr>]\<rparr>"

definition sample_receipt :: health_receipt where
  "sample_receipt = \<lparr>hr_contract_commit = replicate 40 CHR ''a'', hr_candidate_sha = None, hr_case_id = ''case'', hr_selection_ordinal = 0,
     hr_configuration = sample_runtime, hr_role = P_WORKER, hr_profile_identity = profile_fingerprint sample_profile,
     hr_observation = ready_observation sample_contract P_WORKER sample_profile sample_audit 50 60 1,
     hr_audit_identity = \<lparr>ai_audit = sample_audit, ai_profile = sample_profile, ai_profile_identity_value = []\<rparr>, hr_schema = HEALTH_SCHEMA, hr_digest = []\<rparr>"

lemma sample_receipt_built: "\<exists>a. make_health_receipt sample_receipt = Inr a"
proof -
  have "is_safe_identifier ''case''" by (simp add: is_safe_identifier_def is_alnum_def is_lower_def less_eq_char_def)
  then have "receipt_ok sample_receipt"
    by (simp add: receipt_ok_def sample_receipt_def ready_observation_def ai_profile_identity_def sample_contract_def sample_audit_def)
  then show ?thesis by (simp add: make_health_receipt_def Let_def sample_receipt_def)
qed

end
