(* ===== verification/Provider_Attempts.thy ===== *)
theory Provider_Attempts
  imports Provider_Health Recovery_Ledger Review_Lifecycle
begin

text \<open>
  \<open>provider_recovery.py\<close>: the durable record of provider turns. An attempt is prepared under a health
  receipt, claimed, bound to a session and to one external turn, and ends completed, accepted, ambiguous,
  blocked or invalidated; recovery decides what may follow after a restart.

  The state is a record of the tables the module owns, with the two stores it writes in the same
  transaction, the failure ledger and the review life cycle. Rows are keyed by their primary key; the
  \<open>CHECK\<close>, \<open>UNIQUE\<close> and foreign-key clauses of \<open>state.py\<close> are tested by every insertion and update and fail
  with \<open>PyIntegrityError\<close>. A transaction that raises leaves the tables as they were. Tables of other
  modules (leases, tasks, plan reviews, review limits) are observations of the world.
\<close>

section \<open>Closed vocabularies\<close>

datatype attempt_state = At_PREPARED | At_DISPATCHED | At_COMPLETED | At_ACCEPTED | At_AMBIGUOUS | At_BLOCKED | At_INVALIDATED

fun attempt_state_value :: "attempt_state \<Rightarrow> string" where
  "attempt_state_value At_PREPARED = ''prepared''"
| "attempt_state_value At_DISPATCHED = ''dispatched''"
| "attempt_state_value At_COMPLETED = ''completed''"
| "attempt_state_value At_ACCEPTED = ''accepted''"
| "attempt_state_value At_AMBIGUOUS = ''ambiguous''"
| "attempt_state_value At_BLOCKED = ''blocked''"
| "attempt_state_value At_INVALIDATED = ''invalidated''"

text \<open>\<open>BLOCKED_PROVIDER_ACCOUNTING\<close> has the value of \<open>BLOCKED_AMBIGUOUS_TURN\<close> and is therefore its alias.\<close>

datatype attempt_action = Do_RETRY | Do_RESUME_SAME_SESSION | Do_CONSUME_VERIFIED_OUTPUT | Do_ACCEPTED_REVIEW | Do_BLOCKED_AMBIGUOUS_TURN
  | Do_BLOCKED_STALE_WORKER | Do_FRESH_SUPERVISOR_SESSION | Do_BLOCKED_RETRY_LIMIT | Do_BLOCKED_IDENTITY_DRIFT

fun action_value :: "attempt_action \<Rightarrow> string" where
  "action_value Do_RETRY = ''retry''"
| "action_value Do_RESUME_SAME_SESSION = ''resume-same-session''"
| "action_value Do_CONSUME_VERIFIED_OUTPUT = ''consume-verified-output''"
| "action_value Do_ACCEPTED_REVIEW = ''accepted-review''"
| "action_value Do_BLOCKED_AMBIGUOUS_TURN = ''blocked-ambiguous-turn''"
| "action_value Do_BLOCKED_STALE_WORKER = ''blocked-stale-worker''"
| "action_value Do_FRESH_SUPERVISOR_SESSION = ''fresh-supervisor-session''"
| "action_value Do_BLOCKED_RETRY_LIMIT = ''blocked-retry-limit''"
| "action_value Do_BLOCKED_IDENTITY_DRIFT = ''blocked-identity-drift''"

datatype sdk_category = SDK_BAD_REQUEST | SDK_UNAUTHORIZED | SDK_SANDBOX | SDK_OVERLOAD | SDK_HTTP | SDK_STREAM | SDK_CONNECTION | SDK_MISSING_OR_UNKNOWN

definition all_sdk_categories :: "sdk_category list" where
  "all_sdk_categories = [SDK_BAD_REQUEST, SDK_UNAUTHORIZED, SDK_SANDBOX, SDK_OVERLOAD, SDK_HTTP, SDK_STREAM, SDK_CONNECTION, SDK_MISSING_OR_UNKNOWN]"

fun sdk_category_value :: "sdk_category \<Rightarrow> string" where
  "sdk_category_value SDK_BAD_REQUEST = ''bad-request''"
| "sdk_category_value SDK_UNAUTHORIZED = ''unauthorized''"
| "sdk_category_value SDK_SANDBOX = ''sandbox''"
| "sdk_category_value SDK_OVERLOAD = ''overload''"
| "sdk_category_value SDK_HTTP = ''http''"
| "sdk_category_value SDK_STREAM = ''stream''"
| "sdk_category_value SDK_CONNECTION = ''connection''"
| "sdk_category_value SDK_MISSING_OR_UNKNOWN = ''missing-or-unknown''"

datatype terminal_source = SDK_TURN_FAILED | SCOPE_ADMISSION_DENIED

fun terminal_source_value :: "terminal_source \<Rightarrow> string" where
  "terminal_source_value SDK_TURN_FAILED = ''sdk-turn-failed''"
| "terminal_source_value SCOPE_ADMISSION_DENIED = ''scope-admission-denied''"

text \<open>\<open>SupervisorTerminalFailureClass\<close> repeats the members of \<open>CodexFailure\<close>.\<close>

record terminal_failure =
  tf_class :: codex_failure
  tf_source :: terminal_source
  tf_category :: sdk_category

datatype claim_state = Claim_UNCLAIMED | Claim_CLAIMED

section \<open>Recovery contexts\<close>

datatype supplied_receipt = NoReceipt | ForeignReceipt | SuppliedReceipt health_receipt

record recovery_context =
  rcx_task_id :: string
  rcx_repository :: string
  rcx_worktree :: string
  rcx_branch :: string
  rcx_base :: string
  rcx_candidate :: "string option"
  rcx_candidate_sha :: "string option"
  rcx_policy :: string
  rcx_deployment :: string
  rcx_runtime :: runtime_binding
  rcx_contract_commit :: "string option"
  rcx_case_id :: "string option"
  rcx_receipt :: supplied_receipt

abbreviation provider_error :: "string \<Rightarrow> 'a result" where
  "provider_error why \<equiv> Inl (ProviderRecoveryError why)"

definition require_provider :: "bool \<Rightarrow> string \<Rightarrow> unit result" where
  "require_provider p why = (if p then Inr () else provider_error why)"

definition context_for_task :: "task_identity \<Rightarrow> string option \<Rightarrow> string \<Rightarrow> string \<Rightarrow> runtime_binding \<Rightarrow> string option \<Rightarrow> string option
    \<Rightarrow> supplied_receipt \<Rightarrow> recovery_context result" where
  "context_for_task ti candidate policy deployment runtime commit case_id receipt =
     bind_result (require_provider (case candidate of None \<Rightarrow> True | Some c \<Rightarrow> is_sha c) ''candidate identity is invalid'') (\<lambda>_.
     bind_result (require_provider (is_fingerprint policy) ''policy fingerprint is invalid'') (\<lambda>_.
     bind_result (require_provider (is_fingerprint deployment) ''deployment fingerprint is invalid'') (\<lambda>_.
     Inr \<lparr>rcx_task_id = ti_task_id ti, rcx_repository = utf8_digest (ti_repository_id ti), rcx_worktree = utf8_digest (ti_worktree ti),
       rcx_branch = utf8_digest (ti_branch ti), rcx_base = utf8_digest (ti_base_sha ti), rcx_candidate = map_option utf8_digest candidate,
       rcx_candidate_sha = candidate, rcx_policy = policy, rcx_deployment = deployment, rcx_runtime = runtime,
       rcx_contract_commit = commit, rcx_case_id = case_id, rcx_receipt = receipt\<rparr>)))"

definition context_guards :: "task_identity \<Rightarrow> recovery_context \<Rightarrow> (bool \<times> py_error) list" where
  "context_guards ti c =
     [(rcx_task_id c = ti_task_id ti, ProviderRecoveryError ''recovery context does not match the task''),
      (is_fingerprint (rcx_repository c), ProviderRecoveryError ''repository fingerprint is invalid''),
      (is_fingerprint (rcx_worktree c), ProviderRecoveryError ''worktree fingerprint is invalid''),
      (is_fingerprint (rcx_branch c), ProviderRecoveryError ''branch fingerprint is invalid''),
      (is_fingerprint (rcx_base c), ProviderRecoveryError ''base fingerprint is invalid''),
      (is_fingerprint (rcx_policy c), ProviderRecoveryError ''policy fingerprint is invalid''),
      (is_fingerprint (rcx_deployment c), ProviderRecoveryError ''deployment fingerprint is invalid''),
      (case rcx_candidate c of None \<Rightarrow> True | Some f \<Rightarrow> is_fingerprint f, ProviderRecoveryError ''candidate fingerprint is invalid''),
      (case rcx_candidate c of None \<Rightarrow> rcx_candidate_sha c = None | Some f \<Rightarrow> present (\<lambda>sha. is_sha sha \<and> f = utf8_digest sha) (rcx_candidate_sha c),
        ProviderRecoveryError ''candidate admission is invalid'')]"

definition validate_context :: "task_identity \<Rightarrow> recovery_context \<Rightarrow> unit result" where
  "validate_context ti c = construct (context_guards ti c) ()"

definition provider_token :: "string \<Rightarrow> string \<Rightarrow> unit result" where
  "provider_token s name = require_provider (is_recovery_token s) (name @ '' is invalid'')"

definition provider_fingerprint :: "string \<Rightarrow> string \<Rightarrow> unit result" where
  "provider_fingerprint s name = require_provider (is_fingerprint s) (name @ '' is invalid'')"

type_synonym complete_binding = "(string \<times> string \<times> string \<times> string) \<times> int \<times> int \<times> int \<times> string \<times> string"

text \<open>\<open>_context_values\<close>, which is what the context table stores after the task.\<close>

type_synonym context_values = "string \<times> string \<times> string \<times> string \<times> string option \<times> string \<times> string \<times> complete_binding"

definition context_values :: "recovery_context \<Rightarrow> context_values" where
  "context_values c = (rcx_repository c, rcx_worktree c, rcx_branch c, rcx_base c, rcx_candidate c, rcx_policy c, rcx_deployment c,
     complete_columns (rcx_runtime c))"

definition nul :: char where
  "nul = CHR 0x00"

fun join_nul :: "string list \<Rightarrow> string" where
  "join_nul [] = []"
| "join_nul [x] = x"
| "join_nul (x # xs) = x @ [nul] @ join_nul xs"

definition optional_text :: "string option \<Rightarrow> string" where
  "optional_text s = (case s of None \<Rightarrow> [] | Some t \<Rightarrow> t)"

definition context_texts :: "recovery_context \<Rightarrow> string list" where
  "context_texts c = (case complete_columns (rcx_runtime c) of ((schema, resolved, worker, supervisors), complete, rounds, attempts, final, policy) \<Rightarrow>
     [rcx_repository c, rcx_worktree c, rcx_branch c, rcx_base c, optional_text (rcx_candidate c), rcx_policy c, rcx_deployment c,
      schema, resolved, worker, supervisors, int_str complete, int_str rounds, int_str attempts, final, policy])"

definition context_fingerprint :: "recovery_context \<Rightarrow> string" where
  "context_fingerprint c = utf8_digest (join_nul (context_texts c))"

text \<open>The fingerprint argument is always the digest computed by \<open>authorization_fingerprint\<close>, so its lexical test passes.\<close>

definition checkpoint_fingerprint :: "recovery_context \<Rightarrow> string \<Rightarrow> string" where
  "checkpoint_fingerprint c authorization = utf8_digest (context_fingerprint c @ [nul] @ authorization)"

section \<open>Tables\<close>

record provider_attempt =
  pv_task :: string
  pv_role :: attempt_role
  pv_number :: int
  pv_lease_id :: string
  pv_lease_expires_at :: int
  pv_session :: "string option"
  pv_turn :: "string option"
  pv_input :: string
  pv_output :: "string option"
  pv_evidence :: "string option"
  pv_accepted :: "string option"
  pv_state :: attempt_state
  pv_profile :: string
  pv_position :: int
  pv_ordinal :: int

record coordinate_row =
  co_task :: string
  co_epoch :: int
  co_round :: int
  co_position :: int
  co_ordinal :: int
  co_profile :: string

record authorization_row =
  au_contract_commit :: string
  au_candidate_sha :: "string option"
  au_case_id :: string
  au_receipt_digest :: string
  au_ordinal :: int
  au_fresh_until :: int
  au_contract_identity :: string
  au_role :: string
  au_profile :: string

record admission_row =
  ad_task :: string
  ad_candidate_sha :: string
  ad_policy_digest :: string
  ad_configuration_digest :: string
  ad_scope :: string
  ad_role :: string
  ad_profile :: string
  ad_session :: string
  ad_attempt :: string

record accepted_row =
  ap_task :: string
  ap_attempt :: string
  ap_evidence :: "string option"
  ap_columns :: "string \<times> string \<times> string \<times> string"
  ap_profile :: string
  ap_within_round :: int
  ap_position :: int
  ap_ordinal :: int
  ap_policy :: "int \<times> int \<times> int \<times> string \<times> string"
  ap_epoch :: int

text \<open>What the module reads and writes of a candidate review.\<close>

record diff_row =
  df_task :: string
  df_attempt :: string
  df_state :: string
  df_accepted :: "string option"

record attempt_store =
  as_attempts :: "(string \<times> provider_attempt) list"
  as_coordinates :: "(string \<times> coordinate_row) list"
  as_contexts :: "(string \<times> (string \<times> context_values)) list"
  as_authorizations :: "(string \<times> authorization_row) list"
  as_seals :: "(string \<times> string) list"
  as_checkpoints :: "(string \<times> (string \<times> string \<times> string \<times> string)) list"
  as_sessions :: "(string \<times> (string \<times> string \<times> string)) list"
  as_claims :: "(string \<times> (string \<times> string)) list"
  as_admissions :: "(string \<times> admission_row) list"
  as_outputs :: "(string \<times> string) list"
  as_invalid_outputs :: "(string \<times> (string \<times> string)) list"
  as_outcomes :: "(string \<times> (string \<times> string option)) list"
  as_accepted_reviews :: "(string \<times> accepted_row) list"
  as_events :: "(string \<times> string \<times> string \<times> int) list"
  as_bindings :: "(string \<times> (string \<times> string \<times> string \<times> string)) list"
  as_policies :: "(string \<times> (string \<times> int \<times> int \<times> int \<times> string \<times> string)) list"
  as_diff_reviews :: "(string \<times> diff_row) list"
  as_failures :: recovery_ledger
  as_reviews :: review_store

text \<open>
  The rest of the world: the lease and its clock, the task check, the identity of a plan review of an
  attempt, its implementation row, and whether the last repair of a task is consumed. The world of failure
  recovery observes the attempt tables as they are inside the transaction; the attempts that the review
  life cycle sees are computed from them (\<open>attempt_view\<close>).
\<close>

record attempt_world =
  aw_git :: git_world
  aw_task_failure :: "task_identity \<Rightarrow> string option"
  aw_plan_review :: "string \<Rightarrow> string \<Rightarrow> string option"
  aw_review_limit_consumed :: "string \<Rightarrow> bool"
  aw_recovery :: "attempt_store \<Rightarrow> recovery_world"
  aw_review :: review_world
  aw_implementation :: "string \<Rightarrow> implementation_row option"

text \<open>The joined row of an attempt, as \<open>review_lifecycle.py\<close> reads it.\<close>

definition attempt_view :: "attempt_world \<Rightarrow> attempt_store \<Rightarrow> string \<Rightarrow> attempt_row option" where
  "attempt_view w s attempt = (case map_of (as_attempts s) attempt of None \<Rightarrow> None | Some r \<Rightarrow> Some
     \<lparr>at_task = pv_task r, at_role = attempt_role_value (pv_role r), at_number = pv_number r, at_state = attempt_state_value (pv_state r),
      at_session = pv_session r, at_turn = pv_turn r, at_profile = Some (pv_profile r),
      at_accepted_profile = map_option (ap_profile \<circ> snd) (List.find (\<lambda>(_, a). ap_attempt a = attempt) (as_accepted_reviews s)),
      at_accepted_review = pv_accepted r, at_output_pointer = pv_output r, at_evidence = pv_evidence r,
      at_output = map_of (as_outputs s) attempt, at_outcome = map_of (as_outcomes s) attempt, at_implementation = aw_implementation w attempt\<rparr>)"

definition review_view :: "attempt_world \<Rightarrow> attempt_store \<Rightarrow> review_world" where
  "review_view w s = (aw_review w)\<lparr>vw_attempts := attempt_view w s\<rparr>"

section \<open>Transactions\<close>

text \<open>
  A transaction commits the tables its body returns or rolls back; \<open>integrity\<close> is what the caller makes of
  an \<open>IntegrityError\<close>. Most operations return early with a row or read the attempt after the commit.
\<close>

definition run_transaction :: "py_error option \<Rightarrow> attempt_store \<Rightarrow> (attempt_store \<times> 'a) result \<Rightarrow> attempt_store \<times> 'a result" where
  "run_transaction integrity s m = (case m of
     Inr (s', x) \<Rightarrow> (s', Inr x)
   | Inl e \<Rightarrow> (s, Inl (if e = PyIntegrityError then case integrity of None \<Rightarrow> e | Some e' \<Rightarrow> e' else e)))"

definition then_read :: "(attempt_store \<Rightarrow> provider_attempt result) \<Rightarrow> attempt_store \<times> provider_attempt option result
    \<Rightarrow> attempt_store \<times> provider_attempt result" where
  "then_read reader r = (case snd r of
     Inl e \<Rightarrow> (fst r, Inl e) | Inr (Some row) \<Rightarrow> (fst r, Inr row) | Inr None \<Rightarrow> (fst r, reader (fst r)))"

text \<open>\<open>_require_current_lease\<close> with the observed clock, and \<open>_require_matching_task\<close>.\<close>

definition require_lease :: "attempt_world \<Rightarrow> transition_lease option \<Rightarrow> task_identity \<Rightarrow> int \<Rightarrow> unit result" where
  "require_lease w lease ti observed = (case lease_failure ((aw_git w)\<lparr>gw_now := observed\<rparr>) lease (ti_repository_id ti) of
     None \<Rightarrow> if observed < 0 then Inl (PyStateError ''lease clock is invalid'') else Inr ()
   | Some why \<Rightarrow> Inl (PyStateError (if observed < 0 \<and> why = ''transition lease is stale and requires owner recovery'' then ''lease clock is invalid'' else why)))"

definition require_task :: "attempt_world \<Rightarrow> task_identity \<Rightarrow> unit result" where
  "require_task w ti = (case aw_task_failure w ti of None \<Rightarrow> Inr () | Some why \<Rightarrow> Inl (PyStateError why))"

section \<open>Rows\<close>

definition attempt_row_of :: "string \<Rightarrow> string \<Rightarrow> attempt_store \<Rightarrow> provider_attempt result" where
  "attempt_row_of task attempt s = (case map_of (as_attempts s) attempt of
     Some r \<Rightarrow> if pv_task r = task then Inr r else Inl (ProviderAttemptAbsentError ''provider attempt is unavailable'')
   | None \<Rightarrow> Inl (ProviderAttemptAbsentError ''provider attempt is unavailable''))"

text \<open>The \<open>CHECK\<close> clauses of \<open>provider_attempts\<close>, and its three unique keys (a \<open>NULL\<close> never conflicts).\<close>

definition row_valid :: "provider_attempt \<Rightarrow> bool" where
  "row_valid r \<longleftrightarrow> 0 < pv_number r \<and> 0 < pv_lease_expires_at r
     \<and> (pv_turn r = None \<and> pv_state r \<in> {At_PREPARED, At_BLOCKED, At_INVALIDATED} \<or> pv_turn r \<noteq> None \<and> pv_state r \<noteq> At_PREPARED)
     \<and> (pv_state r \<in> {At_COMPLETED, At_ACCEPTED} \<longrightarrow> pv_output r \<noteq> None \<and> pv_evidence r \<noteq> None)
     \<and> (pv_accepted r \<noteq> None \<longrightarrow> pv_role r = P_SUPERVISOR \<and> pv_state r = At_ACCEPTED)"

definition row_conflicts :: "provider_attempt \<Rightarrow> provider_attempt \<Rightarrow> bool" where
  "row_conflicts a b \<longleftrightarrow> (pv_task a, pv_role a, pv_number a) = (pv_task b, pv_role b, pv_number b)
     \<or> pv_turn a \<noteq> None \<and> (pv_task a, pv_role a, pv_turn a) = (pv_task b, pv_role b, pv_turn b)
     \<or> pv_accepted a \<noteq> None \<and> (pv_task a, pv_accepted a) = (pv_task b, pv_accepted b)"

definition put_attempt :: "string \<Rightarrow> provider_attempt \<Rightarrow> attempt_store \<Rightarrow> attempt_store result" where
  "put_attempt attempt r s =
     (if \<not> row_valid r \<or> list_ex (\<lambda>(k, q). k \<noteq> attempt \<and> row_conflicts r q) (as_attempts s) then Inl PyIntegrityError
      else Inr (s\<lparr>as_attempts := AList.update attempt r (as_attempts s)\<rparr>))"

definition insert_attempt :: "string \<Rightarrow> provider_attempt \<Rightarrow> attempt_store \<Rightarrow> attempt_store result" where
  "insert_attempt attempt r s = (if map_of (as_attempts s) attempt \<noteq> None then Inl PyIntegrityError else put_attempt attempt r s)"

text \<open>A row that references an attempt, inserted under a primary key.\<close>

definition insert_keyed :: "attempt_store \<Rightarrow> string \<Rightarrow> bool \<Rightarrow> 'k \<Rightarrow> 'v \<Rightarrow> ('k \<times> 'v) list \<Rightarrow> ('k \<times> 'v) list result" where
  "insert_keyed s attempt checked k v rows =
     (if map_of (as_attempts s) attempt = None \<or> \<not> checked \<or> map_of rows k \<noteq> None then Inl PyIntegrityError else Inr (rows @ [(k, v)]))"

definition add_event :: "string \<Rightarrow> string \<Rightarrow> attempt_action \<Rightarrow> int \<Rightarrow> attempt_store \<Rightarrow> attempt_store result" where
  "add_event task attempt action observed s =
     (if map_of (as_attempts s) attempt = None \<or> observed \<le> 0 then Inl PyIntegrityError
      else Inr (s\<lparr>as_events := as_events s @ [(task, attempt, action_value action, observed)]\<rparr>))"

section \<open>Contexts and health authorizations\<close>

definition persist_context :: "string \<Rightarrow> recovery_context \<Rightarrow> attempt_store \<Rightarrow> attempt_store result" where
  "persist_context attempt c s = (case map_of (as_contexts s) attempt of
     None \<Rightarrow> bind_result (insert_keyed s attempt True attempt (rcx_task_id c, context_values c) (as_contexts s)) (\<lambda>rows. Inr (s\<lparr>as_contexts := rows\<rparr>))
   | Some row \<Rightarrow> if row \<noteq> (rcx_task_id c, context_values c) then provider_error ''recovery identity context has drifted'' else Inr s)"

definition context_matches :: "task_identity \<Rightarrow> string \<Rightarrow> recovery_context \<Rightarrow> attempt_store \<Rightarrow> bool" where
  "context_matches ti attempt c s \<longleftrightarrow> rcx_task_id c = ti_task_id ti \<and> map_of (as_contexts s) attempt = Some (ti_task_id ti, context_values c)"

definition selected_profile_identity :: "recovery_context \<Rightarrow> attempt_role \<Rightarrow> string option \<Rightarrow> string result" where
  "selected_profile_identity c role requested =
     (let allowed = (if role \<noteq> P_SUPERVISOR then [worker_profile_identity (rcx_runtime c)] else supervisor_profile_identities (rcx_runtime c));
          selected = (case requested of Some p \<Rightarrow> p | None \<Rightarrow> hd allowed)
      in if selected \<in> set allowed then Inr selected else provider_error ''selected provider profile identity is invalid'')"

definition require_health_authorization :: "recovery_context \<Rightarrow> attempt_role \<Rightarrow> string \<Rightarrow> int \<Rightarrow> health_receipt result" where
  "require_health_authorization c role profile observed = (case (rcx_contract_commit c, rcx_case_id c, rcx_receipt c) of
     (Some commit, Some case_id, ForeignReceipt) \<Rightarrow> provider_error ''provider health authorization is invalid''
   | (Some commit, Some case_id, SuppliedReceipt receipt) \<Rightarrow>
       if authorize_dispatch receipt (rcx_runtime c) role profile commit (rcx_candidate_sha c) case_id observed \<noteq> Inr ()
       then provider_error ''provider health authorization is invalid''
       else let required = required_provider_selections (rcx_runtime c); ordinal = hr_selection_ordinal receipt in
         if ordinal \<ge> int (length required) \<or> required ! nat ordinal \<noteq> (ordinal, role, profile)
         then provider_error ''provider health authorization is invalid'' else Inr receipt
   | _ \<Rightarrow> provider_error ''provider health authorization is incomplete'')"

definition authorization_values :: "health_receipt \<Rightarrow> attempt_role \<Rightarrow> string \<Rightarrow> authorization_row" where
  "authorization_values receipt role profile =
     \<lparr>au_contract_commit = hr_contract_commit receipt, au_candidate_sha = hr_candidate_sha receipt, au_case_id = hr_case_id receipt,
      au_receipt_digest = hr_digest receipt, au_ordinal = hr_selection_ordinal receipt, au_fresh_until = ho_fresh_until (hr_observation receipt),
      au_contract_identity = ho_contract_identity (hr_observation receipt), au_role = attempt_role_value role, au_profile = profile\<rparr>"

definition authorization_fingerprint :: "string \<Rightarrow> authorization_row \<Rightarrow> string" where
  "authorization_fingerprint attempt a = utf8_digest (join_nul
     [attempt, au_contract_commit a, optional_text (au_candidate_sha a), au_case_id a, au_receipt_digest a, int_str (au_ordinal a),
      int_str (au_fresh_until a), au_contract_identity a, au_role a, au_profile a])"

definition persist_health_authorization :: "string \<Rightarrow> health_receipt \<Rightarrow> attempt_role \<Rightarrow> string \<Rightarrow> attempt_store \<Rightarrow> (attempt_store \<times> string) result" where
  "persist_health_authorization attempt receipt role profile s =
     (let expected = authorization_values receipt role profile; fingerprint = authorization_fingerprint attempt expected in
      if map_of (as_authorizations s) attempt \<noteq> None then provider_error ''provider health authorization already exists''
      else bind_result (insert_keyed s attempt True attempt expected (as_authorizations s)) (\<lambda>rows.
        bind_result (insert_keyed s attempt True attempt fingerprint (as_seals s)) (\<lambda>seals.
        Inr (s\<lparr>as_authorizations := rows, as_seals := seals\<rparr>, fingerprint))))"

definition checkpoint_id :: "string \<Rightarrow> string \<Rightarrow> string" where
  "checkpoint_id attempt phase = attempt @ '':'' @ phase"

definition authorization_intact :: "string \<Rightarrow> recovery_context \<Rightarrow> attempt_role \<Rightarrow> string \<Rightarrow> int \<Rightarrow> authorization_row \<Rightarrow> string \<Rightarrow> bool" where
  "authorization_intact attempt c role profile observed a seal \<longleftrightarrow>
     is_sha (au_contract_commit a) \<and> (case au_candidate_sha a of None \<Rightarrow> True | Some sha \<Rightarrow> is_sha sha) \<and> is_recovery_token (au_case_id a)
     \<and> is_digest (au_receipt_digest a) \<and> 0 \<le> au_ordinal a \<and> observed < au_fresh_until a \<and> is_digest (au_contract_identity a)
     \<and> au_role a = attempt_role_value role \<and> au_profile a = profile \<and> au_candidate_sha a = rcx_candidate_sha c
     \<and> is_fingerprint seal \<and> seal = authorization_fingerprint attempt a"

definition require_persisted_health_authorization :: "bool \<Rightarrow> string \<Rightarrow> recovery_context \<Rightarrow> attempt_role \<Rightarrow> string \<Rightarrow> int \<Rightarrow> attempt_store \<Rightarrow> string result" where
  "require_persisted_health_authorization trusted attempt c role profile observed s =
     (let drifted = provider_error ''provider health authorization is unavailable or has drifted'';
          supplied = (rcx_contract_commit c \<noteq> None \<or> rcx_case_id c \<noteq> None \<or> rcx_receipt c \<noteq> NoReceipt) in
      bind_result (if trusted \<and> supplied
          then bind_result (require_health_authorization c role profile observed) (\<lambda>receipt. Inr (Some (authorization_values receipt role profile)))
          else Inr None) (\<lambda>trusted_values.
      case (map_of (as_authorizations s) attempt, map_of (as_seals s) attempt) of
        (Some a, Some seal) \<Rightarrow>
          if \<not> authorization_intact attempt c role profile observed a seal \<or> (case trusted_values of None \<Rightarrow> False | Some v \<Rightarrow> a \<noteq> v) then drifted
          else if map_of (as_checkpoints s) (checkpoint_id attempt ''before-dispatch'')
              \<noteq> Some (rcx_task_id c, attempt_role_value role, ''before-dispatch'', checkpoint_fingerprint c seal) then drifted
          else Inr seal
      | _ \<Rightarrow> drifted))"

definition add_checkpoint :: "string \<Rightarrow> attempt_role \<Rightarrow> string \<Rightarrow> string \<Rightarrow> recovery_context \<Rightarrow> string \<Rightarrow> int \<Rightarrow> attempt_store \<Rightarrow> attempt_store result" where
  "add_checkpoint task role phase attempt c authorization observed s =
     bind_result (insert_keyed s attempt (0 < observed) (checkpoint_id attempt phase)
       (task, attempt_role_value role, phase, checkpoint_fingerprint c authorization) (as_checkpoints s)) (\<lambda>rows. Inr (s\<lparr>as_checkpoints := rows\<rparr>))"

definition require_session_checkpoint :: "string \<Rightarrow> string \<Rightarrow> string \<Rightarrow> recovery_context \<Rightarrow> string \<Rightarrow> attempt_store \<Rightarrow> unit result" where
  "require_session_checkpoint task attempt session c authorization s =
     require_provider (map_of (as_sessions s) attempt = Some (task, session, checkpoint_fingerprint c authorization))
       ''session checkpoint is unavailable or has drifted''"

definition require_session_reuse_allowed :: "string \<Rightarrow> provider_attempt \<Rightarrow> string \<Rightarrow> attempt_store \<Rightarrow> unit result" where
  "require_session_reuse_allowed attempt r session s =
     (let roles = map (\<lambda>(_, q). pv_role q) (filter (\<lambda>(k, q). pv_task q = pv_task r \<and> pv_session q = Some session \<and> k \<noteq> attempt) (as_attempts s));
          reusable = {P_PLANNING, P_WORKER} in
      require_provider (roles = [] \<or> pv_role r \<in> reusable \<and> set roles \<subseteq> reusable) ''session identity cannot be reused across provider attempts'')"

section \<open>Failure admissions\<close>

fun failure_role_of :: "attempt_role \<Rightarrow> failure_role option" where
  "failure_role_of P_WORKER = Some Role_WORKER"
| "failure_role_of P_SUPERVISOR = Some Role_SUPERVISOR"
| "failure_role_of _ = None"

definition admission_of :: "task_identity \<Rightarrow> string \<Rightarrow> provider_attempt \<Rightarrow> recovery_context \<Rightarrow> string \<Rightarrow> string \<Rightarrow> admission_row" where
  "admission_of ti attempt r c candidate session =
     \<lparr>ad_task = ti_task_id ti, ad_candidate_sha = candidate, ad_policy_digest = ''sha256:'' @ rcx_policy c,
      ad_configuration_digest = resolved_digest (rcx_runtime c), ad_scope = attempt_role_value (pv_role r) @ '':'' @ ti_task_id ti,
      ad_role = attempt_role_value (pv_role r), ad_profile = pv_profile r, ad_session = session, ad_attempt = attempt\<rparr>"

definition persist_failure_admission :: "task_identity \<Rightarrow> string \<Rightarrow> provider_attempt \<Rightarrow> recovery_context \<Rightarrow> string \<Rightarrow> bool \<Rightarrow> attempt_store \<Rightarrow> attempt_store result" where
  "persist_failure_admission ti attempt r c session create s = (case rcx_candidate_sha c of
     None \<Rightarrow> Inr s
   | Some candidate \<Rightarrow> (case failure_role_of (pv_role r) of
       None \<Rightarrow> provider_error ''failure recovery role admission is invalid''
     | Some role \<Rightarrow>
       let expected = admission_of ti attempt r c candidate session in
       (case (map_of (as_admissions s) attempt, create) of
          (None, True) \<Rightarrow> bind_result (insert_keyed s attempt True attempt expected (as_admissions s)) (\<lambda>rows. Inr (s\<lparr>as_admissions := rows\<rparr>))
        | (None, False) \<Rightarrow> provider_error ''failure recovery admission has drifted''
        | (Some old, True) \<Rightarrow> bind_result (pre_dispatch_failure_identity role attempt) (\<lambda>pre.
            if old = expected\<lparr>ad_session := pre\<rparr> then Inr (s\<lparr>as_admissions := AList.update attempt expected (as_admissions s)\<rparr>)
            else if old \<noteq> expected then provider_error ''failure recovery admission has drifted'' else Inr s)
        | (Some old, False) \<Rightarrow> if old \<noteq> expected then provider_error ''failure recovery admission has drifted'' else Inr s)))"

section \<open>The runtime binding of a task\<close>

definition record_runtime_binding :: "string \<Rightarrow> runtime_binding \<Rightarrow> attempt_store \<Rightarrow> attempt_store result" where
  "record_runtime_binding task b s =
     bind_result (case map_of (as_bindings s) task of
         None \<Rightarrow> Inr (s\<lparr>as_bindings := as_bindings s @ [(task, columns b)]\<rparr>)
       | Some row \<Rightarrow> if row \<noteq> columns b then Inl (PyStateError ''resolved configuration binding has drifted'') else Inr s) (\<lambda>s'.
     if \<not> has_review_policy b then Inr s' else
     (case review_policy_columns b of
        Inl e \<Rightarrow> Inl (PyStateError ''resolved configuration binding is invalid'')
      | Inr policy \<Rightarrow> (case map_of (as_policies s') task of
          None \<Rightarrow> Inr (s'\<lparr>as_policies := as_policies s' @ [(task, policy)]\<rparr>)
        | Some row \<Rightarrow> if row \<noteq> policy then Inl (PyStateError ''resolved review policy binding has drifted'') else Inr s')))"

definition require_runtime_binding :: "string \<Rightarrow> runtime_binding \<Rightarrow> attempt_store \<Rightarrow> unit result" where
  "require_runtime_binding task b s =
     (if map_of (as_bindings s) task \<noteq> Some (columns b) then Inl (PyStateError ''resolved configuration binding is missing or has drifted'')
      else if \<not> has_review_policy b then Inr ()
      else bind_result (review_policy_columns b) (\<lambda>policy.
        if map_of (as_policies s) task \<noteq> Some policy then Inl (PyStateError ''resolved review policy binding is missing or has drifted'') else Inr ()))"

section \<open>Supervisor coordinates\<close>

type_synonym coordinate = "int \<times> int \<times> int \<times> int"

definition coordinate_transition_is_valid :: "coordinate option \<Rightarrow> coordinate \<Rightarrow> bool" where
  "coordinate_transition_is_valid previous current = (case current of (epoch, round_number, logical, physical) \<Rightarrow>
     if epoch < 0 \<or> round_number < 1 \<or> logical < 1 \<or> \<not> (0 \<le> physical \<and> physical \<le> 2) then False else
     (case previous of
        None \<Rightarrow> epoch \<ge> 0 \<and> round_number \<ge> 1 \<and> logical = 1 \<and> physical = 0
      | Some (prior_epoch, prior_round, prior_logical, prior_physical) \<Rightarrow>
          if epoch = prior_epoch \<and> round_number = prior_round
          then logical = prior_logical \<and> physical = prior_physical + 1 \<or> logical = prior_logical + 1 \<and> physical = 0
          else if epoch = prior_epoch then round_number = prior_round + 1 \<and> logical = 1 \<and> physical = 0
          else epoch = prior_epoch + 1 \<and> round_number \<in> {prior_round, 1} \<and> logical = 1 \<and> physical = 0))"

definition coordinate_of :: "coordinate_row \<Rightarrow> coordinate" where
  "coordinate_of r = (co_epoch r, co_round r, co_position r, co_ordinal r)"

text \<open>The attempt behind a coordinate, when it is the task's own.\<close>

definition coordinate_attempt :: "attempt_store \<Rightarrow> string \<Rightarrow> string \<Rightarrow> provider_attempt option" where
  "coordinate_attempt s task attempt = (case map_of (as_attempts s) attempt of
     Some r \<Rightarrow> if pv_task r = task then Some r else None | None \<Rightarrow> None)"

text \<open>The join of coordinates and attempts, ordered by attempt number and identity.\<close>

definition coordinate_history :: "string \<Rightarrow> attempt_store \<Rightarrow> (coordinate_row \<times> provider_attempt) list" where
  "coordinate_history task s = map snd (sort_key fst (List.map_filter (\<lambda>(attempt, r).
     case coordinate_attempt s task attempt of
       Some q \<Rightarrow> if co_task r = task \<and> pv_role q = P_SUPERVISOR then Some ((pv_number q, attempt), (r, q)) else None
     | None \<Rightarrow> None) (as_coordinates s)))"

fun check_coordinates :: "coordinate option \<Rightarrow> (coordinate_row \<times> provider_attempt) list \<Rightarrow> coordinate option result" where
  "check_coordinates previous [] = Inr previous"
| "check_coordinates previous ((r, q) # rows) =
     (if pv_profile q \<noteq> co_profile r \<or> \<not> coordinate_transition_is_valid previous (coordinate_of r)
      then provider_error ''Supervisor attempt coordinate history has drifted''
      else check_coordinates (Some (coordinate_of r)) rows)"

definition require_monotonic_coordinates :: "string \<Rightarrow> coordinate option \<Rightarrow> attempt_store \<Rightarrow> unit result" where
  "require_monotonic_coordinates task prospective s =
     (if list_ex (\<lambda>(attempt, r). co_task r = task \<and> \<not> present (\<lambda>q. pv_role q = P_SUPERVISOR) (coordinate_attempt s task attempt)) (as_coordinates s)
      then provider_error ''Supervisor attempt coordinate history has drifted''
      else bind_result (check_coordinates None (coordinate_history task s)) (\<lambda>previous.
        case prospective of None \<Rightarrow> Inr ()
        | Some c \<Rightarrow> require_provider (coordinate_transition_is_valid previous c) ''Supervisor attempt coordinate is stale, regressive, or gapped''))"

definition reserve_supervisor_coordinate :: "string \<Rightarrow> string \<Rightarrow> string \<Rightarrow> int \<Rightarrow> int \<Rightarrow> (int \<times> int) option \<Rightarrow> attempt_store \<Rightarrow> attempt_store result" where
  "reserve_supervisor_coordinate task attempt profile position ordinal coordinate s = (case coordinate of
     None \<Rightarrow> Inr s
   | Some (epoch, round_number) \<Rightarrow>
     let expected = \<lparr>co_task = task, co_epoch = epoch, co_round = round_number, co_position = position, co_ordinal = ordinal, co_profile = profile\<rparr> in
     (case map_of (as_coordinates s) attempt of
        Some r \<Rightarrow>
          if r \<noteq> expected then provider_error ''Supervisor attempt coordinate replay conflicts with committed state''
          else bind_result (require_monotonic_coordinates task None s) (\<lambda>_. Inr s)
      | None \<Rightarrow>
          if list_ex (\<lambda>(_, r). co_task r = task \<and> coordinate_of r = coordinate_of expected) (as_coordinates s)
          then provider_error ''Supervisor attempt coordinate conflicts with committed state''
          else bind_result (require_monotonic_coordinates task (Some (coordinate_of expected)) s) (\<lambda>_.
            bind_result (insert_keyed s attempt (0 \<le> epoch \<and> 1 \<le> round_number \<and> 1 \<le> position \<and> 0 \<le> ordinal \<and> ordinal \<le> 2) attempt expected (as_coordinates s))
              (\<lambda>rows. Inr (s\<lparr>as_coordinates := rows\<rparr>)))))"

definition coordinate_request :: "attempt_role \<Rightarrow> int option \<Rightarrow> int option \<Rightarrow> (int \<times> int) option result" where
  "coordinate_request role epoch round_number =
     (if role \<noteq> P_SUPERVISOR
      then (if epoch \<noteq> None \<or> round_number \<noteq> None then provider_error ''non-Supervisor attempt coordinate is invalid'' else Inr None)
      else case (epoch, round_number) of
        (None, None) \<Rightarrow> Inr None
      | (Some e, Some n) \<Rightarrow> if e < 0 \<or> n < 1 then provider_error ''Supervisor attempt coordinate is invalid'' else Inr (Some (e, n))
      | _ \<Rightarrow> provider_error ''Supervisor attempt coordinate is invalid'')"

section \<open>Reading an attempt\<close>

definition accepted_review_values :: "task_identity \<Rightarrow> string \<Rightarrow> provider_attempt \<Rightarrow> recovery_context \<Rightarrow> accepted_row" where
  "accepted_review_values ti attempt r c =
     \<lparr>ap_task = ti_task_id ti, ap_attempt = attempt, ap_evidence = pv_evidence r, ap_columns = columns (rcx_runtime c), ap_profile = pv_profile r,
      ap_within_round = 0, ap_position = pv_position r, ap_ordinal = pv_ordinal r, ap_policy = snd (complete_columns (rcx_runtime c)), ap_epoch = 0\<rparr>"

datatype review_kind = Kind_generic | Kind_plan | Kind_diff | Kind_invalid

definition diff_review_of :: "string \<Rightarrow> string \<Rightarrow> attempt_store \<Rightarrow> string option" where
  "diff_review_of task attempt s = map_option fst (List.find (\<lambda>(_, d). df_attempt d = attempt \<and> df_task d = task) (as_diff_reviews s))"

definition has_prefix :: "string \<Rightarrow> string option \<Rightarrow> bool" where
  "has_prefix p pointer \<longleftrightarrow> (case pointer of None \<Rightarrow> False | Some t \<Rightarrow> py_startswith t p)"

definition accepted_review_kind :: "attempt_world \<Rightarrow> task_identity \<Rightarrow> string \<Rightarrow> provider_attempt \<Rightarrow> attempt_store \<Rightarrow> review_kind" where
  "accepted_review_kind w ti attempt r s =
     (if pv_role r \<noteq> P_SUPERVISOR then Kind_generic else
      case (aw_plan_review w attempt (ti_task_id ti), diff_review_of (ti_task_id ti) attempt s) of
        (Some _, Some _) \<Rightarrow> Kind_invalid
      | (Some plan, None) \<Rightarrow>
          if pv_state r \<noteq> At_ACCEPTED then Kind_plan
          else if pv_accepted r = Some plan \<and> pv_output r = Some (''plan-review:'' @ plan) then Kind_plan else Kind_invalid
      | (None, Some diff) \<Rightarrow>
          if pv_state r \<noteq> At_ACCEPTED then Kind_diff
          else if pv_accepted r = Some diff \<and> pv_output r = Some (''diff-review:'' @ diff) then Kind_diff else Kind_invalid
      | (None, None) \<Rightarrow>
          if has_prefix ''plan-review:'' (pv_output r) \<or> has_prefix ''diff-review:'' (pv_output r) then Kind_invalid else Kind_generic)"

definition require_accepted_supervisor_review :: "task_identity \<Rightarrow> string \<Rightarrow> provider_attempt \<Rightarrow> recovery_context \<Rightarrow> attempt_store \<Rightarrow> unit result" where
  "require_accepted_supervisor_review ti attempt r c s =
     (if pv_role r \<noteq> P_SUPERVISOR \<or> pv_state r \<noteq> At_ACCEPTED \<or> pv_accepted r = None \<or> pv_evidence r = None
      then provider_error ''accepted supervisor review is invalid''
      else require_provider (map_of (as_accepted_reviews s) (the (pv_accepted r)) = Some (accepted_review_values ti attempt r c))
        ''accepted supervisor review has drifted'')"

text \<open>
  Without a context (\<open>None\<close>) the row is only read. A context that is not stored yet would be inserted, on a
  connection that is closed without a commit.
\<close>

definition read_attempt :: "attempt_world \<Rightarrow> task_identity \<Rightarrow> string \<Rightarrow> recovery_context option \<Rightarrow> int \<Rightarrow> attempt_store \<Rightarrow> provider_attempt result" where
  "read_attempt w ti attempt supplied now s =
     bind_result (provider_token attempt ''attempt identity'') (\<lambda>_.
     bind_result (require_task w ti) (\<lambda>_.
     bind_result (attempt_row_of (ti_task_id ti) attempt s) (\<lambda>r.
     bind_result (case supplied of None \<Rightarrow> Inr s | Some c \<Rightarrow>
         bind_result (validate_context ti c) (\<lambda>_.
         bind_result (persist_context attempt c s) (\<lambda>s'.
         bind_result (require_persisted_health_authorization False attempt c (pv_role r) (pv_profile r) now s') (\<lambda>_. Inr s')))) (\<lambda>s'.
     let kind = accepted_review_kind w ti attempt r s' in
     if kind = Kind_invalid then provider_error ''accepted supervisor review is invalid''
     else if kind = Kind_generic \<and> pv_state r = At_ACCEPTED then (case supplied of
         None \<Rightarrow> provider_error ''accepted supervisor review requires exact recovery context''
       | Some c \<Rightarrow> if \<not> context_matches ti attempt c s' then provider_error ''accepted supervisor review requires exact recovery context''
           else bind_result (require_accepted_supervisor_review ti attempt r c s') (\<lambda>_. Inr r))
     else Inr r))))"

section \<open>Preparation\<close>

record preparation =
  pr_attempt_id :: string
  pr_role :: attempt_role
  pr_lease_id :: string
  pr_lease_expires_at :: int
  pr_input :: string
  pr_profile :: "string option"
  pr_position :: int
  pr_ordinal :: int
  pr_epoch :: "int option"
  pr_round :: "int option"

fun index_of :: "'a \<Rightarrow> 'a list \<Rightarrow> int" where
  "index_of x [] = 0"
| "index_of x (y # ys) = (if x = y then 0 else 1 + index_of x ys)"

text \<open>The checks that preparation and its preflight share: profile, position, coordinate and health receipt.\<close>

definition validated_preparation :: "task_identity \<Rightarrow> recovery_context \<Rightarrow> preparation \<Rightarrow> int
    \<Rightarrow> (string \<times> int \<times> (int \<times> int) option \<times> health_receipt) result" where
  "validated_preparation ti c p now =
     bind_result (validate_context ti c) (\<lambda>_.
     bind_result (provider_token (pr_attempt_id p) ''attempt identity'') (\<lambda>_.
     bind_result (provider_token (pr_lease_id p) ''process lease identity'') (\<lambda>_.
     bind_result (require_provider (now < pr_lease_expires_at p) ''process lease expiry is invalid'') (\<lambda>_.
     bind_result (provider_fingerprint (pr_input p) ''input fingerprint'') (\<lambda>_.
     bind_result (selected_profile_identity c (pr_role p) (pr_profile p)) (\<lambda>selected.
     let profiles = supervisor_profile_identities (rcx_runtime c);
         position = (if pr_role p = P_SUPERVISOR \<and> pr_position p = 0 then index_of selected profiles + 1 else pr_position p) in
     bind_result (require_provider (pr_role p = P_SUPERVISOR \<longrightarrow> 1 \<le> position \<and> position \<le> int (length profiles)
         \<and> selected = profiles ! nat (position - 1) \<and> 0 \<le> pr_ordinal p \<and> pr_ordinal p \<le> 2) ''Supervisor accounting position is invalid'') (\<lambda>_.
     bind_result (require_provider (pr_role p \<noteq> P_SUPERVISOR \<longrightarrow> position = 0 \<and> pr_ordinal p = 0) ''non-Supervisor accounting position is invalid'') (\<lambda>_.
     bind_result (coordinate_request (pr_role p) (pr_epoch p) (pr_round p)) (\<lambda>coordinate.
     bind_result (require_health_authorization c (pr_role p) selected now) (\<lambda>receipt.
     Inr (selected, position, coordinate, receipt)))))))))))"

definition preflight_attempt_preparation :: "task_identity \<Rightarrow> recovery_context \<Rightarrow> preparation \<Rightarrow> int \<Rightarrow> unit result" where
  "preflight_attempt_preparation ti c p now = bind_result (validated_preparation ti c p now) (\<lambda>_. Inr ())"

definition next_number :: "string \<Rightarrow> attempt_role \<Rightarrow> attempt_store \<Rightarrow> int" where
  "next_number task role s =
     foldr max (map (\<lambda>(_, r). pv_number r) (filter (\<lambda>(_, r). pv_task r = task \<and> pv_role r = role) (as_attempts s))) 0 + 1"

definition prepared_row :: "task_identity \<Rightarrow> preparation \<Rightarrow> string \<Rightarrow> int \<Rightarrow> int \<Rightarrow> provider_attempt" where
  "prepared_row ti p selected position number =
     \<lparr>pv_task = ti_task_id ti, pv_role = pr_role p, pv_number = number, pv_lease_id = pr_lease_id p, pv_lease_expires_at = pr_lease_expires_at p,
      pv_session = None, pv_turn = None, pv_input = pr_input p, pv_output = None, pv_evidence = None, pv_accepted = None, pv_state = At_PREPARED,
      pv_profile = selected, pv_position = position, pv_ordinal = pr_ordinal p\<rparr>"

definition replay_agrees :: "preparation \<Rightarrow> string \<Rightarrow> int \<Rightarrow> provider_attempt \<Rightarrow> bool" where
  "replay_agrees p selected position r \<longleftrightarrow> pv_role r = pr_role p \<and> pv_lease_id r = pr_lease_id p \<and> pv_lease_expires_at r = pr_lease_expires_at p
     \<and> pv_input r = pr_input p \<and> pv_profile r = selected \<and> pv_position r = position \<and> pv_ordinal r = pr_ordinal p
     \<and> pv_state r \<in> {At_PREPARED, At_DISPATCHED}"

definition dispatch_scope_open :: "attempt_world \<Rightarrow> task_identity \<Rightarrow> attempt_role \<Rightarrow> attempt_store \<Rightarrow> unit result" where
  "dispatch_scope_open w ti role s =
     require_scope_open (aw_recovery w s) (ti_task_id ti) (attempt_role_value role @ '':'' @ ti_task_id ti) (as_failures s)"

definition prepare_body :: "attempt_world \<Rightarrow> task_identity \<Rightarrow> recovery_context \<Rightarrow> preparation \<Rightarrow> transition_lease option \<Rightarrow> int
    \<Rightarrow> string \<Rightarrow> int \<Rightarrow> (int \<times> int) option \<Rightarrow> health_receipt \<Rightarrow> attempt_store \<Rightarrow> (attempt_store \<times> provider_attempt option) result" where
  "prepare_body w ti c p lease now selected position coordinate receipt s =
     (let attempt = pr_attempt_id p; role = pr_role p; task = ti_task_id ti in
      bind_result (require_lease w lease ti now) (\<lambda>_.
      bind_result (require_task w ti) (\<lambda>_.
      bind_result (if role \<in> {P_WORKER, P_SUPERVISOR} \<and> dispatch_scope_open w ti role s \<noteq> Inr ()
        then provider_error ''provider dispatch scope is stopped'' else Inr ()) (\<lambda>_.
      bind_result (require_provider (\<not> (role = P_SUPERVISOR \<and> aw_review_limit_consumed w task)) ''review limit has consumed the final Worker repair'') (\<lambda>_.
      bind_result (record_runtime_binding task (rcx_runtime c) s) (\<lambda>s1.
      bind_result (require_runtime_binding task (rcx_runtime c) s1) (\<lambda>_.
      if attempt_row_of task attempt s1 \<noteq> Inl (ProviderAttemptAbsentError ''provider attempt is unavailable'')
      then bind_result (attempt_row_of task attempt s1) (\<lambda>r.
        bind_result (persist_context attempt c s1) (\<lambda>s2.
        bind_result (require_persisted_health_authorization False attempt c (pv_role r) (pv_profile r) now s2) (\<lambda>_.
        bind_result (require_provider (replay_agrees p selected position r) ''provider attempt replay conflicts with committed state'') (\<lambda>_.
        bind_result (reserve_supervisor_coordinate task attempt selected position (pr_ordinal p) coordinate s2) (\<lambda>s3. Inr (s3, Some r))))))
      else bind_result (insert_attempt attempt (prepared_row ti p selected position (next_number task role s1)) s1) (\<lambda>s2.
        bind_result (reserve_supervisor_coordinate task attempt selected position (pr_ordinal p) coordinate s2) (\<lambda>s3.
        bind_result (persist_context attempt c s3) (\<lambda>s4.
        bind_result (persist_health_authorization attempt receipt role selected s4) (\<lambda>(s5, authorization).
        bind_result (add_checkpoint task role ''before-dispatch'' attempt c authorization now s5) (\<lambda>s6. Inr (s6, None)))))))))))))"

definition prepare_attempt :: "attempt_world \<Rightarrow> task_identity \<Rightarrow> recovery_context \<Rightarrow> preparation \<Rightarrow> transition_lease option \<Rightarrow> int
    \<Rightarrow> attempt_store \<Rightarrow> attempt_store \<times> provider_attempt result" where
  "prepare_attempt w ti c p lease now s = (case validated_preparation ti c p now of
     Inl e \<Rightarrow> (s, Inl e)
   | Inr (selected, position, coordinate, receipt) \<Rightarrow>
       then_read (read_attempt w ti (pr_attempt_id p) None now)
         (run_transaction (Some (ProviderRecoveryError ''provider attempt identity conflicts with committed state'')) s
           (prepare_body w ti c p lease now selected position coordinate receipt s)))"

section \<open>Dispatch claims\<close>

text \<open>The context, the row and the health authorization of a stored attempt, in the order every operation checks them.\<close>

definition enter_attempt :: "task_identity \<Rightarrow> recovery_context \<Rightarrow> string \<Rightarrow> int \<Rightarrow> attempt_store \<Rightarrow> (attempt_store \<times> provider_attempt \<times> string) result" where
  "enter_attempt ti c attempt now s =
     bind_result (persist_context attempt c s) (\<lambda>s1.
     bind_result (attempt_row_of (ti_task_id ti) attempt s1) (\<lambda>r.
     bind_result (require_persisted_health_authorization False attempt c (pv_role r) (pv_profile r) now s1) (\<lambda>authorization.
     Inr (s1, r, authorization))))"

definition untouched :: "provider_attempt \<Rightarrow> bool" where
  "untouched r \<longleftrightarrow> pv_state r = At_PREPARED \<and> pv_session r = None \<and> pv_turn r = None \<and> pv_output r = None \<and> pv_accepted r = None"

text \<open>
  \<open>claim_supervisor_dispatch\<close> and \<open>claim_worker_dispatch\<close> differ in the role and in the word their errors
  begin with.
\<close>

definition claim_body :: "attempt_role \<Rightarrow> failure_role \<Rightarrow> string \<Rightarrow> string \<Rightarrow> attempt_world \<Rightarrow> task_identity \<Rightarrow> recovery_context \<Rightarrow> string
    \<Rightarrow> transition_lease option \<Rightarrow> int \<Rightarrow> attempt_store \<Rightarrow> (attempt_store \<times> provider_attempt option) result" where
  "claim_body role failure_role requires consumed w ti c attempt lease now s =
     bind_result (require_lease w lease ti now) (\<lambda>_.
     bind_result (require_task w ti) (\<lambda>_.
     bind_result (dispatch_scope_open w ti role s) (\<lambda>_.
     bind_result (enter_attempt ti c attempt now s) (\<lambda>(s1, r, authorization).
     bind_result (require_provider (pv_role r = role \<and> untouched r) requires) (\<lambda>_.
     bind_result (require_provider (map_of (as_claims s1) attempt = None) consumed) (\<lambda>_.
     bind_result (insert_keyed s1 attempt True attempt (ti_task_id ti, pv_input r) (as_claims s1)) (\<lambda>rows.
     bind_result (pre_dispatch_failure_identity failure_role attempt) (\<lambda>pre.
     bind_result (persist_failure_admission ti attempt r c pre True (s1\<lparr>as_claims := rows\<rparr>)) (\<lambda>s2.
     Inr (s2, None))))))))))"

definition claim_dispatch :: "attempt_role \<Rightarrow> failure_role \<Rightarrow> string \<Rightarrow> string \<Rightarrow> attempt_world \<Rightarrow> task_identity \<Rightarrow> recovery_context \<Rightarrow> string
    \<Rightarrow> transition_lease option \<Rightarrow> int \<Rightarrow> attempt_store \<Rightarrow> attempt_store \<times> provider_attempt result" where
  "claim_dispatch role failure_role requires consumed w ti c attempt lease now s =
     (case bind_result (validate_context ti c) (\<lambda>_. provider_token attempt ''attempt identity'') of
        Inl e \<Rightarrow> (s, Inl e)
      | Inr _ \<Rightarrow> then_read (read_attempt w ti attempt (Some c) now)
          (run_transaction (Some (ProviderRecoveryError consumed)) s (claim_body role failure_role requires consumed w ti c attempt lease now s)))"

definition claim_supervisor_dispatch :: "attempt_world \<Rightarrow> task_identity \<Rightarrow> recovery_context \<Rightarrow> string \<Rightarrow> transition_lease option \<Rightarrow> int
    \<Rightarrow> attempt_store \<Rightarrow> attempt_store \<times> provider_attempt result" where
  "claim_supervisor_dispatch = claim_dispatch P_SUPERVISOR Role_SUPERVISOR
     ''Supervisor dispatch claim requires an unclaimed prepared attempt'' ''Supervisor dispatch claim is already consumed''"

definition claim_worker_dispatch :: "attempt_world \<Rightarrow> task_identity \<Rightarrow> recovery_context \<Rightarrow> string \<Rightarrow> transition_lease option \<Rightarrow> int
    \<Rightarrow> attempt_store \<Rightarrow> attempt_store \<times> provider_attempt result" where
  "claim_worker_dispatch = claim_dispatch P_WORKER Role_WORKER
     ''Worker dispatch claim requires an untouched prepared attempt'' ''Worker dispatch claim is already consumed''"

definition dispatch_claim_state :: "task_identity \<Rightarrow> string \<Rightarrow> provider_attempt \<Rightarrow> attempt_store \<Rightarrow> claim_state result" where
  "dispatch_claim_state ti attempt r s = (case map_of (as_claims s) attempt of
     None \<Rightarrow> Inr Claim_UNCLAIMED
   | Some claim \<Rightarrow> if claim \<noteq> (ti_task_id ti, pv_input r) then provider_error ''Supervisor dispatch claim has drifted'' else Inr Claim_CLAIMED)"

text \<open>
  The readers open the file read-only, so that a missing context, which \<open>_require_persisted_context\<close> would
  insert, is an \<open>OperationalError\<close> of the database library.
\<close>

definition read_dispatch_claim :: "attempt_role \<Rightarrow> string \<Rightarrow> attempt_world \<Rightarrow> task_identity \<Rightarrow> recovery_context \<Rightarrow> string \<Rightarrow> attempt_store \<Rightarrow> claim_state result" where
  "read_dispatch_claim role drifted w ti c attempt s =
     bind_result (validate_context ti c) (\<lambda>_.
     bind_result (provider_token attempt ''attempt identity'') (\<lambda>_.
     bind_result (require_task w ti) (\<lambda>_.
     bind_result (if map_of (as_contexts s) attempt = None then Inl (PyException ''sqlite3.OperationalError'') else persist_context attempt c s) (\<lambda>_.
     bind_result (attempt_row_of (ti_task_id ti) attempt s) (\<lambda>r.
     bind_result (require_provider (pv_role r = role) drifted) (\<lambda>_. dispatch_claim_state ti attempt r s))))))"

definition read_supervisor_dispatch_claim :: "attempt_world \<Rightarrow> task_identity \<Rightarrow> recovery_context \<Rightarrow> string \<Rightarrow> attempt_store \<Rightarrow> claim_state result" where
  "read_supervisor_dispatch_claim = read_dispatch_claim P_SUPERVISOR ''Supervisor dispatch claim has drifted''"

definition read_worker_dispatch_claim :: "attempt_world \<Rightarrow> task_identity \<Rightarrow> recovery_context \<Rightarrow> string \<Rightarrow> attempt_store \<Rightarrow> claim_state result" where
  "read_worker_dispatch_claim = read_dispatch_claim P_WORKER ''Worker dispatch claim has drifted''"

section \<open>Sessions, turns and outputs\<close>

definition guarded_transaction :: "unit result \<Rightarrow> py_error option \<Rightarrow> (attempt_store \<Rightarrow> provider_attempt result) \<Rightarrow> attempt_store
    \<Rightarrow> (attempt_store \<times> provider_attempt option) result \<Rightarrow> attempt_store \<times> provider_attempt result" where
  "guarded_transaction valid integrity reader s body = (case valid of
     Inl e \<Rightarrow> (s, Inl e) | Inr _ \<Rightarrow> then_read reader (run_transaction integrity s body))"

definition lease_and_enter :: "attempt_world \<Rightarrow> task_identity \<Rightarrow> recovery_context \<Rightarrow> string \<Rightarrow> transition_lease option \<Rightarrow> int \<Rightarrow> attempt_store
    \<Rightarrow> (attempt_store \<times> provider_attempt \<times> string) result" where
  "lease_and_enter w ti c attempt lease now s =
     bind_result (require_lease w lease ti now) (\<lambda>_. bind_result (require_task w ti) (\<lambda>_. enter_attempt ti c attempt now s))"

definition session_body :: "attempt_world \<Rightarrow> task_identity \<Rightarrow> recovery_context \<Rightarrow> string \<Rightarrow> string \<Rightarrow> transition_lease option \<Rightarrow> int
    \<Rightarrow> attempt_store \<Rightarrow> (attempt_store \<times> provider_attempt option) result" where
  "session_body w ti c attempt session lease now s =
     bind_result (lease_and_enter w ti c attempt lease now s) (\<lambda>(s1, r, authorization).
     bind_result (require_provider (pv_state r = At_PREPARED) ''session identity cannot be recorded for this attempt'') (\<lambda>_.
     bind_result (require_provider (pv_session r \<in> {None, Some session}) ''session identity replay conflicts with committed state'') (\<lambda>_.
     bind_result (require_session_reuse_allowed attempt r session s1) (\<lambda>_.
     let creating = (pv_session r = None); expected = (ti_task_id ti, session, checkpoint_fingerprint c authorization) in
     bind_result (if creating then put_attempt attempt (r\<lparr>pv_session := Some session\<rparr>) s1 else Inr s1) (\<lambda>s2.
     bind_result (persist_failure_admission ti attempt r c session creating s2) (\<lambda>s3.
     case map_of (as_sessions s3) attempt of
       None \<Rightarrow> bind_result (insert_keyed s3 attempt (0 < now) attempt expected (as_sessions s3)) (\<lambda>rows. Inr (s3\<lparr>as_sessions := rows\<rparr>, None))
     | Some row \<Rightarrow> if row \<noteq> expected then provider_error ''session checkpoint replay conflicts with committed state'' else Inr (s3, None)))))))"

definition record_session_identity :: "attempt_world \<Rightarrow> task_identity \<Rightarrow> recovery_context \<Rightarrow> string \<Rightarrow> string \<Rightarrow> transition_lease option \<Rightarrow> int
    \<Rightarrow> attempt_store \<Rightarrow> attempt_store \<times> provider_attempt result" where
  "record_session_identity w ti c attempt session lease now s = guarded_transaction
     (bind_result (validate_context ti c) (\<lambda>_. bind_result (provider_token attempt ''attempt identity'') (\<lambda>_. provider_token session ''session identity'')))
     (Some (ProviderRecoveryError ''session identity conflicts with committed state'')) (read_attempt w ti attempt None now) s
     (session_body w ti c attempt session lease now s)"

definition turn_body :: "attempt_world \<Rightarrow> task_identity \<Rightarrow> recovery_context \<Rightarrow> string \<Rightarrow> string \<Rightarrow> string \<Rightarrow> transition_lease option \<Rightarrow> int
    \<Rightarrow> attempt_store \<Rightarrow> (attempt_store \<times> provider_attempt option) result" where
  "turn_body w ti c attempt session turn lease now s =
     bind_result (lease_and_enter w ti c attempt lease now s) (\<lambda>(s1, r, authorization).
     if pv_state r = At_DISPATCHED \<and> (pv_session r, pv_turn r) = (Some session, Some turn)
     then bind_result (require_session_checkpoint (ti_task_id ti) attempt session c authorization s1) (\<lambda>_. Inr (s1, Some r))
     else bind_result (require_provider (pv_state r = At_PREPARED \<and> pv_session r = Some session) ''external turn identity cannot be replayed for this attempt'') (\<lambda>_.
       bind_result (require_session_checkpoint (ti_task_id ti) attempt session c authorization s1) (\<lambda>_.
       bind_result (put_attempt attempt (r\<lparr>pv_turn := Some turn, pv_state := At_DISPATCHED\<rparr>) s1) (\<lambda>s2.
       bind_result (add_checkpoint (ti_task_id ti) (pv_role r) ''after-dispatch'' attempt c authorization now s2) (\<lambda>s3. Inr (s3, None))))))"

definition record_external_turn :: "attempt_world \<Rightarrow> task_identity \<Rightarrow> recovery_context \<Rightarrow> string \<Rightarrow> string \<Rightarrow> string \<Rightarrow> transition_lease option \<Rightarrow> int
    \<Rightarrow> attempt_store \<Rightarrow> attempt_store \<times> provider_attempt result" where
  "record_external_turn w ti c attempt session turn lease now s = guarded_transaction
     (bind_result (validate_context ti c) (\<lambda>_. bind_result (provider_token attempt ''attempt identity'') (\<lambda>_.
        bind_result (provider_token session ''session identity'') (\<lambda>_. provider_token turn ''external turn identity''))))
     (Some (ProviderRecoveryError ''external turn identity conflicts with committed state'')) (read_attempt w ti attempt None now) s
     (turn_body w ti c attempt session turn lease now s)"

definition completion_body :: "attempt_world \<Rightarrow> task_identity \<Rightarrow> recovery_context \<Rightarrow> string \<Rightarrow> string \<Rightarrow> string \<Rightarrow> string \<Rightarrow> transition_lease option \<Rightarrow> int
    \<Rightarrow> attempt_store \<Rightarrow> (attempt_store \<times> provider_attempt option) result" where
  "completion_body w ti c attempt pointer evidence output lease now s =
     bind_result (lease_and_enter w ti c attempt lease now s) (\<lambda>(s1, r, authorization).
     let bound = map_of (as_outputs s1) attempt;
         bind_output = (\<lambda>t. bind_result (insert_keyed t attempt True attempt output (as_outputs t)) (\<lambda>rows. Inr (t\<lparr>as_outputs := rows\<rparr>, None))) in
     if pv_state r = At_COMPLETED then
       (if (pv_output r, pv_evidence r) \<noteq> (Some pointer, Some evidence) then provider_error ''completed output replay conflicts with committed state''
        else case bound of None \<Rightarrow> bind_output s1
          | Some b \<Rightarrow> if b \<noteq> output then provider_error ''completed output replay conflicts with committed content'' else Inr (s1, None))
     else if pv_state r = At_DISPATCHED then
       (if present (\<lambda>b. b \<noteq> output) bound then provider_error ''completed output conflicts with committed content''
        else bind_result (put_attempt attempt (r\<lparr>pv_output := Some pointer, pv_evidence := Some evidence, pv_state := At_COMPLETED\<rparr>) s1) (\<lambda>s2.
          if bound = None then bind_output s2 else Inr (s2, None)))
     else provider_error ''completed output requires a dispatched provider turn'')"

definition record_completed_output :: "attempt_world \<Rightarrow> task_identity \<Rightarrow> recovery_context \<Rightarrow> string \<Rightarrow> string \<Rightarrow> string \<Rightarrow> string \<Rightarrow> transition_lease option \<Rightarrow> int
    \<Rightarrow> attempt_store \<Rightarrow> attempt_store \<times> provider_attempt result" where
  "record_completed_output w ti c attempt pointer evidence output lease now s = guarded_transaction
     (bind_result (validate_context ti c) (\<lambda>_. bind_result (provider_token attempt ''attempt identity'') (\<lambda>_.
        bind_result (provider_token pointer ''output pointer'') (\<lambda>_. bind_result (provider_fingerprint evidence ''completion evidence fingerprint'') (\<lambda>_.
        if output \<noteq> [] then provider_fingerprint output ''output fingerprint'' else Inr ())))))
     None (read_attempt w ti attempt None now) s (completion_body w ti c attempt pointer evidence output lease now s)"

definition invalid_output_body :: "attempt_world \<Rightarrow> task_identity \<Rightarrow> recovery_context \<Rightarrow> string \<Rightarrow> string \<Rightarrow> string \<Rightarrow> string \<Rightarrow> transition_lease option \<Rightarrow> int
    \<Rightarrow> attempt_store \<Rightarrow> (attempt_store \<times> provider_attempt option) result" where
  "invalid_output_body w ti c attempt pointer output reason lease now s =
     bind_result (lease_and_enter w ti c attempt lease now s) (\<lambda>(s1, r, authorization).
     let existing = map snd (filter (\<lambda>(k, _). k = attempt) (as_invalid_outputs s1)) in
     if (output, reason) \<in> set existing \<and> pv_state r = At_AMBIGUOUS \<and> pv_output r = Some pointer then Inr (s1, Some r)
     else bind_result (require_provider (existing = []) ''invalid output replay conflicts with committed state'') (\<lambda>_.
       bind_result (require_provider (pv_state r = At_DISPATCHED) ''invalid output requires a dispatched provider turn'') (\<lambda>_.
       bind_result (put_attempt attempt (r\<lparr>pv_output := Some pointer, pv_state := At_AMBIGUOUS\<rparr>) s1) (\<lambda>s2.
       if now \<le> 0 then Inl PyIntegrityError
       else Inr (s2\<lparr>as_invalid_outputs := as_invalid_outputs s2 @ [(attempt, (output, reason))]\<rparr>, None)))))"

definition record_invalid_output :: "attempt_world \<Rightarrow> task_identity \<Rightarrow> recovery_context \<Rightarrow> string \<Rightarrow> string \<Rightarrow> string \<Rightarrow> string \<Rightarrow> transition_lease option \<Rightarrow> int
    \<Rightarrow> attempt_store \<Rightarrow> attempt_store \<times> provider_attempt result" where
  "record_invalid_output w ti c attempt pointer output reason lease now s = guarded_transaction
     (bind_result (validate_context ti c) (\<lambda>_. bind_result (provider_token attempt ''attempt identity'') (\<lambda>_.
        bind_result (provider_token pointer ''output pointer'') (\<lambda>_. bind_result (provider_fingerprint output ''output fingerprint'') (\<lambda>_.
        provider_fingerprint reason ''invalid output reason fingerprint'')))))
     None (read_attempt w ti attempt None now) s (invalid_output_body w ti c attempt pointer output reason lease now s)"

definition acceptance_body :: "attempt_world \<Rightarrow> task_identity \<Rightarrow> recovery_context \<Rightarrow> string \<Rightarrow> string \<Rightarrow> transition_lease option \<Rightarrow> int
    \<Rightarrow> attempt_store \<Rightarrow> (attempt_store \<times> provider_attempt option) result" where
  "acceptance_body w ti c attempt review lease now s =
     bind_result (lease_and_enter w ti c attempt lease now s) (\<lambda>(s1, r, authorization).
     bind_result (require_provider (accepted_review_kind w ti attempt r s1 = Kind_generic) ''generic supervisor acceptance requires generic review evidence'') (\<lambda>_.
     if pv_role r = P_SUPERVISOR \<and> pv_state r = At_ACCEPTED \<and> pv_accepted r = Some review
     then bind_result (require_accepted_supervisor_review ti attempt r c s1) (\<lambda>_. Inr (s1, Some r))
     else bind_result (require_provider (pv_role r = P_SUPERVISOR \<and> pv_state r = At_COMPLETED) ''only a completed supervisor attempt can be accepted'') (\<lambda>_.
       bind_result (require_provider (pv_profile r \<in> set (supervisor_profile_identities (rcx_runtime c))) ''accepted supervisor profile binding has drifted'') (\<lambda>_.
       bind_result (put_attempt attempt (r\<lparr>pv_accepted := Some review, pv_state := At_ACCEPTED\<rparr>) s1) (\<lambda>s2.
       if list_ex (\<lambda>(_, a). ap_attempt a = attempt) (as_accepted_reviews s2) \<or> pv_evidence r = None then Inl PyIntegrityError
       else bind_result (insert_keyed s2 attempt True review (accepted_review_values ti attempt r c) (as_accepted_reviews s2)) (\<lambda>rows.
         Inr (s2\<lparr>as_accepted_reviews := rows\<rparr>, None)))))))"

definition accept_supervisor_review :: "attempt_world \<Rightarrow> task_identity \<Rightarrow> recovery_context \<Rightarrow> string \<Rightarrow> string \<Rightarrow> transition_lease option \<Rightarrow> int
    \<Rightarrow> attempt_store \<Rightarrow> attempt_store \<times> provider_attempt result" where
  "accept_supervisor_review w ti c attempt review lease now s = guarded_transaction
     (bind_result (validate_context ti c) (\<lambda>_. bind_result (provider_token attempt ''attempt identity'') (\<lambda>_. provider_token review ''accepted review identity'')))
     (Some (ProviderRecoveryError ''accepted review identity conflicts with committed state'')) (read_attempt w ti attempt (Some c) now) s
     (acceptance_body w ti c attempt review lease now s)"

section \<open>Terminal records\<close>

definition all_actions :: "attempt_action list" where
  "all_actions = [Do_RETRY, Do_RESUME_SAME_SESSION, Do_CONSUME_VERIFIED_OUTPUT, Do_ACCEPTED_REVIEW, Do_BLOCKED_AMBIGUOUS_TURN, Do_BLOCKED_STALE_WORKER,
     Do_FRESH_SUPERVISOR_SESSION, Do_BLOCKED_RETRY_LIMIT, Do_BLOCKED_IDENTITY_DRIFT]"

definition read_recovery_outcome :: "string \<Rightarrow> attempt_store \<Rightarrow> (attempt_action \<times> string option) option result" where
  "read_recovery_outcome attempt s = (case map_of (as_outcomes s) attempt of
     None \<Rightarrow> Inr None
   | Some (action, blocker) \<Rightarrow> (case enum_of all_actions action_value action of
       None \<Rightarrow> provider_error ''persisted recovery outcome is malformed'' | Some a \<Rightarrow> Inr (Some (a, blocker))))"

definition persist_recovery_outcome :: "string \<Rightarrow> attempt_action \<Rightarrow> string \<Rightarrow> int \<Rightarrow> attempt_store \<Rightarrow> attempt_store result" where
  "persist_recovery_outcome attempt action blocker observed s = (case map_of (as_outcomes s) attempt of
     None \<Rightarrow> bind_result (insert_keyed s attempt (0 < observed) attempt (action_value action, Some blocker) (as_outcomes s)) (\<lambda>rows. Inr (s\<lparr>as_outcomes := rows\<rparr>))
   | Some row \<Rightarrow> if row \<noteq> (action_value action, Some blocker) then provider_error ''recovery outcome conflicts with committed state'' else Inr s)"

text \<open>The state, the outcome and the event of a terminal decision.\<close>

definition settle :: "task_identity \<Rightarrow> string \<Rightarrow> attempt_action \<Rightarrow> string \<Rightarrow> int \<Rightarrow> attempt_store \<Rightarrow> attempt_store result" where
  "settle ti attempt action blocker observed s =
     bind_result (persist_recovery_outcome attempt action blocker observed s) (\<lambda>s1. add_event (ti_task_id ti) attempt action observed s1)"

record recovery_projection =
  rj_attempt_id :: string
  rj_role :: attempt_role
  rj_state :: attempt_state
  rj_lease_id :: string
  rj_session :: "string option"
  rj_turn :: "string option"
  rj_output_available :: bool
  rj_accepted :: "string option"
  rj_blocker :: "string option"
  rj_next_action :: attempt_action

definition recovery_projection_of :: "string \<Rightarrow> provider_attempt \<Rightarrow> attempt_action \<Rightarrow> string option \<Rightarrow> recovery_projection" where
  "recovery_projection_of attempt r action blocker =
     \<lparr>rj_attempt_id = attempt, rj_role = pv_role r, rj_state = pv_state r, rj_lease_id = pv_lease_id r, rj_session = pv_session r, rj_turn = pv_turn r,
      rj_output_available = (pv_output r \<noteq> None \<and> pv_evidence r \<noteq> None), rj_accepted = pv_accepted r, rj_blocker = blocker, rj_next_action = action\<rparr>"

definition valid_context_and_token :: "task_identity \<Rightarrow> recovery_context \<Rightarrow> string \<Rightarrow> unit result" where
  "valid_context_and_token ti c attempt = bind_result (validate_context ti c) (\<lambda>_. provider_token attempt ''attempt identity'')"

definition invalidate_body :: "attempt_world \<Rightarrow> task_identity \<Rightarrow> recovery_context \<Rightarrow> string \<Rightarrow> transition_lease option \<Rightarrow> int
    \<Rightarrow> attempt_store \<Rightarrow> (attempt_store \<times> provider_attempt) result" where
  "invalidate_body w ti c attempt lease now s =
     bind_result (lease_and_enter w ti c attempt lease now s) (\<lambda>(s1, r, authorization).
     bind_result (require_provider (pv_role r = P_SUPERVISOR) ''only a Supervisor attempt can be invalidated'') (\<lambda>_.
     if pv_state r = At_ACCEPTED then Inr (s1, r)
     else let r' = r\<lparr>pv_state := At_INVALIDATED\<rparr> in
       bind_result (if pv_state r \<noteq> At_INVALIDATED then put_attempt attempt r' s1 else Inr s1) (\<lambda>s2.
       bind_result (settle ti attempt Do_FRESH_SUPERVISOR_SESSION ''partial-supervisor-review'' now s2) (\<lambda>s3. Inr (s3, r')))))"

definition invalidate_supervisor_attempt :: "attempt_world \<Rightarrow> task_identity \<Rightarrow> recovery_context \<Rightarrow> string \<Rightarrow> transition_lease option \<Rightarrow> int
    \<Rightarrow> attempt_store \<Rightarrow> attempt_store \<times> provider_attempt result" where
  "invalidate_supervisor_attempt w ti c attempt lease now s = (case valid_context_and_token ti c attempt of
     Inl e \<Rightarrow> (s, Inl e) | Inr _ \<Rightarrow> run_transaction None s (invalidate_body w ti c attempt lease now s))"

definition claim_held :: "task_identity \<Rightarrow> string \<Rightarrow> provider_attempt \<Rightarrow> attempt_store \<Rightarrow> bool" where
  "claim_held ti attempt r s \<longleftrightarrow> map_of (as_claims s) attempt = Some (ti_task_id ti, pv_input r)"

text \<open>The failure record of a Supervisor turn, classified from the native failure and stored in the ledger.\<close>

definition record_supervisor_failure :: "attempt_world \<Rightarrow> task_identity \<Rightarrow> recovery_context \<Rightarrow> string \<Rightarrow> provider_attempt \<Rightarrow> string \<Rightarrow> codex_failure \<Rightarrow> int
    \<Rightarrow> attempt_store \<Rightarrow> attempt_store result" where
  "record_supervisor_failure w ti c attempt r session failure now s =
     bind_result (make_failure_binding \<lparr>fb_candidate_sha = (case rcx_candidate_sha c of Some sha \<Rightarrow> sha | None \<Rightarrow> ti_base_sha ti),
         fb_policy_digest = ''sha256:'' @ rcx_policy c, fb_configuration_digest = resolved_digest (rcx_runtime c),
         fb_authority_scope = ''supervisor:'' @ ti_task_id ti, fb_role = Role_SUPERVISOR, fb_profile_identity = pv_profile r,
         fb_session_identity = session, fb_attempt_identity = attempt\<rparr>) (\<lambda>b.
     bind_result (classify_native_failure Role_SUPERVISOR b (Some (codex_failure_value failure))) (\<lambda>rec.
     bind_result (record_durable_failure (aw_recovery w s) ti rec now (as_failures s)) (\<lambda>(ledger, digest).
     Inr (s\<lparr>as_failures := ledger\<rparr>))))"

definition terminal_blocker :: "terminal_failure \<Rightarrow> string" where
  "terminal_blocker f = ''terminal-failure:'' @ terminal_source_value (tf_source f) @ '':'' @ codex_failure_value (tf_class f) @ '':'' @ sdk_category_value (tf_category f)"

definition nonempty :: "string option \<Rightarrow> string option" where
  "nonempty t = (if t = Some [] then None else t)"

definition terminal_identity :: "task_identity \<Rightarrow> recovery_context \<Rightarrow> string \<Rightarrow> provider_attempt \<Rightarrow> string \<Rightarrow> string option \<Rightarrow> string \<Rightarrow> attempt_store \<Rightarrow> unit result" where
  "terminal_identity ti c attempt r session turn authorization s =
     bind_result (pre_dispatch_failure_identity Role_SUPERVISOR attempt) (\<lambda>pre.
     if session = pre then require_provider (pv_session r = None \<and> turn = None \<and> pv_turn r = None) ''terminal failure pre-dispatch identity has drifted''
     else bind_result (require_provider (pv_session r = Some session) ''terminal failure session identity has drifted'') (\<lambda>_.
       bind_result (require_session_checkpoint (ti_task_id ti) attempt session c authorization s) (\<lambda>_.
       require_provider (pv_turn r = turn) ''terminal failure turn identity has drifted'')))"

definition terminal_body :: "attempt_world \<Rightarrow> task_identity \<Rightarrow> recovery_context \<Rightarrow> string \<Rightarrow> string option \<Rightarrow> string option \<Rightarrow> terminal_failure
    \<Rightarrow> transition_lease option \<Rightarrow> int \<Rightarrow> attempt_store \<Rightarrow> (attempt_store \<times> provider_attempt) result" where
  "terminal_body w ti c attempt session_arg turn_arg failure lease now s =
     bind_result (lease_and_enter w ti c attempt lease now s) (\<lambda>(s1, r, authorization).
     bind_result (require_provider (pv_role r = P_SUPERVISOR) ''terminal failure requires a Supervisor attempt'') (\<lambda>_.
     bind_result (require_provider (claim_held ti attempt r s1) ''terminal failure dispatch claim is unavailable'') (\<lambda>_.
     let legacy = (session_arg = None \<and> turn_arg = None);
         observed_session = (case nonempty session_arg of Some t \<Rightarrow> Some t | None \<Rightarrow> pv_session r);
         observed_turn = (if legacy then pv_turn r else turn_arg) in
     bind_result (require_provider (present is_recovery_token observed_session) ''terminal failure session identity is invalid'') (\<lambda>_.
     let session = the observed_session in
     bind_result (terminal_identity ti c attempt r session observed_turn authorization s1) (\<lambda>_.
     bind_result (require_provider (case rcx_candidate_sha c of None \<Rightarrow> False
         | Some sha \<Rightarrow> map_of (as_admissions s1) attempt = Some (admission_of ti attempt r c sha session)) ''terminal failure admission has drifted'') (\<lambda>_.
     if pv_state r = At_INVALIDATED then
       bind_result (read_recovery_outcome attempt s1) (\<lambda>outcome.
       bind_result (require_provider (outcome = Some (Do_FRESH_SUPERVISOR_SESSION, Some (terminal_blocker failure))) ''terminal failure conflicts with committed state'') (\<lambda>_.
       Inr (s1, r)))
     else
       bind_result (require_provider (pv_state r = (if observed_turn \<noteq> None then At_DISPATCHED else At_PREPARED)) ''terminal failure requires an unsettled Supervisor attempt'') (\<lambda>_.
       bind_result (require_provider (map_of (as_invalid_outputs s1) attempt = None) ''terminal failure conflicts with invalid output'') (\<lambda>_.
       let r' = r\<lparr>pv_state := At_INVALIDATED\<rparr> in
       bind_result (put_attempt attempt r' s1) (\<lambda>s2.
       bind_result (record_supervisor_failure w ti c attempt r' session (tf_class failure) now s2) (\<lambda>s3.
       bind_result (settle ti attempt Do_FRESH_SUPERVISOR_SESSION (terminal_blocker failure) now s3) (\<lambda>s4. Inr (s4, r'))))))))))))"

definition record_supervisor_terminal_failure :: "attempt_world \<Rightarrow> task_identity \<Rightarrow> recovery_context \<Rightarrow> string \<Rightarrow> string option \<Rightarrow> string option \<Rightarrow> terminal_failure
    \<Rightarrow> transition_lease option \<Rightarrow> int \<Rightarrow> attempt_store \<Rightarrow> attempt_store \<times> provider_attempt result" where
  "record_supervisor_terminal_failure w ti c attempt session_arg turn_arg failure lease now s =
     (case bind_result (valid_context_and_token ti c attempt) (\<lambda>_.
        require_provider (tf_source failure = SDK_TURN_FAILED) ''terminal failure projection is invalid'') of
        Inl e \<Rightarrow> (s, Inl e)
      | Inr _ \<Rightarrow> run_transaction None s (terminal_body w ti c attempt session_arg turn_arg failure lease now s))"

definition scope_denial_body :: "attempt_world \<Rightarrow> task_identity \<Rightarrow> recovery_context \<Rightarrow> string \<Rightarrow> string \<Rightarrow> transition_lease option \<Rightarrow> int
    \<Rightarrow> attempt_store \<Rightarrow> (attempt_store \<times> provider_attempt) result" where
  "scope_denial_body w ti c attempt session lease now s =
     bind_result (lease_and_enter w ti c attempt lease now s) (\<lambda>(s1, r, authorization).
     bind_result (require_provider (pv_role r = P_SUPERVISOR) ''scope denial requires a Supervisor attempt'') (\<lambda>_.
     bind_result (require_provider (claim_held ti attempt r s1) ''scope denial dispatch claim is unavailable'') (\<lambda>_.
     bind_result (pre_dispatch_failure_identity Role_SUPERVISOR attempt) (\<lambda>pre.
     bind_result (if session = pre
         then require_provider (pv_session r = None \<and> map_of (as_sessions s1) attempt = None) ''scope denial pre-dispatch identity has drifted''
         else bind_result (require_provider (pv_session r = Some session) ''scope denial session identity has drifted'') (\<lambda>_.
           require_session_checkpoint (ti_task_id ti) attempt session c authorization s1)) (\<lambda>_.
     if pv_state r = At_BLOCKED then
       bind_result (read_recovery_outcome attempt s1) (\<lambda>outcome.
       bind_result (require_provider (outcome = Some (Do_BLOCKED_AMBIGUOUS_TURN, Some ''scope-stopped'')) ''scope denial conflicts with committed state'') (\<lambda>_. Inr (s1, r)))
     else
       bind_result (require_provider (pv_state r \<in> {At_PREPARED, At_DISPATCHED}) ''scope denial requires an unsettled Supervisor attempt'') (\<lambda>_.
       bind_result (record_supervisor_failure w ti c attempt r session SANDBOX_OR_APPROVAL_DENIED now s1) (\<lambda>s2.
       let r' = r\<lparr>pv_state := At_BLOCKED\<rparr> in
       bind_result (put_attempt attempt r' s2) (\<lambda>s3.
       bind_result (settle ti attempt Do_BLOCKED_AMBIGUOUS_TURN ''scope-stopped'' now s3) (\<lambda>s4. Inr (s4, r'))))))))))"

definition record_supervisor_scope_denial :: "attempt_world \<Rightarrow> task_identity \<Rightarrow> recovery_context \<Rightarrow> string \<Rightarrow> string \<Rightarrow> transition_lease option \<Rightarrow> int
    \<Rightarrow> attempt_store \<Rightarrow> attempt_store \<times> provider_attempt result" where
  "record_supervisor_scope_denial w ti c attempt session lease now s =
     (case bind_result (valid_context_and_token ti c attempt) (\<lambda>_.
        require_provider (is_recovery_token session) ''Supervisor scope denial identity is invalid'') of
        Inl e \<Rightarrow> (s, Inl e)
      | Inr _ \<Rightarrow> run_transaction None s (scope_denial_body w ti c attempt session lease now s))"

definition terminal_failure_from_outcome :: "attempt_state \<Rightarrow> (attempt_action \<times> string option) option \<Rightarrow> terminal_failure option result" where
  "terminal_failure_from_outcome state outcome = (case outcome of
     Some (Do_FRESH_SUPERVISOR_SESSION, Some blocker) \<Rightarrow>
       if state \<noteq> At_INVALIDATED then Inr None
       else (case py_split CHR '':'' blocker of
         [kind, src, failure, category] \<Rightarrow>
           if kind \<noteq> ''terminal-failure'' then Inr None
           else (case (enum_of all_codex_failures codex_failure_value failure, enum_of [SDK_TURN_FAILED, SCOPE_ADMISSION_DENIED] terminal_source_value src,
               enum_of all_sdk_categories sdk_category_value category) of
             (Some f, Some t, Some k) \<Rightarrow>
               if t \<noteq> SDK_TURN_FAILED then provider_error ''terminal failure projection is invalid''
               else Inr (Some \<lparr>tf_class = f, tf_source = t, tf_category = k\<rparr>)
           | _ \<Rightarrow> provider_error ''terminal failure projection is invalid'')
       | _ \<Rightarrow> Inr None)
   | _ \<Rightarrow> Inr None)"

definition read_supervisor_terminal_failure :: "attempt_world \<Rightarrow> task_identity \<Rightarrow> string \<Rightarrow> attempt_store \<Rightarrow> terminal_failure option result" where
  "read_supervisor_terminal_failure w ti attempt s =
     bind_result (provider_token attempt ''attempt identity'') (\<lambda>_.
     bind_result (require_task w ti) (\<lambda>_.
     bind_result (attempt_row_of (ti_task_id ti) attempt s) (\<lambda>r.
     bind_result (read_recovery_outcome attempt s) (\<lambda>outcome. terminal_failure_from_outcome (pv_state r) outcome))))"

definition block_body :: "(provider_attempt \<Rightarrow> unit result) \<Rightarrow> string \<Rightarrow> string \<Rightarrow> attempt_state \<Rightarrow> string \<Rightarrow> task_identity \<Rightarrow> string \<Rightarrow> int \<Rightarrow> (attempt_store \<Rightarrow> unit result)
    \<Rightarrow> attempt_store \<Rightarrow> provider_attempt \<Rightarrow> (attempt_store \<times> recovery_projection) result" where
  "block_body entry conflicts requires expected blocker ti attempt now unsettled s1 r =
     bind_result (entry r) (\<lambda>_.
     if pv_state r = At_BLOCKED then
       bind_result (read_recovery_outcome attempt s1) (\<lambda>outcome.
       bind_result (require_provider (outcome = Some (Do_BLOCKED_AMBIGUOUS_TURN, Some blocker)) conflicts) (\<lambda>_.
       Inr (s1, recovery_projection_of attempt r Do_BLOCKED_AMBIGUOUS_TURN (Some blocker))))
     else
       bind_result (require_provider (pv_state r = expected) requires) (\<lambda>_.
       bind_result (unsettled s1) (\<lambda>_.
       let r' = r\<lparr>pv_state := At_BLOCKED\<rparr> in
       bind_result (put_attempt attempt r' s1) (\<lambda>s2.
       bind_result (settle ti attempt Do_BLOCKED_AMBIGUOUS_TURN blocker now s2) (\<lambda>s3.
       Inr (s3, recovery_projection_of attempt r' Do_BLOCKED_AMBIGUOUS_TURN (Some blocker)))))))"

text \<open>The single member of \<open>SupervisorAccountingBlocker\<close>.\<close>

definition ACCOUNTING_INCOMPLETE :: string where
  "ACCOUNTING_INCOMPLETE = ''provider-accounting-incomplete''"

definition record_supervisor_accounting_blocker :: "attempt_world \<Rightarrow> task_identity \<Rightarrow> recovery_context \<Rightarrow> string \<Rightarrow> transition_lease option \<Rightarrow> int
    \<Rightarrow> attempt_store \<Rightarrow> attempt_store \<times> recovery_projection result" where
  "record_supervisor_accounting_blocker w ti c attempt lease now s = (case valid_context_and_token ti c attempt of
     Inl e \<Rightarrow> (s, Inl e)
   | Inr _ \<Rightarrow> run_transaction None s (bind_result (lease_and_enter w ti c attempt lease now s) (\<lambda>(s1, r, authorization).
       block_body (\<lambda>r. require_provider (pv_role r = P_SUPERVISOR \<and> pv_turn r \<noteq> None) ''accounting blocker requires a dispatched Supervisor turn'')
         ''accounting blocker conflicts with committed state'' ''accounting blocker requires an unsettled Supervisor turn'' At_DISPATCHED ACCOUNTING_INCOMPLETE
         ti attempt now (\<lambda>t. require_provider (map_of (as_invalid_outputs t) attempt = None) ''accounting blocker conflicts with invalid output'') s1 r)))"

definition block_session_without_turn :: "attempt_world \<Rightarrow> task_identity \<Rightarrow> recovery_context \<Rightarrow> string \<Rightarrow> transition_lease option \<Rightarrow> int
    \<Rightarrow> attempt_store \<Rightarrow> attempt_store \<times> recovery_projection result" where
  "block_session_without_turn w ti c attempt lease now s = (case valid_context_and_token ti c attempt of
     Inl e \<Rightarrow> (s, Inl e)
   | Inr _ \<Rightarrow> run_transaction None s (bind_result (lease_and_enter w ti c attempt lease now s) (\<lambda>(s1, r, authorization).
       block_body (\<lambda>r.
           bind_result (require_provider (pv_role r = P_SUPERVISOR) ''only a Supervisor session can be blocked before a turn'') (\<lambda>_.
           bind_result (require_provider (pv_session r \<noteq> None \<and> pv_turn r = None) ''session-without-turn reconciliation requires exactly one session checkpoint'') (\<lambda>_.
           require_session_checkpoint (ti_task_id ti) attempt (the (pv_session r)) c authorization s1)))
         ''session-without-turn reconciliation conflicts with committed state'' ''session-without-turn reconciliation requires a prepared attempt''
         At_PREPARED ''session-without-turn'' ti attempt now (\<lambda>_. Inr ()) s1 r)))"

end
