(* ===== verification/Provider_Recovery.thy ===== *)
theory Provider_Recovery
  imports Provider_Attempts
begin

text \<open>
  \<open>recover_attempt\<close> of \<open>provider_recovery.py\<close>: the one decision about an attempt after a restart, with
  everything it writes in its transaction, and the authentication of a complete dispatch
  (\<open>_require_complete_provider_dispatch_binding\<close>).
\<close>

definition abandonment_state :: "provider_attempt \<Rightarrow> attempt_state" where
  "abandonment_state r = (if pv_turn r \<noteq> None then At_AMBIGUOUS else At_BLOCKED)"

type_synonym recovery_decision = "attempt_action \<times> string option \<times> attempt_state option"

definition attempt_count :: "string \<Rightarrow> attempt_role \<Rightarrow> attempt_store \<Rightarrow> int" where
  "attempt_count task role s = int (length (filter (\<lambda>(_, q). pv_task q = task \<and> pv_role q = role) (as_attempts s)))"

text \<open>An expired process lease of a worker or a supervisor; other roles have no such rule.\<close>

definition stale_decision :: "provider_attempt \<Rightarrow> int \<Rightarrow> recovery_decision option" where
  "stale_decision r observed =
     (if pv_lease_expires_at r \<le> observed then
        (case pv_role r of
           P_WORKER \<Rightarrow> Some (Do_BLOCKED_STALE_WORKER, Some ''stale-worker-process-lease'', Some At_BLOCKED)
         | P_SUPERVISOR \<Rightarrow> Some (Do_FRESH_SUPERVISOR_SESSION, Some ''stale-supervisor-process-lease'', Some At_INVALIDATED)
         | _ \<Rightarrow> None)
      else None)"

definition recovery_outcome :: "string \<Rightarrow> provider_attempt \<Rightarrow> string option \<Rightarrow> int \<Rightarrow> int \<Rightarrow> attempt_store \<Rightarrow> recovery_decision result" where
  "recovery_outcome attempt r verified max_attempts observed s =
     (if pv_state r = At_ACCEPTED then
        Inr (if has_prefix ''diff-review:'' (pv_output r)
             then (Do_FRESH_SUPERVISOR_SESSION, Some ''candidate-review-revalidation-required'', Some At_INVALIDATED)
             else (Do_ACCEPTED_REVIEW, None, None))
      else if pv_state r \<in> {At_COMPLETED, At_AMBIGUOUS} \<and> pv_evidence r \<noteq> None then
        Inr (if verified = pv_evidence r
             then (Do_CONSUME_VERIFIED_OUTPUT, None, if pv_state r = At_AMBIGUOUS then Some At_COMPLETED else None)
             else (Do_BLOCKED_AMBIGUOUS_TURN, Some ''completion-evidence-unverified'', if pv_state r = At_COMPLETED then Some At_AMBIGUOUS else None))
      else bind_result (read_recovery_outcome attempt s) (\<lambda>outcome.
        case (pv_state r, outcome) of
          (At_BLOCKED, Some (action, blocker)) \<Rightarrow> Inr (action, blocker, None)
        | (At_AMBIGUOUS, Some (action, blocker)) \<Rightarrow> Inr (action, blocker, None)
        | (At_AMBIGUOUS, None) \<Rightarrow> Inr (Do_BLOCKED_AMBIGUOUS_TURN, Some ''external-turn-ambiguous'', None)
        | (At_INVALIDATED, Some (action, blocker)) \<Rightarrow> Inr (action, blocker, None)
        | (At_INVALIDATED, None) \<Rightarrow> Inr (Do_FRESH_SUPERVISOR_SESSION, Some ''supervisor-session-invalidated'', None)
        | (At_PREPARED, _) \<Rightarrow> Inr (
            if pv_session r \<noteq> None then (case stale_decision r observed of Some d \<Rightarrow> d | None \<Rightarrow> (Do_RESUME_SAME_SESSION, None, None))
            else if attempt_count (pv_task r) (pv_role r) s \<ge> max_attempts then (Do_BLOCKED_RETRY_LIMIT, Some ''retry-limit-reached'', Some At_BLOCKED)
            else (Do_RETRY, None, None))
        | (At_DISPATCHED, _) \<Rightarrow> Inr (case stale_decision r observed of Some d \<Rightarrow> d
            | None \<Rightarrow> (Do_BLOCKED_AMBIGUOUS_TURN, Some ''external-turn-ambiguous'', Some At_AMBIGUOUS))
        | _ \<Rightarrow> provider_error ''provider attempt state is invalid''))"

definition terminal_worker_abandonment :: "attempt_action \<Rightarrow> string option \<Rightarrow> bool" where
  "terminal_worker_abandonment action blocker \<longleftrightarrow>
     action \<in> {Do_BLOCKED_STALE_WORKER, Do_BLOCKED_IDENTITY_DRIFT, Do_BLOCKED_RETRY_LIMIT}
     \<or> action = Do_BLOCKED_AMBIGUOUS_TURN \<and> blocker \<noteq> Some ''completion-evidence-unverified''"

text \<open>The three statements of \<open>_stale_unvalidated_diff_review\<close>; the row was read as accepted.\<close>

definition stale_diff_review :: "task_identity \<Rightarrow> string \<Rightarrow> provider_attempt \<Rightarrow> attempt_store \<Rightarrow> attempt_store result" where
  "stale_diff_review ti attempt r s =
     bind_result (put_attempt attempt (r\<lparr>pv_state := At_INVALIDATED, pv_accepted := None\<rparr>)
         (s\<lparr>as_accepted_reviews := filter (\<lambda>(_, a). ap_attempt a \<noteq> attempt) (as_accepted_reviews s)\<rparr>)) (\<lambda>s1.
     Inr (s1\<lparr>as_diff_reviews := map (\<lambda>(k, d).
         if df_task d = ti_task_id ti \<and> df_attempt d = attempt \<and> df_state d = ''accepted'' then (k, d\<lparr>df_state := ''recorded'', df_accepted := None\<rparr>) else (k, d))
       (as_diff_reviews s1)\<rparr>))"

definition decide_recovery :: "attempt_world \<Rightarrow> task_identity \<Rightarrow> recovery_context \<Rightarrow> string \<Rightarrow> provider_attempt \<Rightarrow> string option \<Rightarrow> int \<Rightarrow> int \<Rightarrow> attempt_store
    \<Rightarrow> recovery_decision result" where
  "decide_recovery w ti c attempt r verified max_attempts observed s =
     (if \<not> context_matches ti attempt c s then Inr (Do_BLOCKED_IDENTITY_DRIFT, Some ''identity-drift'', Some (abandonment_state r))
      else bind_result (validate_context ti c) (\<lambda>_.
        bind_result (require_persisted_health_authorization False attempt c (pv_role r) (pv_profile r) observed s) (\<lambda>authorization.
        let kind = accepted_review_kind w ti attempt r s in
        bind_result (require_provider (kind \<noteq> Kind_invalid) ''accepted supervisor review is invalid'') (\<lambda>_.
        bind_result (if kind = Kind_generic \<and> pv_state r = At_ACCEPTED then require_accepted_supervisor_review ti attempt r c s else Inr ()) (\<lambda>_.
        if pv_state r = At_PREPARED \<and> pv_session r \<noteq> None
            \<and> require_session_checkpoint (ti_task_id ti) attempt (the (pv_session r)) c authorization s \<noteq> Inr ()
        then Inr (Do_BLOCKED_AMBIGUOUS_TURN, Some ''session-checkpoint-unavailable'', Some (abandonment_state r))
        else recovery_outcome attempt r verified max_attempts observed s)))))"

definition cancel_abandoned :: "attempt_world \<Rightarrow> task_identity \<Rightarrow> string \<Rightarrow> provider_attempt \<Rightarrow> attempt_action \<Rightarrow> string option \<Rightarrow> attempt_store \<Rightarrow> attempt_store result" where
  "cancel_abandoned w ti attempt r action blocker s =
     (if pv_role r = P_WORKER \<and> terminal_worker_abandonment action blocker
      then bind_result (ascii_digest (join_units [''worker-objective-recovery/v1'', attempt, action_value action, optional_text blocker])) (\<lambda>reason.
        bind_result (cancel_objective_for_recovery_connection (review_view w s) ti attempt reason (as_reviews s)) (\<lambda>(reviews, _).
        Inr (s\<lparr>as_reviews := reviews\<rparr>)))
      else Inr s)"

definition recovery_body :: "attempt_world \<Rightarrow> task_identity \<Rightarrow> recovery_context \<Rightarrow> string \<Rightarrow> string option \<Rightarrow> int \<Rightarrow> transition_lease option \<Rightarrow> int
    \<Rightarrow> attempt_store \<Rightarrow> (attempt_store \<times> recovery_projection) result" where
  "recovery_body w ti c attempt verified max_attempts lease now s =
     bind_result (require_lease w lease ti now) (\<lambda>_.
     bind_result (require_task w ti) (\<lambda>_.
     bind_result (attempt_row_of (ti_task_id ti) attempt s) (\<lambda>r.
     bind_result (decide_recovery w ti c attempt r verified max_attempts now s) (\<lambda>(action, blocker, target).
     let stale = (pv_state r = At_ACCEPTED \<and> has_prefix ''diff-review:'' (pv_output r));
         r1 = (if stale then r\<lparr>pv_state := At_INVALIDATED, pv_accepted := None\<rparr> else r) in
     bind_result (if stale then stale_diff_review ti attempt r s else Inr s) (\<lambda>s1.
     let r2 = (case target of None \<Rightarrow> r1 | Some x \<Rightarrow> r1\<lparr>pv_state := x\<rparr>) in
     bind_result (if r2 \<noteq> r1 then put_attempt attempt r2 s1 else Inr s1) (\<lambda>s2.
     bind_result (case blocker of None \<Rightarrow> Inr s2 | Some b \<Rightarrow> persist_recovery_outcome attempt action b now s2) (\<lambda>s3.
     bind_result (cancel_abandoned w ti attempt r2 action blocker s3) (\<lambda>s4.
     bind_result (add_event (ti_task_id ti) attempt action now s4) (\<lambda>s5.
     Inr (s5, recovery_projection_of attempt r2 action blocker))))))))))"

definition recover_attempt :: "attempt_world \<Rightarrow> task_identity \<Rightarrow> recovery_context \<Rightarrow> string \<Rightarrow> string option \<Rightarrow> int \<Rightarrow> transition_lease option \<Rightarrow> int
    \<Rightarrow> attempt_store \<Rightarrow> attempt_store \<times> recovery_projection result" where
  "recover_attempt w ti c attempt verified max_attempts lease now s =
     (case bind_result (provider_token attempt ''attempt identity'') (\<lambda>_.
        bind_result (require_provider (1 \<le> max_attempts) ''attempt limit is invalid'') (\<lambda>_.
        case verified of None \<Rightarrow> Inr () | Some v \<Rightarrow> provider_fingerprint v ''verified completion evidence'')) of
        Inl e \<Rightarrow> (s, Inl e)
      | Inr _ \<Rightarrow> run_transaction None s (recovery_body w ti c attempt verified max_attempts lease now s))"

section \<open>The complete dispatch chain\<close>

definition complete_dispatch_binding :: "task_identity \<Rightarrow> recovery_context \<Rightarrow> string \<Rightarrow> attempt_role \<Rightarrow> string \<Rightarrow> string \<Rightarrow> string \<Rightarrow> string \<Rightarrow> int \<Rightarrow> attempt_store
    \<Rightarrow> provider_attempt result" where
  "complete_dispatch_binding ti c attempt role profile session turn input observed s =
     bind_result (validate_context ti c) (\<lambda>_.
     bind_result (provider_token attempt ''attempt identity'') (\<lambda>_.
     bind_result (provider_token profile ''provider profile identity'') (\<lambda>_.
     bind_result (provider_token session ''session identity'') (\<lambda>_.
     bind_result (provider_token turn ''external turn identity'') (\<lambda>_.
     bind_result (provider_fingerprint input ''provider input fingerprint'') (\<lambda>_.
     bind_result (require_runtime_binding (ti_task_id ti) (rcx_runtime c) s) (\<lambda>_.
     bind_result (require_provider (context_matches ti attempt c s) ''provider dispatch context is unavailable or has drifted'') (\<lambda>_.
     bind_result (attempt_row_of (ti_task_id ti) attempt s) (\<lambda>r.
     bind_result (require_provider (pv_role r = role \<and> pv_profile r = profile \<and> pv_session r = Some session \<and> pv_turn r = Some turn \<and> pv_input r = input
         \<and> pv_state r \<noteq> At_PREPARED) ''provider dispatch attempt is unavailable or has drifted'') (\<lambda>_.
     bind_result (require_persisted_health_authorization True attempt c role profile observed s) (\<lambda>authorization.
     bind_result (require_provider (map_of (as_claims s) attempt = Some (ti_task_id ti, input)) ''provider dispatch claim is unavailable or has drifted'') (\<lambda>_.
     bind_result (require_session_checkpoint (ti_task_id ti) attempt session c authorization s) (\<lambda>_.
     bind_result (require_provider (map_of (as_checkpoints s) (checkpoint_id attempt ''after-dispatch'')
         = Some (ti_task_id ti, attempt_role_value role, ''after-dispatch'', checkpoint_fingerprint c authorization))
       ''provider after-dispatch checkpoint is unavailable or has drifted'') (\<lambda>_.
     bind_result (require_provider (case rcx_candidate_sha c of None \<Rightarrow> False
         | Some sha \<Rightarrow> map_of (as_admissions s) attempt = Some (admission_of ti attempt r c sha session)) ''provider failure admission is unavailable or has drifted'') (\<lambda>_.
     Inr r)))))))))))))))"

end
