(* ===== verification/Attempt_Effects.thy ===== *)
theory Attempt_Effects
  imports Provider_Recovery
begin

text \<open>
  What the operations of \<open>Provider_Attempts\<close> and \<open>Provider_Recovery\<close> do to the attempt rows: each helper leaves
  the attempt table alone or replaces one row, and every replacement is a step of an abstract life cycle
  of one provider turn. The collection \<open>attempt_effects\<close> gathers the facts about the helpers.
\<close>

named_theorems attempt_effects \<open>what a helper of the attempt store changes\<close>

section \<open>Helpers\<close>

lemma put_attempt_effect:
  "put_attempt attempt r s = Inr s' \<Longrightarrow> s' = s\<lparr>as_attempts := AList.update attempt r (as_attempts s)\<rparr> \<and> row_valid r
     \<and> \<not> list_ex (\<lambda>(k, q). k \<noteq> attempt \<and> row_conflicts r q) (as_attempts s)"
  by (auto simp: put_attempt_def split: if_split_asm)

lemma insert_keyed_effect: "insert_keyed s attempt checked k v rows = Inr rows' \<Longrightarrow>
    rows' = rows @ [(k, v)] \<and> map_of rows k = None \<and> checked \<and> map_of (as_attempts s) attempt \<noteq> None"
  by (auto simp: insert_keyed_def split: if_split_asm)

lemma require_provider_iff [simp]: "require_provider p why = Inr () \<longleftrightarrow> p"
  by (simp add: require_provider_def)

lemma require_provider_unit: "require_provider p why = Inr u \<longleftrightarrow> p"
  by (simp add: require_provider_def)

lemma persist_context_effect [attempt_effects]:
  "persist_context attempt c s = Inr s' \<Longrightarrow> \<exists>rows. s' = s\<lparr>as_contexts := rows\<rparr> \<and> map_of rows attempt = Some (rcx_task_id c, context_values c)
     \<and> (\<forall>k. k \<noteq> attempt \<longrightarrow> map_of rows k = map_of (as_contexts s) k)"
proof (cases "map_of (as_contexts s) attempt")
  case None
  assume "persist_context attempt c s = Inr s'"
  with None obtain rows where "insert_keyed s attempt True attempt (rcx_task_id c, context_values c) (as_contexts s) = Inr rows" "s' = s\<lparr>as_contexts := rows\<rparr>"
    by (auto simp: persist_context_def bind_result_Inr_iff)
  with insert_keyed_effect [OF this(1)] None show ?thesis by (intro exI [of _ rows]) (auto simp: map_add_def split: option.split)
next
  case (Some row)
  assume "persist_context attempt c s = Inr s'"
  with Some show ?thesis by (intro exI [of _ "as_contexts s"]) (auto simp: persist_context_def split: if_split_asm)
qed

lemma record_runtime_binding_effect [attempt_effects]:
  "record_runtime_binding task b s = Inr s' \<Longrightarrow> \<exists>bindings policies. s' = s\<lparr>as_bindings := bindings, as_policies := policies\<rparr>
     \<and> map_of bindings task = Some (columns b) \<and> (\<forall>k v. map_of (as_bindings s) k = Some v \<longrightarrow> map_of bindings k = Some v)"
proof -
  assume asm: "record_runtime_binding task b s = Inr s'"
  then obtain s1 where s1: "(case map_of (as_bindings s) task of
         None \<Rightarrow> Inr (s\<lparr>as_bindings := as_bindings s @ [(task, columns b)]\<rparr>)
       | Some row \<Rightarrow> if row \<noteq> columns b then Inl (PyStateError ''resolved configuration binding has drifted'') else Inr s) = Inr s1"
    and rest: "s' = s1 \<or> (\<exists>policies. s' = s1\<lparr>as_policies := policies\<rparr>)"
    by (auto simp: record_runtime_binding_def bind_result_Inr_iff split: if_split_asm sum.split_asm option.split_asm)
  have "\<exists>bindings. s1 = s\<lparr>as_bindings := bindings\<rparr> \<and> map_of bindings task = Some (columns b) \<and> (\<forall>k v. map_of (as_bindings s) k = Some v \<longrightarrow> map_of bindings k = Some v)"
  proof (cases "map_of (as_bindings s) task")
    case None
    with s1 show ?thesis by (intro exI [of _ "as_bindings s @ [(task, columns b)]"]) (auto simp: map_add_def)
  next
    case (Some row)
    with s1 show ?thesis by (intro exI [of _ "as_bindings s"]) (auto split: if_split_asm)
  qed
  then obtain bindings where b: "s1 = s\<lparr>as_bindings := bindings\<rparr>" "map_of bindings task = Some (columns b)"
    "\<forall>k v. map_of (as_bindings s) k = Some v \<longrightarrow> map_of bindings k = Some v" by blast
  from rest show ?thesis
  proof
    assume "s' = s1"
    with b show ?thesis by (intro exI [of _ bindings] exI [of _ "as_policies s"]) simp
  next
    assume "\<exists>policies. s' = s1\<lparr>as_policies := policies\<rparr>"
    with b show ?thesis by auto
  qed
qed

lemma reserve_coordinate_effect [attempt_effects]:
  "reserve_supervisor_coordinate task attempt profile position ordinal coordinate s = Inr s' \<Longrightarrow> \<exists>rows. s' = s\<lparr>as_coordinates := rows\<rparr>"
  by (auto simp: reserve_supervisor_coordinate_def bind_result_Inr_iff Let_def split: option.split_asm if_split_asm prod.split_asm)
    (metis attempt_store.surjective attempt_store.update_convs(2))+

lemma persist_health_effect [attempt_effects]:
  "persist_health_authorization attempt receipt role profile s = Inr (s', authorization) \<Longrightarrow>
     s' = s\<lparr>as_authorizations := as_authorizations s @ [(attempt, authorization_values receipt role profile)],
            as_seals := as_seals s @ [(attempt, authorization)]\<rparr>
     \<and> authorization = authorization_fingerprint attempt (authorization_values receipt role profile)
     \<and> map_of (as_authorizations s) attempt = None \<and> map_of (as_seals s) attempt = None"
  by (auto simp: persist_health_authorization_def Let_def bind_result_Inr_iff dest!: insert_keyed_effect split: if_split_asm)

lemma add_checkpoint_effect [attempt_effects]:
  "add_checkpoint task role phase attempt c authorization observed s = Inr s' \<Longrightarrow>
     s' = s\<lparr>as_checkpoints := as_checkpoints s @ [(checkpoint_id attempt phase, (task, attempt_role_value role, phase, checkpoint_fingerprint c authorization))]\<rparr>
     \<and> map_of (as_checkpoints s) (checkpoint_id attempt phase) = None \<and> 0 < observed"
  by (auto simp: add_checkpoint_def bind_result_Inr_iff dest!: insert_keyed_effect)

lemma persist_admission_effect [attempt_effects]:
  "persist_failure_admission ti attempt r c session create s = Inr s' \<Longrightarrow> \<exists>rows. s' = s\<lparr>as_admissions := rows\<rparr>"
  by (auto simp: persist_failure_admission_def bind_result_Inr_iff Let_def split: option.split_asm if_split_asm bool.split_asm)
    (metis attempt_store.surjective attempt_store.update_convs(9))+

lemma persist_outcome_effect [attempt_effects]:
  "persist_recovery_outcome attempt action blocker observed s = Inr s' \<Longrightarrow> \<exists>rows. s' = s\<lparr>as_outcomes := rows\<rparr>
     \<and> map_of rows attempt = Some (action_value action, Some blocker) \<and> (\<forall>k v. map_of (as_outcomes s) k = Some v \<longrightarrow> map_of rows k = Some v)"
proof (cases "map_of (as_outcomes s) attempt")
  case None
  assume "persist_recovery_outcome attempt action blocker observed s = Inr s'"
  with None obtain rows where "insert_keyed s attempt (0 < observed) attempt (action_value action, Some blocker) (as_outcomes s) = Inr rows" "s' = s\<lparr>as_outcomes := rows\<rparr>"
    by (auto simp: persist_recovery_outcome_def bind_result_Inr_iff)
  with insert_keyed_effect [OF this(1)] show ?thesis by (intro exI [of _ rows]) (auto simp: map_add_def split: option.split)
next
  case (Some row)
  assume "persist_recovery_outcome attempt action blocker observed s = Inr s'"
  with Some show ?thesis by (intro exI [of _ "as_outcomes s"]) (auto simp: persist_recovery_outcome_def split: if_split_asm)
qed

lemma add_event_effect [attempt_effects]: "add_event task attempt action observed s = Inr s' \<Longrightarrow> \<exists>rows. s' = s\<lparr>as_events := rows\<rparr>"
  by (auto simp: add_event_def split: if_split_asm)

lemma settle_effect [attempt_effects]:
  "settle ti attempt action blocker observed s = Inr s' \<Longrightarrow> \<exists>outcomes events. s' = s\<lparr>as_outcomes := outcomes, as_events := events\<rparr>
     \<and> map_of outcomes attempt = Some (action_value action, Some blocker) \<and> (\<forall>k v. map_of (as_outcomes s) k = Some v \<longrightarrow> map_of outcomes k = Some v)"
  unfolding settle_def bind_result_Inr_iff by (fastforce dest!: persist_outcome_effect add_event_effect)

lemma supervisor_failure_effect [attempt_effects]:
  "record_supervisor_failure w ti c attempt r session failure now s = Inr s' \<Longrightarrow> \<exists>ledger. s' = s\<lparr>as_failures := ledger\<rparr>"
  by (auto simp: record_supervisor_failure_def bind_result_Inr_iff)

lemma cancel_abandoned_effect [attempt_effects]:
  "cancel_abandoned w ti attempt r action blocker s = Inr s' \<Longrightarrow> \<exists>reviews. s' = s\<lparr>as_reviews := reviews\<rparr>"
  by (auto simp: cancel_abandoned_def bind_result_Inr_iff split: if_split_asm)
    (metis attempt_store.surjective attempt_store.update_convs(19))+

lemma attempt_row_ofD: "attempt_row_of task attempt s = Inr r \<Longrightarrow> map_of (as_attempts s) attempt = Some r \<and> pv_task r = task"
  by (auto simp: attempt_row_of_def split: option.split_asm if_split_asm)

end
