(* ===== verification/Attempt_Lifecycle.thy ===== *)
theory Attempt_Lifecycle
  imports Attempt_Effects
begin

text \<open>
  Provider turns over arbitrary histories. The abstract specification is the life cycle of one turn
  (\<open>turn_step\<close>); every operation moves a row along it, never deletes a row and never rewrites a durable
  record (\<open>sound_step\<close>). The invariants of the attempt table and of the Supervisor coordinates follow, and
  hold in every store that a history of operations reaches, in worlds that change between any two of them.
\<close>

section \<open>The life cycle of one turn\<close>

inductive turn_step :: "provider_attempt \<Rightarrow> provider_attempt \<Rightarrow> bool" where
  bind_session: "pv_state r = At_PREPARED \<Longrightarrow> pv_session r = None \<Longrightarrow> turn_step r (r\<lparr>pv_session := Some t\<rparr>)"
| dispatch: "pv_state r = At_PREPARED \<Longrightarrow> pv_session r \<noteq> None \<Longrightarrow> turn_step r (r\<lparr>pv_turn := Some t, pv_state := At_DISPATCHED\<rparr>)"
| complete: "pv_state r = At_DISPATCHED \<Longrightarrow> turn_step r (r\<lparr>pv_output := Some p, pv_evidence := Some e, pv_state := At_COMPLETED\<rparr>)"
| reject: "pv_state r = At_DISPATCHED \<Longrightarrow> turn_step r (r\<lparr>pv_output := Some p, pv_state := At_AMBIGUOUS\<rparr>)"
| accept: "pv_state r = At_COMPLETED \<Longrightarrow> pv_role r = P_SUPERVISOR \<Longrightarrow> turn_step r (r\<lparr>pv_accepted := Some v, pv_state := At_ACCEPTED\<rparr>)"
| withdraw: "pv_state r = At_ACCEPTED \<Longrightarrow> x \<in> {At_AMBIGUOUS, At_BLOCKED, At_INVALIDATED} \<Longrightarrow> turn_step r (r\<lparr>pv_state := x, pv_accepted := None\<rparr>)"
| verify: "pv_state r = At_AMBIGUOUS \<Longrightarrow> pv_evidence r \<noteq> None \<Longrightarrow> turn_step r (r\<lparr>pv_state := At_COMPLETED\<rparr>)"
| close: "pv_state r \<noteq> At_ACCEPTED \<Longrightarrow> x \<in> {At_AMBIGUOUS, At_BLOCKED, At_INVALIDATED} \<Longrightarrow> turn_step r (r\<lparr>pv_state := x\<rparr>)"

inductive_cases turn_stepE: "turn_step r r'"

definition fresh_turn :: "provider_attempt \<Rightarrow> bool" where
  "fresh_turn r \<longleftrightarrow> pv_state r = At_PREPARED \<and> pv_session r = None \<and> pv_turn r = None \<and> pv_output r = None \<and> pv_evidence r = None \<and> pv_accepted r = None"

fun row_evolves :: "provider_attempt option \<Rightarrow> provider_attempt option \<Rightarrow> bool" where
  "row_evolves None None \<longleftrightarrow> True"
| "row_evolves None (Some r) \<longleftrightarrow> (\<exists>blank. fresh_turn blank \<and> turn_step\<^sup>*\<^sup>* blank r)"
| "row_evolves (Some r) None \<longleftrightarrow> False"
| "row_evolves (Some r) (Some q) \<longleftrightarrow> turn_step\<^sup>*\<^sup>* r q"

lemma row_evolves_refl [simp]: "row_evolves a a"
  by (cases a) auto

lemma row_evolves_trans: "row_evolves a b \<Longrightarrow> row_evolves b c \<Longrightarrow> row_evolves a c"
  by (cases a; cases b; cases c) (auto intro: rtranclp_trans)

text \<open>What no step of the life cycle changes, and what it writes at most once.\<close>

definition turn_identity :: "provider_attempt \<Rightarrow> string \<times> attempt_role \<times> int \<times> string \<times> int \<times> string \<times> string \<times> int \<times> int" where
  "turn_identity r = (pv_task r, pv_role r, pv_number r, pv_lease_id r, pv_lease_expires_at r, pv_input r, pv_profile r, pv_position r, pv_ordinal r)"

definition extends :: "'a option \<Rightarrow> 'a option \<Rightarrow> bool" where
  "extends a b \<longleftrightarrow> a = None \<or> a = b"

definition writes_once :: "provider_attempt \<Rightarrow> provider_attempt \<Rightarrow> bool" where
  "writes_once r q \<longleftrightarrow> turn_identity q = turn_identity r \<and> extends (pv_session r) (pv_session q) \<and> extends (pv_turn r) (pv_turn q)
     \<and> extends (pv_output r) (pv_output q) \<and> extends (pv_evidence r) (pv_evidence q)"

text \<open>Which fields a row has in which state.\<close>

definition turn_shape :: "provider_attempt \<Rightarrow> bool" where
  "turn_shape r \<longleftrightarrow> (pv_state r = At_PREPARED \<longrightarrow> pv_turn r = None) \<and> (pv_state r \<in> {At_PREPARED, At_DISPATCHED} \<longrightarrow> pv_output r = None \<and> pv_evidence r = None)
     \<and> (pv_turn r \<noteq> None \<longrightarrow> pv_session r \<noteq> None) \<and> (pv_evidence r \<noteq> None \<longrightarrow> pv_turn r \<noteq> None \<and> pv_output r \<noteq> None)
     \<and> (pv_state r \<in> {At_DISPATCHED, At_COMPLETED, At_ACCEPTED} \<longrightarrow> pv_turn r \<noteq> None)
     \<and> (pv_state r \<in> {At_COMPLETED, At_ACCEPTED} \<longrightarrow> pv_evidence r \<noteq> None)
     \<and> (pv_accepted r \<noteq> None \<longrightarrow> pv_state r = At_ACCEPTED \<and> pv_role r = P_SUPERVISOR)"

lemma fresh_turn_shape: "fresh_turn r \<Longrightarrow> turn_shape r"
  by (simp add: fresh_turn_def turn_shape_def)

lemma turn_step_shape: "turn_step r q \<Longrightarrow> turn_shape r \<Longrightarrow> turn_shape q"
  by (erule turn_stepE) (auto simp: turn_shape_def)

lemma turn_steps_shape: "turn_step\<^sup>*\<^sup>* r q \<Longrightarrow> turn_shape r \<Longrightarrow> turn_shape q"
  by (induction rule: rtranclp_induct) (auto intro: turn_step_shape)

lemma writes_once_refl: "writes_once r r"
  by (simp add: writes_once_def extends_def)

lemma writes_once_trans: "writes_once a b \<Longrightarrow> writes_once b c \<Longrightarrow> writes_once a c"
  by (auto simp: writes_once_def extends_def)

lemma turn_step_writes_once: "turn_step r q \<Longrightarrow> turn_shape r \<Longrightarrow> writes_once r q"
  by (erule turn_stepE) (auto simp: turn_shape_def writes_once_def extends_def turn_identity_def)

lemma turn_steps_write_once: "turn_step\<^sup>*\<^sup>* r q \<Longrightarrow> turn_shape r \<Longrightarrow> writes_once r q"
  by (induction rule: rtranclp_induct) (auto intro: writes_once_refl writes_once_trans turn_step_writes_once turn_steps_shape)

lemma turn_step_identity: "turn_step r q \<Longrightarrow> turn_identity q = turn_identity r"
  by (erule turn_stepE) (auto simp: turn_identity_def)

section \<open>Sound steps\<close>

definition sessions_apart :: "provider_attempt \<Rightarrow> provider_attempt \<Rightarrow> bool" where
  "sessions_apart r q \<longleftrightarrow> (pv_task r = pv_task q \<and> pv_session r \<noteq> None \<and> pv_session r = pv_session q \<longrightarrow> {pv_role r, pv_role q} \<subseteq> {P_PLANNING, P_WORKER})"

definition attempts_ok :: "(string \<rightharpoonup> provider_attempt) \<Rightarrow> bool" where
  "attempts_ok f \<longleftrightarrow> (\<forall>k r. f k = Some r \<longrightarrow> row_valid r)
     \<and> (\<forall>k l r q. f k = Some r \<longrightarrow> f l = Some q \<longrightarrow> k \<noteq> l \<longrightarrow> \<not> row_conflicts r q \<and> sessions_apart r q)"

definition coordinates_ok :: "(string \<rightharpoonup> coordinate_row) \<Rightarrow> bool" where
  "coordinates_ok f \<longleftrightarrow> (\<forall>k r. f k = Some r \<longrightarrow> 0 \<le> co_ordinal r \<and> co_ordinal r \<le> 2)
     \<and> (\<forall>k l r q. f k = Some r \<longrightarrow> f l = Some q \<longrightarrow> k \<noteq> l \<longrightarrow> co_task r = co_task q \<longrightarrow> coordinate_of r \<noteq> coordinate_of q)"

text \<open>The durable records that are written once: everything keyed by an attempt but its row and its admission.\<close>

definition records_extend :: "attempt_store \<Rightarrow> attempt_store \<Rightarrow> bool" where
  "records_extend s t \<longleftrightarrow> map_of (as_contexts s) \<subseteq>\<^sub>m map_of (as_contexts t) \<and> map_of (as_authorizations s) \<subseteq>\<^sub>m map_of (as_authorizations t)
     \<and> map_of (as_seals s) \<subseteq>\<^sub>m map_of (as_seals t) \<and> map_of (as_checkpoints s) \<subseteq>\<^sub>m map_of (as_checkpoints t)
     \<and> map_of (as_sessions s) \<subseteq>\<^sub>m map_of (as_sessions t) \<and> map_of (as_claims s) \<subseteq>\<^sub>m map_of (as_claims t)
     \<and> map_of (as_outputs s) \<subseteq>\<^sub>m map_of (as_outputs t) \<and> map_of (as_outcomes s) \<subseteq>\<^sub>m map_of (as_outcomes t)
     \<and> map_of (as_bindings s) \<subseteq>\<^sub>m map_of (as_bindings t) \<and> map_of (as_coordinates s) \<subseteq>\<^sub>m map_of (as_coordinates t)"

definition sound_step :: "attempt_store \<Rightarrow> attempt_store \<Rightarrow> bool" where
  "sound_step s t \<longleftrightarrow> (\<forall>k. row_evolves (map_of (as_attempts s) k) (map_of (as_attempts t) k)) \<and> records_extend s t
     \<and> (attempts_ok (map_of (as_attempts s)) \<longrightarrow> attempts_ok (map_of (as_attempts t)))
     \<and> (coordinates_ok (map_of (as_coordinates s)) \<longrightarrow> coordinates_ok (map_of (as_coordinates t)))"

definition keeps_rows :: "attempt_store \<Rightarrow> attempt_store \<Rightarrow> bool" where
  "keeps_rows s t \<longleftrightarrow> sound_step s t \<and> as_attempts t = as_attempts s"

lemma sound_refl [simp]: "sound_step s s"
  by (simp add: sound_step_def records_extend_def)

lemma sound_trans: "sound_step s t \<Longrightarrow> sound_step t u \<Longrightarrow> sound_step s u"
  unfolding sound_step_def records_extend_def by (blast intro: row_evolves_trans map_le_trans)

lemma keeps_refl [simp]: "keeps_rows s s"
  by (simp add: keeps_rows_def)

lemma keeps_trans: "keeps_rows s t \<Longrightarrow> keeps_rows t u \<Longrightarrow> keeps_rows s u"
  by (auto simp: keeps_rows_def intro: sound_trans)

lemma keeps_sound: "keeps_rows s t \<Longrightarrow> sound_step s t"
  by (simp add: keeps_rows_def)

lemma map_le_append: "map_of rows k = None \<Longrightarrow> map_of rows \<subseteq>\<^sub>m map_of (rows @ [(k, v)])"
  by (auto simp: map_le_def map_add_def split: option.split)

lemma map_leI: "(\<And>k v. f k = Some v \<Longrightarrow> g k = Some v) \<Longrightarrow> f \<subseteq>\<^sub>m g"
  by (auto simp: map_le_def)

lemma keeps_tables:
  "map_of (as_contexts s) \<subseteq>\<^sub>m map_of contexts \<Longrightarrow> keeps_rows s (s\<lparr>as_contexts := contexts\<rparr>)"
  "map_of (as_sessions s) \<subseteq>\<^sub>m map_of sessions \<Longrightarrow> keeps_rows s (s\<lparr>as_sessions := sessions\<rparr>)"
  "map_of (as_claims s) \<subseteq>\<^sub>m map_of claims \<Longrightarrow> keeps_rows s (s\<lparr>as_claims := claims\<rparr>)"
  "map_of (as_outputs s) \<subseteq>\<^sub>m map_of outputs \<Longrightarrow> keeps_rows s (s\<lparr>as_outputs := outputs\<rparr>)"
  "map_of (as_checkpoints s) \<subseteq>\<^sub>m map_of checkpoints \<Longrightarrow> keeps_rows s (s\<lparr>as_checkpoints := checkpoints\<rparr>)"
  "map_of (as_outcomes s) \<subseteq>\<^sub>m map_of outcomes \<Longrightarrow> keeps_rows s (s\<lparr>as_outcomes := outcomes\<rparr>)"
  "map_of (as_bindings s) \<subseteq>\<^sub>m map_of bindings \<Longrightarrow> keeps_rows s (s\<lparr>as_bindings := bindings, as_policies := policies\<rparr>)"
  "map_of (as_authorizations s) \<subseteq>\<^sub>m map_of authorizations \<Longrightarrow> map_of (as_seals s) \<subseteq>\<^sub>m map_of seals
     \<Longrightarrow> keeps_rows s (s\<lparr>as_authorizations := authorizations, as_seals := seals\<rparr>)"
  "keeps_rows s (s\<lparr>as_admissions := admissions\<rparr>)" "keeps_rows s (s\<lparr>as_events := events\<rparr>)" "keeps_rows s (s\<lparr>as_failures := failures\<rparr>)"
  "keeps_rows s (s\<lparr>as_reviews := reviews\<rparr>)" "keeps_rows s (s\<lparr>as_invalid_outputs := invalid\<rparr>)"
  "keeps_rows s (s\<lparr>as_accepted_reviews := accepted\<rparr>)" "keeps_rows s (s\<lparr>as_diff_reviews := diffs\<rparr>)"
  by (simp_all add: keeps_rows_def sound_step_def records_extend_def)

section \<open>Helpers are sound\<close>

lemma persist_context_keeps: "persist_context attempt c s = Inr s' \<Longrightarrow> keeps_rows s s'"
proof -
  assume run: "persist_context attempt c s = Inr s'"
  from persist_context_effect [OF run] obtain rows where s': "s' = s\<lparr>as_contexts := rows\<rparr>"
    and rows: "map_of rows attempt = Some (rcx_task_id c, context_values c)" "\<forall>k. k \<noteq> attempt \<longrightarrow> map_of rows k = map_of (as_contexts s) k" by blast
  have "v = (rcx_task_id c, context_values c)" if "map_of (as_contexts s) attempt = Some v" for v
    using run that by (auto simp: persist_context_def split: if_split_asm)
  with rows have "map_of (as_contexts s) \<subseteq>\<^sub>m map_of rows" by (intro map_leI) (metis)
  then show ?thesis unfolding s' by (rule keeps_tables)
qed

lemma record_runtime_binding_keeps: "record_runtime_binding task b s = Inr s' \<Longrightarrow> keeps_rows s s'"
  by (drule record_runtime_binding_effect) (auto intro!: keeps_tables map_leI)

lemma reserve_coordinate_keeps: "reserve_supervisor_coordinate task attempt profile position ordinal coordinate s = Inr s' \<Longrightarrow> keeps_rows s s'"
proof (cases "s' = s")
  case False
  assume run: "reserve_supervisor_coordinate task attempt profile position ordinal coordinate s = Inr s'"
  with False obtain e n where c: "coordinate = Some (e, n)" by (auto simp: reserve_supervisor_coordinate_def split: option.split_asm)
  define x where "x = \<lparr>co_task = task, co_epoch = e, co_round = n, co_position = position, co_ordinal = ordinal, co_profile = profile\<rparr>"
  obtain rows where new: "map_of (as_coordinates s) attempt = None" and s': "s' = s\<lparr>as_coordinates := rows\<rparr>"
    and free: "\<not> list_ex (\<lambda>(_, r). co_task r = task \<and> coordinate_of r = coordinate_of x) (as_coordinates s)"
    and ins: "insert_keyed s attempt (0 \<le> e \<and> 1 \<le> n \<and> 1 \<le> position \<and> 0 \<le> ordinal \<and> ordinal \<le> 2) attempt x (as_coordinates s) = Inr rows"
    using run False by (auto simp: reserve_supervisor_coordinate_def c x_def [symmetric] bind_result_Inr_iff Let_def split: option.split_asm if_split_asm)
  have rows: "rows = as_coordinates s @ [(attempt, x)]" and range: "0 \<le> ordinal" "ordinal \<le> 2" using insert_keyed_effect [OF ins] by auto
  have m: "map_of rows = (map_of (as_coordinates s))(attempt \<mapsto> x)" using new by (auto simp: rows map_add_def fun_eq_iff split: option.split)
  have other: "co_task q = task \<Longrightarrow> coordinate_of q \<noteq> coordinate_of x" if "map_of (as_coordinates s) l = Some q" for l q
    using free map_of_SomeD [OF that] by (auto simp: list_ex_iff)
  have "coordinates_ok (map_of (as_coordinates s)) \<Longrightarrow> coordinates_ok (map_of rows)"
    unfolding m coordinates_ok_def using range other by (auto simp: x_def) (metis x_def coordinate_row.select_convs(1))+
  moreover have "map_of (as_coordinates s) \<subseteq>\<^sub>m map_of rows" unfolding rows using new by (rule map_le_append)
  ultimately show ?thesis by (simp add: s' keeps_rows_def sound_step_def records_extend_def)
qed simp

lemma persist_health_keeps: "persist_health_authorization attempt receipt role profile s = Inr (s', authorization) \<Longrightarrow> keeps_rows s s'"
  by (drule persist_health_effect) (auto intro!: keeps_tables map_le_append)

lemma add_checkpoint_keeps: "add_checkpoint task role phase attempt c authorization observed s = Inr s' \<Longrightarrow> keeps_rows s s'"
  by (drule add_checkpoint_effect) (auto intro!: keeps_tables map_le_append)

lemma persist_admission_keeps: "persist_failure_admission ti attempt r c session create s = Inr s' \<Longrightarrow> keeps_rows s s'"
  by (drule persist_admission_effect) (auto intro!: keeps_tables)

lemma persist_outcome_keeps: "persist_recovery_outcome attempt action blocker observed s = Inr s' \<Longrightarrow> keeps_rows s s'"
  by (drule persist_outcome_effect) (auto intro!: keeps_tables map_leI)

lemma add_event_keeps: "add_event task attempt action observed s = Inr s' \<Longrightarrow> keeps_rows s s'"
  by (drule add_event_effect) (auto intro!: keeps_tables)

lemma settle_keeps: "settle ti attempt action blocker observed s = Inr s' \<Longrightarrow> keeps_rows s s'"
  by (auto simp: settle_def bind_result_Inr_iff intro: keeps_trans persist_outcome_keeps add_event_keeps)

lemma supervisor_failure_keeps: "record_supervisor_failure w ti c attempt r session failure now s = Inr s' \<Longrightarrow> keeps_rows s s'"
  by (drule supervisor_failure_effect) (auto intro!: keeps_tables)

lemma cancel_abandoned_keeps: "cancel_abandoned w ti attempt r action blocker s = Inr s' \<Longrightarrow> keeps_rows s s'"
  by (drule cancel_abandoned_effect) (auto intro!: keeps_tables)

lemma enter_attempt_keeps:
  "enter_attempt ti c attempt now s = Inr (s1, r, authorization) \<Longrightarrow> keeps_rows s s1 \<and> map_of (as_attempts s1) attempt = Some r \<and> pv_task r = ti_task_id ti"
  by (auto simp: enter_attempt_def bind_result_Inr_iff dest: persist_context_keeps attempt_row_ofD)

lemma lease_and_enter_keeps:
  "lease_and_enter w ti c attempt lease now s = Inr (s1, r, authorization) \<Longrightarrow> keeps_rows s s1 \<and> map_of (as_attempts s1) attempt = Some r \<and> pv_task r = ti_task_id ti"
  by (auto simp: lease_and_enter_def bind_result_Inr_iff dest: enter_attempt_keeps)

section \<open>Replacing a row\<close>

lemma sessions_apart_sym: "sessions_apart r q \<longleftrightarrow> sessions_apart q r"
  unfolding sessions_apart_def by (metis insert_commute)

lemma row_conflicts_sym: "row_conflicts r q \<longleftrightarrow> row_conflicts q r"
  by (auto simp: row_conflicts_def)

lemma attempts_ok_update:
  assumes "attempts_ok f" and "row_valid r" and "\<And>l q. f l = Some q \<Longrightarrow> l \<noteq> k \<Longrightarrow> \<not> row_conflicts r q \<and> sessions_apart r q"
  shows "attempts_ok (f(k \<mapsto> r))"
  using assms unfolding attempts_ok_def by (auto split: if_split_asm simp: row_conflicts_sym sessions_apart_sym)

lemma put_attempts_ok:
  assumes put: "put_attempt k r s = Inr s'" and ok: "attempts_ok (map_of (as_attempts s))"
    and apart: "\<And>l q. map_of (as_attempts s) l = Some q \<Longrightarrow> l \<noteq> k \<Longrightarrow> sessions_apart r q"
  shows "attempts_ok (map_of (as_attempts s'))"
proof -
  from put_attempt_effect [OF put] have s': "s' = s\<lparr>as_attempts := AList.update k r (as_attempts s)\<rparr>" and valid: "row_valid r"
    and free: "\<not> list_ex (\<lambda>(k', q). k' \<noteq> k \<and> row_conflicts r q) (as_attempts s)" by auto
  have "\<not> row_conflicts r q" if "map_of (as_attempts s) l = Some q" "l \<noteq> k" for l q
    using free map_of_SomeD [OF that(1)] that(2) by (auto simp: list_ex_iff)
  with ok valid apart have "attempts_ok ((map_of (as_attempts s))(k \<mapsto> r))" by (intro attempts_ok_update) auto
  then show ?thesis by (simp add: s' update_conv')
qed

lemma put_sound:
  assumes put: "put_attempt k r' s = Inr s'" and evolves: "row_evolves (map_of (as_attempts s) k) (Some r')"
    and apart: "\<And>l q. attempts_ok (map_of (as_attempts s)) \<Longrightarrow> map_of (as_attempts s) l = Some q \<Longrightarrow> l \<noteq> k \<Longrightarrow> sessions_apart r' q"
  shows "sound_step s s' \<and> map_of (as_attempts s') k = Some r'"
proof -
  have s': "s' = s\<lparr>as_attempts := AList.update k r' (as_attempts s)\<rparr>" using put_attempt_effect [OF put] by blast
  have "attempts_ok (map_of (as_attempts s)) \<Longrightarrow> attempts_ok (map_of (as_attempts s'))" using put_attempts_ok [OF put] apart by blast
  then show ?thesis using evolves by (simp add: s' sound_step_def records_extend_def update_conv')
qed

text \<open>A replacement that keeps task, role and session keeps sessions apart.\<close>

lemma put_turn_sound:
  assumes put: "put_attempt k r' s = Inr s'" and old: "map_of (as_attempts s) k = Some r" and steps: "turn_step r r'" and session: "pv_session r' = pv_session r"
  shows "sound_step s s' \<and> map_of (as_attempts s') k = Some r'"
proof (rule put_sound [OF put])
  show "row_evolves (map_of (as_attempts s) k) (Some r')" using old steps by auto
  fix l q assume "attempts_ok (map_of (as_attempts s))" "map_of (as_attempts s) l = Some q" "l \<noteq> k"
  then have "sessions_apart r q" using old unfolding attempts_ok_def by blast
  moreover have "pv_task r' = pv_task r" "pv_role r' = pv_role r" using turn_step_identity [OF steps] by (simp_all add: turn_identity_def)
  ultimately show "sessions_apart r' q" by (simp add: sessions_apart_def session)
qed

end
