(* ===== verification/Attempt_Histories.thy ===== *)
theory Attempt_Histories
  imports Attempt_Lifecycle
begin

text \<open>
  Every operation on provider turns is a sound step (\<open>run_op_sound\<close>), hence every history of operations is one,
  and the invariant of the attempt store survives it.
\<close>

section \<open>Every operation is a sound step\<close>

text \<open>These turn a body that succeeds into the list of what its steps returned.\<close>

lemma ex_unit: "(\<exists>x :: unit. P x) \<longleftrightarrow> P ()"
  by auto

lemma Inr_pair: "Inr (a, b) = Inr (c, d) \<longleftrightarrow> a = c \<and> b = d"
  by simp

lemmas body_simps = Let_def Inr_pair bind_result_Inr_iff split_paired_Ex prod.case ex_unit require_provider_iff

lemma run_transaction_store: "fst (run_transaction i s m) = s \<or> (\<exists>x. m = Inr (fst (run_transaction i s m), x))"
  by (auto simp: run_transaction_def split: sum.split)

lemma then_read_store [simp]: "fst (then_read reader r) = fst r"
  by (auto simp: then_read_def split: sum.split option.split)

lemma transaction_sound: "(\<And>s' x. m = Inr (s', x) \<Longrightarrow> sound_step s s') \<Longrightarrow> sound_step s (fst (run_transaction i s m))"
  using run_transaction_store [of i s m] by fastforce

lemma guarded_sound: "(\<And>s' x. body = Inr (s', x) \<Longrightarrow> sound_step s s') \<Longrightarrow> sound_step s (fst (guarded_transaction valid i reader s body))"
  by (auto simp: guarded_transaction_def intro: transaction_sound split: sum.split)

lemma prepare_sound: "sound_step s (fst (prepare_attempt w ti c p lease now s))"
proof -
  have "sound_step s s'" if run: "prepare_body w ti c p lease now selected position coordinate receipt s = Inr (s', x)"
    for selected position coordinate receipt s' x
  proof -
    let ?task = "ti_task_id ti" and ?attempt = "pr_attempt_id p"
    from run obtain s1 where s1: "keeps_rows s s1"
      and rest: "(if attempt_row_of ?task ?attempt s1 \<noteq> Inl (ProviderAttemptAbsentError ''provider attempt is unavailable'')
      then bind_result (attempt_row_of ?task ?attempt s1) (\<lambda>r.
        bind_result (persist_context ?attempt c s1) (\<lambda>s2.
        bind_result (require_persisted_health_authorization False ?attempt c (pv_role r) (pv_profile r) now s2) (\<lambda>_.
        bind_result (require_provider (replay_agrees p selected position r) ''provider attempt replay conflicts with committed state'') (\<lambda>_.
        bind_result (reserve_supervisor_coordinate ?task ?attempt selected position (pr_ordinal p) coordinate s2) (\<lambda>s3. Inr (s3, Some r))))))
      else bind_result (insert_attempt ?attempt (prepared_row ti p selected position (next_number ?task (pr_role p) s1)) s1) (\<lambda>s2.
        bind_result (reserve_supervisor_coordinate ?task ?attempt selected position (pr_ordinal p) coordinate s2) (\<lambda>s3.
        bind_result (persist_context ?attempt c s3) (\<lambda>s4.
        bind_result (persist_health_authorization ?attempt receipt (pr_role p) selected s4) (\<lambda>(s5, authorization).
        bind_result (add_checkpoint ?task (pr_role p) ''before-dispatch'' ?attempt c authorization now s5) (\<lambda>s6. Inr (s6, None))))))) = Inr (s', x)"
      unfolding prepare_body_def Let_def bind_result_Inr_iff by (blast dest: record_runtime_binding_keeps)
    have "sound_step s1 s'"
    proof (cases "attempt_row_of ?task ?attempt s1 \<noteq> Inl (ProviderAttemptAbsentError ''provider attempt is unavailable'')")
      case True
      with rest have "keeps_rows s1 s'" by (auto simp: bind_result_Inr_iff intro: keeps_trans persist_context_keeps reserve_coordinate_keeps)
      then show ?thesis by (rule keeps_sound)
    next
      case False
      let ?row = "prepared_row ti p selected position (next_number ?task (pr_role p) s1)"
      from False rest obtain s2 where put: "insert_attempt ?attempt ?row s1 = Inr s2" and later: "keeps_rows s2 s'"
        by (auto simp: bind_result_Inr_iff) (meson keeps_trans persist_context_keeps reserve_coordinate_keeps persist_health_keeps add_checkpoint_keeps)
      have "sound_step s1 s2 \<and> map_of (as_attempts s2) ?attempt = Some ?row"
      proof (rule put_sound)
        show "put_attempt ?attempt ?row s1 = Inr s2" using put by (simp add: insert_attempt_def split: if_split_asm)
        have "map_of (as_attempts s1) ?attempt = None" "fresh_turn ?row" using put by (auto simp: insert_attempt_def fresh_turn_def prepared_row_def split: if_split_asm)
        then show "row_evolves (map_of (as_attempts s1) ?attempt) (Some ?row)" by auto
        show "sessions_apart ?row q" for q by (simp add: sessions_apart_def prepared_row_def)
      qed
      with later show ?thesis by (blast intro: sound_trans keeps_sound)
    qed
    with s1 show ?thesis by (blast intro: sound_trans keeps_sound)
  qed
  then show ?thesis by (auto simp: prepare_attempt_def split: sum.split intro!: transaction_sound)
qed

lemma claim_body_keeps: "claim_body role failure requires consumed w ti c attempt lease now s = Inr (s', x) \<Longrightarrow> keeps_rows s s'"
proof -
  assume "claim_body role failure requires consumed w ti c attempt lease now s = Inr (s', x)"
  then obtain s1 r authorization rows pre where e: "enter_attempt ti c attempt now s = Inr (s1, r, authorization)"
    and rows: "insert_keyed s1 attempt True attempt (ti_task_id ti, pv_input r) (as_claims s1) = Inr rows"
    and a: "persist_failure_admission ti attempt r c pre True (s1\<lparr>as_claims := rows\<rparr>) = Inr s'"
    unfolding claim_body_def body_simps by blast
  have "keeps_rows s1 (s1\<lparr>as_claims := rows\<rparr>)" using insert_keyed_effect [OF rows] by (auto intro!: keeps_tables map_le_append)
  with enter_attempt_keeps [OF e] persist_admission_keeps [OF a] show ?thesis by (blast intro: keeps_trans)
qed

lemma claim_sound: "sound_step s (fst (claim_dispatch role failure requires consumed w ti c attempt lease now s))"
  unfolding claim_dispatch_def by (auto split: sum.split intro!: transaction_sound dest!: claim_body_keeps intro: keeps_sound)

lemma reuse_apart:
  assumes "require_session_reuse_allowed attempt r session s = Inr ()" and "map_of (as_attempts s) l = Some q" and "l \<noteq> attempt"
  shows "sessions_apart (r\<lparr>pv_session := Some session\<rparr>) q"
proof -
  have "(l, q) \<in> set (as_attempts s)" using assms(2) by (rule map_of_SomeD)
  with assms show ?thesis unfolding require_session_reuse_allowed_def Let_def sessions_apart_def require_provider_unit
    by (fastforce simp: filter_empty_conv)
qed

lemma session_sound: "sound_step s (fst (record_session_identity w ti c attempt session lease now s))"
  unfolding record_session_identity_def
proof (rule guarded_sound)
  fix s' x assume "session_body w ti c attempt session lease now s = Inr (s', x)"
  then obtain s1 r authorization s2 s3 where e: "lease_and_enter w ti c attempt lease now s = Inr (s1, r, authorization)"
    and prepared: "pv_state r = At_PREPARED" and reuse: "require_session_reuse_allowed attempt r session s1 = Inr ()"
    and put: "(if pv_session r = None then put_attempt attempt (r\<lparr>pv_session := Some session\<rparr>) s1 else Inr s1) = Inr s2"
    and a: "persist_failure_admission ti attempt r c session (pv_session r = None) s2 = Inr s3"
    and last: "(case map_of (as_sessions s3) attempt of
       None \<Rightarrow> bind_result (insert_keyed s3 attempt (0 < now) attempt (ti_task_id ti, session, checkpoint_fingerprint c authorization) (as_sessions s3))
         (\<lambda>rows. Inr (s3\<lparr>as_sessions := rows\<rparr>, None))
     | Some row \<Rightarrow> if row \<noteq> (ti_task_id ti, session, checkpoint_fingerprint c authorization)
         then provider_error ''session checkpoint replay conflicts with committed state'' else Inr (s3, None)) = Inr (s', x)"
    unfolding session_body_def body_simps by blast
  note enter = lease_and_enter_keeps [OF e]
  have "sound_step s1 s2"
  proof (cases "pv_session r = None")
    case True
    then have "put_attempt attempt (r\<lparr>pv_session := Some session\<rparr>) s1 = Inr s2" using put by simp
    then have "sound_step s1 s2 \<and> map_of (as_attempts s2) attempt = Some (r\<lparr>pv_session := Some session\<rparr>)"
      by (rule put_sound) (use enter True prepared reuse_apart [OF reuse] in \<open>auto intro!: turn_step.bind_session\<close>)
    then show ?thesis by blast
  qed (use put in auto)
  moreover have "keeps_rows s3 s'" using last
    by (auto simp: bind_result_Inr_iff dest!: insert_keyed_effect intro!: keeps_tables map_le_append split: option.split_asm if_split_asm)
  ultimately show "sound_step s s'" using enter persist_admission_keeps [OF a] by (blast intro: sound_trans keeps_sound)
qed

text \<open>Most operations enter the attempt and then replace its row at most once.\<close>

definition turn_effect :: "string \<Rightarrow> provider_attempt \<Rightarrow> attempt_store \<Rightarrow> attempt_store \<Rightarrow> bool" where
  "turn_effect attempt r s t \<longleftrightarrow> keeps_rows s t
     \<or> (\<exists>r' s' u. keeps_rows s s' \<and> put_attempt attempt r' s' = Inr u \<and> turn_step r r' \<and> pv_session r' = pv_session r \<and> keeps_rows u t)"

lemma turn_effect_keep: "keeps_rows s t \<Longrightarrow> turn_effect attempt r s t"
  by (simp add: turn_effect_def)

lemma turn_effect_later:
  "put_attempt attempt r' s' = Inr u \<Longrightarrow> keeps_rows s s' \<Longrightarrow> turn_step r r' \<Longrightarrow> pv_session r' = pv_session r \<Longrightarrow> keeps_rows u t \<Longrightarrow> turn_effect attempt r s t"
  unfolding turn_effect_def by blast

lemmas turn_effect_put = turn_effect_later [OF _ keeps_refl]

lemma closes_later: "put_attempt attempt (r\<lparr>pv_state := x\<rparr>) s' = Inr u \<Longrightarrow> keeps_rows s s' \<Longrightarrow> pv_state r \<noteq> At_ACCEPTED
    \<Longrightarrow> x \<in> {At_AMBIGUOUS, At_BLOCKED, At_INVALIDATED} \<Longrightarrow> keeps_rows u t \<Longrightarrow> turn_effect attempt r s t"
  by (erule turn_effect_later) (auto intro: turn_step.close)

lemmas closes = closes_later [OF _ keeps_refl]

lemma turn_effect_sound: "turn_effect attempt r s t \<Longrightarrow> map_of (as_attempts s) attempt = Some r \<Longrightarrow> sound_step s t"
  unfolding turn_effect_def
proof (elim disjE exE conjE)
  fix r' s' u assume "map_of (as_attempts s) attempt = Some r" and keeps: "keeps_rows s s'" and put: "put_attempt attempt r' s' = Inr u"
    and step: "turn_step r r'" "pv_session r' = pv_session r" and later: "keeps_rows u t"
  then have "map_of (as_attempts s') attempt = Some r" by (simp add: keeps_rows_def)
  with put_turn_sound [OF put this step] keeps later show ?thesis by (blast intro: sound_trans keeps_sound)
qed (rule keeps_sound)

lemma entered_sound:
  assumes run: "bind_result (lease_and_enter w ti c attempt lease now s) (\<lambda>(s1, r, authorization). rest s1 r authorization) = Inr (s', x)"
    and effect: "\<And>s1 r authorization. rest s1 r authorization = Inr (s', x) \<Longrightarrow> turn_effect attempt r s1 s'"
  shows "sound_step s s'"
proof -
  from run obtain s1 r authorization where e: "lease_and_enter w ti c attempt lease now s = Inr (s1, r, authorization)" and "rest s1 r authorization = Inr (s', x)"
    by (auto simp: bind_result_Inr_iff)
  with lease_and_enter_keeps [OF e] effect show ?thesis by (blast intro: sound_trans keeps_sound turn_effect_sound)
qed

lemma turn_sound: "sound_step s (fst (record_external_turn w ti c attempt session turn lease now s))"
  unfolding record_external_turn_def
proof (rule guarded_sound, unfold turn_body_def, erule entered_sound)
  fix s' x s1 r authorization
  assume rest: "(if pv_state r = At_DISPATCHED \<and> (pv_session r, pv_turn r) = (Some session, Some turn)
     then bind_result (require_session_checkpoint (ti_task_id ti) attempt session c authorization s1) (\<lambda>_. Inr (s1, Some r))
     else bind_result (require_provider (pv_state r = At_PREPARED \<and> pv_session r = Some session) ''external turn identity cannot be replayed for this attempt'') (\<lambda>_.
       bind_result (require_session_checkpoint (ti_task_id ti) attempt session c authorization s1) (\<lambda>_.
       bind_result (put_attempt attempt (r\<lparr>pv_turn := Some turn, pv_state := At_DISPATCHED\<rparr>) s1) (\<lambda>s2.
       bind_result (add_checkpoint (ti_task_id ti) (pv_role r) ''after-dispatch'' attempt c authorization now s2) (\<lambda>s3. Inr (s3, None)))))) = Inr (s', x)"
  show "turn_effect attempt r s1 s'"
  proof (cases "pv_state r = At_DISPATCHED \<and> (pv_session r, pv_turn r) = (Some session, Some turn)")
    case True
    with rest show ?thesis by (auto simp: bind_result_Inr_iff intro: turn_effect_keep)
  next
    case False
    have "turn_step r (r\<lparr>pv_turn := Some turn, pv_state := At_DISPATCHED\<rparr>)" if "pv_state r = At_PREPARED" "pv_session r = Some session"
      using that by (intro turn_step.dispatch) simp_all
    with False rest show ?thesis unfolding if_not_P [OF False] body_simps by (auto intro: turn_effect_put add_checkpoint_keeps)
  qed
qed

lemma bind_output_keeps: "bind_result (insert_keyed t attempt True attempt output (as_outputs t)) (\<lambda>rows. Inr (t\<lparr>as_outputs := rows\<rparr>, x)) = Inr (s', y) \<Longrightarrow> keeps_rows t s'"
  by (auto simp: bind_result_Inr_iff dest!: insert_keyed_effect intro!: keeps_tables map_le_append)

lemma completion_sound: "sound_step s (fst (record_completed_output w ti c attempt pointer evidence output lease now s))"
  unfolding record_completed_output_def
proof (rule guarded_sound, unfold completion_body_def Let_def, erule entered_sound)
  fix s' s1 :: attempt_store and x and r :: provider_attempt and authorization :: string
  let ?bind = "\<lambda>t. bind_result (insert_keyed t attempt True attempt output (as_outputs t)) (\<lambda>rows. Inr (t\<lparr>as_outputs := rows\<rparr>, None))"
  let ?row = "r\<lparr>pv_output := Some pointer, pv_evidence := Some evidence, pv_state := At_COMPLETED\<rparr>"
  assume rest: "(if pv_state r = At_COMPLETED then
       (if (pv_output r, pv_evidence r) \<noteq> (Some pointer, Some evidence) then provider_error ''completed output replay conflicts with committed state''
        else case map_of (as_outputs s1) attempt of None \<Rightarrow> ?bind s1
          | Some b \<Rightarrow> if b \<noteq> output then provider_error ''completed output replay conflicts with committed content'' else Inr (s1, None))
     else if pv_state r = At_DISPATCHED then
       (if present (\<lambda>b. b \<noteq> output) (map_of (as_outputs s1) attempt) then provider_error ''completed output conflicts with committed content''
        else bind_result (put_attempt attempt ?row s1) (\<lambda>s2. if map_of (as_outputs s1) attempt = None then ?bind s2 else Inr (s2, None)))
     else provider_error ''completed output requires a dispatched provider turn'') = Inr (s', x)"
  show "turn_effect attempt r s1 s'"
  proof (cases "pv_state r = At_COMPLETED")
    case True
    with rest have "keeps_rows s1 s'" by (auto split: if_split_asm option.split_asm dest!: bind_output_keeps)
    then show ?thesis by (rule turn_effect_keep)
  next
    case False
    with rest obtain s2 where "pv_state r = At_DISPATCHED" and put: "put_attempt attempt ?row s1 = Inr s2"
      and "(if map_of (as_outputs s1) attempt = None then ?bind s2 else Inr (s2, None)) = Inr (s', x)"
      by (simp split: if_split_asm) (auto simp: bind_result_Inr_iff [of "put_attempt attempt ?row s1"])
    then have "turn_step r ?row" "keeps_rows s2 s'" by (auto split: if_split_asm dest!: bind_output_keeps intro: turn_step.complete)
    then show ?thesis by (intro turn_effect_put [OF put]) auto
  qed
qed

lemma invalid_output_sound: "sound_step s (fst (record_invalid_output w ti c attempt pointer output reason lease now s))"
  unfolding record_invalid_output_def
proof (rule guarded_sound, unfold invalid_output_body_def, erule entered_sound)
  fix s' s1 :: attempt_store and x and r :: provider_attempt and authorization :: string
  let ?existing = "map snd (filter (\<lambda>(k, _). k = attempt) (as_invalid_outputs s1))" and ?row = "r\<lparr>pv_output := Some pointer, pv_state := At_AMBIGUOUS\<rparr>"
  assume rest: "(let existing = ?existing in
     if (output, reason) \<in> set existing \<and> pv_state r = At_AMBIGUOUS \<and> pv_output r = Some pointer then Inr (s1, Some r)
     else bind_result (require_provider (existing = []) ''invalid output replay conflicts with committed state'') (\<lambda>_.
       bind_result (require_provider (pv_state r = At_DISPATCHED) ''invalid output requires a dispatched provider turn'') (\<lambda>_.
       bind_result (put_attempt attempt ?row s1) (\<lambda>s2.
       if now \<le> 0 then Inl PyIntegrityError
       else Inr (s2\<lparr>as_invalid_outputs := as_invalid_outputs s2 @ [(attempt, (output, reason))]\<rparr>, None))))) = Inr (s', x)"
  show "turn_effect attempt r s1 s'"
  proof (cases "(output, reason) \<in> set ?existing \<and> pv_state r = At_AMBIGUOUS \<and> pv_output r = Some pointer")
    case True
    with rest show ?thesis by (auto simp: Let_def intro: turn_effect_keep)
  next
    case False
    from rest [unfolded Let_def if_not_P [OF False] body_simps] obtain s2 where "pv_state r = At_DISPATCHED" and put: "put_attempt attempt ?row s1 = Inr s2"
      and s': "s' = s2\<lparr>as_invalid_outputs := as_invalid_outputs s2 @ [(attempt, (output, reason))]\<rparr>"
      by (auto split: if_split_asm)
    then show ?thesis unfolding s' by (intro turn_effect_put [OF put] turn_step.reject keeps_tables) simp_all
  qed
qed

lemma acceptance_sound: "sound_step s (fst (accept_supervisor_review w ti c attempt review lease now s))"
  unfolding accept_supervisor_review_def
proof (rule guarded_sound, unfold acceptance_body_def, erule entered_sound)
  fix s' s1 :: attempt_store and x and r :: provider_attempt and authorization :: string
  let ?row = "r\<lparr>pv_accepted := Some review, pv_state := At_ACCEPTED\<rparr>"
  assume rest: "bind_result (require_provider (accepted_review_kind w ti attempt r s1 = Kind_generic) ''generic supervisor acceptance requires generic review evidence'') (\<lambda>_.
     if pv_role r = P_SUPERVISOR \<and> pv_state r = At_ACCEPTED \<and> pv_accepted r = Some review
     then bind_result (require_accepted_supervisor_review ti attempt r c s1) (\<lambda>_. Inr (s1, Some r))
     else bind_result (require_provider (pv_role r = P_SUPERVISOR \<and> pv_state r = At_COMPLETED) ''only a completed supervisor attempt can be accepted'') (\<lambda>_.
       bind_result (require_provider (pv_profile r \<in> set (supervisor_profile_identities (rcx_runtime c))) ''accepted supervisor profile binding has drifted'') (\<lambda>_.
       bind_result (put_attempt attempt ?row s1) (\<lambda>s2.
       if list_ex (\<lambda>(_, a). ap_attempt a = attempt) (as_accepted_reviews s2) \<or> pv_evidence r = None then Inl PyIntegrityError
       else bind_result (insert_keyed s2 attempt True review (accepted_review_values ti attempt r c) (as_accepted_reviews s2)) (\<lambda>rows.
         Inr (s2\<lparr>as_accepted_reviews := rows\<rparr>, None)))))) = Inr (s', x)"
  show "turn_effect attempt r s1 s'"
  proof (cases "pv_role r = P_SUPERVISOR \<and> pv_state r = At_ACCEPTED \<and> pv_accepted r = Some review")
    case True
    with rest show ?thesis by (auto simp: bind_result_Inr_iff intro: turn_effect_keep)
  next
    case False
    from rest [unfolded if_not_P [OF False] body_simps] obtain s2 rows where "pv_role r = P_SUPERVISOR" "pv_state r = At_COMPLETED"
      and put: "put_attempt attempt ?row s1 = Inr s2" and s': "s' = s2\<lparr>as_accepted_reviews := rows\<rparr>"
      by (auto simp: bind_result_Inr_iff split: if_split_asm)
    then show ?thesis unfolding s' by (intro turn_effect_put [OF put] turn_step.accept keeps_tables) simp_all
  qed
qed

lemma invalidate_sound: "sound_step s (fst (invalidate_supervisor_attempt w ti c attempt lease now s))"
proof -
  have "sound_step s s'" if "invalidate_body w ti c attempt lease now s = Inr (s', x)" for s' x
    using that unfolding invalidate_body_def
  proof (rule entered_sound)
    fix s1 r authorization
    assume rest: "bind_result (require_provider (pv_role r = P_SUPERVISOR) ''only a Supervisor attempt can be invalidated'') (\<lambda>_.
     if pv_state r = At_ACCEPTED then Inr (s1, r)
     else let r' = r\<lparr>pv_state := At_INVALIDATED\<rparr> in
       bind_result (if pv_state r \<noteq> At_INVALIDATED then put_attempt attempt r' s1 else Inr s1) (\<lambda>s2.
       bind_result (settle ti attempt Do_FRESH_SUPERVISOR_SESSION ''partial-supervisor-review'' now s2) (\<lambda>s3. Inr (s3, r')))) = Inr (s', x)"
    show "turn_effect attempt r s1 s'"
    proof (cases "pv_state r = At_ACCEPTED")
      case True
      with rest show ?thesis by (auto simp: bind_result_Inr_iff intro: turn_effect_keep)
    next
      case False
      from rest [unfolded if_not_P [OF False] body_simps] obtain s2 where "keeps_rows s2 s'"
        and "(if pv_state r \<noteq> At_INVALIDATED then put_attempt attempt (r\<lparr>pv_state := At_INVALIDATED\<rparr>) s1 else Inr s1) = Inr s2"
        using settle_keeps by blast
      then show ?thesis using False by (auto split: if_split_asm intro: turn_effect_keep closes)
    qed
  qed
  then show ?thesis by (auto simp: invalidate_supervisor_attempt_def split: sum.split intro!: transaction_sound)
qed

lemma terminal_sound: "sound_step s (fst (record_supervisor_terminal_failure w ti c attempt session turn failure lease now s))"
proof -
  have "sound_step s s'" if "terminal_body w ti c attempt session turn failure lease now s = Inr (s', x)" for s' x
    using that unfolding terminal_body_def
    apply (rule entered_sound)
    subgoal premises rest for s1 r authorization
      using rest unfolding body_simps
      by (auto simp: body_simps split: if_split_asm dest!: supervisor_failure_keeps settle_keeps intro: turn_effect_keep closes keeps_trans)
    done
  then show ?thesis by (auto simp: record_supervisor_terminal_failure_def split: sum.split intro!: transaction_sound)
qed

lemma scope_denial_sound: "sound_step s (fst (record_supervisor_scope_denial w ti c attempt session lease now s))"
proof -
  have "sound_step s s'" if "scope_denial_body w ti c attempt session lease now s = Inr (s', x)" for s' x
    using that unfolding scope_denial_body_def
    apply (rule entered_sound)
    subgoal premises rest for s1 r authorization
      using rest unfolding body_simps
      by (auto simp: body_simps split: if_split_asm dest!: supervisor_failure_keeps settle_keeps intro: turn_effect_keep closes_later)
    done
  then show ?thesis by (auto simp: record_supervisor_scope_denial_def split: sum.split intro!: transaction_sound)
qed

lemma block_body_effect:
  "expected \<noteq> At_ACCEPTED \<Longrightarrow> block_body entry conflicts requires expected blocker ti attempt now unsettled s1 r = Inr (s', x) \<Longrightarrow> turn_effect attempt r s1 s'"
  unfolding block_body_def body_simps by (auto simp: body_simps split: if_split_asm dest!: settle_keeps intro: turn_effect_keep closes)

lemma accounting_sound: "sound_step s (fst (record_supervisor_accounting_blocker w ti c attempt lease now s))"
  unfolding record_supervisor_accounting_blocker_def
  by (auto split: sum.split intro!: transaction_sound elim!: entered_sound dest: block_body_effect [rotated])

lemma block_session_sound: "sound_step s (fst (block_session_without_turn w ti c attempt lease now s))"
  unfolding block_session_without_turn_def
  by (auto split: sum.split intro!: transaction_sound elim!: entered_sound dest: block_body_effect [rotated])

lemma stale_target: "stale_decision r now = Some (action, blocker, target) \<Longrightarrow> target \<in> {Some At_BLOCKED, Some At_INVALIDATED}"
  by (auto simp: stale_decision_def split: if_split_asm attempt_role.split_asm)

lemma outcome_target:
  "recovery_outcome attempt r verified limit now s = Inr (action, blocker, Some x) \<Longrightarrow>
     x \<in> {At_AMBIGUOUS, At_BLOCKED, At_INVALIDATED} \<or> x = At_COMPLETED \<and> pv_state r = At_AMBIGUOUS \<and> pv_evidence r \<noteq> None"
  by (cases "pv_state r")
    (auto simp: recovery_outcome_def bind_result_Inr_iff split: if_split_asm option.split_asm prod.split_asm dest: stale_target)

lemma decision_target:
  "decide_recovery w ti c attempt r verified limit now s = Inr (action, blocker, Some x) \<Longrightarrow>
     x \<in> {At_AMBIGUOUS, At_BLOCKED, At_INVALIDATED} \<or> x = At_COMPLETED \<and> pv_state r = At_AMBIGUOUS \<and> pv_evidence r \<noteq> None"
  unfolding decide_recovery_def Let_def
  by (auto simp: bind_result_Inr_iff abandonment_state_def split: if_split_asm dest: outcome_target)

lemma accepted_move:
  assumes "put_attempt attempt (r\<lparr>pv_state := x\<rparr>) s = Inr t" and "pv_state r = At_ACCEPTED" and "x \<in> {At_AMBIGUOUS, At_BLOCKED, At_INVALIDATED}"
  shows "turn_step r (r\<lparr>pv_state := x\<rparr>)"
proof -
  have "row_valid (r\<lparr>pv_state := x\<rparr>)" using put_attempt_effect [OF assms(1)] by blast
  then have "pv_accepted r = None" using assms(3) by (auto simp: row_valid_def)
  then have "r\<lparr>pv_state := x\<rparr> = r\<lparr>pv_state := x, pv_accepted := None\<rparr>" by simp
  then show ?thesis using turn_step.withdraw [OF assms(2,3)] by simp
qed

lemma decided_move:
  assumes "decide_recovery w ti c attempt r verified limit now s = Inr (action, blocker, Some x)" and "put_attempt attempt (r\<lparr>pv_state := x\<rparr>) s' = Inr t"
  shows "turn_step r (r\<lparr>pv_state := x\<rparr>)"
  using decision_target [OF assms(1)] accepted_move [OF assms(2)]
  by (cases "pv_state r = At_ACCEPTED") (auto intro: turn_step.close turn_step.verify)

lemma stale_diff_sound:
  assumes run: "stale_diff_review ti attempt r s = Inr t" and row: "map_of (as_attempts s) attempt = Some r" and "pv_state r = At_ACCEPTED"
  shows "sound_step s t \<and> map_of (as_attempts t) attempt = Some (r\<lparr>pv_state := At_INVALIDATED, pv_accepted := None\<rparr>)"
proof -
  let ?row = "r\<lparr>pv_state := At_INVALIDATED, pv_accepted := None\<rparr>"
  from run obtain u diffs where put: "put_attempt attempt ?row (s\<lparr>as_accepted_reviews := filter (\<lambda>(_, a). ap_attempt a \<noteq> attempt) (as_accepted_reviews s)\<rparr>) = Inr u"
    and t: "t = u\<lparr>as_diff_reviews := diffs\<rparr>"
    unfolding stale_diff_review_def bind_result_Inr_iff by auto
  have "turn_step r ?row" using turn_step.withdraw [OF \<open>pv_state r = At_ACCEPTED\<close>] by simp
  with put_turn_sound [OF put] row have u: "sound_step (s\<lparr>as_accepted_reviews := filter (\<lambda>(_, a). ap_attempt a \<noteq> attempt) (as_accepted_reviews s)\<rparr>) u"
    "map_of (as_attempts u) attempt = Some ?row" by simp_all
  have "sound_step s u" by (rule sound_trans [OF keeps_sound u(1)]) (rule keeps_tables)
  moreover have "sound_step u t" unfolding t by (rule keeps_sound) (rule keeps_tables)
  ultimately show ?thesis using u(2) by (auto simp: t intro: sound_trans)
qed

lemma recover_sound: "sound_step s (fst (recover_attempt w ti c attempt verified limit lease now s))"
proof -
  have "sound_step s s'" if "recovery_body w ti c attempt verified limit lease now s = Inr (s', x)" for s' x
  proof -
    from that obtain r action blocker target s1 s2 s3 s4 where row: "map_of (as_attempts s) attempt = Some r"
      and d: "decide_recovery w ti c attempt r verified limit now s = Inr (action, blocker, target)"
      and stale: "(if pv_state r = At_ACCEPTED \<and> has_prefix ''diff-review:'' (pv_output r) then stale_diff_review ti attempt r s else Inr s) = Inr s1"
      and move: "let r1 = (if pv_state r = At_ACCEPTED \<and> has_prefix ''diff-review:'' (pv_output r) then r\<lparr>pv_state := At_INVALIDATED, pv_accepted := None\<rparr> else r);
          r2 = (case target of None \<Rightarrow> r1 | Some x \<Rightarrow> r1\<lparr>pv_state := x\<rparr>) in (if r2 \<noteq> r1 then put_attempt attempt r2 s1 else Inr s1) = Inr s2"
      and later: "(case blocker of None \<Rightarrow> Inr s2 | Some b \<Rightarrow> persist_recovery_outcome attempt action b now s2) = Inr s3"
        "keeps_rows s3 s4" "keeps_rows s4 s'"
      unfolding recovery_body_def body_simps by (blast dest: attempt_row_ofD cancel_abandoned_keeps add_event_keeps)
    have "sound_step s s2"
    proof (cases "pv_state r = At_ACCEPTED \<and> has_prefix ''diff-review:'' (pv_output r)")
      case True
      let ?r1 = "r\<lparr>pv_state := At_INVALIDATED, pv_accepted := None\<rparr>"
      from True stale row have s1: "sound_step s s1 \<and> map_of (as_attempts s1) attempt = Some ?r1" by (intro stale_diff_sound) simp_all
      have "sound_step s1 s2"
      proof (cases target)
        case (Some y)
        have "turn_step ?r1 (?r1\<lparr>pv_state := y\<rparr>)" using decision_target [OF d [unfolded Some]] True by (intro turn_step.close) auto
        with move Some True s1 put_turn_sound [of attempt "?r1\<lparr>pv_state := y\<rparr>" s1 s2 ?r1] show ?thesis
          unfolding Let_def by (auto split: if_split_asm)
      qed (use move True in \<open>auto simp: Let_def\<close>)
      with s1 show ?thesis by (blast intro: sound_trans)
    next
      case False
      then have s1: "s1 = s" using stale by auto
      show ?thesis
      proof (cases target)
        case (Some y)
        with move False show ?thesis unfolding Let_def s1
          using put_turn_sound [OF _ row decided_move [OF d [unfolded Some]]] by (auto split: if_split_asm)
      qed (use move False s1 in \<open>auto simp: Let_def\<close>)
    qed
    moreover have "keeps_rows s2 s3" using later(1) by (auto split: option.split_asm dest: persist_outcome_keeps)
    ultimately show ?thesis using later by (blast intro: sound_trans keeps_sound)
  qed
  then show ?thesis by (auto simp: recover_attempt_def split: sum.split intro!: transaction_sound)
qed

section \<open>Histories\<close>

datatype attempt_op =
    Prepare preparation
  | Claim_supervisor string
  | Claim_worker string
  | Bind_session string string
  | Bind_turn string string string
  | Complete_output string string string string
  | Invalid_output string string string string
  | Accept_review string string
  | Invalidate string
  | Terminal_failure string "string option" "string option" terminal_failure
  | Scope_denial string string
  | Accounting_blocker string
  | Block_session string
  | Recover string "string option" int

text \<open>An operation in its world, for a task and a context, under a lease and at a time; whether it succeeded does not matter.\<close>

type_synonym attempt_label = "attempt_world \<times> task_identity \<times> recovery_context \<times> transition_lease option \<times> int \<times> attempt_op"

fun run_attempt_op :: "attempt_label \<Rightarrow> attempt_store \<Rightarrow> attempt_store" where
  "run_attempt_op (w, ti, c, lease, now, Prepare p) s = fst (prepare_attempt w ti c p lease now s)"
| "run_attempt_op (w, ti, c, lease, now, Claim_supervisor attempt) s = fst (claim_supervisor_dispatch w ti c attempt lease now s)"
| "run_attempt_op (w, ti, c, lease, now, Claim_worker attempt) s = fst (claim_worker_dispatch w ti c attempt lease now s)"
| "run_attempt_op (w, ti, c, lease, now, Bind_session attempt session) s = fst (record_session_identity w ti c attempt session lease now s)"
| "run_attempt_op (w, ti, c, lease, now, Bind_turn attempt session turn) s = fst (record_external_turn w ti c attempt session turn lease now s)"
| "run_attempt_op (w, ti, c, lease, now, Complete_output attempt pointer evidence output) s =
     fst (record_completed_output w ti c attempt pointer evidence output lease now s)"
| "run_attempt_op (w, ti, c, lease, now, Invalid_output attempt pointer output reason) s =
     fst (record_invalid_output w ti c attempt pointer output reason lease now s)"
| "run_attempt_op (w, ti, c, lease, now, Accept_review attempt review) s = fst (accept_supervisor_review w ti c attempt review lease now s)"
| "run_attempt_op (w, ti, c, lease, now, Invalidate attempt) s = fst (invalidate_supervisor_attempt w ti c attempt lease now s)"
| "run_attempt_op (w, ti, c, lease, now, Terminal_failure attempt session turn failure) s =
     fst (record_supervisor_terminal_failure w ti c attempt session turn failure lease now s)"
| "run_attempt_op (w, ti, c, lease, now, Scope_denial attempt session) s = fst (record_supervisor_scope_denial w ti c attempt session lease now s)"
| "run_attempt_op (w, ti, c, lease, now, Accounting_blocker attempt) s = fst (record_supervisor_accounting_blocker w ti c attempt lease now s)"
| "run_attempt_op (w, ti, c, lease, now, Block_session attempt) s = fst (block_session_without_turn w ti c attempt lease now s)"
| "run_attempt_op (w, ti, c, lease, now, Recover attempt verified limit) s = fst (recover_attempt w ti c attempt verified limit lease now s)"

lemmas operations_sound = prepare_sound claim_sound session_sound turn_sound completion_sound invalid_output_sound acceptance_sound invalidate_sound
  terminal_sound scope_denial_sound accounting_sound block_session_sound recover_sound

lemma run_op_sound: "sound_step s (run_attempt_op l s)"
  by (cases "(l, s)" rule: run_attempt_op.cases) (simp_all add: operations_sound claim_supervisor_dispatch_def claim_worker_dispatch_def)

definition turns_ok :: "attempt_store \<Rightarrow> bool" where
  "turns_ok s \<longleftrightarrow> attempts_ok (map_of (as_attempts s)) \<and> coordinates_ok (map_of (as_coordinates s)) \<and> (\<forall>r \<in> ran (map_of (as_attempts s)). turn_shape r)"

definition no_attempts :: "attempt_store \<Rightarrow> bool" where
  "no_attempts s \<longleftrightarrow> as_attempts s = [] \<and> as_coordinates s = []"

lemma sound_shape:
  assumes "sound_step s t" and "\<forall>r \<in> ran (map_of (as_attempts s)). turn_shape r"
  shows "\<forall>r \<in> ran (map_of (as_attempts t)). turn_shape r"
proof
  fix r assume "r \<in> ran (map_of (as_attempts t))"
  then obtain k where k: "map_of (as_attempts t) k = Some r" by (auto simp: ran_def)
  have "row_evolves (map_of (as_attempts s) k) (Some r)" using assms(1) k unfolding sound_step_def by metis
  then show "turn_shape r" using assms(2)
    by (cases "map_of (as_attempts s) k") (auto intro: turn_steps_shape fresh_turn_shape ranI)
qed

lemma sound_turns_ok: "sound_step s t \<Longrightarrow> turns_ok s \<Longrightarrow> turns_ok t"
  using sound_shape [of s t] by (auto simp: turns_ok_def sound_step_def)

lemma empty_turns_ok: "no_attempts s \<Longrightarrow> turns_ok s"
  by (simp add: no_attempts_def turns_ok_def attempts_ok_def coordinates_ok_def)

definition attempt_history_step :: "attempt_store \<Rightarrow> attempt_label \<Rightarrow> attempt_store \<Rightarrow> bool" where
  "attempt_history_step s l t \<longleftrightarrow> t = run_attempt_op l s"

interpretation attempts: invariant_system no_attempts attempt_history_step turns_ok
  by unfold_locales (auto simp: attempt_history_step_def intro: empty_turns_ok sound_turns_ok run_op_sound)

lemma history_sound:
  assumes "attempts.reaches s ls t"
  shows "sound_step s t"
  using assms
proof (induction rule: attempts.reaches.induct)
  case (reaches_snoc s ls t l u)
  then show ?case by (auto simp: attempt_history_step_def intro: sound_trans run_op_sound)
qed simp

end
