(* ===== verification/Attempt_Samples.thy ===== *)
theory Attempt_Samples
  imports Attempt_Histories Recovery_Safety
begin

text \<open>Concrete turns, on which the hypotheses of the properties of provider turns hold.\<close>

definition turn_lease :: transition_lease where
  "turn_lease = \<lparr>tl_repository_id = ''repository-1'', tl_state_identity = ''state'', tl_owner = ''owner'', tl_generation = 1, tl_expires_at = 100\<rparr>"

definition turn_git :: git_world where
  "turn_git = \<lparr>gw_binding = BindingVerified, gw_dirty = Inr False, gw_head = Inr [], gw_lease_row = Some turn_lease, gw_state_id = ''state'', gw_now = 0\<rparr>"

definition turn_world :: attempt_world where
  "turn_world = \<lparr>aw_git = turn_git, aw_task_failure = \<lambda>_. None, aw_plan_review = \<lambda>_ _. None, aw_review_limit_consumed = \<lambda>_. False,
     aw_recovery = \<lambda>_. recovery_sample_world [],
     aw_review = \<lparr>vw_git = turn_git, vw_task_failure = \<lambda>_. None, vw_seals = \<lambda>_. None, vw_repositories = \<lambda>_. None, vw_grants = \<lambda>_. None,
       vw_attempts = \<lambda>_. None, vw_diff_reviews = \<lambda>_. None, vw_plan_reviews = \<lambda>_. None\<rparr>,
     aw_implementation = \<lambda>_. None\<rparr>"

definition turn_context :: "char \<Rightarrow> recovery_context" where
  "turn_context policy = \<lparr>rcx_task_id = ''task-1'', rcx_repository = replicate 64 CHR ''1'', rcx_worktree = replicate 64 CHR ''2'', rcx_branch = replicate 64 CHR ''3'',
     rcx_base = replicate 64 CHR ''4'', rcx_candidate = Some (utf8_digest (replicate 40 CHR ''a'')), rcx_candidate_sha = Some (replicate 40 CHR ''a''),
     rcx_policy = replicate 64 policy, rcx_deployment = replicate 64 CHR ''6'', rcx_runtime = sample_runtime, rcx_contract_commit = None, rcx_case_id = None,
     rcx_receipt = NoReceipt\<rparr>"

definition supervisor_turn :: provider_attempt where
  "supervisor_turn = \<lparr>pv_task = ''task-1'', pv_role = P_SUPERVISOR, pv_number = 1, pv_lease_id = ''lease-1'', pv_lease_expires_at = 90, pv_session = None,
     pv_turn = None, pv_input = replicate 64 CHR ''7'', pv_output = None, pv_evidence = None, pv_accepted = None, pv_state = At_PREPARED,
     pv_profile = ''sha256:'' @ replicate 64 CHR ''c'', pv_position = 1, pv_ordinal = 0\<rparr>"

definition worker_turn :: provider_attempt where
  "worker_turn = supervisor_turn\<lparr>pv_role := P_WORKER, pv_position := 0, pv_session := Some ''session-2'', pv_turn := Some ''turn-2'', pv_state := At_DISPATCHED\<rparr>"

definition turn_authorization :: authorization_row where
  "turn_authorization = \<lparr>au_contract_commit = replicate 40 CHR ''a'', au_candidate_sha = Some (replicate 40 CHR ''a''), au_case_id = ''case-1'',
     au_receipt_digest = ''sha256:'' @ replicate 64 CHR ''8'', au_ordinal = 1, au_fresh_until = 100, au_contract_identity = ''sha256:'' @ replicate 64 CHR ''9'',
     au_role = ''supervisor'', au_profile = ''sha256:'' @ replicate 64 CHR ''c''\<rparr>"

definition turn_seal :: string where
  "turn_seal = authorization_fingerprint ''attempt-1'' turn_authorization"

definition turn_store :: "provider_attempt \<Rightarrow> attempt_store" where
  "turn_store r = \<lparr>as_attempts = [(''attempt-1'', r), (''attempt-2'', worker_turn)],
     as_coordinates = [(''attempt-1'', \<lparr>co_task = ''task-1'', co_epoch = 0, co_round = 1, co_position = 1, co_ordinal = 0, co_profile = ''sha256:'' @ replicate 64 CHR ''c''\<rparr>)],
     as_contexts = [(''attempt-1'', (''task-1'', context_values (turn_context CHR ''5'')))], as_authorizations = [(''attempt-1'', turn_authorization)],
     as_seals = [(''attempt-1'', turn_seal)],
     as_checkpoints = [(checkpoint_id ''attempt-1'' ''before-dispatch'',
       (''task-1'', ''supervisor'', ''before-dispatch'', checkpoint_fingerprint (turn_context CHR ''5'') turn_seal))],
     as_sessions = [], as_claims = [], as_admissions = [], as_outputs = [], as_invalid_outputs = [], as_outcomes = [], as_accepted_reviews = [], as_events = [],
     as_bindings = [], as_policies = [], as_diff_reviews = [], as_failures = empty_ledger,
     as_reviews = \<lparr>item_rows = [], provenance_rows = [], objective_rows = [], command_rows = []\<rparr>\<rparr>"

lemma turn_store_sel [simp]:
  "as_attempts (turn_store r) = [(''attempt-1'', r), (''attempt-2'', worker_turn)]" "as_sessions (turn_store r) = []" "as_claims (turn_store r) = []"
  "as_admissions (turn_store r) = []" "as_outcomes (turn_store r) = []" "as_events (turn_store r) = []" "as_diff_reviews (turn_store r) = []"
  "as_failures (turn_store r) = empty_ledger" "as_accepted_reviews (turn_store r) = []"
  by (simp_all add: turn_store_def)

lemma sample_candidate: "rcx_candidate_sha (turn_context x) = Some (replicate 40 CHR ''a'')"
  by (simp add: turn_context_def)

lemma turn_tokens [simp]: "is_recovery_token ''attempt-1''" "is_recovery_token ''session-1''" "is_recovery_token ''case-1''" "is_recovery_token ''lease-1''"
  by (simp_all add: is_recovery_token_def is_recovery_token_char_def is_lower_def is_upper_def is_digit_def less_eq_char_def)

lemma sample_entry [simp]: "require_lease turn_world (Some turn_lease) recovery_sample_task 50 = Inr ()" "require_task turn_world recovery_sample_task = Inr ()"
  by (simp_all add: require_lease_def require_task_def turn_world_def turn_git_def lease_failure_def turn_lease_def recovery_sample_task_def)

lemma sample_task_id [simp]: "ti_task_id recovery_sample_task = ''task-1''"
  by (simp add: recovery_sample_task_def)

lemma hex_digits [simp]: "is_hex CHR ''4''" "is_hex CHR ''5''" "is_hex CHR ''6''" "is_hex CHR ''8''" "is_hex CHR ''9''"
  by (simp_all add: is_hex_def)

lemma sample_context_valid [simp]: "is_hex x \<Longrightarrow> validate_context recovery_sample_task (turn_context x) = Inr ()"
  by (simp add: validate_context_def construct_ok context_guards_def turn_context_def)

lemma sample_turns_ok: "turns_ok (turn_store supervisor_turn)"
  by (auto simp: turns_ok_def turn_store_def attempts_ok_def coordinates_ok_def supervisor_turn_def worker_turn_def row_valid_def row_conflicts_def sessions_apart_def
      turn_shape_def ran_def split: if_split_asm)

text \<open>A recovery in a context with another policy blocks the prepared turn.\<close>

definition turn_blocked :: attempt_store where
  "turn_blocked = (turn_store (supervisor_turn\<lparr>pv_state := At_BLOCKED\<rparr>))\<lparr>as_outcomes := [(''attempt-1'', (''blocked-identity-drift'', Some ''identity-drift''))],
     as_events := [(''task-1'', ''attempt-1'', ''blocked-identity-drift'', 50)]\<rparr>"

definition drift_projection :: recovery_projection where
  "drift_projection = recovery_projection_of ''attempt-1'' (supervisor_turn\<lparr>pv_state := At_BLOCKED\<rparr>) Do_BLOCKED_IDENTITY_DRIFT (Some ''identity-drift'')"

lemma sample_history: "attempts.reaches s [l] (run_attempt_op l s)"
  using attempts.reaches_snoc [OF attempts.reaches_nil, of s l] by (simp add: attempt_history_step_def)

lemma sample_drift: "\<not> context_matches recovery_sample_task ''attempt-1'' (turn_context CHR ''e'') (turn_store r)"
  by (simp add: context_matches_def turn_store_def context_values_def turn_context_def replicate_eq_replicate)

lemma sample_recovery:
  "recover_attempt turn_world recovery_sample_task (turn_context CHR ''e'') ''attempt-1'' None 3 (Some turn_lease) 50 (turn_store supervisor_turn) = (turn_blocked, Inr drift_projection)"
proof -
  have d: "decide_recovery turn_world recovery_sample_task (turn_context CHR ''e'') ''attempt-1'' supervisor_turn None 3 50 (turn_store supervisor_turn)
      = Inr (Do_BLOCKED_IDENTITY_DRIFT, Some ''identity-drift'', Some At_BLOCKED)"
    by (simp add: decide_recovery_def sample_drift abandonment_state_def supervisor_turn_def)
  have row: "attempt_row_of ''task-1'' ''attempt-1'' (turn_store supervisor_turn) = Inr supervisor_turn"
    by (simp add: attempt_row_of_def turn_store_def supervisor_turn_def)
  have "row_valid (supervisor_turn\<lparr>pv_state := At_BLOCKED\<rparr>)" by (simp add: row_valid_def supervisor_turn_def)
  then have put: "put_attempt ''attempt-1'' (supervisor_turn\<lparr>pv_state := At_BLOCKED\<rparr>) (turn_store supervisor_turn) = Inr (turn_store (supervisor_turn\<lparr>pv_state := At_BLOCKED\<rparr>))"
    by (simp add: put_attempt_def turn_store_def) (simp add: row_conflicts_def supervisor_turn_def worker_turn_def)
  have "recovery_body turn_world recovery_sample_task (turn_context CHR ''e'') ''attempt-1'' None 3 (Some turn_lease) 50 (turn_store supervisor_turn)
      = Inr (turn_blocked, drift_projection)"
    using put by (simp add: recovery_body_def row d Let_def)
      (simp add: supervisor_turn_def turn_store_def turn_blocked_def drift_projection_def persist_recovery_outcome_def insert_keyed_def cancel_abandoned_def add_event_def)
  then show ?thesis by (simp add: recover_attempt_def provider_token_def require_provider_def run_transaction_def)
qed

abbreviation drift_label :: attempt_label where
  "drift_label \<equiv> (turn_world, recovery_sample_task, turn_context CHR ''e'', Some turn_lease, 50, Recover ''attempt-1'' None 3)"

lemma sample_reaches: "attempts.reaches (turn_store supervisor_turn) [drift_label] turn_blocked"
  using sample_history [of "turn_store supervisor_turn" drift_label] by (simp add: sample_recovery)

text \<open>Entering the attempt with its own context.\<close>

lemma turn_authorized:
  assumes "pv_role r = P_SUPERVISOR" and "pv_profile r = ''sha256:'' @ replicate 64 CHR ''c''"
    and "as_authorizations s = as_authorizations (turn_store q)" "as_seals s = as_seals (turn_store q)" "as_checkpoints s = as_checkpoints (turn_store q)"
  shows "require_persisted_health_authorization False ''attempt-1'' (turn_context CHR ''5'') (pv_role r) (pv_profile r) 50 s = Inr turn_seal"
proof -
  have "authorization_intact ''attempt-1'' (turn_context CHR ''5'') (pv_role r) (pv_profile r) 50 turn_authorization turn_seal"
    by (simp add: authorization_intact_def assms turn_authorization_def turn_seal_def turn_context_def authorization_fingerprint_def)
  then show ?thesis using assms
    by (simp add: require_persisted_health_authorization_def turn_store_def Let_def) (simp add: turn_context_def)
qed

lemma sample_enter:
  assumes "pv_task r = ''task-1''" and "pv_role r = P_SUPERVISOR" and "pv_profile r = ''sha256:'' @ replicate 64 CHR ''c''"
    and "as_authorizations s = as_authorizations (turn_store q)" "as_seals s = as_seals (turn_store q)" "as_checkpoints s = as_checkpoints (turn_store q)"
    and "as_contexts s = as_contexts (turn_store q)" "map_of (as_attempts s) ''attempt-1'' = Some r"
  shows "enter_attempt recovery_sample_task (turn_context CHR ''5'') ''attempt-1'' 50 s = Inr (s, r, turn_seal)"
  using turn_authorized [OF assms(2-6)] assms
  by (simp add: enter_attempt_def persist_context_def attempt_row_of_def) (simp add: turn_store_def turn_context_def)

lemma sample_supervisor_profile [simp]: "pv_task supervisor_turn = ''task-1''" "pv_role supervisor_turn = P_SUPERVISOR" "pv_profile supervisor_turn = ''sha256:'' @ replicate 64 CHR ''c''"
  by (simp_all add: supervisor_turn_def)

lemma turn_scope_open: "dispatch_scope_open turn_world recovery_sample_task role (turn_store r) = Inr ()"
  by (simp add: dispatch_scope_open_def require_scope_open_def turn_store_def empty_ledger_def)

lemma sample_claim:
  "\<exists>s. claim_supervisor_dispatch turn_world recovery_sample_task (turn_context CHR ''5'') ''attempt-1'' (Some turn_lease) 50 (turn_store supervisor_turn) = (s, Inr supervisor_turn)"
proof -
  let ?s = "turn_store supervisor_turn" and ?c = "turn_context CHR ''5''"
  obtain pre where pre: "pre_dispatch_failure_identity Role_SUPERVISOR ''attempt-1'' = Inr pre" by (simp add: pre_dispatch_failure_identity_def)
  define claims where "claims = [(''attempt-1'', (''task-1'', pv_input supervisor_turn))]"
  define s' where "s' = ?s\<lparr>as_claims := claims, as_admissions := [(''attempt-1'', admission_of recovery_sample_task ''attempt-1'' supervisor_turn ?c (replicate 40 CHR ''a'') pre)]\<rparr>"
  have enter: "enter_attempt recovery_sample_task ?c ''attempt-1'' 50 ?s = Inr (?s, supervisor_turn, turn_seal)"
    by (rule sample_enter [where q = supervisor_turn]) simp_all
  have claims: "insert_keyed ?s ''attempt-1'' True ''attempt-1'' (''task-1'', pv_input supervisor_turn) (as_claims ?s) = Inr claims"
    by (simp add: insert_keyed_def turn_store_def claims_def)
  have admission: "persist_failure_admission recovery_sample_task ''attempt-1'' supervisor_turn ?c pre True (?s\<lparr>as_claims := claims\<rparr>) = Inr s'"
    by (simp add: persist_failure_admission_def sample_candidate insert_keyed_def s'_def)
  have unclaimed: "map_of (as_claims ?s) ''attempt-1'' = None" "untouched supervisor_turn" by (simp_all add: turn_store_def untouched_def supervisor_turn_def)
  have body: "claim_body P_SUPERVISOR Role_SUPERVISOR requires consumed turn_world recovery_sample_task ?c ''attempt-1'' (Some turn_lease) 50 ?s = Inr (s', None)" for requires consumed
    using claims admission unclaimed by (simp add: claim_body_def enter turn_scope_open pre require_provider_def)
  have "read_attempt turn_world recovery_sample_task ''attempt-1'' (Some ?c) 50 s' = Inr supervisor_turn"
  proof -
    have "enter_attempt recovery_sample_task ?c ''attempt-1'' 50 s' = Inr (s', supervisor_turn, turn_seal)"
      by (rule sample_enter [where q = supervisor_turn]) (simp_all add: s'_def)
    then have "persist_context ''attempt-1'' ?c s' = Inr s'" "attempt_row_of ''task-1'' ''attempt-1'' s' = Inr supervisor_turn"
        "require_persisted_health_authorization False ''attempt-1'' ?c P_SUPERVISOR (''sha256:'' @ replicate 64 CHR ''c'') 50 s' = Inr turn_seal"
      unfolding enter_attempt_def bind_result_Inr_iff by auto
    moreover have "accepted_review_kind turn_world recovery_sample_task ''attempt-1'' supervisor_turn s' = Kind_generic"
      by (simp add: accepted_review_kind_def turn_world_def diff_review_of_def s'_def turn_store_def has_prefix_def) (simp add: supervisor_turn_def)
    moreover have "pv_state supervisor_turn = At_PREPARED" by (simp add: supervisor_turn_def)
    ultimately show ?thesis by (simp add: read_attempt_def provider_token_def require_provider_def)
  qed
  then show ?thesis using body by (simp add: claim_supervisor_dispatch_def claim_dispatch_def provider_token_def require_provider_def run_transaction_def then_read_def)
qed

text \<open>A turn with a claim and a session is denied its scope.\<close>

definition session_store :: attempt_store where
  "session_store = (turn_store (supervisor_turn\<lparr>pv_session := Some ''session-1''\<rparr>))\<lparr>as_claims := [(''attempt-1'', (''task-1'', pv_input supervisor_turn))],
     as_sessions := [(''attempt-1'', (''task-1'', ''session-1'', checkpoint_fingerprint (turn_context CHR ''5'') turn_seal))]\<rparr>"

lemma sample_failure_recorded:
  assumes "as_failures s = empty_ledger" and "pv_profile r = ''sha256:'' @ replicate 64 CHR ''c''"
  shows "\<exists>ledger. record_supervisor_failure turn_world recovery_sample_task (turn_context CHR ''5'') ''attempt-1'' r ''session-1'' SANDBOX_OR_APPROVAL_DENIED 50 s
    = Inr (s\<lparr>as_failures := ledger\<rparr>)"
proof -
  define b where "b = \<lparr>fb_candidate_sha = replicate 40 CHR ''a'', fb_policy_digest = ''sha256:'' @ replicate 64 CHR ''5'',
     fb_configuration_digest = ''sha256:'' @ replicate 64 CHR ''a'', fb_authority_scope = ''supervisor:task-1'', fb_role = Role_SUPERVISOR,
     fb_profile_identity = ''sha256:'' @ replicate 64 CHR ''c'', fb_session_identity = ''session-1'', fb_attempt_identity = ''attempt-1''\<rparr>"
  have made: "make_failure_binding b = Inr b"
    by (simp add: make_failure_binding_def construct_ok b_def failure_binding_guards_def is_sha_def list_all_iff is_recovery_token_def
      is_recovery_token_char_def is_lower_def is_upper_def is_digit_def is_digest_def is_hex_def)
  obtain f where f: "classify b F_HOST_SECURITY_DENIAL (Observed_source VERIFIED_HOST) = Inr f" "fr_schema f = RECOVERY_V3" "list_all fst (failure_record_guards f)"
    using classify_closed [of "Observed_source VERIFIED_HOST" b F_HOST_SECURITY_DENIAL] by (auto simp: observation_ok_def untrusted_sources_def)
  have compatible: "require_failure_compatibility f = Inr ()" using f(3) by (simp add: require_failure_compatibility_def failure_record_guards_def)
  have bound: "\<lparr>fb_candidate_sha = (case rcx_candidate_sha (turn_context CHR ''5'') of Some sha \<Rightarrow> sha | None \<Rightarrow> ti_base_sha recovery_sample_task),
         fb_policy_digest = ''sha256:'' @ rcx_policy (turn_context CHR ''5''), fb_configuration_digest = resolved_digest (rcx_runtime (turn_context CHR ''5'')),
         fb_authority_scope = ''supervisor:'' @ ti_task_id recovery_sample_task, fb_role = Role_SUPERVISOR, fb_profile_identity = pv_profile r,
         fb_session_identity = ''session-1'', fb_attempt_identity = ''attempt-1''\<rparr> = b"
    by (simp add: b_def assms) (simp add: turn_context_def sample_runtime_def)
  have role: "fb_role b = Role_SUPERVISOR" by (simp add: b_def)
  obtain ledger d where stored: "record_durable_failure (aw_recovery turn_world s) recovery_sample_task f 50 empty_ledger = Inr (ledger, d)"
    using compatible f(2) by (simp add: record_durable_failure_def require_def empty_ledger_def turn_world_def recovery_sample_world_def)
  have "classify_native_failure Role_SUPERVISOR b (Some (codex_failure_value SANDBOX_OR_APPROVAL_DENIED)) = Inr f"
    using f(1) role by (simp add: classify_native_failure_def native_failure_class_def classify_for_role_def)
  then have "record_supervisor_failure turn_world recovery_sample_task (turn_context CHR ''5'') ''attempt-1'' r ''session-1'' SANDBOX_OR_APPROVAL_DENIED 50 s
      = Inr (s\<lparr>as_failures := ledger\<rparr>)"
    unfolding record_supervisor_failure_def bound made assms(1) using stored by simp
  then show ?thesis by blast
qed

lemma sample_scope_denial:
  "\<exists>s r. record_supervisor_scope_denial turn_world recovery_sample_task (turn_context CHR ''5'') ''attempt-1'' ''session-1'' (Some turn_lease) 50 session_store = (s, Inr r)"
proof -
  let ?r = "supervisor_turn\<lparr>pv_session := Some ''session-1''\<rparr>" and ?c = "turn_context CHR ''5''"
  have enter: "enter_attempt recovery_sample_task ?c ''attempt-1'' 50 session_store = Inr (session_store, ?r, turn_seal)"
    by (rule sample_enter [where q = supervisor_turn]) (simp_all add: session_store_def turn_store_def)
  have "as_failures session_store = empty_ledger" by (simp add: session_store_def)
  then obtain ledger where fail: "record_supervisor_failure turn_world recovery_sample_task ?c ''attempt-1'' ?r ''session-1'' SANDBOX_OR_APPROVAL_DENIED 50 session_store
      = Inr (session_store\<lparr>as_failures := ledger\<rparr>)" using sample_failure_recorded by force
  obtain pre where pre: "pre_dispatch_failure_identity Role_SUPERVISOR ''attempt-1'' = Inr pre" "pre \<noteq> ''session-1''" by (simp add: pre_dispatch_failure_identity_def)
  have checks: "claim_held recovery_sample_task ''attempt-1'' ?r session_store" "require_session_checkpoint ''task-1'' ''attempt-1'' ''session-1'' ?c turn_seal session_store = Inr ()"
    "pv_state ?r = At_PREPARED" "pv_role ?r = P_SUPERVISOR" "pv_session ?r = Some ''session-1''"
    by (simp_all add: claim_held_def require_session_checkpoint_def session_store_def require_provider_def) (simp add: supervisor_turn_def)
  let ?s2 = "session_store\<lparr>as_failures := ledger\<rparr>" and ?q = "?r\<lparr>pv_state := At_BLOCKED\<rparr>"
  have "row_valid ?q" "\<not> row_conflicts ?q worker_turn" by (simp_all add: row_valid_def row_conflicts_def worker_turn_def supervisor_turn_def)
  then have put: "put_attempt ''attempt-1'' ?q ?s2 = Inr (?s2\<lparr>as_attempts := [(''attempt-1'', ?q), (''attempt-2'', worker_turn)]\<rparr>)"
    by (simp add: put_attempt_def session_store_def)
  have "\<exists>s. settle recovery_sample_task ''attempt-1'' Do_BLOCKED_AMBIGUOUS_TURN ''scope-stopped'' 50 (?s2\<lparr>as_attempts := [(''attempt-1'', ?q), (''attempt-2'', worker_turn)]\<rparr>) = Inr s"
    by (simp add: settle_def persist_recovery_outcome_def insert_keyed_def add_event_def session_store_def)
  then show ?thesis using enter fail pre checks put
    by (auto simp: record_supervisor_scope_denial_def valid_context_and_token_def provider_token_def require_provider_def run_transaction_def scope_denial_body_def
        lease_and_enter_def Let_def)
qed

end
