(* ===== verification/Attempt_Safety.thy ===== *)
theory Attempt_Safety
  imports Attempt_Samples
begin

text \<open>
  Properties of provider turns: the life cycle of a turn and its write-once identity, the isolation of
  Supervisor sessions, the consumption of a dispatch claim, and the bound on Supervisor coordinates.
\<close>

section \<open>Histories\<close>

lemma history_ok: "turns_ok s \<Longrightarrow> attempts.reaches s ls t \<Longrightarrow> turns_ok t"
  by (blast intro: sound_turns_ok history_sound)

text \<open>
  C20 (turns_refine_lifecycle). Every history of operations on provider turns, successful or not, refines the
  life cycle of a turn: no row is ever deleted, a row that appears started as a fresh turn, and a row that was
  there moved along the life cycle only: session, dispatch, completion, acceptance, and the closing states.
\<close>

theorem turns_refine_lifecycle:
  "attempts.reaches s ls t \<Longrightarrow> row_evolves (map_of (as_attempts s) attempt) (map_of (as_attempts t) attempt)"
  using history_sound unfolding sound_step_def by blast

theorem turns_refine_lifecycle_witness:
  "attempts.reaches (turn_store supervisor_turn) [drift_label] turn_blocked
   \<and> row_evolves (map_of (as_attempts (turn_store supervisor_turn)) ''attempt-1'') (map_of (as_attempts turn_blocked) ''attempt-1'')"
  using sample_reaches turns_refine_lifecycle [OF sample_reaches] by blast


text \<open>
  Over any history an attempt stays, its task, role, number, lease, input,
  profile and position never change, its session, turn, output pointer and evidence never change once they are
  written, and its context, health authorization, seal, checkpoints, claim, output, recovery outcome and
  coordinate are never rewritten.
\<close>

lemma turn_identity_written_once:
  assumes "turns_ok s" and "attempts.reaches s ls t" and "map_of (as_attempts s) attempt = Some r"
  shows "(\<exists>q. map_of (as_attempts t) attempt = Some q \<and> writes_once r q) \<and> records_extend s t"
proof -
  have "turn_shape r" using assms(1,3) unfolding turns_ok_def by (auto intro: ranI)
  moreover have "row_evolves (Some r) (map_of (as_attempts t) attempt)" and "records_extend s t"
    using history_sound [OF assms(2)] assms(3) unfolding sound_step_def by metis+
  ultimately show ?thesis by (cases "map_of (as_attempts t) attempt") (auto intro: turn_steps_write_once)
qed

text \<open>
  C7 (supervisor_sessions_isolated). In every store that a history reaches from a consistent one (the empty
  store is, \<open>empty_turns_ok\<close>), two attempts of a task share a session only if both are planning or worker
  turns, so that a Supervisor session belongs to one attempt; attempts of a role never share a number or an
  external turn, no two attempts accept the same review, and only an accepted Supervisor turn, which has a
  session, a turn, an output and evidence, carries an accepted review.
\<close>

theorem supervisor_sessions_isolated:
  assumes "turns_ok s" and "attempts.reaches s ls t" and "map_of (as_attempts t) k = Some r" and "map_of (as_attempts t) l = Some q"
    and "k \<noteq> l" and "pv_task r = pv_task q"
  shows "(pv_session r \<noteq> None \<and> pv_session r = pv_session q \<longrightarrow> pv_role r \<noteq> P_SUPERVISOR \<and> pv_role q \<noteq> P_SUPERVISOR)
    \<and> (pv_role r, pv_number r) \<noteq> (pv_role q, pv_number q) \<and> \<not> (pv_turn r \<noteq> None \<and> (pv_role r, pv_turn r) = (pv_role q, pv_turn q))
    \<and> \<not> (pv_accepted r \<noteq> None \<and> pv_accepted r = pv_accepted q)
    \<and> (pv_accepted r \<noteq> None \<longrightarrow> pv_role r = P_SUPERVISOR \<and> pv_state r = At_ACCEPTED \<and> pv_session r \<noteq> None \<and> pv_turn r \<noteq> None
        \<and> pv_output r \<noteq> None \<and> pv_evidence r \<noteq> None)"
proof -
  have ok: "turns_ok t" using assms(1,2) by (rule history_ok)
  then have "attempts_ok (map_of (as_attempts t))" by (simp add: turns_ok_def)
  then have apart: "\<not> row_conflicts r q" "sessions_apart r q" using assms(3-5) unfolding attempts_ok_def by blast+
  have shape: "turn_shape r" using ok assms(3) unfolding turns_ok_def by (blast intro: ranI)
  have "pv_session r \<noteq> None \<and> pv_session r = pv_session q \<longrightarrow> pv_role r \<noteq> P_SUPERVISOR \<and> pv_role q \<noteq> P_SUPERVISOR"
    using apart(2) assms(6) unfolding sessions_apart_def by auto
  moreover have "(pv_role r, pv_number r) \<noteq> (pv_role q, pv_number q) \<and> \<not> (pv_turn r \<noteq> None \<and> (pv_role r, pv_turn r) = (pv_role q, pv_turn q))
      \<and> \<not> (pv_accepted r \<noteq> None \<and> pv_accepted r = pv_accepted q)"
    using apart(1) assms(6) unfolding row_conflicts_def by auto
  moreover have "pv_accepted r \<noteq> None \<longrightarrow> pv_role r = P_SUPERVISOR \<and> pv_state r = At_ACCEPTED \<and> pv_session r \<noteq> None \<and> pv_turn r \<noteq> None
      \<and> pv_output r \<noteq> None \<and> pv_evidence r \<noteq> None"
    using shape unfolding turn_shape_def by auto
  ultimately show ?thesis by blast
qed

theorem supervisor_sessions_isolated_witness:
  "map_of (as_attempts turn_blocked) ''attempt-1'' = Some (supervisor_turn\<lparr>pv_state := At_BLOCKED\<rparr>) \<and> map_of (as_attempts turn_blocked) ''attempt-2'' = Some worker_turn
   \<and> (pv_role supervisor_turn, pv_number supervisor_turn) \<noteq> (pv_role worker_turn, pv_number worker_turn)"
proof -
  have rows: "map_of (as_attempts turn_blocked) ''attempt-1'' = Some (supervisor_turn\<lparr>pv_state := At_BLOCKED\<rparr>)" "map_of (as_attempts turn_blocked) ''attempt-2'' = Some worker_turn"
    by (simp_all add: turn_blocked_def)
  have "pv_task (supervisor_turn\<lparr>pv_state := At_BLOCKED\<rparr>) = pv_task worker_turn" by (simp add: worker_turn_def)
  from supervisor_sessions_isolated [OF sample_turns_ok sample_reaches rows _ this] rows show ?thesis by simp
qed


text \<open>
  After any history, at most three physical attempts are reserved for one
  Supervisor position of one round and epoch of a task.
\<close>

lemma coordinate_attempts_bounded:
  assumes "turns_ok s" and "attempts.reaches s ls t"
  shows "card {attempt. \<exists>r. map_of (as_coordinates t) attempt = Some r \<and> co_task r = task \<and> co_epoch r = e \<and> co_round r = n \<and> co_position r = p} \<le> 3"
proof -
  let ?f = "map_of (as_coordinates t)"
  let ?A = "{attempt. \<exists>r. ?f attempt = Some r \<and> co_task r = task \<and> co_epoch r = e \<and> co_round r = n \<and> co_position r = p}"
  have ok: "coordinates_ok ?f" using history_ok [OF assms] by (simp add: turns_ok_def)
  have inj: "inj_on (\<lambda>attempt. co_ordinal (the (?f attempt))) ?A"
    using ok unfolding coordinates_ok_def inj_on_def coordinate_of_def by fastforce
  have range: "(\<lambda>attempt. co_ordinal (the (?f attempt))) ` ?A \<subseteq> {0..2}" using ok unfolding coordinates_ok_def by auto
  have "card ?A \<le> card {0..2 :: int}" using card_inj_on_le [OF inj range] by simp
  then show ?thesis by simp
qed

section \<open>Dispatch claims\<close>

lemma claim_fails:
  assumes "claim_body role failure requires consumed w ti c attempt lease now s = Inl e"
  shows "\<exists>e. claim_dispatch role failure requires consumed w ti c attempt lease now s = (s, Inl e)"
  using assms by (auto simp: claim_dispatch_def run_transaction_def then_read_def split: sum.split)

lemma not_Inr_Inl: "(\<And>x. m \<noteq> Inr x) \<Longrightarrow> \<exists>e. m = Inl e"
  by (cases m) auto

lemma claim_consumed:
  assumes "map_of (as_claims s) attempt \<noteq> None"
  shows "\<exists>e. claim_dispatch role failure requires consumed w ti c attempt lease now s = (s, Inl e)"
proof -
  have "claim_body role failure requires consumed w ti c attempt lease now s \<noteq> Inr y" for y
  proof
    assume "claim_body role failure requires consumed w ti c attempt lease now s = Inr y"
    then obtain s1 r authorization where e: "enter_attempt ti c attempt now s = Inr (s1, r, authorization)" and "map_of (as_claims s1) attempt = None"
      by (cases y) (simp only: claim_body_def body_simps, blast)
    moreover have "map_of (as_claims s) \<subseteq>\<^sub>m map_of (as_claims s1)"
      using enter_attempt_keeps [OF e] by (simp add: keeps_rows_def sound_step_def records_extend_def)
    ultimately show False using assms by (auto simp: map_le_def dom_def)
  qed
  then show ?thesis using not_Inr_Inl claim_fails by metis
qed

lemma claim_effect:
  assumes "claim_dispatch role failure requires consumed w ti c attempt lease now s = (s', Inr row)"
  shows "map_of (as_claims s') attempt \<noteq> None"
proof -
  from assms obtain x where "claim_body role failure requires consumed w ti c attempt lease now s = Inr (s', x)"
    by (auto simp: claim_dispatch_def run_transaction_def then_read_def split: sum.split_asm option.split_asm)
  then obtain s1 r authorization rows pre where rows: "insert_keyed s1 attempt True attempt (ti_task_id ti, pv_input r) (as_claims s1) = Inr rows"
    and a: "persist_failure_admission ti attempt r c pre True (s1\<lparr>as_claims := rows\<rparr>) = Inr s'"
    unfolding claim_body_def body_simps by blast
  from persist_admission_effect [OF a] obtain admissions where "s' = s1\<lparr>as_claims := rows, as_admissions := admissions\<rparr>" by auto
  with insert_keyed_effect [OF rows] show ?thesis by (auto simp: map_add_def)
qed

lemma reaches_claims: "attempts.reaches s ls t \<Longrightarrow> map_of (as_claims s) attempt \<noteq> None \<Longrightarrow> map_of (as_claims t) attempt \<noteq> None"
  using history_sound [of s ls t] by (auto simp: sound_step_def records_extend_def map_le_def dom_def)

text \<open>
  C21 (dispatch_claimed_once). A dispatch claim is consumed once and for all: after a successful claim of an
  attempt, whatever operations follow, in whatever worlds, every later claim of that attempt fails and changes
  nothing.
\<close>

theorem dispatch_claimed_once:
  assumes "claim_supervisor_dispatch w ti c attempt lease now s = (s', Inr row) \<or> claim_worker_dispatch w ti c attempt lease now s = (s', Inr row)"
    and "attempts.reaches s' ls t"
  shows "(\<exists>e. claim_supervisor_dispatch w2 ti2 c2 attempt lease2 now2 t = (t, Inl e)) \<and> (\<exists>e. claim_worker_dispatch w2 ti2 c2 attempt lease2 now2 t = (t, Inl e))"
proof -
  have "map_of (as_claims s') attempt \<noteq> None" using assms(1) claim_effect unfolding claim_supervisor_dispatch_def claim_worker_dispatch_def by blast
  with assms(2) have "map_of (as_claims t) attempt \<noteq> None" by (rule reaches_claims)
  then show ?thesis unfolding claim_supervisor_dispatch_def claim_worker_dispatch_def by (blast intro: claim_consumed)
qed

theorem dispatch_claimed_once_witness:
  "\<exists>s. claim_supervisor_dispatch turn_world recovery_sample_task (turn_context CHR ''5'') ''attempt-1'' (Some turn_lease) 50 (turn_store supervisor_turn) = (s, Inr supervisor_turn)
    \<and> (\<exists>e. claim_supervisor_dispatch turn_world recovery_sample_task (turn_context CHR ''5'') ''attempt-1'' (Some turn_lease) 50 s = (s, Inl e))"
proof -
  obtain s where s: "claim_supervisor_dispatch turn_world recovery_sample_task (turn_context CHR ''5'') ''attempt-1'' (Some turn_lease) 50 (turn_store supervisor_turn) = (s, Inr supervisor_turn)"
    using sample_claim by blast
  from dispatch_claimed_once [OF disjI1, OF s attempts.reaches_nil] s show ?thesis by blast
qed

end
