(* ===== verification/Attempt_Scopes.thy ===== *)
theory Attempt_Scopes
  imports Attempt_Safety
begin

text \<open>
  Provider turns and the failure ledger they share with failure recovery: every operation on turns only adds failure
  records to the ledger and leaves the owner's decisions alone, so a stop that a denied turn stores holds over every
  later history of both, until the owner clears it.
\<close>

section \<open>Stopped scopes\<close>

lemma lease_and_enter_failures: "lease_and_enter w ti c attempt lease now s = Inr (s1, r, authorization) \<Longrightarrow> as_failures s1 = as_failures s"
  by (auto simp: lease_and_enter_def enter_attempt_def bind_result_Inr_iff dest: persist_context_effect)

lemma closed_scope:
  assumes closed: "dispatch_scope_open w ti role s \<noteq> Inr ()"
  shows "\<exists>e. claim_dispatch role failure requires consumed w ti c attempt lease now s = (s, Inl e)"
    and "pr_role p = role \<Longrightarrow> role \<in> {P_WORKER, P_SUPERVISOR} \<Longrightarrow> \<exists>e. prepare_attempt w ti c p lease now s = (s, Inl e)"
proof -
  have "claim_body role failure requires consumed w ti c attempt lease now s \<noteq> Inr y" for y
    using closed by (cases y) (auto simp only: claim_body_def body_simps)
  then show "\<exists>e. claim_dispatch role failure requires consumed w ti c attempt lease now s = (s, Inl e)" using not_Inr_Inl claim_fails by metis
  assume role: "pr_role p = role" "role \<in> {P_WORKER, P_SUPERVISOR}"
  have "prepare_body w ti c p lease now selected position coordinate receipt s \<noteq> Inr y" for selected position coordinate receipt y
    using closed role by (auto simp: prepare_body_def Let_def bind_result_Inr_iff)
  then have "\<exists>e. prepare_body w ti c p lease now selected position coordinate receipt s = Inl e" for selected position coordinate receipt
    by (rule not_Inr_Inl)
  then show "\<exists>e. prepare_attempt w ti c p lease now s = (s, Inl e)"
    by (auto simp: prepare_attempt_def run_transaction_def then_read_def split: sum.split) (metis sum.distinct(1))
qed

lemma classified_record_ok:
  assumes "make_failure_binding b = Inr b" "classify b f (Observed_source e) = Inr r"
  shows "record_ok r"
proof -
  have obs: "observation_ok (Observed_source e)" by (cases e) (simp_all add: observation_ok_def untrusted_sources_def)
  have "fr_binding r = b" "list_all fst (failure_record_guards r)" using classify_closed [OF obs, of b f] assms(2) by auto
  then show ?thesis
    using assms unfolding classify_established [OF obs]
    by (auto simp: make_failure_record_def record_ok_def binding_ok_def make_failure_binding_def default_clearance_conditions_def clearance_condition_guards_def)
qed

lemma supervisor_failure_recorded:
  assumes "record_supervisor_failure w ti c attempt r session failure now s = Inr s'"
  obtains b f ledger d where "make_failure_binding b = Inr b" "classify_native_failure Role_SUPERVISOR b (Some (codex_failure_value failure)) = Inr f"
    "record_durable_failure (aw_recovery w s) ti f now (as_failures s) = Inr (ledger, d)" "s' = s\<lparr>as_failures := ledger\<rparr>" "record_ok f"
    "fb_authority_scope b = ''supervisor:'' @ ti_task_id ti" "fb_attempt_identity b = attempt"
proof -
  define b where "b = \<lparr>fb_candidate_sha = (case rcx_candidate_sha c of Some sha \<Rightarrow> sha | None \<Rightarrow> ti_base_sha ti),
         fb_policy_digest = ''sha256:'' @ rcx_policy c, fb_configuration_digest = resolved_digest (rcx_runtime c),
         fb_authority_scope = ''supervisor:'' @ ti_task_id ti, fb_role = Role_SUPERVISOR, fb_profile_identity = pv_profile r,
         fb_session_identity = session, fb_attempt_identity = attempt\<rparr>"
  from assms obtain f ledger d where b: "make_failure_binding b = Inr b"
    and f: "classify_native_failure Role_SUPERVISOR b (Some (codex_failure_value failure)) = Inr f"
    and rec: "record_durable_failure (aw_recovery w s) ti f now (as_failures s) = Inr (ledger, d)" and s': "s' = s\<lparr>as_failures := ledger\<rparr>"
    unfolding record_supervisor_failure_def b_def [symmetric] by (auto simp: bind_result_Inr_iff make_failure_binding_def)
  have "record_ok f" using f by (auto simp: classify_native_failure_def classify_for_role_def split: prod.split_asm if_split_asm intro: classified_record_ok [OF b])
  then show thesis using that [OF b f rec s'] by (simp add: b_def)
qed

lemma denial_record:
  assumes ok: "ledger_ok (as_failures s)" and run: "record_supervisor_failure w ti c attempt r session SANDBOX_OR_APPROVAL_DENIED now s = Inr s'"
  shows "\<exists>f. record_ok f \<and> fr_action f = STOP_SCOPE \<and> fb_authority_scope (fr_binding f) = ''supervisor:'' @ ti_task_id ti \<and> fb_attempt_identity (fr_binding f) = attempt
    \<and> (record_digest f, ti_task_id ti, JObj (failure_payload f)) \<in> set (failure_rows (as_failures s'))"
proof -
  from supervisor_failure_recorded [OF run] obtain b f ledger d where b: "make_failure_binding b = Inr b"
    and n: "classify_native_failure Role_SUPERVISOR b (Some (codex_failure_value SANDBOX_OR_APPROVAL_DENIED)) = Inr f"
    and rec: "record_durable_failure (aw_recovery w s) ti f now (as_failures s) = Inr (ledger, d)" and s': "s' = s\<lparr>as_failures := ledger\<rparr>"
    and f: "record_ok f" and scope: "fb_authority_scope b = ''supervisor:'' @ ti_task_id ti" "fb_attempt_identity b = attempt" .
  from n have c: "classify b F_HOST_SECURITY_DENIAL (Observed_source VERIFIED_HOST) = Inr f"
    by (auto simp: classify_native_failure_def native_failure_class_def classify_for_role_def split: if_split_asm)
  have obs: "observation_ok (Observed_source VERIFIED_HOST)" "established F_HOST_SECURITY_DENIAL (Observed_source VERIFIED_HOST) = F_HOST_SECURITY_DENIAL"
    by (simp_all add: observation_ok_def established_def untrusted_sources_def)
  have "fr_binding f = b" "fr_action f = STOP_SCOPE" using classify_closed [OF obs(1), of b F_HOST_SECURITY_DENIAL] c obs(2) by auto
  moreover have "failures_ok (failure_rows (as_failures s))" using ok by (simp add: ledger_ok_def)
  ultimately show ?thesis using record_stored [OF _ f rec] f scope by (intro exI [of _ f]) (simp add: s')
qed

lemma scope_denial_effect:
  assumes "scope_denial_body w ti c attempt session lease now s = Inr (s', r)"
  shows "\<exists>s1 r1 authorization. lease_and_enter w ti c attempt lease now s = Inr (s1, r1, authorization) \<and> (pv_state r1 = At_BLOCKED
    \<or> (\<exists>s2 s3. record_supervisor_failure w ti c attempt r1 session SANDBOX_OR_APPROVAL_DENIED now s1 = Inr s2
      \<and> put_attempt attempt (r1\<lparr>pv_state := At_BLOCKED\<rparr>) s2 = Inr s3 \<and> settle ti attempt Do_BLOCKED_AMBIGUOUS_TURN ''scope-stopped'' now s3 = Inr s'
      \<and> r = r1\<lparr>pv_state := At_BLOCKED\<rparr>))"
  using assms unfolding scope_denial_body_def body_simps
  apply (elim exE conjE)
  subgoal premises p for s1 r1 authorization pre
    using p by (intro exI [of _ s1] exI [of _ r1] exI [of _ authorization]) (cases "pv_state r1 = At_BLOCKED"; simp add: body_simps; blast)
  done

section \<open>The shared ledger over histories\<close>

text \<open>What an operation on turns may do to the ledger.\<close>

definition ledger_grows :: "recovery_ledger \<Rightarrow> recovery_ledger \<Rightarrow> bool" where
  "ledger_grows l k \<longleftrightarrow> decision_rows k = decision_rows l \<and> set (failure_rows l) \<subseteq> set (failure_rows k) \<and> (ledger_ok l \<longrightarrow> ledger_ok k)"

lemma ledger_grows_refl [simp]: "ledger_grows l l"
  by (simp add: ledger_grows_def)

lemma supervisor_failure_grows:
  assumes "record_supervisor_failure w ti c attempt r session failure now s = Inr s'"
  shows "ledger_grows (as_failures s) (as_failures s')"
proof -
  from supervisor_failure_recorded [OF assms] obtain b f ledger d where
    rec: "record_durable_failure (aw_recovery w s) ti f now (as_failures s) = Inr (ledger, d)" and s': "s' = s\<lparr>as_failures := ledger\<rparr>" and f: "record_ok f" .
  have "ledger_ok (as_failures s) \<Longrightarrow> ledger_ok ledger" using run_keeps_ledger [of _ "Record ti f now" "aw_recovery w s"] rec f by (simp add: tables_def)
  with record_effect [OF rec] show ?thesis by (auto simp: ledger_grows_def s')
qed

lemma kept_by_helpers:
  "put_attempt attempt r s = Inr s' \<Longrightarrow> as_failures s' = as_failures s"
  "insert_attempt attempt r s = Inr s' \<Longrightarrow> as_failures s' = as_failures s"
  "persist_context attempt c s = Inr s' \<Longrightarrow> as_failures s' = as_failures s"
  "record_runtime_binding task b s = Inr s' \<Longrightarrow> as_failures s' = as_failures s"
  "reserve_supervisor_coordinate task attempt profile position ordinal coordinate s = Inr s' \<Longrightarrow> as_failures s' = as_failures s"
  "persist_health_authorization attempt receipt role profile s = Inr (s', authorization) \<Longrightarrow> as_failures s' = as_failures s"
  "add_checkpoint task role stage attempt c authorization observed s = Inr s' \<Longrightarrow> as_failures s' = as_failures s"
  "persist_failure_admission ti attempt r c session create s = Inr s' \<Longrightarrow> as_failures s' = as_failures s"
  "persist_recovery_outcome attempt action blocker observed s = Inr s' \<Longrightarrow> as_failures s' = as_failures s"
  "add_event task attempt action observed s = Inr s' \<Longrightarrow> as_failures s' = as_failures s"
  "settle ti attempt action blocker observed s = Inr s' \<Longrightarrow> as_failures s' = as_failures s"
  "cancel_abandoned w ti attempt r action why s = Inr s' \<Longrightarrow> as_failures s' = as_failures s"
  "enter_attempt ti c attempt now s = Inr (s', r, authorization) \<Longrightarrow> as_failures s' = as_failures s"
  "lease_and_enter w ti c attempt lease now s = Inr (s', r, authorization) \<Longrightarrow> as_failures s' = as_failures s"
  "stale_diff_review ti attempt r s = Inr s' \<Longrightarrow> as_failures s' = as_failures s"
  subgoal by (auto dest!: put_attempt_effect)
  subgoal by (auto simp: insert_attempt_def dest!: put_attempt_effect split: if_split_asm)
  subgoal by (auto dest!: persist_context_effect)
  subgoal by (auto dest!: record_runtime_binding_effect)
  subgoal by (auto dest!: reserve_coordinate_effect)
  subgoal by (auto dest!: persist_health_effect)
  subgoal by (auto dest!: add_checkpoint_effect)
  subgoal by (auto dest!: persist_admission_effect)
  subgoal by (auto dest!: persist_outcome_effect)
  subgoal by (auto dest!: add_event_effect)
  subgoal by (auto dest!: settle_effect)
  subgoal by (auto dest!: cancel_abandoned_effect)
  subgoal by (auto simp: enter_attempt_def bind_result_Inr_iff dest: persist_context_effect)
  subgoal by (rule lease_and_enter_failures)
  subgoal by (auto simp: stale_diff_review_def bind_result_Inr_iff dest!: put_attempt_effect)
  done

lemma transaction_grows:
  "(\<And>s' x. m = Inr (s', x) \<Longrightarrow> ledger_grows (as_failures s) (as_failures s')) \<Longrightarrow> ledger_grows (as_failures s) (as_failures (fst (run_transaction i s m)))"
  using run_transaction_store [of i s m] by fastforce

lemma guarded_grows:
  "(\<And>s' x. body = Inr (s', x) \<Longrightarrow> ledger_grows (as_failures s) (as_failures s'))
     \<Longrightarrow> ledger_grows (as_failures s) (as_failures (fst (guarded_transaction valid i reader s body)))"
  by (auto simp: guarded_transaction_def intro: transaction_grows split: sum.split)

lemma session_grows:
  assumes "session_body w ti c attempt session lease now s = Inr (s', x)"
  shows "ledger_grows (as_failures s) (as_failures s')"
proof -
  from assms obtain s1 r authorization s2 s3 where kept: "lease_and_enter w ti c attempt lease now s = Inr (s1, r, authorization)"
      "persist_failure_admission ti attempt r c session (pv_session r = None) s2 = Inr s3"
    and put: "(if pv_session r = None then put_attempt attempt (r\<lparr>pv_session := Some session\<rparr>) s1 else Inr s1) = Inr s2"
    and last: "(case map_of (as_sessions s3) attempt of
       None \<Rightarrow> bind_result (insert_keyed s3 attempt (0 < now) attempt (ti_task_id ti, session, checkpoint_fingerprint c authorization) (as_sessions s3))
         (\<lambda>rows. Inr (s3\<lparr>as_sessions := rows\<rparr>, None))
     | Some row \<Rightarrow> if row \<noteq> (ti_task_id ti, session, checkpoint_fingerprint c authorization)
         then provider_error ''session checkpoint replay conflicts with committed state'' else Inr (s3, None)) = Inr (s', x)"
    unfolding session_body_def body_simps by blast
  have "as_failures s' = as_failures s3" using last by (auto simp: bind_result_Inr_iff split: option.split_asm if_split_asm)
  moreover have "as_failures s2 = as_failures s1" using put by (auto split: if_split_asm dest: kept_by_helpers)
  ultimately show ?thesis using kept_by_helpers(8,14) kept by (metis ledger_grows_refl)
qed

lemma body_grows:
  "prepare_body w ti c p lease now selected position coordinate receipt s = Inr (s', x) \<Longrightarrow> ledger_grows (as_failures s) (as_failures s')"
  "claim_body role failure requires consumed w ti c attempt lease now s = Inr (s', x) \<Longrightarrow> ledger_grows (as_failures s) (as_failures s')"
  "session_body w ti c attempt session lease now s = Inr (s', x) \<Longrightarrow> ledger_grows (as_failures s) (as_failures s')"
  "turn_body w ti c attempt session turn lease now s = Inr (s', x) \<Longrightarrow> ledger_grows (as_failures s) (as_failures s')"
  "completion_body w ti c attempt pointer evidence output lease now s = Inr (s', x) \<Longrightarrow> ledger_grows (as_failures s) (as_failures s')"
  "invalid_output_body w ti c attempt pointer output reason lease now s = Inr (s', x) \<Longrightarrow> ledger_grows (as_failures s) (as_failures s')"
  "acceptance_body w ti c attempt review lease now s = Inr (s', x) \<Longrightarrow> ledger_grows (as_failures s) (as_failures s')"
  subgoal unfolding prepare_body_def body_simps by (auto simp: body_simps split: if_split_asm dest!: kept_by_helpers)
  subgoal unfolding claim_body_def body_simps by (auto dest!: kept_by_helpers)
  subgoal by (simp add: session_grows)
  subgoal unfolding turn_body_def body_simps by (auto simp: body_simps split: if_split_asm dest!: kept_by_helpers)
  subgoal unfolding completion_body_def body_simps by (auto simp: body_simps split: if_split_asm option.split_asm dest!: kept_by_helpers)
  subgoal unfolding invalid_output_body_def body_simps by (auto simp: body_simps split: if_split_asm dest!: kept_by_helpers)
  subgoal unfolding acceptance_body_def body_simps by (auto simp: body_simps split: if_split_asm dest!: kept_by_helpers)
  done

lemma entered_grows:
  assumes run: "bind_result (lease_and_enter w ti c attempt lease now s) (\<lambda>(s1, r, authorization). rest s1 r authorization) = Inr (s', x)"
    and effect: "\<And>s1 r authorization. rest s1 r authorization = Inr (s', x) \<Longrightarrow> ledger_grows (as_failures s1) (as_failures s')"
  shows "ledger_grows (as_failures s) (as_failures s')"
  using run effect by (auto simp: bind_result_Inr_iff dest!: kept_by_helpers(14)) metis

lemma invalidate_grows:
  assumes "invalidate_body w ti c attempt lease now s = Inr (s', y)"
  shows "ledger_grows (as_failures s) (as_failures s')"
proof -
  from assms obtain s1 r authorization where e: "lease_and_enter w ti c attempt lease now s = Inr (s1, r, authorization)"
    and rest: "(if pv_state r = At_ACCEPTED then Inr (s1, r)
     else let r' = r\<lparr>pv_state := At_INVALIDATED\<rparr> in
       bind_result (if pv_state r \<noteq> At_INVALIDATED then put_attempt attempt r' s1 else Inr s1) (\<lambda>s2.
       bind_result (settle ti attempt Do_FRESH_SUPERVISOR_SESSION ''partial-supervisor-review'' now s2) (\<lambda>s3. Inr (s3, r')))) = Inr (s', y)"
    unfolding invalidate_body_def body_simps by blast
  have "as_failures s' = as_failures s1"
  proof (cases "pv_state r = At_ACCEPTED")
    case True
    with rest show ?thesis by simp
  next
    case False
    from rest [unfolded if_not_P [OF False] body_simps] obtain s2 where "settle ti attempt Do_FRESH_SUPERVISOR_SESSION ''partial-supervisor-review'' now s2 = Inr s'"
      and "(if pv_state r \<noteq> At_INVALIDATED then put_attempt attempt (r\<lparr>pv_state := At_INVALIDATED\<rparr>) s1 else Inr s1) = Inr s2" by blast
    then show ?thesis by (auto split: if_split_asm dest!: kept_by_helpers)
  qed
  with kept_by_helpers(14) [OF e] show ?thesis by simp
qed

lemma recovery_grows:
  assumes "recovery_body w ti c attempt verified limit lease now s = Inr (s', z)"
  shows "ledger_grows (as_failures s) (as_failures s')"
proof -
  from assms obtain r r1 r2 action blocker s1 s2 s3 s4 where
      s1: "(if pv_state r = At_ACCEPTED \<and> has_prefix ''diff-review:'' (pv_output r) then stale_diff_review ti attempt r s else Inr s) = Inr s1"
    and s2: "(if r2 \<noteq> r1 then put_attempt attempt r2 s1 else Inr s1) = Inr s2"
    and s3: "(case blocker of None \<Rightarrow> Inr s2 | Some b \<Rightarrow> persist_recovery_outcome attempt action b now s2) = Inr s3"
    and later: "cancel_abandoned w ti attempt r2 action blocker s3 = Inr s4" "add_event (ti_task_id ti) attempt action now s4 = Inr s'"
    unfolding recovery_body_def body_simps by blast
  have "as_failures s1 = as_failures s" using s1 by (auto split: if_split_asm dest!: kept_by_helpers)
  moreover have "as_failures s2 = as_failures s1" using s2 by (auto split: if_split_asm dest!: kept_by_helpers)
  moreover have "as_failures s3 = as_failures s2" using s3 by (auto split: option.split_asm dest!: kept_by_helpers)
  moreover have "as_failures s' = as_failures s3" using later by (auto dest!: kept_by_helpers)
  ultimately show ?thesis by simp
qed

lemma closing_grows:
  "invalidate_body w ti c attempt lease now s = Inr (s', y) \<Longrightarrow> ledger_grows (as_failures s) (as_failures s')"
  "terminal_body w ti c attempt osession oturn failure lease now s = Inr (s', y) \<Longrightarrow> ledger_grows (as_failures s) (as_failures s')"
  "scope_denial_body w ti c attempt session lease now s = Inr (s', y) \<Longrightarrow> ledger_grows (as_failures s) (as_failures s')"
  "block_body entry conflicts requires expected blocker ti attempt now unsettled s r = Inr (s', z) \<Longrightarrow> ledger_grows (as_failures s) (as_failures s')"
  "recovery_body w ti c attempt verified limit lease now s = Inr (s', z) \<Longrightarrow> ledger_grows (as_failures s) (as_failures s')"
  subgoal by (rule invalidate_grows)
  subgoal premises body using body unfolding terminal_body_def
    apply (rule entered_grows)
    subgoal premises rest for s1 r authorization
      using rest unfolding body_simps by (auto simp: body_simps split: if_split_asm dest!: kept_by_helpers supervisor_failure_grows)
    done
  subgoal premises body using body unfolding scope_denial_body_def
    apply (rule entered_grows)
    subgoal premises rest for s1 r authorization
      using rest unfolding body_simps by (auto simp: body_simps split: if_split_asm dest!: kept_by_helpers supervisor_failure_grows)
    done
  subgoal unfolding block_body_def body_simps by (auto simp: body_simps split: if_split_asm dest!: kept_by_helpers)
  subgoal by (rule recovery_grows)
  done

lemma turn_operation_grows: "ledger_grows (as_failures s) (as_failures (run_attempt_op l s))"
  apply (cases "(l, s)" rule: run_attempt_op.cases)
  subgoal by (auto simp: prepare_attempt_def split: sum.split intro!: transaction_grows dest: body_grows)
  subgoal by (auto simp: claim_supervisor_dispatch_def claim_dispatch_def split: sum.split intro!: transaction_grows dest: body_grows)
  subgoal by (auto simp: claim_worker_dispatch_def claim_dispatch_def split: sum.split intro!: transaction_grows dest: body_grows)
  subgoal by (auto simp: record_session_identity_def intro!: guarded_grows dest: body_grows)
  subgoal by (auto simp: record_external_turn_def intro!: guarded_grows dest: body_grows)
  subgoal by (auto simp: record_completed_output_def intro!: guarded_grows dest: body_grows)
  subgoal by (auto simp: record_invalid_output_def intro!: guarded_grows dest: body_grows)
  subgoal by (auto simp: accept_supervisor_review_def intro!: guarded_grows dest: body_grows)
  subgoal by (auto simp: invalidate_supervisor_attempt_def split: sum.split intro!: transaction_grows dest: closing_grows)
  subgoal by (auto simp: record_supervisor_terminal_failure_def split: sum.split intro!: transaction_grows dest: closing_grows)
  subgoal by (auto simp: record_supervisor_scope_denial_def split: sum.split intro!: transaction_grows dest: closing_grows)
  subgoal by (auto simp: record_supervisor_accounting_blocker_def body_simps split: sum.split intro!: transaction_grows dest!: kept_by_helpers closing_grows)
  subgoal by (auto simp: block_session_without_turn_def body_simps split: sum.split intro!: transaction_grows dest!: kept_by_helpers closing_grows)
  subgoal by (auto simp: recover_attempt_def split: sum.split intro!: transaction_grows dest: closing_grows)
  done

text \<open>
  Provider turns and failure recovery work on one database: a step of the two together is an operation on turns, or an
  operation of failure recovery on the ledger, in any order and each in a world of its own.
\<close>

datatype shared_label = On_turns attempt_label | On_ledger recovery_label

fun shared_step :: "attempt_store \<Rightarrow> shared_label \<Rightarrow> attempt_store \<Rightarrow> bool" where
  "shared_step s (On_turns l) t \<longleftrightarrow> attempt_history_step s l t"
| "shared_step s (On_ledger l) t \<longleftrightarrow> (\<exists>ledger. recovery_step (as_failures s) l ledger \<and> t = s\<lparr>as_failures := ledger\<rparr>)"

fun ledger_label :: "shared_label \<Rightarrow> recovery_label option" where
  "ledger_label (On_turns l) = None"
| "ledger_label (On_ledger l) = Some l"

abbreviation ledger_history :: "shared_label list \<Rightarrow> recovery_label list" where
  "ledger_history ls \<equiv> List.map_filter ledger_label ls"

interpretation shared: invariant_system "\<lambda>s. as_failures s = empty_ledger" shared_step "\<lambda>s. ledger_ok (as_failures s)"
proof unfold_locales
  fix s assume "as_failures s = empty_ledger"
  then show "ledger_ok (as_failures s)" using reached_ok [OF recovery.reaches_nil] by simp
next
  fix s l t assume ok: "ledger_ok (as_failures s)" and step: "shared_step s l t"
  show "ledger_ok (as_failures t)"
  proof (cases l)
    case (On_turns k)
    then show ?thesis using step ok turn_operation_grows [of s k] by (simp add: attempt_history_step_def ledger_grows_def)
  next
    case (On_ledger k)
    then show ?thesis using step recovery.inv_step [OF ok, of k] by (auto simp del: recovery_step.simps)
  qed
qed

text \<open>Over a history the stored failures stay, and a new clearance comes from an operation of failure recovery.\<close>

lemma shared_failures_stay:
  assumes "shared.reaches s ls t" "x \<in> set (failure_rows (as_failures s))"
  shows "x \<in> set (failure_rows (as_failures t))"
  using assms
proof (induction rule: shared.reaches.induct)
  case (reaches_snoc s ls t l u)
  show ?case
  proof (cases l)
    case (On_turns k)
    then show ?thesis using reaches_snoc turn_operation_grows [of t k] by (auto simp: attempt_history_step_def ledger_grows_def)
  next
    case (On_ledger k)
    then obtain w op ok where "l = On_ledger (w, op, ok)" by (cases k) auto
    then have "as_failures u = as_failures t \<or> run_op w op (as_failures t) = Inr (as_failures u)"
      using reaches_snoc.hyps(2) by (auto simp del: recovery_step.simps dest!: step_cases)
    with reaches_snoc show ?thesis by (auto intro: failure_rows_grow)
  qed
qed

lemma map_filter_snoc: "List.map_filter f (xs @ [x]) = List.map_filter f xs @ (case f x of None \<Rightarrow> [] | Some y \<Rightarrow> [y])"
  by (simp add: List.map_filter_def split: option.split)

lemma shared_clearances_recorded:
  assumes "shared.reaches s ls t" "row \<in> set (decision_rows (as_failures t))" "dr_command_kind row = command_kind_of False"
  shows "row \<in> set (decision_rows (as_failures s)) \<or> cleared_by (ledger_history ls) (dr_task row) (dr_record row) (dr_command row)"
  using assms
proof (induction rule: shared.reaches.induct)
  case (reaches_snoc s ls t l u)
  show ?case
  proof (cases l)
    case (On_turns k)
    then have "decision_rows (as_failures u) = decision_rows (as_failures t)"
      using reaches_snoc.hyps(2) turn_operation_grows [of t k] by (simp add: attempt_history_step_def ledger_grows_def)
    with reaches_snoc show ?thesis by (simp add: On_turns map_filter_snoc)
  next
    case (On_ledger k)
    then obtain w op ok where l: "l = On_ledger (w, op, ok)" by (cases k) auto
    then consider "as_failures u = as_failures t" | "ok" "run_op w op (as_failures t) = Inr (as_failures u)"
      using reaches_snoc.hyps(2) by (auto simp del: recovery_step.simps dest!: step_cases)
    then show ?thesis
    proof cases
      case 1
      then show ?thesis using reaches_snoc by (auto simp: l map_filter_snoc cleared_by_snoc)
    next
      case 2
      from run_clear_rows [OF 2(2) reaches_snoc.prems] 2(1) reaches_snoc.IH reaches_snoc.prems(2) show ?thesis
        by (simp add: l map_filter_snoc cleared_by_snoc) blast
    qed
  qed
qed simp

section \<open>Properties\<close>

text \<open>The owner has lifted a stop: the last decision on it is a clearance whose command is in force.\<close>

definition lifted :: "attempt_world \<Rightarrow> task_identity \<Rightarrow> failure_record \<Rightarrow> attempt_store \<Rightarrow> bool" where
  "lifted w ti f t \<longleftrightarrow> (let rows = decisions_for (ti_task_id ti) (record_digest f) (as_failures t) in
     rows \<noteq> [] \<and> dr_command_kind (last rows) = command_kind_of False
     \<and> command_in_force (aw_recovery w t) (ti_task_id ti) (record_digest f) (fr_binding f) False (dr_command (last rows)))"

lemma denial_stores_stop:
  assumes ok: "ledger_ok (as_failures s)" and row: "map_of (as_attempts s) attempt = Some r0" "pv_state r0 \<noteq> At_BLOCKED"
    and run: "record_supervisor_scope_denial w ti c attempt session lease now s = (s', Inr r)"
  shows "pv_state r = At_BLOCKED \<and> decision_rows (as_failures s') = decision_rows (as_failures s) \<and> ledger_ok (as_failures s')
    \<and> (\<exists>f. record_ok f \<and> fr_action f = STOP_SCOPE \<and> fb_authority_scope (fr_binding f) = ''supervisor:'' @ ti_task_id ti
      \<and> fb_attempt_identity (fr_binding f) = attempt \<and> (record_digest f, ti_task_id ti, JObj (failure_payload f)) \<in> set (failure_rows (as_failures s')))"
proof -
  from run have body: "scope_denial_body w ti c attempt session lease now s = Inr (s', r)"
    by (auto simp: record_supervisor_scope_denial_def run_transaction_def split: sum.split_asm)
  from scope_denial_effect [OF this] obtain s1 r1 authorization where e: "lease_and_enter w ti c attempt lease now s = Inr (s1, r1, authorization)"
    and rest: "pv_state r1 = At_BLOCKED \<or> (\<exists>s2 s3. record_supervisor_failure w ti c attempt r1 session SANDBOX_OR_APPROVAL_DENIED now s1 = Inr s2
      \<and> put_attempt attempt (r1\<lparr>pv_state := At_BLOCKED\<rparr>) s2 = Inr s3 \<and> settle ti attempt Do_BLOCKED_AMBIGUOUS_TURN ''scope-stopped'' now s3 = Inr s'
      \<and> r = r1\<lparr>pv_state := At_BLOCKED\<rparr>)" by blast
  have f1: "as_failures s1 = as_failures s" and "r1 = r0" using lease_and_enter_keeps [OF e] lease_and_enter_failures [OF e] row by (auto simp: keeps_rows_def)
  with rest row(2) obtain s2 s3 where fail: "record_supervisor_failure w ti c attempt r1 session SANDBOX_OR_APPROVAL_DENIED now s1 = Inr s2"
    and later: "put_attempt attempt (r1\<lparr>pv_state := At_BLOCKED\<rparr>) s2 = Inr s3" "settle ti attempt Do_BLOCKED_AMBIGUOUS_TURN ''scope-stopped'' now s3 = Inr s'"
    and r: "r = r1\<lparr>pv_state := At_BLOCKED\<rparr>" by blast
  have f': "as_failures s' = as_failures s2" using kept_by_helpers(1,11) later by metis
  from closing_grows(3) [OF body] ok denial_record [OF _ fail] show ?thesis unfolding ledger_grows_def f1 f' r by auto
qed

lemma stop_holds:
  assumes ok: "ledger_ok (as_failures t)" and f: "record_ok f" "fr_action f = STOP_SCOPE" "fb_authority_scope (fr_binding f) = ''supervisor:'' @ ti_task_id ti"
    and stored: "(record_digest f, ti_task_id ti, JObj (failure_payload f)) \<in> set (failure_rows (as_failures t))" and "\<not> lifted w ti f t"
  shows "\<exists>e. claim_supervisor_dispatch w ti c attempt lease now t = (t, Inl e)"
    and "pr_role p = P_SUPERVISOR \<Longrightarrow> \<exists>e. prepare_attempt w ti c p lease now t = (t, Inl e)"
proof -
  have "dispatch_scope_open w ti P_SUPERVISOR t \<noteq> Inr ()"
    using \<open>\<not> lifted w ti f t\<close> open_scope_cleared [OF ok _ stored f] unfolding dispatch_scope_open_def lifted_def Let_def by auto
  note closed = closed_scope [OF this]
  show "\<exists>e. claim_supervisor_dispatch w ti c attempt lease now t = (t, Inl e)" unfolding claim_supervisor_dispatch_def by (rule closed)
  show "pr_role p = P_SUPERVISOR \<Longrightarrow> \<exists>e. prepare_attempt w ti c p lease now t = (t, Inl e)" by (rule closed) simp_all
qed

text \<open>
  C17 (scope_denial_stops_dispatch). When a Supervisor turn that is not yet settled is denied its scope, the failure that
  stops the scope is stored with the denial in one transaction. It stays stored over every later history of
  operations on turns and on the failure ledger, and at the end of every such history no Supervisor turn of the task is
  prepared and no dispatch is claimed, in any world and under any lease and context, unless the owner has lifted that very
  stop by a clearance that is still in force there; and the clearance is one that an operation of the history recorded,
  or was in the ledger before the denial.
\<close>

theorem scope_denial_stops_dispatch:
  assumes ok: "ledger_ok (as_failures s)" and row: "map_of (as_attempts s) attempt = Some r0" "pv_state r0 \<noteq> At_BLOCKED"
    and run: "record_supervisor_scope_denial w ti c attempt session lease now s = (s', Inr r)"
  shows "pv_state r = At_BLOCKED \<and> (\<exists>f. fr_action f = STOP_SCOPE \<and> fb_attempt_identity (fr_binding f) = attempt
    \<and> (\<forall>ls t. shared.reaches s' ls t \<longrightarrow>
        (record_digest f, ti_task_id ti, JObj (failure_payload f)) \<in> set (failure_rows (as_failures t))
        \<and> (\<forall>w'. if lifted w' ti f t
            then let clearance = last (decisions_for (ti_task_id ti) (record_digest f) (as_failures t)) in
              clearance \<in> set (decision_rows (as_failures s)) \<or> cleared_by (ledger_history ls) (ti_task_id ti) (record_digest f) (dr_command clearance)
            else \<forall>c' lease' now'. (\<forall>attempt'. \<exists>e. claim_supervisor_dispatch w' ti c' attempt' lease' now' t = (t, Inl e))
              \<and> (\<forall>p. pr_role p = P_SUPERVISOR \<longrightarrow> (\<exists>e. prepare_attempt w' ti c' p lease' now' t = (t, Inl e))))))"
proof -
  from denial_stores_stop [OF assms] obtain f where r: "pv_state r = At_BLOCKED" and s': "decision_rows (as_failures s') = decision_rows (as_failures s)" "ledger_ok (as_failures s')"
    and f: "record_ok f" "fr_action f = STOP_SCOPE" "fb_authority_scope (fr_binding f) = ''supervisor:'' @ ti_task_id ti"
    and of: "fb_attempt_identity (fr_binding f) = attempt" and stored: "(record_digest f, ti_task_id ti, JObj (failure_payload f)) \<in> set (failure_rows (as_failures s'))"
    by blast
  have "clearance \<in> set (decision_rows (as_failures s)) \<or> cleared_by (ledger_history ls) (ti_task_id ti) (record_digest f) (dr_command clearance)"
    if "shared.reaches s' ls t" "lifted w' ti f t" "clearance = last (decisions_for (ti_task_id ti) (record_digest f) (as_failures t))" for ls t w' clearance
  proof -
    have "clearance \<in> set (decisions_for (ti_task_id ti) (record_digest f) (as_failures t))" "dr_command_kind clearance = command_kind_of False"
      using that(2,3) unfolding lifted_def Let_def by auto
    then show ?thesis using shared_clearances_recorded [OF that(1), of clearance] s'(1) by (auto simp: decisions_for_def)
  qed
  moreover have "ledger_ok (as_failures t)" "(record_digest f, ti_task_id ti, JObj (failure_payload f)) \<in> set (failure_rows (as_failures t))"
    if "shared.reaches s' ls t" for ls t
    using shared.reaches_inv [OF that s'(2)] shared_failures_stay [OF that stored] by auto
  ultimately have "(record_digest f, ti_task_id ti, JObj (failure_payload f)) \<in> set (failure_rows (as_failures t))
      \<and> (\<forall>w'. if lifted w' ti f t
          then let clearance = last (decisions_for (ti_task_id ti) (record_digest f) (as_failures t)) in
            clearance \<in> set (decision_rows (as_failures s)) \<or> cleared_by (ledger_history ls) (ti_task_id ti) (record_digest f) (dr_command clearance)
          else \<forall>c' lease' now'. (\<forall>attempt'. \<exists>e. claim_supervisor_dispatch w' ti c' attempt' lease' now' t = (t, Inl e))
            \<and> (\<forall>p. pr_role p = P_SUPERVISOR \<longrightarrow> (\<exists>e. prepare_attempt w' ti c' p lease' now' t = (t, Inl e))))"
    if "shared.reaches s' ls t" for ls t
    using stop_holds [OF _ f, of t] that by (simp add: Let_def)
  then show ?thesis using r f(2) of by blast
qed

theorem scope_denial_stops_dispatch_witness:
  "\<exists>s r f. record_supervisor_scope_denial turn_world recovery_sample_task (turn_context CHR ''5'') ''attempt-1'' ''session-1'' (Some turn_lease) 50 session_store = (s, Inr r)
     \<and> pv_state r = At_BLOCKED \<and> fr_action f = STOP_SCOPE
     \<and> (let t = run_attempt_op (turn_world, recovery_sample_task, turn_context CHR ''5'', Some turn_lease, 60, Block_session ''attempt-1'') s in
         (record_digest f, ''task-1'', JObj (failure_payload f)) \<in> set (failure_rows (as_failures t))
         \<and> (\<exists>e. claim_supervisor_dispatch turn_world recovery_sample_task (turn_context CHR ''5'') ''attempt-2'' (Some turn_lease) 70 t = (t, Inl e)))"
proof -
  obtain s r where run: "record_supervisor_scope_denial turn_world recovery_sample_task (turn_context CHR ''5'') ''attempt-1'' ''session-1'' (Some turn_lease) 50 session_store = (s, Inr r)"
    using sample_scope_denial by blast
  define l where "l = (turn_world, recovery_sample_task, turn_context CHR ''5'', Some turn_lease, 60 :: int, Block_session ''attempt-1'')"
  have ok: "ledger_ok (as_failures session_store)" using reached_ok [OF recovery.reaches_nil] by (simp add: session_store_def)
  have row: "map_of (as_attempts session_store) ''attempt-1'' = Some (supervisor_turn\<lparr>pv_session := Some ''session-1''\<rparr>)"
    "pv_state (supervisor_turn\<lparr>pv_session := Some ''session-1''\<rparr>) \<noteq> At_BLOCKED" by (simp_all add: session_store_def) (simp add: supervisor_turn_def)
  have later: "shared.reaches s [On_turns l] (run_attempt_op l s)"
    using shared.reaches_snoc [OF shared.reaches_nil, of s "On_turns l"] by (simp add: attempt_history_step_def)
  have none: "decision_rows (as_failures session_store) = []" "ledger_history [On_turns l] = []"
    by (simp_all add: session_store_def empty_ledger_def List.map_filter_simps)
  from scope_denial_stops_dispatch [OF ok row run] obtain f where f: "pv_state r = At_BLOCKED" "fr_action f = STOP_SCOPE"
    and hist: "\<forall>ls t. shared.reaches s ls t \<longrightarrow>
        (record_digest f, ti_task_id recovery_sample_task, JObj (failure_payload f)) \<in> set (failure_rows (as_failures t))
        \<and> (\<forall>w'. if lifted w' recovery_sample_task f t
            then let clearance = last (decisions_for (ti_task_id recovery_sample_task) (record_digest f) (as_failures t)) in
              clearance \<in> set (decision_rows (as_failures session_store))
              \<or> cleared_by (ledger_history ls) (ti_task_id recovery_sample_task) (record_digest f) (dr_command clearance)
            else \<forall>c' lease' now'. (\<forall>attempt'. \<exists>e. claim_supervisor_dispatch w' recovery_sample_task c' attempt' lease' now' t = (t, Inl e))
              \<and> (\<forall>p. pr_role p = P_SUPERVISOR \<longrightarrow> (\<exists>e. prepare_attempt w' recovery_sample_task c' p lease' now' t = (t, Inl e))))"
    by blast
  note after = hist [rule_format, OF later]
  have "\<not> lifted turn_world recovery_sample_task f (run_attempt_op l s)"
    using conjunct2 [OF after, rule_format, of turn_world] unfolding none by (auto simp: cleared_by_def Let_def)
  then have "\<exists>e. claim_supervisor_dispatch turn_world recovery_sample_task (turn_context CHR ''5'') ''attempt-2'' (Some turn_lease) 70 (run_attempt_op l s)
      = (run_attempt_op l s, Inl e)"
    using conjunct2 [OF after, rule_format, of turn_world] by simp
  with f conjunct1 [OF after] show ?thesis using run unfolding l_def [symmetric] Let_def
    by (intro exI [of _ s] exI [of _ r] exI [of _ f]) (simp add: recovery_sample_task_def)
qed

end
