(* ===== verification/Attempt_Restart.thy ===== *)
theory Attempt_Restart
  imports Attempt_Safety
begin

text \<open>
  Recovery of a provider turn after a restart: the decision is repeated by every later recovery with the same
  evidence, and the one case in which the code raises a database error instead of deciding.
\<close>

section \<open>The decision is idempotent\<close>

definition accepted_diff :: "provider_attempt \<Rightarrow> bool" where
  "accepted_diff r \<longleftrightarrow> pv_state r = At_ACCEPTED \<and> has_prefix ''diff-review:'' (pv_output r)"

text \<open>The row that a decision leaves.\<close>

definition recovered_row :: "provider_attempt \<Rightarrow> attempt_state option \<Rightarrow> provider_attempt" where
  "recovered_row r target = (let r1 = (if accepted_diff r then r\<lparr>pv_state := At_INVALIDATED, pv_accepted := None\<rparr> else r) in
     case target of None \<Rightarrow> r1 | Some x \<Rightarrow> r1\<lparr>pv_state := x\<rparr>)"

lemma recovered_row_simps [simp]:
  "pv_turn (recovered_row r target) = pv_turn r" "pv_session (recovered_row r target) = pv_session r" "pv_role (recovered_row r target) = pv_role r"
  "pv_task (recovered_row r target) = pv_task r" "pv_profile (recovered_row r target) = pv_profile r" "pv_output (recovered_row r target) = pv_output r"
  "pv_evidence (recovered_row r target) = pv_evidence r" "pv_lease_expires_at (recovered_row r target) = pv_lease_expires_at r"
  by (simp_all add: recovered_row_def Let_def split: option.split)

lemma read_action: "enum_of all_actions action_value (action_value a) = Some a"
  by (cases a) (simp_all add: all_actions_def enum_of_def)

text \<open>What a recovery leaves of the outcome: it is written, or nothing was to be written.\<close>

definition outcome_left :: "string \<Rightarrow> attempt_action \<Rightarrow> string option \<Rightarrow> attempt_store \<Rightarrow> attempt_store \<Rightarrow> bool" where
  "outcome_left attempt action blocker s s' \<longleftrightarrow> (case blocker of
     None \<Rightarrow> as_outcomes s' = as_outcomes s | Some b \<Rightarrow> map_of (as_outcomes s') attempt = Some (action_value action, Some b))"

lemma read_left: "outcome_left attempt action (Some b) s s' \<Longrightarrow> read_recovery_outcome attempt s' = Inr (Some (action, Some b))"
  by (simp add: outcome_left_def read_recovery_outcome_def read_action)

lemma read_kept:
  "read_recovery_outcome attempt s = Inr (Some (action, blocker)) \<Longrightarrow> outcome_left attempt action blocker s s' \<Longrightarrow> read_recovery_outcome attempt s' = Inr (Some (action, blocker))"
  by (cases blocker) (auto simp: read_left, simp add: outcome_left_def read_recovery_outcome_def)

lemma outcome_repeats:
  assumes d: "recovery_outcome attempt r verified limit now s = Inr (action, blocker, target)" and shape: "turn_shape r"
    and left: "outcome_left attempt action blocker s s'"
    and same: "recovered_row r target = r \<Longrightarrow> attempt_count (pv_task r) (pv_role r) s' = attempt_count (pv_task r) (pv_role r) s"
  shows "\<exists>t. recovery_outcome attempt (recovered_row r target) verified limit now s' = Inr (action, blocker, t) \<and> (t = None \<or> t = Some (pv_state (recovered_row r target)))"
proof (cases "pv_state r")
  case At_PREPARED
  have row: "recovered_row r None = r" using At_PREPARED by (simp add: recovered_row_def accepted_diff_def)
  show ?thesis
  proof (cases target)
    case None
    then have "blocker = None" using d At_PREPARED by (auto simp: recovery_outcome_def bind_result_Inr_iff split: if_split_asm option.split_asm dest: stale_target)
    then have "read_recovery_outcome attempt s' = read_recovery_outcome attempt s" using left by (simp add: outcome_left_def read_recovery_outcome_def)
    with d same At_PREPARED have "recovery_outcome attempt r verified limit now s' = Inr (action, blocker, target)"
      by (auto simp: recovery_outcome_def None row bind_result_Inr_iff split: if_split_asm)
    then show ?thesis by (simp add: None row)
  next
    case (Some x)
    then have "x \<in> {At_BLOCKED, At_INVALIDATED} \<and> blocker \<noteq> None" using d At_PREPARED
      by (auto simp: recovery_outcome_def bind_result_Inr_iff stale_decision_def split: if_split_asm option.split_asm attempt_role.split_asm)
    then show ?thesis using left Some At_PREPARED by (auto simp: recovery_outcome_def recovered_row_def accepted_diff_def dest: read_left)
  qed
next
  case At_DISPATCHED
  then have "pv_evidence r = None" using shape by (simp add: turn_shape_def)
  moreover obtain x b where "target = Some x" "x \<in> {At_BLOCKED, At_INVALIDATED, At_AMBIGUOUS}" "blocker = Some b" using d At_DISPATCHED
    by (auto simp: recovery_outcome_def bind_result_Inr_iff stale_decision_def split: if_split_asm attempt_role.split_asm)
  ultimately show ?thesis using left At_DISPATCHED by (auto simp: recovery_outcome_def recovered_row_def accepted_diff_def dest: read_left)
next
  case At_COMPLETED
  then have "pv_evidence r \<noteq> None" using shape by (simp add: turn_shape_def)
  with d At_COMPLETED show ?thesis by (auto simp: recovery_outcome_def recovered_row_def accepted_diff_def split: if_split_asm)
next
  case At_ACCEPTED
  show ?thesis
  proof (cases "has_prefix ''diff-review:'' (pv_output r)")
    case True
    with d At_ACCEPTED have t: "action = Do_FRESH_SUPERVISOR_SESSION" "blocker = Some ''candidate-review-revalidation-required''" "target = Some At_INVALIDATED"
      by (simp_all add: recovery_outcome_def)
    then show ?thesis using read_left [OF left [unfolded t]] by (simp add: recovery_outcome_def recovered_row_def Let_def)
  next
    case False
    with d At_ACCEPTED show ?thesis by (auto simp: recovery_outcome_def recovered_row_def accepted_diff_def)
  qed
next
  case At_AMBIGUOUS
  show ?thesis
  proof (cases "pv_evidence r = None")
    case True
    from d True At_AMBIGUOUS obtain outcome where o: "read_recovery_outcome attempt s = Inr outcome"
      by (auto simp: recovery_outcome_def bind_result_Inr_iff)
    then have t: "target = None"
      and "outcome = None \<and> blocker = Some ''external-turn-ambiguous'' \<and> action = Do_BLOCKED_AMBIGUOUS_TURN \<or> outcome = Some (action, blocker)"
      using d True At_AMBIGUOUS by (cases outcome; auto simp: recovery_outcome_def)+
    with o have "read_recovery_outcome attempt s' = Inr (Some (action, blocker))" using left read_left [of attempt action _ s s'] read_kept by blast
    then show ?thesis using True At_AMBIGUOUS t by (simp add: recovery_outcome_def recovered_row_def accepted_diff_def)
  next
    case False
    show ?thesis
    proof (cases "verified = pv_evidence r")
      case True
      with False d At_AMBIGUOUS have "action = Do_CONSUME_VERIFIED_OUTPUT" "blocker = None" "target = Some At_COMPLETED" by (simp_all add: recovery_outcome_def)
      then show ?thesis using True False by (auto simp: recovery_outcome_def recovered_row_def Let_def)
    next
      case unverified: False
      with False d At_AMBIGUOUS have "action = Do_BLOCKED_AMBIGUOUS_TURN" "blocker = Some ''completion-evidence-unverified''" "target = None" by (simp_all add: recovery_outcome_def)
      then show ?thesis using unverified False At_AMBIGUOUS by (simp add: recovery_outcome_def recovered_row_def accepted_diff_def)
    qed
  qed
next
  case At_BLOCKED
  from d At_BLOCKED obtain outcome where o: "read_recovery_outcome attempt s = Inr outcome"
    by (auto simp: recovery_outcome_def bind_result_Inr_iff)
  then have t: "target = None" and "outcome = Some (action, blocker)"
    using d At_BLOCKED by (cases outcome; auto simp: recovery_outcome_def)+
  with o have "read_recovery_outcome attempt s' = Inr (Some (action, blocker))" using left read_kept by blast
  then show ?thesis using At_BLOCKED t by (simp add: recovery_outcome_def recovered_row_def accepted_diff_def)
next
  case At_INVALIDATED
  from d At_INVALIDATED obtain outcome where o: "read_recovery_outcome attempt s = Inr outcome"
    by (auto simp: recovery_outcome_def bind_result_Inr_iff)
  then have t: "target = None"
    and "outcome = None \<and> blocker = Some ''supervisor-session-invalidated'' \<and> action = Do_FRESH_SUPERVISOR_SESSION \<or> outcome = Some (action, blocker)"
    using d At_INVALIDATED by (cases outcome; auto simp: recovery_outcome_def)+
  with o have "read_recovery_outcome attempt s' = Inr (Some (action, blocker))" using left read_left [of attempt action _ s s'] read_kept by blast
  then show ?thesis using At_INVALIDATED t by (simp add: recovery_outcome_def recovered_row_def accepted_diff_def)
qed

text \<open>The tables that a recovery leaves alone, and the rows it may only mark.\<close>

definition same_evidence :: "task_identity \<Rightarrow> string \<Rightarrow> attempt_store \<Rightarrow> attempt_store \<Rightarrow> bool" where
  "same_evidence ti attempt s s' \<longleftrightarrow> as_contexts s' = as_contexts s \<and> as_authorizations s' = as_authorizations s \<and> as_seals s' = as_seals s
     \<and> as_checkpoints s' = as_checkpoints s \<and> as_sessions s' = as_sessions s \<and> diff_review_of (ti_task_id ti) attempt s' = diff_review_of (ti_task_id ti) attempt s"

lemma authorization_same:
  "same_evidence ti attempt s s' \<Longrightarrow> require_persisted_health_authorization trusted attempt c role profile now s' = require_persisted_health_authorization trusted attempt c role profile now s"
  unfolding require_persisted_health_authorization_def same_evidence_def by (elim conjE) (simp only:)

lemma kind_repeats:
  assumes "same_evidence ti attempt s s'" and "accepted_review_kind w ti attempt r s \<noteq> Kind_invalid"
    and "pv_state (recovered_row r target) \<noteq> At_ACCEPTED \<or> recovered_row r target = r"
  shows "accepted_review_kind w ti attempt (recovered_row r target) s' \<noteq> Kind_invalid
    \<and> (recovered_row r target = r \<longrightarrow> accepted_review_kind w ti attempt (recovered_row r target) s' = accepted_review_kind w ti attempt r s)"
  using assms by (auto simp: accepted_review_kind_def same_evidence_def split: option.split_asm if_split_asm)

lemma target_not_accepted:
  "decide_recovery w ti c attempt r verified limit now s = Inr (action, blocker, target) \<Longrightarrow> pv_state (recovered_row r target) \<noteq> At_ACCEPTED \<or> recovered_row r target = r"
  by (cases target) (auto simp: recovered_row_def accepted_diff_def Let_def dest: decision_target)

lemma decision_repeats:
  assumes d: "decide_recovery w ti c attempt r verified limit now s = Inr (action, blocker, target)" and shape: "turn_shape r"
    and left: "outcome_left attempt action blocker s s'" and evidence: "same_evidence ti attempt s s'"
    and same: "recovered_row r target = r \<Longrightarrow> attempt_count (pv_task r) (pv_role r) s' = attempt_count (pv_task r) (pv_role r) s
      \<and> as_accepted_reviews s' = as_accepted_reviews s"
  shows "\<exists>t. decide_recovery w ti c attempt (recovered_row r target) verified limit now s' = Inr (action, blocker, t) \<and> (t = None \<or> t = Some (pv_state (recovered_row r target)))"
proof (cases "context_matches ti attempt c s")
  case False
  moreover have "\<not> context_matches ti attempt c s'" using False evidence by (simp add: context_matches_def same_evidence_def)
  ultimately show ?thesis using d by (auto simp: decide_recovery_def abandonment_state_def) (simp_all add: recovered_row_def Let_def)
next
  case True
  let ?q = "recovered_row r target"
  have matches: "context_matches ti attempt c s'" using True evidence by (simp add: context_matches_def same_evidence_def)
  have nn: "\<not> \<not> context_matches ti attempt c s" using True by simp
  from d [unfolded decide_recovery_def if_not_P [OF nn] body_simps] obtain authorization where valid: "validate_context ti c = Inr ()"
    and auth: "require_persisted_health_authorization False attempt c (pv_role r) (pv_profile r) now s = Inr authorization"
    and kind: "accepted_review_kind w ti attempt r s \<noteq> Kind_invalid"
    and accepted: "(if accepted_review_kind w ti attempt r s = Kind_generic \<and> pv_state r = At_ACCEPTED then require_accepted_supervisor_review ti attempt r c s else Inr ()) = Inr ()"
    and rest: "(if pv_state r = At_PREPARED \<and> pv_session r \<noteq> None
            \<and> require_session_checkpoint (ti_task_id ti) attempt (the (pv_session r)) c authorization s \<noteq> Inr ()
        then Inr (Do_BLOCKED_AMBIGUOUS_TURN, Some ''session-checkpoint-unavailable'', Some (abandonment_state r))
        else recovery_outcome attempt r verified limit now s) = Inr (action, blocker, target)"
    by blast
  note auth' = authorization_same [OF evidence, of False c "pv_role r" "pv_profile r" now]
  have kind': "accepted_review_kind w ti attempt ?q s' \<noteq> Kind_invalid"
      "?q = r \<Longrightarrow> accepted_review_kind w ti attempt ?q s' = accepted_review_kind w ti attempt r s"
    using kind_repeats [OF evidence kind target_not_accepted [OF d]] by blast+
  have accepted': "(if accepted_review_kind w ti attempt ?q s' = Kind_generic \<and> pv_state ?q = At_ACCEPTED then require_accepted_supervisor_review ti attempt ?q c s' else Inr ()) = Inr ()"
    using target_not_accepted [OF d] accepted kind' same by (auto simp: require_accepted_supervisor_review_def split: if_split_asm)
  have session': "require_session_checkpoint (ti_task_id ti) attempt session c authorization s' = require_session_checkpoint (ti_task_id ti) attempt session c authorization s" for session
    using evidence by (simp add: require_session_checkpoint_def same_evidence_def)
  have reduce: "decide_recovery w ti c attempt ?q verified limit now s' = (if pv_state ?q = At_PREPARED \<and> pv_session r \<noteq> None
            \<and> require_session_checkpoint (ti_task_id ti) attempt (the (pv_session r)) c authorization s \<noteq> Inr ()
        then Inr (Do_BLOCKED_AMBIGUOUS_TURN, Some ''session-checkpoint-unavailable'', Some (abandonment_state ?q))
        else recovery_outcome attempt ?q verified limit now s')"
    using matches valid auth kind' accepted' by (simp add: decide_recovery_def auth' session' Let_def require_provider_def)
  show ?thesis
  proof (cases "pv_state r = At_PREPARED \<and> pv_session r \<noteq> None \<and> require_session_checkpoint (ti_task_id ti) attempt (the (pv_session r)) c authorization s \<noteq> Inr ()")
    case True
    then have t: "target = Some At_BLOCKED" "blocker = Some ''session-checkpoint-unavailable''" "action = Do_BLOCKED_AMBIGUOUS_TURN"
      using rest shape by (auto simp: abandonment_state_def turn_shape_def)
    then have "pv_state ?q = At_BLOCKED" by (simp add: recovered_row_def Let_def)
    then show ?thesis unfolding reduce using read_left [OF left [unfolded t]] by (simp add: recovery_outcome_def t)
  next
    case False
    then have o: "recovery_outcome attempt r verified limit now s = Inr (action, blocker, target)" using rest by (simp only: if_False)
    have "pv_state ?q = At_PREPARED \<Longrightarrow> ?q = r" using d by (cases target) (auto simp: recovered_row_def accepted_diff_def Let_def dest: decision_target)
    with False have "decide_recovery w ti c attempt ?q verified limit now s' = recovery_outcome attempt ?q verified limit now s'" unfolding reduce by auto
    then show ?thesis using outcome_repeats [OF o shape left] same by simp
  qed
qed

lemma stale_diff_effect:
  assumes "stale_diff_review ti attempt r s = Inr t"
  shows "\<exists>rows diffs accepted. t = s\<lparr>as_attempts := rows, as_diff_reviews := diffs, as_accepted_reviews := accepted\<rparr>
    \<and> diff_review_of (ti_task_id ti) attempt t = diff_review_of (ti_task_id ti) attempt s"
proof -
  from assms obtain u where put: "put_attempt attempt (r\<lparr>pv_state := At_INVALIDATED, pv_accepted := None\<rparr>)
         (s\<lparr>as_accepted_reviews := filter (\<lambda>(_, a). ap_attempt a \<noteq> attempt) (as_accepted_reviews s)\<rparr>) = Inr u"
    and t: "t = u\<lparr>as_diff_reviews := map (\<lambda>(k, d). if df_task d = ti_task_id ti \<and> df_attempt d = attempt \<and> df_state d = ''accepted''
        then (k, d\<lparr>df_state := ''recorded'', df_accepted := None\<rparr>) else (k, d)) (as_diff_reviews u)\<rparr>"
    unfolding stale_diff_review_def bind_result_Inr_iff by auto
  from put_attempt_effect [OF put] obtain rows where u: "u = s\<lparr>as_accepted_reviews := filter (\<lambda>(_, a). ap_attempt a \<noteq> attempt) (as_accepted_reviews s), as_attempts := rows\<rparr>"
    by auto
  have "map_option fst (List.find (\<lambda>(_, d). df_attempt d = attempt \<and> df_task d = ti_task_id ti) (map (\<lambda>(k, d).
        if df_task d = ti_task_id ti \<and> df_attempt d = attempt \<and> df_state d = ''accepted'' then (k, d\<lparr>df_state := ''recorded'', df_accepted := None\<rparr>) else (k, d)) rows))
      = map_option fst (List.find (\<lambda>(_, d). df_attempt d = attempt \<and> df_task d = ti_task_id ti) rows)" for rows
    by (induction rows) (auto split: if_splits)
  then have "diff_review_of (ti_task_id ti) attempt t = diff_review_of (ti_task_id ti) attempt s" by (simp add: t u diff_review_of_def)
  moreover have "t = s\<lparr>as_attempts := as_attempts t, as_diff_reviews := as_diff_reviews t, as_accepted_reviews := as_accepted_reviews t\<rparr>" by (simp add: t u)
  ultimately show ?thesis by blast
qed

lemma recovery_effect:
  assumes run: "recovery_body w ti c attempt verified limit lease now s = Inr (s', p)"
  shows "\<exists>r action blocker target. map_of (as_attempts s) attempt = Some r \<and> pv_task r = ti_task_id ti
    \<and> decide_recovery w ti c attempt r verified limit now s = Inr (action, blocker, target)
    \<and> p = recovery_projection_of attempt (recovered_row r target) action blocker \<and> map_of (as_attempts s') attempt = Some (recovered_row r target)
    \<and> same_evidence ti attempt s s' \<and> outcome_left attempt action blocker s s'
    \<and> (recovered_row r target = r \<longrightarrow> as_attempts s' = as_attempts s \<and> as_accepted_reviews s' = as_accepted_reviews s) \<and> 0 < now
    \<and> require_lease w lease ti now = Inr () \<and> require_task w ti = Inr ()"
proof -
  from run obtain r action blocker target s1 s2 s3 s4 where entry: "require_lease w lease ti now = Inr ()" "require_task w ti = Inr ()"
    and row: "map_of (as_attempts s) attempt = Some r" "pv_task r = ti_task_id ti"
    and d: "decide_recovery w ti c attempt r verified limit now s = Inr (action, blocker, target)"
    and stale: "(if accepted_diff r then stale_diff_review ti attempt r s else Inr s) = Inr s1"
    and move: "(if recovered_row r target \<noteq> recovered_row r None then put_attempt attempt (recovered_row r target) s1 else Inr s1) = Inr s2"
    and outcome: "(case blocker of None \<Rightarrow> Inr s2 | Some b \<Rightarrow> persist_recovery_outcome attempt action b now s2) = Inr s3"
    and cancel: "cancel_abandoned w ti attempt (recovered_row r target) action blocker s3 = Inr s4"
    and event: "add_event (ti_task_id ti) attempt action now s4 = Inr s'"
    and p: "p = recovery_projection_of attempt (recovered_row r target) action blocker"
    unfolding recovery_body_def body_simps accepted_diff_def recovered_row_def option.case by (blast dest: attempt_row_ofD)
  obtain rows diffs accepted where s1: "s1 = s\<lparr>as_attempts := rows, as_diff_reviews := diffs, as_accepted_reviews := accepted\<rparr>"
    and diff: "diff_review_of (ti_task_id ti) attempt s1 = diff_review_of (ti_task_id ti) attempt s"
    and row1: "map_of (as_attempts s1) attempt = Some (recovered_row r None)" and unmoved: "\<not> accepted_diff r \<Longrightarrow> s1 = s"
  proof (cases "accepted_diff r")
    case True
    with stale have run1: "stale_diff_review ti attempt r s = Inr s1" by simp
    have "pv_state r = At_ACCEPTED" using True by (simp add: accepted_diff_def)
    from stale_diff_sound [OF run1 row(1) this] have "map_of (as_attempts s1) attempt = Some (recovered_row r None)" by (simp add: recovered_row_def True)
    moreover obtain rows diffs accepted where "s1 = s\<lparr>as_attempts := rows, as_diff_reviews := diffs, as_accepted_reviews := accepted\<rparr>"
      "diff_review_of (ti_task_id ti) attempt s1 = diff_review_of (ti_task_id ti) attempt s" using stale_diff_effect [OF run1] by blast
    ultimately show ?thesis using True by (intro that) auto
  next
    case False
    with stale have "s1 = s" by simp
    with False row show ?thesis by (intro that [where rows = "as_attempts s" and diffs = "as_diff_reviews s" and accepted = "as_accepted_reviews s"]) (simp_all add: recovered_row_def)
  qed
  obtain rows2 where s2: "s2 = s1\<lparr>as_attempts := rows2\<rparr>" and row2: "map_of rows2 attempt = Some (recovered_row r target)"
    and rows2: "recovered_row r target = recovered_row r None \<Longrightarrow> rows2 = as_attempts s1"
  proof (cases "recovered_row r target = recovered_row r None")
    case False
    with move have "put_attempt attempt (recovered_row r target) s1 = Inr s2" by simp
    from put_attempt_effect [OF this] False show ?thesis
      by (intro that [of "AList.update attempt (recovered_row r target) (as_attempts s1)"]) (auto simp: update_conv')
  qed (use move row1 that [of "as_attempts s1"] in auto)
  obtain outcomes where s3: "s3 = s2\<lparr>as_outcomes := outcomes\<rparr>" and left: "outcome_left attempt action blocker s2 s3"
  proof (cases blocker)
    case (Some b)
    with outcome have "persist_recovery_outcome attempt action b now s2 = Inr s3" by simp
    from persist_outcome_effect [OF this] Some show ?thesis by (auto simp: outcome_left_def intro: that)
  qed (use outcome that [of "as_outcomes s2"] in \<open>auto simp: outcome_left_def\<close>)
  obtain reviews where s4: "s4 = s3\<lparr>as_reviews := reviews\<rparr>" using cancel_abandoned_effect [OF cancel] by blast
  obtain events where s': "s' = s4\<lparr>as_events := events\<rparr>" "0 < now" using event by (auto simp: add_event_def split: if_split_asm)
  have "recovered_row r target = r \<Longrightarrow> \<not> accepted_diff r" using target_not_accepted [OF d] decision_target d
    by (cases target) (auto simp: recovered_row_def accepted_diff_def Let_def dest: decision_target dest!: arg_cong [of _ _ pv_state])
  then have kept: "recovered_row r target = r \<longrightarrow> as_attempts s' = as_attempts s \<and> as_accepted_reviews s' = as_accepted_reviews s"
    using unmoved rows2 by (auto simp: s' s4 s3 s2 recovered_row_def)
  have "same_evidence ti attempt s s'" using diff by (simp add: same_evidence_def s' s4 s3 s2 diff_review_of_def) (simp add: s1)
  moreover have "outcome_left attempt action blocker s s'" using left by (cases blocker) (simp_all add: outcome_left_def s' s4 s2 s1 s3)
  ultimately show ?thesis using row d p kept entry s'(2) row2
    by (intro exI [of _ r] exI [of _ action] exI [of _ blocker] exI [of _ target]) (simp add: s' s4 s3 s2)
qed

lemma recovery_body_again:
  assumes first: "recovery_body w ti c attempt verified limit lease now s = Inr (s', p)"
    and row: "map_of (as_attempts s) attempt = Some r" "turn_shape r" "pv_role r \<noteq> P_WORKER"
  shows "recovery_body w ti c attempt verified limit lease now s'
    = Inr (s'\<lparr>as_events := as_events s' @ [(ti_task_id ti, attempt, action_value (rj_next_action p), now)]\<rparr>, p)"
proof -
  from recovery_effect [OF first] row(1) obtain action blocker target where task: "pv_task r = ti_task_id ti"
    and d: "decide_recovery w ti c attempt r verified limit now s = Inr (action, blocker, target)"
    and p: "p = recovery_projection_of attempt (recovered_row r target) action blocker" and row': "map_of (as_attempts s') attempt = Some (recovered_row r target)"
    and evidence: "same_evidence ti attempt s s'" and left: "outcome_left attempt action blocker s s'"
    and kept: "recovered_row r target = r \<longrightarrow> as_attempts s' = as_attempts s \<and> as_accepted_reviews s' = as_accepted_reviews s" and "0 < now"
    and entry: "require_lease w lease ti now = Inr ()" "require_task w ti = Inr ()" by auto
  let ?q = "recovered_row r target"
  have "recovered_row r target = r \<Longrightarrow> attempt_count (pv_task r) (pv_role r) s' = attempt_count (pv_task r) (pv_role r) s \<and> as_accepted_reviews s' = as_accepted_reviews s"
    using kept by (simp add: attempt_count_def)
  from decision_repeats [OF d row(2) left evidence this] obtain t where d': "decide_recovery w ti c attempt ?q verified limit now s' = Inr (action, blocker, t)"
    and t: "t = None \<or> t = Some (pv_state ?q)" by blast
  have settled: "\<not> (pv_state ?q = At_ACCEPTED \<and> has_prefix ''diff-review:'' (pv_output ?q))"
    using target_not_accepted [OF d] d by (cases target) (auto simp: recovered_row_def accepted_diff_def Let_def dest: decision_target split: if_split_asm)
  have unmoved: "(case t of None \<Rightarrow> ?q | Some x \<Rightarrow> ?q\<lparr>pv_state := x\<rparr>) = ?q" using t by auto
  have outcome: "(case blocker of None \<Rightarrow> Inr s' | Some b \<Rightarrow> persist_recovery_outcome attempt action b now s') = Inr s'"
    using left by (auto simp: outcome_left_def persist_recovery_outcome_def split: option.split)
  have cancel: "cancel_abandoned w ti attempt ?q action blocker s' = Inr s'" using row(3) by (simp add: cancel_abandoned_def)
  have event: "add_event (ti_task_id ti) attempt action now s' = Inr (s'\<lparr>as_events := as_events s' @ [(ti_task_id ti, attempt, action_value action, now)]\<rparr>)"
    using row' \<open>0 < now\<close> by (simp add: add_event_def)
  have "attempt_row_of (ti_task_id ti) attempt s' = Inr ?q" using row' task by (simp add: attempt_row_of_def)
  then show ?thesis unfolding recovery_body_def using entry d'
    by (simp only: bind_result.simps prod.case Let_def if_not_P [OF settled] unmoved simp_thms if_False outcome cancel event not_True_eq_False p)
      (simp add: recovery_projection_of_def)
qed

text \<open>
  C22 (recovery_decision_idempotent). Recovery decides once: when a recovery of a turn that is not a worker's
  succeeds, repeating it with the same evidence, limit and clock succeeds, returns the same projection (state,
  action and blocker) and writes nothing but one more event. In particular no repetition turns an ambiguous
  or blocked turn into a retry.
\<close>

theorem recovery_decision_idempotent:
  assumes first: "recover_attempt w ti c attempt verified limit lease now s = (s', Inr p)"
    and row: "map_of (as_attempts s) attempt = Some r" "turn_shape r" "pv_role r \<noteq> P_WORKER"
  shows "recover_attempt w ti c attempt verified limit lease now s'
    = (s'\<lparr>as_events := as_events s' @ [(ti_task_id ti, attempt, action_value (rj_next_action p), now)]\<rparr>, Inr p)"
proof -
  let ?valid = "bind_result (provider_token attempt ''attempt identity'') (\<lambda>_.
        bind_result (require_provider (1 \<le> limit) ''attempt limit is invalid'') (\<lambda>_.
        case verified of None \<Rightarrow> Inr () | Some v \<Rightarrow> provider_fingerprint v ''verified completion evidence''))"
  from first have valid: "?valid = Inr ()" and body: "recovery_body w ti c attempt verified limit lease now s = Inr (s', p)"
    by (auto simp: recover_attempt_def run_transaction_def split: sum.split_asm)
  show ?thesis using recovery_body_again [OF body row] valid by (simp add: recover_attempt_def run_transaction_def)
qed

theorem recovery_decision_idempotent_witness:
  "recover_attempt turn_world recovery_sample_task (turn_context CHR ''e'') ''attempt-1'' None 3 (Some turn_lease) 50 (turn_store supervisor_turn) = (turn_blocked, Inr drift_projection)
   \<and> recover_attempt turn_world recovery_sample_task (turn_context CHR ''e'') ''attempt-1'' None 3 (Some turn_lease) 50 turn_blocked
     = (turn_blocked\<lparr>as_events := as_events turn_blocked @ [(''task-1'', ''attempt-1'', ''blocked-identity-drift'', 50)]\<rparr>, Inr drift_projection)"
proof -
  have row: "map_of (as_attempts (turn_store supervisor_turn)) ''attempt-1'' = Some supervisor_turn" "turn_shape supervisor_turn" "pv_role supervisor_turn \<noteq> P_WORKER"
    by simp_all (simp add: turn_shape_def supervisor_turn_def)
  from recovery_decision_idempotent [OF sample_recovery row] sample_recovery show ?thesis
    by (simp add: drift_projection_def recovery_projection_of_def)
qed


section \<open>An accepted review in a drifted context\<close>

text \<open>
  C37 (accepted_drift_raises_integrity_error). When the context of a recovery differs from the stored one and
  the turn carries an accepted review that is not a diff review, the code does not return the decision
  \<open>BLOCKED_IDENTITY_DRIFT\<close>: it tries to close the row without withdrawing the accepted review, which the
  \<open>CHECK\<close> clause of the table refuses, so that a raw \<open>sqlite3.IntegrityError\<close> escapes and nothing is recorded.
\<close>

theorem accepted_drift_raises_integrity_error:
  assumes "is_recovery_token attempt" and "1 \<le> limit" and "require_lease w lease ti now = Inr ()" and "require_task w ti = Inr ()"
    and "map_of (as_attempts s) attempt = Some r" and "pv_task r = ti_task_id ti" and "pv_state r = At_ACCEPTED" and "pv_accepted r \<noteq> None"
    and "\<not> has_prefix ''diff-review:'' (pv_output r)" and "\<not> context_matches ti attempt c s"
  shows "decide_recovery w ti c attempt r None limit now s = Inr (Do_BLOCKED_IDENTITY_DRIFT, Some ''identity-drift'', Some (abandonment_state r))
    \<and> recover_attempt w ti c attempt None limit lease now s = (s, Inl PyIntegrityError)"
proof -
  have d: "decide_recovery w ti c attempt r None limit now s = Inr (Do_BLOCKED_IDENTITY_DRIFT, Some ''identity-drift'', Some (abandonment_state r))"
    using assms by (simp add: decide_recovery_def)
  have "abandonment_state r \<noteq> At_ACCEPTED" by (simp add: abandonment_state_def)
  then have "put_attempt attempt (r\<lparr>pv_state := abandonment_state r\<rparr>) s = Inl PyIntegrityError" "r\<lparr>pv_state := abandonment_state r\<rparr> \<noteq> r"
    using assms(7,8) by (auto simp: put_attempt_def row_valid_def dest: arg_cong [of _ _ pv_state])
  then have "recovery_body w ti c attempt None limit lease now s = Inl PyIntegrityError"
    using assms d by (simp add: recovery_body_def attempt_row_of_def)
  with d show ?thesis using assms by (simp add: recover_attempt_def provider_token_def require_provider_def run_transaction_def)
qed

definition accepted_turn :: provider_attempt where
  "accepted_turn = supervisor_turn\<lparr>pv_session := Some ''session-1'', pv_turn := Some ''turn-1'', pv_output := Some ''review-output'', pv_evidence := Some (replicate 64 CHR ''a''),
     pv_accepted := Some ''review-1'', pv_state := At_ACCEPTED\<rparr>"

theorem accepted_drift_raises_integrity_error_witness:
  "row_valid accepted_turn
   \<and> recover_attempt turn_world recovery_sample_task (turn_context CHR ''e'') ''attempt-1'' None 3 (Some turn_lease) 50 (turn_store accepted_turn) = (turn_store accepted_turn, Inl PyIntegrityError)"
proof -
  have "row_valid accepted_turn" by (simp add: row_valid_def accepted_turn_def) (simp add: supervisor_turn_def)
  moreover have "\<not> has_prefix ''diff-review:'' (pv_output accepted_turn)" by (simp add: has_prefix_def py_startswith_def accepted_turn_def)
  ultimately show ?thesis
    using accepted_drift_raises_integrity_error [of "''attempt-1''" 3 turn_world "Some turn_lease" recovery_sample_task 50 "turn_store accepted_turn" accepted_turn
        "turn_context CHR ''e''"] sample_drift by (simp add: accepted_turn_def)
qed

end
