(* ===== verification/Role_Capability.thy ===== *)
theory Role_Capability
  imports Provider_Health
begin

text \<open>
  \<open>role_capability_policy.py\<close>, data model: the roles, capabilities and budgets of advisory roles, the paths
  and scopes that bound them, the instance, authority receipt, grant and expectation of an admission, and
  the binding of one execution. Every class is a record with its \<open>__post_init__\<close> as a list of guards, and its
  identity is the digest of a canonical JSON object.
\<close>

abbreviation role_error :: "string \<Rightarrow> 'a result" where
  "role_error why \<equiv> Inl (RoleCapabilityError why)"

section \<open>Vocabularies\<close>

datatype advisory_role = Role_worker | Role_supervisor | Role_dependency_review | Role_recovery_advisor | Role_owner_intent

definition all_advisory_roles :: "advisory_role list" where
  "all_advisory_roles = [Role_worker, Role_supervisor, Role_dependency_review, Role_recovery_advisor, Role_owner_intent]"

fun advisory_role_value :: "advisory_role \<Rightarrow> string" where
  "advisory_role_value Role_worker = ''worker''"
| "advisory_role_value Role_supervisor = ''supervisor''"
| "advisory_role_value Role_dependency_review = ''dependency-review''"
| "advisory_role_value Role_recovery_advisor = ''recovery-advisor''"
| "advisory_role_value Role_owner_intent = ''owner-intent-interpreter''"

datatype guidance_view = View_worker | View_supervisor | View_dependency_review | View_recovery_advisor | View_owner_intent

fun guidance_view_value :: "guidance_view \<Rightarrow> string" where
  "guidance_view_value View_worker = ''worker''"
| "guidance_view_value View_supervisor = ''supervisor''"
| "guidance_view_value View_dependency_review = ''dependency-review''"
| "guidance_view_value View_recovery_advisor = ''recovery-advisor''"
| "guidance_view_value View_owner_intent = ''owner-intent-interpreter''"

datatype execution_seam = Seam_worker | Seam_supervisor | Seam_dependency_review | Seam_recovery_advisor | Seam_owner_intent

datatype role_capability = READ_TRUSTED_GUIDANCE | RENDER_OWNER_SAFE_ADVICE | BOUNDED_CODING | READ_ONLY_REVIEW | OWNER_COMMAND_INTERPRETATION

fun capability_value :: "role_capability \<Rightarrow> string" where
  "capability_value READ_TRUSTED_GUIDANCE = ''read-trusted-guidance''"
| "capability_value RENDER_OWNER_SAFE_ADVICE = ''render-owner-safe-advice''"
| "capability_value BOUNDED_CODING = ''bounded-coding''"
| "capability_value READ_ONLY_REVIEW = ''read-only-review''"
| "capability_value OWNER_COMMAND_INTERPRETATION = ''owner-command-interpretation''"

text \<open>The members in the order of their values, so that a sorted list of values is a filter of it.\<close>

definition all_capabilities :: "role_capability list" where
  "all_capabilities = [BOUNDED_CODING, OWNER_COMMAND_INTERPRETATION, READ_ONLY_REVIEW, READ_TRUSTED_GUIDANCE, RENDER_OWNER_SAFE_ADVICE]"

definition sorted_values :: "role_capability set \<Rightarrow> string list" where
  "sorted_values cs = map capability_value (filter (\<lambda>c. c \<in> cs) all_capabilities)"

datatype advisory_status = Advisory_DISABLED | Advisory_READY

datatype scope_kind = Scope_PATH | Scope_PROCESS | Scope_TEST_INPUT_SET | Scope_NETWORK | Scope_RESOURCE

definition all_scope_kinds :: "scope_kind list" where
  "all_scope_kinds = [Scope_PATH, Scope_PROCESS, Scope_TEST_INPUT_SET, Scope_NETWORK, Scope_RESOURCE]"

fun scope_kind_value :: "scope_kind \<Rightarrow> string" where
  "scope_kind_value Scope_PATH = ''path''"
| "scope_kind_value Scope_PROCESS = ''process''"
| "scope_kind_value Scope_TEST_INPUT_SET = ''test-input-set''"
| "scope_kind_value Scope_NETWORK = ''network''"
| "scope_kind_value Scope_RESOURCE = ''resource''"

fun seam_capability :: "execution_seam \<Rightarrow> role_capability" where
  "seam_capability Seam_worker = BOUNDED_CODING"
| "seam_capability Seam_supervisor = READ_ONLY_REVIEW"
| "seam_capability Seam_dependency_review = READ_ONLY_REVIEW"
| "seam_capability Seam_recovery_advisor = READ_ONLY_REVIEW"
| "seam_capability Seam_owner_intent = OWNER_COMMAND_INTERPRETATION"

fun expected_view :: "execution_seam \<Rightarrow> guidance_view" where
  "expected_view Seam_worker = View_worker"
| "expected_view Seam_supervisor = View_supervisor"
| "expected_view Seam_dependency_review = View_dependency_review"
| "expected_view Seam_recovery_advisor = View_recovery_advisor"
| "expected_view Seam_owner_intent = View_owner_intent"

fun allowed_role :: "execution_seam \<Rightarrow> advisory_role" where
  "allowed_role Seam_worker = Role_worker"
| "allowed_role Seam_supervisor = Role_supervisor"
| "allowed_role Seam_dependency_review = Role_dependency_review"
| "allowed_role Seam_recovery_advisor = Role_recovery_advisor"
| "allowed_role Seam_owner_intent = Role_owner_intent"

section \<open>Lexical classes\<close>

text \<open>
  The code points below 256 that compatibility normalization changes: no-break space, the spacing accents,
  the ordinal indicators, the superscript digits, the micro sign and the vulgar fractions.
\<close>

definition nfkc_changed :: "nat list" where
  "nfkc_changed = [160, 168, 170, 175, 178, 179, 180, 181, 184, 185, 186, 188, 189, 190]"

definition windows_reserved :: "string list" where
  "windows_reserved = [''con'', ''prn'', ''aux'', ''nul'', ''clock$'', ''conin$'', ''conout$'']
     @ map (\<lambda>n. ''com'' @ nat_str n) [1..<10] @ map (\<lambda>n. ''lpt'' @ nat_str n) [1..<10]"

definition ascii_lower :: "char \<Rightarrow> char" where
  "ascii_lower c = (if is_upper c then char_of (of_char c + (32 :: nat)) else c)"

definition rstrip_dots :: "string \<Rightarrow> string" where
  "rstrip_dots s = rev (dropWhile (\<lambda>c. c \<in> {CHR ''.'', CHR '' ''}) (rev s))"

definition path_stem :: "string \<Rightarrow> string" where
  "path_stem part = map ascii_lower (rstrip_dots (takeWhile (\<lambda>c. c \<noteq> CHR ''.'') part))"

definition safe_part :: "string \<Rightarrow> bool" where
  "safe_part part \<longleftrightarrow> list_all (\<lambda>c. of_char c \<notin> set nfkc_changed \<and> c \<notin> set '':*?<>|'' \<and> c \<noteq> CHR 0x22 \<and> \<not> of_char c < (32 :: nat)) part
     \<and> \<not> (part \<noteq> [] \<and> last part \<in> {CHR ''.'', CHR '' ''}) \<and> path_stem part \<notin> set windows_reserved"

text \<open>\<open>PurePosixPath\<close>: its parts drop empty components and dots, and an empty path prints as a dot.\<close>

definition posix_parts :: "string \<Rightarrow> string list" where
  "posix_parts v = filter (\<lambda>p. p \<noteq> [] \<and> p \<noteq> ''.'') (py_split CHR ''/'' v)"

fun join_slash :: "string list \<Rightarrow> string" where
  "join_slash [] = []"
| "join_slash [p] = p"
| "join_slash (p # ps) = p @ ''/'' @ join_slash ps"

definition posix_text :: "string \<Rightarrow> string" where
  "posix_text v = (if posix_parts v = [] then ''.'' else join_slash (posix_parts v))"

definition has_drive :: "string \<Rightarrow> bool" where
  "has_drive v \<longleftrightarrow> (case v of c # d # _ \<Rightarrow> (is_lower c \<or> is_upper c) \<and> d = CHR '':'' | _ \<Rightarrow> False)"

definition backslash :: char where
  "backslash = CHR 0x5C"

definition relative_path_ok :: "string \<Rightarrow> bool" where
  "relative_path_ok v \<longleftrightarrow> v \<noteq> [] \<and> backslash \<notin> set v \<and> \<not> py_contains ''//'' v
     \<and> \<not> py_startswith v ''/'' \<and> \<not> has_drive v \<and> list_all (\<lambda>p. p \<notin> {[], ''.'', ''..''}) (posix_parts v) \<and> posix_text v = v
     \<and> list_all safe_part (posix_parts v)"

definition relative_path :: "string \<Rightarrow> string result" where
  "relative_path v = (if relative_path_ok v then Inr v else role_error ''relative path is invalid'')"

definition require_digest :: "string \<Rightarrow> string \<Rightarrow> string result" where
  "require_digest s label = (if is_digest s then Inr s else role_error (label @ '' is invalid''))"

definition require_identity :: "string \<Rightarrow> string \<Rightarrow> string result" where
  "require_identity s label = (if is_token s then Inr s else role_error (label @ '' is invalid''))"

text \<open>The guards of a list of digests, in order.\<close>

definition digest_guards :: "(string \<times> string) list \<Rightarrow> (bool \<times> py_error) list" where
  "digest_guards = map (\<lambda>(s, label). (is_digest s, RoleCapabilityError (label @ '' is invalid'')))"

section \<open>Budgets, mappings and profiles\<close>

record role_budget =
  rb_calls :: int
  rb_seconds :: int
  rb_tokens :: int

definition budget_ok :: "role_budget \<Rightarrow> bool" where
  "budget_ok b \<longleftrightarrow> 1 \<le> rb_calls b \<and> rb_calls b \<le> 3 \<and> 1 \<le> rb_seconds b \<and> rb_seconds b \<le> 300 \<and> 1 \<le> rb_tokens b \<and> rb_tokens b \<le> 8000"

definition make_budget :: "role_budget \<Rightarrow> role_budget result" where
  "make_budget b = construct [(budget_ok b, RoleCapabilityError ''role budget is invalid'')] b"

definition budget_identity :: "role_budget \<Rightarrow> string" where
  "budget_identity b = digest_value (JObj [(''schema'', JStr ''roundwright-advisory-role-budget/v1''), (''calls'', JInt (rb_calls b)),
     (''seconds'', JInt (rb_seconds b)), (''tokens'', JInt (rb_tokens b))])"

definition reviewed_sdk_codes :: "(role_capability \<times> string) list" where
  "reviewed_sdk_codes = [(READ_TRUSTED_GUIDANCE, ''guidance.read/v1''), (RENDER_OWNER_SAFE_ADVICE, ''advice.render-owner-safe/v1''),
     (BOUNDED_CODING, ''coding.bounded/v1''), (READ_ONLY_REVIEW, ''review.read-only/v1''),
     (OWNER_COMMAND_INTERPRETATION, ''intent.interpret-owner-command/v1'')]"

record sdk_mapping =
  sm_version :: string
  sm_adapter :: string
  sm_codes :: "role_capability \<rightharpoonup> string"
  sm_digest :: string

definition reviewed_sdk_mapping :: sdk_mapping where
  "reviewed_sdk_mapping = (let adapter = digest_value (JStr ''roundwright-advisory-sdk-adapter/v1'') in
     \<lparr>sm_version = ''1.0.0'', sm_adapter = adapter, sm_codes = map_of reviewed_sdk_codes,
      sm_digest = digest_value (JObj [(''sdk_version'', JStr ''1.0.0''), (''adapter'', JStr adapter),
        (''codes'', JObj (map (\<lambda>(c, code). (capability_value c, JStr code)) reviewed_sdk_codes))])\<rparr>)"

definition make_sdk_mapping :: "sdk_mapping \<Rightarrow> sdk_mapping result" where
  "make_sdk_mapping m = construct [(m = reviewed_sdk_mapping, RoleCapabilityError ''SDK adapter mapping differs from the reviewed expectation'')] m"

definition mapping_identity :: "sdk_mapping \<Rightarrow> string" where
  "mapping_identity m = digest_value (JObj [(''schema'', JStr ''roundwright-advisory-sdk-mapping/v2''), (''sdk_version'', JStr (sm_version m)),
     (''adapter_identity'', JStr (sm_adapter m)), (''mapping_digest'', JStr (sm_digest m))])"

record capability_profile =
  rp_role :: advisory_role
  rp_provider :: provider_profile
  rp_capabilities :: "role_capability set"
  rp_budget :: role_budget
  rp_mapping :: sdk_mapping
  rp_dedicated :: bool
  rp_always_on :: bool

definition make_capability_profile :: "capability_profile \<Rightarrow> capability_profile result" where
  "make_capability_profile p = construct [(rp_capabilities p \<noteq> {} \<and> rp_capabilities p \<subseteq> dom (sm_codes (rp_mapping p)) \<and> rp_dedicated p \<and> \<not> rp_always_on p,
     RoleCapabilityError ''role capability profile is invalid'')] p"

definition json_strings :: "string list \<Rightarrow> json" where
  "json_strings xs = JList (map JStr xs)"

definition profile_identity :: "capability_profile \<Rightarrow> string" where
  "profile_identity p = digest_value (JObj [(''schema'', JStr ''roundwright-advisory-role-capability-profile/v3''), (''role'', JStr (advisory_role_value (rp_role p))),
     (''model'', JStr (pp_model (rp_provider p))), (''reasoning_effort'', JStr (effort_value (pp_effort (rp_provider p)))),
     (''capabilities'', json_strings (sorted_values (rp_capabilities p))), (''budget'', JStr (budget_identity (rp_budget p))),
     (''sdk_mapping'', JStr (mapping_identity (rp_mapping p))), (''dedicated'', JBool True), (''always_on'', JBool False)])"

definition default_advisory_profiles :: "provider_profile \<Rightarrow> provider_profile \<Rightarrow> (capability_profile \<times> capability_profile) result" where
  "default_advisory_profiles recovery owner =
     (let shared = {READ_TRUSTED_GUIDANCE, RENDER_OWNER_SAFE_ADVICE}; budget = \<lparr>rb_calls = 1, rb_seconds = 60, rb_tokens = 4000\<rparr>;
          profile = (\<lambda>role provider capabilities. make_capability_profile \<lparr>rp_role = role, rp_provider = provider, rp_capabilities = capabilities,
            rp_budget = budget, rp_mapping = reviewed_sdk_mapping, rp_dedicated = True, rp_always_on = False\<rparr>) in
      bind_result (profile Role_recovery_advisor recovery (shared \<union> {READ_ONLY_REVIEW})) (\<lambda>a.
      bind_result (profile Role_owner_intent owner (shared \<union> {OWNER_COMMAND_INTERPRETATION})) (\<lambda>b. Inr (a, b))))"

section \<open>Guidance\<close>

record trusted_guidance =
  tg_expectation :: string
  tg_view :: guidance_view
  tg_paths :: "string list"
  tg_digest :: string
  tg_bytes :: string

definition path_key :: "string \<Rightarrow> nat \<times> string" where
  "path_key p = (count_list p CHR ''/'', p)"

definition guidance_guards :: "trusted_guidance \<Rightarrow> (bool \<times> py_error) list" where
  "guidance_guards g = digest_guards [(tg_expectation g, ''guidance expectation identity''), (tg_digest g, ''guidance digest'')]
     @ [(tg_paths g \<noteq> [] \<and> sorted_wrt (<) (map path_key (tg_paths g)), RoleCapabilityError ''trusted guidance selection is invalid'')]
     @ map (\<lambda>p. (relative_path_ok p, RoleCapabilityError ''relative path is invalid'')) (tg_paths g)"

definition make_guidance :: "trusted_guidance \<Rightarrow> trusted_guidance result" where
  "make_guidance g = construct (guidance_guards g) g"

definition guidance_receipt :: "trusted_guidance \<Rightarrow> string" where
  "guidance_receipt g = digest_value (JObj [(''schema'', JStr ''roundwright-trusted-guidance-receipt/v3''), (''expectation'', JStr (tg_expectation g)),
     (''view'', JStr (guidance_view_value (tg_view g))), (''selected_paths'', json_strings (tg_paths g)), (''guidance_digest'', JStr (tg_digest g))])"

record guidance_evidence =
  ge_view :: guidance_view
  ge_cwd :: string
  ge_discovery_disabled :: bool
  ge_injected :: string
  ge_receipt :: string
  ge_accepted_main :: string
  ge_task_candidate :: string

definition make_guidance_evidence :: "guidance_evidence \<Rightarrow> guidance_evidence result" where
  "make_guidance_evidence e = construct (digest_guards [(ge_cwd e, ''provider guidance cwd''), (ge_injected e, ''provider injected guidance''),
       (ge_receipt e, ''provider guidance receipt'')]
     @ [(ge_discovery_disabled e \<and> is_sha (ge_accepted_main e) \<and> is_sha (ge_task_candidate e), RoleCapabilityError ''provider guidance evidence is invalid'')]) e"

section \<open>Instances and scopes\<close>

record role_instance =
  ri_instance :: string
  ri_role :: advisory_role
  ri_profile :: string
  ri_guidance :: string
  ri_repository :: string
  ri_task :: string
  ri_state :: string
  ri_deployment :: string
  ri_host :: string
  ri_epoch :: int
  ri_fence :: string
  ri_candidate :: string

definition instance_guards :: "role_instance \<Rightarrow> (bool \<times> py_error) list" where
  "instance_guards i = digest_guards [(ri_profile i, ''profile identity''), (ri_guidance i, ''guidance receipt''), (ri_repository i, ''repository identity''),
       (ri_state i, ''state identity''), (ri_deployment i, ''deployment identity''), (ri_host i, ''host identity'')]
     @ [(is_token (ri_instance i), RoleCapabilityError ''dedicated instance identity is invalid''),
        (is_token (ri_task i), RoleCapabilityError ''task identity is invalid''),
        (is_token (ri_fence i), RoleCapabilityError ''replacement fence is invalid''),
        (1 \<le> ri_epoch i \<and> is_sha (ri_candidate i), RoleCapabilityError ''dedicated instance admission is invalid'')]"

definition make_instance :: "role_instance \<Rightarrow> role_instance result" where
  "make_instance i = construct (instance_guards i) i"

definition instance_fields :: "role_instance \<Rightarrow> (string \<times> json) list" where
  "instance_fields i = [(''schema'', JStr ''roundwright-dedicated-advisory-role-instance/v3''), (''instance'', JStr (ri_instance i)),
     (''role'', JStr (advisory_role_value (ri_role i))), (''profile'', JStr (ri_profile i)), (''guidance'', JStr (ri_guidance i)),
     (''repository'', JStr (ri_repository i)), (''task'', JStr (ri_task i)), (''state'', JStr (ri_state i)), (''deployment'', JStr (ri_deployment i)),
     (''host'', JStr (ri_host i)), (''epoch'', JInt (ri_epoch i)), (''fence'', JStr (ri_fence i)), (''candidate'', JStr (ri_candidate i))]"

definition instance_receipt :: "role_instance \<Rightarrow> string" where
  "instance_receipt i = digest_value (JObj (instance_fields i))"

definition stable_fields :: "role_instance \<Rightarrow> advisory_role \<times> string \<times> string \<times> string \<times> string \<times> string \<times> string \<times> string \<times> string" where
  "stable_fields i = (ri_role i, ri_profile i, ri_guidance i, ri_repository i, ri_task i, ri_state i, ri_deployment i, ri_host i, ri_candidate i)"

definition validate_instance_continuity :: "role_instance \<Rightarrow> role_instance \<Rightarrow> string result" where
  "validate_instance_continuity previous current =
     (if instance_receipt current = instance_receipt previous then Inr ''same-instance-restart''
      else if stable_fields previous \<noteq> stable_fields current \<or> ri_instance current = ri_instance previous \<or> ri_fence current = ri_fence previous
        \<or> ri_epoch current \<noteq> ri_epoch previous + 1 then role_error ''role generation replacement is invalid''
      else Inr ''fenced-generation-replacement'')"

record scoped_descriptor =
  sd_kind :: scope_kind
  sd_root :: string
  sd_value :: string

definition descriptor_guards :: "scoped_descriptor \<Rightarrow> (bool \<times> py_error) list" where
  "descriptor_guards d = digest_guards [(sd_root d, ''scope root identity'')]
     @ [case sd_kind d of
          Scope_PATH \<Rightarrow> (relative_path_ok (sd_value d), RoleCapabilityError ''relative path is invalid'')
        | Scope_NETWORK \<Rightarrow> (sd_value d = ''network-disabled'', RoleCapabilityError ''scope descriptor value is invalid'')
        | _ \<Rightarrow> (is_fingerprint (sd_value d), RoleCapabilityError ''scope descriptor value is invalid'')]"

definition make_descriptor :: "scoped_descriptor \<Rightarrow> scoped_descriptor result" where
  "make_descriptor d = construct (descriptor_guards d) d"

record role_scope =
  rs_actions :: "role_capability set"
  rs_descriptors :: "scoped_descriptor list"

definition descriptor_key :: "scoped_descriptor \<Rightarrow> string \<times> string \<times> string" where
  "descriptor_key d = (scope_kind_value (sd_kind d), sd_root d, sd_value d)"

definition scope_guards :: "role_scope \<Rightarrow> (bool \<times> py_error) list" where
  "scope_guards s = [(rs_actions s \<noteq> {}, RoleCapabilityError ''role scope is invalid''),
     (sorted_wrt (<) (map descriptor_key (rs_descriptors s)), RoleCapabilityError ''role scope descriptors are not canonical'')]"

definition make_scope :: "role_scope \<Rightarrow> role_scope result" where
  "make_scope s = construct (scope_guards s) s"

definition scope_identity :: "role_scope \<Rightarrow> string" where
  "scope_identity s = digest_value (JObj [(''schema'', JStr ''roundwright-role-capability-scope/v2''), (''actions'', json_strings (sorted_values (rs_actions s))),
     (''descriptors'', JList (map (\<lambda>d. case descriptor_key d of (a, b, c) \<Rightarrow> json_strings [a, b, c]) (rs_descriptors s)))])"

definition scope_require :: "role_scope \<Rightarrow> role_capability \<Rightarrow> scoped_descriptor list \<Rightarrow> unit result" where
  "scope_require s action ds =
     (if action \<notin> rs_actions s then role_error ''role scope denies the requested action''
      else if \<not> list_all (\<lambda>d. d \<in> set (rs_descriptors s)) ds then role_error ''role scope denies the requested bound'' else Inr ())"

section \<open>Authority, grants and expectations\<close>

record authority_receipt =
  ar_repository :: string
  ar_task :: string
  ar_deployment :: string
  ar_epoch :: int
  ar_issuer :: string
  ar_expires_at :: int
  ar_revocation :: string

definition authority_guards :: "authority_receipt \<Rightarrow> (bool \<times> py_error) list" where
  "authority_guards a = digest_guards [(ar_repository a, ''authority repository''), (ar_deployment a, ''authority deployment''),
       (ar_issuer a, ''authority issuer''), (ar_revocation a, ''authority revocation'')]
     @ [(is_token (ar_task a), RoleCapabilityError ''authority task is invalid''),
        (1 \<le> ar_epoch a \<and> 1 \<le> ar_expires_at a, RoleCapabilityError ''authority receipt is invalid'')]"

definition make_authority :: "authority_receipt \<Rightarrow> authority_receipt result" where
  "make_authority a = construct (authority_guards a) a"

definition authority_digest :: "authority_receipt \<Rightarrow> string" where
  "authority_digest a = digest_value (JObj [(''schema'', JStr ''roundwright-trusted-role-authority/v1''), (''repository'', JStr (ar_repository a)),
     (''task'', JStr (ar_task a)), (''deployment'', JStr (ar_deployment a)), (''epoch'', JInt (ar_epoch a)), (''issuer'', JStr (ar_issuer a)),
     (''expires_at'', JInt (ar_expires_at a)), (''revocation'', JStr (ar_revocation a))])"

record capability_grant =
  cg_authority :: string
  cg_instance :: string
  cg_scope :: string
  cg_issued_at :: int
  cg_expires_at :: int

definition grant_guards :: "capability_grant \<Rightarrow> (bool \<times> py_error) list" where
  "grant_guards g = digest_guards [(cg_authority g, ''grant authority receipt''), (cg_instance g, ''grant instance receipt''), (cg_scope g, ''grant scope'')]
     @ [(0 \<le> cg_issued_at g \<and> cg_issued_at g \<le> cg_expires_at g, RoleCapabilityError ''role capability grant is invalid'')]"

definition make_grant :: "capability_grant \<Rightarrow> capability_grant result" where
  "make_grant g = construct (grant_guards g) g"

definition grant_digest :: "capability_grant \<Rightarrow> string" where
  "grant_digest g = digest_value (JObj [(''schema'', JStr ''roundwright-advisory-role-capability-grant/v2''), (''authority'', JStr (cg_authority g)),
     (''instance'', JStr (cg_instance g)), (''scope'', JStr (cg_scope g)), (''issued_at'', JInt (cg_issued_at g)), (''expires_at'', JInt (cg_expires_at g))])"

record admission_expectation =
  ax_store :: string
  ax_record :: string
  ax_grant_reference :: string
  ax_authority :: string
  ax_instance :: string
  ax_repository :: string
  ax_task :: string
  ax_state :: string
  ax_deployment :: string
  ax_host :: string
  ax_epoch :: int
  ax_candidate :: string
  ax_scope :: string
  ax_actions :: "role_capability set"
  ax_valid_from :: int
  ax_valid_until :: int
  ax_revocation :: string

definition expectation_guards :: "admission_expectation \<Rightarrow> (bool \<times> py_error) list" where
  "expectation_guards x = digest_guards [(ax_store x, ''admission store''), (ax_record x, ''admission record''), (ax_authority x, ''expected authority''),
       (ax_instance x, ''expected instance''), (ax_repository x, ''expected repository''), (ax_state x, ''expected state''),
       (ax_deployment x, ''expected deployment''), (ax_host x, ''expected host''), (ax_scope x, ''expected scope''), (ax_revocation x, ''expected revocation read-back'')]
     @ [(is_token (ax_grant_reference x), RoleCapabilityError ''grant reference is invalid''),
        (is_token (ax_task x), RoleCapabilityError ''expected task is invalid''),
        (1 \<le> ax_epoch x \<and> is_sha (ax_candidate x) \<and> ax_actions x \<noteq> {} \<and> ax_valid_from x \<le> ax_valid_until x,
         RoleCapabilityError ''role admission expectation is invalid'')]"

definition make_expectation :: "admission_expectation \<Rightarrow> admission_expectation result" where
  "make_expectation x = construct (expectation_guards x) x"

section \<open>Execution bindings\<close>

record execution_binding =
  eb_repository :: string
  eb_task :: string
  eb_candidate :: string
  eb_instance :: string
  eb_host :: string
  eb_deployment :: string
  eb_epoch :: int
  eb_fence :: string
  eb_role :: advisory_role
  eb_profile :: provider_profile
  eb_execution :: string
  eb_preflight :: string

definition execution_guards :: "execution_binding \<Rightarrow> (bool \<times> py_error) list" where
  "execution_guards b = digest_guards (map (\<lambda>s. (s, ''execution binding'')) [eb_repository b, eb_instance b, eb_host b, eb_deployment b, eb_preflight b])
     @ [(is_token (eb_task b) \<and> is_sha (eb_candidate b) \<and> 1 \<le> eb_epoch b \<and> is_token (eb_fence b) \<and> is_token (eb_execution b),
        RoleCapabilityError ''execution binding is invalid'')]"

definition make_execution_binding :: "execution_binding \<Rightarrow> execution_binding result" where
  "make_execution_binding b = construct (execution_guards b) b"

definition profile_json :: "provider_profile \<Rightarrow> json" where
  "profile_json p = JObj [(''model'', JStr (pp_model p)), (''reasoning_effort'', JStr (effort_value (pp_effort p))), (''name'', json_opt (pp_name p))]"

definition execution_fields :: "execution_binding \<Rightarrow> (string \<times> json) list" where
  "execution_fields b = [(''schema'', JStr ''roundwright-execution-instance-binding/v1''), (''repository'', JStr (eb_repository b)), (''task'', JStr (eb_task b)),
     (''candidate'', JStr (eb_candidate b)), (''instance'', JStr (eb_instance b)), (''host'', JStr (eb_host b)), (''deployment'', JStr (eb_deployment b)),
     (''epoch'', JInt (eb_epoch b)), (''fence'', JStr (eb_fence b)), (''role'', JStr (advisory_role_value (eb_role b))), (''profile'', profile_json (eb_profile b)),
     (''execution'', JStr (eb_execution b)), (''preflight'', JStr (eb_preflight b))]"

definition execution_digest :: "execution_binding \<Rightarrow> string" where
  "execution_digest b = digest_value (JObj (execution_fields b))"

record host_inputs =
  hi_repository :: string
  hi_task :: string
  hi_candidate :: string
  hi_instance :: string
  hi_host :: string
  hi_deployment :: string
  hi_epoch :: int
  hi_fence :: string

definition make_host_inputs :: "host_inputs \<Rightarrow> host_inputs result" where
  "make_host_inputs h = construct (digest_guards (map (\<lambda>s. (s, ''trusted execution host input'')) [hi_repository h, hi_instance h, hi_host h, hi_deployment h])
     @ [(is_token (hi_task h) \<and> is_sha (hi_candidate h) \<and> 1 \<le> hi_epoch h \<and> is_token (hi_fence h),
        RoleCapabilityError ''trusted execution host input is invalid'')]) h"

definition host_identity :: "host_inputs \<Rightarrow> string" where
  "host_identity h = digest_value (JObj [(''schema'', JStr ''roundwright-trusted-execution-host/v1''), (''repository'', JStr (hi_repository h)),
     (''task'', JStr (hi_task h)), (''candidate'', JStr (hi_candidate h)), (''instance'', JStr (hi_instance h)), (''host'', JStr (hi_host h)),
     (''deployment'', JStr (hi_deployment h)), (''epoch'', JInt (hi_epoch h)), (''fence'', JStr (hi_fence h))])"

definition derive_binding :: "host_inputs \<Rightarrow> advisory_role \<Rightarrow> provider_profile \<Rightarrow> string \<Rightarrow> string \<Rightarrow> execution_binding result" where
  "derive_binding h role profile execution preflight = make_execution_binding
     \<lparr>eb_repository = hi_repository h, eb_task = hi_task h, eb_candidate = hi_candidate h, eb_instance = hi_instance h, eb_host = hi_host h,
      eb_deployment = hi_deployment h, eb_epoch = hi_epoch h, eb_fence = hi_fence h, eb_role = role, eb_profile = profile,
      eb_execution = execution, eb_preflight = preflight\<rparr>"

text \<open>The concrete effect: the identity of its request or attempt, and the two mappings that describe it.\<close>

record role_effect =
  ef_identity :: string
  ef_request :: "(string \<times> json) list"
  ef_preflight :: "(string \<times> json) list"

definition effect_request_digest :: "role_effect \<Rightarrow> string" where
  "effect_request_digest e = digest_value (JObj [(''schema'', JStr ''roundwright-effect-request/v1''), (''identity'', JStr (ef_identity e)), (''request'', JObj (ef_request e))])"

definition effect_preflight_digest :: "role_effect \<Rightarrow> string" where
  "effect_preflight_digest e = digest_value (JObj [(''schema'', JStr ''roundwright-effect-preflight/v1''), (''request'', JStr (effect_request_digest e)),
     (''preflight'', JObj (ef_preflight e))])"

definition derive_for_effect :: "host_inputs \<Rightarrow> advisory_role \<Rightarrow> provider_profile \<Rightarrow> role_effect \<Rightarrow> execution_binding result" where
  "derive_for_effect h role profile e =
     bind_result (require_identity (ef_identity e) ''effect request identity'') (\<lambda>_.
     derive_binding h role profile (''effect-'' @ take 32 (sha256_hex (effect_request_digest e))) (effect_preflight_digest e))"

end
