(* ===== verification/Role_Admission.thy ===== *)
theory Role_Admission
  imports Role_Capability
begin

text \<open>
  \<open>role_capability_policy.py\<close>, operations: the runtime context and the read of an independent admission
  record, its parser and its comparison with the pinned expectation, the contract of a role, the sealed
  execution that is checked again before every effect, the guidance read from the accepted tree, the budget
  ledger, the reservation of an effect, and the launch context handed to a provider.

  Git, the file system and the clock are the fields of a world: \<open>rw_repository\<close> is the validated repository
  (\<open>configuration._validated_authoritative_repository\<close>), \<open>rw_common\<close>, \<open>rw_tree\<close> and \<open>rw_top\<close> are \<open>rev-parse\<close>
  of its common directory, of the tree of a revision and of its top level, \<open>rw_file\<close> is \<open>git show\<close> of a path at a revision, \<open>rw_loads\<close> is what \<open>json.loads\<close> makes of
  the bytes (\<open>None\<close>: it refuses them), \<open>rw_resolve\<close> is \<open>Path.resolve\<close> and \<open>rw_now\<close> the clock. A record with
  a floating-point number, which no field of an admission admits, is out of the range of \<open>rw_loads\<close>. The seals
  of the code (private objects that only its factories hold) are the HOL types: a value of a sealed class can
  only come from the factory that the model gives.
\<close>

record role_world =
  rw_repository :: "string \<Rightarrow> candidate_binding \<Rightarrow> string option"
  rw_common :: "string \<Rightarrow> string option"
  rw_top :: "string \<Rightarrow> string option"
  rw_tree :: "string \<Rightarrow> string \<Rightarrow> string option"
  rw_file :: "string \<Rightarrow> string \<Rightarrow> string \<Rightarrow> string option"
  rw_loads :: "string \<Rightarrow> json option"
  rw_resolve :: "string \<Rightarrow> string"
  rw_now :: int

section \<open>Runtime context and store\<close>

record role_runtime =
  rr_root :: string
  rr_common :: string
  rr_binding :: candidate_binding
  rr_tree :: string
  rr_task_sha :: string

definition resolve_role_runtime :: "role_world \<Rightarrow> string \<Rightarrow> candidate_binding \<Rightarrow> string \<Rightarrow> role_runtime result" where
  "resolve_role_runtime w root b task_sha =
     (if \<not> is_sha task_sha \<or> task_sha = cb_candidate_sha b then role_error ''role runtime control is invalid''
      else case rw_repository w root b of
        None \<Rightarrow> role_error ''role runtime control is unavailable''
      | Some authoritative \<Rightarrow> (case (rw_common w authoritative, rw_tree w authoritative (cb_candidate_sha b)) of
          (Some common, Some tree) \<Rightarrow> Inr \<lparr>rr_root = authoritative, rr_common = common, rr_binding = b, rr_tree = tree, rr_task_sha = task_sha\<rparr>
        | _ \<Rightarrow> role_error ''role runtime control is unavailable''))"

record admission_store =
  st_runtime :: role_runtime
  st_relative :: string
  st_identity :: string

definition make_admission_store :: "role_runtime \<Rightarrow> string \<Rightarrow> string \<Rightarrow> admission_store result" where
  "make_admission_store rt relative identity =
     bind_result (require_digest identity ''admission store identity'') (\<lambda>_.
     bind_result (relative_path relative) (\<lambda>path. Inr \<lparr>st_runtime = rt, st_relative = path, st_identity = identity\<rparr>))"

text \<open>The context is resolved again at every read; whatever fails before the canonical check is one error.\<close>

definition fetch_record :: "role_world \<Rightarrow> admission_store \<Rightarrow> (string \<times> json) result" where
  "fetch_record w s =
     (let old = st_runtime s in
      bind_result (resolve_role_runtime w (rr_root old) (rr_binding old) (rr_task_sha old)) (\<lambda>rt.
      if rr_common rt \<noteq> rr_common old \<or> rr_tree rt \<noteq> rr_tree old \<or> rr_task_sha rt \<noteq> rr_task_sha old
      then role_error ''authoritative role runtime has drifted''
      else case rw_file w (rr_root rt) (cb_candidate_sha (rr_binding rt)) (st_relative s) of
        None \<Rightarrow> role_error ''authoritative guidance read-back is unavailable''
      | Some raw \<Rightarrow> (case rw_loads w raw of None \<Rightarrow> Inl PyValueError | Some v \<Rightarrow> Inr (raw, v))))"

definition read_store :: "role_world \<Rightarrow> admission_store \<Rightarrow> (string \<times> json) list result" where
  "read_store w s =
     (case fetch_record w s of
        Inl _ \<Rightarrow> role_error ''independent admission record is unavailable''
      | Inr (raw, JObj kvs) \<Rightarrow> (if json_dumps (JObj kvs) = raw then Inr kvs else role_error ''independent admission record is not canonical'')
      | Inr (raw, _) \<Rightarrow> role_error ''independent admission record is not canonical'')"

section \<open>The parser of an admission record\<close>

record admission_record =
  an_authority :: authority_receipt
  an_instance :: role_instance
  an_scope :: role_scope
  an_grant :: capability_grant
  an_revoked :: bool
  an_reference :: string
  an_revocation :: string

definition parse_authority :: "(string \<times> json) list \<Rightarrow> authority_receipt option" where
  "parse_authority kvs = Option.bind (has_keys [''repository_identity'', ''task_identity'', ''deployment_identity'', ''authority_epoch'', ''issuer_identity'',
       ''expires_at'', ''revocation_identity''] kvs) (\<lambda>_. let f = map_of kvs in
     Option.bind (as_str (f ''repository_identity'')) (\<lambda>repository. Option.bind (as_str (f ''task_identity'')) (\<lambda>task.
     Option.bind (as_str (f ''deployment_identity'')) (\<lambda>deployment. Option.bind (as_int (f ''authority_epoch'')) (\<lambda>epoch.
     Option.bind (as_str (f ''issuer_identity'')) (\<lambda>issuer. Option.bind (as_int (f ''expires_at'')) (\<lambda>expires.
     Option.bind (as_str (f ''revocation_identity'')) (\<lambda>revocation. caught_result (make_authority
       \<lparr>ar_repository = repository, ar_task = task, ar_deployment = deployment, ar_epoch = epoch, ar_issuer = issuer,
        ar_expires_at = expires, ar_revocation = revocation\<rparr>)))))))))"

definition parse_instance :: "(string \<times> json) list \<Rightarrow> role_instance option" where
  "parse_instance kvs = Option.bind (has_keys [''instance_identity'', ''role'', ''profile_identity'', ''guidance_receipt_digest'', ''repository_identity'',
       ''task_identity'', ''state_identity'', ''deployment_identity'', ''host_identity'', ''authority_epoch'', ''replacement_fence'', ''candidate_sha''] kvs) (\<lambda>_.
     let f = map_of kvs in
     Option.bind (as_str (f ''instance_identity'')) (\<lambda>identity. Option.bind (as_str (f ''role'')) (\<lambda>role_text.
     Option.bind (enum_of all_advisory_roles advisory_role_value role_text) (\<lambda>role.
     Option.bind (as_str (f ''profile_identity'')) (\<lambda>profile. Option.bind (as_str (f ''guidance_receipt_digest'')) (\<lambda>guidance.
     Option.bind (as_str (f ''repository_identity'')) (\<lambda>repository. Option.bind (as_str (f ''task_identity'')) (\<lambda>task.
     Option.bind (as_str (f ''state_identity'')) (\<lambda>state. Option.bind (as_str (f ''deployment_identity'')) (\<lambda>deployment.
     Option.bind (as_str (f ''host_identity'')) (\<lambda>host. Option.bind (as_int (f ''authority_epoch'')) (\<lambda>epoch.
     Option.bind (as_str (f ''replacement_fence'')) (\<lambda>fence. Option.bind (as_str (f ''candidate_sha'')) (\<lambda>candidate. caught_result (make_instance
       \<lparr>ri_instance = identity, ri_role = role, ri_profile = profile, ri_guidance = guidance, ri_repository = repository, ri_task = task,
        ri_state = state, ri_deployment = deployment, ri_host = host, ri_epoch = epoch, ri_fence = fence, ri_candidate = candidate\<rparr>)))))))))))))))"

text \<open>What a Python \<open>for\<close> loop iterates over: the items of a list, the keys of an object, the characters of a text.\<close>

fun iterate :: "json option \<Rightarrow> json list option" where
  "iterate (Some (JList xs)) = Some xs"
| "iterate (Some (JObj kvs)) = Some (map (JStr \<circ> fst) kvs)"
| "iterate (Some (JStr s)) = Some (map (\<lambda>c. JStr [c]) s)"
| "iterate _ = None"

definition parse_descriptor :: "json \<Rightarrow> scoped_descriptor option" where
  "parse_descriptor v = Option.bind (as_obj (Some v)) (\<lambda>kvs. let f = map_of kvs in
     Option.bind (as_str (f ''kind'')) (\<lambda>kind_text. Option.bind (enum_of all_scope_kinds scope_kind_value kind_text) (\<lambda>kind.
     Option.bind (as_str (f ''root_identity'')) (\<lambda>root. Option.bind (as_str (f ''value'')) (\<lambda>text.
     caught_result (make_descriptor \<lparr>sd_kind = kind, sd_root = root, sd_value = text\<rparr>))))))"

definition parse_action :: "json \<Rightarrow> role_capability option" where
  "parse_action v = Option.bind (as_str (Some v)) (enum_of all_capabilities capability_value)"

definition parse_scope :: "(string \<times> json) list \<Rightarrow> role_scope option" where
  "parse_scope kvs =
     Option.bind (iterate (map_of kvs ''descriptors'')) (\<lambda>ds. Option.bind (collect parse_descriptor ds) (\<lambda>descriptors.
     Option.bind (iterate (map_of kvs ''actions'')) (\<lambda>cs. Option.bind (collect parse_action cs) (\<lambda>actions.
     caught_result (make_scope \<lparr>rs_actions = set actions, rs_descriptors = descriptors\<rparr>)))))"

definition parse_grant :: "(string \<times> json) list \<Rightarrow> capability_grant option" where
  "parse_grant kvs = Option.bind (has_keys [''authority_receipt_digest'', ''instance_receipt_digest'', ''scope_identity'', ''issued_at'', ''expires_at''] kvs) (\<lambda>_.
     let f = map_of kvs in
     Option.bind (as_str (f ''authority_receipt_digest'')) (\<lambda>authority. Option.bind (as_str (f ''instance_receipt_digest'')) (\<lambda>instance_digest.
     Option.bind (as_str (f ''scope_identity'')) (\<lambda>scope. Option.bind (as_int (f ''issued_at'')) (\<lambda>issued. Option.bind (as_int (f ''expires_at'')) (\<lambda>expires.
     caught_result (make_grant \<lparr>cg_authority = authority, cg_instance = instance_digest, cg_scope = scope, cg_issued_at = issued, cg_expires_at = expires\<rparr>)))))))"

definition parse_values :: "(string \<times> json) list \<Rightarrow> (string \<times> json) list \<Rightarrow> (string \<times> json) list \<Rightarrow> (string \<times> json) list \<Rightarrow> bool
     \<Rightarrow> (string \<times> json) list \<Rightarrow> admission_record option" where
  "parse_values authority_kvs instance_kvs scope_kvs grant_kvs revoked kvs =
     Option.bind (parse_authority authority_kvs) (\<lambda>authority. Option.bind (parse_instance instance_kvs) (\<lambda>inst.
     Option.bind (parse_scope scope_kvs) (\<lambda>scope. Option.bind (parse_grant grant_kvs) (\<lambda>grant.
     Option.bind (as_str (map_of kvs ''grant_reference'')) (\<lambda>reference. Option.bind (caught_result (require_identity reference ''grant reference'')) (\<lambda>_.
     Option.bind (as_str (map_of kvs ''revocation_readback_digest'')) (\<lambda>revocation.
     Option.bind (caught_result (require_digest revocation ''revocation read-back'')) (\<lambda>_.
     Some \<lparr>an_authority = authority, an_instance = inst, an_scope = scope, an_grant = grant, an_revoked = revoked,
           an_reference = reference, an_revocation = revocation\<rparr>))))))))"

definition admission_keys :: "string list" where
  "admission_keys = [''schema'', ''grant_reference'', ''authority'', ''instance'', ''scope'', ''grant'', ''revoked'', ''revocation_readback_digest'']"

definition parse_admission :: "(string \<times> json) list \<Rightarrow> admission_record result" where
  "parse_admission kvs =
     (let f = map_of kvs in
      case (has_keys admission_keys kvs, as_obj (f ''authority''), as_obj (f ''instance''), as_obj (f ''scope''), as_obj (f ''grant''), as_bool (f ''revoked'')) of
        (Some _, Some authority_kvs, Some instance_kvs, Some scope_kvs, Some grant_kvs, Some revoked) \<Rightarrow>
          (if f ''schema'' \<noteq> Some (JStr ''roundwright-independent-role-admission/v1'') then role_error ''independent admission record has an invalid schema''
           else case parse_values authority_kvs instance_kvs scope_kvs grant_kvs revoked kvs of
             None \<Rightarrow> role_error ''independent admission record has invalid values''
           | Some r \<Rightarrow> Inr r)
      | _ \<Rightarrow> role_error ''independent admission record has an invalid schema'')"

section \<open>Verified admissions\<close>

record verified_admission =
  va_authority :: authority_receipt
  va_grant :: capability_grant
  va_scope :: role_scope
  va_time :: int
  va_revoked :: bool
  va_reference :: string

definition admission_matches :: "admission_expectation \<Rightarrow> string \<Rightarrow> int \<Rightarrow> admission_record \<Rightarrow> bool" where
  "admission_matches x task_sha now r \<longleftrightarrow>
     (let a = an_authority r; i = an_instance r; s = an_scope r; g = an_grant r in
      an_reference r = ax_grant_reference x \<and> authority_digest a = ax_authority x \<and> instance_receipt i = ax_instance x
      \<and> ri_candidate i = ax_candidate x \<and> ri_candidate i = task_sha \<and> cg_authority g = authority_digest a \<and> cg_instance g = instance_receipt i
      \<and> cg_scope g = scope_identity s \<and> scope_identity s = ax_scope x \<and> rs_actions s = ax_actions x \<and> an_revocation r = ax_revocation x
      \<and> ar_revocation a = an_revocation r
      \<and> (ri_repository i, ri_task i, ri_state i, ri_deployment i, ri_host i, ri_epoch i) = (ax_repository x, ax_task x, ax_state x, ax_deployment x, ax_host x, ax_epoch x)
      \<and> (ar_repository a, ar_task a, ar_deployment a, ar_epoch a) = (ax_repository x, ax_task x, ax_deployment x, ax_epoch x)
      \<and> cg_issued_at g = ax_valid_from x \<and> cg_expires_at g = ax_valid_until x \<and> cg_issued_at g \<le> now \<and> now \<le> cg_expires_at g
      \<and> now \<le> ar_expires_at a \<and> \<not> an_revoked r)"

definition read_verified_admission :: "role_world \<Rightarrow> admission_expectation \<Rightarrow> admission_store \<Rightarrow> (verified_admission \<times> role_instance) result" where
  "read_verified_admission w x s =
     (if st_identity s \<noteq> ax_store x then role_error ''admission read-back context is invalid''
      else bind_result (read_store w s) (\<lambda>kvs.
        if ''sha256:'' @ sha256_hex (json_dumps (JObj kvs)) \<noteq> ax_record x then role_error ''independent admission record digest has drifted''
        else bind_result (parse_admission kvs) (\<lambda>r.
          if \<not> admission_matches x (rr_task_sha (st_runtime s)) (rw_now w) r
          then role_error ''independent role admission does not match its pinned expectation''
          else Inr (\<lparr>va_authority = an_authority r, va_grant = an_grant r, va_scope = an_scope r, va_time = rw_now w,
                     va_revoked = an_revoked r, va_reference = an_reference r\<rparr>, an_instance r))))"

section \<open>Contracts\<close>

record role_contract =
  rc_profile :: capability_profile
  rc_guidance :: trusted_guidance
  rc_instance :: role_instance
  rc_admission :: "verified_admission option"

definition contract_current :: "role_contract \<Rightarrow> verified_admission \<Rightarrow> bool" where
  "contract_current c v \<longleftrightarrow>
     (let a = va_authority v; g = va_grant v; s = va_scope v in
      \<not> va_revoked v \<and> cg_issued_at g \<le> va_time v \<and> va_time v \<le> cg_expires_at g \<and> va_time v \<le> ar_expires_at a
      \<and> ri_role (rc_instance c) = rp_role (rc_profile c) \<and> ri_profile (rc_instance c) = profile_identity (rc_profile c)
      \<and> ri_guidance (rc_instance c) = guidance_receipt (rc_guidance c) \<and> cg_instance g = instance_receipt (rc_instance c)
      \<and> cg_authority g = authority_digest a \<and> cg_scope g = scope_identity s \<and> rs_actions s \<subseteq> rp_capabilities (rc_profile c))"

definition contract_status :: "role_contract \<Rightarrow> advisory_status result" where
  "contract_status c =
     (case rc_admission c of None \<Rightarrow> Inr Advisory_DISABLED
      | Some v \<Rightarrow> (if contract_current c v then Inr Advisory_READY else role_error ''role admission is missing, stale, revoked, or mismatched''))"

fun advisory_status_value :: "advisory_status \<Rightarrow> string" where
  "advisory_status_value Advisory_DISABLED = ''disabled''"
| "advisory_status_value Advisory_READY = ''ready''"

definition public_receipt :: "role_contract \<Rightarrow> (string \<times> json) list result" where
  "public_receipt c = bind_result (contract_status c) (\<lambda>status. Inr
     [(''schema'', JStr ''roundwright-advisory-role-contract-receipt/v3''), (''role'', JStr (advisory_role_value (rp_role (rc_profile c)))),
      (''profile_identity'', JStr (profile_identity (rc_profile c))), (''guidance_receipt_digest'', JStr (guidance_receipt (rc_guidance c))),
      (''instance_receipt_digest'', JStr (instance_receipt (rc_instance c))),
      (''admission_receipt_digest'', json_opt (map_option (grant_digest \<circ> va_grant) (rc_admission c))),
      (''capabilities'', json_strings (case rc_admission c of None \<Rightarrow> [] | Some v \<Rightarrow> sorted_values (rs_actions (va_scope v)))),
      (''status'', JStr (advisory_status_value status)), (''effective_authority'', JStr ''disabled'')])"

text \<open>The contract is compared with a fresh read of the record before its receipt is trusted.\<close>

definition require_verified_role_admission :: "role_world \<Rightarrow> role_contract \<Rightarrow> execution_seam \<Rightarrow> admission_store \<Rightarrow> admission_expectation
     \<Rightarrow> (string \<times> json) list result" where
  "require_verified_role_admission w c seam s x =
     (if allowed_role seam \<noteq> rp_role (rc_profile c) then role_error ''role is not admitted for this execution seam''
      else bind_result (read_verified_admission w x s) (\<lambda>(fresh, inst).
        case rc_admission c of None \<Rightarrow> role_error ''role admission changed after contract construction''
        | Some v \<Rightarrow>
          if inst \<noteq> rc_instance c \<or> grant_digest (va_grant fresh) \<noteq> grant_digest (va_grant v)
          then role_error ''role admission changed after contract construction''
          else bind_result (public_receipt c) (\<lambda>receipt.
            if map_of receipt ''status'' \<noteq> Some (JStr ''ready'') then role_error ''advisory role is disabled without verified admission''
            else if seam_capability seam \<notin> rp_capabilities (rc_profile c) then role_error ''role profile does not support its execution seam''
            else bind_result (scope_require (va_scope v) (seam_capability seam) []) (\<lambda>_. Inr receipt))))"

definition require_non_dispatching_production_entrypoint :: "role_world \<Rightarrow> role_contract \<Rightarrow> admission_store \<Rightarrow> admission_expectation \<Rightarrow> (string \<times> json) list result" where
  "require_non_dispatching_production_entrypoint w c s x = require_verified_role_admission w c Seam_recovery_advisor s x"

definition require_non_dispatching_owner_intent_entrypoint :: "role_world \<Rightarrow> role_contract \<Rightarrow> admission_store \<Rightarrow> admission_expectation \<Rightarrow> (string \<times> json) list result" where
  "require_non_dispatching_owner_intent_entrypoint w c s x = require_verified_role_admission w c Seam_owner_intent s x"

definition require_worker_tool_capability :: "(string \<times> json) list \<Rightarrow> string \<Rightarrow> unit result" where
  "require_worker_tool_capability receipt tool =
     (if tool \<notin> {''workspace-read'', ''workspace-write'', ''validation-execute''}
        \<or> \<not> (case map_of receipt ''capabilities'' of Some (JList xs) \<Rightarrow> JStr (capability_value BOUNDED_CODING) \<in> set xs | _ \<Rightarrow> False)
      then role_error ''Worker tool action is not granted'' else Inr ())"

section \<open>Sealed executions\<close>

record sealed_execution =
  se_contract :: role_contract
  se_seam :: execution_seam
  se_store :: admission_store
  se_expectation :: admission_expectation
  se_evidence :: guidance_evidence
  se_binding :: execution_binding

definition execution_aligned :: "sealed_execution \<Rightarrow> bool" where
  "execution_aligned x \<longleftrightarrow>
     (let rt = st_runtime (se_store x); b = se_binding x; ev = se_evidence x; ex = se_expectation x; c = se_contract x in
      ge_view ev = expected_view (se_seam x) \<and> ge_receipt ev = guidance_receipt (rc_guidance c)
      \<and> ge_accepted_main ev = cb_candidate_sha (rr_binding rt) \<and> ge_task_candidate ev = rr_task_sha rt \<and> ax_candidate ex = rr_task_sha rt
      \<and> (eb_repository b, eb_task b, eb_candidate b, eb_instance b, eb_host b, eb_deployment b, eb_epoch b, eb_fence b, eb_role b, eb_profile b)
        = (ax_repository ex, ax_task ex, rr_task_sha rt, instance_receipt (rc_instance c), ax_host ex, ax_deployment ex, ax_epoch ex,
           ri_fence (rc_instance c), rp_role (rc_profile c), rp_provider (rc_profile c)))"

definition execution_require :: "role_world \<Rightarrow> sealed_execution \<Rightarrow> execution_binding option \<Rightarrow> (string \<times> json) list result" where
  "execution_require w x expected =
     (if \<not> execution_aligned x \<or> (case expected of None \<Rightarrow> False | Some b \<Rightarrow> execution_digest b \<noteq> execution_digest (se_binding x))
      then role_error ''provider guidance evidence does not match the role seam''
      else require_verified_role_admission w (se_contract x) (se_seam x) (se_store x) (se_expectation x))"

definition require_independent_execution :: "role_world \<Rightarrow> sealed_execution \<Rightarrow> execution_binding \<Rightarrow> (string \<times> json) list result" where
  "require_independent_execution w x b = execution_require w x (Some b)"

definition require_execution_for_profile :: "role_world \<Rightarrow> sealed_execution \<Rightarrow> provider_profile \<Rightarrow> (string \<times> json) list result" where
  "require_execution_for_profile w x profile =
     (if eb_profile (se_binding x) \<noteq> profile then role_error ''sealed execution profile does not match the provider effect''
      else execution_require w x (Some (se_binding x)))"

definition derive_and_require :: "role_world \<Rightarrow> sealed_execution \<Rightarrow> host_inputs \<Rightarrow> provider_profile \<Rightarrow> role_effect
     \<Rightarrow> ((string \<times> json) list \<times> execution_binding) result" where
  "derive_and_require w x h profile e =
     (if eb_profile (se_binding x) \<noteq> profile then role_error ''trusted effect execution is invalid''
      else bind_result (derive_for_effect h (rp_role (rc_profile (se_contract x))) profile e) (\<lambda>derived.
           bind_result (execution_require w x (Some derived)) (\<lambda>receipt. Inr (receipt, derived))))"

end
