(* ===== verification/Role_Effects.thy ===== *)
theory Role_Effects
  imports Role_Admission
begin

text \<open>
  \<open>role_capability_policy.py\<close>, effects: the guidance chain of a task, the durable budget ledger and the
  reservation of one effect in it, the draft of a grant, and the launch context of a provider.

  The ledger file is a table from ledger keys to rows, or \<open>None\<close> while the table does not exist; an operation
  that raises leaves it as it was, since every write is inside a transaction that is rolled back. A failing
  SQLite connection, which only adds refusals, is not modelled. Identity of Python objects, which the launch
  context relies on, is an address that the heap hands out once.
\<close>

section \<open>Guidance\<close>

record guidance_expectation =
  gx_repository :: string
  gx_root :: string
  gx_revision :: string
  gx_tree :: string

definition make_guidance_expectation :: "guidance_expectation \<Rightarrow> guidance_expectation result" where
  "make_guidance_expectation g = construct (digest_guards [(gx_repository g, ''guidance repository identity''), (gx_tree g, ''guidance tree digest'')]
     @ [(is_sha (gx_revision g), RoleCapabilityError ''guidance expectation is invalid'')]) g"

text \<open>The directories of the loop: the root, then the parents of the task from the innermost outwards.\<close>

definition task_directories :: "string \<Rightarrow> string list" where
  "task_directories relative = butlast (posix_parts relative)"

definition guidance_parents :: "string \<Rightarrow> string list list" where
  "guidance_parents relative = (let ds = task_directories relative in [] # map (\<lambda>n. take n ds) (rev [1..<Suc (length ds)]))"

definition agents_path :: "string list \<Rightarrow> string" where
  "agents_path d = join_slash (d @ [''AGENTS.md''])"

definition guidance_candidates :: "string \<Rightarrow> string list" where
  "guidance_candidates relative = map agents_path (guidance_parents relative)"

text \<open>The UTF-8 encoding of a text whose code points are below 256.\<close>

definition utf8_char :: "char \<Rightarrow> string" where
  "utf8_char c = (let n = of_char c :: nat in if n < 128 then [c] else [char_of (192 + n div 64), char_of (128 + n mod 64)])"

definition utf8_encode :: "string \<Rightarrow> string" where
  "utf8_encode s = concat (map utf8_char s)"

definition framed_content :: "string \<Rightarrow> string \<Rightarrow> string" where
  "framed_content path content = utf8_encode path @ [CHR 0x00] @ nat_str (length content) @ [CHR 0x00] @ content"

definition selected_files :: "role_world \<Rightarrow> string \<Rightarrow> string \<Rightarrow> string \<Rightarrow> (string \<times> string) list" where
  "selected_files w root revision relative =
     List.map_filter (\<lambda>path. map_option (\<lambda>content. (path, content)) (rw_file w root revision path)) (guidance_candidates relative)"

definition material_json :: "(string \<times> string) list \<Rightarrow> json" where
  "material_json files = JList (map (\<lambda>(path, content). JObj [(''path'', JStr path), (''digest'', JStr (''sha256:'' @ sha256_hex content))]) files)"

definition guidance_identity :: "guidance_expectation \<Rightarrow> string" where
  "guidance_identity g = digest_value (JObj [(''schema'', JStr ''roundwright-authoritative-guidance-expectation/v1''), (''repository'', JStr (gx_repository g)),
     (''revision'', JStr (gx_revision g)), (''tree'', JStr (gx_tree g))])"

definition guidance_root :: "role_world \<Rightarrow> guidance_expectation \<Rightarrow> role_runtime \<Rightarrow> string result" where
  "guidance_root w g rt =
     (case rw_repository w (gx_root g) (rr_binding rt) of
        None \<Rightarrow> role_error ''authoritative guidance root is unavailable''
      | Some root \<Rightarrow> (case rw_top w root of
          None \<Rightarrow> role_error ''authoritative guidance read-back is unavailable''
        | Some shown \<Rightarrow>
          if rw_resolve w shown \<noteq> root \<or> gx_revision g \<noteq> cb_candidate_sha (rr_binding rt) \<or> rw_resolve w (gx_root g) \<noteq> rr_root rt
          then role_error ''authoritative guidance revision does not match expectation''
          else (case rw_tree w root (gx_revision g) of
              None \<Rightarrow> role_error ''authoritative guidance read-back is unavailable''
            | Some tree \<Rightarrow>
              if digest_value (JObj [(''tree'', JStr tree), (''repository'', JStr (gx_repository g))]) \<noteq> gx_tree g
              then role_error ''authoritative guidance tree does not match expectation'' else Inr root)))"

definition resolve_authoritative_guidance :: "role_world \<Rightarrow> guidance_expectation \<Rightarrow> guidance_view \<Rightarrow> string \<Rightarrow> role_runtime \<Rightarrow> trusted_guidance result" where
  "resolve_authoritative_guidance w g view task_path rt =
     bind_result (relative_path task_path) (\<lambda>relative.
     bind_result (guidance_root w g rt) (\<lambda>root.
       let files = selected_files w root (gx_revision g) relative in
       if files = [] then role_error ''no authoritative AGENTS.md guidance applies''
       else make_guidance \<lparr>tg_expectation = guidance_identity g, tg_view = view, tg_paths = map fst files,
              tg_digest = digest_value (material_json files), tg_bytes = concat (map (\<lambda>(path, content). framed_content path content) files)\<rparr>))"

section \<open>Budget ledger\<close>

record budget_usage =
  bu_calls :: int
  bu_seconds :: int
  bu_tokens :: int

record budget_row =
  br_schema :: string
  br_grant :: string
  br_binding :: string
  br_usage :: budget_usage

type_synonym budget_file = "(string \<rightharpoonup> budget_row) option"

record budget_ledger =
  bl_grant :: string
  bl_binding :: string
  bl_budget :: role_budget

definition ledger_schema :: string where
  "ledger_schema = ''roundwright-role-budget-ledger/v1''"

definition make_ledger :: "string \<Rightarrow> execution_binding \<Rightarrow> role_budget \<Rightarrow> budget_ledger result" where
  "make_ledger grant b budget = bind_result (require_digest grant ''role budget grant'') (\<lambda>g.
     Inr \<lparr>bl_grant = g, bl_binding = execution_digest b, bl_budget = budget\<rparr>)"

definition ledger_key_fields :: "string \<times> string \<Rightarrow> (string \<times> json) list" where
  "ledger_key_fields gb = [(''schema'', JStr ledger_schema), (''grant'', JStr (fst gb)), (''binding'', JStr (snd gb))]"

definition ledger_key :: "budget_ledger \<Rightarrow> string" where
  "ledger_key l = digest_value (JObj (ledger_key_fields (bl_grant l, bl_binding l)))"

definition ledger_matches :: "budget_ledger \<Rightarrow> string \<Rightarrow> execution_binding \<Rightarrow> role_budget \<Rightarrow> bool" where
  "ledger_matches l grant b budget \<longleftrightarrow> grant = bl_grant l \<and> execution_digest b = bl_binding l \<and> budget = bl_budget l"

definition select_row :: "budget_file \<Rightarrow> string \<Rightarrow> budget_row option" where
  "select_row f k = (case f of None \<Rightarrow> None | Some rows \<Rightarrow> rows k)"

definition usage_nonneg :: "budget_usage \<Rightarrow> bool" where
  "usage_nonneg u \<longleftrightarrow> 0 \<le> bu_calls u \<and> 0 \<le> bu_seconds u \<and> 0 \<le> bu_tokens u"

definition row_sound :: "budget_ledger \<Rightarrow> budget_row \<Rightarrow> bool" where
  "row_sound l r \<longleftrightarrow> br_schema r = ledger_schema \<and> br_grant r = bl_grant l \<and> br_binding r = bl_binding l \<and> usage_nonneg (br_usage r)"

definition within_budget :: "budget_usage \<Rightarrow> role_budget \<Rightarrow> bool" where
  "within_budget u b \<longleftrightarrow> bu_calls u \<le> rb_calls b \<and> bu_seconds u \<le> rb_seconds b \<and> bu_tokens u \<le> rb_tokens b"

definition usage_add :: "budget_usage \<Rightarrow> budget_usage \<Rightarrow> budget_usage" where
  "usage_add u v = \<lparr>bu_calls = bu_calls u + bu_calls v, bu_seconds = bu_seconds u + bu_seconds v, bu_tokens = bu_tokens u + bu_tokens v\<rparr>"

definition no_usage :: budget_usage where
  "no_usage = \<lparr>bu_calls = 0, bu_seconds = 0, bu_tokens = 0\<rparr>"

definition store_row :: "budget_file \<Rightarrow> budget_ledger \<Rightarrow> budget_usage \<Rightarrow> budget_file" where
  "store_row f l u = (let rows = (case f of None \<Rightarrow> Map.empty | Some rows \<Rightarrow> rows) in
     Some (rows(ledger_key l \<mapsto> (case rows (ledger_key l) of
         None \<Rightarrow> \<lparr>br_schema = ledger_schema, br_grant = bl_grant l, br_binding = bl_binding l, br_usage = u\<rparr>
       | Some r \<Rightarrow> r\<lparr>br_usage := u\<rparr>))))"

definition consume :: "budget_ledger \<Rightarrow> budget_usage \<Rightarrow> budget_file \<Rightarrow> budget_usage result \<times> budget_file" where
  "consume l amount f =
     (if \<not> usage_nonneg amount \<or> amount = no_usage then (role_error ''role budget consumption is invalid'', f)
      else case (case select_row f (ledger_key l) of None \<Rightarrow> Some no_usage | Some r \<Rightarrow> if row_sound l r then Some (br_usage r) else None) of
        None \<Rightarrow> (role_error ''role budget persistence is ambiguous'', f)
      | Some used \<Rightarrow> (let total = usage_add used amount in
          if \<not> within_budget total (bl_budget l) then (role_error ''role budget is exhausted'', f)
          else (Inr total, store_row f l total)))"

definition budget_as_usage :: "role_budget \<Rightarrow> budget_usage" where
  "budget_as_usage b = \<lparr>bu_calls = rb_calls b, bu_seconds = rb_seconds b, bu_tokens = rb_tokens b\<rparr>"

definition reserve_effect :: "budget_ledger \<Rightarrow> role_budget option \<Rightarrow> budget_file \<Rightarrow> budget_usage result \<times> budget_file" where
  "reserve_effect l exposure f =
     (let b = (case exposure of None \<Rightarrow> \<lparr>rb_calls = 1, rb_seconds = 1, rb_tokens = 1\<rparr> | Some b \<Rightarrow> b) in
      if \<not> within_budget (budget_as_usage b) (bl_budget l) then (role_error ''role budget exposure exceeds admission'', f)
      else consume l (budget_as_usage b) f)"

definition require_reserved :: "budget_ledger \<Rightarrow> role_budget \<Rightarrow> budget_file \<Rightarrow> budget_usage result" where
  "require_reserved l exposure f =
     (case f of None \<Rightarrow> role_error ''role budget reservation is unavailable''
      | Some rows \<Rightarrow> (case rows (ledger_key l) of
          None \<Rightarrow> role_error ''role budget reservation is ambiguous''
        | Some r \<Rightarrow>
          if \<not> row_sound l r then role_error ''role budget reservation is ambiguous''
          else if br_usage r \<noteq> budget_as_usage exposure then role_error ''role budget reservation has drifted''
          else Inr (br_usage r)))"

text \<open>The authorization is the private seal of the recovery transaction: whether the caller holds it.\<close>

definition release_exact_reservation :: "budget_ledger \<Rightarrow> role_budget \<Rightarrow> bool \<Rightarrow> budget_file \<Rightarrow> unit result \<times> budget_file" where
  "release_exact_reservation l exposure authorized f =
     (if \<not> authorized then (role_error ''role budget reservation release requires durable exclusive authorization'', f)
      else case f of None \<Rightarrow> (role_error ''role budget reservation cannot be released'', f)
      | Some rows \<Rightarrow>
        if rows (ledger_key l) \<noteq> Some \<lparr>br_schema = ledger_schema, br_grant = bl_grant l, br_binding = bl_binding l, br_usage = budget_as_usage exposure\<rparr>
        then (role_error ''role budget reservation cannot be released'', f)
        else (Inr (), Some (rows(ledger_key l := None))))"

section \<open>Reservations\<close>

record effect_reservation =
  er_host :: host_inputs
  er_ledger :: budget_ledger
  er_binding :: execution_binding
  er_exposure :: role_budget
  er_profile :: provider_profile
  er_identity :: string
  er_request :: string
  er_preflight :: string

definition reserved_request_digest :: "(string \<times> json) list \<Rightarrow> string" where
  "reserved_request_digest material = digest_value (JObj [(''schema'', JStr ''roundwright-reserved-effect-request/v1''), (''material'', JObj material)])"

definition reserved_preflight_digest :: "(string \<times> json) list \<Rightarrow> string" where
  "reserved_preflight_digest material = digest_value (JObj [(''schema'', JStr ''roundwright-reserved-effect-preflight/v1''), (''material'', JObj material)])"

definition make_reservation :: "host_inputs \<Rightarrow> budget_ledger \<Rightarrow> execution_binding \<Rightarrow> role_budget \<Rightarrow> provider_profile \<Rightarrow> role_effect \<Rightarrow> effect_reservation" where
  "make_reservation h l b exposure profile e = \<lparr>er_host = h, er_ledger = l, er_binding = b, er_exposure = exposure, er_profile = profile,
     er_identity = ef_identity e, er_request = reserved_request_digest (ef_request e), er_preflight = reserved_preflight_digest (ef_preflight e)\<rparr>"

definition recovery_digest_of :: "execution_binding \<Rightarrow> role_budget \<Rightarrow> provider_profile \<Rightarrow> string \<Rightarrow> string \<Rightarrow> string \<Rightarrow> string" where
  "recovery_digest_of b exposure profile identity request preflight = digest_value (JObj
     [(''schema'', JStr ''roundwright-recovery-effect-reservation/v1''), (''execution_binding'', JStr (execution_digest b)),
      (''budget'', JObj [(''max_calls'', JInt (rb_calls exposure)), (''max_duration_seconds'', JInt (rb_seconds exposure)), (''max_tokens'', JInt (rb_tokens exposure))]),
      (''profile'', profile_json profile), (''request_identity'', JStr identity), (''request_digest'', JStr request), (''preflight_digest'', JStr preflight)])"

definition reservation_recovery_digest :: "effect_reservation \<Rightarrow> string" where
  "reservation_recovery_digest r = recovery_digest_of (er_binding r) (er_exposure r) (er_profile r) (er_identity r) (er_request r) (er_preflight r)"

definition recovery_reservation_digest :: "role_world \<Rightarrow> sealed_execution \<Rightarrow> host_inputs \<Rightarrow> provider_profile \<Rightarrow> role_effect \<Rightarrow> string result" where
  "recovery_reservation_digest w x h profile e =
     bind_result (derive_and_require w x h profile e) (\<lambda>(_, b).
     Inr (recovery_digest_of b (rp_budget (rc_profile (se_contract x))) profile (ef_identity e)
       (reserved_request_digest (ef_request e)) (reserved_preflight_digest (ef_preflight e))))"

definition effect_descriptors :: "role_contract \<Rightarrow> scoped_descriptor list" where
  "effect_descriptors c = (let repository = ri_repository (rc_instance c) in
     [\<lparr>sd_kind = Scope_TEST_INPUT_SET, sd_root = repository, sd_value = drop 7 (guidance_receipt (rc_guidance c))\<rparr>,
      \<lparr>sd_kind = Scope_NETWORK, sd_root = repository, sd_value = ''network-disabled''\<rparr>,
      \<lparr>sd_kind = Scope_RESOURCE, sd_root = repository, sd_value = drop 7 (instance_receipt (rc_instance c))\<rparr>])"

definition require_descriptors :: "sealed_execution \<Rightarrow> verified_admission \<Rightarrow> unit result" where
  "require_descriptors x v =
     (case bind_result (traverse make_descriptor (effect_descriptors (se_contract x))) (scope_require (va_scope v) (seam_capability (se_seam x))) of
        Inl _ \<Rightarrow> role_error ''role effect descriptors are not admitted''
      | Inr u \<Rightarrow> Inr u)"

definition admitted_effect :: "role_world \<Rightarrow> sealed_execution \<Rightarrow> host_inputs \<Rightarrow> provider_profile \<Rightarrow> role_effect \<Rightarrow> (execution_binding \<times> verified_admission) result" where
  "admitted_effect w x h profile e =
     bind_result (derive_and_require w x h profile e) (\<lambda>(receipt, b).
     if map_of receipt ''status'' \<noteq> Some (JStr ''ready'') then role_error ''role effect admission is unavailable''
     else case rc_admission (se_contract x) of None \<Rightarrow> role_error ''role effect admission is unavailable'' | Some v \<Rightarrow> Inr (b, v))"

definition effect_ledger :: "sealed_execution \<Rightarrow> execution_binding \<Rightarrow> verified_admission \<Rightarrow> budget_ledger result" where
  "effect_ledger x b v = make_ledger (grant_digest (va_grant v)) b (rp_budget (rc_profile (se_contract x)))"

definition reserve_role_effect :: "role_world \<Rightarrow> sealed_execution \<Rightarrow> host_inputs \<Rightarrow> provider_profile \<Rightarrow> role_effect \<Rightarrow> budget_file
     \<Rightarrow> effect_reservation result \<times> budget_file" where
  "reserve_role_effect w x h profile e f =
     (case bind_result (admitted_effect w x h profile e) (\<lambda>(b, v).
           bind_result (require_descriptors x v) (\<lambda>_.
           bind_result (effect_ledger x b v) (\<lambda>l. Inr (b, l)))) of
        Inl err \<Rightarrow> (Inl err, f)
      | Inr (b, l) \<Rightarrow> (let exposure = rp_budget (rc_profile (se_contract x)) in
          case reserve_effect l (Some exposure) f of
            (Inl err, f') \<Rightarrow> (Inl err, f')
          | (Inr _, f') \<Rightarrow> (Inr (make_reservation h l b exposure profile e), f')))"

definition recover_role_effect_reservation :: "role_world \<Rightarrow> sealed_execution \<Rightarrow> host_inputs \<Rightarrow> provider_profile \<Rightarrow> role_effect \<Rightarrow> budget_file
     \<Rightarrow> effect_reservation result" where
  "recover_role_effect_reservation w x h profile e f =
     bind_result (admitted_effect w x h profile e) (\<lambda>(b, v).
     bind_result (effect_ledger x b v) (\<lambda>l.
     let exposure = rp_budget (rc_profile (se_contract x)) in
     bind_result (require_reserved l exposure f) (\<lambda>_. Inr (make_reservation h l b exposure profile e))))"

definition reservation_require :: "role_world \<Rightarrow> effect_reservation \<Rightarrow> sealed_execution \<Rightarrow> provider_profile \<Rightarrow> role_effect \<Rightarrow> budget_file
     \<Rightarrow> (string \<times> json) list result" where
  "reservation_require w r x profile e f =
     (if profile \<noteq> er_profile r \<or> ef_identity e \<noteq> er_identity r \<or> reserved_request_digest (ef_request e) \<noteq> er_request r
         \<or> reserved_preflight_digest (ef_preflight e) \<noteq> er_preflight r
      then role_error ''trusted role effect reservation has drifted''
      else bind_result (derive_and_require w x (er_host r) profile e) (\<lambda>(receipt, b).
        if execution_digest b \<noteq> execution_digest (er_binding r) then role_error ''trusted role effect binding has drifted''
        else bind_result (require_reserved (er_ledger r) (er_exposure r) f) (\<lambda>_. Inr receipt)))"

definition require_recovery_route :: "role_world \<Rightarrow> effect_reservation \<Rightarrow> sealed_execution \<Rightarrow> budget_file \<Rightarrow> execution_binding result" where
  "require_recovery_route w r x f =
     bind_result (execution_require w x (Some (er_binding r))) (\<lambda>_.
     bind_result (require_reserved (er_ledger r) (er_exposure r) f) (\<lambda>_. Inr (er_binding r)))"

definition reject_recovery_route :: "effect_reservation \<Rightarrow> unit result" where
  "reject_recovery_route r = role_error ''role effect reservation release requires durable exclusive authorization''"

definition release_recovery_reservation :: "effect_reservation \<Rightarrow> string \<Rightarrow> budget_file \<Rightarrow> unit result \<times> budget_file" where
  "release_recovery_reservation r digest f =
     (if digest \<noteq> reservation_recovery_digest r then (role_error ''trusted recovery reservation release is unauthorized'', f)
      else release_exact_reservation (er_ledger r) (er_exposure r) True f)"

section \<open>Grant drafts\<close>

definition draft_bound :: "role_instance \<Rightarrow> role_scope \<Rightarrow> admission_expectation \<Rightarrow> int \<Rightarrow> int \<Rightarrow> string \<Rightarrow> bool" where
  "draft_bound i s x valid_from valid_until revocation \<longleftrightarrow>
     valid_from \<le> valid_until \<and> is_digest revocation \<and> (valid_from, valid_until, revocation) = (ax_valid_from x, ax_valid_until x, ax_revocation x)
     \<and> instance_receipt i = ax_instance x \<and> ri_candidate i = ax_candidate x
     \<and> (ri_repository i, ri_task i, ri_state i, ri_deployment i, ri_host i, ri_epoch i) = (ax_repository x, ax_task x, ax_state x, ax_deployment x, ax_host x, ax_epoch x)
     \<and> scope_identity s = ax_scope x \<and> rs_actions s = ax_actions x"

definition render_grant_draft :: "role_instance \<Rightarrow> role_scope \<Rightarrow> admission_expectation \<Rightarrow> string \<Rightarrow> role_budget \<Rightarrow> int \<Rightarrow> int \<Rightarrow> string
     \<Rightarrow> (string \<times> json) list result" where
  "render_grant_draft i s x why budget valid_from valid_until revocation =
     (if py_strip why = [] then role_error ''grant draft is invalid''
      else if \<not> draft_bound i s x valid_from valid_until revocation then role_error ''grant draft bindings are invalid''
      else Inr [(''schema'', JStr ''roundwright-advisory-grant-draft/v3''), (''role'', JStr (advisory_role_value (ri_role i))), (''task'', JStr (ri_task i)),
        (''instance'', JStr (ri_instance i)), (''repository'', JStr (ri_repository i)), (''state'', JStr (ri_state i)), (''deployment'', JStr (ri_deployment i)),
        (''host'', JStr (ri_host i)), (''epoch'', JInt (ri_epoch i)), (''fence'', JStr (ri_fence i)), (''candidate'', JStr (ri_candidate i)),
        (''profile'', JStr (ri_profile i)), (''guidance'', JStr (ri_guidance i)), (''requested_actions'', json_strings (sorted_values (rs_actions s))),
        (''scope'', JList (map (\<lambda>d. JObj [(''kind'', JStr (scope_kind_value (sd_kind d))), (''root'', JStr (sd_root d)), (''value'', JStr (sd_value d))]) (rs_descriptors s))),
        (''budget'', JObj [(''max_calls'', JInt (rb_calls budget)), (''max_duration_seconds'', JInt (rb_seconds budget)), (''max_tokens'', JInt (rb_tokens budget))]),
        (''validity'', JObj [(''not_before'', JInt valid_from), (''not_after'', JInt valid_until)]), (''authority'', JStr (ax_authority x)),
        (''grant'', JStr (ax_grant_reference x)), (''store'', JStr (ax_store x)), (''record'', JStr (ax_record x)), (''revocation_readback'', JStr revocation),
        (''evidence'', JStr ''independent owner/deployment record required''), (''reason'', JStr (py_strip why)),
        (''owner_action'', JStr ''Select the listed existing grant reference; do not calculate replacement identifiers.'')])"

section \<open>Launch contexts\<close>

text \<open>
  Texts of this section are their UTF-8 encodings, so \<open>encode\<close> is the identity and a strict \<open>decode\<close> is the test that
  the bytes are well formed.
\<close>

definition utf8_tail :: "nat \<Rightarrow> bool" where
  "utf8_tail b \<longleftrightarrow> 128 \<le> b \<and> b \<le> 191"

fun utf8_valid :: "nat list \<Rightarrow> bool" where
  "utf8_valid [] = True"
| "utf8_valid (a # bs) =
     (if a < 128 then utf8_valid bs
      else if 194 \<le> a \<and> a \<le> 223 then (case bs of b # r \<Rightarrow> utf8_tail b \<and> utf8_valid r | _ \<Rightarrow> False)
      else if 224 \<le> a \<and> a \<le> 239 then (case bs of b # c # r \<Rightarrow>
          utf8_tail b \<and> (a = 224 \<longrightarrow> 160 \<le> b) \<and> (a = 237 \<longrightarrow> b \<le> 159) \<and> utf8_tail c \<and> utf8_valid r | _ \<Rightarrow> False)
      else if 240 \<le> a \<and> a \<le> 244 then (case bs of b # c # d # r \<Rightarrow>
          utf8_tail b \<and> (a = 240 \<longrightarrow> 144 \<le> b) \<and> (a = 244 \<longrightarrow> b \<le> 143) \<and> utf8_tail c \<and> utf8_tail d \<and> utf8_valid r | _ \<Rightarrow> False)
      else False)"

definition decodes :: "string \<Rightarrow> bool" where
  "decodes bytes \<longleftrightarrow> utf8_valid (map of_char bytes)"

record launch_payload =
  lp_cwd :: string
  lp_binding :: execution_binding
  lp_receipt :: string
  lp_injected :: string
  lp_discovery_disabled :: bool
  lp_instructions :: string
  lp_role_bytes :: string
  lp_accepted :: string
  lp_accepted_digest :: string
  lp_cwd_identity :: string
  lp_mapping :: string

text \<open>
  A context: its address, its slots, and the address of the proxy in \<open>_authenticated_payload\<close>. The heap holds the
  module's anchor table, from the address of a context to the address and the contents of the anchored proxy.
\<close>

record launch_context =
  lc_address :: nat
  lc_slots :: launch_payload
  lc_proxy :: nat

record launch_heap =
  lh_free :: nat
  lh_anchors :: "nat \<rightharpoonup> nat \<times> launch_payload"

definition bytes_digest :: "string \<Rightarrow> string" where
  "bytes_digest bytes = ''sha256:'' @ sha256_hex bytes"

definition cwd_digest :: "string \<Rightarrow> string" where
  "cwd_digest path = digest_value (JObj [(''schema'', JStr ''roundwright-provider-sdk-cwd/v1''), (''cwd'', JStr path)])"

definition launch_payload_of :: "role_world \<Rightarrow> string \<Rightarrow> execution_binding \<Rightarrow> string \<Rightarrow> string \<Rightarrow> string \<Rightarrow> string \<Rightarrow> string \<Rightarrow> launch_payload" where
  "launch_payload_of w cwd b receipt injected instructions accepted mapping_id =
     \<lparr>lp_cwd = rw_resolve w cwd, lp_binding = b, lp_receipt = receipt, lp_injected = injected, lp_discovery_disabled = True,
      lp_instructions = instructions, lp_role_bytes = instructions, lp_accepted = accepted, lp_accepted_digest = bytes_digest accepted,
      lp_cwd_identity = cwd_digest (rw_resolve w cwd), lp_mapping = mapping_id\<rparr>"

text \<open>The constructor allocates the context and then two proxies of the payload, one for the slot and one for the anchor.\<close>

definition new_launch_context :: "role_world \<Rightarrow> string \<Rightarrow> execution_binding \<Rightarrow> string \<Rightarrow> string \<Rightarrow> string \<Rightarrow> string \<Rightarrow> string \<Rightarrow> launch_heap
     \<Rightarrow> (launch_context \<times> launch_heap) result" where
  "new_launch_context w cwd b receipt injected instructions accepted mapping_id hp =
     (if \<not> is_digest receipt \<or> \<not> is_digest injected \<or> instructions = [] \<or> \<not> is_digest mapping_id
      then role_error ''trusted provider launch context is invalid''
      else let payload = launch_payload_of w cwd b receipt injected instructions accepted mapping_id; n = lh_free hp in
        Inr (\<lparr>lc_address = n, lc_slots = payload, lc_proxy = n + 1\<rparr>,
             \<lparr>lh_free = n + 3, lh_anchors = (lh_anchors hp)(n \<mapsto> (n + 2, payload))\<rparr>))"

definition launch_instructions :: "string \<Rightarrow> string \<Rightarrow> string \<Rightarrow> string" where
  "launch_instructions receipt view accepted =
     ''Use only the explicitly injected Roundwright guidance boundary. Do not discover ambient, global, or repository instruction files. Guidance receipt: ''
     @ receipt @ ''. Role view: '' @ view @ ''.'' @ [CHR 0x0A] @ accepted"

definition launch_verify :: "role_world \<Rightarrow> launch_heap \<Rightarrow> launch_context \<Rightarrow> string \<Rightarrow> provider_profile \<Rightarrow> role_capability option \<Rightarrow> unit result" where
  "launch_verify w hp c cwd profile required =
     (case lh_anchors hp (lc_address c) of
        None \<Rightarrow> role_error ''trusted provider launch context anchor is unavailable''
      | Some (proxy, payload) \<Rightarrow>
        if \<not> decodes (lp_accepted payload) then Inl PyValueError
        else let s = lc_slots c in
          if lc_proxy c \<noteq> proxy \<or> rw_resolve w cwd \<noteq> lp_cwd s \<or> eb_profile (lp_binding s) \<noteq> profile \<or> s \<noteq> payload \<or> \<not> lp_discovery_disabled s
             \<or> lp_cwd_identity s \<noteq> cwd_digest (lp_cwd s) \<or> lp_injected s \<noteq> bytes_digest (lp_role_bytes s) \<or> lp_instructions s \<noteq> lp_role_bytes s
             \<or> lp_instructions s \<noteq> launch_instructions (lp_receipt payload) (advisory_role_value (eb_role (lp_binding payload))) (lp_accepted payload)
             \<or> lp_accepted_digest s \<noteq> bytes_digest (lp_accepted s) \<or> lp_mapping s \<noteq> mapping_identity reviewed_sdk_mapping
             \<or> (case required of None \<Rightarrow> False | Some c \<Rightarrow> c \<notin> dom (sm_codes reviewed_sdk_mapping))
          then role_error ''trusted provider launch context has drifted'' else Inr ())"

definition for_ephemeral_cwd :: "role_world \<Rightarrow> launch_context \<Rightarrow> string \<Rightarrow> launch_heap \<Rightarrow> (launch_context \<times> launch_heap) result" where
  "for_ephemeral_cwd w c cwd hp = (let s = lc_slots c in
     new_launch_context w cwd (lp_binding s) (lp_receipt s) (lp_injected s) (lp_instructions s) (lp_accepted s) (lp_mapping s) hp)"

definition trusted_provider_launch_context :: "role_world \<Rightarrow> sealed_execution \<Rightarrow> string \<Rightarrow> launch_heap \<Rightarrow> (launch_context \<times> launch_heap) result" where
  "trusted_provider_launch_context w x cwd hp =
     bind_result (require_independent_execution w x (se_binding x)) (\<lambda>_.
       let guidance = rc_guidance (se_contract x); evidence = se_evidence x; receipt = guidance_receipt guidance; accepted = tg_bytes guidance in
       if ge_receipt evidence \<noteq> receipt \<or> \<not> ge_discovery_disabled evidence then role_error ''trusted provider guidance has drifted''
       else if \<not> decodes accepted then Inl PyValueError
       else let instructions = launch_instructions receipt (guidance_view_value (ge_view evidence)) accepted in
         new_launch_context w cwd (se_binding x) receipt (bytes_digest instructions) instructions accepted
           (mapping_identity (rp_mapping (rc_profile (se_contract x)))) hp)"

end
