(* ===== verification/Role_Facts.thy ===== *)
theory Role_Facts
  imports Role_Effects
begin

text \<open>
  Facts about role capabilities: the order of the guidance chain, the identity of launch contexts, the budget
  ledger as a transition system with its invariant, what a passed check establishes, and when a reservation
  succeeds.
\<close>

section \<open>The guidance chain\<close>

lemma py_split_no_delimiter: "p \<in> set (py_split d s) \<Longrightarrow> d \<notin> set p"
proof (induction s arbitrary: p)
  case Nil
  then show ?case by simp
next
  case (Cons c cs)
  show ?case
  proof (cases "py_split d cs")
    case Nil
    then show ?thesis by simp
  next
    case (Cons q qs)
    with Cons.IH Cons.prems show ?thesis by (auto split: if_splits)
  qed
qed

lemma count_join_slash:
  "list_all (\<lambda>p. CHR ''/'' \<notin> set p) ps \<Longrightarrow> count_list (join_slash ps) CHR ''/'' = length ps - 1"
  by (induction ps rule: join_slash.induct) (auto simp: count_list_0_iff)

lemma count_agents_path:
  assumes "set d \<subseteq> set (posix_parts relative)"
  shows "count_list (agents_path d) CHR ''/'' = length d"
proof -
  have "CHR ''/'' \<notin> set p" if "p \<in> set d" for p
    using that assms by (auto simp: posix_parts_def dest: py_split_no_delimiter)
  then show ?thesis
    by (subst agents_path_def, subst count_join_slash) (auto simp: list_all_iff)
qed

lemma selected_paths:
  "map fst (selected_files w root revision relative) = filter (\<lambda>p. rw_file w root revision p \<noteq> None) (guidance_candidates relative)"
proof -
  have "map fst (List.map_filter (\<lambda>path. map_option (\<lambda>content. (path, content)) (f path)) ps) = filter (\<lambda>p. f p \<noteq> None) ps" for f :: "string \<Rightarrow> string option" and ps
    by (induction ps) (auto simp: List.map_filter_def)
  then show ?thesis by (simp add: selected_files_def)
qed

lemma sorted_below:
  assumes "sorted_wrt r xs" "sorted_wrt s xs" "a \<in> set xs" "b \<in> set xs" "a \<noteq> b"
  shows "r a b \<and> s a b \<or> r b a \<and> s b a"
proof -
  obtain i j where "i < length xs" "xs ! i = a" "j < length xs" "xs ! j = b" using assms by (auto simp: in_set_conv_nth)
  moreover have "i \<noteq> j" using calculation assms(5) by auto
  ultimately show ?thesis using assms(1,2) by (metis linorder_neqE_nat sorted_wrt_nth_less)
qed

lemma guidance_candidates_nested:
  "guidance_candidates relative = ''AGENTS.md'' # map (\<lambda>n. agents_path (take n (task_directories relative))) (rev [1..<Suc (length (task_directories relative))])"
  by (simp add: guidance_candidates_def guidance_parents_def Let_def agents_path_def comp_def)

lemma nested_selection_unsorted:
  assumes "1 \<le> n" "n < m" "m \<le> length (task_directories relative)"
    and "rw_file w root revision (agents_path (take n (task_directories relative))) \<noteq> None"
    and "rw_file w root revision (agents_path (take m (task_directories relative))) \<noteq> None"
  shows "\<not> sorted_wrt (<) (map path_key (map fst (selected_files w root revision relative)))"
proof
  define ds where "ds = task_directories relative"
  define path where "path = (\<lambda>k. agents_path (take k ds))"
  define ks where "ks = filter (\<lambda>k. rw_file w root revision (path k) \<noteq> None) (rev [1..<Suc (length ds)])"
  assume "sorted_wrt (<) (map path_key (map fst (selected_files w root revision relative)))"
  then have up: "sorted_wrt (\<lambda>a b. path_key (path a) < path_key (path b)) ks"
    unfolding selected_paths guidance_candidates_nested
    by (simp add: ds_def [symmetric] path_def [symmetric] ks_def filter_map comp_def sorted_wrt_map split: if_splits)
  have down: "sorted_wrt (\<lambda>a b. b < a) ks"
    unfolding ks_def by (rule sorted_wrt_filter) (simp add: sorted_wrt_rev del: upt_Suc)
  have mem: "n \<in> set ks" "m \<in> set ks" using assms by (auto simp: ks_def path_def ds_def simp del: upt_Suc)
  have len: "count_list (path k) CHR ''/'' = k" if "k \<le> length ds" for k
  proof -
    have "set (take k ds) \<subseteq> set (posix_parts relative)"
      unfolding ds_def task_directories_def by (meson in_set_butlastD in_set_takeD subsetI)
    then show ?thesis using that count_agents_path by (simp add: path_def)
  qed
  from sorted_below [OF up down mem] assms have "path_key (path m) < path_key (path n)" by auto
  with len assms show False by (auto simp: path_key_def ds_def less_prod_def)
qed

lemma nested_guidance_raises:
  assumes "relative_path_ok task_path" "guidance_root w g rt = Inr root"
    and "1 \<le> n" "n < m" "m \<le> length (task_directories task_path)"
    and "rw_file w root (gx_revision g) (agents_path (take n (task_directories task_path))) \<noteq> None"
    and "rw_file w root (gx_revision g) (agents_path (take m (task_directories task_path))) \<noteq> None"
  shows "resolve_authoritative_guidance w g view task_path rt = role_error ''trusted guidance selection is invalid''"
proof -
  let ?files = "selected_files w root (gx_revision g) task_path"
  have un: "\<not> sorted_wrt (<) (map path_key (map fst ?files))" using nested_selection_unsorted assms by blast
  then have "?files \<noteq> []" by auto
  with un assms show ?thesis
    by (simp add: resolve_authoritative_guidance_def relative_path_def make_guidance_def guidance_guards_def construct_def
      digest_guards_def guidance_identity_def del: map_map)
qed

section \<open>Launch contexts\<close>

lemma new_context_anchor:
  assumes "new_launch_context w cwd b receipt injected instructions accepted mapping_id hp = Inr (c, hp')"
  shows "\<exists>payload. lh_anchors hp' (lc_address c) = Some (Suc (lc_proxy c), payload) \<and> lp_accepted payload = accepted \<and> lp_accepted (lc_slots c) = accepted"
  using assms by (auto simp: new_launch_context_def launch_payload_of_def Let_def split: if_splits)

lemma new_context_drifted:
  assumes "new_launch_context w cwd b receipt injected instructions accepted mapping_id hp = Inr (c, hp')" "decodes accepted"
  shows "launch_verify v hp' c cwd' profile required = role_error ''trusted provider launch context has drifted''"
  using new_context_anchor [OF assms(1)] assms(2) by (auto simp: launch_verify_def)

lemma trusted_context_new:
  assumes "trusted_provider_launch_context w x cwd hp = Inr (c, hp')"
  shows "\<exists>receipt injected instructions accepted mapping_id.
     new_launch_context w cwd (se_binding x) receipt injected instructions accepted mapping_id hp = Inr (c, hp') \<and> decodes accepted"
  using assms by (simp add: trusted_provider_launch_context_def bind_result_Inr_iff Let_def split: if_splits) blast

lemma trusted_context_drifted:
  assumes "trusted_provider_launch_context w x cwd hp = Inr (c, hp')"
  shows "launch_verify v hp' c cwd' profile required = role_error ''trusted provider launch context has drifted''"
    and "for_ephemeral_cwd u c cwd2 hp2 = Inr (c2, hp3) \<Longrightarrow>
      launch_verify v hp3 c2 cwd' profile required = role_error ''trusted provider launch context has drifted''"
proof -
  from trusted_context_new [OF assms] obtain receipt injected instructions accepted mapping_id where
    new: "new_launch_context w cwd (se_binding x) receipt injected instructions accepted mapping_id hp = Inr (c, hp')" and ok: "decodes accepted"
    by blast
  show "launch_verify v hp' c cwd' profile required = role_error ''trusted provider launch context has drifted''"
    by (rule new_context_drifted [OF new ok])
  assume "for_ephemeral_cwd u c cwd2 hp2 = Inr (c2, hp3)"
  moreover have "lp_accepted (lc_slots c) = accepted" using new_context_anchor [OF new] by blast
  ultimately show "launch_verify v hp3 c2 cwd' profile required = role_error ''trusted provider launch context has drifted''"
    using ok by (auto simp: for_ephemeral_cwd_def Let_def intro: new_context_drifted)
qed

section \<open>The budget ledger\<close>

lemma select_store_row:
  "select_row (store_row f l u) k =
     (if k = ledger_key l then Some (case select_row f k of
          None \<Rightarrow> \<lparr>br_schema = ledger_schema, br_grant = bl_grant l, br_binding = bl_binding l, br_usage = u\<rparr> | Some r \<Rightarrow> r\<lparr>br_usage := u\<rparr>)
      else select_row f k)"
  by (auto simp: select_row_def store_row_def Let_def split: option.splits)

definition used_of :: "budget_file \<Rightarrow> string \<Rightarrow> budget_usage" where
  "used_of f k = (case select_row f k of None \<Rightarrow> no_usage | Some r \<Rightarrow> br_usage r)"

lemma consume_cases:
  obtains (refused) e where "consume l amount f = (Inl e, f)"
  | (spent) total where "consume l amount f = (Inr total, store_row f l total)" "total = usage_add (used_of f (ledger_key l)) amount"
      "within_budget total (bl_budget l)" "usage_nonneg amount" "amount \<noteq> no_usage"
      "\<And>r. select_row f (ledger_key l) = Some r \<Longrightarrow> row_sound l r"
proof (cases "consume l amount f")
  case (Pair res f')
  show ?thesis
  proof (cases res)
    case (Inl e)
    with Pair have "consume l amount f = (Inl e, f)" by (auto simp: consume_def Let_def split: if_splits option.splits)
    then show ?thesis by (rule refused)
  next
    case (Inr total)
    with Pair have "consume l amount f = (Inr total, store_row f l total) \<and> total = usage_add (used_of f (ledger_key l)) amount
      \<and> within_budget total (bl_budget l) \<and> usage_nonneg amount \<and> amount \<noteq> no_usage \<and> (\<forall>r. select_row f (ledger_key l) = Some r \<longrightarrow> row_sound l r)"
      by (auto simp: consume_def used_of_def Let_def split: if_splits option.splits)
    then show ?thesis by (intro spent) auto
  qed
qed

text \<open>The operations that write the file, and what a caller may run.\<close>

datatype ledger_op =
    Op_consume budget_ledger budget_usage
  | Op_reserve budget_ledger "role_budget option"
  | Op_release budget_ledger role_budget bool

fun run_ledger :: "ledger_op \<Rightarrow> budget_file \<Rightarrow> budget_file" where
  "run_ledger (Op_consume l amount) f = snd (consume l amount f)"
| "run_ledger (Op_reserve l exposure) f = snd (reserve_effect l exposure f)"
| "run_ledger (Op_release l exposure authorized) f = snd (release_exact_reservation l exposure authorized f)"

fun op_ledger :: "ledger_op \<Rightarrow> budget_ledger" where
  "op_ledger (Op_consume l amount) = l"
| "op_ledger (Op_reserve l exposure) = l"
| "op_ledger (Op_release l exposure authorized) = l"

fun releases :: "string \<Rightarrow> ledger_op \<Rightarrow> bool" where
  "releases k (Op_release l exposure authorized) \<longleftrightarrow> authorized \<and> ledger_key l = k"
| "releases k _ \<longleftrightarrow> False"

definition ledger_step :: "budget_file \<Rightarrow> ledger_op \<Rightarrow> budget_file \<Rightarrow> bool" where
  "ledger_step f op f' \<longleftrightarrow> budget_ok (bl_budget (op_ledger op)) \<and> f' = run_ledger op f"

definition row_ok :: "string \<Rightarrow> budget_row \<Rightarrow> bool" where
  "row_ok k r \<longleftrightarrow> k = digest_value (JObj (ledger_key_fields (br_grant r, br_binding r))) \<and> br_schema r = ledger_schema
     \<and> usage_nonneg (br_usage r) \<and> br_usage r \<noteq> no_usage \<and> within_budget (br_usage r) \<lparr>rb_calls = 3, rb_seconds = 300, rb_tokens = 8000\<rparr>"

definition budget_file_ok :: "budget_file \<Rightarrow> bool" where
  "budget_file_ok f \<longleftrightarrow> (\<forall>k r. select_row f k = Some r \<longrightarrow> row_ok k r)"

definition usage_le :: "budget_usage \<Rightarrow> budget_usage \<Rightarrow> bool" where
  "usage_le u v \<longleftrightarrow> bu_calls u \<le> bu_calls v \<and> bu_seconds u \<le> bu_seconds v \<and> bu_tokens u \<le> bu_tokens v"

lemma usage_add_le: "usage_nonneg v \<Longrightarrow> usage_le u (usage_add u v)"
  by (simp add: usage_le_def usage_add_def usage_nonneg_def)

lemma usage_add_nonneg: "usage_nonneg u \<Longrightarrow> usage_nonneg v \<Longrightarrow> usage_nonneg (usage_add u v)"
  by (simp add: usage_add_def usage_nonneg_def)

lemma usage_add_some: "usage_nonneg u \<Longrightarrow> usage_nonneg v \<Longrightarrow> v \<noteq> no_usage \<Longrightarrow> usage_add u v \<noteq> no_usage"
  by (cases u; cases v) (auto simp: usage_add_def usage_nonneg_def no_usage_def)

lemma no_usage_nonneg [simp]: "usage_nonneg no_usage"
  by (simp add: usage_nonneg_def no_usage_def)

lemma used_nonneg: "(\<And>r. select_row f k = Some r \<Longrightarrow> row_sound l r) \<Longrightarrow> usage_nonneg (used_of f k)"
  by (auto simp: used_of_def row_sound_def split: option.splits)

lemma within_caps: "within_budget u b \<Longrightarrow> budget_ok b \<Longrightarrow> within_budget u \<lparr>rb_calls = 3, rb_seconds = 300, rb_tokens = 8000\<rparr>"
  by (simp add: within_budget_def budget_ok_def)

lemma consume_file_ok:
  assumes "budget_file_ok f" "budget_ok (bl_budget l)"
  shows "budget_file_ok (snd (consume l amount f))"
proof (cases rule: consume_cases [of l amount f])
  case (refused e)
  with assms show ?thesis by simp
next
  case (spent total)
  have used: "usage_nonneg (used_of f (ledger_key l))" by (rule used_nonneg [OF spent(6)])
  have total: "usage_nonneg total" "total \<noteq> no_usage"
    unfolding spent(2) by (rule usage_add_nonneg [OF used spent(4)], rule usage_add_some [OF used spent(4,5)])
  note caps = within_caps [OF spent(3) assms(2)]
  have "row_ok (ledger_key l) (case select_row f (ledger_key l) of
      None \<Rightarrow> \<lparr>br_schema = ledger_schema, br_grant = bl_grant l, br_binding = bl_binding l, br_usage = total\<rparr> | Some r \<Rightarrow> r\<lparr>br_usage := total\<rparr>)"
    using total caps spent(6) by (cases "select_row f (ledger_key l)") (simp_all add: row_ok_def row_sound_def ledger_key_def)
  with assms(1) show ?thesis unfolding spent(1) snd_conv by (simp add: budget_file_ok_def select_store_row)
qed

lemma reserve_effect_consume:
  "(\<exists>b. reserve_effect l exposure f = consume l b f) \<or> (\<exists>e. reserve_effect l exposure f = (Inl e, f))"
  by (auto simp: reserve_effect_def Let_def)

lemma release_removes:
  "snd (release_exact_reservation l exposure authorized f) = f \<or>
   authorized \<and> (\<forall>k. select_row (snd (release_exact_reservation l exposure authorized f)) k = (if k = ledger_key l then None else select_row f k))"
  by (auto simp: release_exact_reservation_def select_row_def split: option.splits)

lemma run_ledger_ok:
  assumes "budget_file_ok f" "budget_ok (bl_budget (op_ledger op))"
  shows "budget_file_ok (run_ledger op f)"
proof (cases op)
  case (Op_consume l amount)
  with assms consume_file_ok show ?thesis by simp
next
  case (Op_reserve l exposure)
  with assms consume_file_ok reserve_effect_consume [of l exposure f] show ?thesis by (metis op_ledger.simps(2) run_ledger.simps(2) snd_conv)
next
  case (Op_release l exposure authorized)
  have "select_row (run_ledger op f) k = Some r \<Longrightarrow> select_row f k = Some r" for k r
    using release_removes [of l exposure authorized f] unfolding Op_release run_ledger.simps by (metis option.distinct(1))
  with assms show ?thesis unfolding budget_file_ok_def by blast
qed

interpretation role_budgets: invariant_system "\<lambda>f. f = None" ledger_step budget_file_ok
  by unfold_locales (simp add: budget_file_ok_def select_row_def, simp add: ledger_step_def run_ledger_ok)

text \<open>Without an authorized release of a key, what is used under it only grows.\<close>

definition keeps_usage :: "string \<Rightarrow> budget_file \<Rightarrow> budget_file \<Rightarrow> bool" where
  "keeps_usage k f f' \<longleftrightarrow> (\<forall>r. select_row f k = Some r \<longrightarrow> (\<exists>r'. select_row f' k = Some r' \<and> usage_le (br_usage r) (br_usage r')))"

lemma usage_le_refl [simp]: "usage_le u u"
  by (simp add: usage_le_def)

lemma consume_keeps: "keeps_usage k f (snd (consume l amount f))"
proof (cases rule: consume_cases [of l amount f])
  case (refused e)
  then show ?thesis by (simp add: keeps_usage_def)
next
  case (spent total)
  then show ?thesis
    by (auto simp: keeps_usage_def select_store_row used_of_def intro!: usage_add_le)
qed

lemma run_ledger_keeps:
  assumes "\<not> releases k op"
  shows "keeps_usage k f (run_ledger op f)"
proof (cases op)
  case (Op_consume l amount)
  then show ?thesis by (simp add: consume_keeps)
next
  case (Op_reserve l exposure)
  with consume_keeps reserve_effect_consume [of l exposure f] show ?thesis
    by (metis keeps_usage_def run_ledger.simps(2) snd_conv usage_le_refl)
next
  case (Op_release l exposure authorized)
  with assms release_removes [of l exposure authorized f] show ?thesis by (auto simp: keeps_usage_def)
qed

lemma keeps_usage_trans: "keeps_usage k f g \<Longrightarrow> keeps_usage k g h \<Longrightarrow> keeps_usage k f h"
  unfolding keeps_usage_def usage_le_def by (meson order_trans)

lemma history_keeps:
  assumes "role_budgets.reaches f ops f'" "list_all (\<lambda>op. \<not> releases k op) ops"
  shows "keeps_usage k f f'"
  using assms
proof (induction rule: role_budgets.reaches.induct)
  case (reaches_nil s)
  then show ?case by (simp add: keeps_usage_def)
next
  case (reaches_snoc s ops t op u)
  then show ?case using run_ledger_keeps keeps_usage_trans by (auto simp: ledger_step_def)
qed

section \<open>What a passed check establishes\<close>

lemma UNIV_capabilities: "set all_capabilities = UNIV"
  by (auto simp: all_capabilities_def intro: role_capability.exhaust)

lemma capability_value_inj: "inj capability_value"
proof (rule injI)
  fix a b assume "capability_value a = capability_value b"
  then show "a = b" by (cases a; cases b) simp_all
qed

lemma sorted_values_inj: "sorted_values A = sorted_values B \<Longrightarrow> A = B"
proof -
  have "set (sorted_values C) = capability_value ` C" for C using UNIV_capabilities by (auto simp: sorted_values_def)
  then show "sorted_values A = sorted_values B \<Longrightarrow> A = B" by (metis capability_value_inj inj_image_eq_iff)
qed

definition scope_fields :: "role_scope \<Rightarrow> (string \<times> json) list" where
  "scope_fields s = [(''schema'', JStr ''roundwright-role-capability-scope/v2''), (''actions'', json_strings (sorted_values (rs_actions s))),
     (''descriptors'', JList (map (\<lambda>d. case descriptor_key d of (a, b, c) \<Rightarrow> json_strings [a, b, c]) (rs_descriptors s)))]"

definition grant_fields :: "capability_grant \<Rightarrow> (string \<times> json) list" where
  "grant_fields g = [(''schema'', JStr ''roundwright-advisory-role-capability-grant/v2''), (''authority'', JStr (cg_authority g)),
     (''instance'', JStr (cg_instance g)), (''scope'', JStr (cg_scope g)), (''issued_at'', JInt (cg_issued_at g)), (''expires_at'', JInt (cg_expires_at g))]"

lemma canon_json_strings [simp]: "canon (json_strings xs) = json_strings xs"
  by (simp add: json_strings_def comp_def)

lemma json_strings_inj [simp]: "json_strings xs = json_strings ys \<longleftrightarrow> xs = ys"
  by (simp add: json_strings_def inj_map_eq_map inj_def)

interpretation scope_seal: sealed_record "[''schema'', ''actions'', ''descriptors'']" scope_fields rs_actions "\<lambda>_. True"
  by unfold_locales (auto simp: scope_fields_def dest: sorted_values_inj)

interpretation grant_seal: sealed_record "[''schema'', ''authority'', ''instance'', ''scope'', ''issued_at'', ''expires_at'']" grant_fields "\<lambda>g. g" "\<lambda>_. True"
  by unfold_locales (auto simp: grant_fields_def)

lemma digest_value_hex [simp]: "digest_value u = digest_value v \<longleftrightarrow> hex_digest u = hex_digest v"
  by (simp add: digest_value_def)

abbreviation scope_text :: "role_scope \<Rightarrow> string" where
  "scope_text s \<equiv> json_dumps (JObj (scope_fields s))"

abbreviation grant_text :: "capability_grant \<Rightarrow> string" where
  "grant_text g \<equiv> json_dumps (JObj (grant_fields g))"

lemma scope_identity_commits: "scope_identity s = scope_identity t \<Longrightarrow> rs_actions s = rs_actions t \<or> sha_collision (scope_text s) (scope_text t)"
  using scope_seal.digest_commits [of s t] by (simp add: scope_identity_def scope_fields_def)

lemma grant_digest_commits: "grant_digest g = grant_digest h \<Longrightarrow> g = h \<or> sha_collision (grant_text g) (grant_text h)"
  using grant_seal.digest_commits [of g h] by (simp add: grant_digest_def grant_fields_def)

lemma canon_json_opt_id [simp]: "canon (json_opt v) = json_opt v"
  by (cases v) simp_all

lemma json_opt_eq [simp]: "json_opt a = json_opt b \<longleftrightarrow> a = b"
  by (cases a; cases b) simp_all

lemma effort_value_eq [simp]: "effort_value a = effort_value b \<longleftrightarrow> a = b"
  by (cases a; cases b) simp_all

lemma advisory_role_value_eq [simp]: "advisory_role_value a = advisory_role_value b \<longleftrightarrow> a = b"
  by (cases a; cases b) simp_all

lemma profile_json_commits:
  assumes "canon (profile_json p) = canon (profile_json q)"
  shows "p = q"
proof -
  let ?f = "\<lambda>p. [(''model'', JStr (pp_model p)), (''reasoning_effort'', JStr (effort_value (pp_effort p))), (''name'', json_opt (pp_name p))]"
  have "map (canon \<circ> snd) (?f p) = map (canon \<circ> snd) (?f q)"
    by (rule canon_fields_inj) (use assms in \<open>simp_all only: profile_json_def, simp_all\<close>)
  then show ?thesis by (cases p; cases q) simp
qed

definition binding_keys :: "string list" where
  "binding_keys = [''schema'', ''repository'', ''task'', ''candidate'', ''instance'', ''host'', ''deployment'', ''epoch'', ''fence'', ''role'', ''profile'', ''execution'', ''preflight'']"

interpretation binding_seal: sealed_record binding_keys execution_fields "\<lambda>b. b" "\<lambda>_. True"
proof unfold_locales
  fix x y :: execution_binding
  show "map fst (execution_fields x) = binding_keys" by (simp add: execution_fields_def binding_keys_def)
  show "distinct binding_keys" by (simp add: binding_keys_def)
  assume "map (canon \<circ> snd) (execution_fields x) = map (canon \<circ> snd) (execution_fields y)"
  then show "x = y" by (cases x; cases y) (auto simp: execution_fields_def dest: profile_json_commits)
qed

abbreviation binding_text :: "execution_binding \<Rightarrow> string" where
  "binding_text b \<equiv> json_dumps (JObj (execution_fields b))"

lemma execution_digest_commits: "execution_digest a = execution_digest b \<Longrightarrow> a = b \<or> sha_collision (binding_text a) (binding_text b)"
  using binding_seal.digest_commits [of a b] by (simp add: execution_digest_def)

text \<open>The material of a reserved effect, under the schema of its request or of its preflight.\<close>

definition material_fields :: "string \<Rightarrow> (string \<times> json) list \<Rightarrow> (string \<times> json) list" where
  "material_fields schema material = [(''schema'', JStr schema), (''material'', JObj material)]"

abbreviation request_text :: "(string \<times> json) list \<Rightarrow> string" where
  "request_text m \<equiv> json_dumps (JObj (material_fields ''roundwright-reserved-effect-request/v1'' m))"

abbreviation preflight_text :: "(string \<times> json) list \<Rightarrow> string" where
  "preflight_text m \<equiv> json_dumps (JObj (material_fields ''roundwright-reserved-effect-preflight/v1'' m))"

interpretation request_seal: sealed_record "[''schema'', ''material'']" "material_fields ''roundwright-reserved-effect-request/v1''" "\<lambda>m. canon (JObj m)" "\<lambda>_. True"
  by unfold_locales (simp_all add: material_fields_def)

interpretation preflight_seal: sealed_record "[''schema'', ''material'']" "material_fields ''roundwright-reserved-effect-preflight/v1''" "\<lambda>m. canon (JObj m)" "\<lambda>_. True"
  by unfold_locales (simp_all add: material_fields_def)

lemma reserved_material_commits:
  "reserved_request_digest m = reserved_request_digest n \<Longrightarrow> canon (JObj m) = canon (JObj n) \<or> sha_collision (request_text m) (request_text n)"
  "reserved_preflight_digest m = reserved_preflight_digest n \<Longrightarrow> canon (JObj m) = canon (JObj n) \<or> sha_collision (preflight_text m) (preflight_text n)"
  using request_seal.digest_commits [of m n] preflight_seal.digest_commits [of m n]
  unfolding reserved_request_digest_def reserved_preflight_digest_def material_fields_def digest_value_hex by blast+

lemma resolve_runtime_Inr:
  "resolve_role_runtime w root b sha = Inr rt \<longleftrightarrow> is_sha sha \<and> sha \<noteq> cb_candidate_sha b \<and> rw_repository w root b = Some (rr_root rt) \<and> rw_common w (rr_root rt) = Some (rr_common rt)
     \<and> rw_tree w (rr_root rt) (cb_candidate_sha b) = Some (rr_tree rt) \<and> rr_binding rt = b \<and> rr_task_sha rt = sha"
  by (cases rt) (auto simp: resolve_role_runtime_def split: option.splits)

lemma fetch_record_Inr:
  "fetch_record w s = Inr (raw, v) \<longleftrightarrow> (\<exists>rt. resolve_role_runtime w (rr_root (st_runtime s)) (rr_binding (st_runtime s)) (rr_task_sha (st_runtime s)) = Inr rt
     \<and> rr_common rt = rr_common (st_runtime s) \<and> rr_tree rt = rr_tree (st_runtime s) \<and> rr_task_sha rt = rr_task_sha (st_runtime s)
     \<and> rw_file w (rr_root rt) (cb_candidate_sha (rr_binding rt)) (st_relative s) = Some raw \<and> rw_loads w raw = Some v)"
  by (cases "resolve_role_runtime w (rr_root (st_runtime s)) (rr_binding (st_runtime s)) (rr_task_sha (st_runtime s))")
    (auto simp: fetch_record_def Let_def split: option.splits)

lemma read_store_fetch: "read_store w s = Inr kvs \<longleftrightarrow> fetch_record w s = Inr (json_dumps (JObj kvs), JObj kvs)"
proof (cases "fetch_record w s")
  case (Inr p)
  obtain raw v where "p = (raw, v)" by (cases p)
  with Inr show ?thesis by (cases v) (auto simp: read_store_def)
qed (simp add: read_store_def)

lemma read_store_Inr:
  assumes "read_store w s = Inr kvs"
  shows "\<exists>root. rw_repository w (rr_root (st_runtime s)) (rr_binding (st_runtime s)) = Some root
     \<and> rw_common w root = Some (rr_common (st_runtime s))
     \<and> rw_tree w root (cb_candidate_sha (rr_binding (st_runtime s))) = Some (rr_tree (st_runtime s))
     \<and> rr_task_sha (st_runtime s) \<noteq> cb_candidate_sha (rr_binding (st_runtime s))
     \<and> rw_file w root (cb_candidate_sha (rr_binding (st_runtime s))) (st_relative s) = Some (json_dumps (JObj kvs))"
  using assms by (auto simp: read_store_fetch fetch_record_Inr resolve_runtime_Inr)

lemma read_verified_Inr:
  assumes "read_verified_admission w x s = Inr (v, i)"
  shows "\<exists>kvs r. read_store w s = Inr kvs \<and> ''sha256:'' @ sha256_hex (json_dumps (JObj kvs)) = ax_record x \<and> parse_admission kvs = Inr r
     \<and> admission_matches x (rr_task_sha (st_runtime s)) (rw_now w) r \<and> i = an_instance r \<and> va_grant v = an_grant r \<and> va_scope v = an_scope r"
  using assms by (auto simp: read_verified_admission_def bind_result_Inr_iff split: if_splits)

lemma require_verified_Inr:
  assumes "require_verified_role_admission w c seam s x = Inr receipt"
  shows "\<exists>fresh v. read_verified_admission w x s = Inr (fresh, rc_instance c) \<and> rc_admission c = Some v \<and> allowed_role seam = rp_role (rc_profile c)
     \<and> grant_digest (va_grant fresh) = grant_digest (va_grant v) \<and> public_receipt c = Inr receipt \<and> contract_current c v
     \<and> seam_capability seam \<in> rp_capabilities (rc_profile c) \<and> seam_capability seam \<in> rs_actions (va_scope v)"
  using assms
  by (auto simp: require_verified_role_admission_def bind_result_Inr_iff public_receipt_def contract_status_def scope_require_def
    split: if_splits option.splits)

lemma execution_require_Inr:
  "execution_require w x expected = Inr receipt \<longleftrightarrow> execution_aligned x
     \<and> (\<forall>b. expected = Some b \<longrightarrow> execution_digest b = execution_digest (se_binding x))
     \<and> require_verified_role_admission w (se_contract x) (se_seam x) (se_store x) (se_expectation x) = Inr receipt"
  by (auto simp: execution_require_def split: option.splits)

section \<open>Reservations\<close>

lemma derive_and_require_Inr:
  "derive_and_require w x h profile e = Inr (receipt, b) \<longleftrightarrow> eb_profile (se_binding x) = profile
     \<and> derive_for_effect h (rp_role (rc_profile (se_contract x))) profile e = Inr b \<and> execution_require w x (Some b) = Inr receipt"
  by (auto simp: derive_and_require_def bind_result_Inr_iff)

lemma admitted_effect_Inr:
  "admitted_effect w x h profile e = Inr (b, v) \<longleftrightarrow> (\<exists>receipt. derive_and_require w x h profile e = Inr (receipt, b)
     \<and> map_of receipt ''status'' = Some (JStr ''ready'') \<and> rc_admission (se_contract x) = Some v)"
  by (auto simp: admitted_effect_def bind_result_Inr_iff split: option.splits if_splits)

lemma admitted_effect_binding:
  "admitted_effect w x h profile e = Inr (b, v) \<Longrightarrow> execution_digest b = execution_digest (se_binding x) \<and> rc_admission (se_contract x) = Some v"
  by (auto simp: admitted_effect_Inr derive_and_require_Inr execution_require_Inr)

lemma effect_ledger_Inr:
  "effect_ledger x b v = Inr l \<longleftrightarrow> is_digest (grant_digest (va_grant v)) \<and>
     l = \<lparr>bl_grant = grant_digest (va_grant v), bl_binding = execution_digest b, bl_budget = rp_budget (rc_profile (se_contract x))\<rparr>"
  by (auto simp: effect_ledger_def make_ledger_def require_digest_def)

lemma reserve_Inr:
  "reserve_role_effect w x h profile e f = (Inr r, f') \<longleftrightarrow> (\<exists>b v l u. admitted_effect w x h profile e = Inr (b, v) \<and> require_descriptors x v = Inr ()
     \<and> effect_ledger x b v = Inr l \<and> reserve_effect l (Some (rp_budget (rc_profile (se_contract x)))) f = (Inr u, f')
     \<and> r = make_reservation h l b (rp_budget (rc_profile (se_contract x))) profile e)"
  by (cases "admitted_effect w x h profile e")
    (auto simp: reserve_role_effect_def bind_result_Inr_iff Let_def split: sum.splits prod.splits)

lemma reserve_effect_file: "reserve_effect l exposure f = (Inl err, f') \<Longrightarrow> f' = f"
proof -
  assume *: "reserve_effect l exposure f = (Inl err, f')"
  from reserve_effect_consume [of l exposure f] show ?thesis
  proof (elim disjE exE)
    fix b assume "reserve_effect l exposure f = consume l b f"
    with * show ?thesis by (cases rule: consume_cases [of l b f]) auto
  qed (use * in auto)
qed

lemma reserve_refused_file: "reserve_role_effect w x h profile e f = (Inl err, f') \<Longrightarrow> f' = f"
  by (auto simp: reserve_role_effect_def Let_def split: sum.splits prod.splits dest: reserve_effect_file)

lemma reserve_effect_spent:
  assumes "reserve_effect l (Some b) f = (Inr u, f')"
  shows "u = usage_add (used_of f (ledger_key l)) (budget_as_usage b)" "f' = store_row f l u" "within_budget u (bl_budget l)"
    "usage_nonneg (budget_as_usage b)" "budget_as_usage b \<noteq> no_usage" "usage_nonneg (used_of f (ledger_key l))"
    "\<And>r. select_row f (ledger_key l) = Some r \<Longrightarrow> row_sound l r"
proof -
  have *: "consume l (budget_as_usage b) f = (Inr u, f')" using assms by (simp add: reserve_effect_def split: if_splits)
  show "u = usage_add (used_of f (ledger_key l)) (budget_as_usage b)" "f' = store_row f l u" "within_budget u (bl_budget l)"
    "usage_nonneg (budget_as_usage b)" "budget_as_usage b \<noteq> no_usage" "usage_nonneg (used_of f (ledger_key l))"
    and sound: "\<And>r. select_row f (ledger_key l) = Some r \<Longrightarrow> row_sound l r"
    using * by (cases rule: consume_cases [of l "budget_as_usage b" f]; auto intro: used_nonneg)+
qed

text \<open>A full reservation fits only where nothing has been used.\<close>

lemma full_reservation_fresh:
  assumes "usage_nonneg used" "within_budget (usage_add used (budget_as_usage b)) b"
  shows "used = no_usage"
  using assms by (cases used) (auto simp: within_budget_def usage_add_def budget_as_usage_def usage_nonneg_def no_usage_def)

lemma reserved_usage:
  assumes "reserve_effect l (Some (bl_budget l)) f = (Inr u, f')"
  shows "used_of f (ledger_key l) = no_usage" "u = budget_as_usage (bl_budget l)"
    "select_row f' (ledger_key l) = Some \<lparr>br_schema = ledger_schema, br_grant = bl_grant l, br_binding = bl_binding l, br_usage = u\<rparr>"
proof -
  note spent = reserve_effect_spent [OF assms]
  show fresh: "used_of f (ledger_key l) = no_usage"
    by (rule full_reservation_fresh [OF spent(6)]) (use spent in simp)
  show "u = budget_as_usage (bl_budget l)" unfolding spent(1) fresh by (simp add: usage_add_def no_usage_def budget_as_usage_def)
  show "select_row f' (ledger_key l) = Some \<lparr>br_schema = ledger_schema, br_grant = bl_grant l, br_binding = bl_binding l, br_usage = u\<rparr>"
    using spent(7) unfolding spent(2) by (cases "select_row f (ledger_key l)") (auto simp: select_store_row row_sound_def)
qed

lemma reserved_then_refused:
  assumes "select_row f k = Some r" "usage_le (budget_as_usage b) (br_usage r)" "ledger_key l = k" "bl_budget l = b"
  shows "reserve_effect l (Some b) f \<noteq> (Inr u, f')"
proof
  assume *: "reserve_effect l (Some b) f = (Inr u, f')"
  then have "used_of f k = no_usage" "budget_as_usage b \<noteq> no_usage" "usage_nonneg (budget_as_usage b)"
    using reserved_usage [of l f u f'] reserve_effect_spent [OF *] assms by simp_all
  with assms(1,2) show False
    by (cases "budget_as_usage b") (auto simp: used_of_def usage_le_def no_usage_def usage_nonneg_def)
qed

end
