(* ===== verification/Role_Samples.thy ===== *)
theory Role_Samples
  imports Role_Facts
begin

text \<open>A concrete world with one admitted worker, on which the hypotheses of the properties of role capabilities hold.\<close>

definition sample_id :: "string \<Rightarrow> string" where
  "sample_id name = digest_value (JStr name)"

lemma sample_id_digest [simp]: "is_digest (sample_id name)"
  by (simp add: sample_id_def)

definition sample_provider :: provider_profile where
  "sample_provider = \<lparr>pp_model = ''model'', pp_effort = LOW, pp_name = None\<rparr>"

definition sample_role_profile :: capability_profile where
  "sample_role_profile = \<lparr>rp_role = Role_worker, rp_provider = sample_provider, rp_capabilities = {BOUNDED_CODING},
     rp_budget = \<lparr>rb_calls = 1, rb_seconds = 60, rb_tokens = 4000\<rparr>, rp_mapping = reviewed_sdk_mapping, rp_dedicated = True, rp_always_on = False\<rparr>"

definition sample_guidance :: trusted_guidance where
  "sample_guidance = \<lparr>tg_expectation = sample_id ''expectation'', tg_view = View_worker, tg_paths = [''AGENTS.md''], tg_digest = sample_id ''guidance'', tg_bytes = ''guide''\<rparr>"

definition sample_instance :: role_instance where
  "sample_instance = \<lparr>ri_instance = ''instance'', ri_role = Role_worker, ri_profile = profile_identity sample_role_profile, ri_guidance = guidance_receipt sample_guidance,
     ri_repository = sample_id ''repository'', ri_task = ''task'', ri_state = sample_id ''state'', ri_deployment = sample_id ''deployment'', ri_host = sample_id ''host'',
     ri_epoch = 1, ri_fence = ''fence'', ri_candidate = replicate 40 CHR ''b''\<rparr>"

definition sample_scope :: role_scope where
  "sample_scope = \<lparr>rs_actions = {BOUNDED_CODING}, rs_descriptors =
     [\<lparr>sd_kind = Scope_NETWORK, sd_root = sample_id ''repository'', sd_value = ''network-disabled''\<rparr>,
      \<lparr>sd_kind = Scope_RESOURCE, sd_root = sample_id ''repository'', sd_value = drop 7 (instance_receipt sample_instance)\<rparr>,
      \<lparr>sd_kind = Scope_TEST_INPUT_SET, sd_root = sample_id ''repository'', sd_value = drop 7 (guidance_receipt sample_guidance)\<rparr>]\<rparr>"

definition sample_authority :: authority_receipt where
  "sample_authority = \<lparr>ar_repository = sample_id ''repository'', ar_task = ''task'', ar_deployment = sample_id ''deployment'', ar_epoch = 1,
     ar_issuer = sample_id ''issuer'', ar_expires_at = 100, ar_revocation = sample_id ''revocation''\<rparr>"

definition sample_grant :: capability_grant where
  "sample_grant = \<lparr>cg_authority = authority_digest sample_authority, cg_instance = instance_receipt sample_instance, cg_scope = scope_identity sample_scope,
     cg_issued_at = 0, cg_expires_at = 100\<rparr>"

definition sample_record :: "(string \<times> json) list" where
  "sample_record =
     [(''schema'', JStr ''roundwright-independent-role-admission/v1''), (''grant_reference'', JStr ''grant''),
      (''authority'', JObj [(''repository_identity'', JStr (ar_repository sample_authority)), (''task_identity'', JStr (ar_task sample_authority)),
         (''deployment_identity'', JStr (ar_deployment sample_authority)), (''authority_epoch'', JInt (ar_epoch sample_authority)),
         (''issuer_identity'', JStr (ar_issuer sample_authority)), (''expires_at'', JInt (ar_expires_at sample_authority)),
         (''revocation_identity'', JStr (ar_revocation sample_authority))]),
      (''instance'', JObj [(''instance_identity'', JStr (ri_instance sample_instance)), (''role'', JStr ''worker''), (''profile_identity'', JStr (ri_profile sample_instance)),
         (''guidance_receipt_digest'', JStr (ri_guidance sample_instance)), (''repository_identity'', JStr (ri_repository sample_instance)),
         (''task_identity'', JStr (ri_task sample_instance)), (''state_identity'', JStr (ri_state sample_instance)),
         (''deployment_identity'', JStr (ri_deployment sample_instance)), (''host_identity'', JStr (ri_host sample_instance)),
         (''authority_epoch'', JInt (ri_epoch sample_instance)), (''replacement_fence'', JStr (ri_fence sample_instance)),
         (''candidate_sha'', JStr (ri_candidate sample_instance))]),
      (''scope'', JObj [(''actions'', JList [JStr ''bounded-coding'']),
         (''descriptors'', JList (map (\<lambda>d. JObj [(''kind'', JStr (scope_kind_value (sd_kind d))), (''root_identity'', JStr (sd_root d)), (''value'', JStr (sd_value d))])
           (rs_descriptors sample_scope)))]),
      (''grant'', JObj [(''authority_receipt_digest'', JStr (cg_authority sample_grant)), (''instance_receipt_digest'', JStr (cg_instance sample_grant)),
         (''scope_identity'', JStr (cg_scope sample_grant)), (''issued_at'', JInt (cg_issued_at sample_grant)), (''expires_at'', JInt (cg_expires_at sample_grant))]),
      (''revoked'', JBool False), (''revocation_readback_digest'', JStr (sample_id ''revocation''))]"

definition sample_candidate_binding :: candidate_binding where
  "sample_candidate_binding = \<lparr>cb_repository = ''owner/repo'', cb_task_id = ''task'', cb_candidate_sha = replicate 40 CHR ''a''\<rparr>"

definition sample_raw :: string where
  "sample_raw = json_dumps (JObj sample_record)"

text \<open>The tree holds the admission record and an \<open>AGENTS.md\<close> in the root and in two nested directories.\<close>

definition sample_role_world :: role_world where
  "sample_role_world = \<lparr>rw_repository = \<lambda>root _. Some root, rw_common = \<lambda>_. Some ''common'', rw_top = Some, rw_tree = \<lambda>_ _. Some ''tree'',
     rw_file = \<lambda>_ _ path. if path = ''admission.json'' then Some sample_raw
       else if path \<in> {''AGENTS.md'', ''a/AGENTS.md'', ''a/b/AGENTS.md''} then Some ''guide'' else None,
     rw_loads = \<lambda>raw. if raw = sample_raw then Some (JObj sample_record) else None, rw_resolve = id, rw_now = 50\<rparr>"

definition sample_role_runtime :: role_runtime where
  "sample_role_runtime = \<lparr>rr_root = ''root'', rr_common = ''common'', rr_binding = sample_candidate_binding, rr_tree = ''tree'', rr_task_sha = replicate 40 CHR ''b''\<rparr>"

definition sample_admission_store :: admission_store where
  "sample_admission_store = \<lparr>st_runtime = sample_role_runtime, st_relative = ''admission.json'', st_identity = sample_id ''store''\<rparr>"

definition sample_expectation :: admission_expectation where
  "sample_expectation = \<lparr>ax_store = sample_id ''store'', ax_record = ''sha256:'' @ sha256_hex sample_raw, ax_grant_reference = ''grant'',
     ax_authority = authority_digest sample_authority, ax_instance = instance_receipt sample_instance, ax_repository = sample_id ''repository'', ax_task = ''task'',
     ax_state = sample_id ''state'', ax_deployment = sample_id ''deployment'', ax_host = sample_id ''host'', ax_epoch = 1, ax_candidate = replicate 40 CHR ''b'',
     ax_scope = scope_identity sample_scope, ax_actions = {BOUNDED_CODING}, ax_valid_from = 0, ax_valid_until = 100, ax_revocation = sample_id ''revocation''\<rparr>"

definition sample_admission :: verified_admission where
  "sample_admission = \<lparr>va_authority = sample_authority, va_grant = sample_grant, va_scope = sample_scope, va_time = 50, va_revoked = False, va_reference = ''grant''\<rparr>"

definition sample_contract :: role_contract where
  "sample_contract = \<lparr>rc_profile = sample_role_profile, rc_guidance = sample_guidance, rc_instance = sample_instance, rc_admission = Some sample_admission\<rparr>"

definition sample_evidence :: guidance_evidence where
  "sample_evidence = \<lparr>ge_view = View_worker, ge_cwd = sample_id ''cwd'', ge_discovery_disabled = True, ge_injected = sample_id ''injected'',
     ge_receipt = guidance_receipt sample_guidance, ge_accepted_main = replicate 40 CHR ''a'', ge_task_candidate = replicate 40 CHR ''b''\<rparr>"

definition sample_host :: host_inputs where
  "sample_host = \<lparr>hi_repository = sample_id ''repository'', hi_task = ''task'', hi_candidate = replicate 40 CHR ''b'', hi_instance = instance_receipt sample_instance,
     hi_host = sample_id ''host'', hi_deployment = sample_id ''deployment'', hi_epoch = 1, hi_fence = ''fence''\<rparr>"

definition sample_effect :: role_effect where
  "sample_effect = \<lparr>ef_identity = ''request'', ef_request = [(''path'', JStr ''x'')], ef_preflight = []\<rparr>"

definition sample_binding :: execution_binding where
  "sample_binding = \<lparr>eb_repository = sample_id ''repository'', eb_task = ''task'', eb_candidate = replicate 40 CHR ''b'', eb_instance = instance_receipt sample_instance,
     eb_host = sample_id ''host'', eb_deployment = sample_id ''deployment'', eb_epoch = 1, eb_fence = ''fence'', eb_role = Role_worker, eb_profile = sample_provider,
     eb_execution = ''effect-'' @ take 32 (sha256_hex (effect_request_digest sample_effect)), eb_preflight = effect_preflight_digest sample_effect\<rparr>"

definition sample_execution :: sealed_execution where
  "sample_execution = \<lparr>se_contract = sample_contract, se_seam = Seam_worker, se_store = sample_admission_store, se_expectation = sample_expectation,
     se_evidence = sample_evidence, se_binding = sample_binding\<rparr>"

section \<open>The sample is admitted\<close>

lemma digests_of_records [simp]:
  "is_digest (profile_identity p)" "is_digest (guidance_receipt g)" "is_digest (instance_receipt i)" "is_digest (scope_identity s)" "is_digest (authority_digest a)"
  "is_digest (grant_digest gr)" "is_digest (effect_preflight_digest e)"
  by (simp_all add: profile_identity_def guidance_receipt_def instance_receipt_def scope_identity_def authority_digest_def grant_digest_def effect_preflight_digest_def)

lemma drop7_fingerprint [simp]: "is_digest s \<Longrightarrow> is_fingerprint (drop 7 s)"
  by (simp add: is_digest_def)

lemma sample_names [simp]:
  "is_token ''task''" "is_token ''instance''" "is_token ''fence''" "is_token ''grant''" "is_token ''request''"
  "is_sha (replicate 40 CHR ''b'')"
  by code_simp+

lemma parse_sample_authority: "parse_authority [(''repository_identity'', JStr (ar_repository sample_authority)), (''task_identity'', JStr (ar_task sample_authority)),
         (''deployment_identity'', JStr (ar_deployment sample_authority)), (''authority_epoch'', JInt (ar_epoch sample_authority)),
         (''issuer_identity'', JStr (ar_issuer sample_authority)), (''expires_at'', JInt (ar_expires_at sample_authority)),
         (''revocation_identity'', JStr (ar_revocation sample_authority))] = Some sample_authority"
  by (simp add: parse_authority_def has_keys_def sample_authority_def make_authority_def authority_guards_def digest_guards_def)

lemma parse_sample_instance: "parse_instance [(''instance_identity'', JStr (ri_instance sample_instance)), (''role'', JStr ''worker''), (''profile_identity'', JStr (ri_profile sample_instance)),
         (''guidance_receipt_digest'', JStr (ri_guidance sample_instance)), (''repository_identity'', JStr (ri_repository sample_instance)),
         (''task_identity'', JStr (ri_task sample_instance)), (''state_identity'', JStr (ri_state sample_instance)),
         (''deployment_identity'', JStr (ri_deployment sample_instance)), (''host_identity'', JStr (ri_host sample_instance)),
         (''authority_epoch'', JInt (ri_epoch sample_instance)), (''replacement_fence'', JStr (ri_fence sample_instance)),
         (''candidate_sha'', JStr (ri_candidate sample_instance))] = Some sample_instance"
  by (simp add: parse_instance_def has_keys_def sample_instance_def make_instance_def instance_guards_def digest_guards_def enum_of_def all_advisory_roles_def)

lemma parse_sample_grant: "parse_grant [(''authority_receipt_digest'', JStr (cg_authority sample_grant)), (''instance_receipt_digest'', JStr (cg_instance sample_grant)),
         (''scope_identity'', JStr (cg_scope sample_grant)), (''issued_at'', JInt (cg_issued_at sample_grant)), (''expires_at'', JInt (cg_expires_at sample_grant))] = Some sample_grant"
  by (simp add: parse_grant_def has_keys_def sample_grant_def make_grant_def grant_guards_def digest_guards_def)

lemma scope_kinds_ordered: "''network'' < ''resource''" "''resource'' < ''test-input-set''" "''network'' < ''test-input-set''"
  by code_simp+

lemma parse_sample_scope: "parse_scope [(''actions'', JList [JStr ''bounded-coding'']),
         (''descriptors'', JList (map (\<lambda>d. JObj [(''kind'', JStr (scope_kind_value (sd_kind d))), (''root_identity'', JStr (sd_root d)), (''value'', JStr (sd_value d))])
           (rs_descriptors sample_scope)))] = Some sample_scope"
  by (simp add: parse_scope_def sample_scope_def parse_descriptor_def parse_action_def make_descriptor_def descriptor_guards_def digest_guards_def enum_of_def
    all_scope_kinds_def all_capabilities_def make_scope_def scope_guards_def descriptor_key_def less_prod_def scope_kinds_ordered construct_def del: Cons_less_Cons)

lemma parse_sample_record:
  "parse_admission sample_record = Inr \<lparr>an_authority = sample_authority, an_instance = sample_instance, an_scope = sample_scope, an_grant = sample_grant,
     an_revoked = False, an_reference = ''grant'', an_revocation = sample_id ''revocation''\<rparr>"
  by (simp add: parse_admission_def sample_record_def has_keys_def admission_keys_def parse_values_def parse_sample_authority parse_sample_instance
    parse_sample_scope parse_sample_grant require_identity_def require_digest_def insert_commute)

lemma sample_fetch: "fetch_record sample_role_world sample_admission_store = Inr (sample_raw, JObj sample_record)"
  by (simp add: fetch_record_def resolve_role_runtime_def sample_role_world_def sample_admission_store_def sample_role_runtime_def sample_candidate_binding_def Let_def)

lemma sample_read: "read_store sample_role_world sample_admission_store = Inr sample_record"
  by (simp add: read_store_fetch sample_fetch sample_raw_def)

lemma sample_verified: "read_verified_admission sample_role_world sample_expectation sample_admission_store = Inr (sample_admission, sample_instance)"
  unfolding read_verified_admission_def sample_read bind_result.simps parse_sample_record
  by (simp add: sample_expectation_def sample_admission_store_def sample_raw_def admission_matches_def sample_role_runtime_def sample_role_world_def
    sample_instance_def sample_scope_def sample_grant_def sample_authority_def sample_admission_def)

lemma sample_current: "contract_current sample_contract sample_admission"
  by (simp add: contract_current_def sample_contract_def sample_admission_def sample_grant_def sample_authority_def sample_instance_def sample_role_profile_def sample_scope_def)

definition sample_receipt :: "(string \<times> json) list" where
  "sample_receipt = (case public_receipt sample_contract of Inr r \<Rightarrow> r | Inl _ \<Rightarrow> [])"

lemma sample_public: "public_receipt sample_contract = Inr sample_receipt" "map_of sample_receipt ''status'' = Some (JStr ''ready'')"
proof -
  have "contract_status sample_contract = Inr Advisory_READY" using sample_current by (simp add: contract_status_def sample_contract_def)
  then show "public_receipt sample_contract = Inr sample_receipt" "map_of sample_receipt ''status'' = Some (JStr ''ready'')"
    by (simp_all add: sample_receipt_def public_receipt_def)
qed

lemma sample_contract_sel [simp]:
  "rc_profile sample_contract = sample_role_profile" "rc_guidance sample_contract = sample_guidance" "rc_instance sample_contract = sample_instance"
  "rc_admission sample_contract = Some sample_admission" "rp_role sample_role_profile = Role_worker" "rp_capabilities sample_role_profile = {BOUNDED_CODING}"
  "va_scope sample_admission = sample_scope" "rs_actions sample_scope = {BOUNDED_CODING}" "va_grant sample_admission = sample_grant"
  "rp_budget sample_role_profile = \<lparr>rb_calls = 1, rb_seconds = 60, rb_tokens = 4000\<rparr>" "rp_provider sample_role_profile = sample_provider"
  by (simp_all add: sample_contract_def sample_role_profile_def sample_admission_def sample_scope_def)

lemma sample_require_verified:
  "require_verified_role_admission sample_role_world sample_contract Seam_worker sample_admission_store sample_expectation = Inr sample_receipt"
  by (simp add: require_verified_role_admission_def sample_verified sample_public scope_require_def)

lemma sample_aligned: "execution_aligned sample_execution"
  by (simp add: execution_aligned_def sample_execution_def sample_admission_store_def sample_role_runtime_def sample_binding_def sample_evidence_def sample_expectation_def
    sample_candidate_binding_def sample_instance_def)

lemma sample_execution_sel [simp]:
  "se_contract sample_execution = sample_contract" "se_seam sample_execution = Seam_worker" "se_store sample_execution = sample_admission_store"
  "se_expectation sample_execution = sample_expectation" "se_binding sample_execution = sample_binding" "se_evidence sample_execution = sample_evidence"
  "eb_profile sample_binding = sample_provider"
  by (simp_all add: sample_execution_def sample_binding_def)

lemma sample_execution_passes: "execution_require sample_role_world sample_execution (Some sample_binding) = Inr sample_receipt"
  by (simp add: execution_require_Inr sample_aligned sample_require_verified)

lemma hex_token: "is_hex c \<Longrightarrow> is_token_char c"
proof -
  have "list_all is_token_char ''0123456789abcdef''" by code_simp
  then show "is_hex c \<Longrightarrow> is_token_char c" unfolding is_hex_def list_all_iff by (rule bspec)
qed

lemma effect_identity_token: "is_token (''effect-'' @ take 32 (sha256_hex s))"
proof -
  have "list_all is_hex (sha256_hex s)" using sha256_hex_fingerprint [of s] by (simp only: is_fingerprint_def)
  then have "list_all is_token_char (take 32 (sha256_hex s))" by (auto simp: list_all_iff dest: in_set_takeD hex_token)
  moreover have "is_lower CHR ''e''" "list_all is_token_char ''ffect-''" by code_simp+
  ultimately show ?thesis by (simp add: is_token_def)
qed

lemmas effect_token = effect_identity_token [simplified]

lemma sample_effect_identity [simp]: "ef_identity sample_effect = ''request''"
  by (simp add: sample_effect_def)

lemma sample_derived: "derive_for_effect sample_host Role_worker sample_provider sample_effect = Inr sample_binding"
  by (simp add: derive_for_effect_def require_identity_def derive_binding_def make_execution_binding_def execution_guards_def digest_guards_def
    sample_host_def sample_binding_def effect_token)

lemma sample_admitted: "admitted_effect sample_role_world sample_execution sample_host sample_provider sample_effect = Inr (sample_binding, sample_admission)"
  by (auto simp: admitted_effect_Inr derive_and_require_Inr sample_derived sample_execution_passes sample_public)

lemma sample_scope_descriptors:
  "rs_descriptors sample_scope =
     [\<lparr>sd_kind = Scope_NETWORK, sd_root = sample_id ''repository'', sd_value = ''network-disabled''\<rparr>,
      \<lparr>sd_kind = Scope_RESOURCE, sd_root = sample_id ''repository'', sd_value = drop 7 (instance_receipt sample_instance)\<rparr>,
      \<lparr>sd_kind = Scope_TEST_INPUT_SET, sd_root = sample_id ''repository'', sd_value = drop 7 (guidance_receipt sample_guidance)\<rparr>]"
  "ri_repository sample_instance = sample_id ''repository''"
  by (simp_all add: sample_scope_def sample_instance_def)

lemma sample_descriptors: "require_descriptors sample_execution sample_admission = Inr ()"
  by (simp add: require_descriptors_def effect_descriptors_def Let_def make_descriptor_def descriptor_guards_def digest_guards_def construct_def scope_require_def
    sample_scope_descriptors)

definition sample_ledger :: budget_ledger where
  "sample_ledger = \<lparr>bl_grant = grant_digest sample_grant, bl_binding = execution_digest sample_binding, bl_budget = \<lparr>rb_calls = 1, rb_seconds = 60, rb_tokens = 4000\<rparr>\<rparr>"

definition sample_usage :: budget_usage where
  "sample_usage = \<lparr>bu_calls = 1, bu_seconds = 60, bu_tokens = 4000\<rparr>"

definition sample_file :: budget_file where
  "sample_file = store_row None sample_ledger sample_usage"

definition sample_reservation :: effect_reservation where
  "sample_reservation = make_reservation sample_host sample_ledger sample_binding \<lparr>rb_calls = 1, rb_seconds = 60, rb_tokens = 4000\<rparr> sample_provider sample_effect"

lemma sample_ledger_reserves: "reserve_effect sample_ledger (Some \<lparr>rb_calls = 1, rb_seconds = 60, rb_tokens = 4000\<rparr>) None = (Inr sample_usage, sample_file)"
  by (simp add: reserve_effect_def consume_def Let_def select_row_def sample_file_def usage_add_def no_usage_def budget_as_usage_def within_budget_def usage_nonneg_def
    sample_usage_def) (simp add: sample_ledger_def)

lemma sample_reserved:
  "reserve_role_effect sample_role_world sample_execution sample_host sample_provider sample_effect None = (Inr sample_reservation, sample_file)"
  unfolding reserve_Inr
  by (intro exI [of _ sample_binding] exI [of _ sample_admission] exI [of _ sample_ledger] exI [of _ sample_usage])
    (simp add: sample_admitted sample_descriptors effect_ledger_Inr sample_ledger_reserves sample_reservation_def sample_ledger_def [symmetric])

end
