(* ===== verification/Role_Safety.thy ===== *)
theory Role_Safety
  imports Role_Samples
begin

text \<open>
  Properties of role capabilities: what an effect needs, how often it can be reserved and how much it can spend,
  what a reservation is bound to, and two limits, of the launch context and of the guidance chain.
\<close>

section \<open>Admission\<close>

lemma execution_passed:
  assumes "execution_require w x expected = Inr receipt"
  obtains root kvs r v where "rw_repository w (rr_root (st_runtime (se_store x))) (rr_binding (st_runtime (se_store x))) = Some root"
    "rw_file w root (cb_candidate_sha (rr_binding (st_runtime (se_store x)))) (st_relative (se_store x)) = Some (json_dumps (JObj kvs))"
    "''sha256:'' @ sha256_hex (json_dumps (JObj kvs)) = ax_record (se_expectation x)" "parse_admission kvs = Inr r"
    "admission_matches (se_expectation x) (rr_task_sha (st_runtime (se_store x))) (rw_now w) r" "an_instance r = rc_instance (se_contract x)"
    "rc_admission (se_contract x) = Some v" "grant_digest (an_grant r) = grant_digest (va_grant v)" "contract_current (se_contract x) v"
    "seam_capability (se_seam x) \<in> rs_actions (va_scope v)" "seam_capability (se_seam x) \<in> rp_capabilities (rc_profile (se_contract x))"
proof -
  from assms obtain fresh v where read: "read_verified_admission w (se_expectation x) (se_store x) = Inr (fresh, rc_instance (se_contract x))"
    and v: "rc_admission (se_contract x) = Some v" "grant_digest (va_grant fresh) = grant_digest (va_grant v)" "contract_current (se_contract x) v"
      "seam_capability (se_seam x) \<in> rs_actions (va_scope v)" "seam_capability (se_seam x) \<in> rp_capabilities (rc_profile (se_contract x))"
    using require_verified_Inr unfolding execution_require_Inr by blast
  from read_verified_Inr [OF read] obtain kvs r where r: "read_store w (se_store x) = Inr kvs"
    "''sha256:'' @ sha256_hex (json_dumps (JObj kvs)) = ax_record (se_expectation x)" "parse_admission kvs = Inr r"
    "admission_matches (se_expectation x) (rr_task_sha (st_runtime (se_store x))) (rw_now w) r" "rc_instance (se_contract x) = an_instance r" "va_grant fresh = an_grant r"
    by blast
  from read_store_Inr [OF r(1)] obtain root where
    root: "rw_repository w (rr_root (st_runtime (se_store x))) (rr_binding (st_runtime (se_store x))) = Some root"
    "rw_file w root (cb_candidate_sha (rr_binding (st_runtime (se_store x)))) (st_relative (se_store x)) = Some (json_dumps (JObj kvs))"
    by blast
  show thesis by (rule that [OF root r(2-4)]) (use r(5,6) v in simp_all)
qed

lemma record_scope_admits:
  assumes "admission_matches x task_sha now r" "contract_current c v" "grant_digest (an_grant r) = grant_digest (va_grant v)" "a \<in> rs_actions (va_scope v)"
  shows "a \<in> rs_actions (an_scope r) \<or> sha_collision (grant_text (an_grant r)) (grant_text (va_grant v))
     \<or> sha_collision (scope_text (an_scope r)) (scope_text (va_scope v))"
proof -
  have ids: "cg_scope (an_grant r) = scope_identity (an_scope r)" "cg_scope (va_grant v) = scope_identity (va_scope v)"
    using assms(1,2) by (simp_all add: admission_matches_def contract_current_def Let_def)
  from grant_digest_commits [OF assms(3)] show ?thesis
    using scope_identity_commits [of "an_scope r" "va_scope v"] ids assms(4) by auto
qed

text \<open>
  C25 (effect_needs_pinned_admission). A sealed execution passes the check before an effect only if, at the accepted
  revision of the validated repository, the record's text has the pinned digest and parses to an admission of
  this very instance for the task's candidate that is not revoked and in time, and the capability of the seam is in
  the profile and in the scope of that record, or two canonical texts of grants or scopes collide.
\<close>
theorem effect_needs_pinned_admission:
  assumes "execution_require w x expected = Inr receipt"
  shows "\<exists>root kvs r v. rw_repository w (rr_root (st_runtime (se_store x))) (rr_binding (st_runtime (se_store x))) = Some root
     \<and> rw_file w root (cb_candidate_sha (rr_binding (st_runtime (se_store x)))) (st_relative (se_store x)) = Some (json_dumps (JObj kvs))
     \<and> ''sha256:'' @ sha256_hex (json_dumps (JObj kvs)) = ax_record (se_expectation x) \<and> parse_admission kvs = Inr r
     \<and> an_instance r = rc_instance (se_contract x) \<and> ri_candidate (an_instance r) = rr_task_sha (st_runtime (se_store x))
     \<and> \<not> an_revoked r \<and> cg_issued_at (an_grant r) \<le> rw_now w \<and> rw_now w \<le> cg_expires_at (an_grant r) \<and> rw_now w \<le> ar_expires_at (an_authority r)
     \<and> rc_admission (se_contract x) = Some v \<and> seam_capability (se_seam x) \<in> rp_capabilities (rc_profile (se_contract x))
     \<and> (seam_capability (se_seam x) \<in> rs_actions (an_scope r) \<or> sha_collision (grant_text (an_grant r)) (grant_text (va_grant v))
        \<or> sha_collision (scope_text (an_scope r)) (scope_text (va_scope v)))"
proof -
  from execution_passed [OF assms] obtain root kvs r v where
    "rw_repository w (rr_root (st_runtime (se_store x))) (rr_binding (st_runtime (se_store x))) = Some root"
    "rw_file w root (cb_candidate_sha (rr_binding (st_runtime (se_store x)))) (st_relative (se_store x)) = Some (json_dumps (JObj kvs))"
    "''sha256:'' @ sha256_hex (json_dumps (JObj kvs)) = ax_record (se_expectation x)" "parse_admission kvs = Inr r"
    and m: "admission_matches (se_expectation x) (rr_task_sha (st_runtime (se_store x))) (rw_now w) r" and "an_instance r = rc_instance (se_contract x)"
    "rc_admission (se_contract x) = Some v" and g: "grant_digest (an_grant r) = grant_digest (va_grant v)" "contract_current (se_contract x) v"
    "seam_capability (se_seam x) \<in> rs_actions (va_scope v)" and "seam_capability (se_seam x) \<in> rp_capabilities (rc_profile (se_contract x))"
    by blast
  moreover note record_scope_admits [OF m g(2,1,3)]
  moreover have "ri_candidate (an_instance r) = rr_task_sha (st_runtime (se_store x)) \<and> \<not> an_revoked r \<and> cg_issued_at (an_grant r) \<le> rw_now w
      \<and> rw_now w \<le> cg_expires_at (an_grant r) \<and> rw_now w \<le> ar_expires_at (an_authority r)"
    using m unfolding admission_matches_def Let_def by blast
  ultimately show ?thesis by blast
qed

theorem effect_needs_pinned_admission_witness:
  "execution_require sample_role_world sample_execution (Some sample_binding) = Inr sample_receipt \<and>
   (\<exists>kvs r. ''sha256:'' @ sha256_hex (json_dumps (JObj kvs)) = ax_record sample_expectation \<and> parse_admission kvs = Inr r \<and> \<not> an_revoked r)"
  using effect_needs_pinned_admission [OF sample_execution_passes] sample_execution_passes by auto

section \<open>Budgets and reservations\<close>

text \<open>
  C29 (role_budget_bounded). Over every history of ledger operations from an absent file, with any ledgers of valid
  budgets, every row is stored under the key of its own grant and binding with a usage that is not negative, not
  empty and within the caps; and a consumption that succeeds adds exactly its amount to what was used and stays
  within the budget of its ledger.
\<close>
theorem role_budget_bounded:
  assumes "role_budgets.reaches None ops f"
  shows "(\<forall>k r. select_row f k = Some r \<longrightarrow> k = digest_value (JObj (ledger_key_fields (br_grant r, br_binding r))) \<and> br_usage r \<noteq> no_usage
       \<and> 0 \<le> bu_calls (br_usage r) \<and> bu_calls (br_usage r) \<le> 3 \<and> 0 \<le> bu_seconds (br_usage r) \<and> bu_seconds (br_usage r) \<le> 300
       \<and> 0 \<le> bu_tokens (br_usage r) \<and> bu_tokens (br_usage r) \<le> 8000)
     \<and> (\<forall>l amount total f'. consume l amount f = (Inr total, f') \<longrightarrow> total = usage_add (used_of f (ledger_key l)) amount
       \<and> within_budget total (bl_budget l) \<and> used_of f' (ledger_key l) = total)"
proof (intro conjI allI impI)
  fix k r assume "select_row f k = Some r"
  with role_budgets.reachable_inv [OF assms] have "row_ok k r" by (simp add: budget_file_ok_def)
  then show "k = digest_value (JObj (ledger_key_fields (br_grant r, br_binding r)))" "br_usage r \<noteq> no_usage" "0 \<le> bu_calls (br_usage r)"
    "bu_calls (br_usage r) \<le> 3" "0 \<le> bu_seconds (br_usage r)" "bu_seconds (br_usage r) \<le> 300" "0 \<le> bu_tokens (br_usage r)" "bu_tokens (br_usage r) \<le> 8000"
    by (simp_all add: row_ok_def usage_nonneg_def within_budget_def)
next
  fix l amount total f' assume *: "consume l amount f = (Inr total, f')"
  show "total = usage_add (used_of f (ledger_key l)) amount" "within_budget total (bl_budget l)"
    using * by (cases rule: consume_cases [of l amount f]; simp)+
  have "f' = store_row f l total" using * by (cases rule: consume_cases [of l amount f]) auto
  then show "used_of f' (ledger_key l) = total" by (simp add: used_of_def select_store_row split: option.split)
qed

lemma sample_ledger_history: "role_budgets.reaches None [Op_reserve sample_ledger (Some \<lparr>rb_calls = 1, rb_seconds = 60, rb_tokens = 4000\<rparr>)] sample_file"
proof -
  have "ledger_step None (Op_reserve sample_ledger (Some \<lparr>rb_calls = 1, rb_seconds = 60, rb_tokens = 4000\<rparr>)) sample_file"
    by (simp add: ledger_step_def sample_ledger_reserves) (simp add: sample_ledger_def budget_ok_def)
  from role_budgets.reaches_snoc [OF role_budgets.reaches_nil this] show ?thesis by simp
qed

lemma sample_row: "select_row sample_file (ledger_key sample_ledger) =
    Some \<lparr>br_schema = ledger_schema, br_grant = bl_grant sample_ledger, br_binding = bl_binding sample_ledger, br_usage = sample_usage\<rparr>"
  unfolding sample_file_def select_store_row by (simp add: select_row_def)

theorem role_budget_bounded_witness:
  "\<exists>r. select_row sample_file (ledger_key sample_ledger) = Some r \<and> br_usage r \<noteq> no_usage \<and> bu_tokens (br_usage r) \<le> 8000"
  using role_budget_bounded [OF sample_ledger_history] sample_row by blast

text \<open>
  C26 (effect_reserved_once). After an effect of a sealed execution has been reserved, and as long as no authorized
  release of its key has been run, whatever else happens on the ledger every further reservation for that
  execution is refused and leaves the ledger as it is: in any world, for any effect, host input and profile.
\<close>
theorem effect_reserved_once:
  assumes "reserve_role_effect w x h profile e f = (Inr r, f1)"
    and "role_budgets.reaches f1 ops f2" and "list_all (\<lambda>op. \<not> releases (ledger_key (er_ledger r)) op) ops"
  shows "\<exists>err. reserve_role_effect w' x h' profile' e' f2 = (Inl err, f2)"
proof (cases "reserve_role_effect w' x h' profile' e' f2")
  case (Pair res f3)
  have "res \<noteq> Inr r'" for r'
  proof
    assume again: "res = Inr r'"
    define budget where "budget = rp_budget (rc_profile (se_contract x))"
    from assms(1) obtain b v l u where one: "admitted_effect w x h profile e = Inr (b, v)" "effect_ledger x b v = Inr l"
      "reserve_effect l (Some budget) f = (Inr u, f1)" "er_ledger r = l"
      by (auto simp: reserve_Inr make_reservation_def budget_def)
    from Pair again obtain b' v' l' u' where two: "admitted_effect w' x h' profile' e' = Inr (b', v')" "effect_ledger x b' v' = Inr l'"
      "reserve_effect l' (Some budget) f2 = (Inr u', f3)"
      by (auto simp: reserve_Inr budget_def)
    have l: "bl_budget l = budget" "l' = l"
      using admitted_effect_binding [OF one(1)] admitted_effect_binding [OF two(1)] one(2) two(2) by (auto simp: effect_ledger_Inr budget_def)
    have "select_row f1 (ledger_key l) = Some \<lparr>br_schema = ledger_schema, br_grant = bl_grant l, br_binding = bl_binding l, br_usage = budget_as_usage budget\<rparr>"
      using reserved_usage [of l f u f1] one(3) l(1) by simp
    with history_keeps [OF assms(2,3)] obtain r2 where "select_row f2 (ledger_key l) = Some r2" "usage_le (budget_as_usage budget) (br_usage r2)"
      unfolding keeps_usage_def one(4) by fastforce
    from reserved_then_refused [OF this _ l(1)] two(3) l(2) show False by simp
  qed
  with Pair obtain err where "res = Inl err" by (cases res) auto
  with Pair reserve_refused_file show ?thesis by blast
qed

theorem effect_reserved_once_witness:
  "reserve_role_effect sample_role_world sample_execution sample_host sample_provider sample_effect None = (Inr sample_reservation, sample_file) \<and>
   (\<exists>err. reserve_role_effect sample_role_world sample_execution sample_host sample_provider sample_effect sample_file = (Inl err, sample_file))"
  using effect_reserved_once [OF sample_reserved role_budgets.reaches_nil] sample_reserved by simp

lemma reserved_facts:
  assumes "reserve_role_effect w x h profile e f = (Inr r, f1)"
  obtains b v l u receipt where "derive_and_require w x h profile e = Inr (receipt, b)" "admitted_effect w x h profile e = Inr (b, v)" "effect_ledger x b v = Inr l"
    "reserve_effect l (Some (bl_budget l)) f = (Inr u, f1)" "bl_budget l = rp_budget (rc_profile (se_contract x))"
    "r = make_reservation h l b (bl_budget l) profile e"
  using assms by (auto simp: reserve_Inr effect_ledger_Inr admitted_effect_Inr)

lemma reserved_row_reads_back:
  assumes "reserve_effect l (Some (bl_budget l)) f = (Inr u, f1)"
  shows "require_reserved l (bl_budget l) f1 = Inr u"
proof -
  note row = reserved_usage [OF assms]
  from reserve_effect_spent(4,6) [OF assms] row have "usage_nonneg u" by simp
  with row show ?thesis by (cases f1) (simp_all add: require_reserved_def select_row_def row_sound_def)
qed

lemma reserved_row_releases:
  assumes "reserve_effect l (Some (bl_budget l)) f = (Inr u, f1)" "budget_file_ok f"
  shows "fst (release_exact_reservation l (bl_budget l) True f1) = Inr ()"
    "select_row (snd (release_exact_reservation l (bl_budget l) True f1)) k = select_row f k"
proof -
  note row = reserved_usage [OF assms(1)]
  have absent: "select_row f (ledger_key l) = None"
    using row(1) assms(2) by (auto simp: used_of_def budget_file_ok_def row_ok_def split: option.splits)
  have others: "select_row f1 k = select_row f k" if "k \<noteq> ledger_key l"
    using reserve_effect_spent(2) [OF assms(1)] that by (simp add: select_store_row)
  from row show "fst (release_exact_reservation l (bl_budget l) True f1) = Inr ()"
    by (cases f1) (simp_all add: release_exact_reservation_def select_row_def)
  from row absent others show "select_row (snd (release_exact_reservation l (bl_budget l) True f1)) k = select_row f k"
    by (cases f1) (auto simp: release_exact_reservation_def select_row_def)
qed

text \<open>
  C28 (reservation_round_trip). In the world in which an effect was reserved on a reachable ledger, the reservation can be
  recovered unchanged, passes the check before its effect and the check of a recovery route, has the digest that can be
  computed for it beforehand, and its authorized release succeeds and gives back every row as it was before.
\<close>
theorem reservation_round_trip:
  assumes "role_budgets.reaches None ops f" and "reserve_role_effect w x h profile e f = (Inr r, f1)"
  shows "recover_role_effect_reservation w x h profile e f1 = Inr r \<and> (\<exists>receipt. reservation_require w r x profile e f1 = Inr receipt)
     \<and> require_recovery_route w r x f1 = Inr (er_binding r) \<and> recovery_reservation_digest w x h profile e = Inr (reservation_recovery_digest r)
     \<and> fst (release_recovery_reservation r (reservation_recovery_digest r) f1) = Inr ()
     \<and> (\<forall>k. select_row (snd (release_recovery_reservation r (reservation_recovery_digest r) f1)) k = select_row f k)"
proof -
  from reserved_facts [OF assms(2)] obtain b v l u receipt where *: "derive_and_require w x h profile e = Inr (receipt, b)"
    "admitted_effect w x h profile e = Inr (b, v)" "effect_ledger x b v = Inr l"
    and full: "reserve_effect l (Some (bl_budget l)) f = (Inr u, f1)" and budget: "bl_budget l = rp_budget (rc_profile (se_contract x))"
    and r: "r = make_reservation h l b (bl_budget l) profile e" .
  have sel: "er_host r = h" "er_ledger r = l" "er_binding r = b" "er_exposure r = bl_budget l" "er_profile r = profile" "er_identity r = ef_identity e"
    "er_request r = reserved_request_digest (ef_request e)" "er_preflight r = reserved_preflight_digest (ef_preflight e)"
    by (simp_all add: r make_reservation_def)
  note readback = reserved_row_reads_back [OF full]
  note rel = reserved_row_releases [OF full role_budgets.reachable_inv [OF assms(1) refl]]
  have "execution_require w x (Some b) = Inr receipt" using *(1) by (simp add: derive_and_require_Inr)
  then have "require_recovery_route w r x f1 = Inr (er_binding r)" by (simp add: require_recovery_route_def sel readback)
  moreover have "recover_role_effect_reservation w x h profile e f1 = Inr r"
    by (simp add: recover_role_effect_reservation_def * Let_def budget [symmetric] readback r)
  moreover have "reservation_require w r x profile e f1 = Inr receipt" by (simp add: reservation_require_def sel * readback)
  moreover have "recovery_reservation_digest w x h profile e = Inr (reservation_recovery_digest r)"
    by (simp add: recovery_reservation_digest_def reservation_recovery_digest_def * sel budget)
  ultimately show ?thesis using rel by (simp add: release_recovery_reservation_def sel)
qed

theorem reservation_round_trip_witness:
  "reserve_role_effect sample_role_world sample_execution sample_host sample_provider sample_effect None = (Inr sample_reservation, sample_file) \<and>
   recover_role_effect_reservation sample_role_world sample_execution sample_host sample_provider sample_effect sample_file = Inr sample_reservation"
  using reservation_round_trip [OF role_budgets.reaches_nil sample_reserved] sample_reserved by blast

text \<open>
  C27 (reservation_binds_effect). A reservation opens its effect only: when the check before an effect passes, in any world, the
  profile and the request identity are those that were reserved, the request and the preflight are the same canonical
  JSON, the execution carries the reserved binding, and the full budget of the reserved execution stands in the ledger,
  unless two canonical texts collide.
\<close>
theorem reservation_binds_effect:
  assumes "reserve_role_effect w x h profile e f = (Inr r, f1)" and "reservation_require w' r x' profile' e' f2 = Inr receipt"
  shows "profile' = profile \<and> ef_identity e' = ef_identity e
     \<and> (canon (JObj (ef_request e')) = canon (JObj (ef_request e)) \<or> sha_collision (request_text (ef_request e')) (request_text (ef_request e)))
     \<and> (canon (JObj (ef_preflight e')) = canon (JObj (ef_preflight e)) \<or> sha_collision (preflight_text (ef_preflight e')) (preflight_text (ef_preflight e)))
     \<and> (se_binding x' = se_binding x \<or> sha_collision (binding_text (se_binding x')) (binding_text (se_binding x)))
     \<and> used_of f2 (ledger_key (er_ledger r)) = budget_as_usage (rp_budget (rc_profile (se_contract x)))"
proof -
  from reserved_facts [OF assms(1)] obtain b v l u rc where b: "derive_and_require w x h profile e = Inr (rc, b)"
    and l: "bl_budget l = rp_budget (rc_profile (se_contract x))" and r: "r = make_reservation h l b (bl_budget l) profile e" .
  from assms(2) obtain b' where *: "profile' = profile" "ef_identity e' = ef_identity e" "reserved_request_digest (ef_request e') = reserved_request_digest (ef_request e)"
    "reserved_preflight_digest (ef_preflight e') = reserved_preflight_digest (ef_preflight e)" "derive_and_require w' x' h profile' e' = Inr (receipt, b')"
    "execution_digest b' = execution_digest b" and row: "\<exists>u. require_reserved l (bl_budget l) f2 = Inr u"
    by (auto simp: reservation_require_def r make_reservation_def bind_result_Inr_iff split: if_splits)
  have "execution_digest (se_binding x') = execution_digest (se_binding x)"
    using b *(5,6) by (simp add: derive_and_require_Inr execution_require_Inr)
  note execution_digest_commits [OF this] reserved_material_commits(1) [OF *(3)] reserved_material_commits(2) [OF *(4)]
  moreover have "used_of f2 (ledger_key l) = budget_as_usage (bl_budget l)"
    using row by (auto simp: require_reserved_def used_of_def select_row_def split: option.splits if_splits)
  ultimately show ?thesis using *(1,2) l by (simp add: r make_reservation_def)
qed

lemma sample_reservation_passes:
  "reservation_require sample_role_world sample_reservation sample_execution sample_provider sample_effect sample_file = Inr sample_receipt"
proof -
  have "derive_and_require sample_role_world sample_execution sample_host sample_provider sample_effect = Inr (sample_receipt, sample_binding)"
    by (simp add: derive_and_require_Inr sample_derived sample_execution_passes)
  moreover have "require_reserved sample_ledger \<lparr>rb_calls = 1, rb_seconds = 60, rb_tokens = 4000\<rparr> sample_file = Inr sample_usage"
    using reserved_row_reads_back [of sample_ledger None sample_usage sample_file] sample_ledger_reserves by (simp add: sample_ledger_def)
  ultimately show ?thesis by (simp add: reservation_require_def sample_reservation_def make_reservation_def)
qed

theorem reservation_binds_effect_witness:
  "reservation_require sample_role_world sample_reservation sample_execution sample_provider sample_effect sample_file = Inr sample_receipt \<and>
   used_of sample_file (ledger_key (er_ledger sample_reservation)) = budget_as_usage \<lparr>rb_calls = 1, rb_seconds = 60, rb_tokens = 4000\<rparr>"
  using reservation_binds_effect [OF sample_reserved sample_reservation_passes] sample_reservation_passes by simp

section \<open>Limits\<close>

text \<open>
  C30 (launch_context_never_verifies). The slot \<open>_authenticated_payload\<close> and the module's anchor hold two proxies of the
  payload, and verification compares them by identity: no launch context that the factory returns, and no ephemeral copy of
  it, is ever verified, untouched as it is, for any directory, profile and capability.
\<close>
theorem launch_context_never_verifies:
  assumes "trusted_provider_launch_context w x cwd hp = Inr (c, hp')"
  shows "launch_verify v hp' c cwd' profile required = role_error ''trusted provider launch context has drifted''
     \<and> (for_ephemeral_cwd u c cwd2 hp2 = Inr (c2, hp3) \<longrightarrow>
        launch_verify v hp3 c2 cwd' profile required = role_error ''trusted provider launch context has drifted'')"
  using trusted_context_drifted [OF assms] by blast

definition empty_heap :: launch_heap where
  "empty_heap = \<lparr>lh_free = 0, lh_anchors = Map.empty\<rparr>"

lemma sample_decodes: "decodes ''guide''"
  by code_simp

lemma sample_launch: "\<exists>c hp. trusted_provider_launch_context sample_role_world sample_execution ''cwd'' empty_heap = Inr (c, hp)"
  by (simp add: trusted_provider_launch_context_def require_independent_execution_def sample_execution_passes Let_def new_launch_context_def bytes_digest_def
    launch_instructions_def mapping_identity_def sample_evidence_def sample_decodes) (simp add: sample_guidance_def sample_decodes)

theorem launch_context_never_verifies_witness:
  "\<exists>c hp. trusted_provider_launch_context sample_role_world sample_execution ''cwd'' empty_heap = Inr (c, hp)
     \<and> launch_verify sample_role_world hp c ''cwd'' sample_provider (Some BOUNDED_CODING) = role_error ''trusted provider launch context has drifted''"
  using sample_launch launch_context_never_verifies by blast

text \<open>
  C31 (nested_guidance_refused). The chain is collected from the root and then from the innermost directory outwards, while a
  selection must be ordered by depth: when two directories above a task, both below the root, hold an \<open>AGENTS.md\<close>, its
  guidance is refused.
\<close>
theorem nested_guidance_refused:
  assumes "relative_path_ok task_path" "guidance_root w g rt = Inr root" "1 \<le> n" "n < m" "m \<le> length (task_directories task_path)"
    and "rw_file w root (gx_revision g) (agents_path (take n (task_directories task_path))) \<noteq> None"
    and "rw_file w root (gx_revision g) (agents_path (take m (task_directories task_path))) \<noteq> None"
  shows "resolve_authoritative_guidance w g view task_path rt = role_error ''trusted guidance selection is invalid''"
  using nested_guidance_raises assms by blast

definition sample_guidance_expectation :: guidance_expectation where
  "sample_guidance_expectation = \<lparr>gx_repository = sample_id ''repository'', gx_root = ''root'', gx_revision = replicate 40 CHR ''a'',
     gx_tree = digest_value (JObj [(''tree'', JStr ''tree''), (''repository'', JStr (sample_id ''repository''))])\<rparr>"

lemma sample_guidance_root: "guidance_root sample_role_world sample_guidance_expectation sample_role_runtime = Inr ''root''"
  by (simp add: guidance_root_def sample_role_world_def sample_guidance_expectation_def sample_role_runtime_def sample_candidate_binding_def)

lemma sample_task: "relative_path_ok ''a/b/task.py''" "task_directories ''a/b/task.py'' = [''a'', ''b'']"
  "agents_path [''a''] = ''a/AGENTS.md''" "agents_path [''a'', ''b''] = ''a/b/AGENTS.md''"
  by code_simp+

theorem nested_guidance_refused_witness:
  "rw_file sample_role_world ''root'' (replicate 40 CHR ''a'') ''a/AGENTS.md'' = Some ''guide'' \<and>
   resolve_authoritative_guidance sample_role_world sample_guidance_expectation View_worker ''a/b/task.py'' sample_role_runtime
     = role_error ''trusted guidance selection is invalid''"
  using nested_guidance_refused [OF sample_task(1) sample_guidance_root, of 1 2 View_worker]
  by (simp add: sample_task) (simp add: sample_role_world_def)

text \<open>The dot names no component, and the path it denotes has none to be refused.\<close>

lemma dot_path_accepted: "relative_path ''.'' = Inr ''.''"
  by code_simp

end
