(* ===== verification/Spec2Isabelle.thy ===== *)
theory Spec2Isabelle
  imports Sha256_Vector Deployment Handoff_Safety Policy Repository_Policy Canary_Policy Canary_Safety
    Canary_Restart Graph_Safety Gates_Ready Recovery_Safety Review_Safety Dependency_Gate
    Provider_Qualification Attempt_Scopes Attempt_Restart Role_Safety
begin

text \<open>
  Roundwright is an orchestrator that lets language-model workers change a repository only under
  explicit, receipt-bound authority. This development models the part of \<open>src/src/roundwright\<close>
  that decides: who holds authority, which policy is active, which mutation is permitted, how a
  permitted Canary mutation is executed at most a bounded number of times, which dependency
  graph is current, which helper may be executed, what a failure stops and who may reopen it, which
  provider turn may be dispatched and what may follow it after a restart, which review items are
  pending, and when a task may be handed to its owner. Every decision is fail-closed,
  and most evidence is content-addressed.

  \<^bold>\<open>Conventions.\<close> Frozen data classes are records, enumerations are datatypes, exceptions are
  values of \<open>py_error\<close> in the sum type \<open>'a result\<close>, and a \<open>__post_init__\<close> is an ordered list of
  guards. Stateful objects are records that every operation returns updated, together with its
  result, so that the state left behind by an exception is visible. Time is an argument; UUIDs
  are 128-bit words; SHA-256 and canonical JSON are defined in full, not assumed, and digests are
  compared as texts. Where security rests on a digest, the theorems name the collision that
  would be needed. Services outside the process (lease, broker, semantic read-back) are functions
  the operations take, free to answer anything, to raise, or to return a value of the wrong type.

  \<^bold>\<open>Theories.\<close>
  \<^item> \<open>Prelude\<close>: errors, ordered checks, lexical classes, dictionaries, time stamps; the interfaces
    \<open>fail_closed_gate\<close> (an ordered check list decides) and \<open>invariant_system\<close> (a transition system
    with an inductive invariant).
  \<^item> \<open>Sha256\<close>, \<open>Sha256_Vector\<close>, \<open>Json\<close>: the digest function, a published test vector, canonical JSON
    with its injectivity, and the interface \<open>sealed_record\<close> (a digest commits to the fields).
  \<^item> \<open>Runtime_Binding\<close> (\<open>runtime_binding.py\<close>): the runtime identity, its two comparisons.
  \<^item> \<open>Deployment\<close> (\<open>deployment.py\<close>): the deployment preflight; it authorizes exactly on complete and
    agreeing evidence, and a refusal names the first failed check.
  \<^item> \<open>Deployment_Handoff\<close>, \<open>Handoff_Safety\<close> (\<open>deployment_handoff.py\<close>): the authority store with claim,
    handoff, reconciliation, revocation, re-issue, recovery and teardown. Shown: exclusive authority
    over whole runs, refinement of an abstract authority life cycle, the store invariant, finality
    of revocation, single use of recovery evidence, absence of exceptions, and completion.
  \<^item> \<open>Policy\<close> (\<open>policy.py\<close>): trusted policy documents, activation receipts and their evaluation.
  \<^item> \<open>Repository_Policy\<close> (\<open>repository_policy.py\<close>): operation vocabulary, policy documents, authority
    blocks in text, receipts, bindings and the mutation evaluator.
  \<^item> \<open>Canary_Policy\<close> (\<open>canary_policy.py\<close>): the bounded Canary policy, its receipt chain and request
    authorization; an accepted chain stays in budget and its head pins its history.
  \<^item> \<open>Canary_Execution\<close>, \<open>Canary_Safety\<close> (\<open>canary_execution.py\<close>): the transition ledger and the
    orchestrator. Shown for every answer of the services: the ledger invariant, refinement of a claim
    life cycle, a bound on dispatches per claim and per policy, verification only after an applied
    read-back, idempotent delivery, absence of exceptions, completion; and one interleaving of two
    threads in which the ledger corrupts its chain.
  \<^item> \<open>Canary_Hydration\<close>, \<open>Canary_Restart\<close> (\<open>canary_execution.py\<close>, persistence): the sealed state of the
    ledger and its hydration. Shown: whatever the material, a ledger that hydration accepts has the
    shape of one built by operations, with one verified record per receipt of the chain; sealing and
    hydrating it again gives it back; and a limit, a ledger that keeps an unverified record of an
    earlier head is refused after a restart.
  \<^item> \<open>Dependency_Review\<close> (\<open>dependency_review.py\<close>, data model): affected subsets, relations, proposals and
    the strict parser of a provider's response.
  \<^item> \<open>Dependency_Graph\<close>, \<open>Graph_Safety\<close> (\<open>dependency_graph.py\<close>): provenance, snapshots, the validator,
    the cycle search, the successor snapshot and the tables of graph versions. Shown: the search is
    total and decides acyclicity for every iteration order, acceptance is exactly the declarative
    specification, accepted edges carry trusted provenance, the current graph stays sound over any
    sequence of activations, and a written version reads back.
  \<^item> \<open>Candidate_Seal\<close> (\<open>git_identity.py\<close>, \<open>seal_candidate\<close> and what follows it), \<open>Gates\<close> (\<open>gates.py\<close>),
    \<open>Gates_Safety\<close>, \<open>Gates_Ready\<close>: the candidate seal, the evidence tables, the thirteen final gates and
    the checks before a task becomes ready for its owner. Shown: the exact condition for an aggregate
    \<open>PASS\<close> and its independence of order and repetition; over all sequences of operations, evidence
    belongs to the sealed candidate and to the committed context; and the final transition rests only
    on such evidence, recorded earlier in the same history.
  \<^item> \<open>Failure_Recovery\<close>, \<open>Recovery_Ledger\<close>, \<open>Recovery_Routes\<close>, \<open>Recovery_Safety\<close>
    (\<open>failure_recovery.py\<close>): the closed matrix of failures and actions, durable failure records, the
    decisions that clear or revoke a denial, the admission of effects in a scope, and the durable routes
    through which one successor attempt is admitted. Shown: classification is total and closed, records
    round trip; over all histories a stopped scope reopens only on a clearance whose owner command is in
    force, decisions form an append-only chain, routes refine a life cycle and serve one successor; and
    exactly which clearances are recorded and reopen their scope.
  \<^item> \<open>Review_Lifecycle\<close>, \<open>Review_Safety\<close> (\<open>review_lifecycle.py\<close>): review items with their provenance,
    worker objectives, owner commands and the blocker receipt. Shown over all histories: items are
    released only by authorized owner commands, objectives end at most once, the receipt is always
    issued and exact, its identity pins what was pending; and, composed with the final gates, a task that
    becomes ready has no unreleased blocking follow-up. One limit: a cancelled objective can be read
    from another task.
  \<^item> \<open>Dependency_Policy\<close>, \<open>Dependency_Gate\<close> (\<open>dependency_policy.py\<close>): versions, policies with reviewed
    transitions, trusted admissions and the preflight in front of every helper. Shown: the exact
    condition for a pass, one admission stands for one set of executables, reviewed rollbacks come to an
    end, and the only input on which the preflight raises.
  \<^item> \<open>Provider_Health\<close>, \<open>Provider_Qualification\<close> (\<open>provider_health.py\<close>): audits, contracts, health
    observations, receipts and reports; the native credential registry; and the qualification of a profile
    or a configuration over services that may answer anything. Shown: no call is made unless the
    dependency preflight passes, the exact condition for a ready verdict, a bound on the probes, that a
    configuration always gets a complete report, that roles never share a channel, and that a receipt's
    digest fixes what it authorizes.
  \<^item> \<open>Provider_Attempts\<close>, \<open>Provider_Recovery\<close> (\<open>provider_recovery.py\<close>), \<open>Attempt_Effects\<close>,
    \<open>Attempt_Lifecycle\<close>, \<open>Attempt_Histories\<close>, \<open>Attempt_Samples\<close>, \<open>Attempt_Safety\<close>, \<open>Attempt_Scopes\<close>,
    \<open>Attempt_Restart\<close>: the durable record of provider turns and its recovery. Shown over all histories: every operation refines
    the life cycle of one turn, identities are written once, a Supervisor session serves one attempt, a
    dispatch is claimed once, the attempts of a coordinate are bounded; a scope denial stops every later
    dispatch until its clearance; a recovery decision is repeated unchanged; and one limit, an accepted
    review in a drifted context makes recovery raise a database error.
  \<^item> \<open>Role_Capability\<close>, \<open>Role_Admission\<close>, \<open>Role_Effects\<close> (\<open>role_capability_policy.py\<close>), \<open>Role_Facts\<close>,
    \<open>Role_Samples\<close>, \<open>Role_Safety\<close>: the roles and their scopes, receipts and bindings; the independent
    admission record and the checks before an effect; the guidance of a task, the budget ledger with its
    reservations, grant drafts and the launch context of a provider. Shown: an effect needs a pinned, unrevoked
    admission in time that covers the capability of its seam; one sealed execution is reserved once until an
    authorized release, within its budget; a reservation opens its own effect only, and can be recovered and
    undone; and two limits, a launch context is never verified and nested guidance is refused.

  \<^bold>\<open>How the parts interact.\<close> Handoff receipts reuse the identities of the runtime binding and of the
  deployment preflight; the Canary policy evaluates against the repository policy's standing
  authority and operation vocabulary; Canary execution calls the Canary policy for every decision
  and extends its receipt chain; the dependency graph consumes proposals and subsets of the
  dependency review; the final gates call the policy evaluation, compare runtime bindings and ask the review life cycle
  for blockers (\<open>ready_needs_released_follow_ups\<close> composes the two); the review life cycle checks the
  leases and seals of \<open>Candidate_Seal\<close>; qualification calls the dependency gate before every service
  (\<open>services_called_only_past_gate\<close> composes the two) and its receipts carry the runtime binding; a provider
  turn is prepared under such a receipt, asks the failure ledger whether its scope is open, records its
  failures there (\<open>scope_denial_stops_dispatch\<close> composes the two over shared histories) and cancels worker objectives of the
  review life cycle when a worker is abandoned; role capabilities bind an effect to the candidate binding of
  the dependency policy and to a provider profile. Each interface is a locale that the model's own definitions
  interpret: \<open>invariant_system\<close> for every stateful store, \<open>sealed_record\<close> for every digest that is relied
  on, \<open>fail_closed_gate\<close> for the evaluators.

  \<^bold>\<open>Recursion.\<close> No definition uses fuel. The only non-structural recursion is the cycle search,
  whose termination is proved from the number of unvisited nodes.

  \<^bold>\<open>Bounds of the model.\<close> Operations that hold a lock are atomic steps; the one place where the code
  reads and writes under separate locks is modelled at that granularity. Python values of the wrong
  type are represented only where the code tests for them. Strings are characters below 256.
  Python's recursion limit and memory are not modelled.

  \<^bold>\<open>Not modelled.\<close> The SQLite store of dependency-review attempts and the authentication and replay of
  stored evidence inside graph activation; for the final gates, the comparison with the graph store,
  the terminal dependency binding, the Git checks of a worktree and the final state transition, which
  are observations of the model; for failure recovery, whether an attempt is admitted in the provider
  tables (an observation of that ledger) and the in-process route objects, whose identity rests on weak references; the
  provider, plan and candidate review tables, of which the review life cycle reads single rows
  (observations); for provider turns, the accounting snapshot, which only reads, and the acceptance and
  withdrawal of rows by plan and candidate review; and the parts
  that are input and output: the GitHub runtime, external validation, shadow replay, worker and
  supervisor adapters, native host, Docker and command-line front ends, and the schema migrations of
  the state file.
\<close>

end
